(* ===== verification/Prelude.thy ===== *)
theory Prelude
  imports Main "HOL-Library.AList" "HOL-Library.List_Lexorder" "HOL-Library.Char_ord"
    "HOL-Library.Multiset"
begin

text \<open>
  Shared vocabulary of the development: Go maps as association lists, JSON columns,
  error results, the loop with an early error return, stable sorting with a Go
  \<open>less\<close> function, and the list/option lemmas every component uses.

  A Go map is an association list with distinct keys (\<open>wf_map\<close>); reading is \<open>map_of\<close>,
  writing is \<open>AList.update\<close>. Go leaves the order of \<open>range\<close> over a map
  unspecified: the model takes the order of the list, and the characterisations proved of
  each operation mention lookups only, so they do not depend on that order.
\<close>

section \<open>Collections of facts\<close>

named_theorems resource_simps \<open>lookups in the results of resource-list operations\<close>
named_theorems frame_simps \<open>what an operation leaves unchanged\<close>

section \<open>Go maps\<close>

type_synonym ('k, 'v) gomap = "('k \<times> 'v) list"

definition wf_map :: "('k, 'v) gomap \<Rightarrow> bool" where
  "wf_map m \<longleftrightarrow> distinct (map fst m)"

text \<open>\<open>m[k]\<close> on a \<open>map[string]string\<close>: the empty string when the key is absent.\<close>

definition sget :: "(string, string) gomap \<Rightarrow> string \<Rightarrow> string" where
  "sget m k = (case map_of m k of None \<Rightarrow> [] | Some v \<Rightarrow> v)"

lemma wf_map_Nil [simp]: "wf_map []"
  by (simp add: wf_map_def)

lemma wf_map_Cons [simp]: "wf_map ((k, v) # m) \<longleftrightarrow> map_of m k = None \<and> wf_map m"
  by (auto simp: wf_map_def map_of_eq_None_iff)

lemma wf_map_update [simp]: "wf_map m \<Longrightarrow> wf_map (AList.update k v m)"
  by (simp add: wf_map_def distinct_update)

lemma map_of_update [simp]: "map_of (AList.update k v m) = (map_of m)(k \<mapsto> v)"
  by (rule update_conv')

lemma wf_map_in_set: "wf_map m \<Longrightarrow> (k, v) \<in> set m \<longleftrightarrow> map_of m k = Some v"
  by (simp add: wf_map_def)

text \<open>\<open>equality.Semantic.DeepEqual\<close> on maps.\<close>

definition map_eq :: "('k, 'v) gomap \<Rightarrow> ('k, 'v) gomap \<Rightarrow> bool" where
  "map_eq a b \<longleftrightarrow> list_all (\<lambda>(k, _). map_of a k = map_of b k) (a @ b)"

lemma map_eq_iff: "map_eq a b \<longleftrightarrow> map_of a = map_of b"
proof
  assume eq: "map_eq a b"
  show "map_of a = map_of b"
  proof
    fix k
    show "map_of a k = map_of b k"
    proof (cases "map_of a k = None \<and> map_of b k = None")
      case False
      then have "\<exists>v. (k, v) \<in> set (a @ b)" by (auto dest: map_of_SomeD)
      with eq show ?thesis by (auto simp: map_eq_def list_all_iff)
    qed simp
  qed
qed (auto simp: map_eq_def list_all_iff)

section \<open>JSON columns\<close>

text \<open>
  A \<open>datatypes.JSON\<close> column or a \<open>[]byte\<close> of JSON: no bytes, bytes that
  \<open>json.Unmarshal\<close> rejects after it has filled the target up to a value, or bytes
  that decode to a value. Nil and empty maps and slices are one value, as they are for every
  reader in the program.
\<close>

datatype 'a json = JEmpty | JBad 'a | JOk 'a

definition json_marshal :: "'a \<Rightarrow> 'a json" where
  "json_marshal v = JOk v"

text \<open>\<open>if err := json.Unmarshal(raw, &v); err != nil\<close>: no bytes are an error.\<close>

fun json_decode :: "'a json \<Rightarrow> 'a option" where
  "json_decode (JOk v) = Some v"
| "json_decode (JBad v) = None"
| "json_decode JEmpty = None"

text \<open>\<open>if len(raw) > 0 { _ = json.Unmarshal(raw, &v) }\<close>: the error is dropped.\<close>

fun json_lenient :: "'a \<Rightarrow> 'a json \<Rightarrow> 'a" where
  "json_lenient zero JEmpty = zero"
| "json_lenient zero (JBad v) = v"
| "json_lenient zero (JOk v) = v"

lemma json_roundtrip [simp]:
  "json_decode (json_marshal v) = Some v" "json_lenient zero (json_marshal v) = v"
  by (simp_all add: json_marshal_def)

lemma json_decode_Some [simp]: "json_decode j = Some v \<longleftrightarrow> j = JOk v"
  by (cases j) auto

section \<open>Text\<close>

text \<open>\<open>strings.Join\<close>.\<close>

fun join :: "string \<Rightarrow> string list \<Rightarrow> string" where
  "join sep [] = []"
| "join sep [x] = x"
| "join sep (x # y # xs) = x @ sep @ join sep (y # xs)"

section \<open>Errors\<close>

text \<open>
  Error classes of \<open>pkg/errors\<close> and the other errors the modelled code
  returns: a failed database statement, JSON that does not decode, \<open>fmt.Errorf\<close>, and
  \<open>gorm.ErrRecordNotFound\<close>.
\<close>

datatype code =
    CodeValidation | CodeNotFound | CodeConflict | CodeImmutableField | CodePrecondition
  | CodeUnauthorized | CodeForbidden | CodeUnavailable | CodeInternal | CodeQuotaExceeded

datatype err = EApp code string | EDB string | EDecode string | EPlain string | ENotFound

text \<open>\<open>err.Error()\<close>: the text of an error, as it is put into a status message.\<close>

fun code_string :: "code \<Rightarrow> string" where
  "code_string CodeValidation = ''validation_failed''"
| "code_string CodeNotFound = ''not_found''"
| "code_string CodeConflict = ''conflict''"
| "code_string CodeImmutableField = ''immutable-field''"
| "code_string CodePrecondition = ''precondition_failed''"
| "code_string CodeUnauthorized = ''unauthorized''"
| "code_string CodeForbidden = ''forbidden''"
| "code_string CodeUnavailable = ''service_unavailable''"
| "code_string CodeInternal = ''internal_error''"
| "code_string CodeQuotaExceeded = ''quota_exceeded''"

fun err_string :: "err \<Rightarrow> string" where
  "err_string (EApp c m) = code_string c @ '': '' @ m"
| "err_string (EDB m) = m"
| "err_string (EDecode m) = m"
| "err_string (EPlain m) = m"
| "err_string ENotFound = ''record not found''"

text \<open>\<open>%q\<close> on a text of printable characters without quotes and backslashes, as names are.\<close>

definition go_quote :: "string \<Rightarrow> string" where
  "go_quote s = [CHR 0x22] @ s @ [CHR 0x22]"

text \<open>\<open>%d\<close>\<close>

fun show_nat :: "nat \<Rightarrow> string" where
  "show_nat n = (if n < 10 then [char_of (n + 48)] else show_nat (n div 10) @ [char_of (n mod 10 + 48)])"

declare show_nat.simps [simp del]

definition show_int :: "int \<Rightarrow> string" where
  "show_int n = (if n < 0 then ''-'' @ show_nat (nat (- n)) else show_nat (nat n))"

section \<open>A loop with an early error return\<close>

fun rfold :: "('s \<Rightarrow> 'x \<Rightarrow> 'e + 's) \<Rightarrow> 's \<Rightarrow> 'x list \<Rightarrow> 'e + 's" where
  "rfold f s [] = Inr s"
| "rfold f s (x # xs) = (case f s x of Inl e \<Rightarrow> Inl e | Inr s' \<Rightarrow> rfold f s' xs)"

text \<open>The invariant rule of the loop.\<close>

lemma rfold_invariant:
  assumes "rfold f s xs = Inr s'" and "P s"
    and "\<And>t x t'. P t \<Longrightarrow> x \<in> set xs \<Longrightarrow> f t x = Inr t' \<Longrightarrow> P t'"
  shows "P s'"
  using assms
proof (induction xs arbitrary: s)
  case Nil
  then show ?case by simp
next
  case (Cons x xs)
  from Cons.prems(1) obtain t where t: "f s x = Inr t" and rest: "rfold f t xs = Inr s'"
    by (auto split: sum.splits)
  have "P t" by (rule Cons.prems(3) [OF Cons.prems(2) _ t]) simp
  then show ?case
    by (rule Cons.IH [OF rest]) (rule Cons.prems(3), simp_all)
qed

text \<open>The same with an invariant that also mentions the elements still to come.\<close>

lemma rfold_invariant_rest:
  assumes "rfold f s xs = Inr s'" and "I s xs"
    and "\<And>t x rest t'. I t (x # rest) \<Longrightarrow> f t x = Inr t' \<Longrightarrow> I t' rest"
  shows "I s' []"
  using assms(1,2)
proof (induction xs arbitrary: s)
  case (Cons x xs)
  from Cons.prems(1) obtain t where t: "f s x = Inr t" and rest: "rfold f t xs = Inr s'"
    by (auto split: sum.splits)
  show ?case by (rule Cons.IH [OF rest assms(3) [OF Cons.prems(2) t]])
qed simp

lemma rfold_append:
  "rfold f s (xs @ ys) = (case rfold f s xs of Inl e \<Rightarrow> Inl e | Inr t \<Rightarrow> rfold f t ys)"
  by (induction xs arbitrary: s) (auto split: sum.splits)

section \<open>\<open>sort.SliceStable\<close>\<close>

fun insert_by :: "('a \<Rightarrow> 'a \<Rightarrow> bool) \<Rightarrow> 'a \<Rightarrow> 'a list \<Rightarrow> 'a list" where
  "insert_by lt x [] = [x]"
| "insert_by lt x (y # ys) = (if lt y x then y # insert_by lt x ys else x # y # ys)"

definition sort_by :: "('a \<Rightarrow> 'a \<Rightarrow> bool) \<Rightarrow> 'a list \<Rightarrow> 'a list" where
  "sort_by lt xs = foldr (insert_by lt) xs []"

lemma sort_by_simps [simp]:
  "sort_by lt [] = []" "sort_by lt (x # xs) = insert_by lt x (sort_by lt xs)"
  by (simp_all add: sort_by_def)

lemma mset_insert_by [simp]: "mset (insert_by lt x ys) = add_mset x (mset ys)"
  by (induction ys) auto

lemma mset_sort_by [simp]: "mset (sort_by lt xs) = mset xs"
  by (induction xs) auto

lemma set_sort_by [simp]: "set (sort_by lt xs) = set xs"
  using mset_sort_by [of lt xs] by (metis set_mset_mset)

lemma length_sort_by [simp]: "length (sort_by lt xs) = length xs"
  using mset_sort_by [of lt xs] by (metis size_mset)

lemma set_insert_by [simp]: "set (insert_by lt x ys) = insert x (set ys)"
  by (induction ys) auto

text \<open>What Go requires of a \<open>less\<close> function: a strict weak order.\<close>

locale strict_weak_order =
  fixes lt :: "'a \<Rightarrow> 'a \<Rightarrow> bool"
  assumes asym: "lt x y \<Longrightarrow> \<not> lt y x"
    and neg_trans: "\<not> lt x y \<Longrightarrow> \<not> lt y z \<Longrightarrow> \<not> lt x z"
begin

lemma irrefl: "\<not> lt x x"
  using asym by blast

lemma trans: "lt x y \<Longrightarrow> lt y z \<Longrightarrow> lt x z"
  using asym neg_trans by blast

lemma sorted_insert_by:
  "sorted_wrt (\<lambda>x y. \<not> lt y x) ys \<Longrightarrow> sorted_wrt (\<lambda>x y. \<not> lt y x) (insert_by lt x ys)"
proof (induction ys)
  case (Cons y ys)
  show ?case
  proof (cases "lt y x")
    case True
    with Cons show ?thesis by (auto dest: asym)
  next
    case False
    with Cons.prems show ?thesis by (auto dest: neg_trans)
  qed
qed simp

lemma sorted_sort_by: "sorted_wrt (\<lambda>x y. \<not> lt y x) (sort_by lt xs)"
  by (induction xs) (auto intro: sorted_insert_by)

text \<open>Stability: elements that tie with \<open>x\<close> keep their relative order.\<close>

lemma stable_insert_by:
  "sorted_wrt (\<lambda>x y. \<not> lt y x) ys \<Longrightarrow>
   filter (\<lambda>y. \<not> lt y z \<and> \<not> lt z y) (insert_by lt x ys) =
   filter (\<lambda>y. \<not> lt y z \<and> \<not> lt z y) (x # ys)"
proof (induction ys)
  case (Cons y ys)
  show ?case
  proof (cases "lt y x")
    case True
    then have "\<not> (\<not> lt y z \<and> \<not> lt z y \<and> \<not> lt x z \<and> \<not> lt z x)"
      using neg_trans [of y z x] by blast
    with True Cons show ?thesis by auto
  qed simp
qed simp

lemma stable_sort_by:
  "filter (\<lambda>y. \<not> lt y z \<and> \<not> lt z y) (sort_by lt xs) =
   filter (\<lambda>y. \<not> lt y z \<and> \<not> lt z y) xs"
  by (induction xs) (simp_all add: stable_insert_by sorted_sort_by)

end

section \<open>Tables\<close>

text \<open>
  A database table is the list of its rows. \<open>UPDATE \<dots> WHERE\<close> rewrites the rows a
  predicate selects.
\<close>

definition update_where :: "('r \<Rightarrow> bool) \<Rightarrow> ('r \<Rightarrow> 'r) \<Rightarrow> 'r list \<Rightarrow> 'r list" where
  "update_where p f rows = map (\<lambda>r. if p r then f r else r) rows"

definition rows_affected :: "('r \<Rightarrow> bool) \<Rightarrow> 'r list \<Rightarrow> nat" where
  "rows_affected p rows = length (filter p rows)"

lemma length_update_where [simp]: "length (update_where p f rows) = length rows"
  by (simp add: update_where_def)

lemma update_where_Nil [simp]: "update_where p f [] = []"
  by (simp add: update_where_def)

lemma update_where_Cons [simp]:
  "update_where p f (r # rows) = (if p r then f r else r) # update_where p f rows"
  by (simp add: update_where_def)

lemma map_update_where:
  "(\<And>r. p r \<Longrightarrow> g (f r) = g r) \<Longrightarrow> map g (update_where p f rows) = map g rows"
  by (auto simp: update_where_def)

text \<open>Tables with a primary key: writing one row.\<close>

definition update_row :: "('r \<Rightarrow> 'k) \<Rightarrow> 'k \<Rightarrow> 'r \<Rightarrow> 'r list \<Rightarrow> 'r list" where
  "update_row key k r' rows = update_where (\<lambda>r. key r = k) (\<lambda>_. r') rows"

lemma unique_key: "distinct (map key t) \<Longrightarrow> r \<in> set t \<Longrightarrow> x \<in> set t \<Longrightarrow> key x = key r \<Longrightarrow> x = r"
  by (auto simp: distinct_map inj_on_def)

lemma update_where_key:
  assumes "distinct (map key t)" "r \<in> set t"
  shows "update_where (\<lambda>x. key x = key r \<and> P x) f t = (if P r then update_row key (key r) (f r) t else t)"
  by (auto simp: update_row_def update_where_def intro!: map_idI dest: unique_key [OF assms])

lemma rows_affected_key:
  assumes "distinct (map key t)" "r \<in> set t"
  shows "rows_affected (\<lambda>x. key x = key r \<and> P x) t = (if P r then 1 else 0)"
  using assms by (induction t) (auto simp: rows_affected_def filter_empty_conv image_iff)

lemma update_row_same:
  "distinct (map key t) \<Longrightarrow> r \<in> set t \<Longrightarrow> update_row key (key r) r t = t"
  unfolding update_row_def update_where_def by (rule map_idI) (auto dest: unique_key)

lemma update_row_twice:
  "key r' = k \<Longrightarrow> update_row key k r'' (update_row key k r' t) = update_row key k r'' t"
  by (auto simp: update_row_def update_where_def)

lemma keys_update_row [simp]: "key r' = k \<Longrightarrow> map key (update_row key k r' t) = map key t"
  by (auto simp: update_row_def update_where_def)

lemma set_update_row:
  "x \<in> set (update_row key k r' t) \<Longrightarrow> x = r' \<or> x \<in> set t \<and> key x \<noteq> k"
  by (auto simp: update_row_def update_where_def split: if_splits)

lemma update_row_keep: "x \<in> set t \<Longrightarrow> key x \<noteq> k \<Longrightarrow> x \<in> set (update_row key k r' t)"
  by (force simp: update_row_def update_where_def)

lemma update_row_new: "r \<in> set t \<Longrightarrow> r' \<in> set (update_row key (key r) r' t)"
  by (force simp: update_row_def update_where_def)

lemma list_all2_right: "list_all2 P xs ys \<Longrightarrow> y \<in> set ys \<Longrightarrow> \<exists>x\<in>set xs. P x y"
  by (induction rule: list_all2_induct) auto

lemma list_all2_update_row:
  assumes "distinct (map key t)" "r \<in> set t" "R r r'" "\<And>x. R x x"
  shows "list_all2 R t (update_row key (key r) r' t)"
proof -
  have "\<forall>x\<in>set t. R x (if key x = key r then r' else x)"
    using unique_key [OF assms(1,2)] assms(3,4) by auto
  then show ?thesis by (simp add: update_row_def update_where_def list_all2_map2 list.rel_refl_strong)
qed

end
