(* ===== verification/Resources.thy ===== *)
theory Resources
  imports Prelude
begin

text \<open>
  Resource lists and the comparisons admission makes on them
  (\<^verbatim>\<open>compute-service/internal/admission/controller.go\<close>): \<open>fits\<close>, \<open>exceeds\<close>,
  \<open>sumLists\<close>, \<open>subtractList\<close>, \<open>orderedResourceNames\<close>, \<open>stableRoleOrder\<close>; the
  node matching rules \<open>matches\<close> and \<open>isTolerated\<close>.

  \<open>resource.Quantity\<close> comes from the Kubernetes libraries and is a parameter: any type
  \<open>'q\<close> with the exact, totally ordered arithmetic its documentation gives it
  (\<open>Add\<close>, \<open>Sub\<close>, \<open>Cmp\<close>, \<open>Sign\<close>), that is, of class
  \<open>linordered_ab_group_add\<close>; the zero value of the struct is \<open>0\<close>.
\<close>

section \<open>Definitions\<close>

type_synonym 'q resource_list = "(string, 'q) gomap"

text \<open>\<open>available[name]\<close>: the zero quantity when the name is absent.\<close>

definition rget :: "'q::zero resource_list \<Rightarrow> string \<Rightarrow> 'q" where
  "rget m name = (case map_of m name of None \<Rightarrow> 0 | Some q \<Rightarrow> q)"

definition copyList :: "'q resource_list \<Rightarrow> 'q resource_list" where
  "copyList xs = map (\<lambda>(name, quantity). (name, quantity)) xs"

definition addEntry ::
  "'q::linordered_ab_group_add resource_list \<Rightarrow> string \<times> 'q \<Rightarrow> 'q resource_list" where
  "addEntry out e = (case e of (name, quantity) \<Rightarrow> AList.update name (rget out name + quantity) out)"

definition sumLists ::
  "'q::linordered_ab_group_add resource_list \<Rightarrow> 'q resource_list \<Rightarrow> 'q resource_list" where
  "sumLists a b = foldl addEntry (copyList a) b"

definition subtractEntry ::
  "'q::linordered_ab_group_add resource_list \<Rightarrow> string \<times> 'q \<Rightarrow> 'q resource_list" where
  "subtractEntry dst e = (case e of (name, quantity) \<Rightarrow>
     let current = rget dst name - quantity
     in AList.update name (if current < 0 then 0 else current) dst)"

definition subtractList ::
  "'q::linordered_ab_group_add resource_list \<Rightarrow> 'q resource_list \<Rightarrow> 'q resource_list" where
  "subtractList dst used = foldl subtractEntry dst used"

definition fits ::
  "'q::linordered_ab_group_add resource_list \<Rightarrow> 'q resource_list \<Rightarrow> bool" where
  "fits available requested = list_all (\<lambda>(name, request). \<not> rget available name < request) requested"

definition exceeds ::
  "'q::linordered_ab_group_add resource_list \<Rightarrow> 'q resource_list \<Rightarrow> bool" where
  "exceeds used mx =
     list_ex (\<lambda>(name, quantity).
                case map_of mx name of None \<Rightarrow> False | Some limit \<Rightarrow> quantity > limit) used"

definition preferred :: "string list" where
  "preferred = [''nvidia.com/gpu'', ''memory'', ''cpu'']"

definition orderedResourceNames :: "'q resource_list \<Rightarrow> 'q resource_list \<Rightarrow> string list" where
  "orderedResourceNames a b =
     (let seen = remdups (map fst a @ map fst b)
      in filter (\<lambda>name. name \<in> set seen) preferred
         @ sort (filter (\<lambda>name. name \<notin> set preferred) seen))"

text \<open>The loop of \<open>betterFit\<close> and \<open>stableRoleOrder\<close>: the first name whose values differ.\<close>

fun first_diff :: "string list \<Rightarrow> (string \<Rightarrow> 'q) \<Rightarrow> (string \<Rightarrow> 'q) \<Rightarrow> ('q \<times> 'q) option" where
  "first_diff [] f g = None"
| "first_diff (n # ns) f g = (if f n = g n then first_diff ns f g else Some (f n, g n))"

record 'q roleRequest =
  rr_name :: string
  rr_replicas :: int
  rr_requests :: "'q resource_list"

definition role_less ::
  "'q::linordered_ab_group_add roleRequest \<Rightarrow> 'q roleRequest \<Rightarrow> bool" where
  "role_less a b =
     (case first_diff (orderedResourceNames (rr_requests a) (rr_requests b))
             (rget (rr_requests a)) (rget (rr_requests b)) of
        Some (left, right) \<Rightarrow> left > right
      | None \<Rightarrow> rr_name a < rr_name b)"

definition stableRoleOrder ::
  "'q::linordered_ab_group_add roleRequest list \<Rightarrow> 'q roleRequest list" where
  "stableRoleOrder roles = sort_by role_less roles"

subsection \<open>Node matching\<close>

record taint =
  taint_key :: string
  taint_value :: string
  taint_effect :: string

record toleration =
  tol_key :: string
  tol_operator :: string
  tol_value :: string
  tol_effect :: string

fun isTolerated :: "taint \<Rightarrow> toleration list \<Rightarrow> bool" where
  "isTolerated taint [] = False"
| "isTolerated taint (tol # tols) =
     (if tol_effect tol \<noteq> [] \<and> tol_effect tol \<noteq> taint_effect taint then isTolerated taint tols
      else if tol_operator tol = ''Exists'' \<and> (tol_key tol = [] \<or> tol_key tol = taint_key taint)
      then True
      else if (tol_operator tol = [] \<or> tol_operator tol = ''Equal'')
              \<and> tol_key tol = taint_key taint \<and> tol_value tol = taint_value taint
      then True
      else isTolerated taint tols)"

record 'q nodeAvailable =
  na_name :: string
  na_labels :: "(string, string) gomap"
  na_taints :: "taint list"
  na_available :: "'q resource_list"

definition matches ::
  "'q nodeAvailable \<Rightarrow> (string, string) gomap \<Rightarrow> toleration list \<Rightarrow> bool" where
  "matches node selector tolerations \<longleftrightarrow>
     list_all (\<lambda>(key, value). sget (na_labels node) key = value) selector \<and>
     list_all (\<lambda>taint. taint_effect taint \<noteq> ''NoSchedule'' \<and> taint_effect taint \<noteq> ''NoExecute''
                        \<or> isTolerated taint tolerations) (na_taints node)"

definition betterFit ::
  "'q::linordered_ab_group_add nodeAvailable \<Rightarrow> 'q nodeAvailable \<Rightarrow> 'q resource_list \<Rightarrow> bool" where
  "betterFit candidate current requests =
     (case first_diff (orderedResourceNames requests [])
             (\<lambda>name. rget (na_available candidate) name - rget requests name)
             (\<lambda>name. rget (na_available current) name - rget requests name) of
        Some (candidateRemaining, currentRemaining) \<Rightarrow> candidateRemaining < currentRemaining
      | None \<Rightarrow> na_name candidate < na_name current)"

section \<open>Lookups in resource lists\<close>

lemma copyList_id [simp]: "copyList xs = xs"
  by (simp add: copyList_def)

lemma rget_update [resource_simps]:
  "rget (AList.update n q m) n' = (if n' = n then q else rget m n')"
  by (simp add: rget_def)

lemma rget_Nil [simp]: "rget [] n = 0"
  by (simp add: rget_def)

lemma rget_Cons [simp]: "rget ((k, q) # m) n = (if n = k then q else rget m n)"
  by (simp add: rget_def)

lemma rget_Some: "map_of m n = Some q \<Longrightarrow> rget m n = q"
  by (simp add: rget_def)

lemma rget_None: "map_of m n = None \<Longrightarrow> rget m n = 0"
  by (simp add: rget_def)

lemma map_of_addEntry: "map_of (addEntry a (k, q)) = (map_of a)(k \<mapsto> rget a k + q)"
  by (simp add: addEntry_def)

lemma map_of_subtractEntry:
  "map_of (subtractEntry a (k, q)) = (map_of a)(k \<mapsto> max 0 (rget a k - q))"
  by (cases "rget a k < q") (auto simp: subtractEntry_def Let_def max_def)

lemma wf_entry [simp]:
  "wf_map a \<Longrightarrow> wf_map (addEntry a e)" "wf_map a \<Longrightarrow> wf_map (subtractEntry a e)"
  by (simp_all add: addEntry_def subtractEntry_def Let_def split: prod.split)

lemma map_of_sumLists:
  "wf_map b \<Longrightarrow> map_of (sumLists a b) n =
     (case map_of b n of None \<Rightarrow> map_of a n | Some q \<Rightarrow> Some (rget a n + q))"
  unfolding sumLists_def copyList_id
proof (induction b arbitrary: a)
  case (Cons e b)
  obtain k v where e: "e = (k, v)" by (cases e)
  with Cons.prems have "wf_map b" and k: "map_of b k = None" by auto
  note IH = Cons.IH [OF this(1)]
  show ?case by (auto simp: e IH k rget_def map_of_addEntry split: option.split)
qed simp

lemma rget_sumLists [resource_simps]:
  "wf_map b \<Longrightarrow> rget (sumLists a b) n = rget a n + rget b n"
  by (simp add: rget_def map_of_sumLists split: option.split)

lemma wf_sumLists [simp]: "wf_map a \<Longrightarrow> wf_map (sumLists a b)"
  unfolding sumLists_def copyList_id
  by (induction b arbitrary: a) auto

lemma map_of_subtractList:
  "wf_map used \<Longrightarrow> map_of (subtractList dst used) n =
     (case map_of used n of None \<Rightarrow> map_of dst n | Some q \<Rightarrow> Some (max 0 (rget dst n - q)))"
  unfolding subtractList_def
proof (induction used arbitrary: dst)
  case (Cons e used)
  obtain k v where e: "e = (k, v)" by (cases e)
  with Cons.prems have "wf_map used" and k: "map_of used k = None" by auto
  note IH = Cons.IH [OF this(1)]
  show ?case by (auto simp: e IH k rget_def map_of_subtractEntry split: option.split)
qed simp

lemma rget_subtractList [resource_simps]:
  "wf_map used \<Longrightarrow> rget (subtractList dst used) n =
     (if map_of used n = None then rget dst n else max 0 (rget dst n - rget used n))"
  by (auto simp: rget_def map_of_subtractList split: option.split)

lemma wf_subtractList [simp]: "wf_map dst \<Longrightarrow> wf_map (subtractList dst used)"
  unfolding subtractList_def
  by (induction used arbitrary: dst) auto

lemma fits_iff:
  "wf_map r \<Longrightarrow> fits a r \<longleftrightarrow> (\<forall>n. map_of r n \<noteq> None \<longrightarrow> rget r n \<le> rget a n)"
  unfolding fits_def list_all_iff
  by (fastforce simp: wf_map_in_set rget_Some not_less)

lemma exceeds_iff:
  "wf_map used \<Longrightarrow> exceeds used m \<longleftrightarrow>
     (\<exists>n q limit. map_of used n = Some q \<and> map_of m n = Some limit \<and> limit < q)"
  unfolding exceeds_def list_ex_iff
  by (force simp: wf_map_in_set split: option.splits)

lemma exceeds_sumLists_mono:
  assumes "wf_map a" "wf_map b" "\<And>n. 0 \<le> rget b n" "exceeds a m"
  shows "exceeds (sumLists a b) m"
proof -
  from assms(1,4) obtain n q limit where n: "map_of a n = Some q" "map_of m n = Some limit" "limit < q"
    by (auto simp: exceeds_iff)
  have "\<exists>q'. map_of (sumLists a b) n = Some q' \<and> q \<le> q'"
    using n assms(2) assms(3) [of n]
    by (auto simp: map_of_sumLists rget_def split: option.splits)
  with n have "\<exists>q'. map_of (sumLists a b) n = Some q' \<and> limit < q'" by fastforce
  with n assms(1) show ?thesis by (auto simp: exceeds_iff)
qed

text \<open>A request that fits is taken out exactly: the clamp at zero does not act.\<close>

lemma rget_subtract_fits [resource_simps]:
  "wf_map r \<Longrightarrow> fits a r \<Longrightarrow> rget (subtractList a r) n = rget a n - rget r n"
  by (auto simp: rget_subtractList fits_iff rget_None max_def)

lemma rget_subtract_nonneg:
  "wf_map r \<Longrightarrow> 0 \<le> rget a n \<Longrightarrow> 0 \<le> rget (subtractList a r) n"
  by (simp add: rget_subtractList)

section \<open>The orders used for packing\<close>

lemma set_preferred_sub: "set (orderedResourceNames a b) = fst ` set a \<union> fst ` set b"
  by (auto simp: orderedResourceNames_def Let_def)

lemma distinct_orderedResourceNames: "distinct (orderedResourceNames a b)"
  by (auto simp: orderedResourceNames_def Let_def preferred_def)

lemma first_diff_None: "first_diff ns f g = None \<longleftrightarrow> (\<forall>n\<in>set ns. f n = g n)"
  by (induction ns) auto

lemma first_diff_sym: "first_diff ns g f = map_option prod.swap (first_diff ns f g)"
  by (induction ns) auto

lemma first_diff_neq: "first_diff ns f g = Some (x, y) \<Longrightarrow> x \<noteq> y"
  by (induction ns) (auto split: if_splits)

lemma first_diff_filter:
  "(\<And>n. n \<in> set ns \<Longrightarrow> \<not> P n \<Longrightarrow> f n = g n) \<Longrightarrow>
   first_diff (filter P ns) f g = first_diff ns f g"
  by (induction ns) auto

text \<open>\<open>first_diff\<close> with a tie-breaking name is a lexicographic order.\<close>

definition lex_less ::
  "string list \<Rightarrow> (string \<Rightarrow> 'q::linorder) \<Rightarrow> string \<Rightarrow> (string \<Rightarrow> 'q) \<Rightarrow> string \<Rightarrow> bool" where
  "lex_less ns f a g b =
     (case first_diff ns f g of Some (x, y) \<Rightarrow> x < y | None \<Rightarrow> a < b)"

lemma lex_less_asym: "lex_less ns f a g b \<Longrightarrow> \<not> lex_less ns g b f a"
  by (auto simp: lex_less_def first_diff_sym [of ns g f] split: option.splits)

lemma lex_less_neg_trans:
  "\<not> lex_less ns f a g b \<Longrightarrow> \<not> lex_less ns g b h c \<Longrightarrow> \<not> lex_less ns f a h c"
  unfolding lex_less_def
  by (induction ns) (auto split: if_splits option.splits)

lemma betterFit_lex:
  "betterFit c d r =
     lex_less (orderedResourceNames r [])
       (\<lambda>n. rget (na_available c) n - rget r n) (na_name c)
       (\<lambda>n. rget (na_available d) n - rget r n) (na_name d)"
  by (simp add: betterFit_def lex_less_def)

interpretation betterFit: strict_weak_order "\<lambda>c d. betterFit c d r"
  by unfold_locales (auto simp: betterFit_lex dest: lex_less_asym lex_less_neg_trans)

text \<open>
  \<open>stableRoleOrder\<close> compares each pair over the resource names of that pair only. Comparing over
  the names of any superset gives the same answer, so the comparison is one order.
\<close>

definition names_of :: "string list \<Rightarrow> string list" where
  "names_of ks =
     filter (\<lambda>n. n \<in> set ks) preferred @ sort (filter (\<lambda>n. n \<notin> set preferred) (remdups ks))"

lemma orderedResourceNames_names_of:
  "orderedResourceNames a b = names_of (map fst a @ map fst b)"
  by (simp add: orderedResourceNames_def names_of_def Let_def)

lemma names_of_filter:
  assumes "set ks \<subseteq> set ks'"
  shows "names_of ks = filter (\<lambda>n. n \<in> set ks) (names_of ks')"
proof -
  have "sort (filter (\<lambda>n. n \<notin> set preferred) (remdups ks)) =
        sort (filter (\<lambda>n. n \<in> set ks) (filter (\<lambda>n. n \<notin> set preferred) (remdups ks')))"
    by (rule sorted_distinct_set_unique) (use assms in auto)
  moreover have "filter (\<lambda>n. n \<in> set ks) preferred =
        filter (\<lambda>n. n \<in> set ks) (filter (\<lambda>n. n \<in> set ks') preferred)"
    using assms by (auto simp: preferred_def)
  ultimately show ?thesis by (simp add: names_of_def filter_sort)
qed

lemma role_less_lex:
  assumes "fst ` set (rr_requests a) \<subseteq> set ks" and "fst ` set (rr_requests b) \<subseteq> set ks"
  shows "role_less a b =
     lex_less (names_of ks) (\<lambda>n. - rget (rr_requests a) n) (rr_name a)
       (\<lambda>n. - rget (rr_requests b) n) (rr_name b)"
proof -
  let ?f = "rget (rr_requests a)" and ?g = "rget (rr_requests b)"
  let ?own = "map fst (rr_requests a) @ map fst (rr_requests b)"
  have own: "names_of ?own = filter (\<lambda>n. n \<in> set ?own) (names_of ks)"
    by (rule names_of_filter) (use assms in auto)
  have "first_diff (names_of ?own) ?f ?g = first_diff (names_of ks) ?f ?g"
    unfolding own by (rule first_diff_filter) (simp add: rget_None map_of_eq_None_iff)
  moreover have "first_diff ns (\<lambda>n. - ?f n) (\<lambda>n. - ?g n) =
      map_option (\<lambda>(x, y). (- x, - y)) (first_diff ns ?f ?g)" for ns
    by (induction ns) auto
  ultimately show ?thesis
    by (auto simp: role_less_def lex_less_def orderedResourceNames_names_of split: option.splits)
qed

interpretation role_order: strict_weak_order role_less
proof
  fix x y z :: "'a roleRequest"
  let ?ks = "map fst (rr_requests x) @ map fst (rr_requests y) @ map fst (rr_requests z)"
  have lex: "\<And>u v. u \<in> {x, y, z} \<Longrightarrow> v \<in> {x, y, z} \<Longrightarrow> role_less u v =
      lex_less (names_of ?ks) (\<lambda>n. - rget (rr_requests u) n) (rr_name u)
        (\<lambda>n. - rget (rr_requests v) n) (rr_name v)"
    by (rule role_less_lex) auto
  show "role_less x y \<Longrightarrow> \<not> role_less y x"
    by (simp add: lex lex_less_asym)
  show "\<not> role_less x y \<Longrightarrow> \<not> role_less y z \<Longrightarrow> \<not> role_less x z"
    by (simp add: lex) (rule lex_less_neg_trans)
qed

end
