(* ===== verification/Replicas.thy ===== *)
theory Replicas
  imports Prelude
begin

text \<open>
  The replica vectors shared by MLService admission, rendering and API projections
  (\<^verbatim>\<open>compute-service/internal/serviceadmission/replicas.go\<close>), with the MLRun/MLService
  spec fields they read. Go's \<open>int32\<close> entries are \<open>int\<close>s within
  \<open>int32_range\<close>; the only arithmetic on them is the increment of \<open>Next\<close>, which
  \<open>Next_in_range\<close> shows never leaves the range.
\<close>

section \<open>Definitions\<close>

definition int32_range :: "int \<Rightarrow> bool" where
  "int32_range n \<longleftrightarrow> - (2 ^ 31) \<le> n \<and> n < 2 ^ 31"

text \<open>\<open>Desired\<close> over the \<open>Replicas\<close> fields of \<open>spec.Roles\<close>, in order.\<close>

definition Desired :: "int list \<Rightarrow> int list" where
  "Desired roles = map (\<lambda>replicas. if replicas > 0 then replicas else 0) roles"

definition Zero :: "int list \<Rightarrow> int list" where
  "Zero roles = replicate (length roles) 0"

definition Decode :: "int list json \<Rightarrow> nat \<Rightarrow> int list \<Rightarrow> int list" where
  "Decode raw roleCount fallback =
     (let legacyMissing = (raw = JEmpty);
          decoded = json_lenient [] raw;
          decoded = (if legacyMissing \<and> fallback \<noteq> [] then fallback else decoded)
      in map (\<lambda>i. if i < length decoded \<and> decoded ! i > 0 then decoded ! i else 0) [0..<roleCount])"

definition Encode :: "int list \<Rightarrow> int list json" where
  "Encode replicas = json_marshal replicas"

definition Equal :: "int list \<Rightarrow> int list \<Rightarrow> bool" where
  "Equal a b \<longleftrightarrow> length a = length b \<and> (\<forall>i\<in>set [0..<length a]. a ! i = b ! i)"

definition Primary :: "int list \<Rightarrow> int" where
  "Primary replicas = (if replicas = [] then 0 else replicas ! 0)"

definition ClampToDesired :: "int list \<Rightarrow> int list \<Rightarrow> int list" where
  "ClampToDesired admitted desired =
     map (\<lambda>i. if i < length admitted \<and> admitted ! i < desired ! i then admitted ! i else desired ! i)
       [0..<length desired]"

text \<open>The two append statements that open \<open>Next\<close>.\<close>

definition pad_to :: "int list \<Rightarrow> nat \<Rightarrow> int list" where
  "pad_to xs n = (if length xs < n then xs @ replicate (n - length xs) 0 else xs)"

text \<open>The minimum serving set: one replica of every non-empty role.\<close>

definition first_set :: "int list \<Rightarrow> int list \<Rightarrow> int list \<times> nat list" where
  "first_set nxt desired =
     (map (\<lambda>i. if i < length desired \<and> desired ! i > 0 then 1 else nxt ! i) [0..<length nxt],
      filter (\<lambda>i. desired ! i > 0) [0..<length desired])"

text \<open>The closing loop of \<open>Next\<close>: the first role below its desired count.\<close>

definition grow_one :: "int list \<Rightarrow> int list \<Rightarrow> int list \<times> nat list" where
  "grow_one nxt desired =
     (case find (\<lambda>i. nxt ! i < desired ! i) [0..<length desired] of
        Some i \<Rightarrow> (nxt[i := nxt ! i + 1], [i])
      | None \<Rightarrow> (nxt, []))"

definition Next :: "int list \<Rightarrow> int list \<Rightarrow> int list \<times> nat list" where
  "Next admitted desired =
     (let nxt = pad_to admitted (length desired);
          hasAny = list_ex (\<lambda>n. n > 0) admitted
      in if \<not> hasAny then first_set nxt desired else grow_one nxt desired)"

text \<open>\<open>Apply\<close> on the \<open>Replicas\<close> fields of \<open>spec.Roles\<close>.\<close>

definition Apply :: "int list \<Rightarrow> int list \<Rightarrow> int list" where
  "Apply roles admitted =
     map (\<lambda>i. if i < length admitted \<and> admitted ! i > 0 then admitted ! i else 0) [0..<length roles]"

section \<open>Normalised vectors\<close>

text \<open>\<open>a\<close> is a reservation for \<open>d\<close>: aligned with it, non-negative, nowhere above it.\<close>

definition reserved_within :: "int list \<Rightarrow> int list \<Rightarrow> bool" where
  "reserved_within a d \<longleftrightarrow> length a = length d \<and> (\<forall>i<length d. 0 \<le> a ! i \<and> a ! i \<le> d ! i)"

definition nonneg :: "int list \<Rightarrow> bool" where
  "nonneg xs \<longleftrightarrow> (\<forall>x\<in>set xs. 0 \<le> x)"

lemma Equal_iff [simp]: "Equal a b \<longleftrightarrow> a = b"
  unfolding Equal_def by (auto intro: nth_equalityI)

lemma length_Desired [simp]: "length (Desired roles) = length roles"
  by (simp add: Desired_def)

lemma nonneg_Desired [simp]: "nonneg (Desired roles)"
  by (auto simp: nonneg_def Desired_def)

lemma length_Decode [simp]: "length (Decode raw n fb) = n"
  by (simp add: Decode_def Let_def)

lemma nonneg_Decode [simp]: "nonneg (Decode raw n fb)"
  by (auto simp: nonneg_def Decode_def Let_def)

lemma Decode_Encode: "nonneg xs \<Longrightarrow> length xs = n \<Longrightarrow> Decode (Encode xs) n fb = xs"
  unfolding Decode_def Encode_def json_marshal_def nonneg_def Let_def
  by (rule nth_equalityI) (auto simp: all_set_conv_all_nth intro!: antisym)

lemma length_ClampToDesired [simp]: "length (ClampToDesired a d) = length d"
  by (simp add: ClampToDesired_def)

lemma ClampToDesired_within:
  "nonneg a \<Longrightarrow> nonneg d \<Longrightarrow> reserved_within (ClampToDesired a d) d"
  by (auto simp: reserved_within_def ClampToDesired_def nonneg_def)

lemma ClampToDesired_id: "reserved_within a d \<Longrightarrow> ClampToDesired a d = a"
  unfolding reserved_within_def ClampToDesired_def
  by (rule nth_equalityI) (auto intro!: antisym)

lemma pad_to_id [simp]: "length xs = n \<Longrightarrow> pad_to xs n = xs"
  by (simp add: pad_to_def)

lemma length_pad_to [simp]: "length (pad_to xs n) = max n (length xs)"
  by (simp add: pad_to_def)

section \<open>The admission step\<close>

lemma find_idx:
  "find P [0..<n] = Some i \<longleftrightarrow> i < n \<and> P i \<and> (\<forall>j<i. \<not> P j)"
  by (auto simp: find_Some_iff)

lemma find_idx_None: "find P [0..<n] = None \<longleftrightarrow> (\<forall>i<n. \<not> P i)"
  by (auto simp: find_None_iff)

text \<open>How far a vector is from the desired one: the measure of the admission loop.\<close>

definition shortfall :: "int list \<Rightarrow> int list \<Rightarrow> nat" where
  "shortfall a d = (\<Sum>i<length d. nat (d ! i - pad_to a (length d) ! i))"

text \<open>One step, as the two cases of the code.\<close>

lemma Next_cases:
  assumes "reserved_within a d" "Next a d = (b, inc)"
  obtains (first) "\<forall>i<length d. a ! i = 0" "b = map (\<lambda>i. if d ! i > 0 then 1 else 0) [0..<length d]"
      "inc = filter (\<lambda>i. d ! i > 0) [0..<length d]"
    | (grow) i where "i < length d" "a ! i < d ! i" "b = a[i := a ! i + 1]" "inc = [i]"
    | (stop) "b = a" "inc = []" "a = d"
proof -
  from assms(1) have len: "length a = length d" and bounds: "\<forall>i<length d. 0 \<le> a ! i \<and> a ! i \<le> d ! i"
    by (auto simp: reserved_within_def)
  show thesis
  proof (cases "list_ex (\<lambda>n. n > 0) a")
    case False
    then have zero: "\<forall>i<length d. a ! i = 0"
      using bounds len by (fastforce simp: list_ex_iff set_conv_nth)
    show thesis
      by (rule first [OF zero])
         (use assms(2) False len zero in \<open>auto simp: Next_def first_set_def Let_def\<close>)
  next
    case True
    show thesis
    proof (cases "find (\<lambda>i. a ! i < d ! i) [0..<length d]")
      case None
      then have "\<forall>i<length d. d ! i \<le> a ! i" by (simp add: find_idx_None not_less)
      with bounds len have "a = d" by (intro nth_equalityI) force+
      with None True assms(2) len show thesis
        by (intro stop) (auto simp: Next_def grow_one_def Let_def)
    next
      case (Some i)
      with True assms(2) len show thesis
        by (intro grow [of i]) (auto simp: Next_def grow_one_def Let_def find_idx)
    qed
  qed
qed

text \<open>A step keeps the vector a reservation, never shrinks it, and lists exactly the roles
  that grew, each by one.\<close>

lemma Next_step:
  assumes "reserved_within a d" "Next a d = (b, inc)"
  shows "reserved_within b d" and "distinct inc"
    and "i < length d \<Longrightarrow> b ! i = a ! i + (if i \<in> set inc then 1 else 0)"
    and "\<forall>i\<in>set inc. i < length d"
    and "inc = [] \<Longrightarrow> a = d"
proof -
  from assms(1) have len: "length a = length d" and bounds: "\<forall>i<length d. 0 \<le> a ! i \<and> a ! i \<le> d ! i"
    by (auto simp: reserved_within_def)
  from assms show "reserved_within b d"
    using len bounds by (cases rule: Next_cases) (auto simp: reserved_within_def nth_list_update)
  from assms show "distinct inc" "\<forall>i\<in>set inc. i < length d"
    by (cases rule: Next_cases; auto)+
  from assms show "i < length d \<Longrightarrow> b ! i = a ! i + (if i \<in> set inc then 1 else 0)"
    using len bounds by (cases rule: Next_cases) auto
  from assms show "a = d" if "inc = []"
  proof (cases rule: Next_cases)
    case first
    with that have "\<forall>i<length d. d ! i \<le> 0" by (auto simp: filter_empty_conv not_less)
    with first(1) bounds len show ?thesis by (intro nth_equalityI) force+
  qed (use that in auto)
qed

lemma shortfall_eq: "length a = length d \<Longrightarrow> shortfall a d = (\<Sum>i<length d. nat (d ! i - a ! i))"
  by (simp add: shortfall_def)

lemma pad_first_le:
  assumes "\<not> list_ex (\<lambda>n. n > 0) a" "i < length (pad_to a n)"
  shows "pad_to a n ! i \<le> 0"
proof -
  have "\<forall>j<length a. a ! j \<le> 0" using assms(1) by (simp add: list_ex_iff flip: not_less)
  then show ?thesis using assms(2) by (auto simp: pad_to_def nth_append split: if_splits)
qed

text \<open>Every step that grows a role brings the vector closer to the desired one; no
  normalisation of the vector is needed.\<close>

lemma Next_shortfall:
  assumes "Next a d = (b, inc)" "inc \<noteq> []"
  shows "shortfall b d < shortfall a d"
proof -
  let ?n = "pad_to a (length d)"
  have sum: "shortfall b d < shortfall a d"
    if "length b = length ?n" "\<forall>i<length d. nat (d ! i - b ! i) \<le> nat (d ! i - ?n ! i)"
      "i < length d" "nat (d ! i - b ! i) < nat (d ! i - ?n ! i)" for i
    using that unfolding shortfall_def
    by (intro sum_strict_mono_ex1) (auto simp: pad_to_def split: if_splits)
  show ?thesis
  proof (cases "list_ex (\<lambda>n. n > 0) a")
    case False
    with assms(1) have b: "(b, inc) = first_set ?n d" by (simp add: Next_def Let_def)
    with assms(2) obtain i where "i < length d" "d ! i > 0"
      by (auto simp: first_set_def filter_empty_conv)
    moreover have "\<forall>j<length d. ?n ! j \<le> 0" using pad_first_le [OF False] by simp
    ultimately show ?thesis using b
      by (intro sum [of i]) (auto simp: first_set_def)
  next
    case True
    with assms(1) have "(b, inc) = grow_one ?n d" by (simp add: Next_def Let_def)
    with assms(2) obtain i where "i < length d" "?n ! i < d ! i" "b = ?n[i := ?n ! i + 1]"
      by (auto simp: grow_one_def find_idx split: option.splits)
    then show ?thesis by (intro sum [of i]) (auto simp: nth_list_update)
  qed
qed

text \<open>The increment stays an \<open>int32\<close>.\<close>

lemma Next_in_range:
  assumes "reserved_within a d" "Next a d = (b, inc)" "\<forall>x\<in>set d. int32_range x"
  shows "\<forall>x\<in>set b. int32_range x"
proof -
  have "reserved_within b d" by (rule Next_step(1) [OF assms(1,2)])
  moreover have "\<forall>i<length d. d ! i < 2 ^ 31"
    using assms(3) by (auto simp: all_set_conv_all_nth int32_range_def)
  ultimately show ?thesis
    unfolding reserved_within_def all_set_conv_all_nth int32_range_def by force
qed

lemma Next_increased_lt: "Next a d = (b, inc) \<Longrightarrow> i \<in> set inc \<Longrightarrow> i < length d"
  by (auto simp: Next_def first_set_def grow_one_def Let_def find_idx split: if_splits option.splits)

end
