(* ===== verification/Store.thy ===== *)
theory Store
  imports Resources Replicas
begin

text \<open>
  The persistence rows of the compute service (\<^verbatim>\<open>compute-service/internal/store/store.go\<close>),
  the CR spec types they hold (\<^verbatim>\<open>axisml-system/apis\<close>) and the status columns
  (\<^verbatim>\<open>compute-service/internal/server/*_dto.go\<close>).

  A table is the list of its rows. Times are natural numbers, UUIDs are their texts. What no
  component reads (the rate limit of a route) is one opaque text each; a run's template has no ports. The phase columns hold the constants of
  \<^verbatim>\<open>mlrun/model.go\<close>, \<^verbatim>\<open>mlservice/model.go\<close> and \<^verbatim>\<open>trafficpolicy/model.go\<close>.
\<close>

section \<open>Specs\<close>

text \<open>
  \<open>corev1\<close> types of a pod template, with the sources the program reads; other sources and fields are one text
  each (\<open>rest\<close>).
\<close>

record ConfigMapKeySelector =
  cks_name :: string
  cks_key :: string
  cks_optional :: "bool option"

record EnvVarSource =
  evs_configMapKeyRef :: "ConfigMapKeySelector option"
  evs_rest :: string

record EnvVar =
  ev_name :: string
  ev_value :: string
  ev_valueFrom :: "EnvVarSource option"

record ConfigMapEnvSource =
  cmr_name :: string
  cmr_optional :: "bool option"

record EnvFromSource =
  efs_prefix :: string
  efs_configMapRef :: "ConfigMapEnvSource option"
  efs_rest :: string

record PodPort =
  pp_name :: string
  pp_containerPort :: int
  pp_protocol :: string

record KeyToPath =
  ktp_key :: string
  ktp_path :: string
  ktp_mode :: "int option"

record ConfigMapVolumeSource =
  cvs_name :: string
  cvs_optional :: "bool option"
  cvs_defaultMode :: "int option"
  cvs_items :: "KeyToPath list"

record Volume =
  vol_name :: string
  vol_configMap :: "ConfigMapVolumeSource option"
  vol_persistentVolumeClaim :: "string option"
  vol_rest :: string

record VolumeMount =
  vm_name :: string
  vm_mountPath :: string
  vm_subPath :: string
  vm_subPathExpr :: string
  vm_readOnly :: bool

record 'q PodTemplate =
  pt_image :: string
  pt_imagePullPolicy :: string
  pt_command :: "string list"
  pt_args :: "string list"
  pt_env :: "EnvVar list"
  pt_envFrom :: "EnvFromSource list"
  pt_workingDir :: string
  pt_ports :: "PodPort list"
  pt_requests :: "'q resource_list"
  pt_limits :: "'q resource_list"
  pt_volumes :: "Volume list"
  pt_volumeMounts :: "VolumeMount list"

text \<open>A template with an image and requests only.\<close>

definition template_of :: "string \<Rightarrow> 'q resource_list \<Rightarrow> 'q PodTemplate" where
  "template_of img requests =
     \<lparr>pt_image = img, pt_imagePullPolicy = [], pt_command = [], pt_args = [], pt_env = [], pt_envFrom = [],
      pt_workingDir = [], pt_ports = [], pt_requests = requests, pt_limits = [], pt_volumes = [], pt_volumeMounts = []\<rparr>"

lemma template_of_parts [simp]:
  "pt_image (template_of img r) = img" "pt_requests (template_of img r) = r" "pt_limits (template_of img r) = []"
  "pt_volumes (template_of img r) = []" "pt_volumeMounts (template_of img r) = []"
  by (simp_all add: template_of_def)

record 'q RoleSpec =
  role_name :: string
  role_replicas :: int
  role_restartPolicy :: string
  role_template :: "'q PodTemplate"

record Backend =
  be_name :: string
  be_engine :: string
  be_config :: "string option"

record Scheduling =
  sch_quota :: string
  sch_priorityClass :: string
  sch_nodeSelector :: "(string, string) gomap"
  sch_tolerations :: "toleration list"

record RunPolicy =
  rp_suspend :: bool
  rp_activeDeadlineSeconds :: "int option"
  rp_ttlSecondsAfterFinished :: "int option"
  rp_backoffLimit :: "int option"

record WorkloadConfigMap =
  cfm_name :: string
  cfm_data :: "(string, string) gomap"

record 'q MLRunSpec =
  rs_backend :: Backend
  rs_scheduling :: Scheduling
  rs_configMaps :: "WorkloadConfigMap list"
  rs_roles :: "'q RoleSpec list"
  rs_runPolicy :: RunPolicy

record Route =
  rou_enabled :: bool
  rou_targetRole :: string
  rou_portName :: string
  rou_hostname :: string
  rou_path :: string
  rou_authType :: "string option"
  rou_rateLimit :: "string option"
  rou_timeout :: string

record 'q MLServiceSpec =
  ss_backend :: Backend
  ss_scheduling :: Scheduling
  ss_configMaps :: "WorkloadConfigMap list"
  ss_roles :: "'q RoleSpec list"
  ss_progressDeadlineSeconds :: "int option"
  ss_route :: "Route option"

section \<open>Phases and status columns\<close>

datatype run_phase =
    RunQueued | RunCreating | RunPending | RunRunning | RunSucceeded | RunFailed
  | RunCanceling | RunCancelled | RunDeleting | RunDeleted

datatype svc_phase =
    SvcQueued | SvcCreating | SvcPending | SvcReady | SvcDegraded | SvcFailed
  | SvcDeleting | SvcDeleted

record MLRunStatus =
  rst_message :: string
  rst_queueReason :: string
  rst_startedAt :: "nat option"
  rst_finishedAt :: "nat option"

record MLServiceStatus =
  sst_message :: string
  sst_admissionReason :: string
  sst_admissionMessage :: string
  sst_admittedReplicas :: int
  sst_readyReplicas :: int
  sst_endpoint :: string

definition zero_run_status :: MLRunStatus where
  "zero_run_status =
     \<lparr>rst_message = [], rst_queueReason = [], rst_startedAt = None, rst_finishedAt = None\<rparr>"

definition zero_svc_status :: MLServiceStatus where
  "zero_svc_status =
     \<lparr>sst_message = [], sst_admissionReason = [], sst_admissionMessage = [],
      sst_admittedReplicas = 0, sst_readyReplicas = 0, sst_endpoint = []\<rparr>"

section \<open>Rows\<close>

record 'q MLRun =
  run_id :: string
  run_namespace :: string
  run_name :: string
  run_displayName :: string
  run_description :: string
  run_owner :: string
  run_labels :: "(string, string) gomap json"
  run_annotations :: "(string, string) gomap json"
  run_spec :: "'q MLRunSpec json"
  run_priority :: int
  run_phase :: run_phase
  run_status :: "MLRunStatus json"
  run_scheduledAt :: "nat option"
  run_createdAt :: nat
  run_updatedAt :: nat
  run_deletedAt :: "nat option"

record 'q MLService =
  svc_id :: string
  svc_namespace :: string
  svc_kind :: string
  svc_name :: string
  svc_displayName :: string
  svc_description :: string
  svc_owner :: string
  svc_labels :: "(string, string) gomap json"
  svc_annotations :: "(string, string) gomap json"
  svc_spec :: "'q MLServiceSpec json"
  svc_admitted :: "int list json"
  svc_dispatched :: "int list json"
  svc_generation :: int
  svc_observedGeneration :: int
  svc_phase :: svc_phase
  svc_status :: "MLServiceStatus json"
  svc_createdAt :: nat
  svc_updatedAt :: nat
  svc_deletedAt :: "nat option"

abbreviation "LabelResourcePool \<equiv> ''resource.axisml.io/pool''"
abbreviation "LabelResourceUnit \<equiv> ''resource.axisml.io/unit''"
abbreviation "AnnotationPriority \<equiv> ''scheduling.axisml.io/priority''"

text \<open>The role replica counts of a service spec, in the order of \<open>spec.Roles\<close>.\<close>

definition role_counts :: "'q MLServiceSpec \<Rightarrow> int list" where
  "role_counts spec = map role_replicas (ss_roles spec)"

end
