(* ===== verification/StatusMap.thy ===== *)
theory StatusMap
  imports Store
begin

text \<open>
  The mapping from the status a runtime reports to the phase and status columns
  (\<^verbatim>\<open>compute-service/pkg/statusmap/statusmap.go\<close>), shared by the Kubernetes informers and
  the standalone pollers. The phase a runtime reports is a text and may be anything.
\<close>

section \<open>Reported statuses\<close>

record condition =
  cond_type :: string
  cond_status :: string
  cond_reason :: string

record run_observed =
  ro_phase :: string
  ro_message :: string
  ro_startedAt :: "nat option"
  ro_finishedAt :: "nat option"
  ro_conditions :: "condition list"

record svc_observed =
  so_phase :: string
  so_message :: string
  so_endpoint :: string
  so_readyReplicas :: int

record traffic_backend =
  tb_serviceName :: string
  tb_weight :: int
  tb_ready :: bool

record traffic_observed =
  to_phase :: string
  to_message :: string
  to_endpoint :: string
  to_backends :: "traffic_backend list"

section \<open>The status fields the mappings carry\<close>

record RunStatus =
  rs_message :: string
  rs_startedAt :: "nat option"
  rs_finishedAt :: "nat option"

record ServiceStatus =
  ssf_message :: string
  ssf_readyReplicas :: int
  ssf_endpoint :: string

record TrafficStatus =
  ts_message :: string
  ts_endpoint :: string
  ts_backends :: "traffic_backend list"

datatype tp_phase =
    TpCreating | TpPending | TpReady | TpDegraded | TpFailed | TpDeleting | TpDeleted

section \<open>The mappings\<close>

definition terminalTime :: "nat option \<Rightarrow> nat \<Rightarrow> nat" where
  "terminalTime finishedAt now = (case finishedAt of Some t \<Rightarrow> t | None \<Rightarrow> now)"

definition hasCondition :: "condition list \<Rightarrow> string \<Rightarrow> string \<Rightarrow> bool" where
  "hasCondition conds kind reason =
     list_ex (\<lambda>c. cond_type c = kind \<and> cond_reason c = reason \<and> cond_status c = ''True'') conds"

abbreviation "ConditionSuspended \<equiv> ''Suspended''"
abbreviation "ReasonCancelRequested \<equiv> ''CancelRequested''"

text \<open>The switch over the reported phase.\<close>

definition map_run_switch ::
  "run_phase \<Rightarrow> RunStatus \<Rightarrow> run_observed \<Rightarrow> nat \<Rightarrow> run_phase \<times> RunStatus" where
  "map_run_switch curPhase cur observed now =
     (if ro_phase observed = ''Pending''
      then (if curPhase = RunCreating then RunPending else curPhase, cur)
      else if ro_phase observed = ''Running''
      then (if curPhase = RunCreating \<or> curPhase = RunPending then RunRunning else curPhase,
            (if rs_startedAt cur = None \<and> ro_startedAt observed \<noteq> None
             then cur\<lparr>rs_startedAt := ro_startedAt observed\<rparr> else cur)\<lparr>rs_message := []\<rparr>)
      else if ro_phase observed = ''Succeeded''
      then (RunSucceeded, cur\<lparr>rs_finishedAt := Some (terminalTime (ro_finishedAt observed) now)\<rparr>)
      else if ro_phase observed = ''Failed''
      then (RunFailed,
            let next = cur\<lparr>rs_finishedAt := Some (terminalTime (ro_finishedAt observed) now)\<rparr>
            in if ro_message observed \<noteq> [] then next\<lparr>rs_message := ro_message observed\<rparr> else next)
      else (curPhase, cur))"

definition MapRun ::
  "run_phase \<Rightarrow> RunStatus \<Rightarrow> run_observed \<Rightarrow> nat \<Rightarrow> run_phase \<times> RunStatus" where
  "MapRun curPhase cur observed now =
     (case map_run_switch curPhase cur observed now of (phase, next) \<Rightarrow>
        if curPhase = RunCanceling \<and>
           hasCondition (ro_conditions observed) ConditionSuspended ReasonCancelRequested
        then (RunCancelled, next\<lparr>rs_finishedAt := Some now\<rparr>)
        else (phase, next))"

definition MapService ::
  "svc_phase \<Rightarrow> ServiceStatus \<Rightarrow> int \<Rightarrow> svc_observed \<Rightarrow> svc_phase \<times> ServiceStatus" where
  "MapService curPhase cur desiredReplicas observed =
     (let ready = so_readyReplicas observed;
          phase = (if desiredReplicas = 0 then SvcPending
                   else if ready = 0 \<and> so_phase observed = ''Pending'' then SvcPending
                   else if ready = desiredReplicas then SvcReady
                   else if ready > 0 \<and> ready < desiredReplicas then SvcDegraded
                   else if ready = 0 \<and> so_phase observed = ''Failed'' then SvcFailed
                   else curPhase);
          next = cur\<lparr>ssf_readyReplicas := ready, ssf_endpoint := so_endpoint observed\<rparr>;
          next = (if so_phase observed = ''Failed'' \<and> so_message observed \<noteq> []
                  then next\<lparr>ssf_message := so_message observed\<rparr> else next)
      in (phase, if phase = SvcReady then next\<lparr>ssf_message := []\<rparr> else next))"

definition MapTraffic ::
  "tp_phase \<Rightarrow> TrafficStatus \<Rightarrow> traffic_observed \<Rightarrow> tp_phase \<times> TrafficStatus" where
  "MapTraffic curPhase cur observed =
     (if to_phase observed = ''Pending'' then TpPending
      else if to_phase observed = ''Ready'' then TpReady
      else if to_phase observed = ''Degraded'' then TpDegraded
      else if to_phase observed = ''Failed'' then TpFailed
      else curPhase,
      cur\<lparr>ts_endpoint := to_endpoint observed, ts_message := to_message observed,
          ts_backends := map (\<lambda>b. \<lparr>tb_serviceName = tb_serviceName b, tb_weight = tb_weight b,
                                   tb_ready = tb_ready b\<rparr>) (to_backends observed)\<rparr>)"

section \<open>Behaviour\<close>

lemma MapRun_finished:
  "MapRun ph cur ob now = (ph', st) \<Longrightarrow> ph' \<noteq> ph \<Longrightarrow>
     ph' \<in> {RunSucceeded, RunFailed, RunCancelled} \<Longrightarrow> rs_finishedAt st \<noteq> None"
  by (auto simp: MapRun_def map_run_switch_def Let_def split: if_splits prod.splits)

lemma MapRun_edges:
  assumes "MapRun ph cur ob now = (ph', st)" "ph' \<noteq> ph"
  shows "(ph = RunCreating \<and> ph' \<in> {RunPending, RunRunning}) \<or> (ph = RunPending \<and> ph' = RunRunning) \<or>
     (ph = RunCanceling \<and> ph' = RunCancelled) \<or> ph' \<in> {RunSucceeded, RunFailed}"
  using assms by (auto simp: MapRun_def map_run_switch_def split: if_splits prod.splits)

text \<open>A status that has been mapped once maps to itself: the reflow settles.\<close>

lemma map_run_switch_idem:
  assumes "map_run_switch ph cur ob now = (ph1, st1)" "ro_finishedAt ob \<noteq> None"
  shows "map_run_switch ph1 st1 ob now' = (ph1, st1)"
  using assms by (auto simp: map_run_switch_def terminalTime_def Let_def split: if_splits option.splits)

lemma MapService_idem:
  "MapService ph cur d ob = (ph1, st1) \<Longrightarrow> MapService ph1 st1 d ob = (ph1, st1)"
  by (auto simp: MapService_def Let_def split: if_splits)

lemma MapTraffic_idem:
  "MapTraffic ph cur ob = (ph1, st1) \<Longrightarrow> MapTraffic ph1 st1 ob = (ph1, st1)"
  by (auto simp: MapTraffic_def)

lemma MapService_ready:
  assumes "d > 0"
  shows "fst (MapService ph cur d ob) = SvcReady \<longleftrightarrow>
     so_readyReplicas ob = d \<or>
     ph = SvcReady \<and> (so_readyReplicas ob < 0 \<or> so_readyReplicas ob > d \<or>
       so_readyReplicas ob = 0 \<and> so_phase ob \<notin> {''Pending'', ''Failed''})"
  using assms by (auto simp: MapService_def Let_def)

end
