(* ===== verification/Naming.thy ===== *)
theory Naming
  imports Prelude "HOL-Library.Word"
begin

text \<open>
  Names: the AxisML name policy (\<^verbatim>\<open>compute-service/pkg/strutil/dns.go\<close>), the quota name
  (\<^verbatim>\<open>apis/tenant/v1alpha1/tenant_types.go\<close>) and the physical workload names
  (\<^verbatim>\<open>apis/pkg/workloadname/workloadname.go\<close>) with the SHA-256 digest they use from Go's
  standard library.

  Texts are ASCII. (\<open>strings.ToLower\<close> maps two letters outside ASCII into it, the Kelvin
  sign and the dotted capital I; no name that passes the name policy holds them.)
\<close>

unbundle bit_operations_syntax

section \<open>SHA-256\<close>

text \<open>FIPS 180-4, on 32-bit words.\<close>

type_synonym w32 = "32 word"

definition sha_k :: "w32 list" where
  "sha_k =
    [1116352408, 1899447441, 3049323471, 3921009573, 961987163, 1508970993, 2453635748, 2870763221,
     3624381080, 310598401, 607225278, 1426881987, 1925078388, 2162078206, 2614888103, 3248222580,
     3835390401, 4022224774, 264347078, 604807628, 770255983, 1249150122, 1555081692, 1996064986,
     2554220882, 2821834349, 2952996808, 3210313671, 3336571891, 3584528711, 113926993, 338241895,
     666307205, 773529912, 1294757372, 1396182291, 1695183700, 1986661051, 2177026350, 2456956037,
     2730485921, 2820302411, 3259730800, 3345764771, 3516065817, 3600352804, 4094571909, 275423344,
     430227734, 506948616, 659060556, 883997877, 958139571, 1322822218, 1537002063, 1747873779,
     1955562222, 2024104815, 2227730452, 2361852424, 2428436474, 2756734187, 3204031479, 3329325298]"

definition sha_h0 :: "w32 list" where
  "sha_h0 = [1779033703, 3144134277, 1013904242, 2773480762, 1359893119, 2600822924, 528734635, 1541459225]"

definition sha_sched_step :: "w32 list \<Rightarrow> nat \<Rightarrow> w32 list" where
  "sha_sched_step w t =
     (let x = w ! (t - 15); y = w ! (t - 2);
          s0 = word_rotr 7 x XOR word_rotr 18 x XOR drop_bit 3 x;
          s1 = word_rotr 17 y XOR word_rotr 19 y XOR drop_bit 10 y
      in w @ [w ! (t - 16) + s0 + w ! (t - 7) + s1])"

definition sha_round :: "w32 list \<Rightarrow> w32 \<times> w32 \<Rightarrow> w32 list" where
  "sha_round v kw =
     (let a = v ! 0; b = v ! 1; c = v ! 2; d = v ! 3; e = v ! 4; f = v ! 5; g = v ! 6; h = v ! 7;
          s1 = word_rotr 6 e XOR word_rotr 11 e XOR word_rotr 25 e;
          ch = (e AND f) XOR (NOT e AND g);
          t1 = h + s1 + ch + fst kw + snd kw;
          s0 = word_rotr 2 a XOR word_rotr 13 a XOR word_rotr 22 a;
          maj = (a AND b) XOR (a AND c) XOR (b AND c)
      in [t1 + (s0 + maj), a, b, c, d + t1, e, f, g])"

definition sha_compress :: "w32 list \<Rightarrow> w32 list \<Rightarrow> w32 list" where
  "sha_compress h block =
     map2 (+) h (foldl sha_round h (zip sha_k (foldl sha_sched_step block [16..<64])))"

text \<open>Big-endian bytes.\<close>

fun be_bytes :: "nat \<Rightarrow> int \<Rightarrow> int list" where
  "be_bytes 0 n = []"
| "be_bytes (Suc k) n = be_bytes k (n div 256) @ [n mod 256]"

definition be_word :: "int list \<Rightarrow> w32" where
  "be_word bs = of_int (foldl (\<lambda>acc b. acc * 256 + b) 0 bs)"

fun chunks :: "nat \<Rightarrow> 'a list \<Rightarrow> 'a list list" where
  "chunks k xs = (if k = 0 \<or> xs = [] then [] else take k xs # chunks k (drop k xs))"

declare chunks.simps [simp del]

definition sha_pad :: "int list \<Rightarrow> int list" where
  "sha_pad msg =
     msg @ [128] @ replicate ((119 - length msg mod 64) mod 64) 0 @ be_bytes 8 (8 * int (length msg))"

definition sha256 :: "int list \<Rightarrow> int list" where
  "sha256 msg =
     concat (map (\<lambda>w. be_bytes 4 (uint w))
       (foldl (\<lambda>h block. sha_compress h (map be_word (chunks 4 block))) sha_h0 (chunks 64 (sha_pad msg))))"

definition hex_digit :: "int \<Rightarrow> char" where
  "hex_digit n = char_of (nat (if n < 10 then n + 48 else n + 87))"

definition hex_encode :: "int list \<Rightarrow> string" where
  "hex_encode bs = concat (map (\<lambda>b. [hex_digit (b div 16), hex_digit (b mod 16)]) bs)"

section \<open>Names\<close>

definition in_range :: "char \<Rightarrow> char \<Rightarrow> char \<Rightarrow> bool" where
  "in_range lo hi c \<longleftrightarrow> (of_char lo :: nat) \<le> of_char c \<and> (of_char c :: nat) \<le> of_char hi"

definition alnum :: "char \<Rightarrow> bool" where
  "alnum c \<longleftrightarrow> in_range (CHR ''a'') (CHR ''z'') c \<or> in_range (CHR ''0'') (CHR ''9'') c"

text \<open>\<open>^[a-z0-9](?:[a-z0-9-]{1,38}[a-z0-9])?$\<close>\<close>

definition dns1123Like :: "string \<Rightarrow> bool" where
  "dns1123Like s \<longleftrightarrow>
     (case s of [] \<Rightarrow> False
      | c # rest \<Rightarrow> alnum c \<and>
          (rest = [] \<or>
           2 \<le> length rest \<and> length rest \<le> 39 \<and> alnum (last rest) \<and>
           list_all (\<lambda>c. alnum c \<or> c = CHR ''-'') (butlast rest)))"

fun consecutiveDash :: "string \<Rightarrow> bool" where
  "consecutiveDash (a # b # s) \<longleftrightarrow> a = CHR ''-'' \<and> b = CHR ''-'' \<or> consecutiveDash (b # s)"
| "consecutiveDash _ \<longleftrightarrow> False"

definition IsValidName :: "string \<Rightarrow> bool" where
  "IsValidName s \<longleftrightarrow>
     \<not> (length s < 3 \<or> length s > 40) \<and> dns1123Like s \<and> \<not> consecutiveDash s"

definition ElasticQuotaName :: "string \<Rightarrow> string \<Rightarrow> string" where
  "ElasticQuotaName tenantName poolName = ''axisml-'' @ tenantName @ ''-'' @ poolName"

section \<open>Physical workload names\<close>

definition shortHash :: "string \<Rightarrow> string" where
  "shortHash raw = take 8 (hex_encode (sha256 (map of_char raw)))"

definition toLower :: "string \<Rightarrow> string" where
  "toLower s = map (\<lambda>c. if in_range (CHR ''A'') (CHR ''Z'') c then char_of ((of_char c :: nat) + 32) else c) s"

definition trimRight :: "string \<Rightarrow> string" where
  "trimRight s = rev (dropWhile (\<lambda>c. c = CHR ''-'') (rev s))"

definition trimDash :: "string \<Rightarrow> string" where
  "trimDash s = trimRight (dropWhile (\<lambda>c. c = CHR ''-'') s)"

text \<open>The loop over the runes: the text built so far and \<open>lastDash\<close>.\<close>

definition dns_step :: "string \<times> bool \<Rightarrow> char \<Rightarrow> string \<times> bool" where
  "dns_step acc c =
     (case acc of (b, lastDash) \<Rightarrow>
        if alnum c then (b @ [c], False)
        else if \<not> lastDash \<and> b \<noteq> [] then (b @ ''-'', True)
        else (b, lastDash))"

definition dnsName :: "string \<Rightarrow> nat \<Rightarrow> string" where
  "dnsName raw limit =
     (let clean = trimDash (fst (foldl dns_step ([], False) (toLower raw)));
          clean = (if clean = [] then ''workload'' else clean)
      in if length clean \<le> limit then clean
         else let hash = shortHash raw
              in trimRight (take (limit - length hash - 1) clean) @ ''-'' @ hash)"

definition Base :: "string \<Rightarrow> string \<Rightarrow> bool \<Rightarrow> string" where
  "Base tenant workload tenantPrefix =
     (if tenantPrefix \<and> tenant \<noteq> []
      then dnsName (tenant @ ''-'' @ shortHash tenant @ ''-'' @ workload) 63
      else dnsName workload 63)"

abbreviation "AnnotationName \<equiv> ''compute.axisml.io/workload-name''"
abbreviation "AnnotationTenantPrefix \<equiv> ''compute.axisml.io/workload-tenant-prefix''"

text \<open>The annotations of the object after \<open>Annotate\<close>.\<close>

definition Annotate :: "(string, string) gomap \<Rightarrow> string \<Rightarrow> string \<Rightarrow> bool \<Rightarrow> (string, string) gomap" where
  "Annotate annotations tenant workload tenantPrefix =
     AList.update AnnotationTenantPrefix (if tenantPrefix then ''true'' else ''false'')
       (AList.update AnnotationName (Base tenant workload tenantPrefix) annotations)"

text \<open>An object's metadata, as the functions below read it.\<close>

record meta =
  meta_name :: string
  meta_annotations :: "(string, string) gomap"

definition Workload :: "meta \<Rightarrow> string" where
  "Workload obj =
     (if sget (meta_annotations obj) AnnotationName \<noteq> [] then sget (meta_annotations obj) AnnotationName
      else meta_name obj)"

definition Role :: "meta \<Rightarrow> string \<Rightarrow> string" where
  "Role obj role =
     (let workload = dnsName (Workload obj) 63;
          role = dnsName role 40;
          limit = 57;
          joined = workload @ ''-'' @ role
      in if length joined \<le> limit then joined
         else let suffix = ''-'' @ shortHash workload @ ''-'' @ role
              in if limit < length suffix + 1 then dnsName joined limit
                 else trimRight (take (limit - length suffix) workload) @ suffix)"

definition Related :: "meta \<Rightarrow> string \<Rightarrow> string \<Rightarrow> string" where
  "Related obj tenant logicalName =
     Base tenant logicalName (sget (meta_annotations obj) AnnotationTenantPrefix = ''true'')"

section \<open>The digest text\<close>

lemma length_be_bytes [simp]: "length (be_bytes k n) = k"
  by (induction k arbitrary: n) auto

lemma be_bytes_range: "b \<in> set (be_bytes k n) \<Longrightarrow> 0 \<le> b \<and> b < 256"
  by (induction k arbitrary: n) auto

lemma length_sha_round [simp]: "length (sha_round v kw) = 8"
  by (simp add: sha_round_def Let_def)

lemma length_foldl_sha_round: "length v = 8 \<Longrightarrow> length (foldl sha_round v kws) = 8"
  by (induction kws arbitrary: v) auto

lemma length_sha_compress [simp]: "length h = 8 \<Longrightarrow> length (sha_compress h block) = 8"
  by (simp add: sha_compress_def length_foldl_sha_round)

lemma length_sha256: "length (sha256 msg) = 32"
proof -
  have "length (foldl (\<lambda>h block. sha_compress h (f block)) h bs) = 8" if "length h = 8"
    for f :: "int list \<Rightarrow> w32 list" and h bs
    using that by (induction bs arbitrary: h) auto
  then show ?thesis by (simp add: sha256_def length_concat o_def sum_list_triv sha_h0_def)
qed

lemma sha256_range: "b \<in> set (sha256 msg) \<Longrightarrow> 0 \<le> b \<and> b < 256"
  by (auto simp: sha256_def dest: be_bytes_range)

lemma alnum_hex_digit: "0 \<le> n \<Longrightarrow> n < 16 \<Longrightarrow> alnum (hex_digit n)"
proof -
  assume "0 \<le> n" "n < 16"
  then have "n \<in> set [0..15]" by simp
  also have "[0..15] = [0, 1, 2, 3, 4, 5, 6, 7, 8, 9, 10, 11, 12, 13, 14, 15]" by code_simp
  finally have "n \<in> {0, 1, 2, 3, 4, 5, 6, 7, 8, 9, 10, 11, 12, 13, 14, 15}" by simp
  then show ?thesis by (auto simp: hex_digit_def alnum_def in_range_def)
qed

lemma hex_encode_alnum: "(\<And>b. b \<in> set bs \<Longrightarrow> 0 \<le> b \<and> b < 256) \<Longrightarrow> c \<in> set (hex_encode bs) \<Longrightarrow> alnum c"
  unfolding hex_encode_def
proof -
  assume bs: "\<And>b. b \<in> set bs \<Longrightarrow> 0 \<le> b \<and> b < 256"
  assume "c \<in> set (concat (map (\<lambda>b. [hex_digit (b div 16), hex_digit (b mod 16)]) bs))"
  then obtain b where b: "b \<in> set bs" "c = hex_digit (b div 16) \<or> c = hex_digit (b mod 16)" by auto
  with bs [of b] have "0 \<le> b div 16" "b div 16 < 16" "0 \<le> b mod 16" "b mod 16 < 16" by auto
  with b(2) show ?thesis using alnum_hex_digit by blast
qed

lemma length_hex_encode [simp]: "length (hex_encode bs) = 2 * length bs"
  by (induction bs) (auto simp: hex_encode_def)

lemma length_shortHash [simp]: "length (shortHash raw) = 8"
  by (simp add: shortHash_def length_sha256)

lemma shortHash_alnum: "c \<in> set (shortHash raw) \<Longrightarrow> alnum c"
  unfolding shortHash_def by (rule hex_encode_alnum [OF sha256_range]) (auto dest: in_set_takeD)

section \<open>DNS labels\<close>

text \<open>What a Kubernetes object name needs: letters, digits and inner dashes.\<close>

definition dns_label :: "string \<Rightarrow> bool" where
  "dns_label s \<longleftrightarrow>
     s \<noteq> [] \<and> alnum (hd s) \<and> alnum (last s) \<and> (\<forall>c\<in>set s. alnum c \<or> c = CHR ''-'')"

lemma alnum_not_dash [simp]: "\<not> alnum (CHR ''-'')"
  by (simp add: alnum_def in_range_def)

lemma shortHash_label: "dns_label (shortHash raw)"
proof -
  have "shortHash raw \<noteq> []" using length_shortHash [of raw] by (metis list.size(3) zero_neq_numeral)
  then show ?thesis
    using shortHash_alnum hd_in_set last_in_set unfolding dns_label_def by metis
qed

lemma dns_label_append:
  "dns_label a \<Longrightarrow> dns_label b \<Longrightarrow> dns_label (a @ ''-'' @ b)"
  by (auto simp: dns_label_def)

text \<open>Trimming the right end of a text that starts with a letter or digit gives a label.\<close>

lemma trimRight_prefix: "\<exists>k. trimRight s = take k s"
proof -
  have "trimRight s = take (length s - length (takeWhile (\<lambda>c. c = CHR ''-'') (rev s))) s"
    unfolding trimRight_def by (simp add: dropWhile_eq_drop rev_drop)
  then show ?thesis by blast
qed

lemma last_trimRight: "trimRight s \<noteq> [] \<Longrightarrow> last (trimRight s) \<noteq> CHR ''-''"
  using hd_dropWhile [of "\<lambda>c. c = CHR ''-''" "rev s"] by (simp add: trimRight_def last_rev)

lemma trimRight_nonempty: "c \<in> set s \<Longrightarrow> c \<noteq> CHR ''-'' \<Longrightarrow> trimRight s \<noteq> []"
  by (auto simp: trimRight_def)

lemma trimRight_label:
  assumes "s \<noteq> []" "alnum (hd s)" "\<forall>c\<in>set s. alnum c \<or> c = CHR ''-''"
  shows "dns_label (trimRight s)"
proof -
  have ne: "trimRight s \<noteq> []"
    using assms(1,2) by (intro trimRight_nonempty [of "hd s"]) auto
  obtain k where k: "trimRight s = take k s" using trimRight_prefix by blast
  with ne have sub: "hd (trimRight s) = hd s" "set (trimRight s) \<subseteq> set s"
    by (auto simp: hd_take dest: in_set_takeD)
  with assms ne last_trimRight [OF ne] show ?thesis
    unfolding dns_label_def by (metis last_in_set subsetD)
qed

lemma length_trimRight: "length (trimRight s) \<le> length s"
  using trimRight_prefix [of s] by (metis length_take min.cobounded1)

text \<open>The loop builds a text without a leading dash.\<close>

lemma dns_fold_shape:
  assumes "foldl dns_step ([], False) s = (b, d)"
  shows "(b \<noteq> [] \<longrightarrow> alnum (hd b)) \<and> (\<forall>c\<in>set b. alnum c \<or> c = CHR ''-'')"
  using assms
proof (induction s arbitrary: b d rule: rev_induct)
  case (snoc c s)
  obtain b' d' where "foldl dns_step ([], False) s = (b', d')" by fastforce
  with snoc.IH [OF this] snoc.prems show ?case
    by (auto simp: dns_step_def [of "(b', d')"] hd_append split: if_splits)
qed simp

lemma dnsName_label:
  assumes "10 \<le> limit"
  shows "dns_label (dnsName raw limit)" "length (dnsName raw limit) \<le> limit"
proof -
  obtain b d where b: "foldl dns_step ([], False) (toLower raw) = (b, d)" by fastforce
  define clean where "clean = (if trimDash b = [] then ''workload'' else trimDash b)"
  have eq: "dnsName raw limit = (if length clean \<le> limit then clean
      else trimRight (take (limit - 9) clean) @ ''-'' @ shortHash raw)"
    by (simp add: dnsName_def b clean_def Let_def)
  have shape: "b \<noteq> [] \<longrightarrow> alnum (hd b)" "\<forall>c\<in>set b. alnum c \<or> c = CHR ''-''"
    using dns_fold_shape [OF b] by auto
  then have "dropWhile (\<lambda>c. c = CHR ''-'') b = b" by (cases b) auto
  then have clean: "dns_label clean"
  proof (cases "b = []")
    case True
    then show ?thesis
      by (simp add: clean_def trimDash_def trimRight_def dns_label_def) (simp add: alnum_def in_range_def)
  next
    case False
    with shape \<open>dropWhile _ b = b\<close> have "dns_label (trimDash b)"
      by (simp add: trimDash_def trimRight_label)
    then show ?thesis by (auto simp: clean_def dns_label_def)
  qed
  let ?cut = "take (limit - 9) clean"
  from clean assms have cut: "?cut \<noteq> []" "alnum (hd ?cut)" "\<forall>c\<in>set ?cut. alnum c \<or> c = CHR ''-''"
    by (auto simp: dns_label_def hd_take dest: in_set_takeD)
  show "dns_label (dnsName raw limit)"
    unfolding eq using clean dns_label_append [OF trimRight_label [OF cut] shortHash_label] by simp
  have "length (trimRight ?cut) \<le> limit - 9"
    using length_trimRight [of ?cut] by simp
  then have "length (trimRight ?cut) + 9 \<le> limit" using assms by linarith
  then show "length (dnsName raw limit) \<le> limit" by (simp add: eq)
qed

text \<open>A label without adjacent dashes within the limit is its own physical name.\<close>

lemma toLower_id: "\<forall>c\<in>set s. alnum c \<or> c = CHR ''-'' \<Longrightarrow> toLower s = s"
  unfolding toLower_def by (rule map_idI) (auto simp: alnum_def in_range_def)

lemma consecutiveDash_append:
  "consecutiveDash (a @ [x, y]) \<longleftrightarrow> consecutiveDash (a @ [x]) \<or> x = CHR ''-'' \<and> y = CHR ''-''"
  by (induction a rule: consecutiveDash.induct) (auto simp: neq_Nil_conv Cons_eq_append_conv)

lemma dns_fold_id:
  "\<forall>c\<in>set s. alnum c \<or> c = CHR ''-'' \<Longrightarrow> s \<noteq> [] \<Longrightarrow> alnum (hd s) \<Longrightarrow> \<not> consecutiveDash s \<Longrightarrow>
     foldl dns_step ([], False) s = (s, last s = CHR ''-'')"
proof (induction s rule: rev_induct)
  case (snoc c s)
  show ?case
  proof (cases s rule: rev_cases)
    case Nil
    with snoc.prems show ?thesis by (auto simp: dns_step_def)
  next
    case (snoc s' x)
    with snoc.IH snoc.prems have "foldl dns_step ([], False) s = (s, last s = CHR ''-'')"
      by (simp add: hd_append consecutiveDash_append split: if_splits)
    moreover have "last s = x" "\<not> (x = CHR ''-'' \<and> c = CHR ''-'')" "s \<noteq> []"
      using snoc snoc.prems by (auto simp: consecutiveDash_append)
    ultimately show ?thesis
      using snoc.prems by (auto simp: dns_step_def [of "(s, _)"])
  qed
qed simp

lemma IsValidName_label:
  assumes "IsValidName s"
  shows "dns_label s" "\<not> consecutiveDash s" "length s \<le> 40"
proof -
  from assms obtain c rest where s: "s = c # rest" "alnum c" "alnum (last rest)" "2 \<le> length rest"
      "list_all (\<lambda>c. alnum c \<or> c = CHR ''-'') (butlast rest)"
    by (cases s) (auto simp: IsValidName_def dns1123Like_def)
  from s(4) have "rest \<noteq> []" by auto
  then have "rest = butlast rest @ [last rest]" by simp
  then have "set rest = set (butlast rest) \<union> {last rest}" by (metis set_append list.set(1,2))
  with s show "dns_label s" by (auto simp: dns_label_def list_all_iff)
  from assms show "\<not> consecutiveDash s" "length s \<le> 40" by (auto simp: IsValidName_def)
qed

lemma dnsName_id:
  assumes "dns_label s" "\<not> consecutiveDash s" "length s \<le> limit"
  shows "dnsName s limit = s"
proof -
  from assms(1) have s: "s \<noteq> []" "alnum (hd s)" "alnum (last s)" "\<forall>c\<in>set s. alnum c \<or> c = CHR ''-''"
    by (auto simp: dns_label_def)
  have "fst (foldl dns_step ([], False) (toLower s)) = s"
    using s assms(2) by (simp add: toLower_id dns_fold_id)
  moreover have "trimDash s = s"
  proof -
    have "dropWhile (\<lambda>c. c = CHR ''-'') s = s" using s(1,2) by (cases s) auto
    moreover have "dropWhile (\<lambda>c. c = CHR ''-'') (rev s) = rev s"
      using s(1,3) by (cases s rule: rev_cases) auto
    ultimately show ?thesis by (simp add: trimDash_def trimRight_def)
  qed
  ultimately show ?thesis using assms(3) s(1) by (simp add: dnsName_def)
qed

section \<open>Properties\<close>

text \<open>
  Every physical name is a DNS label Kubernetes accepts: the base of a workload within 63
  characters and the base of a role within 57, whatever the tenant, the workload and the role
  are called.
\<close>

theorem physical_names_valid:
  "dns_label (Base tenant workload tenantPrefix) \<and> length (Base tenant workload tenantPrefix) \<le> 63 \<and>
   dns_label (Role obj role) \<and> length (Role obj role) \<le> 57"
proof -
  let ?w = "dnsName (Workload obj) 63" and ?r = "dnsName role 40"
  let ?suffix = "''-'' @ shortHash ?w @ ''-'' @ ?r"
  have w: "dns_label ?w" and r: "dns_label ?r" "length ?r \<le> 40"
    by (simp_all add: dnsName_label)
  have "length ?suffix \<le> 50" using r(2) by simp
  let ?cut = "take (57 - length ?suffix) ?w"
  from w \<open>length ?suffix \<le> 50\<close> have "?cut \<noteq> []" "alnum (hd ?cut)"
      "\<forall>c\<in>set ?cut. alnum c \<or> c = CHR ''-''"
    by (auto simp: dns_label_def hd_take dest: in_set_takeD)
  then have "dns_label (trimRight ?cut)" by (rule trimRight_label)
  then have long: "dns_label (trimRight ?cut @ ?suffix)"
    using dns_label_append [OF dns_label_append [OF _ shortHash_label] r(1)] by simp
  have len: "length (trimRight ?cut) \<le> 57 - length ?suffix"
    using length_trimRight [of ?cut] by simp
  have "dns_label (Role obj role) \<and> length (Role obj role) \<le> 57"
    using w r long len dnsName_label [of 57] dns_label_append [OF w r(1)]
    by (auto simp: Role_def Let_def)
  then show ?thesis by (simp add: Base_def dnsName_label)
qed

text \<open>
  A name that passes the name policy is its own physical name when tenants are not
  prefixed, and an object annotated for it is found under that name.
\<close>

theorem valid_name_is_physical:
  assumes "IsValidName workload"
  shows "Base tenant workload False = workload \<and>
     Workload \<lparr>meta_name = other, meta_annotations = Annotate annotations tenant workload False\<rparr> = workload"
proof -
  from assms have "length workload \<le> 63" "workload \<noteq> []"
    using IsValidName_label(1,3) [OF assms] by (auto simp: dns_label_def)
  with IsValidName_label [OF assms] show ?thesis
    by (simp add: Base_def dnsName_id Workload_def Annotate_def sget_def)
qed

theorem valid_name_is_physical_witness:
  "Base ''t'' ''train-1'' False = ''train-1''"
proof -
  have "IsValidName ''train-1''" by code_simp
  from valid_name_is_physical [OF this, of "''t''"] show ?thesis by simp
qed

end
