(* ===== verification/Placement.thy ===== *)
theory Placement
  imports Resources
begin

text \<open>
  The capacity side of admission (\<^verbatim>\<open>compute-service/internal/admission/controller.go\<close>):
  the node inventory \<open>nodeState\<close>, the capacity override \<open>resourceBudget\<close>, and
  \<open>admissionState\<close>, which holds both. The snapshot types are those of
  \<^verbatim>\<open>compute-service/pkg/extensions/admission.go\<close>.

  The Go methods mutate their receiver, also when they fail half way; the model returns the
  receiver with the result. \<open>clone\<close> copies every map that \<open>place\<close> writes to, so a trial
  placement and the state it was cloned from share nothing that changes, and value semantics
  describes them.
\<close>

section \<open>Definitions\<close>

abbreviation "ReasonInventoryUnavailable \<equiv> ''InventoryUnavailable''"
abbreviation "ReasonQuotaUnavailable \<equiv> ''QuotaUnavailable''"
abbreviation "ReasonQuotaExceeded \<equiv> ''QuotaExceeded''"
abbreviation "ReasonResourcePoolUnavailable \<equiv> ''ResourcePoolUnavailable''"
abbreviation "ReasonNoMatchingNode \<equiv> ''NoMatchingNode''"
abbreviation "ReasonInsufficientResources \<equiv> ''InsufficientResources''"

record 'q ResourceNode =
  rn_name :: string
  rn_labels :: "(string, string) gomap"
  rn_taints :: "taint list"
  rn_allocatable :: "'q resource_list"

record 'q ResourceAllocation =
  ra_nodeName :: string
  ra_workloadID :: string
  ra_role :: string
  ra_replica :: string
  ra_requests :: "'q resource_list"

record 'q ResourceSnapshot =
  rs_observedAt :: nat
  rs_sourceVersion :: string
  rs_nodes :: "'q ResourceNode list"
  rs_allocations :: "'q ResourceAllocation list"

record 'q nodeState =
  ns_nodes :: "'q nodeAvailable list"

record 'q resourceBudget =
  rb_remaining :: "'q resource_list"

record 'q admissionState =
  as_nodes :: "'q nodeState"
  as_overrides :: "(string, 'q resourceBudget) gomap"
  as_unavailable :: "(string, err) gomap"

text \<open>The inner loop of \<open>newNodeState\<close>: the first node of that name loses the requests.\<close>

fun subtract_first ::
  "string \<Rightarrow> 'q::linordered_ab_group_add resource_list \<Rightarrow> 'q nodeAvailable list \<Rightarrow> 'q nodeAvailable list" where
  "subtract_first name requests [] = []"
| "subtract_first name requests (node # nodes) =
     (if na_name node = name
      then node\<lparr>na_available := subtractList (na_available node) requests\<rparr> # nodes
      else node # subtract_first name requests nodes)"

definition newNodeState :: "'q::linordered_ab_group_add ResourceSnapshot \<Rightarrow> 'q nodeState" where
  "newNodeState snapshot =
     (let nodes = map (\<lambda>node. \<lparr>na_name = rn_name node, na_labels = rn_labels node,
                        na_taints = rn_taints node, na_available = copyList (rn_allocatable node)\<rparr>)
                    (rs_nodes snapshot)
      in \<lparr>ns_nodes = foldl (\<lambda>nodes a. subtract_first (ra_nodeName a) (ra_requests a) nodes)
                       nodes (rs_allocations snapshot)\<rparr>)"

definition nodeState_clone :: "'q nodeState \<Rightarrow> 'q nodeState" where
  "nodeState_clone s =
     \<lparr>ns_nodes = map (\<lambda>node. node\<lparr>na_available := copyList (na_available node)\<rparr>) (ns_nodes s)\<rparr>"

definition nodeState_exhaust :: "'q::zero nodeState \<Rightarrow> 'q nodeState" where
  "nodeState_exhaust s =
     \<lparr>ns_nodes = map (\<lambda>node. node\<lparr>na_available := map (\<lambda>(name, quantity). (name, 0)) (na_available node)\<rparr>)
                   (ns_nodes s)\<rparr>"

text \<open>One pass over the nodes: whether any is eligible, and the best one that fits.\<close>

definition scan_node ::
  "'q::linordered_ab_group_add nodeAvailable list \<Rightarrow> 'q resource_list \<Rightarrow> (string, string) gomap \<Rightarrow>
   toleration list \<Rightarrow> bool \<times> nat option \<Rightarrow> nat \<Rightarrow> bool \<times> nat option" where
  "scan_node nodes requests selector tolerations acc i =
     (case acc of (eligible, best) \<Rightarrow>
        if \<not> matches (nodes ! i) selector tolerations then (eligible, best)
        else if \<not> fits (na_available (nodes ! i)) requests then (True, best)
        else (True, case best of
                      None \<Rightarrow> Some i
                    | Some b \<Rightarrow> if betterFit (nodes ! i) (nodes ! b) requests then Some i else Some b))"

definition scan_nodes ::
  "'q::linordered_ab_group_add nodeAvailable list \<Rightarrow> 'q resource_list \<Rightarrow> (string, string) gomap \<Rightarrow>
   toleration list \<Rightarrow> bool \<times> nat option" where
  "scan_nodes nodes requests selector tolerations =
     foldl (scan_node nodes requests selector tolerations) (False, None) [0..<length nodes]"

text \<open>The body of the replica loop of \<open>nodeState.place\<close>.\<close>

definition nodeState_step ::
  "'q::linordered_ab_group_add resource_list \<Rightarrow> (string, string) gomap \<Rightarrow> toleration list \<Rightarrow>
   'q nodeState \<Rightarrow> string + 'q nodeState" where
  "nodeState_step requests selector tolerations s =
     (case scan_nodes (ns_nodes s) requests selector tolerations of
        (eligible, None) \<Rightarrow> Inl (if \<not> eligible then ReasonNoMatchingNode else ReasonInsufficientResources)
      | (eligible, Some best) \<Rightarrow>
          Inr (s\<lparr>ns_nodes := (ns_nodes s)[best := (ns_nodes s ! best)
                   \<lparr>na_available := subtractList (na_available (ns_nodes s ! best)) requests\<rparr>]\<rparr>))"

text \<open>A replica loop: on failure the receiver keeps what earlier replicas took.\<close>

fun place_loop :: "('s \<Rightarrow> string + 's) \<Rightarrow> nat \<Rightarrow> 's \<Rightarrow> 's \<times> bool \<times> string" where
  "place_loop step 0 s = (s, True, [])"
| "place_loop step (Suc n) s =
     (case step s of Inl why \<Rightarrow> (s, False, why) | Inr s' \<Rightarrow> place_loop step n s')"

definition nodeState_place ::
  "'q::linordered_ab_group_add nodeState \<Rightarrow> 'q resource_list \<Rightarrow> int \<Rightarrow> (string, string) gomap \<Rightarrow>
   toleration list \<Rightarrow> 'q nodeState \<times> bool \<times> string" where
  "nodeState_place s requests replicas selector tolerations =
     place_loop (nodeState_step requests selector tolerations) (nat replicas) s"

definition budget_step ::
  "'q::linordered_ab_group_add resource_list \<Rightarrow> 'q resourceBudget \<Rightarrow> string + 'q resourceBudget" where
  "budget_step requests b =
     (if \<not> fits (rb_remaining b) requests then Inl []
      else Inr (b\<lparr>rb_remaining := subtractList (rb_remaining b) requests\<rparr>))"

definition budget_place ::
  "'q::linordered_ab_group_add resourceBudget \<Rightarrow> 'q resource_list \<Rightarrow> int \<Rightarrow> 'q resourceBudget \<times> bool" where
  "budget_place b requests replicas =
     (case place_loop (budget_step requests) (nat replicas) b of (b', placed, _) \<Rightarrow> (b', placed))"

definition admissionState_clone :: "'q admissionState \<Rightarrow> 'q admissionState" where
  "admissionState_clone s =
     \<lparr>as_nodes = nodeState_clone (as_nodes s),
      as_overrides = map (\<lambda>(pool, budget). (pool, \<lparr>rb_remaining = copyList (rb_remaining budget)\<rparr>))
                       (as_overrides s),
      as_unavailable = as_unavailable s\<rparr>"

definition admissionState_replace :: "'q admissionState \<Rightarrow> 'q admissionState \<Rightarrow> 'q admissionState" where
  "admissionState_replace s next =
     s\<lparr>as_nodes := as_nodes next, as_overrides := as_overrides next,
       as_unavailable := as_unavailable next\<rparr>"

definition admissionState_place ::
  "'q::linordered_ab_group_add admissionState \<Rightarrow> string \<Rightarrow> 'q resource_list \<Rightarrow> int \<Rightarrow>
   (string, string) gomap \<Rightarrow> toleration list \<Rightarrow> 'q admissionState \<times> bool \<times> string" where
  "admissionState_place s pool requests replicas selector tolerations =
     (if map_of (as_unavailable s) pool \<noteq> None then (s, False, ReasonResourcePoolUnavailable)
      else case map_of (as_overrides s) pool of
        Some budget \<Rightarrow>
          (case budget_place budget requests replicas of (budget', placed) \<Rightarrow>
             let s' = s\<lparr>as_overrides := AList.update pool budget' (as_overrides s)\<rparr>
             in if \<not> placed then (s', False, ReasonInsufficientResources)
                else (s'\<lparr>as_nodes := fst (nodeState_place (as_nodes s') requests replicas
                                             selector tolerations)\<rparr>, True, []))
      | None \<Rightarrow>
          (case nodeState_place (as_nodes s) requests replicas selector tolerations of
             (nodes, placed, why) \<Rightarrow> (s\<lparr>as_nodes := nodes\<rparr>, placed, why)))"

definition admissionState_reserveMissing ::
  "'q::linordered_ab_group_add admissionState \<Rightarrow> string \<Rightarrow> 'q resource_list \<Rightarrow> int \<Rightarrow>
   (string, string) gomap \<Rightarrow> toleration list \<Rightarrow> 'q admissionState \<times> bool" where
  "admissionState_reserveMissing s pool requests replicas selector tolerations =
     (case nodeState_place (as_nodes s) requests replicas selector tolerations of
        (nodes, placed, _) \<Rightarrow>
          if map_of (as_overrides s) pool \<noteq> None then (s\<lparr>as_nodes := nodes\<rparr>, True)
          else if \<not> placed then (s\<lparr>as_nodes := nodeState_exhaust nodes\<rparr>, False)
          else (s\<lparr>as_nodes := nodes\<rparr>, True))"

section \<open>The scan picks a best fit\<close>

text \<open>What the scan has established after the first \<open>k\<close> nodes.\<close>

definition scanned ::
  "'q::linordered_ab_group_add nodeAvailable list \<Rightarrow> 'q resource_list \<Rightarrow> (string, string) gomap \<Rightarrow>
   toleration list \<Rightarrow> nat \<Rightarrow> bool \<times> nat option \<Rightarrow> bool" where
  "scanned nodes r sel tol k acc \<longleftrightarrow>
     (fst acc \<longleftrightarrow> (\<exists>i<k. matches (nodes ! i) sel tol)) \<and>
     (case snd acc of
        None \<Rightarrow> \<forall>i<k. matches (nodes ! i) sel tol \<longrightarrow> \<not> fits (na_available (nodes ! i)) r
      | Some b \<Rightarrow> b < k \<and> matches (nodes ! b) sel tol \<and> fits (na_available (nodes ! b)) r \<and>
          (\<forall>i<k. matches (nodes ! i) sel tol \<and> fits (na_available (nodes ! i)) r
             \<longrightarrow> \<not> betterFit (nodes ! i) (nodes ! b) r))"

lemma scan_node_scanned:
  assumes "scanned nodes r sel tol k acc"
  shows "scanned nodes r sel tol (Suc k) (scan_node nodes r sel tol acc k)"
proof -
  obtain el best where acc: "acc = (el, best)" by (cases acc)
  show ?thesis
  proof (cases best)
    case None
    with assms acc show ?thesis
      by (auto simp: scanned_def scan_node_def less_Suc_eq betterFit.irrefl)
  next
    case (Some b)
    have "\<not> betterFit (nodes ! i) (nodes ! k) r"
      if "\<not> betterFit (nodes ! i) (nodes ! b) r" "betterFit (nodes ! k) (nodes ! b) r" for i
      using that betterFit.trans by blast
    with Some assms acc show ?thesis
      by (auto simp: scanned_def scan_node_def less_Suc_eq betterFit.irrefl)
  qed
qed

lemma scan_nodes_scanned: "scanned nodes r sel tol (length nodes) (scan_nodes nodes r sel tol)"
proof -
  have "scanned nodes r sel tol k (foldl (scan_node nodes r sel tol) (False, None) [0..<k])" for k
    by (induction k) (simp_all add: scanned_def [of _ _ _ _ 0] scan_node_scanned)
  then show ?thesis by (simp add: scan_nodes_def)
qed

lemma scan_nodes_Some:
  assumes "scan_nodes nodes r sel tol = (el, Some b)"
  shows "b < length nodes" "matches (nodes ! b) sel tol" "fits (na_available (nodes ! b)) r"
    and "i < length nodes \<Longrightarrow> matches (nodes ! i) sel tol \<Longrightarrow> fits (na_available (nodes ! i)) r
           \<Longrightarrow> \<not> betterFit (nodes ! i) (nodes ! b) r"
  using scan_nodes_scanned [of nodes r sel tol] assms by (auto simp: scanned_def)

lemma scan_nodes_None:
  assumes "scan_nodes nodes r sel tol = (el, None)"
  shows "el \<longleftrightarrow> (\<exists>n\<in>set nodes. matches n sel tol)"
    and "n \<in> set nodes \<Longrightarrow> matches n sel tol \<Longrightarrow> \<not> fits (na_available n) r"
  using scan_nodes_scanned [of nodes r sel tol] assms
  by (auto simp: scanned_def set_conv_nth)

section \<open>The reservation contract\<close>

text \<open>\<open>k\<close> times a quantity.\<close>

definition times_q :: "nat \<Rightarrow> 'q::linordered_ab_group_add \<Rightarrow> 'q" where
  "times_q k q = sum_list (replicate k q)"

lemma times_q_simps [simp]: "times_q 0 q = 0" "times_q (Suc k) q = q + times_q k q"
  by (simp_all add: times_q_def)

lemma times_q_nonneg: "0 \<le> q \<Longrightarrow> 0 \<le> times_q k q"
  by (induction k) auto

text \<open>
  What a provider of capacity promises of one replica step: a replica that is placed leaves the
  provider well-formed and lowers the level of every resource by exactly the amount the replica
  asks for. A replica loop over such a provider then accounts for every replica it placed, also
  when a later replica fails.
\<close>

locale reservation =
  fixes step :: "'r \<Rightarrow> 's \<Rightarrow> string + 's"
    and level :: "'s \<Rightarrow> string \<Rightarrow> 'q::linordered_ab_group_add"
    and amount :: "'r \<Rightarrow> string \<Rightarrow> 'q"
    and ok :: "'s \<Rightarrow> bool"
    and ok_request :: "'r \<Rightarrow> bool"
  assumes step_ok: "ok s \<Longrightarrow> ok_request r \<Longrightarrow> step r s = Inr s' \<Longrightarrow> ok s'"
    and step_level: "ok s \<Longrightarrow> ok_request r \<Longrightarrow> step r s = Inr s' \<Longrightarrow>
                       level s' n = level s n - amount r n"
begin

lemma loop_ok: "ok s \<Longrightarrow> ok_request r \<Longrightarrow> place_loop (step r) k s = (s', placed, why) \<Longrightarrow> ok s'"
  by (induction k arbitrary: s) (auto split: sum.splits intro: step_ok)

lemma loop_placed:
  "ok s \<Longrightarrow> ok_request r \<Longrightarrow> place_loop (step r) k s = (s', True, why) \<Longrightarrow>
     level s' n = level s n - times_q k (amount r n)"
proof (induction k arbitrary: s)
  case (Suc k)
  then obtain t where t: "step r s = Inr t" "place_loop (step r) k t = (s', True, why)"
    by (auto split: sum.splits)
  with Suc.prems have "ok t" by (blast intro: step_ok)
  from Suc.IH [OF this Suc.prems(2) t(2)] step_level [OF Suc.prems(1,2) t(1), of n]
  show ?case by (simp add: algebra_simps)
qed simp

lemma loop_partial:
  "ok s \<Longrightarrow> ok_request r \<Longrightarrow> place_loop (step r) k s = (s', False, why) \<Longrightarrow>
     \<exists>j<k. (\<forall>n. level s' n = level s n - times_q j (amount r n)) \<and> step r s' = Inl why"
proof (induction k arbitrary: s)
  case (Suc k)
  show ?case
  proof (cases "step r s")
    case (Inl w)
    with Suc.prems show ?thesis by (intro exI [of _ 0]) auto
  next
    case (Inr t)
    with Suc.prems have "ok t" "place_loop (step r) k t = (s', False, why)" by (auto intro: step_ok)
    then obtain j where "j < k" "\<forall>n. level s' n = level t n - times_q j (amount r n)"
        "step r s' = Inl why"
      using Suc.IH Suc.prems(2) by blast
    with Inr Suc.prems(1,2) show ?thesis
      by (intro exI [of _ "Suc j"]) (auto simp: step_level algebra_simps)
  qed
qed simp

end

text \<open>Well-formed resource lists: a map with no negative entry.\<close>

definition wf_rl :: "'q::linordered_ab_group_add resource_list \<Rightarrow> bool" where
  "wf_rl m \<longleftrightarrow> wf_map m \<and> (\<forall>(n, q)\<in>set m. 0 \<le> q)"

lemma wf_rl_rget: "wf_rl m \<Longrightarrow> 0 \<le> rget m n"
  by (auto simp: wf_rl_def rget_def dest: map_of_SomeD split: option.split)

lemma wf_rl_map [simp]: "wf_rl m \<Longrightarrow> wf_map m"
  by (simp add: wf_rl_def)

lemma wf_rl_iff: "wf_rl m \<longleftrightarrow> wf_map m \<and> (\<forall>n. 0 \<le> rget m n)"
proof
  assume "wf_map m \<and> (\<forall>n. 0 \<le> rget m n)"
  then show "wf_rl m" by (force simp: wf_rl_def wf_map_in_set dest: rget_Some)
qed (simp add: wf_rl_rget)

lemma wf_rl_subtractList [simp]: "wf_rl a \<Longrightarrow> wf_map r \<Longrightarrow> wf_rl (subtractList a r)"
  by (simp add: wf_rl_iff rget_subtract_nonneg)

lemma wf_rl_sumLists [simp]: "wf_rl a \<Longrightarrow> wf_rl b \<Longrightarrow> wf_rl (sumLists a b)"
  by (simp add: wf_rl_iff rget_sumLists)

lemma wf_rl_Nil [simp]: "wf_rl []"
  by (simp add: wf_rl_def)

definition wf_budget :: "'q::linordered_ab_group_add resourceBudget \<Rightarrow> bool" where
  "wf_budget b \<longleftrightarrow> wf_rl (rb_remaining b)"

definition wf_nodes :: "'q::linordered_ab_group_add nodeState \<Rightarrow> bool" where
  "wf_nodes s \<longleftrightarrow> (\<forall>node\<in>set (ns_nodes s). wf_rl (na_available node))"

text \<open>What is left of a resource over all nodes.\<close>

definition node_level :: "'q::linordered_ab_group_add nodeState \<Rightarrow> string \<Rightarrow> 'q" where
  "node_level s n = (\<Sum>node\<leftarrow>ns_nodes s. rget (na_available node) n)"

interpretation budget: reservation budget_step "\<lambda>b n. rget (rb_remaining b) n" rget wf_budget wf_map
  by unfold_locales
     (auto simp: budget_step_def wf_budget_def rget_subtract_fits split: if_splits)

lemma sum_list_update_diff:
  "i < length xs \<Longrightarrow> f y = f (xs ! i) - (d::'q::ab_group_add) \<Longrightarrow>
   (\<Sum>x\<leftarrow>xs[i := y]. f x) = (\<Sum>x\<leftarrow>xs. f x) - d"
  by (induction xs arbitrary: i) (auto simp: algebra_simps split: nat.split)

lemma nodeState_step_cases:
  assumes "nodeState_step r sel tol s = Inr s'"
  obtains b where "b < length (ns_nodes s)" "matches (ns_nodes s ! b) sel tol"
    "fits (na_available (ns_nodes s ! b)) r"
    "\<And>i. i < length (ns_nodes s) \<Longrightarrow> matches (ns_nodes s ! i) sel tol \<Longrightarrow>
        fits (na_available (ns_nodes s ! i)) r \<Longrightarrow> \<not> betterFit (ns_nodes s ! i) (ns_nodes s ! b) r"
    "s' = s\<lparr>ns_nodes := (ns_nodes s)[b := (ns_nodes s ! b)
             \<lparr>na_available := subtractList (na_available (ns_nodes s ! b)) r\<rparr>]\<rparr>"
  using assms scan_nodes_Some [of "ns_nodes s" r sel tol]
  by (auto simp: nodeState_step_def split: prod.splits option.splits)

text \<open>A node request carries its selector and tolerations.\<close>

type_synonym 'q node_request = "'q resource_list \<times> (string, string) gomap \<times> toleration list"

definition request_step ::
  "'q::linordered_ab_group_add node_request \<Rightarrow> 'q nodeState \<Rightarrow> string + 'q nodeState" where
  "request_step r s = nodeState_step (fst r) (fst (snd r)) (snd (snd r)) s"

interpretation nodes: reservation request_step node_level "\<lambda>r. rget (fst r)" wf_nodes "\<lambda>r. wf_map (fst r)"
proof
  fix s s' :: "'a nodeState" and r :: "'a node_request" and n
  assume s: "wf_nodes s" "wf_map (fst r)" "request_step r s = Inr s'"
  from s(3) obtain b where b: "b < length (ns_nodes s)" "fits (na_available (ns_nodes s ! b)) (fst r)"
      "s' = s\<lparr>ns_nodes := (ns_nodes s)[b := (ns_nodes s ! b)
             \<lparr>na_available := subtractList (na_available (ns_nodes s ! b)) (fst r)\<rparr>]\<rparr>"
    unfolding request_step_def by (rule nodeState_step_cases)
  from s(1,2) b show "wf_nodes s'"
    by (auto simp: wf_nodes_def dest!: set_update_subset_insert [THEN subsetD])
  from s(2) b show "node_level s' n = node_level s n - rget (fst r) n"
    by (simp add: node_level_def sum_list_update_diff rget_subtract_fits)
qed

section \<open>Placement on nodes and on a whole admission state\<close>

lemma nodeState_place_loop:
  "nodeState_place s r replicas sel tol = place_loop (request_step (r, sel, tol)) (nat replicas) s"
proof -
  have "request_step (r, sel, tol) = nodeState_step r sel tol"
    by (simp add: fun_eq_iff request_step_def)
  then show ?thesis by (simp add: nodeState_place_def)
qed

lemma nodeState_place_wf:
  "wf_nodes s \<Longrightarrow> wf_map r \<Longrightarrow> nodeState_place s r replicas sel tol = (s', placed, why) \<Longrightarrow> wf_nodes s'"
  unfolding nodeState_place_loop by (rule nodes.loop_ok) auto

lemma nodeState_place_level:
  "wf_nodes s \<Longrightarrow> wf_map r \<Longrightarrow> nodeState_place s r replicas sel tol = (s', True, why) \<Longrightarrow>
     node_level s' n = node_level s n - times_q (nat replicas) (rget r n)"
  unfolding nodeState_place_loop
  using nodes.loop_placed [of s "(r, sel, tol)" "nat replicas" s' why n] by simp

lemma nodeState_place_partial:
  "wf_nodes s \<Longrightarrow> wf_map r \<Longrightarrow> nodeState_place s r replicas sel tol = (s', False, why) \<Longrightarrow>
     \<exists>j<nat replicas. (\<forall>n. node_level s' n = node_level s n - times_q j (rget r n)) \<and>
       nodeState_step r sel tol s' = Inl why"
  unfolding nodeState_place_loop
  using nodes.loop_partial [of s "(r, sel, tol)" "nat replicas" s' why] by (simp add: request_step_def)

lemma node_level_nonneg: "wf_nodes s \<Longrightarrow> 0 \<le> node_level s n"
  unfolding node_level_def wf_nodes_def by (rule sum_list_nonneg) (auto simp: wf_rl_rget)

lemma budget_place_wf:
  "wf_budget b \<Longrightarrow> wf_map r \<Longrightarrow> budget_place b r replicas = (b', placed) \<Longrightarrow> wf_budget b'"
  by (auto simp: budget_place_def split: prod.splits dest: budget.loop_ok)

lemma budget_place_level:
  "wf_budget b \<Longrightarrow> wf_map r \<Longrightarrow> budget_place b r replicas = (b', True) \<Longrightarrow>
     rget (rb_remaining b') n = rget (rb_remaining b) n - times_q (nat replicas) (rget r n)"
  by (auto simp: budget_place_def split: prod.splits dest: budget.loop_placed)

definition wf_state :: "'q::linordered_ab_group_add admissionState \<Rightarrow> bool" where
  "wf_state s \<longleftrightarrow> wf_nodes (as_nodes s) \<and>
     (\<forall>pool b. map_of (as_overrides s) pool = Some b \<longrightarrow> wf_budget b)"

lemma nodeState_clone_id [simp]: "nodeState_clone s = s"
  by (simp add: nodeState_clone_def)

lemma admissionState_clone_id [simp]: "admissionState_clone s = s"
proof -
  have "map (\<lambda>(pool, budget). (pool, \<lparr>rb_remaining = rb_remaining budget\<rparr>)) os = os"
    for os :: "(string, 'a resourceBudget) gomap"
    by (induction os) auto
  then show ?thesis by (simp add: admissionState_clone_def)
qed

lemma admissionState_replace_eq [simp]: "admissionState_replace s t = t"
  by (simp add: admissionState_replace_def)

lemma wf_nodes_exhaust [simp]: "wf_nodes s \<Longrightarrow> wf_nodes (nodeState_exhaust s)"
  unfolding wf_nodes_def nodeState_exhaust_def
  by (force simp: wf_rl_def wf_map_def o_def case_prod_unfold)

lemma admissionState_place_wf:
  assumes "wf_state s" "wf_map r" "admissionState_place s pool r k sel tol = (s', placed, why)"
  shows "wf_state s'"
proof -
  have "wf_nodes (fst (nodeState_place (as_nodes s) r k sel tol))"
    using assms(1,2) nodeState_place_wf [of "as_nodes s" r k sel tol]
    by (cases "nodeState_place (as_nodes s) r k sel tol") (auto simp: wf_state_def)
  moreover have "wf_budget (fst (budget_place b r k))" if "map_of (as_overrides s) pool = Some b" for b
    using assms(1,2) that budget_place_wf [of b r k]
    by (cases "budget_place b r k") (auto simp: wf_state_def)
  ultimately show ?thesis
    using assms(1,3)
    by (auto simp: admissionState_place_def wf_state_def Let_def
             split: if_splits option.splits prod.splits)
qed

lemma admissionState_reserveMissing_wf:
  assumes "wf_state s" "wf_map r" "admissionState_reserveMissing s pool r k sel tol = (s', ok)"
  shows "wf_state s'"
proof -
  obtain nodes placed why where p: "nodeState_place (as_nodes s) r k sel tol = (nodes, placed, why)"
    by (cases "nodeState_place (as_nodes s) r k sel tol")
  with assms(1,2) have "wf_nodes nodes"
    by (auto simp: wf_state_def intro: nodeState_place_wf)
  with p assms(1,3) show ?thesis
    by (auto simp: admissionState_reserveMissing_def wf_state_def split: if_splits)
qed

end
