(* ===== verification/Admission.thy ===== *)
theory Admission
  imports Placement Store
begin

text \<open>
  The admission controller (\<^verbatim>\<open>compute-service/internal/admission/controller.go\<close>): durable
  admission of service increments and queued runs against tenant quotas and current capacity.

  The two tables are explicit state. Every SQL statement of the pass may fail: \<open>fault\<close> gives
  the error of a statement, if any, and the pass returns it as the code does, which rolls the
  transaction back. \<open>now\<close> is the time GORM writes to \<open>updated_at\<close>. The resource
  inventory, the quota resolver and the pool resolver are interfaces with several providers;
  here they are the arguments \<open>snapshot\<close>, \<open>quotas\<close> and \<open>pools\<close>, with no
  assumption on what they answer. Log and metric calls write nothing the program reads.
\<close>

section \<open>Workloads\<close>

record 'q db =
  mlruns :: "'q MLRun list"
  mlservices :: "'q MLService list"

datatype stmt =
    CountQueuedRuns | ListQueuedRuns | ListPendingServices | ListActiveRuns | ListActiveServices
  | PoolNamesOfRuns | PoolNamesOfServices | AdvisoryLock
  | ListServicesForUpdate | ListQueuedForAdmission | UpdateRun string | UpdateService string

type_synonym quotaKey = "string \<times> string"

definition poolFromLabels :: "(string, string) gomap json \<Rightarrow> string" where
  "poolFromLabels raw = sget (json_lenient [] raw) LabelResourcePool"

record 'q desiredWorkload =
  w_id :: string
  w_tenant :: string
  w_pool :: string
  w_nodeSelector :: "(string, string) gomap"
  w_tolerations :: "toleration list"
  w_roles :: "'q roleRequest list"
  w_reserveMissing :: bool

text \<open>The inner loop of \<open>totalRequests\<close> and of the reservation loops: add \<open>n\<close> times.\<close>

fun add_times ::
  "nat \<Rightarrow> 'q::linordered_ab_group_add resource_list \<Rightarrow> 'q resource_list \<Rightarrow> 'q resource_list" where
  "add_times 0 requests acc = acc"
| "add_times (Suc n) requests acc = add_times n requests (sumLists acc requests)"

definition totalRequests :: "'q::linordered_ab_group_add roleRequest list \<Rightarrow> 'q resource_list" where
  "totalRequests roles =
     foldl (\<lambda>total role. add_times (nat (rr_replicas role)) (rr_requests role) total) [] roles"

definition runWorkload :: "'q::linordered_ab_group_add MLRun \<Rightarrow> err + 'q desiredWorkload" where
  "runWorkload row =
     (case json_decode (run_spec row) of
        None \<Rightarrow> Inl (EDecode ''mlrun spec'')
      | Some spec \<Rightarrow>
          Inr \<lparr>w_id = run_id row, w_tenant = run_namespace row, w_pool = poolFromLabels (run_labels row),
               w_nodeSelector = sch_nodeSelector (rs_scheduling spec),
               w_tolerations = sch_tolerations (rs_scheduling spec),
               w_roles = stableRoleOrder
                 (map (\<lambda>role. \<lparr>rr_name = role_name role, rr_replicas = role_replicas role,
                                rr_requests = copyList (pt_requests (role_template role))\<rparr>)
                    (filter (\<lambda>role. role_replicas role > 0) (rs_roles spec))),
               w_reserveMissing = (run_phase row \<noteq> RunDeleting)\<rparr>)"

definition serviceWorkloadFor ::
  "'q::linordered_ab_group_add MLService \<Rightarrow> 'q MLServiceSpec \<Rightarrow> int list \<Rightarrow> 'q desiredWorkload" where
  "serviceWorkloadFor row spec replicas =
     \<lparr>w_id = svc_id row, w_tenant = svc_namespace row, w_pool = poolFromLabels (svc_labels row),
      w_nodeSelector = sch_nodeSelector (ss_scheduling spec),
      w_tolerations = sch_tolerations (ss_scheduling spec),
      w_roles = stableRoleOrder
        (map (\<lambda>i. \<lparr>rr_name = role_name (ss_roles spec ! i), rr_replicas = replicas ! i,
                    rr_requests = copyList (pt_requests (role_template (ss_roles spec ! i)))\<rparr>)
           (filter (\<lambda>i. i < length replicas \<and> replicas ! i > 0) [0..<length (ss_roles spec)])),
      w_reserveMissing = (svc_phase row \<noteq> SvcDeleting)\<rparr>"

definition serviceWorkload :: "'q::linordered_ab_group_add MLService \<Rightarrow> err + 'q desiredWorkload" where
  "serviceWorkload row =
     (case json_decode (svc_spec row) of
        None \<Rightarrow> Inl (EDecode ''mlservice spec'')
      | Some spec \<Rightarrow>
          let desired = Desired (role_counts spec);
              admitted = Decode (svc_admitted row) (length (ss_roles spec)) desired
          in Inr (serviceWorkloadFor row spec admitted))"

section \<open>Usage of active workloads\<close>

type_synonym 'q usage = "(quotaKey, 'q resource_list) gomap"
type_synonym actual_counts = "(string, (string, int) gomap) gomap"

text \<open>\<open>usage[key]\<close>: the nil list when the key is absent.\<close>

definition uget :: "'q usage \<Rightarrow> quotaKey \<Rightarrow> 'q resource_list" where
  "uget usage key = (case map_of usage key of None \<Rightarrow> [] | Some r \<Rightarrow> r)"

definition usage_add ::
  "'q::linordered_ab_group_add usage \<Rightarrow> quotaKey \<Rightarrow> 'q resource_list \<Rightarrow> 'q usage" where
  "usage_add usage key r = AList.update key (sumLists (uget usage key) r) usage"

definition iget :: "(string, int) gomap \<Rightarrow> string \<Rightarrow> int" where
  "iget m k = (case map_of m k of None \<Rightarrow> 0 | Some n \<Rightarrow> n)"

text \<open>\<open>actual[id][role]\<close>\<close>

definition aget :: "actual_counts \<Rightarrow> string \<Rightarrow> string \<Rightarrow> int" where
  "aget actual i role = (case map_of actual i of None \<Rightarrow> 0 | Some roles \<Rightarrow> iget roles role)"

fun collect :: "('a \<Rightarrow> err + 'b) \<Rightarrow> 'a list \<Rightarrow> err + 'b list" where
  "collect f [] = Inr []"
| "collect f (x # xs) =
     (case f x of Inl e \<Rightarrow> Inl e
      | Inr y \<Rightarrow> (case collect f xs of Inl e \<Rightarrow> Inl e | Inr ys \<Rightarrow> Inr (y # ys)))"

definition active_run :: "'q MLRun \<Rightarrow> bool" where
  "active_run row \<longleftrightarrow>
     run_phase row \<in> {RunCreating, RunPending, RunRunning, RunCanceling, RunDeleting}"

definition active_service :: "'q MLService \<Rightarrow> bool" where
  "active_service row \<longleftrightarrow>
     svc_phase row \<in> {SvcCreating, SvcPending, SvcReady, SvcDegraded, SvcFailed, SvcDeleting}"

text \<open>One round of the loop over the live allocations.\<close>

definition count_allocation ::
  "(string, 'q::linordered_ab_group_add desiredWorkload) gomap \<Rightarrow> actual_counts \<times> 'q usage \<Rightarrow>
   'q ResourceAllocation \<Rightarrow> actual_counts \<times> 'q usage" where
  "count_allocation byID acc a =
     (case acc of (actual, usage) \<Rightarrow>
        (case (map_of actual (ra_workloadID a), map_of byID (ra_workloadID a)) of
           (Some roles, Some w) \<Rightarrow>
             (AList.update (ra_workloadID a)
                (AList.update (ra_role a) (iget roles (ra_role a) + 1) roles) actual,
              usage_add usage (w_tenant w, w_pool w) (ra_requests a))
         | _ \<Rightarrow> (actual, usage)))"

text \<open>The loops that add the admitted replicas that have not materialised.\<close>

definition reserve_role ::
  "actual_counts \<Rightarrow> 'q::linordered_ab_group_add desiredWorkload \<Rightarrow> 'q usage \<Rightarrow> 'q roleRequest \<Rightarrow> 'q usage" where
  "reserve_role actual w usage role =
     (let missing = rr_replicas role - aget actual (w_id w) (rr_name role)
      in foldl (\<lambda>usage _. usage_add usage (w_tenant w, w_pool w) (rr_requests role)) usage
           [0..<nat missing])"

definition reserve_workload ::
  "actual_counts \<Rightarrow> 'q::linordered_ab_group_add usage \<Rightarrow> 'q desiredWorkload \<Rightarrow> 'q usage" where
  "reserve_workload actual usage w =
     (if \<not> w_reserveMissing w then usage else foldl (reserve_role actual w) usage (w_roles w))"

definition loadActive ::
  "(stmt \<Rightarrow> err option) \<Rightarrow> 'q::linordered_ab_group_add db \<Rightarrow> 'q ResourceAllocation list \<Rightarrow>
   err + ('q desiredWorkload list \<times> 'q usage \<times> actual_counts)" where
  "loadActive fault d allocations =
     (case fault ListActiveRuns of Some e \<Rightarrow> Inl e | None \<Rightarrow>
      case fault ListActiveServices of Some e \<Rightarrow> Inl e | None \<Rightarrow>
      case collect runWorkload (filter active_run (mlruns d)) of Inl e \<Rightarrow> Inl e | Inr rs \<Rightarrow>
      case collect serviceWorkload (filter active_service (mlservices d)) of Inl e \<Rightarrow> Inl e | Inr ss \<Rightarrow>
        let workloads = rs @ ss;
            actual = foldl (\<lambda>m w. AList.update (w_id w) [] m) [] workloads;
            byID = foldl (\<lambda>m w. AList.update (w_id w) w m) [] workloads
        in case foldl (count_allocation byID) (actual, []) allocations of (actual, usage) \<Rightarrow>
             Inr (workloads, foldl (reserve_workload actual) usage workloads, actual))"

section \<open>Capacity at the start of a pass\<close>

definition newAdmissionState ::
  "'q::linordered_ab_group_add ResourceSnapshot \<Rightarrow> (string, err + 'q resource_list) gomap \<Rightarrow>
   'q usage \<Rightarrow> 'q admissionState" where
  "newAdmissionState snapshot results usage =
     (let usedByPool = foldl (\<lambda>m ((tenant, pool), resources).
            AList.update pool (sumLists (case map_of m pool of None \<Rightarrow> [] | Some r \<Rightarrow> r) resources) m)
            [] usage
      in foldl (\<lambda>state (pool, result).
           case result of
             Inl e \<Rightarrow> state\<lparr>as_unavailable := AList.update pool e (as_unavailable state)\<rparr>
           | Inr capacity \<Rightarrow>
               if capacity = [] then state
               else state\<lparr>as_overrides := AList.update pool
                      \<lparr>rb_remaining = subtractList (copyList capacity)
                         (case map_of usedByPool pool of None \<Rightarrow> [] | Some r \<Rightarrow> r)\<rparr>
                      (as_overrides state)\<rparr>)
           \<lparr>as_nodes = newNodeState snapshot, as_overrides = [], as_unavailable = []\<rparr> results)"

text \<open>The reservation loop of \<open>admitLocked\<close> over one workload; \<open>False\<close> leaves it.\<close>

fun reserve_missing_roles ::
  "actual_counts \<Rightarrow> 'q::linordered_ab_group_add desiredWorkload \<Rightarrow> 'q admissionState \<Rightarrow>
   'q roleRequest list \<Rightarrow> 'q admissionState" where
  "reserve_missing_roles actual w capacity [] = capacity"
| "reserve_missing_roles actual w capacity (role # roles) =
     (let missing = rr_replicas role - aget actual (w_id w) (rr_name role)
      in if missing \<le> 0 then reserve_missing_roles actual w capacity roles
         else case admissionState_reserveMissing capacity (w_pool w) (rr_requests role) missing
                     (w_nodeSelector w) (w_tolerations w) of
                (capacity', True) \<Rightarrow> reserve_missing_roles actual w capacity' roles
              | (capacity', False) \<Rightarrow> capacity')"

definition reserve_active ::
  "actual_counts \<Rightarrow> 'q::linordered_ab_group_add admissionState \<Rightarrow> 'q desiredWorkload list \<Rightarrow>
   'q admissionState" where
  "reserve_active actual capacity active =
     foldl (\<lambda>capacity w. if \<not> w_reserveMissing w then capacity
                        else reserve_missing_roles actual w capacity (w_roles w)) capacity active"

text \<open>The trial placement of the roles of a run or of a service increment.\<close>

fun place_roles ::
  "string \<Rightarrow> (string, string) gomap \<Rightarrow> toleration list \<Rightarrow> 'q::linordered_ab_group_add admissionState \<Rightarrow>
   'q roleRequest list \<Rightarrow> 'q admissionState \<times> bool \<times> string" where
  "place_roles pool sel tol trial [] = (trial, True, ReasonInsufficientResources)"
| "place_roles pool sel tol trial (role # roles) =
     (case admissionState_place trial pool (rr_requests role) (rr_replicas role) sel tol of
        (trial', placed, why) \<Rightarrow>
          if \<not> placed then (trial', False, why) else place_roles pool sel tol trial' roles)"

section \<open>Admitting queued runs\<close>

definition statusWithQueue :: "MLRunStatus json \<Rightarrow> string \<Rightarrow> string \<Rightarrow> MLRunStatus json" where
  "statusWithQueue raw reason message =
     json_marshal ((json_lenient zero_run_status raw)
       \<lparr>rst_queueReason := reason, rst_message := message\<rparr>)"

definition setQueueReason ::
  "(stmt \<Rightarrow> err option) \<Rightarrow> nat \<Rightarrow> 'q db \<Rightarrow> 'q MLRun \<Rightarrow> string \<Rightarrow> string \<Rightarrow> err + 'q db" where
  "setQueueReason fault now d run reason message =
     (let nxt = statusWithQueue (run_status run) reason message
      in if nxt = run_status run then Inr d
         else case fault (UpdateRun (run_id run)) of Some e \<Rightarrow> Inl e | None \<Rightarrow>
           Inr (d\<lparr>mlruns := update_where (\<lambda>r. run_id r = run_id run \<and> run_phase r = RunQueued)
                    (\<lambda>r. r\<lparr>run_status := nxt, run_updatedAt := now\<rparr>) (mlruns d)\<rparr>))"

text \<open>\<open>priority DESC, created_at ASC, id ASC\<close>\<close>

definition run_before :: "'q MLRun \<Rightarrow> 'q MLRun \<Rightarrow> bool" where
  "run_before a b \<longleftrightarrow>
     run_priority a > run_priority b \<or>
     run_priority a = run_priority b \<and>
       (run_createdAt a < run_createdAt b \<or> run_createdAt a = run_createdAt b \<and> run_id a < run_id b)"

definition queued_run :: "'q MLRun \<Rightarrow> bool" where
  "queued_run r \<longleftrightarrow> run_phase r = RunQueued \<and> run_deletedAt r = None"

definition queued_runs :: "'q db \<Rightarrow> 'q MLRun list" where
  "queued_runs d = sort_by run_before (filter queued_run (mlruns d))"

text \<open>The variables of a pass: the tables, the remaining capacity, the usage.\<close>

record 'q pass =
  p_db :: "'q db"
  p_capacity :: "'q admissionState"
  p_usage :: "'q usage"

type_synonym 'q quotas = "(quotaKey, err + 'q resource_list) gomap"

definition run_message :: "string \<Rightarrow> string" where
  "run_message reason =
     (if reason = ReasonNoMatchingNode
      then ''no schedulable node matches the run's selector and tolerations''
      else if reason = ReasonResourcePoolUnavailable
      then ''resource pool capacity is not available''
      else ''no node has enough currently available resources'')"

definition note_run ::
  "(stmt \<Rightarrow> err option) \<Rightarrow> nat \<Rightarrow> 'q pass \<Rightarrow> 'q MLRun \<Rightarrow> string \<Rightarrow> string \<Rightarrow> err + 'q pass" where
  "note_run fault now p run reason message =
     (case setQueueReason fault now (p_db p) run reason message of
        Inl e \<Rightarrow> Inl e | Inr d \<Rightarrow> Inr (p\<lparr>p_db := d\<rparr>))"

text \<open>The guarded update of an admitted run and what follows when it hit exactly one row.\<close>

definition commit_run ::
  "(stmt \<Rightarrow> err option) \<Rightarrow> nat \<Rightarrow> 'q::linordered_ab_group_add pass \<Rightarrow> 'q MLRun \<Rightarrow> quotaKey \<Rightarrow>
   'q resource_list \<Rightarrow> 'q admissionState \<Rightarrow> err + 'q pass" where
  "commit_run fault now p run key requested trial =
     (case fault (UpdateRun (run_id run)) of Some e \<Rightarrow> Inl e | None \<Rightarrow>
        let hit = (\<lambda>r. run_id r = run_id run \<and> run_phase r = RunQueued \<and> run_deletedAt r = None);
            status = statusWithQueue (run_status run) [] [];
            p' = p\<lparr>p_db := (p_db p)\<lparr>mlruns := update_where hit
                   (\<lambda>r. r\<lparr>run_phase := RunCreating, run_status := status, run_updatedAt := now\<rparr>)
                   (mlruns (p_db p))\<rparr>\<rparr>
        in if rows_affected hit (mlruns (p_db p)) = 1
           then Inr (p'\<lparr>p_capacity := trial, p_usage := usage_add (p_usage p) key requested\<rparr>)
           else Inr p')"

definition admit_run ::
  "(stmt \<Rightarrow> err option) \<Rightarrow> nat \<Rightarrow> 'q::linordered_ab_group_add quotas \<Rightarrow> 'q pass \<Rightarrow> 'q MLRun \<Rightarrow>
   err + 'q pass" where
  "admit_run fault now quotas p run =
     (case runWorkload run of Inl e \<Rightarrow> Inl e | Inr w \<Rightarrow>
      let key = (run_namespace run, w_pool w) in
      case map_of quotas key of
        None \<Rightarrow> note_run fault now p run ReasonQuotaUnavailable ''tenant quota is not available''
      | Some (Inl e) \<Rightarrow> note_run fault now p run ReasonQuotaUnavailable (err_string e)
      | Some (Inr mx) \<Rightarrow>
          let requested = totalRequests (w_roles w) in
          if exceeds requested mx
          then note_run fault now p run ReasonQuotaExceeded ''run request exceeds the tenant pool quota''
          else if exceeds (sumLists (uget (p_usage p) key) requested) mx
          then note_run fault now p run ReasonQuotaUnavailable ''tenant pool quota is currently in use''
          else case place_roles (w_pool w) (w_nodeSelector w) (w_tolerations w)
                      (admissionState_clone (p_capacity p)) (w_roles w) of
            (trial, placed, reason) \<Rightarrow>
              if \<not> placed then note_run fault now p run reason (run_message reason)
              else commit_run fault now p run key requested trial)"

section \<open>Admitting service increments\<close>

definition serviceStatusWithAdmission ::
  "MLServiceStatus json \<Rightarrow> string \<Rightarrow> string \<Rightarrow> MLServiceStatus json" where
  "serviceStatusWithAdmission raw reason message =
     json_marshal ((json_lenient zero_svc_status raw)
       \<lparr>sst_admissionReason := reason, sst_admissionMessage := message, sst_admittedReplicas := 0\<rparr>)"

definition setServiceAdmissionReason ::
  "(stmt \<Rightarrow> err option) \<Rightarrow> nat \<Rightarrow> 'q db \<Rightarrow> 'q MLService \<Rightarrow> string \<Rightarrow> string \<Rightarrow> err + 'q db" where
  "setServiceAdmissionReason fault now d service reason message =
     (let nxt = serviceStatusWithAdmission (svc_status service) reason message
      in if nxt = svc_status service then Inr d
         else case fault (UpdateService (svc_id service)) of Some e \<Rightarrow> Inl e | None \<Rightarrow>
           Inr (d\<lparr>mlservices := update_where (\<lambda>r. svc_id r = svc_id service \<and> svc_deletedAt r = None)
                    (\<lambda>r. r\<lparr>svc_status := nxt, svc_updatedAt := now\<rparr>) (mlservices d)\<rparr>))"

definition note_service ::
  "(stmt \<Rightarrow> err option) \<Rightarrow> nat \<Rightarrow> 'q pass \<Rightarrow> 'q MLService \<Rightarrow> string \<Rightarrow> string \<Rightarrow> err + 'q pass" where
  "note_service fault now p row reason message =
     (case setServiceAdmissionReason fault now (p_db p) row reason message of
        Inl e \<Rightarrow> Inl e | Inr d \<Rightarrow> Inr (p\<lparr>p_db := d\<rparr>))"

text \<open>\<open>created_at ASC, id ASC\<close>\<close>

definition svc_before :: "'q MLService \<Rightarrow> 'q MLService \<Rightarrow> bool" where
  "svc_before a b \<longleftrightarrow>
     svc_createdAt a < svc_createdAt b \<or> svc_createdAt a = svc_createdAt b \<and> svc_id a < svc_id b"

definition live_service :: "'q MLService \<Rightarrow> bool" where
  "live_service r \<longleftrightarrow> svc_phase r \<notin> {SvcDeleting, SvcDeleted} \<and> svc_deletedAt r = None"

definition live_services :: "'q db \<Rightarrow> 'q MLService list" where
  "live_services d = sort_by svc_before (filter live_service (mlservices d))"

definition service_message :: "string \<Rightarrow> string" where
  "service_message reason =
     (if reason = ReasonNoMatchingNode
      then ''no schedulable node matches the service selector and tolerations''
      else if reason = ReasonResourcePoolUnavailable
      then ''resource pool capacity is not available''
      else ''no node has enough currently available resources for the next service replica'')"

text \<open>The roles of one increment, one replica each.\<close>

definition increment :: "'q::linordered_ab_group_add MLServiceSpec \<Rightarrow> nat list \<Rightarrow> 'q roleRequest list" where
  "increment spec increased =
     stableRoleOrder (map (\<lambda>i. \<lparr>rr_name = role_name (ss_roles spec ! i), rr_replicas = 1,
                                 rr_requests = copyList (pt_requests (role_template (ss_roles spec ! i)))\<rparr>)
                        increased)"

text \<open>The update of an admitted increment, on the table and on the local row.\<close>

definition admit_columns :: "nat \<Rightarrow> 'q MLService \<Rightarrow> int list \<Rightarrow> 'q MLService \<Rightarrow> 'q MLService" where
  "admit_columns now row nxt r =
     (let r' = r\<lparr>svc_admitted := Encode nxt,
                 svc_status := serviceStatusWithAdmission (svc_status row) [] [],
                 svc_updatedAt := now\<rparr>
      in if svc_phase row = SvcQueued then r'\<lparr>svc_phase := SvcCreating\<rparr> else r')"

text \<open>The local variables of the \<open>for !Equal(admitted, desired)\<close> loop.\<close>

record 'q svc_loop =
  l_pass :: "'q pass"
  l_row :: "'q MLService"
  l_admitted :: "int list"

definition commit_increment ::
  "nat \<Rightarrow> 'q::linordered_ab_group_add svc_loop \<Rightarrow> int list \<Rightarrow> quotaKey \<Rightarrow> 'q resource_list \<Rightarrow>
   'q admissionState \<Rightarrow> 'q svc_loop" where
  "commit_increment now l nxt key requested trial =
     (let p = l_pass l; row = l_row l; upd = admit_columns now row nxt in
      \<lparr>l_pass = p\<lparr>p_db := (p_db p)\<lparr>mlservices := update_where (\<lambda>r. svc_id r = svc_id row) upd
                    (mlservices (p_db p))\<rparr>,
                  p_capacity := admissionState_replace (p_capacity p) trial,
                  p_usage := usage_add (p_usage p) key requested\<rparr>,
       l_row = row\<lparr>svc_phase := (if svc_phase row = SvcQueued then SvcCreating else svc_phase row),
                   svc_admitted := Encode nxt,
                   svc_status := serviceStatusWithAdmission (svc_status row) [] []\<rparr>,
       l_admitted = nxt\<rparr>)"

function service_loop ::
  "(stmt \<Rightarrow> err option) \<Rightarrow> nat \<Rightarrow> 'q::linordered_ab_group_add resource_list \<Rightarrow> bool \<Rightarrow>
   'q MLServiceSpec \<Rightarrow> 'q desiredWorkload \<Rightarrow> quotaKey \<Rightarrow> int list \<Rightarrow> 'q svc_loop \<Rightarrow> err + 'q pass" where
  "service_loop fault now mx desiredExceedsQuota spec target key desired l =
     (if Equal (l_admitted l) desired then Inr (l_pass l)
      else case Next (l_admitted l) desired of (nxt, increased) \<Rightarrow>
        if increased = [] then Inr (l_pass l)
        else
          let delta = increment spec increased; requested = totalRequests delta in
          if exceeds requested mx \<or> exceeds (sumLists (uget (p_usage (l_pass l)) key) requested) mx
          then (if desiredExceedsQuota
                then note_service fault now (l_pass l) (l_row l) ReasonQuotaExceeded
                       ''desired service replicas exceed the tenant pool quota''
                else note_service fault now (l_pass l) (l_row l) ReasonQuotaUnavailable
                       ''tenant pool quota is currently in use'')
          else case place_roles (w_pool target) (w_nodeSelector target) (w_tolerations target)
                      (admissionState_clone (p_capacity (l_pass l))) delta of
            (trial, placed, reason) \<Rightarrow>
              if \<not> placed then note_service fault now (l_pass l) (l_row l) reason (service_message reason)
              else case fault (UpdateService (svc_id (l_row l))) of Some e \<Rightarrow> Inl e | None \<Rightarrow>
                service_loop fault now mx desiredExceedsQuota spec target key desired
                  (commit_increment now l nxt key requested trial))"
  by pat_completeness auto
termination
  by (relation "measure (\<lambda>(fault, now, mx, e, spec, w, key, desired, l). shortfall (l_admitted l) desired)")
     (auto simp: commit_increment_def Let_def dest: Next_shortfall [OF sym])

declare service_loop.simps [simp del]

definition admit_service ::
  "(stmt \<Rightarrow> err option) \<Rightarrow> nat \<Rightarrow> 'q::linordered_ab_group_add quotas \<Rightarrow> 'q pass \<Rightarrow> 'q MLService \<Rightarrow>
   err + 'q pass" where
  "admit_service fault now quotas p row =
     (case json_decode (svc_spec row) of None \<Rightarrow> Inl (EDecode ''mlservice spec'') | Some spec \<Rightarrow>
      let desired = Desired (role_counts spec);
          admitted = Decode (svc_admitted row) (length (ss_roles spec)) desired in
      if svc_phase row \<noteq> SvcQueued \<and> Equal admitted desired then Inr p
      else if Equal admitted desired
      then (case fault (UpdateService (svc_id row)) of Some e \<Rightarrow> Inl e | None \<Rightarrow>
              Inr (p\<lparr>p_db := (p_db p)\<lparr>mlservices := update_where (\<lambda>r. svc_id r = svc_id row)
                     (\<lambda>r. r\<lparr>svc_phase := SvcCreating,
                            svc_status := serviceStatusWithAdmission (svc_status row) [] [],
                            svc_updatedAt := now\<rparr>) (mlservices (p_db p))\<rparr>\<rparr>))
      else let key = (svc_namespace row, poolFromLabels (svc_labels row)) in
        case map_of quotas key of
          None \<Rightarrow> note_service fault now p row ReasonQuotaUnavailable ''tenant quota is not available''
        | Some (Inl e) \<Rightarrow> note_service fault now p row ReasonQuotaUnavailable (err_string e)
        | Some (Inr mx) \<Rightarrow>
            let target = serviceWorkloadFor row spec desired in
            service_loop fault now mx (exceeds (totalRequests (w_roles target)) mx) spec target key
              desired \<lparr>l_pass = p, l_row = row, l_admitted = admitted\<rparr>)"

definition admitServicesLocked ::
  "(stmt \<Rightarrow> err option) \<Rightarrow> nat \<Rightarrow> 'q::linordered_ab_group_add quotas \<Rightarrow> 'q pass \<Rightarrow> err + 'q pass" where
  "admitServicesLocked fault now quotas p =
     (case fault ListServicesForUpdate of Some e \<Rightarrow> Inl e | None \<Rightarrow>
        rfold (admit_service fault now quotas) p (live_services (p_db p)))"

section \<open>A whole pass\<close>

definition admitLocked ::
  "(stmt \<Rightarrow> err option) \<Rightarrow> nat \<Rightarrow> 'q::linordered_ab_group_add db \<Rightarrow> 'q ResourceSnapshot \<Rightarrow>
   'q quotas \<Rightarrow> (string, err + 'q resource_list) gomap \<Rightarrow> err + 'q pass" where
  "admitLocked fault now d snapshot quotas poolCapacities =
     (case loadActive fault d (rs_allocations snapshot) of Inl e \<Rightarrow> Inl e
      | Inr (active, usage, actualCounts) \<Rightarrow>
        let capacity = reserve_active actualCounts (newAdmissionState snapshot poolCapacities usage) active in
        case admitServicesLocked fault now quotas
               \<lparr>p_db = d, p_capacity = capacity, p_usage = usage\<rparr> of Inl e \<Rightarrow> Inl e
        | Inr p \<Rightarrow>
          case fault ListQueuedForAdmission of Some e \<Rightarrow> Inl e | None \<Rightarrow>
            rfold (admit_run fault now quotas) p (queued_runs (p_db p)))"

definition pending_service :: "'q MLService \<Rightarrow> err + bool" where
  "pending_service row =
     (case json_decode (svc_spec row) of None \<Rightarrow> Inl (EDecode ''mlservice spec'') | Some spec \<Rightarrow>
        let desired = Desired (role_counts spec);
            admitted = Decode (svc_admitted row) (length (ss_roles spec)) desired
        in Inr (svc_phase row = SvcQueued \<or> \<not> Equal admitted desired))"

definition pendingServices :: "(stmt \<Rightarrow> err option) \<Rightarrow> 'q db \<Rightarrow> err + 'q MLService list" where
  "pendingServices fault d =
     (case fault ListPendingServices of Some e \<Rightarrow> Inl e | None \<Rightarrow>
      case collect (\<lambda>row. case pending_service row of Inl e \<Rightarrow> Inl e | Inr b \<Rightarrow> Inr (row, b))
             (live_services d) of
        Inl e \<Rightarrow> Inl e
      | Inr rows \<Rightarrow> Inr (map fst (filter snd rows)))"

definition admissionPoolNames ::
  "(stmt \<Rightarrow> err option) \<Rightarrow> 'q db \<Rightarrow> 'q MLRun list \<Rightarrow> 'q MLService list \<Rightarrow> err + string list" where
  "admissionPoolNames fault d runs services =
     (case fault PoolNamesOfRuns of Some e \<Rightarrow> Inl e | None \<Rightarrow>
      case fault PoolNamesOfServices of Some e \<Rightarrow> Inl e | None \<Rightarrow>
        Inr (remdups
          (map (poolFromLabels \<circ> run_labels)
             (runs @ filter (\<lambda>r. active_run r \<and> run_deletedAt r = None) (mlruns d))
           @ map (poolFromLabels \<circ> svc_labels)
             (services @ filter (\<lambda>r. active_service r \<and> svc_deletedAt r = None) (mlservices d)))))"

definition resolvePoolCapacities ::
  "(string \<Rightarrow> err + 'q resource_list) option \<Rightarrow> string list \<Rightarrow> (string, err + 'q resource_list) gomap" where
  "resolvePoolCapacities pools names =
     map (\<lambda>name. (name,
        if name = [] then Inl (EPlain ''resource pool label is missing'')
        else case pools of
               None \<Rightarrow> Inl (EPlain ''resource pool resolver is not configured'')
             | Some resolve \<Rightarrow> (case resolve name of Inl e \<Rightarrow> Inl e | Inr c \<Rightarrow> Inr (copyList c)))) names"

definition setAllQueueReason ::
  "(stmt \<Rightarrow> err option) \<Rightarrow> nat \<Rightarrow> 'q MLRun list \<Rightarrow> string \<Rightarrow> string \<Rightarrow> 'q db \<Rightarrow> 'q db" where
  "setAllQueueReason fault now rows reason message d =
     foldl (\<lambda>d row. case setQueueReason fault now d row reason message of Inl _ \<Rightarrow> d | Inr d' \<Rightarrow> d') d rows"

definition setAllServiceAdmissionReason ::
  "(stmt \<Rightarrow> err option) \<Rightarrow> nat \<Rightarrow> 'q MLService list \<Rightarrow> string \<Rightarrow> string \<Rightarrow> 'q db \<Rightarrow> 'q db" where
  "setAllServiceAdmissionReason fault now rows reason message d =
     foldl (\<lambda>d row. case setServiceAdmissionReason fault now d row reason message of
              Inl _ \<Rightarrow> d | Inr d' \<Rightarrow> d') d rows"

text \<open>The two loops that resolve each quota key once, services first.\<close>

definition resolve_quotas ::
  "(string \<Rightarrow> string \<Rightarrow> err + 'q resource_list) \<Rightarrow> quotaKey list \<Rightarrow> 'q quotas" where
  "resolve_quotas resolve keys =
     foldl (\<lambda>m key. if map_of m key \<noteq> None then m
                    else AList.update key (resolve (fst key) (snd key)) m) [] keys"

text \<open>
  What one pass meets: the errors of its statements, the clock, the answers of the three
  providers, and what other processes do to the tables between the reads outside the
  transaction and the advisory lock.
\<close>

record 'q environment =
  e_fault :: "stmt \<Rightarrow> err option"
  e_now :: nat
  e_snapshot :: "err + 'q ResourceSnapshot"
  e_quota :: "string \<Rightarrow> string \<Rightarrow> err + 'q resource_list"
  e_pools :: "(string \<Rightarrow> err + 'q resource_list) option"
  e_between :: "'q db \<Rightarrow> 'q db"

text \<open>\<open>db.Transaction\<close>: the advisory lock, then the body; an error rolls back.\<close>

definition admit_transaction ::
  "'q::linordered_ab_group_add environment \<Rightarrow> 'q ResourceSnapshot \<Rightarrow> 'q quotas \<Rightarrow>
   (string, err + 'q resource_list) gomap \<Rightarrow> 'q db \<Rightarrow> 'q db" where
  "admit_transaction env snapshot quotas capacities d =
     (case e_fault env AdvisoryLock of Some e \<Rightarrow> d | None \<Rightarrow>
      case admitLocked (e_fault env) (e_now env) d snapshot quotas capacities of
        Inl e \<Rightarrow> d | Inr p \<Rightarrow> p_db p)"

definition runOnce :: "'q::linordered_ab_group_add environment \<Rightarrow> 'q db \<Rightarrow> 'q db" where
  "runOnce env d =
     (let fault = e_fault env; runDepth = length (filter queued_run (mlruns d)) in
      case fault CountQueuedRuns of Some e \<Rightarrow> d | None \<Rightarrow>
      case (if runDepth > 0 then fault ListQueuedRuns else None) of Some e \<Rightarrow> d | None \<Rightarrow>
      let queued = (if runDepth > 0 then queued_runs d else []) in
      case pendingServices fault d of Inl e \<Rightarrow> d | Inr services \<Rightarrow>
      if runDepth = 0 \<and> services = [] then d
      else case e_snapshot env of
        Inl e \<Rightarrow>
          setAllServiceAdmissionReason fault (e_now env) services ReasonInventoryUnavailable (err_string e)
            (setAllQueueReason fault (e_now env) queued ReasonInventoryUnavailable (err_string e) d)
      | Inr snapshot \<Rightarrow>
          let quotas = resolve_quotas (e_quota env)
                (map (\<lambda>s. (svc_namespace s, poolFromLabels (svc_labels s))) services
                 @ map (\<lambda>r. (run_namespace r, poolFromLabels (run_labels r))) queued) in
          case admissionPoolNames fault d queued services of Inl e \<Rightarrow> d | Inr names \<Rightarrow>
            admit_transaction env snapshot quotas (resolvePoolCapacities (e_pools env) names)
              (e_between env d))"

end
