(* ===== verification/Repository.thy ===== *)
theory Repository
  imports StatusMap Naming Admission
begin

text \<open>
  What the three resource modules of the compute service share: the SQL of their repositories
  on a table (\<^verbatim>\<open>internal/{mlrun,mlservice,trafficpolicy}/repository.go\<close>), the resource
  expansion (\<^verbatim>\<open>internal/resource/resource.go\<close>) and the runtime contract
  (\<^verbatim>\<open>pkg/extensions/{compute_runtime,errors}.go\<close>), whose implementations are parameters.
\<close>

section \<open>Repositories\<close>

datatype rstmt = SelectByName | SelectByID | SelectList | SelectRecovery | LockMembers | InsertRow | UpdateRows

text \<open>GORM's \<open>First\<close>: the selected row with the least primary key.\<close>

definition first_row :: "('r \<Rightarrow> string) \<Rightarrow> ('r \<Rightarrow> bool) \<Rightarrow> 'r list \<Rightarrow> err + 'r" where
  "first_row key p rows = (case sort_key key (filter p rows) of [] \<Rightarrow> Inl ENotFound | r # _ \<Rightarrow> Inr r)"

text \<open>\<open>namespace = ? AND name = ? AND deleted_at IS NULL\<close>\<close>

definition get_live ::
  "('r \<Rightarrow> string) \<Rightarrow> ('r \<Rightarrow> string \<times> string) \<Rightarrow> ('r \<Rightarrow> nat option) \<Rightarrow>
   string \<times> string \<Rightarrow> 'r list \<Rightarrow> err + 'r" where
  "get_live key nsname deleted k rows =
     first_row key (\<lambda>r. nsname r = k \<and> deleted r = None) rows"

text \<open>An insert under the primary key and the partial unique index on live (namespace, name).\<close>

definition insert_live ::
  "('r \<Rightarrow> string) \<Rightarrow> ('r \<Rightarrow> string \<times> string) \<Rightarrow> ('r \<Rightarrow> nat option) \<Rightarrow>
   'r \<Rightarrow> 'r list \<Rightarrow> err + 'r list" where
  "insert_live key nsname deleted r rows =
     (if list_ex (\<lambda>x. key x = key r \<or>
            nsname x = nsname r \<and> deleted x = None \<and> deleted r = None) rows
      then Inl (EDB ''duplicate key value violates unique constraint'')
      else Inr (rows @ [r]))"

text \<open>\<open>Order("updated_at ASC").Limit(workSetBatch)\<close>\<close>

definition workSetBatch :: nat where
  "workSetBatch = 100"

definition work_batch :: "('r \<Rightarrow> nat) \<Rightarrow> ('r \<Rightarrow> bool) \<Rightarrow> 'r list \<Rightarrow> 'r list" where
  "work_batch updatedAt p rows = take workSetBatch (sort_key updatedAt (filter p rows))"

text \<open>\<open>Order("created_at DESC").Limit(limit).Offset(offset)\<close>\<close>

definition page :: "('r \<Rightarrow> nat) \<Rightarrow> nat \<Rightarrow> nat \<Rightarrow> 'r list \<Rightarrow> 'r list" where
  "page createdAt limit offset rows =
     take limit (drop offset (sort_by (\<lambda>a b. createdAt b < createdAt a) rows))"

section \<open>The table interface\<close>

definition table_ok ::
  "('r \<Rightarrow> string) \<Rightarrow> ('r \<Rightarrow> string \<times> string) \<Rightarrow> ('r \<Rightarrow> nat option) \<Rightarrow> 'r list \<Rightarrow> bool" where
  "table_ok key nsname deleted rows \<longleftrightarrow>
     distinct (map key rows) \<and> distinct (map nsname (filter (\<lambda>r. deleted r = None) rows))"

text \<open>
  What a service layer relies on of its repository: a lookup returns a live row of that name,
  and any there is; an insert keeps the constraints and appends.
\<close>

locale live_table =
  fixes key :: "'r \<Rightarrow> string" and nsname :: "'r \<Rightarrow> string \<times> string" and deleted :: "'r \<Rightarrow> nat option"
    and get :: "string \<times> string \<Rightarrow> 'r list \<Rightarrow> err + 'r"
    and create :: "'r \<Rightarrow> 'r list \<Rightarrow> err + 'r list"
  assumes get_sound: "get k rows = Inr r \<Longrightarrow> r \<in> set rows \<and> nsname r = k \<and> deleted r = None"
    and get_missing: "get k rows = Inl e \<Longrightarrow>
          e = ENotFound \<and> (\<forall>r\<in>set rows. nsname r = k \<longrightarrow> deleted r \<noteq> None)"
    and create_ok: "create r rows = Inr rows' \<Longrightarrow> table_ok key nsname deleted rows \<Longrightarrow>
          rows' = rows @ [r] \<and> table_ok key nsname deleted rows'"
    and create_fails: "create r rows = Inl e \<Longrightarrow>
          \<exists>x\<in>set rows. key x = key r \<or> nsname x = nsname r \<and> deleted x = None"
begin

lemma live_unique:
  assumes "table_ok key nsname deleted rows" "x \<in> set rows" "y \<in> set rows"
    and "deleted x = None" "deleted y = None" "nsname x = nsname y"
  shows "x = y"
  using assms unique_key [of nsname "filter (\<lambda>r. deleted r = None) rows" y x]
  by (auto simp: table_ok_def)

lemma get_live_row:
  assumes "table_ok key nsname deleted rows" "r \<in> set rows" "deleted r = None"
  shows "get (nsname r) rows = Inr r"
proof (cases "get (nsname r) rows")
  case (Inl e)
  with get_missing [OF Inl] assms(2,3) show ?thesis by auto
next
  case (Inr x)
  with get_sound [OF Inr] live_unique [OF assms(1)] assms(2,3) show ?thesis by auto
qed

text \<open>A created row is what its name resolves to; other names resolve as before.\<close>

lemma get_created:
  assumes "create r rows = Inr rows'" "table_ok key nsname deleted rows" "deleted r = None"
  shows "get (nsname r) rows' = Inr r"
  using create_ok [OF assms(1,2)] assms(3) by (auto intro: get_live_row)

lemma get_other:
  assumes "create r rows = Inr rows'" "table_ok key nsname deleted rows" "k \<noteq> nsname r"
  shows "get k rows' = get k rows"
proof -
  note c = create_ok [OF assms(1,2)]
  show ?thesis
  proof (cases "get k rows")
    case (Inl e)
    have none: "\<forall>x\<in>set rows'. nsname x = k \<longrightarrow> deleted x \<noteq> None"
      using get_missing [OF Inl] c assms(3) by auto
    show ?thesis
    proof (cases "get k rows'")
      case (Inr x)
      with get_sound [OF Inr] none show ?thesis by auto
    qed (use Inl get_missing in \<open>metis\<close>)
  next
    case (Inr x)
    with get_sound [OF Inr] c show ?thesis using get_live_row [of rows' x] by auto
  qed
qed

text \<open>A name in use cannot be created again.\<close>

lemma create_taken:
  assumes "create r rows = Inr rows'" "table_ok key nsname deleted rows" "deleted r = None"
  shows "get (nsname r) rows = Inl ENotFound"
proof (cases "get (nsname r) rows")
  case (Inr x)
  note c = create_ok [OF assms(1,2)]
  have "x = r" by (rule live_unique [of rows']) (use c get_sound [OF Inr] assms(3) in auto)
  with c get_sound [OF Inr] show ?thesis by (auto simp: table_ok_def)
qed (use get_missing in auto)

end

lemma first_row_Inr: "first_row key p rows = Inr r \<Longrightarrow> r \<in> set rows \<and> p r"
proof -
  assume "first_row key p rows = Inr r"
  then obtain rest where "sort_key key (filter p rows) = r # rest"
    by (auto simp: first_row_def split: list.splits)
  then have "r \<in> set (sort_key key (filter p rows))" by (metis list.set_intros(1))
  then show ?thesis by simp
qed

lemma first_row_Inl: "first_row key p rows = Inl e \<Longrightarrow> e = ENotFound \<and> (\<forall>r\<in>set rows. \<not> p r)"
proof -
  assume a: "first_row key p rows = Inl e"
  then have "sort_key key (filter p rows) = []" "e = ENotFound"
    by (auto simp: first_row_def split: list.splits)
  moreover from this(1) have "filter p rows = []" by (metis length_0_conv length_sort)
  ultimately show ?thesis by (auto simp: filter_empty_conv)
qed

lemma first_row_key:
  assumes "distinct (map key t)" "r \<in> set t"
  shows "first_row key (\<lambda>x. key x = key r) t = Inr r"
proof (cases "first_row key (\<lambda>x. key x = key r) t")
  case (Inl e)
  with first_row_Inl assms(2) show ?thesis by blast
next
  case (Inr x)
  with first_row_Inr [OF this] unique_key [OF assms, of x] show ?thesis by auto
qed

lemma live_table_model:
  "live_table key nsname deleted (get_live key nsname deleted) (insert_live key nsname deleted)"
proof (unfold_locales, goal_cases)
  case (1 k rows r)
  then show ?case using first_row_Inr unfolding get_live_def by fastforce
next
  case (2 k rows e)
  then show ?case using first_row_Inl unfolding get_live_def by fastforce
next
  case (3 r rows rows')
  then have fresh: "\<forall>x\<in>set rows. key x \<noteq> key r \<and> (nsname x = nsname r \<longrightarrow> deleted x \<noteq> None \<or> deleted r \<noteq> None)"
    and rows': "rows' = rows @ [r]"
    by (auto simp: insert_live_def list_ex_iff split: if_splits)
  have "key r \<notin> key ` set rows" using fresh by (metis imageE)
  moreover have "deleted r = None \<Longrightarrow> nsname r \<notin> nsname ` {x \<in> set rows. deleted x = None}"
    using fresh by (metis (mono_tags, lifting) imageE mem_Collect_eq)
  ultimately show ?case using 3(2) by (simp add: rows' table_ok_def)
next
  case (4 r rows e)
  then show ?case by (auto simp: insert_live_def list_ex_iff split: if_splits)
qed

section \<open>Resource expansion\<close>

record ResourcePool =
  pool_nodeSelector :: "(string, string) gomap"

record 'q ResourceUnit =
  unit_nodeSelector :: "(string, string) gomap"
  unit_requests :: "'q resource_list"
  unit_limits :: "'q resource_list"

record 'q Expanded =
  ex_nodeSelector :: "(string, string) gomap"
  ex_requests :: "'q resource_list"
  ex_limits :: "'q resource_list"

definition mergeNodeSelector ::
  "(string, string) gomap \<Rightarrow> (string, string) gomap \<Rightarrow> (string, string) gomap" where
  "mergeNodeSelector poolSel unitSel =
     (if poolSel = [] \<and> unitSel = [] then []
      else foldl (\<lambda>out (k, v). if map_of out k = None then AList.update k v out else out)
             (foldl (\<lambda>out (k, v). AList.update k v out) [] poolSel) unitSel)"

definition Expand :: "ResourcePool \<Rightarrow> 'q ResourceUnit \<Rightarrow> 'q Expanded" where
  "Expand pool unit =
     \<lparr>ex_nodeSelector = mergeNodeSelector (pool_nodeSelector pool) (unit_nodeSelector unit),
      ex_requests = unit_requests unit, ex_limits = unit_limits unit\<rparr>"

text \<open>\<open>role.Template.Resources = resource.BuildResources(req, lim)\<close>\<close>

definition BuildResources ::
  "'q resource_list \<Rightarrow> 'q resource_list \<Rightarrow> 'q PodTemplate \<Rightarrow> 'q PodTemplate" where
  "BuildResources req lim t =
     t\<lparr>pt_requests := (if req \<noteq> [] then req else []), pt_limits := (if lim \<noteq> [] then lim else [])\<rparr>"

record 'q resolver =
  ResolveResourcePool :: "string \<Rightarrow> err + ResourcePool"
  ResolveResourceUnit :: "string \<Rightarrow> string \<Rightarrow> err + 'q ResourceUnit"

lemma map_of_rev_wf: "wf_map m \<Longrightarrow> map_of (rev m) = map_of m"
proof (induction m)
  case (Cons e m)
  obtain k v where e: "e = (k, v)" by (cases e)
  with Cons show ?case by (auto simp: fun_eq_iff map_add_def split: option.split)
qed simp

lemma map_of_copy: "map_of (foldl (\<lambda>out (k, v). AList.update k v out) acc m) x =
    (case map_of (rev m) x of Some v \<Rightarrow> Some v | None \<Rightarrow> map_of acc x)"
proof (induction m arbitrary: acc)
  case (Cons e m)
  obtain k v where e: "e = (k, v)" by (cases e)
  show ?case by (auto simp: e Cons.IH map_add_def split: option.split)
qed simp

lemma map_of_fill: "map_of (foldl (\<lambda>out (k, v). if map_of out k = None then AList.update k v out else out)
      acc m) x = (case map_of acc x of Some v \<Rightarrow> Some v | None \<Rightarrow> map_of m x)"
proof (induction m arbitrary: acc)
  case (Cons e m)
  obtain k v where e: "e = (k, v)" by (cases e)
  show ?case by (auto simp: e Cons.IH split: option.split)
qed (simp split: option.split)

lemma map_of_mergeNodeSelector:
  "wf_map poolSel \<Longrightarrow> map_of (mergeNodeSelector poolSel unitSel) k =
     (case map_of poolSel k of Some v \<Rightarrow> Some v | None \<Rightarrow> map_of unitSel k)"
  by (auto simp: mergeNodeSelector_def map_of_fill map_of_copy map_of_rev_wf
           split: option.split)

section \<open>The runtime contract\<close>

record rt_error =
  rte_message :: string
  rte_notFound :: bool
  rte_terminal :: bool
  rte_unavailable :: bool

definition IsResourceUnavailable :: "rt_error \<Rightarrow> bool" where
  "IsResourceUnavailable e = rte_unavailable e"

definition IsTerminalApplyError :: "rt_error \<Rightarrow> bool" where
  "IsTerminalApplyError e = rte_terminal e"

definition is_not_found :: "rt_error + 'a \<Rightarrow> bool" where
  "is_not_found r = (case r of Inl e \<Rightarrow> rte_notFound e | Inr _ \<Rightarrow> False)"

text \<open>A rendered custom resource with an empty status.\<close>

record 's cr =
  cr_name :: string
  cr_namespace :: string
  cr_labels :: "(string, string) gomap"
  cr_annotations :: "(string, string) gomap"
  cr_spec :: 's

text \<open>
  The operations of a \<open>ComputeRuntime\<close> for one kind of workload, on the state \<open>'w\<close> of
  the runtime: apply, observe, cancel (runs only), delete, and the instance list.
\<close>

record ('s, 'o, 'w) runtime =
  rt_apply :: "'s cr \<Rightarrow> 'w \<Rightarrow> rt_error option \<times> 'w"
  rt_observe :: "string \<times> string \<Rightarrow> 'w \<Rightarrow> rt_error + 'o"
  rt_cancel :: "string \<times> string \<Rightarrow> 'w \<Rightarrow> rt_error option \<times> 'w"
  rt_delete :: "string \<times> string \<Rightarrow> 'w \<Rightarrow> rt_error option \<times> 'w"
  rt_instances :: "string \<times> string \<Rightarrow> 'w \<Rightarrow> rt_error + string list"

text \<open>\<open>decodeStringMap\<close> and \<open>mapBytes\<close> of each module.\<close>

definition decodeStringMap :: "(string, string) gomap json \<Rightarrow> (string, string) gomap" where
  "decodeStringMap raw = json_lenient [] raw"

definition mapBytes :: "(string, string) gomap \<Rightarrow> (string, string) gomap json" where
  "mapBytes m = json_marshal m"

definition mergeLabels ::
  "(string, string) gomap \<Rightarrow> (string, string) gomap \<Rightarrow> (string, string) gomap" where
  "mergeLabels user system =
     foldl (\<lambda>out (k, v). if v = [] then out else AList.update k v out)
       (foldl (\<lambda>out (k, v). AList.update k v out) [] user) system"

lemma map_of_mergeLabels:
  assumes "wf_map user" "wf_map system"
  shows "map_of (mergeLabels user system) k =
     (case map_of system k of None \<Rightarrow> map_of user k | Some v \<Rightarrow> if v = [] then map_of user k else Some v)"
proof -
  have "map_of (foldl (\<lambda>out (k, v). if v = [] then out else AList.update k v out) acc system) k =
     (case map_of system k of None \<Rightarrow> map_of acc k | Some v \<Rightarrow> if v = [] then map_of acc k else Some v)" for acc
    using assms(2)
  proof (induction system arbitrary: acc)
    case (Cons e m)
    obtain k v where e: "e = (k, v)" by (cases e)
    with Cons show ?case by (auto split: option.split)
  qed simp
  moreover have "map_of (foldl (\<lambda>out (k, v). AList.update k v out) [] user) k = map_of user k"
    using assms(1) by (auto simp: map_of_copy map_of_rev_wf split: option.split)
  ultimately show ?thesis by (auto simp: mergeLabels_def split: option.split)
qed

end
