(* ===== verification/RunLifecycle.thy ===== *)
theory RunLifecycle
  imports Repository
begin

text \<open>
  The MLRun module of the compute service (\<^verbatim>\<open>compute-service/internal/mlrun\<close>): the API
  operations of \<^verbatim>\<open>service.go\<close>, the queries of \<^verbatim>\<open>repository.go\<close>, the outbox
  reconciler, the status reflow and its two drivers (informer and poller), and the rendering of
  the custom resource.

  An operation takes the run table and returns it with its result. A handler of the reconciler
  or the reflow gets the row \<open>j\<close> it was started with, which may be older than the table it
  writes to: its updates go to the table of that moment.
\<close>

section \<open>Requests and views\<close>

record 'q MLRunCreateRequest =
  rin_name :: string
  rin_displayName :: string
  rin_description :: string
  rin_labels :: "(string, string) gomap"
  rin_annotations :: "(string, string) gomap"
  rin_poolName :: string
  rin_unitName :: string
  rin_priorityClass :: string
  rin_backend :: "Backend option"
  rin_configMaps :: "WorkloadConfigMap list"
  rin_roles :: "'q RoleSpec list"
  rin_runPolicy :: "RunPolicy option"

record MLRunPatchRequest =
  rpa_displayName :: "string option"
  rpa_description :: "string option"
  rpa_labels :: "(string, string) gomap option"
  rpa_annotations :: "(string, string) gomap option"

record 'q run_view =
  rv_id :: string
  rv_namespace :: string
  rv_name :: string
  rv_displayName :: string
  rv_description :: string
  rv_owner :: string
  rv_labels :: "(string, string) gomap"
  rv_annotations :: "(string, string) gomap"
  rv_phase :: run_phase
  rv_spec :: "'q MLRunSpec"
  rv_status :: MLRunStatus
  rv_scheduledAt :: "nat option"
  rv_createdAt :: nat
  rv_updatedAt :: nat
  rv_deletedAt :: "nat option"

record run_phase_view =
  rpv_name :: string
  rpv_phase :: run_phase
  rpv_message :: string
  rpv_queueReason :: string
  rpv_scheduledAt :: "nat option"
  rpv_startedAt :: "nat option"
  rpv_finishedAt :: "nat option"

definition zero_scheduling :: Scheduling where
  "zero_scheduling = \<lparr>sch_quota = [], sch_priorityClass = [], sch_nodeSelector = [], sch_tolerations = []\<rparr>"

definition zero_run_policy :: RunPolicy where
  "zero_run_policy = \<lparr>rp_suspend = False, rp_activeDeadlineSeconds = None,
     rp_ttlSecondsAfterFinished = None, rp_backoffLimit = None\<rparr>"

definition zero_run_spec :: "'q MLRunSpec" where
  "zero_run_spec = \<lparr>rs_backend = \<lparr>be_name = [], be_engine = [], be_config = None\<rparr>,
     rs_scheduling = zero_scheduling, rs_configMaps = [], rs_roles = [], rs_runPolicy = zero_run_policy\<rparr>"

definition run_toView :: "'q MLRun \<Rightarrow> 'q run_view" where
  "run_toView j =
     \<lparr>rv_id = run_id j, rv_namespace = run_namespace j, rv_name = run_name j,
      rv_displayName = run_displayName j, rv_description = run_description j, rv_owner = run_owner j,
      rv_labels = decodeStringMap (run_labels j), rv_annotations = decodeStringMap (run_annotations j),
      rv_phase = run_phase j, rv_spec = json_lenient zero_run_spec (run_spec j),
      rv_status = json_lenient zero_run_status (run_status j), rv_scheduledAt = run_scheduledAt j,
      rv_createdAt = run_createdAt j, rv_updatedAt = run_updatedAt j, rv_deletedAt = run_deletedAt j\<rparr>"

definition run_phaseView :: "'q MLRun \<Rightarrow> run_phase_view" where
  "run_phaseView j =
     (let status = json_lenient zero_run_status (run_status j)
      in \<lparr>rpv_name = run_name j, rpv_phase = run_phase j, rpv_message = rst_message status,
          rpv_queueReason = rst_queueReason status, rpv_scheduledAt = run_scheduledAt j,
          rpv_startedAt = rst_startedAt status, rpv_finishedAt = rst_finishedAt status\<rparr>)"

section \<open>Repository\<close>

definition run_nsname :: "'q MLRun \<Rightarrow> string \<times> string" where
  "run_nsname j = (run_namespace j, run_name j)"

definition run_GetByNamespaceName ::
  "(rstmt \<Rightarrow> err option) \<Rightarrow> string \<Rightarrow> string \<Rightarrow> 'q MLRun list \<Rightarrow> err + 'q MLRun" where
  "run_GetByNamespaceName fault namespace name t =
     (case fault SelectByName of Some e \<Rightarrow> Inl e
      | None \<Rightarrow> get_live run_id run_nsname run_deletedAt (namespace, name) t)"

definition run_Get :: "(rstmt \<Rightarrow> err option) \<Rightarrow> string \<Rightarrow> 'q MLRun list \<Rightarrow> err + 'q MLRun" where
  "run_Get fault i t =
     (case fault SelectByID of Some e \<Rightarrow> Inl e | None \<Rightarrow> first_row run_id (\<lambda>r. run_id r = i) t)"

definition run_CreateRow :: "(rstmt \<Rightarrow> err option) \<Rightarrow> 'q MLRun \<Rightarrow> 'q MLRun list \<Rightarrow> err + 'q MLRun list" where
  "run_CreateRow fault j t =
     (case fault InsertRow of Some e \<Rightarrow> Inl e
      | None \<Rightarrow> insert_live run_id run_nsname run_deletedAt j t)"

text \<open>\<open>Updates\<close> stamps \<open>updated_at\<close> as GORM does.\<close>

definition run_Update ::
  "(rstmt \<Rightarrow> err option) \<Rightarrow> nat \<Rightarrow> string \<Rightarrow> ('q MLRun \<Rightarrow> 'q MLRun) \<Rightarrow> 'q MLRun list \<Rightarrow>
   err + 'q MLRun list" where
  "run_Update fault now i f t =
     (case fault UpdateRows of Some e \<Rightarrow> Inl e
      | None \<Rightarrow> Inr (update_where (\<lambda>r. run_id r = i) (\<lambda>r. f (r\<lparr>run_updatedAt := now\<rparr>)) t))"

text \<open>The error of a write whose error the caller drops.\<close>

definition run_Update_quiet ::
  "(rstmt \<Rightarrow> err option) \<Rightarrow> nat \<Rightarrow> string \<Rightarrow> ('q MLRun \<Rightarrow> 'q MLRun) \<Rightarrow> 'q MLRun list \<Rightarrow> 'q MLRun list" where
  "run_Update_quiet fault now i f t = (case run_Update fault now i f t of Inl _ \<Rightarrow> t | Inr t' \<Rightarrow> t')"

definition run_UpdatePhase ::
  "(rstmt \<Rightarrow> err option) \<Rightarrow> nat \<Rightarrow> string \<Rightarrow> run_phase \<Rightarrow> ('q MLRun \<Rightarrow> 'q MLRun) \<Rightarrow> 'q MLRun list \<Rightarrow>
   err + ('q MLRun list \<times> bool)" where
  "run_UpdatePhase fault now i phase f t =
     (let hit = (\<lambda>r. run_id r = i \<and> run_phase r = phase \<and> run_deletedAt r = None) in
      case fault UpdateRows of Some e \<Rightarrow> Inl e
      | None \<Rightarrow> Inr (update_where hit (\<lambda>r. f (r\<lparr>run_updatedAt := now\<rparr>)) t, rows_affected hit t = 1))"

definition run_MarkDeleting ::
  "(rstmt \<Rightarrow> err option) \<Rightarrow> nat \<Rightarrow> string \<Rightarrow> 'q MLRun list \<Rightarrow> err + 'q MLRun list" where
  "run_MarkDeleting fault now i t =
     run_Update fault now i (\<lambda>r. r\<lparr>run_phase := RunDeleting, run_deletedAt := Some now\<rparr>) t"

definition run_ListByNamespace ::
  "(rstmt \<Rightarrow> err option) \<Rightarrow> string \<Rightarrow> nat \<Rightarrow> nat \<Rightarrow> ('q MLRun \<Rightarrow> bool) \<Rightarrow> 'q MLRun list \<Rightarrow>
   err + ('q MLRun list \<times> nat)" where
  "run_ListByNamespace fault namespace limit offset label t =
     (case fault SelectList of Some e \<Rightarrow> Inl e
      | None \<Rightarrow>
          let q = filter (\<lambda>r. run_namespace r = namespace \<and> run_deletedAt r = None \<and> label r) t
          in Inr (page run_createdAt limit offset q, length q))"

definition run_ListPhasesByNames ::
  "(rstmt \<Rightarrow> err option) \<Rightarrow> string \<Rightarrow> string list \<Rightarrow> 'q MLRun list \<Rightarrow> err + 'q MLRun list" where
  "run_ListPhasesByNames fault namespace names t =
     (if names = [] then Inr []
      else case fault SelectList of Some e \<Rightarrow> Inl e
      | None \<Rightarrow> Inr (sort_key run_name
          (filter (\<lambda>r. run_namespace r = namespace \<and> run_name r \<in> set names \<and> run_deletedAt r = None) t)))"

definition run_FindObservable :: "'q MLRun list \<Rightarrow> 'q MLRun list" where
  "run_FindObservable t =
     work_batch run_updatedAt
       (\<lambda>r. run_phase r \<in> {RunCreating, RunPending, RunRunning, RunCanceling, RunDeleting}) t"

definition run_FindDispatchRecoverySet :: "nat \<Rightarrow> 'q MLRun list \<Rightarrow> 'q MLRun list" where
  "run_FindDispatchRecoverySet updatedBefore t =
     work_batch run_updatedAt
       (\<lambda>r. run_phase r \<in> {RunCreating, RunPending} \<and> run_updatedAt r \<le> updatedBefore \<and>
            run_deletedAt r = None) t"

record 'q run_WorkSet =
  rw_Creating :: "'q MLRun list"
  rw_Canceling :: "'q MLRun list"
  rw_Deleting :: "'q MLRun list"

definition run_FindWorkSet :: "'q MLRun list \<Rightarrow> 'q run_WorkSet" where
  "run_FindWorkSet t =
     \<lparr>rw_Creating = work_batch run_updatedAt (\<lambda>r. run_phase r = RunCreating \<and> run_deletedAt r = None) t,
      rw_Canceling = work_batch run_updatedAt (\<lambda>r. run_phase r = RunCanceling) t,
      rw_Deleting = work_batch run_updatedAt (\<lambda>r. run_phase r = RunDeleting) t\<rparr>"

section \<open>Queue priority\<close>

text \<open>\<open>strconv.ParseInt(raw, 10, 32)\<close>\<close>

definition digit_value :: "char \<Rightarrow> int option" where
  "digit_value c = (if in_range (CHR ''0'') (CHR ''9'') c then Some (of_char c - 48) else None)"

fun parse_digits :: "int \<Rightarrow> string \<Rightarrow> int option" where
  "parse_digits acc [] = Some acc"
| "parse_digits acc (c # s) =
     (case digit_value c of None \<Rightarrow> None | Some d \<Rightarrow> parse_digits (10 * acc + d) s)"

definition parse_int32 :: "string \<Rightarrow> int option" where
  "parse_int32 raw =
     (let (neg, digits) = (case raw of [] \<Rightarrow> (False, [])
            | c # s \<Rightarrow> if c = CHR ''-'' then (True, s) else if c = CHR ''+'' then (False, s) else (False, raw))
      in if digits = [] then None
         else case parse_digits 0 digits of None \<Rightarrow> None
              | Some n \<Rightarrow> let v = (if neg then - n else n) in if int32_range v then Some v else None)"

definition PriorityFromAnnotations :: "(string, string) gomap \<Rightarrow> err + int" where
  "PriorityFromAnnotations annotations =
     (case map_of annotations AnnotationPriority of
        None \<Rightarrow> Inr 0
      | Some raw \<Rightarrow> (case parse_int32 raw of
            None \<Rightarrow> Inl (EPlain (''annotation '' @ AnnotationPriority @ '' must be a base-10 signed int32''))
          | Some v \<Rightarrow> Inr v))"

section \<open>API operations\<close>

text \<open>What a call meets: statement errors, the clock, a fresh UUID, the caller, the resolver.\<close>

record 'q api_env =
  a_fault :: "rstmt \<Rightarrow> err option"
  a_now :: nat
  a_uuid :: string
  a_user :: string
  a_pools :: "'q resolver"

definition default_backend :: "string \<Rightarrow> string \<Rightarrow> Backend option \<Rightarrow> Backend" where
  "default_backend name engine given =
     (case given of
        None \<Rightarrow> \<lparr>be_name = name, be_engine = engine, be_config = None\<rparr>
      | Some b \<Rightarrow> \<lparr>be_name = (if be_name b \<noteq> [] then be_name b else name),
                   be_engine = (if be_engine b \<noteq> [] then be_engine b else engine),
                   be_config = be_config b\<rparr>)"

definition expand_roles :: "'q Expanded \<Rightarrow> 'q RoleSpec list \<Rightarrow> 'q RoleSpec list" where
  "expand_roles expanded roles =
     map (\<lambda>r. r\<lparr>role_template := BuildResources (ex_requests expanded) (ex_limits expanded) (role_template r)\<rparr>)
       roles"

definition new_run_spec ::
  "string \<Rightarrow> 'q MLRunCreateRequest \<Rightarrow> 'q Expanded \<Rightarrow> RunPolicy \<Rightarrow> 'q MLRunSpec" where
  "new_run_spec namespace req expanded runPolicy =
     \<lparr>rs_backend = default_backend ''native'' ''job'' (rin_backend req),
      rs_scheduling = \<lparr>sch_quota = ElasticQuotaName namespace (rin_poolName req),
         sch_priorityClass = rin_priorityClass req, sch_nodeSelector = ex_nodeSelector expanded,
         sch_tolerations = []\<rparr>,
      rs_configMaps = rin_configMaps req, rs_roles = expand_roles expanded (rin_roles req),
      rs_runPolicy = runPolicy\<rparr>"

definition new_run_row ::
  "'q api_env \<Rightarrow> string \<Rightarrow> 'q MLRunCreateRequest \<Rightarrow> int \<Rightarrow> 'q MLRunSpec \<Rightarrow> 'q MLRun" where
  "new_run_row env namespace req priority spec =
     \<lparr>run_id = a_uuid env, run_namespace = namespace, run_name = rin_name req,
      run_displayName = rin_displayName req, run_description = rin_description req, run_owner = a_user env,
      run_labels = mapBytes (mergeLabels (rin_labels req)
         [(LabelResourcePool, rin_poolName req), (LabelResourceUnit, rin_unitName req)]),
      run_annotations = mapBytes (rin_annotations req), run_spec = json_marshal spec,
      run_priority = priority, run_phase = RunQueued, run_status = JOk zero_run_status,
      run_scheduledAt = None, run_createdAt = a_now env, run_updatedAt = a_now env, run_deletedAt = None\<rparr>"

definition run_Create ::
  "'q api_env \<Rightarrow> string \<Rightarrow> 'q MLRunCreateRequest \<Rightarrow> 'q MLRun list \<Rightarrow> 'q MLRun list \<times> (err + 'q run_view)" where
  "run_Create env namespace req t =
     (if \<not> IsValidName (rin_name req) then (t, Inl (EApp CodeValidation ''invalid job name''))
      else case run_GetByNamespaceName (a_fault env) namespace (rin_name req) t of
        Inr _ \<Rightarrow> (t, Inl (EApp CodeConflict ''job already exists''))
      | Inl e \<Rightarrow>
        if e \<noteq> ENotFound then (t, Inl e)
        else case PriorityFromAnnotations (rin_annotations req) of
          Inl e \<Rightarrow> (t, Inl (EApp CodeValidation (err_string e)))
        | Inr priority \<Rightarrow>
          case ResolveResourcePool (a_pools env) (rin_poolName req) of Inl e \<Rightarrow> (t, Inl e) | Inr pool \<Rightarrow>
          case ResolveResourceUnit (a_pools env) (rin_poolName req) (rin_unitName req) of
            Inl e \<Rightarrow> (t, Inl e)
          | Inr unit \<Rightarrow>
            let expanded = Expand pool unit in
            if (case rin_runPolicy req of None \<Rightarrow> False | Some p \<Rightarrow> rp_suspend p)
            then (t, Inl (EApp CodeValidation ''runPolicy.suspend=true is not allowed on Create; use POST /mlruns/{name}/cancel after submission''))
            else
              let runPolicy = (case rin_runPolicy req of None \<Rightarrow> zero_run_policy | Some p \<Rightarrow> p);
                  j = new_run_row env namespace req priority (new_run_spec namespace req expanded runPolicy)
              in case run_CreateRow (a_fault env) j t of
                   Inl e \<Rightarrow> (t, Inl e) | Inr t' \<Rightarrow> (t', Inr (run_toView j)))"

definition run_not_found :: "err \<Rightarrow> err" where
  "run_not_found e = (if e = ENotFound then EApp CodeNotFound ''job not found'' else e)"

definition run_GetOp ::
  "'q api_env \<Rightarrow> string \<Rightarrow> string \<Rightarrow> 'q MLRun list \<Rightarrow> err + 'q run_view" where
  "run_GetOp env namespace name t =
     (case run_GetByNamespaceName (a_fault env) namespace name t of
        Inl e \<Rightarrow> Inl (run_not_found e) | Inr j \<Rightarrow> Inr (run_toView j))"

definition run_PhaseOp ::
  "'q api_env \<Rightarrow> string \<Rightarrow> string \<Rightarrow> 'q MLRun list \<Rightarrow> err + run_phase_view" where
  "run_PhaseOp env namespace name t =
     (case run_GetByNamespaceName (a_fault env) namespace name t of
        Inl e \<Rightarrow> Inl (run_not_found e) | Inr j \<Rightarrow> Inr (run_phaseView j))"

definition run_PhasesByNames ::
  "'q api_env \<Rightarrow> string \<Rightarrow> string list \<Rightarrow> 'q MLRun list \<Rightarrow> err + run_phase_view list" where
  "run_PhasesByNames env namespace names t =
     (case run_ListPhasesByNames (a_fault env) namespace names t of
        Inl e \<Rightarrow> Inl e | Inr rows \<Rightarrow> Inr (map run_phaseView rows))"

definition run_List ::
  "'q api_env \<Rightarrow> string \<Rightarrow> nat \<Rightarrow> nat \<Rightarrow> ('q MLRun \<Rightarrow> bool) \<Rightarrow> 'q MLRun list \<Rightarrow> err + ('q run_view list \<times> nat)" where
  "run_List env namespace limit offset label t =
     (case run_ListByNamespace (a_fault env) namespace limit offset label t of
        Inl e \<Rightarrow> Inl e | Inr (rows, n) \<Rightarrow> Inr (map run_toView rows, n))"

definition run_PhasesBySelector ::
  "'q api_env \<Rightarrow> string \<Rightarrow> nat \<Rightarrow> nat \<Rightarrow> ('q MLRun \<Rightarrow> bool) \<Rightarrow> 'q MLRun list \<Rightarrow>
   err + (run_phase_view list \<times> nat)" where
  "run_PhasesBySelector env namespace limit offset label t =
     (case run_ListByNamespace (a_fault env) namespace limit offset label t of
        Inl e \<Rightarrow> Inl e | Inr (rows, n) \<Rightarrow> Inr (map run_phaseView rows, n))"

definition run_mergeStatusFields ::
  "MLRunStatus json \<Rightarrow> (MLRunStatus \<Rightarrow> MLRunStatus) \<Rightarrow> MLRunStatus json" where
  "run_mergeStatusFields raw mutate = json_marshal (mutate (json_lenient zero_run_status raw))"

text \<open>The write of \<open>Cancel\<close> on a queued run and on an active one.\<close>

definition cancel_write :: "'q MLRun \<Rightarrow> nat \<Rightarrow> run_phase \<times> MLRunStatus json" where
  "cancel_write j now =
     (if run_phase j = RunQueued
      then (RunCancelled, run_mergeStatusFields (run_status j)
              (\<lambda>s. s\<lparr>rst_message := ''user cancelled'', rst_queueReason := [], rst_finishedAt := Some now\<rparr>))
      else (RunCanceling, run_mergeStatusFields (run_status j) (\<lambda>s. s\<lparr>rst_message := ''user cancelled''\<rparr>)))"

definition run_Cancel ::
  "'q api_env \<Rightarrow> string \<Rightarrow> string \<Rightarrow> 'q MLRun list \<Rightarrow> 'q MLRun list \<times> (err + 'q run_view)" where
  "run_Cancel env namespace name t =
     (case run_GetByNamespaceName (a_fault env) namespace name t of
        Inl e \<Rightarrow> (t, Inl (run_not_found e))
      | Inr j \<Rightarrow>
          if run_phase j = RunCreating
          then (t, Inl (EApp CodePrecondition ''job is still being created; use DELETE''))
          else if run_phase j \<in> {RunCanceling, RunCancelled, RunDeleting, RunDeleted, RunSucceeded, RunFailed}
          then (t, Inl (EApp CodePrecondition ''job is not cancellable in current state''))
          else
            let now = a_now env; (phase, status) = cancel_write j now in
            case run_Update (a_fault env) now (run_id j)
                   (\<lambda>r. r\<lparr>run_phase := phase, run_status := status\<rparr>) t of
              Inl e \<Rightarrow> (t, Inl e)
            | Inr t' \<Rightarrow> (t', Inr (run_toView (j\<lparr>run_phase := phase, run_status := status, run_updatedAt := now\<rparr>))))"

text \<open>The columns a patch sets, given the row it read.\<close>

definition patch_columns :: "MLRunPatchRequest \<Rightarrow> 'q MLRun \<Rightarrow> 'q MLRun \<Rightarrow> 'q MLRun" where
  "patch_columns req j r =
     (let r = (case rpa_displayName req of None \<Rightarrow> r | Some v \<Rightarrow> r\<lparr>run_displayName := v\<rparr>);
          r = (case rpa_description req of None \<Rightarrow> r | Some v \<Rightarrow> r\<lparr>run_description := v\<rparr>);
          current = decodeStringMap (run_labels j);
          r = (case rpa_labels req of None \<Rightarrow> r
               | Some labels \<Rightarrow> r\<lparr>run_labels := mapBytes (mergeLabels labels
                   [(LabelResourcePool, sget current LabelResourcePool),
                    (LabelResourceUnit, sget current LabelResourceUnit)])\<rparr>)
      in case rpa_annotations req of None \<Rightarrow> r | Some a \<Rightarrow> r\<lparr>run_annotations := mapBytes a\<rparr>)"

text \<open>The checks on new annotations: the priority must parse and stay what it was.\<close>

definition patch_annotations_error :: "MLRunPatchRequest \<Rightarrow> 'q MLRun \<Rightarrow> err option" where
  "patch_annotations_error req j =
     (case rpa_annotations req of None \<Rightarrow> None
      | Some a \<Rightarrow>
          (case PriorityFromAnnotations a of
             Inl e \<Rightarrow> Some (EApp CodeValidation (err_string e))
           | Inr _ \<Rightarrow>
               if map_of (decodeStringMap (run_annotations j)) AnnotationPriority \<noteq> map_of a AnnotationPriority
               then Some (EApp CodeImmutableField ''annotation scheduling.axisml.io/priority is immutable'')
               else None))"

definition run_Patch ::
  "'q api_env \<Rightarrow> string \<Rightarrow> string \<Rightarrow> MLRunPatchRequest \<Rightarrow> 'q MLRun list \<Rightarrow>
   'q MLRun list \<times> (err + 'q run_view)" where
  "run_Patch env namespace name req t =
     (case run_GetByNamespaceName (a_fault env) namespace name t of
        Inl e \<Rightarrow> (t, Inl (run_not_found e))
      | Inr j \<Rightarrow>
          case patch_annotations_error req j of Some e \<Rightarrow> (t, Inl e) | None \<Rightarrow>
          if rpa_displayName req = None \<and> rpa_description req = None \<and>
             rpa_labels req = None \<and> rpa_annotations req = None
          then (t, Inr (run_toView j))
          else case run_Update (a_fault env) (a_now env) (run_id j) (patch_columns req j) t of
            Inl e \<Rightarrow> (t, Inl e)
          | Inr t' \<Rightarrow>
              (t', case run_Get (a_fault env) (run_id j) t' of
                     Inl e \<Rightarrow> Inl e | Inr fresh \<Rightarrow> Inr (run_toView fresh)))"

definition run_Delete ::
  "'q api_env \<Rightarrow> string \<Rightarrow> string \<Rightarrow> 'q MLRun list \<Rightarrow> 'q MLRun list \<times> (err + unit)" where
  "run_Delete env namespace name t =
     (case run_GetByNamespaceName (a_fault env) namespace name t of
        Inl e \<Rightarrow> (t, if e = ENotFound then Inr () else Inl e)
      | Inr j \<Rightarrow>
          if run_phase j \<in> {RunDeleting, RunDeleted} then (t, Inr ())
          else case (if run_phase j = RunQueued
                     then run_Update (a_fault env) (a_now env) (run_id j)
                            (\<lambda>r. r\<lparr>run_phase := RunDeleted, run_deletedAt := Some (a_now env)\<rparr>) t
                     else run_MarkDeleting (a_fault env) (a_now env) (run_id j) t) of
                 Inl e \<Rightarrow> (t, Inl e) | Inr t' \<Rightarrow> (t', Inr ()))"

section \<open>Rendering\<close>

abbreviation "LabelRunID \<equiv> ''compute.axisml.io/run-id''"
abbreviation "LabelTenant \<equiv> ''tenant.axisml.io/name''"
abbreviation "LabelQuota \<equiv> ''compute.axisml.io/quota''"

definition reservedAnnotations :: "(string, string) gomap \<Rightarrow> (string, string) gomap" where
  "reservedAnnotations row =
     (case map_of row AnnotationPriority of Some v \<Rightarrow> [(AnnotationPriority, v)] | None \<Rightarrow> [])"

text \<open>The loop that copies the provenance labels of the row.\<close>

definition provenance_labels :: "(string, string) gomap \<Rightarrow> (string, string) gomap \<Rightarrow> (string, string) gomap" where
  "provenance_labels rowLabels labels =
     foldl (\<lambda>labels k. case map_of rowLabels k of
              Some v \<Rightarrow> if v \<noteq> [] then AList.update k v labels else labels
            | None \<Rightarrow> labels) labels [LabelResourcePool, LabelResourceUnit]"

definition run_ToCR :: "'q MLRun \<Rightarrow> bool \<Rightarrow> err + 'q MLRunSpec cr" where
  "run_ToCR j tenantPrefix =
     (case (if run_spec j = JEmpty then Some zero_run_spec else json_decode (run_spec j)) of
        None \<Rightarrow> Inl (EDecode ''mlrun spec'')
      | Some spec \<Rightarrow>
          Inr \<lparr>cr_name = run_name j, cr_namespace = run_namespace j,
               cr_labels = provenance_labels (decodeStringMap (run_labels j))
                 [(LabelRunID, run_id j), (LabelTenant, run_namespace j),
                  (LabelQuota, sch_quota (rs_scheduling spec))],
               cr_annotations = Annotate (reservedAnnotations (decodeStringMap (run_annotations j)))
                 (run_namespace j) (run_name j) tenantPrefix,
               cr_spec = spec\<rparr>)"

section \<open>Status reflow\<close>

definition run_reflectObserved ::
  "(rstmt \<Rightarrow> err option) \<Rightarrow> nat \<Rightarrow> 'q MLRun \<Rightarrow> run_observed \<Rightarrow> nat \<Rightarrow> 'q MLRun list \<Rightarrow> 'q MLRun list" where
  "run_reflectObserved fault stamp j observed now t =
     (let prevStatus = json_lenient zero_run_status (run_status j);
          (newPhase, mapped) = MapRun (run_phase j)
             \<lparr>rs_message = rst_message prevStatus, rs_startedAt = rst_startedAt prevStatus,
              rs_finishedAt = rst_finishedAt prevStatus\<rparr> observed now;
          nextStatus = prevStatus\<lparr>rst_message := rs_message mapped, rst_startedAt := rs_startedAt mapped,
                                  rst_finishedAt := rs_finishedAt mapped\<rparr>
      in if newPhase = run_phase j \<and> json_marshal nextStatus = json_marshal prevStatus then t
         else run_Update_quiet fault stamp (run_id j)
                (\<lambda>r. r\<lparr>run_phase := newPhase, run_status := json_marshal nextStatus\<rparr>) t)"

definition run_reflectGone ::
  "(rstmt \<Rightarrow> err option) \<Rightarrow> nat \<Rightarrow> 'q MLRun \<Rightarrow> 'q MLRun list \<Rightarrow> 'q MLRun list" where
  "run_reflectGone fault now j t =
     (case run_phase j of
        RunDeleting \<Rightarrow> run_Update_quiet fault now (run_id j)
          (\<lambda>r. r\<lparr>run_phase := RunDeleted, run_deletedAt := Some now\<rparr>) t
      | RunPending \<Rightarrow> run_Update_quiet fault now (run_id j)
          (\<lambda>r. r\<lparr>run_phase := RunQueued,
                 run_status := run_mergeStatusFields (run_status j)
                   (\<lambda>s. s\<lparr>rst_queueReason := [],
                          rst_message := ''runtime object is absent; waiting for readmission''\<rparr>),
                 run_scheduledAt := None\<rparr>) t
      | RunRunning \<Rightarrow> run_Update_quiet fault now (run_id j)
          (\<lambda>r. r\<lparr>run_phase := RunCancelled,
                 run_status := run_mergeStatusFields (run_status j)
                   (\<lambda>s. s\<lparr>rst_message := ''external delete'', rst_finishedAt := Some now\<rparr>)\<rparr>) t
      | RunCanceling \<Rightarrow> run_Update_quiet fault now (run_id j)
          (\<lambda>r. r\<lparr>run_phase := RunCancelled,
                 run_status := run_mergeStatusFields (run_status j) (\<lambda>s. s\<lparr>rst_finishedAt := Some now\<rparr>)\<rparr>) t
      | _ \<Rightarrow> t)"

text \<open>What a background loop meets; \<open>uuid.Parse\<close> is library code.\<close>

record loop_env =
  l_fault :: "rstmt \<Rightarrow> err option"
  l_now :: nat
  l_tenantPrefix :: bool
  l_parseUUID :: "string \<Rightarrow> string option"

definition jobIDFromLabels :: "loop_env \<Rightarrow> 's cr \<Rightarrow> err + string" where
  "jobIDFromLabels env cr =
     (case map_of (cr_labels cr) LabelRunID of
        None \<Rightarrow> Inl (EPlain ''missing compute.axisml.io/run-id label'')
      | Some v \<Rightarrow> (case l_parseUUID env v of None \<Rightarrow> Inl (EPlain ''invalid UUID'') | Some i \<Rightarrow> Inr i))"

definition run_onChange ::
  "loop_env \<Rightarrow> 'q MLRunSpec cr \<Rightarrow> run_observed \<Rightarrow> 'q MLRun list \<Rightarrow> 'q MLRun list" where
  "run_onChange env cr status t =
     (case jobIDFromLabels env cr of Inl _ \<Rightarrow> t | Inr i \<Rightarrow>
      case run_Get (l_fault env) i t of Inl _ \<Rightarrow> t | Inr j \<Rightarrow>
        run_reflectObserved (l_fault env) (l_now env) j status (l_now env) t)"

definition run_onDelete :: "loop_env \<Rightarrow> 'q MLRunSpec cr \<Rightarrow> 'q MLRun list \<Rightarrow> 'q MLRun list" where
  "run_onDelete env cr t =
     (case jobIDFromLabels env cr of Inl _ \<Rightarrow> t | Inr i \<Rightarrow>
      case run_Get (l_fault env) i t of Inl _ \<Rightarrow> t | Inr j \<Rightarrow> run_reflectGone (l_fault env) (l_now env) j t)"

definition run_poll_row ::
  "loop_env \<Rightarrow> ('q MLRunSpec, run_observed, 'w) runtime \<Rightarrow> 'w \<Rightarrow> 'q MLRun list \<Rightarrow> 'q MLRun \<Rightarrow> 'q MLRun list" where
  "run_poll_row env rt w t row =
     (case rt_observe rt (run_nsname row) w of
        Inl e \<Rightarrow> if rte_notFound e then run_reflectGone (l_fault env) (l_now env) row t else t
      | Inr observed \<Rightarrow> run_reflectObserved (l_fault env) (l_now env) row observed (l_now env) t)"

definition run_poll ::
  "loop_env \<Rightarrow> ('q MLRunSpec, run_observed, 'w) runtime \<Rightarrow> 'w \<Rightarrow> 'q MLRun list \<Rightarrow> 'q MLRun list" where
  "run_poll env rt w t =
     (case l_fault env SelectList of Some e \<Rightarrow> t
      | None \<Rightarrow> foldl (run_poll_row env rt w) t (run_FindObservable t))"

section \<open>The reconciler\<close>

definition dispatchTimeout :: nat where
  "dispatchTimeout = 2 * 60"

text \<open>A recovery that finds no runtime object puts the run back into the queue.\<close>

definition run_requeue_stale ::
  "loop_env \<Rightarrow> 'q MLRun \<Rightarrow> 'q MLRun list \<Rightarrow> 'q MLRun list" where
  "run_requeue_stale env j t =
     (case run_UpdatePhase (l_fault env) (l_now env) (run_id j) (run_phase j)
            (\<lambda>r. r\<lparr>run_phase := RunQueued,
                   run_status := run_mergeStatusFields (run_status j)
                     (\<lambda>s. s\<lparr>rst_queueReason := [],
                            rst_message := ''runtime object absent after dispatch timeout; waiting for readmission''\<rparr>),
                   run_scheduledAt := None\<rparr>) t of
        Inl e \<Rightarrow> t | Inr (t', changed) \<Rightarrow> t')"

text \<open>A recovery that finds the runtime object repairs the row and reflects its status.\<close>

definition run_repair_stale ::
  "loop_env \<Rightarrow> 'q MLRun \<Rightarrow> run_observed \<Rightarrow> 'q MLRun list \<Rightarrow> 'q MLRun list" where
  "run_repair_stale env j observed t =
     (let now = l_now env; fault = l_fault env in
      if run_phase j = RunCreating
      then (case run_UpdatePhase fault now (run_id j) RunCreating
                   (\<lambda>r. r\<lparr>run_phase := RunPending, run_scheduledAt := Some now\<rparr>) t of
              Inl e \<Rightarrow> t
            | Inr (t', changed) \<Rightarrow>
                if changed
                then run_reflectObserved fault now (j\<lparr>run_phase := RunPending, run_scheduledAt := Some now\<rparr>)
                       observed now t'
                else t')
      else (case run_UpdatePhase fault now (run_id j) RunPending
                   (\<lambda>r. if run_scheduledAt j = None then r\<lparr>run_scheduledAt := Some now\<rparr> else r) t of
              Inl e \<Rightarrow> t
            | Inr (t', changed) \<Rightarrow>
                run_reflectObserved fault now
                  (if changed \<and> run_scheduledAt j = None then j\<lparr>run_scheduledAt := Some now\<rparr> else j)
                  observed now t'))"

definition run_handleDispatchRecovery ::
  "loop_env \<Rightarrow> ('q MLRunSpec, run_observed, 'w) runtime \<Rightarrow> 'w \<Rightarrow> 'q MLRun list \<Rightarrow> 'q MLRun \<Rightarrow> 'q MLRun list" where
  "run_handleDispatchRecovery env rt w t j =
     (case rt_observe rt (run_nsname j) w of
        Inl e \<Rightarrow> if rte_notFound e then run_requeue_stale env j t else t
      | Inr observed \<Rightarrow> run_repair_stale env j observed t)"

text \<open>What \<open>handleCreate\<close> does with the error of an apply.\<close>

definition run_apply_failed ::
  "loop_env \<Rightarrow> ('q MLRunSpec, run_observed, 'w) runtime \<Rightarrow> 'w \<Rightarrow> rt_error \<Rightarrow> 'q MLRun \<Rightarrow> 'q MLRun list \<Rightarrow>
   'q MLRun list" where
  "run_apply_failed env rt w e j t =
     (let now = l_now env; fault = l_fault env; terminal = IsTerminalApplyError e;
          next = run_mergeStatusFields (run_status j)
             (\<lambda>s. let s = s\<lparr>rst_message := rte_message e\<rparr>
                  in if terminal then s\<lparr>rst_finishedAt := Some now\<rparr> else s);
          t' = run_Update_quiet fault now (run_id j)
             (\<lambda>r. let r = r\<lparr>run_status := next\<rparr> in if terminal then r\<lparr>run_phase := RunFailed\<rparr> else r) t
      in if terminal then t'
         else if IsResourceUnavailable e
         then (case rt_instances rt (run_nsname j) w of
                 Inr [] \<Rightarrow> run_Update_quiet fault now (run_id j)
                   (\<lambda>r. r\<lparr>run_phase := RunQueued,
                          run_status := run_mergeStatusFields (run_status j)
                            (\<lambda>s. s\<lparr>rst_queueReason := ReasonInsufficientResources, rst_message := rte_message e\<rparr>),
                          run_scheduledAt := None\<rparr>) t'
               | _ \<Rightarrow> t')
         else t')"

definition run_handleCreate ::
  "loop_env \<Rightarrow> ('q MLRunSpec, run_observed, 'w) runtime \<Rightarrow> 'q MLRun list \<times> 'w \<Rightarrow> 'q MLRun \<Rightarrow>
   'q MLRun list \<times> 'w" where
  "run_handleCreate env rt s j =
     (case s of (t, w) \<Rightarrow>
      case run_ToCR j (l_tenantPrefix env) of Inl e \<Rightarrow> (t, w) | Inr cr \<Rightarrow>
      case rt_apply rt cr w of
        (Some e, w') \<Rightarrow> (run_apply_failed env rt w' e j t, w')
      | (None, w') \<Rightarrow>
          (run_Update_quiet (l_fault env) (l_now env) (run_id j)
             (\<lambda>r. r\<lparr>run_phase := RunPending, run_scheduledAt := Some (l_now env)\<rparr>) t, w'))"

definition run_handleCancel ::
  "('q MLRunSpec, run_observed, 'w) runtime \<Rightarrow> 'q MLRun list \<times> 'w \<Rightarrow> 'q MLRun \<Rightarrow> 'q MLRun list \<times> 'w" where
  "run_handleCancel rt s j = (case s of (t, w) \<Rightarrow> (t, snd (rt_cancel rt (run_nsname j) w)))"

definition run_handleDelete ::
  "loop_env \<Rightarrow> ('q MLRunSpec, run_observed, 'w) runtime \<Rightarrow> 'q MLRun list \<times> 'w \<Rightarrow> 'q MLRun \<Rightarrow>
   'q MLRun list \<times> 'w" where
  "run_handleDelete env rt s j =
     (case s of (t, w) \<Rightarrow>
      case rt_delete rt (run_nsname j) w of
        (Some e, w') \<Rightarrow> (t, w')
      | (None, w') \<Rightarrow>
          (if is_not_found (rt_observe rt (run_nsname j) w')
           then run_Update_quiet (l_fault env) (l_now env) (run_id j)
                  (\<lambda>r. r\<lparr>run_phase := RunDeleted, run_deletedAt := Some (l_now env)\<rparr>) t
           else t, w'))"

definition run_runOnce ::
  "loop_env \<Rightarrow> ('q MLRunSpec, run_observed, 'w) runtime \<Rightarrow> 'q MLRun list \<times> 'w \<Rightarrow> 'q MLRun list \<times> 'w" where
  "run_runOnce env rt s =
     (case l_fault env SelectRecovery of Some e \<Rightarrow> s | None \<Rightarrow>
      let (t, w) = s;
          t = foldl (run_handleDispatchRecovery env rt w) t
                (run_FindDispatchRecoverySet (l_now env - dispatchTimeout) t)
      in case l_fault env SelectList of Some e \<Rightarrow> (t, w) | None \<Rightarrow>
      let ws = run_FindWorkSet t;
          s = foldl (run_handleCreate env rt) (t, w) (rw_Creating ws);
          s = foldl (run_handleCancel rt) s (rw_Canceling ws)
      in foldl (run_handleDelete env rt) s (rw_Deleting ws))"

end
