(* ===== verification/ListApi.thy ===== *)
theory ListApi
  imports RunLifecycle
begin

text \<open>
  The list surface of the compute service's HTTP API: pagination with opaque continue tokens
  (\<^verbatim>\<open>internal/server/pagination.go\<close>), label selectors rendered to SQL (\<^verbatim>\<open>internal/server/labels.go\<close>),
  error responses (\<^verbatim>\<open>internal/server/problem.go\<close>) and the list handlers of runs
  (\<^verbatim>\<open>internal/mlrun/handler.go\<close>).

  Query parameters are texts, empty when absent. \<open>parse_sel\<close> is \<open>labels.Parse\<close> of the Kubernetes
  libraries with \<open>Requirements\<close>: the requirements of a selector, or an error text. Base64 and
  decimal numbers are those of the Go standard library; an \<open>int\<close> has 64 bits.
\<close>

section \<open>\<open>base64.RawURLEncoding\<close>\<close>

definition b64_alphabet :: string where
  "b64_alphabet = ''ABCDEFGHIJKLMNOPQRSTUVWXYZabcdefghijklmnopqrstuvwxyz0123456789-_''"

definition b64_char :: "nat \<Rightarrow> char" where
  "b64_char i = b64_alphabet ! i"

definition b64_index :: "char \<Rightarrow> nat option" where
  "b64_index c = (let i = length (takeWhile (\<lambda>d. d \<noteq> c) b64_alphabet) in if i < 64 then Some i else None)"

fun b64_encode_bytes :: "nat list \<Rightarrow> string" where
  "b64_encode_bytes [] = []"
| "b64_encode_bytes [a] = [b64_char (a div 4), b64_char (a mod 4 * 16)]"
| "b64_encode_bytes [a, b] = [b64_char (a div 4), b64_char (a mod 4 * 16 + b div 16), b64_char (b mod 16 * 4)]"
| "b64_encode_bytes (a # b # c # rest) =
     b64_char (a div 4) # b64_char (a mod 4 * 16 + b div 16) # b64_char (b mod 16 * 4 + c div 64) # b64_char (c mod 64) #
     b64_encode_bytes rest"

text \<open>
  Decoding skips line breaks, fails on other characters outside the alphabet and on a single left-over character, and
  drops the unused low bits of a short last group.
\<close>

fun b64_decode_digits :: "nat list \<Rightarrow> nat list option" where
  "b64_decode_digits [] = Some []"
| "b64_decode_digits [a] = None"
| "b64_decode_digits [a, b] = Some [a * 4 + b div 16]"
| "b64_decode_digits [a, b, c] = Some [a * 4 + b div 16, b mod 16 * 16 + c div 4]"
| "b64_decode_digits (a # b # c # d # rest) =
     map_option (\<lambda>bs. (a * 4 + b div 16) # (b mod 16 * 16 + c div 4) # (c mod 4 * 64 + d) # bs) (b64_decode_digits rest)"

fun digits_of :: "string \<Rightarrow> nat list option" where
  "digits_of [] = Some []"
| "digits_of (c # s) =
     (if c = CHR 0x0A \<or> c = CHR 0x0D then digits_of s
      else case b64_index c of None \<Rightarrow> None | Some i \<Rightarrow> map_option (\<lambda>is. i # is) (digits_of s))"

definition b64_encode :: "string \<Rightarrow> string" where
  "b64_encode s = b64_encode_bytes (map of_char s)"

definition b64_decode :: "string \<Rightarrow> string option" where
  "b64_decode s = (case digits_of s of None \<Rightarrow> None | Some ds \<Rightarrow> map_option (map char_of) (b64_decode_digits ds))"

section \<open>Pagination\<close>

definition int64_range :: "int \<Rightarrow> bool" where
  "int64_range v \<longleftrightarrow> - (2 ^ 63) \<le> v \<and> v < 2 ^ 63"

text \<open>\<open>strconv.Atoi\<close>\<close>

definition Atoi :: "string \<Rightarrow> int option" where
  "Atoi raw =
     (let (neg, digits) = (case raw of [] \<Rightarrow> (False, [])
            | c # s \<Rightarrow> if c = CHR ''-'' then (True, s) else if c = CHR ''+'' then (False, s) else (False, raw))
      in if digits = [] then None
         else case parse_digits 0 digits of None \<Rightarrow> None
              | Some n \<Rightarrow> let v = (if neg then - n else n) in if int64_range v then Some v else None)"

record Pagination =
  pg_limit :: int
  pg_offset :: int

abbreviation "defaultLimit \<equiv> (50 :: int)"
abbreviation "maxLimit \<equiv> (200 :: int)"

definition EncodeContinue :: "int \<Rightarrow> int \<Rightarrow> int \<Rightarrow> string" where
  "EncodeContinue offset cnt tot =
     (if tot \<le> offset + cnt then [] else b64_encode (show_int (offset + cnt)))"

definition decodeContinue :: "string \<Rightarrow> int option" where
  "decodeContinue raw = (case b64_decode raw of None \<Rightarrow> None | Some b \<Rightarrow> Atoi b)"

definition parse_limit :: "string \<Rightarrow> err + int" where
  "parse_limit v =
     (if v = [] then Inr defaultLimit
      else case Atoi v of
        None \<Rightarrow> Inl (EApp CodeValidation ''limit must be a positive integer'')
      | Some n \<Rightarrow>
          if n \<le> 0 then Inl (EApp CodeValidation ''limit must be a positive integer'')
          else Inr (if n > maxLimit then maxLimit else n))"

definition ParsePagination :: "string \<Rightarrow> string \<Rightarrow> err + Pagination" where
  "ParsePagination limit cont =
     (case parse_limit limit of Inl e \<Rightarrow> Inl e
      | Inr n \<Rightarrow>
          if cont = [] then Inr \<lparr>pg_limit = n, pg_offset = 0\<rparr>
          else case decodeContinue cont of
            None \<Rightarrow> Inl (EApp CodeValidation ''continue token is invalid'')
          | Some m \<Rightarrow>
              if m < 0 then Inl (EApp CodeValidation ''continue token is invalid'')
              else Inr \<lparr>pg_limit = n, pg_offset = m\<rparr>)"

text \<open>\<open>strings.Split(raw, ",")\<close> and \<open>strings.TrimSpace\<close> on ASCII text.\<close>

fun split_comma :: "string \<Rightarrow> string \<Rightarrow> string list" where
  "split_comma cur [] = [rev cur]"
| "split_comma cur (c # s) = (if c = CHR '','' then rev cur # split_comma [] s else split_comma (c # cur) s)"

definition is_space :: "char \<Rightarrow> bool" where
  "is_space c \<longleftrightarrow> c \<in> {CHR '' '', CHR 0x09, CHR 0x0A, CHR 0x0B, CHR 0x0C, CHR 0x0D}"

definition trimSpace :: "string \<Rightarrow> string" where
  "trimSpace s = rev (dropWhile is_space (rev (dropWhile is_space s)))"

definition QueryCSV :: "string list \<Rightarrow> string list" where
  "QueryCSV raws =
     foldl (\<lambda>out v. if v = [] \<or> v \<in> set out then out else out @ [v]) []
       (concat (map (\<lambda>raw. map trimSpace (split_comma [] raw)) raws))"

section \<open>Label selectors\<close>

datatype sel_op = OpEquals | OpDoubleEquals | OpNotEquals | OpExists | OpNotExists | OpIn | OpNotIn | OpGt | OpLt

record requirement =
  rq_key :: string
  rq_op :: sel_op
  rq_values :: "string list"

text \<open>
  The \<open>WHERE\<close> fragments the code renders, on \<open>labels ->> key\<close>: each stands for one format string,
  written out by \<open>clause_text\<close>, and \<open>clause_args\<close> are the arguments appended for it.
\<close>

datatype clause =
    ClEq string string | ClDistinct string string | ClNotNull string | ClNull string
  | ClIn string "string list" | ClNullOrNotIn string "string list"

definition requirement_clause :: "requirement \<Rightarrow> clause option" where
  "requirement_clause r =
     (let vals = rq_values r; k = rq_key r in
      case rq_op r of
        OpEquals \<Rightarrow> if length vals \<noteq> 1 then None else Some (ClEq k (hd vals))
      | OpDoubleEquals \<Rightarrow> if length vals \<noteq> 1 then None else Some (ClEq k (hd vals))
      | OpNotEquals \<Rightarrow> if length vals \<noteq> 1 then None else Some (ClDistinct k (hd vals))
      | OpExists \<Rightarrow> Some (ClNotNull k)
      | OpNotExists \<Rightarrow> Some (ClNull k)
      | OpIn \<Rightarrow> if vals = [] then None else Some (ClIn k vals)
      | OpNotIn \<Rightarrow> if vals = [] then None else Some (ClNullOrNotIn k vals)
      | OpGt \<Rightarrow> None
      | OpLt \<Rightarrow> None)"

definition placeholders :: "string list \<Rightarrow> string" where
  "placeholders vals = join '','' (map (\<lambda>_. ''?'') vals)"

fun clause_text :: "string \<Rightarrow> clause \<Rightarrow> string" where
  "clause_text column (ClEq k v) = ''('' @ column @ '' ->> ?) = ?''"
| "clause_text column (ClDistinct k v) = ''('' @ column @ '' ->> ?) IS DISTINCT FROM ?''"
| "clause_text column (ClNotNull k) = ''('' @ column @ '' ->> ?) IS NOT NULL''"
| "clause_text column (ClNull k) = ''('' @ column @ '' ->> ?) IS NULL''"
| "clause_text column (ClIn k vals) = ''('' @ column @ '' ->> ?) IN ('' @ placeholders vals @ '')''"
| "clause_text column (ClNullOrNotIn k vals) =
     ''(('' @ column @ '' ->> ?) IS NULL OR ('' @ column @ '' ->> ?) NOT IN ('' @ placeholders vals @ ''))''"

fun clause_args :: "clause \<Rightarrow> string list" where
  "clause_args (ClEq k v) = [k, v]"
| "clause_args (ClDistinct k v) = [k, v]"
| "clause_args (ClNotNull k) = [k]"
| "clause_args (ClNull k) = [k]"
| "clause_args (ClIn k vals) = k # vals"
| "clause_args (ClNullOrNotIn k vals) = k # k # vals"

definition selector_clauses :: "requirement list \<Rightarrow> clause list" where
  "selector_clauses reqs = List.map_filter requirement_clause reqs"

definition JSONLabelsSQL ::
  "(string \<Rightarrow> string + requirement list) \<Rightarrow> string \<Rightarrow> string \<Rightarrow> err + string \<times> string list" where
  "JSONLabelsSQL parse_sel column raw =
     (if trimSpace raw = [] then Inr ([], [])
      else case parse_sel raw of
        Inl e \<Rightarrow> Inl (EApp CodeValidation (''labelSelector parse: '' @ e))
      | Inr reqs \<Rightarrow>
          let clauses = selector_clauses reqs in
          Inr (join '' AND '' (map (clause_text column) clauses), concat (map clause_args clauses)))"

text \<open>What SQL makes of a fragment on a row: true, false or unknown, by the rules for \<open>NULL\<close>.\<close>

fun clause_value :: "clause \<Rightarrow> (string, string) gomap \<Rightarrow> bool option" where
  "clause_value (ClEq k v) m = (case map_of m k of None \<Rightarrow> None | Some x \<Rightarrow> Some (x = v))"
| "clause_value (ClDistinct k v) m = Some (map_of m k \<noteq> Some v)"
| "clause_value (ClNotNull k) m = Some (map_of m k \<noteq> None)"
| "clause_value (ClNull k) m = Some (map_of m k = None)"
| "clause_value (ClIn k vals) m = (case map_of m k of None \<Rightarrow> None | Some x \<Rightarrow> Some (x \<in> set vals))"
| "clause_value (ClNullOrNotIn k vals) m = (case map_of m k of None \<Rightarrow> Some True | Some x \<Rightarrow> Some (x \<notin> set vals))"

text \<open>The rows a query with the rendered selector returns: those on which every fragment is true.\<close>

definition selector_sql ::
  "(string \<Rightarrow> string + requirement list) \<Rightarrow> string \<Rightarrow> err + ((string, string) gomap \<Rightarrow> bool)" where
  "selector_sql parse_sel raw =
     (if trimSpace raw = [] then Inr (\<lambda>_. True)
      else case parse_sel raw of
        Inl e \<Rightarrow> Inl (EApp CodeValidation (''labelSelector parse: '' @ e))
      | Inr reqs \<Rightarrow> Inr (\<lambda>m. list_all (\<lambda>c. clause_value c m = Some True) (selector_clauses reqs)))"

section \<open>Error responses\<close>

fun statusFor :: "code \<Rightarrow> nat" where
  "statusFor CodeValidation = 400"
| "statusFor CodeNotFound = 404"
| "statusFor CodeConflict = 409"
| "statusFor CodeImmutableField = 409"
| "statusFor CodePrecondition = 412"
| "statusFor CodeUnauthorized = 401"
| "statusFor CodeForbidden = 403"
| "statusFor CodeUnavailable = 503"
| "statusFor CodeQuotaExceeded = 422"
| "statusFor CodeInternal = 500"

record problem =
  pb_type :: string
  pb_title :: string
  pb_status :: nat
  pb_detail :: string
  pb_instance :: string
  pb_code :: code

text \<open>\<open>binding\<close> is \<open>isBindingError(err)\<close>.\<close>

definition WriteError :: "bool \<Rightarrow> string \<Rightarrow> err \<Rightarrow> problem" where
  "WriteError binding path e =
     (case e of
        EApp c m \<Rightarrow> \<lparr>pb_type = ''https://axisml.io/errors/'' @ code_string c, pb_title = m, pb_status = statusFor c,
          pb_detail = err_string e, pb_instance = path, pb_code = c\<rparr>
      | _ \<Rightarrow>
        if binding
        then \<lparr>pb_type = ''https://axisml.io/errors/'' @ code_string CodeValidation, pb_title = ''invalid request body'',
          pb_status = 400, pb_detail = err_string e, pb_instance = path, pb_code = CodeValidation\<rparr>
        else \<lparr>pb_type = ''https://axisml.io/errors/internal_error'', pb_title = ''internal error'', pb_status = 500,
          pb_detail = err_string e, pb_instance = path, pb_code = CodeInternal\<rparr>)"

section \<open>The list handlers of runs\<close>

record 'v list_response =
  lr_items :: "'v list"
  lr_count :: int
  lr_total :: int
  lr_continueToken :: string

definition run_labels_of :: "'q MLRun \<Rightarrow> (string, string) gomap" where
  "run_labels_of r = json_lenient [] (run_labels r)"

definition run_ListHandler ::
  "'q api_env \<Rightarrow> (string \<Rightarrow> string + requirement list) \<Rightarrow> string \<Rightarrow> string \<Rightarrow> string \<Rightarrow> string \<Rightarrow> 'q MLRun list \<Rightarrow>
   err + 'q run_view list_response" where
  "run_ListHandler env parse_sel ns limit cont labelSelector t =
     (case ParsePagination limit cont of Inl e \<Rightarrow> Inl e
      | Inr p \<Rightarrow>
     (case selector_sql parse_sel labelSelector of Inl e \<Rightarrow> Inl e
      | Inr sel \<Rightarrow>
     (case run_List env ns (nat (pg_limit p)) (nat (pg_offset p)) (\<lambda>r. sel (run_labels_of r)) t of Inl e \<Rightarrow> Inl e
      | Inr (items, n) \<Rightarrow>
          Inr \<lparr>lr_items = items, lr_count = int (length items), lr_total = int n,
               lr_continueToken = EncodeContinue (pg_offset p) (int (length items)) (int n)\<rparr>)))"

abbreviation "maxBatchPhaseNames \<equiv> (200 :: nat)"

definition run_BatchPhase ::
  "'q api_env \<Rightarrow> (string \<Rightarrow> string + requirement list) \<Rightarrow> string \<Rightarrow> string list option \<Rightarrow> string \<Rightarrow> string \<Rightarrow> string \<Rightarrow>
   'q MLRun list \<Rightarrow> err + run_phase_view list_response" where
  "run_BatchPhase env parse_sel ns namesQuery limit cont labelSelector t =
     (case namesQuery of
        Some raws \<Rightarrow>
          (let names = QueryCSV raws in
           if length names > maxBatchPhaseNames
           then Inl (EApp CodeValidation (''too many names: '' @ show_nat (length names) @ '' (max '' @
                  show_nat maxBatchPhaseNames @ ''); page via labelSelector instead''))
           else case run_PhasesByNames env ns names t of Inl e \<Rightarrow> Inl e
             | Inr items \<Rightarrow> Inr \<lparr>lr_items = items, lr_count = int (length items), lr_total = int (length items),
                                lr_continueToken = []\<rparr>)
      | None \<Rightarrow>
          (case ParsePagination limit cont of Inl e \<Rightarrow> Inl e
           | Inr p \<Rightarrow>
          (case selector_sql parse_sel labelSelector of Inl e \<Rightarrow> Inl e
           | Inr sel \<Rightarrow>
          (case run_PhasesBySelector env ns (nat (pg_limit p)) (nat (pg_offset p)) (\<lambda>r. sel (run_labels_of r)) t of Inl e \<Rightarrow> Inl e
           | Inr (items, n) \<Rightarrow>
               Inr \<lparr>lr_items = items, lr_count = int (length items), lr_total = int n,
                    lr_continueToken = EncodeContinue (pg_offset p) (int (length items)) (int n)\<rparr>))))"

end
