(* ===== verification/PlatformAuth.thy ===== *)
theory PlatformAuth
  imports ListApi
begin

text \<open>
  Authentication and authorisation of the platform back end (\<^verbatim>\<open>axisml-platform/backend\<close>): roles and middleware
  (\<^verbatim>\<open>internal/auth\<close>), users, bindings and sessions (\<^verbatim>\<open>internal/store\<close>), the caches in front of them
  (\<^verbatim>\<open>internal/cache\<close>), and the identity service (\<^verbatim>\<open>internal/identity\<close>).

  The state is the database and the history of writes of the cache and of cluster-manager calls. A transaction is one step; errors
  of statements, the answers of the cache, bcrypt, the token library and cluster-manager are parameters (\<open>penv\<close>).
\<close>

section \<open>Errors\<close>

datatype pclass =
    ClassValidation | ClassUnauthorized | ClassForbidden | ClassNotFound | ClassConflict | ClassGone | ClassUnprocessable
  | ClassTooManyReq | ClassUpstream | ClassUnavailable | ClassInternal

text \<open>\<open>E\<close> with class, reason, message and cause; errors of the store.\<close>

datatype serr = ErrNotFound | ErrDuplicatedKey | ErrLastTenantAdmin | StoreError string

datatype perr = PlatformE pclass string string "string option" | Plain serr

fun serr_text :: "serr \<Rightarrow> string" where
  "serr_text ErrNotFound = ''not found''"
| "serr_text ErrDuplicatedKey = ''duplicated key not allowed''"
| "serr_text ErrLastTenantAdmin = ''last tenant-admin''"
| "serr_text (StoreError e) = e"

abbreviation perror :: "pclass \<Rightarrow> string \<Rightarrow> string \<Rightarrow> perr" where
  "perror c m reason \<equiv> PlatformE c reason m None"

abbreviation pwrap :: "pclass \<Rightarrow> string \<Rightarrow> string \<Rightarrow> perr" where
  "pwrap c m cause \<equiv> PlatformE c [] m (Some cause)"

section \<open>Roles and identities\<close>

abbreviation "RoleSystemAdmin \<equiv> ''system-admin''"
abbreviation "RoleTenantAdmin \<equiv> ''tenant-admin''"
abbreviation "RoleUser \<equiv> ''user''"

definition rank :: "string \<Rightarrow> nat" where
  "rank r = (if r = RoleSystemAdmin then 3 else if r = RoleTenantAdmin then 2 else if r = RoleUser then 1 else 0)"

definition AtLeast :: "string \<Rightarrow> string \<Rightarrow> bool" where
  "AtLeast r m \<longleftrightarrow> rank m \<le> rank r"

record Identity =
  idn_userId :: string
  idn_username :: string
  idn_isSystemAdmin :: bool
  idn_mustChangePassword :: bool
  idn_bindings :: "(string, string) gomap"

definition RoleIn :: "Identity \<Rightarrow> string \<Rightarrow> string option" where
  "RoleIn i tenant = (if idn_isSystemAdmin i then Some RoleSystemAdmin else map_of (idn_bindings i) tenant)"

definition HasTenantRole :: "Identity \<Rightarrow> string \<Rightarrow> string \<Rightarrow> bool" where
  "HasTenantRole i tenant m \<longleftrightarrow>
     (if idn_isSystemAdmin i then True else case map_of (idn_bindings i) tenant of None \<Rightarrow> False | Some r \<Rightarrow> AtLeast r m)"

definition VisibleTenants :: "Identity \<Rightarrow> string list" where
  "VisibleTenants i = map fst (idn_bindings i)"

definition Permissions :: "Identity \<Rightarrow> string list" where
  "Permissions i =
     (if idn_isSystemAdmin i
      then [''users:write'', ''tenants:write'', ''quotas:write'', ''resourcepools:write'', ''members:write'', ''workloads:write'',
            ''artifacts:write'', ''tenants:read-all'']
      else remdups (concat (map (\<lambda>(_, r). [''workloads:write'', ''artifacts:write''] @ (if AtLeast r RoleTenantAdmin then [''members:write''] else []))
             (idn_bindings i))))"

definition OwnerOrTenantAdmin :: "Identity \<Rightarrow> string \<Rightarrow> string \<Rightarrow> perr option" where
  "OwnerOrTenantAdmin i tenant owner =
     (if idn_isSystemAdmin i then None
      else if HasTenantRole i tenant RoleTenantAdmin then None
      else if owner \<noteq> [] \<and> owner = idn_username i then None
      else Some (perror ClassForbidden ''forbidden'' ''forbidden''))"

section \<open>Rows, cache and environment\<close>

record User =
  usr_id :: string
  usr_username :: string
  usr_passwordHash :: string
  usr_mustChangePassword :: bool
  usr_email :: string
  usr_displayName :: string
  usr_disabled :: bool
  usr_isSystemAdmin :: bool
  usr_createdAt :: nat
  usr_updatedAt :: nat

record UserRole =
  url_userId :: string
  url_tenant :: string
  url_role :: string
  url_createdAt :: nat

record Session =
  ses_jti :: string
  ses_userId :: string
  ses_expiresAt :: nat
  ses_revoked :: bool

record PTenant =
  ptn_id :: string
  ptn_identifier :: string
  ptn_namespace :: string
  ptn_displayName :: string
  ptn_description :: string
  ptn_owner :: string
  ptn_labels :: "(string, string) gomap"
  ptn_annotations :: "(string, string) gomap"
  ptn_suspendedAt :: "nat option"
  ptn_lastModifiedBy :: string
  ptn_createdAt :: nat
  ptn_updatedAt :: nat

record pdb =
  pd_users :: "User list"
  pd_roles :: "UserRole list"
  pd_sessions :: "Session list"
  pd_tenants :: "PTenant list"

text \<open>Cached bytes: the marker of an active session, or an identity in JSON.\<close>

datatype cval = CActive | CIdentity Identity

datatype pevent =
    CacheSet nat string cval nat "string option" | CacheDel nat string "string option"
  | CmCreateTenant string "perr option" | CmDeleteTenant string "perr option" | CmUpdateTenant string "perr option"

record claims =
  clm_id :: string
  clm_subject :: string

datatype pstmt =
    UserSelect | UserInsert | UserUpdate | UserDelete | RoleSelect | RoleSet | RoleDelete | RoleCount
  | SessionInsert | SessionSelect | SessionUpdate | TenantSelect | TenantInsert | TenantUpdate | TenantDelete

record penv =
  pv_now :: nat
  pv_uuid :: string
  pv_fault :: "pstmt \<Rightarrow> string option"
  pv_get :: "pevent list \<Rightarrow> nat \<Rightarrow> string \<Rightarrow> string + cval option"
  pv_set :: "pevent list \<Rightarrow> nat \<Rightarrow> string \<Rightarrow> string option"
  pv_del :: "pevent list \<Rightarrow> nat \<Rightarrow> string \<Rightarrow> string option"
  pv_hash :: "string \<Rightarrow> string + string"
  pv_check :: "string \<Rightarrow> string \<Rightarrow> bool"
  pv_verify :: "string \<Rightarrow> string + claims"
  pv_issue :: "string \<Rightarrow> string \<Rightarrow> string \<Rightarrow> string + string"
  pv_loginTTL :: nat
  pv_sessionTTL :: nat
  pv_identityTTL :: nat
  pv_cmCreate :: "pevent list \<Rightarrow> string \<Rightarrow> perr option"
  pv_cmUpdate :: "pevent list \<Rightarrow> string \<Rightarrow> perr option"
  pv_cmDelete :: "pevent list \<Rightarrow> string \<Rightarrow> perr option"
  pv_compute :: "(string \<Rightarrow> (perr + string list) \<times> (perr + (string \<times> nat) list)) option"

record pstate =
  pst_db :: pdb
  pst_log :: "pevent list"

text \<open>A statement, with the error of the database when there is one.\<close>

definition stmt :: "penv \<Rightarrow> pstmt \<Rightarrow> 'a \<Rightarrow> serr + 'a" where
  "stmt env q x = (case pv_fault env q of Some e \<Rightarrow> Inl (StoreError e) | None \<Rightarrow> Inr x)"

section \<open>Users and bindings\<close>

definition first_where :: "penv \<Rightarrow> pstmt \<Rightarrow> ('r \<Rightarrow> bool) \<Rightarrow> 'r list \<Rightarrow> serr + 'r" where
  "first_where env q P rows =
     (case pv_fault env q of Some e \<Rightarrow> Inl (StoreError e) | None \<Rightarrow> (case find P rows of None \<Rightarrow> Inl ErrNotFound | Some r \<Rightarrow> Inr r))"

definition user_GetByID :: "penv \<Rightarrow> string \<Rightarrow> pdb \<Rightarrow> serr + User" where
  "user_GetByID env i db = first_where env UserSelect (\<lambda>u. usr_id u = i) (pd_users db)"

definition user_GetByUsername :: "penv \<Rightarrow> string \<Rightarrow> pdb \<Rightarrow> serr + User" where
  "user_GetByUsername env n db = first_where env UserSelect (\<lambda>u. usr_username u = n) (pd_users db)"

definition user_GetByEmail :: "penv \<Rightarrow> string \<Rightarrow> pdb \<Rightarrow> serr + User" where
  "user_GetByEmail env m db = first_where env UserSelect (\<lambda>u. usr_email u = m) (pd_users db)"

definition user_Create :: "penv \<Rightarrow> User \<Rightarrow> pdb \<Rightarrow> serr + User \<times> pdb" where
  "user_Create env u db =
     (let u' = u\<lparr>usr_id := (if usr_id u = [] then pv_uuid env else usr_id u), usr_createdAt := pv_now env, usr_updatedAt := pv_now env\<rparr> in
      case pv_fault env UserInsert of
        Some e \<Rightarrow> Inl (StoreError e)
      | None \<Rightarrow> if list_ex (\<lambda>x. usr_id x = usr_id u' \<or> usr_username x = usr_username u') (pd_users db) then Inl ErrDuplicatedKey
          else Inr (u', db\<lparr>pd_users := pd_users db @ [u']\<rparr>))"

definition user_Update :: "penv \<Rightarrow> User \<Rightarrow> pdb \<Rightarrow> serr + pdb" where
  "user_Update env u db =
     stmt env UserUpdate (db\<lparr>pd_users := update_where (\<lambda>x. usr_id x = usr_id u)
       (\<lambda>x. x\<lparr>usr_displayName := usr_displayName u, usr_email := usr_email u, usr_disabled := usr_disabled u, usr_updatedAt := pv_now env,
              usr_mustChangePassword := usr_mustChangePassword u\<rparr>) (pd_users db)\<rparr>)"

definition user_SetPassword :: "penv \<Rightarrow> string \<Rightarrow> string \<Rightarrow> pdb \<Rightarrow> serr + pdb" where
  "user_SetPassword env i hash db =
     stmt env UserUpdate (db\<lparr>pd_users := update_where (\<lambda>x. usr_id x = i)
       (\<lambda>x. x\<lparr>usr_passwordHash := hash, usr_mustChangePassword := False, usr_updatedAt := pv_now env\<rparr>) (pd_users db)\<rparr>)"

text \<open>The delete cascades to bindings and sessions by the foreign keys of the schema.\<close>

definition user_Delete :: "penv \<Rightarrow> string \<Rightarrow> pdb \<Rightarrow> serr + pdb" where
  "user_Delete env i db =
     stmt env UserDelete (db\<lparr>pd_users := filter (\<lambda>u. usr_id u \<noteq> i) (pd_users db), pd_roles := filter (\<lambda>r. url_userId r \<noteq> i) (pd_roles db),
       pd_sessions := filter (\<lambda>s. ses_userId s \<noteq> i) (pd_sessions db)\<rparr>)"

definition bound_to :: "string \<Rightarrow> string \<Rightarrow> UserRole \<Rightarrow> bool" where
  "bound_to user tenant r \<longleftrightarrow> url_userId r = user \<and> url_tenant r = tenant"

definition role_ListByUser :: "penv \<Rightarrow> string \<Rightarrow> pdb \<Rightarrow> serr + UserRole list" where
  "role_ListByUser env user db = stmt env RoleSelect (filter (\<lambda>r. url_userId r = user) (pd_roles db))"

definition role_ListByTenant :: "penv \<Rightarrow> string \<Rightarrow> pdb \<Rightarrow> serr + UserRole list" where
  "role_ListByTenant env tenant db = stmt env RoleSelect (filter (\<lambda>r. url_tenant r = tenant) (pd_roles db))"

definition role_Get :: "penv \<Rightarrow> string \<Rightarrow> string \<Rightarrow> pdb \<Rightarrow> serr + UserRole" where
  "role_Get env user tenant db = first_where env RoleSelect (bound_to user tenant) (pd_roles db)"

text \<open>Delete and insert, in a transaction; the insert needs the user.\<close>

definition role_replace :: "penv \<Rightarrow> UserRole \<Rightarrow> pdb \<Rightarrow> serr + UserRole \<times> pdb" where
  "role_replace env r db =
     (case pv_fault env RoleSet of
        Some e \<Rightarrow> Inl (StoreError e)
      | None \<Rightarrow>
          if list_ex (\<lambda>u. usr_id u = url_userId r) (pd_users db)
          then Inr (r, db\<lparr>pd_roles := filter (\<lambda>x. \<not> bound_to (url_userId r) (url_tenant r) x) (pd_roles db) @ [r]\<rparr>)
          else Inl (StoreError ''violates foreign key constraint''))"

definition role_Set :: "penv \<Rightarrow> string \<Rightarrow> string \<Rightarrow> string \<Rightarrow> pdb \<Rightarrow> serr + UserRole \<times> pdb" where
  "role_Set env user tenant role db =
     role_replace env \<lparr>url_userId = user, url_tenant = tenant, url_role = role, url_createdAt = pv_now env\<rparr> db"

definition admins_of :: "string \<Rightarrow> pdb \<Rightarrow> UserRole list" where
  "admins_of tenant db = filter (\<lambda>r. url_tenant r = tenant \<and> url_role r = RoleTenantAdmin) (pd_roles db)"

definition guardLastAdminTx :: "penv \<Rightarrow> string \<Rightarrow> string \<Rightarrow> string \<Rightarrow> pdb \<Rightarrow> serr option" where
  "guardLastAdminTx env user tenant newRole db =
     (case pv_fault env RoleSelect of
        Some e \<Rightarrow> Some (StoreError e)
      | None \<Rightarrow>
          (case find (bound_to user tenant) (pd_roles db) of
             None \<Rightarrow> Some ErrNotFound
           | Some cur \<Rightarrow>
               if url_role cur = RoleTenantAdmin \<and> newRole \<noteq> RoleTenantAdmin \<and> length (admins_of tenant db) \<le> 1 then Some ErrLastTenantAdmin
               else None))"

definition GuardedSet :: "penv \<Rightarrow> string \<Rightarrow> string \<Rightarrow> string \<Rightarrow> pdb \<Rightarrow> serr + UserRole \<times> pdb" where
  "GuardedSet env user tenant newRole db =
     (case guardLastAdminTx env user tenant newRole db of
        Some e \<Rightarrow> Inl e
      | None \<Rightarrow> role_replace env \<lparr>url_userId = user, url_tenant = tenant, url_role = newRole, url_createdAt = pv_now env\<rparr> db)"

definition GuardedRemove :: "penv \<Rightarrow> string \<Rightarrow> string \<Rightarrow> pdb \<Rightarrow> serr + pdb" where
  "GuardedRemove env user tenant db =
     (case guardLastAdminTx env user tenant [] db of
        Some e \<Rightarrow> Inl e
      | None \<Rightarrow> stmt env RoleDelete (db\<lparr>pd_roles := filter (\<lambda>x. \<not> bound_to user tenant x) (pd_roles db)\<rparr>))"

definition DeleteByTenant :: "penv \<Rightarrow> string \<Rightarrow> pdb \<Rightarrow> serr + pdb" where
  "DeleteByTenant env tenant db = stmt env RoleDelete (db\<lparr>pd_roles := filter (\<lambda>r. url_tenant r \<noteq> tenant) (pd_roles db)\<rparr>)"

definition CountByTenant :: "penv \<Rightarrow> string \<Rightarrow> pdb \<Rightarrow> serr + nat" where
  "CountByTenant env tenant db = stmt env RoleCount (rows_affected (\<lambda>r. url_tenant r = tenant) (pd_roles db))"

section \<open>Sessions\<close>

definition session_Create :: "penv \<Rightarrow> string \<Rightarrow> string \<Rightarrow> nat \<Rightarrow> pdb \<Rightarrow> serr + pdb" where
  "session_Create env jti user expiresAt db =
     (case pv_fault env SessionInsert of
        Some e \<Rightarrow> Inl (StoreError e)
      | None \<Rightarrow>
          if list_ex (\<lambda>s. ses_jti s = jti) (pd_sessions db) then Inl ErrDuplicatedKey
          else if \<not> list_ex (\<lambda>u. usr_id u = user) (pd_users db) then Inl (StoreError ''violates foreign key constraint'')
          else Inr (db\<lparr>pd_sessions := pd_sessions db @ [\<lparr>ses_jti = jti, ses_userId = user, ses_expiresAt = expiresAt, ses_revoked = False\<rparr>]\<rparr>))"

definition session_IsActive :: "penv \<Rightarrow> string \<Rightarrow> pdb \<Rightarrow> serr + bool" where
  "session_IsActive env jti db =
     (case first_where env SessionSelect (\<lambda>s. ses_jti s = jti) (pd_sessions db) of
        Inl ErrNotFound \<Rightarrow> Inr False
      | Inl e \<Rightarrow> Inl e
      | Inr s \<Rightarrow> Inr (\<not> (ses_revoked s \<or> ses_expiresAt s < pv_now env)))"

definition session_Revoke :: "penv \<Rightarrow> string \<Rightarrow> pdb \<Rightarrow> serr + pdb" where
  "session_Revoke env jti db =
     stmt env SessionUpdate (db\<lparr>pd_sessions := update_where (\<lambda>s. ses_jti s = jti) (\<lambda>s. s\<lparr>ses_revoked := True\<rparr>) (pd_sessions db)\<rparr>)"

text \<open>The identifiers are read first and the rows updated by a second statement.\<close>

definition live_of :: "string \<Rightarrow> Session \<Rightarrow> bool" where
  "live_of user s \<longleftrightarrow> ses_userId s = user \<and> \<not> ses_revoked s"

definition revoke_live :: "penv \<Rightarrow> string \<Rightarrow> pdb \<Rightarrow> serr + pdb" where
  "revoke_live env user db =
     stmt env SessionUpdate (db\<lparr>pd_sessions := update_where (live_of user) (\<lambda>s. s\<lparr>ses_revoked := True\<rparr>) (pd_sessions db)\<rparr>)"

definition session_RevokeAllForUser :: "penv \<Rightarrow> string \<Rightarrow> pdb \<Rightarrow> serr + string list \<times> pdb" where
  "session_RevokeAllForUser env user db =
     (case stmt env SessionSelect (map ses_jti (filter (live_of user) (pd_sessions db))) of
        Inl e \<Rightarrow> Inl e
      | Inr jtis \<Rightarrow> if jtis = [] then Inr ([], db) else map_sum id (Pair jtis) (revoke_live env user db))"

definition DeleteExpired :: "penv \<Rightarrow> pdb \<Rightarrow> serr + pdb" where
  "DeleteExpired env db = stmt env SessionUpdate (db\<lparr>pd_sessions := filter (\<lambda>s. \<not> ses_expiresAt s < pv_now env) (pd_sessions db)\<rparr>)"

definition provider_LoadIdentity :: "penv \<Rightarrow> string \<Rightarrow> pdb \<Rightarrow> serr + Identity" where
  "provider_LoadIdentity env user db =
     (case user_GetByID env user db of
        Inl e \<Rightarrow> Inl e
      | Inr u \<Rightarrow>
          if usr_disabled u then Inl (StoreError ''user disabled'')
          else (case role_ListByUser env user db of
            Inl e \<Rightarrow> Inl e
          | Inr roles \<Rightarrow> Inr \<lparr>idn_userId = usr_id u, idn_username = usr_username u, idn_isSystemAdmin = usr_isSystemAdmin u,
              idn_mustChangePassword = usr_mustChangePassword u,
              idn_bindings = foldl (\<lambda>m r. AList.update (url_tenant r) (url_role r) m) [] roles\<rparr>))"

section \<open>Caches\<close>

text \<open>Errors of a write are logged and dropped. A failed write may have taken effect, so it is in the history with its error.\<close>

definition cache_Set :: "penv \<Rightarrow> string \<Rightarrow> cval \<Rightarrow> nat \<Rightarrow> pevent list \<Rightarrow> pevent list" where
  "cache_Set env k v ttl h = CacheSet (pv_now env) k v ttl (pv_set env h (pv_now env) k) # h"

definition cache_Del :: "penv \<Rightarrow> string \<Rightarrow> pevent list \<Rightarrow> pevent list" where
  "cache_Del env k h = CacheDel (pv_now env) k (pv_del env h (pv_now env) k) # h"

definition sessionKey :: "string \<Rightarrow> string" where
  "sessionKey jti = ''platform:sess:'' @ jti"

definition identityKey :: "string \<Rightarrow> string" where
  "identityKey user = ''platform:identity:'' @ user"

definition cached_Create :: "penv \<Rightarrow> string \<Rightarrow> string \<Rightarrow> nat \<Rightarrow> pstate \<Rightarrow> pstate \<times> serr option" where
  "cached_Create env jti user expiresAt s =
     (case session_Create env jti user expiresAt (pst_db s) of
        Inl e \<Rightarrow> (s, Some e)
      | Inr db \<Rightarrow> (\<lparr>pst_db = db, pst_log = cache_Set env (sessionKey jti) CActive (pv_sessionTTL env) (pst_log s)\<rparr>, None))"

definition cached_IsActive :: "penv \<Rightarrow> string \<Rightarrow> pstate \<Rightarrow> pstate \<times> (serr + bool)" where
  "cached_IsActive env jti s =
     (case pv_get env (pst_log s) (pv_now env) (sessionKey jti) of
        Inr (Some _) \<Rightarrow> (s, Inr True)
      | _ \<Rightarrow>
          (case session_IsActive env jti (pst_db s) of
             Inl e \<Rightarrow> (s, Inl e)
           | Inr active \<Rightarrow>
               (if active then s\<lparr>pst_log := cache_Set env (sessionKey jti) CActive (pv_sessionTTL env) (pst_log s)\<rparr> else s, Inr active)))"

definition cached_Revoke :: "penv \<Rightarrow> string \<Rightarrow> pstate \<Rightarrow> pstate \<times> serr option" where
  "cached_Revoke env jti s =
     (case session_Revoke env jti (pst_db s) of
        Inl e \<Rightarrow> (s, Some e)
      | Inr db \<Rightarrow> (\<lparr>pst_db = db, pst_log = cache_Del env (sessionKey jti) (pst_log s)\<rparr>, None))"

definition cached_RevokeAllForUser :: "penv \<Rightarrow> string \<Rightarrow> pstate \<Rightarrow> pstate \<times> serr option" where
  "cached_RevokeAllForUser env user s =
     (case session_RevokeAllForUser env user (pst_db s) of
        Inl e \<Rightarrow> (s, Some e)
      | Inr (jtis, db) \<Rightarrow> (\<lparr>pst_db = db, pst_log = foldl (\<lambda>h jti. cache_Del env (sessionKey jti) h) (pst_log s) jtis\<rparr>, None))"

definition cached_LoadIdentity :: "penv \<Rightarrow> string \<Rightarrow> pstate \<Rightarrow> pstate \<times> (serr + Identity)" where
  "cached_LoadIdentity env user s =
     (case pv_get env (pst_log s) (pv_now env) (identityKey user) of
        Inr (Some (CIdentity i)) \<Rightarrow> (s, Inr i)
      | _ \<Rightarrow>
          (case provider_LoadIdentity env user (pst_db s) of
             Inl e \<Rightarrow> (s, Inl e)
           | Inr i \<Rightarrow> (s\<lparr>pst_log := cache_Set env (identityKey user) (CIdentity i) (pv_identityTTL env) (pst_log s)\<rparr>, Inr i)))"

definition Invalidate :: "penv \<Rightarrow> string \<Rightarrow> pstate \<Rightarrow> pstate" where
  "Invalidate env user s = s\<lparr>pst_log := cache_Del env (identityKey user) (pst_log s)\<rparr>"

section \<open>The middleware\<close>

definition lower_char :: "char \<Rightarrow> char" where
  "lower_char c = (if in_range (CHR ''A'') (CHR ''Z'') c then char_of (of_char c + 32 :: nat) else c)"

definition bearer :: "string \<Rightarrow> string" where
  "bearer h = (if 7 < length h \<and> map lower_char (take 7 h) = ''bearer '' then trimSpace (drop 7 h) else [])"

definition passwordChangeExempt :: "string \<Rightarrow> bool" where
  "passwordChangeExempt path \<longleftrightarrow>
     path \<in> set [''/api/v1/auth/me'', ''/api/v1/auth/logout'', ''/api/v1/auth/refresh'', ''/api/v1/users/:id/password'']"

definition unauthenticated :: perr where
  "unauthenticated = perror ClassUnauthorized ''unauthenticated'' ''unauthenticated''"

text \<open>On success the identity of the caller and the identifier of the session.\<close>

definition RequireAuthenticated :: "penv \<Rightarrow> string \<Rightarrow> string \<Rightarrow> pstate \<Rightarrow> pstate \<times> (perr + Identity \<times> string)" where
  "RequireAuthenticated env header path s =
     (let tok = bearer header in
      if tok = [] then (s, Inl (perror ClassUnauthorized ''missing bearer token'' ''unauthenticated''))
      else case pv_verify env tok of
        Inl e \<Rightarrow> (s, Inl (PlatformE ClassUnauthorized ''unauthenticated'' ''invalid bearer token'' (Some e)))
      | Inr c \<Rightarrow>
          (case cached_IsActive env (clm_id c) s of
             (s1, Inl e) \<Rightarrow> (s1, Inl (pwrap ClassInternal ''session lookup failed'' (serr_text e)))
           | (s1, Inr active) \<Rightarrow>
               if \<not> active then (s1, Inl (perror ClassUnauthorized ''session revoked or expired'' ''unauthenticated''))
               else case cached_LoadIdentity env (clm_subject c) s1 of
                 (s2, Inl e) \<Rightarrow> (s2, Inl (PlatformE ClassUnauthorized ''unauthenticated'' ''identity not found'' (Some (serr_text e))))
               | (s2, Inr i) \<Rightarrow>
                   if idn_mustChangePassword i \<and> \<not> passwordChangeExempt path
                   then (s2, Inl (perror ClassForbidden ''password change required before continuing'' ''password-change-required''))
                   else (s2, Inr (i, clm_id c))))"

definition RequireSystemAdmin :: "Identity option \<Rightarrow> perr option" where
  "RequireSystemAdmin cur =
     (case cur of
        None \<Rightarrow> Some unauthenticated
      | Some i \<Rightarrow> if \<not> idn_isSystemAdmin i then Some (perror ClassForbidden ''system-admin required'' ''forbidden'') else None)"

definition checkTenantRole :: "Identity \<Rightarrow> string \<Rightarrow> string \<Rightarrow> perr option" where
  "checkTenantRole i tenant m =
     (if idn_isSystemAdmin i then None
      else case map_of (idn_bindings i) tenant of
        None \<Rightarrow> Some (perror ClassNotFound ''tenant not found'' ''not-found'')
      | Some role \<Rightarrow> if \<not> AtLeast role m then Some (perror ClassForbidden ''insufficient role'' ''forbidden'') else None)"

definition RequireTenantRole :: "string \<Rightarrow> string \<Rightarrow> Identity option \<Rightarrow> perr option" where
  "RequireTenantRole m tenant cur = (case cur of None \<Rightarrow> Some unauthenticated | Some i \<Rightarrow> checkTenantRole i tenant m)"

definition ActiveTenant :: "string option \<Rightarrow> string \<Rightarrow> string" where
  "ActiveTenant cookie header = (case cookie of Some (c # cs) \<Rightarrow> c # cs | _ \<Rightarrow> header)"

definition RequireActiveTenantRole :: "string \<Rightarrow> string \<Rightarrow> Identity option \<Rightarrow> perr option" where
  "RequireActiveTenantRole m tenant cur =
     (case cur of
        None \<Rightarrow> Some unauthenticated
      | Some i \<Rightarrow> if tenant = [] then Some (perror ClassValidation ''active tenant required'' ''active-tenant-required'') else checkTenantRole i tenant m)"

section \<open>The identity service\<close>

record login_result =
  lgr_token :: string
  lgr_expiresAt :: nat
  lgr_user :: User
  lgr_roles :: "UserRole list"

definition issue :: "penv \<Rightarrow> User \<Rightarrow> pstate \<Rightarrow> pstate \<times> (perr + login_result)" where
  "issue env u s =
     (let jti = pv_uuid env; exp = pv_now env + pv_loginTTL env in
      case pv_issue env (usr_id u) (usr_username u) jti of
        Inl e \<Rightarrow> (s, Inl (pwrap ClassInternal ''issue token'' e))
      | Inr token \<Rightarrow>
          (case cached_Create env jti (usr_id u) exp s of
             (s', Some e) \<Rightarrow> (s', Inl (pwrap ClassInternal ''create session'' (serr_text e)))
           | (s', None) \<Rightarrow>
               (case role_ListByUser env (usr_id u) (pst_db s') of
                  Inl e \<Rightarrow> (s', Inl (pwrap ClassInternal ''load roles'' (serr_text e)))
                | Inr roles \<Rightarrow> (s', Inr \<lparr>lgr_token = token, lgr_expiresAt = exp, lgr_user = u, lgr_roles = roles\<rparr>))))"

text \<open>The checks of a login, on the row that was read.\<close>

definition login_check :: "penv \<Rightarrow> string \<Rightarrow> string \<Rightarrow> pdb \<Rightarrow> perr + User" where
  "login_check env username password db =
     (case user_GetByUsername env username db of
        Inl ErrNotFound \<Rightarrow> Inl (perror ClassUnauthorized ''invalid credentials'' ''invalid-credentials'')
      | Inl e \<Rightarrow> Inl (pwrap ClassInternal ''lookup user'' (serr_text e))
      | Inr u \<Rightarrow>
          if usr_disabled u then Inl (perror ClassUnauthorized ''account disabled'' ''account-disabled'')
          else if \<not> pv_check env (usr_passwordHash u) password then Inl (perror ClassUnauthorized ''invalid credentials'' ''invalid-credentials'')
          else Inr u)"

definition Login :: "penv \<Rightarrow> string \<Rightarrow> string \<Rightarrow> pstate \<Rightarrow> pstate \<times> (perr + login_result)" where
  "Login env username password s = (case login_check env username password (pst_db s) of Inl e \<Rightarrow> (s, Inl e) | Inr u \<Rightarrow> issue env u s)"

definition Refresh :: "penv \<Rightarrow> string \<Rightarrow> string \<Rightarrow> pstate \<Rightarrow> pstate \<times> (perr + login_result)" where
  "Refresh env user oldJTI s =
     (case user_GetByID env user (pst_db s) of
        Inl _ \<Rightarrow> (s, Inl unauthenticated)
      | Inr u \<Rightarrow> (case issue env u s of (s', Inl e) \<Rightarrow> (s', Inl e) | (s', Inr res) \<Rightarrow> (fst (cached_Revoke env oldJTI s'), Inr res)))"

definition Logout :: "penv \<Rightarrow> string \<Rightarrow> pstate \<Rightarrow> pstate \<times> serr option" where
  "Logout env jti s = cached_Revoke env jti s"

definition CreateUser :: "penv \<Rightarrow> string \<Rightarrow> string \<Rightarrow> string \<Rightarrow> string \<Rightarrow> pstate \<Rightarrow> pstate \<times> (perr + User)" where
  "CreateUser env username displayName email password s =
     (let exists = perror ClassConflict ''username already exists'' ''user-exists'' in
      case user_GetByUsername env username (pst_db s) of
        Inr _ \<Rightarrow> (s, Inl exists)
      | Inl ErrNotFound \<Rightarrow>
          (case pv_hash env password of
             Inl e \<Rightarrow> (s, Inl (pwrap ClassInternal ''hash password'' e))
           | Inr hash \<Rightarrow>
               (case user_Create env \<lparr>usr_id = [], usr_username = username, usr_passwordHash = hash, usr_mustChangePassword = False, usr_email = email,
                       usr_displayName = displayName, usr_disabled = False, usr_isSystemAdmin = False, usr_createdAt = 0, usr_updatedAt = 0\<rparr> (pst_db s) of
                  Inl ErrDuplicatedKey \<Rightarrow> (s, Inl exists)
                | Inl e \<Rightarrow> (s, Inl (pwrap ClassInternal ''create user'' (serr_text e)))
                | Inr (u, db) \<Rightarrow> (s\<lparr>pst_db := db\<rparr>, Inr u)))
      | Inl e \<Rightarrow> (s, Inl (pwrap ClassInternal ''lookup user'' (serr_text e))))"

definition GetUser :: "penv \<Rightarrow> string \<Rightarrow> pdb \<Rightarrow> perr + User" where
  "GetUser env i db =
     (case user_GetByID env i db of
        Inl ErrNotFound \<Rightarrow> Inl (perror ClassNotFound ''user not found'' ''not-found'') | Inl e \<Rightarrow> Inl (Plain e) | Inr u \<Rightarrow> Inr u)"

definition UpdateUser :: "penv \<Rightarrow> string \<Rightarrow> string \<Rightarrow> string \<Rightarrow> bool option \<Rightarrow> pstate \<Rightarrow> pstate \<times> (perr + User)" where
  "UpdateUser env i displayName email disabled s =
     (case GetUser env i (pst_db s) of
        Inl e \<Rightarrow> (s, Inl e)
      | Inr u \<Rightarrow>
          let u' = u\<lparr>usr_displayName := (if displayName = [] then usr_displayName u else displayName),
                usr_email := (if email = [] then usr_email u else email),
                usr_disabled := (case disabled of None \<Rightarrow> usr_disabled u | Some d \<Rightarrow> d)\<rparr> in
          (case user_Update env u' (pst_db s) of
             Inl e \<Rightarrow> (s, Inl (pwrap ClassInternal ''update user'' (serr_text e)))
           | Inr db \<Rightarrow> (Invalidate env (usr_id u') (s\<lparr>pst_db := db\<rparr>), Inr (u'\<lparr>usr_updatedAt := pv_now env\<rparr>))))"

definition DeleteUser :: "penv \<Rightarrow> string \<Rightarrow> pstate \<Rightarrow> pstate \<times> perr option" where
  "DeleteUser env i s =
     (case GetUser env i (pst_db s) of
        Inl e \<Rightarrow> (s, Some e)
      | Inr _ \<Rightarrow>
          (case cached_RevokeAllForUser env i s of
             (s1, Some e) \<Rightarrow> (s1, Some (pwrap ClassInternal ''revoke sessions'' (serr_text e)))
           | (s1, None) \<Rightarrow>
               (case user_Delete env i (pst_db s1) of
                  Inl e \<Rightarrow> (s1, Some (pwrap ClassInternal ''delete user'' (serr_text e)))
                | Inr db \<Rightarrow> (Invalidate env i (s1\<lparr>pst_db := db\<rparr>), None))))"

definition SetPassword :: "penv \<Rightarrow> string \<Rightarrow> string \<Rightarrow> string \<Rightarrow> bool \<Rightarrow> pstate \<Rightarrow> pstate \<times> perr option" where
  "SetPassword env i current nxt isAdmin s =
     (case GetUser env i (pst_db s) of
        Inl e \<Rightarrow> (s, Some e)
      | Inr u \<Rightarrow>
          if \<not> isAdmin \<and> (trimSpace current = [] \<or> \<not> pv_check env (usr_passwordHash u) current)
          then (s, Some (perror ClassValidation ''current password incorrect'' ''invalid-credentials''))
          else (case pv_hash env nxt of
            Inl e \<Rightarrow> (s, Some (pwrap ClassInternal ''hash password'' e))
          | Inr hash \<Rightarrow>
              (case user_SetPassword env i hash (pst_db s) of
                 Inl e \<Rightarrow> (s, Some (pwrap ClassInternal ''set password'' (serr_text e)))
               | Inr db \<Rightarrow>
                   (case cached_RevokeAllForUser env i (Invalidate env i (s\<lparr>pst_db := db\<rparr>)) of
                      (s', Some e) \<Rightarrow> (s', Some (pwrap ClassInternal ''revoke sessions'' (serr_text e)))
                    | (s', None) \<Rightarrow> (s', None)))))"

text \<open>The handler's own check, before the service.\<close>

definition setPassword :: "penv \<Rightarrow> Identity \<Rightarrow> string \<Rightarrow> string \<Rightarrow> string \<Rightarrow> pstate \<Rightarrow> pstate \<times> perr option" where
  "setPassword env i target current nxt s =
     (if \<not> idn_isSystemAdmin i \<and> idn_userId i \<noteq> target then (s, Some (perror ClassForbidden ''forbidden'' ''forbidden''))
      else SetPassword env target current nxt (idn_isSystemAdmin i) s)"

end
