(* ===== verification/PlatformTenant.thy ===== *)
theory PlatformTenant
  imports PlatformAuth
begin

text \<open>
  Tenants and their members on the platform (\<^verbatim>\<open>internal/tenant\<close>, \<^verbatim>\<open>internal/store/tenants.go\<close>, \<^verbatim>\<open>internal/guard\<close>): the durable
  record beside the Tenant resource that cluster-manager keeps, and the bindings of users to roles. Operations answer with the row
  their view is built from; the live status in the view is not modelled.
\<close>

section \<open>The repository\<close>

definition tenant_Create :: "penv \<Rightarrow> PTenant \<Rightarrow> pdb \<Rightarrow> serr + PTenant \<times> pdb" where
  "tenant_Create env t db =
     (let t' = t\<lparr>ptn_id := (if ptn_id t = [] then pv_uuid env else ptn_id t), ptn_createdAt := pv_now env, ptn_updatedAt := pv_now env\<rparr> in
      case pv_fault env TenantInsert of
        Some e \<Rightarrow> Inl (StoreError e)
      | None \<Rightarrow> if list_ex (\<lambda>x. ptn_id x = ptn_id t' \<or> ptn_identifier x = ptn_identifier t') (pd_tenants db) then Inl ErrDuplicatedKey
          else Inr (t', db\<lparr>pd_tenants := pd_tenants db @ [t']\<rparr>))"

definition GetByIdentifier :: "penv \<Rightarrow> string \<Rightarrow> pdb \<Rightarrow> serr + PTenant" where
  "GetByIdentifier env i db = first_where env TenantSelect (\<lambda>t. ptn_identifier t = i) (pd_tenants db)"

text \<open>\<open>ilike\<close> is the pattern match of the database.\<close>

definition tenant_List :: "penv \<Rightarrow> (string \<Rightarrow> string \<Rightarrow> bool) \<Rightarrow> string \<Rightarrow> string list option \<Rightarrow> nat \<Rightarrow> nat \<Rightarrow> pdb \<Rightarrow> serr + PTenant list" where
  "tenant_List env ilike q scope limit offset db =
     (if scope = Some [] then Inr []
      else stmt env TenantSelect (page ptn_createdAt limit offset
        (filter (\<lambda>t. (case scope of None \<Rightarrow> True | Some xs \<Rightarrow> ptn_identifier t \<in> set xs) \<and>
            (q \<noteq> [] \<longrightarrow> ilike (''%'' @ q @ ''%'') (ptn_identifier t) \<or> ilike (''%'' @ q @ ''%'') (ptn_displayName t))) (pd_tenants db))))"

definition tenant_UpdateMeta :: "penv \<Rightarrow> PTenant \<Rightarrow> pdb \<Rightarrow> serr + pdb" where
  "tenant_UpdateMeta env t db =
     stmt env TenantUpdate (db\<lparr>pd_tenants := update_where (\<lambda>x. ptn_id x = ptn_id t)
       (\<lambda>x. x\<lparr>ptn_displayName := ptn_displayName t, ptn_description := ptn_description t, ptn_labels := ptn_labels t,
              ptn_annotations := ptn_annotations t, ptn_lastModifiedBy := ptn_lastModifiedBy t, ptn_updatedAt := pv_now env\<rparr>) (pd_tenants db)\<rparr>)"

definition tenant_SetSuspended :: "penv \<Rightarrow> string \<Rightarrow> nat option \<Rightarrow> pdb \<Rightarrow> serr + pdb" where
  "tenant_SetSuspended env i at db =
     stmt env TenantUpdate (db\<lparr>pd_tenants := update_where (\<lambda>x. ptn_identifier x = i)
       (\<lambda>x. x\<lparr>ptn_suspendedAt := at, ptn_updatedAt := pv_now env\<rparr>) (pd_tenants db)\<rparr>)"

definition tenant_Delete :: "penv \<Rightarrow> string \<Rightarrow> pdb \<Rightarrow> serr + pdb" where
  "tenant_Delete env i db = stmt env TenantDelete (db\<lparr>pd_tenants := filter (\<lambda>t. ptn_identifier t \<noteq> i) (pd_tenants db)\<rparr>)"

section \<open>Guards\<close>

definition not_found :: "string \<Rightarrow> perr" where
  "not_found m = perror ClassNotFound m ''not-found''"

definition TenantActive :: "penv \<Rightarrow> string \<Rightarrow> pdb \<Rightarrow> perr option" where
  "TenantActive env i db =
     (case GetByIdentifier env i db of
        Inl ErrNotFound \<Rightarrow> Some (not_found ''tenant not found'')
      | Inl e \<Rightarrow> Some (pwrap ClassInternal ''lookup tenant'' (serr_text e))
      | Inr t \<Rightarrow> if ptn_suspendedAt t \<noteq> None then Some (perror ClassConflict ''tenant is suspended'' ''tenant-suspended'') else None)"

definition getRow :: "penv \<Rightarrow> string \<Rightarrow> pdb \<Rightarrow> perr + PTenant" where
  "getRow env i db =
     (case GetByIdentifier env i db of
        Inl ErrNotFound \<Rightarrow> Inl (not_found ''tenant not found'')
      | Inl e \<Rightarrow> Inl (pwrap ClassInternal ''lookup tenant'' (serr_text e))
      | Inr t \<Rightarrow> Inr t)"

definition resolveAccount :: "penv \<Rightarrow> string \<Rightarrow> pdb \<Rightarrow> perr + User" where
  "resolveAccount env account db =
     (let a = trimSpace account in
      case (if CHR ''@'' \<in> set a then user_GetByEmail env a db else user_GetByUsername env a db) of
        Inl ErrNotFound \<Rightarrow> Inl (perror ClassUnprocessable (''user '' @ go_quote a @ '' not found'') ''user-not-found'')
      | Inl e \<Rightarrow> Inl (pwrap ClassInternal ''resolve account'' (serr_text e))
      | Inr u \<Rightarrow> Inr u)"

section \<open>Members\<close>

record Member =
  mbr_userId :: string
  mbr_username :: string
  mbr_displayName :: string
  mbr_email :: string
  mbr_role :: string
  mbr_addedAt :: nat

definition toMember :: "User \<Rightarrow> UserRole \<Rightarrow> Member" where
  "toMember u r = \<lparr>mbr_userId = usr_id u, mbr_username = usr_username u, mbr_displayName = usr_displayName u, mbr_email = usr_email u,
     mbr_role = url_role r, mbr_addedAt = url_createdAt r\<rparr>"

definition validateMemberRole :: "string \<Rightarrow> perr option" where
  "validateMemberRole role =
     (if role \<noteq> RoleTenantAdmin \<and> role \<noteq> RoleUser then Some (perror ClassValidation ''role must be tenant-admin or user'' ''invalid-role'') else None)"

definition mapMemberErr :: "serr \<Rightarrow> string \<Rightarrow> perr" where
  "mapMemberErr e oper =
     (case e of
        ErrNotFound \<Rightarrow> not_found ''member not found''
      | ErrLastTenantAdmin \<Rightarrow> perror ClassConflict ''cannot remove the last tenant-admin'' ''last-tenant-admin''
      | _ \<Rightarrow> pwrap ClassInternal oper (serr_text e))"

fun member_views :: "penv \<Rightarrow> pdb \<Rightarrow> UserRole list \<Rightarrow> perr + Member list" where
  "member_views env db [] = Inr []"
| "member_views env db (r # rs) =
     (case user_GetByID env (url_userId r) db of
        Inl ErrNotFound \<Rightarrow> member_views env db rs
      | Inl e \<Rightarrow> Inl (pwrap ClassInternal ''load member'' (serr_text e))
      | Inr u \<Rightarrow> map_sum id (\<lambda>ms. toMember u r # ms) (member_views env db rs))"

definition ListMembers :: "penv \<Rightarrow> string \<Rightarrow> pdb \<Rightarrow> perr + Member list" where
  "ListMembers env tenant db =
     (case getRow env tenant db of
        Inl e \<Rightarrow> Inl e
      | Inr _ \<Rightarrow> (case role_ListByTenant env tenant db of
          Inl e \<Rightarrow> Inl (pwrap ClassInternal ''list members'' (serr_text e)) | Inr roles \<Rightarrow> member_views env db roles))"

text \<open>The checks before the binding is written, and the write.\<close>

definition add_member_check :: "penv \<Rightarrow> string \<Rightarrow> string \<Rightarrow> string \<Rightarrow> pdb \<Rightarrow> perr + User" where
  "add_member_check env tenant account role db =
     (case getRow env tenant db of
        Inl e \<Rightarrow> Inl e
      | Inr _ \<Rightarrow>
          (case validateMemberRole role of
             Some e \<Rightarrow> Inl e
           | None \<Rightarrow>
               (case resolveAccount env account db of
                  Inl e \<Rightarrow> Inl e
                | Inr u \<Rightarrow>
                    (case role_Get env (usr_id u) tenant db of
                       Inr _ \<Rightarrow> Inl (perror ClassConflict ''user is already a member'' ''member-exists'')
                     | Inl ErrNotFound \<Rightarrow> Inr u
                     | Inl e \<Rightarrow> Inl (pwrap ClassInternal ''lookup member'' (serr_text e))))))"

definition add_member_write :: "penv \<Rightarrow> string \<Rightarrow> User \<Rightarrow> string \<Rightarrow> pstate \<Rightarrow> pstate \<times> (perr + Member)" where
  "add_member_write env tenant u role s =
     (case role_Set env (usr_id u) tenant role (pst_db s) of
        Inl e \<Rightarrow> (s, Inl (pwrap ClassInternal ''add member'' (serr_text e)))
      | Inr (r, db) \<Rightarrow> (Invalidate env (usr_id u) (s\<lparr>pst_db := db\<rparr>), Inr (toMember u r)))"

definition AddMember :: "penv \<Rightarrow> string \<Rightarrow> string \<Rightarrow> string \<Rightarrow> pstate \<Rightarrow> pstate \<times> (perr + Member)" where
  "AddMember env tenant account role s =
     (case add_member_check env tenant account role (pst_db s) of Inl e \<Rightarrow> (s, Inl e) | Inr u \<Rightarrow> add_member_write env tenant u role s)"

definition UpdateMember :: "penv \<Rightarrow> string \<Rightarrow> string \<Rightarrow> string \<Rightarrow> pstate \<Rightarrow> pstate \<times> (perr + Member)" where
  "UpdateMember env tenant user role s =
     (case getRow env tenant (pst_db s) of
        Inl e \<Rightarrow> (s, Inl e)
      | Inr _ \<Rightarrow>
          (case validateMemberRole role of
             Some e \<Rightarrow> (s, Inl e)
           | None \<Rightarrow>
               (case GuardedSet env user tenant role (pst_db s) of
                  Inl e \<Rightarrow> (s, Inl (mapMemberErr e ''update member''))
                | Inr (r, db) \<Rightarrow>
                    (Invalidate env user (s\<lparr>pst_db := db\<rparr>),
                     case user_GetByID env user db of Inl e \<Rightarrow> Inl (pwrap ClassInternal ''load member'' (serr_text e)) | Inr u \<Rightarrow> Inr (toMember u r)))))"

definition RemoveMember :: "penv \<Rightarrow> string \<Rightarrow> string \<Rightarrow> pstate \<Rightarrow> pstate \<times> perr option" where
  "RemoveMember env tenant user s =
     (case getRow env tenant (pst_db s) of
        Inl e \<Rightarrow> (s, Some e)
      | Inr _ \<Rightarrow>
          (case GuardedRemove env user tenant (pst_db s) of
             Inl e \<Rightarrow> (s, Some (mapMemberErr e ''remove member''))
           | Inr db \<Rightarrow> (Invalidate env user (s\<lparr>pst_db := db\<rparr>), None)))"

section \<open>Tenants\<close>

record CreateInput =
  cri_identifier :: string
  cri_namespace :: string
  cri_displayName :: string
  cri_description :: string
  cri_initialAdmin :: string
  cri_labels :: "(string, string) gomap"
  cri_annotations :: "(string, string) gomap"

definition cm_CreateTenant :: "penv \<Rightarrow> string \<Rightarrow> pstate \<Rightarrow> pstate \<times> perr option" where
  "cm_CreateTenant env i s = (let r = pv_cmCreate env (pst_log s) i in (s\<lparr>pst_log := CmCreateTenant i r # pst_log s\<rparr>, r))"

definition cm_DeleteTenant :: "penv \<Rightarrow> string \<Rightarrow> pstate \<Rightarrow> pstate \<times> perr option" where
  "cm_DeleteTenant env i s = (let r = pv_cmDelete env (pst_log s) i in (s\<lparr>pst_log := CmDeleteTenant i r # pst_log s\<rparr>, r))"

definition cm_UpdateTenant :: "penv \<Rightarrow> string \<Rightarrow> pstate \<Rightarrow> pstate \<times> perr option" where
  "cm_UpdateTenant env i s = (let r = pv_cmUpdate env (pst_log s) i in (s\<lparr>pst_log := CmUpdateTenant i r # pst_log s\<rparr>, r))"

text \<open>The rollback of the durable record; its error is dropped.\<close>

definition drop_row :: "penv \<Rightarrow> string \<Rightarrow> pstate \<Rightarrow> pstate" where
  "drop_row env i s = (case tenant_Delete env i (pst_db s) of Inl _ \<Rightarrow> s | Inr db \<Rightarrow> s\<lparr>pst_db := db\<rparr>)"

definition create_check :: "penv \<Rightarrow> CreateInput \<Rightarrow> pdb \<Rightarrow> perr + User" where
  "create_check env inp db =
     (case resolveAccount env (cri_initialAdmin inp) db of
        Inl e \<Rightarrow> Inl e
      | Inr admin \<Rightarrow>
          (case GetByIdentifier env (cri_identifier inp) db of
             Inr _ \<Rightarrow> Inl (perror ClassConflict ''tenant already exists'' ''tenant-exists'')
           | Inl ErrNotFound \<Rightarrow> Inr admin
           | Inl e \<Rightarrow> Inl (pwrap ClassInternal ''lookup tenant'' (serr_text e))))"

definition create_row :: "CreateInput \<Rightarrow> string \<Rightarrow> PTenant" where
  "create_row inp owner =
     \<lparr>ptn_id = [], ptn_identifier = cri_identifier inp, ptn_namespace = cri_namespace inp, ptn_displayName = cri_displayName inp,
      ptn_description = cri_description inp, ptn_owner = owner, ptn_labels = cri_labels inp, ptn_annotations = cri_annotations inp,
      ptn_suspendedAt = None, ptn_lastModifiedBy = owner, ptn_createdAt = 0, ptn_updatedAt = 0\<rparr>"

definition bind_admin :: "penv \<Rightarrow> string \<Rightarrow> User \<Rightarrow> PTenant \<Rightarrow> pstate \<Rightarrow> pstate \<times> (perr + PTenant)" where
  "bind_admin env i admin row s =
     (case role_Set env (usr_id admin) i RoleTenantAdmin (pst_db s) of
        Inl e \<Rightarrow> (drop_row env i (fst (cm_DeleteTenant env i s)), Inl (pwrap ClassInternal ''bind initial admin'' (serr_text e)))
      | Inr (_, db) \<Rightarrow> (Invalidate env (usr_id admin) (s\<lparr>pst_db := db\<rparr>), Inr row))"

definition ptenant_Create :: "penv \<Rightarrow> CreateInput \<Rightarrow> string \<Rightarrow> pstate \<Rightarrow> pstate \<times> (perr + PTenant)" where
  "ptenant_Create env inp owner s =
     (let i = cri_identifier inp in
      case create_check env inp (pst_db s) of
        Inl e \<Rightarrow> (s, Inl e)
      | Inr admin \<Rightarrow>
          (case tenant_Create env (create_row inp owner) (pst_db s) of
             Inl ErrDuplicatedKey \<Rightarrow> (s, Inl (perror ClassConflict ''tenant already exists'' ''tenant-exists''))
           | Inl e \<Rightarrow> (s, Inl (pwrap ClassInternal ''create tenant row'' (serr_text e)))
           | Inr (row, db) \<Rightarrow>
               (case cm_CreateTenant env i (s\<lparr>pst_db := db\<rparr>) of
                  (s1, Some e) \<Rightarrow> (drop_row env i s1, Inl e)
                | (s1, None) \<Rightarrow> bind_admin env i admin row s1)))"

definition ptenant_UpdateMeta ::
  "penv \<Rightarrow> string \<Rightarrow> string \<Rightarrow> string \<Rightarrow> (string, string) gomap option \<Rightarrow> (string, string) gomap option \<Rightarrow> string \<Rightarrow> pstate \<Rightarrow> pstate \<times> (perr + PTenant)" where
  "ptenant_UpdateMeta env i displayName description labels annotations user s =
     (case getRow env i (pst_db s) of
        Inl e \<Rightarrow> (s, Inl e)
      | Inr row \<Rightarrow>
          let row' = row\<lparr>ptn_displayName := (if displayName = [] then ptn_displayName row else displayName),
                ptn_description := (if description = [] then ptn_description row else description),
                ptn_labels := (case labels of None \<Rightarrow> ptn_labels row | Some m \<Rightarrow> m),
                ptn_annotations := (case annotations of None \<Rightarrow> ptn_annotations row | Some m \<Rightarrow> m), ptn_lastModifiedBy := user\<rparr> in
          (case tenant_UpdateMeta env row' (pst_db s) of
             Inl e \<Rightarrow> (s, Inl (pwrap ClassInternal ''update tenant'' (serr_text e)))
           | Inr db \<Rightarrow> (fst (cm_UpdateTenant env i (s\<lparr>pst_db := db\<rparr>)), Inr (row'\<lparr>ptn_updatedAt := pv_now env\<rparr>))))"

definition active_phase :: "string \<Rightarrow> bool" where
  "active_phase p \<longleftrightarrow> p \<in> set [''Creating'', ''Pending'', ''Running'', ''Canceling'']"

definition checkNoActiveWorkloads :: "penv \<Rightarrow> string \<Rightarrow> perr option" where
  "checkNoActiveWorkloads env i =
     (case pv_compute env of
        None \<Rightarrow> None
      | Some compute \<Rightarrow>
          (case fst (compute i) of
             Inl e \<Rightarrow> Some e
           | Inr runs \<Rightarrow>
               if list_ex active_phase runs then Some (perror ClassConflict ''tenant still has active runs'' ''tenant-in-use'')
               else (case snd (compute i) of
                 Inl e \<Rightarrow> Some e
               | Inr svcs \<Rightarrow>
                   if list_ex (\<lambda>(kind, ready). (kind = ''service'' \<or> kind = ''workspace'') \<and> 0 < ready) svcs
                   then Some (perror ClassConflict ''tenant still has online services or workspaces'' ''tenant-in-use'') else None)))"

definition ptenant_Delete :: "penv \<Rightarrow> string \<Rightarrow> pstate \<Rightarrow> pstate \<times> perr option" where
  "ptenant_Delete env i s =
     (case getRow env i (pst_db s) of
        Inl e \<Rightarrow> (s, Some e)
      | Inr _ \<Rightarrow>
          (case CountByTenant env i (pst_db s) of
             Inl e \<Rightarrow> (s, Some (pwrap ClassInternal ''count members'' (serr_text e)))
           | Inr n \<Rightarrow>
               if 0 < n then (s, Some (perror ClassConflict ''tenant still has members'' ''tenant-in-use''))
               else case checkNoActiveWorkloads env i of
                 Some e \<Rightarrow> (s, Some e)
               | None \<Rightarrow>
                   (case cm_DeleteTenant env i s of
                      (s1, Some e) \<Rightarrow> (s1, Some e)
                    | (s1, None) \<Rightarrow>
                        (case DeleteByTenant env i (pst_db s1) of
                           Inl e \<Rightarrow> (s1, Some (pwrap ClassInternal ''clear members'' (serr_text e)))
                         | Inr db \<Rightarrow>
                             (case tenant_Delete env i db of
                                Inl e \<Rightarrow> (s1\<lparr>pst_db := db\<rparr>, Some (pwrap ClassInternal ''delete tenant'' (serr_text e)))
                              | Inr db' \<Rightarrow> (s1\<lparr>pst_db := db'\<rparr>, None))))))"

definition ptenant_SetSuspended :: "penv \<Rightarrow> string \<Rightarrow> bool \<Rightarrow> pstate \<Rightarrow> pstate \<times> (perr + PTenant)" where
  "ptenant_SetSuspended env i suspend s =
     (case getRow env i (pst_db s) of
        Inl e \<Rightarrow> (s, Inl e)
      | Inr row \<Rightarrow>
          let at = (if suspend then Some (pv_now env) else None) in
          (case tenant_SetSuspended env i at (pst_db s) of
             Inl e \<Rightarrow> (s, Inl (pwrap ClassInternal ''set suspension'' (serr_text e)))
           | Inr db \<Rightarrow> (s\<lparr>pst_db := db\<rparr>, Inr (row\<lparr>ptn_suspendedAt := at\<rparr>))))"

end
