(* ===== verification/PlatformProps.thy ===== *)
theory PlatformProps
  imports PlatformTenant
begin

text \<open>
  What holds of the platform: how old an authorisation decision can be in spite of the caches, and that tenants keep an
  administrator.
\<close>

section \<open>The caches\<close>

text \<open>What the database says.\<close>

definition session_live :: "nat \<Rightarrow> pdb \<Rightarrow> string \<Rightarrow> unit \<Rightarrow> bool" where
  "session_live t db jti _ \<longleftrightarrow>
     (case find (\<lambda>s. ses_jti s = jti) (pd_sessions db) of None \<Rightarrow> False | Some s \<Rightarrow> \<not> ses_revoked s \<and> t \<le> ses_expiresAt s)"

definition account_is :: "nat \<Rightarrow> pdb \<Rightarrow> string \<Rightarrow> Identity \<Rightarrow> bool" where
  "account_is t db user i \<longleftrightarrow>
     (\<exists>u. find (\<lambda>u. usr_id u = user) (pd_users db) = Some u \<and> \<not> usr_disabled u \<and> idn_userId i = user \<and> idn_username i = usr_username u \<and>
        idn_isSystemAdmin i = usr_isSystemAdmin u \<and> idn_mustChangePassword i = usr_mustChangePassword u \<and>
        (\<forall>tenant role. map_of (idn_bindings i) tenant = Some role \<longrightarrow>
           (\<exists>r \<in> set (pd_roles db). url_userId r = user \<and> url_tenant r = tenant \<and> url_role r = role)))"

lemma IsActive_live: "session_IsActive env jti db = Inr True \<Longrightarrow> session_live (pv_now env) db jti ()"
  by (auto simp: session_IsActive_def session_live_def first_where_def split: option.splits sum.splits serr.splits)

lemma bindings_fold:
  "map_of (foldl (\<lambda>m r. AList.update (url_tenant r) (url_role r) m) m rs) tenant = Some role \<Longrightarrow>
   map_of m tenant = Some role \<or> (\<exists>r \<in> set rs. url_tenant r = tenant \<and> url_role r = role)"
  by (induction rs arbitrary: m) (fastforce split: if_splits)+

lemma LoadIdentity_account: "provider_LoadIdentity env user db = Inr i \<Longrightarrow> account_is (pv_now env) db user i"
proof -
  let ?roles = "filter (\<lambda>r. url_userId r = user) (pd_roles db)"
  assume "provider_LoadIdentity env user db = Inr i"
  then obtain u where u: "find (\<lambda>u. usr_id u = user) (pd_users db) = Some u" "\<not> usr_disabled u"
    and i: "i = \<lparr>idn_userId = usr_id u, idn_username = usr_username u, idn_isSystemAdmin = usr_isSystemAdmin u,
      idn_mustChangePassword = usr_mustChangePassword u, idn_bindings = foldl (\<lambda>m r. AList.update (url_tenant r) (url_role r) m) [] ?roles\<rparr>"
    by (auto simp: provider_LoadIdentity_def user_GetByID_def first_where_def role_ListByUser_def stmt_def split: option.splits sum.splits if_splits)
  have "usr_id u = user" using u(1) by (auto simp: find_Some_iff)
  moreover have "\<exists>r \<in> set (pd_roles db). url_userId r = user \<and> url_tenant r = tenant \<and> url_role r = role"
    if "map_of (idn_bindings i) tenant = Some role" for tenant role
    using bindings_fold [of "[]" ?roles tenant role] that by (auto simp: i)
  ultimately show ?thesis using u by (simp add: account_is_def i)
qed

text \<open>
  Redis keeps its promises on the history of writes: a hit is a value that was set and has not expired. Values are read from the
  database and written to the cache later, when the database may have changed: an entry is a fact about an earlier state.
\<close>

definition cache_sound :: "(pevent list \<Rightarrow> nat \<Rightarrow> string \<Rightarrow> string + cval option) \<Rightarrow> bool" where
  "cache_sound get \<longleftrightarrow> (\<forall>h t k v. get h t k = Inr (Some v) \<longrightarrow>
     (\<exists>ts ttl e. CacheSet ts k v ttl e \<in> set h \<and> ts \<le> t \<and> (ttl = 0 \<or> t < ts + ttl)))"

locale aside_cache =
  fixes key :: "string \<Rightarrow> string" and enc :: "'a \<Rightarrow> cval" and truth :: "nat \<Rightarrow> pdb \<Rightarrow> string \<Rightarrow> 'a \<Rightarrow> bool"
  assumes key_inj: "key x = key y \<Longrightarrow> x = y"
    and enc_inj: "enc a = enc b \<Longrightarrow> a = b"
begin

text \<open>The value \<open>v\<close> under \<open>k\<close> was true at the time \<open>r\<close> of a history of databases.\<close>

definition fact :: "(nat \<times> pdb) set \<Rightarrow> string \<Rightarrow> cval \<Rightarrow> nat \<Rightarrow> bool" where
  "fact hist k v r \<longleftrightarrow> (\<exists>x a db. k = key x \<and> v = enc a \<and> (r, db) \<in> hist \<and> truth r db x a)"

lemma fact_mono: "fact hist k v r \<Longrightarrow> hist \<subseteq> hist' \<Longrightarrow> fact hist' k v r"
  by (auto simp: fact_def)

lemma fact_truth: "fact hist (key x) (enc a) r \<Longrightarrow> \<exists>db. (r, db) \<in> hist \<and> truth r db x a"
  by (auto simp: fact_def dest: key_inj enc_inj)

lemma hit_fresh:
  assumes "cache_sound get" "get h t (key x) = Inr (Some (enc a))" "0 < ttl"
    and "\<And>ts v n e. CacheSet ts (key x) v n e \<in> set h \<Longrightarrow> n = ttl \<and> (\<exists>r. fact hist (key x) v r \<and> ts \<le> r + delay)"
  shows "\<exists>r db. (r, db) \<in> hist \<and> truth r db x a \<and> t \<le> r + delay + ttl"
proof -
  from assms(1,2) obtain ts n e where set: "CacheSet ts (key x) (enc a) n e \<in> set h" "n = 0 \<or> t < ts + n"
    unfolding cache_sound_def by blast
  from assms(4) [OF set(1)] obtain r where r: "fact hist (key x) (enc a) r" "ts \<le> r + delay" "n = ttl" by auto
  from fact_truth [OF r(1)] r(2,3) set(2) assms(3) show ?thesis by force
qed

end

interpretation sessions: aside_cache sessionKey "\<lambda>_ :: unit. CActive" session_live
  by unfold_locales (simp_all add: sessionKey_def)

interpretation identities: aside_cache identityKey CIdentity account_is
  by unfold_locales (simp_all add: identityKey_def)

lemma keys_differ: "sessionKey x \<noteq> identityKey y"
  by (simp add: sessionKey_def identityKey_def)

text \<open>
  The caches under concurrent requests. The database changes in any way; a request reads it and writes what it read to the cache at
  most \<open>delay\<close> later; entries are deleted, or not, at any time.
\<close>

record auth_world =
  aw_time :: nat
  aw_db :: pdb
  aw_log :: "pevent list"
  aw_hist :: "(nat \<times> pdb) set"
  aw_pend :: "(string \<times> cval \<times> nat \<times> nat) set"

fun is_set :: "pevent \<Rightarrow> bool" where
  "is_set (CacheSet _ _ _ _ _) = True"
| "is_set _ = False"

inductive auth_step :: "nat \<Rightarrow> nat \<Rightarrow> nat \<Rightarrow> auth_world \<Rightarrow> auth_world \<Rightarrow> bool" for sTTL iTTL delay where
  auth_tick: "auth_step sTTL iTTL delay w (w\<lparr>aw_time := aw_time w + n, aw_hist := insert (aw_time w + n, aw_db w) (aw_hist w)\<rparr>)"
| auth_change: "auth_step sTTL iTTL delay w (w\<lparr>aw_db := db, aw_hist := insert (aw_time w, db) (aw_hist w)\<rparr>)"
| auth_login: "pv_now env = aw_time w \<Longrightarrow> session_Create env jti user expiresAt (aw_db w) = Inr db \<Longrightarrow> aw_time w \<le> expiresAt \<Longrightarrow>
    auth_step sTTL iTTL delay w (w\<lparr>aw_db := db, aw_hist := insert (aw_time w, db) (aw_hist w),
      aw_pend := insert (sessionKey jti, CActive, sTTL, aw_time w) (aw_pend w)\<rparr>)"
| auth_session: "pv_now env = aw_time w \<Longrightarrow> session_IsActive env jti (aw_db w) = Inr True \<Longrightarrow>
    auth_step sTTL iTTL delay w (w\<lparr>aw_pend := insert (sessionKey jti, CActive, sTTL, aw_time w) (aw_pend w)\<rparr>)"
| auth_identity: "pv_now env = aw_time w \<Longrightarrow> provider_LoadIdentity env user (aw_db w) = Inr i \<Longrightarrow>
    auth_step sTTL iTTL delay w (w\<lparr>aw_pend := insert (identityKey user, CIdentity i, iTTL, aw_time w) (aw_pend w)\<rparr>)"
| auth_fill: "(k, v, ttl, r) \<in> aw_pend w \<Longrightarrow> aw_time w \<le> r + delay \<Longrightarrow>
    auth_step sTTL iTTL delay w (w\<lparr>aw_log := CacheSet (aw_time w) k v ttl e # aw_log w\<rparr>)"
| auth_other: "\<not> is_set ev \<Longrightarrow> auth_step sTTL iTTL delay w (w\<lparr>aw_log := ev # aw_log w\<rparr>)"

definition auth_start :: "nat \<Rightarrow> pdb \<Rightarrow> auth_world" where
  "auth_start t db = \<lparr>aw_time = t, aw_db = db, aw_log = [], aw_hist = {(t, db)}, aw_pend = {}\<rparr>"

definition known :: "nat \<Rightarrow> nat \<Rightarrow> (nat \<times> pdb) set \<Rightarrow> string \<Rightarrow> cval \<Rightarrow> nat \<Rightarrow> nat \<Rightarrow> bool" where
  "known sTTL iTTL hist k v ttl r \<longleftrightarrow>
     sessions.fact hist k v r \<and> ttl = sTTL \<or> identities.fact hist k v r \<and> ttl = iTTL"

definition auth_inv :: "nat \<Rightarrow> nat \<Rightarrow> nat \<Rightarrow> auth_world \<Rightarrow> bool" where
  "auth_inv sTTL iTTL delay w \<longleftrightarrow> (aw_time w, aw_db w) \<in> aw_hist w \<and>
     (\<forall>(k, v, ttl, r) \<in> aw_pend w. known sTTL iTTL (aw_hist w) k v ttl r) \<and>
     (\<forall>ts k v ttl e. CacheSet ts k v ttl e \<in> set (aw_log w) \<longrightarrow> (\<exists>r. known sTTL iTTL (aw_hist w) k v ttl r \<and> ts \<le> r + delay))"

lemma known_mono: "known sTTL iTTL hist k v ttl r \<Longrightarrow> hist \<subseteq> hist' \<Longrightarrow> known sTTL iTTL hist' k v ttl r"
  by (auto simp: known_def intro: sessions.fact_mono identities.fact_mono)

lemma known_session: "(r, db) \<in> hist \<Longrightarrow> session_live r db jti () \<Longrightarrow> known sTTL iTTL hist (sessionKey jti) CActive sTTL r"
  by (auto simp: known_def sessions.fact_def)

lemma known_identity: "(r, db) \<in> hist \<Longrightarrow> account_is r db user i \<Longrightarrow> known sTTL iTTL hist (identityKey user) (CIdentity i) iTTL r"
  by (auto simp: known_def identities.fact_def)

lemma Create_live:
  "session_Create env jti user expiresAt db = Inr db' \<Longrightarrow> t \<le> expiresAt \<Longrightarrow> session_live t db' jti ()"
proof -
  assume a: "session_Create env jti user expiresAt db = Inr db'" "t \<le> expiresAt"
  then have new: "\<not> list_ex (\<lambda>s. ses_jti s = jti) (pd_sessions db)"
    and db': "db' = db\<lparr>pd_sessions := pd_sessions db @ [\<lparr>ses_jti = jti, ses_userId = user, ses_expiresAt = expiresAt, ses_revoked = False\<rparr>]\<rparr>"
    by (auto simp: session_Create_def split: option.splits if_splits)
  have "find (\<lambda>s. ses_jti s = jti) (xs @ [s]) = Some s" if "\<not> list_ex (\<lambda>s. ses_jti s = jti) xs" "ses_jti s = jti" for xs and s :: Session
    using that by (induction xs) auto
  from this [OF new] a(2) show ?thesis by (simp add: session_live_def db')
qed

lemma auth_step_inv:
  assumes "auth_step sTTL iTTL delay w w'" "auth_inv sTTL iTTL delay w"
  shows "auth_inv sTTL iTTL delay w'"
proof -
  have old: "known sTTL iTTL (insert x (aw_hist w)) k v ttl r" if "known sTTL iTTL (aw_hist w) k v ttl r" for x k v ttl r
    using known_mono [OF that] by auto
  from assms(2) have now: "(aw_time w, aw_db w) \<in> aw_hist w" by (simp add: auth_inv_def)
  from assms(1) show ?thesis
  proof cases
    case (auth_login env jti user expiresAt db)
    with Create_live have "session_live (aw_time w) db jti ()" by blast
    then have "known sTTL iTTL (insert (aw_time w, db) (aw_hist w)) (sessionKey jti) CActive sTTL (aw_time w)" by (intro known_session) auto
    with auth_login assms(2) old show ?thesis by (simp add: auth_inv_def split_def) blast
  next
    case (auth_session env jti)
    with IsActive_live [of env] known_session [OF now] assms(2) show ?thesis by (fastforce simp: auth_inv_def)
  next
    case (auth_identity env user i)
    with LoadIdentity_account [of env] known_identity [OF now] assms(2) show ?thesis by (fastforce simp: auth_inv_def)
  next
    case (auth_other ev)
    with assms(2) show ?thesis by (auto simp: auth_inv_def) blast
  next
    case (auth_fill k v ttl r e)
    with assms(2) show ?thesis by (fastforce simp: auth_inv_def)
  next
    case (auth_tick n)
    with assms(2) old show ?thesis by (simp add: auth_inv_def split_def) blast
  next
    case (auth_change db)
    with assms(2) old show ?thesis by (simp add: auth_inv_def split_def) blast
  qed
qed

lemma auth_steps_inv: "(auth_step sTTL iTTL delay)\<^sup>*\<^sup>* w w' \<Longrightarrow> auth_inv sTTL iTTL delay w \<Longrightarrow> auth_inv sTTL iTTL delay w'"
  by (induction rule: rtranclp_induct) (auto intro: auth_step_inv)

lemma auth_start_inv: "auth_inv sTTL iTTL delay (auth_start t db)"
  by (simp add: auth_inv_def auth_start_def)

lemma known_keys:
  "known sTTL iTTL hist (sessionKey x) v n r \<longleftrightarrow> sessions.fact hist (sessionKey x) v r \<and> n = sTTL"
  "known sTTL iTTL hist (identityKey x) v n r \<longleftrightarrow> identities.fact hist (identityKey x) v r \<and> n = iTTL"
  by (auto simp: known_def sessions.fact_def identities.fact_def keys_differ keys_differ [symmetric])

lemma auth_sets:
  assumes "auth_inv sTTL iTTL delay w"
  shows "CacheSet ts (sessionKey x) v n e \<in> set (aw_log w) \<Longrightarrow> n = sTTL \<and> (\<exists>r. sessions.fact (aw_hist w) (sessionKey x) v r \<and> ts \<le> r + delay)"
    and "CacheSet ts (identityKey x) v n e \<in> set (aw_log w) \<Longrightarrow> n = iTTL \<and> (\<exists>r. identities.fact (aw_hist w) (identityKey x) v r \<and> ts \<le> r + delay)"
proof -
  have entry: "\<exists>r. known sTTL iTTL (aw_hist w) k v n r \<and> ts \<le> r + delay" if "CacheSet ts k v n e \<in> set (aw_log w)" for k
    using assms that unfolding auth_inv_def by blast
  show "CacheSet ts (sessionKey x) v n e \<in> set (aw_log w) \<Longrightarrow> n = sTTL \<and> (\<exists>r. sessions.fact (aw_hist w) (sessionKey x) v r \<and> ts \<le> r + delay)"
    using entry [of "sessionKey x"] by (auto simp: known_keys)
  show "CacheSet ts (identityKey x) v n e \<in> set (aw_log w) \<Longrightarrow> n = iTTL \<and> (\<exists>r. identities.fact (aw_hist w) (identityKey x) v r \<and> ts \<le> r + delay)"
    using entry [of "identityKey x"] by (auto simp: known_keys)
qed

lemma cached_IsActive_fresh:
  assumes "auth_inv sTTL iTTL delay w" "cache_sound (pv_get env)" "0 < sTTL" "pv_now env = aw_time w"
    and "cached_IsActive env jti \<lparr>pst_db = aw_db w, pst_log = aw_log w\<rparr> = (s, Inr True)"
  shows "\<exists>r db. (r, db) \<in> aw_hist w \<and> session_live r db jti () \<and> aw_time w \<le> r + delay + sTTL"
proof (cases "\<exists>v. pv_get env (aw_log w) (aw_time w) (sessionKey jti) = Inr (Some v)")
  case True
  then obtain v where v: "pv_get env (aw_log w) (aw_time w) (sessionKey jti) = Inr (Some v)" ..
  with assms(2) obtain ts n e where "CacheSet ts (sessionKey jti) v n e \<in> set (aw_log w)" unfolding cache_sound_def by blast
  with auth_sets(1) [OF assms(1)] have "v = CActive" unfolding sessions.fact_def by blast
  with v have "pv_get env (aw_log w) (aw_time w) (sessionKey jti) = Inr (Some CActive)" by simp
  from sessions.hit_fresh [OF assms(2) this assms(3) auth_sets(1) [OF assms(1)]] show ?thesis by auto
next
  case False
  with assms(5,4) have "session_IsActive env jti (aw_db w) = Inr True"
    by (auto simp: cached_IsActive_def split: sum.splits option.splits if_splits)
  from IsActive_live [OF this] assms(1,4) show ?thesis unfolding auth_inv_def by (metis add.assoc le_add1)
qed

lemma cached_LoadIdentity_fresh:
  assumes "auth_inv sTTL iTTL delay w" "cache_sound (pv_get env)" "0 < iTTL" "pv_now env = aw_time w"
    and "cached_LoadIdentity env user \<lparr>pst_db = aw_db w, pst_log = aw_log w\<rparr> = (s, Inr i)"
  shows "\<exists>r db. (r, db) \<in> aw_hist w \<and> account_is r db user i \<and> aw_time w \<le> r + delay + iTTL"
proof (cases "pv_get env (aw_log w) (aw_time w) (identityKey user) = Inr (Some (CIdentity i))")
  case True
  from identities.hit_fresh [OF assms(2) True assms(3) auth_sets(2) [OF assms(1)]] show ?thesis .
next
  case False
  with assms(5,4) have "provider_LoadIdentity env user (aw_db w) = Inr i"
    by (auto simp: cached_LoadIdentity_def split: sum.splits option.splits cval.splits)
  from LoadIdentity_account [OF this] assms(1,4) show ?thesis unfolding auth_inv_def by (metis add.assoc le_add1)
qed

text \<open>What the operations do to the cache are steps of that kind, with no delay.\<close>

lemma cached_IsActive_steps:
  assumes "pv_now env = aw_time w" "pv_sessionTTL env = sTTL" "cached_IsActive env jti \<lparr>pst_db = aw_db w, pst_log = aw_log w\<rparr> = (s, res)"
  shows "\<exists>w'. (auth_step sTTL iTTL delay)\<^sup>*\<^sup>* w w' \<and> s = \<lparr>pst_db = aw_db w', pst_log = aw_log w'\<rparr> \<and> aw_hist w' = aw_hist w \<and> aw_time w' = aw_time w"
proof (cases "s = \<lparr>pst_db = aw_db w, pst_log = aw_log w\<rparr>")
  case False
  with assms have active: "session_IsActive env jti (aw_db w) = Inr True"
    and s: "s = \<lparr>pst_db = aw_db w, pst_log = cache_Set env (sessionKey jti) CActive sTTL (aw_log w)\<rparr>"
    by (auto simp: cached_IsActive_def split: sum.splits option.splits if_splits)
  let ?w = "w\<lparr>aw_pend := insert (sessionKey jti, CActive, sTTL, aw_time w) (aw_pend w)\<rparr>"
  let ?w' = "?w\<lparr>aw_log := cache_Set env (sessionKey jti) CActive sTTL (aw_log w)\<rparr>"
  have "auth_step sTTL iTTL delay w ?w" by (rule auth_session [OF assms(1) active])
  moreover have "auth_step sTTL iTTL delay ?w ?w'"
    using auth_fill [of "sessionKey jti" CActive sTTL "aw_time w" ?w delay sTTL iTTL "pv_set env (aw_log w) (pv_now env) (sessionKey jti)"] assms(1)
    by (simp add: cache_Set_def)
  ultimately have "(auth_step sTTL iTTL delay)\<^sup>*\<^sup>* w ?w'" by (meson converse_rtranclp_into_rtranclp r_into_rtranclp)
  then show ?thesis by (intro exI [of _ ?w']) (simp add: s)
qed auto


section \<open>Tenants keep an administrator\<close>

definition role_key :: "UserRole \<Rightarrow> string \<times> string" where
  "role_key r = (url_userId r, url_tenant r)"

text \<open>A tenant with a record and an administrator, in a table with one role per user and tenant.\<close>

definition governed :: "string \<Rightarrow> pdb \<Rightarrow> bool" where
  "governed i db \<longleftrightarrow> distinct (map role_key (pd_roles db)) \<and> admins_of i db \<noteq> [] \<and> i \<in> set (map ptn_identifier (pd_tenants db))"

text \<open>Every operation of the platform except the deletion of accounts, one after the other.\<close>

inductive platform_op :: "pstate \<Rightarrow> pstate \<Rightarrow> bool" where
  op_request: "platform_op s (fst (RequireAuthenticated env header path s))"
| op_login: "platform_op s (fst (Login env username password s))"
| op_refresh: "platform_op s (fst (Refresh env user jti s))"
| op_logout: "platform_op s (fst (Logout env jti s))"
| op_create_user: "platform_op s (fst (CreateUser env username displayName email password s))"
| op_update_user: "platform_op s (fst (UpdateUser env user displayName email disabled s))"
| op_password: "platform_op s (fst (setPassword env ident user current nxt s))"
| op_sweep: "DeleteExpired env (pst_db s) = Inr db \<Longrightarrow> platform_op s (s\<lparr>pst_db := db\<rparr>)"
| op_create: "platform_op s (fst (ptenant_Create env inp owner s))"
| op_meta: "platform_op s (fst (ptenant_UpdateMeta env i displayName description labels annotations owner s))"
| op_suspend: "platform_op s (fst (ptenant_SetSuspended env i suspend s))"
| op_delete: "platform_op s (fst (ptenant_Delete env i s))"
| op_add: "platform_op s (fst (AddMember env i account role s))"
| op_update: "platform_op s (fst (UpdateMember env i user role s))"
| op_remove: "platform_op s (fst (RemoveMember env i user s))"

text \<open>The part of the database that matters here.\<close>

definition same_tenancy :: "pstate \<Rightarrow> pstate \<Rightarrow> bool" where
  "same_tenancy s s' \<longleftrightarrow> pd_roles (pst_db s') = pd_roles (pst_db s) \<and> map ptn_identifier (pd_tenants (pst_db s')) = map ptn_identifier (pd_tenants (pst_db s))"

lemma same_refl [simp]: "same_tenancy s s"
  by (simp add: same_tenancy_def)

lemma same_trans: "same_tenancy a b \<Longrightarrow> same_tenancy b c \<Longrightarrow> same_tenancy a c"
  by (simp add: same_tenancy_def)

lemma same_governed: "same_tenancy s s' \<Longrightarrow> governed i (pst_db s) \<Longrightarrow> governed i (pst_db s')"
  unfolding governed_def same_tenancy_def admins_of_def by simp

lemma stmt_Inr: "stmt env q x = Inr y \<longleftrightarrow> pv_fault env q = None \<and> y = x"
  by (auto simp: stmt_def split: option.splits)

lemma same_simps [simp]:
  "same_tenancy s (s\<lparr>pst_log := h\<rparr>)" "same_tenancy s (Invalidate env user s)"
  "same_tenancy s (fst (cached_IsActive env jti s))" "same_tenancy s (fst (cached_LoadIdentity env user s))"
  "same_tenancy s (fst (cached_Create env jti user e s))" "same_tenancy s (fst (cached_Revoke env jti s))"
  "same_tenancy s (fst (cached_RevokeAllForUser env user s))"
  by (auto simp: same_tenancy_def Invalidate_def cached_IsActive_def cached_LoadIdentity_def cached_Create_def cached_Revoke_def
      cached_RevokeAllForUser_def session_Create_def session_Revoke_def session_RevokeAllForUser_def revoke_live_def stmt_def
      split: sum.split option.split cval.split)

lemma same_dests:
  "cached_IsActive env jti s = (s', r1) \<Longrightarrow> same_tenancy s s'" "cached_LoadIdentity env user s = (s', r2) \<Longrightarrow> same_tenancy s s'"
  "cached_Create env jti user e s = (s', r3) \<Longrightarrow> same_tenancy s s'" "cached_RevokeAllForUser env user s = (s', r3) \<Longrightarrow> same_tenancy s s'"
  using same_simps(3) [of s env jti] same_simps(4) [of s env user] same_simps(5) [of s env jti user e] same_simps(7) [of s env user] by simp_all

lemma same_request: "same_tenancy s (fst (RequireAuthenticated env header path s))"
  by (auto simp: RequireAuthenticated_def Let_def split: sum.split prod.split dest: same_dests intro: same_trans)

lemma same_issue: "issue env u s = (s', r) \<Longrightarrow> same_tenancy s s'"
  by (auto simp: issue_def Let_def split: sum.splits prod.splits option.splits dest: same_dests)

lemma same_login: "same_tenancy s (fst (Login env username password s))"
  by (auto simp: Login_def split: sum.split dest: same_issue) (metis same_issue prod.collapse)

lemma same_refresh: "same_tenancy s (fst (Refresh env user jti s))"
  by (auto simp: Refresh_def split: sum.split prod.split dest!: same_issue intro: same_trans)

lemma same_create_user: "same_tenancy s (fst (CreateUser env username displayName email password s))"
  by (auto simp: CreateUser_def user_Create_def same_tenancy_def Let_def split: sum.split serr.split option.split)

lemma same_update_user: "same_tenancy s (fst (UpdateUser env user displayName email disabled s))"
  by (auto simp: UpdateUser_def user_Update_def same_tenancy_def Let_def Invalidate_def stmt_def split: sum.split option.split)

lemma same_password: "same_tenancy s (fst (setPassword env ident user current nxt s))"
proof -
  have "same_tenancy s s'" if "cached_RevokeAllForUser env user (Invalidate env user (s\<lparr>pst_db := db\<rparr>)) = (s', r)" "user_SetPassword env user hash (pst_db s) = Inr db"
    for s' r db hash
    using same_dests(4) [OF that(1)] that(2) by (auto simp: same_tenancy_def user_SetPassword_def Invalidate_def stmt_Inr)
  then show ?thesis by (auto simp: setPassword_def SetPassword_def split: sum.split prod.split option.split)
qed

lemma same_meta: "same_tenancy s (fst (ptenant_UpdateMeta env i displayName description labels annotations owner s))"
  by (auto simp: ptenant_UpdateMeta_def tenant_UpdateMeta_def same_tenancy_def cm_UpdateTenant_def Let_def stmt_def map_update_where split: sum.split option.split)

lemma same_suspend: "same_tenancy s (fst (ptenant_SetSuspended env i suspend s))"
  by (auto simp: ptenant_SetSuspended_def tenant_SetSuspended_def same_tenancy_def Let_def stmt_def map_update_where split: sum.split option.split)

text \<open>The operations on bindings.\<close>

lemma governed_roles:
  assumes "governed i db" "pd_tenants db' = pd_tenants db" "distinct (map role_key (pd_roles db'))" "admins_of i db' \<noteq> []"
  shows "governed i db'"
  using assms by (simp add: governed_def)

lemma replace_keys: "role_replace env r db = Inr (r', db') \<Longrightarrow> distinct (map role_key (pd_roles db)) \<Longrightarrow> distinct (map role_key (pd_roles db')) \<and>
    pd_tenants db' = pd_tenants db \<and> r' = r \<and> pd_roles db' = filter (\<lambda>x. \<not> bound_to (url_userId r) (url_tenant r) x) (pd_roles db) @ [r]"
  by (auto simp: role_replace_def role_key_def bound_to_def distinct_map inj_on_def split: option.splits if_splits)

text \<open>Removing the binding of a user leaves the other administrators.\<close>

lemma guard_keeps:
  assumes "governed i db" "guardLastAdminTx env user tenant newRole db = None" "newRole \<noteq> RoleTenantAdmin \<or> tenant \<noteq> i"
  shows "\<exists>r \<in> set (pd_roles db). url_tenant r = i \<and> url_role r = RoleTenantAdmin \<and> \<not> bound_to user tenant r"
proof (cases "tenant = i")
  case True
  from assms(2) obtain cur where cur: "find (bound_to user tenant) (pd_roles db) = Some cur"
    "\<not> (url_role cur = RoleTenantAdmin \<and> newRole \<noteq> RoleTenantAdmin \<and> length (admins_of tenant db) \<le> 1)"
    by (auto simp: guardLastAdminTx_def split: option.splits if_splits)
  then have cur': "cur \<in> set (pd_roles db)" "bound_to user tenant cur" by (auto simp: find_Some_iff)
  have uniq: "r = cur" if "r \<in> set (pd_roles db)" "bound_to user tenant r" for r
    using assms(1) that cur' unique_key [of role_key "pd_roles db" cur r] by (simp add: governed_def bound_to_def role_key_def)
  show ?thesis
  proof (cases "url_role cur = RoleTenantAdmin")
    case cur_admin: True
    with cur(2) assms(3) True have "1 < length (admins_of i db)" by auto
    then obtain a b xs where ab: "admins_of i db = a # b # xs" by (cases "admins_of i db"; cases "tl (admins_of i db)") auto
    have "distinct (admins_of i db)" using assms(1) by (simp add: governed_def admins_of_def distinct_map)
    with ab have "a \<noteq> b" by simp
    then have "a \<noteq> cur \<or> b \<noteq> cur" by auto
    moreover have "x \<in> set (pd_roles db) \<and> url_tenant x = i \<and> url_role x = RoleTenantAdmin" if "x = a \<or> x = b" for x
    proof -
      have "x \<in> set (admins_of i db)" using that ab by auto
      then show ?thesis by (simp add: admins_of_def)
    qed
    ultimately show ?thesis using uniq by metis
  next
    case False
    from assms(1) obtain r where "r \<in> set (admins_of i db)" by (cases "admins_of i db") (auto simp: governed_def)
    then have "r \<in> set (pd_roles db)" "url_tenant r = i" "url_role r = RoleTenantAdmin" by (auto simp: admins_of_def)
    with uniq False show ?thesis by metis
  qed
next
  case False
  from assms(1) obtain r where "r \<in> set (admins_of i db)" by (cases "admins_of i db") (auto simp: governed_def)
  with False show ?thesis by (auto simp: admins_of_def bound_to_def)
qed

lemma admins_found: "r \<in> set (pd_roles db) \<Longrightarrow> url_tenant r = i \<Longrightarrow> url_role r = RoleTenantAdmin \<Longrightarrow> admins_of i db \<noteq> []"
  by (auto simp: admins_of_def filter_empty_conv)

lemma governed_replace:
  assumes "governed i db" "role_replace env r db = Inr (r', db')"
    and "url_tenant r = i \<and> url_role r = RoleTenantAdmin \<or>
      (\<exists>x \<in> set (pd_roles db). url_tenant x = i \<and> url_role x = RoleTenantAdmin \<and> \<not> bound_to (url_userId r) (url_tenant r) x)"
  shows "governed i db'"
proof -
  have keys: "distinct (map role_key (pd_roles db'))" "pd_tenants db' = pd_tenants db"
    "pd_roles db' = filter (\<lambda>x. \<not> bound_to (url_userId r) (url_tenant r) x) (pd_roles db) @ [r]"
    using replace_keys [OF assms(2)] assms(1) by (auto simp: governed_def)
  from assms(3) have "\<exists>x \<in> set (pd_roles db'). url_tenant x = i \<and> url_role x = RoleTenantAdmin" unfolding keys(3) by auto
  with governed_roles [OF assms(1) keys(2,1)] admins_found show ?thesis by blast
qed

lemma governed_admin:
  assumes "governed i db"
  obtains r where "r \<in> set (pd_roles db)" "url_tenant r = i" "url_role r = RoleTenantAdmin"
  using assms by (auto simp: governed_def admins_of_def filter_empty_conv)

lemma governed_set:
  assumes "governed i db" "role_Set env user tenant role db = Inr (r, db')" "tenant \<noteq> i \<or> find (bound_to user tenant) (pd_roles db) = None"
  shows "governed i db'"
proof -
  obtain x where x: "x \<in> set (pd_roles db)" "url_tenant x = i" "url_role x = RoleTenantAdmin" using governed_admin [OF assms(1)] .
  moreover from x(1,2) assms(3) have "\<not> bound_to user tenant x" by (auto simp: find_None_iff bound_to_def)
  ultimately show ?thesis using governed_replace [OF assms(1) assms(2) [unfolded role_Set_def]] by auto
qed

lemma governed_add: "governed i (pst_db s) \<Longrightarrow> governed i (pst_db (fst (AddMember env tenant account role s)))"
proof (cases "add_member_check env tenant account role (pst_db s)")
  case (Inr u)
  assume g: "governed i (pst_db s)"
  from Inr have none: "find (bound_to (usr_id u) tenant) (pd_roles (pst_db s)) = None"
    by (auto simp: add_member_check_def role_Get_def first_where_def split: sum.splits option.splits serr.splits)
  have "governed i db" if "role_Set env (usr_id u) tenant role (pst_db s) = Inr (r, db)" for r db
    using governed_set [OF g that] none by blast
  with Inr g show ?thesis by (auto simp: AddMember_def add_member_write_def Invalidate_def split: sum.split)
qed (simp add: AddMember_def)

lemma governed_update: "governed i (pst_db s) \<Longrightarrow> governed i (pst_db (fst (UpdateMember env tenant user role s)))"
proof -
  assume g: "governed i (pst_db s)"
  have "governed i db'" if set: "GuardedSet env user tenant role (pst_db s) = Inr (r, db')" for r db'
  proof -
    let ?r = "\<lparr>url_userId = user, url_tenant = tenant, url_role = role, url_createdAt = pv_now env\<rparr>"
    from set have guard: "guardLastAdminTx env user tenant role (pst_db s) = None" and rep: "role_replace env ?r (pst_db s) = Inr (r, db')"
      by (auto simp: GuardedSet_def split: option.splits)
    show ?thesis
    proof (cases "role = RoleTenantAdmin \<and> tenant = i")
      case False
      with guard_keeps [OF g guard] show ?thesis by (intro governed_replace [OF g rep]) auto
    qed (use governed_replace [OF g rep] in auto)
  qed
  with g show ?thesis by (auto simp: UpdateMember_def Invalidate_def split: sum.split option.split)
qed

lemma governed_remove: "governed i (pst_db s) \<Longrightarrow> governed i (pst_db (fst (RemoveMember env tenant user s)))"
proof -
  assume g: "governed i (pst_db s)"
  have "governed i db'" if rem: "GuardedRemove env user tenant (pst_db s) = Inr db'" for db'
  proof -
    from rem have guard: "guardLastAdminTx env user tenant [] (pst_db s) = None"
      and db': "db' = (pst_db s)\<lparr>pd_roles := filter (\<lambda>x. \<not> bound_to user tenant x) (pd_roles (pst_db s))\<rparr>"
      by (auto simp: GuardedRemove_def stmt_Inr split: option.splits)
    from guard_keeps [OF g guard] obtain r where "r \<in> set (pd_roles db')" "url_tenant r = i" "url_role r = RoleTenantAdmin" by (auto simp: db')
    from governed_roles [OF g _ _ admins_found [OF this]] g show ?thesis by (simp add: db' governed_def distinct_map_filter)
  qed
  with g show ?thesis by (auto simp: RemoveMember_def Invalidate_def split: sum.split)
qed

lemma governed_drop: "governed i (pst_db s) \<Longrightarrow> j \<noteq> i \<Longrightarrow> governed i (pst_db (drop_row env j s))"
  by (auto simp: drop_row_def tenant_Delete_def stmt_def governed_def admins_of_def split: option.split)

lemma governed_bind: "governed i (pst_db s) \<Longrightarrow> j \<noteq> i \<Longrightarrow> governed i (pst_db (fst (bind_admin env j admin row s)))"
  using governed_drop [of i "fst (cm_DeleteTenant env j s)" j env] governed_set [of i "pst_db s" env "usr_id admin" j RoleTenantAdmin]
  by (auto simp: bind_admin_def cm_DeleteTenant_def Invalidate_def Let_def split: sum.split)

lemma governed_exists: "governed i db \<Longrightarrow> GetByIdentifier env i db \<noteq> Inl ErrNotFound"
  by (auto simp: governed_def GetByIdentifier_def first_where_def find_None_iff split: option.splits)

lemma governed_create: "governed i (pst_db s) \<Longrightarrow> governed i (pst_db (fst (ptenant_Create env inp owner s)))"
proof -
  assume g: "governed i (pst_db s)"
  show ?thesis
  proof (cases "create_check env inp (pst_db s)")
    case (Inr admin)
    then have "GetByIdentifier env (cri_identifier inp) (pst_db s) = Inl ErrNotFound"
      by (auto simp: create_check_def split: sum.splits serr.splits)
    with governed_exists [OF g] have other: "cri_identifier inp \<noteq> i" by metis
    have "governed i db" if "tenant_Create env (create_row inp owner) (pst_db s) = Inr (row, db)" for row db
      using that g by (auto simp: tenant_Create_def Let_def governed_def admins_of_def split: option.splits if_splits)
    with Inr g other governed_drop governed_bind show ?thesis
      by (auto simp: ptenant_Create_def cm_CreateTenant_def Let_def split: sum.split serr.split option.split)
  qed (use g in \<open>simp add: ptenant_Create_def Let_def\<close>)
qed

lemma governed_count: "governed i db \<Longrightarrow> CountByTenant env i db = Inr n \<Longrightarrow> 0 < n"
  by (auto simp: governed_def admins_of_def CountByTenant_def stmt_Inr rows_affected_def filter_empty_conv)

lemma governed_delete: "governed i (pst_db s) \<Longrightarrow> governed i (pst_db (fst (ptenant_Delete env j s)))"
proof -
  assume g: "governed i (pst_db s)"
  show ?thesis
  proof (cases "j = i")
    case True
    with governed_count [OF g] g show ?thesis by (auto simp: ptenant_Delete_def split: sum.split)
  next
    case False
    with g show ?thesis
      by (auto simp: ptenant_Delete_def cm_DeleteTenant_def DeleteByTenant_def tenant_Delete_def stmt_def governed_def admins_of_def Let_def
          distinct_map_filter filter_empty_conv split: sum.split option.split)
  qed
qed

lemma platform_op_governed: "platform_op s s' \<Longrightarrow> governed i (pst_db s) \<Longrightarrow> governed i (pst_db s')"
proof (induction rule: platform_op.induct)
  case (op_sweep env s db)
  then show ?case by (simp add: DeleteExpired_def stmt_Inr governed_def admins_of_def)
next
  case (op_logout s env jti)
  then show ?case using same_governed [OF same_simps(6)] by (simp add: Logout_def)
qed (auto intro: same_governed [OF same_request] same_governed [OF same_login] same_governed [OF same_refresh] same_governed [OF same_create_user]
    same_governed [OF same_update_user] same_governed [OF same_password] same_governed [OF same_meta] same_governed [OF same_suspend]
    governed_add governed_update governed_remove governed_create governed_delete)

text \<open>
  C28. Tenants keep an administrator, and so can not be deleted. Take a tenant with an administrator, in a table with one role per user and tenant. After
  any sequence of platform operations except the deletion of accounts, it has one still, and users still have one role per tenant. Since the
  deletion of a tenant asks for a tenant without members, every attempt to delete it is refused, also after
  all that can be removed has been removed.
\<close>

theorem tenant_keeps_admin:
  assumes "platform_op\<^sup>*\<^sup>* s s'" "governed i (pst_db s)"
  shows "governed i (pst_db s') \<and> (\<forall>env. (\<forall>q. pv_fault env q = None) \<longrightarrow>
    ptenant_Delete env i s' = (s', Some (perror ClassConflict ''tenant still has members'' ''tenant-in-use'')))"
proof -
  from assms have g: "governed i (pst_db s')" by (induction rule: rtranclp_induct) (auto intro: platform_op_governed)
  have "ptenant_Delete env i s' = (s', Some (perror ClassConflict ''tenant still has members'' ''tenant-in-use''))" if ok: "\<forall>q. pv_fault env q = None" for env
  proof -
    from governed_exists [OF g, of env] ok obtain t where "GetByIdentifier env i (pst_db s') = Inr t"
      by (auto simp: GetByIdentifier_def first_where_def split: option.splits)
    then have "getRow env i (pst_db s') = Inr t" by (simp add: getRow_def)
    moreover obtain n where "CountByTenant env i (pst_db s') = Inr n" using ok by (simp add: CountByTenant_def stmt_def)
    ultimately show ?thesis using governed_count [OF g] by (simp add: ptenant_Delete_def)
  qed
  with g show ?thesis by blast
qed


text \<open>Where the guard does not reach.\<close>

text \<open>The deletion of an account removes its bindings, the last administrator's too.\<close>

theorem delete_user_orphans_tenant:
  assumes "admins_of i (pst_db s) = [r]" "\<And>q. pv_fault env q = None" "u \<in> set (pd_users (pst_db s))" "usr_id u = url_userId r"
    and "DeleteUser env (url_userId r) s = (s', res)"
  shows "res = None \<and> admins_of i (pst_db s') = []"
proof -
  have "find (\<lambda>x. usr_id x = url_userId r) (pd_users (pst_db s)) \<noteq> None" using assms(3,4) by (auto simp: find_None_iff)
  then obtain x where get: "GetUser env (url_userId r) (pst_db s) = Inr x"
    using assms(2) by (auto simp: GetUser_def user_GetByID_def first_where_def)
  have "snd (cached_RevokeAllForUser env (url_userId r) s) = None"
    using assms(2) by (simp add: cached_RevokeAllForUser_def session_RevokeAllForUser_def revoke_live_def stmt_def split: if_split)
  then obtain s1 where rev: "cached_RevokeAllForUser env (url_userId r) s = (s1, None)" by (metis prod.collapse)
  have "pd_roles (pst_db s1) = pd_roles (pst_db s)" using same_dests(4) [OF rev] by (simp add: same_tenancy_def)
  moreover have "\<forall>x \<in> set (admins_of i (pst_db s)). url_userId x = url_userId r" using assms(1) by simp
  ultimately show ?thesis using assms(2,5) get rev
    by (auto simp: DeleteUser_def user_Delete_def stmt_def Invalidate_def admins_of_def filter_empty_conv)
qed

text \<open>
  An account is added by a check and an unguarded write. Between the two, the same account can become the administrator and the
  old one can leave: the late write then makes the last administrator a plain user.
\<close>

theorem add_member_race:
  assumes "admins_of i (pst_db s) = [r]" "url_userId r = usr_id u" "\<And>q. pv_fault env q = None" "u \<in> set (pd_users (pst_db s))"
    and "add_member_write env i u RoleUser s = (s', res)"
  shows "admins_of i (pst_db s') = []"
proof -
  have "list_ex (\<lambda>x. usr_id x = usr_id u) (pd_users (pst_db s))" using assms(4) by (auto simp: list_ex_iff)
  then have roles: "pd_roles (pst_db s') = filter (\<lambda>x. \<not> bound_to (usr_id u) i x) (pd_roles (pst_db s)) @
      [\<lparr>url_userId = usr_id u, url_tenant = i, url_role = RoleUser, url_createdAt = pv_now env\<rparr>]"
    using assms(3,5) by (auto simp: add_member_write_def role_Set_def role_replace_def Invalidate_def)
  have "url_userId x = usr_id u" if "x \<in> set (pd_roles (pst_db s))" "url_tenant x = i" "url_role x = RoleTenantAdmin" for x
  proof -
    have "x \<in> set (admins_of i (pst_db s))" using that by (simp add: admins_of_def)
    with assms(1,2) show ?thesis by simp
  qed
  then show ?thesis by (auto simp: admins_of_def roles filter_empty_conv bound_to_def)
qed

text \<open>Queued runs do not keep a tenant from being deleted: the phase is not among the active ones.\<close>

theorem queued_runs_do_not_block:
  "pv_compute env = Some (\<lambda>_. (Inr [''Queued''], Inr [])) \<Longrightarrow> checkNoActiveWorkloads env i = None"
  by (simp add: checkNoActiveWorkloads_def active_phase_def)

section \<open>A run\<close>

text \<open>A cache that returns the last write under a key while it has not expired.\<close>

fun px_get :: "pevent list \<Rightarrow> nat \<Rightarrow> string \<Rightarrow> string + cval option" where
  "px_get [] t k = Inr None"
| "px_get (CacheSet ts k' v ttl e # h) t k = (if k' = k then Inr (if ts \<le> t \<and> t < ts + ttl then Some v else None) else px_get h t k)"
| "px_get (CacheDel ts k' e # h) t k = (if k' = k then Inr None else px_get h t k)"
| "px_get (_ # h) t k = px_get h t k"

lemma px_sound: "cache_sound px_get"
  unfolding cache_sound_def
proof (intro allI impI)
  fix h t k v
  assume "px_get h t k = Inr (Some v)"
  then show "\<exists>ts ttl e. CacheSet ts k v ttl e \<in> set h \<and> ts \<le> t \<and> (ttl = 0 \<or> t < ts + ttl)"
    by (induction h t k rule: px_get.induct) (fastforce split: if_splits)+
qed

definition px_env :: penv where
  "px_env = \<lparr>pv_now = 5, pv_uuid = ''new'', pv_fault = (\<lambda>_. None), pv_get = px_get, pv_set = (\<lambda>_ _ _. None), pv_del = (\<lambda>_ _ _. None),
     pv_hash = Inr, pv_check = (=), pv_verify = (\<lambda>_. Inr \<lparr>clm_id = ''j'', clm_subject = ''u''\<rparr>), pv_issue = (\<lambda>_ _ j. Inr j), pv_loginTTL = 100,
     pv_sessionTTL = 300, pv_identityTTL = 60, pv_cmCreate = (\<lambda>_ _. None), pv_cmUpdate = (\<lambda>_ _. None), pv_cmDelete = (\<lambda>_ _. None), pv_compute = None\<rparr>"

definition px_user :: User where
  "px_user = \<lparr>usr_id = ''u'', usr_username = ''ann'', usr_passwordHash = ''h'', usr_mustChangePassword = False, usr_email = ''ann@x'', usr_displayName = [],
     usr_disabled = False, usr_isSystemAdmin = False, usr_createdAt = 0, usr_updatedAt = 0\<rparr>"

definition px_tenant :: PTenant where
  "px_tenant = create_row \<lparr>cri_identifier = ''lab'', cri_namespace = ''ns'', cri_displayName = [], cri_description = [], cri_initialAdmin = ''ann'', cri_labels = [],
     cri_annotations = []\<rparr> ''root''"

definition px_db :: "bool \<Rightarrow> pdb" where
  "px_db revoked = \<lparr>pd_users = [px_user], pd_roles = [\<lparr>url_userId = ''u'', url_tenant = ''lab'', url_role = RoleTenantAdmin, url_createdAt = 0\<rparr>],
     pd_sessions = [\<lparr>ses_jti = ''j'', ses_userId = ''u'', ses_expiresAt = 90, ses_revoked = revoked\<rparr>], pd_tenants = [px_tenant]\<rparr>"

text \<open>A session is read, then revoked, and the late write of the reader makes it pass once more.\<close>

definition px_world :: auth_world where
  "px_world = \<lparr>aw_time = 5, aw_db = px_db True, aw_log = [CacheSet 5 (sessionKey ''j'') CActive 300 None],
     aw_hist = {(5, px_db True), (5, px_db False)}, aw_pend = {(sessionKey ''j'', CActive, 300, 5)}\<rparr>"

lemma px_reached: "(auth_step 300 60 2)\<^sup>*\<^sup>* (auth_start 5 (px_db False)) px_world"
proof -
  let ?w1 = "(auth_start 5 (px_db False))\<lparr>aw_pend := {(sessionKey ''j'', CActive, 300, 5)}\<rparr>"
  let ?w2 = "?w1\<lparr>aw_db := px_db True, aw_hist := {(5, px_db True), (5, px_db False)}\<rparr>"
  have "session_IsActive px_env ''j'' (px_db False) = Inr True" by (simp add: session_IsActive_def first_where_def px_db_def px_env_def)
  then have "auth_step 300 60 2 (auth_start 5 (px_db False)) ?w1"
    using auth_session [of px_env "auth_start 5 (px_db False)" "''j''" 300 60 2] by (simp add: auth_start_def px_env_def)
  moreover have "auth_step 300 60 2 ?w1 ?w2" using auth_change [of 300 60 2 ?w1 "px_db True"] by (simp add: auth_start_def)
  moreover have "auth_step 300 60 2 ?w2 px_world"
    using auth_fill [of "sessionKey ''j''" CActive 300 5 ?w2 2 300 60 None] by (simp add: auth_start_def px_world_def)
  ultimately show ?thesis by (meson rtranclp.rtrancl_into_rtrancl rtranclp.rtrancl_refl)
qed


theorem tenant_keeps_admin_witness:
  "let s' = fst (RemoveMember px_env ''lab'' ''u'' \<lparr>pst_db = px_db False, pst_log = []\<rparr>) in
   snd (ptenant_Delete px_env ''lab'' s') = Some (perror ClassConflict ''tenant still has members'' ''tenant-in-use'')"
proof -
  let ?s = "\<lparr>pst_db = px_db False, pst_log = []\<rparr>"
  have ops: "platform_op\<^sup>*\<^sup>* ?s (fst (RemoveMember px_env ''lab'' ''u'' ?s))" by (rule r_into_rtranclp, rule op_remove)
  have "governed ''lab'' (pst_db ?s)" by (simp add: governed_def admins_of_def px_db_def px_tenant_def create_row_def)
  with tenant_keeps_admin [OF ops, of "''lab''"] have "\<forall>q. pv_fault px_env q = None \<Longrightarrow> snd (ptenant_Delete px_env ''lab'' (fst (RemoveMember px_env ''lab'' ''u'' ?s))) =
      Some (perror ClassConflict ''tenant still has members'' ''tenant-in-use'')" by (metis snd_conv)
  then show ?thesis by (simp add: px_env_def Let_def)
qed


end
