(* ===== verification/RateLimit.thy ===== *)
theory RateLimit
  imports PlatformAuth Complex_Main
begin

text \<open>
  The limiter of login attempts (\<^verbatim>\<open>axisml-platform/backend/internal/auth/ratelimit.go\<close>): token buckets by client address, which are refilled when
  they are used and pruned when there are many. The bound it is meant to keep, for every sequence of requests.
\<close>

section \<open>Buckets\<close>

text \<open>Times are nanoseconds. The floating-point numbers of a bucket are rationals here: the rounding is not modelled.\<close>

record bucket =
  bkt_tokens :: rat
  bkt_lastSeen :: int

record limiter =
  lim_buckets :: "(string, bucket) gomap"
  lim_capacity :: rat
  lim_refillPerS :: rat

definition NewRateLimiter :: "nat \<Rightarrow> rat \<Rightarrow> limiter" where
  "NewRateLimiter capacity refill = \<lparr>lim_buckets = [], lim_capacity = of_nat capacity, lim_refillPerS = refill\<rparr>"

definition seconds :: "int \<Rightarrow> rat" where
  "seconds d = of_int d / 1000000000"

definition pruneLocked :: "int \<Rightarrow> limiter \<Rightarrow> limiter" where
  "pruneLocked now l =
     (let full = (if 0 < lim_refillPerS l then \<lfloor>lim_capacity l / lim_refillPerS l\<rfloor> * 1000000000 else 0)
      in l\<lparr>lim_buckets := filter (\<lambda>(_, b). \<not> full < now - bkt_lastSeen b) (lim_buckets l)\<rparr>)"

definition refilled :: "limiter \<Rightarrow> int \<Rightarrow> bucket \<Rightarrow> rat" where
  "refilled l now b = (let tokens = bkt_tokens b + seconds (now - bkt_lastSeen b) * lim_refillPerS l in if lim_capacity l < tokens then lim_capacity l else tokens)"

definition allow :: "int \<Rightarrow> string \<Rightarrow> limiter \<Rightarrow> bool \<times> limiter" where
  "allow now key l =
     (let l1 = (if map_of (lim_buckets l) key = None \<and> 10000 < length (lim_buckets l) then pruneLocked now l else l);
          tokens = (case map_of (lim_buckets l) key of None \<Rightarrow> lim_capacity l | Some b \<Rightarrow> refilled l now b);
          put = (\<lambda>n. l1\<lparr>lim_buckets := AList.update key \<lparr>bkt_tokens = n, bkt_lastSeen = now\<rparr> (lim_buckets l1)\<rparr>)
      in if tokens < 1 then (False, put tokens) else (True, put (tokens - 1)))"

definition limit_request :: "int \<Rightarrow> string \<Rightarrow> limiter \<Rightarrow> limiter \<times> perr option" where
  "limit_request now key l =
     (case allow now key l of (True, l') \<Rightarrow> (l', None) | (False, l') \<Rightarrow> (l', Some (perror ClassTooManyReq ''too many requests; slow down'' ''rate-limited'')))"

section \<open>What the limiter admits\<close>

text \<open>The tokens a key has at some time, with or without a bucket.\<close>

definition available :: "limiter \<Rightarrow> string \<Rightarrow> int \<Rightarrow> rat" where
  "available l key now = (case map_of (lim_buckets l) key of None \<Rightarrow> lim_capacity l | Some b \<Rightarrow> refilled l now b)"

definition limiter_ok :: "int \<Rightarrow> limiter \<Rightarrow> bool" where
  "limiter_ok t l \<longleftrightarrow> wf_map (lim_buckets l) \<and> 0 \<le> lim_capacity l \<and> 0 < lim_refillPerS l \<and> (\<exists>m. lim_capacity l = of_int m * lim_refillPerS l) \<and>
     (\<forall>(k, b) \<in> set (lim_buckets l). 0 \<le> bkt_tokens b \<and> bkt_tokens b \<le> lim_capacity l \<and> bkt_lastSeen b \<le> t)"

lemma seconds_mono: "a \<le> b \<Longrightarrow> seconds a \<le> seconds b"
  by (simp add: seconds_def divide_right_mono)

lemma seconds_add: "seconds (a + b) = seconds a + seconds b"
  by (simp add: seconds_def add_divide_distrib)

lemma refilled_le: "refilled l now b \<le> lim_capacity l"
  by (simp add: refilled_def Let_def)

lemma refilled_buckets [simp]: "refilled (l\<lparr>lim_buckets := bs\<rparr>) now b = refilled l now b"
  by (simp add: refilled_def Let_def)

lemma refilled_later:
  assumes "0 < lim_refillPerS l" "t \<le> now"
  shows "refilled l now b \<le> refilled l t b + seconds (now - t) * lim_refillPerS l"
proof -
  have "seconds (now - bkt_lastSeen b) = seconds (t - bkt_lastSeen b) + seconds (now - t)" using seconds_add [of "t - bkt_lastSeen b" "now - t"] by simp
  moreover have "0 \<le> seconds (now - t) * lim_refillPerS l" using assms seconds_mono [of 0 "now - t"] by (simp add: seconds_def)
  ultimately show ?thesis by (auto simp: refilled_def Let_def algebra_simps)
qed

lemma available_later: "limiter_ok t l \<Longrightarrow> t \<le> now \<Longrightarrow> available l k now \<le> available l k t + seconds (now - t) * lim_refillPerS l"
  using refilled_later [of l t now] seconds_mono [of 0 "now - t"]
  by (auto simp: available_def limiter_ok_def seconds_def split: option.split)

text \<open>A bucket that is pruned was full.\<close>

lemma pruned_full:
  assumes "limiter_ok t l" "t \<le> now" "(k, b) \<in> set (lim_buckets l)" "\<lfloor>lim_capacity l / lim_refillPerS l\<rfloor> * 1000000000 < now - bkt_lastSeen b"
  shows "refilled l now b = lim_capacity l"
proof -
  from assms(1,3) obtain m where m: "lim_capacity l = of_int m * lim_refillPerS l" "0 < lim_refillPerS l" "0 \<le> bkt_tokens b" by (auto simp: limiter_ok_def)
  then have "\<lfloor>lim_capacity l / lim_refillPerS l\<rfloor> = m" by simp
  with assms(4) have "of_int (m * 1000000000) \<le> (of_int (now - bkt_lastSeen b) :: rat)" by (simp only: of_int_le_iff)
  then have "of_int m \<le> seconds (now - bkt_lastSeen b)" by (simp add: seconds_def)
  then have "lim_capacity l \<le> seconds (now - bkt_lastSeen b) * lim_refillPerS l" using m by simp
  with m(3) have "lim_capacity l \<le> bkt_tokens b + seconds (now - bkt_lastSeen b) * lim_refillPerS l" by linarith
  then show ?thesis by (simp add: refilled_def Let_def)
qed

lemma prune_available:
  assumes "limiter_ok t l" "t \<le> now"
  shows "available (pruneLocked now l) k now = available l k now"
proof (cases "map_of (lim_buckets l) k")
  case None
  then have "map_of (filter P (lim_buckets l)) k = None" for P by (auto simp: map_of_eq_None_iff)
  with None show ?thesis by (simp add: available_def pruneLocked_def Let_def)
next
  case (Some b)
  have wf: "wf_map (lim_buckets l)" "0 < lim_refillPerS l" using assms(1) by (auto simp: limiter_ok_def)
  have b: "(k, b) \<in> set (lim_buckets l)" using Some by (rule map_of_SomeD)
  let ?full = "\<lfloor>lim_capacity l / lim_refillPerS l\<rfloor> * 1000000000"
  let ?bs = "filter (\<lambda>(_, b). \<not> ?full < now - bkt_lastSeen b) (lim_buckets l)"
  have wf': "wf_map ?bs" using wf(1) by (simp add: wf_map_def distinct_map_filter)
  have prune: "pruneLocked now l = l\<lparr>lim_buckets := ?bs\<rparr>" using wf(2) by (simp add: pruneLocked_def)
  show ?thesis
  proof (cases "?full < now - bkt_lastSeen b")
    case True
    have "(k, b') \<notin> set ?bs" for b' using True wf_map_in_set [OF wf(1), of k b'] Some by auto
    then have "map_of ?bs k = None" by (meson map_of_SomeD not_None_eq)
    with Some pruned_full [OF assms b True] show ?thesis by (simp add: available_def prune)
  next
    case False
    with b have "(k, b) \<in> set ?bs" by simp
    with wf_map_in_set [OF wf'] have "map_of ?bs k = Some b" by blast
    with Some show ?thesis by (simp add: available_def prune)
  qed
qed

lemma prune_ok: "limiter_ok t l \<Longrightarrow> limiter_ok t (pruneLocked now l)"
  by (auto simp: limiter_ok_def pruneLocked_def Let_def wf_map_def distinct_map_filter)

text \<open>One request takes a token of its key if there is one, and no other.\<close>

lemma set_update: "set (AList.update k v al) \<subseteq> insert (k, v) (set al)"
  by (induction al) auto

lemma put_ok:
  "limiter_ok t l \<Longrightarrow> t \<le> now \<Longrightarrow> 0 \<le> n \<Longrightarrow> n \<le> lim_capacity l \<Longrightarrow>
   limiter_ok now (l\<lparr>lim_buckets := AList.update k \<lparr>bkt_tokens = n, bkt_lastSeen = now\<rparr> (lim_buckets l)\<rparr>)"
  using set_update [of k "\<lparr>bkt_tokens = n, bkt_lastSeen = now\<rparr>" "lim_buckets l"] unfolding limiter_ok_def by fastforce

lemma put_available:
  "available (l\<lparr>lim_buckets := AList.update k \<lparr>bkt_tokens = n, bkt_lastSeen = now\<rparr> (lim_buckets l)\<rparr>) k' now =
     (if k' = k then (if lim_capacity l < n then lim_capacity l else n) else available l k' now)"
  by (simp add: available_def split: option.split) (simp add: refilled_def seconds_def)

lemma available_nonneg:
  assumes "limiter_ok t l" "t \<le> now"
  shows "0 \<le> available l k now"
proof (cases "map_of (lim_buckets l) k")
  case (Some b)
  then have b: "0 \<le> bkt_tokens b" "bkt_lastSeen b \<le> now" "0 \<le> lim_capacity l" "0 < lim_refillPerS l"
    using assms map_of_SomeD [OF Some] by (auto simp: limiter_ok_def)
  then have "0 \<le> seconds (now - bkt_lastSeen b) * lim_refillPerS l" by (simp add: seconds_def)
  with b show ?thesis by (simp add: available_def Some refilled_def Let_def)
qed (use assms in \<open>simp add: available_def limiter_ok_def\<close>)

lemma available_le: "available l k now \<le> lim_capacity l"
  by (simp add: available_def refilled_le split: option.split)

lemma allow_step:
  assumes "limiter_ok t l" "t \<le> now" "allow now k l = (ok, l')"
  shows "limiter_ok now l'" "lim_capacity l' = lim_capacity l" "lim_refillPerS l' = lim_refillPerS l"
    "available l' k' now = available l k' now - (if ok \<and> k' = k then 1 else 0)" "ok \<longleftrightarrow> 1 \<le> available l k now"
proof -
  define l1 where "l1 = (if map_of (lim_buckets l) k = None \<and> 10000 < length (lim_buckets l) then pruneLocked now l else l)"
  have l1: "limiter_ok t l1" "lim_capacity l1 = lim_capacity l" "lim_refillPerS l1 = lim_refillPerS l" "available l1 x now = available l x now" for x
    using prune_ok [OF assms(1)] prune_available [OF assms(1,2)] assms(1) by (simp_all add: l1_def pruneLocked_def Let_def)
  define n where "n = available l k now - (if ok then 1 else 0)"
  have run: "ok \<longleftrightarrow> 1 \<le> available l k now" "l' = l1\<lparr>lim_buckets := AList.update k \<lparr>bkt_tokens = n, bkt_lastSeen = now\<rparr> (lim_buckets l1)\<rparr>"
    using assms(3) by (auto simp: allow_def Let_def l1_def n_def available_def split: if_splits option.splits)
  have n: "0 \<le> n" "n \<le> lim_capacity l" using run(1) available_nonneg [OF assms(1,2), of k] available_le [of l k now] by (auto simp: n_def)
  show "limiter_ok now l'" unfolding run(2) by (rule put_ok [OF l1(1) assms(2) n(1)]) (simp add: l1 n)
  show "lim_capacity l' = lim_capacity l" "lim_refillPerS l' = lim_refillPerS l" by (simp_all add: run(2) l1)
  show "available l' k' now = available l k' now - (if ok \<and> k' = k then 1 else 0)"
    unfolding run(2) put_available using n by (simp add: l1) (simp add: n_def)
  show "ok \<longleftrightarrow> 1 \<le> available l k now" by (rule run(1))
qed

text \<open>The requests of a sequence that pass, of one key.\<close>

fun passed :: "string \<Rightarrow> limiter \<Rightarrow> (int \<times> string) list \<Rightarrow> nat" where
  "passed k l [] = 0"
| "passed k l ((now, k') # cs) =
     (case limit_request now k' l of (l', res) \<Rightarrow> (if k' = k \<and> res = None then 1 else 0) + passed k l' cs)"

fun after_requests :: "limiter \<Rightarrow> (int \<times> string) list \<Rightarrow> limiter" where
  "after_requests l [] = l"
| "after_requests l ((now, k) # cs) = after_requests (fst (limit_request now k l)) cs"

lemma request_step:
  assumes "limit_request now k l = (l', res)"
  shows "\<exists>ok. allow now k l = (ok, l') \<and> (res = None \<longleftrightarrow> ok)"
  using assms by (auto simp: limit_request_def split: prod.splits bool.splits)

lemma passed_bound:
  assumes "limiter_ok t l" "sorted (t # map fst cs)" "\<forall>c \<in> set cs. fst c \<le> b"  "t \<le> b"
  shows "of_nat (passed k l cs) \<le> available l k t + seconds (b - t) * lim_refillPerS l"
  using assms
proof (induction cs arbitrary: l t)
  case Nil
  then have "0 \<le> seconds (b - t) * lim_refillPerS l" by (simp add: limiter_ok_def seconds_def)
  with available_nonneg [OF Nil.prems(1) order_refl, of k] show ?case by simp
next
  case (Cons c cs)
  obtain now k' where c: "c = (now, k')" by (cases c)
  obtain l' res where req: "limit_request now k' l = (l', res)" by (meson surj_pair)
  from request_step [OF req] obtain ok where ok: "allow now k' l = (ok, l')" "res = None \<longleftrightarrow> ok" by auto
  have le: "t \<le> now" "now \<le> b" using Cons.prems c by auto
  note step = allow_step [OF Cons.prems(1) le(1) ok(1)]
  have "of_nat (passed k l' cs) \<le> available l' k now + seconds (b - now) * lim_refillPerS l'"
    using Cons.prems c le by (intro Cons.IH step(1)) auto
  also have "available l' k now = available l k now - (if ok \<and> k = k' then 1 else 0)" by (rule step(4))
  finally have "of_nat (passed k l' cs) + (if ok \<and> k = k' then 1 else 0) \<le> available l k now + seconds (b - now) * lim_refillPerS l"
    by (simp add: step(3))
  also have "\<dots> \<le> available l k t + seconds (now - t) * lim_refillPerS l + seconds (b - now) * lim_refillPerS l"
    using available_later [OF Cons.prems(1) le(1), of k] by simp
  also have "\<dots> = available l k t + seconds (b - t) * lim_refillPerS l"
    using seconds_add [of "now - t" "b - now"] by (simp add: algebra_simps)
  finally show ?case using ok(2) by (auto simp: c req)
qed

lemma after_ok:
  "limiter_ok t l \<Longrightarrow> sorted (t # map fst cs @ [t']) \<Longrightarrow> limiter_ok t' (after_requests l cs) \<and>
     lim_capacity (after_requests l cs) = lim_capacity l \<and> lim_refillPerS (after_requests l cs) = lim_refillPerS l"
proof (induction cs arbitrary: l t)
  case Nil
  then show ?case by (fastforce simp: limiter_ok_def)
next
  case (Cons c cs)
  obtain now k where c: "c = (now, k)" by (cases c)
  obtain l' res where req: "limit_request now k l = (l', res)" by (meson surj_pair)
  from request_step [OF req] obtain ok where ok: "allow now k l = (ok, l')" by auto
  have "t \<le> now" using Cons.prems c by auto
  note step = allow_step [OF Cons.prems(1) this ok]
  from Cons.IH [OF step(1)] Cons.prems c req step(2,3) show ?case by auto
qed

text \<open>
  C30. The bound on login attempts. After any earlier requests, and whatever other clients do, in a window of time the limiter passes at most
  the capacity plus the refill of the window for one key, also when buckets are pruned in between. The time a bucket
  needs to fill has to be a whole number of seconds, as it is with the constants of the handler: the pruning rounds it down.
\<close>

theorem login_rate_bounded:
  assumes "0 < refill" "of_nat capacity = of_int m * refill" "sorted (map fst before @ a # map fst window)" "\<forall>c \<in> set window. fst c \<le> b" "a \<le> b"
  shows "of_nat (passed k (after_requests (NewRateLimiter capacity refill) before) window) \<le> of_nat capacity + seconds (b - a) * refill"
proof -
  let ?l = "NewRateLimiter capacity refill"
  define t where "t = (case before of [] \<Rightarrow> a | c # _ \<Rightarrow> fst c)"
  have "limiter_ok t ?l" using assms(1,2) by (auto simp: limiter_ok_def NewRateLimiter_def)
  moreover have "sorted (t # map fst before @ [a])" using assms(3) by (cases before) (auto simp: t_def sorted_append)
  ultimately have ok: "limiter_ok a (after_requests ?l before)" "lim_capacity (after_requests ?l before) = of_nat capacity"
    "lim_refillPerS (after_requests ?l before) = refill" using after_ok [of t ?l before a] by (simp_all add: NewRateLimiter_def)
  have "sorted (a # map fst window)" using assms(3) by (simp add: sorted_append)
  from passed_bound [OF ok(1) this assms(4,5), of k] available_le [of "after_requests ?l before" k a] ok(2,3) show ?thesis by simp
qed

theorem login_rate_bounded_witness:
  "passed ''10.0.0.1'' (after_requests (NewRateLimiter 10 (1/5)) []) (replicate 20 (0, ''10.0.0.1'')) \<le> 10"
  using login_rate_bounded [of "1/5" 10 50 "[]" 0 "replicate 20 (0, ''10.0.0.1'')" 0 "''10.0.0.1''"] by (simp add: seconds_def)

end
