(* ===== verification/ApiProgram.thy ===== *)
theory ApiProgram
  imports Prelude "HOL-Library.State_Monad"
begin

text \<open>
  Programs that talk to the Kubernetes API, as the operators write them: every call is answered
  by a function of the whole history of calls and answers so far, so any behaviour of the
  server, of other writers and of a stale cache is covered. A program is an element of the state
  monad over that history; each call adds one event to it (newest first).

  The second part is a small program logic: \<open>runs m Q\<close> relates the result of a program to the
  events it adds, \<open>only P m\<close> says every event it adds satisfies \<open>P\<close>; both hold for every
  behaviour of the API.
\<close>

section \<open>Objects and errors\<close>

datatype kerr = KNotFound string | KAlreadyExists string | KOther string

fun kmsg :: "kerr \<Rightarrow> string" where
  "kmsg (KNotFound m) = m"
| "kmsg (KAlreadyExists m) = m"
| "kmsg (KOther m) = m"

fun isNotFound :: "kerr \<Rightarrow> bool" where
  "isNotFound (KNotFound m) = True"
| "isNotFound _ = False"

fun isAlreadyExists :: "kerr \<Rightarrow> bool" where
  "isAlreadyExists (KAlreadyExists m) = True"
| "isAlreadyExists _ = False"

record OwnerRef =
  own_apiVersion :: string
  own_kind :: string
  own_name :: string
  own_uid :: string
  own_controller :: bool
  own_blockOwnerDeletion :: bool

record objmeta =
  om_namespace :: string
  om_name :: string
  om_labels :: "(string, string) gomap"
  om_annotations :: "(string, string) gomap"
  om_owners :: "OwnerRef list"

record ConfigMapObj =
  cm_meta :: objmeta
  cm_data :: "(string, string) gomap"
  cm_binaryData :: "(string, string) gomap"

section \<open>Programs\<close>

type_synonym ('e, 'a) io = "('e list, 'a) state"

abbreviation ret :: "'a \<Rightarrow> ('e, 'a) io" where
  "ret \<equiv> State_Monad.return"

text \<open>One call: the answer is \<open>f\<close> of the history, the event is \<open>ev\<close> of the answer.\<close>

definition call :: "('e list \<Rightarrow> 'r) \<Rightarrow> ('r \<Rightarrow> 'e) \<Rightarrow> ('e, 'r) io" where
  "call f ev = State (\<lambda>h. (f h, ev (f h) # h))"

text \<open>\<open>for x := range xs { if err := step(x); err != nil { return err } }\<close>.\<close>

fun try_each :: "('x \<Rightarrow> ('e, 'r option) io) \<Rightarrow> 'x list \<Rightarrow> ('e, 'r option) io" where
  "try_each step [] = ret None"
| "try_each step (x # xs) = do {
     e \<leftarrow> step x;
     case e of Some m \<Rightarrow> ret (Some m) | None \<Rightarrow> try_each step xs
   }"

section \<open>A logic for programs over the API\<close>

definition runs :: "('e, 'a) io \<Rightarrow> ('a \<Rightarrow> 'e list \<Rightarrow> bool) \<Rightarrow> bool" where
  "runs m Q \<longleftrightarrow> (\<forall>h. \<exists>x es. run_state m h = (x, es @ h) \<and> Q x es)"

definition only :: "('e \<Rightarrow> bool) \<Rightarrow> ('e, 'a) io \<Rightarrow> bool" where
  "only P m \<longleftrightarrow> runs m (\<lambda>_ es. list_all P es)"

named_theorems only_rules \<open>syntax-directed rules for \<open>only\<close>\<close>
named_theorems runs_rules \<open>syntax-directed rules for \<open>runs\<close>\<close>

lemma runs_ret [runs_rules]: "Q x [] \<Longrightarrow> runs (ret x) Q"
  by (auto simp: runs_def)

lemma runs_bind:
  assumes "runs m P" "\<And>x es. P x es \<Longrightarrow> runs (f x) (\<lambda>y es'. Q y (es' @ es))"
  shows "runs (m \<bind> f) Q"
  unfolding runs_def
proof
  fix h
  from assms(1) obtain x es where m: "run_state m h = (x, es @ h)" "P x es" unfolding runs_def by blast
  from assms(2) [OF m(2)] obtain y es' where "run_state (f x) (es @ h) = (y, es' @ es @ h)" "Q y (es' @ es)"
    unfolding runs_def by blast
  with m(1) show "\<exists>y es. run_state (m \<bind> f) h = (y, es @ h) \<and> Q y es" by (intro exI [of _ y] exI [of _ "es' @ es"]) simp
qed

lemma runs_mono: "runs m P \<Longrightarrow> (\<And>x es. P x es \<Longrightarrow> Q x es) \<Longrightarrow> runs m Q"
  unfolding runs_def by meson

lemma runs_outcome:
  assumes "runs m Q" "run_state m h = (x, h')"
  obtains es where "h' = es @ h" "Q x es"
  using assms unfolding runs_def by (metis Pair_inject)

lemma runs_result: "runs m Q \<Longrightarrow> run_state m h = (x, es @ h) \<Longrightarrow> Q x es"
  by (erule runs_outcome) auto

lemma runs_conj: "runs m P \<Longrightarrow> runs m Q \<Longrightarrow> runs m (\<lambda>x es. P x es \<and> Q x es)"
  unfolding runs_def by (metis Pair_inject append_same_eq)

lemma runs_call: "runs (call f ev) (\<lambda>r es. es = [ev r])"
  by (simp add: runs_def call_def)

text \<open>A call and what follows it: the event is the oldest of those the program adds.\<close>

lemma runs_call_bind [runs_rules]:
  "(\<And>r. runs (g r) (\<lambda>y es. Q y (es @ [ev r]))) \<Longrightarrow> runs (call f ev \<bind> g) Q"
  by (rule runs_bind [OF runs_call]) simp

lemma runs_if [runs_rules]: "(b \<Longrightarrow> runs m Q) \<Longrightarrow> (\<not> b \<Longrightarrow> runs n Q) \<Longrightarrow> runs (if b then m else n) Q"
  by simp

lemma runs_option [runs_rules]:
  "(x = None \<Longrightarrow> runs m Q) \<Longrightarrow> (\<And>y. x = Some y \<Longrightarrow> runs (f y) Q) \<Longrightarrow>
   runs (case x of None \<Rightarrow> m | Some y \<Rightarrow> f y) Q"
  by (cases x) auto

lemma runs_sum [runs_rules]:
  "(\<And>y. x = Inl y \<Longrightarrow> runs (f y) Q) \<Longrightarrow> (\<And>y. x = Inr y \<Longrightarrow> runs (g y) Q) \<Longrightarrow>
   runs (case x of Inl y \<Rightarrow> f y | Inr y \<Rightarrow> g y) Q"
  by (cases x) auto

lemma runs_prod [runs_rules]: "(\<And>y z. x = (y, z) \<Longrightarrow> runs (f y z) Q) \<Longrightarrow> runs (case x of (y, z) \<Rightarrow> f y z) Q"
  by (cases x) auto

lemma only_ret [only_rules]: "only P (ret x)"
  by (simp add: only_def runs_ret)

lemma only_bind [only_rules]: "only P m \<Longrightarrow> (\<And>x. only P (f x)) \<Longrightarrow> only P (m \<bind> f)"
  unfolding only_def by (rule runs_bind) (auto intro: runs_mono)

lemma only_if [only_rules]: "(b \<Longrightarrow> only P m) \<Longrightarrow> (\<not> b \<Longrightarrow> only P n) \<Longrightarrow> only P (if b then m else n)"
  by simp

lemma only_option [only_rules]:
  "(x = None \<Longrightarrow> only P m) \<Longrightarrow> (\<And>y. x = Some y \<Longrightarrow> only P (f y)) \<Longrightarrow>
   only P (case x of None \<Rightarrow> m | Some y \<Rightarrow> f y)"
  by (cases x) auto

lemma only_sum [only_rules]:
  "(\<And>y. x = Inl y \<Longrightarrow> only P (f y)) \<Longrightarrow> (\<And>y. x = Inr y \<Longrightarrow> only P (g y)) \<Longrightarrow>
   only P (case x of Inl y \<Rightarrow> f y | Inr y \<Rightarrow> g y)"
  by (cases x) auto

lemma only_prod [only_rules]: "(\<And>y z. x = (y, z) \<Longrightarrow> only P (f y z)) \<Longrightarrow> only P (case x of (y, z) \<Rightarrow> f y z)"
  by (cases x) auto

lemma only_call [only_rules]: "(\<And>r. P (ev r)) \<Longrightarrow> only P (call f ev)"
  by (simp add: only_def runs_def call_def)

lemma only_try_each [only_rules]: "(\<And>x. x \<in> set xs \<Longrightarrow> only P (step x)) \<Longrightarrow> only P (try_each step xs)"
  by (induction xs) (auto intro!: only_rules)

lemma only_mono: "only P m \<Longrightarrow> (\<And>e. P e \<Longrightarrow> Q e) \<Longrightarrow> only Q m"
  unfolding only_def by (erule runs_mono) (auto simp: list_all_iff)

lemma only_runs: "only P m \<Longrightarrow> runs m (\<lambda>_ es. list_all P es)"
  by (simp add: only_def)

lemma only_events:
  assumes "only P m" "run_state m h = (x, es @ h)"
  shows "list_all P es"
  using assms unfolding only_def by (auto elim!: runs_outcome)

end
