(* ===== verification/Outbox.thy ===== *)
theory Outbox
  imports Prelude
begin

text \<open>
  Concurrency at the statement level. API servers, reconcilers, pollers and informers all work
  the same way: they read a row, think, and later update the row of that id, by then possibly
  changed by others. An execution is a sequence of inserts, reads and updates; an update is
  computed from a row read at any earlier point. What every update keeps under that regime
  holds in every execution.
\<close>

section \<open>Executions\<close>

text \<open>\<open>writes j g f\<close>: whoever has read the row \<open>j\<close> may run
  \<open>UPDATE \<dots> SET f WHERE id = j.id AND g\<close>.\<close>

type_synonym 'r writes = "'r \<Rightarrow> ('r \<Rightarrow> bool) \<Rightarrow> ('r \<Rightarrow> 'r) \<Rightarrow> bool"

inductive exec ::
  "('r \<Rightarrow> string) \<Rightarrow> ('r \<Rightarrow> bool) \<Rightarrow> 'r writes \<Rightarrow> 'r list \<times> 'r set \<Rightarrow> 'r list \<times> 'r set \<Rightarrow> bool"
  for key :: "'r \<Rightarrow> string" and init :: "'r \<Rightarrow> bool" and writes :: "'r writes" where
  exec_insert: "init r \<Longrightarrow> key r \<notin> key ` set t \<Longrightarrow> exec key init writes (t, seen) (t @ [r], seen)"
| exec_read: "j \<in> set t \<Longrightarrow> exec key init writes (t, seen) (t, insert j seen)"
| exec_write: "j \<in> seen \<Longrightarrow> writes j g f \<Longrightarrow>
    exec key init writes (t, seen) (update_where (\<lambda>r. key r = key j \<and> g r) f t, seen)"

inductive_cases exec_cases: "exec key init writes (t, seen) s"

abbreviation execs where
  "execs key init writes \<equiv> rtranclp (exec key init writes)"

text \<open>The updates an operation makes from one row it has read.\<close>

inductive wrote :: "('r \<Rightarrow> string) \<Rightarrow> 'r writes \<Rightarrow> 'r \<Rightarrow> 'r list \<Rightarrow> 'r list \<Rightarrow> bool"
  for key :: "'r \<Rightarrow> string" and writes :: "'r writes" and j :: 'r where
  wrote_none: "wrote key writes j t t"
| wrote_more: "wrote key writes j t t' \<Longrightarrow> writes j g f \<Longrightarrow>
    wrote key writes j t (update_where (\<lambda>r. key r = key j \<and> g r) f t')"

lemma wrote_one: "writes j g f \<Longrightarrow> wrote key writes j t (update_where (\<lambda>r. key r = key j \<and> g r) f t)"
  by (rule wrote_more [OF wrote_none])

lemma wrote_trans: "wrote key writes j t' t'' \<Longrightarrow> wrote key writes j t t' \<Longrightarrow> wrote key writes j t t''"
  by (induction rule: wrote.induct) (auto intro: wrote.intros)

text \<open>An operation that only writes from a row it has read is part of some execution.\<close>

lemma wrote_execs:
  "wrote key writes j t t' \<Longrightarrow> j \<in> seen \<Longrightarrow> execs key init writes (t, seen) (t', seen)"
  by (induction rule: wrote.induct) (auto intro: rtranclp.rtrancl_into_rtrancl exec_write)

text \<open>Reading rows and running a handler on each of them.\<close>

lemma execs_reads: "set js \<subseteq> set t \<Longrightarrow> execs key init writes (t, seen) (t, set js \<union> seen)"
proof (induction js)
  case (Cons j js)
  then have "execs key init writes (t, seen) (t, set js \<union> seen)" by simp
  also have "exec key init writes (t, set js \<union> seen) (t, insert j (set js \<union> seen))"
    using Cons.prems by (intro exec_read) auto
  finally show ?case by simp
qed simp

lemma execs_foldl:
  assumes "\<And>t j. wrote key writes j t (h t j)" "set js \<subseteq> seen"
  shows "execs key init writes (t, seen) (foldl h t js, seen)"
  using assms(2)
proof (induction js arbitrary: t)
  case (Cons j js)
  have "execs key init writes (t, seen) (h t j, seen)"
    by (rule wrote_execs [OF assms(1)]) (use Cons.prems in simp)
  also have "execs key init writes (h t j, seen) (foldl h (h t j) js, seen)"
    by (rule Cons.IH) (use Cons.prems in simp)
  finally show ?case by simp
qed simp

lemma execs_foldl_world:
  assumes "\<And>t w j. wrote key writes j t (fst (h (t, w) j))" "set js \<subseteq> seen"
  shows "execs key init writes (t, seen) (fst (foldl h (t, w) js), seen)"
  using assms(2)
proof (induction js arbitrary: t w)
  case (Cons j js)
  obtain t1 w1 where h: "h (t, w) j = (t1, w1)" by fastforce
  have "execs key init writes (t, seen) (t1, seen)"
    using wrote_execs [OF assms(1) [where t = t and w = w and j = j]] Cons.prems by (simp add: h)
  also have "execs key init writes (t1, seen) (fst (foldl h (t1, w1) js), seen)"
    by (rule Cons.IH) (use Cons.prems in simp)
  finally show ?case by (simp add: h)
qed simp

lemma execs_of_wrote:
  "j \<in> set t \<Longrightarrow> wrote key writes j t t' \<Longrightarrow> \<exists>seen'. seen \<subseteq> seen' \<and> execs key init writes (t, seen) (t', seen')"
  using execs_reads [of "[j]" t key init writes seen] wrote_execs [of key writes j t t' "insert j seen" init]
  by (auto intro!: exI [of _ "insert j seen"])

lemma execs_seen: "execs key init writes s s' \<Longrightarrow> snd s \<subseteq> snd s'"
proof (induction rule: rtranclp_induct)
  case (step y z)
  from step(2) have "snd y \<subseteq> snd z" by (cases rule: exec.cases) auto
  with step show ?case by blast
qed simp

lemma execs_grow:
  "\<exists>S'. execs key init writes (t, S) (t', S') \<Longrightarrow> \<exists>S'. S \<subseteq> S' \<and> execs key init writes (t, S) (t', S')"
  using execs_seen [of key init writes "(t, S)" "(t', _)"] by auto

text \<open>Writes from \<open>j\<close> leave rows with another id alone.\<close>

lemma wrote_other: "wrote key writes j t t' \<Longrightarrow> r \<in> set t \<Longrightarrow> key r \<noteq> key j \<Longrightarrow> r \<in> set t'"
  by (induction rule: wrote.induct) (force simp: update_where_def)+

lemma foldl_other:
  "(\<And>t j. wrote key writes j t (h t j)) \<Longrightarrow> r \<in> set t \<Longrightarrow> \<forall>j\<in>set js. key r \<noteq> key j \<Longrightarrow> r \<in> set (foldl h t js)"
  by (induction js arbitrary: t) (auto dest: wrote_other)

lemma foldl_world_other:
  "(\<And>t w j. wrote key writes j t (fst (h (t, w) j))) \<Longrightarrow> r \<in> set (fst s) \<Longrightarrow> \<forall>j\<in>set js. key r \<noteq> key j \<Longrightarrow>
     r \<in> set (fst (foldl h s js))"
proof (induction js arbitrary: s)
  case (Cons j js)
  have "r \<in> set (fst (h s j))"
    using wrote_other [OF Cons.prems(1) [of j "fst s" "snd s"]] Cons.prems(2,3) by simp
  with Cons show ?case by simp
qed simp

text \<open>Executions without inserts keep the rows in place, and are executions with any inserts.\<close>

lemma execs_length: "execs key (\<lambda>_. False) writes s s' \<Longrightarrow> length (fst s') = length (fst s)"
proof (induction rule: rtranclp_induct)
  case (step y z)
  from step(2) have "length (fst z) = length (fst y)" by (cases rule: exec.cases) auto
  with step(3) show ?case by simp
qed simp

lemma execs_any: "execs key (\<lambda>_. False) writes s s' \<Longrightarrow> execs key init writes s s'"
proof (induction rule: rtranclp_induct)
  case (step y z)
  from step(2) have "exec key init writes y z" by (cases rule: exec.cases) (auto intro: exec.intros)
  with step(3) show ?case by (rule rtranclp.rtrancl_into_rtrancl)
qed simp

section \<open>What an execution keeps\<close>

locale outbox =
  fixes key :: "'r \<Rightarrow> string" and init :: "'r \<Rightarrow> bool" and writes :: "'r writes"
    and ok :: "'r \<Rightarrow> bool" and frame :: "'r \<Rightarrow> 'r \<Rightarrow> bool"
  assumes init_ok: "init r \<Longrightarrow> ok r"
    and frame_refl: "frame r r"
    and frame_trans: "frame a b \<Longrightarrow> frame b c \<Longrightarrow> frame a c"
    and frame_key: "frame a b \<Longrightarrow> key b = key a"
    and write_frame: "writes j g f \<Longrightarrow> ok j \<Longrightarrow> ok r \<Longrightarrow> frame j r \<Longrightarrow> ok (f r) \<and> frame r (f r)"
begin

definition inv :: "'r list \<times> 'r set \<Rightarrow> bool" where
  "inv s \<longleftrightarrow> distinct (map key (fst s)) \<and> (\<forall>r\<in>set (fst s). ok r) \<and>
     (\<forall>j\<in>snd s. ok j \<and> (\<exists>r\<in>set (fst s). frame j r))"

lemma write_row:
  assumes "inv (t, seen)" "j \<in> seen" "writes j g f" "r \<in> set t"
  defines "r' \<equiv> if key r = key j \<and> g r then f r else r"
  shows "ok r' \<and> frame r r'"
proof (cases "key r = key j \<and> g r")
  case True
  from assms(1,2) obtain x where "x \<in> set t" "frame j x" "ok j" by (auto simp: inv_def)
  moreover have "distinct (map key t)" using assms(1) by (simp add: inv_def)
  ultimately have "x = r" using True assms(4) frame_key [of j x] unique_key [of key t r x] by simp
  with \<open>frame j x\<close> \<open>ok j\<close> True assms(1,3,4) write_frame show ?thesis by (auto simp: inv_def r'_def)
qed (use assms(1,4) frame_refl in \<open>auto simp: inv_def r'_def\<close>)

lemma step_keeps:
  assumes "exec key init writes s s'" "inv s"
  shows "inv s' \<and> list_all2 frame (fst s) (take (length (fst s)) (fst s'))"
  using assms
proof (cases rule: exec.cases)
  case (exec_insert r t seen)
  with assms(2) show ?thesis by (auto simp: inv_def init_ok list.rel_refl_strong frame_refl)
next
  case (exec_read j t seen)
  then have "\<exists>r\<in>set t. frame j r" using frame_refl by blast
  with exec_read assms(2) show ?thesis by (auto simp: inv_def list.rel_refl_strong frame_refl)
next
  case (exec_write j seen g f t)
  let ?w = "\<lambda>r. if key r = key j \<and> g r then f r else r"
  have row: "ok (?w r) \<and> frame r (?w r)" if "r \<in> set t" for r
    using write_row [OF _ exec_write(3,4) that] assms(2) exec_write(1) by simp
  then have rows: "list_all2 frame t (map ?w t)"
    by (simp add: list_all2_map2 list.rel_refl_strong)
  have "map key (map ?w t) = map key t" using row frame_key by simp
  moreover have "distinct (map key t)" using assms(2) exec_write(1) by (simp add: inv_def)
  ultimately have "distinct (map key (map ?w t))" by (simp only:)
  moreover have "\<forall>x\<in>set (map ?w t). ok x" using row by (simp only: set_map ball_simps) blast
  moreover have "\<forall>i\<in>seen. ok i \<and> (\<exists>x\<in>set (map ?w t). frame i x)"
    using assms(2) row exec_write(1) frame_trans unfolding inv_def by (metis (no_types, lifting)
      fst_conv snd_conv image_eqI list.set_map)
  ultimately have "inv (map ?w t, seen)" unfolding inv_def fst_conv snd_conv by blast
  then show ?thesis using rows by (simp add: exec_write(1,2) update_where_def)
qed

lemma execs_keep:
  assumes "execs key init writes s s'" "inv s"
  shows "inv s' \<and> length (fst s) \<le> length (fst s') \<and> list_all2 frame (fst s) (take (length (fst s)) (fst s'))"
  using assms
proof (induction rule: rtranclp_induct)
  case base
  then show ?case by (simp add: list.rel_refl_strong frame_refl)
next
  case (step s1 s2)
  from step have IH: "inv s1" "length (fst s) \<le> length (fst s1)"
    "list_all2 frame (fst s) (take (length (fst s)) (fst s1))" by auto
  note k = step_keeps [OF step(2) IH(1)]
  then have len: "length (fst s1) \<le> length (fst s2)"
    using list_all2_lengthD by fastforce
  have "list_all2 frame (take (length (fst s)) (fst s1)) (take (length (fst s)) (take (length (fst s1)) (fst s2)))"
    using k by (intro list_all2_takeI) auto
  then have "list_all2 frame (fst s) (take (length (fst s)) (fst s2))"
    using IH(2,3) by (auto simp: min_absorb1 intro: list_all2_trans [OF frame_trans])
  with k IH(2) len show ?case by auto
qed

lemma start_inv: "inv ([], {})"
  by (simp add: inv_def)

text \<open>In every execution, a row once there stays, and only moves along the frame.\<close>

lemma row_keeps:
  assumes "execs key init writes ([], {}) (t, seen)" "execs key init writes (t, seen) (t', seen')" "r \<in> set t"
  shows "\<exists>r'\<in>set t'. frame r r'"
proof -
  from execs_keep [OF assms(1) start_inv] have "inv (t, seen)" by simp
  from execs_keep [OF assms(2) this] have all: "list_all2 frame t (take (length t) t')" by simp
  from assms(3) obtain i where "i < length t" "r = t ! i" by (auto simp: in_set_conv_nth)
  with all have "frame r (take (length t) t' ! i)" "i < length (take (length t) t')"
    by (auto simp: list_all2_conv_all_nth)
  then show ?thesis by (meson in_set_takeD nth_mem)
qed

lemma rows_ok: "execs key init writes ([], {}) (t, seen) \<Longrightarrow> r \<in> set t \<Longrightarrow> ok r"
  using execs_keep [OF _ start_inv, of "(t, seen)"] by (auto simp: inv_def)

end

end
