(* ===== verification/ArtifactHub.thy ===== *)
theory ArtifactHub
  imports Repository ApiProgram Outbox
begin

text \<open>
  The artifact hub (\<^verbatim>\<open>axisml-system/artifact-hub\<close>): versions of models, images and datasets. A version is uploaded in two phases
  (\<^verbatim>\<open>internal/artifact/service.go\<close>) and its content lies in an OCI registry or an S3 store, behind a handler per kind
  (\<^verbatim>\<open>internal/artifact/handler\<close>, \<^verbatim>\<open>internal/storage\<close>); a garbage collector (\<^verbatim>\<open>internal/gc/worker.go\<close>) ends stale uploads and
  removes the content of deleted versions.

  The state is the table of versions and the history of calls of the two stores, whose answers are parameters (\<open>stores\<close>). An
  operation that reads a row and writes it later is split there (\<open>complete_row\<close>, \<open>complete_write\<close>, \<open>patch_row\<close>, \<open>mark_deleting_row\<close>,
  \<open>gc_stale_row\<close>, \<open>gc_deleting_row\<close>), so that what happens in between is covered.
\<close>

section \<open>Rows, errors and requests\<close>

abbreviation "StatusUploading \<equiv> ''Uploading''"
abbreviation "StatusReady \<equiv> ''Ready''"
abbreviation "StatusFailed \<equiv> ''Failed''"
abbreviation "StatusDeleting \<equiv> ''Deleting''"
abbreviation "StatusDeleted \<equiv> ''Deleted''"
abbreviation "VisibilityTenant \<equiv> ''tenant''"
abbreviation "VisibilityPublic \<equiv> ''public''"
abbreviation "SourceWebUpload \<equiv> ''webUpload''"
abbreviation "SourceExternal \<equiv> ''external''"
abbreviation "PublicVisibilityNamespace \<equiv> ''default''"

text \<open>A field of a spec: a string, or any other JSON value.\<close>

datatype spec_value = SpecString string | SpecOther string

type_synonym art_spec = "(string, spec_value) gomap"

record Artifact =
  art_id :: string
  art_namespace :: string
  art_kind :: string
  art_name :: string
  art_version :: string
  art_visibility :: string
  art_displayName :: string
  art_description :: string
  art_labels :: "(string, string) gomap json"
  art_annotations :: "(string, string) gomap json"
  art_ownerUser :: string
  art_spec :: "art_spec json"
  art_status :: string
  art_source :: string
  art_message :: string
  art_digest :: string
  art_readyAt :: "nat option"
  art_createdAt :: nat
  art_updatedAt :: nat
  art_deletedAt :: "nat option"

datatype hub_code = HubValidation | HubNotFound | HubConflict | HubPrecondition | HubUnauthorized | HubForbidden | HubUnavailable | HubInternal | HubGone

text \<open>\<open>apperrors.E\<close> with its cause, and errors of statements.\<close>

datatype herr = HubE hub_code string "string option" | HubStmt string | HubNoRow | HubUnique

record initiate_request =
  ini_kind :: string
  ini_version :: string
  ini_spec :: art_spec
  ini_source :: string
  ini_sourceURI :: string
  ini_visibility :: string
  ini_displayName :: string
  ini_description :: string
  ini_labels :: "(string, string) gomap"
  ini_annotations :: "(string, string) gomap"

record art_patch =
  apt_displayName :: "string option"
  apt_description :: "string option"
  apt_labels :: "(string, string) gomap option"
  apt_annotations :: "(string, string) gomap option"

record hub_credentials =
  hcr_username :: string
  hcr_password :: string
  hcr_expiresAt :: nat

section \<open>The stores\<close>

text \<open>The calls of the hub with their answers, and what clients do with the stores on their own (\<open>Elsewhere\<close>).\<close>

datatype hub_event =
    HttpHead string "string + nat \<times> string" | HttpDelete string "string + nat"
  | S3Get string "s3_failure + int list" | S3Remove string "(string \<times> s3_failure) list" | Elsewhere string
and s3_failure = NoSuchKey | S3Failure string

type_synonym 'a hprog = "(hub_event, 'a) io"

record stores =
  st_scheme :: string
  st_endpoint :: string
  st_username :: string
  st_password :: string
  st_bucket :: string
  st_s3 :: bool
  st_tokenTTL :: nat
  st_head :: "hub_event list \<Rightarrow> string \<Rightarrow> string + nat \<times> string"
  st_delete :: "hub_event list \<Rightarrow> string \<Rightarrow> string + nat"
  st_get :: "hub_event list \<Rightarrow> string \<Rightarrow> s3_failure + int list"
  st_remove :: "hub_event list \<Rightarrow> string \<Rightarrow> (string \<times> s3_failure) list"

definition manifest_url :: "stores \<Rightarrow> string \<Rightarrow> string \<Rightarrow> string" where
  "manifest_url st repo ref = st_scheme st @ ''://'' @ st_endpoint st @ ''/v2/'' @ repo @ ''/manifests/'' @ ref"

text \<open>\<open>None\<close> stands for \<open>oci.ErrNotFound\<close>.\<close>

definition HeadManifest :: "stores \<Rightarrow> string \<Rightarrow> string \<Rightarrow> (string option + string) hprog" where
  "HeadManifest st repo ref =
     (let url = manifest_url st repo ref in do {
        r \<leftarrow> call (\<lambda>h. st_head st h url) (HttpHead url);
        ret (case r of
               Inl e \<Rightarrow> Inl (Some (''HEAD '' @ url @ '': '' @ e))
             | Inr (code, digest) \<Rightarrow>
                 if code = 200 then (if digest = [] then Inl (Some (''HEAD '' @ url @ '': empty Docker-Content-Digest'')) else Inr digest)
                 else if code = 404 then Inl None
                 else Inl (Some (''HEAD '' @ url @ '': unexpected status '' @ show_nat code)))
      })"

definition DeleteManifest :: "stores \<Rightarrow> string \<Rightarrow> string \<Rightarrow> string option hprog" where
  "DeleteManifest st repo digest =
     (let url = manifest_url st repo digest in do {
        r \<leftarrow> call (\<lambda>h. st_delete st h url) (HttpDelete url);
        ret (case r of
               Inl e \<Rightarrow> Some (''DELETE '' @ url @ '': '' @ e)
             | Inr code \<Rightarrow> if code = 200 \<or> code = 202 \<or> code = 204 \<or> code = 404 then None
                 else Some (''DELETE '' @ url @ '': unexpected status '' @ show_nat code))
      })"

definition GetObject :: "stores \<Rightarrow> string \<Rightarrow> (string option + int list) hprog" where
  "GetObject st k = do {
     r \<leftarrow> call (\<lambda>h. st_get st h k) (S3Get k);
     ret (map_sum (\<lambda>f. case f of NoSuchKey \<Rightarrow> None | S3Failure e \<Rightarrow> Some (''s3: read '' @ go_quote k @ '': '' @ e)) id r)
   }"

definition DeletePrefix :: "stores \<Rightarrow> string \<Rightarrow> string option hprog" where
  "DeletePrefix st pre = do {
     r \<leftarrow> call (\<lambda>h. st_remove st h pre) (S3Remove pre);
     ret (map_option (\<lambda>(name, f). ''s3: remove '' @ go_quote name @ '': '' @ (case f of NoSuchKey \<Rightarrow> [] | S3Failure e \<Rightarrow> e))
            (find (\<lambda>(_, f). f \<noteq> NoSuchKey) r))
   }"

section \<open>Handlers\<close>

text \<open>The registered handlers: models and images in the registry, under a path each, and datasets.\<close>

datatype art_handler = OciBacked string string | DatasetHandler

definition get_handler :: "string \<Rightarrow> art_handler option" where
  "get_handler kind =
     (if kind = ''model'' then Some (OciBacked ''model'' ''models'')
      else if kind = ''image'' then Some (OciBacked ''image'' ''images'')
      else if kind = ''dataset'' then Some DatasetHandler else None)"

fun StorageKind :: "art_handler \<Rightarrow> string" where
  "StorageKind (OciBacked _ _) = ''oci''"
| "StorageKind DatasetHandler = ''s3''"

definition repoPath :: "string \<Rightarrow> string \<Rightarrow> string \<Rightarrow> string" where
  "repoPath subpath ns name = ''namespaces/'' @ ns @ ''/'' @ subpath @ ''/'' @ name"

definition s3_prefix :: "string \<Rightarrow> string \<Rightarrow> string \<Rightarrow> string" where
  "s3_prefix ns name version = ''namespaces/'' @ ns @ ''/datasets/'' @ name @ ''/'' @ version @ ''/''"

definition oci_BuildStorageURI :: "stores \<Rightarrow> string \<Rightarrow> string \<Rightarrow> string \<Rightarrow> string \<Rightarrow> string" where
  [simp]: "oci_BuildStorageURI st subpath ns name version =
     st_endpoint st @ ''/namespaces/'' @ ns @ ''/'' @ subpath @ ''/'' @ name @ '':'' @ version"

definition dataset_BuildStorageURI :: "stores \<Rightarrow> string \<Rightarrow> string \<Rightarrow> string \<Rightarrow> string" where
  [simp]: "dataset_BuildStorageURI st ns name version =
     ''s3://'' @ st_bucket st @ ''/namespaces/'' @ ns @ ''/datasets/'' @ name @ ''/'' @ version @ ''/''"

abbreviation "contentDigestPrefix \<equiv> ''sha256:''"

definition starts_with :: "string \<Rightarrow> string \<Rightarrow> bool" where
  "starts_with pre s \<longleftrightarrow> take (length pre) s = pre"

definition oci_BuildPullURI :: "stores \<Rightarrow> string \<Rightarrow> string \<Rightarrow> string \<Rightarrow> string \<Rightarrow> string \<Rightarrow> string" where
  [simp]: "oci_BuildPullURI st subpath ns name version digest =
     (if \<not> starts_with contentDigestPrefix digest then oci_BuildStorageURI st subpath ns name version
      else st_endpoint st @ ''/namespaces/'' @ ns @ ''/'' @ subpath @ ''/'' @ name @ ''@'' @ digest)"

text \<open>The interface, by the registered implementation.\<close>

fun BuildStorageURI :: "stores \<Rightarrow> art_handler \<Rightarrow> string \<Rightarrow> string \<Rightarrow> string \<Rightarrow> string" where
  "BuildStorageURI st (OciBacked _ subpath) ns name version = oci_BuildStorageURI st subpath ns name version"
| "BuildStorageURI st DatasetHandler ns name version = dataset_BuildStorageURI st ns name version"

fun BuildPullURI :: "stores \<Rightarrow> art_handler \<Rightarrow> string \<Rightarrow> string \<Rightarrow> string \<Rightarrow> string \<Rightarrow> string" where
  "BuildPullURI st (OciBacked _ subpath) ns name version digest = oci_BuildPullURI st subpath ns name version digest"
| "BuildPullURI st DatasetHandler ns name version _ = dataset_BuildStorageURI st ns name version"

definition stringField :: "art_spec \<Rightarrow> string \<Rightarrow> string option" where
  "stringField spec k = (case map_of spec k of Some (SpecString s) \<Rightarrow> Some s | _ \<Rightarrow> None)"

abbreviation hub_error :: "hub_code \<Rightarrow> string \<Rightarrow> herr" where
  "hub_error c m \<equiv> HubE c m None"

definition closed_field :: "art_spec \<Rightarrow> string \<Rightarrow> string list \<Rightarrow> string \<Rightarrow> bool \<Rightarrow> herr option" where
  "closed_field spec field allowed shown emptyMissing =
     (case stringField spec field of
        None \<Rightarrow> Some (hub_error HubValidation (''spec.'' @ field @ '' is required''))
      | Some v \<Rightarrow>
          if emptyMissing \<and> v = [] then Some (hub_error HubValidation (''spec.'' @ field @ '' is required''))
          else if v \<notin> set allowed then Some (hub_error HubValidation (''spec.'' @ field @ '' '' @ go_quote v @ '' is not in {'' @ shown @ ''}''))
          else None)"

definition model_ValidateSpec :: "art_spec \<Rightarrow> herr option" where
  [simp]: "model_ValidateSpec spec =
     (case closed_field spec ''framework'' [''pytorch'', ''tensorflow'', ''onnx'', ''safetensors'', ''gguf'', ''custom'']
             ''pytorch,tensorflow,onnx,safetensors,gguf,custom'' False of
        Some e \<Rightarrow> Some e
      | None \<Rightarrow> (case stringField spec ''format'' of
          Some (_ # _) \<Rightarrow> None | _ \<Rightarrow> Some (hub_error HubValidation ''spec.format is required'')))"

definition image_ValidateSpec :: "art_spec \<Rightarrow> herr option" where
  [simp]: "image_ValidateSpec spec = closed_field spec ''purpose'' [''training'', ''inference'', ''dev''] ''training,inference,dev'' True"

definition dataset_ValidateSpec :: "art_spec \<Rightarrow> herr option" where
  [simp]: "dataset_ValidateSpec spec =
     closed_field spec ''format'' [''parquet'', ''jsonl'', ''csv'', ''webdataset'', ''tfrecord'', ''custom'']
       ''parquet,jsonl,csv,webdataset,tfrecord,custom'' True"

fun ValidateSpec :: "art_handler \<Rightarrow> art_spec \<Rightarrow> herr option" where
  "ValidateSpec (OciBacked kind _) spec = (if kind = ''model'' then model_ValidateSpec spec else image_ValidateSpec spec)"
| "ValidateSpec DatasetHandler spec = dataset_ValidateSpec spec"

definition oci_credentials :: "stores \<Rightarrow> nat \<Rightarrow> hub_credentials" where
  "oci_credentials st now = \<lparr>hcr_username = st_username st, hcr_password = st_password st, hcr_expiresAt = now + st_tokenTTL st\<rparr>"

definition dataset_credentials :: "stores \<Rightarrow> string \<Rightarrow> string \<Rightarrow> string \<Rightarrow> string \<Rightarrow> nat \<Rightarrow> hub_credentials" where
  "dataset_credentials st user ns name version now =
     \<lparr>hcr_username = user, hcr_password = ''prefix:'' @ s3_prefix ns name version, hcr_expiresAt = now + st_tokenTTL st\<rparr>"

definition InitiateUpload :: "stores \<Rightarrow> art_handler \<Rightarrow> string \<Rightarrow> string \<Rightarrow> string \<Rightarrow> nat \<Rightarrow> hub_credentials" where
  "InitiateUpload st h ns name version now =
     (case h of OciBacked _ _ \<Rightarrow> oci_credentials st now | DatasetHandler \<Rightarrow> dataset_credentials st ''axisml-dataset-upload'' ns name version now)"

definition IssuePullCredentials :: "stores \<Rightarrow> art_handler \<Rightarrow> string \<Rightarrow> string \<Rightarrow> string \<Rightarrow> nat \<Rightarrow> hub_credentials" where
  "IssuePullCredentials st h ns name version now =
     (case h of OciBacked _ _ \<Rightarrow> oci_credentials st now | DatasetHandler \<Rightarrow> dataset_credentials st ''axisml-dataset-pull'' ns name version now)"

definition oci_VerifyComplete :: "stores \<Rightarrow> string \<Rightarrow> string \<Rightarrow> string \<Rightarrow> string \<Rightarrow> string \<Rightarrow> string \<Rightarrow> (herr + string) hprog" where
  [simp]: "oci_VerifyComplete st kind subpath ns name version claim = do {
     r \<leftarrow> HeadManifest st (repoPath subpath ns name) version;
     ret (case r of
            Inl None \<Rightarrow> Inl (hub_error HubPrecondition (kind @ '' manifest '' @ repoPath subpath ns name @ '':'' @ version @ '' not found in registry''))
          | Inl (Some e) \<Rightarrow> Inl (HubE HubUnavailable ''head manifest'' (Some e))
          | Inr digest \<Rightarrow>
              if claim = [] then Inl (hub_error HubValidation ''complete: digest is required'')
              else if digest \<noteq> claim then Inl (hub_error HubConflict (''digest mismatch: registry has '' @ digest @ '', claim is '' @ claim))
              else Inr digest)
   }"

definition dataset_VerifyComplete :: "stores \<Rightarrow> string \<Rightarrow> string \<Rightarrow> string \<Rightarrow> string \<Rightarrow> (herr + string) hprog" where
  [simp]: "dataset_VerifyComplete st ns name version claim =
     (if claim = [] then ret (Inl (hub_error HubValidation ''complete: digest is required''))
      else if \<not> st_s3 st then ret (Inr claim)
      else let k = s3_prefix ns name version @ ''artifact-manifest.json'' in do {
        r \<leftarrow> GetObject st k;
        ret (case r of
               Inl None \<Rightarrow> Inl (hub_error HubPrecondition (''dataset manifest '' @ k @ '' not found in object store''))
             | Inl (Some e) \<Rightarrow> Inl (HubE HubUnavailable ''get dataset manifest'' (Some e))
             | Inr body \<Rightarrow>
                 let digest = contentDigestPrefix @ hex_encode (sha256 body) in
                 if digest \<noteq> claim then Inl (hub_error HubConflict (''digest mismatch: manifest hashes to '' @ digest @ '', claim is '' @ claim))
                 else Inr digest)
      })"

fun VerifyComplete :: "stores \<Rightarrow> art_handler \<Rightarrow> string \<Rightarrow> string \<Rightarrow> string \<Rightarrow> string \<Rightarrow> (herr + string) hprog" where
  "VerifyComplete st (OciBacked kind subpath) ns name version claim = oci_VerifyComplete st kind subpath ns name version claim"
| "VerifyComplete st DatasetHandler ns name version claim = dataset_VerifyComplete st ns name version claim"

definition oci_GCBackend :: "stores \<Rightarrow> string \<Rightarrow> string \<Rightarrow> string \<Rightarrow> string \<Rightarrow> string option hprog" where
  [simp]: "oci_GCBackend st subpath ns name digest = (if digest = [] then ret None else DeleteManifest st (repoPath subpath ns name) digest)"

definition dataset_GCBackend :: "stores \<Rightarrow> string \<Rightarrow> string \<Rightarrow> string \<Rightarrow> string option hprog" where
  [simp]: "dataset_GCBackend st ns name version = (if \<not> st_s3 st then ret None else DeletePrefix st (s3_prefix ns name version))"

fun GCBackend :: "stores \<Rightarrow> art_handler \<Rightarrow> string \<Rightarrow> string \<Rightarrow> string \<Rightarrow> string \<Rightarrow> string option hprog" where
  "GCBackend st (OciBacked _ subpath) ns name version digest = oci_GCBackend st subpath ns name digest"
| "GCBackend st DatasetHandler ns name version digest = dataset_GCBackend st ns name version"

section \<open>The repository\<close>

datatype hstmt = HubSelect | HubInsert | HubUpdate string | HubFindStale | HubFindDeleting | HubList

record henv =
  he_now :: nat
  he_uuid :: string
  he_fault :: "hstmt \<Rightarrow> string option"

type_synonym hub_state = "Artifact list \<times> hub_event list"

definition art_coord :: "Artifact \<Rightarrow> string \<times> string \<times> string" where
  "art_coord r = (art_namespace r, art_name r, art_version r)"

definition GetByCoordIncludingDeleted :: "henv \<Rightarrow> string \<Rightarrow> string \<Rightarrow> string \<Rightarrow> Artifact list \<Rightarrow> herr + Artifact" where
  "GetByCoordIncludingDeleted env ns name version rows =
     (case he_fault env HubSelect of
        Some e \<Rightarrow> Inl (HubStmt e)
      | None \<Rightarrow> (case find (\<lambda>r. art_coord r = (ns, name, version)) rows of None \<Rightarrow> Inl HubNoRow | Some r \<Rightarrow> Inr r))"

text \<open>The insert, under the primary key and the unique index on the coordinate.\<close>

definition art_Create :: "henv \<Rightarrow> Artifact \<Rightarrow> Artifact list \<Rightarrow> herr + Artifact list" where
  "art_Create env r rows =
     (case he_fault env HubInsert of
        Some e \<Rightarrow> Inl (HubStmt e)
      | None \<Rightarrow> if list_ex (\<lambda>x. art_id x = art_id r \<or> art_coord x = art_coord r) rows then Inl HubUnique else Inr (rows @ [r]))"

definition art_Update :: "henv \<Rightarrow> string \<Rightarrow> (Artifact \<Rightarrow> Artifact) \<Rightarrow> Artifact list \<Rightarrow> herr + Artifact list" where
  "art_Update env i f rows =
     (case he_fault env (HubUpdate i) of
        Some e \<Rightarrow> Inl (HubStmt e)
      | None \<Rightarrow> Inr (update_where (\<lambda>r. art_id r = i) (\<lambda>r. (f r)\<lparr>art_updatedAt := he_now env\<rparr>) rows))"

definition UpdateIfStatus :: "henv \<Rightarrow> string \<Rightarrow> string \<Rightarrow> (Artifact \<Rightarrow> Artifact) \<Rightarrow> Artifact list \<Rightarrow> herr + bool \<times> Artifact list" where
  "UpdateIfStatus env i expect f rows =
     (case he_fault env (HubUpdate i) of
        Some e \<Rightarrow> Inl (HubStmt e)
      | None \<Rightarrow> Inr (rows_affected (\<lambda>r. art_id r = i \<and> art_status r = expect) rows > 0,
          update_where (\<lambda>r. art_id r = i \<and> art_status r = expect) (\<lambda>r. (f r)\<lparr>art_updatedAt := he_now env\<rparr>) rows))"

text \<open>The list of a namespace; \<open>selected\<close> is the label clause.\<close>

definition ListByCoord ::
  "henv \<Rightarrow> string \<Rightarrow> string \<Rightarrow> string \<Rightarrow> string \<Rightarrow> nat \<Rightarrow> nat \<Rightarrow> (Artifact \<Rightarrow> bool) \<Rightarrow> Artifact list \<Rightarrow> herr + Artifact list \<times> nat" where
  "ListByCoord env ns kind name status limit offset selected rows =
     (case he_fault env HubList of
        Some e \<Rightarrow> Inl (HubStmt e)
      | None \<Rightarrow>
          let found = filter (\<lambda>r. art_namespace r = ns \<and> art_deletedAt r = None \<and> (kind \<noteq> [] \<longrightarrow> art_kind r = kind) \<and>
                (name \<noteq> [] \<longrightarrow> art_name r = name) \<and> (status \<noteq> [] \<longrightarrow> art_status r = status) \<and> selected r) rows
          in Inr (page art_createdAt limit offset found, length found))"

definition FindStaleUploading :: "henv \<Rightarrow> nat \<Rightarrow> Artifact list \<Rightarrow> herr + Artifact list" where
  "FindStaleUploading env cutoff rows =
     (case he_fault env HubFindStale of
        Some e \<Rightarrow> Inl (HubStmt e)
      | None \<Rightarrow> Inr (filter (\<lambda>r. art_status r = StatusUploading \<and> art_createdAt r < cutoff \<and> art_deletedAt r = None) rows))"

definition FindDeleting :: "henv \<Rightarrow> Artifact list \<Rightarrow> herr + Artifact list" where
  "FindDeleting env rows =
     (case he_fault env HubFindDeleting of Some e \<Rightarrow> Inl (HubStmt e) | None \<Rightarrow> Inr (filter (\<lambda>r. art_status r = StatusDeleting) rows))"

section \<open>The service\<close>

definition tag_char :: "char \<Rightarrow> bool" where
  "tag_char c \<longleftrightarrow> in_range (CHR ''A'') (CHR ''Z'') c \<or> in_range (CHR ''a'') (CHR ''z'') c \<or> in_range (CHR ''0'') (CHR ''9'') c \<or>
     c = CHR ''_'' \<or> c = CHR ''.'' \<or> c = CHR ''-''"

definition IsValidVersion :: "string \<Rightarrow> bool" where
  "IsValidVersion s \<longleftrightarrow> s \<noteq> [] \<and> length s \<le> 128 \<and> list_all tag_char s"

fun herr_text :: "herr \<Rightarrow> string" where
  "herr_text (HubStmt e) = e"
| "herr_text HubNoRow = ''record not found''"
| "herr_text HubUnique = ''duplicate key value violates unique constraint''"
| "herr_text (HubE _ m None) = m"
| "herr_text (HubE _ m (Some c)) = m @ '': '' @ c"

abbreviation hub_wrap :: "hub_code \<Rightarrow> string \<Rightarrow> herr \<Rightarrow> herr" where
  "hub_wrap c m e \<equiv> HubE c m (Some (herr_text e))"

definition loadRow :: "henv \<Rightarrow> string \<Rightarrow> string \<Rightarrow> string \<Rightarrow> Artifact list \<Rightarrow> herr + Artifact" where
  "loadRow env ns name version rows =
     (case GetByCoordIncludingDeleted env ns name version rows of
        Inr r \<Rightarrow> Inr r
      | Inl HubNoRow \<Rightarrow> Inl (hub_error HubNotFound (''artifact '' @ ns @ ''/'' @ name @ ''@'' @ version @ '' not found''))
      | Inl e \<Rightarrow> Inl (hub_wrap HubInternal ''lookup artifact'' e))"

record upload =
  up_storageKind :: string
  up_uri :: string
  up_credentials :: "hub_credentials option"

definition initiate_row :: "henv \<Rightarrow> string \<Rightarrow> string \<Rightarrow> string \<Rightarrow> string \<Rightarrow> initiate_request \<Rightarrow> Artifact" where
  "initiate_row env ns name owner visibility req =
     (let source = (if ini_source req = [] then SourceWebUpload else ini_source req);
          external = (source = SourceExternal)
      in \<lparr>art_id = he_uuid env, art_namespace = ns, art_kind = ini_kind req, art_name = name, art_version = ini_version req,
          art_visibility = visibility, art_displayName = ini_displayName req, art_description = ini_description req,
          art_labels = json_marshal (ini_labels req), art_annotations = json_marshal (ini_annotations req), art_ownerUser = owner,
          art_spec = json_marshal (ini_spec req), art_status = (if external then StatusReady else StatusUploading), art_source = source,
          art_message = [], art_digest = (if external then ini_sourceURI req else []),
          art_readyAt = (if external then Some (he_now env) else None), art_createdAt = he_now env, art_updatedAt = he_now env,
          art_deletedAt = None\<rparr>)"

definition initiate_check :: "henv \<Rightarrow> string \<Rightarrow> string \<Rightarrow> initiate_request \<Rightarrow> Artifact list \<Rightarrow> herr + art_handler \<times> string" where
  "initiate_check env ns name req rows =
     (if \<not> IsValidVersion (ini_version req)
      then Inl (hub_error HubValidation ''version does not satisfy OCI tag-safe charset (A-Za-z0-9_.-) or length 1..128'')
      else case get_handler (ini_kind req) of
        None \<Rightarrow> Inl (hub_error HubValidation (''kind '' @ go_quote (ini_kind req) @ '' has no registered handler''))
      | Some h \<Rightarrow>
          (case ValidateSpec h (ini_spec req) of
             Some e \<Rightarrow> Inl e
           | None \<Rightarrow>
               let visibility = (if ini_visibility req = [] then VisibilityTenant else ini_visibility req) in
               if visibility \<noteq> VisibilityTenant \<and> visibility \<noteq> VisibilityPublic
               then Inl (hub_error HubValidation (''visibility must be '' @ go_quote VisibilityTenant @ '' or '' @ go_quote VisibilityPublic))
               else if visibility = VisibilityPublic \<and> ns \<noteq> PublicVisibilityNamespace
               then Inl (hub_error HubForbidden (''visibility='' @ go_quote VisibilityPublic @ '' is only allowed under the '' @
                      go_quote PublicVisibilityNamespace @ '' namespace''))
               else (case GetByCoordIncludingDeleted env ns name (ini_version req) rows of
                 Inr r \<Rightarrow> Inl (hub_error HubConflict (''version '' @ ini_version req @ '' already exists for '' @ ns @ ''/'' @ name @
                     '' (kind='' @ art_kind r @ '', status='' @ art_status r @ '')''))
               | Inl (HubStmt e) \<Rightarrow> Inl (hub_wrap HubInternal ''lookup artifact'' (HubStmt e))
               | Inl _ \<Rightarrow> if ini_source req = SourceExternal \<and> ini_sourceURI req = []
                   then Inl (hub_error HubValidation ''sourceUri is required when source=external'')
                   else Inr (h, visibility))))"

definition Initiate ::
  "henv \<Rightarrow> stores \<Rightarrow> string \<Rightarrow> string \<Rightarrow> string \<Rightarrow> initiate_request \<Rightarrow> Artifact list \<Rightarrow> Artifact list \<times> (herr + Artifact \<times> upload)" where
  "Initiate env st ns name owner req rows =
     (case initiate_check env ns name req rows of
        Inl e \<Rightarrow> (rows, Inl e)
      | Inr (h, visibility) \<Rightarrow>
          let row = initiate_row env ns name owner visibility req in
          (case art_Create env row rows of
             Inl HubUnique \<Rightarrow> (rows, Inl (hub_error HubConflict (''version '' @ ini_version req @ '' already exists for '' @ ns @ ''/'' @ name)))
           | Inl e \<Rightarrow> (rows, Inl (hub_wrap HubInternal ''insert artifact'' e))
           | Inr rows' \<Rightarrow>
               (rows', Inr (row,
                  if art_source row = SourceExternal
                  then \<lparr>up_storageKind = StorageKind h, up_uri = ini_sourceURI req, up_credentials = None\<rparr>
                  else \<lparr>up_storageKind = StorageKind h, up_uri = BuildStorageURI st h ns name (ini_version req),
                        up_credentials = Some (InitiateUpload st h ns name (ini_version req) (he_now env))\<rparr>))))"

definition mark_ready :: "string \<Rightarrow> nat \<Rightarrow> Artifact \<Rightarrow> Artifact" where
  "mark_ready digest now r = r\<lparr>art_status := StatusReady, art_digest := digest, art_readyAt := Some now, art_message := []\<rparr>"

definition mark_failed :: "string \<Rightarrow> Artifact \<Rightarrow> Artifact" where
  "mark_failed msg r = r\<lparr>art_status := StatusFailed, art_message := msg\<rparr>"

text \<open>The second phase, on the row that was read: what the store confirms, and the write that follows.\<close>

definition complete_write :: "henv \<Rightarrow> Artifact \<Rightarrow> herr + string \<Rightarrow> Artifact list \<Rightarrow> Artifact list \<times> (herr + Artifact)" where
  "complete_write env row res rows =
     (case res of
        Inl e \<Rightarrow>
          (case e of
             HubE c m _ \<Rightarrow>
               if c = HubConflict \<or> c = HubPrecondition \<or> c = HubValidation
               then (case art_Update env (art_id row) (mark_failed m) rows of Inl _ \<Rightarrow> rows | Inr rows' \<Rightarrow> rows', Inl e)
               else (rows, Inl e)
           | _ \<Rightarrow> (rows, Inl e))
      | Inr digest \<Rightarrow>
          (case art_Update env (art_id row) (mark_ready digest (he_now env)) rows of
             Inl e \<Rightarrow> (rows, Inl (hub_wrap HubInternal ''mark ready'' e))
           | Inr rows' \<Rightarrow> (rows', Inr ((mark_ready digest (he_now env) row)\<lparr>art_updatedAt := he_now env\<rparr>))))"

definition complete_row :: "henv \<Rightarrow> stores \<Rightarrow> Artifact \<Rightarrow> string \<Rightarrow> hub_state \<Rightarrow> hub_state \<times> (herr + Artifact)" where
  "complete_row env st row claim s =
     (if art_status row = StatusReady
      then (s, if art_digest row = claim then Inr row
               else Inl (hub_error HubConflict (''digest mismatch: artifact already Ready with digest '' @ art_digest row)))
      else if art_status row \<noteq> StatusUploading
      then (s, Inl (hub_error HubPrecondition (''artifact is '' @ art_status row @ '', cannot complete'')))
      else case get_handler (art_kind row) of
        None \<Rightarrow> (s, Inl (hub_error HubValidation (''kind '' @ go_quote (art_kind row) @ '' has no registered handler'')))
      | Some h \<Rightarrow>
          (case run_state (VerifyComplete st h (art_namespace row) (art_name row) (art_version row) claim) (snd s) of
             (res, log) \<Rightarrow> (case complete_write env row res (fst s) of (rows, out) \<Rightarrow> ((rows, log), out))))"

definition Complete :: "henv \<Rightarrow> stores \<Rightarrow> string \<Rightarrow> string \<Rightarrow> string \<Rightarrow> string \<Rightarrow> hub_state \<Rightarrow> hub_state \<times> (herr + Artifact)" where
  "Complete env st ns name version claim s =
     (case loadRow env ns name version (fst s) of Inl e \<Rightarrow> (s, Inl e) | Inr row \<Rightarrow> complete_row env st row claim s)"

record resolved =
  rsv_storageKind :: string
  rsv_uri :: string
  rsv_digest :: string
  rsv_visibility :: string
  rsv_pullCredentials :: "hub_credentials option"

definition Resolve :: "henv \<Rightarrow> stores \<Rightarrow> string \<Rightarrow> string \<Rightarrow> string \<Rightarrow> string \<Rightarrow> Artifact list \<Rightarrow> herr + resolved" where
  "Resolve env st ns name version usage rows =
     (case loadRow env ns name version rows of
        Inl e \<Rightarrow> Inl e
      | Inr row \<Rightarrow>
          if art_status row = StatusUploading \<or> art_status row = StatusFailed
          then Inl (hub_error HubPrecondition (''artifact is '' @ art_status row @ '', not Ready''))
          else if art_status row = StatusDeleting \<or> art_status row = StatusDeleted
          then Inl (hub_error HubGone ''artifact has been deleted'')
          else case get_handler (art_kind row) of
            None \<Rightarrow> Inl (hub_error HubValidation (''kind '' @ go_quote (art_kind row) @ '' has no registered handler''))
          | Some h \<Rightarrow>
              let res = \<lparr>rsv_storageKind = StorageKind h, rsv_uri = BuildPullURI st h ns name version (art_digest row),
                    rsv_digest = art_digest row, rsv_visibility = art_visibility row, rsv_pullCredentials = None\<rparr> in
              if usage = [] \<or> usage = ''inspect'' then Inr res
              else if usage = ''download''
              then Inr (res\<lparr>rsv_pullCredentials := Some (IssuePullCredentials st h ns name version (he_now env))\<rparr>)
              else Inl (hub_error HubValidation (''usage must be inspect or download (got '' @ go_quote usage @ '')'')))"

definition art_patch_columns :: "art_patch \<Rightarrow> Artifact \<Rightarrow> Artifact" where
  "art_patch_columns p r =
     r\<lparr>art_displayName := (case apt_displayName p of None \<Rightarrow> art_displayName r | Some v \<Rightarrow> v),
       art_description := (case apt_description p of None \<Rightarrow> art_description r | Some v \<Rightarrow> v),
       art_labels := (case apt_labels p of None \<Rightarrow> art_labels r | Some v \<Rightarrow> json_marshal v),
       art_annotations := (case apt_annotations p of None \<Rightarrow> art_annotations r | Some v \<Rightarrow> json_marshal v)\<rparr>"

definition empty_patch :: "art_patch \<Rightarrow> bool" where
  "empty_patch p \<longleftrightarrow> apt_displayName p = None \<and> apt_description p = None \<and> apt_labels p = None \<and> apt_annotations p = None"

definition patch_row :: "henv \<Rightarrow> Artifact \<Rightarrow> art_patch \<Rightarrow> Artifact list \<Rightarrow> Artifact list \<times> (herr + Artifact)" where
  "patch_row env row p rows =
     (if art_status row = StatusDeleting \<or> art_status row = StatusDeleted
      then (rows, Inl (hub_error HubConflict (''artifact is '' @ art_status row @ ''; patch rejected'')))
      else if empty_patch p then (rows, Inr row)
      else case art_Update env (art_id row) (art_patch_columns p) rows of
        Inl e \<Rightarrow> (rows, Inl (hub_wrap HubInternal ''update artifact'' e))
      | Inr rows' \<Rightarrow> (rows', loadRow env (art_namespace row) (art_name row) (art_version row) rows'))"

definition art_Patch :: "henv \<Rightarrow> string \<Rightarrow> string \<Rightarrow> string \<Rightarrow> art_patch \<Rightarrow> Artifact list \<Rightarrow> Artifact list \<times> (herr + Artifact)" where
  "art_Patch env ns name version p rows =
     (case loadRow env ns name version rows of Inl e \<Rightarrow> (rows, Inl e) | Inr row \<Rightarrow> patch_row env row p rows)"

definition mark_deleting_row :: "henv \<Rightarrow> Artifact \<Rightarrow> Artifact list \<Rightarrow> Artifact list \<times> herr option" where
  "mark_deleting_row env row rows =
     (if art_status row = StatusDeleting \<or> art_status row = StatusDeleted then (rows, None)
      else case art_Update env (art_id row) (\<lambda>r. r\<lparr>art_status := StatusDeleting, art_message := []\<rparr>) rows of
        Inl e \<Rightarrow> (rows, Some e) | Inr rows' \<Rightarrow> (rows', None))"

definition MarkDeleting :: "henv \<Rightarrow> string \<Rightarrow> string \<Rightarrow> string \<Rightarrow> Artifact list \<Rightarrow> Artifact list \<times> herr option" where
  "MarkDeleting env ns name version rows =
     (case loadRow env ns name version rows of Inl e \<Rightarrow> (rows, Some e) | Inr row \<Rightarrow> mark_deleting_row env row rows)"

section \<open>The garbage collector\<close>

definition gc_backend :: "stores \<Rightarrow> Artifact \<Rightarrow> string option hprog" where
  "gc_backend st row =
     (case get_handler (art_kind row) of
        None \<Rightarrow> ret None
      | Some h \<Rightarrow> GCBackend st h (art_namespace row) (art_name row) (art_version row) (art_digest row))"

text \<open>One stale upload: the row is claimed by a compare-and-set before its content is removed.\<close>

definition gc_stale_row :: "henv \<Rightarrow> stores \<Rightarrow> hub_state \<Rightarrow> Artifact \<Rightarrow> hub_state" where
  "gc_stale_row env st s row =
     (case UpdateIfStatus env (art_id row) StatusUploading (mark_failed ''upload TTL exceeded; cleaned up by GC'') (fst s) of
        Inl _ \<Rightarrow> s
      | Inr (updated, rows') \<Rightarrow> if \<not> updated then (rows', snd s) else (rows', snd (run_state (gc_backend st row) (snd s))))"

definition gc_deleting_row :: "henv \<Rightarrow> stores \<Rightarrow> hub_state \<Rightarrow> Artifact \<Rightarrow> hub_state" where
  "gc_deleting_row env st s row =
     (case run_state (gc_backend st row) (snd s) of
        (Some _, log) \<Rightarrow> (fst s, log)
      | (None, log) \<Rightarrow>
          (case art_Update env (art_id row) (\<lambda>r. r\<lparr>art_status := StatusDeleted, art_deletedAt := Some (he_now env)\<rparr>) (fst s) of
             Inl _ \<Rightarrow> (fst s, log) | Inr rows' \<Rightarrow> (rows', log)))"

definition processStaleUploading :: "henv \<Rightarrow> stores \<Rightarrow> nat \<Rightarrow> hub_state \<Rightarrow> hub_state" where
  "processStaleUploading env st ttl s =
     (case FindStaleUploading env (he_now env - ttl) (fst s) of Inl _ \<Rightarrow> s | Inr stale \<Rightarrow> foldl (gc_stale_row env st) s stale)"

definition processDeleting :: "henv \<Rightarrow> stores \<Rightarrow> hub_state \<Rightarrow> hub_state" where
  "processDeleting env st s =
     (case FindDeleting env (fst s) of Inl _ \<Rightarrow> s | Inr rows \<Rightarrow> foldl (gc_deleting_row env st) s rows)"

definition gc_Tick :: "henv \<Rightarrow> stores \<Rightarrow> nat \<Rightarrow> hub_state \<Rightarrow> hub_state" where
  "gc_Tick env st ttl s = processDeleting env st (processStaleUploading env st ttl s)"

end
