(* ===== verification/ArtifactProps.thy ===== *)
theory ArtifactProps
  imports ArtifactHub
begin

text \<open>
  What holds of the artifact hub in every interleaving of its operations with the garbage collector, what a collector pass and an
  upload achieve, and where content is lost.
\<close>

section \<open>What operations write\<close>

text \<open>
  A digest that the store of the version has confirmed in the course of a history: the registry had a manifest of this digest under the
  version's tag, or the dataset's manifest was read and hashes to it. Without an object store there is nothing to ask.
\<close>

definition confirmed :: "stores \<Rightarrow> hub_event list \<Rightarrow> Artifact \<Rightarrow> string \<Rightarrow> bool" where
  "confirmed st L r digest \<longleftrightarrow>
     (case get_handler (art_kind r) of
        None \<Rightarrow> False
      | Some (OciBacked _ subpath) \<Rightarrow>
          HttpHead (manifest_url st (repoPath subpath (art_namespace r) (art_name r)) (art_version r)) (Inr (200, digest)) \<in> set L
      | Some DatasetHandler \<Rightarrow> st_s3 st \<longrightarrow>
          (\<exists>body. S3Get (s3_prefix (art_namespace r) (art_name r) (art_version r) @ ''artifact-manifest.json'') (Inr body) \<in> set L \<and>
             digest = contentDigestPrefix @ hex_encode (sha256 body)))"

lemma confirmed_mono: "confirmed st L r d \<Longrightarrow> confirmed st (es @ L) r d"
  by (auto simp: confirmed_def split: option.splits art_handler.splits)

lemma confirmed_cong:
  "art_kind r = art_kind j \<Longrightarrow> art_coord r = art_coord j \<Longrightarrow> confirmed st L r d \<longleftrightarrow> confirmed st L j d"
  by (simp add: confirmed_def art_coord_def cong: option.case_cong art_handler.case_cong)

lemma confirmed_more: "confirmed st es r d \<Longrightarrow> confirmed st (es @ L) r d"
  by (auto simp: confirmed_def split: option.splits art_handler.splits)

lemma map_sum_eq_Inr: "map_sum f id x = Inr y \<longleftrightarrow> x = Inr y"
  by (cases x) simp_all

lemma verify_confirms:
  assumes "get_handler (art_kind r) = Some h"
  shows "runs (VerifyComplete st h (art_namespace r) (art_name r) (art_version r) claim) (\<lambda>res es. \<forall>d. res = Inr d \<longrightarrow> confirmed st es r d)"
proof (cases h)
  case (OciBacked k subpath)
  with assms show ?thesis
    by (auto simp: HeadManifest_def Let_def confirmed_def split: sum.splits option.splits if_splits intro!: runs_rules)
next
  case DatasetHandler
  with assms show ?thesis
    by (auto simp: GetObject_def Let_def confirmed_def map_sum_eq_Inr split: sum.splits option.splits if_splits intro!: runs_rules)
qed

abbreviation touched :: "henv \<Rightarrow> (Artifact \<Rightarrow> Artifact) \<Rightarrow> Artifact \<Rightarrow> Artifact" where
  "touched env f \<equiv> \<lambda>r. (f r)\<lparr>art_updatedAt := he_now env\<rparr>"

inductive art_writes :: "stores \<Rightarrow> hub_event list \<Rightarrow> Artifact writes" for st L where
  write_ready: "confirmed st L j digest \<Longrightarrow> art_writes st L j (\<lambda>_. True) (touched env (mark_ready digest now))"
| write_failed: "art_writes st L j (\<lambda>_. True) (touched env (mark_failed msg))"
| write_stale: "art_writes st L j (\<lambda>r. art_status r = StatusUploading) (touched env (mark_failed msg))"
| write_patch: "art_writes st L j (\<lambda>_. True) (touched env (art_patch_columns p))"
| write_deleting: "art_writes st L j (\<lambda>_. True) (touched env (\<lambda>r. r\<lparr>art_status := StatusDeleting, art_message := []\<rparr>))"
| write_deleted: "art_writes st L j (\<lambda>_. True) (touched env (\<lambda>r. r\<lparr>art_status := StatusDeleted, art_deletedAt := Some now\<rparr>))"

text \<open>The columns that never change.\<close>

definition art_frame :: "Artifact \<Rightarrow> Artifact \<Rightarrow> bool" where
  "art_frame a b \<longleftrightarrow> art_id b = art_id a \<and> art_coord b = art_coord a \<and> art_kind b = art_kind a \<and> art_visibility b = art_visibility a \<and>
     art_ownerUser b = art_ownerUser a \<and> art_spec b = art_spec a \<and> art_source b = art_source a \<and> art_createdAt b = art_createdAt a"

definition art_ok :: "stores \<Rightarrow> hub_event list \<Rightarrow> Artifact \<Rightarrow> bool" where
  "art_ok st L r \<longleftrightarrow> IsValidVersion (art_version r) \<and> get_handler (art_kind r) \<noteq> None \<and>
     (art_visibility r = VisibilityTenant \<or> art_visibility r = VisibilityPublic \<and> art_namespace r = PublicVisibilityNamespace) \<and>
     (art_status r = StatusReady \<longrightarrow> art_source r = SourceExternal \<or> confirmed st L r (art_digest r))"

lemma art_ok_mono: "art_ok st L r \<Longrightarrow> art_ok st (es @ L) r"
  by (auto simp: art_ok_def confirmed_mono)

interpretation hub_outbox: outbox art_id "art_ok st L" "art_writes st L" "art_ok st L" art_frame
proof (unfold_locales, goal_cases)
  case (5 j g f r)
  from 5(1) show ?case
  proof cases
    case (write_ready digest env now)
    have "confirmed st L r digest" using write_ready(3) 5(4) confirmed_cong [of r j] by (simp add: art_frame_def)
    moreover have "confirmed st L (touched env (mark_ready digest now) r) digest \<longleftrightarrow> confirmed st L r digest"
      by (rule confirmed_cong) (simp_all add: mark_ready_def art_coord_def)
    ultimately show ?thesis using write_ready 5(3) by (simp add: art_ok_def art_frame_def art_coord_def mark_ready_def)
  next
    case (write_patch env p)
    have "confirmed st L (touched env (art_patch_columns p) r) d \<longleftrightarrow> confirmed st L r d" for d
      by (rule confirmed_cong) (simp_all add: art_patch_columns_def art_coord_def)
    with write_patch 5(3) show ?thesis by (simp add: art_ok_def art_frame_def art_coord_def art_patch_columns_def)
  qed (use 5(3) in \<open>simp_all add: art_ok_def art_frame_def art_coord_def mark_failed_def\<close>)
qed (auto simp: art_frame_def)

text \<open>Every operation, on a row read earlier, writes what \<open>art_writes\<close> allows.\<close>

lemma wrote_Update: "art_writes st L j (\<lambda>_. True) (touched env f) \<Longrightarrow> art_Update env (art_id j) f rows = Inr rows' \<Longrightarrow> wrote art_id (art_writes st L) j rows rows'"
  using wrote_one [of "art_writes st L" j "\<lambda>_. True" "touched env f" art_id rows] by (auto simp: art_Update_def split: option.splits)

lemma wrote_write: "(\<And>d. res = Inr d \<Longrightarrow> confirmed st L j d) \<Longrightarrow> wrote art_id (art_writes st L) j rows (fst (complete_write env j res rows))"
  by (auto simp: complete_write_def split: sum.split herr.split intro: wrote_none wrote_Update [OF write_ready] wrote_Update [OF write_failed])

lemma wrote_patch: "wrote art_id (art_writes st L) j rows (fst (patch_row env j p rows))"
  by (auto simp: patch_row_def split: sum.split intro: wrote_none wrote_Update [OF write_patch])

lemma wrote_deleting: "wrote art_id (art_writes st L) j rows (fst (mark_deleting_row env j rows))"
  by (auto simp: mark_deleting_row_def split: sum.split intro: wrote_none wrote_Update [OF write_deleting])

lemma wrote_stale: "wrote art_id (art_writes st L) j (fst s) (fst (gc_stale_row env st s j))"
  using wrote_one [of "art_writes st L" j "\<lambda>r. art_status r = StatusUploading" "touched env (mark_failed ''upload TTL exceeded; cleaned up by GC'')" art_id "fst s"]
  by (auto simp: gc_stale_row_def UpdateIfStatus_def write_stale split: option.split sum.split intro: wrote_none)

lemma wrote_gone: "wrote art_id (art_writes st L) j (fst s) (fst (gc_deleting_row env st s j))"
  by (auto simp: gc_deleting_row_def split: prod.split option.split sum.split intro: wrote_none wrote_Update [OF write_deleted])


section \<open>Interleavings\<close>

text \<open>
  The table and the calls, with the rows somebody has read and the answers of the stores somebody waits to write. Between any two
  steps clients may push to the stores and remove from them.
\<close>

record hub_world =
  hw_rows :: "Artifact list"
  hw_log :: "hub_event list"
  hw_seen :: "Artifact set"
  hw_answers :: "(Artifact \<times> (herr + string)) set"

inductive hub_step :: "stores \<Rightarrow> hub_world \<Rightarrow> hub_world \<Rightarrow> bool" for st where
  hub_initiate: "hub_step st w (w\<lparr>hw_rows := fst (Initiate env st ns name owner req (hw_rows w))\<rparr>)"
| hub_read: "j \<in> set (hw_rows w) \<Longrightarrow> hub_step st w (w\<lparr>hw_seen := insert j (hw_seen w)\<rparr>)"
| hub_verify: "j \<in> hw_seen w \<Longrightarrow> art_status j = StatusUploading \<Longrightarrow> get_handler (art_kind j) = Some h \<Longrightarrow>
    run_state (VerifyComplete st h (art_namespace j) (art_name j) (art_version j) claim) (hw_log w) = (res, log) \<Longrightarrow>
    hub_step st w (w\<lparr>hw_log := log, hw_answers := insert (j, res) (hw_answers w)\<rparr>)"
| hub_complete: "(j, res) \<in> hw_answers w \<Longrightarrow> hub_step st w (w\<lparr>hw_rows := fst (complete_write env j res (hw_rows w))\<rparr>)"
| hub_patch: "j \<in> hw_seen w \<Longrightarrow> hub_step st w (w\<lparr>hw_rows := fst (patch_row env j p (hw_rows w))\<rparr>)"
| hub_delete: "j \<in> hw_seen w \<Longrightarrow> hub_step st w (w\<lparr>hw_rows := fst (mark_deleting_row env j (hw_rows w))\<rparr>)"
| hub_stale: "j \<in> hw_seen w \<Longrightarrow> art_status j = StatusUploading \<Longrightarrow> gc_stale_row env st (hw_rows w, hw_log w) j = (rows, log) \<Longrightarrow>
    hub_step st w (w\<lparr>hw_rows := rows, hw_log := log\<rparr>)"
| hub_gone: "j \<in> hw_seen w \<Longrightarrow> art_status j = StatusDeleting \<Longrightarrow> gc_deleting_row env st (hw_rows w, hw_log w) j = (rows, log) \<Longrightarrow>
    hub_step st w (w\<lparr>hw_rows := rows, hw_log := log\<rparr>)"
| hub_elsewhere: "hub_step st w (w\<lparr>hw_log := Elsewhere e # hw_log w\<rparr>)"

definition hub_start :: hub_world where
  "hub_start = \<lparr>hw_rows = [], hw_log = [], hw_seen = {}, hw_answers = {}\<rparr>"

abbreviation hub_steps :: "stores \<Rightarrow> hub_world \<Rightarrow> hub_world \<Rightarrow> bool" where
  "hub_steps st \<equiv> (hub_step st)\<^sup>*\<^sup>*"

lemma Initiate_rows:
  "fst (Initiate env st ns name owner req rows) = rows \<or>
   (\<exists>r. fst (Initiate env st ns name owner req rows) = rows @ [r] \<and> art_ok st L r \<and> art_id r \<notin> art_id ` set rows \<and> art_coord r \<notin> art_coord ` set rows)"
proof (cases "initiate_check env ns name req rows")
  case (Inr hv)
  obtain h v where hv: "hv = (h, v)" by (cases hv)
  let ?r = "initiate_row env ns name owner v req"
  from Inr hv have "art_ok st L ?r"
    by (auto simp: initiate_check_def initiate_row_def art_ok_def Let_def split: if_splits option.splits sum.splits herr.splits)
  with Inr hv show ?thesis
    by (auto simp: Initiate_def art_Create_def Let_def list_ex_iff image_iff split: option.splits sum.splits herr.splits)
qed (simp add: Initiate_def)

text \<open>The rows of the world as an execution of the table; an answer that waits is confirmed.\<close>

definition answers_ok :: "stores \<Rightarrow> hub_world \<Rightarrow> bool" where
  "answers_ok st w \<longleftrightarrow> (\<forall>(j, res) \<in> hw_answers w. j \<in> hw_seen w \<and> (\<forall>d. res = Inr d \<longrightarrow> confirmed st (hw_log w) j d))"

lemma wrote_length: "wrote key writes j t t' \<Longrightarrow> length t' = length t"
  by (induction rule: wrote.induct) simp_all

lemma runs_gc: "runs (gc_backend st row) (\<lambda>_ _. True)"
proof (cases "get_handler (art_kind row)")
  case (Some h)
  then show ?thesis by (cases h) (auto simp: gc_backend_def DeleteManifest_def DeletePrefix_def Let_def intro!: runs_rules)
qed (simp add: gc_backend_def runs_ret)

lemma gc_log: "\<exists>es. snd (run_state (gc_backend st row) log) = es @ log"
proof -
  obtain x log' where run: "run_state (gc_backend st row) log = (x, log')" by (meson surj_pair)
  from runs_outcome [OF runs_gc run] obtain es where "log' = es @ log" .
  with run show ?thesis by auto
qed

lemma gone_log: "snd (gc_deleting_row env st s row) = snd (run_state (gc_backend st row) (snd s))"
  by (auto simp: gc_deleting_row_def split: prod.split option.split sum.split)

lemma stale_log: "\<exists>es. snd (gc_stale_row env st s row) = es @ snd s"
  using gc_log by (auto simp: gc_stale_row_def split: prod.split sum.split)

text \<open>A step only extends the history, and a confirmation stays one.\<close>

lemma hub_step_log:
  assumes "hub_step st w w'"
  obtains es where "hw_log w' = es @ hw_log w"
  using assms
proof cases
  case (hub_verify j h claim res log)
  from runs_outcome [OF verify_confirms [OF hub_verify(4)] hub_verify(5)] hub_verify(1) that show ?thesis by auto
next
  case (hub_stale j env rows log)
  with stale_log [of env st "(hw_rows w, hw_log w)" j] that show ?thesis by auto
next
  case (hub_gone j env rows log)
  with gone_log [of env st "(hw_rows w, hw_log w)" j] gc_log [of st j "hw_log w"] that show ?thesis by auto
next
  case (hub_elsewhere e)
  with that [of "[Elsewhere e]"] show ?thesis by simp
qed (use that [of "[]"] in simp_all)

lemma hub_step_answers:
  assumes "hub_step st w w'" "answers_ok st w"
  shows "answers_ok st w'"
proof -
  obtain es where es: "hw_log w' = es @ hw_log w" using hub_step_log [OF assms(1)] .
  with assms(2) have old: "j \<in> hw_seen w \<and> (\<forall>d. res = Inr d \<longrightarrow> confirmed st (hw_log w') j d)" if "(j, res) \<in> hw_answers w" for j res
    using that by (auto simp: answers_ok_def confirmed_mono)
  from assms(1) show ?thesis
  proof cases
    case (hub_verify j h claim res log)
    from runs_outcome [OF verify_confirms [OF hub_verify(4)] hub_verify(5)] have "\<forall>d. res = Inr d \<longrightarrow> confirmed st log j d"
      by (metis confirmed_more)
    with hub_verify old show ?thesis by (auto simp: answers_ok_def)
  qed (use old in \<open>auto simp: answers_ok_def\<close>)
qed

lemma hub_step_shape:
  assumes "hub_step st w w'" "answers_ok st w"
  obtains "hw_rows w' = hw_rows w" "hw_seen w \<subseteq> hw_seen w'" "hw_seen w' - hw_seen w \<subseteq> set (hw_rows w)"
  | j where "j \<in> hw_seen w" "wrote art_id (art_writes st (hw_log w')) j (hw_rows w) (hw_rows w')" "hw_seen w' = hw_seen w"
  | r where "hw_rows w' = hw_rows w @ [r]" "art_ok st (hw_log w') r" "art_id r \<notin> art_id ` set (hw_rows w)" "art_coord r \<notin> art_coord ` set (hw_rows w)"
      "hw_seen w' = hw_seen w"
  using assms(1)
proof cases
  case (hub_initiate env ns name owner req)
  from Initiate_rows [of env st ns name owner req "hw_rows w" "hw_log w'"] hub_initiate that(1,3) show ?thesis by auto
next
  case (hub_complete j res env)
  with assms(2) have j: "j \<in> hw_seen w" "\<And>d. res = Inr d \<Longrightarrow> confirmed st (hw_log w') j d" by (auto simp: answers_ok_def)
  from that(2) [OF j(1)] wrote_write [OF j(2), of res] hub_complete show ?thesis by simp
next
  case (hub_stale j env rows log)
  with wrote_stale [of st "hw_log w'" j "(hw_rows w, hw_log w)" env] that(2) show ?thesis by auto
next
  case (hub_gone j env rows log)
  with wrote_gone [of st "hw_log w'" j "(hw_rows w, hw_log w)" env] that(2) show ?thesis by auto
next
  case (hub_patch j env p)
  with wrote_patch [of st "hw_log w'" j "hw_rows w" env p] that(2) show ?thesis by auto
next
  case (hub_delete j env)
  with wrote_deleting [of st "hw_log w'" j "hw_rows w" env] that(2) show ?thesis by auto
qed (use that(1) in auto)

definition hub_inv :: "stores \<Rightarrow> hub_world \<Rightarrow> bool" where
  "hub_inv st w \<longleftrightarrow> hub_outbox.inv st (hw_log w) (hw_rows w, hw_seen w) \<and> distinct (map art_coord (hw_rows w)) \<and> answers_ok st w"

lemma frame_coords: "list_all2 art_frame a b \<Longrightarrow> map art_coord b = map art_coord a"
  by (induction rule: list_all2_induct) (auto simp: art_frame_def)

lemma hub_step_keeps:
  assumes "hub_step st w w'" "hub_inv st w"
  shows "hub_inv st w' \<and> list_all2 art_frame (hw_rows w) (take (length (hw_rows w)) (hw_rows w'))"
proof -
  obtain es where es: "hw_log w' = es @ hw_log w" using hub_step_log [OF assms(1)] .
  have inv: "hub_outbox.inv st (hw_log w') (hw_rows w, hw_seen w)" "distinct (map art_coord (hw_rows w))" and ans: "answers_ok st w"
    using assms(2) by (auto simp: hub_inv_def hub_outbox.inv_def es art_ok_mono)
  note ans' = hub_step_answers [OF assms(1) ans]
  from assms(1) ans show ?thesis
  proof (cases rule: hub_step_shape)
    case 1
    have "execs art_id (art_ok st (hw_log w')) (art_writes st (hw_log w')) (hw_rows w, hw_seen w) (hw_rows w, hw_seen w')"
    proof -
      obtain js where "set js = hw_seen w' - hw_seen w" using 1(3) finite_list finite_subset by (metis List.finite_set)
      with execs_reads [of js "hw_rows w" art_id _ _ "hw_seen w"] 1(2,3) show ?thesis by (simp add: Un_absorb2 Un_commute sup.absorb2)
    qed
    from hub_outbox.execs_keep [OF this inv(1)] inv(2) 1 ans' show ?thesis by (simp add: hub_inv_def)
  next
    case (2 j)
    from hub_outbox.execs_keep [OF wrote_execs [OF 2(2,1)] inv(1)]
    have keep: "hub_outbox.inv st (hw_log w') (hw_rows w', hw_seen w)" "list_all2 art_frame (hw_rows w) (take (length (hw_rows w)) (hw_rows w'))" by simp_all
    moreover have "length (hw_rows w') = length (hw_rows w)" by (rule wrote_length [OF 2(2)])
    ultimately show ?thesis using frame_coords [OF keep(2)] inv(2) 2(3) ans' by (simp add: hub_inv_def)
  next
    case (3 r)
    have "execs art_id (art_ok st (hw_log w')) (art_writes st (hw_log w')) (hw_rows w, hw_seen w) (hw_rows w', hw_seen w)"
      unfolding 3(1) by (rule r_into_rtranclp, rule exec_insert) (use 3(2,3) in auto)
    from hub_outbox.execs_keep [OF this inv(1)] inv(2) 3 ans' show ?thesis by (simp add: hub_inv_def)
  qed
qed

lemma hub_steps_keep:
  assumes "hub_steps st w w'" "hub_inv st w"
  shows "hub_inv st w' \<and> list_all2 art_frame (hw_rows w) (take (length (hw_rows w)) (hw_rows w'))"
  using assms
proof (induction rule: rtranclp_induct)
  case base
  then show ?case by (simp add: list.rel_refl_strong art_frame_def)
next
  case (step w1 w2)
  from step have IH: "hub_inv st w1" "list_all2 art_frame (hw_rows w) (take (length (hw_rows w)) (hw_rows w1))" by auto
  from hub_step_keeps [OF step(2) IH(1)] have k: "hub_inv st w2" "list_all2 art_frame (hw_rows w1) (take (length (hw_rows w1)) (hw_rows w2))" by auto
  have len: "length (hw_rows w) \<le> length (hw_rows w1)" using list_all2_lengthD [OF IH(2)] by simp
  have "list_all2 art_frame (take (length (hw_rows w)) (hw_rows w1)) (take (length (hw_rows w)) (take (length (hw_rows w1)) (hw_rows w2)))"
    using k(2) by (rule list_all2_takeI)
  then have "list_all2 art_frame (hw_rows w) (take (length (hw_rows w)) (hw_rows w2))"
    using IH(2) len by (auto simp: min_absorb1 intro: list_all2_trans [OF hub_outbox.frame_trans])
  with k(1) show ?case by simp
qed

lemma hub_start_inv: "hub_inv st hub_start"
  using hub_outbox.start_inv by (simp add: hub_inv_def hub_start_def answers_ok_def)


text \<open>The operations themselves are such steps, in one piece.\<close>

lemma reads_steps: "set js \<subseteq> set (hw_rows w) \<Longrightarrow> hub_steps st w (w\<lparr>hw_seen := set js \<union> hw_seen w\<rparr>)"
proof (induction js)
  case (Cons j js)
  then have "hub_steps st w (w\<lparr>hw_seen := set js \<union> hw_seen w\<rparr>)" by simp
  also have "hub_step st (w\<lparr>hw_seen := set js \<union> hw_seen w\<rparr>) (w\<lparr>hw_seen := set (j # js) \<union> hw_seen w\<rparr>)"
    using hub_read [of j "w\<lparr>hw_seen := set js \<union> hw_seen w\<rparr>" st] Cons.prems by simp
  finally show ?case .
qed simp

lemma loadRow_found: "loadRow env ns name version rows = Inr r \<Longrightarrow> r \<in> set rows \<and> art_coord r = (ns, name, version)"
  by (auto simp: loadRow_def GetByCoordIncludingDeleted_def find_Some_iff split: option.splits sum.splits herr.splits)

lemma Complete_steps:
  "\<exists>w'. hub_steps st w w' \<and> fst (Complete env st ns name version claim (hw_rows w, hw_log w)) = (hw_rows w', hw_log w')"
proof (cases "loadRow env ns name version (hw_rows w)")
  case (Inr j)
  let ?w = "w\<lparr>hw_seen := insert j (hw_seen w)\<rparr>"
  have read: "hub_steps st w ?w" using hub_read [of j w st] loadRow_found [OF Inr] by auto
  show ?thesis
  proof (cases "art_status j = StatusUploading \<and> get_handler (art_kind j) \<noteq> None")
    case True
    then obtain h where h: "get_handler (art_kind j) = Some h" by auto
    obtain res log where v: "run_state (VerifyComplete st h (art_namespace j) (art_name j) (art_version j) claim) (hw_log w) = (res, log)" by (meson surj_pair)
    let ?w1 = "?w\<lparr>hw_log := log, hw_answers := insert (j, res) (hw_answers ?w)\<rparr>"
    have "hub_steps st w ?w1" using read by (rule rtranclp.rtrancl_into_rtrancl) (use True h v in \<open>intro hub_verify, auto\<close>)
    moreover have "hub_step st ?w1 (?w1\<lparr>hw_rows := fst (complete_write env j res (hw_rows w))\<rparr>)" using hub_complete [of j res ?w1 st env] by simp
    ultimately have steps: "hub_steps st w (?w1\<lparr>hw_rows := fst (complete_write env j res (hw_rows w))\<rparr>)"
      by (rule rtranclp.rtrancl_into_rtrancl)
    have "fst (Complete env st ns name version claim (hw_rows w, hw_log w)) = (fst (complete_write env j res (hw_rows w)), log)"
      using True h v Inr by (simp add: Complete_def complete_row_def split_def)
    with steps show ?thesis by (intro exI [of _ "?w1\<lparr>hw_rows := fst (complete_write env j res (hw_rows w))\<rparr>"]) simp
  next
    case False
    then have "fst (Complete env st ns name version claim (hw_rows w, hw_log w)) = (hw_rows w, hw_log w)"
      using Inr by (auto simp: Complete_def complete_row_def)
    with rtranclp.rtrancl_refl show ?thesis by metis
  qed
qed (auto simp: Complete_def)

lemma gc_fold_steps:
  assumes "\<And>w j rows log. j \<in> hw_seen w \<Longrightarrow> P j \<Longrightarrow> f (hw_rows w, hw_log w) j = (rows, log) \<Longrightarrow> hub_step st w (w\<lparr>hw_rows := rows, hw_log := log\<rparr>)"
    and "set js \<subseteq> hw_seen w" "list_all P js"
  shows "\<exists>w'. hub_steps st w w' \<and> foldl f (hw_rows w, hw_log w) js = (hw_rows w', hw_log w')"
  using assms(2,3)
proof (induction js arbitrary: w)
  case (Cons j js)
  obtain rows log where f: "f (hw_rows w, hw_log w) j = (rows, log)" by (meson surj_pair)
  let ?w = "w\<lparr>hw_rows := rows, hw_log := log\<rparr>"
  have "hub_step st w ?w" using Cons.prems f by (intro assms(1)) auto
  moreover obtain w' where "hub_steps st ?w w'" "foldl f (rows, log) js = (hw_rows w', hw_log w')"
    using Cons.IH [of ?w] Cons.prems by auto
  ultimately show ?case using f by (intro exI [of _ w']) (simp add: converse_rtranclp_into_rtranclp)
qed auto

lemma Tick_steps: "\<exists>w'. hub_steps st w w' \<and> gc_Tick env st ttl (hw_rows w, hw_log w) = (hw_rows w', hw_log w')"
proof -
  have stale: "\<exists>w'. hub_steps st w w' \<and> processStaleUploading env st ttl (hw_rows w, hw_log w) = (hw_rows w', hw_log w')" for w
  proof (cases "FindStaleUploading env (he_now env - ttl) (hw_rows w)")
    case (Inr js)
    then have js: "set js \<subseteq> set (hw_rows w)" "list_all (\<lambda>j. art_status j = StatusUploading) js"
      by (auto simp: FindStaleUploading_def list_all_iff split: option.splits)
    from gc_fold_steps [where P = "\<lambda>j. art_status j = StatusUploading" and w = "w\<lparr>hw_seen := set js \<union> hw_seen w\<rparr>" and f = "gc_stale_row env st" and st = st and js = js]
      hub_stale [of _ _ env st] js(2) obtain w' where "hub_steps st (w\<lparr>hw_seen := set js \<union> hw_seen w\<rparr>) w'" "foldl (gc_stale_row env st) (hw_rows w, hw_log w) js = (hw_rows w', hw_log w')" by auto
    with reads_steps [OF js(1), of st] Inr show ?thesis by (auto simp: processStaleUploading_def intro: rtranclp_trans)
  qed (auto simp: processStaleUploading_def)
  have gone: "\<exists>w'. hub_steps st w w' \<and> processDeleting env st (hw_rows w, hw_log w) = (hw_rows w', hw_log w')" for w
  proof (cases "FindDeleting env (hw_rows w)")
    case (Inr js)
    then have js: "set js \<subseteq> set (hw_rows w)" "list_all (\<lambda>j. art_status j = StatusDeleting) js"
      by (auto simp: FindDeleting_def list_all_iff split: option.splits)
    from gc_fold_steps [where P = "\<lambda>j. art_status j = StatusDeleting" and w = "w\<lparr>hw_seen := set js \<union> hw_seen w\<rparr>" and f = "gc_deleting_row env st" and st = st and js = js]
      hub_gone [of _ _ env st] js(2) obtain w' where "hub_steps st (w\<lparr>hw_seen := set js \<union> hw_seen w\<rparr>) w'" "foldl (gc_deleting_row env st) (hw_rows w, hw_log w) js = (hw_rows w', hw_log w')" by auto
    with reads_steps [OF js(1), of st] Inr show ?thesis by (auto simp: processDeleting_def intro: rtranclp_trans)
  qed (auto simp: processDeleting_def)
  from stale obtain w1 where "hub_steps st w w1" "processStaleUploading env st ttl (hw_rows w, hw_log w) = (hw_rows w1, hw_log w1)" by blast
  with gone [of w1] show ?thesis by (auto simp: gc_Tick_def intro: rtranclp_trans)
qed


section \<open>In every interleaving\<close>

text \<open>
  C23. A coordinate is never used twice. In every interleaving of the API with the collector, whatever handlers do with rows they read
  long ago, a version once registered keeps its identifier, namespace, name, version, kind, visibility, owner, spec and source,
  no other version has its coordinate, and a further \<open>Initiate\<close> on the coordinate changes nothing, not even after the version was deleted.
\<close>

theorem artifact_identity:
  assumes "hub_steps st hub_start w" "hub_steps st w w'" "r \<in> set (hw_rows w)"
  shows "distinct (map art_coord (hw_rows w')) \<and> (\<exists>r' \<in> set (hw_rows w'). art_frame r r') \<and>
    (\<forall>env owner req. ini_version req = art_version r \<longrightarrow> fst (Initiate env st (art_namespace r) (art_name r) owner req (hw_rows w')) = hw_rows w')"
proof -
  have inv: "hub_inv st w" using hub_steps_keep [OF assms(1) hub_start_inv] by simp
  from hub_steps_keep [OF assms(2) inv] have keep: "hub_inv st w'" "list_all2 art_frame (hw_rows w) (take (length (hw_rows w)) (hw_rows w'))" by simp_all
  from assms(3) obtain i where i: "i < length (hw_rows w)" "r = hw_rows w ! i" by (auto simp: in_set_conv_nth)
  with keep(2) have "art_frame r (take (length (hw_rows w)) (hw_rows w') ! i)" "i < length (take (length (hw_rows w)) (hw_rows w'))"
    by (auto simp: list_all2_conv_all_nth)
  then obtain r' where r': "r' \<in> set (hw_rows w')" "art_frame r r'" by (meson in_set_takeD nth_mem)
  have "fst (Initiate env st (art_namespace r) (art_name r) owner req (hw_rows w')) = hw_rows w'" if "ini_version req = art_version r" for env owner req
  proof -
    have "art_coord r' = (art_namespace r, art_name r, ini_version req)" using r'(2) that by (simp add: art_frame_def art_coord_def)
    then have "list_ex (\<lambda>x. art_id x = art_id (initiate_row env (art_namespace r) (art_name r) owner v req) \<or>
        art_coord x = art_coord (initiate_row env (art_namespace r) (art_name r) owner v req)) (hw_rows w')" for v
      using r'(1) by (auto simp: list_ex_iff initiate_row_def art_coord_def Let_def)
    then show ?thesis by (simp add: Initiate_def art_Create_def Let_def split: sum.split option.split prod.split)
  qed
  with keep(1) r' show ?thesis by (auto simp: hub_inv_def)
qed


section \<open>The collector\<close>

lemma wrote_ids: "wrote art_id (art_writes st L) j t t' \<Longrightarrow> map art_id t' = map art_id t \<and> map art_coord t' = map art_coord t"
proof (induction rule: wrote.induct)
  case (wrote_more t t' g f)
  from wrote_more(2) have "art_id (f r) = art_id r \<and> art_coord (f r) = art_coord r" for r
    by cases (simp_all add: mark_ready_def mark_failed_def art_patch_columns_def art_coord_def)
  then have "map art_id (update_where (\<lambda>r. art_id r = art_id j \<and> g r) f t') = map art_id t'"
    "map art_coord (update_where (\<lambda>r. art_id r = art_id j \<and> g r) f t') = map art_coord t'" by (simp_all add: update_where_def)
  with wrote_more(3) show ?case by simp
qed simp

lemma fold_ids:
  "(\<And>t j. wrote art_id (art_writes st L) j (fst t) (fst (h t j))) \<Longrightarrow>
   map art_id (fst (foldl h s js)) = map art_id (fst s) \<and> map art_coord (fst (foldl h s js)) = map art_coord (fst s)"
  by (induction js arbitrary: s) (simp, metis foldl_Cons wrote_ids)

lemma stale_ids:
  "map art_id (fst (processStaleUploading env st ttl s)) = map art_id (fst s) \<and> map art_coord (fst (processStaleUploading env st ttl s)) = map art_coord (fst s)"
  using fold_ids [where h = "gc_stale_row env st", OF wrote_stale] by (auto simp: processStaleUploading_def split: sum.split)

lemma tick_ids: "map art_id (fst (gc_Tick env st ttl s)) = map art_id (fst s) \<and> map art_coord (fst (gc_Tick env st ttl s)) = map art_coord (fst s)"
  using fold_ids [where h = "gc_deleting_row env st", OF wrote_gone] stale_ids [of env st ttl s]
  by (auto simp: gc_Tick_def processDeleting_def split: sum.split)

text \<open>A pass touches only the rows it has found.\<close>

lemma other_ids: "distinct (map key t) \<Longrightarrow> r \<in> set t \<Longrightarrow> set js \<subseteq> set t \<Longrightarrow> r \<notin> set js \<Longrightarrow> \<forall>j\<in>set js. key r \<noteq> key j"
  by (metis subsetD unique_key)

lemma stale_other:
  assumes "r \<in> set (fst s)" "art_status r \<noteq> StatusUploading" "distinct (map art_id (fst s))"
  shows "r \<in> set (fst (processStaleUploading env st ttl s))"
proof (cases "FindStaleUploading env (he_now env - ttl) (fst s)")
  case (Inr js)
  then have js: "set js \<subseteq> set (fst s)" "\<forall>j\<in>set js. art_status j = StatusUploading" by (auto simp: FindStaleUploading_def split: option.splits)
  have "\<forall>j\<in>set js. art_id r \<noteq> art_id j" by (rule other_ids [OF assms(3,1) js(1)]) (use js(2) assms(2) in auto)
  with Inr foldl_world_other [of art_id "art_writes st L" "gc_stale_row env st" r _ js, OF wrote_stale [of st L _ "(_, _)" env, unfolded fst_conv]] assms(1)
  show ?thesis by (simp add: processStaleUploading_def)
qed (use assms(1) in \<open>simp add: processStaleUploading_def\<close>)

lemma gc_other:
  assumes "r \<in> set (fst s)" "art_status r \<noteq> StatusUploading" "art_status r \<noteq> StatusDeleting" "distinct (map art_id (fst s))"
  shows "r \<in> set (fst (gc_Tick env st ttl s))"
proof -
  let ?m = "processStaleUploading env st ttl s"
  have r: "r \<in> set (fst ?m)" by (rule stale_other [OF assms(1,2,4)])
  show ?thesis
  proof (cases "FindDeleting env (fst ?m)")
    case (Inr js)
    then have js: "set js \<subseteq> set (fst ?m)" "\<forall>j\<in>set js. art_status j = StatusDeleting" by (auto simp: FindDeleting_def split: option.splits)
    have "distinct (map art_id (fst ?m))" using stale_ids assms(4) by simp
    then have "\<forall>j\<in>set js. art_id r \<noteq> art_id j" by (rule other_ids [OF _ r js(1)]) (use js(2) assms(3) in auto)
    with Inr foldl_world_other [of art_id "art_writes st L" "gc_deleting_row env st" r _ js, OF wrote_gone [of st L _ "(_, _)" env, unfolded fst_conv]] r
    show ?thesis by (simp add: gc_Tick_def processDeleting_def)
  qed (use r in \<open>simp add: gc_Tick_def processDeleting_def\<close>)
qed

text \<open>Without faults of the database and of the stores, a pass is an update of the table.\<close>

lemma stale_fold:
  assumes "\<And>i. he_fault env (HubUpdate i) = None"
  shows "fst (foldl (gc_stale_row env st) s js) =
    update_where (\<lambda>r. art_status r = StatusUploading \<and> art_id r \<in> art_id ` set js) (touched env (mark_failed ''upload TTL exceeded; cleaned up by GC'')) (fst s)"
proof (induction js arbitrary: s)
  case (Cons j js)
  have one: "fst (gc_stale_row env st s j) =
      update_where (\<lambda>r. art_id r = art_id j \<and> art_status r = StatusUploading) (touched env (mark_failed ''upload TTL exceeded; cleaned up by GC'')) (fst s)"
    using assms by (simp add: gc_stale_row_def UpdateIfStatus_def)
  have "art_status (mark_failed m r) \<noteq> StatusUploading" "art_id (mark_failed m r) = art_id r" for m r by (simp_all add: mark_failed_def)
  then show ?case unfolding foldl_Cons Cons.IH one update_where_def map_map by (intro map_cong [OF refl]) (simp only: comp_apply, simp, blast)
qed (simp add: update_where_def)

lemma gone_fold:
  assumes "\<And>i. he_fault env (HubUpdate i) = None" "\<And>row log. fst (run_state (gc_backend st row) log) = None"
  shows "fst (foldl (gc_deleting_row env st) s js) =
    update_where (\<lambda>r. art_id r \<in> art_id ` set js) (touched env (\<lambda>r. r\<lparr>art_status := StatusDeleted, art_deletedAt := Some (he_now env)\<rparr>)) (fst s)"
proof (induction js arbitrary: s)
  case (Cons j js)
  have one: "fst (gc_deleting_row env st s j) =
      update_where (\<lambda>r. art_id r = art_id j) (touched env (\<lambda>r. r\<lparr>art_status := StatusDeleted, art_deletedAt := Some (he_now env)\<rparr>)) (fst s)"
    using assms(1) assms(2) [of j "snd s"] by (cases "run_state (gc_backend st j) (snd s)") (simp add: gc_deleting_row_def art_Update_def)
  show ?case unfolding foldl_Cons Cons.IH one unfolding update_where_def map_map by (rule map_cong [OF refl]) simp
qed (simp add: update_where_def)

text \<open>
  C26. A collector pass settles what it is there for. When the database and the stores answer without errors, after a pass no version is
  Deleting any more, and no live version that was started before the deadline is still Uploading: it is Failed, or it was something else before.
\<close>

theorem artifact_gc_settles:
  assumes "\<And>q. he_fault env q = None" "\<And>row log. fst (run_state (gc_backend st row) log) = None" "r \<in> set (fst (gc_Tick env st ttl s))"
  shows "art_status r \<noteq> StatusDeleting \<and> \<not> (art_status r = StatusUploading \<and> art_createdAt r < he_now env - ttl \<and> art_deletedAt r = None)"
proof -
  let ?mid = "fst (processStaleUploading env st ttl s)"
  have mid: "?mid = update_where (\<lambda>r. art_status r = StatusUploading \<and> art_id r \<in> art_id ` {j \<in> set (fst s). art_status j = StatusUploading \<and>
      art_createdAt j < he_now env - ttl \<and> art_deletedAt j = None}) (touched env (mark_failed ''upload TTL exceeded; cleaned up by GC'')) (fst s)"
    using assms(1) stale_fold [where env = env] by (simp add: processStaleUploading_def FindStaleUploading_def)
  have last: "fst (gc_Tick env st ttl s) = update_where (\<lambda>r. art_id r \<in> art_id ` {j \<in> set ?mid. art_status j = StatusDeleting})
      (touched env (\<lambda>r. r\<lparr>art_status := StatusDeleted, art_deletedAt := Some (he_now env)\<rparr>)) ?mid"
    using assms(1,2) gone_fold [where env = env] by (simp add: gc_Tick_def processDeleting_def FindDeleting_def)
  from assms(3) obtain m where m: "m \<in> set ?mid" "r = (if art_id m \<in> art_id ` {j \<in> set ?mid. art_status j = StatusDeleting}
      then (m\<lparr>art_status := StatusDeleted, art_deletedAt := Some (he_now env)\<rparr>)\<lparr>art_updatedAt := he_now env\<rparr> else m)"
    unfolding last by (auto simp: update_where_def)
  have "\<not> (art_status m = StatusUploading \<and> art_createdAt m < he_now env - ttl \<and> art_deletedAt m = None)"
  proof
    assume u: "art_status m = StatusUploading \<and> art_createdAt m < he_now env - ttl \<and> art_deletedAt m = None"
    from m(1) obtain x where x: "x \<in> set (fst s)" "m = (if art_status x = StatusUploading \<and> art_id x \<in> art_id ` {j \<in> set (fst s). art_status j = StatusUploading \<and>
        art_createdAt j < he_now env - ttl \<and> art_deletedAt j = None} then (mark_failed ''upload TTL exceeded; cleaned up by GC'' x)\<lparr>art_updatedAt := he_now env\<rparr> else x)"
      unfolding mid update_where_def by auto
    have "\<not> (art_status x = StatusUploading \<and> art_id x \<in> art_id ` {j \<in> set (fst s). art_status j = StatusUploading \<and>
        art_createdAt j < he_now env - ttl \<and> art_deletedAt j = None})" (is "\<not> ?c") using u x(2) by (cases ?c) (simp_all add: mark_failed_def)
    moreover from this x(2) have "m = x" by (simp only: if_False)
    ultimately show False using u x(1) by blast
  qed
  with m show ?thesis by auto
qed


section \<open>An upload from start to end\<close>

lemma find_only: "r \<in> set rows \<Longrightarrow> P r \<Longrightarrow> (\<And>x. x \<in> set rows \<Longrightarrow> P x \<Longrightarrow> x = r) \<Longrightarrow> find P rows = Some r"
proof (induction rows)
  case (Cons a rows)
  show ?case
  proof (cases "P a")
    case True
    then have "a = r" by (intro Cons.prems(3)) simp_all
    with True show ?thesis by simp
  next
    case False
    with Cons.prems(1,2) have "r \<in> set rows" by auto
    then have "find P rows = Some r" by (rule Cons.IH [OF _ Cons.prems(2)]) (rule Cons.prems(3), simp_all)
    with False show ?thesis by simp
  qed
qed simp

lemma load_row:
  "he_fault env HubSelect = None \<Longrightarrow> r \<in> set rows \<Longrightarrow> distinct (map art_coord rows) \<Longrightarrow>
   loadRow env (art_namespace r) (art_name r) (art_version r) rows = Inr r"
proof -
  assume a: "he_fault env HubSelect = None" "r \<in> set rows" "distinct (map art_coord rows)"
  have "find (\<lambda>x. art_coord x = (art_namespace r, art_name r, art_version r)) rows = Some r"
    using a(2) unique_key [OF a(3,2)] by (intro find_only) (auto simp: art_coord_def)
  with a(1) show ?thesis by (simp add: loadRow_def GetByCoordIncludingDeleted_def)
qed

lemma update_one:
  "distinct (map art_id rows) \<Longrightarrow> r \<in> set rows \<Longrightarrow> f r \<in> set (update_where (\<lambda>x. art_id x = art_id r) f rows)"
  by (force simp: update_where_def)

lemma update_coords: "(\<And>x. art_coord (f x) = art_coord x) \<Longrightarrow> map art_coord (update_where P f rows) = map art_coord rows"
  by (simp add: update_where_def)



section \<open>Content that is lost\<close>

lemma gone_event:
  assumes "j \<in> set js" "\<And>log. \<exists>x. ev x \<in> set (snd (run_state (gc_backend st j) log))"
  shows "\<exists>x. ev x \<in> set (snd (foldl (gc_deleting_row env st) s js))"
proof -
  have mono: "set (snd s) \<subseteq> set (snd (foldl (gc_deleting_row env st) s js))" for s js
  proof (induction js arbitrary: s)
    case (Cons i js)
    have "set (snd s) \<subseteq> set (snd (gc_deleting_row env st s i))" using gc_log [of st i "snd s"] by (auto simp: gone_log)
    with Cons [of "gc_deleting_row env st s i"] show ?case by simp
  qed simp
  show ?thesis using assms(1)
  proof (induction js arbitrary: s)
    case (Cons i js)
    show ?case
    proof (cases "i = j")
      case True
      from assms(2) [of "snd s"] obtain x where "ev x \<in> set (snd (gc_deleting_row env st s i))" using True by (auto simp: gone_log)
      with mono [of "gc_deleting_row env st s i" js] show ?thesis by auto
    qed (use Cons in auto)
  qed simp
qed

text \<open>
  Deleting one version can destroy another. Versions of models and images are removed from the registry by digest. When two
  versions of one name have the same content, the collector pass that finishes the deletion of the one asks the registry to delete the
  manifest of their common digest, while the other stays Ready and \<open>Resolve\<close> still answers with the reference to that manifest.
\<close>

theorem artifact_gc_breaks_sibling:
  assumes "r1 \<in> set rows" "r2 \<in> set rows" "distinct (map art_id rows)" "distinct (map art_coord rows)"
    and "art_status r1 = StatusDeleting" "art_status r2 = StatusReady" "art_namespace r2 = art_namespace r1" "art_name r2 = art_name r1"
    and "art_kind r2 = art_kind r1" "get_handler (art_kind r1) = Some (OciBacked kind subpath)"
    and "art_digest r2 = art_digest r1" "starts_with contentDigestPrefix (art_digest r1)" "\<And>q. he_fault env q = None"
  shows "(\<exists>x. HttpDelete (manifest_url st (repoPath subpath (art_namespace r1) (art_name r1)) (art_digest r1)) x \<in> set (snd (gc_Tick env st ttl (rows, log)))) \<and>
    (\<exists>res. Resolve env st (art_namespace r1) (art_name r1) (art_version r2) ''inspect'' (fst (gc_Tick env st ttl (rows, log))) = Inr res \<and>
       rsv_uri res = st_endpoint st @ ''/'' @ repoPath subpath (art_namespace r1) (art_name r1) @ ''@'' @ art_digest r1)"
proof
  let ?m = "processStaleUploading env st ttl (rows, log)"
  have digest: "art_digest r1 \<noteq> []" using assms(12) by (auto simp: starts_with_def)
  have "r1 \<in> set (fst ?m)" using stale_other [of r1 "(rows, log)"] assms(1,3,5) by simp
  then have "r1 \<in> set (filter (\<lambda>r. art_status r = StatusDeleting) (fst ?m))" using assms(5) by simp
  moreover have "\<exists>x. HttpDelete (manifest_url st (repoPath subpath (art_namespace r1) (art_name r1)) (art_digest r1)) x \<in> set (snd (run_state (gc_backend st r1) log'))" for log'
    using digest assms(10) by (simp add: gc_backend_def DeleteManifest_def call_def Let_def) blast
  ultimately show "\<exists>x. HttpDelete (manifest_url st (repoPath subpath (art_namespace r1) (art_name r1)) (art_digest r1)) x \<in> set (snd (gc_Tick env st ttl (rows, log)))"
    using gone_event [of r1 _ "HttpDelete (manifest_url st (repoPath subpath (art_namespace r1) (art_name r1)) (art_digest r1))" st env ?m] assms(13)
    by (simp add: gc_Tick_def processDeleting_def FindDeleting_def)
  have "r2 \<in> set (fst (gc_Tick env st ttl (rows, log)))" using gc_other [of r2 "(rows, log)"] assms(2,3,6) by simp
  with load_row [OF assms(13) this] tick_ids [of env st ttl "(rows, log)"] assms(4)
  have "loadRow env (art_namespace r1) (art_name r1) (art_version r2) (fst (gc_Tick env st ttl (rows, log))) = Inr r2" using assms(7,8) by simp
  then show "\<exists>res. Resolve env st (art_namespace r1) (art_name r1) (art_version r2) ''inspect'' (fst (gc_Tick env st ttl (rows, log))) = Inr res \<and>
       rsv_uri res = st_endpoint st @ ''/'' @ repoPath subpath (art_namespace r1) (art_name r1) @ ''@'' @ art_digest r1"
    using assms(6,9-12) by (simp add: Resolve_def repoPath_def)
qed

text \<open>
  C40. A Ready version without content. The collector claims a stale upload by a compare-and-set before it removes the content, but
  \<open>Complete\<close> writes unconditionally: when the collector comes between the verification and the write, the dataset's objects are
  removed and the version is Failed, then the write makes it Ready, and \<open>Resolve\<close> hands out the empty prefix with the confirmed digest.
\<close>

theorem artifact_ready_without_content:
  assumes "r \<in> set rows" "distinct (map art_id rows)" "distinct (map art_coord rows)" "art_status r = StatusUploading" "get_handler (art_kind r) = Some DatasetHandler"
    and "st_s3 st" "\<And>q. he_fault env q = None" "\<And>q. he_fault env' q = None"
    and "run_state (VerifyComplete st DatasetHandler (art_namespace r) (art_name r) (art_version r) claim) log = (Inr digest, log1)"
    and "gc_stale_row env st (rows, log1) r = (rows1, log2)" "complete_write env' r (Inr digest) rows1 = (rows2, out)"
  shows "(\<exists>x. log2 = S3Remove (s3_prefix (art_namespace r) (art_name r) (art_version r)) x # log1) \<and>
    (\<exists>r1. loadRow env (art_namespace r) (art_name r) (art_version r) rows1 = Inr r1 \<and> art_status r1 = StatusFailed) \<and>
    (\<exists>res. Resolve env' st (art_namespace r) (art_name r) (art_version r) ''inspect'' rows2 = Inr res \<and> rsv_digest res = digest)"
proof (intro conjI)
  let ?f = "touched env (mark_failed ''upload TTL exceeded; cleaned up by GC'')" and ?g = "touched env' (mark_ready digest (he_now env'))"
  have won: "0 < rows_affected (\<lambda>x. art_id x = art_id r \<and> art_status x = StatusUploading) rows"
    using assms(1,4) by (auto simp: rows_affected_def filter_empty_conv)
  from assms(5-7,10) won
  show "\<exists>x. log2 = S3Remove (s3_prefix (art_namespace r) (art_name r) (art_version r)) x # log1"
    by (auto simp: gc_stale_row_def UpdateIfStatus_def gc_backend_def DeletePrefix_def call_def)
  have rows1: "rows1 = update_where (\<lambda>x. art_id x = art_id r \<and> art_status x = StatusUploading) ?f rows"
    using assms(7,10) won by (auto simp: gc_stale_row_def UpdateIfStatus_def)
  have rows2: "rows2 = update_where (\<lambda>x. art_id x = art_id r) ?g rows1"
    using assms(8,11) by (auto simp: complete_write_def art_Update_def)
  have in1: "?f r \<in> set rows1" unfolding rows1 using assms(1,4) by (force simp: update_where_def)
  have keep: "map art_id rows1 = map art_id rows" "map art_coord rows1 = map art_coord rows"
    by (simp_all add: rows1 update_where_def mark_failed_def art_coord_def)
  from load_row [OF assms(7) in1] keep assms(3)
  show "\<exists>r1. loadRow env (art_namespace r) (art_name r) (art_version r) rows1 = Inr r1 \<and> art_status r1 = StatusFailed" by (simp add: mark_failed_def)
  have in2: "?g (?f r) \<in> set rows2" using update_one [OF _ in1, of ?g] assms(2) keep(1) by (simp add: rows2 mark_failed_def)
  have "map art_coord rows2 = map art_coord rows1" by (simp add: rows2 update_where_def mark_ready_def art_coord_def)
  with load_row [OF assms(8) in2] keep assms(3) assms(5)
  show "\<exists>res. Resolve env' st (art_namespace r) (art_name r) (art_version r) ''inspect'' rows2 = Inr res \<and> rsv_digest res = digest"
    by (simp add: Resolve_def mark_failed_def mark_ready_def)
qed


text \<open>
  An external version is Ready from the start, and its upload answer names the remote reference. \<open>Resolve\<close> gives consumers the tag of the
  hub's own registry instead, where nobody has pushed anything; the remote reference is in the digest.
\<close>

theorem artifact_external_tag:
  assumes "Initiate env st ns name owner req rows = (rows1, Inr (row, up))" "ini_source req = SourceExternal" "get_handler (ini_kind req) = Some (OciBacked kind subpath)"
    and "\<not> starts_with contentDigestPrefix (ini_sourceURI req)" "distinct (map art_coord rows)" "\<And>q. he_fault env' q = None"
  shows "up_uri up = ini_sourceURI req \<and> (\<exists>res. Resolve env' st ns name (ini_version req) ''inspect'' rows1 = Inr res \<and>
    rsv_uri res = oci_BuildStorageURI st subpath ns name (ini_version req) \<and> rsv_digest res = ini_sourceURI req)"
proof -
  from assms(1) obtain h v where row: "row = initiate_row env ns name owner v req" and create: "art_Create env row rows = Inr rows1"
    and up: "art_source row = SourceExternal \<longrightarrow> up_uri up = ini_sourceURI req"
    by (auto simp: Initiate_def Let_def split: sum.splits herr.splits prod.splits)
  have r: "art_namespace row = ns" "art_name row = name" "art_version row = ini_version req" "art_kind row = ini_kind req"
    "art_status row = StatusReady" "art_digest row = ini_sourceURI req" "art_source row = SourceExternal"
    using assms(2) by (simp_all add: row initiate_row_def Let_def)
  from create have "rows1 = rows @ [row]" "art_coord row \<notin> art_coord ` set rows"
    by (auto simp: art_Create_def list_ex_iff split: option.splits if_splits)
  with assms(5) have "row \<in> set rows1" "distinct (map art_coord rows1)" by auto
  from load_row [OF assms(6) this] r have "loadRow env' ns name (ini_version req) rows1 = Inr row" by simp
  then show ?thesis using r up assms(3,4) by (simp add: Resolve_def)
qed

section \<open>A run\<close>

definition ax_st :: stores where
  "ax_st = \<lparr>st_scheme = ''http'', st_endpoint = ''reg'', st_username = ''u'', st_password = ''p'', st_bucket = ''b'', st_s3 = True, st_tokenTTL = 60,
     st_head = (\<lambda>_ _. Inr (200, ''sha256:d'')), st_delete = (\<lambda>_ _. Inr 202), st_get = (\<lambda>_ _. Inr [1]), st_remove = (\<lambda>_ _. [])\<rparr>"

definition ax_env :: henv where
  "ax_env = \<lparr>he_now = 100, he_uuid = ''id1'', he_fault = (\<lambda>_. None)\<rparr>"

definition ax_req :: initiate_request where
  "ax_req = \<lparr>ini_kind = ''model'', ini_version = ''1'', ini_spec = [(''framework'', SpecString ''onnx''), (''format'', SpecString ''f'')], ini_source = [],
     ini_sourceURI = [], ini_visibility = [], ini_displayName = [], ini_description = [], ini_labels = [], ini_annotations = []\<rparr>"

definition ax_row :: Artifact where
  "ax_row = initiate_row ax_env ''team'' ''m'' ''ann'' VisibilityTenant ax_req"

definition ax_ready :: Artifact where
  "ax_ready = (mark_ready ''sha256:d'' 100 ax_row)\<lparr>art_updatedAt := 100\<rparr>"

lemmas ax_defs = ax_st_def ax_env_def ax_req_def ax_row_def ax_ready_def

lemma ax_fault: "he_fault ax_env q = None"
  by (simp add: ax_env_def)

lemma ax_gc: "fst (run_state (gc_backend ax_st row) log) = None"
proof (cases "get_handler (art_kind row)")
  case (Some h)
  then show ?thesis by (cases h) (simp_all add: gc_backend_def DeleteManifest_def DeletePrefix_def call_def Let_def ax_st_def)
qed (simp add: gc_backend_def)

lemma ax_initiate: "fst (Initiate ax_env ax_st ''team'' ''m'' ''ann'' ax_req []) = [ax_row] \<and>
    (\<exists>up. snd (Initiate ax_env ax_st ''team'' ''m'' ''ann'' ax_req []) = Inr (ax_row, up))"
proof -
  have "initiate_check ax_env ''team'' ''m'' ax_req [] = Inr (OciBacked ''model'' ''models'', VisibilityTenant)" by code_simp
  then show ?thesis by (simp add: Initiate_def Let_def art_Create_def ax_row_def ax_env_def)
qed

lemma ax_started: "hub_steps ax_st hub_start (hub_start\<lparr>hw_rows := [ax_row]\<rparr>)"
  using hub_initiate [of ax_st hub_start ax_env "''team''" "''m''" "''ann''" ax_req] ax_initiate by (simp add: hub_start_def)

lemma ax_complete: "\<exists>log. fst (Complete ax_env ax_st ''team'' ''m'' ''1'' ''sha256:d'' ([ax_row], [])) = ([ax_ready], log)"
  by (simp add: Complete_def loadRow_def GetByCoordIncludingDeleted_def complete_row_def complete_write_def HeadManifest_def call_def art_Update_def
      art_coord_def get_handler_def update_where_def initiate_row_def mark_ready_def Let_def ax_defs)

theorem artifact_identity_witness:
  "distinct (map art_coord (hw_rows (hub_start\<lparr>hw_rows := [ax_row]\<rparr>))) \<and>
   fst (Initiate ax_env ax_st (art_namespace ax_row) (art_name ax_row) ''bob'' ax_req (hw_rows (hub_start\<lparr>hw_rows := [ax_row]\<rparr>))) = [ax_row]"
  using artifact_identity [OF ax_started rtranclp.rtrancl_refl, of ax_row] by (simp add: ax_row_def ax_req_def initiate_row_def)


theorem artifact_gc_settles_witness:
  "\<exists>r \<in> set (fst (gc_Tick (ax_env\<lparr>he_now := 200\<rparr>) ax_st 50 ([ax_row], []))). art_status ax_row = StatusUploading \<and> art_createdAt ax_row < 150 \<and>
     \<not> (art_status r = StatusUploading \<and> art_createdAt r < 150 \<and> art_deletedAt r = None)"
proof -
  have "map art_id (fst (gc_Tick (ax_env\<lparr>he_now := 200\<rparr>) ax_st 50 ([ax_row], []))) = [art_id ax_row]"
    using tick_ids [of "ax_env\<lparr>he_now := 200\<rparr>" ax_st 50 "([ax_row], [])"] by simp
  then obtain r where r: "r \<in> set (fst (gc_Tick (ax_env\<lparr>he_now := 200\<rparr>) ax_st 50 ([ax_row], [])))" by fastforce
  show ?thesis using artifact_gc_settles [of "ax_env\<lparr>he_now := 200\<rparr>" ax_st r 50 "([ax_row], [])", OF _ ax_gc r] ax_fault
    by (intro bexI [OF _ r]) (simp add: ax_env_def ax_row_def ax_req_def initiate_row_def Let_def)
qed


theorem artifact_gc_breaks_sibling_witness:
  "let r1 = ax_ready\<lparr>art_status := StatusDeleting\<rparr>; r2 = ax_ready\<lparr>art_id := ''id2'', art_version := ''2''\<rparr> in
   \<exists>x. HttpDelete (manifest_url ax_st (repoPath ''models'' ''team'' ''m'') ''sha256:d'') x \<in> set (snd (gc_Tick ax_env ax_st 50 ([r1, r2], [])))"
proof -
  have ready: "art_id ax_ready = ''id1''" "art_version ax_ready = ''1''" "art_namespace ax_ready = ''team''" "art_name ax_ready = ''m''"
    "art_status ax_ready = StatusReady" "art_digest ax_ready = ''sha256:d''" "get_handler (art_kind ax_ready) = Some (OciBacked ''model'' ''models'')"
    by (simp_all add: ax_ready_def mark_ready_def ax_row_def initiate_row_def ax_req_def ax_env_def get_handler_def Let_def)
  show ?thesis
    using artifact_gc_breaks_sibling [of "ax_ready\<lparr>art_status := StatusDeleting\<rparr>"
        "[ax_ready\<lparr>art_status := StatusDeleting\<rparr>, ax_ready\<lparr>art_id := ''id2'', art_version := ''2''\<rparr>]" "ax_ready\<lparr>art_id := ''id2'', art_version := ''2''\<rparr>"
        "''model''" "''models''" ax_env ax_st 50 "[]"] ax_fault
    by (simp add: ready art_coord_def starts_with_def)
qed

theorem artifact_ready_without_content_witness:
  "\<exists>r d log1 rows1 log2 rows2 out res. art_status r = StatusUploading \<and> gc_stale_row ax_env ax_st ([r], log1) r = (rows1, log2) \<and>
     complete_write ax_env r (Inr d) rows1 = (rows2, out) \<and> Resolve ax_env ax_st ''team'' ''m'' ''1'' ''inspect'' rows2 = Inr res \<and> rsv_digest res = d"
proof -
  define r where "r = ax_row\<lparr>art_kind := ''dataset''\<rparr>"
  define d where "d = contentDigestPrefix @ hex_encode (sha256 [1])"
  have row: "art_namespace r = ''team''" "art_name r = ''m''" "art_version r = ''1''" "art_status r = StatusUploading" "get_handler (art_kind r) = Some DatasetHandler"
    by (simp_all add: r_def ax_row_def initiate_row_def ax_req_def Let_def get_handler_def)
  have "d \<noteq> []" "st_s3 ax_st" by (simp_all add: d_def ax_st_def)
  then obtain log1 where v: "run_state (VerifyComplete ax_st DatasetHandler (art_namespace r) (art_name r) (art_version r) d) [] = (Inr d, log1)"
    by (simp add: GetObject_def call_def Let_def ax_st_def d_def)
  obtain rows1 log2 where g: "gc_stale_row ax_env ax_st ([r], log1) r = (rows1, log2)" by (meson surj_pair)
  obtain rows2 out where c: "complete_write ax_env r (Inr d) rows1 = (rows2, out)" by (meson surj_pair)
  have "r \<in> set [r]" "distinct (map art_id [r])" "distinct (map art_coord [r])" by simp_all
  from artifact_ready_without_content [OF this row(4,5) \<open>st_s3 ax_st\<close> ax_fault ax_fault v g c]
  obtain res where "Resolve ax_env ax_st ''team'' ''m'' ''1'' ''inspect'' rows2 = Inr res" "rsv_digest res = d" unfolding row by blast
  with row(4) g c show ?thesis by blast
qed

end
