(* ===== verification/ServiceLifecycle.thy ===== *)
theory ServiceLifecycle
  imports RunLifecycle
begin

text \<open>
  The MLService module of the compute service (\<^verbatim>\<open>compute-service/internal/mlservice\<close>): the
  API operations with \<open>Scale\<close>, the repository, the reconciler with its dispatch and
  rollback of admitted replicas, the status reflow with informer and poller, and the rendering
  capped at the admitted replicas.
\<close>

section \<open>Requests and views\<close>

record 'q MLServiceCreateRequest =
  sin_name :: string
  sin_kind :: string
  sin_displayName :: string
  sin_description :: string
  sin_labels :: "(string, string) gomap"
  sin_annotations :: "(string, string) gomap"
  sin_poolName :: string
  sin_unitName :: string
  sin_priorityClass :: string
  sin_backend :: "Backend option"
  sin_configMaps :: "WorkloadConfigMap list"
  sin_roles :: "'q RoleSpec list"
  sin_runPolicy :: "int option option"
  sin_route :: "Route option"

record MLServicePatchRequest =
  spa_displayName :: "string option"
  spa_description :: "string option"
  spa_labels :: "(string, string) gomap option"
  spa_annotations :: "(string, string) gomap option"

record 'q svc_view =
  sv_id :: string
  sv_namespace :: string
  sv_name :: string
  sv_kind :: string
  sv_displayName :: string
  sv_description :: string
  sv_owner :: string
  sv_labels :: "(string, string) gomap"
  sv_annotations :: "(string, string) gomap"
  sv_generation :: int
  sv_observedGeneration :: int
  sv_phase :: svc_phase
  sv_spec :: "'q MLServiceSpec"
  sv_status :: MLServiceStatus
  sv_createdAt :: nat
  sv_updatedAt :: nat
  sv_deletedAt :: "nat option"

record svc_phase_view =
  spv_name :: string
  spv_phase :: svc_phase
  spv_message :: string
  spv_admissionReason :: string
  spv_admissionMessage :: string
  spv_admittedReplicas :: int
  spv_readyReplicas :: int
  spv_generation :: int
  spv_observedGeneration :: int

definition zero_svc_spec :: "'q MLServiceSpec" where
  "zero_svc_spec = \<lparr>ss_backend = \<lparr>be_name = [], be_engine = [], be_config = None\<rparr>,
     ss_scheduling = zero_scheduling, ss_configMaps = [], ss_roles = [], ss_progressDeadlineSeconds = None,
     ss_route = None\<rparr>"

definition admittedPrimary :: "'q MLService \<Rightarrow> int" where
  "admittedPrimary s = Primary (Decode (svc_admitted s) 1 [])"

definition svc_toView :: "'q MLService \<Rightarrow> 'q svc_view" where
  "svc_toView s =
     \<lparr>sv_id = svc_id s, sv_namespace = svc_namespace s, sv_name = svc_name s, sv_kind = svc_kind s,
      sv_displayName = svc_displayName s, sv_description = svc_description s, sv_owner = svc_owner s,
      sv_labels = decodeStringMap (svc_labels s), sv_annotations = decodeStringMap (svc_annotations s),
      sv_generation = svc_generation s, sv_observedGeneration = svc_observedGeneration s,
      sv_phase = svc_phase s, sv_spec = json_lenient zero_svc_spec (svc_spec s),
      sv_status = (json_lenient zero_svc_status (svc_status s))\<lparr>sst_admittedReplicas := admittedPrimary s\<rparr>,
      sv_createdAt = svc_createdAt s, sv_updatedAt = svc_updatedAt s, sv_deletedAt = svc_deletedAt s\<rparr>"

definition svc_phaseView :: "'q MLService \<Rightarrow> svc_phase_view" where
  "svc_phaseView s =
     (let status = json_lenient zero_svc_status (svc_status s)
      in \<lparr>spv_name = svc_name s, spv_phase = svc_phase s, spv_message = sst_message status,
          spv_admissionReason = sst_admissionReason status,
          spv_admissionMessage = sst_admissionMessage status,
          spv_admittedReplicas = admittedPrimary s, spv_readyReplicas = sst_readyReplicas status,
          spv_generation = svc_generation s, spv_observedGeneration = svc_observedGeneration s\<rparr>)"

section \<open>Repository\<close>

definition svc_nsname :: "'q MLService \<Rightarrow> string \<times> string" where
  "svc_nsname s = (svc_namespace s, svc_name s)"

definition svc_GetByNamespaceName ::
  "(rstmt \<Rightarrow> err option) \<Rightarrow> string \<Rightarrow> string \<Rightarrow> 'q MLService list \<Rightarrow> err + 'q MLService" where
  "svc_GetByNamespaceName fault namespace name t =
     (case fault SelectByName of Some e \<Rightarrow> Inl e
      | None \<Rightarrow> get_live svc_id svc_nsname svc_deletedAt (namespace, name) t)"

definition svc_Get :: "(rstmt \<Rightarrow> err option) \<Rightarrow> string \<Rightarrow> 'q MLService list \<Rightarrow> err + 'q MLService" where
  "svc_Get fault i t =
     (case fault SelectByID of Some e \<Rightarrow> Inl e | None \<Rightarrow> first_row svc_id (\<lambda>r. svc_id r = i) t)"

definition svc_CreateRow ::
  "(rstmt \<Rightarrow> err option) \<Rightarrow> 'q MLService \<Rightarrow> 'q MLService list \<Rightarrow> err + 'q MLService list" where
  "svc_CreateRow fault s t =
     (case fault InsertRow of Some e \<Rightarrow> Inl e
      | None \<Rightarrow> insert_live svc_id svc_nsname svc_deletedAt s t)"

text \<open>An update of the rows \<open>id = i AND g\<close>, with the number of rows hit.\<close>

definition svc_UpdateWhere ::
  "(rstmt \<Rightarrow> err option) \<Rightarrow> nat \<Rightarrow> string \<Rightarrow> ('q MLService \<Rightarrow> bool) \<Rightarrow> ('q MLService \<Rightarrow> 'q MLService) \<Rightarrow>
   'q MLService list \<Rightarrow> err + ('q MLService list \<times> nat)" where
  "svc_UpdateWhere fault now i g f t =
     (let hit = (\<lambda>r. svc_id r = i \<and> g r) in
      case fault UpdateRows of Some e \<Rightarrow> Inl e
      | None \<Rightarrow> Inr (update_where hit (\<lambda>r. f (r\<lparr>svc_updatedAt := now\<rparr>)) t, rows_affected hit t))"

definition svc_Update ::
  "(rstmt \<Rightarrow> err option) \<Rightarrow> nat \<Rightarrow> string \<Rightarrow> ('q MLService \<Rightarrow> 'q MLService) \<Rightarrow> 'q MLService list \<Rightarrow>
   err + 'q MLService list" where
  "svc_Update fault now i f t =
     (case svc_UpdateWhere fault now i (\<lambda>_. True) f t of Inl e \<Rightarrow> Inl e | Inr (t', _) \<Rightarrow> Inr t')"

definition svc_Update_quiet ::
  "(rstmt \<Rightarrow> err option) \<Rightarrow> nat \<Rightarrow> string \<Rightarrow> ('q MLService \<Rightarrow> 'q MLService) \<Rightarrow> 'q MLService list \<Rightarrow>
   'q MLService list" where
  "svc_Update_quiet fault now i f t = (case svc_Update fault now i f t of Inl _ \<Rightarrow> t | Inr t' \<Rightarrow> t')"

definition svc_MarkDeleting ::
  "(rstmt \<Rightarrow> err option) \<Rightarrow> nat \<Rightarrow> string \<Rightarrow> 'q MLService list \<Rightarrow> err + 'q MLService list" where
  "svc_MarkDeleting fault now i t =
     svc_Update fault now i (\<lambda>r. r\<lparr>svc_phase := SvcDeleting, svc_deletedAt := Some now\<rparr>) t"

definition svc_MarkDeleted ::
  "(rstmt \<Rightarrow> err option) \<Rightarrow> nat \<Rightarrow> string \<Rightarrow> 'q MLService list \<Rightarrow> err + 'q MLService list" where
  "svc_MarkDeleted fault now i t =
     svc_Update fault now i (\<lambda>r. r\<lparr>svc_phase := SvcDeleted, svc_deletedAt := Some now\<rparr>) t"

definition svc_ListByNamespace ::
  "(rstmt \<Rightarrow> err option) \<Rightarrow> string \<Rightarrow> string \<Rightarrow> nat \<Rightarrow> nat \<Rightarrow> ('q MLService \<Rightarrow> bool) \<Rightarrow> 'q MLService list \<Rightarrow>
   err + ('q MLService list \<times> nat)" where
  "svc_ListByNamespace fault namespace kind limit offset label t =
     (case fault SelectList of Some e \<Rightarrow> Inl e
      | None \<Rightarrow>
          let q = filter (\<lambda>r. svc_namespace r = namespace \<and> svc_deletedAt r = None \<and>
                              (kind = [] \<or> svc_kind r = kind) \<and> label r) t
          in Inr (page svc_createdAt limit offset q, length q))"

definition svc_ListPhasesByNames ::
  "(rstmt \<Rightarrow> err option) \<Rightarrow> string \<Rightarrow> string list \<Rightarrow> 'q MLService list \<Rightarrow> err + 'q MLService list" where
  "svc_ListPhasesByNames fault namespace names t =
     (if names = [] then Inr []
      else case fault SelectList of Some e \<Rightarrow> Inl e
      | None \<Rightarrow> Inr (sort_key svc_name
          (filter (\<lambda>r. svc_namespace r = namespace \<and> svc_name r \<in> set names \<and> svc_deletedAt r = None) t)))"

definition svc_FindObservable :: "'q MLService list \<Rightarrow> 'q MLService list" where
  "svc_FindObservable t =
     work_batch svc_updatedAt
       (\<lambda>r. svc_phase r \<in> {SvcCreating, SvcPending, SvcReady, SvcDegraded, SvcFailed, SvcDeleting}) t"

record 'q svc_WorkSet =
  sw_Creating :: "'q MLService list"
  sw_Deleting :: "'q MLService list"
  sw_DispatchDirty :: "'q MLService list"

definition svc_FindWorkSet :: "'q MLService list \<Rightarrow> 'q svc_WorkSet" where
  "svc_FindWorkSet t =
     \<lparr>sw_Creating = work_batch svc_updatedAt (\<lambda>r. svc_phase r = SvcCreating \<and> svc_deletedAt r = None) t,
      sw_Deleting = work_batch svc_updatedAt (\<lambda>r. svc_phase r = SvcDeleting) t,
      sw_DispatchDirty = work_batch svc_updatedAt
        (\<lambda>r. svc_phase r \<notin> {SvcQueued, SvcCreating, SvcDeleting, SvcDeleted} \<and>
             svc_admitted r \<noteq> svc_dispatched r \<and> svc_deletedAt r = None) t\<rparr>"

section \<open>API operations\<close>

abbreviation "ServiceKindService \<equiv> ''service''"
abbreviation "ServiceKindWorkspace \<equiv> ''workspace''"
abbreviation "ServiceKindTensorBoard \<equiv> ''tensorboard''"

definition mergeSvcLabels ::
  "(string, string) gomap \<Rightarrow> (string, string) gomap \<Rightarrow> (string, string) gomap" where
  "mergeSvcLabels user system =
     foldl (\<lambda>out (k, v). if v = [] then out else AList.update k v out)
       (foldl (\<lambda>out (k, v). AList.update k v out) [] user) system"

definition svcMapBytes :: "(string, string) gomap \<Rightarrow> (string, string) gomap json" where
  "svcMapBytes m = json_marshal m"

definition new_svc_spec ::
  "string \<Rightarrow> 'q MLServiceCreateRequest \<Rightarrow> 'q Expanded \<Rightarrow> 'q MLServiceSpec" where
  "new_svc_spec namespace req expanded =
     \<lparr>ss_backend = default_backend ''native'' ''deployment'' (sin_backend req),
      ss_scheduling = \<lparr>sch_quota = ElasticQuotaName namespace (sin_poolName req),
         sch_priorityClass = sin_priorityClass req, sch_nodeSelector = ex_nodeSelector expanded,
         sch_tolerations = []\<rparr>,
      ss_configMaps = sin_configMaps req, ss_roles = expand_roles expanded (sin_roles req),
      ss_progressDeadlineSeconds = (case sin_runPolicy req of None \<Rightarrow> None | Some p \<Rightarrow> p),
      ss_route = sin_route req\<rparr>"

definition new_svc_row ::
  "'q api_env \<Rightarrow> string \<Rightarrow> 'q MLServiceCreateRequest \<Rightarrow> string \<Rightarrow> 'q MLServiceSpec \<Rightarrow> 'q MLService" where
  "new_svc_row env namespace req kind spec =
     \<lparr>svc_id = a_uuid env, svc_namespace = namespace, svc_kind = kind, svc_name = sin_name req,
      svc_displayName = sin_displayName req, svc_description = sin_description req, svc_owner = a_user env,
      svc_labels = svcMapBytes (mergeSvcLabels (sin_labels req)
         [(LabelResourcePool, sin_poolName req), (LabelResourceUnit, sin_unitName req)]),
      svc_annotations = svcMapBytes (sin_annotations req), svc_spec = json_marshal spec,
      svc_admitted = Encode (Zero (role_counts spec)), svc_dispatched = Encode (Zero (role_counts spec)),
      svc_generation = 1, svc_observedGeneration = 0, svc_phase = SvcQueued, svc_status = JOk zero_svc_status,
      svc_createdAt = a_now env, svc_updatedAt = a_now env, svc_deletedAt = None\<rparr>"

definition svc_Create ::
  "'q api_env \<Rightarrow> string \<Rightarrow> 'q MLServiceCreateRequest \<Rightarrow> 'q MLService list \<Rightarrow>
   'q MLService list \<times> (err + 'q svc_view)" where
  "svc_Create env namespace req t =
     (if \<not> IsValidName (sin_name req) then (t, Inl (EApp CodeValidation ''invalid service name''))
      else let kind = (if sin_kind req = [] then ServiceKindService else sin_kind req) in
      if kind \<notin> {ServiceKindService, ServiceKindWorkspace, ServiceKindTensorBoard}
      then (t, Inl (EApp CodeValidation (''kind must be '' @ go_quote ServiceKindService @ '', '' @
                       go_quote ServiceKindWorkspace @ '' or '' @ go_quote ServiceKindTensorBoard)))
      else case svc_GetByNamespaceName (a_fault env) namespace (sin_name req) t of
        Inr _ \<Rightarrow> (t, Inl (EApp CodeConflict ''service already exists''))
      | Inl e \<Rightarrow>
        if e \<noteq> ENotFound then (t, Inl e)
        else
          case ResolveResourcePool (a_pools env) (sin_poolName req) of Inl e \<Rightarrow> (t, Inl e) | Inr pool \<Rightarrow>
          case ResolveResourceUnit (a_pools env) (sin_poolName req) (sin_unitName req) of
            Inl e \<Rightarrow> (t, Inl e)
          | Inr unit \<Rightarrow>
              let row = new_svc_row env namespace req kind (new_svc_spec namespace req (Expand pool unit))
              in case svc_CreateRow (a_fault env) row t of
                   Inl e \<Rightarrow> (t, Inl e) | Inr t' \<Rightarrow> (t', Inr (svc_toView row)))"

definition svc_not_found :: "err \<Rightarrow> err" where
  "svc_not_found e = (if e = ENotFound then EApp CodeNotFound ''service not found'' else e)"

definition svc_GetOp :: "'q api_env \<Rightarrow> string \<Rightarrow> string \<Rightarrow> 'q MLService list \<Rightarrow> err + 'q svc_view" where
  "svc_GetOp env namespace name t =
     (case svc_GetByNamespaceName (a_fault env) namespace name t of
        Inl e \<Rightarrow> Inl (svc_not_found e) | Inr s \<Rightarrow> Inr (svc_toView s))"

definition svc_PhaseOp :: "'q api_env \<Rightarrow> string \<Rightarrow> string \<Rightarrow> 'q MLService list \<Rightarrow> err + svc_phase_view" where
  "svc_PhaseOp env namespace name t =
     (case svc_GetByNamespaceName (a_fault env) namespace name t of
        Inl e \<Rightarrow> Inl (svc_not_found e) | Inr s \<Rightarrow> Inr (svc_phaseView s))"

definition svc_PhasesByNames ::
  "'q api_env \<Rightarrow> string \<Rightarrow> string list \<Rightarrow> 'q MLService list \<Rightarrow> err + svc_phase_view list" where
  "svc_PhasesByNames env namespace names t =
     (case svc_ListPhasesByNames (a_fault env) namespace names t of
        Inl e \<Rightarrow> Inl e | Inr rows \<Rightarrow> Inr (map svc_phaseView rows))"

definition svc_List ::
  "'q api_env \<Rightarrow> string \<Rightarrow> string \<Rightarrow> nat \<Rightarrow> nat \<Rightarrow> ('q MLService \<Rightarrow> bool) \<Rightarrow> 'q MLService list \<Rightarrow>
   err + ('q svc_view list \<times> nat)" where
  "svc_List env namespace kind limit offset label t =
     (case svc_ListByNamespace (a_fault env) namespace kind limit offset label t of
        Inl e \<Rightarrow> Inl e | Inr (rows, n) \<Rightarrow> Inr (map svc_toView rows, n))"

definition svc_PhasesBySelector ::
  "'q api_env \<Rightarrow> string \<Rightarrow> string \<Rightarrow> nat \<Rightarrow> nat \<Rightarrow> ('q MLService \<Rightarrow> bool) \<Rightarrow> 'q MLService list \<Rightarrow>
   err + (svc_phase_view list \<times> nat)" where
  "svc_PhasesBySelector env namespace kind limit offset label t =
     (case svc_ListByNamespace (a_fault env) namespace kind limit offset label t of
        Inl e \<Rightarrow> Inl e | Inr (rows, n) \<Rightarrow> Inr (map svc_phaseView rows, n))"

text \<open>The columns \<open>Scale\<close> writes for the row it locked; \<open>generation + 1\<close> is SQL.\<close>

definition scale_columns ::
  "'q MLServiceSpec \<Rightarrow> int \<Rightarrow> 'q MLService \<Rightarrow> 'q MLService \<Rightarrow> 'q MLService" where
  "scale_columns spec replicas row r =
     (let desiredBefore = Desired (role_counts spec);
          admitted = Decode (svc_admitted row) (length (ss_roles spec)) desiredBefore;
          spec' = spec\<lparr>ss_roles := (ss_roles spec)[0 := (ss_roles spec ! 0)\<lparr>role_replicas := replicas\<rparr>]\<rparr>;
          desiredAfter = Desired (role_counts spec');
          admitted' = ClampToDesired admitted desiredAfter;
          status = (json_lenient zero_svc_status (svc_status row))
             \<lparr>sst_admissionReason := [], sst_admissionMessage := [], sst_admittedReplicas := 0\<rparr>
      in r\<lparr>svc_spec := json_marshal spec', svc_admitted := Encode admitted', svc_status := json_marshal status,
           svc_generation := svc_generation r + 1\<rparr>)"

definition svc_Scale ::
  "'q api_env \<Rightarrow> string \<Rightarrow> string \<Rightarrow> int \<Rightarrow> 'q MLService list \<Rightarrow> 'q MLService list \<times> (err + 'q svc_view)" where
  "svc_Scale env namespace name replicas t =
     (case svc_GetByNamespaceName (a_fault env) namespace name t of
        Inl e \<Rightarrow> (t, Inl (svc_not_found e))
      | Inr row \<Rightarrow>
          case json_decode (svc_spec row) of None \<Rightarrow> (t, Inl (EDecode ''mlservice spec'')) | Some spec \<Rightarrow>
          if ss_roles spec = [] then (t, Inl (EApp CodePrecondition ''service has no roles''))
          else case svc_Update (a_fault env) (a_now env) (svc_id row) (scale_columns spec replicas row) t of
            Inl e \<Rightarrow> (t, Inl e)
          | Inr t' \<Rightarrow>
              (t', case svc_Get (a_fault env) (svc_id row) t' of
                     Inl e \<Rightarrow> Inl e | Inr fresh \<Rightarrow> Inr (svc_toView fresh)))"

definition svc_patch_columns :: "MLServicePatchRequest \<Rightarrow> 'q MLService \<Rightarrow> 'q MLService" where
  "svc_patch_columns req r =
     (let r = (case spa_displayName req of None \<Rightarrow> r | Some v \<Rightarrow> r\<lparr>svc_displayName := v\<rparr>);
          r = (case spa_description req of None \<Rightarrow> r | Some v \<Rightarrow> r\<lparr>svc_description := v\<rparr>);
          r = (case spa_labels req of None \<Rightarrow> r | Some labels \<Rightarrow> r\<lparr>svc_labels := svcMapBytes labels\<rparr>)
      in case spa_annotations req of None \<Rightarrow> r | Some a \<Rightarrow> r\<lparr>svc_annotations := svcMapBytes a\<rparr>)"

definition svc_Patch ::
  "'q api_env \<Rightarrow> string \<Rightarrow> string \<Rightarrow> MLServicePatchRequest \<Rightarrow> 'q MLService list \<Rightarrow>
   'q MLService list \<times> (err + 'q svc_view)" where
  "svc_Patch env namespace name req t =
     (case svc_GetByNamespaceName (a_fault env) namespace name t of
        Inl e \<Rightarrow> (t, Inl (svc_not_found e))
      | Inr row \<Rightarrow>
          if spa_displayName req = None \<and> spa_description req = None \<and>
             spa_labels req = None \<and> spa_annotations req = None
          then (t, Inr (svc_toView row))
          else case svc_Update (a_fault env) (a_now env) (svc_id row) (svc_patch_columns req) t of
            Inl e \<Rightarrow> (t, Inl e)
          | Inr t' \<Rightarrow>
              (t', case svc_Get (a_fault env) (svc_id row) t' of
                     Inl e \<Rightarrow> Inl e | Inr fresh \<Rightarrow> Inr (svc_toView fresh)))"

text \<open>\<open>ActiveReferenceName\<close> of the traffic-policy repository, when one is wired in.\<close>

type_synonym policy_refs = "(string \<Rightarrow> string \<Rightarrow> err + string) option"

definition checkActivePolicyReference ::
  "(string \<Rightarrow> string \<Rightarrow> err + string) \<Rightarrow> string \<Rightarrow> string \<Rightarrow> err option" where
  "checkActivePolicyReference checker namespace name =
     (case checker namespace name of
        Inl e \<Rightarrow> Some e
      | Inr policyName \<Rightarrow>
          if policyName = [] then None
          else Some (EApp CodeConflict (''service '' @ go_quote name @ '' is referenced by active traffic policy '' @ go_quote policyName)))"

definition svc_Delete ::
  "'q api_env \<Rightarrow> policy_refs \<Rightarrow> string \<Rightarrow> string \<Rightarrow> 'q MLService list \<Rightarrow> 'q MLService list \<times> (err + unit)" where
  "svc_Delete env policyRefs namespace name t =
     (case svc_GetByNamespaceName (a_fault env) namespace name t of
        Inl e \<Rightarrow> (t, if e = ENotFound then Inr () else Inl e)
      | Inr row \<Rightarrow>
          if svc_phase row \<in> {SvcDeleting, SvcDeleted} then (t, Inr ())
          else case (if svc_kind row = ServiceKindService
                     then (case policyRefs of None \<Rightarrow> None
                           | Some refs \<Rightarrow> checkActivePolicyReference refs namespace name)
                     else None) of
            Some e \<Rightarrow> (t, Inl e)
          | None \<Rightarrow>
              (case (if svc_phase row = SvcQueued
                     then svc_MarkDeleted (a_fault env) (a_now env) (svc_id row) t
                     else svc_MarkDeleting (a_fault env) (a_now env) (svc_id row) t) of
                 Inl e \<Rightarrow> (t, Inl e) | Inr t' \<Rightarrow> (t', Inr ())))"

section \<open>Rendering\<close>

abbreviation "LabelServiceID \<equiv> ''compute.axisml.io/service-id''"
abbreviation "LabelServiceKind \<equiv> ''compute.axisml.io/service-kind''"

text \<open>\<open>Apply\<close> on a spec: the replica counts become the admitted ones.\<close>

definition Apply_spec :: "'q MLServiceSpec \<Rightarrow> int list \<Rightarrow> 'q MLServiceSpec" where
  "Apply_spec spec admitted =
     spec\<lparr>ss_roles := map2 (\<lambda>role n. role\<lparr>role_replicas := n\<rparr>) (ss_roles spec) (Apply (role_counts spec) admitted)\<rparr>"

definition svc_ToCR :: "'q MLService \<Rightarrow> bool \<Rightarrow> err + 'q MLServiceSpec cr" where
  "svc_ToCR s tenantPrefix =
     (case (if svc_spec s = JEmpty then Some zero_svc_spec else json_decode (svc_spec s)) of
        None \<Rightarrow> Inl (EDecode ''mlservice spec'')
      | Some spec \<Rightarrow>
          let desired = Desired (role_counts spec);
              admitted = Decode (svc_admitted s) (length (ss_roles spec)) desired;
              spec = Apply_spec spec admitted;
              kind = (if svc_kind s = [] then ServiceKindService else svc_kind s)
          in Inr \<lparr>cr_name = svc_name s, cr_namespace = svc_namespace s,
                  cr_labels = provenance_labels (decodeStringMap (svc_labels s))
                    [(LabelServiceID, svc_id s), (LabelServiceKind, kind), (LabelTenant, svc_namespace s),
                     (LabelQuota, sch_quota (ss_scheduling spec))],
                  cr_annotations = Annotate [] (svc_namespace s) (svc_name s) tenantPrefix,
                  cr_spec = spec\<rparr>)"

section \<open>Status reflow\<close>

definition svc_reflectObserved ::
  "(rstmt \<Rightarrow> err option) \<Rightarrow> nat \<Rightarrow> 'q MLService \<Rightarrow> int \<Rightarrow> svc_observed \<Rightarrow> 'q MLService list \<Rightarrow> 'q MLService list" where
  "svc_reflectObserved fault stamp row desired observed t =
     (if svc_phase row \<in> {SvcDeleting, SvcDeleted} then t
      else let sf = json_lenient zero_svc_status (svc_status row);
               (newPhase, mapped) = MapService (svc_phase row)
                 \<lparr>ssf_message = sst_message sf, ssf_readyReplicas = sst_readyReplicas sf,
                  ssf_endpoint = sst_endpoint sf\<rparr> desired observed;
               sf = sf\<lparr>sst_message := ssf_message mapped, sst_readyReplicas := ssf_readyReplicas mapped,
                       sst_endpoint := ssf_endpoint mapped\<rparr>
           in svc_Update_quiet fault stamp (svc_id row)
                (\<lambda>r. r\<lparr>svc_phase := newPhase, svc_status := json_marshal sf\<rparr>) t)"

definition svc_reflectGone ::
  "(rstmt \<Rightarrow> err option) \<Rightarrow> nat \<Rightarrow> 'q MLService \<Rightarrow> 'q MLService list \<Rightarrow> 'q MLService list" where
  "svc_reflectGone fault now row t =
     (if svc_phase row = SvcDeleting
      then svc_Update_quiet fault now (svc_id row)
             (\<lambda>r. r\<lparr>svc_phase := SvcDeleted, svc_deletedAt := Some now\<rparr>) t
      else if svc_phase row \<in> {SvcReady, SvcDegraded, SvcFailed}
      then let sf = (json_lenient zero_svc_status (svc_status row))\<lparr>sst_message := ''external delete''\<rparr>
           in svc_Update_quiet fault now (svc_id row)
                (\<lambda>r. r\<lparr>svc_phase := SvcDeleting, svc_status := json_marshal sf\<rparr>) t
      else t)"

definition desiredReplicas :: "'q MLService \<Rightarrow> int" where
  "desiredReplicas row =
     (case json_decode (svc_spec row) of None \<Rightarrow> 0
      | Some spec \<Rightarrow> if ss_roles spec = [] then 0 else role_replicas (ss_roles spec ! 0))"

definition serviceIDFromLabels :: "loop_env \<Rightarrow> 's cr \<Rightarrow> err + string" where
  "serviceIDFromLabels env cr =
     (case map_of (cr_labels cr) LabelServiceID of
        None \<Rightarrow> Inl (EPlain ''missing compute.axisml.io/service-id label'')
      | Some v \<Rightarrow> (case l_parseUUID env v of None \<Rightarrow> Inl (EPlain ''invalid UUID'') | Some i \<Rightarrow> Inr i))"

definition svc_onChange ::
  "loop_env \<Rightarrow> 'q MLServiceSpec cr \<Rightarrow> svc_observed \<Rightarrow> 'q MLService list \<Rightarrow> 'q MLService list" where
  "svc_onChange env cr status t =
     (case serviceIDFromLabels env cr of Inl _ \<Rightarrow> t | Inr i \<Rightarrow>
      case svc_Get (l_fault env) i t of Inl _ \<Rightarrow> t | Inr row \<Rightarrow>
        let desired = (if ss_roles (cr_spec cr) = [] then 0 else role_replicas (ss_roles (cr_spec cr) ! 0))
        in svc_reflectObserved (l_fault env) (l_now env) row desired status t)"

definition svc_onDelete :: "loop_env \<Rightarrow> 'q MLServiceSpec cr \<Rightarrow> 'q MLService list \<Rightarrow> 'q MLService list" where
  "svc_onDelete env cr t =
     (case serviceIDFromLabels env cr of Inl _ \<Rightarrow> t | Inr i \<Rightarrow>
      case svc_Get (l_fault env) i t of Inl _ \<Rightarrow> t | Inr row \<Rightarrow> svc_reflectGone (l_fault env) (l_now env) row t)"

definition svc_poll_row ::
  "loop_env \<Rightarrow> ('q MLServiceSpec, svc_observed, 'w) runtime \<Rightarrow> 'w \<Rightarrow> 'q MLService list \<Rightarrow> 'q MLService \<Rightarrow>
   'q MLService list" where
  "svc_poll_row env rt w t row =
     (case rt_observe rt (svc_nsname row) w of
        Inl e \<Rightarrow> if rte_notFound e then svc_reflectGone (l_fault env) (l_now env) row t else t
      | Inr observed \<Rightarrow>
          svc_reflectObserved (l_fault env) (l_now env) row (desiredReplicas row) observed t)"

definition svc_poll ::
  "loop_env \<Rightarrow> ('q MLServiceSpec, svc_observed, 'w) runtime \<Rightarrow> 'w \<Rightarrow> 'q MLService list \<Rightarrow> 'q MLService list" where
  "svc_poll env rt w t =
     (case l_fault env SelectList of Some e \<Rightarrow> t
      | None \<Rightarrow> foldl (svc_poll_row env rt w) t (svc_FindObservable t))"

section \<open>The reconciler\<close>

definition fullyAdmitted :: "'q MLService \<Rightarrow> bool" where
  "fullyAdmitted s =
     (case json_decode (svc_spec s) of None \<Rightarrow> False
      | Some spec \<Rightarrow>
          let desired = Desired (role_counts spec)
          in Equal (Decode (svc_admitted s) (length (ss_roles spec)) desired) desired)"

definition allZero :: "int list \<Rightarrow> bool" where
  "allZero values = list_all (\<lambda>v. v = 0) values"

definition setStatusMessage :: "loop_env \<Rightarrow> 'q MLService \<Rightarrow> string \<Rightarrow> 'q MLService list \<Rightarrow> 'q MLService list" where
  "setStatusMessage env s msg t =
     svc_Update_quiet (l_fault env) (l_now env) (svc_id s)
       (\<lambda>r. r\<lparr>svc_status := json_marshal ((json_lenient zero_svc_status (svc_status s))\<lparr>sst_message := msg\<rparr>)\<rparr>) t"

definition markDispatched :: "loop_env \<Rightarrow> 'q MLService \<Rightarrow> bool \<Rightarrow> 'q MLService list \<Rightarrow> 'q MLService list" where
  "markDispatched env s initial t =
     (case svc_UpdateWhere (l_fault env) (l_now env) (svc_id s)
            (\<lambda>r. svc_deletedAt r = None \<and> svc_phase r \<notin> {SvcDeleting, SvcDeleted} \<and>
                 (initial \<longrightarrow> svc_phase r = SvcCreating))
            (\<lambda>r. let r = r\<lparr>svc_dispatched := svc_admitted s\<rparr>
                 in if initial then r\<lparr>svc_phase := SvcPending\<rparr> else r) t of
        Inl e \<Rightarrow> t
      | Inr (t', affected) \<Rightarrow>
          if affected = 0 then t'
          else if fullyAdmitted s
          then (case svc_UpdateWhere (l_fault env) (l_now env) (svc_id s)
                       (\<lambda>r. svc_generation r = svc_generation s)
                       (\<lambda>r. r\<lparr>svc_observedGeneration := svc_generation s\<rparr>) t' of
                  Inl e \<Rightarrow> t' | Inr (t'', _) \<Rightarrow> t'')
          else t')"

text \<open>The columns a rollback writes, computed from the row it locked.\<close>

definition rollback_columns :: "'q MLServiceSpec \<Rightarrow> string \<Rightarrow> 'q MLService \<Rightarrow> 'q MLService \<Rightarrow> 'q MLService" where
  "rollback_columns spec message current r =
     (let dispatched = Decode (svc_dispatched current) (length (ss_roles spec)) (Zero (role_counts spec));
          status = (json_lenient zero_svc_status (svc_status current))
             \<lparr>sst_admissionReason := ReasonInsufficientResources, sst_admissionMessage := message,
              sst_admittedReplicas := 0\<rparr>;
          r = r\<lparr>svc_admitted := Encode dispatched, svc_status := json_marshal status\<rparr>
      in if allZero dispatched then r\<lparr>svc_phase := SvcQueued\<rparr> else r)"

definition rollbackAdmission ::
  "loop_env \<Rightarrow> 'q MLService \<Rightarrow> string \<Rightarrow> 'q MLService list \<Rightarrow> 'q MLService list" where
  "rollbackAdmission env snapshot message t =
     (case svc_Get (l_fault env) (svc_id snapshot) t of Inl e \<Rightarrow> t | Inr current \<Rightarrow>
      if svc_phase current \<in> {SvcDeleting, SvcDeleted} \<or> svc_deletedAt current \<noteq> None then t
      else case json_decode (svc_spec current) of None \<Rightarrow> t | Some spec \<Rightarrow>
        let desired = Desired (role_counts spec);
            currentAdmitted = Decode (svc_admitted current) (length (ss_roles spec)) desired;
            snapshotAdmitted = Decode (svc_admitted snapshot) (length (ss_roles spec)) desired
        in if \<not> Equal currentAdmitted snapshotAdmitted then t
           else svc_Update_quiet (l_fault env) (l_now env) (svc_id current)
                  (rollback_columns spec message current) t)"

definition svc_handleCreate ::
  "loop_env \<Rightarrow> ('q MLServiceSpec, svc_observed, 'w) runtime \<Rightarrow> 'q MLService list \<times> 'w \<Rightarrow> 'q MLService \<Rightarrow>
   'q MLService list \<times> 'w" where
  "svc_handleCreate env rt st s =
     (case st of (t, w) \<Rightarrow>
      case svc_ToCR s (l_tenantPrefix env) of Inl e \<Rightarrow> (t, w) | Inr cr \<Rightarrow>
      case rt_apply rt cr w of
        (Some e, w') \<Rightarrow>
          (if IsResourceUnavailable e then rollbackAdmission env s (rte_message e) t
           else setStatusMessage env s (rte_message e) t, w')
      | (None, w') \<Rightarrow> (markDispatched env s True t, w'))"

definition svc_handleDelete ::
  "loop_env \<Rightarrow> ('q MLServiceSpec, svc_observed, 'w) runtime \<Rightarrow> 'q MLService list \<times> 'w \<Rightarrow> 'q MLService \<Rightarrow>
   'q MLService list \<times> 'w" where
  "svc_handleDelete env rt st s =
     (case st of (t, w) \<Rightarrow>
      case rt_delete rt (svc_nsname s) w of
        (Some e, w') \<Rightarrow> (t, w')
      | (None, w') \<Rightarrow>
          (if is_not_found (rt_observe rt (svc_nsname s) w')
           then svc_Update_quiet (l_fault env) (l_now env) (svc_id s)
                  (\<lambda>r. r\<lparr>svc_phase := SvcDeleted, svc_deletedAt := Some (l_now env)\<rparr>) t
           else t, w'))"

definition svc_handleAdmissionSync ::
  "loop_env \<Rightarrow> ('q MLServiceSpec, svc_observed, 'w) runtime \<Rightarrow> 'q MLService list \<times> 'w \<Rightarrow> 'q MLService \<Rightarrow>
   'q MLService list \<times> 'w" where
  "svc_handleAdmissionSync env rt st s =
     (case st of (t, w) \<Rightarrow>
      case svc_ToCR s (l_tenantPrefix env) of Inl e \<Rightarrow> (t, w) | Inr cr \<Rightarrow>
      case rt_apply rt cr w of
        (Some e, w') \<Rightarrow> (if IsResourceUnavailable e then rollbackAdmission env s (rte_message e) t else t, w')
      | (None, w') \<Rightarrow> (markDispatched env s False t, w'))"

definition svc_runOnce ::
  "loop_env \<Rightarrow> ('q MLServiceSpec, svc_observed, 'w) runtime \<Rightarrow> 'q MLService list \<times> 'w \<Rightarrow> 'q MLService list \<times> 'w" where
  "svc_runOnce env rt st =
     (case l_fault env SelectList of Some e \<Rightarrow> st | None \<Rightarrow>
      let ws = svc_FindWorkSet (fst st);
          st = foldl (svc_handleCreate env rt) st (sw_Creating ws);
          st = foldl (svc_handleDelete env rt) st (sw_Deleting ws)
      in foldl (svc_handleAdmissionSync env rt) st (sw_DispatchDirty ws))"

end
