(* ===== verification/TrafficPolicy.thy ===== *)
theory TrafficPolicy
  imports ServiceLifecycle
begin

text \<open>
  The traffic-policy module of the compute service (\<^verbatim>\<open>compute-service/internal/trafficpolicy\<close>):
  validation of modes, weights and members, the guarded insert, the weight operations, the outbox
  reconciler and the status reflow.
\<close>

section \<open>Specs, rows, requests\<close>

record EndpointAuth =
  ea_type :: string
  ea_jwt :: "string option"

record Endpoint =
  ep_path :: string
  ep_hostname :: string
  ep_auth :: "EndpointAuth option"

record BackendMember =
  bm_serviceName :: string
  bm_role :: string
  bm_weight :: int

record TrafficSpec =
  tsp_backend :: Backend
  tsp_mode :: string
  tsp_endpoint :: Endpoint
  tsp_backends :: "BackendMember list"

record TrafficPolicyStatus =
  tps_message :: string
  tps_endpoint :: string
  tps_backends :: "traffic_backend list"

record TrafficPolicy =
  tp_id :: string
  tp_namespace :: string
  tp_name :: string
  tp_mode :: string
  tp_displayName :: string
  tp_description :: string
  tp_owner :: string
  tp_labels :: "(string, string) gomap json"
  tp_annotations :: "(string, string) gomap json"
  tp_spec :: "TrafficSpec json"
  tp_generation :: int
  tp_observedGeneration :: int
  tp_phase :: tp_phase
  tp_status :: "TrafficPolicyStatus json"
  tp_createdAt :: nat
  tp_updatedAt :: nat
  tp_deletedAt :: "nat option"

record TrafficPolicyCreateRequest =
  tin_name :: string
  tin_displayName :: string
  tin_description :: string
  tin_labels :: "(string, string) gomap"
  tin_annotations :: "(string, string) gomap"
  tin_mode :: string
  tin_endpoint :: Endpoint
  tin_backends :: "BackendMember list"

record TrafficPolicyPatchRequest =
  tpa_displayName :: "string option"
  tpa_description :: "string option"
  tpa_labels :: "(string, string) gomap option"
  tpa_annotations :: "(string, string) gomap option"

record tp_view =
  tv_id :: string
  tv_namespace :: string
  tv_name :: string
  tv_mode :: string
  tv_displayName :: string
  tv_description :: string
  tv_owner :: string
  tv_labels :: "(string, string) gomap"
  tv_annotations :: "(string, string) gomap"
  tv_generation :: int
  tv_observedGeneration :: int
  tv_phase :: tp_phase
  tv_spec :: TrafficSpec
  tv_status :: TrafficPolicyStatus
  tv_createdAt :: nat
  tv_updatedAt :: nat
  tv_deletedAt :: "nat option"

definition zero_tp_spec :: TrafficSpec where
  "zero_tp_spec = \<lparr>tsp_backend = \<lparr>be_name = [], be_engine = [], be_config = None\<rparr>, tsp_mode = [],
     tsp_endpoint = \<lparr>ep_path = [], ep_hostname = [], ep_auth = None\<rparr>, tsp_backends = []\<rparr>"

definition zero_tp_status :: TrafficPolicyStatus where
  "zero_tp_status = \<lparr>tps_message = [], tps_endpoint = [], tps_backends = []\<rparr>"

definition tp_toView :: "TrafficPolicy \<Rightarrow> tp_view" where
  "tp_toView p =
     \<lparr>tv_id = tp_id p, tv_namespace = tp_namespace p, tv_name = tp_name p, tv_mode = tp_mode p,
      tv_displayName = tp_displayName p, tv_description = tp_description p, tv_owner = tp_owner p,
      tv_labels = decodeStringMap (tp_labels p), tv_annotations = decodeStringMap (tp_annotations p),
      tv_generation = tp_generation p, tv_observedGeneration = tp_observedGeneration p,
      tv_phase = tp_phase p, tv_spec = json_lenient zero_tp_spec (tp_spec p),
      tv_status = json_lenient zero_tp_status (tp_status p), tv_createdAt = tp_createdAt p,
      tv_updatedAt = tp_updatedAt p, tv_deletedAt = tp_deletedAt p\<rparr>"

section \<open>Validation\<close>

abbreviation "TrafficModeWeighted \<equiv> ''weighted''"
abbreviation "TrafficModeCanary \<equiv> ''canary''"
abbreviation "TrafficModeBlueGreen \<equiv> ''bluegreen''"
abbreviation "RoleStable \<equiv> ''stable''"
abbreviation "RoleCanary \<equiv> ''canary''"

text \<open>\<open>roleIndex\<close>, with \<open>-1\<close> as \<open>None\<close>.\<close>

definition roleIndex :: "BackendMember list \<Rightarrow> string \<Rightarrow> nat option" where
  "roleIndex backends role = find (\<lambda>i. bm_role (backends ! i) = role) [0..<length backends]"

fun first_duplicate :: "string list \<Rightarrow> string list \<Rightarrow> string option" where
  "first_duplicate seen [] = None"
| "first_duplicate seen (n # ns) = (if n \<in> set seen then Some n else first_duplicate (n # seen) ns)"

definition validateModeShape :: "string \<Rightarrow> BackendMember list \<Rightarrow> err option" where
  "validateModeShape mode backends =
     (let shape =
        (if mode = TrafficModeWeighted \<and> length backends < 2
         then Some (EApp CodeValidation ''weighted mode requires at least 2 backends'')
         else if mode = TrafficModeCanary \<and> length backends \<noteq> 2
         then Some (EApp CodeValidation ''canary mode requires exactly 2 backends'')
         else if mode = TrafficModeCanary \<and> (roleIndex backends RoleStable = None \<or> roleIndex backends RoleCanary = None)
         then Some (EApp CodeValidation ''canary mode requires exactly one role=stable and one role=canary backend'')
         else if mode = TrafficModeBlueGreen \<and> length backends \<noteq> 2
         then Some (EApp CodeValidation ''bluegreen mode requires exactly 2 backends'')
         else None)
      in case shape of Some e \<Rightarrow> Some e
         | None \<Rightarrow> (case first_duplicate [] (map bm_serviceName backends) of
               Some n \<Rightarrow> Some (EApp CodeValidation (''duplicate member service '' @ go_quote n))
             | None \<Rightarrow> None))"

text \<open>Addition of \<open>int32\<close> values, wrap-around included.\<close>

definition add32 :: "int \<Rightarrow> int \<Rightarrow> int" where
  "add32 a b = (a + b + 2 ^ 31) mod 2 ^ 32 - 2 ^ 31"

definition sum_weights :: "BackendMember list \<Rightarrow> err + int" where
  "sum_weights backends =
     rfold (\<lambda>total_w b. if bm_weight b < 0 \<or> bm_weight b > 100
              then Inl (EApp CodeValidation (''backend '' @ go_quote (bm_serviceName b) @ '' weight must be 0..100''))
              else Inr (add32 total_w (bm_weight b))) 0 backends"

definition validateWeights :: "string \<Rightarrow> BackendMember list \<Rightarrow> err option" where
  "validateWeights mode backends =
     (case sum_weights backends of Inl e \<Rightarrow> Some e | Inr total_w \<Rightarrow>
      if mode = TrafficModeWeighted \<or> mode = TrafficModeCanary
      then (if total_w \<noteq> 100
            then Some (EApp CodeValidation (''backend weights must sum to 100; got '' @ show_int total_w)) else None)
      else if mode = TrafficModeBlueGreen
      then (let hundreds = length (filter (\<lambda>b. bm_weight b = 100) backends);
                zeros = length (filter (\<lambda>b. bm_weight b = 0) backends)
            in if hundreds \<noteq> 1 \<or> int zeros \<noteq> int (length backends) - 1
               then Some (EApp CodeValidation
                 ''bluegreen mode requires exactly one backend at weight 100 and the rest at 0'') else None)
      else None)"

section \<open>Repository\<close>

definition tp_nsname :: "TrafficPolicy \<Rightarrow> string \<times> string" where
  "tp_nsname p = (tp_namespace p, tp_name p)"

definition tp_GetByNamespaceName ::
  "(rstmt \<Rightarrow> err option) \<Rightarrow> string \<Rightarrow> string \<Rightarrow> TrafficPolicy list \<Rightarrow> err + TrafficPolicy" where
  "tp_GetByNamespaceName fault namespace name t =
     (case fault SelectByName of Some e \<Rightarrow> Inl e
      | None \<Rightarrow> get_live tp_id tp_nsname tp_deletedAt (namespace, name) t)"

definition tp_Get :: "(rstmt \<Rightarrow> err option) \<Rightarrow> string \<Rightarrow> TrafficPolicy list \<Rightarrow> err + TrafficPolicy" where
  "tp_Get fault i t =
     (case fault SelectByID of Some e \<Rightarrow> Inl e | None \<Rightarrow> first_row tp_id (\<lambda>r. tp_id r = i) t)"

definition tp_members :: "TrafficPolicy \<Rightarrow> string list" where
  "tp_members p = map bm_serviceName (tsp_backends (json_lenient zero_tp_spec (tp_spec p)))"

text \<open>\<open>deleted_at IS NULL AND EXISTS (\<dots> b->>'serviceName' = ?)\<close>\<close>

definition references :: "string \<Rightarrow> string \<Rightarrow> TrafficPolicy \<Rightarrow> bool" where
  "references namespace serviceName p \<longleftrightarrow>
     tp_namespace p = namespace \<and> tp_deletedAt p = None \<and> serviceName \<in> set (tp_members p)"

definition FindActiveReferencing ::
  "(rstmt \<Rightarrow> err option) \<Rightarrow> string \<Rightarrow> string \<Rightarrow> TrafficPolicy list \<Rightarrow> err + TrafficPolicy list" where
  "FindActiveReferencing fault namespace serviceName t =
     (case fault SelectList of Some e \<Rightarrow> Inl e
      | None \<Rightarrow> Inr (filter (references namespace serviceName) t))"

definition ActiveReferenceName ::
  "(rstmt \<Rightarrow> err option) \<Rightarrow> TrafficPolicy list \<Rightarrow> string \<Rightarrow> string \<Rightarrow> err + string" where
  "ActiveReferenceName fault t namespace serviceName =
     (case FindActiveReferencing fault namespace serviceName t of
        Inl e \<Rightarrow> Inl e | Inr [] \<Rightarrow> Inr [] | Inr (p # _) \<Rightarrow> Inr (tp_name p))"

text \<open>The transaction: all member locks in order, the occupancy check of each, the insert.\<close>

definition CreateGuarded ::
  "(rstmt \<Rightarrow> err option) \<Rightarrow> TrafficPolicy \<Rightarrow> string list \<Rightarrow> TrafficPolicy list \<Rightarrow> err + TrafficPolicy list" where
  "CreateGuarded fault p memberNames t =
     (let sorted = sort memberNames in
      case (if sorted = [] then None else fault LockMembers) of Some e \<Rightarrow> Inl e | None \<Rightarrow>
      case (if sorted = [] then None else fault SelectList) of Some e \<Rightarrow> Inl e | None \<Rightarrow>
      case find (\<lambda>name. rows_affected (references (tp_namespace p) name) t > 0) sorted of
        Some name \<Rightarrow> Inl (EApp CodeConflict (''member '' @ go_quote name @ '' is already used by an active policy''))
      | None \<Rightarrow>
          (case fault InsertRow of Some e \<Rightarrow> Inl e
           | None \<Rightarrow> insert_live tp_id tp_nsname tp_deletedAt p t))"

definition tp_Update ::
  "(rstmt \<Rightarrow> err option) \<Rightarrow> nat \<Rightarrow> string \<Rightarrow> (TrafficPolicy \<Rightarrow> TrafficPolicy) \<Rightarrow> TrafficPolicy list \<Rightarrow>
   err + TrafficPolicy list" where
  "tp_Update fault now i f t =
     (case fault UpdateRows of Some e \<Rightarrow> Inl e
      | None \<Rightarrow> Inr (update_where (\<lambda>r. tp_id r = i) (\<lambda>r. f (r\<lparr>tp_updatedAt := now\<rparr>)) t))"

definition tp_Update_quiet ::
  "(rstmt \<Rightarrow> err option) \<Rightarrow> nat \<Rightarrow> string \<Rightarrow> (TrafficPolicy \<Rightarrow> TrafficPolicy) \<Rightarrow> TrafficPolicy list \<Rightarrow>
   TrafficPolicy list" where
  "tp_Update_quiet fault now i f t = (case tp_Update fault now i f t of Inl _ \<Rightarrow> t | Inr t' \<Rightarrow> t')"

definition tp_MarkDeleting ::
  "(rstmt \<Rightarrow> err option) \<Rightarrow> nat \<Rightarrow> string \<Rightarrow> TrafficPolicy list \<Rightarrow> err + TrafficPolicy list" where
  "tp_MarkDeleting fault now i t =
     tp_Update fault now i (\<lambda>r. r\<lparr>tp_phase := TpDeleting, tp_deletedAt := Some now\<rparr>) t"

definition tp_ListByNamespace ::
  "(rstmt \<Rightarrow> err option) \<Rightarrow> string \<Rightarrow> nat \<Rightarrow> nat \<Rightarrow> (TrafficPolicy \<Rightarrow> bool) \<Rightarrow> TrafficPolicy list \<Rightarrow>
   err + (TrafficPolicy list \<times> nat)" where
  "tp_ListByNamespace fault namespace limit offset label t =
     (case fault SelectList of Some e \<Rightarrow> Inl e
      | None \<Rightarrow>
          let q = filter (\<lambda>r. tp_namespace r = namespace \<and> tp_deletedAt r = None \<and> label r) t
          in Inr (page tp_createdAt limit offset q, length q))"

definition tp_FindObservable :: "TrafficPolicy list \<Rightarrow> TrafficPolicy list" where
  "tp_FindObservable t =
     work_batch tp_updatedAt
       (\<lambda>r. tp_phase r \<in> {TpCreating, TpPending, TpReady, TpDegraded, TpFailed, TpDeleting}) t"

record tp_WorkSet =
  tw_Creating :: "TrafficPolicy list"
  tw_Deleting :: "TrafficPolicy list"
  tw_SpecDirty :: "TrafficPolicy list"

definition tp_FindWorkSet :: "TrafficPolicy list \<Rightarrow> tp_WorkSet" where
  "tp_FindWorkSet t =
     \<lparr>tw_Creating = work_batch tp_updatedAt (\<lambda>r. tp_phase r = TpCreating \<and> tp_deletedAt r = None) t,
      tw_Deleting = work_batch tp_updatedAt (\<lambda>r. tp_phase r = TpDeleting) t,
      tw_SpecDirty = work_batch tp_updatedAt
        (\<lambda>r. tp_generation r \<noteq> tp_observedGeneration r \<and> tp_deletedAt r = None) t\<rparr>"

section \<open>Members\<close>

fun svc_phase_string :: "svc_phase \<Rightarrow> string" where
  "svc_phase_string SvcQueued = ''Queued''"
| "svc_phase_string SvcCreating = ''Creating''"
| "svc_phase_string SvcPending = ''Pending''"
| "svc_phase_string SvcReady = ''Ready''"
| "svc_phase_string SvcDegraded = ''Degraded''"
| "svc_phase_string SvcFailed = ''Failed''"
| "svc_phase_string SvcDeleting = ''Deleting''"
| "svc_phase_string SvcDeleted = ''Deleted''"

text \<open>One round of the member loop: the backend family of the member.\<close>

definition member_family ::
  "(rstmt \<Rightarrow> err option) \<Rightarrow> 'q MLService list \<Rightarrow> string \<Rightarrow> TrafficPolicy list \<Rightarrow> BackendMember \<Rightarrow> err + string" where
  "member_family fault services namespace t b =
     (let name = bm_serviceName b in
      if name = [] then Inl (EApp CodeValidation ''backends[].serviceName is required'')
      else case svc_GetByNamespaceName fault namespace name services of
        Inl e \<Rightarrow> Inl (if e = ENotFound
                      then EApp CodeValidation (''member service '' @ go_quote name @ '' not found'') else e)
      | Inr row \<Rightarrow>
          if svc_kind row \<noteq> ServiceKindService
          then Inl (EApp CodeValidation (''member '' @ go_quote name @ '' is a workspace, not a service''))
          else if svc_phase row \<noteq> SvcReady
          then Inl (EApp CodePrecondition (''member '' @ go_quote name @ '' is not Ready (phase='' @
                      svc_phase_string (svc_phase row) @ '')''))
          else case FindActiveReferencing fault namespace name t of
            Inl e \<Rightarrow> Inl e
          | Inr (ref # _) \<Rightarrow> Inl (EApp CodeConflict (''member '' @ go_quote name @
                      '' is already used by active policy '' @ go_quote (tp_name ref)))
          | Inr [] \<Rightarrow>
              let fam = be_name (ss_backend (json_lenient zero_svc_spec (svc_spec row)))
              in Inr (if fam = [] then ''native'' else fam))"

definition validateMembers ::
  "(rstmt \<Rightarrow> err option) \<Rightarrow> 'q MLService list option \<Rightarrow> string \<Rightarrow> string \<Rightarrow> BackendMember list \<Rightarrow>
   TrafficPolicy list \<Rightarrow> err + (string \<times> string)" where
  "validateMembers fault members namespace mode backends t =
     (case members of None \<Rightarrow> Inr (''native'', ''httproute'') | Some services \<Rightarrow>
      case collect (member_family fault services namespace t) backends of Inl e \<Rightarrow> Inl e | Inr fams \<Rightarrow>
      case remdups fams of
        [family] \<Rightarrow>
          if family = ''native'' then Inr (''native'', ''httproute'')
          else if family = ''kserve''
          then (if mode \<noteq> TrafficModeCanary \<or> length backends \<noteq> 2
                then Inl (EApp CodeValidation ''kserve members require mode=canary with exactly 2 backends'')
                else Inr (''kserve'', ''inference''))
          else Inl (EApp CodeValidation (''unsupported backend family '' @ go_quote family))
      | _ \<Rightarrow> Inl (EApp CodeValidation
               ''all member services must share the same backend family (all native or all kserve)''))"

section \<open>API operations\<close>

definition new_tp_row ::
  "'q api_env \<Rightarrow> string \<Rightarrow> TrafficPolicyCreateRequest \<Rightarrow> string \<times> string \<Rightarrow> TrafficPolicy" where
  "new_tp_row env namespace req fe =
     (let endpoint = (if ep_path (tin_endpoint req) = []
                      then (tin_endpoint req)\<lparr>ep_path := ''/services/'' @ namespace @ ''/'' @ tin_name req @ ''/''\<rparr>
                      else tin_endpoint req)
      in \<lparr>tp_id = a_uuid env, tp_namespace = namespace, tp_name = tin_name req, tp_mode = tin_mode req,
          tp_displayName = tin_displayName req, tp_description = tin_description req, tp_owner = a_user env,
          tp_labels = mapBytes (tin_labels req), tp_annotations = mapBytes (tin_annotations req),
          tp_spec = json_marshal \<lparr>tsp_backend = \<lparr>be_name = fst fe, be_engine = snd fe, be_config = None\<rparr>,
             tsp_mode = tin_mode req, tsp_endpoint = endpoint, tsp_backends = tin_backends req\<rparr>,
          tp_generation = 1, tp_observedGeneration = 0, tp_phase = TpCreating, tp_status = JOk zero_tp_status,
          tp_createdAt = a_now env, tp_updatedAt = a_now env, tp_deletedAt = None\<rparr>)"

definition tp_Create ::
  "'q api_env \<Rightarrow> 'q MLService list option \<Rightarrow> string \<Rightarrow> TrafficPolicyCreateRequest \<Rightarrow> TrafficPolicy list \<Rightarrow>
   TrafficPolicy list \<times> (err + tp_view)" where
  "tp_Create env members namespace req t =
     (if \<not> IsValidName (tin_name req) then (t, Inl (EApp CodeValidation ''invalid traffic-policy name''))
      else let mode = tin_mode req in
      if mode \<notin> {TrafficModeWeighted, TrafficModeCanary, TrafficModeBlueGreen}
      then (t, Inl (EApp CodeValidation (''unknown mode '' @ go_quote mode)))
      else if (case ep_auth (tin_endpoint req) of None \<Rightarrow> False | Some a \<Rightarrow> ea_type a = ''jwt'')
      then (t, Inl (EApp CodeValidation ''endpoint.auth=jwt is not yet supported (SecurityPolicy derivation pending); omit auth or use type=none''))
      else case tp_GetByNamespaceName (a_fault env) namespace (tin_name req) t of
        Inr _ \<Rightarrow> (t, Inl (EApp CodeConflict ''traffic policy already exists''))
      | Inl e \<Rightarrow>
        if e \<noteq> ENotFound then (t, Inl e)
        else case validateModeShape mode (tin_backends req) of Some e \<Rightarrow> (t, Inl e) | None \<Rightarrow>
        case validateWeights mode (tin_backends req) of Some e \<Rightarrow> (t, Inl e) | None \<Rightarrow>
        case validateMembers (a_fault env) members namespace mode (tin_backends req) t of
          Inl e \<Rightarrow> (t, Inl e)
        | Inr fe \<Rightarrow>
            let row = new_tp_row env namespace req fe
            in case CreateGuarded (a_fault env) row (map bm_serviceName (tin_backends req)) t of
                 Inl e \<Rightarrow> (t, Inl e) | Inr t' \<Rightarrow> (t', Inr (tp_toView row)))"

definition tp_not_found :: "err \<Rightarrow> err" where
  "tp_not_found e = (if e = ENotFound then EApp CodeNotFound ''traffic policy not found'' else e)"

definition tp_GetOp :: "'q api_env \<Rightarrow> string \<Rightarrow> string \<Rightarrow> TrafficPolicy list \<Rightarrow> err + tp_view" where
  "tp_GetOp env namespace name t =
     (case tp_GetByNamespaceName (a_fault env) namespace name t of
        Inl e \<Rightarrow> Inl (tp_not_found e) | Inr p \<Rightarrow> Inr (tp_toView p))"

definition tp_List ::
  "'q api_env \<Rightarrow> string \<Rightarrow> nat \<Rightarrow> nat \<Rightarrow> (TrafficPolicy \<Rightarrow> bool) \<Rightarrow> TrafficPolicy list \<Rightarrow> err + (tp_view list \<times> nat)" where
  "tp_List env namespace limit offset label t =
     (case tp_ListByNamespace (a_fault env) namespace limit offset label t of
        Inl e \<Rightarrow> Inl e | Inr (rows, n) \<Rightarrow> Inr (map tp_toView rows, n))"

definition reread :: "'q api_env \<Rightarrow> string \<Rightarrow> TrafficPolicy list \<Rightarrow> err + tp_view" where
  "reread env i t = (case tp_Get (a_fault env) i t of Inl e \<Rightarrow> Inl e | Inr p \<Rightarrow> Inr (tp_toView p))"

definition tp_patch_columns :: "TrafficPolicyPatchRequest \<Rightarrow> TrafficPolicy \<Rightarrow> TrafficPolicy" where
  "tp_patch_columns req r =
     (let r = (case tpa_displayName req of None \<Rightarrow> r | Some v \<Rightarrow> r\<lparr>tp_displayName := v\<rparr>);
          r = (case tpa_description req of None \<Rightarrow> r | Some v \<Rightarrow> r\<lparr>tp_description := v\<rparr>);
          r = (case tpa_labels req of None \<Rightarrow> r | Some v \<Rightarrow> r\<lparr>tp_labels := mapBytes v\<rparr>)
      in case tpa_annotations req of None \<Rightarrow> r | Some v \<Rightarrow> r\<lparr>tp_annotations := mapBytes v\<rparr>)"

definition tp_Patch ::
  "'q api_env \<Rightarrow> string \<Rightarrow> string \<Rightarrow> TrafficPolicyPatchRequest \<Rightarrow> TrafficPolicy list \<Rightarrow>
   TrafficPolicy list \<times> (err + tp_view)" where
  "tp_Patch env namespace name req t =
     (case tp_GetByNamespaceName (a_fault env) namespace name t of
        Inl e \<Rightarrow> (t, Inl (tp_not_found e))
      | Inr row \<Rightarrow>
          if tpa_displayName req = None \<and> tpa_description req = None \<and> tpa_labels req = None \<and>
             tpa_annotations req = None
          then (t, Inr (tp_toView row))
          else case tp_Update (a_fault env) (a_now env) (tp_id row) (tp_patch_columns req) t of
            Inl e \<Rightarrow> (t, Inl e) | Inr t' \<Rightarrow> (t', reread env (tp_id row) t'))"

definition tp_Delete ::
  "'q api_env \<Rightarrow> string \<Rightarrow> string \<Rightarrow> TrafficPolicy list \<Rightarrow> TrafficPolicy list \<times> (err + unit)" where
  "tp_Delete env namespace name t =
     (case tp_GetByNamespaceName (a_fault env) namespace name t of
        Inl e \<Rightarrow> (t, if e = ENotFound then Inr () else Inl e)
      | Inr row \<Rightarrow>
          if tp_phase row \<in> {TpDeleting, TpDeleted} then (t, Inr ())
          else case tp_MarkDeleting (a_fault env) (a_now env) (tp_id row) t of
                 Inl e \<Rightarrow> (t, Inl e) | Inr t' \<Rightarrow> (t', Inr ()))"

definition tp_load ::
  "'q api_env \<Rightarrow> string \<Rightarrow> string \<Rightarrow> TrafficPolicy list \<Rightarrow> err + (TrafficPolicy \<times> TrafficSpec)" where
  "tp_load env namespace name t =
     (case tp_GetByNamespaceName (a_fault env) namespace name t of
        Inl e \<Rightarrow> Inl (tp_not_found e)
      | Inr row \<Rightarrow> (case json_decode (tp_spec row) of
            None \<Rightarrow> Inl (EDecode ''traffic policy spec'') | Some spec \<Rightarrow> Inr (row, spec)))"

definition spec_columns :: "TrafficSpec \<Rightarrow> TrafficPolicy \<Rightarrow> TrafficPolicy" where
  "spec_columns spec r = r\<lparr>tp_spec := json_marshal spec, tp_generation := tp_generation r + 1\<rparr>"

definition persistSpec ::
  "'q api_env \<Rightarrow> TrafficPolicy \<Rightarrow> TrafficSpec \<Rightarrow> TrafficPolicy list \<Rightarrow> TrafficPolicy list \<times> (err + tp_view)" where
  "persistSpec env row spec t =
     (case tp_Update (a_fault env) (a_now env) (tp_id row) (spec_columns spec) t of
        Inl e \<Rightarrow> (t, Inl e) | Inr t' \<Rightarrow> (t', reread env (tp_id row) t'))"

text \<open>The weights a split asks for: a later entry for a name wins.\<close>

definition split_backends :: "(string \<times> int) list \<Rightarrow> BackendMember list \<Rightarrow> BackendMember list" where
  "split_backends updates backends =
     (let weightByName = foldl (\<lambda>m (n, w). AList.update n w m) [] updates
      in map (\<lambda>b. case map_of weightByName (bm_serviceName b) of
                     Some w \<Rightarrow> b\<lparr>bm_weight := w\<rparr> | None \<Rightarrow> b) backends)"

definition tp_Split ::
  "'q api_env \<Rightarrow> string \<Rightarrow> string \<Rightarrow> (string \<times> int) list \<Rightarrow> TrafficPolicy list \<Rightarrow>
   TrafficPolicy list \<times> (err + tp_view)" where
  "tp_Split env namespace name updates t =
     (case tp_load env namespace name t of Inl e \<Rightarrow> (t, Inl e) | Inr (row, spec) \<Rightarrow>
      let spec' = spec\<lparr>tsp_backends := split_backends updates (tsp_backends spec)\<rparr> in
      case validateWeights (tsp_mode spec') (tsp_backends spec') of
        Some e \<Rightarrow> (t, Inl e) | None \<Rightarrow> persistSpec env row spec' t)"

definition promote_backends :: "nat \<Rightarrow> nat \<Rightarrow> BackendMember list \<Rightarrow> BackendMember list" where
  "promote_backends si ci bs =
     (let bs = bs[ci := (bs ! ci)\<lparr>bm_role := RoleStable, bm_weight := 100\<rparr>]
      in bs[si := (bs ! si)\<lparr>bm_role := RoleCanary, bm_weight := 0\<rparr>])"

definition tp_Promote ::
  "'q api_env \<Rightarrow> string \<Rightarrow> string \<Rightarrow> TrafficPolicy list \<Rightarrow> TrafficPolicy list \<times> (err + tp_view)" where
  "tp_Promote env namespace name t =
     (case tp_load env namespace name t of Inl e \<Rightarrow> (t, Inl e) | Inr (row, spec) \<Rightarrow>
      if tsp_mode spec \<noteq> TrafficModeCanary
      then (t, Inl (EApp CodePrecondition ''promote is only valid for canary policies''))
      else case (roleIndex (tsp_backends spec) RoleStable, roleIndex (tsp_backends spec) RoleCanary) of
        (Some si, Some ci) \<Rightarrow>
          persistSpec env row (spec\<lparr>tsp_backends := promote_backends si ci (tsp_backends spec)\<rparr>) t
      | _ \<Rightarrow> (t, Inl (EApp CodePrecondition ''canary policy must have one stable and one canary backend'')))"

definition rollback_backends :: "nat \<Rightarrow> nat \<Rightarrow> BackendMember list \<Rightarrow> BackendMember list" where
  "rollback_backends si ci bs =
     (let bs = bs[ci := (bs ! ci)\<lparr>bm_weight := 0\<rparr>] in bs[si := (bs ! si)\<lparr>bm_weight := 100\<rparr>])"

definition tp_Rollback ::
  "'q api_env \<Rightarrow> string \<Rightarrow> string \<Rightarrow> TrafficPolicy list \<Rightarrow> TrafficPolicy list \<times> (err + tp_view)" where
  "tp_Rollback env namespace name t =
     (case tp_load env namespace name t of Inl e \<Rightarrow> (t, Inl e) | Inr (row, spec) \<Rightarrow>
      if tsp_mode spec \<noteq> TrafficModeCanary
      then (t, Inl (EApp CodePrecondition ''rollback is only valid for canary policies''))
      else case (roleIndex (tsp_backends spec) RoleStable, roleIndex (tsp_backends spec) RoleCanary) of
        (Some si, Some ci) \<Rightarrow>
          persistSpec env row (spec\<lparr>tsp_backends := rollback_backends si ci (tsp_backends spec)\<rparr>) t
      | _ \<Rightarrow> (t, Inl (EApp CodePrecondition ''canary policy must have one stable and one canary backend'')))"

section \<open>Rendering and reflow\<close>

abbreviation "LabelTrafficPolicyID \<equiv> ''compute.axisml.io/traffic-policy-id''"

definition tp_ToCR :: "TrafficPolicy \<Rightarrow> bool \<Rightarrow> err + TrafficSpec cr" where
  "tp_ToCR p tenantPrefix =
     (case (if tp_spec p = JEmpty then Some zero_tp_spec else json_decode (tp_spec p)) of
        None \<Rightarrow> Inl (EDecode ''traffic policy spec'')
      | Some spec \<Rightarrow>
          Inr \<lparr>cr_name = tp_name p, cr_namespace = tp_namespace p,
               cr_labels = [(LabelTrafficPolicyID, tp_id p), (LabelTenant, tp_namespace p)],
               cr_annotations = Annotate [] (tp_namespace p) (tp_name p) tenantPrefix, cr_spec = spec\<rparr>)"

definition tp_reflectObserved ::
  "(rstmt \<Rightarrow> err option) \<Rightarrow> nat \<Rightarrow> TrafficPolicy \<Rightarrow> traffic_observed \<Rightarrow> TrafficPolicy list \<Rightarrow> TrafficPolicy list" where
  "tp_reflectObserved fault stamp row observed t =
     (if tp_phase row \<in> {TpDeleting, TpDeleted} then t
      else let sf = json_lenient zero_tp_status (tp_status row);
               cur = \<lparr>ts_message = tps_message sf, ts_endpoint = tps_endpoint sf, ts_backends = tps_backends sf\<rparr>;
               (newPhase, mapped) = MapTraffic (tp_phase row) cur observed;
               sf = sf\<lparr>tps_message := ts_message mapped, tps_endpoint := ts_endpoint mapped,
                       tps_backends := ts_backends mapped\<rparr>
           in tp_Update_quiet fault stamp (tp_id row)
                (\<lambda>r. r\<lparr>tp_phase := newPhase, tp_status := json_marshal sf\<rparr>) t)"

definition tp_reflectGone ::
  "(rstmt \<Rightarrow> err option) \<Rightarrow> nat \<Rightarrow> TrafficPolicy \<Rightarrow> TrafficPolicy list \<Rightarrow> TrafficPolicy list" where
  "tp_reflectGone fault now row t =
     (if tp_phase row = TpDeleting
      then tp_Update_quiet fault now (tp_id row) (\<lambda>r. r\<lparr>tp_phase := TpDeleted, tp_deletedAt := Some now\<rparr>) t
      else if tp_phase row \<in> {TpPending, TpReady, TpDegraded, TpFailed}
      then tp_Update_quiet fault now (tp_id row) (\<lambda>r. r\<lparr>tp_observedGeneration := tp_generation row - 1\<rparr>) t
      else t)"

definition policyIDFromLabels :: "loop_env \<Rightarrow> 's cr \<Rightarrow> err + string" where
  "policyIDFromLabels env cr =
     (case map_of (cr_labels cr) LabelTrafficPolicyID of
        None \<Rightarrow> Inl (EPlain ''missing compute.axisml.io/traffic-policy-id label'')
      | Some v \<Rightarrow> (case l_parseUUID env v of None \<Rightarrow> Inl (EPlain ''invalid UUID'') | Some i \<Rightarrow> Inr i))"

definition tp_onChange ::
  "loop_env \<Rightarrow> TrafficSpec cr \<Rightarrow> traffic_observed \<Rightarrow> TrafficPolicy list \<Rightarrow> TrafficPolicy list" where
  "tp_onChange env cr status t =
     (case policyIDFromLabels env cr of Inl _ \<Rightarrow> t | Inr i \<Rightarrow>
      case tp_Get (l_fault env) i t of Inl _ \<Rightarrow> t | Inr row \<Rightarrow>
        tp_reflectObserved (l_fault env) (l_now env) row status t)"

definition tp_onDelete :: "loop_env \<Rightarrow> TrafficSpec cr \<Rightarrow> TrafficPolicy list \<Rightarrow> TrafficPolicy list" where
  "tp_onDelete env cr t =
     (case policyIDFromLabels env cr of Inl _ \<Rightarrow> t | Inr i \<Rightarrow>
      case tp_Get (l_fault env) i t of Inl _ \<Rightarrow> t | Inr row \<Rightarrow> tp_reflectGone (l_fault env) (l_now env) row t)"

definition tp_poll_row ::
  "loop_env \<Rightarrow> (TrafficSpec, traffic_observed, 'w) runtime \<Rightarrow> 'w \<Rightarrow> TrafficPolicy list \<Rightarrow> TrafficPolicy \<Rightarrow>
   TrafficPolicy list" where
  "tp_poll_row env rt w t row =
     (case rt_observe rt (tp_nsname row) w of
        Inl e \<Rightarrow> if rte_notFound e then tp_reflectGone (l_fault env) (l_now env) row t else t
      | Inr observed \<Rightarrow> tp_reflectObserved (l_fault env) (l_now env) row observed t)"

definition tp_poll ::
  "loop_env \<Rightarrow> (TrafficSpec, traffic_observed, 'w) runtime \<Rightarrow> 'w \<Rightarrow> TrafficPolicy list \<Rightarrow> TrafficPolicy list" where
  "tp_poll env rt w t =
     (case l_fault env SelectList of Some e \<Rightarrow> t
      | None \<Rightarrow> foldl (tp_poll_row env rt w) t (tp_FindObservable t))"

section \<open>The reconciler\<close>

definition tp_handleCreate ::
  "loop_env \<Rightarrow> (TrafficSpec, traffic_observed, 'w) runtime \<Rightarrow> TrafficPolicy list \<times> 'w \<Rightarrow> TrafficPolicy \<Rightarrow>
   TrafficPolicy list \<times> 'w" where
  "tp_handleCreate env rt st p =
     (case st of (t, w) \<Rightarrow>
      case tp_ToCR p (l_tenantPrefix env) of Inl e \<Rightarrow> (t, w) | Inr cr \<Rightarrow>
      case rt_apply rt cr w of
        (Some e, w') \<Rightarrow>
          (tp_Update_quiet (l_fault env) (l_now env) (tp_id p)
             (\<lambda>r. r\<lparr>tp_status := json_marshal ((json_lenient zero_tp_status (tp_status p))
                      \<lparr>tps_message := rte_message e\<rparr>)\<rparr>) t, w')
      | (None, w') \<Rightarrow>
          (tp_Update_quiet (l_fault env) (l_now env) (tp_id p)
             (\<lambda>r. r\<lparr>tp_observedGeneration := tp_generation p\<rparr>) t, w'))"

definition tp_handleDelete ::
  "loop_env \<Rightarrow> (TrafficSpec, traffic_observed, 'w) runtime \<Rightarrow> TrafficPolicy list \<times> 'w \<Rightarrow> TrafficPolicy \<Rightarrow>
   TrafficPolicy list \<times> 'w" where
  "tp_handleDelete env rt st p =
     (case st of (t, w) \<Rightarrow>
      case rt_delete rt (tp_nsname p) w of
        (Some e, w') \<Rightarrow> (t, w')
      | (None, w') \<Rightarrow>
          (if is_not_found (rt_observe rt (tp_nsname p) w')
           then tp_Update_quiet (l_fault env) (l_now env) (tp_id p)
                  (\<lambda>r. r\<lparr>tp_phase := TpDeleted, tp_deletedAt := Some (l_now env)\<rparr>) t
           else t, w'))"

definition tp_handleSpecSync ::
  "loop_env \<Rightarrow> (TrafficSpec, traffic_observed, 'w) runtime \<Rightarrow> TrafficPolicy list \<times> 'w \<Rightarrow> TrafficPolicy \<Rightarrow>
   TrafficPolicy list \<times> 'w" where
  "tp_handleSpecSync env rt st p =
     (case st of (t, w) \<Rightarrow>
      case tp_ToCR p (l_tenantPrefix env) of Inl e \<Rightarrow> (t, w) | Inr cr \<Rightarrow>
      case rt_apply rt cr w of
        (Some e, w') \<Rightarrow> (t, w')
      | (None, w') \<Rightarrow>
          (tp_Update_quiet (l_fault env) (l_now env) (tp_id p)
             (\<lambda>r. r\<lparr>tp_observedGeneration := tp_generation p\<rparr>) t, w'))"

definition tp_runOnce ::
  "loop_env \<Rightarrow> (TrafficSpec, traffic_observed, 'w) runtime \<Rightarrow> TrafficPolicy list \<times> 'w \<Rightarrow> TrafficPolicy list \<times> 'w" where
  "tp_runOnce env rt st =
     (case l_fault env SelectList of Some e \<Rightarrow> st | None \<Rightarrow>
      let ws = tp_FindWorkSet (fst st);
          st = foldl (tp_handleCreate env rt) st (tw_Creating ws);
          st = foldl (tp_handleDelete env rt) st (tw_Deleting ws)
      in foldl (tp_handleSpecSync env rt) st (tw_SpecDirty ws))"

end
