(* ===== verification/DockerPlan.thy ===== *)
theory DockerPlan
  imports ListApi ServiceLifecycle TrafficPolicy ApiProgram
begin

text \<open>
  The standalone runtime, first part (\<^verbatim>\<open>axisml-standalone/internal/runtime/docker\<close>): from a run or a service to
  container plans. Paths and names, ConfigMaps and the environment (\<^verbatim>\<open>configmap.go\<close>), mounts
  (\<^verbatim>\<open>service.go\<close>), pull policies, resources, the Docker request of a plan (\<^verbatim>\<open>plan.go\<close>), and the rendering of
  runs and services (\<^verbatim>\<open>run.go\<close>, \<^verbatim>\<open>service.go\<close>).

  Parameters (\<open>dlib\<close>): the validators of \<open>k8s.io/apimachinery\<close>, the parser of image references, the
  readings of a \<open>resource.Quantity\<close>, \<open>nat.NewPort\<close> and the JSON encoder. \<open>path.Clean\<close>, \<open>path.Join\<close> and
  \<open>strings.Split\<close> are those of the Go library; \<open>filepath\<close> is \<open>path\<close> on the hosts the runtime runs on.
\<close>

section \<open>Errors\<close>

text \<open>
  The errors of the runtime by what a caller can tell of them (\<open>cerrdefs\<close>, \<open>apierrors\<close>, \<open>errors.As\<close>).
  \<open>fmt.Errorf\<close> with \<open>%w\<close> keeps the kind.
\<close>

datatype derr_kind = DkNotFound | DkConflict | DkOther | CapabilityError | ResourceUnavailable | TerminalApply | ApiNotFound
  | NotOwned | GoPanic

record derr =
  de_kind :: derr_kind
  de_msg :: string

definition dwrap :: "string \<Rightarrow> derr \<Rightarrow> derr" where
  "dwrap pre e = e\<lparr>de_msg := pre @ de_msg e\<rparr>"

definition derror :: "derr_kind \<Rightarrow> string \<Rightarrow> derr" where
  "derror k m = \<lparr>de_kind = k, de_msg = m\<rparr>"

definition capabilityError :: "string \<Rightarrow> derr" where
  "capabilityError m = derror CapabilityError m"

section \<open>Paths and names\<close>

fun split_on :: "char \<Rightarrow> string \<Rightarrow> string list" where
  "split_on c [] = [[]]"
| "split_on c (x # xs) =
     (if x = c then [] # split_on c xs else case split_on c xs of [] \<Rightarrow> [[x]] | y # ys \<Rightarrow> (x # y) # ys)"

definition clean_step :: "bool \<Rightarrow> string list \<Rightarrow> string \<Rightarrow> string list" where
  "clean_step rooted out c =
     (if c = [] \<or> c = ''.'' then out
      else if c = ''..'' then
        (case out of [] \<Rightarrow> if rooted then [] else [''..''] | x # rest \<Rightarrow> if x = ''..'' then ''..'' # out else rest)
      else c # out)"

definition isAbs :: "string \<Rightarrow> bool" where
  "isAbs p \<longleftrightarrow> (case p of [] \<Rightarrow> False | c # _ \<Rightarrow> c = CHR ''/'')"

definition clean_comps :: "string \<Rightarrow> string list" where
  "clean_comps p = rev (foldl (clean_step (isAbs p)) [] (split_on (CHR ''/'') p))"

text \<open>\<open>path.Clean\<close> and \<open>path.Join\<close>.\<close>

definition path_Clean :: "string \<Rightarrow> string" where
  "path_Clean p =
     (if isAbs p then ''/'' @ join ''/'' (clean_comps p)
      else if clean_comps p = [] then ''.'' else join ''/'' (clean_comps p))"

definition path_Join :: "string list \<Rightarrow> string" where
  "path_Join elems = (let es = filter (\<lambda>e. e \<noteq> []) elems in if es = [] then [] else path_Clean (join ''/'' es))"

definition hasPrefix :: "string \<Rightarrow> string \<Rightarrow> bool" where
  "hasPrefix pre s \<longleftrightarrow> take (length pre) s = pre"

definition safe_char :: "char \<Rightarrow> bool" where
  "safe_char c \<longleftrightarrow> in_range (CHR ''a'') (CHR ''z'') c \<or> in_range (CHR ''A'') (CHR ''Z'') c \<or> in_range (CHR ''0'') (CHR ''9'') c \<or>
     c = CHR ''_'' \<or> c = CHR ''.'' \<or> c = CHR ''-''"

text \<open>\<open>nameSanitizer.ReplaceAllString(raw, "-")\<close>: every maximal run of other characters becomes one dash.\<close>

fun sanitize :: "bool \<Rightarrow> string \<Rightarrow> string" where
  "sanitize inside [] = []"
| "sanitize inside (c # s) =
     (if safe_char c then c # sanitize False s else if inside then sanitize True s else CHR ''-'' # sanitize True s)"

definition instance_name_of :: "string \<Rightarrow> string" where
  "instance_name_of raw =
     (let clean = sanitize False raw in
      if clean = raw \<and> length clean \<le> 63 then clean
      else trimRight (if length clean > 54 then take 54 clean else clean) @ ''-'' @ shortHash raw)"

definition bounded_name :: "string \<Rightarrow> string \<Rightarrow> string" where
  "bounded_name raw pre =
     (if sanitize False raw = raw \<and> length raw \<le> 100 then raw else pre @ shortHash raw)"

definition volumeName :: "string \<Rightarrow> string \<Rightarrow> string \<Rightarrow> string" where
  "volumeName ns name vol = bounded_name (''axisml-vol-'' @ ns @ ''-'' @ name @ ''-'' @ vol) ''axisml-vol-''"

definition pvcVolumeName :: "string \<Rightarrow> string \<Rightarrow> string" where
  "pvcVolumeName ns claim = bounded_name (''axisml-'' @ ns @ ''-'' @ claim) ''axisml-vol-''"

section \<open>ConfigMaps\<close>

record image_ref =
  ir_digested :: bool
  ir_tag :: "string option"

record ConfigMapFile =
  cmf_data :: string
  cmf_mode :: int

text \<open>Plans.\<close>

record PortPlan =
  pop_name :: string
  pop_containerPort :: int
  pop_protocol :: string

record MountPlan =
  mp_type :: string
  mp_source :: string
  mp_target :: string
  mp_subPath :: string
  mp_readOnly :: bool
  mp_configMapPath :: string
  mp_configMapFiles :: "(string, ConfigMapFile) gomap"

record ResourcePlan =
  rep_nanoCPUs :: int
  rep_memoryBytes :: int
  rep_gpuCount :: int
  rep_gpuDeviceIDs :: "string list"

record HealthPlan =
  hp_test :: "string list"
  hp_interval :: int
  hp_timeout :: int
  hp_retries :: int

record ContainerPlan =
  cp_name :: string
  cp_namePrefix :: string
  cp_replica :: nat
  cp_stableOrdinal :: bool
  cp_image :: string
  cp_imagePullPolicy :: string
  cp_command :: "string list"
  cp_args :: "string list"
  cp_env :: "string list"
  cp_workingDir :: string
  cp_labels :: "(string, string) gomap"
  cp_ports :: "PortPlan list"
  cp_mounts :: "MountPlan list"
  cp_resources :: ResourcePlan
  cp_restartPolicy :: string
  cp_healthcheck :: "HealthPlan option"

record plan_identity =
  pid_image :: string
  pid_imagePullPolicy :: string
  pid_command :: "string list"
  pid_args :: "string list"
  pid_env :: "string list"
  pid_workingDir :: string
  pid_ports :: "PortPlan list"
  pid_mounts :: "MountPlan list"
  pid_nanoCPUs :: int
  pid_memoryBytes :: int
  pid_gpuCount :: int
  pid_restartPolicy :: string

record 'q dlib =
  dl_isDNS1123Subdomain :: "string \<Rightarrow> string list"
  dl_isConfigMapKey :: "string \<Rightarrow> string list"
  dl_isEnvVarName :: "string \<Rightarrow> string list"
  dl_parseImage :: "string \<Rightarrow> string + image_ref"
  dl_milliValue :: "'q \<Rightarrow> int"
  dl_value :: "'q \<Rightarrow> int"
  dl_milliQuantity :: "int \<Rightarrow> 'q"
  dl_quantity :: "int \<Rightarrow> 'q"
  dl_newPort :: "string \<Rightarrow> int \<Rightarrow> string"
  dl_marshalPlan :: "plan_identity \<Rightarrow> int list"
  dl_marshalFiles :: "(string, ConfigMapFile) gomap \<Rightarrow> int list"
  dl_readManifest :: "string \<Rightarrow> (string, string) gomap option"
  dl_marshalManifest :: "(string, string) gomap \<Rightarrow> string"

record dconfig =
  dcf_network :: string
  dcf_gatewayConfigDir :: string
  dcf_configMapsDir :: string
  dcf_configMapsVolume :: string
  dcf_hostPathVolumes :: "(string, string) gomap"

type_synonym configMapSet = "(string, (string, string) gomap) gomap"

definition config_map_step ::
  "'q dlib \<Rightarrow> configMapSet \<Rightarrow> nat \<times> WorkloadConfigMap \<Rightarrow> derr + configMapSet" where
  "config_map_step lib out = (\<lambda>(i, spec).
     let at = ''configMaps['' @ show_nat i @ '']'' in
     if dl_isDNS1123Subdomain lib (cfm_name spec) \<noteq> []
     then Inl (capabilityError (at @ ''.name '' @ go_quote (cfm_name spec) @ '' is invalid: '' @ join ''; '' (dl_isDNS1123Subdomain lib (cfm_name spec))))
     else if map_of out (cfm_name spec) \<noteq> None
     then Inl (capabilityError (at @ ''.name '' @ go_quote (cfm_name spec) @ '' is duplicated''))
     else (case find (\<lambda>(k, v). dl_isConfigMapKey lib k \<noteq> []) (cfm_data spec) of
             Some (k, v) \<Rightarrow> Inl (capabilityError (at @ ''.data key '' @ go_quote k @ '' is invalid: '' @ join ''; '' (dl_isConfigMapKey lib k)))
           | None \<Rightarrow> Inr (AList.update (cfm_name spec) (cfm_data spec) out)))"

definition newConfigMapSet :: "'q dlib \<Rightarrow> WorkloadConfigMap list \<Rightarrow> derr + configMapSet" where
  "newConfigMapSet lib specs = rfold (config_map_step lib) [] (enumerate 0 specs)"

text \<open>The data, or \<open>None\<close> when an optional map is missing.\<close>

definition referencedConfigMap :: "configMapSet \<Rightarrow> string \<Rightarrow> bool option \<Rightarrow> derr + (string, string) gomap option" where
  "referencedConfigMap cms name optional =
     (case map_of cms name of
        Some data \<Rightarrow> Inr (Some data)
      | None \<Rightarrow> if optional = Some True then Inr None
          else Inl (capabilityError (''ConfigMap '' @ go_quote name @ '' is not declared in spec.configMaps'')))"

definition env_from_step ::
  "'q dlib \<Rightarrow> configMapSet \<Rightarrow> (string, string) gomap \<Rightarrow> nat \<times> EnvFromSource \<Rightarrow> derr + (string, string) gomap" where
  "env_from_step lib cms vals = (\<lambda>(i, source).
     let at = ''envFrom['' @ show_nat i @ '']'' in
     case efs_configMapRef source of
       None \<Rightarrow> Inl (capabilityError (at @ '' is unsupported in standalone (only configMapRef is supported)''))
     | Some ref \<Rightarrow>
         (case referencedConfigMap cms (cmr_name ref) (cmr_optional ref) of
            Inl e \<Rightarrow> Inl (dwrap (at @ '': '') e)
          | Inr None \<Rightarrow> Inr vals
          | Inr (Some data) \<Rightarrow> Inr (foldl (\<lambda>m (k, v).
              if dl_isEnvVarName lib (efs_prefix source @ k) \<noteq> [] then m else AList.update (efs_prefix source @ k) v m) vals data)))"

definition env_step :: "configMapSet \<Rightarrow> (string, string) gomap \<Rightarrow> nat \<times> EnvVar \<Rightarrow> derr + (string, string) gomap" where
  "env_step cms vals = (\<lambda>(i, item).
     let at = ''env['' @ show_nat i @ ''].valueFrom'' in
     case ev_valueFrom item of
       None \<Rightarrow> Inr (AList.update (ev_name item) (ev_value item) vals)
     | Some source \<Rightarrow>
         (case evs_configMapKeyRef source of
            None \<Rightarrow> Inl (capabilityError (at @ '' is unsupported in standalone (only configMapKeyRef is supported)''))
          | Some sel \<Rightarrow>
              (case referencedConfigMap cms (cks_name sel) (cks_optional sel) of
                 Inl e \<Rightarrow> Inl (dwrap (at @ ''.configMapKeyRef: '') e)
               | Inr None \<Rightarrow> Inr vals
               | Inr (Some data) \<Rightarrow>
                   (case map_of data (cks_key sel) of
                      Some v \<Rightarrow> Inr (AList.update (ev_name item) v vals)
                    | None \<Rightarrow> if cks_optional sel = Some True then Inr vals
                        else Inl (capabilityError (''ConfigMap '' @ go_quote (cks_name sel) @ '' has no key '' @ go_quote (cks_key sel)))))))"

definition resolveEnv :: "'q dlib \<Rightarrow> configMapSet \<Rightarrow> EnvFromSource list \<Rightarrow> EnvVar list \<Rightarrow> derr + string list" where
  "resolveEnv lib cms envFrom env =
     (case rfold (env_from_step lib cms) [] (enumerate 0 envFrom) of
        Inl e \<Rightarrow> Inl e
      | Inr vals \<Rightarrow>
          (case rfold (env_step cms) vals (enumerate 0 env) of
             Inl e \<Rightarrow> Inl e
           | Inr vals \<Rightarrow> Inr (map (\<lambda>n. n @ ''='' @ sget vals n) (sort (map fst vals)))))"

definition validateProjectionPath :: "string \<Rightarrow> derr option" where
  "validateProjectionPath v =
     (let clean = path_Clean v in
      if v = [] \<or> isAbs v \<or> clean = ''.'' \<or> clean = ''..'' \<or> hasPrefix ''../'' clean \<or> clean \<noteq> v
      then Some (capabilityError ''must be a clean relative path that stays inside the volume'') else None)"

fun show_octal :: "nat \<Rightarrow> string" where
  "show_octal n = (if n < 8 then [char_of (n + 48)] else show_octal (n div 8) @ [char_of (n mod 8 + 48)])"

declare show_octal.simps [simp del]

definition validateFileMode :: "int \<Rightarrow> derr option" where
  "validateFileMode mode =
     (if mode < 0 \<or> mode > 511
      then Some (capabilityError ((if mode < 0 then ''-0'' @ show_octal (nat (- mode)) else ''0'' @ show_octal (nat mode)) @ '' is outside 0000-0777''))
      else None)"

definition project_item ::
  "ConfigMapVolumeSource \<Rightarrow> (string, string) gomap \<Rightarrow> int \<Rightarrow> (string, ConfigMapFile) gomap \<Rightarrow> KeyToPath \<Rightarrow> derr + (string, ConfigMapFile) gomap" where
  "project_item source data defaultMode out item =
     (let name = ''ConfigMap '' @ go_quote (cvs_name source) in
      case map_of data (ktp_key item) of
        None \<Rightarrow> if cvs_optional source = Some True then Inr out
          else Inl (capabilityError (name @ '' has no key '' @ go_quote (ktp_key item)))
      | Some v \<Rightarrow>
          (case validateProjectionPath (ktp_path item) of
             Some e \<Rightarrow> Inl (dwrap (name @ '' item path '' @ go_quote (ktp_path item) @ '': '') e)
           | None \<Rightarrow>
               if map_of out (ktp_path item) \<noteq> None
               then Inl (capabilityError (name @ '' projects more than one key to path '' @ go_quote (ktp_path item)))
               else let mode = (case ktp_mode item of Some m \<Rightarrow> m | None \<Rightarrow> defaultMode) in
                 (case validateFileMode mode of
                    Some e \<Rightarrow> Inl (dwrap (name @ '' item '' @ go_quote (ktp_key item) @ '' mode: '') e)
                  | None \<Rightarrow> Inr (AList.update (ktp_path item) \<lparr>cmf_data = v, cmf_mode = mode\<rparr> out))))"

definition project_key :: "ConfigMapVolumeSource \<Rightarrow> int \<Rightarrow> (string, ConfigMapFile) gomap \<Rightarrow> string \<times> string \<Rightarrow> derr + (string, ConfigMapFile) gomap" where
  "project_key source mode out = (\<lambda>(k, v).
     case validateProjectionPath k of
       Some e \<Rightarrow> Inl (dwrap (''ConfigMap '' @ go_quote (cvs_name source) @ '' key '' @ go_quote k @ '' cannot be projected: '') e)
     | None \<Rightarrow> Inr (AList.update k \<lparr>cmf_data = v, cmf_mode = mode\<rparr> out))"

definition configMapFiles :: "configMapSet \<Rightarrow> ConfigMapVolumeSource \<Rightarrow> derr + (string, ConfigMapFile) gomap" where
  "configMapFiles cms source =
     (case referencedConfigMap cms (cvs_name source) (cvs_optional source) of
        Inl e \<Rightarrow> Inl e
      | Inr None \<Rightarrow> Inr []
      | Inr (Some data) \<Rightarrow>
          let defaultMode = (case cvs_defaultMode source of Some m \<Rightarrow> m | None \<Rightarrow> 420) in
          (case validateFileMode defaultMode of
             Some e \<Rightarrow> Inl (dwrap (''ConfigMap '' @ go_quote (cvs_name source) @ '' defaultMode: '') e)
           | None \<Rightarrow> if cvs_items source = [] then rfold (project_key source defaultMode) [] data
               else rfold (project_item source data defaultMode) [] (cvs_items source)))"

text \<open>A path segment that is one file name: \<open>strings.ContainsAny(part, `/\\`)\<close> looks for a slash or a backslash.\<close>

definition bad_segment :: "string \<Rightarrow> bool" where
  "bad_segment part \<longleftrightarrow> part = [] \<or> part = ''.'' \<or> part = ''..'' \<or> CHR ''/'' \<in> set part \<or> CHR 0x5C \<in> set part"

definition projectionPath :: "string \<Rightarrow> string \<Rightarrow> string \<Rightarrow> string \<Rightarrow> string \<Rightarrow> derr + string" where
  "projectionPath kind ns name role volume =
     (let parts = [kind, ns, name, role, volume] in
      case find bad_segment parts of
        Some part \<Rightarrow> Inl (capabilityError (''ConfigMap projection path segment '' @ go_quote part @ '' is invalid''))
      | None \<Rightarrow> Inr (path_Join parts))"

section \<open>Mounts\<close>

definition validateSubPath :: "VolumeMount \<Rightarrow> derr + string" where
  "validateSubPath vm =
     (let at = ''volumeMount '' @ go_quote (vm_name vm) in
      if vm_subPathExpr vm \<noteq> [] then Inl (capabilityError (at @ '' subPathExpr is unsupported in standalone''))
      else if vm_subPath vm = [] then Inr []
      else if isAbs (vm_subPath vm) then Inl (capabilityError (at @ '' subPath '' @ go_quote (vm_subPath vm) @ '' must be relative''))
      else let clean = path_Clean (vm_subPath vm) in
        if clean = ''..'' \<or> hasPrefix ''../'' clean
        then Inl (capabilityError (at @ '' subPath '' @ go_quote (vm_subPath vm) @ '' must not escape the volume''))
        else Inr clean)"

definition hostPathFor :: "dconfig \<Rightarrow> Volume \<Rightarrow> string" where
  "hostPathFor cfg vol = (case vol_persistentVolumeClaim vol of None \<Rightarrow> [] | Some claim \<Rightarrow> sget (dcf_hostPathVolumes cfg) claim)"

definition config_map_mount ::
  "dconfig \<Rightarrow> string \<Rightarrow> string \<Rightarrow> string \<Rightarrow> string \<Rightarrow> configMapSet \<Rightarrow> Volume \<Rightarrow> ConfigMapVolumeSource \<Rightarrow> VolumeMount \<Rightarrow> derr + MountPlan" where
  "config_map_mount cfg kind ns name role cms vol source vm =
     (case configMapFiles cms source of
        Inl e \<Rightarrow> Inl (dwrap (''volume '' @ go_quote (vol_name vol) @ '': '') e)
      | Inr files \<Rightarrow>
          (case projectionPath kind ns name role (vol_name vol) of
             Inl e \<Rightarrow> Inl e
           | Inr projection \<Rightarrow>
               let m = \<lparr>mp_type = [], mp_source = [], mp_target = vm_mountPath vm, mp_subPath = [], mp_readOnly = True,
                  mp_configMapPath = projection, mp_configMapFiles = files\<rparr> in
               if dcf_configMapsVolume cfg \<noteq> []
               then Inr (m\<lparr>mp_type := ''volume'', mp_source := dcf_configMapsVolume cfg, mp_subPath := projection\<rparr>)
               else if dcf_configMapsDir cfg = []
               then Inl (capabilityError ''ConfigMap volume projection is not configured in standalone'')
               else Inr (m\<lparr>mp_type := ''bind'', mp_source := path_Join [dcf_configMapsDir cfg, projection]\<rparr>)))"

definition volume_mount ::
  "dconfig \<Rightarrow> string \<Rightarrow> string \<Rightarrow> string \<Rightarrow> string \<Rightarrow> configMapSet \<Rightarrow> Volume list \<Rightarrow> MountPlan list \<Rightarrow> VolumeMount \<Rightarrow> derr + MountPlan list" where
  "volume_mount cfg kind ns name role cms volumes mounts vm =
     (case map_of (map (\<lambda>v. (vol_name v, v)) (rev volumes)) (vm_name vm) of
        None \<Rightarrow> Inl (capabilityError (''volumeMount '' @ go_quote (vm_name vm) @ '' references an undeclared volume''))
      | Some vol \<Rightarrow>
          (case validateSubPath vm of
             Inl e \<Rightarrow> Inl e
           | Inr subPath \<Rightarrow>
               let plan = \<lparr>mp_type = ''volume'', mp_source = [], mp_target = vm_mountPath vm, mp_subPath = subPath, mp_readOnly = vm_readOnly vm,
                     mp_configMapPath = [], mp_configMapFiles = []\<rparr> in
               case vol_configMap vol of
                 Some source \<Rightarrow>
                   if subPath \<noteq> [] then Inl (capabilityError (''ConfigMap volumeMount '' @ go_quote (vm_name vm) @ '' subPath is unsupported in standalone''))
                   else map_sum id (\<lambda>m. mounts @ [m]) (config_map_mount cfg kind ns name role cms vol source vm)
               | None \<Rightarrow>
                   if hostPathFor cfg vol \<noteq> [] then Inr (mounts @ [plan\<lparr>mp_type := ''bind'', mp_source := hostPathFor cfg vol\<rparr>])
                   else Inr (mounts @ [plan\<lparr>mp_source := (case vol_persistentVolumeClaim vol of
                          Some claim \<Rightarrow> pvcVolumeName ns claim | None \<Rightarrow> volumeName ns name (vm_name vm))\<rparr>])))"

definition volumeMounts ::
  "dconfig \<Rightarrow> string \<Rightarrow> string \<Rightarrow> string \<Rightarrow> string \<Rightarrow> configMapSet \<Rightarrow> Volume list \<Rightarrow> VolumeMount list \<Rightarrow> derr + MountPlan list" where
  "volumeMounts cfg kind ns name role cms volumes vms = rfold (volume_mount cfg kind ns name role cms volumes) [] vms"

section \<open>Plans\<close>

definition resolveImagePullPolicy :: "'q dlib \<Rightarrow> string \<Rightarrow> string \<Rightarrow> derr + string" where
  "resolveImagePullPolicy lib imageRef policy =
     (if policy = ''Always'' \<or> policy = ''IfNotPresent'' \<or> policy = ''Never'' then Inr policy
      else if policy \<noteq> [] then Inl (capabilityError (''unsupported imagePullPolicy '' @ go_quote policy))
      else case dl_parseImage lib imageRef of
        Inl e \<Rightarrow> Inl (capabilityError (''invalid image reference '' @ go_quote imageRef @ '': '' @ e))
      | Inr named \<Rightarrow>
          if ir_digested named then Inr ''IfNotPresent''
          else (case ir_tag named of
                  Some tag \<Rightarrow> if tag = ''latest'' then Inr ''Always'' else Inr ''IfNotPresent''
                | None \<Rightarrow> Inr ''Always''))"

text \<open>An \<open>int64\<close> product.\<close>

definition wrap64 :: "int \<Rightarrow> int" where
  "wrap64 v = (v + 2 ^ 63) mod 2 ^ 64 - 2 ^ 63"

definition resourcePlan :: "'q dlib \<Rightarrow> 'q resource_list \<Rightarrow> ResourcePlan" where
  "resourcePlan lib limits =
     \<lparr>rep_nanoCPUs = (case map_of limits ''cpu'' of Some cpu \<Rightarrow> wrap64 (dl_milliValue lib cpu * 1000000) | None \<Rightarrow> 0),
      rep_memoryBytes = (case map_of limits ''memory'' of Some mem \<Rightarrow> dl_value lib mem | None \<Rightarrow> 0),
      rep_gpuCount = (case map_of limits ''nvidia.com/gpu'' of Some gpu \<Rightarrow> dl_value lib gpu | None \<Rightarrow> 0),
      rep_gpuDeviceIDs = []\<rparr>"

definition planIdentity :: "ContainerPlan \<Rightarrow> plan_identity" where
  "planIdentity p =
     \<lparr>pid_image = cp_image p, pid_imagePullPolicy = cp_imagePullPolicy p, pid_command = cp_command p, pid_args = cp_args p,
      pid_env = cp_env p, pid_workingDir = cp_workingDir p, pid_ports = cp_ports p, pid_mounts = cp_mounts p,
      pid_nanoCPUs = rep_nanoCPUs (cp_resources p), pid_memoryBytes = rep_memoryBytes (cp_resources p),
      pid_gpuCount = rep_gpuCount (cp_resources p), pid_restartPolicy = cp_restartPolicy p\<rparr>"

definition specHash :: "'q dlib \<Rightarrow> plan_identity \<Rightarrow> string" where
  "specHash lib v = take 16 (hex_encode (sha256 (dl_marshalPlan lib v)))"

abbreviation "LabelManaged \<equiv> ''io.axisml.managed''"
abbreviation "LabelResourceKind \<equiv> ''io.axisml.resource-kind''"
abbreviation "LabelNamespace \<equiv> ''io.axisml.resource-namespace''"
abbreviation "LabelName \<equiv> ''io.axisml.resource-name''"
abbreviation "LabelReplicaIndex \<equiv> ''io.axisml.replica-index''"
abbreviation "LabelDockerRole \<equiv> ''compute.axisml.io/role''"
abbreviation "LabelSpecHash \<equiv> ''io.axisml.spec-hash''"
abbreviation "LabelGPUDevices \<equiv> ''io.axisml.gpu-devices''"
abbreviation "KindRun \<equiv> ''run''"
abbreviation "KindSvc \<equiv> ''service''"
abbreviation "KindTraffic \<equiv> ''traffic-policy''"

definition baseLabels :: "string \<Rightarrow> string \<Rightarrow> string \<Rightarrow> (string, string) gomap" where
  "baseLabels kind ns name =
     [(LabelManaged, ''true''), (LabelResourceKind, kind), (LabelNamespace, ns), (LabelName, name), (LabelTenant, ns)]"

section \<open>The Docker request of a plan\<close>

record docker_mount =
  dm_type :: string
  dm_source :: string
  dm_target :: string
  dm_readOnly :: bool
  dm_subpath :: string

record device_request =
  dvr_driver :: string
  dvr_count :: int
  dvr_deviceIDs :: "string list"
  dvr_capabilities :: "string list list"

text \<open>\<open>container.Config\<close>, \<open>container.HostConfig\<close> and \<open>network.NetworkingConfig\<close>: the fields the runtime sets.\<close>

record create_request =
  cq_image :: string
  cq_env :: "string list"
  cq_workingDir :: string
  cq_labels :: "(string, string) gomap"
  cq_entrypoint :: "string list"
  cq_cmd :: "string list"
  cq_exposedPorts :: "string list"
  cq_healthcheck :: "HealthPlan option"
  cq_network :: string
  cq_restartPolicy :: string
  cq_nanoCPUs :: int
  cq_memory :: int
  cq_deviceRequests :: "device_request list"
  cq_binds :: "string list"
  cq_mounts :: "docker_mount list"
  cq_aliases :: "string list"

definition dockerPort :: "'q dlib \<Rightarrow> PortPlan \<Rightarrow> string" where
  "dockerPort lib p = dl_newPort lib (if pop_protocol p = [] then ''tcp'' else pop_protocol p) (pop_containerPort p)"

definition gatewayBackendHostname :: "string \<Rightarrow> string" where
  "gatewayBackendHostname containerName = containerName @ ''.axisml.local''"

definition device_requests :: "ResourcePlan \<Rightarrow> device_request list" where
  "device_requests r =
     (if rep_gpuDeviceIDs r \<noteq> []
      then [\<lparr>dvr_driver = ''nvidia'', dvr_count = 0, dvr_deviceIDs = rep_gpuDeviceIDs r, dvr_capabilities = [[''gpu'']]\<rparr>]
      else if rep_gpuCount r > 0
      then [\<lparr>dvr_driver = ''nvidia'', dvr_count = rep_gpuCount r, dvr_deviceIDs = [], dvr_capabilities = [[''gpu'']]\<rparr>]
      else [])"

definition bound_subtree :: "MountPlan \<Rightarrow> bool" where
  "bound_subtree m \<longleftrightarrow> mp_type m = ''bind'' \<and> mp_subPath m \<noteq> [] \<and> \<not> mp_readOnly m"

definition plan_mount :: "MountPlan \<Rightarrow> docker_mount" where
  "plan_mount m =
     \<lparr>dm_type = mp_type m,
      dm_source = (if mp_subPath m \<noteq> [] \<and> mp_type m = ''bind'' then path_Join [mp_source m, mp_subPath m] else mp_source m),
      dm_target = mp_target m, dm_readOnly = mp_readOnly m,
      dm_subpath = (if mp_subPath m \<noteq> [] \<and> mp_type m = ''volume'' then mp_subPath m else [])\<rparr>"

definition toDocker :: "'q dlib \<Rightarrow> string \<Rightarrow> ContainerPlan \<Rightarrow> create_request" where
  "toDocker lib net p =
     \<lparr>cq_image = cp_image p, cq_env = cp_env p, cq_workingDir = cp_workingDir p, cq_labels = cp_labels p,
      cq_entrypoint = cp_command p, cq_cmd = cp_args p, cq_exposedPorts = remdups (map (dockerPort lib) (cp_ports p)),
      cq_healthcheck = cp_healthcheck p, cq_network = net, cq_restartPolicy = cp_restartPolicy p,
      cq_nanoCPUs = rep_nanoCPUs (cp_resources p), cq_memory = rep_memoryBytes (cp_resources p),
      cq_deviceRequests = device_requests (cp_resources p),
      cq_binds = map (\<lambda>m. path_Join [mp_source m, mp_subPath m] @ '':'' @ mp_target m) (filter bound_subtree (cp_mounts p)),
      cq_mounts = map plan_mount (filter (\<lambda>m. \<not> bound_subtree m) (cp_mounts p)),
      cq_aliases = (if cp_name p \<noteq> [] then [gatewayBackendHostname (cp_name p)] else [])\<rparr>"

section \<open>Rendering\<close>

abbreviation cr_meta :: "'s cr \<Rightarrow> meta" where
  "cr_meta cr \<equiv> \<lparr>meta_name = cr_name cr, meta_annotations = cr_annotations cr\<rparr>"

text \<open>The plan of one replica, with the labels and the hash of its identity.\<close>

definition replica_plan ::
  "'q dlib \<Rightarrow> string \<Rightarrow> 's cr \<Rightarrow> string \<Rightarrow> string \<Rightarrow> bool \<Rightarrow> string \<Rightarrow> 'q PodTemplate \<Rightarrow> string list \<Rightarrow> PortPlan list \<Rightarrow>
   MountPlan list \<Rightarrow> string \<Rightarrow> nat \<Rightarrow> ContainerPlan" where
  "replica_plan lib kind cr idLabel role ordinal pullPolicy t env ports mounts restart i =
     (let labels = AList.update LabelReplicaIndex (show_nat i) (AList.update LabelDockerRole role
            (AList.update idLabel (sget (cr_labels cr) idLabel) (baseLabels kind (cr_namespace cr) (cr_name cr))));
          p = \<lparr>cp_name = [], cp_namePrefix = Role (cr_meta cr) role, cp_replica = i, cp_stableOrdinal = ordinal, cp_image = pt_image t,
               cp_imagePullPolicy = pullPolicy, cp_command = pt_command t, cp_args = pt_args t, cp_env = env,
               cp_workingDir = pt_workingDir t, cp_labels = labels, cp_ports = ports, cp_mounts = mounts,
               cp_resources = resourcePlan lib (pt_limits t), cp_restartPolicy = restart, cp_healthcheck = None\<rparr>
      in p\<lparr>cp_labels := AList.update LabelSpecHash (specHash lib (planIdentity p)) labels\<rparr>)"

definition render_run_role ::
  "'q dlib \<Rightarrow> dconfig \<Rightarrow> 'q MLRunSpec cr \<Rightarrow> configMapSet \<Rightarrow> ContainerPlan list \<Rightarrow> 'q RoleSpec \<Rightarrow> derr + ContainerPlan list" where
  "render_run_role lib cfg run cms plans role =
     (if role_replicas role \<le> 0 then Inr plans
      else let t = role_template role in
      case resolveImagePullPolicy lib (pt_image t) (pt_imagePullPolicy t) of Inl e \<Rightarrow> Inl e
      | Inr pullPolicy \<Rightarrow>
          (case resolveEnv lib cms (pt_envFrom t) (pt_env t) of Inl e \<Rightarrow> Inl e
           | Inr env \<Rightarrow>
               (case volumeMounts cfg KindRun (cr_namespace run) (cr_name run) (role_name role) cms (pt_volumes t) (pt_volumeMounts t) of
                  Inl e \<Rightarrow> Inl e
                | Inr mounts \<Rightarrow> Inr (plans @ map (replica_plan lib KindRun run LabelRunID (role_name role) False pullPolicy t env [] mounts ''no'')
                    [0..<nat (role_replicas role)]))))"

definition renderRunPlans :: "'q dlib \<Rightarrow> dconfig \<Rightarrow> 'q MLRunSpec cr \<Rightarrow> derr + ContainerPlan list" where
  "renderRunPlans lib cfg run =
     (let b = rs_backend (cr_spec run) in
      if be_name b \<noteq> ''native'' \<or> be_engine b \<noteq> ''job''
      then Inl (capabilityError (''MLRun backend '' @ be_name b @ ''/'' @ be_engine b @ '' is unsupported in standalone (only native/job)''))
      else case newConfigMapSet lib (rs_configMaps (cr_spec run)) of
        Inl e \<Rightarrow> Inl e
      | Inr cms \<Rightarrow>
          (case rfold (render_run_role lib cfg run cms) [] (rs_roles (cr_spec run)) of
             Inl e \<Rightarrow> Inl e
           | Inr plans \<Rightarrow> if plans = []
               then Inl (capabilityError (''MLRun '' @ cr_namespace run @ ''/'' @ cr_name run @ '' has no enabled role replicas''))
               else Inr plans))"

definition roleOr :: "string \<Rightarrow> string" where
  "roleOr role = (if role = [] then ''worker'' else role)"

definition protoString :: "string \<Rightarrow> string" where
  "protoString p = (if p = ''UDP'' then ''udp'' else ''tcp'')"

definition renderServicePlans :: "'q dlib \<Rightarrow> dconfig \<Rightarrow> 'q MLServiceSpec cr \<Rightarrow> derr + ContainerPlan list" where
  "renderServicePlans lib cfg svc =
     (let b = ss_backend (cr_spec svc) in
      if be_name b \<noteq> ''native'' \<or> (be_engine b \<noteq> ''deployment'' \<and> be_engine b \<noteq> ''statefulset'')
      then Inl (capabilityError (''MLService backend '' @ be_name b @ ''/'' @ be_engine b @
             '' is unsupported in standalone (only native/deployment|statefulset)''))
      else case ss_roles (cr_spec svc) of
        [] \<Rightarrow> Inl (capabilityError (''MLService '' @ cr_namespace svc @ ''/'' @ cr_name svc @ '' has no roles''))
      | role # _ \<Rightarrow>
          let t = role_template role in
          (case resolveImagePullPolicy lib (pt_image t) (pt_imagePullPolicy t) of Inl e \<Rightarrow> Inl e
           | Inr pullPolicy \<Rightarrow>
               (case newConfigMapSet lib (ss_configMaps (cr_spec svc)) of Inl e \<Rightarrow> Inl e
                | Inr cms \<Rightarrow>
                    (case resolveEnv lib cms (pt_envFrom t) (pt_env t) of Inl e \<Rightarrow> Inl e
                     | Inr env \<Rightarrow>
                         (case volumeMounts cfg KindSvc (cr_namespace svc) (cr_name svc) (roleOr (role_name role)) cms (pt_volumes t) (pt_volumeMounts t) of
                            Inl e \<Rightarrow> Inl e
                          | Inr mounts \<Rightarrow> Inr (map (replica_plan lib KindSvc svc LabelServiceID (roleOr (role_name role)) (be_engine b = ''statefulset'')
                              pullPolicy t env (map (\<lambda>p. \<lparr>pop_name = pp_name p, pop_containerPort = pp_containerPort p,
                                pop_protocol = protoString (pp_protocol p)\<rparr>) (pt_ports t)) mounts ''unless-stopped'')
                              [0..<nat (role_replicas role)]))))))"

end
