(* ===== verification/DockerEngine.thy ===== *)
theory DockerEngine
  imports DockerPlan
begin

text \<open>
  The standalone runtime, second part: calls of the Docker engine (\<^verbatim>\<open>engine.go\<close>), the normalized state of
  containers (\<^verbatim>\<open>states.go\<close>), the GPU allocator and the creation of containers (\<^verbatim>\<open>gpu.go\<close>), the event ring
  (\<^verbatim>\<open>events.go\<close>) and the files of ConfigMap projections (\<^verbatim>\<open>configmap.go\<close>).

  Docker, the file system, the clock and the random source are parameters (\<open>docker\<close>): every answer is a function of the
  history of calls, so other users of the host are covered. The memory of the process (the cancelled runs, the ring of
  events) is kept as events of the same history and read back from it. Times are natural numbers, \<open>None\<close> for the
  zero time and for what \<open>parseDockerTime\<close> cannot read.
\<close>

section \<open>Docker\<close>

record container =
  cn_id :: string
  cn_names :: "string list"
  cn_image :: string
  cn_state :: string
  cn_status :: string
  cn_labels :: "(string, string) gomap"
  cn_mounts :: "(string \<times> string \<times> string) list"

record container_state =
  cst_status :: string
  cst_exitCode :: int
  cst_oomKilled :: bool
  cst_startedAt :: "nat option"
  cst_finishedAt :: "nat option"
  cst_health :: "string option"

record host_config =
  hc_nanoCPUs :: int
  hc_memory :: int
  hc_deviceRequests :: "device_request list"

record inspection =
  ins_state :: "container_state option"
  ins_hostConfig :: "host_config option"
  ins_exposedPorts :: "int list"

record docker_info =
  dki_name :: string
  dki_ncpu :: int
  dki_memTotal :: int
  dki_serverVersion :: string
  dki_id :: string

record docker_volume =
  dkv_labels :: "(string, string) gomap"
  dkv_createdAt :: "nat option"

record pull_message =
  pm_error :: string
  pm_errorDetail :: string

record eventRec =
  er_kind :: string
  er_namespace :: string
  er_name :: string
  er_instance :: string
  er_reason :: string
  er_message :: string
  er_at :: nat

datatype fsop =
    MkdirAll string | RemoveAll string | RemoveFile string | WriteFile string string int | WriteTemp string string
  | Chmod string int | Rename string string

datatype devent =
    DList "(string, string) gomap" "derr + container list" | DInspect string "derr + inspection"
  | DCreate string create_request "derr + string" | DStart string "derr option" | DRemove string "derr option"
  | DStop string "derr option" | DVolumeCreate string "(string, string) gomap" "derr option" | DVolumeRemove string "derr option"
  | DImage string "derr option" | DPull string string "derr + pull_message list \<times> string option" | Drew string
  | Fs fsop "derr option" | FsTemp string "derr + string"
  | Recorded eventRec | Cancelled string bool

type_synonym 'a dprog = "(devent, 'a) io"

text \<open>What Docker and the file system answer: an error that is not found, a conflict, or another one.\<close>

datatype cerr = CNotFound string | CConflict string | COther string

fun engine_error :: "cerr \<Rightarrow> derr" where
  "engine_error (CNotFound m) = derror DkNotFound m"
| "engine_error (CConflict m) = derror DkConflict m"
| "engine_error (COther m) = derror DkOther m"

abbreviation val_err :: "cerr + 'a \<Rightarrow> derr + 'a" where
  "val_err \<equiv> map_sum engine_error id"

abbreviation opt_err :: "cerr option \<Rightarrow> derr option" where
  "opt_err \<equiv> map_option engine_error"

record docker =
  dk_list :: "devent list \<Rightarrow> (string, string) gomap \<Rightarrow> cerr + container list"
  dk_inspect :: "devent list \<Rightarrow> string \<Rightarrow> cerr + inspection"
  dk_create :: "devent list \<Rightarrow> string \<Rightarrow> create_request \<Rightarrow> cerr + string"
  dk_start :: "devent list \<Rightarrow> string \<Rightarrow> cerr option"
  dk_remove :: "devent list \<Rightarrow> string \<Rightarrow> cerr option"
  dk_stop :: "devent list \<Rightarrow> string \<Rightarrow> cerr option"
  dk_volumeCreate :: "devent list \<Rightarrow> string \<Rightarrow> (string, string) gomap \<Rightarrow> cerr option"
  dk_volumeRemove :: "devent list \<Rightarrow> string \<Rightarrow> cerr option"
  dk_volumeInspect :: "devent list \<Rightarrow> string \<Rightarrow> cerr + docker_volume"
  dk_volumeList :: "devent list \<Rightarrow> (string, string) gomap \<Rightarrow> cerr + docker_volume list"
  dk_info :: "devent list \<Rightarrow> cerr + docker_info"
  dk_logs :: "devent list \<Rightarrow> string \<Rightarrow> cerr + string"
  dk_imageInspect :: "devent list \<Rightarrow> string \<Rightarrow> cerr option"
  dk_imagePull :: "devent list \<Rightarrow> string \<Rightarrow> string \<Rightarrow> cerr + pull_message list \<times> string option"
  dk_registryAuth :: "(string \<Rightarrow> string + string) option"
  dk_rand :: "devent list \<Rightarrow> string"
  dk_now :: "devent list \<Rightarrow> nat"
  fs_do :: "devent list \<Rightarrow> fsop \<Rightarrow> cerr option"
  fs_createTemp :: "devent list \<Rightarrow> string \<Rightarrow> cerr + string"
  fs_readFile :: "devent list \<Rightarrow> string \<Rightarrow> cerr + string"
  fs_readDir :: "devent list \<Rightarrow> string \<Rightarrow> cerr + string list"
  fs_walk :: "devent list \<Rightarrow> string \<Rightarrow> cerr + (string \<times> string \<times> int) list"
  fs_stat :: "devent list \<Rightarrow> string \<Rightarrow> cerr option"

record 'q druntime =
  dr_lib :: "'q dlib"
  dr_cfg :: dconfig
  dr_docker :: docker
  dr_schedulable :: "int list"

text \<open>A read that leaves no trace.\<close>

definition reading :: "(devent list \<Rightarrow> 'a) \<Rightarrow> 'a dprog" where
  "reading f = State (\<lambda>h. (f h, h))"

definition file_op :: "docker \<Rightarrow> fsop \<Rightarrow> derr option dprog" where
  "file_op dk op = call (\<lambda>h. opt_err (fs_do dk h op)) (Fs op)"

definition is_kind :: "derr_kind \<Rightarrow> derr \<Rightarrow> bool" where
  "is_kind k e \<longleftrightarrow> de_kind e = k"

text \<open>\<open>if err := m; err != nil { return fail(err) }\<close>, and the same for a call with a value.\<close>

definition guard :: "('e, derr option) io \<Rightarrow> (derr \<Rightarrow> 'a) \<Rightarrow> ('e, 'a) io \<Rightarrow> ('e, 'a) io" where
  "guard m fail body = do { e \<leftarrow> m; case e of Some x \<Rightarrow> ret (fail x) | None \<Rightarrow> body }"

definition guard_val :: "('e, derr + 'v) io \<Rightarrow> (derr \<Rightarrow> 'a) \<Rightarrow> ('v \<Rightarrow> ('e, 'a) io) \<Rightarrow> ('e, 'a) io" where
  "guard_val m fail body = do { r \<leftarrow> m; case r of Inl x \<Rightarrow> ret (fail x) | Inr v \<Rightarrow> body v }"

section \<open>Events\<close>

definition event_cap :: nat where "event_cap = 512"

text \<open>The buffer after one more event, oldest first.\<close>

definition ring_add :: "nat \<Rightarrow> eventRec list \<Rightarrow> eventRec \<Rightarrow> eventRec list" where
  "ring_add capacity buf rec = (if length buf \<ge> capacity then tl buf @ [rec] else buf @ [rec])"

definition ring_of :: "devent list \<Rightarrow> eventRec list" where
  "ring_of h = foldr (\<lambda>e buf. case e of Recorded r \<Rightarrow> ring_add event_cap buf r | _ \<Rightarrow> buf) h []"

definition record_event :: "docker \<Rightarrow> string \<Rightarrow> string \<Rightarrow> string \<Rightarrow> string \<Rightarrow> string \<Rightarrow> string \<Rightarrow> unit dprog" where
  "record_event dk kind ns name inst reason message = do {
     r \<leftarrow> call (\<lambda>h. \<lparr>er_kind = kind, er_namespace = ns, er_name = name, er_instance = inst, er_reason = reason, er_message = message, er_at = dk_now dk h\<rparr>) Recorded;
     ret ()
   }"

definition event_matches :: "string \<Rightarrow> string \<Rightarrow> string \<Rightarrow> string \<Rightarrow> eventRec \<Rightarrow> bool" where
  "event_matches kind ns name inst r \<longleftrightarrow> er_kind r = kind \<and> er_namespace r = ns \<and> er_name r = name \<and> er_instance r = inst"

definition list_events :: "string \<Rightarrow> string \<Rightarrow> string \<Rightarrow> string \<Rightarrow> eventRec list dprog" where
  "list_events kind ns name inst = reading (\<lambda>h. filter (event_matches kind ns name inst) (ring_of h))"

definition cancelKey :: "string \<Rightarrow> string \<Rightarrow> string" where
  "cancelKey ns name = ns @ ''/'' @ name"

fun cancelled_in :: "devent list \<Rightarrow> string \<Rightarrow> bool" where
  "cancelled_in [] k = False"
| "cancelled_in (Cancelled k' b # h) k = (if k' = k then b else cancelled_in h k)"
| "cancelled_in (_ # h) k = cancelled_in h k"

definition markCancelled :: "string \<Rightarrow> string \<Rightarrow> unit dprog" where
  "markCancelled ns name = call (\<lambda>_. ()) (\<lambda>_. Cancelled (cancelKey ns name) True)"

definition clearCancelled :: "string \<Rightarrow> string \<Rightarrow> unit dprog" where
  "clearCancelled ns name = call (\<lambda>_. ()) (\<lambda>_. Cancelled (cancelKey ns name) False)"

definition isCancelled :: "string \<Rightarrow> string \<Rightarrow> bool dprog" where
  "isCancelled ns name = reading (\<lambda>h. cancelled_in h (cancelKey ns name))"

section \<open>Engine calls\<close>

definition managedFilter :: "string \<Rightarrow> string \<Rightarrow> string \<Rightarrow> (string, string) gomap" where
  "managedFilter kind ns name = [(LabelManaged, ''true''), (LabelResourceKind, kind), (LabelNamespace, ns), (LabelName, name)]"

definition containerList :: "docker \<Rightarrow> (string, string) gomap \<Rightarrow> (derr + container list) dprog" where
  "containerList dk f = call (\<lambda>h. val_err (dk_list dk h f)) (DList f)"

definition listContainers :: "docker \<Rightarrow> string \<Rightarrow> string \<Rightarrow> string \<Rightarrow> (derr + container list) dprog" where
  "listContainers dk kind ns name = containerList dk (managedFilter kind ns name)"

definition containerInspect :: "docker \<Rightarrow> string \<Rightarrow> (derr + inspection) dprog" where
  "containerInspect dk i = call (\<lambda>h. val_err (dk_inspect dk h i)) (DInspect i)"

definition imageInspect :: "docker \<Rightarrow> string \<Rightarrow> derr option dprog" where
  "imageInspect dk ref = call (\<lambda>h. opt_err (dk_imageInspect dk h ref)) (DImage ref)"

text \<open>The progress stream: the first message with an error ends the pull; the stream ends with \<open>io.EOF\<close> or a read error.\<close>

fun read_pull :: "string \<Rightarrow> pull_message list \<Rightarrow> string option \<Rightarrow> derr option" where
  "read_pull ref [] None = None"
| "read_pull ref [] (Some e) = Some (derror DkOther (''read pull response for image '' @ go_quote ref @ '': '' @ e))"
| "read_pull ref (m # ms) end =
     (if pm_errorDetail m \<noteq> [] then Some (derror DkOther (''pull image '' @ go_quote ref @ '': '' @ pm_errorDetail m))
      else if pm_error m \<noteq> [] then Some (derror DkOther (''pull image '' @ go_quote ref @ '': '' @ pm_error m))
      else read_pull ref ms end)"

definition pullImage :: "docker \<Rightarrow> string \<Rightarrow> derr option dprog" where
  "pullImage dk ref =
     (let auth = (case dk_registryAuth dk of None \<Rightarrow> Inr [] | Some resolve \<Rightarrow> resolve ref) in
      case auth of
        Inl e \<Rightarrow> ret (Some (derror DkOther (''resolve registry credentials for image '' @ go_quote ref @ '': '' @ e)))
      | Inr a \<Rightarrow> do {
          r \<leftarrow> call (\<lambda>h. val_err (dk_imagePull dk h ref a)) (DPull ref a);
          ret (case r of Inl e \<Rightarrow> Some (dwrap (''pull image '' @ go_quote ref @ '': '') e) | Inr (ms, end) \<Rightarrow> read_pull ref ms end)
        })"

definition newTerminalApplyError :: "derr option \<Rightarrow> derr option" where
  "newTerminalApplyError r = map_option (\<lambda>e. e\<lparr>de_kind := TerminalApply\<rparr>) r"

definition ensureImage :: "docker \<Rightarrow> string \<Rightarrow> string \<Rightarrow> derr option dprog" where
  "ensureImage dk ref policy =
     (if policy = ''Always'' then do { r \<leftarrow> pullImage dk ref; ret (newTerminalApplyError r) }
      else if policy = ''IfNotPresent'' then do {
        i \<leftarrow> imageInspect dk ref;
        case i of
          None \<Rightarrow> ret None
        | Some e \<Rightarrow>
            if \<not> is_kind DkNotFound e then ret (Some (dwrap (''inspect image '' @ go_quote ref @ '': '') e))
            else do { r \<leftarrow> pullImage dk ref; ret (newTerminalApplyError r) }
      }
      else if policy = ''Never'' then do {
        i \<leftarrow> imageInspect dk ref;
        ret (case i of
               None \<Rightarrow> None
             | Some e \<Rightarrow>
                 if is_kind DkNotFound e
                 then Some (derror TerminalApply (''image '' @ go_quote ref @ '' is not present locally and imagePullPolicy is Never''))
                 else Some (dwrap (''inspect image '' @ go_quote ref @ '': '') e))
      }
      else ret (Some (derror TerminalApply (''unsupported imagePullPolicy '' @ go_quote policy @ '' for image '' @ go_quote ref))))"

definition instanceName :: "docker \<Rightarrow> string \<Rightarrow> nat \<Rightarrow> bool \<Rightarrow> string dprog" where
  "instanceName dk base replica stableOrdinal = do {
     s \<leftarrow> call (dk_rand dk) Drew;
     ret (instance_name_of (if stableOrdinal then base @ ''-'' @ show_nat replica else base @ ''-'' @ s))
   }"

definition removeContainer :: "docker \<Rightarrow> string \<Rightarrow> derr option dprog" where
  "removeContainer dk i = do {
     r \<leftarrow> call (\<lambda>h. opt_err (dk_remove dk h i)) (DRemove i);
     ret (case r of Some e \<Rightarrow> if is_kind DkNotFound e then None else Some e | None \<Rightarrow> None)
   }"

definition stopContainer :: "docker \<Rightarrow> string \<Rightarrow> derr option dprog" where
  "stopContainer dk i = do {
     r \<leftarrow> call (\<lambda>h. opt_err (dk_stop dk h i)) (DStop i);
     ret (case r of Some e \<Rightarrow> if is_kind DkNotFound e then None else Some e | None \<Rightarrow> None)
   }"

definition ensureVolume :: "docker \<Rightarrow> string \<Rightarrow> (string, string) gomap \<Rightarrow> derr option dprog" where
  "ensureVolume dk name labels = call (\<lambda>h. opt_err (dk_volumeCreate dk h name labels)) (DVolumeCreate name labels)"

definition removeVolume :: "docker \<Rightarrow> string \<Rightarrow> derr option dprog" where
  "removeVolume dk name = do {
     r \<leftarrow> call (\<lambda>h. opt_err (dk_volumeRemove dk h name)) (DVolumeRemove name);
     ret (case r of Some e \<Rightarrow> if is_kind DkNotFound e then None else Some e | None \<Rightarrow> None)
   }"

text \<open>
  The loop of \<open>createAndStart\<close>: the request is built once, before the loop; a name that is taken is replaced by a fresh
  one. The plan is returned because its name may change.
\<close>

fun create_attempts :: "docker \<Rightarrow> create_request \<Rightarrow> nat \<Rightarrow> ContainerPlan \<Rightarrow> derr \<Rightarrow> ((derr + string) \<times> ContainerPlan) dprog" where
  "create_attempts dk req 0 p err =
     ret (Inl (dwrap (''create container '' @ go_quote (cp_name p) @ '' after suffix retries: '') err), p)"
| "create_attempts dk req (Suc n) p err = do {
     r \<leftarrow> call (\<lambda>h. val_err (dk_create dk h (cp_name p) req)) (DCreate (cp_name p) req);
     case r of
       Inr i \<Rightarrow> ret (Inr i, p)
     | Inl e \<Rightarrow>
         if \<not> is_kind DkConflict e \<or> cp_stableOrdinal p \<or> cp_namePrefix p = []
         then ret (Inl (dwrap (''create container '' @ go_quote (cp_name p) @ '': '') e), p)
         else do {
           name \<leftarrow> instanceName dk (cp_namePrefix p) (cp_replica p) False;
           create_attempts dk req n (p\<lparr>cp_name := name\<rparr>) e
         }
   }"

definition createAndStart :: "'q druntime \<Rightarrow> ContainerPlan \<Rightarrow> (derr option \<times> ContainerPlan) dprog" where
  "createAndStart r p = do {
     (c, p) \<leftarrow> create_attempts (dr_docker r) (toDocker (dr_lib r) (dcf_network (dr_cfg r)) p) 5 p (derror DkOther []);
     case c of
       Inl e \<Rightarrow> ret (Some e, p)
     | Inr i \<Rightarrow> do {
         s \<leftarrow> call (\<lambda>h. opt_err (dk_start (dr_docker r) h i)) (DStart i);
         case s of
           None \<Rightarrow> ret (None, p)
         | Some e \<Rightarrow> do {
             _ \<leftarrow> call (\<lambda>h. opt_err (dk_remove (dr_docker r) h i)) (DRemove i);
             ret (Some (dwrap (''start container '' @ go_quote (cp_name p) @ '': '') e), p)
           }
       }
   }"

section \<open>Container states\<close>

record instState =
  is_name :: string
  is_id :: string
  is_image :: string
  is_status :: string
  is_exitCode :: int
  is_oom :: bool
  is_startedAt :: "nat option"
  is_finishedAt :: "nat option"
  is_health :: string
  is_tenant :: string
  is_role :: string
  is_replica :: string

definition summaryName :: "container \<Rightarrow> string" where
  "summaryName c = (case cn_names c of [] \<Rightarrow> [] | n # _ \<Rightarrow> if hasPrefix ''/'' n then tl n else n)"

definition containerSlot :: "container \<Rightarrow> string" where
  "containerSlot c = sget (cn_labels c) LabelDockerRole @ ''/'' @ sget (cn_labels c) LabelReplicaIndex"

definition planSlot :: "ContainerPlan \<Rightarrow> string" where
  "planSlot p = sget (cp_labels p) LabelDockerRole @ ''/'' @ sget (cp_labels p) LabelReplicaIndex"

definition indexBySlot :: "container list \<Rightarrow> (string, container) gomap" where
  "indexBySlot conts = foldl (\<lambda>m c. AList.update (containerSlot c) c m) [] conts"

definition inst_state :: "container \<Rightarrow> inspection \<Rightarrow> instState" where
  "inst_state c ins =
     (let base = \<lparr>is_name = summaryName c, is_id = cn_id c, is_image = cn_image c, is_status = [], is_exitCode = 0, is_oom = False,
            is_startedAt = None, is_finishedAt = None, is_health = [], is_tenant = sget (cn_labels c) LabelTenant,
            is_role = sget (cn_labels c) LabelDockerRole, is_replica = sget (cn_labels c) LabelReplicaIndex\<rparr>
      in case ins_state ins of
           None \<Rightarrow> base
         | Some s \<Rightarrow> base\<lparr>is_status := cst_status s, is_exitCode := cst_exitCode s, is_oom := cst_oomKilled s,
             is_startedAt := cst_startedAt s, is_finishedAt := cst_finishedAt s,
             is_health := (case cst_health s of None \<Rightarrow> [] | Some x \<Rightarrow> x)\<rparr>)"

fun inspectAll :: "docker \<Rightarrow> container list \<Rightarrow> (derr + instState list) dprog" where
  "inspectAll dk [] = ret (Inr [])"
| "inspectAll dk (c # cs) = guard_val (containerInspect dk (cn_id c)) Inl (\<lambda>ins. do {
     rest \<leftarrow> inspectAll dk cs;
     ret (map_sum id (\<lambda>sts. inst_state c ins # sts) rest)
   })"

definition inst_ready :: "instState \<Rightarrow> bool" where
  "inst_ready s \<longleftrightarrow> is_status s = ''running'' \<and> (is_health s = [] \<or> is_health s = ''healthy'')"

section \<open>The GPU allocator\<close>

text \<open>The first occurrence of each index, as the loops over \<open>seen\<close> keep it, then sorted.\<close>

definition add_device :: "int list \<Rightarrow> int \<Rightarrow> int list" where
  "add_device out d = (if d \<in> set out then out else out @ [d])"

definition newGPUAllocator :: "int list \<Rightarrow> int list" where
  "newGPUAllocator devices = sort (foldl (\<lambda>out d. if d \<ge> 0 then add_device out d else out) [] devices)"

definition device_step :: "int list \<Rightarrow> string \<Rightarrow> derr + int list" where
  "device_step out raw =
     (let part = trimSpace raw in
      if part = [] then Inr out
      else case Atoi part of
        Some n \<Rightarrow> if n < 0 then Inl (derror DkOther (''invalid GPU device index '' @ go_quote part @ '' in gpu.devices'')) else Inr (add_device out n)
      | None \<Rightarrow> Inl (derror DkOther (''invalid GPU device index '' @ go_quote part @ '' in gpu.devices'')))"

definition ResolveGPUDevices :: "string \<Rightarrow> derr + int list" where
  "ResolveGPUDevices raw =
     (if trimSpace raw = [] then Inr []
      else map_sum id sort (rfold device_step [] (split_on (CHR '','') (trimSpace raw))))"

definition gpuAlive :: "string \<Rightarrow> bool" where
  "gpuAlive state \<longleftrightarrow> state = ''running'' \<or> state = ''restarting'' \<or> state = ''created'' \<or> state = ''paused''"

definition parseDeviceList :: "string \<Rightarrow> int list" where
  "parseDeviceList s = List.map_filter (\<lambda>raw. let part = trimSpace raw in if part = [] then None else Atoi part) (split_on (CHR '','') s)"

definition capsHaveGPU :: "string list list \<Rightarrow> bool" where
  "capsHaveGPU caps \<longleftrightarrow> list_ex (list_ex (\<lambda>c. c = ''gpu'')) caps"

definition request_count :: "device_request \<Rightarrow> int" where
  "request_count dr =
     (if dvr_driver dr \<noteq> ''nvidia'' \<and> \<not> capsHaveGPU (dvr_capabilities dr) then 0
      else if dvr_count dr > 0 then dvr_count dr else int (length (dvr_deviceIDs dr)))"

definition legacyGPUCount :: "docker \<Rightarrow> string \<Rightarrow> (derr + int) dprog" where
  "legacyGPUCount dk i = do {
     r \<leftarrow> containerInspect dk i;
     ret (map_sum id (\<lambda>ins. case ins_hostConfig ins of None \<Rightarrow> 0 | Some hc \<Rightarrow> sum_list (map request_count (hc_deviceRequests hc))) r)
   }"

fun scan_busy :: "docker \<Rightarrow> container list \<Rightarrow> int list \<Rightarrow> int \<Rightarrow> (derr + int list \<times> int) dprog" where
  "scan_busy dk [] busy untracked = ret (Inr (busy, untracked))"
| "scan_busy dk (c # cs) busy untracked =
     (if \<not> gpuAlive (cn_state c) then scan_busy dk cs busy untracked
      else if sget (cn_labels c) LabelGPUDevices \<noteq> []
      then scan_busy dk cs (busy @ parseDeviceList (sget (cn_labels c) LabelGPUDevices)) untracked
      else guard_val (legacyGPUCount dk (cn_id c)) Inl (\<lambda>n. scan_busy dk cs busy (untracked + n)))"

definition managed_filter :: "(string, string) gomap" where
  "managed_filter = [(LabelManaged, ''true'')]"

definition busyGPUDevices :: "docker \<Rightarrow> (derr + int list \<times> int) dprog" where
  "busyGPUDevices dk = guard_val (containerList dk managed_filter) Inl (\<lambda>conts. scan_busy dk conts [] 0)"

text \<open>
  The texts of the two refusals, in UTF-8: the request exceeds the schedulable capacity, and a wait for a free card.
\<close>

definition exceeds_capacity :: "int \<Rightarrow> nat \<Rightarrow> string" where
  "exceeds_capacity wanted capacity =
     [CHR 0xE8, CHR 0xAF, CHR 0xB7, CHR 0xE6, CHR 0xB1, CHR 0x82] @ '' '' @ show_int wanted @
     '' '' @ [CHR 0xE5, CHR 0xBC, CHR 0xA0] @ '' GPU '' @ [CHR 0xE8, CHR 0xB6, CHR 0x85, CHR 0xE8, CHR 0xBF, CHR 0x87, CHR 0xE5, CHR 0x8F,
       CHR 0xAF, CHR 0xE8, CHR 0xB0, CHR 0x83, CHR 0xE5, CHR 0xBA, CHR 0xA6, CHR 0xE5, CHR 0xAE, CHR 0xB9, CHR 0xE9, CHR 0x87, CHR 0x8F] @
     '' '' @ show_nat capacity"

definition waits_for_gpu :: "int \<Rightarrow> nat \<Rightarrow> string" where
  "waits_for_gpu wanted available =
     [CHR 0xE7, CHR 0xAD, CHR 0x89, CHR 0xE5, CHR 0xBE, CHR 0x85, CHR 0xE5, CHR 0x8F, CHR 0xAF, CHR 0xE7, CHR 0x94, CHR 0xA8] @ '' GPU'' @
     [CHR 0xEF, CHR 0xBC, CHR 0x88, CHR 0xE9, CHR 0x9C, CHR 0x80] @ '' '' @ show_int wanted @
     [CHR 0xEF, CHR 0xBC, CHR 0x8C, CHR 0xE7, CHR 0xA9, CHR 0xBA, CHR 0xE9, CHR 0x97, CHR 0xB2] @ '' '' @ show_nat available @
     [CHR 0xEF, CHR 0xBC, CHR 0x89]"

text \<open>The cards per plan; \<open>make\<close> of a negative length panics.\<close>

fun hand_out :: "int list \<Rightarrow> int list \<Rightarrow> derr + int list list" where
  "hand_out free [] = Inr []"
| "hand_out free (n # ns) =
     (if n < 0 then Inl (derror GoPanic ''runtime error: makeslice: len out of range'')
      else map_sum id (\<lambda>rest. take (nat n) free # rest) (hand_out (drop (nat n) free) ns))"

definition free_devices :: "int list \<Rightarrow> int list \<Rightarrow> int \<Rightarrow> int list" where
  "free_devices schedulable busy untracked =
     (let free = filter (\<lambda>d. d \<notin> set busy) schedulable in
      if untracked > 0 then (if untracked \<ge> int (length free) then [] else drop (nat untracked) free) else free)"

definition computeAssignment :: "int list \<Rightarrow> int list \<Rightarrow> int \<Rightarrow> int list \<Rightarrow> derr + int list list" where
  "computeAssignment schedulable busy untracked needs =
     (let wanted = sum_list needs; free = free_devices schedulable busy untracked in
      if wanted > int (length schedulable) then Inl (derror ResourceUnavailable (exceeds_capacity wanted (length schedulable)))
      else if wanted > int (length free) then Inl (derror ResourceUnavailable (waits_for_gpu wanted (length free)))
      else hand_out free needs)"

definition pin_devices :: "ContainerPlan \<Rightarrow> int list \<Rightarrow> ContainerPlan" where
  "pin_devices p devs =
     (if devs = [] then p
      else let ids = map show_int devs in
        p\<lparr>cp_resources := (cp_resources p)\<lparr>rep_gpuDeviceIDs := ids\<rparr>, cp_labels := AList.update LabelGPUDevices (join '','' ids) (cp_labels p)\<rparr>)"

definition assignGPUsLocked :: "'q druntime \<Rightarrow> ContainerPlan list \<Rightarrow> (derr + ContainerPlan list) dprog" where
  "assignGPUsLocked r toCreate = guard_val (busyGPUDevices (dr_docker r)) Inl (\<lambda>(busy, untracked).
     ret (map_sum id (\<lambda>assign. map (\<lambda>(p, devs). pin_devices p devs) (zip toCreate assign))
            (computeAssignment (dr_schedulable r) busy untracked (map (\<lambda>p. rep_gpuCount (cp_resources p)) toCreate))))"

text \<open>The creation loop returns the plans as it leaves them: those it did not reach keep their names.\<close>

fun create_each :: "'q druntime \<Rightarrow> string \<Rightarrow> string \<Rightarrow> string \<Rightarrow> ContainerPlan list \<Rightarrow> (derr option \<times> ContainerPlan list) dprog" where
  "create_each r kind ns name [] = ret (None, [])"
| "create_each r kind ns name (p # ps) = do {
     (e, p) \<leftarrow> createAndStart r p;
     case e of
       Some err \<Rightarrow> do { _ \<leftarrow> record_event (dr_docker r) kind ns name [] ''ApplyFailed'' (de_msg err); ret (Some err, p # ps) }
     | None \<Rightarrow> do { (e, qs) \<leftarrow> create_each r kind ns name ps; ret (e, p # qs) }
   }"

definition ensure_plan_image :: "'q druntime \<Rightarrow> string \<Rightarrow> string \<Rightarrow> string \<Rightarrow> ContainerPlan \<Rightarrow> derr option dprog" where
  "ensure_plan_image r kind ns name p = do {
     e \<leftarrow> ensureImage (dr_docker r) (cp_image p) (cp_imagePullPolicy p);
     case e of
       None \<Rightarrow> ret None
     | Some err \<Rightarrow> do { _ \<leftarrow> record_event (dr_docker r) kind ns name [] ''ImagePullFailed'' (de_msg err); ret (Some err) }
   }"

definition createPlans :: "'q druntime \<Rightarrow> string \<Rightarrow> string \<Rightarrow> string \<Rightarrow> ContainerPlan list \<Rightarrow> (derr option \<times> ContainerPlan list) dprog" where
  "createPlans r kind ns name toCreate =
     guard (try_each (ensure_plan_image r kind ns name) toCreate) (\<lambda>e. (Some e, toCreate))
       (if sum_list (map (\<lambda>p. rep_gpuCount (cp_resources p)) toCreate) > 0 \<and> dr_schedulable r \<noteq> []
        then guard_val (assignGPUsLocked r toCreate) (\<lambda>e. (Some e, toCreate)) (create_each r kind ns name)
        else create_each r kind ns name toCreate)"

end
