(* ===== verification/DockerFiles.thy ===== *)
theory DockerFiles
  imports DockerEngine
begin

text \<open>
  The standalone runtime, third part: the files it keeps. ConfigMap projections (\<^verbatim>\<open>configmap.go\<close>) under a directory per
  workload with a manifest, and the resources of the gateway (\<^verbatim>\<open>gateway.go\<close>, \<^verbatim>\<open>service_route.go\<close>), one file
  per routed service or traffic policy. YAML is a parameter (\<open>glib\<close>): the encoder of a resource and the decoder of a file.
\<close>

section \<open>ConfigMap projections\<close>

definition projectionHash :: "'q dlib \<Rightarrow> (string, ConfigMapFile) gomap \<Rightarrow> string" where
  "projectionHash lib files = take 16 (hex_encode (sha256 (dl_marshalFiles lib files)))"

text \<open>The directory of a workload, empty when none is configured.\<close>

definition configMapWorkloadDir :: "dconfig \<Rightarrow> string \<Rightarrow> string \<Rightarrow> string \<Rightarrow> derr + string" where
  "configMapWorkloadDir cfg kind ns name =
     (if dcf_configMapsDir cfg = [] then Inr []
      else case find bad_segment [kind, ns, name] of
        Some part \<Rightarrow> Inl (derror DkOther (''invalid ConfigMap workload path segment '' @ go_quote part))
      | None \<Rightarrow> Inr (path_Join [dcf_configMapsDir cfg, kind, ns, name]))"

definition configMapProjectionDir :: "dconfig \<Rightarrow> string \<Rightarrow> string \<Rightarrow> string \<Rightarrow> string \<Rightarrow> derr + string" where
  "configMapProjectionDir cfg kind ns name relative =
     (let clean = path_Clean relative in
      if isAbs relative \<or> clean = ''.'' \<or> clean = ''..'' \<or> hasPrefix ''../'' clean \<or> clean \<noteq> relative
      then Inl (derror DkOther (''invalid ConfigMap projection manifest path '' @ go_quote relative))
      else if \<not> hasPrefix (path_Join [kind, ns, name] @ ''/'') clean
      then Inl (derror DkOther (''ConfigMap projection manifest path '' @ go_quote relative @ '' is outside workload '' @ kind @ ''/'' @ ns @ ''/'' @ name))
      else Inr (path_Join [dcf_configMapsDir cfg, clean]))"

definition readProjectionManifest :: "'q druntime \<Rightarrow> string \<Rightarrow> (string, string) gomap dprog" where
  "readProjectionManifest r filename = reading (\<lambda>h. case fs_readFile (dr_docker r) h filename of
     Inl _ \<Rightarrow> []
   | Inr body \<Rightarrow> (case dl_readManifest (dr_lib r) body of None \<Rightarrow> [] | Some m \<Rightarrow> m))"

text \<open>A file written beside its place and renamed; the temporary file is removed in any case.\<close>

definition install_file :: "docker \<Rightarrow> string \<Rightarrow> string \<Rightarrow> int option \<Rightarrow> string \<Rightarrow> (derr \<Rightarrow> derr) \<Rightarrow> derr option dprog" where
  "install_file dk dir body mode filename wrapRename = guard_val (call (\<lambda>h. val_err (fs_createTemp dk h dir)) (FsTemp dir)) Some (\<lambda>tmp. do {
     e \<leftarrow> guard (file_op dk (WriteTemp tmp body)) Some
            (guard (case mode of None \<Rightarrow> ret None | Some m \<Rightarrow> file_op dk (Chmod tmp m)) Some
              (guard (file_op dk (Rename tmp filename)) (\<lambda>e. Some (wrapRename e)) (ret None)));
     _ \<leftarrow> file_op dk (RemoveFile tmp);
     ret e
   })"

text \<open>\<open>filepath.Dir\<close>.\<close>

definition path_Dir :: "string \<Rightarrow> string" where
  "path_Dir p = path_Clean (rev (dropWhile (\<lambda>c. c \<noteq> CHR ''/'') (rev p)))"

definition writeProjectionManifest :: "'q druntime \<Rightarrow> string \<Rightarrow> (string, string) gomap \<Rightarrow> derr option dprog" where
  "writeProjectionManifest r filename manifest =
     install_file (dr_docker r) (path_Dir filename) (dl_marshalManifest (dr_lib r) manifest) None filename id"

definition write_projection_file :: "docker \<Rightarrow> string \<Rightarrow> string \<times> ConfigMapFile \<Rightarrow> derr option dprog" where
  "write_projection_file dk dir = (\<lambda>(relative, file).
     let filename = path_Join [dir, relative] in
     guard (file_op dk (MkdirAll (path_Dir filename))) Some
       (guard (file_op dk (WriteFile filename (cmf_data file) (cmf_mode file))) Some
         (file_op dk (Chmod filename (cmf_mode file)))))"

definition rewriteProjectionDir :: "docker \<Rightarrow> string \<Rightarrow> (string, ConfigMapFile) gomap \<Rightarrow> derr option dprog" where
  "rewriteProjectionDir dk dir files =
     guard (file_op dk (MkdirAll dir)) Some
       (guard_val (reading (\<lambda>h. val_err (fs_readDir dk h dir))) Some (\<lambda>entries.
          guard (try_each (\<lambda>entry. file_op dk (RemoveAll (path_Join [dir, entry]))) entries) Some
            (try_each (write_projection_file dk dir) files)))"

definition file_matches :: "(string, ConfigMapFile) gomap \<Rightarrow> string \<times> string \<times> int \<Rightarrow> bool" where
  "file_matches files = (\<lambda>(relative, body, mode). case map_of files relative of
     None \<Rightarrow> False | Some desired \<Rightarrow> body = cmf_data desired \<and> mode = cmf_mode desired)"

definition projectionDirMatches :: "docker \<Rightarrow> string \<Rightarrow> (string, ConfigMapFile) gomap \<Rightarrow> bool dprog" where
  "projectionDirMatches dk dir files = reading (\<lambda>h. case fs_walk dk h dir of
     Inl _ \<Rightarrow> False
   | Inr found \<Rightarrow> list_all (file_matches files) found \<and> length found = length files)"

definition expect_mount ::
  "'q dlib \<Rightarrow> (string, (string, ConfigMapFile) gomap) gomap \<Rightarrow> MountPlan \<Rightarrow> derr + (string, (string, ConfigMapFile) gomap) gomap" where
  "expect_mount lib expected m =
     (if mp_configMapPath m = [] then Inr expected
      else if (case map_of expected (mp_configMapPath m) of None \<Rightarrow> False
               | Some current \<Rightarrow> projectionHash lib current \<noteq> projectionHash lib (mp_configMapFiles m))
      then Inl (capabilityError (''ConfigMap projection '' @ go_quote (mp_configMapPath m) @ '' has conflicting role definitions''))
      else Inr (AList.update (mp_configMapPath m) (mp_configMapFiles m) expected))"

definition project_dir ::
  "'q druntime \<Rightarrow> string \<Rightarrow> string \<Rightarrow> string \<Rightarrow> (string, string) gomap \<Rightarrow> string \<times> (string, ConfigMapFile) gomap \<Rightarrow> derr option dprog" where
  "project_dir r kind ns name previous = (\<lambda>(relative, files).
     case configMapProjectionDir (dr_cfg r) kind ns name relative of
       Inl e \<Rightarrow> ret (Some e)
     | Inr dir \<Rightarrow> do {
         same \<leftarrow> (if map_of previous relative = Some (projectionHash (dr_lib r) files) then projectionDirMatches (dr_docker r) dir files else ret False);
         if same then ret None
         else guard (rewriteProjectionDir (dr_docker r) dir files)
                (\<lambda>e. Some (dwrap (''write ConfigMap projection '' @ go_quote relative @ '': '') e)) (ret None)
       })"

definition drop_projection ::
  "'q druntime \<Rightarrow> string \<Rightarrow> string \<Rightarrow> string \<Rightarrow> (string, (string, ConfigMapFile) gomap) gomap \<Rightarrow> string \<times> string \<Rightarrow> derr option dprog" where
  "drop_projection r kind ns name expected = (\<lambda>(relative, _).
     if map_of expected relative \<noteq> None then ret None
     else case configMapProjectionDir (dr_cfg r) kind ns name relative of
       Inl e \<Rightarrow> ret (Some e)
     | Inr dir \<Rightarrow> guard (file_op (dr_docker r) (RemoveAll dir))
         (\<lambda>e. Some (dwrap (''remove obsolete ConfigMap projection '' @ go_quote relative @ '': '') e)) (ret None))"

definition reconcileConfigMapProjections :: "'q druntime \<Rightarrow> string \<Rightarrow> string \<Rightarrow> string \<Rightarrow> ContainerPlan list \<Rightarrow> derr option dprog" where
  "reconcileConfigMapProjections r kind ns name plans =
     (case rfold (expect_mount (dr_lib r)) [] (concat (map cp_mounts plans)) of
        Inl e \<Rightarrow> ret (Some e)
      | Inr expected \<Rightarrow>
          (case configMapWorkloadDir (dr_cfg r) kind ns name of
             Inl e \<Rightarrow> ret (Some e)
           | Inr root \<Rightarrow>
               if expected = [] then (if root = [] then ret None else file_op (dr_docker r) (RemoveAll root))
               else if root = [] then ret (Some (capabilityError ''ConfigMap volume projection is not configured in standalone''))
               else guard (file_op (dr_docker r) (MkdirAll root)) (\<lambda>e. Some (dwrap ''create ConfigMap projection root: '' e)) (do {
                 let manifest = path_Join [root, ''.axisml-manifest.json''];
                 previous \<leftarrow> readProjectionManifest r manifest;
                 guard (try_each (project_dir r kind ns name previous) expected) Some
                   (guard (try_each (drop_projection r kind ns name expected) previous) Some
                     (writeProjectionManifest r manifest (map (\<lambda>(rel, files). (rel, projectionHash (dr_lib r) files)) expected)))
               })))"

definition removeConfigMapProjections :: "'q druntime \<Rightarrow> string \<Rightarrow> string \<Rightarrow> string \<Rightarrow> derr option dprog" where
  "removeConfigMapProjections r kind ns name =
     (case configMapWorkloadDir (dr_cfg r) kind ns name of
        Inl e \<Rightarrow> ret (Some e)
      | Inr root \<Rightarrow> if root = [] then ret None else file_op (dr_docker r) (RemoveAll root))"

section \<open>Gateway resources\<close>

datatype gatewayEndpoint = FQDNEndpoint string int | IPEndpoint string int

record gatewayBackendRef =
  gbr_group :: string
  gbr_kind :: string
  gbr_name :: string
  gbr_weight :: "int option"

record gatewayHTTPRouteSpec =
  grs_parentRefs :: "string list"
  grs_hostnames :: "string list"
  grs_rules :: "((string \<times> string) list \<times> gatewayBackendRef list) list"

datatype gateway_spec = BackendSpec "gatewayEndpoint list" | HTTPRouteSpec gatewayHTTPRouteSpec

record gatewayResource =
  gwr_apiVersion :: string
  gwr_kind :: string
  gwr_name :: string
  gwr_annotations :: "(string, string) gomap"
  gwr_spec :: gateway_spec

text \<open>What a decoded document has: the union of the fields of both kinds.\<close>

record gatewayFileDocument =
  gfd_apiVersion :: string
  gfd_kind :: string
  gfd_name :: string
  gfd_annotations :: "(string, string) gomap"
  gfd_hostnames :: "string list"
  gfd_rules :: "((string \<times> string) list \<times> gatewayBackendRef list) list"

record glib =
  gl_marshal :: "gatewayResource \<Rightarrow> string + string"
  gl_decode :: "string \<Rightarrow> string + gatewayFileDocument list"

abbreviation "gatewayServiceAnnotation \<equiv> ''standalone.axisml.io/service-name''"
abbreviation "gatewayBackendGroup \<equiv> ''gateway.envoyproxy.io''"

definition gatewayBackend :: "string \<Rightarrow> string \<Rightarrow> gatewayEndpoint list \<Rightarrow> gatewayResource" where
  "gatewayBackend name serviceName endpoints =
     \<lparr>gwr_apiVersion = ''gateway.envoyproxy.io/v1alpha1'', gwr_kind = ''Backend'', gwr_name = name,
      gwr_annotations = [(gatewayServiceAnnotation, serviceName)],
      gwr_spec = BackendSpec (if endpoints = [] then [IPEndpoint ''127.0.0.1'' 1] else endpoints)\<rparr>"

definition gatewayHTTPRoute :: "string \<Rightarrow> string \<Rightarrow> string \<Rightarrow> gatewayBackendRef list \<Rightarrow> gatewayResource" where
  "gatewayHTTPRoute name hostname path refs =
     \<lparr>gwr_apiVersion = ''gateway.networking.k8s.io/v1'', gwr_kind = ''HTTPRoute'', gwr_name = name, gwr_annotations = [],
      gwr_spec = HTTPRouteSpec \<lparr>grs_parentRefs = [''axisml-gateway''], grs_hostnames = (if hostname \<noteq> [] then [hostname] else []),
        grs_rules = [([(''PathPrefix'', if path = [] then ''/'' else path)], refs)]\<rparr>\<rparr>"

definition gatewayContainerEndpoint :: "string \<Rightarrow> int \<Rightarrow> gatewayEndpoint" where
  "gatewayContainerEndpoint containerName port = FQDNEndpoint (gatewayBackendHostname containerName) port"

fun marshal_documents :: "glib \<Rightarrow> gatewayResource list \<Rightarrow> derr + string list" where
  "marshal_documents g [] = Inr []"
| "marshal_documents g (x # xs) = (case gl_marshal g x of Inl e \<Rightarrow> Inl (derror DkOther e) | Inr b \<Rightarrow> map_sum id (Cons b) (marshal_documents g xs))"

definition yaml_separator :: string where "yaml_separator = ''---'' @ [CHR 0x0A]"

definition marshalGatewayResources :: "glib \<Rightarrow> gatewayResource list \<Rightarrow> derr + string" where
  "marshalGatewayResources g xs = map_sum id (join yaml_separator) (marshal_documents g xs)"

definition readGatewayDocuments :: "docker \<Rightarrow> glib \<Rightarrow> string \<Rightarrow> (derr + gatewayFileDocument list) dprog" where
  "readGatewayDocuments dk g path = reading (\<lambda>h. case fs_readFile dk h path of
     Inl e \<Rightarrow> Inl (engine_error e)
   | Inr b \<Rightarrow> map_sum (derror DkOther) (filter (\<lambda>d. gfd_kind d \<noteq> [])) (gl_decode g b))"

text \<open>The path and the host a route document is found under.\<close>

definition route_path :: "gatewayFileDocument \<Rightarrow> string" where
  "route_path doc = (case gfd_rules doc of ((_, v) # _, _) # _ \<Rightarrow> if v \<noteq> [] then v else ''/'' | _ \<Rightarrow> ''/'')"

definition gatewayRouteEndpoint :: "gatewayFileDocument \<Rightarrow> string" where
  "gatewayRouteEndpoint doc =
     (case gfd_hostnames doc of host # _ \<Rightarrow> if host \<noteq> [] then ''http://'' @ host @ route_path doc else route_path doc
      | [] \<Rightarrow> route_path doc)"

definition writeGatewayFile :: "docker \<Rightarrow> string \<Rightarrow> string \<Rightarrow> derr option dprog" where
  "writeGatewayFile dk path b =
     (let dir = path_Dir path; tmpDir = path_Join [dir, ''.tmp''] in
      guard (file_op dk (MkdirAll dir)) Some
        (guard (file_op dk (MkdirAll tmpDir)) Some
          (install_file dk tmpDir b (Some 420) path (dwrap ''install gateway resources: ''))))"

section \<open>Routes of services\<close>

definition dk_resolveServicePort :: "'q MLServiceSpec \<Rightarrow> Route \<Rightarrow> int" where
  "dk_resolveServicePort spec route =
     (case ss_roles spec of
        [] \<Rightarrow> 80
      | role # _ \<Rightarrow>
          let ports = pt_ports (role_template role); first = (case ports of p # _ \<Rightarrow> pp_containerPort p | [] \<Rightarrow> 80) in
          if rou_portName route \<noteq> []
          then (case find (\<lambda>p. pp_name p = rou_portName route) ports of Some p \<Rightarrow> pp_containerPort p | None \<Rightarrow> first)
          else first)"

definition serviceResourceName :: "string \<Rightarrow> string \<Rightarrow> string" where
  "serviceResourceName ns name = bounded_name (''axisml-svc-'' @ ns @ ''-'' @ name) ''axisml-svc-''"

definition serviceRouteFileName :: "dconfig \<Rightarrow> string \<Rightarrow> string \<Rightarrow> string" where
  "serviceRouteFileName cfg ns name = path_Join [dcf_gatewayConfigDir cfg, ''service-'' @ ns @ ''-'' @ name @ ''.yaml'']"

definition remove_file :: "docker \<Rightarrow> string \<Rightarrow> derr option dprog" where
  "remove_file dk path = do {
     e \<leftarrow> file_op dk (RemoveFile path);
     ret (case e of Some x \<Rightarrow> if is_kind DkNotFound x then None else Some x | None \<Rightarrow> None)
   }"

definition deleteServiceRoute :: "'q druntime \<Rightarrow> string \<Rightarrow> string \<Rightarrow> derr option dprog" where
  "deleteServiceRoute r ns name = remove_file (dr_docker r) (serviceRouteFileName (dr_cfg r) ns name)"

definition applyServiceRoute :: "'q druntime \<Rightarrow> glib \<Rightarrow> 'q MLServiceSpec cr \<Rightarrow> ContainerPlan list \<Rightarrow> derr option dprog" where
  "applyServiceRoute r g svc plans =
     (let ns = cr_namespace svc; name = cr_name svc in
      case ss_route (cr_spec svc) of
        None \<Rightarrow> deleteServiceRoute r ns name
      | Some route \<Rightarrow>
          if \<not> rou_enabled route then deleteServiceRoute r ns name
          else if (case rou_authType route of None \<Rightarrow> False | Some a \<Rightarrow> a \<noteq> [] \<and> a \<noteq> ''none'')
          then ret (Some (capabilityError (''MLService route auth '' @ go_quote (the (rou_authType route)) @ '' is unsupported in standalone'')))
          else if rou_rateLimit route \<noteq> None then ret (Some (capabilityError ''MLService route rateLimit is unsupported in standalone''))
          else let port = dk_resolveServicePort (cr_spec svc) route;
                   endpoints = map (\<lambda>p. gatewayContainerEndpoint (cp_name p) port) plans;
                   res = serviceResourceName ns name in
            (case marshalGatewayResources g [gatewayBackend res name endpoints,
                    gatewayHTTPRoute res (rou_hostname route) (rou_path route)
                      [\<lparr>gbr_group = gatewayBackendGroup, gbr_kind = ''Backend'', gbr_name = res, gbr_weight = None\<rparr>]] of
               Inl e \<Rightarrow> ret (Some (dwrap ''marshal service gateway resources: '' e))
             | Inr b \<Rightarrow> writeGatewayFile (dr_docker r) (serviceRouteFileName (dr_cfg r) ns name) b))"

definition serviceRouteEndpoint :: "'q druntime \<Rightarrow> glib \<Rightarrow> string \<Rightarrow> string \<Rightarrow> string dprog" where
  "serviceRouteEndpoint r g ns name = do {
     d \<leftarrow> readGatewayDocuments (dr_docker r) g (serviceRouteFileName (dr_cfg r) ns name);
     ret (case d of Inl _ \<Rightarrow> [] | Inr docs \<Rightarrow>
            (case find (\<lambda>d. gfd_kind d = ''HTTPRoute'') docs of None \<Rightarrow> [] | Some doc \<Rightarrow> gatewayRouteEndpoint doc))
   }"

end
