(* ===== verification/DockerRuntime.thy ===== *)
theory DockerRuntime
  imports DockerFiles
begin

text \<open>
  The standalone runtime, last part: the operations of the runtime contract on runs (\<^verbatim>\<open>run.go\<close>), services
  (\<^verbatim>\<open>service.go\<close>) and traffic policies (\<^verbatim>\<open>traffic.go\<close>), instances (\<^verbatim>\<open>pod.go\<close>), the resource inventory
  of the host (\<^verbatim>\<open>inventory.go\<close>) and data volumes (\<^verbatim>\<open>volume.go\<close>).

  The observed states are those \<open>StatusMap\<close> reads. Log options are not modelled: a log is one text.
\<close>

section \<open>Applying\<close>

definition ensure_volumes :: "docker \<Rightarrow> string \<Rightarrow> string \<Rightarrow> string \<Rightarrow> ContainerPlan list \<Rightarrow> derr option dprog" where
  "ensure_volumes dk kind ns name plans = try_each (\<lambda>m.
     if mp_type m \<noteq> ''volume'' then ret None
     else guard (ensureVolume dk (mp_source m) (baseLabels kind ns name)) (\<lambda>e. Some (dwrap (''ensure volume '' @ go_quote (mp_source m) @ '': '') e)) (ret None))
     (concat (map cp_mounts plans))"

text \<open>
  The loop over the plans: what exists unchanged keeps its name, what has changed is removed, and what is to be created
  gets a name. The result is the plans in order, each with whether it is to be created, up to the first error.
\<close>

fun classify :: "docker \<Rightarrow> (string, container) gomap \<Rightarrow> ContainerPlan list \<Rightarrow> (derr + (bool \<times> ContainerPlan) list) dprog" where
  "classify dk bySlot [] = ret (Inr [])"
| "classify dk bySlot (p # ps) =
     (let rest = (\<lambda>b p. do { r \<leftarrow> classify dk bySlot ps; ret (map_sum id (Cons (b, p)) r) });
          create = do { n \<leftarrow> instanceName dk (cp_namePrefix p) (cp_replica p) (cp_stableOrdinal p); rest True (p\<lparr>cp_name := n\<rparr>) } in
      case map_of bySlot (planSlot p) of
        None \<Rightarrow> create
      | Some cur \<Rightarrow>
          if sget (cn_labels cur) LabelSpecHash = sget (cp_labels p) LabelSpecHash then rest False (p\<lparr>cp_name := summaryName cur\<rparr>)
          else guard (removeContainer dk (cn_id cur)) Inl create)"

definition to_create :: "(bool \<times> ContainerPlan) list \<Rightarrow> ContainerPlan list" where
  "to_create marked = map snd (filter fst marked)"

text \<open>The plans after the creation, in their order.\<close>

fun merge_created :: "(bool \<times> ContainerPlan) list \<Rightarrow> ContainerPlan list \<Rightarrow> ContainerPlan list" where
  "merge_created [] qs = []"
| "merge_created ((True, p) # ms) (q # qs) = q # merge_created ms qs"
| "merge_created ((True, p) # ms) [] = p # merge_created ms []"
| "merge_created ((False, p) # ms) qs = p # merge_created ms qs"

text \<open>
  What \<open>ApplyMLRun\<close> and \<open>ApplyMLService\<close> have in common: the projections, the containers there are, the volumes, the
  loop over the plans and the creation. \<open>rest\<close> is what follows, given the containers found, whether some were
  created, and the plans.
\<close>

definition apply_plans ::
  "'q druntime \<Rightarrow> string \<Rightarrow> string \<Rightarrow> string \<Rightarrow> ContainerPlan list \<Rightarrow> (container list \<Rightarrow> bool \<Rightarrow> ContainerPlan list \<Rightarrow> derr option dprog) \<Rightarrow> derr option dprog" where
  "apply_plans r kind ns name plans rest =
     (let dk = dr_docker r in
      guard (reconcileConfigMapProjections r kind ns name plans) Some
        (guard_val (listContainers dk kind ns name) Some (\<lambda>existing.
          guard (ensure_volumes dk kind ns name plans) Some
            (guard_val (classify dk (indexBySlot existing) plans) Some (\<lambda>marked.
              if to_create marked = [] then rest existing False (map snd marked)
              else do {
                (e, created) \<leftarrow> createPlans r kind ns name (to_create marked);
                case e of Some err \<Rightarrow> ret (Some err) | None \<Rightarrow> rest existing True (merge_created marked created)
              })))))"

definition dk_ApplyMLRun :: "'q druntime \<Rightarrow> 'q MLRunSpec cr \<Rightarrow> derr option dprog" where
  "dk_ApplyMLRun r desired =
     (let ns = cr_namespace desired; name = cr_name desired in
      case renderRunPlans (dr_lib r) (dr_cfg r) desired of
        Inl e \<Rightarrow> ret (Some e)
      | Inr plans \<Rightarrow> apply_plans r KindRun ns name plans (\<lambda>_ created _.
          if \<not> created then ret None
          else do { _ \<leftarrow> record_event (dr_docker r) KindRun ns name [] ''Created'' ''run containers created''; ret None }))"

definition remove_surplus :: "docker \<Rightarrow> ContainerPlan list \<Rightarrow> container list \<Rightarrow> derr option dprog" where
  "remove_surplus dk plans existing =
     try_each (\<lambda>c. if containerSlot c \<in> planSlot ` set plans then ret None else removeContainer dk (cn_id c)) existing"

definition finish_service :: "'q druntime \<Rightarrow> glib \<Rightarrow> 'q MLServiceSpec cr \<Rightarrow> container list \<Rightarrow> ContainerPlan list \<Rightarrow> derr option dprog" where
  "finish_service r g desired existing plans =
     (let ns = cr_namespace desired; name = cr_name desired; dk = dr_docker r in
      guard (remove_surplus dk plans existing) Some (do {
        e \<leftarrow> applyServiceRoute r g desired plans;
        case e of
          Some err \<Rightarrow> do { _ \<leftarrow> record_event dk KindSvc ns name [] ''RouteFailed'' (de_msg err); ret (Some err) }
        | None \<Rightarrow> do { _ \<leftarrow> record_event dk KindSvc ns name [] ''Applied'' ''service converged''; ret None }
      }))"

definition dk_ApplyMLService :: "'q druntime \<Rightarrow> glib \<Rightarrow> 'q MLServiceSpec cr \<Rightarrow> derr option dprog" where
  "dk_ApplyMLService r g desired =
     (case renderServicePlans (dr_lib r) (dr_cfg r) desired of
        Inl e \<Rightarrow> ret (Some e)
      | Inr plans \<Rightarrow> apply_plans r KindSvc (cr_namespace desired) (cr_name desired) plans (\<lambda>existing _. finish_service r g desired existing))"

section \<open>Observing\<close>

definition api_not_found :: "string \<Rightarrow> string \<Rightarrow> derr" where
  "api_not_found resource name = derror ApiNotFound (resource @ ''.axisml.io '' @ go_quote name @ '' not found'')"

record run_tally =
  rt_running :: nat
  rt_succeeded :: nat
  rt_failed :: nat
  rt_startedAt :: "nat option"
  rt_finishedAt :: "nat option"
  rt_failMsg :: string

definition later_of :: "nat option \<Rightarrow> nat option \<Rightarrow> nat option" where
  "later_of old new = (case new of None \<Rightarrow> old | Some _ \<Rightarrow> new)"

definition tally_step :: "run_tally \<Rightarrow> instState \<Rightarrow> run_tally" where
  "tally_step t s =
     (let t = (if rt_startedAt t = None then t\<lparr>rt_startedAt := is_startedAt s\<rparr> else t) in
      if is_status s = ''running'' then t\<lparr>rt_running := rt_running t + 1\<rparr>
      else if is_status s = ''exited'' \<and> is_exitCode s = 0
      then t\<lparr>rt_succeeded := rt_succeeded t + 1, rt_finishedAt := later_of (rt_finishedAt t) (is_finishedAt s)\<rparr>
      else if is_status s = ''exited''
      then t\<lparr>rt_failed := rt_failed t + 1, rt_failMsg := (if is_oom s then ''container OOMKilled'' else ''container exited with non-zero status''),
             rt_finishedAt := later_of (rt_finishedAt t) (is_finishedAt s)\<rparr>
      else t)"

definition run_status_of :: "instState list \<Rightarrow> run_observed" where
  "run_status_of states =
     (let t = foldl tally_step \<lparr>rt_running = 0, rt_succeeded = 0, rt_failed = 0, rt_startedAt = None, rt_finishedAt = None, rt_failMsg = []\<rparr> states;
          st = \<lparr>ro_phase = ''Pending'', ro_message = [], ro_startedAt = rt_startedAt t, ro_finishedAt = None, ro_conditions = []\<rparr>
      in if rt_failed t > 0 then st\<lparr>ro_phase := ''Failed'', ro_message := rt_failMsg t, ro_finishedAt := rt_finishedAt t\<rparr>
         else if rt_succeeded t = length states then st\<lparr>ro_phase := ''Succeeded'', ro_finishedAt := rt_finishedAt t\<rparr>
         else if rt_running t > 0 then st\<lparr>ro_phase := ''Running''\<rparr>
         else st)"

definition dk_ObserveMLRun :: "'q druntime \<Rightarrow> string \<times> string \<Rightarrow> (derr + run_observed) dprog" where
  "dk_ObserveMLRun r key = guard_val (listContainers (dr_docker r) KindRun (fst key) (snd key)) Inl (\<lambda>conts.
     if conts = [] then ret (Inl (api_not_found ''mlruns'' (snd key)))
     else guard_val (inspectAll (dr_docker r) conts) Inl (\<lambda>states. do {
       c \<leftarrow> isCancelled (fst key) (snd key);
       let st = run_status_of states;
       ret (Inr (if c then st\<lparr>ro_conditions := ro_conditions st @
              [\<lparr>cond_type = ConditionSuspended, cond_status = ''True'', cond_reason = ReasonCancelRequested\<rparr>]\<rparr> else st))
     }))"

definition dk_CancelMLRun :: "'q druntime \<Rightarrow> string \<times> string \<Rightarrow> derr option dprog" where
  "dk_CancelMLRun r key = do {
     _ \<leftarrow> markCancelled (fst key) (snd key);
     guard_val (listContainers (dr_docker r) KindRun (fst key) (snd key)) Some (\<lambda>conts.
       guard (try_each (\<lambda>c. stopContainer (dr_docker r) (cn_id c)) conts) Some (do {
         _ \<leftarrow> record_event (dr_docker r) KindRun (fst key) (snd key) [] ''Cancelled'' ''run cancel requested'';
         ret None
       }))
   }"

definition dk_DeleteMLRun :: "'q druntime \<Rightarrow> string \<times> string \<Rightarrow> derr option dprog" where
  "dk_DeleteMLRun r key = guard_val (listContainers (dr_docker r) KindRun (fst key) (snd key)) Some (\<lambda>conts.
     guard (try_each (\<lambda>c. removeContainer (dr_docker r) (cn_id c)) conts) Some
       (guard (removeConfigMapProjections r KindRun (fst key) (snd key)) Some (do {
         _ \<leftarrow> clearCancelled (fst key) (snd key);
         if conts = [] then ret None
         else do { _ \<leftarrow> record_event (dr_docker r) KindRun (fst key) (snd key) [] ''Deleted'' ''run containers removed''; ret None }
       })))"

definition svc_status_of :: "instState list \<Rightarrow> svc_observed" where
  "svc_status_of states =
     (let rdy = length (filter inst_ready states);
          failed = length (filter (\<lambda>s. \<not> inst_ready s \<and> is_status s = ''exited'' \<and> is_exitCode s \<noteq> 0) states);
          st = \<lparr>so_phase = ''Pending'', so_message = [], so_endpoint = [], so_readyReplicas = int rdy\<rparr>
      in if rdy = length states then st\<lparr>so_phase := ''Ready''\<rparr>
         else if rdy > 0 then st\<lparr>so_phase := ''Degraded''\<rparr>
         else if failed = length states then st\<lparr>so_phase := ''Failed'', so_message := ''all replicas failed''\<rparr>
         else st)"

definition dk_ObserveMLService :: "'q druntime \<Rightarrow> glib \<Rightarrow> string \<times> string \<Rightarrow> (derr + svc_observed) dprog" where
  "dk_ObserveMLService r g key = guard_val (listContainers (dr_docker r) KindSvc (fst key) (snd key)) Inl (\<lambda>conts.
     if conts = [] then ret (Inl (api_not_found ''mlservices'' (snd key)))
     else guard_val (inspectAll (dr_docker r) conts) Inl (\<lambda>states. do {
       e \<leftarrow> serviceRouteEndpoint r g (fst key) (snd key);
       ret (Inr ((svc_status_of states)\<lparr>so_endpoint := e\<rparr>))
     }))"

definition dk_DeleteMLService :: "'q druntime \<Rightarrow> string \<times> string \<Rightarrow> derr option dprog" where
  "dk_DeleteMLService r key = guard_val (listContainers (dr_docker r) KindSvc (fst key) (snd key)) Some (\<lambda>conts.
     guard (try_each (\<lambda>c. removeContainer (dr_docker r) (cn_id c)) conts) Some
       (guard (deleteServiceRoute r (fst key) (snd key)) Some
         (guard (removeConfigMapProjections r KindSvc (fst key) (snd key)) Some
           (if conts = [] then ret None
            else do { _ \<leftarrow> record_event (dr_docker r) KindSvc (fst key) (snd key) [] ''Deleted'' ''service containers removed''; ret None }))))"

section \<open>Traffic policies\<close>

record trafficMember =
  trm_service :: string
  trm_weight :: int
  trm_path :: string
  trm_host :: string

record trafficBackend =
  trb_serviceName :: string
  trb_resourceName :: string
  trb_endpoints :: "gatewayEndpoint list"
  trb_weight :: int

definition trafficResourceName :: "string \<Rightarrow> string \<Rightarrow> string" where
  "trafficResourceName ns name = bounded_name (''axisml-'' @ ns @ ''-'' @ name) ''axisml-tp-''"

definition trafficMemberResourceName :: "string \<Rightarrow> string \<Rightarrow> string \<Rightarrow> string" where
  "trafficMemberResourceName ns policyName serviceName =
     bounded_name (''axisml-tp-'' @ ns @ ''-'' @ policyName @ ''-'' @ serviceName) ''axisml-tp-backend-''"

definition trafficFileName :: "dconfig \<Rightarrow> string \<Rightarrow> string \<Rightarrow> string" where
  "trafficFileName cfg ns name = path_Join [dcf_gatewayConfigDir cfg, ''traffic-policy-'' @ ns @ ''-'' @ name @ ''.yaml'']"

definition firstExposedPort :: "docker \<Rightarrow> string \<Rightarrow> int dprog" where
  "firstExposedPort dk i = do {
     r \<leftarrow> containerInspect dk i;
     ret (case r of Inl _ \<Rightarrow> 80 | Inr ins \<Rightarrow> (case sort (ins_exposedPorts ins) of p # _ \<Rightarrow> p | [] \<Rightarrow> 80))
   }"

fun running_endpoints :: "docker \<Rightarrow> container list \<Rightarrow> gatewayEndpoint list dprog" where
  "running_endpoints dk [] = ret []"
| "running_endpoints dk (c # cs) =
     (if cn_state c \<noteq> ''running'' then running_endpoints dk cs
      else do {
        port \<leftarrow> firstExposedPort dk (cn_id c);
        rest \<leftarrow> running_endpoints dk cs;
        ret (gatewayContainerEndpoint (summaryName c) port # rest)
      })"

definition memberEndpoints :: "docker \<Rightarrow> string \<Rightarrow> string \<Rightarrow> (derr + gatewayEndpoint list) dprog" where
  "memberEndpoints dk ns serviceName = guard_val (listContainers dk KindSvc ns serviceName) Inl (\<lambda>conts. do {
     es \<leftarrow> running_endpoints dk conts;
     ret (Inr es)
   })"

fun resolve_backends :: "docker \<Rightarrow> TrafficSpec cr \<Rightarrow> BackendMember list \<Rightarrow> (derr + trafficBackend list) dprog" where
  "resolve_backends dk p [] = ret (Inr [])"
| "resolve_backends dk p (m # ms) = guard_val (memberEndpoints dk (cr_namespace p) (bm_serviceName m)) Inl (\<lambda>endpoints. do {
     rest \<leftarrow> resolve_backends dk p ms;
     ret (map_sum id (Cons \<lparr>trb_serviceName = bm_serviceName m,
        trb_resourceName = trafficMemberResourceName (cr_namespace p) (cr_name p) (bm_serviceName m),
        trb_endpoints = endpoints, trb_weight = bm_weight m\<rparr>) rest)
   })"

definition gatewayTrafficResources :: "TrafficSpec cr \<Rightarrow> trafficBackend list \<Rightarrow> gatewayResource list" where
  "gatewayTrafficResources p backends =
     map (\<lambda>b. gatewayBackend (trb_resourceName b) (trb_serviceName b) (trb_endpoints b)) backends @
     [gatewayHTTPRoute (trafficResourceName (cr_namespace p) (cr_name p)) (ep_hostname (tsp_endpoint (cr_spec p))) (ep_path (tsp_endpoint (cr_spec p)))
        (map (\<lambda>b. \<lparr>gbr_group = gatewayBackendGroup, gbr_kind = ''Backend'', gbr_name = trb_resourceName b, gbr_weight = Some (trb_weight b)\<rparr>) backends)]"

definition dk_ApplyMLTrafficPolicy :: "'q druntime \<Rightarrow> glib \<Rightarrow> TrafficSpec cr \<Rightarrow> derr option dprog" where
  "dk_ApplyMLTrafficPolicy r g desired =
     (let b = tsp_backend (cr_spec desired); dk = dr_docker r in
      if be_name b \<noteq> ''native'' \<or> be_engine b \<noteq> ''httproute''
      then ret (Some (capabilityError (''MLTrafficPolicy backend '' @ be_name b @ ''/'' @ be_engine b @
             '' is unsupported in standalone (only native/httproute)'')))
      else guard_val (resolve_backends dk desired (tsp_backends (cr_spec desired))) Some (\<lambda>backends.
        case marshalGatewayResources g (gatewayTrafficResources desired backends) of
          Inl e \<Rightarrow> ret (Some (dwrap ''marshal traffic gateway resources: '' e))
        | Inr body \<Rightarrow>
            guard (writeGatewayFile dk (trafficFileName (dr_cfg r) (cr_namespace desired) (cr_name desired)) body) Some (do {
              _ \<leftarrow> record_event dk KindTraffic (cr_namespace desired) (cr_name desired) [] ''Applied'' ''traffic policy config written'';
              ret None
            })))"

text \<open>The members a file describes: \<open>services\<close> maps the name of a backend to its service, the last route counts.\<close>

definition members_of :: "gatewayFileDocument list \<Rightarrow> trafficMember list" where
  "members_of docs =
     (let services = foldl (\<lambda>m d. if gfd_kind d = ''Backend'' then AList.update (gfd_name d) (sget (gfd_annotations d) gatewayServiceAnnotation) m else m) [] docs in
      case rev (filter (\<lambda>d. gfd_kind d = ''HTTPRoute'') docs) of
        [] \<Rightarrow> []
      | route # _ \<Rightarrow>
          (case gfd_rules route of
             [] \<Rightarrow> []
           | (_, refs) # _ \<Rightarrow> map (\<lambda>ref. \<lparr>trm_service = sget services (gbr_name ref),
               trm_weight = (case gbr_weight ref of Some w \<Rightarrow> w | None \<Rightarrow> 1), trm_path = route_path route,
               trm_host = (case gfd_hostnames route of host # _ \<Rightarrow> host | [] \<Rightarrow> [])\<rparr>) refs))"

definition readTrafficMembers :: "docker \<Rightarrow> glib \<Rightarrow> string \<Rightarrow> (derr + trafficMember list) dprog" where
  "readTrafficMembers dk g path = do { d \<leftarrow> readGatewayDocuments dk g path; ret (map_sum id members_of d) }"

definition serviceHasReady :: "docker \<Rightarrow> string \<Rightarrow> string \<Rightarrow> bool dprog" where
  "serviceHasReady dk ns serviceName = guard_val (listContainers dk KindSvc ns serviceName) (\<lambda>_. False) (\<lambda>conts.
     guard_val (inspectAll dk conts) (\<lambda>_. False) (\<lambda>states. ret (list_ex inst_ready states)))"

fun backend_states :: "docker \<Rightarrow> string \<Rightarrow> trafficMember list \<Rightarrow> traffic_backend list dprog" where
  "backend_states dk ns [] = ret []"
| "backend_states dk ns (m # ms) = do {
     b \<leftarrow> serviceHasReady dk ns (trm_service m);
     rest \<leftarrow> backend_states dk ns ms;
     ret (\<lparr>tb_serviceName = trm_service m, tb_weight = trm_weight m, tb_ready = b\<rparr> # rest)
   }"

definition trafficEndpoint :: "trafficMember list \<Rightarrow> string" where
  "trafficEndpoint members =
     (case members of [] \<Rightarrow> [] | m # _ \<Rightarrow> if trm_host m \<noteq> [] then ''http://'' @ trm_host m @ trm_path m else trm_path m)"

definition traffic_phase_of :: "traffic_backend list \<Rightarrow> string" where
  "traffic_phase_of backends =
     (let active = filter (\<lambda>b. tb_weight b > 0) backends; readyCount = length (filter tb_ready active) in
      if active = [] then ''Pending'' else if readyCount = length active then ''Ready''
      else if readyCount > 0 then ''Degraded'' else ''Pending'')"

definition dk_ObserveMLTrafficPolicy :: "'q druntime \<Rightarrow> glib \<Rightarrow> string \<times> string \<Rightarrow> (derr + traffic_observed) dprog" where
  "dk_ObserveMLTrafficPolicy r g key =
     (let path = trafficFileName (dr_cfg r) (fst key) (snd key) in
      guard (reading (\<lambda>h. opt_err (fs_stat (dr_docker r) h path)))
        (\<lambda>e. Inl (if is_kind DkNotFound e then api_not_found ''mltrafficpolicies'' (snd key) else e))
        (guard_val (readTrafficMembers (dr_docker r) g path) Inl (\<lambda>members. do {
          backends \<leftarrow> backend_states (dr_docker r) (fst key) members;
          ret (Inr \<lparr>to_phase = traffic_phase_of backends, to_message = [], to_endpoint = trafficEndpoint members, to_backends = backends\<rparr>)
        })))"

definition dk_DeleteMLTrafficPolicy :: "'q druntime \<Rightarrow> string \<times> string \<Rightarrow> derr option dprog" where
  "dk_DeleteMLTrafficPolicy r key = guard (remove_file (dr_docker r) (trafficFileName (dr_cfg r) (fst key) (snd key))) Some (do {
     _ \<leftarrow> record_event (dr_docker r) KindTraffic (fst key) (snd key) [] ''Deleted'' ''traffic policy config removed'';
     ret None
   })"

section \<open>Instances\<close>

record pod_projection =
  pj_name :: string
  pj_namespace :: string
  pj_labels :: "(string, string) gomap"
  pj_image :: string
  pj_phase :: string
  pj_reason :: string
  pj_exitCode :: int
  pj_startTime :: "nat option"
  pj_finishedAt :: "nat option"
  pj_ready :: bool

text \<open>The phase, and the state of the one container (its reason when it is terminated or waits).\<close>

definition containerStatus :: "instState \<Rightarrow> string \<times> string \<times> int" where
  "containerStatus s =
     (if is_status s = ''running'' then (''Running'', [], 0)
      else if is_status s = ''exited'' \<and> is_exitCode s = 0 then (''Succeeded'', ''Completed'', 0)
      else if is_status s = ''exited'' then (''Failed'', if is_oom s then ''OOMKilled'' else ''Error'', is_exitCode s)
      else (''Pending'', ''ContainerCreating'', 0))"

definition projectPod :: "string \<Rightarrow> instState \<Rightarrow> pod_projection" where
  "projectPod ns s =
     (case containerStatus s of (phase, reason, code) \<Rightarrow>
       \<lparr>pj_name = is_name s, pj_namespace = ns,
        pj_labels = [(LabelTenant, is_tenant s), (LabelDockerRole, is_role s), (LabelReplicaIndex, is_replica s)],
        pj_image = is_image s, pj_phase = phase, pj_reason = reason, pj_exitCode = code, pj_startTime = is_startedAt s,
        pj_finishedAt = (if is_status s = ''exited'' then is_finishedAt s else None), pj_ready = inst_ready s\<rparr>)"

definition list_instances :: "'q druntime \<Rightarrow> string \<Rightarrow> string \<times> string \<Rightarrow> (derr + pod_projection list) dprog" where
  "list_instances r kind key = guard_val (listContainers (dr_docker r) kind (fst key) (snd key)) Inl (\<lambda>conts. do {
     s \<leftarrow> inspectAll (dr_docker r) conts;
     ret (map_sum id (map (projectPod (fst key))) s)
   })"

definition dk_verifyInstance :: "'q druntime \<Rightarrow> string \<Rightarrow> string \<times> string \<Rightarrow> string \<Rightarrow> derr option dprog" where
  "dk_verifyInstance r kind key inst = guard_val (listContainers (dr_docker r) kind (fst key) (snd key)) Some (\<lambda>conts.
     if list_ex (\<lambda>c. summaryName c = inst) conts then ret None
     else do {
       i \<leftarrow> containerInspect (dr_docker r) inst;
       ret (case i of
              Inl e \<Rightarrow> Some (if is_kind DkNotFound e then api_not_found ''pods'' inst else e)
            | Inr _ \<Rightarrow> Some (derror NotOwned ''instance does not belong to this workload''))
     })"

definition streamLogs :: "docker \<Rightarrow> string \<Rightarrow> (derr + string) dprog" where
  "streamLogs dk inst = reading (\<lambda>h. case val_err (dk_logs dk h inst) of
     Inl e \<Rightarrow> Inl (if is_kind DkNotFound e then api_not_found ''pods'' inst else e) | Inr s \<Rightarrow> Inr s)"

definition instance_logs :: "'q druntime \<Rightarrow> string \<Rightarrow> string \<times> string \<Rightarrow> string \<Rightarrow> (derr + string) dprog" where
  "instance_logs r kind key inst = guard (dk_verifyInstance r kind key inst) Inl (streamLogs (dr_docker r) inst)"

definition instance_events :: "'q druntime \<Rightarrow> string \<Rightarrow> string \<times> string \<Rightarrow> string \<Rightarrow> (derr + eventRec list) dprog" where
  "instance_events r kind key inst = guard (dk_verifyInstance r kind key inst) Inl (do {
     es \<leftarrow> list_events kind (fst key) (snd key) inst; ret (Inr es) })"

section \<open>Inventory\<close>

definition dockerGPUCount :: "device_request list \<Rightarrow> string \<Rightarrow> nat \<Rightarrow> int" where
  "dockerGPUCount requests assigned managedCapacity =
     (if assigned \<noteq> [] then int (length (parseDeviceList assigned))
      else sum_list (map (\<lambda>q.
        if dvr_driver q \<noteq> ''nvidia'' \<and> \<not> capsHaveGPU (dvr_capabilities q) then 0
        else if dvr_count q > 0 then dvr_count q else if dvr_count q < 0 then int managedCapacity
        else int (length (dvr_deviceIDs q))) requests))"

definition subtractReserved :: "'q::linordered_ab_group_add resource_list \<Rightarrow> 'q resource_list \<Rightarrow> 'q resource_list" where
  "subtractReserved allocatable reserved =
     foldl (\<lambda>m (name, q). let current = rget m name - q in AList.update name (if current < 0 then 0 else current) m) allocatable reserved"

definition dockerSnapshotVersion :: "string \<Rightarrow> string \<Rightarrow> container list \<Rightarrow> string" where
  "dockerSnapshotVersion serverVersion daemonID containers =
     ''docker:'' @ shortHash (join [CHR 0x00] (sort ((serverVersion @ ''/'' @ daemonID) #
       map (\<lambda>c. cn_id c @ ''/'' @ cn_state c @ ''/'' @ cn_status c) containers)))"

definition container_requests :: "'q druntime \<Rightarrow> container \<Rightarrow> inspection \<Rightarrow> 'q resource_list" where
  "container_requests r c ins =
     (case ins_hostConfig ins of
        None \<Rightarrow> []
      | Some hc \<Rightarrow>
          let gpus = dockerGPUCount (hc_deviceRequests hc) (sget (cn_labels c) LabelGPUDevices) (length (dr_schedulable r)) in
          (if hc_nanoCPUs hc > 0 then [(''cpu'', dl_milliQuantity (dr_lib r) (hc_nanoCPUs hc div 1000000))] else []) @
          (if hc_memory hc > 0 then [(''memory'', dl_quantity (dr_lib r) (hc_memory hc))] else []) @
          (if gpus > 0 then [(''nvidia.com/gpu'', dl_quantity (dr_lib r) gpus)] else []))"

definition container_allocation :: "'q druntime \<Rightarrow> string \<Rightarrow> container \<Rightarrow> inspection \<Rightarrow> 'q ResourceAllocation" where
  "container_allocation r nodeName c ins =
     \<lparr>ra_nodeName = nodeName,
      ra_workloadID = (let i = sget (cn_labels c) LabelRunID in if i = [] then sget (cn_labels c) LabelServiceID else i),
      ra_role = sget (cn_labels c) LabelDockerRole, ra_replica = sget (cn_labels c) LabelReplicaIndex,
      ra_requests = container_requests r c ins\<rparr>"

fun host_allocations :: "'q druntime \<Rightarrow> string \<Rightarrow> container list \<Rightarrow> (derr + 'q ResourceAllocation list) dprog" where
  "host_allocations r node [] = ret (Inr [])"
| "host_allocations r node (c # cs) =
     (if \<not> gpuAlive (cn_state c) then host_allocations r node cs
      else guard_val (containerInspect (dr_docker r) (cn_id c)) Inl (\<lambda>ins. do {
        rest \<leftarrow> host_allocations r node cs;
        ret (map_sum id (Cons (container_allocation r node c ins)) rest)
      }))"

definition host_allocatable :: "'q::linordered_ab_group_add druntime \<Rightarrow> 'q resource_list \<Rightarrow> docker_info \<Rightarrow> 'q resource_list" where
  "host_allocatable r reserved info =
     subtractReserved ([(''cpu'', dl_milliQuantity (dr_lib r) (dki_ncpu info * 1000)), (''memory'', dl_quantity (dr_lib r) (dki_memTotal info))] @
       (if dr_schedulable r \<noteq> [] then [(''nvidia.com/gpu'', dl_quantity (dr_lib r) (int (length (dr_schedulable r))))] else [])) reserved"

definition Snapshot :: "'q::linordered_ab_group_add druntime \<Rightarrow> 'q resource_list \<Rightarrow> (derr + 'q ResourceSnapshot) dprog" where
  "Snapshot r reserved = guard_val (reading (\<lambda>h. val_err (dk_info (dr_docker r) h))) Inl (\<lambda>info.
     guard_val (containerList (dr_docker r) []) Inl (\<lambda>containers. do {
       t \<leftarrow> reading (dk_now (dr_docker r));
       let node = (if dki_name info = [] then ''standalone'' else dki_name info);
       guard_val (host_allocations r node containers) Inl (\<lambda>allocs. ret (Inr
         \<lparr>rs_observedAt = t, rs_sourceVersion = dockerSnapshotVersion (dki_serverVersion info) (dki_id info) containers,
          rs_nodes = [\<lparr>rn_name = node, rn_labels = [(''kubernetes.io/hostname'', node)], rn_taints = [], rn_allocatable = host_allocatable r reserved info\<rparr>],
          rs_allocations = allocs\<rparr>))
     }))"

section \<open>Data volumes\<close>

record volume_claim =
  vc_namespace :: string
  vc_name :: string
  vc_description :: string
  vc_createdAt :: "nat option"

record volume_use =
  vu_workload :: string
  vu_kind :: string
  vu_mountPath :: string
  vu_running :: bool

abbreviation "descriptionLabel \<equiv> ''io.axisml.description''"

definition vol_Ensure :: "'q druntime \<Rightarrow> volume_claim \<Rightarrow> derr option dprog" where
  "vol_Ensure r pvc =
     (let labels = AList.update LabelResourceKind ''volume'' (baseLabels KindSvc (vc_namespace pvc) (vc_name pvc));
          labels = (if vc_description pvc \<noteq> [] then AList.update descriptionLabel (vc_description pvc) labels else labels)
      in ensureVolume (dr_docker r) (pvcVolumeName (vc_namespace pvc) (vc_name pvc)) labels)"

definition volumeToPVC :: "string \<Rightarrow> string \<Rightarrow> docker_volume \<Rightarrow> volume_claim" where
  "volumeToPVC ns name v = \<lparr>vc_namespace = ns, vc_name = name, vc_description = sget (dkv_labels v) descriptionLabel, vc_createdAt = dkv_createdAt v\<rparr>"

definition vol_Get :: "'q druntime \<Rightarrow> string \<times> string \<Rightarrow> (derr + volume_claim) dprog" where
  "vol_Get r key = reading (\<lambda>h. case val_err (dk_volumeInspect (dr_docker r) h (pvcVolumeName (fst key) (snd key))) of
     Inl e \<Rightarrow> Inl (if is_kind DkNotFound e then derror ApiNotFound (''persistentvolumeclaims '' @ go_quote (snd key) @ '' not found'') else e)
   | Inr v \<Rightarrow> Inr (volumeToPVC (fst key) (snd key) v))"

definition vol_List :: "'q druntime \<Rightarrow> string \<Rightarrow> (derr + volume_claim list) dprog" where
  "vol_List r ns = reading (\<lambda>h. map_sum engine_error
     (\<lambda>vs. map (\<lambda>v. volumeToPVC (sget (dkv_labels v) LabelNamespace) (sget (dkv_labels v) LabelName) v)
        (filter (\<lambda>v. sget (dkv_labels v) LabelName \<noteq> []) vs))
     (dk_volumeList (dr_docker r) h ([(LabelManaged, ''true''), (LabelResourceKind, ''volume'')] @ (if ns \<noteq> [] then [(LabelNamespace, ns)] else []))))"

definition vol_Mounts :: "'q druntime \<Rightarrow> string \<times> string \<Rightarrow> (derr + volume_use list) dprog" where
  "vol_Mounts r key = guard_val (containerList (dr_docker r) managed_filter) Inl (\<lambda>containers.
     ret (Inr (List.map_filter (\<lambda>c.
       map_option (\<lambda>(_, _, dest). \<lparr>vu_workload = sget (cn_labels c) LabelName, vu_kind = sget (cn_labels c) LabelResourceKind,
           vu_mountPath = dest, vu_running = (cn_state c = ''running'')\<rparr>)
         (find (\<lambda>(ty, name, _). ty = ''volume'' \<and> name = pvcVolumeName (fst key) (snd key)) (cn_mounts c))) containers)))"

definition vol_Delete :: "'q druntime \<Rightarrow> string \<times> string \<Rightarrow> derr option dprog" where
  "vol_Delete r key = removeVolume (dr_docker r) (pvcVolumeName (fst key) (snd key))"

end
