(* ===== verification/RunProps.thy ===== *)
theory RunProps
  imports RunLifecycle Outbox
begin

text \<open>
  Correctness of the MLRun module: every operation and handler is a sequence of reads and
  updates by row id; in every interleaving of them the identity, the spec, the priority and the
  accounting key of a run stay what \<open>Create\<close> made them; what each operation does on every
  branch; and what the reconciler hands to the runtime.
\<close>

section \<open>The table interface\<close>

interpretation run_table: live_table run_id run_nsname run_deletedAt
  "get_live run_id run_nsname run_deletedAt" "insert_live run_id run_nsname run_deletedAt"
  by (rule live_table_model)

section \<open>The columns an update may touch\<close>

text \<open>The priority annotation of a row.\<close>

definition priority_of :: "'q MLRun \<Rightarrow> string option" where
  "priority_of r = map_of (decodeStringMap (run_annotations r)) AnnotationPriority"

definition run_touch :: "'q MLRun \<Rightarrow> 'q MLRun \<Rightarrow> 'q MLRun \<Rightarrow> bool" where
  "run_touch j r r' \<longleftrightarrow>
     r' = r\<lparr>run_displayName := run_displayName r', run_description := run_description r',
            run_labels := run_labels r', run_annotations := run_annotations r', run_phase := run_phase r',
            run_status := run_status r', run_scheduledAt := run_scheduledAt r',
            run_updatedAt := run_updatedAt r', run_deletedAt := run_deletedAt r'\<rparr> \<and>
     (run_labels r' = run_labels r \<or>
      (\<exists>labels. wf_map labels \<and> run_labels r' = mapBytes (mergeLabels labels
         [(LabelResourcePool, sget (decodeStringMap (run_labels j)) LabelResourcePool),
          (LabelResourceUnit, sget (decodeStringMap (run_labels j)) LabelResourceUnit)]))) \<and>
     (run_annotations r' = run_annotations r \<or> priority_of r' = priority_of j)"

definition run_writes :: "'q MLRun writes" where
  "run_writes j g f \<longleftrightarrow> (\<forall>r. run_touch j r (f r))"

text \<open>A row as \<open>Create\<close> inserts it; the API requires a pool name.\<close>

definition run_init :: "'q MLRun \<Rightarrow> bool" where
  "run_init r \<longleftrightarrow>
     (\<exists>env namespace req priority spec. rin_poolName req \<noteq> [] \<and> wf_map (rin_labels req) \<and>
        PriorityFromAnnotations (rin_annotations req) = Inr priority \<and>
        r = new_run_row env namespace req priority spec)"

text \<open>Accounted to a pool, with the priority its annotation says.\<close>

definition run_accounted :: "'q MLRun \<Rightarrow> bool" where
  "run_accounted r \<longleftrightarrow> poolFromLabels (run_labels r) \<noteq> [] \<and>
     PriorityFromAnnotations (decodeStringMap (run_annotations r)) = Inr (run_priority r)"

text \<open>What never changes of a run: its identity, its spec and priority, its quota key.\<close>

definition run_same :: "'q MLRun \<Rightarrow> 'q MLRun \<Rightarrow> bool" where
  "run_same a b \<longleftrightarrow>
     run_id b = run_id a \<and> run_nsname b = run_nsname a \<and> run_owner b = run_owner a \<and>
     run_spec b = run_spec a \<and> run_priority b = run_priority a \<and> run_createdAt b = run_createdAt a \<and>
     priority_of b = priority_of a \<and>
     poolFromLabels (run_labels b) = poolFromLabels (run_labels a)"

lemma pool_of_merged:
  assumes "wf_map labels" "pool \<noteq> []"
  shows "poolFromLabels (mapBytes (mergeLabels labels
           [(LabelResourcePool, pool), (LabelResourceUnit, unit)])) = pool"
  using assms by (simp add: poolFromLabels_def mapBytes_def sget_def map_of_mergeLabels)

lemma run_touch_same:
  assumes "run_touch j r r'" "run_accounted j" "run_same j r"
  shows "run_same r r'"
proof -
  have cols: "run_id r' = run_id r" "run_nsname r' = run_nsname r" "run_owner r' = run_owner r"
    "run_spec r' = run_spec r" "run_priority r' = run_priority r" "run_createdAt r' = run_createdAt r"
    using assms(1) by (cases r, cases r', simp add: run_touch_def run_nsname_def)+
  have "poolFromLabels (run_labels r') = poolFromLabels (run_labels r)"
  proof (cases "run_labels r' = run_labels r")
    case False
    with assms(1) obtain labels where "wf_map labels" "run_labels r' = mapBytes (mergeLabels labels
         [(LabelResourcePool, poolFromLabels (run_labels j)),
          (LabelResourceUnit, sget (decodeStringMap (run_labels j)) LabelResourceUnit)])"
      by (auto simp: run_touch_def poolFromLabels_def decodeStringMap_def)
    with assms(2,3) show ?thesis by (simp add: pool_of_merged run_accounted_def run_same_def)
  qed simp
  moreover have "priority_of r' = priority_of r"
    using assms(1,3) by (auto simp: run_touch_def run_same_def priority_of_def)
  ultimately show ?thesis using cols by (simp add: run_same_def)
qed

lemma run_same_accounted: "run_same a b \<Longrightarrow> run_accounted a \<Longrightarrow> run_accounted b"
  by (simp add: run_same_def run_accounted_def priority_of_def PriorityFromAnnotations_def)

interpretation run_outbox: outbox run_id run_init run_writes run_accounted run_same
proof
  fix j r :: "'a MLRun" and g f
  assume "run_writes j g f" "run_accounted j" "run_accounted r" "run_same j r"
  then show "run_accounted (f r) \<and> run_same r (f r)"
    using run_touch_same [of j r "f r"] run_same_accounted by (auto simp: run_writes_def)
next
  fix r :: "'a MLRun"
  assume "run_init r"
  then show "run_accounted r"
    by (auto simp: run_init_def run_accounted_def new_run_row_def pool_of_merged [unfolded mapBytes_def]
          decodeStringMap_def mapBytes_def)
qed (auto simp: run_same_def)

section \<open>Operations are executions\<close>

lemma run_Update_wrote:
  assumes "\<And>r. run_touch j r (f (r\<lparr>run_updatedAt := now\<rparr>))" "i = run_id j"
  shows "wrote run_id run_writes j t (run_Update_quiet fault now i f t)"
    and "run_Update fault now i f t = Inr t' \<Longrightarrow> wrote run_id run_writes j t t'"
  using wrote_one [of run_writes j "\<lambda>_. True" "\<lambda>r. f (r\<lparr>run_updatedAt := now\<rparr>)" run_id t] assms wrote_none
  by (auto simp: run_Update_quiet_def run_Update_def run_writes_def split: option.splits)

lemma run_UpdatePhase_wrote:
  assumes "\<And>r. run_touch j r (f (r\<lparr>run_updatedAt := now\<rparr>))" "i = run_id j"
    and "run_UpdatePhase fault now i ph f t = Inr (t', changed)"
  shows "wrote run_id run_writes j t t'"
  using wrote_one [of run_writes j "\<lambda>r. run_phase r = ph \<and> run_deletedAt r = None"
      "\<lambda>r. f (r\<lparr>run_updatedAt := now\<rparr>)" run_id t] assms
  by (auto simp: run_UpdatePhase_def run_writes_def Let_def split: option.splits)

text \<open>Writes of the columns other than the labels.\<close>

lemma run_touch_columns:
  "run_touch j r (r\<lparr>run_updatedAt := u, run_phase := p, run_status := s\<rparr>)"
  "run_touch j r (r\<lparr>run_updatedAt := u, run_phase := p, run_deletedAt := x\<rparr>)"
  "run_touch j r (r\<lparr>run_updatedAt := u, run_phase := p, run_status := s, run_scheduledAt := c\<rparr>)"
  "run_touch j r (r\<lparr>run_updatedAt := u, run_phase := p, run_scheduledAt := c\<rparr>)"
  "run_touch j r (r\<lparr>run_updatedAt := u, run_scheduledAt := c\<rparr>)"
  "run_touch j r (r\<lparr>run_updatedAt := u, run_status := s\<rparr>)"
  "run_touch j r (r\<lparr>run_updatedAt := u, run_status := s, run_phase := p\<rparr>)"
  "run_touch j r (r\<lparr>run_updatedAt := u\<rparr>)"
  by (cases r, simp add: run_touch_def)+

lemma run_touch_patch:
  assumes "\<And>labels. rpa_labels req = Some labels \<Longrightarrow> wf_map labels" "patch_annotations_error req j = None"
  shows "run_touch j r (patch_columns req j (r\<lparr>run_updatedAt := u\<rparr>))"
  using assms
  by (cases r; cases "rpa_displayName req"; cases "rpa_description req"; cases "rpa_annotations req";
      cases "rpa_labels req")
     (auto simp: run_touch_def patch_columns_def Let_def patch_annotations_error_def priority_of_def
           decodeStringMap_def mapBytes_def split: sum.splits if_splits)

lemma reflectObserved_wrote:
  "run_id j' = run_id j \<Longrightarrow> wrote run_id run_writes j t (run_reflectObserved fault stamp j' ob now t)"
  by (auto simp: run_reflectObserved_def Let_def wrote_none run_touch_columns
           intro!: run_Update_wrote(1) split: prod.splits)

lemma reflectGone_wrote: "wrote run_id run_writes j t (run_reflectGone fault now j t)"
  by (cases "run_phase j")
     (auto simp: run_reflectGone_def wrote_none run_touch_columns intro!: run_Update_wrote(1))

lemma poll_row_wrote: "wrote run_id run_writes j t (run_poll_row env rt w t j)"
  by (auto simp: run_poll_row_def wrote_none intro: reflectObserved_wrote reflectGone_wrote split: sum.splits)

lemma recovery_wrote: "wrote run_id run_writes j t (run_handleDispatchRecovery env rt w t j)"
proof -
  have "wrote run_id run_writes j t (run_requeue_stale env j t)"
    by (auto simp: run_requeue_stale_def wrote_none run_touch_columns
             elim!: run_UpdatePhase_wrote [rotated 2] split: sum.splits)
  moreover have "wrote run_id run_writes j t (run_repair_stale env j ob t)" for ob
  proof (cases "run_phase j = RunCreating")
    case True
    then show ?thesis
      by (auto simp: run_repair_stale_def Let_def wrote_none run_touch_columns split: sum.splits
               elim!: run_UpdatePhase_wrote [rotated 2] intro!: wrote_trans [OF reflectObserved_wrote])
  next
    case False
    then show ?thesis
      by (auto simp: run_repair_stale_def Let_def wrote_none run_touch_columns split: sum.splits
               elim!: run_UpdatePhase_wrote [rotated 2] intro!: wrote_trans [OF reflectObserved_wrote])
  qed
  ultimately show ?thesis
    by (auto simp: run_handleDispatchRecovery_def wrote_none split: sum.splits)
qed

lemma handleCreate_wrote: "wrote run_id run_writes j t (fst (run_handleCreate env rt (t, w) j))"
proof -
  have "wrote run_id run_writes j t (run_apply_failed env rt w' e j t)" for w' e
    unfolding run_apply_failed_def Let_def
    by (auto simp: run_touch_columns split: sum.split list.split
             intro!: run_Update_wrote(1) wrote_trans [OF run_Update_wrote(1)])
  then show ?thesis
    by (auto simp: run_handleCreate_def wrote_none run_touch_columns intro!: run_Update_wrote(1)
             split: sum.split prod.split option.split)
qed

lemma handleDelete_wrote: "wrote run_id run_writes j t (fst (run_handleDelete env rt (t, w) j))"
  by (auto simp: run_handleDelete_def wrote_none run_touch_columns intro!: run_Update_wrote(1)
           split: prod.split option.split)

lemma handleCancel_table [simp]: "fst (run_handleCancel rt s j) = fst s"
  by (simp add: run_handleCancel_def split: prod.split)

lemma foldl_handleCancel [simp]: "fst (foldl (run_handleCancel rt) s js) = fst s"
  by (induction js arbitrary: s) auto

lemma work_batch_sub: "set (work_batch u p t) \<subseteq> {r \<in> set t. p r}"
  by (auto simp: work_batch_def dest: in_set_takeD)

lemma run_poll_execs: "\<exists>seen'. execs run_id run_init run_writes (t, seen) (run_poll env rt w t, seen')"
proof (cases "l_fault env SelectList")
  case None
  let ?js = "run_FindObservable t"
  have "execs run_id run_init run_writes (t, seen) (t, set ?js \<union> seen)"
    using work_batch_sub by (intro execs_reads) (fastforce simp: run_FindObservable_def)
  also have "execs run_id run_init run_writes (t, set ?js \<union> seen) (run_poll env rt w t, set ?js \<union> seen)"
    using None by (simp add: run_poll_def) (rule execs_foldl [OF poll_row_wrote], simp)
  finally show ?thesis by blast
qed (auto simp: run_poll_def)

lemma handlers_execs:
  assumes "set cs \<subseteq> seen" "set ds \<subseteq> seen"
  shows "execs run_id run_init run_writes (t, seen)
     (fst (foldl (run_handleDelete env rt) (foldl (run_handleCancel rt)
        (foldl (run_handleCreate env rt) (t, w) cs) xs) ds), seen)"
proof -
  obtain t2 w2 where two: "foldl (run_handleCreate env rt) (t, w) cs = (t2, w2)" by fastforce
  obtain t3 w3 where three: "foldl (run_handleCancel rt) (t2, w2) xs = (t3, w3)" by fastforce
  have "t3 = t2" using foldl_handleCancel [of rt "(t2, w2)" xs] by (simp add: three)
  have "execs run_id run_init run_writes (t, seen) (t2, seen)"
    using execs_foldl_world [where h = "run_handleCreate env rt" and init = run_init and t = t and w = w,
        OF handleCreate_wrote assms(1)] by (simp add: two)
  moreover have "execs run_id run_init run_writes (t2, seen)
      (fst (foldl (run_handleDelete env rt) (t2, w3) ds), seen)"
    using execs_foldl_world [where h = "run_handleDelete env rt" and init = run_init and t = t2 and w = w3,
        OF handleDelete_wrote assms(2)] .
  ultimately show ?thesis by (simp add: two three \<open>t3 = t2\<close>)
qed

lemma run_runOnce_execs:
  "\<exists>seen'. execs run_id run_init run_writes (t, seen) (fst (run_runOnce env rt (t, w)), seen')"
proof (cases "l_fault env SelectRecovery")
  case ok: None
  let ?X = "execs run_id run_init run_writes"
  let ?rec = "run_FindDispatchRecoverySet (l_now env - dispatchTimeout) t"
  let ?t1 = "foldl (run_handleDispatchRecovery env rt w) t ?rec"
  have "?X (t, seen) (t, set ?rec \<union> seen)"
    using work_batch_sub by (intro execs_reads) (fastforce simp: run_FindDispatchRecoverySet_def)
  also have "?X (t, set ?rec \<union> seen) (?t1, set ?rec \<union> seen)"
    by (rule execs_foldl [OF recovery_wrote]) simp
  finally have one: "?X (t, seen) (?t1, set ?rec \<union> seen)" .
  show ?thesis
  proof (cases "l_fault env SelectList")
    case None
    let ?ws = "run_FindWorkSet ?t1"
    let ?js = "rw_Creating ?ws @ rw_Deleting ?ws"
    let ?seen = "set ?js \<union> (set ?rec \<union> seen)"
    have two: "?X (?t1, set ?rec \<union> seen) (?t1, ?seen)"
      using work_batch_sub by (intro execs_reads) (fastforce simp: run_FindWorkSet_def)
    have three: "?X (?t1, ?seen) (fst (foldl (run_handleDelete env rt) (foldl (run_handleCancel rt)
        (foldl (run_handleCreate env rt) (?t1, w) (rw_Creating ?ws)) (rw_Canceling ?ws)) (rw_Deleting ?ws)), ?seen)"
      by (rule handlers_execs) auto
    from rtranclp_trans [OF rtranclp_trans [OF one two] three]
    show ?thesis using ok None by (auto simp: run_runOnce_def Let_def)
  qed (use ok one in \<open>auto simp: run_runOnce_def Let_def\<close>)
qed (auto simp: run_runOnce_def)

text \<open>The API operations, each on the row it reads.\<close>

lemma run_GetByName_in: "run_GetByNamespaceName fault ns n t = Inr j \<Longrightarrow> j \<in> set t"
  by (auto simp: run_GetByNamespaceName_def split: option.splits dest: run_table.get_sound)

lemma run_Cancel_execs:
  "\<exists>seen'. seen \<subseteq> seen' \<and> execs run_id run_init run_writes (t, seen) (fst (run_Cancel env ns n t), seen')"
proof (cases "run_GetByNamespaceName (a_fault env) ns n t")
  case (Inr j)
  have "wrote run_id run_writes j t (fst (run_Cancel env ns n t))"
    using Inr by (auto simp: run_Cancel_def Let_def wrote_none run_touch_columns split: prod.split sum.split
                       elim!: run_Update_wrote(2) [rotated 2])
  then show ?thesis by (rule execs_of_wrote [OF run_GetByName_in [OF Inr]])
qed (auto simp: run_Cancel_def)

lemma run_Patch_execs:
  assumes "\<And>labels. rpa_labels req = Some labels \<Longrightarrow> wf_map labels"
  shows "\<exists>seen'. seen \<subseteq> seen' \<and> execs run_id run_init run_writes (t, seen) (fst (run_Patch env ns n req t), seen')"
proof (cases "run_GetByNamespaceName (a_fault env) ns n t")
  case (Inr j)
  have "wrote run_id run_writes j t (fst (run_Patch env ns n req t))"
  proof (cases "patch_annotations_error req j")
    case None
    note touch = run_touch_patch [OF assms None]
    from Inr None run_Update_wrote(2) [where f = "patch_columns req j" and j = j and t = t, OF touch refl]
    show ?thesis by (auto simp: run_Patch_def wrote_none split: sum.split)
  qed (use Inr in \<open>simp add: run_Patch_def wrote_none\<close>)
  then show ?thesis by (rule execs_of_wrote [OF run_GetByName_in [OF Inr]])
qed (auto simp: run_Patch_def)

lemma run_Delete_execs:
  "\<exists>seen'. seen \<subseteq> seen' \<and> execs run_id run_init run_writes (t, seen) (fst (run_Delete env ns n t), seen')"
proof (cases "run_GetByNamespaceName (a_fault env) ns n t")
  case (Inr j)
  have "wrote run_id run_writes j t (fst (run_Delete env ns n t))"
    using Inr by (auto simp: run_Delete_def run_MarkDeleting_def Let_def wrote_none run_touch_columns
                       split: prod.split sum.split elim!: run_Update_wrote(2) [rotated 2])
  then show ?thesis by (rule execs_of_wrote [OF run_GetByName_in [OF Inr]])
qed (auto simp: run_Delete_def)

lemma run_Create_cases:
  obtains (kept) "fst (run_Create env ns req t) = t"
    | (inserted) priority spec where
        "PriorityFromAnnotations (rin_annotations req) = Inr priority"
        "run_CreateRow (a_fault env) (new_run_row env ns req priority spec) t = Inr (fst (run_Create env ns req t))"
proof (cases "fst (run_Create env ns req t) = t")
  case False
  then show thesis
    using that(2) unfolding run_Create_def Let_def
    by (simp split: if_splits sum.splits)
qed (rule that(1))

lemma run_CreateRow_Inr:
  "run_CreateRow fault j t = Inr t' \<Longrightarrow> t' = t @ [j] \<and> run_id j \<notin> run_id ` set t"
  by (auto simp: run_CreateRow_def insert_live_def list_ex_iff split: option.splits if_splits)

lemma run_Create_execs:
  assumes "rin_poolName req \<noteq> []" "wf_map (rin_labels req)"
  shows "\<exists>seen'. seen \<subseteq> seen' \<and> execs run_id run_init run_writes (t, seen) (fst (run_Create env ns req t), seen')"
proof (cases rule: run_Create_cases [of env ns req t])
  case (inserted priority spec)
  let ?j = "new_run_row env ns req priority spec"
  have "run_init ?j" using assms inserted(1) unfolding run_init_def by blast
  with run_CreateRow_Inr [OF inserted(2)] have "exec run_id run_init run_writes (t, seen) (fst (run_Create env ns req t), seen)"
    by (metis exec_insert)
  then show ?thesis by blast
qed auto

section \<open>Schedules\<close>

text \<open>
  A schedule of the module against a runtime: API calls and informer events, rows read by the
  background loops, and handlers run on rows read at any earlier point.
\<close>

inductive run_sched ::
  "('q MLRunSpec, run_observed, 'w) runtime \<Rightarrow> 'q MLRun list \<times> 'q MLRun set \<Rightarrow> 'q MLRun list \<times> 'q MLRun set \<Rightarrow> bool"
  for rt :: "('q MLRunSpec, run_observed, 'w) runtime" where
  sched_create: "rin_poolName req \<noteq> [] \<Longrightarrow> wf_map (rin_labels req) \<Longrightarrow>
    run_sched rt (t, seen) (fst (run_Create env ns req t), seen)"
| sched_cancel: "run_sched rt (t, seen) (fst (run_Cancel env ns n t), seen)"
| sched_patch: "(\<And>labels. rpa_labels preq = Some labels \<Longrightarrow> wf_map labels) \<Longrightarrow>
    run_sched rt (t, seen) (fst (run_Patch env ns n preq t), seen)"
| sched_delete: "run_sched rt (t, seen) (fst (run_Delete env ns n t), seen)"
| sched_read: "j \<in> set t \<Longrightarrow> run_sched rt (t, seen) (t, insert j seen)"
| sched_recover: "j \<in> seen \<Longrightarrow> run_sched rt (t, seen) (run_handleDispatchRecovery lenv rt w t j, seen)"
| sched_dispatch: "j \<in> seen \<Longrightarrow> run_sched rt (t, seen) (fst (run_handleCreate lenv rt (t, w) j), seen)"
| sched_teardown: "j \<in> seen \<Longrightarrow> run_sched rt (t, seen) (fst (run_handleDelete lenv rt (t, w) j), seen)"
| sched_observe: "j \<in> seen \<Longrightarrow> run_sched rt (t, seen) (run_reflectObserved fault stamp j ob now t, seen)"
| sched_gone: "j \<in> seen \<Longrightarrow> run_sched rt (t, seen) (run_reflectGone fault now j t, seen)"
| sched_pass: "run_sched rt (t, seen) (fst (run_runOnce lenv rt (t, w)), seen)"
| sched_poll: "run_sched rt (t, seen) (run_poll lenv rt w t, seen)"

lemma run_sched_execs:
  assumes "run_sched rt (t, seen) (t', seen')" "seen \<subseteq> S"
  shows "\<exists>S'. seen' \<subseteq> S' \<and> execs run_id run_init run_writes (t, S) (t', S')"
proof -
  have wrote: ?thesis if "j \<in> seen" "seen' = seen" "wrote run_id run_writes j t t'" for j
    using wrote_execs [OF that(3), of S run_init] that(1,2) assms(2) by blast
  have grow: ?thesis if "seen' = seen" "\<exists>S'. S \<subseteq> S' \<and> execs run_id run_init run_writes (t, S) (t', S')"
    using that assms(2) by blast
  from assms(1) show ?thesis
  proof (cases rule: run_sched.cases)
    case (sched_read j)
    then have "execs run_id run_init run_writes (t, S) (t', insert j S)"
      by (auto intro: r_into_rtranclp exec_read)
    with sched_read assms(2) show ?thesis by blast
  next
    case (sched_pass lenv w)
    with execs_grow [OF run_runOnce_execs [of t S lenv rt w]] show ?thesis by (intro grow) simp_all
  next
    case (sched_poll lenv w)
    with execs_grow [OF run_poll_execs [of t S lenv rt w]] show ?thesis by (intro grow) simp_all
  next
    case sched_create
    then show ?thesis by (intro grow) (simp_all add: run_Create_execs)
  next
    case sched_cancel
    then show ?thesis by (intro grow) (simp_all add: run_Cancel_execs)
  next
    case sched_patch
    then show ?thesis by (intro grow) (simp_all add: run_Patch_execs)
  next
    case sched_delete
    then show ?thesis by (intro grow) (simp_all add: run_Delete_execs)
  next
    case sched_recover
    show ?thesis by (rule wrote [OF sched_recover(3,2)]) (simp add: sched_recover(1) recovery_wrote)
  next
    case sched_dispatch
    show ?thesis by (rule wrote [OF sched_dispatch(3,2)]) (simp add: sched_dispatch(1) handleCreate_wrote)
  next
    case sched_teardown
    show ?thesis by (rule wrote [OF sched_teardown(3,2)]) (simp add: sched_teardown(1) handleDelete_wrote)
  next
    case sched_observe
    show ?thesis by (rule wrote [OF sched_observe(3,2)]) (simp add: sched_observe(1) reflectObserved_wrote)
  next
    case sched_gone
    show ?thesis by (rule wrote [OF sched_gone(3,2)]) (simp add: sched_gone(1) reflectGone_wrote)
  qed
qed

lemma run_scheds_execs:
  assumes "(run_sched rt)\<^sup>*\<^sup>* s s'" "snd s \<subseteq> S"
  shows "\<exists>S'. snd s' \<subseteq> S' \<and> execs run_id run_init run_writes (fst s, S) (fst s', S')"
  using assms
proof (induction rule: rtranclp_induct)
  case (step y z)
  then obtain S1 where S1: "snd y \<subseteq> S1" "execs run_id run_init run_writes (fst s, S) (fst y, S1)" by auto
  from run_sched_execs [of rt "fst y" "snd y" "fst z" "snd z" S1] step(2) S1(1)
  obtain S2 where "snd z \<subseteq> S2" "execs run_id run_init run_writes (fst y, S1) (fst z, S2)" by auto
  with S1(2) show ?case by (auto intro: rtranclp_trans)
qed auto

section \<open>Identity\<close>

text \<open>
  C31. In every interleaving of API calls, reconciler passes, handlers working on stale rows and
  status reflow, against any runtime, a run once created stays in the table and keeps its id,
  namespace, name, owner, creation time, spec, priority, and the resource pool its admission is
  accounted to. (The API requires a pool name; a JSON object has no key twice.)
\<close>

theorem run_identity_stable:
  assumes "(run_sched rt)\<^sup>*\<^sup>* ([], {}) (t, seen)" "(run_sched rt)\<^sup>*\<^sup>* (t, seen) (t', seen')" "r \<in> set t"
  shows "\<exists>r'\<in>set t'. run_same r r'"
proof -
  from run_scheds_execs [OF assms(1), of "{}"] obtain S
    where S: "seen \<subseteq> S" "execs run_id run_init run_writes ([], {}) (t, S)" by auto
  from run_scheds_execs [OF assms(2), of S] S(1) obtain S'
    where "execs run_id run_init run_writes (t, S) (t', S')" by auto
  from run_outbox.row_keeps [OF S(2) this assms(3)] show ?thesis .
qed

section \<open>A concrete run\<close>

definition rx_env :: "int api_env" where
  "rx_env = \<lparr>a_fault = (\<lambda>_. None), a_now = 5, a_uuid = ''u1'', a_user = ''ann'',
     a_pools = \<lparr>ResolveResourcePool = (\<lambda>_. Inr \<lparr>pool_nodeSelector = [(''zone'', ''a'')]\<rparr>),
       ResolveResourceUnit = (\<lambda>_ _. Inr \<lparr>unit_nodeSelector = [], unit_requests = [(''cpu'', 2)], unit_limits = []\<rparr>)\<rparr>\<rparr>"

definition rx_req :: "int MLRunCreateRequest" where
  "rx_req = \<lparr>rin_name = ''train'', rin_displayName = [], rin_description = [], rin_labels = [(''team'', ''x'')],
     rin_annotations = [(AnnotationPriority, ''-7'')], rin_poolName = ''p'', rin_unitName = ''u'',
     rin_priorityClass = [], rin_backend = None, rin_configMaps = [],
     rin_roles = [\<lparr>role_name = ''worker'', role_replicas = 1, role_restartPolicy = [],
        role_template = template_of ''img'' []\<rparr>],
     rin_runPolicy = None\<rparr>"

definition rx_table :: "int MLRun list" where
  "rx_table = fst (run_Create rx_env ''ns'' rx_req [])"

text \<open>A runtime that accepts everything and reports an empty status.\<close>

definition rx_status :: "string \<Rightarrow> run_observed" where
  "rx_status phase = \<lparr>ro_phase = phase, ro_message = [], ro_startedAt = None, ro_finishedAt = None, ro_conditions = []\<rparr>"

definition rx_rt :: "(int MLRunSpec, run_observed, unit) runtime" where
  "rx_rt = \<lparr>rt_apply = (\<lambda>_ w. (None, w)), rt_observe = (\<lambda>_ _. Inr (rx_status [])),
     rt_cancel = (\<lambda>_ w. (None, w)), rt_delete = (\<lambda>_ w. (None, w)), rt_instances = (\<lambda>_ _. Inr [])\<rparr>"

lemma rx_table_row: "hd rx_table \<in> set rx_table"
proof -
  have "length rx_table = 1" by code_simp
  then have "rx_table \<noteq> []" by auto
  then show ?thesis by (rule hd_in_set)
qed

lemma rx_sched: "(run_sched rx_rt)\<^sup>*\<^sup>* ([], {}) (rx_table, {})"
  unfolding rx_table_def by (rule r_into_rtranclp, rule sched_create) (simp_all add: rx_req_def)

lemma rx_cancel_sched:
  "(run_sched rx_rt)\<^sup>*\<^sup>* (rx_table, {}) (fst (run_Cancel rx_env ''ns'' ''train'' rx_table), {})"
  by (rule r_into_rtranclp, rule sched_cancel)

theorem run_identity_stable_witness:
  "\<exists>r'\<in>set (fst (run_Cancel rx_env ''ns'' ''train'' rx_table)). run_same (hd rx_table) r'"
  by (rule run_identity_stable [OF rx_sched rx_cancel_sched rx_table_row])

text \<open>
  In every such interleaving, the priority column that orders the queue is the number in
  the run's priority annotation, or zero without one, and the run is accounted to a pool.
\<close>

theorem run_priority_consistent:
  assumes "(run_sched rt)\<^sup>*\<^sup>* ([], {}) (t, seen)" "r \<in> set t"
  shows "PriorityFromAnnotations (decodeStringMap (run_annotations r)) = Inr (run_priority r) \<and>
     poolFromLabels (run_labels r) \<noteq> []"
proof -
  from run_scheds_execs [OF assms(1), of "{}"] obtain S
    where "execs run_id run_init run_writes ([], {}) (t, S)" by auto
  from run_outbox.rows_ok [OF this assms(2)] show ?thesis by (simp add: run_accounted_def)
qed

theorem run_priority_consistent_witness:
  "PriorityFromAnnotations (decodeStringMap (run_annotations (hd rx_table))) = Inr (run_priority (hd rx_table))"
  using run_priority_consistent [OF rx_sched rx_table_row] by simp

section \<open>API operations\<close>

text \<open>
  A run that \<open>Create\<close> reports as created is in the table, queued, under a name no live
  run had; the table keeps its constraints, every other name resolves as before, and a following
  \<open>Get\<close> returns exactly what \<open>Create\<close> returned.
\<close>

theorem run_create_get:
  assumes "run_Create env ns req t = (t', Inr v)" "table_ok run_id run_nsname run_deletedAt t"
    and "a_fault env' SelectByName = None"
  shows "rv_phase v = RunQueued \<and> table_ok run_id run_nsname run_deletedAt t' \<and>
     run_GetOp env' ns (rin_name req) t = Inl (EApp CodeNotFound ''job not found'') \<and>
     run_GetOp env' ns (rin_name req) t' = Inr v \<and>
     (k \<noteq> rin_name req \<longrightarrow> run_GetOp env' ns k t' = run_GetOp env' ns k t)"
proof -
  from assms(1) obtain priority spec where ins:
      "run_CreateRow (a_fault env) (new_run_row env ns req priority spec) t = Inr t'"
      "v = run_toView (new_run_row env ns req priority spec)"
    by (auto simp: run_Create_def Let_def split: if_splits sum.splits)
  let ?j = "new_run_row env ns req priority spec"
  have j: "run_nsname ?j = (ns, rin_name req)" "run_deletedAt ?j = None" "rv_phase (run_toView ?j) = RunQueued"
    by (simp_all add: new_run_row_def run_nsname_def run_toView_def)
  from ins(1) have create: "insert_live run_id run_nsname run_deletedAt ?j t = Inr t'"
    by (auto simp: run_CreateRow_def split: option.splits)
  note table = run_table.create_ok [OF create assms(2)] run_table.get_created [OF create assms(2) j(2)]
    run_table.create_taken [OF create assms(2) j(2)]
  have "k \<noteq> rin_name req \<longrightarrow> run_GetOp env' ns k t' = run_GetOp env' ns k t"
    using run_table.get_other [OF create assms(2), of "(ns, k)"] assms(3)
    by (auto simp: run_GetOp_def run_GetByNamespaceName_def j(1))
  with table assms(3) j show ?thesis
    by (auto simp: run_GetOp_def run_GetByNamespaceName_def ins(2) run_not_found_def)
qed

theorem run_create_get_witness:
  "\<exists>v. run_GetOp rx_env ''ns'' ''train'' rx_table = Inr v \<and> rv_phase v = RunQueued"
proof -
  have "\<not> isl (snd (run_Create rx_env ''ns'' rx_req []))" by code_simp
  then obtain v where "run_Create rx_env ''ns'' rx_req [] = (rx_table, Inr v)"
    by (cases "run_Create rx_env ''ns'' rx_req []"; cases "snd (run_Create rx_env ''ns'' rx_req [])")
       (auto simp: rx_table_def)
  from run_create_get [OF this, of rx_env] show ?thesis
    by (auto simp: table_ok_def rx_env_def rx_req_def)
qed

text \<open>
  \<open>Cancel\<close> by phase, without statement errors: a queued run is cancelled at once and
  stamped with its finish time, a pending or running one becomes Canceling and is left to the
  runtime, a run being created and a run that is being cancelled or deleted or has ended is
  refused and nothing is written; no other row changes.
\<close>

theorem run_cancel_by_phase:
  assumes "table_ok run_id run_nsname run_deletedAt t" "r \<in> set t" "run_deletedAt r = None"
    and "a_fault env = (\<lambda>_. None)"
  defines "res \<equiv> run_Cancel env (run_namespace r) (run_name r) t"
  shows "if run_phase r \<in> {RunQueued, RunPending, RunRunning}
     then \<exists>r'. fst res = update_row run_id (run_id r) r' t \<and> \<not> isl (snd res) \<and> run_same r r' \<and>
       (if run_phase r = RunQueued
        then run_phase r' = RunCancelled \<and>
          rst_finishedAt (json_lenient zero_run_status (run_status r')) = Some (a_now env)
        else run_phase r' = RunCanceling)
     else fst res = t \<and> (\<exists>m. snd res = Inl (EApp CodePrecondition m))"
proof -
  have get: "run_GetByNamespaceName (a_fault env) (run_namespace r) (run_name r) t = Inr r"
    using run_table.get_live_row [OF assms(1-3)] assms(4)
    by (simp add: run_GetByNamespaceName_def run_nsname_def)
  have key: "distinct (map run_id t)" using assms(1) by (simp add: table_ok_def)
  obtain phase status where cw: "cancel_write r (a_now env) = (phase, status)" by fastforce
  let ?r = "r\<lparr>run_updatedAt := a_now env, run_phase := phase, run_status := status\<rparr>"
  have up: "update_where (\<lambda>x. run_id x = run_id r)
      (\<lambda>x. x\<lparr>run_updatedAt := a_now env, run_phase := phase, run_status := status\<rparr>) t
      = update_row run_id (run_id r) ?r t"
    using update_where_key [OF key assms(2), of "\<lambda>_. True"] by simp
  have same: "run_same r ?r" by (simp add: run_same_def run_nsname_def priority_of_def)
  show ?thesis
  proof (cases "run_phase r \<in> {RunQueued, RunPending, RunRunning}")
    case True
    then have res: "res = (update_row run_id (run_id r) ?r t,
        Inr (run_toView (r\<lparr>run_phase := phase, run_status := status, run_updatedAt := a_now env\<rparr>)))"
      using get assms(4) up by (auto simp: res_def run_Cancel_def run_Update_def cw Let_def)
    show ?thesis using True cw same
      by (auto simp: res cancel_write_def run_mergeStatusFields_def intro!: exI [of _ ?r] split: if_splits)
  next
    case False
    then show ?thesis using get by (cases "run_phase r") (auto simp: res_def run_Cancel_def)
  qed
qed

theorem run_cancel_by_phase_witness:
  "\<exists>r'. fst (run_Cancel rx_env (run_namespace (hd rx_table)) (run_name (hd rx_table)) rx_table)
        = update_row run_id (run_id (hd rx_table)) r' rx_table \<and> run_phase r' = RunCancelled"
proof -
  have "table_ok run_id run_nsname run_deletedAt rx_table" "run_deletedAt (hd rx_table) = None"
      "run_phase (hd rx_table) = RunQueued" by code_simp+
  moreover have "a_fault rx_env = (\<lambda>_. None)" by (simp add: rx_env_def)
  ultimately show ?thesis
    using run_cancel_by_phase [of rx_table "hd rx_table" rx_env] rx_table_row by auto
qed

section \<open>The reconciler\<close>

lemma wrote_keys:
  assumes "wrote run_id run_writes j t t'"
  shows "map run_id t' = map run_id t"
  using assms
proof (induction rule: wrote.induct)
  case (wrote_more t t' g f)
  have "run_id (f r) = run_id r" for r
  proof -
    from wrote_more(2) have "run_touch j r (f r)" by (simp add: run_writes_def)
    then show ?thesis by (cases r, cases "f r") (simp add: run_touch_def)
  qed
  with wrote_more(3) show ?case by (simp add: map_update_where)
qed simp

lemma foldl_keys:
  "(\<And>t j. wrote run_id run_writes j t (h t j)) \<Longrightarrow> map run_id (foldl h t js) = map run_id t"
proof (induction js arbitrary: t)
  case (Cons j js)
  from wrote_keys [OF Cons.prems] Cons show ?case by simp
qed simp

text \<open>
  A reconciler pass leaves alone every run it does not own: a run that is queued (owned by
  admission), running, or has ended is the same row after the pass, whatever the runtime does
  and whichever statements fail.
\<close>

theorem run_pass_leaves_alone:
  assumes "distinct (map run_id t)" "r \<in> set t"
    and "run_phase r \<in> {RunQueued, RunRunning, RunSucceeded, RunFailed, RunCancelled, RunDeleted}"
  shows "r \<in> set (fst (run_runOnce env rt (t, w)))"
proof (cases "l_fault env SelectRecovery")
  case ok: None
  let ?rec = "run_FindDispatchRecoverySet (l_now env - dispatchTimeout) t"
  let ?t1 = "foldl (run_handleDispatchRecovery env rt w) t ?rec"
  let ?ws = "run_FindWorkSet ?t1"
  have own: "\<forall>j\<in>set js. run_id r \<noteq> run_id j"
    if "distinct (map run_id t')" "r \<in> set t'" "set js \<subseteq> {x \<in> set t'. run_phase x \<notin>
      {RunQueued, RunRunning, RunSucceeded, RunFailed, RunCancelled, RunDeleted}}" for js t'
  proof
    fix j assume "j \<in> set js"
    with that(3) assms(3) have "j \<in> set t'" "j \<noteq> r" by auto
    with unique_key [OF that(1,2), of j] show "run_id r \<noteq> run_id j" by auto
  qed
  have "\<forall>j\<in>set ?rec. run_id r \<noteq> run_id j"
    by (rule own [OF assms(1,2)]) (use work_batch_sub in \<open>fastforce simp: run_FindDispatchRecoverySet_def\<close>)
  then have r1: "r \<in> set ?t1" by (rule foldl_other [OF recovery_wrote assms(2)])
  have d1: "distinct (map run_id ?t1)" using assms(1) by (simp add: foldl_keys [OF recovery_wrote])
  have c: "\<forall>j\<in>set (rw_Creating ?ws). run_id r \<noteq> run_id j" and d: "\<forall>j\<in>set (rw_Deleting ?ws). run_id r \<noteq> run_id j"
    by (rule own [OF d1 r1], use work_batch_sub in \<open>fastforce simp: run_FindWorkSet_def\<close>)+
  have "r \<in> set (fst (foldl (run_handleCreate env rt) (?t1, w) (rw_Creating ?ws)))"
    by (rule foldl_world_other [OF handleCreate_wrote _ c]) (simp add: r1)
  then have "r \<in> set (fst (foldl (run_handleDelete env rt) (foldl (run_handleCancel rt)
      (foldl (run_handleCreate env rt) (?t1, w) (rw_Creating ?ws)) (rw_Canceling ?ws)) (rw_Deleting ?ws)))"
    by (intro foldl_world_other [OF handleDelete_wrote _ d]) simp
  with ok r1 show ?thesis by (simp add: run_runOnce_def Let_def split: option.split)
qed (use assms in \<open>simp add: run_runOnce_def\<close>)

theorem run_pass_leaves_alone_witness:
  "hd rx_table \<in> set (fst (run_runOnce \<lparr>l_fault = (\<lambda>_. None), l_now = 9, l_tenantPrefix = False,
     l_parseUUID = Some\<rparr> rx_rt (rx_table, ())))"
proof -
  have "distinct (map run_id rx_table)" "run_phase (hd rx_table) = RunQueued" by code_simp+
  then show ?thesis using run_pass_leaves_alone [of rx_table "hd rx_table"] rx_table_row by simp
qed

section \<open>Two ways a deletion is lost\<close>

lemma run_Update_row:
  assumes "distinct (map run_id t)" "r \<in> set t" "fault UpdateRows = None"
  shows "run_Update_quiet fault now (run_id r) f t = update_row run_id (run_id r) (f (r\<lparr>run_updatedAt := now\<rparr>)) t"
  using update_where_key [OF assms(1,2), of "\<lambda>_. True"] assms(3)
  by (simp add: run_Update_quiet_def run_Update_def)

lemma not_in_work_set:
  assumes "distinct (map run_id t)" "r \<in> set t" "\<not> p r"
  shows "run_id r \<notin> run_id ` set (work_batch u p t)"
  using work_batch_sub [of u p t] assms(3) unique_key [OF assms(1,2)] by fastforce

text \<open>
  The reflow of a run's status does not respect a deletion in progress: when the runtime
  reports a terminal phase for a run that is being deleted, the row leaves Deleting for that
  phase, and with it the work set from which the reconciler deletes the workload. (The service
  and traffic-policy reflows return at once for such rows.)
\<close>

theorem deleting_run_escapes:
  assumes "distinct (map run_id t)" "j \<in> set t" "run_phase j = RunDeleting" "fault UpdateRows = None"
    and "ro_phase ob \<in> {''Succeeded'', ''Failed''}" and t'_def: "t' = run_reflectObserved fault now j ob now t"
  shows "\<exists>r'\<in>set t'. run_same j r' \<and> run_deletedAt r' = run_deletedAt j \<and>
     run_phase r' \<in> {RunSucceeded, RunFailed} \<and> run_id r' \<notin> run_id ` set (rw_Deleting (run_FindWorkSet t'))"
proof -
  obtain ph st where m: "MapRun (run_phase j) \<lparr>rs_message = rst_message (json_lenient zero_run_status (run_status j)),
      rs_startedAt = rst_startedAt (json_lenient zero_run_status (run_status j)),
      rs_finishedAt = rst_finishedAt (json_lenient zero_run_status (run_status j))\<rparr> ob now = (ph, st)" by fastforce
  then have ph: "ph \<in> {RunSucceeded, RunFailed}"
    using assms(3,5) by (auto simp: MapRun_def map_run_switch_def)
  then have "ph \<noteq> run_phase j" using assms(3) by auto
  then obtain s where t': "t' = update_row run_id (run_id j) (j\<lparr>run_updatedAt := now, run_phase := ph, run_status := s\<rparr>) t"
    using run_Update_row [where fault = fault, OF assms(1,2,4)] m
    by (auto simp: t'_def run_reflectObserved_def Let_def)
  let ?r = "j\<lparr>run_updatedAt := now, run_phase := ph, run_status := s\<rparr>"
  have "?r \<in> set t'" unfolding t' by (rule update_row_new [OF assms(2)])
  moreover have "distinct (map run_id t')" using assms(1) by (simp add: t')
  ultimately have "run_id ?r \<notin> run_id ` set (work_batch run_updatedAt (\<lambda>r. run_phase r = RunDeleting) t')"
    using ph by (intro not_in_work_set) auto
  with \<open>?r \<in> set t'\<close> ph show ?thesis
    by (intro bexI [of _ ?r]) (auto simp: run_same_def run_nsname_def priority_of_def run_FindWorkSet_def)
qed

definition rx_deleting :: "int MLRun list" where
  "rx_deleting = map (\<lambda>r. r\<lparr>run_phase := RunDeleting, run_deletedAt := Some 6\<rparr>) rx_table"

theorem deleting_run_escapes_witness:
  "\<exists>r'\<in>set (run_reflectObserved (\<lambda>_. None) 8 (hd rx_deleting) (rx_status ''Succeeded'') 8 rx_deleting).
     run_phase r' \<in> {RunSucceeded, RunFailed} \<and> run_deletedAt r' = Some 6"
proof -
  have "distinct (map run_id rx_deleting)" "run_phase (hd rx_deleting) = RunDeleting"
    "run_deletedAt (hd rx_deleting) = Some 6" "length rx_deleting = 1" by code_simp+
  moreover from this(4) have "hd rx_deleting \<in> set rx_deleting" by (intro hd_in_set) auto
  ultimately show ?thesis
    using deleting_run_escapes [of rx_deleting "hd rx_deleting" "\<lambda>_. None" "rx_status ''Succeeded''" _ 8, OF _ _ _ _ _ refl]
    by (auto simp: rx_status_def)
qed

text \<open>
  A deletion that arrives while the runtime is applying the run is overwritten: the
  reconciler marks the run Pending by id alone, so the row ends up Pending with a deletion time.
  No API call finds it any more, and it is in no work set that would delete the workload the
  apply has just created.
\<close>

theorem run_delete_lost:
  assumes "table_ok run_id run_nsname run_deletedAt t" "j \<in> set t" "run_phase j = RunCreating"
    and "run_deletedAt j = None" "a_fault env = (\<lambda>_. None)" "l_fault lenv = (\<lambda>_. None)"
    and "run_ToCR j (l_tenantPrefix lenv) = Inr cr" "rt_apply rt cr w = (None, w')"
  defines "t' \<equiv> fst (run_handleCreate lenv rt (fst (run_Delete env (run_namespace j) (run_name j) t), w) j)"
  shows "\<exists>r'\<in>set t'. run_same j r' \<and> run_phase r' = RunPending \<and> run_deletedAt r' = Some (a_now env) \<and>
     run_id r' \<notin> run_id ` set (rw_Deleting (run_FindWorkSet t'))"
proof -
  have key: "distinct (map run_id t)" using assms(1) by (simp add: table_ok_def)
  have get: "run_GetByNamespaceName (a_fault env) (run_namespace j) (run_name j) t = Inr j"
    using run_table.get_live_row [OF assms(1,2,4)] assms(5)
    by (simp add: run_GetByNamespaceName_def run_nsname_def)
  let ?d = "j\<lparr>run_updatedAt := a_now env, run_phase := RunDeleting, run_deletedAt := Some (a_now env)\<rparr>"
  let ?t1 = "update_row run_id (run_id j) ?d t"
  let ?r = "?d\<lparr>run_updatedAt := l_now lenv, run_phase := RunPending, run_scheduledAt := Some (l_now lenv)\<rparr>"
  have "fst (run_Delete env (run_namespace j) (run_name j) t) = ?t1"
    using get update_where_key [OF key assms(2), of "\<lambda>_. True"] assms(3,5)
    by (simp add: run_Delete_def run_MarkDeleting_def run_Update_def)
  moreover have t1: "distinct (map run_id ?t1)" "?d \<in> set ?t1" "run_id ?d = run_id j"
    using key update_row_new [OF assms(2), of ?d run_id] by simp_all
  ultimately have t': "t' = update_row run_id (run_id j) ?r ?t1"
    using run_Update_row [OF t1(1,2), where fault = "l_fault lenv" and now = "l_now lenv"
        and f = "\<lambda>r. r\<lparr>run_phase := RunPending, run_scheduledAt := Some (l_now lenv)\<rparr>"] assms(6-8)
    by (simp add: t'_def run_handleCreate_def)
  have "?r \<in> set t'" unfolding t' using update_row_new [OF t1(2), of ?r run_id] by simp
  moreover have "distinct (map run_id t')" using t1(1) by (simp add: t')
  ultimately have "run_id ?r \<notin> run_id ` set (work_batch run_updatedAt (\<lambda>r. run_phase r = RunDeleting) t')"
    by (intro not_in_work_set) auto
  with \<open>?r \<in> set t'\<close> show ?thesis
    by (intro bexI [of _ ?r]) (auto simp: run_same_def run_nsname_def priority_of_def run_FindWorkSet_def)
qed

definition rx_creating :: "int MLRun list" where
  "rx_creating = map (\<lambda>r. r\<lparr>run_phase := RunCreating\<rparr>) rx_table"

definition rx_lenv :: loop_env where
  "rx_lenv = \<lparr>l_fault = (\<lambda>_. None), l_now = 9, l_tenantPrefix = False, l_parseUUID = Some\<rparr>"

theorem run_delete_lost_witness:
  "\<exists>r'\<in>set (fst (run_handleCreate rx_lenv rx_rt (fst (run_Delete rx_env (run_namespace (hd rx_creating))
      (run_name (hd rx_creating)) rx_creating), ()) (hd rx_creating))).
     run_phase r' = RunPending \<and> run_deletedAt r' = Some 5"
proof -
  have "table_ok run_id run_nsname run_deletedAt rx_creating" "run_phase (hd rx_creating) = RunCreating"
    "run_deletedAt (hd rx_creating) = None" "length rx_creating = 1"
    "\<not> isl (run_ToCR (hd rx_creating) (l_tenantPrefix rx_lenv))" by code_simp+
  moreover from this(4) have "hd rx_creating \<in> set rx_creating" by (intro hd_in_set) auto
  moreover from calculation(5) obtain cr where "run_ToCR (hd rx_creating) (l_tenantPrefix rx_lenv) = Inr cr"
    by (cases "run_ToCR (hd rx_creating) (l_tenantPrefix rx_lenv)") auto
  moreover have "a_fault rx_env = (\<lambda>_. None)" "a_now rx_env = 5" "l_fault rx_lenv = (\<lambda>_. None)"
      "\<And>cr. rt_apply rx_rt cr () = (None, ())"
    by (simp_all add: rx_env_def rx_lenv_def rx_rt_def)
  ultimately show ?thesis
    using run_delete_lost [of rx_creating "hd rx_creating" rx_env rx_lenv cr rx_rt "()" "()"] by auto
qed

end
