(* ===== verification/ListProps.thy ===== *)
theory ListProps
  imports ListApi RunProps
begin

text \<open>
  Correctness of the list surface: the continue token is a codec (\<open>codec\<close> is its contract, interpreted on
  base64 and on decimal numbers and composed), following the tokens visits every row exactly once,
  and a label selector returns the rows Kubernetes' selector semantics asks for.
\<close>

section \<open>Codecs\<close>

locale codec =
  fixes enc :: "'a \<Rightarrow> 'b" and dec :: "'b \<Rightarrow> 'a option" and dom_ok :: "'a \<Rightarrow> bool"
  assumes dec_enc: "dom_ok x \<Longrightarrow> dec (enc x) = Some x"
begin

lemma enc_inject: "dom_ok x \<Longrightarrow> dom_ok y \<Longrightarrow> enc x = enc y \<Longrightarrow> x = y"
  by (metis dec_enc option.inject)

end

lemma b64_index_char: "i < 64 \<Longrightarrow> b64_index (b64_char i) = Some i"
proof -
  have "list_all (\<lambda>i. b64_index (b64_char i) = Some i) [0..<64]" by code_simp
  then show "i < 64 \<Longrightarrow> b64_index (b64_char i) = Some i" by (simp add: list_all_iff)
qed

lemma b64_char_plain: "i < 64 \<Longrightarrow> b64_char i \<noteq> CHR 0x0A \<and> b64_char i \<noteq> CHR 0x0D"
proof -
  have "list_all (\<lambda>i. b64_char i \<noteq> CHR 0x0A \<and> b64_char i \<noteq> CHR 0x0D) [0..<64]" by code_simp
  then show "i < 64 \<Longrightarrow> b64_char i \<noteq> CHR 0x0A \<and> b64_char i \<noteq> CHR 0x0D" by (simp add: list_all_iff)
qed

lemma digits_of_chars: "list_all (\<lambda>i. i < 64) ds \<Longrightarrow> digits_of (map b64_char ds) = Some ds"
  by (induction ds) (auto simp: b64_index_char b64_char_plain)

text \<open>The digits an encoded text consists of.\<close>

fun b64_digits :: "nat list \<Rightarrow> nat list" where
  "b64_digits [] = []"
| "b64_digits [a] = [a div 4, a mod 4 * 16]"
| "b64_digits [a, b] = [a div 4, a mod 4 * 16 + b div 16, b mod 16 * 4]"
| "b64_digits (a # b # c # rest) =
     a div 4 # (a mod 4 * 16 + b div 16) # (b mod 16 * 4 + c div 64) # c mod 64 # b64_digits rest"

lemma b64_encode_digits: "b64_encode_bytes bs = map b64_char (b64_digits bs)"
  by (induction bs rule: b64_digits.induct) simp_all

lemma digit_bounds:
  fixes a b c :: nat
  assumes "a < 256" "b < 256" "c < 256"
  shows "a div 4 < 64" "a mod 4 * 16 + b div 16 < 64" "b mod 16 * 4 + c div 64 < 64" "c mod 64 < 64"
    "a mod 4 * 16 < 64" "b mod 16 * 4 < 64"
proof -
  have "a mod 4 < 4" "b div 16 < 16" "b mod 16 < 16" "c div 64 < 4" using assms by auto
  then show "a mod 4 * 16 + b div 16 < 64" "b mod 16 * 4 + c div 64 < 64" "a mod 4 * 16 < 64" "b mod 16 * 4 < 64" by linarith+
qed (use assms in auto)

lemma unpack: "(y::nat) < k \<Longrightarrow> (x * k + y) div k = x" "(y::nat) < k \<Longrightarrow> (x * k + y) mod k = y"
  by simp_all

lemma regroup:
  fixes a b c :: nat
  assumes "a < 256" "b < 256" "c < 256"
  shows "a div 4 * 4 + (a mod 4 * 16 + b div 16) div 16 = a"
    "(a mod 4 * 16 + b div 16) mod 16 * 16 + (b mod 16 * 4 + c div 64) div 4 = b"
    "(b mod 16 * 4 + c div 64) mod 4 * 64 + c mod 64 = c"
proof -
  have "b div 16 < 16" "c div 64 < 4" using assms by auto
  then show "a div 4 * 4 + (a mod 4 * 16 + b div 16) div 16 = a"
    "(a mod 4 * 16 + b div 16) mod 16 * 16 + (b mod 16 * 4 + c div 64) div 4 = b"
    "(b mod 16 * 4 + c div 64) mod 4 * 64 + c mod 64 = c"
    by (simp_all only: unpack div_mult_mod_eq)
qed

lemma b64_digits_small: "list_all (\<lambda>b. b < 256) bs \<Longrightarrow> list_all (\<lambda>i. i < 64) (b64_digits bs)"
  by (induction bs rule: b64_digits.induct) (auto simp: digit_bounds)

lemma b64_decode_encode_digits: "list_all (\<lambda>b. b < 256) bs \<Longrightarrow> b64_decode_digits (b64_digits bs) = Some bs"
proof (induction bs rule: b64_digits.induct)
  case (4 a b c rest)
  then show ?case using regroup [of a b c] by simp
next
  case (3 a b)
  then show ?case using regroup [of a b 0] by simp
next
  case (2 a)
  then show ?case using regroup [of a 0 0] by simp
qed simp

interpretation b64: codec b64_encode b64_decode "\<lambda>_. True"
proof
  fix s :: string
  let ?bs = "map of_char s :: nat list"
  have small: "list_all (\<lambda>b. b < 256) ?bs" by (auto simp: list_all_iff)
  have "digits_of (b64_encode s) = Some (b64_digits ?bs)"
    unfolding b64_encode_def b64_encode_digits by (rule digits_of_chars [OF b64_digits_small [OF small]])
  with b64_decode_encode_digits [OF small] show "b64_decode (b64_encode s) = Some s"
    by (simp add: b64_decode_def comp_def)
qed

lemma digit_value_char: "d < 10 \<Longrightarrow> digit_value (char_of (d + 48)) = Some (int d)"
proof -
  have "list_all (\<lambda>d. digit_value (char_of (d + 48)) = Some (int d)) [0..<10]" by code_simp
  then show "d < 10 \<Longrightarrow> digit_value (char_of (d + 48)) = Some (int d)" by (simp only: list_all_iff set_upt atLeastLessThan_iff) simp
qed

lemma parse_digits_append:
  "parse_digits acc (xs @ ys) = (case parse_digits acc xs of None \<Rightarrow> None | Some n \<Rightarrow> parse_digits n ys)"
  by (induction xs arbitrary: acc) (auto split: option.splits)

lemma show_nat_nonempty: "show_nat n \<noteq> []"
  by (subst show_nat.simps) simp

lemma parse_show_nat: "parse_digits 0 (show_nat n) = Some (int n)"
proof (induction n rule: show_nat.induct)
  case (1 n)
  show ?case
  proof (cases "n < 10")
    case True
    then show ?thesis by (subst show_nat.simps) (simp add: digit_value_char)
  next
    case False
    then have "parse_digits 0 (show_nat (n div 10)) = Some (int (n div 10))" by (rule 1)
    moreover have "10 * int (n div 10) + int (n mod 10) = int n" by presburger
    ultimately show ?thesis
      using False by (subst show_nat.simps) (simp add: parse_digits_append digit_value_char)
  qed
qed

lemma hd_show_nat: "\<exists>d<10. hd (show_nat n) = char_of (d + 48 :: nat)"
proof (induction n rule: show_nat.induct)
  case (1 n)
  then show ?case by (subst show_nat.simps) (auto simp: show_nat_nonempty)
qed

lemma Atoi_show_nat:
  assumes "int n < 2 ^ 63"
  shows "Atoi (show_nat n) = Some (int n)"
proof -
  obtain c s where s: "show_nat n = c # s" by (meson neq_Nil_conv show_nat_nonempty)
  moreover obtain d where "d < 10" "c = char_of (d + 48 :: nat)" using hd_show_nat [of n] s by auto
  then have "digit_value c \<noteq> None" by (simp add: digit_value_char)
  moreover have "digit_value (CHR ''-'') = None" "digit_value (CHR ''+'') = None" by code_simp+
  ultimately have "c \<noteq> CHR ''-''" "c \<noteq> CHR ''+''" by auto
  with s parse_show_nat [of n] assms show ?thesis by (simp add: Atoi_def int64_range_def)
qed

text \<open>A token decodes to the offset it was made from.\<close>

interpretation token: codec "\<lambda>n. b64_encode (show_int n)" decodeContinue "\<lambda>n. 0 \<le> n \<and> n < 2 ^ 63"
proof
  fix n :: int
  assume "0 \<le> n \<and> n < 2 ^ 63"
  then show "decodeContinue (b64_encode (show_int n)) = Some n"
    using Atoi_show_nat [of "nat n"] b64.dec_enc [of "show_int n"] by (simp add: decodeContinue_def show_int_def)
qed

section \<open>Following the continue tokens\<close>

text \<open>The order of a page, newest first, is a strict weak order.\<close>

interpretation newest: strict_weak_order "\<lambda>a b. createdAt b < (createdAt a :: nat)"
  by unfold_locales auto

text \<open>
  A client that lists everything: it repeats the call with the token of the last response
  until there is none. \<open>None\<close> when it gives up after so many requests.
\<close>

fun fetch_all :: "nat \<Rightarrow> (string \<Rightarrow> err + 'v list_response) \<Rightarrow> string \<Rightarrow> (err + 'v list) option" where
  "fetch_all 0 listing cont = None"
| "fetch_all (Suc k) listing cont =
     (case listing cont of Inl e \<Rightarrow> Some (Inl e)
      | Inr r \<Rightarrow>
          if lr_continueToken r = [] then Some (Inr (lr_items r))
          else map_option (map_sum id (\<lambda>rest. lr_items r @ rest)) (fetch_all k listing (lr_continueToken r)))"

lemma token_nonempty: "0 \<le> n \<Longrightarrow> n < 2 ^ 63 \<Longrightarrow> b64_encode (show_int n) \<noteq> []"
proof
  assume "0 \<le> n" "n < 2 ^ 63" "b64_encode (show_int n) = []"
  then have "decodeContinue [] = Some n" using token.dec_enc [of n] by simp
  moreover have "decodeContinue [] = None" by code_simp
  ultimately show False by simp
qed

lemma parse_limit_bounds: "parse_limit v = Inr n \<Longrightarrow> 1 \<le> n \<and> n \<le> 200"
  by (auto simp: parse_limit_def split: if_splits option.splits)

text \<open>The token of an offset: none for the first page.\<close>

definition offset_token :: "nat \<Rightarrow> string" where
  "offset_token m = (if m = 0 then [] else b64_encode (show_int (int m)))"

lemma ParsePagination_token:
  assumes "parse_limit limit = Inr n" "int m < 2 ^ 63"
  shows "ParsePagination limit (offset_token m) = Inr \<lparr>pg_limit = n, pg_offset = int m\<rparr>"
  using assms token.dec_enc [of "int m"] token_nonempty [of "int m"] by (simp add: ParsePagination_def offset_token_def)

lemma run_List_page:
  assumes "a_fault env SelectList = None"
  shows "run_List env ns limit offset label t =
    Inr (map run_toView (take limit (drop offset (sort_by (\<lambda>a b. run_createdAt b < run_createdAt a)
      (filter (\<lambda>r. run_namespace r = ns \<and> run_deletedAt r = None \<and> label r) t)))),
     length (filter (\<lambda>r. run_namespace r = ns \<and> run_deletedAt r = None \<and> label r) t))"
  using assms by (simp add: run_List_def run_ListByNamespace_def page_def Let_def)

lemma fetch_from:
  fixes rows :: "'q MLRun list"
  assumes "parse_limit limit = Inr n" "selector_sql parse_sel raw = Inr sel" "a_fault env SelectList = None"
    and rows: "rows = filter (\<lambda>r. run_namespace r = ns \<and> run_deletedAt r = None \<and> sel (run_labels_of r)) t"
    and "int (length rows) < 2 ^ 63" "m \<le> length rows" "length rows - m < k"
  shows "fetch_all k (\<lambda>cont. run_ListHandler env parse_sel ns limit cont raw t) (offset_token m) =
     Some (Inr (map run_toView (drop m (sort_by (\<lambda>a b. run_createdAt b < run_createdAt a) rows))))"
  using assms(6,7)
proof (induction k arbitrary: m)
  case (Suc k)
  let ?sorted = "sort_by (\<lambda>a b. run_createdAt b < run_createdAt a) rows"
  obtain l where n: "n = int l" "1 \<le> l" using parse_limit_bounds [OF assms(1)] by (metis nat_0_le nat_mono nat_one_as_int
      order_trans zero_le_one)
  have parse: "ParsePagination limit (offset_token m) = Inr \<lparr>pg_limit = n, pg_offset = int m\<rparr>"
    using Suc.prems(1) assms(5) by (intro ParsePagination_token [OF assms(1)]) simp
  have page: "run_ListHandler env parse_sel ns limit (offset_token m) raw t =
     Inr \<lparr>lr_items = map run_toView (take l (drop m ?sorted)), lr_count = int (min (length rows - m) l),
       lr_total = int (length rows), lr_continueToken = EncodeContinue (int m) (int (min (length rows - m) l)) (int (length rows))\<rparr>"
    by (simp add: run_ListHandler_def parse assms(2) run_List_page [OF assms(3)] rows [symmetric] n(1))
  show ?case
  proof (cases "length rows \<le> m + l")
    case True
    with Suc.prems(1) have "EncodeContinue (int m) (int (min (length rows - m) l)) (int (length rows)) = []"
      by (simp add: EncodeContinue_def)
    with page True show ?thesis by simp
  next
    case False
    then have "min (length rows - m) l = l" by simp
    with False n have tok: "EncodeContinue (int m) (int (min (length rows - m) l)) (int (length rows)) = offset_token (m + l)"
      by (simp add: EncodeContinue_def offset_token_def)
    have "offset_token (m + l) \<noteq> []"
      using n False assms(5) token_nonempty [of "int (m + l)"] by (simp add: offset_token_def)
    moreover have "fetch_all k (\<lambda>cont. run_ListHandler env parse_sel ns limit cont raw t) (offset_token (m + l)) =
        Some (Inr (map run_toView (drop (m + l) ?sorted)))"
      using Suc.prems False n by (intro Suc.IH) auto
    moreover have "take l (drop m ?sorted) @ drop (m + l) ?sorted = drop m ?sorted"
      using append_take_drop_id [of l "drop m ?sorted"] by (simp only: drop_drop add.commute)
    ultimately show ?thesis using page tok by (simp add: map_append [symmetric] del: map_append)
  qed
qed simp


section \<open>Label selectors\<close>

text \<open>How Kubernetes matches a requirement against a label set.\<close>

definition matches_requirement :: "(string, string) gomap \<Rightarrow> requirement \<Rightarrow> bool" where
  "matches_requirement m r \<longleftrightarrow>
     (let has = (case map_of m (rq_key r) of None \<Rightarrow> False | Some v \<Rightarrow> v \<in> set (rq_values r)) in
      case rq_op r of
        OpEquals \<Rightarrow> has | OpDoubleEquals \<Rightarrow> has | OpIn \<Rightarrow> has
      | OpNotEquals \<Rightarrow> \<not> has | OpNotIn \<Rightarrow> \<not> has
      | OpExists \<Rightarrow> map_of m (rq_key r) \<noteq> None | OpNotExists \<Rightarrow> map_of m (rq_key r) = None
      | OpGt \<Rightarrow> False | OpLt \<Rightarrow> False)"

text \<open>
  What \<open>labels.NewRequirement\<close> guarantees of the values; the numeric comparisons are left out.
\<close>

definition requirement_ok :: "requirement \<Rightarrow> bool" where
  "requirement_ok r \<longleftrightarrow>
     (case rq_op r of
        OpEquals \<Rightarrow> length (rq_values r) = 1 | OpDoubleEquals \<Rightarrow> length (rq_values r) = 1
      | OpNotEquals \<Rightarrow> length (rq_values r) = 1
      | OpIn \<Rightarrow> rq_values r \<noteq> [] | OpNotIn \<Rightarrow> rq_values r \<noteq> []
      | OpExists \<Rightarrow> True | OpNotExists \<Rightarrow> True | OpGt \<Rightarrow> False | OpLt \<Rightarrow> False)"

lemma requirement_clause_sound:
  assumes "requirement_ok r"
  obtains c where "requirement_clause r = Some c" "\<And>m. clause_value c m = Some True \<longleftrightarrow> matches_requirement m r"
proof (cases "requirement_clause r")
  case None
  with assms show thesis
    by (auto simp: requirement_ok_def requirement_clause_def Let_def split: sel_op.splits if_splits)
next
  case (Some c)
  have "clause_value c m = Some True \<longleftrightarrow> matches_requirement m r" for m
    using assms Some
    by (cases "rq_op r")
      (auto simp: requirement_ok_def requirement_clause_def matches_requirement_def Let_def length_Suc_conv
        split: if_splits option.splits)
  with Some show thesis by (rule that)
qed

lemma selector_clauses_sound:
  assumes "list_all requirement_ok reqs"
  shows "list_all (\<lambda>c. clause_value c m = Some True) (selector_clauses reqs) \<longleftrightarrow> list_all (matches_requirement m) reqs"
  using assms
proof (induction reqs)
  case (Cons r reqs)
  then obtain c where "requirement_clause r = Some c" "clause_value c m = Some True \<longleftrightarrow> matches_requirement m r"
    by (auto elim: requirement_clause_sound)
  with Cons show ?case by (simp add: selector_clauses_def map_filter_simps)
qed (simp add: selector_clauses_def map_filter_simps)

abbreviation marks :: "string \<Rightarrow> nat" where
  "marks s \<equiv> length (filter (\<lambda>c. c = CHR ''?'') s)"

lemma marks_join: "marks sep = 0 \<Longrightarrow> marks (join sep xs) = sum_list (map marks xs)"
  by (induction sep xs rule: join.induct) auto

lemma marks_clause:
  assumes "CHR ''?'' \<notin> set column"
  shows "marks (clause_text column c) = length (clause_args c)"
proof -
  have "marks column = 0" using assms by (auto simp: filter_empty_conv)
  moreover have "marks (placeholders vals) = length vals" for vals
    unfolding placeholders_def by (subst marks_join) (simp_all add: comp_def sum_list_triv)
  ultimately show ?thesis by (cases c) simp_all
qed


text \<open>
  A numeric comparison in a selector is dropped: whatever the labels of a row and whatever the number, a
  selector that consists of one greater-than requirement renders no condition, and every live run of the namespace
  is returned.
\<close>

theorem selector_gt_ignored:
  assumes "trimSpace raw \<noteq> []" "parse_sel raw = Inr [\<lparr>rq_key = k, rq_op = OpGt, rq_values = [v]\<rparr>]"
  shows "JSONLabelsSQL parse_sel column raw = Inr ([], []) \<and>
     run_ListHandler env parse_sel ns limit cont raw t = run_ListHandler env parse_sel ns limit cont [] t"
proof -
  have "selector_clauses [\<lparr>rq_key = k, rq_op = OpGt, rq_values = [v]\<rparr>] = []"
    by (simp add: selector_clauses_def requirement_clause_def map_filter_simps)
  moreover have "trimSpace [] = []" by (simp add: trimSpace_def)
  ultimately have "selector_sql parse_sel raw = selector_sql parse_sel []" "JSONLabelsSQL parse_sel column raw = Inr ([], [])"
    using assms by (simp_all add: selector_sql_def JSONLabelsSQL_def)
  then show ?thesis unfolding run_ListHandler_def by metis
qed

section \<open>Concrete calls\<close>

definition lx_reqs :: "requirement list" where
  "lx_reqs = [\<lparr>rq_key = ''team'', rq_op = OpEquals, rq_values = [''x'']\<rparr>,
       \<lparr>rq_key = ''old'', rq_op = OpNotExists, rq_values = []\<rparr>]"

definition lx_parse :: "string \<Rightarrow> string + requirement list" where
  "lx_parse raw = (if raw = ''team=x,!old'' then Inr lx_reqs
     else if raw = ''size>5'' then Inr [\<lparr>rq_key = ''size'', rq_op = OpGt, rq_values = [''5'']\<rparr>] else Inl ''bad'')"



theorem selector_gt_ignored_witness:
  "run_ListHandler rx_env lx_parse ''ns'' [] [] ''size>5'' rx_table = run_ListHandler rx_env lx_parse ''ns'' [] [] [] rx_table"
proof -
  have "trimSpace ''size>5'' \<noteq> []" by code_simp
  moreover have "lx_parse ''size>5'' = Inr [\<lparr>rq_key = ''size'', rq_op = OpGt, rq_values = [''5'']\<rparr>]"
    by (simp add: lx_parse_def)
  ultimately show ?thesis using selector_gt_ignored by blast
qed

end
