(* ===== verification/DockerGPU.thy ===== *)
theory DockerGPU
  imports DockerRuntime ListProps
begin

text \<open>
  The GPU allocator of the standalone runtime never books a card twice. The allocator keeps no ledger: what is taken is
  read from the labels of the containers Docker lists, and the mutex makes reading, choosing and creating one step with
  respect to other allocations. \<open>docker_ok\<close> states what it relies on in Docker, \<open>gpu_history\<close> what can happen.
\<close>

section \<open>Device lists\<close>

lemma split_on_nonempty [simp]: "split_on c s \<noteq> []"
  by (induction s) (auto split: list.split)

lemma split_on_plain: "c \<notin> set s \<Longrightarrow> split_on c s = [s]"
  by (induction s) auto

lemma split_on_append: "c \<notin> set a \<Longrightarrow> split_on c (a @ c # b) = a # split_on c b"
  by (induction a) (auto split: list.split)

lemma split_on_join: "xs \<noteq> [] \<Longrightarrow> (\<And>x. x \<in> set xs \<Longrightarrow> c \<notin> set x) \<Longrightarrow> split_on c (join [c] xs) = xs"
proof (induction "[c]" xs rule: join.induct)
  case (3 x y ys)
  then show ?case by (simp add: split_on_append)
qed (auto simp: split_on_plain)

lemma show_nat_digits: "c \<in> set (show_nat n) \<Longrightarrow> \<exists>d<10. c = char_of (d + 48 :: nat)"
proof (induction n rule: show_nat.induct)
  case (1 n)
  from "1.prems" show ?case
    by (subst (asm) show_nat.simps) (auto split: if_splits dest: "1.IH" intro: exI [of _ n] exI [of _ "n mod 10"])
qed

lemma digit_plain: "d < 10 \<Longrightarrow> char_of (d + 48 :: nat) \<noteq> CHR '','' \<and> \<not> is_space (char_of (d + 48 :: nat))"
proof -
  have "list_all (\<lambda>d. char_of (d + 48 :: nat) \<noteq> CHR '','' \<and> \<not> is_space (char_of (d + 48 :: nat))) [0..<10]" by code_simp
  then show "d < 10 \<Longrightarrow> ?thesis" by (simp add: list_all_iff)
qed

lemma show_nat_plain: "CHR '','' \<notin> set (show_nat n)" "c \<in> set (show_nat n) \<Longrightarrow> \<not> is_space c"
  using show_nat_digits digit_plain by fastforce+

lemma trimSpace_plain: "(\<And>c. c \<in> set s \<Longrightarrow> \<not> is_space c) \<Longrightarrow> trimSpace s = s"
proof -
  have "dropWhile is_space t = t" if "\<And>c. c \<in> set t \<Longrightarrow> \<not> is_space c" for t using that by (cases t) auto
  from this [of s] this [of "rev s"] show "(\<And>c. c \<in> set s \<Longrightarrow> \<not> is_space c) \<Longrightarrow> ?thesis" by (simp add: trimSpace_def)
qed

text \<open>The label of a container gives back the cards that were pinned.\<close>

lemma parse_devices:
  assumes "devs \<noteq> []" "\<And>d. d \<in> set devs \<Longrightarrow> 0 \<le> d \<and> d < 2 ^ 63"
  shows "parseDeviceList (join '','' (map show_int devs)) = devs" "join '','' (map show_int devs) \<noteq> []"
proof -
  have shown: "show_int d = show_nat (nat d)" if "d \<in> set devs" for d
    using assms(2) [OF that] by (simp add: show_int_def)
  then have splits: "split_on (CHR '','') (join '','' (map show_int devs)) = map show_int devs"
    using assms(1) show_nat_plain(1) by (intro split_on_join) auto
  have "(let part = trimSpace (show_int d) in if part = [] then None else Atoi part) = Some d" if "d \<in> set devs" for d
    using assms(2) [OF that] shown [OF that] Atoi_show_nat [of "nat d"] show_nat_nonempty [of "nat d"]
    by (simp add: trimSpace_plain show_nat_plain(2))
  then have "List.map_filter (\<lambda>raw. let part = trimSpace raw in if part = [] then None else Atoi part) (map show_int xs) = xs"
    if "set xs \<subseteq> set devs" for xs using that by (induction xs) (auto simp: List.map_filter_simps)
  with splits show "parseDeviceList (join '','' (map show_int devs)) = devs" by (simp add: parseDeviceList_def)
  have "join '','' (map show_int devs) = [] \<Longrightarrow> map show_int devs = [[]]" using splits by simp
  then show "join '','' (map show_int devs) \<noteq> []" using shown show_nat_nonempty by (metis (no_types) list.set_intros(1) list.simps(9) list.map_disc_iff list.inject neq_Nil_conv assms(1))
qed

section \<open>The assignment\<close>

lemma hand_out_parts:
  assumes "hand_out free needs = Inr assign" "sum_list needs \<le> int (length free)"
  shows "length assign = length needs" "concat assign = take (nat (sum_list needs)) free"
    "list_all2 (\<lambda>n devs. int (length devs) = n) needs assign"
proof -
  have "length assign = length needs \<and> (sum_list needs \<le> int (length free) \<longrightarrow> 0 \<le> sum_list needs \<and>
      concat assign = take (nat (sum_list needs)) free \<and> list_all2 (\<lambda>n devs. int (length devs) = n) needs assign)"
    using assms(1)
  proof (induction needs arbitrary: free assign)
    case (Cons n ns)
    then obtain rest where n: "n \<ge> 0" and rest: "hand_out (drop (nat n) free) ns = Inr rest" "assign = take (nat n) free # rest"
      by (auto split: if_splits sum.splits simp: map_sum_def)
    note IH = Cons.IH [OF rest(1)]
    show ?case
    proof (cases "sum_list (n # ns) \<le> int (length free)")
      case True
      then have "sum_list ns \<le> int (length (drop (nat n) free))" using n by (cases "n \<le> int (length free)") (auto simp: of_nat_diff)
      with IH have s: "0 \<le> sum_list ns" by simp
      with True n have "n \<le> int (length free)" by simp
      with IH True n s rest(2) show ?thesis
        by (auto simp: nat_add_distrib take_add min_def)
    next
      case False
      with IH rest(2) show ?thesis by simp
    qed
  qed simp
  with assms(2) show "length assign = length needs" "concat assign = take (nat (sum_list needs)) free"
    "list_all2 (\<lambda>n devs. int (length devs) = n) needs assign" by auto
qed

lemma computeAssignment_parts:
  assumes "computeAssignment schedulable busy untracked needs = Inr assign" "distinct schedulable"
  shows "length assign = length needs" "list_all2 (\<lambda>n devs. int (length devs) = n) needs assign"
    "distinct (concat assign)" "set (concat assign) \<subseteq> set schedulable - set busy"
proof -
  let ?free = "free_devices schedulable busy untracked"
  from assms(1) have h: "hand_out ?free needs = Inr assign" "sum_list needs \<le> int (length ?free)"
    by (auto simp: computeAssignment_def Let_def split: if_splits)
  note parts = hand_out_parts [OF h]
  have "distinct ?free" "set ?free \<subseteq> set schedulable - set busy"
    using assms(2) by (auto simp: free_devices_def Let_def dest: in_set_dropD)
  with parts show "length assign = length needs" "list_all2 (\<lambda>n devs. int (length devs) = n) needs assign"
    "distinct (concat assign)" "set (concat assign) \<subseteq> set schedulable - set busy"
    by (auto simp del: set_concat dest: in_set_takeD)
qed

lemma distinct_concat_disjoint:
  assumes "distinct (concat xss)" "i < length xss" "j < length xss" "i \<noteq> j"
  shows "set (xss ! i) \<inter> set (xss ! j) = {}"
  using assms
proof (induction xss arbitrary: i j)
  case (Cons xs xss)
  then show ?case by (cases i; cases j) (fastforce simp: in_set_conv_nth)+
qed simp

section \<open>What a creation adds to the history\<close>

text \<open>The containers the calls created, oldest first, and the cards a set of labels names.\<close>

fun created_of :: "devent \<Rightarrow> (string \<times> (string, string) gomap) list" where
  "created_of (DCreate n req (Inr i)) = [(i, cq_labels req)]"
| "created_of _ = []"

definition created :: "devent list \<Rightarrow> (string \<times> (string, string) gomap) list" where
  "created es = concat (map created_of (rev es))"

definition devices :: "(string, string) gomap \<Rightarrow> int list" where
  "devices labels = (let l = sget labels LabelGPUDevices in if l = [] then [] else parseDeviceList l)"

lemma created_simps [simp]: "created [] = []" "created (e # es) = created es @ created_of e" "created (es @ es2) = created es2 @ created es"
  by (simp_all add: created_def)

lemma runs_observe_bind [runs_rules]: "(\<And>x. runs (g x) Q) \<Longrightarrow> runs (reading f \<bind> g) Q"
  by (rule runs_bind [where P = "\<lambda>_ es. es = []"]) (auto simp: runs_def reading_def)

lemma runs_guard_val:
  assumes "runs m P" "\<And>x es. P (Inl x) es \<Longrightarrow> Q (fail x) es" "\<And>v es. P (Inr v) es \<Longrightarrow> runs (body v) (\<lambda>y es'. Q y (es' @ es))"
  shows "runs (guard_val m fail body) Q"
  unfolding guard_val_def by (rule runs_bind [OF assms(1)]) (auto intro!: runs_rules assms(2,3))

lemma runs_guard:
  assumes "runs m P" "\<And>x es. P (Some x) es \<Longrightarrow> Q (fail x) es" "\<And>es. P None es \<Longrightarrow> runs body (\<lambda>y es'. Q y (es' @ es))"
  shows "runs (guard m fail body) Q"
  unfolding guard_def by (rule runs_bind [OF assms(1)]) (auto intro!: runs_rules assms(2,3))

abbreviation quiet :: "'a dprog \<Rightarrow> bool" where
  "quiet m \<equiv> only (\<lambda>e. created_of e = []) m"

lemma created_quiet: "list_all (\<lambda>e. created_of e = []) es \<Longrightarrow> created es = []"
  by (induction es) auto

lemma quiet_guard [only_rules]: "only P m \<Longrightarrow> only P body \<Longrightarrow> only P (guard m fail body)"
  by (auto simp: guard_def intro!: only_rules)

lemma quiet_guard_val [only_rules]: "only P m \<Longrightarrow> (\<And>v. only P (body v)) \<Longrightarrow> only P (guard_val m fail body)"
  by (auto simp: guard_val_def intro!: only_rules)

lemma only_observe [only_rules]: "only P (reading f)"
  by (simp add: only_def runs_def reading_def)

lemma only_record_event [only_rules]: "(\<And>r. P (Recorded r)) \<Longrightarrow> only P (record_event dk kind ns name inst reason message)"
  by (auto simp: record_event_def intro!: only_rules)

lemma only_instanceName [only_rules]: "(\<And>s. P (Drew s)) \<Longrightarrow> only P (instanceName dk base n b)"
  by (auto simp: instanceName_def intro!: only_rules)

lemma quiet_image: "quiet (ensure_plan_image r kind ns name p)"
  by (auto simp: ensure_plan_image_def ensureImage_def pullImage_def imageInspect_def Let_def intro!: only_rules)

lemma quiet_inspect: "quiet (containerInspect dk i)" "quiet (legacyGPUCount dk i)"
  by (auto simp: legacyGPUCount_def containerInspect_def intro!: only_rules)

lemma quiet_scan: "quiet (scan_busy dk cs busy untracked)"
  by (induction cs arbitrary: busy untracked) (auto intro!: only_rules quiet_inspect)

text \<open>One successful creation, or none.\<close>

lemma runs_create_attempts:
  "runs (create_attempts dk req n p err) (\<lambda>(c, q) es. cp_labels q = cp_labels p \<and>
     created es = (case c of Inr i \<Rightarrow> [(i, cq_labels req)] | Inl _ \<Rightarrow> []))"
proof (induction n arbitrary: p err)
  case (Suc n)
  show ?case unfolding create_attempts.simps instanceName_def
    by (intro runs_rules) (auto intro!: runs_rules runs_mono [OF Suc.IH] simp: split_def split: sum.splits)
qed (auto intro!: runs_rules)

lemma runs_createAndStart:
  "runs (createAndStart r p) (\<lambda>(e, q) es. created es = [] \<and> e \<noteq> None \<or> (\<exists>i. created es = [(i, cp_labels p)]))"
  unfolding createAndStart_def
  by (rule runs_bind [OF runs_create_attempts]) (auto intro!: runs_rules simp: toDocker_def split: sum.splits)

lemma runs_create_each:
  "runs (create_each r kind ns name ps) (\<lambda>_ es. \<exists>k. map snd (created es) = map cp_labels (take k ps))"
proof (induction ps)
  case (Cons p ps)
  have rest: "runs (create_each r kind ns name ps \<bind> (\<lambda>(e, qs). ret (e, q # qs)))
      (\<lambda>_ es'. \<exists>k. map snd (created (es' @ es)) = map cp_labels (take k (p # ps)))"
    if "created es = [(i, cp_labels p)]" for q es i
  proof (rule runs_bind [OF Cons.IH])
    fix x es' assume "\<exists>k. map snd (created es') = map cp_labels (take k ps)"
    then obtain k where "map snd (created es') = map cp_labels (take k ps)" by blast
    with that show "runs (case x of (e, qs) \<Rightarrow> ret (e, q # qs))
        (\<lambda>y es''. \<exists>k. map snd (created ((es'' @ es') @ es)) = map cp_labels (take k (p # ps)))"
      by (auto intro!: runs_rules exI [of _ "Suc k"])
  qed
  have stop: "runs (record_event dk kind ns name [] reason msg \<bind> (\<lambda>_. ret (Some e, q # ps)))
      (\<lambda>_ es'. \<exists>k. map snd (created (es' @ es)) = map cp_labels (take k (p # ps)))"
    if "created es = [] \<or> (\<exists>i. created es = [(i, cp_labels p)])" for q es e dk reason msg
    using that by (auto simp: record_event_def intro!: runs_rules intro: exI [of _ "0::nat"] exI [of _ "Suc 0"])
  show ?case unfolding create_each.simps
  proof (rule runs_bind [OF runs_createAndStart], goal_cases)
    case (1 x es)
    obtain e q where x: "x = (e, q)" by (cases x)
    show ?case
    proof (cases e)
      case None
      with 1 x rest [of es] show ?thesis by auto
    next
      case (Some err)
      with 1 x have "created es = [] \<or> (\<exists>i. created es = [(i, cp_labels p)])" by auto
      from stop [OF this] Some x show ?thesis by (simp only: prod.case option.case)
    qed
  qed
qed (auto intro!: runs_rules)

lemma scan_busy_covers:
  "runs (scan_busy dk cs busy untracked) (\<lambda>res es. \<forall>b u. res = Inr (b, u) \<longrightarrow> set busy \<subseteq> set b \<and>
     (\<forall>c\<in>set cs. gpuAlive (cn_state c) \<longrightarrow> set (devices (cn_labels c)) \<subseteq> set b))"
proof (induction cs arbitrary: busy untracked)
  case (Cons c cs)
  show ?case
  proof (cases "gpuAlive (cn_state c)")
    case alive: True
    show ?thesis
    proof (cases "sget (cn_labels c) LabelGPUDevices = []")
      case True
      have "runs (guard_val (legacyGPUCount dk (cn_id c)) Inl (\<lambda>n. scan_busy dk cs busy (untracked + n)))
        (\<lambda>res es. \<forall>b u. res = Inr (b, u) \<longrightarrow> set busy \<subseteq> set b \<and> (\<forall>c\<in>set cs. gpuAlive (cn_state c) \<longrightarrow> set (devices (cn_labels c)) \<subseteq> set b))"
        by (rule runs_guard_val [OF only_runs [OF quiet_inspect(2)]]) (simp, rule Cons.IH)
      with alive True show ?thesis by (simp add: devices_def)
    next
      case False
      let ?l = "sget (cn_labels c) LabelGPUDevices"
      have "runs (scan_busy dk cs (busy @ parseDeviceList ?l) untracked) (\<lambda>res es. \<forall>b u. res = Inr (b, u) \<longrightarrow> set busy \<subseteq> set b \<and>
          (\<forall>c\<in>set (c # cs). gpuAlive (cn_state c) \<longrightarrow> set (devices (cn_labels c)) \<subseteq> set b))"
        using False by (intro runs_mono [OF Cons.IH]) (auto simp: devices_def [of "cn_labels c"])
      with alive False show ?thesis by simp
    qed
  next
    case False
    with Cons.IH show ?thesis by simp
  qed
qed (auto intro!: runs_rules)

section \<open>A section under the mutex\<close>

definition unassigned :: "ContainerPlan \<Rightarrow> bool" where
  "unassigned p \<longleftrightarrow> sget (cp_labels p) LabelGPUDevices = []"

definition card_set :: "int list \<Rightarrow> bool" where
  "card_set sched \<longleftrightarrow> distinct sched \<and> list_all (\<lambda>d. 0 \<le> d \<and> d < 2 ^ 63) sched"

lemma assign_run:
  assumes "run_state (assignGPUsLocked r ps) g = (Inr qs, g')"
  obtains cs es busy untracked assign where "dk_list (dr_docker r) g managed_filter = Inr cs" "g' = es @ g" "created es = []"
    "\<And>c. c \<in> set cs \<Longrightarrow> gpuAlive (cn_state c) \<Longrightarrow> set (devices (cn_labels c)) \<subseteq> set busy"
    "computeAssignment (dr_schedulable r) busy untracked (map (\<lambda>p. rep_gpuCount (cp_resources p)) ps) = Inr assign"
    "qs = map (\<lambda>(p, devs). pin_devices p devs) (zip ps assign)"
proof -
  let ?dk = "dr_docker r"
  from assms obtain cs where cs: "dk_list ?dk g managed_filter = Inr cs"
    by (cases "dk_list ?dk g managed_filter")
       (auto simp: assignGPUsLocked_def busyGPUDevices_def guard_val_def containerList_def call_def)
  let ?g = "DList managed_filter (Inr cs) # g"
  obtain res h2 where scan: "run_state (scan_busy ?dk cs [] 0) ?g = (res, h2)" by (meson surj_pair)
  from scan_busy_covers scan obtain es where es: "h2 = es @ ?g"
    and busy: "\<forall>b u. res = Inr (b, u) \<longrightarrow> set [] \<subseteq> set b \<and> (\<forall>c\<in>set cs. gpuAlive (cn_state c) \<longrightarrow> set (devices (cn_labels c)) \<subseteq> set b)"
    by (rule runs_outcome)
  have quiet: "created es = []" using only_events [OF quiet_scan, of ?dk cs "[]" 0 ?g res es] scan es by (auto intro: created_quiet)
  from assms cs scan obtain b u assign where "res = Inr (b, u)" "g' = h2"
    "computeAssignment (dr_schedulable r) b u (map (\<lambda>p. rep_gpuCount (cp_resources p)) ps) = Inr assign"
    "qs = map (\<lambda>(p, devs). pin_devices p devs) (zip ps assign)"
    by (auto simp: assignGPUsLocked_def busyGPUDevices_def guard_val_def containerList_def call_def map_sum_def split: sum.splits)
  with that [of cs "es @ [DList managed_filter (Inr cs)]" b u assign] cs es busy quiet show thesis by auto
qed

lemma devices_pinned:
  assumes "unassigned p" "\<And>d. d \<in> set devs \<Longrightarrow> 0 \<le> d \<and> d < 2 ^ 63"
  shows "devices (cp_labels (pin_devices p devs)) = devs"
  using assms parse_devices [of devs] by (auto simp: pin_devices_def devices_def unassigned_def sget_def Let_def)

text \<open>
  What one call of \<open>createPlans\<close> adds: containers without cards, or containers whose cards are schedulable, pairwise
  disjoint, and free of what the containers Docker listed at the start of the section hold.
\<close>

definition booked :: "int list \<Rightarrow> container list \<Rightarrow> (string \<times> (string, string) gomap) list \<Rightarrow> bool" where
  "booked sched cs new \<longleftrightarrow> (\<forall>x\<in>set new. set (devices (snd x)) \<subseteq> set sched) \<and>
     (\<forall>i<length new. \<forall>j<length new. i \<noteq> j \<longrightarrow> set (devices (snd (new ! i))) \<inter> set (devices (snd (new ! j))) = {}) \<and>
     (\<forall>c\<in>set cs. gpuAlive (cn_state c) \<longrightarrow> (\<forall>x\<in>set new. set (devices (cn_labels c)) \<inter> set (devices (snd x)) = {}))"

lemma pinned_booked:
  assumes "card_set sched" "computeAssignment sched busy untracked (map (\<lambda>p. rep_gpuCount (cp_resources p)) ps) = Inr assign"
    "list_all unassigned ps" "\<And>c. c \<in> set cs \<Longrightarrow> gpuAlive (cn_state c) \<Longrightarrow> set (devices (cn_labels c)) \<subseteq> set busy"
    "map snd new = map cp_labels (take k (map (\<lambda>(p, devs). pin_devices p devs) (zip ps assign)))"
  shows "booked sched cs new"
proof -
  from assms(1) have "distinct sched" and range: "\<And>d. d \<in> set sched \<Longrightarrow> 0 \<le> d \<and> d < 2 ^ 63" by (auto simp: card_set_def list_all_iff)
  note a = computeAssignment_parts [OF assms(2) this(1)]
  have "length (map snd new) = length (map cp_labels (take k (map (\<lambda>(p, devs). pin_devices p devs) (zip ps assign))))" by (simp only: assms(5))
  then have len: "length new \<le> length assign" "length new \<le> k" by simp_all
  have dev: "devices (snd (new ! i)) = assign ! i" if "i < length new" for i
  proof -
    have i: "i < length assign" "i < length ps" using that len(1) a(1) by auto
    have k: "i < k" using that len(2) by simp
    have "map snd new ! i = map cp_labels (take k (map (\<lambda>(p, devs). pin_devices p devs) (zip ps assign))) ! i" by (simp only: assms(5))
    then have "snd (new ! i) = cp_labels (pin_devices (ps ! i) (assign ! i))" using that i k by simp
    moreover have "\<And>d. d \<in> set (assign ! i) \<Longrightarrow> 0 \<le> d \<and> d < 2 ^ 63" using a(4) i(1) range by (force dest: nth_mem)
    ultimately show ?thesis using devices_pinned assms(3) i(2) by (simp add: list_all_length)
  qed
  have mem: "set (devices (snd x)) \<subseteq> set (concat assign)" if "x \<in> set new" for x
  proof -
    from that obtain i where i: "i < length new" "x = new ! i" by (auto simp: in_set_conv_nth)
    with dev len(1) have "devices (snd x) \<in> set assign" by simp
    then show ?thesis by auto
  qed
  show ?thesis unfolding booked_def
  proof (intro conjI ballI allI impI)
    show "set (devices (snd x)) \<subseteq> set sched" if "x \<in> set new" for x using mem [OF that] a(4) by blast
    show "set (devices (snd (new ! i))) \<inter> set (devices (snd (new ! j))) = {}" if "i < length new" "j < length new" "i \<noteq> j" for i j
      using distinct_concat_disjoint [OF a(3)] that len dev by simp
    show "set (devices (cn_labels c)) \<inter> set (devices (snd x)) = {}" if "c \<in> set cs" "gpuAlive (cn_state c)" "x \<in> set new" for c x
      using mem [OF that(3)] a(4) assms(4) [OF that(1,2)] by blast
  qed
qed

lemma createPlans_section:
  assumes "run_state (createPlans r kind ns name ps) h = (x, h')" "card_set (dr_schedulable r)" "list_all unassigned ps"
  shows "\<exists>es. h' = es @ h \<and> ((\<forall>y\<in>set (created es). devices (snd y) = []) \<or>
    (\<exists>es2 es1 es0 cs. es = es2 @ es1 @ es0 \<and> created es1 = [] \<and> created es0 = [] \<and>
       dk_list (dr_docker r) (es0 @ h) managed_filter = Inr cs \<and> booked (dr_schedulable r) cs (created es2)))"
proof -
  let ?images = "try_each (ensure_plan_image r kind ns name) ps"
  obtain e h0 where img: "run_state ?images h = (e, h0)" by (meson surj_pair)
  have "quiet ?images" by (intro only_rules quiet_image)
  from runs_outcome [OF only_runs [OF this] img] obtain es0 where es0: "h0 = es0 @ h" "created es0 = []"
    by (blast intro: created_quiet)
  have plain: "devices (snd y) = []" if "map snd new = map cp_labels (take k ps)" "y \<in> set new" for y new k
  proof -
    have "snd y \<in> set (map cp_labels (take k ps))" using that by (metis image_eqI set_map)
    with assms(3) show ?thesis by (auto simp: list_all_iff unassigned_def devices_def dest!: in_set_takeD)
  qed
  show ?thesis
  proof (cases e)
    case (Some err)
    with assms(1) img have "h' = h0" by (simp add: createPlans_def guard_def)
    with es0 show ?thesis by (intro exI [of _ es0]) simp
  next
    case None
    note body = assms(1) [unfolded createPlans_def guard_def, simplified, unfolded img, simplified, unfolded None, simplified]
    show ?thesis
    proof (cases "sum_list (map (\<lambda>p. rep_gpuCount (cp_resources p)) ps) > 0 \<and> dr_schedulable r \<noteq> []")
      case False
      with body have "run_state (create_each r kind ns name ps) h0 = (x, h')" by (auto split: if_splits)
      from runs_outcome [OF runs_create_each this] obtain es k where "h' = es @ h0" "map snd (created es) = map cp_labels (take k ps)" by blast
      with plain es0 show ?thesis by (intro exI [of _ "es @ es0"]) auto
    next
      case True
      obtain q h1 where as: "run_state (assignGPUsLocked r ps) h0 = (q, h1)" by (meson surj_pair)
      show ?thesis
      proof (cases q)
        case (Inl err)
        have "quiet (assignGPUsLocked r ps)" unfolding assignGPUsLocked_def busyGPUDevices_def containerList_def
          by (intro only_rules quiet_scan) simp
        from runs_outcome [OF only_runs [OF this] as] obtain es where "h1 = es @ h0" "created es = []" by (blast intro: created_quiet)
        moreover have "h' = h1" using body True as Inl by (simp add: guard_val_def)
        ultimately show ?thesis using es0 by (intro exI [of _ "es @ es0"]) simp
      next
        case (Inr qs)
        obtain cs es1 busy untracked assign where a: "dk_list (dr_docker r) h0 managed_filter = Inr cs" "h1 = es1 @ h0"
          "created es1 = []" "\<And>c. c \<in> set cs \<Longrightarrow> gpuAlive (cn_state c) \<Longrightarrow> set (devices (cn_labels c)) \<subseteq> set busy"
          "computeAssignment (dr_schedulable r) busy untracked (map (\<lambda>p. rep_gpuCount (cp_resources p)) ps) = Inr assign"
          "qs = map (\<lambda>(p, devs). pin_devices p devs) (zip ps assign)" by (rule assign_run [OF as [unfolded Inr]]) (rule that)
        have "run_state (create_each r kind ns name qs) h1 = (x, h')" using body True as Inr by (simp add: guard_val_def)
        from runs_outcome [OF runs_create_each this] obtain es2 k where es2: "h' = es2 @ h1" "map snd (created es2) = map cp_labels (take k qs)"
          by blast
        from pinned_booked [OF assms(2) a(5) assms(3) a(4) es2(2) [unfolded a(6)]] have "booked (dr_schedulable r) cs (created es2)" .
        with a es0 es2 show ?thesis by (intro exI [of _ "es2 @ es1 @ es0"]) auto
      qed
    qed
  qed
qed

section \<open>Histories\<close>

text \<open>
  What can happen on the host: calls of \<open>createPlans\<close> on plans without cards, one after the other (those that hand out
  cards hold the mutex), and any other call in between. Containers that vanish or exit are in Docker's answers.
\<close>

inductive gpu_history :: "'q druntime \<Rightarrow> devent list \<Rightarrow> bool" for r where
  start: "gpu_history r []"
| create: "gpu_history r h \<Longrightarrow> list_all unassigned ps \<Longrightarrow> run_state (createPlans r kind ns name ps) h = (x, h') \<Longrightarrow> gpu_history r h'"
| other: "gpu_history r h \<Longrightarrow> created_of e = [] \<Longrightarrow> gpu_history r (e # h)"

definition listed_alive :: "container list \<Rightarrow> string \<Rightarrow> (string, string) gomap \<Rightarrow> bool" where
  "listed_alive cs i labels \<longleftrightarrow> (\<exists>c\<in>set cs. cn_id c = i \<and> cn_labels c = labels \<and> gpuAlive (cn_state c))"

text \<open>
  Docker lists containers with the labels they were created with; no one else uses the label of the cards; and a container
  that is alive now was alive, and listed, at every earlier time since its creation: one that has exited stays so.
\<close>

definition docker_ok :: "docker \<Rightarrow> bool" where
  "docker_ok dk \<longleftrightarrow>
     (\<forall>h cs c. dk_list dk h managed_filter = Inr cs \<longrightarrow> c \<in> set cs \<longrightarrow> devices (cn_labels c) \<noteq> [] \<longrightarrow> (cn_id c, cn_labels c) \<in> set (created h)) \<and>
     (\<forall>h h' cs cs' i labels. dk_list dk h managed_filter = Inr cs \<longrightarrow> dk_list dk (h' @ h) managed_filter = Inr cs' \<longrightarrow>
        (i, labels) \<in> set (created h) \<longrightarrow> listed_alive cs' i labels \<longrightarrow> listed_alive cs i labels)"

text \<open>Two creations are disjoint, or the older container was no longer alive when the cards of the newer were chosen.\<close>

definition apart :: "docker \<Rightarrow> devent list \<Rightarrow> string \<times> (string, string) gomap \<Rightarrow> string \<times> (string, string) gomap \<Rightarrow> bool" where
  "apart dk b x y \<longleftrightarrow> set (devices (snd x)) \<inter> set (devices (snd y)) = {} \<or>
     (\<exists>g pre cs. b = pre @ g \<and> x \<in> set (created g) \<and> dk_list dk g managed_filter = Inr cs \<and> \<not> listed_alive cs (fst x) (snd x))"

definition all_apart :: "docker \<Rightarrow> devent list \<Rightarrow> bool" where
  "all_apart dk h \<longleftrightarrow> (\<forall>a e b. h = a @ e # b \<longrightarrow> (\<forall>x\<in>set (created b). \<forall>y\<in>set (created_of e). apart dk b x y))"

lemma split_append: "es @ h = a @ e # b \<Longrightarrow> (\<exists>c. es = a @ e # c \<and> b = c @ h) \<or> (\<exists>c. h = c @ e # b)"
  by (auto simp: append_eq_append_conv2 append_eq_Cons_conv Cons_eq_append_conv)

lemma created_quiet_mem: "created es = [] \<Longrightarrow> es = a @ e # c \<Longrightarrow> created_of e = []"
  by simp

lemma booked_split:
  assumes "booked sched cs (created (a @ e # c))" "x \<in> set (created c)" "y \<in> set (created_of e)"
  shows "set (devices (snd x)) \<inter> set (devices (snd y)) = {}"
proof -
  from assms(2) obtain i where i: "i < length (created c)" "created c ! i = x" by (auto simp: in_set_conv_nth)
  from assms(3) obtain j where j: "j < length (created_of e)" "created_of e ! j = y" by (auto simp: in_set_conv_nth)
  let ?new = "created (a @ e # c)"
  have "?new ! i = x" "?new ! (length (created c) + j) = y" using i j by (simp_all add: nth_append)
  moreover have "i < length ?new" "length (created c) + j < length ?new" "i \<noteq> length (created c) + j" using i j by auto
  ultimately show ?thesis using assms(1) unfolding booked_def by metis
qed

lemma section_apart:
  assumes "all_apart dk h" "created es1 = []" "created es0 = []" "dk_list dk (es0 @ h) managed_filter = Inr cs" "booked sched cs (created es2)"
  shows "all_apart dk ((es2 @ es1 @ es0) @ h)"
  unfolding all_apart_def
proof (intro allI impI ballI)
  fix a e b x y
  assume split: "(es2 @ es1 @ es0) @ h = a @ e # b" and x: "x \<in> set (created b)" and y: "y \<in> set (created_of e)"
  from split have "es2 @ (es1 @ es0 @ h) = a @ e # b" by simp
  then consider c where "es2 = a @ e # c" "b = c @ es1 @ es0 @ h" | c where "es1 @ es0 @ h = c @ e # b" by (auto dest: split_append)
  then show "apart dk b x y"
  proof cases
    case 1
    show ?thesis
    proof (cases "x \<in> set (created c)")
      case True
      with booked_split assms(5) 1(1) y show ?thesis by (auto simp: apart_def)
    next
      case False
      with x 1 assms(2,3) have "x \<in> set (created (es0 @ h))" by auto
      moreover have "y \<in> set (created es2)" using 1(1) y by simp
      ultimately show ?thesis using assms(4,5) 1(2) unfolding apart_def listed_alive_def booked_def
        by (metis append.assoc)
    qed
  next
    case 2
    have q: "created (es1 @ es0) = []" using assms(2,3) by simp
    have "\<not> (\<exists>c'. es1 @ es0 = c @ e # c')" using created_quiet_mem [OF q] y by fastforce
    with 2 split_append [of "es1 @ es0" h c e b] obtain c' where "h = c' @ e # b" by auto
    with assms(1) x y show ?thesis by (auto simp: all_apart_def)
  qed
qed

lemma plain_apart:
  assumes "all_apart dk h" "\<forall>y\<in>set (created es). devices (snd y) = []"
  shows "all_apart dk (es @ h)"
  unfolding all_apart_def
proof (intro allI impI ballI)
  fix a e b x y
  assume split: "es @ h = a @ e # b" and x: "x \<in> set (created b)" and y: "y \<in> set (created_of e)"
  from split_append [OF split] show "apart dk b x y"
  proof
    assume "\<exists>c. es = a @ e # c \<and> b = c @ h"
    with y have "y \<in> set (created es)" by auto
    with assms(2) show ?thesis by (simp add: apart_def)
  next
    assume "\<exists>c. h = c @ e # b"
    with assms(1) x y show ?thesis by (auto simp: all_apart_def)
  qed
qed

lemma history_apart:
  assumes "gpu_history r h" "card_set (dr_schedulable r)"
  shows "all_apart (dr_docker r) h \<and> (\<forall>y\<in>set (created h). set (devices (snd y)) \<subseteq> set (dr_schedulable r))"
  using assms
proof induction
  case start
  show ?case by (simp add: all_apart_def)
next
  case (create h ps kind ns name x h')
  from createPlans_section [OF create.hyps(3) create.prems create.hyps(2)] obtain es where es: "h' = es @ h"
    "(\<forall>y\<in>set (created es). devices (snd y) = []) \<or>
      (\<exists>es2 es1 es0 cs. es = es2 @ es1 @ es0 \<and> created es1 = [] \<and> created es0 = [] \<and>
        dk_list (dr_docker r) (es0 @ h) managed_filter = Inr cs \<and> booked (dr_schedulable r) cs (created es2))" by blast
  from es(2) show ?case
  proof
    assume "\<forall>y\<in>set (created es). devices (snd y) = []"
    with plain_apart create es(1) show ?thesis by fastforce
  next
    assume "\<exists>es2 es1 es0 cs. es = es2 @ es1 @ es0 \<and> created es1 = [] \<and> created es0 = [] \<and>
        dk_list (dr_docker r) (es0 @ h) managed_filter = Inr cs \<and> booked (dr_schedulable r) cs (created es2)"
    then obtain es2 es1 es0 cs where s: "es = es2 @ es1 @ es0" "created es1 = []" "created es0 = []"
      "dk_list (dr_docker r) (es0 @ h) managed_filter = Inr cs" "booked (dr_schedulable r) cs (created es2)" by blast
    from section_apart [OF _ s(2-5)] create s es(1) show ?thesis by (auto simp: booked_def)
  qed
next
  case (other h e)
  then show ?case using plain_apart [of "dr_docker r" h "[e]"] by simp
qed

text \<open>Of two different containers one was created first.\<close>

lemma created_order:
  assumes "x \<in> set (created h)" "y \<in> set (created h)" "x \<noteq> y"
  shows "\<exists>pre e post. h = pre @ e # post \<and> (x \<in> set (created post) \<and> y \<in> set (created_of e) \<or> y \<in> set (created post) \<and> x \<in> set (created_of e))"
  using assms
proof (induction h)
  case (Cons e h)
  have one: "a = b" if "a \<in> set (created_of e)" "b \<in> set (created_of e)" for a b using that by (cases e rule: created_of.cases) auto
  show ?case
  proof (cases "x \<in> set (created h) \<and> y \<in> set (created h)")
    case True
    with Cons.IH Cons.prems(3) obtain pre e' post where "h = pre @ e' # post"
      "x \<in> set (created post) \<and> y \<in> set (created_of e') \<or> y \<in> set (created post) \<and> x \<in> set (created_of e')" by blast
    then show ?thesis by (intro exI [of _ "e # pre"] exI [of _ e'] exI [of _ post]) simp
  next
    case False
    from Cons.prems(1,2) have "x \<in> set (created h) \<or> x \<in> set (created_of e)" "y \<in> set (created h) \<or> y \<in> set (created_of e)" by auto
    with False one [of x y] Cons.prems(3) have "x \<in> set (created h) \<and> y \<in> set (created_of e) \<or> y \<in> set (created h) \<and> x \<in> set (created_of e)" by blast
    then show ?thesis by (intro exI [of _ "[]"] exI [of _ e] exI [of _ h]) simp
  qed
qed simp


section \<open>An example\<close>

text \<open>A Docker that runs what is created until it is removed; ids are fresh.\<close>

definition gx_list :: "devent list \<Rightarrow> container list" where
  "gx_list h = map (\<lambda>(i, labels). \<lparr>cn_id = i, cn_names = [''/'' @ i], cn_image = ''img'', cn_state = ''running'', cn_status = [], cn_labels = labels, cn_mounts = []\<rparr>)
     (filter (\<lambda>(i, _). DRemove i None \<notin> set h) (created h))"

definition gx_docker :: docker where
  "gx_docker = \<lparr>dk_list = (\<lambda>h f. Inr (filter (\<lambda>c. list_all (\<lambda>(k, v). sget (cn_labels c) k = v) f) (gx_list h))),
     dk_inspect = (\<lambda>h i. Inr \<lparr>ins_state = None, ins_hostConfig = None, ins_exposedPorts = []\<rparr>),
     dk_create = (\<lambda>h n req. Inr (''c'' @ show_nat (length h))), dk_start = (\<lambda>_ _. None), dk_remove = (\<lambda>_ _. None), dk_stop = (\<lambda>_ _. None),
     dk_volumeCreate = (\<lambda>_ _ _. None), dk_volumeRemove = (\<lambda>_ _. None), dk_volumeInspect = (\<lambda>_ _. Inl (CNotFound [])),
     dk_volumeList = (\<lambda>_ _. Inr []), dk_info = (\<lambda>_. Inl (COther [])), dk_logs = (\<lambda>_ _. Inl (CNotFound [])), dk_imageInspect = (\<lambda>_ _. None),
     dk_imagePull = (\<lambda>_ _ _. Inl (COther [])), dk_registryAuth = None, dk_rand = (\<lambda>_. ''abcde''), dk_now = length,
     fs_do = (\<lambda>_ _. None), fs_createTemp = (\<lambda>_ _. Inr ''tmp''), fs_readFile = (\<lambda>_ _. Inl (CNotFound [])),
     fs_readDir = (\<lambda>_ _. Inr []), fs_walk = (\<lambda>_ _. Inr []), fs_stat = (\<lambda>_ _. None)\<rparr>"

definition gx_lib :: "int dlib" where
  "gx_lib = \<lparr>dl_isDNS1123Subdomain = (\<lambda>_. []), dl_isConfigMapKey = (\<lambda>_. []), dl_isEnvVarName = (\<lambda>_. []),
     dl_parseImage = (\<lambda>_. Inr \<lparr>ir_digested = False, ir_tag = None\<rparr>), dl_milliValue = id, dl_value = id, dl_milliQuantity = id, dl_quantity = id,
     dl_newPort = (\<lambda>proto n. show_int n @ ''/'' @ proto), dl_marshalPlan = (\<lambda>_. []), dl_marshalFiles = (\<lambda>_. []),
     dl_readManifest = (\<lambda>_. None), dl_marshalManifest = (\<lambda>_. [])\<rparr>"

definition gx_runtime :: "int druntime" where
  "gx_runtime = \<lparr>dr_lib = gx_lib, dr_cfg = \<lparr>dcf_network = ''net'', dcf_gatewayConfigDir = ''/gw'', dcf_configMapsDir = ''/cm'',
     dcf_configMapsVolume = [], dcf_hostPathVolumes = []\<rparr>, dr_docker = gx_docker, dr_schedulable = [0, 1]\<rparr>"

definition gx_plan :: ContainerPlan where
  "gx_plan = \<lparr>cp_name = ''w'', cp_namePrefix = ''w'', cp_replica = 0, cp_stableOrdinal = False, cp_image = ''img'', cp_imagePullPolicy = ''Never'',
     cp_command = [], cp_args = [], cp_env = [], cp_workingDir = [], cp_labels = [(LabelManaged, ''true'')], cp_ports = [], cp_mounts = [],
     cp_resources = \<lparr>rep_nanoCPUs = 0, rep_memoryBytes = 0, rep_gpuCount = 1, rep_gpuDeviceIDs = []\<rparr>, cp_restartPolicy = ''no'', cp_healthcheck = None\<rparr>"

definition gx_apply :: "devent list \<Rightarrow> devent list" where
  "gx_apply h = snd (run_state (createPlans gx_runtime KindRun ''team'' ''job'' [gx_plan]) h)"

lemma gx_docker_ok: "docker_ok gx_docker"
proof -
  have list: "dk_list gx_docker h managed_filter = Inr (filter (\<lambda>c. sget (cn_labels c) LabelManaged = ''true'') (gx_list h))" for h
    by (simp add: gx_docker_def managed_filter_def)
  have alive: "listed_alive (filter (\<lambda>c. sget (cn_labels c) LabelManaged = ''true'') (gx_list h)) i labels \<longleftrightarrow>
      (i, labels) \<in> set (created h) \<and> DRemove i None \<notin> set h \<and> sget labels LabelManaged = ''true''" for h i labels
    by (force simp: listed_alive_def gx_list_def gpuAlive_def)
  have mem: "(cn_id c, cn_labels c) \<in> set (created h)" if "c \<in> set (gx_list h)" for c h using that by (auto simp: gx_list_def)
  show ?thesis unfolding docker_ok_def list by (auto simp: alive mem)
qed

lemma gx_history: "gpu_history gx_runtime (gx_apply (gx_apply []))"
proof -
  have "gpu_history gx_runtime (gx_apply h)" if "gpu_history gx_runtime h" for h
    using gpu_history.create [OF that, of "[gx_plan]" KindRun "''team''" "''job''" "fst (run_state (createPlans gx_runtime KindRun ''team'' ''job'' [gx_plan]) h)"]
    by (simp add: gx_apply_def unassigned_def gx_plan_def sget_def)
  then show ?thesis by (simp add: gpu_history.start)
qed


end
