(* ===== verification/DockerProps.thy ===== *)
theory DockerProps
  imports DockerGPU
begin

text \<open>
  What the standalone runtime promises the compute service: an apply that is refused for want of cards has created nothing,
  a second apply of the same run changes nothing, and a workload sees of the host only what was registered for it. The
  last section shows a defect of the retry after a name conflict.
\<close>

section \<open>Applying keeps to the allocator\<close>

text \<open>A program that leads from one history of the host to another.\<close>

definition keeps :: "'q druntime \<Rightarrow> 'a dprog \<Rightarrow> bool" where
  "keeps r m \<longleftrightarrow> (\<forall>h. gpu_history r h \<longrightarrow> gpu_history r (snd (run_state m h)))"

lemma history_quiet: "gpu_history r h \<Longrightarrow> list_all (\<lambda>e. created_of e = []) es \<Longrightarrow> gpu_history r (es @ h)"
  by (induction es) (auto intro: gpu_history.other)

lemma keeps_quiet: "quiet m \<Longrightarrow> keeps r m"
  unfolding keeps_def only_def runs_def by (metis history_quiet snd_conv)

lemma keeps_bind: "keeps r m \<Longrightarrow> (\<And>x. keeps r (f x)) \<Longrightarrow> keeps r (m \<bind> f)"
  unfolding keeps_def by (simp add: split_def)

lemma keeps_ret: "keeps r (ret x)"
  by (intro keeps_quiet only_ret)

lemma keeps_record: "keeps r (record_event dk kind ns name inst reason message)"
  by (intro keeps_quiet only_rules) simp

lemma keeps_guard: "keeps r m \<Longrightarrow> keeps r body \<Longrightarrow> keeps r (guard m fail body)"
  unfolding guard_def by (rule keeps_bind) (auto split: option.split intro: keeps_quiet only_ret)

text \<open>The value a program returns, with the events that led to it, may be used in what follows.\<close>

lemma keeps_guard_val:
  assumes "quiet m" "runs m P" "\<And>v es. P (Inr v) es \<Longrightarrow> keeps r (body v)"
  shows "keeps r (guard_val m fail body)"
  unfolding keeps_def
proof (intro allI impI)
  fix h assume h: "gpu_history r h"
  obtain x h' where run: "run_state m h = (x, h')" by (meson surj_pair)
  from runs_outcome [OF runs_conj [OF assms(2) only_runs [OF assms(1)]] run] obtain es where "h' = es @ h" "P x es"
    "list_all (\<lambda>e. created_of e = []) es" by blast
  with history_quiet [OF h] assms(3) have "gpu_history r h'" "x = Inr v \<Longrightarrow> keeps r (body v)" for v by auto
  with run show "gpu_history r (snd (run_state (guard_val m fail body) h))"
    by (cases x) (auto simp: guard_val_def keeps_def)
qed

lemma keeps_createPlans: "list_all unassigned ps \<Longrightarrow> keeps r (createPlans r kind ns name ps)"
  unfolding keeps_def by (metis gpu_history.create prod.collapse)

lemma unassigned_replica: "idLabel \<noteq> LabelGPUDevices \<Longrightarrow> unassigned (replica_plan lib kind cr idLabel role ordinal pullPolicy t env ports mounts restart i)"
  by (simp add: unassigned_def replica_plan_def baseLabels_def sget_def Let_def)

lemma unassigned_run: "renderRunPlans lib cfg run = Inr plans \<Longrightarrow> list_all unassigned plans"
proof -
  have "list_all unassigned ps'" if "render_run_role lib cfg run cms ps role = Inr ps'" "list_all unassigned ps" for cms ps role ps'
    using that by (auto simp: render_run_role_def Let_def list_all_iff unassigned_replica split: if_splits sum.splits)
  then have "rfold (render_run_role lib cfg run cms) ps roles = Inr qs \<Longrightarrow> list_all unassigned ps \<Longrightarrow> list_all unassigned qs" for cms ps roles qs
    by (induction roles arbitrary: ps) (auto split: sum.splits)
  then show "renderRunPlans lib cfg run = Inr plans \<Longrightarrow> ?thesis"
    by (fastforce simp: renderRunPlans_def Let_def split: if_splits sum.splits)
qed

lemma unassigned_service: "renderServicePlans lib cfg svc = Inr plans \<Longrightarrow> list_all unassigned plans"
  by (auto simp: renderServicePlans_def Let_def list_all_iff unassigned_replica split: if_splits sum.splits list.splits)

lemma quiet_calls [only_rules]:
  "quiet (removeContainer dk i)" "quiet (ensureVolume dk name labels)" "quiet (containerList dk f)" "quiet (file_op dk op)"
  "quiet (call (\<lambda>h. val_err (fs_createTemp dk h d)) (FsTemp d))"
  by (auto simp: removeContainer_def ensureVolume_def containerList_def file_op_def intro!: only_rules)

lemma runs_classify:
  "runs (classify dk bySlot ps) (\<lambda>res es. list_all (\<lambda>e. created_of e = []) es \<and> (\<forall>marked. res = Inr marked \<longrightarrow>
     map (\<lambda>m. cp_labels (snd m)) marked = map cp_labels ps))"
proof (induction ps)
  case (Cons p ps)
  have rest: "runs (classify dk bySlot ps \<bind> (\<lambda>r. ret (map_sum id (Cons (b, q)) r)))
      (\<lambda>res es'. list_all (\<lambda>e. created_of e = []) (es' @ es) \<and> (\<forall>marked. res = Inr marked \<longrightarrow> map (\<lambda>m. cp_labels (snd m)) marked = map cp_labels (p # ps)))"
    if "cp_labels q = cp_labels p" "list_all (\<lambda>e. created_of e = []) es" for b q es
    using that by (intro runs_bind [OF Cons.IH]) (auto intro!: runs_ret simp: map_sum_def split: sum.splits)
  have create: "runs (instanceName dk (cp_namePrefix p) (cp_replica p) (cp_stableOrdinal p) \<bind>
        (\<lambda>n. classify dk bySlot ps \<bind> (\<lambda>r. ret (map_sum id (Cons (True, p\<lparr>cp_name := n\<rparr>)) r))))
      (\<lambda>res es'. list_all (\<lambda>e. created_of e = []) (es' @ es) \<and> (\<forall>marked. res = Inr marked \<longrightarrow> map (\<lambda>m. cp_labels (snd m)) marked = map cp_labels (p # ps)))"
    if "list_all (\<lambda>e. created_of e = []) es" for es
  proof (rule runs_bind [OF only_runs [OF only_instanceName [of "\<lambda>e. created_of e = []"]]], goal_cases)
    case (2 n es')
    with rest [of "p\<lparr>cp_name := n\<rparr>" "es' @ es" True] that show ?case by simp
  qed simp
  show ?case
  proof (cases "map_of bySlot (planSlot p)")
    case None
    with create [of "[]"] show ?thesis by simp
  next
    case (Some cur)
    with rest [of "p\<lparr>cp_name := summaryName cur\<rparr>" "[]" False] create show ?thesis
      by (auto simp: Let_def intro!: runs_guard [OF only_runs [OF quiet_calls(1)]])
  qed
qed (auto intro!: runs_ret)

lemma to_create_unassigned: "map (\<lambda>m. cp_labels (snd m)) marked = map cp_labels ps \<Longrightarrow> list_all unassigned ps \<Longrightarrow> list_all unassigned (to_create marked)"
  by (induction marked arbitrary: ps) (auto simp: to_create_def unassigned_def Cons_eq_map_conv map_eq_Cons_conv)

text \<open>The calls of a program that are not container calls: volumes, files, events.\<close>

definition no_container :: "devent \<Rightarrow> bool" where
  "no_container e = (case e of DCreate _ _ _ \<Rightarrow> False | DStart _ _ \<Rightarrow> False | DRemove _ _ \<Rightarrow> False | DStop _ _ \<Rightarrow> False | _ \<Rightarrow> True)"

lemma no_container_simps [simp]:
  "no_container (DList f r)" "no_container (Fs op r2)" "no_container (FsTemp d r3)" "no_container (Recorded ev)" "no_container (Drew n)"
  "no_container (DVolumeCreate n l r4)" "no_container (DInspect i r5)" "no_container (DImage n r4)" "no_container (DPull n l2 r6)"
  by (simp_all add: no_container_def)

lemma no_container_created: "no_container e \<Longrightarrow> created_of e = []"
  by (cases e rule: created_of.cases) (auto simp: no_container_def)

abbreviation aside :: "'a dprog \<Rightarrow> bool" where
  "aside m \<equiv> only no_container m"

lemma aside_quiet: "aside m \<Longrightarrow> quiet m"
  by (erule only_mono) (rule no_container_created)

lemma aside_calls [only_rules]:
  "aside (ensureVolume dk name labels)" "aside (containerList dk f)" "aside (file_op dk op)"
  "aside (call (\<lambda>h. val_err (fs_createTemp dk h d)) (FsTemp d))" "aside (containerInspect dk i)"
  by (auto simp: ensureVolume_def containerList_def file_op_def containerInspect_def intro!: only_rules)

lemma aside_install: "aside (install_file dk dir body mode filename wrapRename)"
  unfolding install_file_def by (intro only_rules allI) (auto intro!: only_rules split: option.split)

lemma aside_projections: "aside (reconcileConfigMapProjections r kind ns name plans)"
proof -
  have "aside (project_dir r kind ns name previous x)" for previous x
    by (cases x) (auto simp: project_dir_def projectionDirMatches_def rewriteProjectionDir_def write_projection_file_def Let_def intro!: only_rules)
  moreover have "aside (drop_projection r kind ns name expected x)" for expected x
    by (cases x) (auto simp: drop_projection_def intro!: only_rules)
  ultimately show ?thesis
    by (auto simp: reconcileConfigMapProjections_def readProjectionManifest_def writeProjectionManifest_def Let_def intro!: only_rules aside_install)
qed

lemma aside_ensure_volumes: "aside (ensure_volumes dk kind ns name plans)"
  by (auto simp: ensure_volumes_def intro!: only_rules)

lemma aside_listContainers: "aside (listContainers dk kind ns name)"
  by (simp add: listContainers_def only_rules)

lemma aside_images: "aside (try_each (ensure_plan_image r kind ns name) ps)"
  by (auto simp: ensure_plan_image_def ensureImage_def pullImage_def imageInspect_def Let_def intro!: only_rules)

lemma aside_assign: "aside (assignGPUsLocked r ps)"
proof -
  have "aside (scan_busy dk cs busy untracked)" for dk cs busy untracked
    by (induction cs arbitrary: busy untracked) (auto simp: legacyGPUCount_def intro!: only_rules)
  then show ?thesis unfolding assignGPUsLocked_def busyGPUDevices_def by (auto intro!: only_rules)
qed

lemma aside_route: "aside (applyServiceRoute r g svc plans)"
  by (auto simp: applyServiceRoute_def deleteServiceRoute_def remove_file_def writeGatewayFile_def Let_def split: option.split sum.split
      intro!: only_rules aside_install)

text \<open>Applying a run or a service leads from one history to another, so \<open>gpu_no_double_booking\<close> covers it.\<close>

lemma keeps_finish: "keeps r (finish_service r g desired existing plans)"
  unfolding finish_service_def remove_surplus_def Let_def
  by (intro keeps_quiet only_rules aside_quiet [OF aside_route]) auto

lemma keeps_apply:
  assumes "list_all unassigned plans" "\<And>existing b ps. keeps r (rest existing b ps)"
  shows "keeps r (apply_plans r kind ns name plans rest)"
proof -
  have created: "keeps r (if to_create marked = [] then rest existing False (map snd marked)
      else do { (e, created) \<leftarrow> createPlans r kind ns name (to_create marked);
        case e of Some err \<Rightarrow> ret (Some err) | None \<Rightarrow> rest existing True (merge_created marked created) })"
    if "map (\<lambda>m. cp_labels (snd m)) marked = map cp_labels plans" for marked existing
    using assms(2) keeps_createPlans [OF to_create_unassigned [OF that assms(1)]]
    by (auto intro!: keeps_bind keeps_ret split: prod.split option.split)
  have "runs m (\<lambda>res es. list_all (\<lambda>e. created_of e = []) es \<and> P res) \<Longrightarrow> quiet m" for m :: "'x dprog" and P
    unfolding only_def by (erule runs_mono) simp
  from this [OF runs_classify] have q: "quiet (classify dk bySlot plans)" for dk bySlot .
  show ?thesis unfolding apply_plans_def Let_def
    by (rule keeps_guard [OF keeps_quiet [OF aside_quiet [OF aside_projections]]],
        rule keeps_guard_val [OF aside_quiet [OF aside_listContainers] only_runs [OF aside_listContainers]],
        rule keeps_guard [OF keeps_quiet [OF aside_quiet [OF aside_ensure_volumes]]],
        rule keeps_guard_val [OF q runs_classify], rule created, simp)
qed

lemma keeps_ApplyMLRun: "keeps r (dk_ApplyMLRun r desired)"
  by (auto simp: dk_ApplyMLRun_def Let_def split: sum.split intro!: keeps_apply unassigned_run keeps_bind keeps_ret keeps_record)

lemma keeps_ApplyMLService: "keeps r (dk_ApplyMLService r g desired)"
  by (auto simp: dk_ApplyMLService_def split: sum.split intro!: keeps_apply unassigned_service keeps_finish keeps_ret)

section \<open>Refusals\<close>

definition refused :: "derr option \<Rightarrow> bool" where
  "refused res \<longleftrightarrow> (\<exists>e. res = Some e \<and> de_kind e = ResourceUnavailable)"

definition is_create :: "devent \<Rightarrow> bool" where
  "is_create e = (case e of DCreate _ _ _ \<Rightarrow> True | _ \<Rightarrow> False)"

lemma no_container_create: "no_container e \<Longrightarrow> \<not> is_create e"
  by (cases e) (auto simp: is_create_def no_container_def)

lemma engine_kind [simp]: "de_kind (engine_error e) \<noteq> ResourceUnavailable" "de_kind (dwrap pre d) = de_kind d" "de_kind (derror k m) = k"
  by (cases e; simp add: derror_def) (simp_all add: dwrap_def derror_def)

text \<open>A program that creates containers is not refused.\<close>

definition sound_refusal :: "derr option \<Rightarrow> devent list \<Rightarrow> bool" where
  "sound_refusal res es \<longleftrightarrow> refused res \<longrightarrow> list_all (\<lambda>e. \<not> is_create e) es"

lemma runs_call_from: "(\<And>h. runs (g (f h)) (\<lambda>y es. Q y (es @ [ev (f h)]))) \<Longrightarrow> runs (call f ev \<bind> g) Q"
  by (rule runs_bind [where P = "\<lambda>x es. \<exists>h. x = f h \<and> es = [ev (f h)]"]) (auto simp: runs_def call_def)

lemma runs_instanceName: "(\<And>n. runs (g n) Q) \<Longrightarrow> (\<And>y es e. Q y es \<Longrightarrow> Q y (es @ [e])) \<Longrightarrow> runs (instanceName dk base i b \<bind> g) Q"
  unfolding instanceName_def by (auto intro!: runs_call_bind runs_mono [where Q = "\<lambda>y es. Q y (es @ _)"])

lemma create_attempts_kind:
  assumes "de_kind err \<noteq> ResourceUnavailable"
  shows "runs (create_attempts dk req n p err) (\<lambda>x es. \<forall>e. fst x = Inl e \<longrightarrow> de_kind e \<noteq> ResourceUnavailable)"
  using assms
proof (induction n arbitrary: p err)
  case (Suc n)
  show ?case unfolding create_attempts.simps
  proof (rule runs_call_from, goal_cases)
    case (1 h)
    then show ?case by (cases "dk_create dk h (cp_name p) req") (auto intro!: runs_rules runs_instanceName Suc.IH)
  qed
qed (auto intro!: runs_ret)

lemma createAndStart_kind: "runs (createAndStart r p) (\<lambda>x es. \<not> refused (fst x))"
  unfolding createAndStart_def
proof (rule runs_bind [OF create_attempts_kind], goal_cases)
  case (2 x es)
  then show ?case by (cases x; cases "fst x") (auto simp: refused_def intro!: runs_ret runs_call_from runs_option)
qed simp

lemma create_each_kind: "runs (create_each r kind ns name ps) (\<lambda>x es. \<not> refused (fst x))"
proof (induction ps)
  case (Cons p ps)
  show ?case unfolding create_each.simps
  proof (rule runs_bind [OF createAndStart_kind], goal_cases)
    case (1 x es)
    have rest: "runs (create_each r kind ns name ps \<bind> (\<lambda>(e, qs). ret (e, q # qs))) (\<lambda>x es. \<not> refused (fst x))" for q
      by (rule runs_bind [OF Cons.IH]) (auto intro!: runs_ret)
    obtain e q where "x = (e, q)" by (cases x)
    with 1 rest show ?case by (cases e) (auto simp: record_event_def intro!: runs_rules)
  qed
qed (auto intro!: runs_ret simp: refused_def)

text \<open>No part of an apply is refused after a creation.\<close>

lemma sound_aside: "aside m \<Longrightarrow> runs m sound_refusal"
  by (drule only_runs, erule runs_mono) (auto simp: sound_refusal_def list_all_iff dest: no_container_create)

lemma quiet_refusal: "list_all no_container es \<Longrightarrow> sound_refusal e es"
  by (auto simp: sound_refusal_def list_all_iff dest: no_container_create)

lemma createPlans_refusal: "runs (createPlans r kind ns name ps) (\<lambda>x es. sound_refusal (fst x) es)"
proof -
  have sure: "runs (create_each r kind ns name qs) (\<lambda>x es'. sound_refusal (fst x) (es' @ es))" for qs es
    by (rule runs_mono [OF create_each_kind]) (auto simp: sound_refusal_def)
  show ?thesis unfolding createPlans_def
  proof (rule runs_guard [OF only_runs [OF aside_images]], goal_cases)
    case (1 e es)
    then show ?case by (simp add: quiet_refusal)
  next
    case (2 es)
    show ?case
    proof (rule runs_if, goal_cases)
      case 1
      show ?case
      proof (rule runs_guard_val [OF only_runs [OF aside_assign]], goal_cases)
        case (1 e es')
        with 2 show ?case by (simp add: quiet_refusal)
      next
        case (2 qs es')
        show ?case using sure [of qs "es' @ es"] by simp
      qed
    next
      case 2
      show ?case using sure [of ps es] by simp
    qed
  qed
qed

text \<open>What follows an apply without being refused may follow anything.\<close>

lemma refusal_after:
  assumes "runs m (\<lambda>res es. \<not> refused res)"
  shows "runs m (\<lambda>res es'. sound_refusal res (es' @ es))"
  by (rule runs_mono [OF assms]) (simp add: sound_refusal_def)

lemma classify_no_create: "runs (classify dk bySlot ps) (\<lambda>res es. list_all (\<lambda>e. \<not> is_create e) es)"
proof -
  have calls: "only (\<lambda>e. \<not> is_create e) (removeContainer dk i)" for i
    by (auto simp: removeContainer_def is_create_def intro!: only_rules)
  have drew: "\<not> is_create (Drew n)" for n by (simp add: is_create_def)
  have "only (\<lambda>e. \<not> is_create e) (classify dk bySlot ps)"
    by (induction ps) (auto simp: Let_def drew intro!: only_rules calls split: option.split)
  then show ?thesis by (rule only_runs)
qed

lemma apply_plans_refusal:
  assumes "\<And>existing b qs. runs (rest existing b qs) (\<lambda>res es. \<not> refused res)"
  shows "runs (apply_plans r kind ns name plans rest) sound_refusal"
proof -
  have fresh: "list_all no_container es \<Longrightarrow> list_all (\<lambda>e. \<not> is_create e) es" for es
    by (auto simp: list_all_iff dest: no_container_create)
  have body: "runs (if to_create marked = [] then rest existing False (map snd marked)
      else do { (e, created) \<leftarrow> createPlans r kind ns name (to_create marked);
        case e of Some err \<Rightarrow> ret (Some err) | None \<Rightarrow> rest existing True (merge_created marked created) })
      (\<lambda>res es'. sound_refusal res (es' @ es))" if "list_all (\<lambda>e. \<not> is_create e) es" for marked existing es
  proof (rule runs_if, goal_cases)
    case 1
    show ?case by (rule refusal_after [OF assms])
  next
    case 2
    show ?case
    proof (rule runs_bind [OF createPlans_refusal], goal_cases)
      case (1 x es')
      obtain e created where x: "x = (e, created)" by (cases x)
      with 1 that show ?case
        by (cases e) (auto simp: sound_refusal_def intro!: runs_ret runs_mono [OF assms])
    qed
  qed
  show ?thesis unfolding apply_plans_def Let_def
  proof (rule runs_guard [OF only_runs [OF aside_projections]], goal_cases)
    case (2 es1)
    then show ?case
    proof (intro runs_guard_val [OF only_runs [OF aside_listContainers]], goal_cases)
      case (2 existing es2)
      then show ?case
      proof (intro runs_guard [OF only_runs [OF aside_ensure_volumes]], goal_cases)
        case (2 es3)
        then have q: "list_all (\<lambda>e. \<not> is_create e) (es3 @ es2 @ es1)" using fresh by simp
        show ?case
        proof (rule runs_guard_val [OF classify_no_create], goal_cases)
          case (1 e es4)
          with q show ?case by (simp add: sound_refusal_def)
        next
          case (2 marked es4)
          with q body [of "es4 @ es3 @ es2 @ es1"] show ?case by simp
        qed
      qed (simp add: quiet_refusal)
    qed (simp add: quiet_refusal)
  qed (simp add: quiet_refusal)
qed

text \<open>Programs whose errors are those of the engine, of the file system or of a capability.\<close>

abbreviation plain :: "derr option dprog \<Rightarrow> bool" where
  "plain m \<equiv> runs m (\<lambda>res es. \<not> refused res)"

lemma plain_call: "(\<And>h. \<not> refused (f h)) \<Longrightarrow> plain (call f ev)"
  by (simp add: runs_def call_def)

lemma plain_ret: "\<not> refused x \<Longrightarrow> plain (ret x)"
  by (rule runs_ret)

lemma refused_simps [simp]: "\<not> refused None" "refused (Some e) \<longleftrightarrow> de_kind e = ResourceUnavailable"
  by (simp_all add: refused_def)

lemma plain_guard:
  assumes "plain m" "plain body" "\<And>e. \<not> refused (Some e) \<Longrightarrow> \<not> refused (fail e)"
  shows "plain (guard m fail body)"
  by (rule runs_guard [OF assms(1)]) (use assms(2,3) in auto)

lemma plain_file_op: "plain (file_op dk op)"
proof -
  have "\<not> refused (opt_err x)" for x by (cases x) auto
  then show ?thesis by (auto simp: file_op_def intro!: plain_call)
qed

lemma plain_install: "plain (install_file dk dir body mode filename (dwrap pre))"
proof -
  have inner: "plain (guard (file_op dk (WriteTemp tmp body)) Some (guard (case mode of None \<Rightarrow> ret None | Some m \<Rightarrow> file_op dk (Chmod tmp m)) Some
      (guard (file_op dk (Rename tmp filename)) (\<lambda>e. Some (dwrap pre e)) (ret None))))" for tmp
    by (intro plain_guard plain_file_op plain_ret) (auto intro: plain_ret plain_file_op split: option.split)
  show ?thesis unfolding install_file_def guard_val_def
  proof (rule runs_call_from, goal_cases)
    case (1 h)
    show ?case
    proof (cases "fs_createTemp dk h dir")
      case (Inr tmp)
      have "plain (guard (file_op dk (WriteTemp tmp body)) Some (guard (case mode of None \<Rightarrow> ret None | Some m \<Rightarrow> file_op dk (Chmod tmp m)) Some
          (guard (file_op dk (Rename tmp filename)) (\<lambda>e. Some (dwrap pre e)) (ret None))) \<bind> (\<lambda>e. file_op dk (RemoveFile tmp) \<bind> (\<lambda>_. ret e)))"
        by (rule runs_bind [OF inner]) (auto simp: file_op_def intro!: runs_call_bind runs_ret)
      with Inr show ?thesis by simp
    qed (simp add: plain_ret)
  qed
qed

lemma plain_remove_file: "plain (remove_file dk path)"
  unfolding remove_file_def by (rule runs_bind [OF plain_file_op]) (auto intro!: runs_ret split: option.split)

lemma plain_marshal: "marshalGatewayResources g xs = Inl e \<Longrightarrow> de_kind e \<noteq> ResourceUnavailable"
proof -
  have "marshal_documents g ys = Inl d \<Longrightarrow> de_kind d \<noteq> ResourceUnavailable" for ys d
    by (induction ys arbitrary: d) (auto simp: map_sum_def split: sum.splits)
  then show "marshalGatewayResources g xs = Inl e \<Longrightarrow> ?thesis" by (auto simp: marshalGatewayResources_def map_sum_def split: sum.splits)
qed

lemma plain_route: "plain (applyServiceRoute r g svc plans)"
  unfolding applyServiceRoute_def deleteServiceRoute_def writeGatewayFile_def Let_def
  by (auto intro!: plain_remove_file plain_ret plain_guard plain_file_op plain_install
      simp: capabilityError_def plain_marshal split: option.split sum.split)

lemma plain_remove: "plain (removeContainer dk i)"
proof -
  have "\<not> refused (case opt_err x of None \<Rightarrow> None | Some e \<Rightarrow> if is_kind DkNotFound e then None else Some e)" for x by (cases x) auto
  then show ?thesis unfolding removeContainer_def by (intro runs_call_from runs_ret) simp
qed

lemma plain_try_each: "(\<And>x. plain (step x)) \<Longrightarrow> plain (try_each step xs)"
proof (induction xs)
  case (Cons x xs)
  show ?case unfolding try_each.simps
  proof (rule runs_bind [OF Cons.prems], goal_cases)
    case (1 e es)
    then show ?case using Cons by (cases e) (auto intro!: plain_ret)
  qed
qed (auto intro!: plain_ret)

lemma plain_finish: "plain (finish_service r g desired existing plans)"
proof -
  have "plain (record_event dk kind ns name inst reason msg \<bind> (\<lambda>_. ret x))" if "\<not> refused x" for dk kind ns name inst reason msg x
    using that by (auto simp: record_event_def intro!: runs_rules)
  then show ?thesis unfolding finish_service_def remove_surplus_def Let_def
    by (intro plain_guard plain_try_each runs_if plain_ret plain_remove runs_bind [OF plain_route] runs_option) auto
qed

lemma ApplyMLRun_sound: "runs (dk_ApplyMLRun r run) sound_refusal"
proof -
  have "plain (record_event dk kind ns name inst reason msg \<bind> (\<lambda>_. ret None))" for dk kind ns name inst reason msg
    by (auto simp: record_event_def intro!: runs_rules)
  then show ?thesis unfolding dk_ApplyMLRun_def Let_def
    by (auto intro!: apply_plans_refusal runs_if plain_ret intro: runs_ret simp: sound_refusal_def split: sum.split)
qed

lemma ApplyMLService_sound: "runs (dk_ApplyMLService r g svc) sound_refusal"
  unfolding dk_ApplyMLService_def
  by (auto intro!: apply_plans_refusal plain_finish intro: runs_ret simp: sound_refusal_def split: sum.split)

text \<open>
  C18. An apply that is refused because no card is free has not created anything: the compute service, which then puts the
  workload back into its queue, leaves nothing behind on the host. No call of the apply asked Docker for a container.
\<close>

theorem docker_unavailable_atomic:
  assumes "run_state (dk_ApplyMLRun r run) h = (Some e, es @ h) \<or> run_state (dk_ApplyMLService r g svc) h = (Some e, es @ h)"
    "de_kind e = ResourceUnavailable"
  shows "\<not> (\<exists>n req x. DCreate n req x \<in> set es)"
proof -
  from assms(1) have "sound_refusal (Some e) es" by (auto dest: runs_result [OF ApplyMLRun_sound] runs_result [OF ApplyMLService_sound])
  with assms(2) show ?thesis by (auto simp: sound_refusal_def list_all_iff is_create_def)
qed

definition gx_template :: "int \<Rightarrow> int PodTemplate" where
  "gx_template gpus = (template_of ''img'' [])\<lparr>pt_imagePullPolicy := ''Never'', pt_limits := [(''nvidia.com/gpu'', gpus)]\<rparr>"

definition gx_run :: "int \<Rightarrow> int MLRunSpec cr" where
  "gx_run gpus = \<lparr>cr_name = ''job'', cr_namespace = ''team'', cr_labels = [], cr_annotations = [],
     cr_spec = \<lparr>rs_backend = \<lparr>be_name = ''native'', be_engine = ''job'', be_config = None\<rparr>,
       rs_scheduling = \<lparr>sch_quota = [], sch_priorityClass = [], sch_nodeSelector = [], sch_tolerations = []\<rparr>, rs_configMaps = [],
       rs_roles = [\<lparr>role_name = ''worker'', role_replicas = 1, role_restartPolicy = [], role_template = gx_template gpus\<rparr>],
       rs_runPolicy = \<lparr>rp_suspend = False, rp_activeDeadlineSeconds = None, rp_ttlSecondsAfterFinished = None, rp_backoffLimit = None\<rparr>\<rparr>\<rparr>"

definition gx_run_plan :: "int \<Rightarrow> ContainerPlan" where
  "gx_run_plan gpus = replica_plan gx_lib KindRun (gx_run gpus) LabelRunID ''worker'' False ''Never'' (gx_template gpus) [] [] [] ''no'' 0"

lemma gx_run_plan_parts [simp]:
  "cp_mounts (gx_run_plan gpus) = []" "rep_gpuCount (cp_resources (gx_run_plan gpus)) = gpus" "cp_image (gx_run_plan gpus) = ''img''"
  "cp_imagePullPolicy (gx_run_plan gpus) = ''Never''"
  by (simp_all add: gx_run_plan_def replica_plan_def resourcePlan_def gx_template_def gx_lib_def Let_def)

lemma gx_run_parts [simp]:
  "cr_name (gx_run gpus) = ''job''" "cr_namespace (gx_run gpus) = ''team''" "rs_configMaps (cr_spec (gx_run gpus)) = []"
  "rs_backend (cr_spec (gx_run gpus)) = \<lparr>be_name = ''native'', be_engine = ''job'', be_config = None\<rparr>"
  "rs_roles (cr_spec (gx_run gpus)) = [\<lparr>role_name = ''worker'', role_replicas = 1, role_restartPolicy = [], role_template = gx_template gpus\<rparr>]"
  by (simp_all add: gx_run_def)

lemma gx_template_parts [simp]:
  "pt_image (gx_template gpus) = ''img''" "pt_imagePullPolicy (gx_template gpus) = ''Never''" "pt_env (gx_template gpus) = []"
  "pt_envFrom (gx_template gpus) = []" "pt_volumes (gx_template gpus) = []" "pt_volumeMounts (gx_template gpus) = []"
  by (simp_all add: gx_template_def template_of_def)

lemma gx_render: "renderRunPlans gx_lib cfg (gx_run gpus) = Inr [gx_run_plan gpus]"
proof -
  have "render_run_role gx_lib cfg (gx_run gpus) [] [] \<lparr>role_name = ''worker'', role_replicas = 1, role_restartPolicy = [], role_template = gx_template gpus\<rparr> =
      Inr [gx_run_plan gpus]"
    by (simp add: render_run_role_def gx_run_plan_def resolveEnv_def volumeMounts_def resolveImagePullPolicy_def Let_def)
  then show ?thesis by (simp add: renderRunPlans_def newConfigMapSet_def Let_def)
qed

lemma gx_dir: "configMapWorkloadDir (dr_cfg gx_runtime) KindRun ''team'' ''job'' = Inr ''/cm/run/team/job''"
  by code_simp

lemma gx_refused:
  "\<exists>e es. run_state (dk_ApplyMLRun gx_runtime (gx_run 3)) [] = (Some e, es @ []) \<and> de_kind e = ResourceUnavailable"
proof -
  have parts: "dr_lib gx_runtime = gx_lib" "dr_docker gx_runtime = gx_docker" "dr_schedulable gx_runtime = [0, 1]" by (simp_all add: gx_runtime_def)
  show ?thesis
    by (simp add: dk_ApplyMLRun_def Let_def gx_render parts apply_plans_def reconcileConfigMapProjections_def gx_dir guard_def guard_val_def
        file_op_def call_def listContainers_def containerList_def ensure_volumes_def createPlans_def ensure_plan_image_def ensureImage_def
        imageInspect_def assignGPUsLocked_def busyGPUDevices_def computeAssignment_def gx_docker_def gx_list_def indexBySlot_def instanceName_def
        to_create_def)
qed

theorem docker_unavailable_atomic_witness:
  "\<exists>e es. run_state (dk_ApplyMLRun gx_runtime (gx_run 3)) [] = (Some e, es @ []) \<and> \<not> (\<exists>n req x. DCreate n req x \<in> set es)"
proof -
  from gx_refused obtain e es where "run_state (dk_ApplyMLRun gx_runtime (gx_run 3)) [] = (Some e, es @ [])" "de_kind e = ResourceUnavailable" by blast
  with docker_unavailable_atomic [of gx_runtime "gx_run 3" "[]" e es] show ?thesis by blast
qed

section \<open>Applying again\<close>

text \<open>Runs of a step and what follows it.\<close>

lemma guard_run:
  assumes "aside m" "run_state (guard m fail body) h = (x, h')"
  obtains es e where "list_all no_container es" "x = fail e" "h' = es @ h"
  | es where "list_all no_container es" "run_state body (es @ h) = (x, h')"
proof -
  obtain res h1 where run: "run_state m h = (res, h1)" by (meson surj_pair)
  from runs_outcome [OF only_runs [OF assms(1)] run] obtain es where "h1 = es @ h" "list_all no_container es" .
  with assms(2) run that show thesis by (cases res) (auto simp: guard_def)
qed

lemma list_run:
  assumes "run_state (guard_val (listContainers dk kind ns name) Some body) h = (x, h')" "dk_list dk h (managedFilter kind ns name) = Inr cs"
  shows "run_state (body cs) (DList (managedFilter kind ns name) (Inr cs) # h) = (x, h')"
  using assms by (simp add: guard_val_def listContainers_def containerList_def call_def)

text \<open>The labels that decide whether a container is the one a plan asks for.\<close>

definition same_instance :: "ContainerPlan \<Rightarrow> (string, string) gomap \<Rightarrow> bool" where
  "same_instance p labels \<longleftrightarrow> sget labels LabelDockerRole = sget (cp_labels p) LabelDockerRole \<and>
     sget labels LabelReplicaIndex = sget (cp_labels p) LabelReplicaIndex \<and> sget labels LabelSpecHash = sget (cp_labels p) LabelSpecHash"

lemma same_instance_pin: "same_instance p (cp_labels (pin_devices p devs))"
  by (simp add: same_instance_def pin_devices_def sget_def Let_def)

lemma create_attempts_done:
  "runs (create_attempts dk req n p err) (\<lambda>x es. \<forall>i. fst x = Inr i \<longrightarrow> created es = [(i, cq_labels req)])"
  by (rule runs_mono [OF runs_create_attempts]) auto

lemma createAndStart_done: "runs (createAndStart r p) (\<lambda>x es. fst x = None \<longrightarrow> map snd (created es) = [cp_labels p])"
  by (rule runs_mono [OF runs_createAndStart]) auto

lemma create_each_done: "runs (create_each r kind ns name ps) (\<lambda>x es. fst x = None \<longrightarrow> map snd (created es) = map cp_labels ps)"
proof (induction ps)
  case (Cons p ps)
  show ?case unfolding create_each.simps
  proof (rule runs_bind [OF createAndStart_done], goal_cases)
    case (1 x es)
    obtain e q where x: "x = (e, q)" by (cases x)
    show ?case
    proof (cases e)
      case None
      with 1 x have "runs (create_each r kind ns name ps \<bind> (\<lambda>(e, qs). ret (e, q # qs)))
          (\<lambda>y es'. fst y = None \<longrightarrow> map snd (created (es' @ es)) = map cp_labels (p # ps))"
        by (intro runs_bind [OF Cons.IH]) (auto intro!: runs_ret)
      with None x show ?thesis by simp
    qed (use x in \<open>auto simp: record_event_def intro!: runs_rules\<close>)
  qed
qed (auto intro!: runs_ret)

lemma createPlans_done:
  "runs (createPlans r kind ns name ps) (\<lambda>x es. fst x = None \<longrightarrow> list_all2 same_instance ps (map snd (created es)))"
proof -
  have ids: "list_all2 same_instance ps (map cp_labels ps)" by (simp add: list_all2_conv_all_nth same_instance_def)
  have pins: "list_all2 same_instance ps (map cp_labels qs)"
    if "runs_assign" "qs = map (\<lambda>(p, devs). pin_devices p devs) (zip ps assign)" "length assign = length ps" for qs assign runs_assign
    using that(2,3) by (simp add: list_all2_conv_all_nth same_instance_pin)
  have quiet: "list_all no_container es \<Longrightarrow> created es = []" for es
    by (rule created_quiet) (auto simp: list_all_iff dest: no_container_created)
  have assign: "runs (assignGPUsLocked r ps) (\<lambda>x es. list_all no_container es \<and> (\<forall>qs. x = Inr qs \<longrightarrow> list_all2 same_instance ps (map cp_labels qs)))"
  proof (rule runs_conj [OF only_runs [OF aside_assign]], unfold runs_def, intro allI, goal_cases)
    case (1 h)
    obtain x h' where run: "run_state (assignGPUsLocked r ps) h = (x, h')" by (meson surj_pair)
    from runs_outcome [OF only_runs [OF aside_assign] run] obtain es where es: "h' = es @ h" .
    have "list_all2 same_instance ps (map cp_labels qs)" if x: "x = Inr qs" for qs
    proof -
      obtain busy untracked assign where a: "computeAssignment (dr_schedulable r) busy untracked (map (\<lambda>p. rep_gpuCount (cp_resources p)) ps) = Inr assign"
        "qs = map (\<lambda>(p, devs). pin_devices p devs) (zip ps assign)" by (rule assign_run [OF run [unfolded x]])
      have "length assign = length ps" using a(1) hand_out_parts(1) by (fastforce simp: computeAssignment_def Let_def split: if_splits)
      with pins [OF TrueI a(2)] show ?thesis by simp
    qed
    with run es show ?case by auto
  qed
  show ?thesis unfolding createPlans_def
  proof (rule runs_guard [OF only_runs [OF aside_images]], goal_cases)
    case (2 es)
    show ?case
    proof (rule runs_if, goal_cases)
      case 1
      show ?case
      proof (rule runs_guard_val [OF assign], goal_cases)
        case (2 qs es')
        with \<open>list_all no_container es\<close> quiet show ?case by (intro runs_mono [OF create_each_done]) auto
      qed simp
    next
      case 2
      with \<open>list_all no_container es\<close> quiet ids show ?case by (intro runs_mono [OF create_each_done]) auto
    qed
  qed simp
qed


text \<open>Where nothing exists, everything is created; where every plan has its container, nothing is.\<close>

lemma classify_empty: "runs (classify dk [] ps) (\<lambda>res es. \<forall>marked. res = Inr marked \<longrightarrow> list_all fst marked)"
proof (induction ps)
  case (Cons p ps)
  have "runs (classify dk [] ps \<bind> (\<lambda>r. ret (map_sum id (Cons (True, q)) r))) (\<lambda>res es. \<forall>marked. res = Inr marked \<longrightarrow> list_all fst marked)" for q
    by (rule runs_bind [OF Cons.IH]) (auto intro!: runs_ret simp: map_sum_def split: sum.splits)
  then show ?case by (simp add: runs_instanceName)
qed (auto intro!: runs_ret)

lemma classify_all:
  "(\<And>p. p \<in> set ps \<Longrightarrow> \<exists>c. map_of bySlot (planSlot p) = Some c \<and> sget (cn_labels c) LabelSpecHash = sget (cp_labels p) LabelSpecHash) \<Longrightarrow>
   \<exists>marked. classify dk bySlot ps = ret (Inr marked) \<and> list_all (\<lambda>m. \<not> fst m) marked"
proof (induction ps)
  case (Cons p ps)
  from Cons.IH Cons.prems obtain marked where "classify dk bySlot ps = ret (Inr marked)" "list_all (\<lambda>m. \<not> fst m) marked" by auto
  moreover from Cons.prems [of p] obtain c where "map_of bySlot (planSlot p) = Some c" "sget (cn_labels c) LabelSpecHash = sget (cp_labels p) LabelSpecHash" by auto
  ultimately show ?case by (auto simp: Let_def)
qed auto

lemma indexBySlot_found:
  "(\<forall>c. map_of (indexBySlot cs) s = Some c \<longrightarrow> c \<in> set cs \<and> containerSlot c = s) \<and> (map_of (indexBySlot cs) s = None \<longrightarrow> s \<notin> containerSlot ` set cs)"
proof (induction cs rule: rev_induct)
  case (snoc c cs)
  have "indexBySlot (cs @ [c]) = AList.update (containerSlot c) c (indexBySlot cs)" by (simp add: indexBySlot_def)
  with snoc show ?case by (cases "s = containerSlot c") (simp_all add: update_conv')
qed (simp add: indexBySlot_def)

text \<open>The slots of the plans of a run are told apart by the names of the roles and the indices of the replicas.\<close>

lemma slash_split: "CHR ''/'' \<notin> set b \<Longrightarrow> CHR ''/'' \<notin> set d \<Longrightarrow> (a @ ''/'' @ b = c @ ''/'' @ d) = (a = c \<and> b = d)"
  by (auto simp: append_eq_append_conv2 Cons_eq_append_conv append_eq_Cons_conv)

lemma show_nat_slash: "CHR ''/'' \<notin> set (show_nat n)"
proof
  assume "CHR ''/'' \<in> set (show_nat n)"
  then obtain d :: nat where "d < 10" "CHR ''/'' = char_of (d + 48)" using show_nat_digits by blast
  then have "of_char (CHR ''/'') = d + 48" by simp
  then show False by simp
qed

lemma replica_slot: "planSlot (replica_plan lib KindRun cr LabelRunID role ordinal pullPolicy t env ports mounts restart i) = role @ ''/'' @ show_nat i"
  by (simp add: planSlot_def replica_plan_def sget_def Let_def)

lemma run_role_slots:
  assumes "render_run_role lib cfg run cms ps role = Inr ps'"
  shows "map planSlot ps' = map planSlot ps @ map (\<lambda>i. role_name role @ ''/'' @ show_nat i) [0..<nat (role_replicas role)]"
  using assms by (auto simp: render_run_role_def Let_def replica_slot split: if_splits sum.splits)

lemma run_slots:
  "rfold (render_run_role lib cfg run cms) ps roles = Inr qs \<Longrightarrow>
   map planSlot qs = map planSlot ps @ concat (map (\<lambda>role. map (\<lambda>i. role_name role @ ''/'' @ show_nat i) [0..<nat (role_replicas role)]) roles)"
  by (induction roles arbitrary: ps) (auto simp: run_role_slots split: sum.splits)

lemma run_slots_distinct:
  assumes "renderRunPlans lib cfg run = Inr plans" "distinct (map role_name (rs_roles (cr_spec run)))"
  shows "distinct (map planSlot plans)"
proof -
  have inj: "(show_nat i = show_nat j) = (i = j)" for i j by (metis option.inject parse_show_nat of_nat_eq_iff)
  have eq: "(a @ ''/'' @ show_nat i = b @ ''/'' @ show_nat j) = (a = b \<and> i = j)" for a b i j
    by (simp only: slash_split [OF show_nat_slash show_nat_slash] inj)
  have "distinct (map role_name roles) \<Longrightarrow>
      distinct (concat (map (\<lambda>role. map (\<lambda>i. role_name role @ ''/'' @ show_nat i) [0..<nat (role_replicas role)]) roles))" for roles :: "'a RoleSpec list"
    by (induction roles) (auto simp: distinct_map inj_on_def eq [simplified] inj)
  with assms show ?thesis
    by (auto simp: renderRunPlans_def Let_def dest!: run_slots split: if_splits sum.splits)
qed


text \<open>A first apply, on a host without containers of the run, leaves one container for each plan.\<close>

lemma created_aside: "list_all no_container es \<Longrightarrow> created es = []"
  by (rule created_quiet) (auto simp: list_all_iff dest: no_container_created)

lemma to_create_all: "list_all fst marked \<Longrightarrow> to_create marked = map snd marked"
  by (induction marked) (auto simp: to_create_def)

lemma to_create_none: "list_all (\<lambda>m. \<not> fst m) marked \<Longrightarrow> to_create marked = []"
  by (induction marked) (auto simp: to_create_def)

lemma same_instance_labels: "map cp_labels ps = map cp_labels qs \<Longrightarrow> list_all2 same_instance ps ls = list_all2 same_instance qs ls"
proof -
  assume eq: "map cp_labels ps = map cp_labels qs"
  have "list_all2 same_instance xs ls = list_all2 (\<lambda>a. same_instance (undefined\<lparr>cp_labels := a\<rparr>)) (map cp_labels xs) ls" for xs :: "ContainerPlan list"
    by (simp add: list_all2_map1 same_instance_def list_all2_conv_all_nth)
  with eq show ?thesis by metis
qed

lemma apply_creates_all:
  assumes "\<And>existing b ps. aside (rest existing b ps)"
  shows "runs (guard (ensure_volumes dk kind ns name plans) Some (guard_val (classify dk [] plans) Some (\<lambda>marked.
      if to_create marked = [] then rest existing False (map snd marked)
      else do { (e, created) \<leftarrow> createPlans r kind ns name (to_create marked);
        case e of Some err \<Rightarrow> ret (Some err) | None \<Rightarrow> rest existing True (merge_created marked created) })))
    (\<lambda>x es. x = None \<longrightarrow> list_all2 same_instance plans (map snd (created es)))"
proof (rule runs_guard [OF only_runs [OF aside_ensure_volumes]], goal_cases)
  case (2 es)
  show ?case
  proof (rule runs_guard_val [OF runs_conj [OF runs_classify classify_empty]], goal_cases)
    case (2 marked es')
    then have tc: "to_create marked = map snd marked" by (simp add: to_create_all)
    from 2 have lbl: "map cp_labels (map snd marked) = map cp_labels plans" by (simp add: comp_def)
    from 2 have "created es' = []" by (simp add: created_quiet)
    with \<open>list_all no_container es\<close> have none: "created (es' @ es) = []" by (simp add: created_aside)
    have rest: "runs (rest existing b ps) (\<lambda>x es2. x = None \<longrightarrow> list_all2 same_instance plans (map snd (created (es2 @ es1))))"
      if "list_all2 same_instance plans (map snd (created es1))" for b ps es1
      using that by (intro runs_mono [OF only_runs [OF assms]]) (simp add: created_aside)
    show ?case
    proof (cases "marked = []")
      case True
      with lbl have "plans = []" by simp
      with True none rest [of "es' @ es"] show ?thesis by (simp add: to_create_def)
    next
      case False
      have "runs (createPlans r kind ns name (to_create marked) \<bind>
          (\<lambda>x. case x of (e, qs) \<Rightarrow> (case e of Some err \<Rightarrow> ret (Some err) | None \<Rightarrow> rest existing True (merge_created marked qs))))
        (\<lambda>x es2. x = None \<longrightarrow> list_all2 same_instance plans (map snd (created (es2 @ es' @ es))))"
      proof (rule runs_bind [OF createPlans_done], goal_cases)
        case (1 x es2)
        then show ?case
          using rest [of "es2 @ es' @ es"] none lbl
          by (cases x) (auto simp: tc same_instance_labels [OF lbl] intro!: runs_ret split: option.split)
      qed
      with False show ?thesis by (simp add: tc)
    qed
  qed simp
qed simp


text \<open>
  Docker keeps the containers of a run: its list of them has, in some order, the labels given, at \<open>h'\<close> and as long as no container is touched.
\<close>

definition keeps_listing :: "docker \<Rightarrow> (string, string) gomap \<Rightarrow> devent list \<Rightarrow> (string, string) gomap list \<Rightarrow> bool" where
  "keeps_listing dk f h' labels \<longleftrightarrow> (\<forall>g. list_all no_container g \<longrightarrow> (\<exists>cs. dk_list dk (g @ h') f = Inr cs \<and> mset (map cn_labels cs) = mset labels))"

lemma settled_slots:
  assumes "list_all2 same_instance plans labels" "mset (map cn_labels cs) = mset labels" "distinct (map planSlot plans)" "p \<in> set plans"
  shows "\<exists>c. map_of (indexBySlot cs) (planSlot p) = Some c \<and> sget (cn_labels c) LabelSpecHash = sget (cp_labels p) LabelSpecHash"
proof -
  have slot: "same_instance q (cn_labels c) \<Longrightarrow> containerSlot c = planSlot q" for q c
    by (simp add: same_instance_def containerSlot_def planSlot_def)
  from assms(2) have lbls: "cn_labels ` set cs = set labels" by (metis mset_eq_setD set_map)
  from assms(1,4) obtain l where "l \<in> set labels" "same_instance p l"
    by (metis in_set_conv_nth list_all2_conv_all_nth)
  moreover from this lbls obtain c where "c \<in> set cs" "cn_labels c = l" by (metis imageE)
  ultimately have "planSlot p \<in> containerSlot ` set cs" using slot by (metis imageI)
  with indexBySlot_found [of cs "planSlot p"] obtain c where c: "map_of (indexBySlot cs) (planSlot p) = Some c" "c \<in> set cs" "containerSlot c = planSlot p"
    by (metis option.exhaust)
  from c(2) lbls assms(1) obtain q where q: "q \<in> set plans" "same_instance q (cn_labels c)"
    by (metis (no_types, opaque_lifting) imageI in_set_conv_nth list_all2_conv_all_nth)
  with slot c(3) assms(3,4) have "q = p" by (metis distinct_map inj_onD)
  with q c(1) show ?thesis by (auto simp: same_instance_def)
qed

text \<open>
  C17. Applying a run settles. When an apply of a run has succeeded on a host that had none of its containers, and Docker
  still lists those the apply created, in whatever order, then applying the run again asks Docker for no container: none
  is created, started, stopped or removed, whatever the rest of the host answers. So the retries of the compute service
  do not disturb a run. The slots of the plans are told apart by the names of the roles, which have to be different.
\<close>

theorem docker_apply_settles:
  assumes run: "run_state (dk_ApplyMLRun r desired) h = (None, es @ h)"
    and fresh: "\<And>es1. created es1 = [] \<Longrightarrow> dk_list (dr_docker r) (es1 @ h) (managedFilter KindRun (cr_namespace desired) (cr_name desired)) = Inr []"
    and kept: "keeps_listing (dr_docker r) (managedFilter KindRun (cr_namespace desired) (cr_name desired)) h' (map snd (created es))"
    and roles: "distinct (map role_name (rs_roles (cr_spec desired)))"
    and again: "run_state (dk_ApplyMLRun r desired) h' = (res, es' @ h')"
  shows "list_all no_container es'"
proof -
  from run obtain plans where plans: "renderRunPlans (dr_lib r) (dr_cfg r) desired = Inr plans"
    by (cases "renderRunPlans (dr_lib r) (dr_cfg r) desired") (simp_all add: dk_ApplyMLRun_def)
  define rest where "rest = (\<lambda>(_ :: container list) some (_ :: ContainerPlan list).
    if \<not> some then ret (None :: derr option)
    else do { _ \<leftarrow> record_event (dr_docker r) KindRun (cr_namespace desired) (cr_name desired) [] ''Created'' ''run containers created''; ret None })"
  have unfolded: "dk_ApplyMLRun r desired = apply_plans r KindRun (cr_namespace desired) (cr_name desired) plans rest"
    by (simp add: dk_ApplyMLRun_def plans rest_def Let_def)
  have aside: "aside (rest existing b ps)" for existing b ps by (auto simp: rest_def intro!: only_rules)
  have first: "list_all2 same_instance plans (map snd (created es))"
    using run [unfolded unfolded apply_plans_def Let_def]
  proof (cases rule: guard_run [OF aside_projections, consumes 1])
    case (2 es1)
    with fresh have "dk_list (dr_docker r) (es1 @ h) (managedFilter KindRun (cr_namespace desired) (cr_name desired)) = Inr []"
      by (simp add: created_aside)
    from list_run [OF 2(2) this] obtain es2 where "es = es2 @ DList (managedFilter KindRun (cr_namespace desired) (cr_name desired)) (Inr []) # es1"
      "list_all2 same_instance plans (map snd (created es2))"
      by (auto simp: indexBySlot_def elim!: runs_outcome [OF apply_creates_all [where rest = rest, OF aside]])
    with 2(1) show ?thesis by (simp add: created_aside)
  qed simp
  have "\<exists>es'. h'' = es' @ h' \<and> list_all no_container es'" if "run_state (dk_ApplyMLRun r desired) h' = (res, h'')" for h''
    using that [unfolded unfolded apply_plans_def Let_def]
  proof (cases rule: guard_run [OF aside_projections, consumes 1])
    case (2 es1)
    from kept 2(1) obtain cs where cs: "dk_list (dr_docker r) (es1 @ h') (managedFilter KindRun (cr_namespace desired) (cr_name desired)) = Inr cs"
      "mset (map cn_labels cs) = mset (map snd (created es))" unfolding keeps_listing_def by blast
    from classify_all [OF settled_slots [OF first cs(2) run_slots_distinct [OF plans roles]]] obtain marked where
      "classify (dr_docker r) (indexBySlot cs) plans = ret (Inr marked)" "list_all (\<lambda>m. \<not> fst m) marked" by blast
    with list_run [OF 2(2) cs(1)] have "run_state (guard (ensure_volumes (dr_docker r) KindRun (cr_namespace desired) (cr_name desired) plans) Some
        (rest cs False (map snd marked))) (DList (managedFilter KindRun (cr_namespace desired) (cr_name desired)) (Inr cs) # es1 @ h') = (res, h'')"
      by (simp add: guard_val_def to_create_none)
    then obtain es2 where "h'' = es2 @ DList (managedFilter KindRun (cr_namespace desired) (cr_name desired)) (Inr cs) # es1 @ h'" "list_all no_container es2"
      by (rule runs_outcome [OF only_runs [OF quiet_guard [OF aside_ensure_volumes aside]]])
    with 2(1) show ?thesis by (intro exI [of _ "es2 @ DList (managedFilter KindRun (cr_namespace desired) (cr_name desired)) (Inr cs) # es1"]) simp
  qed auto
  from this [OF again] show ?thesis by auto
qed


text \<open>The labels of the one container of the example, and a first apply.\<close>

definition gx_run_labels :: "(string, string) gomap" where
  "gx_run_labels = cp_labels (pin_devices (gx_run_plan 1) [0])"

lemma gx_first:
  "\<exists>es i. run_state (dk_ApplyMLRun gx_runtime (gx_run 1)) [] = (None, es @ []) \<and> created es = [(i, gx_run_labels)] \<and> DRemove i None \<notin> set es"
proof -
  have parts: "dr_lib gx_runtime = gx_lib" "dr_docker gx_runtime = gx_docker" "dr_schedulable gx_runtime = [0, 1]" by (simp_all add: gx_runtime_def)
  show ?thesis
    by (simp add: dk_ApplyMLRun_def Let_def gx_render parts apply_plans_def reconcileConfigMapProjections_def gx_dir guard_def guard_val_def
        file_op_def call_def listContainers_def containerList_def ensure_volumes_def createPlans_def ensure_plan_image_def ensureImage_def
        imageInspect_def assignGPUsLocked_def busyGPUDevices_def computeAssignment_def gx_docker_def gx_list_def indexBySlot_def instanceName_def
        to_create_def free_devices_def createAndStart_def eval_nat_numeral record_event_def)
      (simp add: toDocker_def gx_run_labels_def pin_devices_def Let_def)
qed


lemma gx_run_labels_match:
  "list_all (\<lambda>(k, v). sget gx_run_labels k = v) (managedFilter KindRun ''team'' ''job'')"
  by (simp add: gx_run_labels_def pin_devices_def gx_run_plan_def replica_plan_def baseLabels_def managedFilter_def sget_def Let_def)

lemma gx_kept:
  assumes "created es = [(i, gx_run_labels)]" "DRemove i None \<notin> set es"
  shows "keeps_listing gx_docker (managedFilter KindRun ''team'' ''job'') es (map snd (created es))"
proof -
  have "DRemove i None \<notin> set g" if "list_all no_container g" for g using that by (auto simp: list_all_iff no_container_def)
  with assms gx_run_labels_match show ?thesis by (auto simp: keeps_listing_def gx_docker_def gx_list_def created_aside split_def)
qed

theorem docker_apply_settles_witness:
  "\<exists>es res es'. run_state (dk_ApplyMLRun gx_runtime (gx_run 1)) [] = (None, es) \<and> created es \<noteq> [] \<and>
     run_state (dk_ApplyMLRun gx_runtime (gx_run 1)) es = (res, es' @ es) \<and> list_all no_container es'"
proof -
  obtain es i where es: "run_state (dk_ApplyMLRun gx_runtime (gx_run 1)) [] = (None, es @ [])" "created es = [(i, gx_run_labels)]" "DRemove i None \<notin> set es"
    using gx_first by blast
  have parts: "dr_docker gx_runtime = gx_docker" by (simp add: gx_runtime_def)
  have fresh: "dk_list gx_docker (es1 @ []) f = Inr []" if "created es1 = []" for es1 f using that by (simp add: gx_docker_def gx_list_def)
  obtain res h2 where again: "run_state (dk_ApplyMLRun gx_runtime (gx_run 1)) es = (res, h2)" by (meson surj_pair)
  obtain es' where "h2 = es' @ es" by (rule runs_outcome [OF ApplyMLRun_sound again])
  with again docker_apply_settles [OF es(1), of es res es'] fresh gx_kept [OF es(2,3)] es show ?thesis by (auto simp: parts)
qed


section \<open>A retried name\<close>

lemma create_attempts_name:
  "runs (create_attempts dk req n p err) (\<lambda>x es. \<forall>i. fst x = Inr i \<longrightarrow> DCreate (cp_name (snd x)) req (Inr i) \<in> set es)"
proof (induction n arbitrary: p err)
  case (Suc n)
  show ?case unfolding create_attempts.simps
  proof (rule runs_call_bind, goal_cases)
    case (1 res)
    have "runs (instanceName dk (cp_namePrefix p) (cp_replica p) False \<bind> (\<lambda>m. create_attempts dk req n (p\<lparr>cp_name := m\<rparr>) e))
        (\<lambda>x es. \<forall>i. fst x = Inr i \<longrightarrow> DCreate (cp_name (snd x)) req (Inr i) \<in> set (es @ [DCreate (cp_name p) req res]))" for e
      by (rule runs_instanceName [OF runs_mono [OF Suc.IH]]) auto
    then show ?case by (auto intro!: runs_ret split: sum.split)
  qed
qed (auto intro!: runs_ret)

lemma createAndStart_name:
  "runs (createAndStart r p) (\<lambda>x es. fst x = None \<longrightarrow> (\<exists>i. DCreate (cp_name (snd x)) (toDocker (dr_lib r) (dcf_network (dr_cfg r)) p) (Inr i) \<in> set es))"
  unfolding createAndStart_def
proof (rule runs_bind [OF create_attempts_name], goal_cases)
  case (1 x es)
  show ?case
  proof (cases "fst x")
    case (Inr i)
    with 1 have "\<exists>i. DCreate (cp_name (snd x)) (toDocker (dr_lib r) (dcf_network (dr_cfg r)) p) (Inr i) \<in> set es" by blast
    with Inr show ?thesis by (simp add: split_def runs_call_from runs_ret split: option.split)
  qed (simp add: split_def runs_ret)
qed

text \<open>
  A container whose name was taken is created under a fresh name, but with the network alias of the name it did not get:
  the request is built once, before the first attempt. The host name that the gateway is told for the container, made of the
  new name, is not among its aliases, so the route of such a replica leads nowhere.
\<close>

theorem docker_retry_alias_stale:
  assumes "run_state (createAndStart r p) h = ((None, q), es @ h)" "cp_name p \<noteq> []" "cp_name q \<noteq> cp_name p"
  shows "\<exists>req i. DCreate (cp_name q) req (Inr i) \<in> set es \<and> cq_aliases req = [gatewayBackendHostname (cp_name p)] \<and>
    (\<forall>host port. gatewayContainerEndpoint (cp_name q) port = FQDNEndpoint host port \<longrightarrow> host \<notin> set (cq_aliases req))"
proof -
  from runs_result [OF createAndStart_name assms(1)] obtain i
    where "DCreate (cp_name q) (toDocker (dr_lib r) (dcf_network (dr_cfg r)) p) (Inr i) \<in> set es" by auto
  then show ?thesis
    by (rule_tac exI, rule_tac exI, rule_tac conjI, assumption) (use assms(2,3) in \<open>auto simp: toDocker_def gatewayContainerEndpoint_def gatewayBackendHostname_def\<close>)
qed

text \<open>A Docker that has a container of the first name already.\<close>

definition gx_taken :: "int druntime" where
  "gx_taken = gx_runtime\<lparr>dr_docker := gx_docker\<lparr>dk_create := (\<lambda>h n req. if n = ''w'' then Inl (CConflict ''taken'') else Inr ''c1'')\<rparr>\<rparr>"

theorem docker_retry_alias_stale_witness:
  "\<exists>q es. run_state (createAndStart gx_taken gx_plan) [] = ((None, q), es @ []) \<and> cp_name q = ''w-abcde'' \<and>
     (\<exists>req i. DCreate ''w-abcde'' req (Inr i) \<in> set es \<and> ''w-abcde.axisml.local'' \<notin> set (cq_aliases req))"
proof -
  have fresh: "instance_name_of ''w-abcde'' = ''w-abcde''" by code_simp
  have p: "cp_name gx_plan = ''w''" "cp_namePrefix gx_plan = ''w''" "\<not> cp_stableOrdinal gx_plan" by (simp_all add: gx_plan_def)
  have "\<exists>q es. run_state (createAndStart gx_taken gx_plan) [] = ((None, q), es @ []) \<and> cp_name q = ''w-abcde''"
    by (simp add: createAndStart_def eval_nat_numeral call_def gx_taken_def gx_docker_def is_kind_def derror_def instanceName_def p fresh)
  then obtain q es where run: "run_state (createAndStart gx_taken gx_plan) [] = ((None, q), es @ [])" and q: "cp_name q = ''w-abcde''" by blast
  from docker_retry_alias_stale [OF run] q p obtain req i where "DCreate ''w-abcde'' req (Inr i) \<in> set es"
    "\<forall>host port. gatewayContainerEndpoint (cp_name q) port = FQDNEndpoint host port \<longrightarrow> host \<notin> set (cq_aliases req)" by auto
  with run q show ?thesis by (auto simp: gatewayContainerEndpoint_def gatewayBackendHostname_def)
qed

end
