(* ===== verification/DockerPaths.thy ===== *)
theory DockerPaths
  imports DockerProps
begin

text \<open>
  What a workload sees of the host: the sources of its bind mounts lie in the directories registered for it or in the
  directory of the ConfigMaps, as long as no subpath has a colon; with one, a bind reaches the parent of a registered directory.
\<close>

section \<open>Clean paths\<close>

lemma split_on_split: "split_on c (a @ c # b) = split_on c a @ split_on c b"
  by (induction a) (auto split: list.split)

lemma split_on_parts: "x \<in> set (split_on c s) \<Longrightarrow> c \<notin> set x \<and> set x \<subseteq> set s"
proof (induction s arbitrary: x)
  case (Cons y s)
  have IH: "c \<notin> set x" "set x \<subseteq> set s" if "x \<in> set (split_on c s)" for x using Cons.IH that by blast+
  obtain a as where "split_on c s = a # as" by (metis neq_Nil_conv split_on_nonempty)
  with Cons.prems IH [of a] IH [of x] show ?case by (auto split: if_splits)
qed auto

text \<open>A component that \<open>path.Clean\<close> keeps as it is.\<close>

definition proper :: "string \<Rightarrow> bool" where
  "proper x \<longleftrightarrow> x \<noteq> [] \<and> x \<noteq> ''.'' \<and> x \<noteq> ''..''"

lemma proper_simps [simp]: "\<not> proper []" "\<not> proper ''.''" "\<not> proper ''..''"
  by (simp_all add: proper_def)

lemma clean_step_simps [simp]:
  "proper c \<Longrightarrow> clean_step rooted out c = c # out" "clean_step rooted out [] = out" "clean_step rooted out ''.'' = out"
  "clean_step rooted [] ''..'' = (if rooted then [] else [''..''])"
  "clean_step rooted (x # out) ''..'' = (if x = ''..'' then ''..'' # x # out else out)"
  by (auto simp: clean_step_def proper_def)

lemma component_cases:
  obtains "proper c" | "c = []" | "c = ''.''" | "c = ''..''"
  by (auto simp: proper_def)

lemma clean_proper: "list_all proper xs \<Longrightarrow> foldl (clean_step rooted) out xs = rev xs @ out"
  by (induction xs arbitrary: out) auto

text \<open>In a rooted path no dots remain; in a relative one only in front.\<close>

lemma clean_rooted: "list_all proper out \<Longrightarrow> list_all proper (foldl (clean_step True) out xs)"
proof (induction xs arbitrary: out)
  case (Cons x xs)
  have "list_all proper (clean_step True out x)" using Cons.prems by (cases x rule: component_cases; cases out) auto
  with Cons.IH show ?case by simp
qed simp

lemma clean_relative:
  "\<exists>k ns. out = ns @ replicate k ''..'' \<and> list_all proper ns \<Longrightarrow> \<exists>k ns. foldl (clean_step False) out xs = ns @ replicate k ''..'' \<and> list_all proper ns"
proof (induction xs arbitrary: out)
  case (Cons x xs)
  from Cons.prems obtain k ns where out: "out = ns @ replicate k ''..''" "list_all proper ns" by blast
  have "\<exists>k ns. clean_step False out x = ns @ replicate k ''..'' \<and> list_all proper ns"
  proof (cases x rule: component_cases)
    case 1
    with out show ?thesis by (intro exI [of _ k] exI [of _ "x # ns"]) simp
  next
    case 4
    have "list_all proper []" "ns = [] \<Longrightarrow> clean_step False out x = [] @ replicate (Suc k) ''..''" using 4 out by (cases k; simp)+
    with 4 out show ?thesis by (cases ns) fastforce+
  qed (use out in auto)
  then show ?case using Cons.IH by simp
qed simp

lemma clean_subset: "set (foldl (clean_step rooted) out xs) \<subseteq> set out \<union> set xs \<union> {''..''}"
proof (induction xs arbitrary: out)
  case (Cons x xs)
  have "set (clean_step rooted out x) \<subseteq> set out \<union> {x, ''..''}" by (cases x rule: component_cases; cases out) auto
  with Cons.IH [of "clean_step rooted out x"] show ?case by auto
qed auto

lemma comps_chars: "x \<in> set (clean_comps p) \<Longrightarrow> CHR ''/'' \<notin> set x \<and> set x \<subseteq> set p \<union> {CHR ''.''}"
  using clean_subset [of "isAbs p" "[]" "split_on (CHR ''/'') p"] split_on_parts [of x "CHR ''/''" p] by (fastforce simp: clean_comps_def)

lemma comps_abs: "isAbs p \<Longrightarrow> list_all proper (clean_comps p)"
  by (simp add: clean_comps_def list_all_rev clean_rooted)

lemma split_abs: "isAbs p \<Longrightarrow> \<exists>xs. split_on (CHR ''/'') p = [] # xs"
  by (cases p) (auto simp: isAbs_def)

lemma isAbs_append [simp]: "a \<noteq> [] \<Longrightarrow> isAbs (a @ b) = isAbs a"
  by (cases a) (simp_all add: isAbs_def)

lemma comps_below: "isAbs a \<Longrightarrow> list_all (\<lambda>x. proper x \<or> x = [] \<or> x = ''.'') xs \<Longrightarrow> split_on (CHR ''/'') b = xs \<Longrightarrow>
    clean_comps (a @ ''/'' @ b) = clean_comps a @ filter proper xs"
proof -
  assume a: "isAbs a" and xs: "list_all (\<lambda>x. proper x \<or> x = [] \<or> x = ''.'') xs" and b: "split_on (CHR ''/'') b = xs"
  have "foldl (clean_step rooted) out xs = rev (filter proper xs) @ out" for rooted out using xs
    by (induction xs arbitrary: out) auto
  with a b show ?thesis by (cases "a = []") (auto simp: clean_comps_def split_on_split isAbs_def split: list.splits)
qed

lemma comps_clean: "isAbs p \<Longrightarrow> clean_comps (path_Clean p) = clean_comps p"
proof -
  assume p: "isAbs p"
  have root: "isAbs ''/''" "clean_comps ''/'' = []" by code_simp+
  show ?thesis
  proof (cases "clean_comps p = []")
    case True
    with p show ?thesis by (simp add: path_Clean_def root)
  next
    case False
    from False comps_chars have s: "split_on (CHR ''/'') (join ''/'' (clean_comps p)) = clean_comps p" by (intro split_on_join) auto
    have "clean_comps (''/'' @ join ''/'' (clean_comps p)) = clean_comps p"
      using comps_abs [OF p] s by (simp add: clean_comps_def isAbs_def clean_proper)
    with p show ?thesis by (simp add: path_Clean_def)
  qed
qed


lemma join_chars: "set (join sep xs) \<subseteq> set sep \<union> \<Union> (set ` set xs)"
  by (induction sep xs rule: join.induct) auto

lemma clean_chars: "set (path_Clean p) \<subseteq> set p \<union> {CHR ''.'', CHR ''/''}"
proof -
  have "\<Union> (set ` set (clean_comps p)) \<subseteq> set p \<union> {CHR ''.''}" using comps_chars by fast
  moreover have "set (join ''/'' (clean_comps p)) \<subseteq> {CHR ''/''} \<union> \<Union> (set ` set (clean_comps p))" using join_chars [of "''/''"] by simp
  ultimately have "set (join ''/'' (clean_comps p)) \<subseteq> set p \<union> {CHR ''.'', CHR ''/''}" by blast
  then show ?thesis by (simp add: path_Clean_def)
qed

lemma join_two: "a \<noteq> [] \<Longrightarrow> b \<noteq> [] \<Longrightarrow> path_Join [a, b] = path_Clean (a @ ''/'' @ b)"
  by (simp add: path_Join_def)

section \<open>Staying inside\<close>

text \<open>A path below a directory: absolute, and its components, cleaned, continue those of the directory.\<close>

definition under :: "string \<Rightarrow> string \<Rightarrow> bool" where
  "under dir p \<longleftrightarrow> isAbs p \<and> (\<exists>rest. clean_comps p = clean_comps dir @ rest)"

lemma under_join:
  assumes "isAbs dir" "b \<noteq> []" "list_all (\<lambda>x. proper x \<or> x = [] \<or> x = ''.'') (split_on (CHR ''/'') b)"
  shows "under dir (path_Join [dir, b])"
proof -
  have dir: "dir \<noteq> []" using assms(1) by (auto simp: isAbs_def)
  with assms(1) have abs: "isAbs (dir @ ''/'' @ b)" by simp
  then have "isAbs (path_Clean (dir @ ''/'' @ b))" by (simp add: path_Clean_def) (simp add: isAbs_def)
  with dir assms(2) comps_below [OF assms(1,3) refl] comps_clean [OF abs] show ?thesis by (simp add: under_def join_two)
qed

lemma relative_clean:
  assumes "\<not> isAbs p" "path_Clean p \<noteq> ''..''" "\<not> hasPrefix ''../'' (path_Clean p)"
  shows "list_all (\<lambda>x. proper x \<or> x = [] \<or> x = ''.'') (split_on (CHR ''/'') (path_Clean p))"
proof -
  obtain k ns where cs: "clean_comps p = replicate k ''..'' @ ns" "list_all proper ns"
    using clean_relative [of "[]" "split_on (CHR ''/'') p"] assms(1) by (auto simp: clean_comps_def list_all_rev)
  show ?thesis
  proof (cases "clean_comps p = []")
    case False
    have "k = 0"
    proof (rule ccontr)
      assume "k \<noteq> 0"
      with cs obtain rest where "clean_comps p = ''..'' # rest" by (cases k) auto
      with assms False show False by (cases rest) (auto simp: path_Clean_def hasPrefix_def)
    qed
    moreover have "split_on (CHR ''/'') (join ''/'' (clean_comps p)) = clean_comps p" using False comps_chars by (intro split_on_join) auto
    ultimately show ?thesis using cs False assms(1) by (auto simp: path_Clean_def list_all_iff)
  qed (use assms(1) in \<open>simp add: path_Clean_def\<close>)
qed

lemma subPath_clean: "validateSubPath vm = Inr sp \<Longrightarrow> sp \<noteq> [] \<Longrightarrow> list_all (\<lambda>x. proper x \<or> x = [] \<or> x = ''.'') (split_on (CHR ''/'') sp)"
  "validateSubPath vm = Inr sp \<Longrightarrow> set sp \<subseteq> set (vm_subPath vm) \<union> {CHR ''.'', CHR ''/''}"
  using relative_clean [of "vm_subPath vm"] clean_chars [of "vm_subPath vm"] by (auto simp: validateSubPath_def Let_def split: if_splits)

lemma projection_clean:
  assumes "projectionPath kind ns name role vol = Inr proj"
  shows "proj \<noteq> [] \<and> list_all (\<lambda>x. proper x \<or> x = [] \<or> x = ''.'') (split_on (CHR ''/'') proj)"
proof -
  let ?parts = "[kind, ns, name, role, vol]"
  from assms have none: "find bad_segment ?parts = None" and proj: "proj = path_Join ?parts"
    by (auto simp: projectionPath_def Let_def simp del: find.simps split: option.splits)
  from none have ok: "list_all proper ?parts" "\<And>x. x \<in> set ?parts \<Longrightarrow> CHR ''/'' \<notin> set x"
    unfolding find_None_iff by (auto simp: bad_segment_def proper_def)
  then have split: "split_on (CHR ''/'') (join ''/'' ?parts) = ?parts" by (intro split_on_join) auto
  have rel: "\<not> isAbs (join ''/'' ?parts)" using ok(1) ok(2) [of kind] by (cases kind) (simp_all add: isAbs_def, blast)
  have "clean_comps (join ''/'' ?parts) = ?parts" unfolding clean_comps_def split clean_proper [OF ok(1)] by simp
  with rel ok have "proj = join ''/'' ?parts" by (auto simp: proj path_Join_def path_Clean_def proper_def)
  with ok split show ?thesis by (auto simp: proper_def)
qed


section \<open>Mounts\<close>

text \<open>The directories a standalone installation offers: those registered for claims, and that of the ConfigMaps.\<close>

definition registered :: "dconfig \<Rightarrow> string set" where
  "registered cfg = snd ` set (dcf_hostPathVolumes cfg) - {[]}"

definition dirs_ok :: "dconfig \<Rightarrow> bool" where
  "dirs_ok cfg \<longleftrightarrow> (\<forall>dir \<in> registered cfg. isAbs dir \<and> CHR '':'' \<notin> set dir) \<and> (dcf_configMapsDir cfg \<noteq> [] \<longrightarrow> isAbs (dcf_configMapsDir cfg))"

definition mount_ok :: "dconfig \<Rightarrow> VolumeMount list \<Rightarrow> MountPlan \<Rightarrow> bool" where
  "mount_ok cfg vms m \<longleftrightarrow> mp_type m = ''bind'' \<longrightarrow>
     (mp_source m \<in> registered cfg \<and> (\<exists>vm \<in> set vms. validateSubPath vm = Inr (mp_subPath m))) \<or> (under (dcf_configMapsDir cfg) (mp_source m) \<and> mp_subPath m = [])"

lemma sget_mem: "sget m k \<noteq> [] \<Longrightarrow> sget m k \<in> snd ` set m - {[]}"
  by (force simp: sget_def dest: map_of_SomeD split: option.splits)

lemma config_map_mount_ok:
  assumes "dirs_ok cfg" "config_map_mount cfg kind ns name role cms vol source vm = Inr m"
  shows "mount_ok cfg vms m"
proof (cases "dcf_configMapsVolume cfg = []")
  case True
  with assms(2) obtain proj where "projectionPath kind ns name role (vol_name vol) = Inr proj" "dcf_configMapsDir cfg \<noteq> []"
    "mp_source m = path_Join [dcf_configMapsDir cfg, proj]" "mp_subPath m = []"
    by (auto simp: config_map_mount_def Let_def split: if_splits sum.splits)
  with assms(1) under_join projection_clean show ?thesis by (auto simp: mount_ok_def dirs_ok_def)
qed (use assms(2) in \<open>auto simp: config_map_mount_def mount_ok_def Let_def split: if_splits sum.splits\<close>)

lemma volume_mount_ok:
  assumes "dirs_ok cfg" "volume_mount cfg kind ns name role cms vols ms vm = Inr ms'" "vm \<in> set vms" "list_all (mount_ok cfg vms) ms"
  shows "list_all (mount_ok cfg vms) ms'"
proof -
  obtain vol sp where vol: "map_of (map (\<lambda>v. (vol_name v, v)) (rev vols)) (vm_name vm) = Some vol" and sp: "validateSubPath vm = Inr sp"
    using assms(2) by (auto simp: volume_mount_def split: option.splits sum.splits)
  show ?thesis
  proof (cases "vol_configMap vol")
    case None
    have "hostPathFor cfg vol \<noteq> [] \<Longrightarrow> hostPathFor cfg vol \<in> registered cfg"
      using sget_mem by (auto simp: hostPathFor_def registered_def split: option.splits)
    with assms(2-4) vol sp None show ?thesis by (auto simp: volume_mount_def Let_def mount_ok_def split: if_splits)
  next
    case (Some source)
    with assms vol sp config_map_mount_ok [OF assms(1)] show ?thesis
      by (auto simp: volume_mount_def Let_def map_sum_def split: if_splits sum.splits)
  qed
qed

lemma volumeMounts_ok:
  assumes "dirs_ok cfg" "volumeMounts cfg kind ns name role cms vols vms = Inr ms"
  shows "list_all (mount_ok cfg vms) ms"
proof -
  have "rfold (volume_mount cfg kind ns name role cms vols) acc xs = Inr ms' \<Longrightarrow> set xs \<subseteq> set vms \<Longrightarrow> list_all (mount_ok cfg vms) acc \<Longrightarrow>
      list_all (mount_ok cfg vms) ms'" for acc xs ms'
    by (induction xs arbitrary: acc) (auto split: sum.splits dest: volume_mount_ok [OF assms(1)])
  from this [OF assms(2) [unfolded volumeMounts_def]] show ?thesis by simp
qed

text \<open>What Docker takes as the source of a bind \<open>source:target[:mode]\<close>.\<close>

definition bind_source :: "string \<Rightarrow> string" where
  "bind_source b = takeWhile (\<lambda>c. c \<noteq> CHR '':'') b"

lemma mount_sources:
  assumes "dirs_ok cfg" "list_all (mount_ok cfg vms) (cp_mounts p)" "\<forall>vm \<in> set vms. CHR '':'' \<notin> set (vm_subPath vm)"
  shows "\<forall>b \<in> set (cq_binds (toDocker lib net p)). \<exists>dir \<in> registered cfg. under dir (bind_source b)"
    and "\<forall>m \<in> set (cq_mounts (toDocker lib net p)). dm_type m = ''bind'' \<longrightarrow>
      (\<exists>dir \<in> registered cfg. under dir (dm_source m)) \<or> under (dcf_configMapsDir cfg) (dm_source m)"
proof -
  have sub: "under (mp_source m) (path_Join [mp_source m, mp_subPath m]) \<and> CHR '':'' \<notin> set (path_Join [mp_source m, mp_subPath m])"
    if "mp_source m \<in> registered cfg" "vm \<in> set vms" "validateSubPath vm = Inr (mp_subPath m)" "mp_subPath m \<noteq> []" for m vm
  proof
    from assms(1) that(1) have dir: "isAbs (mp_source m)" "CHR '':'' \<notin> set (mp_source m)" "mp_source m \<noteq> []" by (auto simp: dirs_ok_def registered_def)
    from under_join [OF dir(1) that(4) subPath_clean(1) [OF that(3,4)]] show "under (mp_source m) (path_Join [mp_source m, mp_subPath m])" .
    from subPath_clean(2) [OF that(3)] assms(3) that(2) have "CHR '':'' \<notin> set (mp_subPath m)" by auto
    with clean_chars [of "mp_source m @ ''/'' @ mp_subPath m"] dir that(4) show "CHR '':'' \<notin> set (path_Join [mp_source m, mp_subPath m])"
      by (auto simp: join_two)
  qed
  have cut: "CHR '':'' \<notin> set s \<Longrightarrow> bind_source (s @ '':'' @ t) = s" for s t by (induction s) (auto simp: bind_source_def)
  have root: "\<exists>dir \<in> registered cfg. under dir d" if "d \<in> registered cfg" for d
    using that assms(1) by (intro bexI [of _ d]) (auto simp: under_def dirs_ok_def)
  show "\<forall>b \<in> set (cq_binds (toDocker lib net p)). \<exists>dir \<in> registered cfg. under dir (bind_source b)"
  proof
    fix b assume "b \<in> set (cq_binds (toDocker lib net p))"
    then obtain m where m: "m \<in> set (cp_mounts p)" "bound_subtree m" "b = path_Join [mp_source m, mp_subPath m] @ '':'' @ mp_target m"
      by (auto simp: toDocker_def)
    with assms(2) obtain vm where "mp_source m \<in> registered cfg" "vm \<in> set vms" "validateSubPath vm = Inr (mp_subPath m)" "mp_subPath m \<noteq> []"
      by (auto simp: list_all_iff mount_ok_def bound_subtree_def)
    with sub cut m(3) show "\<exists>dir \<in> registered cfg. under dir (bind_source b)" by metis
  qed
  show "\<forall>m \<in> set (cq_mounts (toDocker lib net p)). dm_type m = ''bind'' \<longrightarrow>
      (\<exists>dir \<in> registered cfg. under dir (dm_source m)) \<or> under (dcf_configMapsDir cfg) (dm_source m)"
  proof (intro ballI impI)
    fix d assume d: "d \<in> set (cq_mounts (toDocker lib net p))" "dm_type d = ''bind''"
    then obtain m where m: "m \<in> set (cp_mounts p)" "d = plan_mount m" "mp_type m = ''bind''" by (auto simp: toDocker_def plan_mount_def)
    with assms(2) have "mount_ok cfg vms m" by (simp add: list_all_iff)
    with m sub root show "(\<exists>dir \<in> registered cfg. under dir (dm_source d)) \<or> under (dcf_configMapsDir cfg) (dm_source d)"
      by (cases "mp_subPath m = []") (auto simp: mount_ok_def plan_mount_def)
  qed
qed


text \<open>The mounts of a rendered plan are those of one of the templates.\<close>

definition mounts_of :: "'q RoleSpec list \<Rightarrow> VolumeMount list" where
  "mounts_of roles = concat (map (\<lambda>role. pt_volumeMounts (role_template role)) roles)"

lemma mount_ok_mono: "set vms \<subseteq> set vms' \<Longrightarrow> list_all (mount_ok cfg vms) ms \<Longrightarrow> list_all (mount_ok cfg vms') ms"
  unfolding list_all_iff mount_ok_def by blast

lemma replica_mounts [simp]: "cp_mounts (replica_plan lib kind cr idLabel role ordinal pullPolicy t env ports mounts restart i) = mounts"
  by (simp add: replica_plan_def Let_def)

lemma run_mounts_ok:
  assumes "dirs_ok cfg" "renderRunPlans lib cfg run = Inr plans" "p \<in> set plans"
  shows "list_all (mount_ok cfg (mounts_of (rs_roles (cr_spec run)))) (cp_mounts p)"
proof -
  let ?ok = "\<lambda>p. list_all (mount_ok cfg (mounts_of (rs_roles (cr_spec run)))) (cp_mounts p)"
  have step: "list_all ?ok qs'" if q: "render_run_role lib cfg run cms qs role = Inr qs'" "role \<in> set (rs_roles (cr_spec run))" "list_all ?ok qs" for cms qs role qs'
  proof -
    have "set (pt_volumeMounts (role_template role)) \<subseteq> set (mounts_of (rs_roles (cr_spec run)))" using q(2) by (auto simp: mounts_of_def)
    then have "volumeMounts cfg kind ns name rn cms vols (pt_volumeMounts (role_template role)) = Inr ms \<Longrightarrow>
        list_all (mount_ok cfg (mounts_of (rs_roles (cr_spec run)))) ms" for kind ns name rn vols ms
      using volumeMounts_ok [OF assms(1)] mount_ok_mono by blast
    with q(1,3) show ?thesis by (auto simp: render_run_role_def Let_def list_all_iff split: if_splits sum.splits)
  qed
  have "rfold (render_run_role lib cfg run cms) qs roles = Inr qs' \<Longrightarrow> set roles \<subseteq> set (rs_roles (cr_spec run)) \<Longrightarrow> list_all ?ok qs \<Longrightarrow> list_all ?ok qs'" for cms qs roles qs'
    by (induction roles arbitrary: qs) (auto split: sum.splits dest: step)
  with assms(2,3) show ?thesis by (fastforce simp: renderRunPlans_def Let_def list_all_iff split: if_splits sum.splits)
qed

lemma service_mounts_ok:
  assumes "dirs_ok cfg" "renderServicePlans lib cfg svc = Inr plans" "p \<in> set plans"
  shows "list_all (mount_ok cfg (mounts_of (ss_roles (cr_spec svc)))) (cp_mounts p)"
proof -
  from assms(2,3) obtain role roles cms kind ns name rn where "ss_roles (cr_spec svc) = role # roles"
    "volumeMounts cfg kind ns name rn cms (pt_volumes (role_template role)) (pt_volumeMounts (role_template role)) = Inr (cp_mounts p)"
    by (auto simp: renderServicePlans_def Let_def split: if_splits sum.splits list.splits)
  with volumeMounts_ok [OF assms(1)] mount_ok_mono [of "pt_volumeMounts (role_template role)" "mounts_of (ss_roles (cr_spec svc))"] show ?thesis
    by (simp add: mounts_of_def)
qed

text \<open>
  C19. A workload sees of the host only what the installation offers. For every container of a run or a service, the source
  of each bind that Docker is asked for, with or without a subpath, lies in a directory registered for a claim or in the
  directory of the ConfigMap files: cleaned, its path continues the path of that directory, and it has no dots. The
  registered directories are absolute and no subpath has a colon.
\<close>

theorem docker_binds_confined:
  assumes "(renderRunPlans lib cfg run = Inr plans \<and> roles = rs_roles (cr_spec run)) \<or> (renderServicePlans lib cfg svc = Inr plans \<and> roles = ss_roles (cr_spec svc))"
    and "p \<in> set plans" "dirs_ok cfg" "\<forall>vm \<in> set (mounts_of roles). CHR '':'' \<notin> set (vm_subPath vm)"
  shows "(\<forall>b \<in> set (cq_binds (toDocker lib net p)). \<exists>dir \<in> registered cfg. under dir (bind_source b)) \<and>
    (\<forall>m \<in> set (cq_mounts (toDocker lib net p)). dm_type m = ''bind'' \<longrightarrow>
      (\<exists>dir \<in> registered cfg. under dir (dm_source m)) \<or> under (dcf_configMapsDir cfg) (dm_source m))"
proof -
  have "list_all (mount_ok cfg (mounts_of roles)) (cp_mounts p)"
    using assms(1-3) run_mounts_ok service_mounts_ok by blast
  from mount_sources [OF assms(3) this assms(4)] show ?thesis by blast
qed


text \<open>A run that mounts the directory \<open>a\<close> of the claim \<open>sets\<close>.\<close>

definition px_cfg :: dconfig where
  "px_cfg = \<lparr>dcf_network = ''net'', dcf_gatewayConfigDir = ''/gw'', dcf_configMapsDir = ''/cm'', dcf_configMapsVolume = [],
     dcf_hostPathVolumes = [(''sets'', ''/data/sets'')]\<rparr>"

definition px_volume :: Volume where
  "px_volume = \<lparr>vol_name = ''v'', vol_configMap = None, vol_persistentVolumeClaim = Some ''sets'', vol_rest = []\<rparr>"

definition px_mount :: VolumeMount where
  "px_mount = \<lparr>vm_name = ''v'', vm_mountPath = ''/in'', vm_subPath = ''a'', vm_subPathExpr = [], vm_readOnly = False\<rparr>"

definition px_template :: "int PodTemplate" where
  "px_template = (gx_template 0)\<lparr>pt_volumes := [px_volume], pt_volumeMounts := [px_mount]\<rparr>"

definition px_run :: "int MLRunSpec cr" where
  "px_run = (gx_run 0)\<lparr>cr_spec := (cr_spec (gx_run 0))\<lparr>rs_roles := [\<lparr>role_name = ''worker'', role_replicas = 1, role_restartPolicy = [], role_template = px_template\<rparr>]\<rparr>\<rparr>"

lemma px_mounts:
  "volumeMounts px_cfg kind ns name role cms [px_volume] [px_mount] =
     Inr [\<lparr>mp_type = ''bind'', mp_source = ''/data/sets'', mp_target = ''/in'', mp_subPath = ''a'', mp_readOnly = False, mp_configMapPath = [], mp_configMapFiles = []\<rparr>]"
proof -
  have "validateSubPath px_mount = Inr ''a''" by code_simp
  then show ?thesis by (simp add: volumeMounts_def volume_mount_def px_volume_def hostPathFor_def px_cfg_def sget_def) (simp add: px_mount_def)
qed

lemma px_render: "\<exists>p. renderRunPlans gx_lib px_cfg px_run = Inr [p] \<and> cp_mounts p = projr (volumeMounts px_cfg [] [] [] [] [] [px_volume] [px_mount])"
proof -
  have parts: "pt_image px_template = ''img''" "pt_imagePullPolicy px_template = ''Never''" "pt_env px_template = []" "pt_envFrom px_template = []"
    "pt_volumes px_template = [px_volume]" "pt_volumeMounts px_template = [px_mount]"
    by (simp_all add: px_template_def)
  show ?thesis
    by (simp add: renderRunPlans_def render_run_role_def px_run_def newConfigMapSet_def resolveEnv_def resolveImagePullPolicy_def parts px_mounts Let_def)
qed

theorem docker_binds_confined_witness:
  "\<exists>p. renderRunPlans gx_lib px_cfg px_run = Inr [p] \<and> cq_binds (toDocker gx_lib ''net'' p) = [''/data/sets/a:/in''] \<and>
     under ''/data/sets'' (bind_source ''/data/sets/a:/in'')"
proof -
  obtain p where p: "renderRunPlans gx_lib px_cfg px_run = Inr [p]" "cp_mounts p = projr (volumeMounts px_cfg [] [] [] [] [] [px_volume] [px_mount])"
    using px_render by blast
  have "path_Join [''/data/sets'', ''a''] = ''/data/sets/a''" by code_simp
  then have binds: "cq_binds (toDocker gx_lib ''net'' p) = [''/data/sets/a:/in'']" by (simp add: toDocker_def p(2) px_mounts bound_subtree_def)
  have dirs: "registered px_cfg = {''/data/sets''}" "dirs_ok px_cfg" by (auto simp: registered_def px_cfg_def dirs_ok_def isAbs_def)
  have vms: "\<forall>vm \<in> set (mounts_of (rs_roles (cr_spec px_run))). CHR '':'' \<notin> set (vm_subPath vm)"
    by (simp add: px_run_def mounts_of_def px_template_def px_mount_def)
  from docker_binds_confined [of gx_lib px_cfg px_run "[p]" "rs_roles (cr_spec px_run)" undefined p "''net''"] p(1) dirs vms
  have "\<forall>b \<in> set (cq_binds (toDocker gx_lib ''net'' p)). under ''/data/sets'' (bind_source b)" by simp
  with p(1) binds show ?thesis by simp
qed

section \<open>A colon in a subpath\<close>

lemma join_append: "xs \<noteq> [] \<Longrightarrow> ys \<noteq> [] \<Longrightarrow> join sep (xs @ ys) = join sep xs @ sep @ join sep ys"
  by (induction sep xs rule: join.induct) (auto simp: neq_Nil_conv)

lemma colon_path:
  assumes "isAbs dir" "path_Clean dir = dir" "dir \<noteq> ''/''"
  shows "path_Join [dir, ''..:/x''] = dir @ ''/..:/x''"
proof -
  have s: "split_on (CHR ''/'') ''..:/x'' = [''..:'', ''x'']" by code_simp
  have dir: "dir \<noteq> []" using assms(1) by (auto simp: isAbs_def)
  have nonempty: "clean_comps dir \<noteq> []" and shape: "''/'' @ join ''/'' (clean_comps dir) = dir" using assms by (auto simp: path_Clean_def)
  have "clean_comps (dir @ ''/'' @ ''..:/x'') = clean_comps dir @ [''..:'', ''x'']"
    using comps_below [OF assms(1), of "[''..:'', ''x'']" "''..:/x''"] s by (simp add: proper_def)
  with dir nonempty have "path_Join [dir, ''..:/x''] = (''/'' @ join ''/'' (clean_comps dir)) @ ''/..:/x''"
    using assms(1) by (simp add: join_two path_Clean_def join_append)
  with shape show ?thesis by simp
qed

lemma parent_comps: "isAbs dir \<Longrightarrow> clean_comps (dir @ ''/..'') = butlast (clean_comps dir)"
proof -
  assume dir: "isAbs dir"
  define out where "out = foldl (clean_step True) [] (split_on (CHR ''/'') dir)"
  have comps: "clean_comps dir = rev out" and all: "list_all proper out" using dir by (simp_all add: clean_comps_def out_def clean_rooted)
  have "isAbs (dir @ ''/..'')" using dir by (cases dir) (simp_all add: isAbs_def)
  moreover have "split_on (CHR ''/'') (dir @ ''/..'') = split_on (CHR ''/'') dir @ [''..'']" using split_on_split [of "CHR ''/''" dir "''..''"] by simp
  ultimately have "clean_comps (dir @ ''/..'') = rev (clean_step True out ''..'')" by (simp add: clean_comps_def out_def)
  with comps all show ?thesis by (cases out) (auto simp: proper_def)
qed

text \<open>
  C39. A colon in a subpath breaks out of a registered directory. The check of subpaths does not look for colons, and a
  writable bind with a subpath is passed to Docker as one string. With the subpath \<open>..:/x\<close> and the mount path \<open>rw\<close>
  the string is the registered directory followed by \<open>/..:/x:rw\<close>: a bind of the parent of the directory, writable, although the code means to
  pass \<^emph>\<open>only the resolved subtree so the workload never sees the registered hostPath root\<close>.
\<close>

theorem docker_colon_escape:
  assumes "isAbs dir" "path_Clean dir = dir" "dir \<noteq> ''/''" "CHR '':'' \<notin> set dir"
    and "vol_configMap vol = None" "vol_persistentVolumeClaim vol = Some claim" "sget (dcf_hostPathVolumes cfg) claim = dir"
    and "vm = \<lparr>vm_name = vol_name vol, vm_mountPath = ''rw'', vm_subPath = ''..:/x'', vm_subPathExpr = [], vm_readOnly = False\<rparr>"
  shows "\<exists>m. volumeMounts cfg kind ns name role cms [vol] [vm] = Inr [m] \<and> cq_binds (toDocker lib net (p\<lparr>cp_mounts := [m]\<rparr>)) = [dir @ ''/..:/x:rw''] \<and>
    clean_comps (bind_source (dir @ ''/..:/x:rw'')) = butlast (clean_comps dir) \<and> \<not> under dir (bind_source (dir @ ''/..:/x:rw''))"
proof -
  have clean: "path_Clean ''..:/x'' = ''..:/x''" by code_simp
  have sub: "validateSubPath vm = Inr ''..:/x''" using clean by (simp add: validateSubPath_def assms(8) isAbs_def hasPrefix_def)
  have dir: "dir \<noteq> []" using assms(1) by (auto simp: isAbs_def)
  define m where "m = \<lparr>mp_type = ''bind'', mp_source = dir, mp_target = ''rw'', mp_subPath = ''..:/x'', mp_readOnly = False, mp_configMapPath = [], mp_configMapFiles = []\<rparr>"
  have "volumeMounts cfg kind ns name role cms [vol] [vm] = Inr [m]"
    using assms(5-7) dir sub by (simp add: volumeMounts_def volume_mount_def hostPathFor_def m_def) (simp add: assms(8))
  moreover have "cq_binds (toDocker lib net (p\<lparr>cp_mounts := [m]\<rparr>)) = [dir @ ''/..:/x:rw'']"
    using colon_path [OF assms(1-3)] by (simp add: toDocker_def m_def bound_subtree_def)
  moreover have src: "bind_source (dir @ ''/..:/x:rw'') = dir @ ''/..''" using assms(4) by (induction dir) (auto simp: bind_source_def)
  moreover have "clean_comps dir \<noteq> []" using assms(1-3) by (auto simp: path_Clean_def)
  then have "length (butlast (clean_comps dir)) < length (clean_comps dir)" by simp
  then have "butlast (clean_comps dir) \<noteq> clean_comps dir @ rest" for rest by (metis length_append not_add_less1)
  ultimately show ?thesis using parent_comps [OF assms(1)] by (auto simp: under_def)
qed


theorem docker_colon_escape_witness:
  "\<exists>m. volumeMounts px_cfg KindRun ''team'' ''job'' ''worker'' [] [px_volume] [px_mount\<lparr>vm_mountPath := ''rw'', vm_subPath := ''..:/x''\<rparr>] = Inr [m] \<and>
     cq_binds (toDocker gx_lib ''net'' (gx_plan\<lparr>cp_mounts := [m]\<rparr>)) = [''/data/sets/..:/x:rw''] \<and>
     clean_comps (bind_source ''/data/sets/..:/x:rw'') = [''data''] \<and> \<not> under ''/data/sets'' (bind_source ''/data/sets/..:/x:rw'')"
proof -
  have dir: "path_Clean ''/data/sets'' = ''/data/sets''" "clean_comps ''/data/sets'' = [''data'', ''sets'']" by code_simp+
  have "sget (dcf_hostPathVolumes px_cfg) ''sets'' = ''/data/sets''" by (simp add: px_cfg_def sget_def)
  with docker_colon_escape [of "''/data/sets''" px_volume "''sets''" px_cfg "px_mount\<lparr>vm_mountPath := ''rw'', vm_subPath := ''..:/x''\<rparr>"
      KindRun "''team''" "''job''" "''worker''" "[]" gx_lib "''net''" gx_plan] dir show ?thesis
    by (simp add: px_volume_def px_mount_def isAbs_def)
qed


section \<open>Names that meet\<close>

text \<open>
  The names the runtime gives to the data of tenants run together: the namespace and the name are joined by a dash, which both may
  contain. So a namespace \<open>a-b\<close> and a namespace \<open>a\<close> meet: the claim \<open>c\<close> of the one and the claim \<open>b-c\<close> of the other
  are one Docker volume, which a workload of either mounts and either deletes, and services and traffic policies of these names
  share the file of their route, so that deleting the route of one deletes that of the other.
\<close>

theorem docker_tenants_collide:
  "vol_Delete r (a @ ''-'' @ b, c) = vol_Delete r (a, b @ ''-'' @ c) \<and>
   map_sum id (map mp_source) (volumeMounts (cfg\<lparr>dcf_hostPathVolumes := []\<rparr>) kind (a @ ''-'' @ b) name role cms
     [\<lparr>vol_name = vn, vol_configMap = None, vol_persistentVolumeClaim = Some c, vol_rest = rest\<rparr>] [vm]) =
   map_sum id (map mp_source) (volumeMounts (cfg\<lparr>dcf_hostPathVolumes := []\<rparr>) kind a name' role cms
     [\<lparr>vol_name = vn, vol_configMap = None, vol_persistentVolumeClaim = Some (b @ ''-'' @ c), vol_rest = rest\<rparr>] [vm]) \<and>
   deleteServiceRoute r (a @ ''-'' @ b) c = deleteServiceRoute r a (b @ ''-'' @ c) \<and>
   trafficFileName cfg (a @ ''-'' @ b) c = trafficFileName cfg a (b @ ''-'' @ c)"
proof -
  have "pvcVolumeName (a @ ''-'' @ b) c = pvcVolumeName a (b @ ''-'' @ c)" by (simp add: pvcVolumeName_def)
  then show ?thesis
    by (simp add: vol_Delete_def volumeMounts_def volume_mount_def hostPathFor_def sget_def deleteServiceRoute_def serviceRouteFileName_def
        trafficFileName_def map_sum_def split: sum.split)
qed

end
