(* ===== verification/WorkloadApi.thy ===== *)
theory WorkloadApi
  imports ApiProgram Store Naming TrafficPolicy
begin

text \<open>
  What the compute operator reads and writes: the three custom resources of
  \<^verbatim>\<open>axisml-system/apis\<close> as the API server holds them, the native objects its handlers
  render, and the calls of its client.

  Parameters: the API server (\<open>wapi\<close>, every answer a function of the history of calls) and the
  pure functions of third-party packages (\<open>wlib\<close>): the JSON encoder on Kubernetes types, the
  field-error printer, the strict decoders of \<open>backend.config\<close>, the name validators of
  \<open>k8s.io/apimachinery\<close>, \<open>metav1.GetControllerOf\<close>, \<open>metav1.NewControllerRef\<close> and
  \<open>SetControllerReference\<close>. What the code relies on of them is stated as hypotheses where it is
  used. Labels and annotations of an object come from the API server, which drops empty maps: a
  nil map and an empty map are one value.
\<close>

section \<open>The resources as the operator sees them\<close>

text \<open>\<open>metav1.Condition\<close>.\<close>

record Condition =
  mc_type :: string
  mc_status :: string
  mc_observedGeneration :: int
  mc_lastTransitionTime :: nat
  mc_reason :: string
  mc_message :: string

record RoleStatus =
  rls_name :: string
  rls_replicas :: int
  rls_active :: int
  rls_ready :: int
  rls_succeeded :: int
  rls_failed :: int

record RunCRStatus =
  rcs_observedGeneration :: int
  rcs_phase :: string
  rcs_message :: string
  rcs_startedAt :: "nat option"
  rcs_finishedAt :: "nat option"
  rcs_conditions :: "Condition list"
  rcs_roles :: "RoleStatus list"

record 'q RunCR =
  rcr_meta :: objmeta
  rcr_uid :: string
  rcr_generation :: int
  rcr_spec :: "'q MLRunSpec"
  rcr_status :: RunCRStatus

record SvcCRStatus =
  scs_observedGeneration :: int
  scs_phase :: string
  scs_message :: string
  scs_endpoint :: string
  scs_readyReplicas :: int
  scs_selector :: string
  scs_conditions :: "Condition list"
  scs_roles :: "RoleStatus list"

record 'q SvcCR =
  scr_meta :: objmeta
  scr_uid :: string
  scr_generation :: int
  scr_spec :: "'q MLServiceSpec"
  scr_status :: SvcCRStatus

record PolicyCRStatus =
  pcs_observedGeneration :: int
  pcs_phase :: string
  pcs_message :: string
  pcs_endpoint :: string
  pcs_backends :: "traffic_backend list"
  pcs_conditions :: "Condition list"

record PolicyCR =
  pcr_meta :: objmeta
  pcr_uid :: string
  pcr_generation :: int
  pcr_spec :: TrafficSpec
  pcr_status :: PolicyCRStatus

abbreviation name_meta :: "objmeta \<Rightarrow> meta" where
  "name_meta m \<equiv> \<lparr>meta_name = om_name m, meta_annotations = om_annotations m\<rparr>"

section \<open>Native objects\<close>

record 'q Container =
  ct_name :: string
  ct_image :: string
  ct_imagePullPolicy :: string
  ct_command :: "string list"
  ct_args :: "string list"
  ct_env :: "EnvVar list"
  ct_envFrom :: "EnvFromSource list"
  ct_workingDir :: string
  ct_ports :: "PodPort list"
  ct_requests :: "'q resource_list"
  ct_limits :: "'q resource_list"
  ct_volumeMounts :: "VolumeMount list"

record 'q PodTemplateSpec =
  pts_labels :: "(string, string) gomap"
  pts_schedulerName :: string
  pts_priorityClassName :: string
  pts_nodeSelector :: "(string, string) gomap"
  pts_tolerations :: "toleration list"
  pts_restartPolicy :: string
  pts_volumes :: "Volume list"
  pts_containers :: "'q Container list"

record JobCondition =
  jc_type :: string
  jc_status :: string
  jc_message :: string
  jc_lastTransitionTime :: nat

record JobStatus =
  js_startTime :: "nat option"
  js_completionTime :: "nat option"
  js_active :: int
  js_succeeded :: int
  js_failed :: int
  js_conditions :: "JobCondition list"

record 'q Job =
  jb_meta :: objmeta
  jb_parallelism :: "int option"
  jb_completions :: "int option"
  jb_template :: "'q PodTemplateSpec"
  jb_activeDeadlineSeconds :: "int option"
  jb_ttlSecondsAfterFinished :: "int option"
  jb_backoffLimit :: "int option"
  jb_completionMode :: "string option"
  jb_podFailurePolicy :: "string option"
  jb_suspend :: "bool option"
  jb_status :: JobStatus

record DeploymentCondition =
  dc_type :: string
  dc_status :: string
  dc_reason :: string
  dc_message :: string

text \<open>
  \<open>appsv1.DeploymentSpec\<close> and \<open>appsv1.StatefulSetSpec\<close>: the fields the handlers set; what they leave
  to the server's defaults is one text here and in the specs below.
\<close>

record 'q WorkloadSetSpec =
  wss_replicas :: int
  wss_selector :: "(string, string) gomap"
  wss_template :: "'q PodTemplateSpec"
  wss_progressDeadlineSeconds :: "int option"
  wss_serviceName :: string
  wss_podManagementPolicy :: string
  wss_rest :: string

record 'q WorkloadSet =
  ws_meta :: objmeta
  ws_spec :: "'q WorkloadSetSpec"
  ws_readyReplicas :: int
  ws_conditions :: "DeploymentCondition list"

record ServicePort =
  svp_name :: string
  svp_port :: int
  svp_targetPort :: int
  svp_protocol :: string

record KServiceSpec =
  kss_type :: string
  kss_clusterIP :: string
  kss_clusterIPs :: "string list"
  kss_selector :: "(string, string) gomap"
  kss_ports :: "ServicePort list"
  kss_rest :: string

record KService =
  ksv_meta :: objmeta
  ksv_spec :: KServiceSpec

record BackendRef =
  brf_name :: string
  brf_kind :: string
  brf_port :: int
  brf_weight :: "int option"

record HTTPRouteSpec =
  hrs_parentNamespace :: string
  hrs_parentName :: string
  hrs_hostnames :: "string list"
  hrs_path :: string
  hrs_backendRefs :: "BackendRef list"
  hrs_rest :: string

record HTTPRoute =
  htr_meta :: objmeta
  htr_spec :: HTTPRouteSpec
  htr_parents :: "Condition list list"

section \<open>Calls\<close>

datatype 'q wobj =
    WRun "'q RunCR" | WSvc "'q SvcCR" | WPolicy PolicyCR | WConfigMap ConfigMapObj
  | WJob "'q Job" | WDeployment "'q WorkloadSet" | WStatefulSet "'q WorkloadSet" | WService KService
  | WRoute HTTPRoute

datatype wkind = MLRunKind | MLServiceKind | MLTrafficPolicyKind

text \<open>
  The writes: create, merge patch and update from the object that was read to the object sent, delete,
  the status subresource; and, by kind, namespace and name only, a delete and the patch that suspends a run.
\<close>

datatype 'q wwrite =
    KCreate "'q wobj" | KPatch "'q wobj" "'q wobj" | KUpdate "'q wobj" "'q wobj" | KDelete "'q wobj"
  | KStatus "'q wobj" "'q wobj" | KDeleteKey wkind string string | KSuspend string string

datatype 'q wevent =
    Got string string "kerr + 'q wobj" | GotList "kerr + 'q wobj list" | Put "'q wwrite" "kerr option"

type_synonym ('q, 'a) wprog = "('q wevent, 'a) io"

text \<open>
  \<open>wa_runAnswer\<close> and \<open>wa_jobAnswer\<close> are the objects the server sends back for a successful
  write, which the client decodes over the caller's copy; \<open>wa_now\<close> is the clock.
\<close>

record 'q wapi =
  wa_getRun :: "'q wevent list \<Rightarrow> string \<Rightarrow> string \<Rightarrow> kerr + 'q RunCR"
  wa_getSvc :: "'q wevent list \<Rightarrow> string \<Rightarrow> string \<Rightarrow> kerr + 'q SvcCR"
  wa_getPolicy :: "'q wevent list \<Rightarrow> string \<Rightarrow> string \<Rightarrow> kerr + PolicyCR"
  wa_getConfigMap :: "'q wevent list \<Rightarrow> string \<Rightarrow> string \<Rightarrow> kerr + ConfigMapObj"
  wa_getJob :: "'q wevent list \<Rightarrow> string \<Rightarrow> string \<Rightarrow> kerr + 'q Job"
  wa_getDeployment :: "'q wevent list \<Rightarrow> string \<Rightarrow> string \<Rightarrow> kerr + 'q WorkloadSet"
  wa_getStatefulSet :: "'q wevent list \<Rightarrow> string \<Rightarrow> string \<Rightarrow> kerr + 'q WorkloadSet"
  wa_getService :: "'q wevent list \<Rightarrow> string \<Rightarrow> string \<Rightarrow> kerr + KService"
  wa_getRoute :: "'q wevent list \<Rightarrow> string \<Rightarrow> string \<Rightarrow> kerr + HTTPRoute"
  wa_listConfigMaps :: "'q wevent list \<Rightarrow> string \<Rightarrow> (string, string) gomap \<Rightarrow> kerr + ConfigMapObj list"
  wa_listDeployments :: "'q wevent list \<Rightarrow> string \<Rightarrow> (string, string) gomap \<Rightarrow> kerr + 'q WorkloadSet list"
  wa_listStatefulSets :: "'q wevent list \<Rightarrow> string \<Rightarrow> (string, string) gomap \<Rightarrow> kerr + 'q WorkloadSet list"
  wa_listServices :: "'q wevent list \<Rightarrow> string \<Rightarrow> (string, string) gomap \<Rightarrow> kerr + KService list"
  wa_listRoutes :: "'q wevent list \<Rightarrow> string \<Rightarrow> (string, string) gomap \<Rightarrow> kerr + HTTPRoute list"
  wa_write :: "'q wevent list \<Rightarrow> 'q wwrite \<Rightarrow> kerr option"
  wa_runAnswer :: "'q wevent list \<Rightarrow> 'q RunCR \<Rightarrow> 'q RunCR"
  wa_jobAnswer :: "'q wevent list \<Rightarrow> 'q Job \<Rightarrow> 'q Job"
  wa_now :: "'q wevent list \<Rightarrow> nat"
  wa_setCondition :: "nat \<Rightarrow> Condition list \<Rightarrow> Condition \<Rightarrow> Condition list"

definition get_obj ::
  "('a \<Rightarrow> 'q wobj) \<Rightarrow> ('q wevent list \<Rightarrow> string \<Rightarrow> string \<Rightarrow> kerr + 'a) \<Rightarrow> string \<Rightarrow> string \<Rightarrow> ('q, kerr + 'a) wprog" where
  "get_obj wrap f ns name = call (\<lambda>h. f h ns name) (\<lambda>r. Got ns name (map_sum id wrap r))"

definition list_obj ::
  "('a \<Rightarrow> 'q wobj) \<Rightarrow> ('q wevent list \<Rightarrow> string \<Rightarrow> (string, string) gomap \<Rightarrow> kerr + 'a list) \<Rightarrow>
   string \<Rightarrow> (string, string) gomap \<Rightarrow> ('q, kerr + 'a list) wprog" where
  "list_obj wrap f ns sel = call (\<lambda>h. f h ns sel) (\<lambda>r. GotList (map_sum id (map wrap) r))"

definition put :: "'q wapi \<Rightarrow> 'q wwrite \<Rightarrow> ('q, kerr option) wprog" where
  "put api w = call (\<lambda>h. wa_write api h w) (Put w)"

text \<open>A write whose answer the code goes on with: the object as the server returned it.\<close>

definition put_back ::
  "('q wevent list \<Rightarrow> 'a \<Rightarrow> 'a) \<Rightarrow> 'q wapi \<Rightarrow> 'q wwrite \<Rightarrow> 'a \<Rightarrow> ('q, kerr + 'a) wprog" where
  "put_back answer api w x =
     State (\<lambda>h. (case wa_write api h w of Some e \<Rightarrow> Inl e | None \<Rightarrow> Inr (answer h x), Put w (wa_write api h w) # h))"

definition clock :: "'q wapi \<Rightarrow> ('q, nat) wprog" where
  "clock api = State (\<lambda>h. (wa_now api h, h))"

section \<open>Third-party functions\<close>

datatype field_error =
    FieldRequired string string | FieldInvalid string string string | FieldNotSupported string string "string list"
  | FieldDuplicate string string

record JobConfig =
  jcf_completionMode :: string
  jcf_podFailurePolicy :: "string option"

record SetConfig =
  scf_podManagementPolicy :: string
  scf_serviceName :: string

record 'q wlib =
  wl_marshalRun :: "'q MLRunSpec \<Rightarrow> string + int list"
  wl_marshalSvc :: "'q MLServiceSpec \<Rightarrow> string + int list"
  wl_marshalSet :: "'q WorkloadSetSpec \<Rightarrow> (string, string) gomap \<Rightarrow> string + int list"
  wl_canonicalJSON :: "string \<Rightarrow> string + string"
  wl_aggregate :: "field_error list \<Rightarrow> string"
  wl_decodeJobConfig :: "string \<Rightarrow> string + JobConfig"
  wl_decodeSetConfig :: "string \<Rightarrow> string + SetConfig"
  wl_isDNS1123Subdomain :: "string \<Rightarrow> string list"
  wl_isDNS1123Label :: "string \<Rightarrow> string list"
  wl_isConfigMapKey :: "string \<Rightarrow> string list"
  wl_controllerOf :: "OwnerRef list \<Rightarrow> string option"
  wl_newControllerRef :: "string \<Rightarrow> string \<Rightarrow> string \<Rightarrow> OwnerRef"
  wl_setControllerRef :: "string \<Rightarrow> string \<Rightarrow> string \<Rightarrow> OwnerRef list \<Rightarrow> string + OwnerRef list"

text \<open>\<open>for k, v := range entries { m[k] = v }\<close>.\<close>

definition set_all :: "(string, string) gomap \<Rightarrow> (string, string) gomap \<Rightarrow> (string, string) gomap" where
  "set_all m entries = foldl (\<lambda>m (k, v). AList.update k v m) m entries"

lemma map_of_set_all: "wf_map entries \<Longrightarrow> map_of (set_all m entries) k = (case map_of entries k of Some v \<Rightarrow> Some v | None \<Rightarrow> map_of m k)"
  unfolding set_all_def
proof (induction entries arbitrary: m)
  case (Cons e es)
  then show ?case by (cases e) (auto split: option.split)
qed simp

lemma sget_set_all: "wf_map entries \<Longrightarrow> map_of entries k = Some v \<Longrightarrow> sget (set_all m entries) k = v"
  by (simp add: sget_def map_of_set_all)

section \<open>Rules for the calls\<close>

lemma only_get_obj [only_rules]: "(\<And>r. P (Got ns name r)) \<Longrightarrow> only P (get_obj wrap f ns name)"
  unfolding get_obj_def by (rule only_call)

lemma only_list_obj [only_rules]: "(\<And>r. P (GotList r)) \<Longrightarrow> only P (list_obj wrap f ns sel)"
  unfolding list_obj_def by (rule only_call)

lemma only_put [only_rules]: "(\<And>r. P (Put w r)) \<Longrightarrow> only P (put api w)"
  unfolding put_def by (rule only_call)

lemma only_put_back [only_rules]: "(\<And>r. P (Put w r)) \<Longrightarrow> only P (put_back answer api w x)"
  by (simp add: only_def runs_def put_back_def)

lemma only_clock [only_rules]: "only P (clock api)"
  by (simp add: only_def runs_def clock_def)

lemma runs_clock_bind [runs_rules]: "(\<And>t. runs (g t) Q) \<Longrightarrow> runs (clock api \<bind> g) Q"
  by (rule runs_bind [where P = "\<lambda>_ es. es = []"]) (auto simp: runs_def clock_def)

lemma runs_get_bind [runs_rules]:
  "(\<And>r. runs (g r) (\<lambda>y es. Q y (es @ [Got ns name (map_sum id wrap r)]))) \<Longrightarrow> runs (get_obj wrap f ns name \<bind> g) Q"
  unfolding get_obj_def by (rule runs_call_bind)

text \<open>A program that starts by reading an object the server has.\<close>

lemma get_split:
  assumes "run_state (get_obj wrap f ns name \<bind> g) h = (res, es @ h)" "f h ns name = Inr x" "runs (g (Inr x)) Q"
  obtains es' where "es = es' @ [Got ns name (Inr (wrap x))]" "Q res es'"
    "run_state (g (Inr x)) (Got ns name (Inr (wrap x)) # h) = (res, es' @ Got ns name (Inr (wrap x)) # h)"
proof -
  from assms(1,2) have run: "run_state (g (Inr x)) (Got ns name (Inr (wrap x)) # h) = (res, es @ h)"
    by (simp add: get_obj_def call_def)
  from assms(3) this obtain es' where "es @ h = es' @ Got ns name (Inr (wrap x)) # h" "Q res es'" by (rule runs_outcome)
  with run that [of es'] show thesis by auto
qed

lemma runs_put_bind [runs_rules]:
  "(\<And>r. runs (g r) (\<lambda>y es. Q y (es @ [Put w r]))) \<Longrightarrow> runs (put api w \<bind> g) Q"
  unfolding put_def by (rule runs_call_bind)

lemma runs_put_back_bind [runs_rules]:
  "(\<And>e. runs (g (Inl e)) (\<lambda>y es. Q y (es @ [Put w (Some e)]))) \<Longrightarrow>
   (\<And>h. runs (g (Inr (answer h x))) (\<lambda>y es. Q y (es @ [Put w None]))) \<Longrightarrow> runs (put_back answer api w x \<bind> g) Q"
  by (rule runs_bind [where P = "\<lambda>r es. (\<exists>e. r = Inl e \<and> es = [Put w (Some e)]) \<or> (\<exists>h. r = Inr (answer h x) \<and> es = [Put w None])"])
     (auto simp: runs_def put_back_def split: option.split)

section \<open>Bounds on writes\<close>

fun writes_only :: "('q wwrite \<Rightarrow> bool) \<Rightarrow> 'q wevent \<Rightarrow> bool" where
  "writes_only P (Put w r) \<longleftrightarrow> P w"
| "writes_only P _ \<longleftrightarrow> True"

lemma writes_only_mono: "writes_only P e \<Longrightarrow> (\<And>w. P w \<Longrightarrow> Q w) \<Longrightarrow> writes_only Q e"
  by (cases e) auto

lemma events_written:
  assumes "only (writes_only P) m" "run_state m h = (x, es @ h)" "Put w r \<in> set es"
  shows "P w"
  using only_events [OF assms(1,2)] assms(3) by (auto simp: list_all_iff)

end
