(* ===== verification/WorkloadConfig.thy ===== *)
theory WorkloadConfig
  imports WorkloadApi
begin

text \<open>
  The ConfigMaps a workload declares (\<^verbatim>\<open>compute-operator/internal/workloadconfig/configmap.go\<close>):
  validation, create or drift correction, and removal of the obsolete ones. Shared by the run and
  the service dispatcher.
\<close>

section \<open>Validation\<close>

abbreviation "LabelManagedConfig \<equiv> ''compute.axisml.io/managed-configmap''"
abbreviation "LabelOwnerUID \<equiv> ''compute.axisml.io/config-owner-uid''"
abbreviation "ManagedValue \<equiv> ''true''"

text \<open>\<open>path.Index(i)\<close> and \<open>.Child(name)\<close> of a field path, as their texts.\<close>

definition index_path :: "string \<Rightarrow> nat \<Rightarrow> string" where
  "index_path path i = path @ ''['' @ show_nat i @ '']''"

abbreviation child :: "string \<Rightarrow> string \<Rightarrow> string" where
  "child path name \<equiv> path @ ''.'' @ name"

definition name_errors :: "'q wlib \<Rightarrow> string \<Rightarrow> string list \<Rightarrow> string \<Rightarrow> field_error list" where
  "name_errors lib path seen name =
     (if name = [] then [FieldRequired (child path ''name'') ''name is required'']
      else map (FieldInvalid (child path ''name'') name) (wl_isDNS1123Subdomain lib name) @
           (if name \<in> set seen then [FieldDuplicate (child path ''name'') name] else []))"

fun validate_from ::
  "'q wlib \<Rightarrow> string \<Rightarrow> nat \<Rightarrow> string list \<Rightarrow> WorkloadConfigMap list \<Rightarrow> field_error list" where
  "validate_from lib path i seen [] = []"
| "validate_from lib path i seen (c # cs) =
     name_errors lib (index_path path i) seen (cfm_name c) @
     concat (map (\<lambda>(key, _). map (FieldInvalid (index_path path i @ ''.data['' @ key @ '']'') key)
       (wl_isConfigMapKey lib key)) (cfm_data c)) @
     validate_from lib path (Suc i) (if cfm_name c = [] then seen else cfm_name c # seen) cs"

definition cfg_Validate :: "'q wlib \<Rightarrow> WorkloadConfigMap list \<Rightarrow> string \<Rightarrow> field_error list" where
  "cfg_Validate lib configMaps path = validate_from lib path 0 [] configMaps"

section \<open>Reconciliation\<close>

text \<open>
  The owner: its namespace, name, UID and kind. \<open>OwnershipConflictError\<close> is an error of its own,
  every other error is its text.
\<close>

record owner =
  ow_namespace :: string
  ow_name :: string
  ow_uid :: string
  ow_kind :: string

datatype config_error = OwnershipConflict string string string string | ConfigError string

fun config_error_text :: "config_error \<Rightarrow> string" where
  "config_error_text (OwnershipConflict ns name kind own) =
     ''ConfigMap '' @ ns @ ''/'' @ name @ '' already exists and is not owned by '' @ kind @ '' '' @ own"
| "config_error_text (ConfigError m) = m"

fun IsOwnershipConflict :: "config_error \<Rightarrow> bool" where
  "IsOwnershipConflict (OwnershipConflict ns name kind own) = True"
| "IsOwnershipConflict (ConfigError m) = False"

definition managedLabels :: "owner \<Rightarrow> (string, string) gomap \<Rightarrow> (string, string) gomap" where
  "managedLabels own extra =
     foldl (\<lambda>labels (key, value). if value \<noteq> [] then AList.update key value labels else labels)
       [(LabelManagedConfig, ManagedValue), (LabelOwnerUID, ow_uid own)] extra"

definition cfg_upsert ::
  "'q wlib \<Rightarrow> 'q wapi \<Rightarrow> owner \<Rightarrow> WorkloadConfigMap \<Rightarrow> (string, string) gomap \<Rightarrow> ('q, config_error option) wprog" where
  "cfg_upsert lib api own spec extraLabels =
     (let key = ow_namespace own @ ''/'' @ cfm_name spec in do {
        r \<leftarrow> get_obj WConfigMap (wa_getConfigMap api) (ow_namespace own) (cfm_name spec);
        case r of
          Inl e \<Rightarrow>
            if isNotFound e then do {
              c \<leftarrow> put api (KCreate (WConfigMap \<lparr>cm_meta =
                     \<lparr>om_namespace = ow_namespace own, om_name = cfm_name spec, om_labels = managedLabels own extraLabels,
                      om_annotations = [], om_owners = [wl_newControllerRef lib (ow_kind own) (ow_name own) (ow_uid own)]\<rparr>,
                     cm_data = cfm_data spec, cm_binaryData = []\<rparr>));
              ret (map_option (\<lambda>e. ConfigError (''create workload ConfigMap '' @ key @ '': '' @ kmsg e)) c)
            } else ret (Some (ConfigError (''get workload ConfigMap '' @ key @ '': '' @ kmsg e)))
        | Inr current \<Rightarrow>
            if wl_controllerOf lib (om_owners (cm_meta current)) \<noteq> Some (ow_uid own)
            then ret (Some (OwnershipConflict (ow_namespace own) (cfm_name spec) (ow_kind own) (ow_name own)))
            else let labels = foldl (\<lambda>m (k, v). AList.update k v m) (om_labels (cm_meta current)) (managedLabels own extraLabels);
                     patched = current\<lparr>cm_data := cfm_data spec, cm_meta := (cm_meta current)\<lparr>om_labels := labels\<rparr>\<rparr> in
              if map_eq (cm_data current) (cfm_data spec) \<and> map_eq (om_labels (cm_meta current)) labels then ret None
              else do {
                p \<leftarrow> put api (KPatch (WConfigMap current) (WConfigMap patched));
                ret (map_option (\<lambda>e. ConfigError (''patch workload ConfigMap '' @ key @ '': '' @ kmsg e)) p)
              }
      })"

definition delete_one :: "'q wlib \<Rightarrow> 'q wapi \<Rightarrow> owner \<Rightarrow> string list \<Rightarrow> ConfigMapObj \<Rightarrow> ('q, config_error option) wprog" where
  "delete_one lib api own desiredNames configMap =
     (if om_name (cm_meta configMap) \<in> set desiredNames \<or> wl_controllerOf lib (om_owners (cm_meta configMap)) \<noteq> Some (ow_uid own)
      then ret None
      else do {
        d \<leftarrow> put api (KDelete (WConfigMap configMap));
        ret (case d of None \<Rightarrow> None
             | Some e \<Rightarrow> if isNotFound e then None
                 else Some (ConfigError (''delete obsolete workload ConfigMap '' @ om_namespace (cm_meta configMap) @ ''/'' @
                        om_name (cm_meta configMap) @ '': '' @ kmsg e)))
      })"

definition deleteObsolete :: "'q wlib \<Rightarrow> 'q wapi \<Rightarrow> owner \<Rightarrow> string list \<Rightarrow> ('q, config_error option) wprog" where
  "deleteObsolete lib api own desiredNames = do {
     r \<leftarrow> list_obj WConfigMap (wa_listConfigMaps api) (ow_namespace own)
            [(LabelManagedConfig, ManagedValue), (LabelOwnerUID, ow_uid own)];
     case r of
       Inl e \<Rightarrow> ret (Some (ConfigError (''list workload ConfigMaps: '' @ kmsg e)))
     | Inr items \<Rightarrow> try_each (delete_one lib api own desiredNames) items
   }"

definition cfg_Reconcile ::
  "'q wlib \<Rightarrow> 'q wapi \<Rightarrow> owner \<Rightarrow> WorkloadConfigMap list \<Rightarrow> (string, string) gomap \<Rightarrow> ('q, config_error option) wprog" where
  "cfg_Reconcile lib api own configMaps extraLabels = do {
     e \<leftarrow> try_each (\<lambda>spec. cfg_upsert lib api own spec extraLabels) configMaps;
     case e of Some err \<Rightarrow> ret (Some err) | None \<Rightarrow> deleteObsolete lib api own (map cfm_name configMaps)
   }"

section \<open>What it writes\<close>

text \<open>
  A ConfigMap write is in bounds when it stays in the namespace of the workload and touches a
  ConfigMap the workload controls: a new one with a controller reference to it, a patch of one it
  already controls that leaves the owners alone, or the removal of a controlled one it no longer declares.
\<close>

fun config_write :: "'q wlib \<Rightarrow> owner \<Rightarrow> WorkloadConfigMap list \<Rightarrow> 'q wwrite \<Rightarrow> bool" where
  "config_write lib own decl (KCreate (WConfigMap c)) \<longleftrightarrow>
     om_namespace (cm_meta c) = ow_namespace own \<and>
     om_owners (cm_meta c) = [wl_newControllerRef lib (ow_kind own) (ow_name own) (ow_uid own)] \<and>
     (\<exists>d\<in>set decl. om_name (cm_meta c) = cfm_name d \<and> cm_data c = cfm_data d)"
| "config_write lib own decl (KPatch (WConfigMap b) (WConfigMap c)) \<longleftrightarrow>
     wl_controllerOf lib (om_owners (cm_meta b)) = Some (ow_uid own) \<and>
     om_owners (cm_meta c) = om_owners (cm_meta b) \<and> om_name (cm_meta c) = om_name (cm_meta b) \<and>
     cm_binaryData c = cm_binaryData b \<and> (\<exists>d\<in>set decl. cm_data c = cfm_data d)"
| "config_write lib own decl (KDelete (WConfigMap c)) \<longleftrightarrow>
     wl_controllerOf lib (om_owners (cm_meta c)) = Some (ow_uid own) \<and> om_name (cm_meta c) \<notin> cfm_name ` set decl"
| "config_write lib own decl _ \<longleftrightarrow> False"

fun config_event :: "'q wlib \<Rightarrow> owner \<Rightarrow> WorkloadConfigMap list \<Rightarrow> 'q wevent \<Rightarrow> bool" where
  "config_event lib own decl (Put w r) \<longleftrightarrow> config_write lib own decl w"
| "config_event lib own decl _ \<longleftrightarrow> True"

lemma cfg_upsert_only: "spec \<in> set decl \<Longrightarrow> only (config_event lib own decl) (cfg_upsert lib api own spec extra)"
  unfolding cfg_upsert_def Let_def by (intro only_rules) auto

lemma deleteObsolete_only: "only (config_event lib own decl) (deleteObsolete lib api own (map cfm_name decl))"
  unfolding deleteObsolete_def delete_one_def by (intro only_rules) auto

lemma cfg_Reconcile_only: "only (config_event lib own decl) (cfg_Reconcile lib api own decl extra)"
  unfolding cfg_Reconcile_def by (intro only_rules cfg_upsert_only deleteObsolete_only)

end
