(* ===== verification/RunOperator.thy ===== *)
theory RunOperator
  imports WorkloadConfig
begin

text \<open>
  The run controller of the compute operator: the handler contract and the pod template
  (\<^verbatim>\<open>compute-operator/internal/mlrun/handler\<close>), the \<open>(native, job)\<close> handler
  (\<^verbatim>\<open>handlers/nativejob\<close>) and the dispatcher (\<^verbatim>\<open>dispatcher\<close>): registry, status merge, spec
  fingerprint and \<open>Reconcile\<close>.

  An error is its text, no error is \<open>None\<close>. A panic of \<open>buildJob\<close> on a run without roles is
  the error text of the Go runtime; validation keeps it unreachable.
\<close>

section \<open>The handler contract\<close>

record MapStatusResult =
  msr_phase :: string
  msr_message :: string
  msr_startedAt :: "nat option"
  msr_finishedAt :: "nat option"
  msr_conditions :: "Condition list"
  msr_roles :: "RoleStatus list option"

record ReconcileResult =
  rrs_suspendCompleted :: bool
  rrs_suspendReason :: string
  rrs_warnings :: "string list"
  rrs_requeueAfterSeconds :: int

abbreviation zero_map_result :: "string \<Rightarrow> string \<Rightarrow> MapStatusResult" where
  "zero_map_result phase message \<equiv> \<lparr>msr_phase = phase, msr_message = message, msr_startedAt = None, msr_finishedAt = None,
     msr_conditions = [], msr_roles = None\<rparr>"

abbreviation zero_reconcile_result :: ReconcileResult where
  "zero_reconcile_result \<equiv> \<lparr>rrs_suspendCompleted = False, rrs_suspendReason = [], rrs_warnings = [], rrs_requeueAfterSeconds = 0\<rparr>"

text \<open>The \<open>any\<close> a handler hands from \<open>Reconcile\<close> to \<open>MapStatus\<close>.\<close>

datatype 'q underlying = UNil | UJob "'q Job" | UOther

record 'q run_handler =
  rh_key :: "string \<times> string"
  rh_validate :: "'q RunCR \<Rightarrow> field_error list"
  rh_reconcile :: "'q wapi \<Rightarrow> 'q RunCR \<Rightarrow> ('q, 'q underlying \<times> ReconcileResult \<times> string option) wprog"
  rh_mapStatus :: "'q underlying \<Rightarrow> MapStatusResult"
  rh_sweep :: "('q wapi \<Rightarrow> 'q RunCR \<Rightarrow> ('q, int \<times> string option) wprog) option"

abbreviation "PhasePending \<equiv> ''Pending''"
abbreviation "PhaseRunning \<equiv> ''Running''"
abbreviation "PhaseSucceeded \<equiv> ''Succeeded''"
abbreviation "PhaseFailed \<equiv> ''Failed''"
abbreviation "LabelRole \<equiv> ''compute.axisml.io/role''"
abbreviation "LabelSchedulerQuota \<equiv> ''scheduling.axisml.io/quota''"
abbreviation "AppliedSpecAnnotation \<equiv> ''compute.axisml.io/applied-spec''"
abbreviation "SchedulerName \<equiv> ''axisml-scheduler''"
abbreviation "RunRoleName \<equiv> ''worker''"

abbreviation rcr_labels :: "'q RunCR \<Rightarrow> (string, string) gomap" where
  "rcr_labels r \<equiv> om_labels (rcr_meta r)"
abbreviation rcr_namespace :: "'q RunCR \<Rightarrow> string" where
  "rcr_namespace r \<equiv> om_namespace (rcr_meta r)"
abbreviation rcr_name :: "'q RunCR \<Rightarrow> string" where
  "rcr_name r \<equiv> om_name (rcr_meta r)"

section \<open>The pod template\<close>

definition EnsureRequiredCRLabels :: "'q RunCR \<Rightarrow> field_error list" where
  "EnsureRequiredCRLabels run =
     (if rcr_labels run = []
      then [FieldRequired ''metadata.labels'' (''missing required labels ['' @ LabelRunID @ '' '' @ LabelQuota @ ''] (set by Compute)'')]
      else concat (map (\<lambda>key. if sget (rcr_labels run) key = []
             then [FieldRequired (''metadata.labels['' @ key @ '']'') ''Compute must set this label before creating the CR''] else [])
           [LabelRunID, LabelQuota]))"

definition missing_label :: "'q RunCR \<Rightarrow> string \<Rightarrow> string" where
  "missing_label run label = ''MLRun '' @ rcr_namespace run @ ''/'' @ rcr_name run @ '' is missing required label '' @ label"

definition InjectAxisMLLabels ::
  "'q PodTemplateSpec \<Rightarrow> 'q RunCR \<Rightarrow> 'q RoleSpec \<Rightarrow> (string, string) gomap \<Rightarrow> string + 'q PodTemplateSpec" where
  "InjectAxisMLLabels tmpl run role extraLabels =
     (let sch = rs_scheduling (rcr_spec run) in
      if sget (rcr_labels run) LabelRunID = [] then Inl (missing_label run LabelRunID)
      else if sget (rcr_labels run) LabelQuota = [] then Inl (missing_label run LabelQuota)
      else if sch_quota sch = [] then Inl (''MLRun '' @ rcr_namespace run @ ''/'' @ rcr_name run @ '' spec.scheduling.quota is empty'')
      else Inr (tmpl\<lparr>
        pts_labels := set_all (set_all (pts_labels tmpl)
          [(LabelRunID, sget (rcr_labels run) LabelRunID), (LabelQuota, sget (rcr_labels run) LabelQuota),
           (LabelRole, role_name role), (LabelSchedulerQuota, sch_quota sch)]) extraLabels,
        pts_schedulerName := SchedulerName,
        pts_priorityClassName := sch_priorityClass sch,
        pts_nodeSelector := set_all (pts_nodeSelector tmpl) (sch_nodeSelector sch),
        pts_tolerations := pts_tolerations tmpl @ sch_tolerations sch\<rparr>))"

definition BuildContainer :: "'q RoleSpec \<Rightarrow> 'q Container" where
  "BuildContainer role =
     (let t = role_template role in
      \<lparr>ct_name = ''main'', ct_image = pt_image t, ct_imagePullPolicy = pt_imagePullPolicy t, ct_command = pt_command t,
       ct_args = pt_args t, ct_env = pt_env t, ct_envFrom = pt_envFrom t, ct_workingDir = pt_workingDir t, ct_ports = [],
       ct_requests = pt_requests t, ct_limits = pt_limits t, ct_volumeMounts = pt_volumeMounts t\<rparr>)"

definition run_OwnerRef :: "'q RunCR \<Rightarrow> OwnerRef" where
  "run_OwnerRef run = \<lparr>own_apiVersion = ''axisml.io/v1alpha1'', own_kind = ''MLRun'', own_name = rcr_name run,
     own_uid = rcr_uid run, own_controller = True, own_blockOwnerDeletion = True\<rparr>"

section \<open>The (native, job) handler\<close>

definition jobName :: "'q RunCR \<Rightarrow> string" where
  "jobName run = Role (name_meta (rcr_meta run)) RunRoleName"

definition mount_errors :: "'q PodTemplate \<Rightarrow> field_error list" where
  "mount_errors t = concat (map (\<lambda>(i, vm).
     if vm_name vm \<in> vol_name ` set (pt_volumes t) then []
     else [FieldInvalid (index_path ''spec.roles[0].template.volumeMounts'' i @ ''.name'') (vm_name vm)
             ''no matching volume declared in template.volumes'']) (enumerate 0 (pt_volumeMounts t)))"

definition config_errors :: "'q wlib \<Rightarrow> string option \<Rightarrow> field_error list" where
  "config_errors lib config =
     (case config of None \<Rightarrow> [] | Some raw \<Rightarrow>
        if raw = [] then []
        else case wl_decodeJobConfig lib raw of
          Inl e \<Rightarrow> [FieldInvalid ''spec.backend.config'' raw (''invalid backend.config: '' @ e)]
        | Inr cfg \<Rightarrow> if jcf_completionMode cfg \<in> {[], ''NonIndexed'', ''Indexed''} then []
            else [FieldNotSupported ''spec.backend.config.completionMode'' (jcf_completionMode cfg) [''NonIndexed'', ''Indexed'']])"

definition job_Validate :: "'q wlib \<Rightarrow> 'q RunCR \<Rightarrow> field_error list" where
  "job_Validate lib run =
     EnsureRequiredCRLabels run @
     (case rs_roles (rcr_spec run) of
        [role] \<Rightarrow>
          (if role_name role \<noteq> RunRoleName then [FieldInvalid ''spec.roles[0].name'' (role_name role)
              (''(native, job) requires role name '' @ go_quote RunRoleName)] else []) @
          (if role_replicas role < 1 then [FieldInvalid ''spec.roles[0].replicas'' (show_int (role_replicas role)) ''must be >= 1''] else []) @
          (if pt_image (role_template role) = [] then [FieldRequired ''spec.roles[0].template.image'' ''image is required''] else []) @
          (if role_restartPolicy role \<in> {[], ''OnFailure'', ''Never''} then []
           else [FieldNotSupported ''spec.roles[0].restartPolicy'' (role_restartPolicy role) [''OnFailure'', ''Never'']]) @
          mount_errors (role_template role) @
          (if sch_quota (rs_scheduling (rcr_spec run)) = [] then [FieldRequired ''spec.scheduling.quota'' ''quota is required''] else []) @
          config_errors lib (be_config (rs_backend (rcr_spec run)))
      | roles \<Rightarrow> [FieldInvalid ''spec.roles'' (show_nat (length roles)) ''(native, job) requires exactly one role''])"

definition decodeConfig :: "'q wlib \<Rightarrow> 'q RunCR \<Rightarrow> string + JobConfig option" where
  "decodeConfig lib run =
     (case be_config (rs_backend (rcr_spec run)) of None \<Rightarrow> Inr None | Some raw \<Rightarrow>
        if raw = [] then Inr None
        else case wl_decodeJobConfig lib raw of
          Inl e \<Rightarrow> Inl (''decode backend.config: '' @ e) | Inr cfg \<Rightarrow> Inr (Some cfg))"

definition defaultRestartPolicy :: "string \<Rightarrow> string" where
  "defaultRestartPolicy p = (if p = [] then ''OnFailure'' else p)"

definition role_template_spec :: "'q RoleSpec \<Rightarrow> 'q PodTemplateSpec" where
  "role_template_spec role =
     \<lparr>pts_labels = [], pts_schedulerName = [], pts_priorityClassName = [], pts_nodeSelector = [], pts_tolerations = [],
      pts_restartPolicy = defaultRestartPolicy (role_restartPolicy role),
      pts_volumes = pt_volumes (role_template role), pts_containers = [BuildContainer role]\<rparr>"

definition new_job :: "'q RunCR \<Rightarrow> 'q RoleSpec \<Rightarrow> JobConfig option \<Rightarrow> 'q PodTemplateSpec \<Rightarrow> 'q Job" where
  "new_job run role cfg tmpl =
     (let policy = rs_runPolicy (rcr_spec run) in
      \<lparr>jb_meta = \<lparr>om_namespace = rcr_namespace run, om_name = jobName run, om_labels = pts_labels tmpl, om_annotations = [],
         om_owners = [run_OwnerRef run]\<rparr>,
       jb_parallelism = Some (role_replicas role), jb_completions = Some (role_replicas role), jb_template = tmpl,
       jb_activeDeadlineSeconds = rp_activeDeadlineSeconds policy,
       jb_ttlSecondsAfterFinished = rp_ttlSecondsAfterFinished policy,
       jb_backoffLimit = rp_backoffLimit policy,
       jb_completionMode = (case cfg of None \<Rightarrow> None | Some c \<Rightarrow> if jcf_completionMode c = [] then None else Some (jcf_completionMode c)),
       jb_podFailurePolicy = (case cfg of None \<Rightarrow> None | Some c \<Rightarrow> jcf_podFailurePolicy c),
       jb_suspend = (if rp_suspend policy then Some True else None),
       jb_status = \<lparr>js_startTime = None, js_completionTime = None, js_active = 0, js_succeeded = 0, js_failed = 0, js_conditions = []\<rparr>\<rparr>)"

definition buildJob :: "'q wlib \<Rightarrow> 'q RunCR \<Rightarrow> string + 'q Job" where
  "buildJob lib run =
     (case rs_roles (rcr_spec run) of
        [] \<Rightarrow> Inl ''runtime error: index out of range [0] with length 0''
      | role # _ \<Rightarrow>
          (case decodeConfig lib run of Inl e \<Rightarrow> Inl e | Inr cfg \<Rightarrow>
           case InjectAxisMLLabels (role_template_spec role) run role [] of
             Inl e \<Rightarrow> Inl e | Inr tmpl \<Rightarrow> Inr (new_job run role cfg tmpl)))"

abbreviation suspend_done :: ReconcileResult where
  "suspend_done \<equiv> zero_reconcile_result\<lparr>rrs_suspendCompleted := True, rrs_suspendReason := ReasonCancelRequested\<rparr>"

definition create_job ::
  "'q wlib \<Rightarrow> 'q wapi \<Rightarrow> 'q RunCR \<Rightarrow> ('q, 'q underlying \<times> ReconcileResult \<times> string option) wprog" where
  "create_job lib api run =
     (case buildJob lib run of
        Inl e \<Rightarrow> ret (UNil, zero_reconcile_result, Some e)
      | Inr want \<Rightarrow> do {
          c \<leftarrow> put_back (wa_jobAnswer api) api (KCreate (WJob want)) want;
          ret (case c of Inl e \<Rightarrow> (UNil, zero_reconcile_result, Some (''create Job: '' @ kmsg e))
               | Inr job \<Rightarrow> (UJob job, zero_reconcile_result, None))
        })"

definition job_Reconcile ::
  "'q wlib \<Rightarrow> 'q wapi \<Rightarrow> 'q RunCR \<Rightarrow> ('q, 'q underlying \<times> ReconcileResult \<times> string option) wprog" where
  "job_Reconcile lib api run = do {
     r \<leftarrow> get_obj WJob (wa_getJob api) (rcr_namespace run) (jobName run);
     case r of
       Inl e \<Rightarrow>
         if isNotFound e then
           if rp_suspend (rs_runPolicy (rcr_spec run)) then ret (UNil, suspend_done, None)
           else create_job lib api run
         else ret (UNil, zero_reconcile_result, Some (kmsg e))
     | Inr existing \<Rightarrow>
         if rp_suspend (rs_runPolicy (rcr_spec run)) then
           if jb_suspend existing \<noteq> Some True then
             let patched = existing\<lparr>jb_suspend := Some True\<rparr> in do {
               p \<leftarrow> put_back (wa_jobAnswer api) api (KPatch (WJob existing) (WJob patched)) patched;
               ret (case p of Inl e \<Rightarrow> (UJob patched, zero_reconcile_result, Some (''patch Job suspend: '' @ kmsg e))
                    | Inr job \<Rightarrow> (UJob job, suspend_done, None))
             }
           else ret (UJob existing, suspend_done, None)
         else ret (UJob existing, zero_reconcile_result, None)
   }"

definition deref32 :: "int option \<Rightarrow> int" where
  "deref32 p = (case p of None \<Rightarrow> 0 | Some n \<Rightarrow> n)"

text \<open>The loop over the conditions of a Job: the first true \<open>Complete\<close> or \<open>Failed\<close> decides.\<close>

fun job_verdict :: "MapStatusResult \<Rightarrow> JobCondition list \<Rightarrow> MapStatusResult option" where
  "job_verdict res [] = None"
| "job_verdict res (c # cs) =
     (let finished = (if msr_finishedAt res = None then Some (jc_lastTransitionTime c) else msr_finishedAt res) in
      if jc_status c \<noteq> ''True'' then job_verdict res cs
      else if jc_type c = ''Complete'' then Some (res\<lparr>msr_phase := PhaseSucceeded, msr_finishedAt := finished\<rparr>)
      else if jc_type c = ''Failed''
      then Some (res\<lparr>msr_phase := PhaseFailed, msr_message := jc_message c, msr_finishedAt := finished\<rparr>)
      else job_verdict res cs)"

fun job_MapStatus :: "'q underlying \<Rightarrow> MapStatusResult" where
  "job_MapStatus UNil = zero_map_result PhasePending []"
| "job_MapStatus UOther = zero_map_result PhaseFailed ''internal: unexpected underlying type for (native, job)''"
| "job_MapStatus (UJob job) =
     (let st = jb_status job;
          res = \<lparr>msr_phase = PhasePending, msr_message = [], msr_startedAt = js_startTime st, msr_finishedAt = js_completionTime st,
            msr_conditions = [], msr_roles = Some [\<lparr>rls_name = RunRoleName, rls_replicas = deref32 (jb_parallelism job),
              rls_active = js_active st, rls_ready = 0, rls_succeeded = js_succeeded st, rls_failed = js_failed st\<rparr>]\<rparr>
      in case job_verdict res (js_conditions st) of
           Some done \<Rightarrow> done
         | None \<Rightarrow> if js_active st > 0 then res\<lparr>msr_phase := PhaseRunning\<rparr> else res)"

definition nativejob :: "'q wlib \<Rightarrow> 'q run_handler" where
  "nativejob lib = \<lparr>rh_key = (''native'', ''job''), rh_validate = job_Validate lib, rh_reconcile = job_Reconcile lib,
     rh_mapStatus = job_MapStatus, rh_sweep = None\<rparr>"

section \<open>The dispatcher: registry, status, fingerprint\<close>

type_synonym 'q run_registry = "(string \<times> string, 'q run_handler) gomap"

text \<open>\<open>Register\<close>: a second handler for a key panics, which is \<open>None\<close>.\<close>

definition run_Register :: "'q run_handler \<Rightarrow> 'q run_registry \<Rightarrow> 'q run_registry option" where
  "run_Register h reg = (case map_of reg (rh_key h) of Some _ \<Rightarrow> None | None \<Rightarrow> Some (AList.update (rh_key h) h reg))"

definition run_Lookup :: "'q run_registry \<Rightarrow> string \<Rightarrow> string \<Rightarrow> 'q run_handler option" where
  "run_Lookup reg backend engine = map_of reg (backend, engine)"

definition isTerminal :: "string \<Rightarrow> bool" where
  "isTerminal p \<longleftrightarrow> p = PhaseSucceeded \<or> p = PhaseFailed"

definition merge_message :: "string \<Rightarrow> MapStatusResult \<Rightarrow> ReconcileResult \<Rightarrow> string" where
  "merge_message old mapRes recRes =
     (let message = (if msr_message mapRes \<noteq> [] then msr_message mapRes else old); w = join ''; '' (rrs_warnings recRes) in
      if rrs_warnings recRes = [] then message
      else if message = [] then w else message @ '' | warnings: '' @ w)"

definition suspended_condition :: "ReconcileResult \<Rightarrow> Condition" where
  "suspended_condition recRes = \<lparr>mc_type = ConditionSuspended, mc_status = ''True'', mc_observedGeneration = 0, mc_lastTransitionTime = 0,
     mc_reason = (if rrs_suspendReason recRes = [] then ReasonCancelRequested else rrs_suspendReason recRes),
     mc_message = ''Handler completed suspend; underlying resources paused or torn down''\<rparr>"

definition mergeStatus ::
  "(Condition list \<Rightarrow> Condition \<Rightarrow> Condition list) \<Rightarrow> RunCRStatus \<Rightarrow> MapStatusResult \<Rightarrow> ReconcileResult \<Rightarrow> int \<Rightarrow> RunCRStatus" where
  "mergeStatus setCondition existing mapRes recRes generation =
     (let phase = (if isTerminal (rcs_phase existing) then rcs_phase existing else msr_phase mapRes);
          conds = foldl setCondition (rcs_conditions existing) (msr_conditions mapRes)
      in existing\<lparr>
        rcs_observedGeneration := generation,
        rcs_phase := phase,
        rcs_message := merge_message (rcs_message existing) mapRes recRes,
        rcs_startedAt := (case msr_startedAt mapRes of None \<Rightarrow> rcs_startedAt existing
          | Some t \<Rightarrow> (case rcs_startedAt existing of None \<Rightarrow> Some t | Some s \<Rightarrow> if t < s then Some t else Some s)),
        rcs_finishedAt := (case msr_finishedAt mapRes of None \<Rightarrow> rcs_finishedAt existing | Some t \<Rightarrow> Some t),
        rcs_roles := (case msr_roles mapRes of None \<Rightarrow> rcs_roles existing | Some rs \<Rightarrow> rs),
        rcs_conditions := (if rrs_suspendCompleted recRes \<and> \<not> isTerminal phase
           then setCondition conds (suspended_condition recRes) else conds)\<rparr>)"

text \<open>\<open>writeStatus\<close>: the error, or the run as the caller holds it afterwards.\<close>

definition run_writeStatus ::
  "'q wapi \<Rightarrow> 'q RunCR \<Rightarrow> MapStatusResult \<Rightarrow> ReconcileResult \<Rightarrow> ('q, string + 'q RunCR) wprog" where
  "run_writeStatus api run mapRes recRes = do {
     t \<leftarrow> clock api;
     let next = mergeStatus (wa_setCondition api t) (rcr_status run) mapRes recRes (rcr_generation run);
     if rcr_status run = next then ret (Inr run)
     else do {
       let updated = run\<lparr>rcr_status := next\<rparr>;
       p \<leftarrow> put_back (wa_runAnswer api) api (KStatus (WRun run) (WRun updated)) updated;
       ret (case p of Inl e \<Rightarrow> Inl (''patch MLRun status: '' @ kmsg e) | Inr run' \<Rightarrow> Inr run')
     }
   }"

definition specFingerprint :: "'q wlib \<Rightarrow> 'q RunCR \<Rightarrow> string" where
  "specFingerprint lib run =
     (let spec = rcr_spec run; snapshot = spec\<lparr>rs_runPolicy := (rs_runPolicy spec)\<lparr>rp_suspend := False\<rparr>\<rparr> in
      case wl_marshalRun lib snapshot of Inl e \<Rightarrow> ''marshal-error:'' @ e | Inr raw \<Rightarrow> hex_encode (sha256 raw))"

text \<open>\<open>assertSpecImmutable\<close>: the error, or the run with the annotation recorded.\<close>

definition assertSpecImmutable :: "'q wlib \<Rightarrow> 'q wapi \<Rightarrow> 'q RunCR \<Rightarrow> ('q, (string \<times> 'q RunCR) + 'q RunCR) wprog" where
  "assertSpecImmutable lib api run =
     (let want = specFingerprint lib run; existing = sget (om_annotations (rcr_meta run)) AppliedSpecAnnotation in
      if existing = [] then
        let anchored = run\<lparr>rcr_meta := (rcr_meta run)\<lparr>om_annotations := AList.update AppliedSpecAnnotation want (om_annotations (rcr_meta run))\<rparr>\<rparr> in do {
          p \<leftarrow> put_back (wa_runAnswer api) api (KPatch (WRun run) (WRun anchored)) anchored;
          ret (case p of Inl e \<Rightarrow> Inl (''anchor applied-spec annotation: '' @ kmsg e, anchored) | Inr run' \<Rightarrow> Inr run')
        }
      else if existing \<noteq> want then ret (Inl (''immutable spec fields changed after creation (everything except runPolicy.suspend); fingerprint was '' @
             go_quote existing @ '', attempted '' @ go_quote want, run))
      else ret (Inr run))"

section \<open>Reconcile\<close>

type_synonym run_pass = "int \<times> string option"

text \<open>A failure that is final: phase \<open>Failed\<close>, no retry. A failure that is retried keeps the phase.\<close>

definition fail_run :: "'q wapi \<Rightarrow> 'q RunCR \<Rightarrow> string \<Rightarrow> ('q, run_pass) wprog" where
  "fail_run api run message = do {
     w \<leftarrow> run_writeStatus api run (zero_map_result PhaseFailed message) zero_reconcile_result;
     ret (0, case w of Inl e \<Rightarrow> Some e | Inr _ \<Rightarrow> None)
   }"

definition retry_run :: "'q wapi \<Rightarrow> 'q RunCR \<Rightarrow> string \<Rightarrow> string \<Rightarrow> ('q, run_pass) wprog" where
  "retry_run api run message err = do {
     _ \<leftarrow> run_writeStatus api run
       (zero_map_result (if rcs_phase (rcr_status run) = [] then PhasePending else rcs_phase (rcr_status run)) message) zero_reconcile_result;
     ret (0, Some err)
   }"

definition terminal_pass :: "'q wapi \<Rightarrow> 'q run_handler option \<Rightarrow> 'q RunCR \<Rightarrow> ('q, run_pass) wprog" where
  "terminal_pass api h run = do {
     w \<leftarrow> (if rcs_observedGeneration (rcr_status run) \<noteq> rcr_generation run
          then run_writeStatus api run (zero_map_result (rcs_phase (rcr_status run)) []) zero_reconcile_result
          else ret (Inr run));
     case w of Inl e \<Rightarrow> ret (0, Some e)
     | Inr run' \<Rightarrow>
         (case Option.bind h rh_sweep of None \<Rightarrow> ret (0, None)
          | Some sweep \<Rightarrow> do {
              s \<leftarrow> sweep api run';
              case s of (requeueAfter, err) \<Rightarrow>
                (case err of Some e \<Rightarrow> ret (0, Some e) | None \<Rightarrow> ret (max 0 requeueAfter, None))
            })
   }"

definition run_owner_of :: "'q RunCR \<Rightarrow> owner" where
  "run_owner_of run = \<lparr>ow_namespace = rcr_namespace run, ow_name = rcr_name run, ow_uid = rcr_uid run, ow_kind = ''MLRun''\<rparr>"

definition handle_run :: "'q wapi \<Rightarrow> 'q run_handler \<Rightarrow> 'q RunCR \<Rightarrow> ('q, run_pass) wprog" where
  "handle_run api h run = do {
     r \<leftarrow> rh_reconcile h api run;
     case r of (live, recRes, err) \<Rightarrow>
       (case err of
          Some e \<Rightarrow> retry_run api run (''reconcile error: '' @ e) e
        | None \<Rightarrow> do {
            w \<leftarrow> run_writeStatus api run (rh_mapStatus h live) recRes;
            ret (case w of Inl e \<Rightarrow> (0, Some e) | Inr _ \<Rightarrow> (max 0 (rrs_requeueAfterSeconds recRes), None))
          })
   }"

definition active_pass :: "'q wlib \<Rightarrow> 'q wapi \<Rightarrow> Backend \<Rightarrow> 'q run_handler option \<Rightarrow> 'q RunCR \<Rightarrow> ('q, run_pass) wprog" where
  "active_pass lib api backend handler run =
     (case handler of
        None \<Rightarrow> fail_run api run (''no handler for backend='' @ be_name backend @ '' engine='' @ be_engine backend)
      | Some h \<Rightarrow>
          if rh_validate h run \<noteq> [] then fail_run api run (wl_aggregate lib (rh_validate h run))
          else let cerrs = cfg_Validate lib (rs_configMaps (rcr_spec run)) ''spec.configMaps'' in
          if cerrs \<noteq> [] then fail_run api run (wl_aggregate lib cerrs)
          else do {
            c \<leftarrow> cfg_Reconcile lib api (run_owner_of run) (rs_configMaps (rcr_spec run))
                   [(LabelRunID, sget (rcr_labels run) LabelRunID), (LabelTenant, sget (rcr_labels run) LabelTenant)];
            case c of
              Some e \<Rightarrow>
                if IsOwnershipConflict e then fail_run api run (''reconcile ConfigMaps: '' @ config_error_text e)
                else retry_run api run (''reconcile ConfigMaps: '' @ config_error_text e) (config_error_text e)
            | None \<Rightarrow> handle_run api h run
          })"

definition run_Reconcile :: "'q wlib \<Rightarrow> 'q wapi \<Rightarrow> 'q run_registry \<Rightarrow> string \<Rightarrow> string \<Rightarrow> ('q, run_pass) wprog" where
  "run_Reconcile lib api reg ns name = do {
     r \<leftarrow> get_obj WRun (wa_getRun api) ns name;
     case r of
       Inl e \<Rightarrow> ret (0, if isNotFound e then None else Some (kmsg e))
     | Inr run \<Rightarrow>
         let backend = rs_backend (rcr_spec run); h = run_Lookup reg (be_name backend) (be_engine backend) in
         if isTerminal (rcs_phase (rcr_status run)) then terminal_pass api h run
         else do {
           a \<leftarrow> assertSpecImmutable lib api run;
           case a of
             Inl (err, run') \<Rightarrow> fail_run api run' err
           | Inr run' \<Rightarrow> active_pass lib api backend h run'
         }
   }"

text \<open>The registry \<open>cmd/main.go\<close> builds.\<close>

definition main_registry :: "'q wlib \<Rightarrow> 'q run_registry" where
  "main_registry lib = [((''native'', ''job''), nativejob lib)]"

end
