(* ===== verification/ServiceOperator.thy ===== *)
theory ServiceOperator
  imports RunOperator
begin

text \<open>
  The service controller of the compute operator: the dispatcher
  (\<^verbatim>\<open>compute-operator/internal/mlservice/dispatcher\<close>) with its immutable-spec baseline and status
  writer, and the \<open>(native, deployment)\<close> and \<open>(native, statefulset)\<close> handlers
  (\<^verbatim>\<open>handler/nativedeployment\<close>, \<^verbatim>\<open>handler/nativestatefulset\<close>), which share their label, port,
  status and upsert code line by line and are one set of definitions here.

  An index panic on a service without roles is the error text of the Go runtime, and \<open>None\<close> in
  \<open>MapStatus\<close>; validation keeps both unreachable.
\<close>

section \<open>The handler contract\<close>

record Validation =
  val_errors :: "string list"
  val_warnings :: "string list"

record StatusUpdate =
  sup_phase :: string
  sup_message :: string
  sup_endpoint :: string
  sup_readyReplicas :: int
  sup_selector :: string
  sup_conditions :: "Condition list"
  sup_roles :: "RoleStatus list"

datatype child_kind = KindDeployment | KindStatefulSet | KindService | KindRoute

record 'q svc_handler =
  sh_validate :: "'q MLServiceSpec \<Rightarrow> Validation"
  sh_reconcile :: "'q wapi \<Rightarrow> 'q SvcCR \<Rightarrow> ('q, string option) wprog"
  sh_mapStatus :: "'q SvcCR \<Rightarrow> 'q wobj list \<Rightarrow> StatusUpdate option"
  sh_watchTargets :: "child_kind list"

abbreviation "PhaseReady \<equiv> ''Ready''"
abbreviation "PhaseDegraded \<equiv> ''Degraded''"
abbreviation "SvcRoleName \<equiv> ''predictor''"
abbreviation "index_panic \<equiv> ''runtime error: index out of range [0] with length 0''"

abbreviation scr_labels :: "'q SvcCR \<Rightarrow> (string, string) gomap" where
  "scr_labels s \<equiv> om_labels (scr_meta s)"
abbreviation scr_namespace :: "'q SvcCR \<Rightarrow> string" where
  "scr_namespace s \<equiv> om_namespace (scr_meta s)"

section \<open>Validation of a native service\<close>

definition port_errors :: "nat \<Rightarrow> string list \<Rightarrow> PodPort \<Rightarrow> string list" where
  "port_errors i seen p =
     (let path = index_path ''roles[0].template.ports'' i in
      (if pp_name p = [] then [path @ ''.name is required''] else []) @
      (if pp_name p \<in> set seen then [path @ '': duplicate name '' @ go_quote (pp_name p)] else []) @
      (if pp_containerPort p \<le> 0 then [path @ ''.containerPort must be >0''] else []))"

fun ports_errors :: "nat \<Rightarrow> string list \<Rightarrow> PodPort list \<Rightarrow> string list" where
  "ports_errors i seen [] = []"
| "ports_errors i seen (p # ps) = port_errors i seen p @ ports_errors (Suc i) (pp_name p # seen) ps"

definition svc_mount_errors :: "'q PodTemplate \<Rightarrow> string list" where
  "svc_mount_errors t = concat (map (\<lambda>(i, vm).
     if vm_name vm \<in> vol_name ` set (pt_volumes t) then []
     else [index_path ''roles[0].template.volumeMounts'' i @ ''.name '' @ go_quote (vm_name vm) @ '' has no matching volume''])
     (enumerate 0 (pt_volumeMounts t)))"

definition route_errors :: "Route \<Rightarrow> 'q RoleSpec \<Rightarrow> string list" where
  "route_errors r role =
     (let ports = pt_ports (role_template role) in
      (if length ports > 1 \<and> rou_portName r = [] then [''route.portName must be set when the role exposes multiple ports''] else []) @
      (if rou_portName r \<noteq> [] \<and> rou_portName r \<notin> pp_name ` set ports
       then [''route.portName '' @ go_quote (rou_portName r) @ '' does not match any role port''] else []) @
      (if rou_targetRole r \<noteq> [] \<and> rou_targetRole r \<noteq> role_name role
       then [''route.targetRole '' @ go_quote (rou_targetRole r) @ '' does not match the only role '' @ go_quote (role_name role)] else []) @
      (case rou_authType r of Some t \<Rightarrow> if t \<noteq> [] \<and> t \<noteq> ''none''
         then [''route.auth is not yet supported (SecurityPolicy derivation pending); use auth.type=none''] else [] | None \<Rightarrow> []))"

definition route_warnings :: "Route \<Rightarrow> string list" where
  "route_warnings r =
     (if rou_rateLimit r \<noteq> None \<or> rou_timeout r \<noteq> []
      then [''route.rateLimit/timeout are not yet wired; BackendTrafficPolicy creation deferred to a follow-up''] else [])"

definition enabled_route :: "'q MLServiceSpec \<Rightarrow> Route option" where
  "enabled_route spec = (case ss_route spec of Some r \<Rightarrow> if rou_enabled r then Some r else None | None \<Rightarrow> None)"

text \<open>The checks both handlers make, up to the handler's own check of \<open>backend.config\<close>.\<close>

definition native_errors :: "string \<Rightarrow> 'q MLServiceSpec \<Rightarrow> 'q RoleSpec \<Rightarrow> string list" where
  "native_errors what spec role =
     (let t = role_template role in
      (if role_name role \<noteq> SvcRoleName then [what @ '' role must be named '' @ go_quote SvcRoleName @ ''; got '' @ go_quote (role_name role)] else []) @
      (if role_replicas role < 0 then [''roles[0].replicas must be >=0; got '' @ show_int (role_replicas role)] else []) @
      (if pt_image t = [] then [''roles[0].template.image is required''] else []) @
      (if pt_ports t = [] then [''roles[0].template.ports must declare at least one port''] else []) @
      ports_errors 0 [] (pt_ports t) @
      (if sch_quota (ss_scheduling spec) = [] then [''scheduling.quota is required''] else []) @
      svc_mount_errors t)"

definition native_Validate ::
  "string \<Rightarrow> ('q MLServiceSpec \<Rightarrow> string list) \<Rightarrow> ('q MLServiceSpec \<Rightarrow> string list) \<Rightarrow> 'q MLServiceSpec \<Rightarrow> Validation" where
  "native_Validate what config_errs config_warns spec =
     (case ss_roles spec of
        [role] \<Rightarrow>
          \<lparr>val_errors = native_errors what spec role @ config_errs spec @
             (case enabled_route spec of None \<Rightarrow> [] | Some r \<Rightarrow> route_errors r role),
           val_warnings = config_warns spec @ (case enabled_route spec of None \<Rightarrow> [] | Some r \<Rightarrow> route_warnings r)\<rparr>
      | roles \<Rightarrow> \<lparr>val_errors = [what @ '' requires exactly one role; got '' @ show_nat (length roles)], val_warnings = []\<rparr>)"

definition has_config :: "'q MLServiceSpec \<Rightarrow> bool" where
  "has_config spec \<longleftrightarrow> (case be_config (ss_backend spec) of Some raw \<Rightarrow> raw \<noteq> [] | None \<Rightarrow> False)"

definition deployment_Validate :: "'q MLServiceSpec \<Rightarrow> Validation" where
  "deployment_Validate = native_Validate ''(native, deployment)'' (\<lambda>_. [])
     (\<lambda>spec. if has_config spec then [''(native, deployment) ignores backend.config; reserved for future fields''] else [])"

definition parseBackendConfig :: "'q wlib \<Rightarrow> string option \<Rightarrow> string + SetConfig" where
  "parseBackendConfig lib raw =
     (case raw of
        None \<Rightarrow> Inr \<lparr>scf_podManagementPolicy = [], scf_serviceName = []\<rparr>
      | Some r \<Rightarrow>
          if r = [] then Inr \<lparr>scf_podManagementPolicy = [], scf_serviceName = []\<rparr>
          else case wl_decodeSetConfig lib r of
            Inl e \<Rightarrow> Inl e
          | Inr c \<Rightarrow>
              if scf_podManagementPolicy c \<notin> {[], ''OrderedReady'', ''Parallel''}
              then Inl (''podManagementPolicy '' @ go_quote (scf_podManagementPolicy c) @ '' must be OrderedReady or Parallel'')
              else if scf_serviceName c \<noteq> [] \<and> wl_isDNS1123Label lib (scf_serviceName c) \<noteq> []
              then Inl (''serviceName '' @ go_quote (scf_serviceName c) @ '' invalid: '' @ join ''; '' (wl_isDNS1123Label lib (scf_serviceName c)))
              else Inr c)"

definition statefulset_Validate :: "'q wlib \<Rightarrow> 'q MLServiceSpec \<Rightarrow> Validation" where
  "statefulset_Validate lib = native_Validate ''(native, statefulset)''
     (\<lambda>spec. case parseBackendConfig lib (be_config (ss_backend spec)) of Inl e \<Rightarrow> [''backend.config invalid: '' @ e] | Inr _ \<Rightarrow> [])
     (\<lambda>spec. if ss_progressDeadlineSeconds spec \<noteq> None then [''runPolicy.progressDeadlineSeconds has no StatefulSet equivalent; ignored''] else [])"

section \<open>Rendered objects\<close>

definition selectorLabels :: "'q SvcCR \<Rightarrow> string \<Rightarrow> (string, string) gomap" where
  "selectorLabels svc role = [(LabelServiceID, sget (scr_labels svc) LabelServiceID), (LabelRole, role)]"

definition add_label :: "'q SvcCR \<Rightarrow> string \<Rightarrow> (string, string) gomap \<Rightarrow> (string, string) gomap" where
  "add_label svc key m = (if sget (scr_labels svc) key \<noteq> [] then AList.update key (sget (scr_labels svc) key) m else m)"

definition podTemplateLabels :: "'q SvcCR \<Rightarrow> string \<Rightarrow> (string, string) gomap" where
  "podTemplateLabels svc role = add_label svc LabelTenant (add_label svc LabelQuota
     (AList.update LabelSchedulerQuota (sch_quota (ss_scheduling (scr_spec svc))) (selectorLabels svc role)))"

definition resourceLabels :: "'q SvcCR \<Rightarrow> string \<Rightarrow> (string, string) gomap" where
  "resourceLabels svc role = add_label svc LabelQuota (add_label svc LabelTenant (selectorLabels svc role))"

definition svc_container :: "EnvVar list \<Rightarrow> 'q RoleSpec \<Rightarrow> 'q Container" where
  "svc_container extraEnv role =
     (let t = role_template role in
      \<lparr>ct_name = ''main'', ct_image = pt_image t, ct_imagePullPolicy = pt_imagePullPolicy t, ct_command = pt_command t,
       ct_args = pt_args t, ct_env = pt_env t @ extraEnv, ct_envFrom = pt_envFrom t, ct_workingDir = pt_workingDir t, ct_ports = pt_ports t,
       ct_requests = pt_requests t, ct_limits = pt_limits t, ct_volumeMounts = pt_volumeMounts t\<rparr>)"

definition svc_template :: "EnvVar list \<Rightarrow> 'q SvcCR \<Rightarrow> 'q RoleSpec \<Rightarrow> 'q PodTemplateSpec" where
  "svc_template extraEnv svc role =
     (let sch = ss_scheduling (scr_spec svc) in
      \<lparr>pts_labels = podTemplateLabels svc (role_name role), pts_schedulerName = SchedulerName, pts_priorityClassName = sch_priorityClass sch,
       pts_nodeSelector = sch_nodeSelector sch, pts_tolerations = sch_tolerations sch, pts_restartPolicy = [],
       pts_volumes = pt_volumes (role_template role), pts_containers = [svc_container extraEnv role]\<rparr>)"

definition svc_object_meta :: "'q SvcCR \<Rightarrow> 'q RoleSpec \<Rightarrow> string \<Rightarrow> objmeta" where
  "svc_object_meta svc role name = \<lparr>om_namespace = scr_namespace svc, om_name = name,
     om_labels = resourceLabels svc (role_name role), om_annotations = [], om_owners = []\<rparr>"

abbreviation svc_Workload :: "'q SvcCR \<Rightarrow> string" where
  "svc_Workload svc \<equiv> Workload (name_meta (scr_meta svc))"

abbreviation svc_Role :: "'q SvcCR \<Rightarrow> 'q RoleSpec \<Rightarrow> string" where
  "svc_Role svc role \<equiv> Role (name_meta (scr_meta svc)) (role_name role)"

definition buildDeployment :: "'q SvcCR \<Rightarrow> 'q RoleSpec \<Rightarrow> 'q WorkloadSet" where
  "buildDeployment svc role =
     \<lparr>ws_meta = svc_object_meta svc role (svc_Role svc role),
      ws_spec = \<lparr>wss_replicas = role_replicas role, wss_selector = selectorLabels svc (role_name role),
        wss_template = svc_template [] svc role, wss_progressDeadlineSeconds = ss_progressDeadlineSeconds (scr_spec svc),
        wss_serviceName = [], wss_podManagementPolicy = [], wss_rest = []\<rparr>,
      ws_readyReplicas = 0, ws_conditions = []\<rparr>"

definition defaultedServiceName :: "'q SvcCR \<Rightarrow> SetConfig \<Rightarrow> string" where
  "defaultedServiceName svc c = (if scf_serviceName c \<noteq> [] then scf_serviceName c else svc_Workload svc)"

definition defaultedPodManagementPolicy :: "SetConfig \<Rightarrow> string" where
  "defaultedPodManagementPolicy c = (if scf_podManagementPolicy c = [] then ''OrderedReady'' else scf_podManagementPolicy c)"

definition replica_index_env :: EnvVar where
  "replica_index_env = \<lparr>ev_name = ''AXISML_REPLICA_INDEX'', ev_value = [],
     ev_valueFrom = Some \<lparr>evs_configMapKeyRef = None, evs_rest = ''fieldRef v1 metadata.labels['apps.kubernetes.io/pod-index']''\<rparr>\<rparr>"

definition buildStatefulSet :: "'q SvcCR \<Rightarrow> SetConfig \<Rightarrow> 'q RoleSpec \<Rightarrow> 'q WorkloadSet" where
  "buildStatefulSet svc cfg role =
     \<lparr>ws_meta = svc_object_meta svc role (svc_Role svc role),
      ws_spec = \<lparr>wss_replicas = role_replicas role, wss_selector = selectorLabels svc (role_name role),
        wss_template = svc_template [replica_index_env] svc role, wss_progressDeadlineSeconds = None,
        wss_serviceName = defaultedServiceName svc cfg, wss_podManagementPolicy = defaultedPodManagementPolicy cfg, wss_rest = []\<rparr>,
      ws_readyReplicas = 0, ws_conditions = []\<rparr>"

definition service_ports :: "'q RoleSpec \<Rightarrow> ServicePort list" where
  "service_ports role = map (\<lambda>p. \<lparr>svp_name = pp_name p, svp_port = pp_containerPort p, svp_targetPort = pp_containerPort p,
     svp_protocol = (if pp_protocol p = [] then ''TCP'' else pp_protocol p)\<rparr>) (pt_ports (role_template role))"

definition build_kservice :: "'q SvcCR \<Rightarrow> 'q RoleSpec \<Rightarrow> string \<Rightarrow> string \<Rightarrow> KService" where
  "build_kservice svc role name clusterIP =
     \<lparr>ksv_meta = svc_object_meta svc role name,
      ksv_spec = \<lparr>kss_type = ''ClusterIP'', kss_clusterIP = clusterIP, kss_clusterIPs = [], kss_selector = selectorLabels svc (role_name role),
        kss_ports = service_ports role, kss_rest = []\<rparr>\<rparr>"

definition buildService :: "'q SvcCR \<Rightarrow> 'q RoleSpec \<Rightarrow> KService" where
  "buildService svc role = build_kservice svc role (svc_Workload svc) []"

definition buildHeadlessService :: "'q SvcCR \<Rightarrow> SetConfig \<Rightarrow> 'q RoleSpec \<Rightarrow> KService" where
  "buildHeadlessService svc cfg role = build_kservice svc role (defaultedServiceName svc cfg) ''None''"

definition pickRoutePort :: "'q RoleSpec \<Rightarrow> string \<Rightarrow> int" where
  "pickRoutePort role portName =
     (let ports = pt_ports (role_template role); first = (case ports of p # _ \<Rightarrow> pp_containerPort p | [] \<Rightarrow> 0) in
      if portName = [] then first
      else case find (\<lambda>p. pp_name p = portName) ports of Some p \<Rightarrow> pp_containerPort p | None \<Rightarrow> first)"

definition svc_buildHTTPRoute :: "'q SvcCR \<Rightarrow> 'q RoleSpec \<Rightarrow> Route \<Rightarrow> string \<Rightarrow> HTTPRoute" where
  "svc_buildHTTPRoute svc role r backendName =
     \<lparr>htr_meta = svc_object_meta svc role (svc_Workload svc),
      htr_spec = \<lparr>hrs_parentNamespace = ''axisml-infra'', hrs_parentName = ''axisml-gateway'',
        hrs_hostnames = (if rou_hostname r = [] then [] else [rou_hostname r]),
        hrs_path = (if rou_path r = [] then ''/'' else rou_path r),
        hrs_backendRefs = [\<lparr>brf_name = backendName, brf_kind = ''Service'', brf_port = pickRoutePort role (rou_portName r), brf_weight = None\<rparr>],
        hrs_rest = []\<rparr>,
      htr_parents = []\<rparr>"

section \<open>Upserts\<close>

abbreviation "appliedSpecHashAnnotation \<equiv> ''compute.axisml.io/applied-spec-hash''"

definition merge_onto :: "(string, string) gomap \<Rightarrow> (string, string) gomap \<Rightarrow> (string, string) gomap" where
  "merge_onto existing desired = (if existing = [] then desired else set_all existing desired)"

definition hashSetSpec :: "'q wlib \<Rightarrow> 'q WorkloadSet \<Rightarrow> string + string" where
  "hashSetSpec lib d =
     (case wl_marshalSet lib (ws_spec d) (om_labels (ws_meta d)) of Inl e \<Rightarrow> Inl e | Inr raw \<Rightarrow> Inr (hex_encode (sha256 raw)))"

definition owned_meta :: "'q wlib \<Rightarrow> string \<Rightarrow> string \<Rightarrow> string \<Rightarrow> objmeta \<Rightarrow> string + objmeta" where
  "owned_meta lib kind name uid m =
     (case wl_setControllerRef lib kind name uid (om_owners m) of Inl e \<Rightarrow> Inl e | Inr owners \<Rightarrow> Inr (m\<lparr>om_owners := owners\<rparr>))"

text \<open>\<open>upsertDeployment\<close> and \<open>upsertStatefulSet\<close>.\<close>

definition upsertSet ::
  "('q WorkloadSet \<Rightarrow> 'q wobj) \<Rightarrow> ('q wevent list \<Rightarrow> string \<Rightarrow> string \<Rightarrow> kerr + 'q WorkloadSet) \<Rightarrow>
   'q wlib \<Rightarrow> 'q wapi \<Rightarrow> 'q SvcCR \<Rightarrow> 'q WorkloadSet \<Rightarrow> ('q, string option) wprog" where
  "upsertSet wrap get lib api svc desired =
     (case owned_meta lib ''MLService'' (om_name (scr_meta svc)) (scr_uid svc) (ws_meta desired) of
        Inl e \<Rightarrow> ret (Some e)
      | Inr m \<Rightarrow>
          (case hashSetSpec lib desired of
             Inl e \<Rightarrow> ret (Some (''hash desired spec: '' @ e))
           | Inr hash \<Rightarrow>
               let annots = AList.update appliedSpecHashAnnotation hash (om_annotations m);
                   want = desired\<lparr>ws_meta := m\<lparr>om_annotations := annots\<rparr>\<rparr> in do {
                 r \<leftarrow> get_obj wrap get (om_namespace m) (om_name m);
                 case r of
                   Inl e \<Rightarrow>
                     if isNotFound e then do { c \<leftarrow> put api (KCreate (wrap want)); ret (map_option kmsg c) }
                     else ret (Some (kmsg e))
                 | Inr current \<Rightarrow>
                     let cm = ws_meta current; labels = merge_onto (om_labels cm) (om_labels m) in
                     if sget (om_annotations cm) appliedSpecHashAnnotation = hash \<and> map_eq (om_labels cm) labels then ret None
                     else do {
                       p \<leftarrow> put api (KPatch (wrap current) (wrap (current\<lparr>ws_spec := ws_spec desired,
                              ws_meta := cm\<lparr>om_labels := labels, om_annotations := set_all (om_annotations cm) annots, om_owners := om_owners m\<rparr>\<rparr>)));
                       ret (map_option kmsg p)
                     }
               }))"

definition kspec_eq :: "KServiceSpec \<Rightarrow> KServiceSpec \<Rightarrow> bool" where
  "kspec_eq a b \<longleftrightarrow> map_eq (kss_selector a) (kss_selector b) \<and> a\<lparr>kss_selector := []\<rparr> = b\<lparr>kss_selector := []\<rparr>"

text \<open>
  \<open>upsertService\<close> and \<open>upsertHeadlessService\<close>: the second refuses a Service the workload does not
  control (\<open>guarded\<close>), the first overwrites it.
\<close>

definition upsertKService ::
  "bool \<Rightarrow> 'q wlib \<Rightarrow> 'q wapi \<Rightarrow> 'q SvcCR \<Rightarrow> KService \<Rightarrow> ('q, string option) wprog" where
  "upsertKService guarded lib api svc desired =
     (case owned_meta lib ''MLService'' (om_name (scr_meta svc)) (scr_uid svc) (ksv_meta desired) of
        Inl e \<Rightarrow> ret (Some e)
      | Inr m \<Rightarrow> do {
          r \<leftarrow> get_obj WService (wa_getService api) (om_namespace m) (om_name m);
          case r of
            Inl e \<Rightarrow>
              if isNotFound e then do { c \<leftarrow> put api (KCreate (WService (desired\<lparr>ksv_meta := m\<rparr>))); ret (map_option kmsg c) }
              else ret (Some (kmsg e))
          | Inr current \<Rightarrow>
              if guarded \<and> wl_controllerOf lib (om_owners (ksv_meta current)) \<noteq> Some (scr_uid svc)
              then ret (Some (''service '' @ om_namespace m @ ''/'' @ om_name m @ '' already exists and is not owned by this MLService''))
              else let spec = (ksv_spec desired)\<lparr>kss_clusterIP := kss_clusterIP (ksv_spec current), kss_clusterIPs := kss_clusterIPs (ksv_spec current)\<rparr>;
                       labels = merge_onto (om_labels (ksv_meta current)) (om_labels m) in
                if kspec_eq (ksv_spec current) spec \<and> map_eq (om_labels (ksv_meta current)) labels then ret None
                else do {
                  p \<leftarrow> put api (KPatch (WService current) (WService (current\<lparr>ksv_spec := spec, ksv_meta := (ksv_meta current)\<lparr>om_labels := labels\<rparr>\<rparr>)));
                  ret (map_option kmsg p)
                }
        })"

definition upsertHTTPRoute ::
  "'q wlib \<Rightarrow> 'q wapi \<Rightarrow> string \<Rightarrow> string \<Rightarrow> string \<Rightarrow> HTTPRoute \<Rightarrow> ('q, string option) wprog" where
  "upsertHTTPRoute lib api kind name uid desired =
     (case owned_meta lib kind name uid (htr_meta desired) of
        Inl e \<Rightarrow> ret (Some e)
      | Inr m \<Rightarrow> do {
          r \<leftarrow> get_obj WRoute (wa_getRoute api) (om_namespace m) (om_name m);
          case r of
            Inl e \<Rightarrow>
              if isNotFound e then do { c \<leftarrow> put api (KCreate (WRoute (desired\<lparr>htr_meta := m\<rparr>))); ret (map_option kmsg c) }
              else ret (Some (kmsg e))
          | Inr current \<Rightarrow>
              let labels = merge_onto (om_labels (htr_meta current)) (om_labels m) in
              if htr_spec current = htr_spec desired \<and> map_eq (om_labels (htr_meta current)) labels then ret None
              else do {
                p \<leftarrow> put api (KPatch (WRoute current) (WRoute (current\<lparr>htr_spec := htr_spec desired, htr_meta := (htr_meta current)\<lparr>om_labels := labels\<rparr>\<rparr>)));
                ret (map_option kmsg p)
              }
        })"

text \<open>One upsert after the other: \<open>if err := step; err != nil { return fmt.Errorf("what: %w", err) }\<close>.\<close>

definition step_then :: "string \<Rightarrow> ('q, string option) wprog \<Rightarrow> ('q, string option) wprog \<Rightarrow> ('q, string option) wprog" where
  "step_then what step rest = do {
     e \<leftarrow> step;
     case e of Some m \<Rightarrow> ret (Some (what @ '': '' @ m)) | None \<Rightarrow> rest
   }"

definition svc_route_step :: "'q wlib \<Rightarrow> 'q wapi \<Rightarrow> 'q SvcCR \<Rightarrow> 'q RoleSpec \<Rightarrow> string \<Rightarrow> ('q, string option) wprog" where
  "svc_route_step lib api svc role backendName =
     (case enabled_route (scr_spec svc) of
        None \<Rightarrow> ret None
      | Some r \<Rightarrow> step_then ''upsert httproute''
          (upsertHTTPRoute lib api ''MLService'' (om_name (scr_meta svc)) (scr_uid svc) (svc_buildHTTPRoute svc role r backendName)) (ret None))"

definition deployment_Reconcile :: "'q wlib \<Rightarrow> 'q wapi \<Rightarrow> 'q SvcCR \<Rightarrow> ('q, string option) wprog" where
  "deployment_Reconcile lib api svc =
     (case ss_roles (scr_spec svc) of
        [] \<Rightarrow> ret (Some index_panic)
      | role # _ \<Rightarrow>
          step_then ''upsert deployment'' (upsertSet WDeployment (wa_getDeployment api) lib api svc (buildDeployment svc role))
            (step_then ''upsert service'' (upsertKService False lib api svc (buildService svc role))
              (svc_route_step lib api svc role (svc_Workload svc))))"

definition statefulset_Reconcile :: "'q wlib \<Rightarrow> 'q wapi \<Rightarrow> 'q SvcCR \<Rightarrow> ('q, string option) wprog" where
  "statefulset_Reconcile lib api svc =
     (case parseBackendConfig lib (be_config (ss_backend (scr_spec svc))) of
        Inl e \<Rightarrow> ret (Some (''parse backend.config: '' @ e))
      | Inr cfg \<Rightarrow>
          (case ss_roles (scr_spec svc) of
             [] \<Rightarrow> ret (Some index_panic)
           | role # _ \<Rightarrow>
               step_then ''upsert statefulset'' (upsertSet WStatefulSet (wa_getStatefulSet api) lib api svc (buildStatefulSet svc cfg role))
                 (step_then ''upsert headless service'' (upsertKService True lib api svc (buildHeadlessService svc cfg role))
                   (svc_route_step lib api svc role (defaultedServiceName svc cfg)))))"

section \<open>Status mapping\<close>

definition is_named :: "string \<Rightarrow> string \<Rightarrow> objmeta \<Rightarrow> bool" where
  "is_named name ns m \<longleftrightarrow> om_name m = name \<and> om_namespace m = ns"

definition findDeployment :: "'q wobj list \<Rightarrow> string \<Rightarrow> string \<Rightarrow> 'q WorkloadSet option" where
  "findDeployment children name ns =
     (case find (\<lambda>c. case c of WDeployment d \<Rightarrow> is_named name ns (ws_meta d) | _ \<Rightarrow> False) children of
        Some (WDeployment d) \<Rightarrow> Some d | _ \<Rightarrow> None)"

definition findStatefulSet :: "'q wobj list \<Rightarrow> string \<Rightarrow> string \<Rightarrow> 'q WorkloadSet option" where
  "findStatefulSet children name ns =
     (case find (\<lambda>c. case c of WStatefulSet d \<Rightarrow> is_named name ns (ws_meta d) | _ \<Rightarrow> False) children of
        Some (WStatefulSet d) \<Rightarrow> Some d | _ \<Rightarrow> None)"

definition findService :: "'q wobj list \<Rightarrow> string \<Rightarrow> string \<Rightarrow> KService option" where
  "findService children name ns =
     (case find (\<lambda>c. case c of WService s \<Rightarrow> is_named name ns (ksv_meta s) | _ \<Rightarrow> False) children of
        Some (WService s) \<Rightarrow> Some s | _ \<Rightarrow> None)"

definition findHTTPRoute :: "'q wobj list \<Rightarrow> string \<Rightarrow> string \<Rightarrow> HTTPRoute option" where
  "findHTTPRoute children name ns =
     (case find (\<lambda>c. case c of WRoute r \<Rightarrow> is_named name ns (htr_meta r) | _ \<Rightarrow> False) children of
        Some (WRoute r) \<Rightarrow> Some r | _ \<Rightarrow> None)"

definition routeConditionTrue :: "HTTPRoute option \<Rightarrow> string \<Rightarrow> bool" where
  "routeConditionTrue route condType =
     (case route of None \<Rightarrow> False
      | Some r \<Rightarrow> list_ex (list_ex (\<lambda>c. mc_type c = condType \<and> mc_status c = ''True'')) (htr_parents r))"

definition routeAccepted :: "HTTPRoute option \<Rightarrow> bool" where
  "routeAccepted route = routeConditionTrue route ''Accepted''"

fun rollout_failure :: "DeploymentCondition list \<Rightarrow> string option" where
  "rollout_failure [] = None"
| "rollout_failure (c # cs) =
     (if dc_type c = ''ReplicaFailure'' \<and> dc_status c = ''True'' then Some (''ReplicaFailure: '' @ dc_message c)
      else if dc_type c = ''Progressing'' \<and> dc_status c = ''False'' \<and> dc_reason c = ''ProgressDeadlineExceeded''
      then Some ''Deployment progress deadline exceeded''
      else rollout_failure cs)"

text \<open>\<open>derivePhase\<close> of both handlers: a StatefulSet has no failure conditions to look at.\<close>

definition derivePhase :: "string \<Rightarrow> bool \<Rightarrow> 'q WorkloadSet option \<Rightarrow> int \<Rightarrow> int \<Rightarrow> string \<times> string" where
  "derivePhase what conditions live desired ready =
     (if desired = 0 then (PhasePending, ''spec.roles[0].replicas is 0'')
      else case live of None \<Rightarrow> (PhasePending, what @ '' not yet created'')
      | Some d \<Rightarrow>
          if ready = desired then (PhaseReady, [])
          else if ready > 0 \<and> ready < desired
          then (PhaseDegraded, ''only '' @ show_int ready @ ''/'' @ show_int desired @ '' replicas ready'')
          else case (if conditions then rollout_failure (ws_conditions d) else None) of
            Some m \<Rightarrow> (PhaseFailed, m)
          | None \<Rightarrow> (PhasePending, what @ '' is rolling out''))"

definition pickEndpointPort :: "'q RoleSpec \<Rightarrow> int" where
  "pickEndpointPort role =
     (let ports = pt_ports (role_template role) in
      case find (\<lambda>p. pp_name p = ''http'') ports of Some p \<Rightarrow> pp_containerPort p
      | None \<Rightarrow> (case ports of p # _ \<Rightarrow> pp_containerPort p | [] \<Rightarrow> 0))"

definition deriveEndpoint :: "'q SvcCR \<Rightarrow> 'q RoleSpec \<Rightarrow> string \<Rightarrow> KService option \<Rightarrow> HTTPRoute option \<Rightarrow> string" where
  "deriveEndpoint svc role serviceName ksvc route =
     (let internal = serviceName @ ''.'' @ scr_namespace svc @ ''.svc.cluster.local:'' @ show_int (pickEndpointPort role) in
      if ksvc = None then []
      else case enabled_route (scr_spec svc) of None \<Rightarrow> internal
      | Some r \<Rightarrow>
          if \<not> routeAccepted route \<or> rou_hostname r = [] then internal
          else ''https://'' @ rou_hostname r @ (if rou_path r \<noteq> [] then rou_path r else ''/''))"

definition buildConditions :: "string \<Rightarrow> string \<Rightarrow> string \<Rightarrow> int \<Rightarrow> Condition list" where
  "buildConditions readyReason phase message generation =
     [\<lparr>mc_type = ''Available'', mc_status = (if phase = PhaseReady then ''True'' else ''False''), mc_observedGeneration = generation,
       mc_lastTransitionTime = 0, mc_reason = (if phase = PhaseReady then readyReason else phase), mc_message = message\<rparr>]"

definition formatSelector :: "(string, string) gomap \<Rightarrow> string" where
  "formatSelector labels = join '','' (sort (map (\<lambda>(k, v). k @ ''='' @ v) labels))"

definition map_svc_status ::
  "string \<Rightarrow> bool \<Rightarrow> 'q SvcCR \<Rightarrow> 'q RoleSpec \<Rightarrow> 'q WorkloadSet option \<Rightarrow> string \<Rightarrow> KService option \<Rightarrow> HTTPRoute option \<Rightarrow> StatusUpdate" where
  "map_svc_status what conditions svc role live serviceName ksvc route =
     (let desired = role_replicas role; ready = (case live of None \<Rightarrow> 0 | Some d \<Rightarrow> ws_readyReplicas d);
          (phase, message) = derivePhase what conditions live desired ready;
          unrouted = (enabled_route (scr_spec svc) \<noteq> None \<and> \<not> routeAccepted route \<and> phase \<noteq> PhaseFailed);
          phase' = (if unrouted then PhaseDegraded else phase);
          message' = (if unrouted \<and> message = [] then ''HTTPRoute not yet Accepted; falling back to in-cluster DNS'' else message)
      in \<lparr>sup_phase = phase', sup_message = message', sup_endpoint = deriveEndpoint svc role serviceName ksvc route,
          sup_readyReplicas = ready, sup_selector = formatSelector (selectorLabels svc (role_name role)),
          sup_conditions = buildConditions ''AllReplicasReady'' phase' message' (scr_generation svc),
          sup_roles = [\<lparr>rls_name = role_name role, rls_replicas = desired, rls_active = 0, rls_ready = ready, rls_succeeded = 0, rls_failed = 0\<rparr>]\<rparr>)"

definition deployment_MapStatus :: "'q SvcCR \<Rightarrow> 'q wobj list \<Rightarrow> StatusUpdate option" where
  "deployment_MapStatus svc children =
     (case ss_roles (scr_spec svc) of [] \<Rightarrow> None
      | role # _ \<Rightarrow> Some (map_svc_status ''Deployment'' True svc role (findDeployment children (svc_Role svc role) (scr_namespace svc))
          (svc_Workload svc) (findService children (svc_Workload svc) (scr_namespace svc))
          (findHTTPRoute children (svc_Workload svc) (scr_namespace svc))))"

definition statefulset_MapStatus :: "'q wlib \<Rightarrow> 'q SvcCR \<Rightarrow> 'q wobj list \<Rightarrow> StatusUpdate option" where
  "statefulset_MapStatus lib svc children =
     (let cfg = (case parseBackendConfig lib (be_config (ss_backend (scr_spec svc))) of
                   Inl _ \<Rightarrow> \<lparr>scf_podManagementPolicy = [], scf_serviceName = []\<rparr> | Inr c \<Rightarrow> c);
          headless = defaultedServiceName svc cfg in
      case ss_roles (scr_spec svc) of [] \<Rightarrow> None
      | role # _ \<Rightarrow> Some (map_svc_status ''StatefulSet'' False svc role (findStatefulSet children (svc_Role svc role) (scr_namespace svc))
          headless (findService children headless (scr_namespace svc)) (findHTTPRoute children (svc_Workload svc) (scr_namespace svc))))"

section \<open>Handlers and registry\<close>

definition nativedeployment :: "'q wlib \<Rightarrow> 'q svc_handler" where
  "nativedeployment lib = \<lparr>sh_validate = deployment_Validate, sh_reconcile = deployment_Reconcile lib, sh_mapStatus = deployment_MapStatus,
     sh_watchTargets = [KindDeployment, KindService, KindRoute]\<rparr>"

definition nativestatefulset :: "'q wlib \<Rightarrow> 'q svc_handler" where
  "nativestatefulset lib = \<lparr>sh_validate = statefulset_Validate lib, sh_reconcile = statefulset_Reconcile lib, sh_mapStatus = statefulset_MapStatus lib,
     sh_watchTargets = [KindStatefulSet, KindService, KindRoute]\<rparr>"

text \<open>The UTF-8 bytes of the section sign.\<close>

abbreviation "section_sign \<equiv> [CHR 0xC2, CHR 0xA7]"

definition notImplemented :: "string \<times> string \<Rightarrow> 'q svc_handler" where
  "notImplemented key = \<lparr>
     sh_validate = (\<lambda>_. \<lparr>val_errors = [''backend ('' @ fst key @ '', '' @ snd key @ '') not implemented; see axisml-system/docs/compute-operator.md '' @ section_sign @ ''4 / '' @ section_sign @ ''5.1''], val_warnings = []\<rparr>),
     sh_reconcile = (\<lambda>_ _. ret None),
     sh_mapStatus = (\<lambda>_ _. Some \<lparr>sup_phase = PhaseFailed, sup_message = ''handler not implemented'', sup_endpoint = [], sup_readyReplicas = 0,
       sup_selector = [], sup_conditions = [], sup_roles = []\<rparr>),
     sh_watchTargets = []\<rparr>"

type_synonym 'q svc_registry = "(string \<times> string, 'q svc_handler) gomap"

text \<open>The registry of \<open>cmd/main.go\<close>: the two native handlers and the stubs.\<close>

definition main_handlers :: "'q wlib \<Rightarrow> 'q svc_registry" where
  "main_handlers lib = [((''native'', ''deployment''), nativedeployment lib), ((''native'', ''statefulset''), nativestatefulset lib),
     ((''kserve'', ''inference''), notImplemented (''kserve'', ''inference'')), ((''kserve'', ''llminference''), notImplemented (''kserve'', ''llminference''))]"

section \<open>The dispatcher\<close>

abbreviation "immutableHashAnnotation \<equiv> ''compute.axisml.io/spec-immutable-hash''"

definition immutableSpecHash :: "'q wlib \<Rightarrow> 'q MLServiceSpec \<Rightarrow> string + string" where
  "immutableSpecHash lib spec =
     (let subset = spec\<lparr>ss_roles := map (\<lambda>r. r\<lparr>role_replicas := 0\<rparr>) (ss_roles spec)\<rparr>;
          hash = (\<lambda>s. case wl_marshalSvc lib s of Inl e \<Rightarrow> Inl e | Inr buf \<Rightarrow> Inr (hex_encode (sha256 buf)))
      in if has_config spec then
           (case wl_canonicalJSON lib (the (be_config (ss_backend spec))) of
              Inl e \<Rightarrow> Inl (''canonicalize backend.config: '' @ e)
            | Inr canon \<Rightarrow> hash (subset\<lparr>ss_backend := (ss_backend subset)\<lparr>be_config := Some canon\<rparr>\<rparr>))
         else hash subset)"

text \<open>\<open>checkImmutability\<close>: an error, or the message when the spec has moved (empty when it has not).\<close>

definition checkImmutability :: "'q wlib \<Rightarrow> 'q SvcCR \<Rightarrow> string + string" where
  "checkImmutability lib svc =
     (case map_of (om_annotations (scr_meta svc)) immutableHashAnnotation of
        None \<Rightarrow> Inr []
      | Some prev \<Rightarrow>
          (case immutableSpecHash lib (scr_spec svc) of
             Inl e \<Rightarrow> Inl (''hash immutable spec: '' @ e)
           | Inr hash \<Rightarrow> Inr (if prev \<noteq> hash
               then ''immutable spec field changed after creation; only spec.roles[*].replicas may be modified'' else [])))"

definition stampImmutabilityBaseline :: "'q wlib \<Rightarrow> 'q wapi \<Rightarrow> 'q SvcCR \<Rightarrow> ('q, string option) wprog" where
  "stampImmutabilityBaseline lib api svc =
     (case map_of (om_annotations (scr_meta svc)) immutableHashAnnotation of
        Some _ \<Rightarrow> ret None
      | None \<Rightarrow>
          (case immutableSpecHash lib (scr_spec svc) of
             Inl e \<Rightarrow> ret (Some (''hash immutable spec: '' @ e))
           | Inr hash \<Rightarrow> do {
               p \<leftarrow> put api (KPatch (WSvc svc) (WSvc (svc\<lparr>scr_meta := (scr_meta svc)
                      \<lparr>om_annotations := AList.update immutableHashAnnotation hash (om_annotations (scr_meta svc))\<rparr>\<rparr>)));
               ret (map_option (\<lambda>e. ''stamp immutable hash: '' @ kmsg e) p)
             }))"

definition merge_condition :: "nat \<Rightarrow> int \<Rightarrow> (string, Condition) gomap \<Rightarrow> Condition \<Rightarrow> (string, Condition) gomap" where
  "merge_condition t generation byType u =
     AList.update (mc_type u) (u\<lparr>mc_observedGeneration := generation,
       mc_lastTransitionTime := (case map_of byType (mc_type u) of
          Some prev \<Rightarrow> if mc_status prev = mc_status u then mc_lastTransitionTime prev else t | None \<Rightarrow> t)\<rparr>) byType"

definition mergeConditions :: "nat \<Rightarrow> Condition list \<Rightarrow> Condition list \<Rightarrow> int \<Rightarrow> Condition list" where
  "mergeConditions t existing updates generation =
     sort_by (\<lambda>a b. mc_type a < mc_type b) (map snd (foldl (merge_condition t generation)
       (foldl (\<lambda>m c. AList.update (mc_type c) c m) [] existing) updates))"

definition svc_writeStatus :: "'q wapi \<Rightarrow> 'q SvcCR \<Rightarrow> StatusUpdate \<Rightarrow> ('q, string option) wprog" where
  "svc_writeStatus api svc upd = do {
     t \<leftarrow> clock api;
     let desired = \<lparr>scs_observedGeneration = scr_generation svc, scs_phase = sup_phase upd, scs_message = sup_message upd,
       scs_endpoint = sup_endpoint upd, scs_readyReplicas = sup_readyReplicas upd, scs_selector = sup_selector upd,
       scs_conditions = mergeConditions t (scs_conditions (scr_status svc)) (sup_conditions upd) (scr_generation svc), scs_roles = sup_roles upd\<rparr>;
     if scr_status svc = desired then ret None
     else do {
       p \<leftarrow> put api (KStatus (WSvc svc) (WSvc (svc\<lparr>scr_status := desired\<rparr>)));
       ret (map_option kmsg p)
     }
   }"

definition failed_update :: "int \<Rightarrow> string \<Rightarrow> StatusUpdate" where
  "failed_update generation message = \<lparr>sup_phase = PhaseFailed, sup_message = message, sup_endpoint = [], sup_readyReplicas = 0,
     sup_selector = [], sup_conditions = [\<lparr>mc_type = ''Available'', mc_status = ''False'', mc_observedGeneration = generation,
       mc_lastTransitionTime = 0, mc_reason = PhaseFailed, mc_message = message\<rparr>], sup_roles = []\<rparr>"

definition writeFailedStatus :: "'q wapi \<Rightarrow> 'q SvcCR \<Rightarrow> string \<Rightarrow> ('q, string option) wprog" where
  "writeFailedStatus api svc message = svc_writeStatus api svc (failed_update (scr_generation svc) message)"

text \<open>\<open>List\<close> of one kind of child; a kind the server does not know is skipped.\<close>

definition list_kind :: "'q wapi \<Rightarrow> string \<Rightarrow> (string, string) gomap \<Rightarrow> child_kind \<Rightarrow> ('q, kerr + 'q wobj list) wprog" where
  "list_kind api ns sel k =
     (case k of
        KindDeployment \<Rightarrow> do { r \<leftarrow> list_obj WDeployment (wa_listDeployments api) ns sel; ret (map_sum id (map WDeployment) r) }
      | KindStatefulSet \<Rightarrow> do { r \<leftarrow> list_obj WStatefulSet (wa_listStatefulSets api) ns sel; ret (map_sum id (map WStatefulSet) r) }
      | KindService \<Rightarrow> do { r \<leftarrow> list_obj WService (wa_listServices api) ns sel; ret (map_sum id (map WService) r) }
      | KindRoute \<Rightarrow> do { r \<leftarrow> list_obj WRoute (wa_listRoutes api) ns sel; ret (map_sum id (map WRoute) r) })"

fun list_kinds :: "'q wapi \<Rightarrow> string \<Rightarrow> (string, string) gomap \<Rightarrow> child_kind list \<Rightarrow> 'q wobj list \<Rightarrow> ('q, string + 'q wobj list) wprog" where
  "list_kinds api ns sel [] acc = ret (Inr acc)"
| "list_kinds api ns sel (k # ks) acc = do {
     r \<leftarrow> list_kind api ns sel k;
     case r of
       Inl e \<Rightarrow> if isNotFound e then list_kinds api ns sel ks acc else ret (Inl (kmsg e))
     | Inr items \<Rightarrow> list_kinds api ns sel ks (acc @ items)
   }"

definition svc_listChildren :: "'q wapi \<Rightarrow> 'q SvcCR \<Rightarrow> 'q svc_handler \<Rightarrow> ('q, string + 'q wobj list) wprog" where
  "svc_listChildren api svc h =
     (if sget (scr_labels svc) LabelServiceID = [] then ret (Inr [])
      else list_kinds api (scr_namespace svc) [(LabelServiceID, sget (scr_labels svc) LabelServiceID)] (sh_watchTargets h) [])"

definition svc_owner_of :: "'q SvcCR \<Rightarrow> owner" where
  "svc_owner_of svc = \<lparr>ow_namespace = scr_namespace svc, ow_name = om_name (scr_meta svc), ow_uid = scr_uid svc, ow_kind = ''MLService''\<rparr>"

text \<open>From the list of children to the end of a pass.\<close>

definition report_svc :: "'q wlib \<Rightarrow> 'q wapi \<Rightarrow> 'q svc_handler \<Rightarrow> 'q SvcCR \<Rightarrow> ('q, string option) wprog" where
  "report_svc lib api h svc = do {
     c \<leftarrow> svc_listChildren api svc h;
     case c of Inl e \<Rightarrow> ret (Some e)
     | Inr children \<Rightarrow>
         (case sh_mapStatus h svc children of None \<Rightarrow> ret (Some index_panic)
          | Some upd \<Rightarrow> do {
              w \<leftarrow> svc_writeStatus api svc upd;
              case w of Some e \<Rightarrow> ret (Some e) | None \<Rightarrow> stampImmutabilityBaseline lib api svc
            })
   }"

definition apply_svc :: "'q wlib \<Rightarrow> 'q wapi \<Rightarrow> 'q svc_handler \<Rightarrow> 'q SvcCR \<Rightarrow> ('q, string option) wprog" where
  "apply_svc lib api h svc = do {
     c \<leftarrow> cfg_Reconcile lib api (svc_owner_of svc) (ss_configMaps (scr_spec svc))
            [(LabelServiceID, sget (scr_labels svc) LabelServiceID), (LabelTenant, sget (scr_labels svc) LabelTenant)];
     case c of
       Some e \<Rightarrow> do {
         s \<leftarrow> writeFailedStatus api svc (''reconcile ConfigMaps: '' @ config_error_text e);
         ret (case s of Some se \<Rightarrow> Some se | None \<Rightarrow> if IsOwnershipConflict e then None else Some (config_error_text e))
       }
     | None \<Rightarrow> do {
         r \<leftarrow> sh_reconcile h api svc;
         case r of
           Some e \<Rightarrow> do { _ \<leftarrow> writeFailedStatus api svc (''reconcile error: '' @ e); ret (Some e) }
         | None \<Rightarrow> report_svc lib api h svc
       }
   }"

definition check_svc :: "'q wlib \<Rightarrow> 'q wapi \<Rightarrow> 'q svc_handler \<Rightarrow> 'q SvcCR \<Rightarrow> ('q, string option) wprog" where
  "check_svc lib api h svc =
     (case checkImmutability lib svc of
        Inl e \<Rightarrow> ret (Some e)
      | Inr msg \<Rightarrow>
          if msg \<noteq> [] then writeFailedStatus api svc msg
          else if val_errors (sh_validate h (scr_spec svc)) \<noteq> []
          then writeFailedStatus api svc (''validation failed: '' @ join ''; '' (val_errors (sh_validate h (scr_spec svc))))
          else let cerrs = cfg_Validate lib (ss_configMaps (scr_spec svc)) ''spec.configMaps'' in
          if cerrs \<noteq> [] then writeFailedStatus api svc (''validation failed: '' @ wl_aggregate lib cerrs)
          else apply_svc lib api h svc)"

definition dispatch_svc :: "'q wlib \<Rightarrow> 'q wapi \<Rightarrow> 'q svc_registry \<Rightarrow> 'q SvcCR \<Rightarrow> ('q, string option) wprog" where
  "dispatch_svc lib api reg svc =
     (let kind = sget (scr_labels svc) LabelServiceKind; b = ss_backend (scr_spec svc) in
      if sget (scr_labels svc) LabelServiceID = []
      then writeFailedStatus api svc (''missing required label '' @ go_quote LabelServiceID @ ''; Compute must stamp it before CR creation'')
      else if enabled_route (scr_spec svc) \<noteq> None \<and> kind \<in> {ServiceKindWorkspace, ServiceKindTensorBoard}
      then writeFailedStatus api svc (kind @ '' external routes are disabled until SecurityPolicy derivation is implemented'')
      else case map_of reg (be_name b, be_engine b) of
        None \<Rightarrow> writeFailedStatus api svc (''no handler for backend='' @ be_name b @ '' engine='' @ be_engine b)
      | Some h \<Rightarrow> check_svc lib api h svc)"

definition svc_Reconcile :: "'q wlib \<Rightarrow> 'q wapi \<Rightarrow> 'q svc_registry \<Rightarrow> string \<Rightarrow> string \<Rightarrow> ('q, string option) wprog" where
  "svc_Reconcile lib api reg ns name = do {
     r \<leftarrow> get_obj WSvc (wa_getSvc api) ns name;
     case r of
       Inl e \<Rightarrow> ret (if isNotFound e then None else Some (kmsg e))
     | Inr svc \<Rightarrow> dispatch_svc lib api reg svc
   }"

end
