(* ===== verification/RunOperatorProps.thy ===== *)
theory RunOperatorProps
  imports RunOperator
begin

text \<open>
  What the run controller guarantees, for every behaviour of the API server. The locale
  \<open>run_contract\<close> is the contract of a handler as the dispatcher relies on it; the dispatcher's
  bounds are proved in it once and the \<open>(native, job)\<close> handler is an interpretation. Then: a
  terminal phase is final, the Jobs it creates, the immutable spec, cancellation.
\<close>

section \<open>Status merges\<close>

lemma mergeStatus_phase:
  "rcs_phase (mergeStatus sc st m r g) = (if isTerminal (rcs_phase st) then rcs_phase st else msr_phase m)"
  by (simp add: mergeStatus_def Let_def)

lemma mergeStatus_generation: "rcs_observedGeneration (mergeStatus sc st m r g) = g"
  by (simp add: mergeStatus_def Let_def)

text \<open>Merging a report without message, times, roles or conditions into a terminal status moves the generation only.\<close>

lemma mergeStatus_terminal_quiet:
  "isTerminal (rcs_phase st) \<Longrightarrow> mergeStatus sc st (zero_map_result p []) zero_reconcile_result g = st\<lparr>rcs_observedGeneration := g\<rparr>"
  by (simp add: mergeStatus_def merge_message_def Let_def)

text \<open>Warnings are appended to the message that already carries them.\<close>

lemma warnings_pile_up:
  assumes "w \<noteq> []" "m \<noteq> []"
  shows "merge_message (merge_message m (zero_map_result p []) (zero_reconcile_result\<lparr>rrs_warnings := [w]\<rparr>)) (zero_map_result p [])
     (zero_reconcile_result\<lparr>rrs_warnings := [w]\<rparr>) = m @ '' | warnings: '' @ w @ '' | warnings: '' @ w"
  using assms by (simp add: merge_message_def)

text \<open>A status write of the dispatcher: nothing but the status changes, and a terminal phase stays.\<close>

definition status_step :: "'q RunCR \<Rightarrow> 'q RunCR \<Rightarrow> bool" where
  "status_step a b \<longleftrightarrow> b = a\<lparr>rcr_status := rcr_status b\<rparr> \<and> rcs_observedGeneration (rcr_status b) = rcr_generation a \<and>
     (isTerminal (rcs_phase (rcr_status a)) \<longrightarrow> rcs_phase (rcr_status b) = rcs_phase (rcr_status a))"

lemma only_writeStatus:
  assumes "\<And>b r. status_step run b \<Longrightarrow> P (Put (KStatus (WRun run) (WRun b)) r)"
  shows "only P (run_writeStatus api run m recRes)"
  unfolding run_writeStatus_def Let_def
  by (intro only_rules assms) (simp add: status_step_def mergeStatus_phase mergeStatus_generation)

section \<open>The contract of a handler\<close>

text \<open>
  Writes of a pass on a run after the immutability check: ConfigMaps in bounds, the status, and
  what the handler may write.
\<close>

fun pass_write :: "'q wlib \<Rightarrow> ('q RunCR \<Rightarrow> 'q wwrite \<Rightarrow> bool) \<Rightarrow> 'q RunCR \<Rightarrow> 'q wwrite \<Rightarrow> bool" where
  "pass_write lib mine run (KStatus (WRun a) (WRun b)) \<longleftrightarrow> a = run \<and> status_step a b"
| "pass_write lib mine run w \<longleftrightarrow> config_write lib (run_owner_of run) (rs_configMaps (rcr_spec run)) w \<or> mine run w"

lemma config_event_writes: "config_event lib own decl e \<longleftrightarrow> writes_only (config_write lib own decl) e"
  by (cases e) auto

locale run_contract =
  fixes lib :: "'q wlib" and h :: "'q run_handler" and mine :: "'q RunCR \<Rightarrow> 'q wwrite \<Rightarrow> bool"
  assumes reconcile_only: "rh_validate h run = [] \<Longrightarrow> only (writes_only (mine run)) (rh_reconcile h api run)"
    and no_sweep: "rh_sweep h = None"
    and no_status: "\<not> mine run (KStatus ob ob')"
begin

lemma mine_pass: "mine run w \<Longrightarrow> pass_write lib mine run w"
  using no_status by (cases "(lib, mine, run, w)" rule: pass_write.cases) auto

lemma config_pass: "config_write lib (run_owner_of run) (rs_configMaps (rcr_spec run)) w \<Longrightarrow> pass_write lib mine run w"
  by (cases "(lib, mine, run, w)" rule: pass_write.cases) auto

lemma status_only: "only (writes_only (pass_write lib mine run)) (run_writeStatus api run m r)"
  by (rule only_writeStatus) simp

lemma fail_only: "only (writes_only (pass_write lib mine run)) (fail_run api run m)"
  unfolding fail_run_def by (intro only_rules status_only)

lemma retry_only: "only (writes_only (pass_write lib mine run)) (retry_run api run m e)"
  unfolding retry_run_def by (intro only_rules status_only)

lemma configs_only:
  "only (writes_only (pass_write lib mine run)) (cfg_Reconcile lib api (run_owner_of run) (rs_configMaps (rcr_spec run)) extra)"
  by (rule only_mono [OF cfg_Reconcile_only]) (auto simp: config_event_writes elim!: writes_only_mono config_pass)

lemma handle_only:
  assumes "rh_validate h run = []"
  shows "only (writes_only (pass_write lib mine run)) (handle_run api h run)"
  unfolding handle_run_def
  by (intro only_rules status_only retry_only only_mono [OF reconcile_only [OF assms]]) (auto elim!: writes_only_mono mine_pass)

lemma active_only: "only (writes_only (pass_write lib mine run)) (active_pass lib api backend (Some h) run)"
  unfolding active_pass_def Let_def by (auto intro!: only_rules fail_only retry_only configs_only handle_only)

lemma unregistered_only: "only (writes_only (pass_write lib mine run)) (active_pass lib api backend None run)"
  unfolding active_pass_def by (simp add: fail_only)

end

text \<open>The \<open>(native, job)\<close> handler: it creates the Job it builds, and suspends an existing one.\<close>

fun job_write :: "'q wlib \<Rightarrow> 'q RunCR \<Rightarrow> 'q wwrite \<Rightarrow> bool" where
  "job_write lib run (KCreate (WJob job)) \<longleftrightarrow>
     buildJob lib run = Inr job \<and> job_Validate lib run = [] \<and> \<not> rp_suspend (rs_runPolicy (rcr_spec run))"
| "job_write lib run (KPatch (WJob a) (WJob b)) \<longleftrightarrow> rp_suspend (rs_runPolicy (rcr_spec run)) \<and> b = a\<lparr>jb_suspend := Some True\<rparr>"
| "job_write lib run _ \<longleftrightarrow> False"

lemma job_Reconcile_only: "job_Validate lib run = [] \<Longrightarrow> only (writes_only (job_write lib run)) (job_Reconcile lib api run)"
  unfolding job_Reconcile_def create_job_def Let_def by (auto intro!: only_rules split: sum.split)

interpretation native: run_contract lib "nativejob lib" "job_write lib"
  by unfold_locales (simp_all add: nativejob_def job_Reconcile_only)

lemma main_Lookup: "run_Lookup (main_registry lib) b e = (if b = ''native'' \<and> e = ''job'' then Some (nativejob lib) else None)"
  by (auto simp: run_Lookup_def main_registry_def)

lemma main_active_only:
  "only (writes_only (pass_write lib (job_write lib) run)) (active_pass lib api backend (run_Lookup (main_registry lib) b e) run)"
  by (auto simp: main_Lookup intro: native.active_only native.unregistered_only)

section \<open>A whole pass\<close>

abbreviation applied_spec :: "'q RunCR \<Rightarrow> string" where
  "applied_spec run \<equiv> sget (om_annotations (rcr_meta run)) AppliedSpecAnnotation"

definition anchored :: "'q wlib \<Rightarrow> 'q RunCR \<Rightarrow> 'q RunCR" where
  "anchored lib run = run\<lparr>rcr_meta := (rcr_meta run)
     \<lparr>om_annotations := AList.update AppliedSpecAnnotation (specFingerprint lib run) (om_annotations (rcr_meta run))\<rparr>\<rparr>"

lemma assert_runs:
  "runs (assertSpecImmutable lib api run) (\<lambda>r es. case r of
     Inl (err, run') \<Rightarrow> (applied_spec run \<noteq> [] \<and> applied_spec run \<noteq> specFingerprint lib run \<and> run' = run \<and> es = []) \<or>
       (\<exists>e. applied_spec run = [] \<and> run' = anchored lib run \<and> es = [Put (KPatch (WRun run) (WRun (anchored lib run))) (Some e)])
   | Inr run' \<Rightarrow> (applied_spec run \<noteq> [] \<and> applied_spec run = specFingerprint lib run \<and> run' = run \<and> es = []) \<or>
       (\<exists>h. applied_spec run = [] \<and> run' = wa_runAnswer api h (anchored lib run) \<and> es = [Put (KPatch (WRun run) (WRun (anchored lib run))) None]))"
  unfolding assertSpecImmutable_def anchored_def Let_def by (auto intro!: runs_rules)

text \<open>
  The run a pass works on: as it was read, with the annotation added, or as the server returned it
  when the annotation was written.
\<close>

definition observed :: "'q wlib \<Rightarrow> 'q wapi \<Rightarrow> 'q RunCR \<Rightarrow> 'q RunCR \<Rightarrow> bool" where
  "observed lib api run run' \<longleftrightarrow> run' = run \<or>
     (applied_spec run = [] \<and> (run' = anchored lib run \<or> (\<exists>h. run' = wa_runAnswer api h (anchored lib run))))"

definition generation_synced :: "'q RunCR \<Rightarrow> 'q wwrite" where
  "generation_synced run =
     KStatus (WRun run) (WRun (run\<lparr>rcr_status := (rcr_status run)\<lparr>rcs_observedGeneration := rcr_generation run\<rparr>\<rparr>))"

lemma terminal_pass_only:
  assumes "isTerminal (rcs_phase (rcr_status run))"
  shows "only (writes_only (\<lambda>w. w = generation_synced run)) (terminal_pass api (run_Lookup (main_registry lib) b e) run)"
proof -
  have sweep: "Option.bind (run_Lookup (main_registry lib) b e) rh_sweep = None" by (simp add: main_Lookup nativejob_def)
  have "only (writes_only (\<lambda>w. w = generation_synced run))
      (run_writeStatus api run (zero_map_result (rcs_phase (rcr_status run)) []) zero_reconcile_result)"
    unfolding run_writeStatus_def Let_def mergeStatus_terminal_quiet [OF assms] generation_synced_def by (intro only_rules) simp_all
  then show ?thesis unfolding terminal_pass_def sweep by (auto intro!: only_rules)
qed

text \<open>What a pass on a run that is not terminal may write.\<close>

definition pass_bounded :: "'q wlib \<Rightarrow> 'q wapi \<Rightarrow> 'q RunCR \<Rightarrow> 'q wevent list \<Rightarrow> bool" where
  "pass_bounded lib api run es \<longleftrightarrow> (\<exists>run'. observed lib api run run' \<and> (\<forall>w r. Put w r \<in> set es \<longrightarrow>
     (applied_spec run = [] \<and> w = KPatch (WRun run) (WRun (anchored lib run))) \<or> pass_write lib (job_write lib) run' w))"

abbreviation nonterminal_pass :: "'q wlib \<Rightarrow> 'q wapi \<Rightarrow> 'q RunCR \<Rightarrow> ('q, run_pass) wprog" where
  "nonterminal_pass lib api run \<equiv> do {
     a \<leftarrow> assertSpecImmutable lib api run;
     case a of
       Inl (err, run') \<Rightarrow> fail_run api run' err
     | Inr run' \<Rightarrow> active_pass lib api (rs_backend (rcr_spec run))
         (run_Lookup (main_registry lib) (be_name (rs_backend (rcr_spec run))) (be_engine (rs_backend (rcr_spec run)))) run'
   }"

lemma nonterminal_pass_runs: "runs (nonterminal_pass lib api run) (\<lambda>_. pass_bounded lib api run)"
proof (rule runs_bind [OF assert_runs], goal_cases)
  case (1 x es)
  have ev: "runs m (\<lambda>_ es'. pass_bounded lib api run (es' @ es))"
    if "only (writes_only (pass_write lib (job_write lib) run')) m" "observed lib api run run'"
      "es = [] \<or> (\<exists>r. applied_spec run = [] \<and> es = [Put (KPatch (WRun run) (WRun (anchored lib run))) r])"
    for m :: "('a, run_pass) wprog" and run'
    by (rule runs_mono [OF only_runs [OF that(1)]]) (use that(2,3) in \<open>auto simp: pass_bounded_def list_all_iff intro!: exI [of _ run']\<close>)
  show ?case
  proof (cases x)
    case (Inl p)
    with 1 obtain err run' where "x = Inl (err, run')" "observed lib api run run'"
      "es = [] \<or> (\<exists>r. applied_spec run = [] \<and> es = [Put (KPatch (WRun run) (WRun (anchored lib run))) r])"
      by (cases p) (auto simp: observed_def)
    then show ?thesis by (simp add: ev [OF native.fail_only])
  next
    case (Inr run')
    with 1 have "observed lib api run run'"
      "es = [] \<or> (\<exists>r. applied_spec run = [] \<and> es = [Put (KPatch (WRun run) (WRun (anchored lib run))) r])"
      by (auto simp: observed_def)
    then show ?thesis by (simp add: Inr ev [OF main_active_only])
  qed
qed

lemma terminal_split:
  assumes "run_state (run_Reconcile lib api (main_registry lib) ns name) h = (res, es @ h)" "wa_getRun api h ns name = Inr run"
    "isTerminal (rcs_phase (rcr_status run))" "Put w r \<in> set es"
  shows "w = generation_synced run"
proof -
  note get_split [OF assms(1) [unfolded run_Reconcile_def] assms(2), where Q = "\<lambda>_. list_all (writes_only (\<lambda>w. w = generation_synced run))"]
  then obtain es' where "es = es' @ [Got ns name (Inr (WRun run))]" "list_all (writes_only (\<lambda>w. w = generation_synced run)) es'"
    using terminal_pass_only [OF assms(3)] assms(3) by (auto simp: only_def Let_def)
  with assms(4) show ?thesis by (auto simp: list_all_iff)
qed

lemma nonterminal_split:
  assumes "run_state (run_Reconcile lib api (main_registry lib) ns name) h = (res, es @ h)" "wa_getRun api h ns name = Inr run"
    "\<not> isTerminal (rcs_phase (rcr_status run))"
  obtains es' where "es = es' @ [Got ns name (Inr (WRun run))]" "pass_bounded lib api run es'"
    "run_state (nonterminal_pass lib api run) (Got ns name (Inr (WRun run)) # h) = (res, es' @ Got ns name (Inr (WRun run)) # h)"
  using get_split [OF assms(1) [unfolded run_Reconcile_def] assms(2), where Q = "\<lambda>_. pass_bounded lib api run"]
    nonterminal_pass_runs [of lib api run] assms(3) by (auto simp: Let_def)

section \<open>A terminal phase is final\<close>

text \<open>
  The run as the server holds it: passes of the operator interleave with edits of the spec by
  users and by the compute service (cancellation sets \<open>suspend\<close>). A pass reads the current run;
  of its successful writes, the status writes and the annotation take effect.
\<close>

fun apply_event :: "'q wevent \<Rightarrow> 'q RunCR \<Rightarrow> 'q RunCR" where
  "apply_event (Put (KStatus (WRun a) (WRun b)) None) run = run\<lparr>rcr_status := rcr_status b\<rparr>"
| "apply_event (Put (KPatch (WRun a) (WRun b)) None) run =
     run\<lparr>rcr_meta := (rcr_meta run)\<lparr>om_annotations := om_annotations (rcr_meta b)\<rparr>\<rparr>"
| "apply_event e run = run"

definition after_pass :: "'q wevent list \<Rightarrow> 'q RunCR \<Rightarrow> 'q RunCR" where
  "after_pass es run = foldr apply_event es run"

inductive run_step :: "'q wlib \<Rightarrow> 'q RunCR \<Rightarrow> 'q RunCR \<Rightarrow> bool" for lib :: "'q wlib" where
  step_edit: "run_step lib run (run\<lparr>rcr_spec := spec, rcr_generation := rcr_generation run + 1\<rparr>)"
| step_pass: "wa_getRun api h ns name = Inr run \<Longrightarrow>
    run_state (run_Reconcile lib api (main_registry lib) ns name) h = (res, es @ h) \<Longrightarrow> run_step lib run (after_pass es run)"

inductive_cases run_step_elim: "run_step lib run run'"

lemma after_pass_status:
  assumes "\<And>a b. Put (KStatus (WRun a) (WRun b)) None \<in> set es \<Longrightarrow> rcs_phase (rcr_status b) = p" "rcs_phase (rcr_status run) = p"
  shows "rcs_phase (rcr_status (after_pass es run)) = p"
  using assms unfolding after_pass_def
proof (induction es)
  case (Cons e es)
  then have IH: "rcs_phase (rcr_status (foldr apply_event es run)) = p" by auto
  from Cons.prems(1) IH show ?case by (cases "(e, foldr apply_event es run)" rule: apply_event.cases) auto
qed simp

text \<open>
  C14. Once a run is \<open>Succeeded\<close> or \<open>Failed\<close> it stays so through any sequence of passes and edits of its spec,
  and a pass on it writes nothing but the observed generation: no Job is created again, no Job or ConfigMap touched.
\<close>

theorem run_terminal_final:
  assumes "(run_step lib)\<^sup>*\<^sup>* run run'" "isTerminal (rcs_phase (rcr_status run))"
  shows "rcs_phase (rcr_status run') = rcs_phase (rcr_status run) \<and>
    (\<forall>api h ns name res es w r. wa_getRun api h ns name = Inr run' \<longrightarrow>
       run_state (run_Reconcile lib api (main_registry lib) ns name) h = (res, es @ h) \<longrightarrow> Put w r \<in> set es \<longrightarrow> w = generation_synced run')"
proof -
  from assms(1) have "rcs_phase (rcr_status run') = rcs_phase (rcr_status run)"
  proof (induction rule: rtranclp_induct)
    case (step run1 run2)
    from step.hyps(2) show ?case
    proof (cases rule: run_step.cases)
      case (step_edit spec)
      then show ?thesis using step.IH by simp
    next
      case (step_pass api h ns name res es)
      have "isTerminal (rcs_phase (rcr_status run1))" using step.IH assms(2) by simp
      from terminal_split [OF step_pass(3,2) this]
      have "rcs_phase (rcr_status b) = rcs_phase (rcr_status run1)" if "Put (KStatus (WRun a) (WRun b)) None \<in> set es" for a b
        using that by (fastforce simp: generation_synced_def)
      then show ?thesis unfolding step_pass(1) using step.IH after_pass_status by metis
    qed
  qed simp
  with assms(2) show ?thesis by (metis terminal_split)
qed

section \<open>The Jobs a pass creates\<close>

text \<open>A Job accounted to a run: what the scheduler and the garbage collector rely on.\<close>

definition job_accounted :: "'q RunCR \<Rightarrow> 'q Job \<Rightarrow> bool" where
  "job_accounted run job \<longleftrightarrow>
     om_namespace (jb_meta job) = rcr_namespace run \<and> om_name (jb_meta job) = jobName run \<and>
     om_owners (jb_meta job) = [run_OwnerRef run] \<and>
     sget (pts_labels (jb_template job)) LabelSchedulerQuota = sch_quota (rs_scheduling (rcr_spec run)) \<and>
     sch_quota (rs_scheduling (rcr_spec run)) \<noteq> [] \<and>
     sget (pts_labels (jb_template job)) LabelRunID = sget (rcr_labels run) LabelRunID \<and> sget (rcr_labels run) LabelRunID \<noteq> [] \<and>
     pts_schedulerName (jb_template job) = SchedulerName \<and>
     (\<exists>role. rs_roles (rcr_spec run) = [role] \<and> 1 \<le> role_replicas role \<and> jb_parallelism job = Some (role_replicas role) \<and>
        jb_completions job = Some (role_replicas role) \<and> map ct_requests (pts_containers (jb_template job)) = [pt_requests (role_template role)])"

lemma job_Validate_role:
  assumes "job_Validate lib run = []"
  obtains role where "rs_roles (rcr_spec run) = [role]" "role_name role = RunRoleName" "1 \<le> role_replicas role"
  using assms by (auto simp: job_Validate_def split: list.splits if_splits)

lemma buildJob_accounted:
  assumes "job_Validate lib run = []" "buildJob lib run = Inr job"
  shows "job_accounted run job"
proof -
  from assms(1) obtain role where role: "rs_roles (rcr_spec run) = [role]" "1 \<le> role_replicas role" by (rule job_Validate_role)
  with assms(2) obtain cfg tmpl where tmpl: "InjectAxisMLLabels (role_template_spec role) run role [] = Inr tmpl"
    and job: "job = new_job run role cfg tmpl" by (auto simp: buildJob_def split: sum.splits)
  then show ?thesis
    by (auto simp: job_accounted_def new_job_def role InjectAxisMLLabels_def role_template_spec_def BuildContainer_def Let_def
        set_all_def sget_def split: if_splits)
qed

lemma buildJob_total:
  assumes "job_Validate lib run = []"
  shows "\<exists>job. buildJob lib run = Inr job"
proof -
  from assms obtain role where role: "rs_roles (rcr_spec run) = [role]" by (rule job_Validate_role)
  with assms have labels: "sget (rcr_labels run) LabelRunID \<noteq> []" "sget (rcr_labels run) LabelQuota \<noteq> []"
    and quota: "sch_quota (rs_scheduling (rcr_spec run)) \<noteq> []" and cfg: "config_errors lib (be_config (rs_backend (rcr_spec run))) = []"
    by (auto simp: job_Validate_def EnsureRequiredCRLabels_def split: if_splits)
  from cfg obtain c where "decodeConfig lib run = Inr c"
    by (auto simp: config_errors_def decodeConfig_def split: option.splits if_splits sum.splits)
  with role labels quota show ?thesis by (simp add: buildJob_def InjectAxisMLLabels_def Let_def)
qed

lemma run_jobs_created:
  assumes "run_state (run_Reconcile lib api (main_registry lib) ns name) h = (res, es @ h)" "wa_getRun api h ns name = Inr run"
    "Put (KCreate (WJob job)) r \<in> set es"
  shows "\<not> isTerminal (rcs_phase (rcr_status run)) \<and>
    (\<exists>run'. observed lib api run run' \<and> job_accounted run' job \<and> \<not> rp_suspend (rs_runPolicy (rcr_spec run')) \<and> job_Validate lib run' = [])"
proof
  show nonterm: "\<not> isTerminal (rcs_phase (rcr_status run))"
    using terminal_split [OF assms(1,2) _ assms(3)] by (auto simp: generation_synced_def)
  obtain es' where es: "es = es' @ [Got ns name (Inr (WRun run))]" "pass_bounded lib api run es'"
    by (rule nonterminal_split [OF assms(1,2) nonterm])
  then obtain run' where "observed lib api run run'" "pass_write lib (job_write lib) run' (KCreate (WJob job))"
    using assms(3) by (auto simp: pass_bounded_def)
  then show "\<exists>run'. observed lib api run run' \<and> job_accounted run' job \<and> \<not> rp_suspend (rs_runPolicy (rcr_spec run')) \<and> job_Validate lib run' = []"
    using buildJob_accounted by (intro exI [of _ run']) auto
qed

text \<open>
  C13. Every Job a pass creates is accounted to the run the pass observed: its pods carry the scheduler's quota
  label with the run's quota, use the AxisML scheduler, request what the role requests, and the Job belongs to the run and has its
  replicas. No Job is created for a suspended run or one that does not validate.
\<close>

theorem run_jobs_accounted:
  assumes "run_state (run_Reconcile lib api (main_registry lib) ns name) h = (res, es @ h)" "wa_getRun api h ns name = Inr run"
    "Put (KCreate (WJob job)) r \<in> set es"
  shows "\<not> isTerminal (rcs_phase (rcr_status run)) \<and>
    (\<exists>run'. observed lib api run run' \<and> job_accounted run' job \<and> \<not> rp_suspend (rs_runPolicy (rcr_spec run')) \<and> job_Validate lib run' = [])"
  by (rule run_jobs_created [OF assms])

section \<open>The immutable spec\<close>

lemma specFingerprint_nonempty: "specFingerprint lib run \<noteq> []"
proof -
  have "length (hex_encode (sha256 raw)) = 64" for raw by (simp add: length_sha256)
  then have "hex_encode (sha256 raw) \<noteq> []" for raw by (metis list.size(3) zero_neq_numeral)
  then show ?thesis by (simp add: specFingerprint_def Let_def split: sum.split)
qed

lemma specFingerprint_cong:
  "rcr_spec run' = (rcr_spec run)\<lparr>rs_runPolicy := (rs_runPolicy (rcr_spec run))\<lparr>rp_suspend := b\<rparr>\<rparr> \<Longrightarrow>
   specFingerprint lib run' = specFingerprint lib run"
  by (simp add: specFingerprint_def Let_def)

text \<open>Events of a pass on a run whose annotation is set.\<close>

definition locked_write :: "'q wlib \<Rightarrow> 'q RunCR \<Rightarrow> 'q wwrite \<Rightarrow> bool" where
  "locked_write lib run w \<longleftrightarrow>
     (if applied_spec run = specFingerprint lib run then pass_write lib (job_write lib) run w
      else \<exists>b. w = KStatus (WRun run) (WRun b) \<and> rcs_phase (rcr_status b) = PhaseFailed)"

lemma locked_only:
  assumes "applied_spec run \<noteq> []" "\<not> isTerminal (rcs_phase (rcr_status run))"
  shows "only (writes_only (locked_write lib run)) (nonterminal_pass lib api run)"
  unfolding only_def
proof (rule runs_bind [OF assert_runs], goal_cases)
  case (1 x es)
  have drift: "only (writes_only (\<lambda>w. \<exists>b. w = KStatus (WRun run) (WRun b) \<and> rcs_phase (rcr_status b) = PhaseFailed)) (fail_run api run m)" for m
    unfolding fail_run_def run_writeStatus_def Let_def using assms(2) by (intro only_rules) (auto simp: mergeStatus_phase)
  show ?case
  proof (cases "applied_spec run = specFingerprint lib run")
    case True
    with 1 assms(1) have "x = Inr run" "es = []" by (auto split: sum.splits prod.splits)
    then show ?thesis using main_active_only True by (simp add: locked_write_def [abs_def] only_def)
  next
    case False
    with 1 assms(1) obtain err where "x = Inl (err, run)" "es = []" by (auto split: sum.splits prod.splits)
    then show ?thesis using drift False by (simp add: locked_write_def [abs_def] only_def)
  qed
qed

lemma locked_split:
  assumes "run_state (run_Reconcile lib api (main_registry lib) ns name) h = (res, es @ h)" "wa_getRun api h ns name = Inr run"
    "\<not> isTerminal (rcs_phase (rcr_status run))" "applied_spec run \<noteq> []" "Put w r \<in> set es"
  shows "locked_write lib run w"
proof -
  obtain es' where es: "es = es' @ [Got ns name (Inr (WRun run))]"
    and run: "run_state (nonterminal_pass lib api run) (Got ns name (Inr (WRun run)) # h) = (res, es' @ Got ns name (Inr (WRun run)) # h)"
    by (rule nonterminal_split [OF assms(1,2,3)])
  from es assms(5) have "Put w r \<in> set es'" by auto
  then show ?thesis by (rule events_written [OF locked_only [OF assms(4,3)] run])
qed

lemma after_pass_annotations:
  assumes "\<And>a b. Put (KPatch (WRun a) (WRun b)) None \<notin> set es"
  shows "om_annotations (rcr_meta (after_pass es run)) = om_annotations (rcr_meta run)"
  using assms unfolding after_pass_def
proof (induction es)
  case (Cons e es)
  then have IH: "om_annotations (rcr_meta (foldr apply_event es run)) = om_annotations (rcr_meta run)" by auto
  with Cons.prems show ?case by (cases "(e, foldr apply_event es run)" rule: apply_event.cases) auto
qed simp

lemma annotation_kept:
  assumes "(run_step lib)\<^sup>*\<^sup>* run run'" "applied_spec run \<noteq> []"
  shows "applied_spec run' = applied_spec run"
  using assms(1)
proof (induction rule: rtranclp_induct)
  case (step run1 run2)
  from step.hyps(2) show ?case
  proof (cases rule: run_step.cases)
    case (step_pass api h ns name res es)
    have "Put (KPatch (WRun a) (WRun b)) None \<notin> set es" for a b
    proof (cases "isTerminal (rcs_phase (rcr_status run1))")
      case True
      have "KPatch (WRun a) (WRun b) \<noteq> generation_synced run1" by (simp add: generation_synced_def)
      then show ?thesis using terminal_split [OF step_pass(3,2) True] by metis
    next
      case False
      have "\<not> locked_write lib run1 (KPatch (WRun a) (WRun b))" by (simp add: locked_write_def)
      then show ?thesis using locked_split [OF step_pass(3,2) False] step.IH assms(2) by metis
    qed
    then have "om_annotations (rcr_meta run2) = om_annotations (rcr_meta run1)"
      unfolding step_pass(1) by (rule after_pass_annotations)
    then show ?thesis using step.IH by simp
  qed (use step.IH in simp)
qed simp

text \<open>
  C15. After the fingerprint of a spec is recorded, whatever edits and passes follow, a pass on a spec with another
  fingerprint writes only a \<open>Failed\<close> status of the run, so every Job created later comes from a spec with the recorded
  fingerprint. Setting or clearing \<open>suspend\<close> does not change the fingerprint.
\<close>

theorem run_spec_locked:
  assumes "(run_step lib)\<^sup>*\<^sup>* run run'" "applied_spec run = specFingerprint lib run"
    "wa_getRun api h ns name = Inr run'" "run_state (run_Reconcile lib api (main_registry lib) ns name) h = (res, es @ h)"
    "Put w r \<in> set es" "\<not> isTerminal (rcs_phase (rcr_status run'))"
  shows "(specFingerprint lib run' \<noteq> specFingerprint lib run \<longrightarrow>
       (\<exists>b. w = KStatus (WRun run') (WRun b) \<and> rcs_phase (rcr_status b) = PhaseFailed)) \<and>
     (\<forall>job. w = KCreate (WJob job) \<longrightarrow> specFingerprint lib run' = specFingerprint lib run \<and> job_accounted run' job) \<and>
     specFingerprint lib (run'\<lparr>rcr_spec := (rcr_spec run')\<lparr>rs_runPolicy := (rs_runPolicy (rcr_spec run'))\<lparr>rp_suspend := susp\<rparr>\<rparr>\<rparr>) =
       specFingerprint lib run'"
proof -
  have "applied_spec run \<noteq> []" using assms(2) specFingerprint_nonempty by metis
  with annotation_kept [OF assms(1)] assms(2) have locked: "applied_spec run' = specFingerprint lib run" "applied_spec run' \<noteq> []" by auto
  from locked_split [OF assms(4,3,6) locked(2) assms(5)] have w: "if specFingerprint lib run = specFingerprint lib run'
      then pass_write lib (job_write lib) run' w else \<exists>b. w = KStatus (WRun run') (WRun b) \<and> rcs_phase (rcr_status b) = PhaseFailed"
    unfolding locked_write_def locked(1) .
  have "specFingerprint lib run' = specFingerprint lib run \<and> job_accounted run' job" if "w = KCreate (WJob job)" for job
    using w that buildJob_accounted by (cases "specFingerprint lib run = specFingerprint lib run'") auto
  moreover have "specFingerprint lib (run'\<lparr>rcr_spec := (rcr_spec run')\<lparr>rs_runPolicy := (rs_runPolicy (rcr_spec run'))\<lparr>rp_suspend := susp\<rparr>\<rparr>\<rparr>) =
      specFingerprint lib run'" by (rule specFingerprint_cong) simp
  ultimately show ?thesis using w by (cases "specFingerprint lib run = specFingerprint lib run'") auto
qed

section \<open>Cancellation\<close>

text \<open>The status after a pass: that of the latest successful status write.\<close>

fun last_status :: "'q wevent list \<Rightarrow> RunCRStatus \<Rightarrow> RunCRStatus" where
  "last_status [] st = st"
| "last_status (Put (KStatus (WRun a) (WRun b)) None # es) st = rcr_status b"
| "last_status (e # es) st = last_status es st"

lemma after_pass_last_status: "rcr_status (after_pass es run) = last_status es (rcr_status run)"
  unfolding after_pass_def
proof (induction es)
  case (Cons e es)
  then show ?case by (cases "(e, foldr apply_event es run)" rule: apply_event.cases) auto
qed simp

lemma last_status_append: "last_status (es @ es') st = last_status es (last_status es' st)"
  by (induction es st rule: last_status.induct) auto

fun no_status :: "'q wwrite \<Rightarrow> bool" where
  "no_status (KStatus a b) \<longleftrightarrow> False"
| "no_status _ \<longleftrightarrow> True"

lemma last_status_none: "list_all (writes_only no_status) es \<Longrightarrow> last_status es st = st"
  by (induction es st rule: last_status.induct) auto

lemma config_no_status: "config_write lib own decl w \<Longrightarrow> no_status w"
  by (cases w) auto

lemma job_no_status: "job_write lib run w \<Longrightarrow> no_status w"
  by (cases w) auto

lemma configs_no_status: "only (writes_only no_status) (cfg_Reconcile lib api own decl extra)"
  by (rule only_mono [OF cfg_Reconcile_only]) (auto simp: config_event_writes elim!: writes_only_mono config_no_status)

text \<open>The status as \<open>statusmap\<close> reads it.\<close>

definition observe_status :: "RunCRStatus \<Rightarrow> run_observed" where
  "observe_status st = \<lparr>ro_phase = rcs_phase st, ro_message = rcs_message st, ro_startedAt = rcs_startedAt st, ro_finishedAt = rcs_finishedAt st,
     ro_conditions = map (\<lambda>c. \<lparr>cond_type = mc_type c, cond_status = mc_status c, cond_reason = mc_reason c\<rparr>) (rcs_conditions st)\<rparr>"

definition settled :: "RunCRStatus \<Rightarrow> bool" where
  "settled st \<longleftrightarrow> isTerminal (rcs_phase st) \<or> hasCondition (ro_conditions (observe_status st)) ConditionSuspended ReasonCancelRequested"

text \<open>\<open>meta.SetStatusCondition\<close> leaves a condition of the given type with the given status and reason.\<close>

definition sets_conditions :: "'q wapi \<Rightarrow> bool" where
  "sets_conditions api \<longleftrightarrow> (\<forall>t cs c. \<exists>c'\<in>set (wa_setCondition api t cs c).
     mc_type c' = mc_type c \<and> mc_status c' = mc_status c \<and> mc_reason c' = mc_reason c)"

lemma writeStatus_runs:
  "runs (run_writeStatus api run m r) (\<lambda>x es. \<not> isl x \<longrightarrow>
     (\<exists>t. last_status es (rcr_status run) = mergeStatus (wa_setCondition api t) (rcr_status run) m r (rcr_generation run)))"
  unfolding run_writeStatus_def Let_def by (auto intro!: runs_rules)

lemma fail_run_runs: "runs (fail_run api run msg) (\<lambda>x es. snd x = None \<longrightarrow> settled (last_status es (rcr_status run)))"
  unfolding fail_run_def
  by (rule runs_bind [OF writeStatus_runs]) (auto intro!: runs_rules simp: settled_def mergeStatus_phase isTerminal_def split: sum.split)

lemma retry_run_runs: "runs (retry_run api run msg e) (\<lambda>x es. snd x \<noteq> None)"
  unfolding retry_run_def by (rule runs_bind [OF writeStatus_runs]) (auto intro!: runs_rules)

lemma suspend_merge_settled:
  assumes "sets_conditions api"
  shows "settled (mergeStatus (wa_setCondition api t) st m suspend_done g)"
proof (cases "isTerminal (if isTerminal (rcs_phase st) then rcs_phase st else msr_phase m)")
  case False
  from assms obtain c where "c \<in> set (wa_setCondition api t (foldl (wa_setCondition api t) (rcs_conditions st) (msr_conditions m)) (suspended_condition suspend_done))"
    "mc_type c = ConditionSuspended" "mc_status c = ''True''" "mc_reason c = ReasonCancelRequested"
    unfolding sets_conditions_def suspended_condition_def by fastforce
  with False show ?thesis
    by (auto simp: settled_def hasCondition_def observe_status_def mergeStatus_def Let_def list_ex_iff split: if_splits)
qed (simp add: settled_def mergeStatus_phase)

lemma job_Reconcile_suspended:
  assumes "rp_suspend (rs_runPolicy (rcr_spec run))"
  shows "runs (job_Reconcile lib api run) (\<lambda>(live, recRes, err) es. err = None \<longrightarrow> recRes = suspend_done)"
  unfolding job_Reconcile_def Let_def using assms by (auto intro!: runs_rules)

lemma native_parts [simp]:
  "rh_validate (nativejob lib) = job_Validate lib" "rh_reconcile (nativejob lib) = job_Reconcile lib" "rh_mapStatus (nativejob lib) = job_MapStatus"
  by (simp_all add: nativejob_def)

lemma handle_run_settles:
  assumes "rp_suspend (rs_runPolicy (rcr_spec run))" "sets_conditions api" "job_Validate lib run = []"
  shows "runs (handle_run api (nativejob lib) run) (\<lambda>x es. snd x = None \<longrightarrow> settled (last_status es (rcr_status run)))"
proof -
  have quiet: "only (writes_only no_status) (job_Reconcile lib api run)"
    by (rule only_mono [OF job_Reconcile_only [OF assms(3)]]) (auto elim!: writes_only_mono job_no_status)
  show ?thesis unfolding handle_run_def native_parts
  proof (rule runs_bind [OF runs_conj [OF only_runs [OF quiet] job_Reconcile_suspended [OF assms(1)]]], goal_cases)
    case (1 x es)
    obtain live recRes err where x: "x = (live, recRes, err)" by (cases x)
    show ?case
    proof (cases err)
      case None
      with 1 x have "recRes = suspend_done" and es: "\<And>st. last_status es st = st" by (auto simp: last_status_none)
      then show ?thesis unfolding x None using suspend_merge_settled [OF assms(2)]
        by (auto intro!: runs_bind [OF writeStatus_runs] runs_rules simp: last_status_append es split: sum.splits)
    next
      case (Some e)
      then show ?thesis unfolding x by (auto intro: runs_mono [OF retry_run_runs])
    qed
  qed
qed

lemma active_pass_settles:
  assumes "rp_suspend (rs_runPolicy (rcr_spec run))" "sets_conditions api"
  shows "runs (active_pass lib api backend (run_Lookup (main_registry lib) b e) run)
     (\<lambda>x es. snd x = None \<longrightarrow> settled (last_status es (rcr_status run)))"
proof (cases "run_Lookup (main_registry lib) b e")
  case None
  then show ?thesis by (simp add: active_pass_def fail_run_runs)
next
  case (Some hdl)
  then have hdl: "hdl = nativejob lib" by (simp add: main_Lookup split: if_splits)
  show ?thesis unfolding active_pass_def Some option.case hdl native_parts Let_def
  proof (intro runs_if fail_run_runs, goal_cases)
    case 1
    then have valid: "job_Validate lib run = []" by simp
    show ?case
    proof (rule runs_bind [OF only_runs [OF configs_no_status]], goal_cases)
      case (1 c es)
      then have es: "\<And>st. last_status es st = st" by (simp add: last_status_none)
      show ?case unfolding last_status_append es
        by (intro runs_rules fail_run_runs runs_mono [OF retry_run_runs] handle_run_settles [OF assms valid]) auto
    qed
  qed
qed

lemma nonterminal_pass_settles:
  assumes "rp_suspend (rs_runPolicy (rcr_spec run))" "sets_conditions api" "\<And>h r. wa_runAnswer api h r = r"
  shows "runs (nonterminal_pass lib api run) (\<lambda>x es. snd x = None \<longrightarrow> settled (last_status es (rcr_status run)))"
proof (rule runs_bind [OF assert_runs], goal_cases)
  case (1 x es)
  have es: "last_status es st = st" for st using 1 by (auto split: sum.splits prod.splits)
  show ?case
  proof (cases x)
    case (Inl p)
    with 1 obtain err run' where "x = Inl (err, run')" "rcr_status run' = rcr_status run"
      by (cases p) (auto simp: anchored_def)
    then show ?thesis using fail_run_runs [of api run' err] by (simp add: last_status_append es)
  next
    case (Inr run')
    with 1 assms(3) have same: "rcr_status run' = rcr_status run" "rcr_spec run' = rcr_spec run" by (auto simp: anchored_def)
    then show ?thesis unfolding Inr last_status_append es
      using active_pass_settles [of run' api lib] assms(1,2) by simp
  qed
qed

lemma settled_maps:
  assumes "settled st"
  shows "fst (MapRun RunCanceling cur (observe_status st) t) \<in> {RunCancelled, RunSucceeded, RunFailed}"
  using assms by (auto simp: settled_def isTerminal_def MapRun_def map_run_switch_def observe_status_def split: prod.splits)

text \<open>
  C16. A pass over a run with \<open>suspend\<close> set that ends without error leaves a status that is terminal or carries the
  \<open>Suspended\<close> condition with the agreed reason, so the compute service, which reads that status, moves the cancelling run to
  \<open>Cancelled\<close>, \<open>Succeeded\<close> or \<open>Failed\<close>; the pass creates no Job.
\<close>

theorem run_cancel_settles:
  assumes "run_state (run_Reconcile lib api (main_registry lib) ns name) h = ((n, None), es @ h)" "wa_getRun api h ns name = Inr run"
    "rp_suspend (rs_runPolicy (rcr_spec run))" "sets_conditions api" "\<And>h r. wa_runAnswer api h r = r"
  shows "fst (MapRun RunCanceling cur (observe_status (rcr_status (after_pass es run))) t) \<in> {RunCancelled, RunSucceeded, RunFailed} \<and>
    (\<forall>job r. Put (KCreate (WJob job)) r \<notin> set es)"
proof
  have "settled (last_status es (rcr_status run))"
  proof (cases "isTerminal (rcs_phase (rcr_status run))")
    case True
    have "rcs_phase (rcr_status b) = rcs_phase (rcr_status run)" if "Put (KStatus (WRun a) (WRun b)) None \<in> set es" for a b
      using terminal_split [OF assms(1,2) True that] by (simp add: generation_synced_def)
    then have "rcs_phase (rcr_status (after_pass es run)) = rcs_phase (rcr_status run)" by (intro after_pass_status refl)
    with True show ?thesis by (simp add: settled_def flip: after_pass_last_status)
  next
    case False
    obtain es' where es: "es = es' @ [Got ns name (Inr (WRun run))]"
      and run: "run_state (nonterminal_pass lib api run) (Got ns name (Inr (WRun run)) # h) = ((n, None), es' @ Got ns name (Inr (WRun run)) # h)"
      by (rule nonterminal_split [OF assms(1,2) False])
    from runs_result [OF nonterminal_pass_settles [OF assms(3,4,5)] run] have "settled (last_status es' (rcr_status run))" by simp
    then show ?thesis by (simp add: es last_status_append)
  qed
  then show "fst (MapRun RunCanceling cur (observe_status (rcr_status (after_pass es run))) t) \<in> {RunCancelled, RunSucceeded, RunFailed}"
    unfolding after_pass_last_status by (rule settled_maps)
  show "\<forall>job r. Put (KCreate (WJob job)) r \<notin> set es"
  proof (intro allI notI)
    fix job r assume "Put (KCreate (WJob job)) r \<in> set es"
    then obtain run' where "observed lib api run run'" "\<not> rp_suspend (rs_runPolicy (rcr_spec run'))"
      using run_jobs_created [OF assms(1,2)] by blast
    with assms(3,5) show False by (auto simp: observed_def anchored_def)
  qed
qed

section \<open>Two ways to a wrong outcome\<close>

lemma writeStatus_accepted:
  assumes "\<And>h a b. wa_write api h (KStatus a b) = None"
  shows "\<exists>x es t. run_state (run_writeStatus api run m r) h = (Inr x, es @ h) \<and>
     last_status es (rcr_status run) = mergeStatus (wa_setCondition api t) (rcr_status run) m r (rcr_generation run)"
  unfolding run_writeStatus_def by (simp add: clock_def put_back_def assms Let_def) (metis append_Nil append_Cons last_status.simps(1,2))

lemma fail_run_accepted:
  assumes "\<And>h a b. wa_write api h (KStatus a b) = None"
  shows "\<exists>es t. run_state (fail_run api run m) h = ((0, None), es @ h) \<and>
     last_status es (rcr_status run) = mergeStatus (wa_setCondition api t) (rcr_status run) (zero_map_result PhaseFailed m) zero_reconcile_result (rcr_generation run)"
proof -
  obtain x es t where "run_state (run_writeStatus api run (zero_map_result PhaseFailed m) zero_reconcile_result) h = (Inr x, es @ h)"
    "last_status es (rcr_status run) = mergeStatus (wa_setCondition api t) (rcr_status run) (zero_map_result PhaseFailed m) zero_reconcile_result (rcr_generation run)"
    using writeStatus_accepted [OF assms] by metis
  then show ?thesis unfolding fail_run_def by (intro exI [of _ es] exI [of _ t]) simp
qed

text \<open>
  When the write that records the fingerprint fails, for whatever reason, the pass marks the run \<open>Failed\<close> and
  reports no error: the run is not retried, and its phase is final although nothing is wrong with it.
\<close>

theorem run_anchor_error_final:
  assumes "wa_getRun api h ns name = Inr run" "\<not> isTerminal (rcs_phase (rcr_status run))" "applied_spec run = []"
    "wa_write api (Got ns name (Inr (WRun run)) # h) (KPatch (WRun run) (WRun (anchored lib run))) = Some e"
    "\<And>h a b. wa_write api h (KStatus a b) = None"
  shows "\<exists>es. run_state (run_Reconcile lib api reg ns name) h = ((0, None), es @ h) \<and>
    rcs_phase (rcr_status (after_pass es run)) = PhaseFailed \<and>
    rcs_message (rcr_status (after_pass es run)) = ''anchor applied-spec annotation: '' @ kmsg e"
proof -
  let ?g = "Got ns name (Inr (WRun run)) # h" and ?p = "Put (KPatch (WRun run) (WRun (anchored lib run))) (Some e)"
    and ?m = "''anchor applied-spec annotation: '' @ kmsg e"
  have start: "run_state (run_Reconcile lib api reg ns name) h = run_state (fail_run api (anchored lib run) ?m) (?p # ?g)"
    using assms(1-4) unfolding run_Reconcile_def assertSpecImmutable_def
    by (simp add: get_obj_def call_def put_back_def Let_def anchored_def)
  obtain es t where es: "run_state (fail_run api (anchored lib run) ?m) (?p # ?g) = ((0, None), es @ ?p # ?g)"
    "last_status es (rcr_status (anchored lib run)) = mergeStatus (wa_setCondition api t) (rcr_status (anchored lib run))
       (zero_map_result PhaseFailed ?m) zero_reconcile_result (rcr_generation (anchored lib run))"
    using fail_run_accepted [OF assms(5)] by metis
  have "rcr_status (after_pass (es @ [?p, Got ns name (Inr (WRun run))]) run) = last_status es (rcr_status (anchored lib run))"
    by (simp add: after_pass_last_status last_status_append anchored_def)
  moreover have "rcs_phase (rcr_status (anchored lib run)) = rcs_phase (rcr_status run)" by (simp add: anchored_def)
  ultimately show ?thesis using assms(2) es start
    by (intro exI [of _ "es @ [?p, Got ns name (Inr (WRun run))]"]) (simp add: mergeStatus_phase, simp add: mergeStatus_def merge_message_def Let_def)
qed

text \<open>
  The handler does not look at the owner of a Job it finds under the run's Job name: when a Job of somebody else
  has that name and has completed, the run becomes \<open>Succeeded\<close> without having started anything.
\<close>

theorem run_adopts_foreign_job:
  assumes "wa_getRun api h ns name = Inr run" "\<not> isTerminal (rcs_phase (rcr_status run))" "applied_spec run = specFingerprint lib run"
    "rs_backend (rcr_spec run) = \<lparr>be_name = ''native'', be_engine = ''job'', be_config = None\<rparr>" "job_Validate lib run = []" "rs_configMaps (rcr_spec run) = []"
    "\<not> rp_suspend (rs_runPolicy (rcr_spec run))" "\<And>h ns sel. wa_listConfigMaps api h ns sel = Inr []"
    "\<And>h. wa_getJob api h (rcr_namespace run) (jobName run) = Inr job" "js_conditions (jb_status job) = [c]" "jc_type c = ''Complete''" "jc_status c = ''True''"
    "\<And>h a b. wa_write api h (KStatus a b) = None"
  shows "\<exists>es. run_state (run_Reconcile lib api (main_registry lib) ns name) h = ((0, None), es @ h) \<and>
    rcs_phase (rcr_status (after_pass es run)) = PhaseSucceeded \<and> (\<forall>ob r. Put (KCreate ob) r \<notin> set es)"
proof -
  let ?es = "[Got (rcr_namespace run) (jobName run) (Inr (WJob job)), GotList (Inr []), Got ns name (Inr (WRun run))]"
  have fp: "applied_spec run \<noteq> []" using assms(3) specFingerprint_nonempty by metis
  have cfg: "run_state (cfg_Reconcile lib api own [] extra) h' = (None, GotList (Inr []) # h')" for own extra h'
    by (simp add: cfg_Reconcile_def deleteObsolete_def list_obj_def call_def assms(8))
  have job: "run_state (job_Reconcile lib api run) h' = ((UJob job, zero_reconcile_result, None), Got (rcr_namespace run) (jobName run) (Inr (WJob job)) # h')" for h'
    using assms(7) by (simp add: job_Reconcile_def get_obj_def call_def assms(9))
  have phase: "msr_phase (job_MapStatus (UJob job)) = PhaseSucceeded" using assms(10,11,12) by (simp add: Let_def)
  obtain x es t where w: "run_state (run_writeStatus api run (job_MapStatus (UJob job)) zero_reconcile_result) (?es @ h) = (Inr x, es @ ?es @ h)"
    "last_status es (rcr_status run) = mergeStatus (wa_setCondition api t) (rcr_status run) (job_MapStatus (UJob job)) zero_reconcile_result (rcr_generation run)"
    using writeStatus_accepted [OF assms(13)] by metis
  have "run_state (run_Reconcile lib api (main_registry lib) ns name) h = ((0, None), (es @ ?es) @ h)"
    using assms(1,2,3,4,5,6) fp w(1) unfolding run_Reconcile_def assertSpecImmutable_def active_pass_def handle_run_def
    by (simp add: get_obj_def call_def Let_def main_Lookup cfg job cfg_Validate_def del: job_MapStatus.simps)
  moreover have "rcs_phase (rcr_status (after_pass (es @ ?es) run)) = PhaseSucceeded"
    using w(2) assms(2) phase by (simp add: after_pass_last_status last_status_append mergeStatus_phase del: job_MapStatus.simps)
  moreover have "Put (KCreate ob) r \<notin> set (es @ ?es)" for ob r
  proof
    assume "Put (KCreate ob) r \<in> set (es @ ?es)"
    then have "Put (KCreate ob) r \<in> set es" by simp
    moreover have "only (writes_only (\<lambda>w. w \<noteq> KCreate ob)) (run_writeStatus api run (job_MapStatus (UJob job)) zero_reconcile_result)"
      by (rule only_writeStatus) simp
    ultimately show False using events_written [OF _ w(1)] by blast
  qed
  ultimately show ?thesis by blast
qed

section \<open>An example\<close>

text \<open>A run of two replicas, and a server that has it and no Job, and accepts every write but those in \<open>bad\<close>.\<close>

definition ox_lib :: "int wlib" where
  "ox_lib = \<lparr>wl_marshalRun = (\<lambda>spec. Inl (sch_quota (rs_scheduling spec))), wl_marshalSvc = (\<lambda>spec. Inl (sch_quota (ss_scheduling spec))),
     wl_marshalSet = (\<lambda>spec labels. Inl []), wl_canonicalJSON = Inr, wl_aggregate = (\<lambda>errs. ''invalid''),
     wl_decodeJobConfig = (\<lambda>raw. Inl ''unknown field''), wl_decodeSetConfig = (\<lambda>raw. Inl ''unknown field''),
     wl_isDNS1123Subdomain = (\<lambda>_. []), wl_isDNS1123Label = (\<lambda>_. []), wl_isConfigMapKey = (\<lambda>_. []),
     wl_controllerOf = (\<lambda>refs. map_option own_uid (find own_controller refs)),
     wl_newControllerRef = (\<lambda>kind name uid. \<lparr>own_apiVersion = ''axisml.io/v1alpha1'', own_kind = kind, own_name = name, own_uid = uid,
       own_controller = True, own_blockOwnerDeletion = True\<rparr>),
     wl_setControllerRef = (\<lambda>kind name uid refs. Inr (refs @ [\<lparr>own_apiVersion = ''axisml.io/v1alpha1'', own_kind = kind, own_name = name, own_uid = uid,
       own_controller = True, own_blockOwnerDeletion = True\<rparr>]))\<rparr>"

definition ox_status :: "string \<Rightarrow> RunCRStatus" where
  "ox_status phase = \<lparr>rcs_observedGeneration = 1, rcs_phase = phase, rcs_message = [], rcs_startedAt = None, rcs_finishedAt = None,
     rcs_conditions = [], rcs_roles = []\<rparr>"

definition ox_run :: "string \<Rightarrow> string \<Rightarrow> bool \<Rightarrow> string \<Rightarrow> int RunCR" where
  "ox_run quota applied susp phase = \<lparr>rcr_meta = \<lparr>om_namespace = ''team-a'', om_name = ''train'',
       om_labels = [(LabelRunID, ''id-1''), (LabelQuota, ''gpu'')],
       om_annotations = (if applied = [] then [] else [(AppliedSpecAnnotation, applied)]), om_owners = []\<rparr>,
     rcr_uid = ''uid-1'', rcr_generation = 2,
     rcr_spec = \<lparr>rs_backend = \<lparr>be_name = ''native'', be_engine = ''job'', be_config = None\<rparr>,
       rs_scheduling = \<lparr>sch_quota = quota, sch_priorityClass = [], sch_nodeSelector = [], sch_tolerations = []\<rparr>,
       rs_configMaps = [], rs_roles = [\<lparr>role_name = ''worker'', role_replicas = 2, role_restartPolicy = [],
         role_template = template_of ''img'' [(''cpu'', 4)]\<rparr>],
       rs_runPolicy = \<lparr>rp_suspend = susp, rp_activeDeadlineSeconds = None, rp_ttlSecondsAfterFinished = None, rp_backoffLimit = None\<rparr>\<rparr>,
     rcr_status = ox_status phase\<rparr>"

abbreviation "ox_print quota \<equiv> ''marshal-error:'' @ quota"

definition ox_api :: "int RunCR \<Rightarrow> kerr + int Job \<Rightarrow> (int wwrite \<Rightarrow> bool) \<Rightarrow> int wapi" where
  "ox_api run job bad = \<lparr>wa_getRun = (\<lambda>_ _ _. Inr run), wa_getSvc = (\<lambda>_ _ _. Inl (KNotFound ''no'')), wa_getPolicy = (\<lambda>_ _ _. Inl (KNotFound ''no'')),
     wa_getConfigMap = (\<lambda>_ _ _. Inl (KNotFound ''no'')), wa_getJob = (\<lambda>_ _ _. job), wa_getDeployment = (\<lambda>_ _ _. Inl (KNotFound ''no'')),
     wa_getStatefulSet = (\<lambda>_ _ _. Inl (KNotFound ''no'')), wa_getService = (\<lambda>_ _ _. Inl (KNotFound ''no'')), wa_getRoute = (\<lambda>_ _ _. Inl (KNotFound ''no'')),
     wa_listConfigMaps = (\<lambda>_ _ _. Inr []), wa_listDeployments = (\<lambda>_ _ _. Inr []), wa_listStatefulSets = (\<lambda>_ _ _. Inr []),
     wa_listServices = (\<lambda>_ _ _. Inr []), wa_listRoutes = (\<lambda>_ _ _. Inr []),
     wa_write = (\<lambda>_ w. if bad w then Some (KOther ''timeout'') else None), wa_runAnswer = (\<lambda>_ r. r), wa_jobAnswer = (\<lambda>_ j. j), wa_now = (\<lambda>_. 7),
     wa_setCondition = (\<lambda>t cs c. filter (\<lambda>c'. mc_type c' \<noteq> mc_type c) cs @ [c\<lparr>mc_lastTransitionTime := t\<rparr>])\<rparr>"

abbreviation "no_job \<equiv> Inl (KNotFound ''no'')"

definition ox_pass :: "int RunCR \<Rightarrow> kerr + int Job \<Rightarrow> (int wwrite \<Rightarrow> bool) \<Rightarrow> run_pass \<times> int wevent list" where
  "ox_pass run job bad = run_state (run_Reconcile ox_lib (ox_api run job bad) (main_registry ox_lib) ''team-a'' ''train'') []"

lemma ox_runs: "run_state (run_Reconcile ox_lib (ox_api run job bad) (main_registry ox_lib) ''team-a'' ''train'') [] =
    (fst (ox_pass run job bad), snd (ox_pass run job bad) @ [])"
  by (simp add: ox_pass_def)

lemma ox_get: "wa_getRun (ox_api run job bad) h ns name = Inr run"
  by (simp add: ox_api_def)

lemma ox_steps: "(run_step ox_lib)\<^sup>*\<^sup>* run (after_pass (snd (ox_pass run job bad)) run)"
  by (rule r_into_rtranclp, rule step_pass [OF ox_get ox_runs])

lemma ox_conditions: "sets_conditions (ox_api run job bad)"
  by (auto simp: sets_conditions_def ox_api_def)

abbreviation "ox_done \<equiv> ox_run ''q'' (ox_print ''q'') False PhaseSucceeded"

theorem run_terminal_final_witness:
  "rcs_phase (rcr_status (after_pass (snd (ox_pass ox_done no_job (\<lambda>_. False))) ox_done)) = PhaseSucceeded"
proof -
  have "isTerminal (rcs_phase (rcr_status ox_done))" by (simp add: isTerminal_def ox_run_def ox_status_def)
  moreover have "rcs_phase (rcr_status ox_done) = PhaseSucceeded" by (simp add: ox_run_def ox_status_def)
  ultimately show ?thesis using run_terminal_final [OF ox_steps [of ox_done no_job "\<lambda>_. False"]] by simp
qed

abbreviation "ox_new \<equiv> ox_run ''axisml-team-a-gpu'' [] False []"

definition ox_job :: "int Job" where
  "ox_job = (case buildJob ox_lib ox_new of Inr job \<Rightarrow> job)"

lemma ox_created: "Put (KCreate (WJob ox_job)) None \<in> set (snd (ox_pass ox_new no_job (\<lambda>_. False)))"
  by code_simp

theorem run_jobs_accounted_witness:
  "sget (pts_labels (jb_template ox_job)) LabelSchedulerQuota = ''axisml-team-a-gpu''"
proof -
  from run_jobs_accounted [OF ox_runs ox_get ox_created] obtain run' where
    "observed ox_lib (ox_api ox_new no_job (\<lambda>_. False)) ox_new run'" "job_accounted run' ox_job" by blast
  moreover from this(1) have "rcr_spec run' = rcr_spec ox_new" by (auto simp: observed_def anchored_def ox_api_def)
  ultimately show ?thesis by (simp add: job_accounted_def ox_run_def)
qed

abbreviation "ox_locked \<equiv> ox_run ''q'' (ox_print ''q'') False PhaseRunning"
abbreviation "ox_moved \<equiv> (ox_run ''other'' (ox_print ''q'') False PhaseRunning)\<lparr>rcr_generation := 3\<rparr>"

definition ox_write :: "int wwrite" where
  "ox_write = (case snd (ox_pass ox_moved no_job (\<lambda>_. False)) of Put w r # _ \<Rightarrow> w)"

theorem run_spec_locked_witness:
  "\<exists>b. ox_write = KStatus (WRun ox_moved) (WRun b) \<and> rcs_phase (rcr_status b) = PhaseFailed"
proof -
  have "ox_moved = ox_locked\<lparr>rcr_spec := rcr_spec ox_moved, rcr_generation := rcr_generation ox_locked + 1\<rparr>"
    by (simp add: ox_run_def)
  then have step: "(run_step ox_lib)\<^sup>*\<^sup>* ox_locked ox_moved" using step_edit by (metis r_into_rtranclp)
  have "applied_spec ox_locked = specFingerprint ox_lib ox_locked" "specFingerprint ox_lib ox_moved \<noteq> specFingerprint ox_lib ox_locked"
    "\<not> isTerminal (rcs_phase (rcr_status ox_moved))" by code_simp+
  moreover have "Put ox_write None \<in> set (snd (ox_pass ox_moved no_job (\<lambda>_. False)))" by code_simp
  ultimately show ?thesis using run_spec_locked [OF step _ ox_get ox_runs] by blast
qed

abbreviation "ox_cancel \<equiv> ox_run ''q'' [] True PhaseRunning"

theorem run_cancel_settles_witness:
  "fst (MapRun RunCanceling \<lparr>rs_message = [], rs_startedAt = None, rs_finishedAt = None\<rparr>
     (observe_status (rcr_status (after_pass (snd (ox_pass ox_cancel no_job (\<lambda>_. False))) ox_cancel))) 9)
     \<in> {RunCancelled, RunSucceeded, RunFailed}"
proof -
  have "fst (ox_pass ox_cancel no_job (\<lambda>_. False)) = (0, None)" by code_simp
  with ox_runs [of ox_cancel no_job "\<lambda>_. False"] have "run_state (run_Reconcile ox_lib (ox_api ox_cancel no_job (\<lambda>_. False)) (main_registry ox_lib) ''team-a'' ''train'') [] =
     ((0, None), snd (ox_pass ox_cancel no_job (\<lambda>_. False)) @ [])" by simp
  from run_cancel_settles [OF this ox_get _ ox_conditions] show ?thesis by (simp add: ox_run_def ox_api_def)
qed

fun ox_anchor_bad :: "int wwrite \<Rightarrow> bool" where
  "ox_anchor_bad (KPatch a b) = True"
| "ox_anchor_bad _ = False"

theorem run_anchor_error_final_witness:
  "\<exists>es. run_state (run_Reconcile ox_lib (ox_api ox_new no_job ox_anchor_bad) (main_registry ox_lib) ''team-a'' ''train'') [] = ((0, None), es @ []) \<and>
     rcs_phase (rcr_status (after_pass es ox_new)) = PhaseFailed"
proof -
  have "\<not> isTerminal (rcs_phase (rcr_status ox_new))" "applied_spec ox_new = []"
    by (simp_all add: isTerminal_def ox_run_def ox_status_def sget_def)
  from run_anchor_error_final [OF ox_get this, of no_job ox_anchor_bad "''team-a''" "''train''" "[]" ox_lib "KOther ''timeout''" "main_registry ox_lib"]
  show ?thesis by (auto simp: ox_api_def)
qed

abbreviation "ox_ready \<equiv> ox_run ''q'' (ox_print ''q'') False []"

definition ox_foreign :: "int Job" where
  "ox_foreign = ox_job\<lparr>jb_meta := (jb_meta ox_job)\<lparr>om_owners := []\<rparr>,
     jb_status := (jb_status ox_job)\<lparr>js_conditions := [\<lparr>jc_type = ''Complete'', jc_status = ''True'', jc_message = [], jc_lastTransitionTime = 3\<rparr>]\<rparr>\<rparr>"

theorem run_adopts_foreign_job_witness:
  "\<exists>es. run_state (run_Reconcile ox_lib (ox_api ox_ready (Inr ox_foreign) (\<lambda>_. False)) (main_registry ox_lib) ''team-a'' ''train'') [] = ((0, None), es @ []) \<and>
     rcs_phase (rcr_status (after_pass es ox_ready)) = PhaseSucceeded"
proof -
  have run: "\<not> isTerminal (rcs_phase (rcr_status ox_ready))" "applied_spec ox_ready = specFingerprint ox_lib ox_ready"
    "job_Validate ox_lib ox_ready = []" "\<not> rp_suspend (rs_runPolicy (rcr_spec ox_ready))" "rs_configMaps (rcr_spec ox_ready) = []"
    "rs_backend (rcr_spec ox_ready) = \<lparr>be_name = ''native'', be_engine = ''job'', be_config = None\<rparr>" by code_simp+
  have api: "wa_listConfigMaps (ox_api r j b) h ns sel = Inr []" "wa_getJob (ox_api r (Inr ox_foreign) b) h ns nm = Inr ox_foreign"
    "wa_write (ox_api r j (\<lambda>_. False)) h w = None" for r j b h ns sel nm w by (simp_all add: ox_api_def)
  have job: "js_conditions (jb_status ox_foreign) = [\<lparr>jc_type = ''Complete'', jc_status = ''True'', jc_message = [], jc_lastTransitionTime = 3\<rparr>]"
    by (simp add: ox_foreign_def)
  have "\<exists>es. run_state (run_Reconcile ox_lib (ox_api ox_ready (Inr ox_foreign) (\<lambda>_. False)) (main_registry ox_lib) ''team-a'' ''train'') [] = ((0, None), es @ []) \<and>
     rcs_phase (rcr_status (after_pass es ox_ready)) = PhaseSucceeded \<and> (\<forall>ob r. Put (KCreate ob) r \<notin> set es)"
    by (rule run_adopts_foreign_job [OF ox_get run(1,2,6,3,5,4) api(1,2) job _ _ api(3)]) simp_all
  then show ?thesis by blast
qed

end
