(* ===== verification/ServiceOperatorProps.thy ===== *)
theory ServiceOperatorProps
  imports ServiceOperator RunOperatorProps
begin

text \<open>
  What the service controller guarantees, for every behaviour of the API server. The locale
  \<open>svc_contract\<close> is what the dispatcher relies on of a handler: the writes it makes, and that it
  reports no error only when all of them were accepted. The dispatcher's bounds are proved in it
  once; the two native handlers and the stub of an unimplemented backend are interpretations.
\<close>

section \<open>Rendered sets\<close>

text \<open>
  The pods of a set are accounted: they carry the quota of the service and name the AxisML
  scheduler, the selector of the set matches them, and they ask for what the role asks for.
\<close>

definition set_accounted :: "'q SvcCR \<Rightarrow> 'q WorkloadSetSpec \<Rightarrow> bool" where
  "set_accounted svc s \<longleftrightarrow> (\<exists>role. ss_roles (scr_spec svc) = [role] \<and> wss_replicas s = role_replicas role \<and>
     sch_quota (ss_scheduling (scr_spec svc)) \<noteq> [] \<and>
     sget (pts_labels (wss_template s)) LabelSchedulerQuota = sch_quota (ss_scheduling (scr_spec svc)) \<and>
     pts_schedulerName (wss_template s) = SchedulerName \<and>
     (\<forall>k v. map_of (wss_selector s) k = Some v \<longrightarrow> map_of (pts_labels (wss_template s)) k = Some v) \<and>
     map ct_requests (pts_containers (wss_template s)) = [pt_requests (role_template role)])"

lemma map_of_add_label: "map_of (add_label svc key m) k =
    (if k = key \<and> sget (scr_labels svc) key \<noteq> [] then Some (sget (scr_labels svc) key) else map_of m k)"
  by (simp add: add_label_def)

lemma podTemplateLabels_quota: "map_of (podTemplateLabels svc role) LabelSchedulerQuota = Some (sch_quota (ss_scheduling (scr_spec svc)))"
  by (simp add: podTemplateLabels_def map_of_add_label)

lemma selectorLabels_match: "map_of (selectorLabels svc role) k = Some v \<Longrightarrow> map_of (podTemplateLabels svc role) k = Some v"
  by (auto simp: podTemplateLabels_def map_of_add_label selectorLabels_def split: if_splits)

lemma template_accounted:
  assumes "ss_roles (scr_spec svc) = [role]" "sch_quota (ss_scheduling (scr_spec svc)) \<noteq> []"
    "wss_replicas s = role_replicas role" "wss_selector s = selectorLabels svc (role_name role)" "wss_template s = svc_template env svc role"
  shows "set_accounted svc s"
  unfolding set_accounted_def
  using assms by (intro exI [of _ role]) (auto simp: svc_template_def Let_def svc_container_def sget_def podTemplateLabels_quota selectorLabels_match)

section \<open>Validation\<close>

lemma native_Validate_ok:
  assumes "val_errors (native_Validate what ce cw spec) = []"
  obtains role where "ss_roles spec = [role]" "role_name role = SvcRoleName" "0 \<le> role_replicas role"
    "sch_quota (ss_scheduling spec) \<noteq> []" "pt_ports (role_template role) \<noteq> []" "ce spec = []"
  using assms by (auto simp: native_Validate_def native_errors_def Let_def split: list.splits if_splits)

lemma build_accounted:
  assumes "val_errors (native_Validate what ce cw (scr_spec svc)) = []" "ss_roles (scr_spec svc) = role # others"
  shows "set_accounted svc (ws_spec (buildDeployment svc role))" "set_accounted svc (ws_spec (buildStatefulSet svc cfg role))"
  using assms by (auto elim!: native_Validate_ok intro!: template_accounted simp: buildDeployment_def buildStatefulSet_def)

section \<open>Clean traces\<close>

text \<open>An event with no failure that the code has to report: a write was accepted, or removed what was gone.\<close>

fun clean :: "'q wevent \<Rightarrow> bool" where
  "clean (Put w r) \<longleftrightarrow> (case r of None \<Rightarrow> True | Some e \<Rightarrow> isNotFound e \<and> (\<exists>ob. w = KDelete ob))"
| "clean _ \<longleftrightarrow> True"

text \<open>A step is careful when it returns no error only after a clean trace.\<close>

definition careful :: "('q, 'e option) wprog \<Rightarrow> bool" where
  "careful m \<longleftrightarrow> runs m (\<lambda>r es. r = None \<longrightarrow> list_all clean es)"

lemma careful_ret: "careful (ret x)"
  by (simp add: careful_def runs_ret)

lemma careful_bind:
  fixes f :: "'e option \<Rightarrow> ('q, 'd option) wprog"
  assumes "careful m" "careful (f None)" "\<And>e. runs (f (Some e)) (\<lambda>r _. r \<noteq> None)"
  shows "careful (m \<bind> f)"
  unfolding careful_def
proof (rule runs_bind [OF assms(1) [unfolded careful_def]])
  fix x :: "'e option" and es :: "'q wevent list"
  assume es: "x = None \<longrightarrow> list_all clean es"
  show "runs (f x) (\<lambda>y es'. y = None \<longrightarrow> list_all clean (es' @ es))"
  proof (cases x)
    case None
    with es assms(2) [unfolded careful_def] show ?thesis by (auto elim: runs_mono)
  next
    case (Some e)
    with assms(3) [of e] show ?thesis by (auto elim: runs_mono)
  qed
qed

lemma careful_try_each: "(\<And>x. x \<in> set xs \<Longrightarrow> careful (step x)) \<Longrightarrow> careful (try_each step xs)"
  by (induction xs) (auto intro!: careful_ret careful_bind runs_ret)

lemma careful_step_then: "careful step \<Longrightarrow> careful rest \<Longrightarrow> careful (step_then what step rest)"
  unfolding step_then_def by (auto intro!: careful_bind runs_ret)

lemma careful_upsert: "careful (cfg_upsert lib api own spec extra)"
  unfolding careful_def cfg_upsert_def Let_def by (intro runs_rules) auto

lemma careful_delete: "careful (delete_one lib api own names c)"
  unfolding careful_def delete_one_def by (intro runs_rules) (auto split: option.splits)

lemma runs_list_bind [runs_rules]:
  "(\<And>r. runs (g r) (\<lambda>y es. Q y (es @ [GotList (map_sum id (map wrap) r)]))) \<Longrightarrow> runs (list_obj wrap f ns sel \<bind> g) Q"
  unfolding list_obj_def by (rule runs_call_bind)

lemma careful_list_bind: "(\<And>r. careful (g r)) \<Longrightarrow> careful (list_obj wrap f ns sel \<bind> g)"
  unfolding careful_def by (intro runs_rules) (auto elim: runs_mono)

lemma careful_cfg: "careful (cfg_Reconcile lib api own decl extra)"
  unfolding cfg_Reconcile_def deleteObsolete_def
  by (auto intro!: careful_bind careful_try_each careful_upsert careful_list_bind careful_ret careful_delete runs_ret split: sum.split)

lemma careful_set: "careful (upsertSet wrap get lib api svc desired)"
  unfolding careful_def upsertSet_def Let_def by (intro runs_rules) auto

lemma careful_kservice: "careful (upsertKService guarded lib api svc desired)"
  unfolding careful_def upsertKService_def Let_def by (intro runs_rules) auto

lemma careful_route: "careful (upsertHTTPRoute lib api kind name uid desired)"
  unfolding careful_def upsertHTTPRoute_def Let_def by (intro runs_rules) auto

lemmas careful_rules = careful_ret careful_step_then careful_set careful_kservice careful_route

lemma careful_deployment: "careful (deployment_Reconcile lib api svc)"
  unfolding deployment_Reconcile_def svc_route_step_def by (auto intro!: careful_rules split: list.split option.split)

lemma careful_statefulset: "careful (statefulset_Reconcile lib api svc)"
  unfolding statefulset_Reconcile_def svc_route_step_def by (auto intro!: careful_rules split: list.split option.split sum.split)

section \<open>Writes of a pass\<close>

fun meta_of :: "'q wobj \<Rightarrow> objmeta" where
  "meta_of (WRun r) = rcr_meta r"
| "meta_of (WSvc s) = scr_meta s"
| "meta_of (WPolicy p) = pcr_meta p"
| "meta_of (WConfigMap c) = cm_meta c"
| "meta_of (WJob j) = jb_meta j"
| "meta_of (WDeployment d) = ws_meta d"
| "meta_of (WStatefulSet d) = ws_meta d"
| "meta_of (WService s) = ksv_meta s"
| "meta_of (WRoute r) = htr_meta r"

text \<open>What a native handler writes: accounted sets, Services that select the pods of the service, its declared route.\<close>

fun native_child :: "'q SvcCR \<Rightarrow> 'q wobj \<Rightarrow> bool" where
  "native_child svc (WDeployment d) \<longleftrightarrow> set_accounted svc (ws_spec d)"
| "native_child svc (WStatefulSet d) \<longleftrightarrow> set_accounted svc (ws_spec d)"
| "native_child svc (WService s) \<longleftrightarrow> (\<exists>role\<in>set (ss_roles (scr_spec svc)). kss_selector (ksv_spec s) = selectorLabels svc (role_name role))"
| "native_child svc (WRoute r) \<longleftrightarrow> enabled_route (scr_spec svc) \<noteq> None"
| "native_child svc _ \<longleftrightarrow> False"

fun same_kind :: "'q wobj \<Rightarrow> 'q wobj \<Rightarrow> bool" where
  "same_kind (WDeployment a) (WDeployment b) \<longleftrightarrow> True"
| "same_kind (WStatefulSet a) (WStatefulSet b) \<longleftrightarrow> True"
| "same_kind (WService a) (WService b) \<longleftrightarrow> True"
| "same_kind (WRoute a) (WRoute b) \<longleftrightarrow> True"
| "same_kind _ _ \<longleftrightarrow> False"

text \<open>With \<open>strict\<close>, an existing Service is only touched when the workload controls it.\<close>

fun native_write :: "bool \<Rightarrow> 'q wlib \<Rightarrow> 'q SvcCR \<Rightarrow> 'q wwrite \<Rightarrow> bool" where
  "native_write strict lib svc (KCreate ob) \<longleftrightarrow> native_child svc ob \<and> om_namespace (meta_of ob) = scr_namespace svc \<and>
     wl_setControllerRef lib ''MLService'' (om_name (scr_meta svc)) (scr_uid svc) [] = Inr (om_owners (meta_of ob))"
| "native_write strict lib svc (KPatch a b) \<longleftrightarrow> native_child svc b \<and> same_kind a b \<and>
     om_namespace (meta_of b) = om_namespace (meta_of a) \<and> om_name (meta_of b) = om_name (meta_of a) \<and>
     (strict \<longrightarrow> (\<forall>s. a = WService s \<longrightarrow> wl_controllerOf lib (om_owners (ksv_meta s)) = Some (scr_uid svc)))"
| "native_write strict lib svc _ \<longleftrightarrow> False"

lemma only_set:
  assumes "wrap = WDeployment \<or> wrap = WStatefulSet" "set_accounted svc (ws_spec desired)" "om_namespace (ws_meta desired) = scr_namespace svc"
    "om_owners (ws_meta desired) = []"
  shows "only (writes_only (native_write strict lib svc)) (upsertSet wrap get lib api svc desired)"
  unfolding upsertSet_def owned_meta_def Let_def using assms by (intro only_rules) (auto split: sum.splits)

lemma only_kservice:
  assumes "\<exists>role\<in>set (ss_roles (scr_spec svc)). kss_selector (ksv_spec desired) = selectorLabels svc (role_name role)"
    "om_namespace (ksv_meta desired) = scr_namespace svc" "om_owners (ksv_meta desired) = []" "strict \<longrightarrow> guarded"
  shows "only (writes_only (native_write strict lib svc)) (upsertKService guarded lib api svc desired)"
  unfolding upsertKService_def owned_meta_def Let_def using assms by (intro only_rules) (auto split: sum.splits)

lemma only_route:
  assumes "enabled_route (scr_spec svc) \<noteq> None" "om_namespace (htr_meta desired) = scr_namespace svc" "om_owners (htr_meta desired) = []"
  shows "only (writes_only (native_write strict lib svc)) (upsertHTTPRoute lib api ''MLService'' (om_name (scr_meta svc)) (scr_uid svc) desired)"
  unfolding upsertHTTPRoute_def owned_meta_def Let_def using assms by (intro only_rules) (auto split: sum.splits)

lemma only_step_then: "only P step \<Longrightarrow> only P rest \<Longrightarrow> only P (step_then what step rest)"
  unfolding step_then_def by (intro only_rules)

lemma only_route_step: "only (writes_only (native_write strict lib svc)) (svc_route_step lib api svc role backend)"
  unfolding svc_route_step_def
  by (auto intro!: only_step_then only_route only_rules simp: svc_buildHTTPRoute_def svc_object_meta_def split: option.split)

lemmas build_simps = buildDeployment_def buildStatefulSet_def build_kservice_def buildService_def buildHeadlessService_def svc_object_meta_def

lemma deployment_only:
  assumes "val_errors (deployment_Validate (scr_spec svc)) = []"
  shows "only (writes_only (native_write False lib svc)) (deployment_Reconcile lib api svc)"
proof -
  from assms obtain role where role: "ss_roles (scr_spec svc) = [role]" unfolding deployment_Validate_def by (rule native_Validate_ok)
  from build_accounted(1) [OF assms [unfolded deployment_Validate_def] role] show ?thesis
    unfolding deployment_Reconcile_def role list.case
    by (intro only_step_then only_set only_kservice only_route_step) (simp_all add: build_simps role)
qed

lemma statefulset_only:
  assumes "val_errors (statefulset_Validate lib (scr_spec svc)) = []"
  shows "only (writes_only (native_write True lib svc)) (statefulset_Reconcile lib api svc)"
proof -
  from assms obtain role where role: "ss_roles (scr_spec svc) = [role]" unfolding statefulset_Validate_def by (rule native_Validate_ok)
  from build_accounted(2) [OF assms [unfolded statefulset_Validate_def] role] show ?thesis
    unfolding statefulset_Reconcile_def role list.case
    by (intro only_rules only_step_then only_set only_kservice only_route_step) (simp_all add: build_simps role)
qed

section \<open>The contract of a handler\<close>

definition stamped :: "string \<Rightarrow> 'q SvcCR \<Rightarrow> 'q SvcCR" where
  "stamped hash svc = svc\<lparr>scr_meta := (scr_meta svc)\<lparr>om_annotations := AList.update immutableHashAnnotation hash (om_annotations (scr_meta svc))\<rparr>\<rparr>"

abbreviation baseline :: "'q SvcCR \<Rightarrow> string option" where
  "baseline svc \<equiv> map_of (om_annotations (scr_meta svc)) immutableHashAnnotation"

fun svc_write :: "'q wlib \<Rightarrow> ('q SvcCR \<Rightarrow> 'q wwrite \<Rightarrow> bool) \<Rightarrow> 'q SvcCR \<Rightarrow> 'q wwrite \<Rightarrow> bool" where
  "svc_write lib mine svc (KStatus (WSvc a) (WSvc b)) \<longleftrightarrow>
     a = svc \<and> b = svc\<lparr>scr_status := scr_status b\<rparr> \<and> scs_observedGeneration (scr_status b) = scr_generation svc"
| "svc_write lib mine svc (KPatch (WSvc a) (WSvc b)) \<longleftrightarrow>
     a = svc \<and> baseline svc = None \<and> (\<exists>hash. immutableSpecHash lib (scr_spec svc) = Inr hash \<and> b = stamped hash svc)"
| "svc_write lib mine svc w \<longleftrightarrow> config_write lib (svc_owner_of svc) (ss_configMaps (scr_spec svc)) w \<or> mine svc w"

lemma only_svc_status:
  assumes "\<And>b r. b = svc\<lparr>scr_status := scr_status b\<rparr> \<Longrightarrow> scs_observedGeneration (scr_status b) = scr_generation svc \<Longrightarrow>
     scs_phase (scr_status b) = sup_phase upd \<Longrightarrow> P (Put (KStatus (WSvc svc) (WSvc b)) r)"
  shows "only P (svc_writeStatus api svc upd)"
  unfolding svc_writeStatus_def Let_def by (intro only_rules assms) auto

text \<open>The newest event may stamp the baseline, when everything before it went well; no other does.\<close>

fun stamps :: "'q wevent \<Rightarrow> bool" where
  "stamps (Put (KPatch (WSvc a) b) r) = True"
| "stamps _ = False"

fun sealed :: "'q wevent list \<Rightarrow> bool" where
  "sealed [] \<longleftrightarrow> True"
| "sealed (e # es) \<longleftrightarrow> list_all (\<lambda>e. \<not> stamps e) es \<and> (stamps e \<longrightarrow> list_all clean es)"

lemma sealed_append: "sealed es' \<Longrightarrow> list_all (\<lambda>e. \<not> stamps e) es \<Longrightarrow> es' = [] \<or> list_all clean es \<Longrightarrow> sealed (es' @ es)"
  by (cases es'; cases es) auto

lemma sealed_unstamped: "list_all (\<lambda>e. \<not> stamps e) es \<Longrightarrow> sealed es"
  by (cases es) auto

abbreviation unstamped :: "('q, 'a) wprog \<Rightarrow> bool" where
  "unstamped m \<equiv> only (\<lambda>e. \<not> stamps e) m"

text \<open>A step, then what follows a success and what follows a failure.\<close>

lemma sealed_bind:
  fixes f :: "'e option \<Rightarrow> ('q, 'd) wprog"
  assumes "careful m" "unstamped m" "runs (f None) (\<lambda>_ es. sealed es)" "\<And>e. unstamped (f (Some e))"
  shows "runs (m \<bind> f) (\<lambda>_ es. sealed es)"
proof (rule runs_bind [OF runs_conj [OF assms(1) [unfolded careful_def] assms(2) [unfolded only_def]]])
  fix x :: "'e option" and es :: "'q wevent list"
  assume es: "(x = None \<longrightarrow> list_all clean es) \<and> list_all (\<lambda>e. \<not> stamps e) es"
  show "runs (f x) (\<lambda>_ es'. sealed (es' @ es))"
  proof (cases x)
    case None
    with es assms(3) show ?thesis by (auto elim!: runs_mono intro: sealed_append)
  next
    case (Some e)
    with es assms(4) [of e] show ?thesis by (auto simp: only_def elim!: runs_mono intro!: sealed_unstamped)
  qed
qed

lemma list_kinds_only: "(\<And>r. P (GotList r)) \<Longrightarrow> only P (list_kinds api ns sel ks acc)"
  by (induction ks arbitrary: acc) (auto intro!: only_rules simp: list_kind_def split: child_kind.split)

lemma listChildren_only: "(\<And>r. P (GotList r)) \<Longrightarrow> only P (svc_listChildren api svc h)"
  unfolding svc_listChildren_def by (intro only_rules list_kinds_only)

lemma careful_svc_status: "careful (svc_writeStatus api svc upd)"
  unfolding careful_def svc_writeStatus_def Let_def by (intro runs_rules) auto

lemma unstamped_svc_status: "unstamped (svc_writeStatus api svc upd)"
  by (rule only_svc_status) simp

lemma unstamped_failed: "unstamped (writeFailedStatus api svc m)"
  unfolding writeFailedStatus_def by (rule unstamped_svc_status)

lemma stamp_sealed: "runs (stampImmutabilityBaseline lib api svc) (\<lambda>_ es. sealed es)"
  unfolding stampImmutabilityBaseline_def by (intro runs_rules) auto

lemma report_sealed: "runs (report_svc lib api h svc) (\<lambda>_ es. sealed es)"
proof -
  have rest: "runs (case sh_mapStatus h svc children of None \<Rightarrow> ret (Some index_panic)
     | Some upd \<Rightarrow> do { w \<leftarrow> svc_writeStatus api svc upd; case w of Some e \<Rightarrow> ret (Some e) | None \<Rightarrow> stampImmutabilityBaseline lib api svc })
     (\<lambda>_ es. sealed es)" for children
    by (auto intro!: runs_ret sealed_bind careful_svc_status unstamped_svc_status stamp_sealed only_ret split: option.split)
  show ?thesis unfolding report_svc_def
  proof (rule runs_bind [OF only_runs [OF listChildren_only [of "\<lambda>e. \<not> stamps e \<and> clean e"]]])
    fix c :: "char list + 'a wobj list" and es :: "'a wevent list"
    assume "list_all (\<lambda>e. \<not> stamps e \<and> clean e) es"
    then have es: "list_all (\<lambda>e. \<not> stamps e) es" "list_all clean es" by (auto simp: list_all_iff)
    show "runs (case c of Inl e \<Rightarrow> ret (Some e) | Inr children \<Rightarrow>
        (case sh_mapStatus h svc children of None \<Rightarrow> ret (Some index_panic)
          | Some upd \<Rightarrow> do { w \<leftarrow> svc_writeStatus api svc upd; case w of Some e \<Rightarrow> ret (Some e) | None \<Rightarrow> stampImmutabilityBaseline lib api svc }))
        (\<lambda>_ es'. sealed (es' @ es))"
      using es by (intro runs_sum runs_ret runs_mono [OF rest]) (auto intro: sealed_append sealed_unstamped)
  qed simp
qed

lemma config_unstamped: "unstamped (cfg_Reconcile lib api own decl extra)"
proof (rule only_mono [OF cfg_Reconcile_only])
  fix e
  show "config_event lib own decl e \<Longrightarrow> \<not> stamps e" by (cases e rule: stamps.cases) auto
qed

locale svc_contract =
  fixes lib :: "'q wlib" and h :: "'q svc_handler" and mine :: "'q SvcCR \<Rightarrow> 'q wwrite \<Rightarrow> bool"
  assumes reconcile_only: "val_errors (sh_validate h (scr_spec svc)) = [] \<Longrightarrow> only (writes_only (mine svc)) (sh_reconcile h api svc)"
    and reconcile_careful: "careful (sh_reconcile h api svc)"
    and no_status: "\<not> mine svc (KStatus a b)"
    and no_self: "\<not> mine svc (KPatch (WSvc s) b)"
begin

lemma mine_svc: "mine svc w \<Longrightarrow> svc_write lib mine svc w"
  using no_status no_self by (cases "(lib, mine, svc, w)" rule: svc_write.cases) auto

lemma config_svc: "config_write lib (svc_owner_of svc) (ss_configMaps (scr_spec svc)) w \<Longrightarrow> svc_write lib mine svc w"
  by (cases "(lib, mine, svc, w)" rule: svc_write.cases) auto

lemma status_only: "only (writes_only (svc_write lib mine svc)) (svc_writeStatus api svc upd)"
  by (rule only_svc_status) simp

lemma failed_only: "only (writes_only (svc_write lib mine svc)) (writeFailedStatus api svc m)"
  unfolding writeFailedStatus_def by (rule status_only)

lemma stamp_only: "only (writes_only (svc_write lib mine svc)) (stampImmutabilityBaseline lib api svc)"
  unfolding stampImmutabilityBaseline_def by (intro only_rules) (simp add: stamped_def)

lemma report_only: "only (writes_only (svc_write lib mine svc)) (report_svc lib api h svc)"
  unfolding report_svc_def by (intro only_rules listChildren_only status_only stamp_only) simp

lemma configs_only:
  "only (writes_only (svc_write lib mine svc)) (cfg_Reconcile lib api (svc_owner_of svc) (ss_configMaps (scr_spec svc)) extra)"
  by (rule only_mono [OF cfg_Reconcile_only]) (auto simp: config_event_writes elim!: writes_only_mono config_svc)

lemma handler_only:
  "val_errors (sh_validate h (scr_spec svc)) = [] \<Longrightarrow> only (writes_only (svc_write lib mine svc)) (sh_reconcile h api svc)"
  by (rule only_mono [OF reconcile_only]) (auto elim!: writes_only_mono mine_svc)

lemma check_only: "only (writes_only (svc_write lib mine svc)) (check_svc lib api h svc)"
  unfolding check_svc_def apply_svc_def Let_def
  by (auto intro!: only_rules failed_only configs_only handler_only report_only split: sum.split)

lemma handler_unstamped: "val_errors (sh_validate h (scr_spec svc)) = [] \<Longrightarrow> unstamped (sh_reconcile h api svc)"
proof (rule only_mono [OF reconcile_only])
  fix e
  show "writes_only (mine svc) e \<Longrightarrow> \<not> stamps e" by (cases e rule: stamps.cases) (auto simp: no_self)
qed

lemma apply_sealed:
  "val_errors (sh_validate h (scr_spec svc)) = [] \<Longrightarrow> runs (apply_svc lib api h svc) (\<lambda>_ es. sealed es)"
  unfolding apply_svc_def
  by (auto intro!: sealed_bind careful_cfg config_unstamped reconcile_careful handler_unstamped report_sealed only_rules unstamped_failed)

lemma check_sealed:
  "runs (check_svc lib api h svc) (\<lambda>_ es. sealed es \<and> (list_ex stamps es \<longrightarrow> val_errors (sh_validate h (scr_spec svc)) = []))"
proof -
  have failed: "runs (writeFailedStatus api svc m) (\<lambda>_ es. sealed es \<and> \<not> list_ex stamps es)" for m
    using only_runs [OF unstamped_failed] by (rule runs_mono) (auto simp: list_ex_iff list_all_iff intro!: sealed_unstamped)
  show ?thesis
    unfolding check_svc_def Let_def
    by (auto intro!: runs_ret split: sum.split intro: runs_mono [OF failed] runs_mono [OF apply_sealed])
qed

end

interpretation dep: svc_contract lib "nativedeployment lib" "native_write False lib"
  by unfold_locales (auto simp: nativedeployment_def deployment_only careful_deployment)

interpretation sts: svc_contract lib "nativestatefulset lib" "native_write True lib"
  by unfold_locales (auto simp: nativestatefulset_def statefulset_only careful_statefulset)

interpretation stub: svc_contract lib "notImplemented key" "\<lambda>_ _. False" for lib key
  by unfold_locales (auto simp: notImplemented_def careful_ret intro!: only_rules)

section \<open>A whole pass\<close>

lemma native_write_mono: "native_write strict lib svc w \<Longrightarrow> native_write False lib svc w"
  by (cases w) auto

lemma svc_write_mono: "svc_write lib mine svc w \<Longrightarrow> (\<And>w. mine svc w \<Longrightarrow> mine' svc w) \<Longrightarrow> svc_write lib mine' svc w"
  by (cases "(lib, mine, svc, w)" rule: svc_write.cases) auto

lemma main_handlers_cases:
  assumes "map_of (main_handlers lib) key = Some h"
  obtains "key = (''native'', ''deployment'')" "h = nativedeployment lib" | "key = (''native'', ''statefulset'')" "h = nativestatefulset lib"
  | "h = notImplemented key"
  using assms by (auto simp: main_handlers_def split: if_splits)

lemma check_main_only:
  assumes "map_of (main_handlers lib) key = Some h"
  shows "only (writes_only (svc_write lib (native_write False lib) svc)) (check_svc lib api h svc)"
  using assms
proof (cases rule: main_handlers_cases)
  case 1
  then show ?thesis by (simp add: dep.check_only)
next
  case 2
  then show ?thesis by (auto intro: only_mono [OF sts.check_only] elim!: writes_only_mono svc_write_mono native_write_mono)
next
  case 3
  then show ?thesis by (auto intro: only_mono [OF stub.check_only] elim!: writes_only_mono svc_write_mono)
qed

lemma dispatch_only: "only (writes_only (svc_write lib (native_write False lib) svc)) (dispatch_svc lib api (main_handlers lib) svc)"
  unfolding dispatch_svc_def Let_def by (intro only_rules dep.failed_only check_main_only)

lemma check_main_sealed:
  "map_of (main_handlers lib) key = Some h \<Longrightarrow>
   runs (check_svc lib api h svc) (\<lambda>_ es. sealed es \<and> (list_ex stamps es \<longrightarrow> val_errors (sh_validate h (scr_spec svc)) = []))"
  by (erule main_handlers_cases) (auto intro: dep.check_sealed sts.check_sealed stub.check_sealed)

abbreviation svc_key :: "'q SvcCR \<Rightarrow> string \<times> string" where
  "svc_key svc \<equiv> (be_name (ss_backend (scr_spec svc)), be_engine (ss_backend (scr_spec svc)))"

lemma dispatch_sealed:
  "runs (dispatch_svc lib api (main_handlers lib) svc) (\<lambda>_ es. sealed es \<and> (list_ex stamps es \<longrightarrow>
     (\<exists>h. map_of (main_handlers lib) (svc_key svc) = Some h \<and> val_errors (sh_validate h (scr_spec svc)) = [])))"
proof -
  have failed: "runs (writeFailedStatus api svc m) (\<lambda>_ es. sealed es \<and> \<not> list_ex stamps es)" for m
    using only_runs [OF unstamped_failed] by (rule runs_mono) (auto simp: list_ex_iff list_all_iff intro!: sealed_unstamped)
  show ?thesis
    unfolding dispatch_svc_def Let_def
    by (intro runs_rules runs_mono [OF failed] runs_mono [OF check_main_sealed]) auto
qed

text \<open>A pass on a service the server has: the read, then the events of the dispatch.\<close>

lemma svc_pass_split:
  assumes "run_state (svc_Reconcile lib api reg ns name) h = (res, es @ h)" "wa_getSvc api h ns name = Inr svc"
    "runs (dispatch_svc lib api reg svc) Q"
  obtains es' where "es = es' @ [Got ns name (Inr (WSvc svc))]" "Q res es'"
proof -
  from assms(3) have "runs ((\<lambda>r. case r of Inl e \<Rightarrow> ret (if isNotFound e then None else Some (kmsg e)) | Inr svc \<Rightarrow> dispatch_svc lib api reg svc) (Inr svc)) Q"
    by simp
  with get_split [OF assms(1) [unfolded svc_Reconcile_def] assms(2) this] that show thesis by blast
qed

lemma svc_pass_write:
  assumes "run_state (svc_Reconcile lib api (main_handlers lib) ns name) h = (res, es @ h)" "wa_getSvc api h ns name = Inr svc" "Put w r \<in> set es"
  shows "svc_write lib (native_write False lib) svc w"
proof -
  from svc_pass_split [OF assms(1,2) only_runs [OF dispatch_only]] obtain es' where
    "es = es' @ [Got ns name (Inr (WSvc svc))]" "list_all (writes_only (svc_write lib (native_write False lib) svc)) es'" by blast
  with assms(3) show ?thesis by (auto simp: list_all_iff)
qed

fun written_set :: "'q wwrite \<Rightarrow> 'q WorkloadSet option" where
  "written_set (KCreate (WDeployment d)) = Some d"
| "written_set (KCreate (WStatefulSet d)) = Some d"
| "written_set (KPatch a (WDeployment d)) = Some d"
| "written_set (KPatch a (WStatefulSet d)) = Some d"
| "written_set _ = None"

lemma svc_set_written:
  assumes "run_state (svc_Reconcile lib api (main_handlers lib) ns name) h = (res, es @ h)" "wa_getSvc api h ns name = Inr svc"
    "Put w r \<in> set es" "written_set w = Some d"
  shows "set_accounted svc (ws_spec d)"
  using svc_pass_write [OF assms(1-3)] assms(4) by (cases w rule: written_set.cases) auto

text \<open>
  Whatever the API server answers, every Deployment and every StatefulSet a service pass writes is accounted: its pods
  carry the quota of the service as the label the scheduler charges and name the AxisML scheduler, its selector
  matches them, it has the replicas of the single role and each pod asks for exactly what the role asks for.
\<close>

theorem svc_sets_accounted:
  assumes "run_state (svc_Reconcile lib api (main_handlers lib) ns name) h = (res, es @ h)" "wa_getSvc api h ns name = Inr svc"
    "Put w r \<in> set es" "written_set w = Some d"
  shows "set_accounted svc (ws_spec d)"
  by (rule svc_set_written [OF assms])

text \<open>
  The immutability baseline is recorded last: a pass that writes it found a valid spec and no baseline, every
  write it made before was accepted (or removed a ConfigMap that was gone already), and it writes nothing after it.
  So a spec that was never reconciled successfully is not locked in.
\<close>

theorem svc_baseline_last:
  assumes "run_state (svc_Reconcile lib api (main_handlers lib) ns name) h = (res, es @ h)" "wa_getSvc api h ns name = Inr svc"
    "Put (KPatch (WSvc a) (WSvc b)) r \<in> set es"
  shows "\<exists>before hash hd. es = Put (KPatch (WSvc a) (WSvc b)) r # before \<and> list_all clean before \<and>
    a = svc \<and> baseline svc = None \<and> immutableSpecHash lib (scr_spec svc) = Inr hash \<and> b = stamped hash svc \<and>
    map_of (main_handlers lib) (svc_key svc) = Some hd \<and> val_errors (sh_validate hd (scr_spec svc)) = []"
proof -
  from svc_pass_split [OF assms(1,2) dispatch_sealed] obtain es' where es: "es = es' @ [Got ns name (Inr (WSvc svc))]" "sealed es'"
    "list_ex stamps es' \<longrightarrow> (\<exists>hd. map_of (main_handlers lib) (svc_key svc) = Some hd \<and> val_errors (sh_validate hd (scr_spec svc)) = [])" by blast
  let ?p = "Put (KPatch (WSvc a) (WSvc b)) r"
  from es(1) assms(3) have p: "?p \<in> set es'" by auto
  with es(2) obtain rest where "es' = ?p # rest" "list_all clean rest" by (cases es') (auto simp: list_all_iff)
  moreover from p es(3) obtain hd where "map_of (main_handlers lib) (svc_key svc) = Some hd" "val_errors (sh_validate hd (scr_spec svc)) = []"
    by (force simp: list_ex_iff)
  moreover from svc_pass_write [OF assms] obtain hash where
    "a = svc" "baseline svc = None" "immutableSpecHash lib (scr_spec svc) = Inr hash" "b = stamped hash svc" by auto
  ultimately show ?thesis using es(1) by (intro exI [of _ "rest @ [Got ns name (Inr (WSvc svc))]"]) auto
qed

section \<open>The spec is locked\<close>

text \<open>What the accepted writes of a pass make of the service.\<close>

fun svc_apply :: "'q wevent \<Rightarrow> 'q SvcCR \<Rightarrow> 'q SvcCR" where
  "svc_apply (Put (KStatus (WSvc a) (WSvc b)) None) svc = svc\<lparr>scr_status := scr_status b\<rparr>"
| "svc_apply (Put (KPatch (WSvc a) (WSvc b)) None) svc = svc\<lparr>scr_meta := (scr_meta svc)\<lparr>om_annotations := om_annotations (scr_meta b)\<rparr>\<rparr>"
| "svc_apply _ svc = svc"

definition after_svc_pass :: "'q wevent list \<Rightarrow> 'q SvcCR \<Rightarrow> 'q SvcCR" where
  "after_svc_pass es svc = foldr svc_apply es svc"

text \<open>Edits of the spec by clients and passes of the controller, in any order.\<close>

inductive svc_step :: "'q wlib \<Rightarrow> 'q SvcCR \<Rightarrow> 'q SvcCR \<Rightarrow> bool" for lib where
  svc_edited: "svc_step lib svc (svc\<lparr>scr_spec := spec, scr_generation := scr_generation svc + 1\<rparr>)"
| svc_passed: "wa_getSvc api h ns name = Inr svc \<Longrightarrow>
    run_state (svc_Reconcile lib api (main_handlers lib) ns name) h = (res, es @ h) \<Longrightarrow> svc_step lib svc (after_svc_pass es svc)"

lemma svc_apply_annotations: "\<not> stamps e \<Longrightarrow> scr_meta (svc_apply e svc) = scr_meta svc"
  by (cases "(e, svc)" rule: svc_apply.cases) auto

lemma after_pass_baseline: "list_all (\<lambda>e. \<not> stamps e) es \<Longrightarrow> scr_meta (after_svc_pass es svc) = scr_meta svc"
  unfolding after_svc_pass_def by (induction es) (auto simp: svc_apply_annotations)

lemma stamps_write: "svc_write lib (native_write strict lib) svc w \<Longrightarrow> stamps (Put w r) \<Longrightarrow> baseline svc = None"
proof (cases "Put w r" rule: stamps.cases)
  case (1 a b r)
  then show "svc_write lib (native_write strict lib) svc w \<Longrightarrow> baseline svc = None" by (cases b) auto
qed simp_all

lemma svc_step_baseline:
  assumes "svc_step lib svc svc'" "baseline svc = Some prev"
  shows "baseline svc' = Some prev"
  using assms
proof (cases rule: svc_step.cases)
  case (svc_passed api h ns name res es)
  have "\<not> stamps e" if "e \<in> set es" for e
  proof
    assume st: "stamps e"
    then obtain w r where e: "e = Put w r" by (cases e) auto
    with that svc_pass_write [OF svc_passed(3,2)] have "svc_write lib (native_write False lib) svc w" by blast
    with stamps_write st e assms(2) show False by fastforce
  qed
  with svc_passed(1) assms(2) show ?thesis by (simp add: after_pass_baseline list_all_iff)
qed simp

lemma svc_steps_baseline: "(svc_step lib)\<^sup>*\<^sup>* svc svc' \<Longrightarrow> baseline svc = Some prev \<Longrightarrow> baseline svc' = Some prev"
  by (induction rule: rtranclp_induct) (auto dest: svc_step_baseline)

text \<open>The spec up to the replicas of its roles.\<close>

definition frozen_spec :: "'q MLServiceSpec \<Rightarrow> 'q MLServiceSpec" where
  "frozen_spec spec = spec\<lparr>ss_roles := map (\<lambda>r. r\<lparr>role_replicas := 0\<rparr>) (ss_roles spec)\<rparr>"

lemma frozen_backend: "frozen_spec a = frozen_spec b \<Longrightarrow> ss_backend a = ss_backend b"
  by (metis (no_types, lifting) MLServiceSpec.ext_inject MLServiceSpec.surjective MLServiceSpec.update_convs(4) frozen_spec_def)

lemma immutableSpecHash_frozen: "frozen_spec a = frozen_spec b \<Longrightarrow> immutableSpecHash lib a = immutableSpecHash lib b"
  using frozen_backend [of a b] unfolding immutableSpecHash_def frozen_spec_def [symmetric] Let_def has_config_def by (simp cong: sum.case_cong)

lemma checkImmutability_moved:
  "baseline svc = Some prev \<Longrightarrow> immutableSpecHash lib (scr_spec svc) \<noteq> Inr prev \<Longrightarrow>
   isl (checkImmutability lib svc) \<or> (\<exists>m. checkImmutability lib svc = Inr m \<and> m \<noteq> [])"
  by (auto simp: checkImmutability_def split: sum.split)

definition failed_status :: "'q SvcCR \<Rightarrow> 'q wwrite \<Rightarrow> bool" where
  "failed_status svc w \<longleftrightarrow> (\<exists>b. w = KStatus (WSvc svc) (WSvc b) \<and> b = svc\<lparr>scr_status := scr_status b\<rparr> \<and> scs_phase (scr_status b) = PhaseFailed)"

lemma failed_status_only: "only (writes_only (failed_status svc)) (writeFailedStatus api svc m)"
  unfolding writeFailedStatus_def by (rule only_svc_status) (auto simp: failed_status_def failed_update_def)

lemma dispatch_moved_only:
  assumes "baseline svc = Some prev" "immutableSpecHash lib (scr_spec svc) \<noteq> Inr prev"
  shows "only (writes_only (failed_status svc)) (dispatch_svc lib api reg svc)"
  using checkImmutability_moved [OF assms] unfolding dispatch_svc_def check_svc_def Let_def
  by (intro only_rules failed_status_only) auto

text \<open>
  Once a baseline is recorded, the spec is locked up to the replicas of its roles: after any sequence of edits of the
  spec and passes of the controller, a pass on a service whose spec hashes differently writes nothing but a \<open>Failed\<close>
  status, and a service whose spec differs from the recorded one in replicas only passes the check.
\<close>

theorem svc_spec_locked:
  assumes "(svc_step lib)\<^sup>*\<^sup>* svc svc'" "baseline svc = Some prev" "wa_getSvc api h ns name = Inr svc'"
    "run_state (svc_Reconcile lib api (main_handlers lib) ns name) h = (res, es @ h)"
  shows "(immutableSpecHash lib (scr_spec svc') \<noteq> Inr prev \<longrightarrow> (\<forall>w r. Put w r \<in> set es \<longrightarrow> failed_status svc' w)) \<and>
    (immutableSpecHash lib locked = Inr prev \<and> frozen_spec (scr_spec svc') = frozen_spec locked \<longrightarrow> checkImmutability lib svc' = Inr [])"
proof -
  have base: "baseline svc' = Some prev" using svc_steps_baseline assms(1,2) .
  have "failed_status svc' w" if "immutableSpecHash lib (scr_spec svc') \<noteq> Inr prev" "Put w r \<in> set es" for w r
  proof -
    from svc_pass_split [OF assms(4,3) only_runs [OF dispatch_moved_only [OF base that(1)]]] obtain es' where
      "es = es' @ [Got ns name (Inr (WSvc svc'))]" "list_all (writes_only (failed_status svc')) es'" by blast
    with that(2) show ?thesis by (auto simp: list_all_iff)
  qed
  moreover have "checkImmutability lib svc' = Inr []" if "immutableSpecHash lib locked = Inr prev" "frozen_spec (scr_spec svc') = frozen_spec locked"
    using base that immutableSpecHash_frozen [OF that(2), of lib] by (simp add: checkImmutability_def)
  ultimately show ?thesis by blast
qed

section \<open>Other people's Services\<close>

text \<open>
  A pass of the \<open>(native, statefulset)\<close> handler never touches a Service it finds under its headless name unless
  the service controls it.
\<close>

theorem svc_statefulset_respects_services:
  assumes "run_state (svc_Reconcile lib api (main_handlers lib) ns name) h = (res, es @ h)" "wa_getSvc api h ns name = Inr svc"
    "svc_key svc = (''native'', ''statefulset'')" "Put (KPatch (WService s) b) r \<in> set es"
  shows "wl_controllerOf lib (om_owners (ksv_meta s)) = Some (scr_uid svc)"
proof -
  have "only (writes_only (svc_write lib (native_write True lib) svc)) (dispatch_svc lib api (main_handlers lib) svc)"
    using assms(3) unfolding dispatch_svc_def Let_def by (auto intro!: only_rules sts.failed_only sts.check_only simp: main_handlers_def)
  from svc_pass_split [OF assms(1,2) only_runs [OF this]] obtain es' where
    "es = es' @ [Got ns name (Inr (WSvc svc))]" "list_all (writes_only (svc_write lib (native_write True lib) svc)) es'" by blast
  with assms(4) have "svc_write lib (native_write True lib) svc (KPatch (WService s) b)" by (auto simp: list_all_iff)
  then show ?thesis by auto
qed

section \<open>An example\<close>

text \<open>A service of two replicas, and a server that has it, no set, no route and the given Service, and accepts every write.\<close>

definition dx_lib :: "int wlib" where
  "dx_lib = ox_lib\<lparr>wl_marshalSvc := (\<lambda>spec. Inr []), wl_marshalSet := (\<lambda>_ _. Inr [])\<rparr>"

definition dx_role :: "int RoleSpec" where
  "dx_role = \<lparr>role_name = SvcRoleName, role_replicas = 2, role_restartPolicy = [],
     role_template = (template_of ''img'' [(''cpu'', 4)])\<lparr>pt_ports := [\<lparr>pp_name = ''http'', pp_containerPort = 8080, pp_protocol = []\<rparr>]\<rparr>\<rparr>"

definition dx_svc :: "string \<Rightarrow> string \<Rightarrow> int SvcCR" where
  "dx_svc engine applied = \<lparr>scr_meta = \<lparr>om_namespace = ''team-a'', om_name = ''chat'', om_labels = [(LabelServiceID, ''s-1'')],
       om_annotations = (if applied = [] then [] else [(immutableHashAnnotation, applied)]), om_owners = []\<rparr>,
     scr_uid = ''uid-2'', scr_generation = 1,
     scr_spec = \<lparr>ss_backend = \<lparr>be_name = ''native'', be_engine = engine, be_config = None\<rparr>,
       ss_scheduling = \<lparr>sch_quota = ''axisml-team-a-gpu'', sch_priorityClass = [], sch_nodeSelector = [], sch_tolerations = []\<rparr>,
       ss_configMaps = [], ss_roles = [dx_role], ss_progressDeadlineSeconds = None, ss_route = None\<rparr>,
     scr_status = \<lparr>scs_observedGeneration = 0, scs_phase = [], scs_message = [], scs_endpoint = [], scs_readyReplicas = 0, scs_selector = [],
       scs_conditions = [], scs_roles = []\<rparr>\<rparr>"

definition dx_api :: "int SvcCR \<Rightarrow> kerr + KService \<Rightarrow> int wapi" where
  "dx_api svc ksvc = (ox_api (ox_run [] [] False []) no_job (\<lambda>_. False))\<lparr>wa_getSvc := (\<lambda>_ _ _. Inr svc), wa_getService := (\<lambda>_ _ _. ksvc)\<rparr>"

lemma dx_api_simps [simp]:
  "wa_getSvc (dx_api svc ksvc) h ns nm = Inr svc" "wa_getService (dx_api svc ksvc) h ns nm = ksvc"
  "wa_getDeployment (dx_api svc ksvc) h ns nm = Inl (KNotFound ''no'')" "wa_getStatefulSet (dx_api svc ksvc) h ns nm = Inl (KNotFound ''no'')"
  "wa_listConfigMaps (dx_api svc ksvc) h ns sel = Inr []" "wa_listDeployments (dx_api svc ksvc) h ns sel = Inr []"
  "wa_listStatefulSets (dx_api svc ksvc) h ns sel = Inr []" "wa_listServices (dx_api svc ksvc) h ns sel = Inr []"
  "wa_listRoutes (dx_api svc ksvc) h ns sel = Inr []" "wa_write (dx_api svc ksvc) h w = None"
  by (simp_all add: dx_api_def ox_api_def)

abbreviation "dx_dep \<equiv> (buildDeployment (dx_svc ''deployment'' []) dx_role)\<lparr>ws_meta := (svc_object_meta (dx_svc ''deployment'' []) dx_role (svc_Role (dx_svc ''deployment'' []) dx_role))
  \<lparr>om_annotations := [(appliedSpecHashAnnotation, hex_encode (sha256 []))], om_owners := [wl_newControllerRef dx_lib ''MLService'' ''chat'' ''uid-2'']\<rparr>\<rparr>"

lemma dx_valid: "val_errors (deployment_Validate (scr_spec (dx_svc ''deployment'' applied))) = []"
  by (simp add: dx_svc_def dx_role_def deployment_Validate_def native_Validate_def native_errors_def Let_def port_errors_def svc_mount_errors_def
    enabled_route_def has_config_def)

lemma dx_set: "run_state (upsertSet WDeployment (wa_getDeployment (dx_api svc ksvc)) dx_lib (dx_api svc ksvc) (dx_svc ''deployment'' []) (buildDeployment (dx_svc ''deployment'' []) dx_role)) h =
   (None, Put (KCreate (WDeployment dx_dep)) None # Got ''team-a'' (svc_Role (dx_svc ''deployment'' []) dx_role) (Inl (KNotFound ''no'')) # h)"
  by (simp add: upsertSet_def owned_meta_def hashSetSpec_def buildDeployment_def get_obj_def put_def call_def Let_def svc_object_meta_def dx_lib_def ox_lib_def)
     (simp add: dx_svc_def)

lemma dx_parts [simp]:
  "scr_labels (dx_svc e a) = [(LabelServiceID, ''s-1'')]" "scr_namespace (dx_svc e a) = ''team-a''" "om_name (scr_meta (dx_svc e a)) = ''chat''"
  "om_annotations (scr_meta (dx_svc e a)) = (if a = [] then [] else [(immutableHashAnnotation, a)])"
  "ss_backend (scr_spec (dx_svc e a)) = \<lparr>be_name = ''native'', be_engine = e, be_config = None\<rparr>"
  "ss_configMaps (scr_spec (dx_svc e a)) = []" "ss_roles (scr_spec (dx_svc e a)) = [dx_role]" "ss_route (scr_spec (dx_svc e a)) = None"
  "scr_uid (dx_svc e a) = ''uid-2''" "scr_generation (dx_svc e a) = 1"
  "scr_status (dx_svc e a) = \<lparr>scs_observedGeneration = 0, scs_phase = [], scs_message = [], scs_endpoint = [], scs_readyReplicas = 0, scs_selector = [],
     scs_conditions = [], scs_roles = []\<rparr>"
  by (simp_all add: dx_svc_def)

lemma dx_hash: "immutableSpecHash dx_lib (scr_spec (dx_svc e a)) = Inr (hex_encode (sha256 []))"
  by (simp add: immutableSpecHash_def has_config_def dx_lib_def)

abbreviation "no_service \<equiv> Inl (KNotFound ''no'')"

lemma dx_kservice: "\<exists>es. run_state (upsertKService False dx_lib (dx_api svc no_service) (dx_svc ''deployment'' []) (buildService (dx_svc ''deployment'' []) dx_role)) h = (None, es @ h)"
  by (simp add: upsertKService_def owned_meta_def build_simps get_obj_def put_def call_def dx_lib_def ox_lib_def)

lemma dx_report: "\<exists>es. run_state (report_svc dx_lib (dx_api svc ksvc) (nativedeployment dx_lib) (dx_svc ''deployment'' [])) h =
    (None, Put (KPatch (WSvc (dx_svc ''deployment'' [])) (WSvc (stamped (hex_encode (sha256 [])) (dx_svc ''deployment'' [])))) None # es @ h)"
proof -
  have st: "\<exists>es. run_state (svc_writeStatus (dx_api svc ksvc) (dx_svc ''deployment'' []) upd) h = (None, es @ h)" for upd h
    by (simp add: svc_writeStatus_def clock_def put_def call_def Let_def)
  obtain upd where upd: "deployment_MapStatus (dx_svc ''deployment'' []) [] = Some upd" by (simp add: deployment_MapStatus_def)
  obtain es where "run_state (svc_writeStatus (dx_api svc ksvc) (dx_svc ''deployment'' []) upd) (GotList (Inr []) # GotList (Inr []) # GotList (Inr []) # h) =
    (None, es @ GotList (Inr []) # GotList (Inr []) # GotList (Inr []) # h)" using st by blast
  with upd show ?thesis
    by (simp add: report_svc_def svc_listChildren_def sget_def nativedeployment_def list_kind_def list_obj_def call_def
      stampImmutabilityBaseline_def dx_hash put_def stamped_def)
qed

lemma nativedeployment_parts [simp]:
  "sh_validate (nativedeployment lib) = deployment_Validate" "sh_reconcile (nativedeployment lib) = deployment_Reconcile lib"
  by (simp_all add: nativedeployment_def)

abbreviation "dx_new \<equiv> dx_svc ''deployment'' []"
abbreviation "dx_stamp \<equiv> Put (KPatch (WSvc dx_new) (WSvc (stamped (hex_encode (sha256 [])) dx_new))) None"

lemma dx_deployed: "\<exists>es. run_state (svc_Reconcile dx_lib (dx_api dx_new no_service) (main_handlers dx_lib) ''team-a'' ''chat'') [] = (None, dx_stamp # es) \<and>
    Put (KCreate (WDeployment dx_dep)) None \<in> set es"
proof -
  let ?h = "[Put (KCreate (WDeployment dx_dep)) None, Got ''team-a'' (svc_Role dx_new dx_role) (Inl (KNotFound ''no'')), GotList (Inr []),
     Got ''team-a'' ''chat'' (Inr (WSvc dx_new))]"
  obtain es where "run_state (upsertKService False dx_lib (dx_api dx_new no_service) dx_new (buildService dx_new dx_role)) ?h = (None, es @ ?h)"
    using dx_kservice by blast
  moreover obtain es' where "run_state (report_svc dx_lib (dx_api dx_new no_service) (nativedeployment dx_lib) dx_new) (es @ ?h) =
    (None, dx_stamp # es' @ es @ ?h)" using dx_report by blast
  ultimately show ?thesis using dx_valid [of "[]"]
    by (simp add: svc_Reconcile_def dispatch_svc_def get_obj_def call_def Let_def sget_def main_handlers_def check_svc_def checkImmutability_def
      enabled_route_def cfg_Validate_def apply_svc_def cfg_Reconcile_def deleteObsolete_def list_obj_def dx_set deployment_Reconcile_def step_then_def
      svc_route_step_def)
qed

theorem svc_sets_accounted_witness:
  "sget (pts_labels (wss_template (ws_spec dx_dep))) LabelSchedulerQuota = ''axisml-team-a-gpu'' \<and> wss_replicas (ws_spec dx_dep) = 2"
proof -
  obtain es where es: "run_state (svc_Reconcile dx_lib (dx_api dx_new no_service) (main_handlers dx_lib) ''team-a'' ''chat'') [] = (None, (dx_stamp # es) @ [])"
    "Put (KCreate (WDeployment dx_dep)) None \<in> set (dx_stamp # es)" using dx_deployed by auto
  from svc_sets_accounted [OF es(1) _ es(2), of dx_new dx_dep] have "set_accounted dx_new (ws_spec dx_dep)" by simp
  then show ?thesis by (auto simp: set_accounted_def) (simp_all add: dx_svc_def dx_role_def)
qed

theorem svc_baseline_last_witness:
  "\<exists>es. run_state (svc_Reconcile dx_lib (dx_api dx_new no_service) (main_handlers dx_lib) ''team-a'' ''chat'') [] = (None, dx_stamp # es) \<and> list_all clean es"
proof -
  obtain es where es: "run_state (svc_Reconcile dx_lib (dx_api dx_new no_service) (main_handlers dx_lib) ''team-a'' ''chat'') [] = (None, (dx_stamp # es) @ [])"
    using dx_deployed by auto
  with svc_baseline_last [OF es, of dx_new dx_new "stamped (hex_encode (sha256 [])) dx_new" None] show ?thesis by auto
qed

abbreviation "dx_locked \<equiv> dx_svc ''deployment'' ''old''"

lemma dx_moved: "immutableSpecHash dx_lib (scr_spec dx_locked) \<noteq> Inr ''old''"
proof
  assume "immutableSpecHash dx_lib (scr_spec dx_locked) = Inr ''old''"
  then have "length (hex_encode (sha256 [])) = length ''old''" by (simp add: dx_hash)
  then show False by (simp add: length_sha256)
qed

theorem svc_spec_locked_witness:
  "\<exists>w es res. run_state (svc_Reconcile dx_lib (dx_api dx_locked no_service) (main_handlers dx_lib) ''team-a'' ''chat'') [] = (res, es) \<and>
     Put w None \<in> set es \<and> failed_status dx_locked w"
proof -
  obtain w es where es: "run_state (svc_Reconcile dx_lib (dx_api dx_locked no_service) (main_handlers dx_lib) ''team-a'' ''chat'') [] = (None, es @ [])" "Put w None \<in> set es"
    using dx_moved by (simp add: svc_Reconcile_def dispatch_svc_def get_obj_def call_def Let_def sget_def main_handlers_def check_svc_def checkImmutability_def
      dx_hash enabled_route_def writeFailedStatus_def svc_writeStatus_def clock_def put_def failed_update_def)
  have "baseline dx_locked = Some ''old''" by simp
  from svc_spec_locked [OF rtranclp.rtrancl_refl this _ es(1)] dx_moved es show ?thesis by auto
qed

end
