(* ===== verification/ServiceConvergence.thy ===== *)
theory ServiceConvergence
  imports ServiceOperatorProps
begin

text \<open>
  What the service controller does over several passes and together with its neighbours: the
  upsert of a set settles whatever the server defaults, the upserts of Services and routes do
  not, a Service of somebody else is overwritten, and what compute-service makes of the phase
  the controller reports.
\<close>

section \<open>Settling\<close>

lemma map_eq_merge:
  assumes "wf_map d" "\<And>k v. map_of d k = Some v \<Longrightarrow> map_of m k = Some v"
  shows "map_eq m (merge_onto m d)"
proof -
  have "map_of (merge_onto m d) k = map_of m k" for k
  proof (cases "m = []")
    case True
    with assms(2) show ?thesis by (cases "map_of d k") (auto simp: merge_onto_def)
  next
    case False
    with assms show ?thesis by (auto simp: merge_onto_def map_of_set_all split: option.split)
  qed
  then show ?thesis by (simp add: map_eq_iff fun_eq_iff)
qed

lemma map_of_merge: "wf_map d \<Longrightarrow> map_of d k = Some v \<Longrightarrow> map_of (merge_onto m d) k = Some v"
  by (auto simp: merge_onto_def map_of_set_all)

lemma wf_resourceLabels: "wf_map (resourceLabels svc role)"
  by (simp add: resourceLabels_def add_label_def selectorLabels_def wf_map_def distinct_update)

text \<open>The hash annotation decides: with it and the labels in place, an upsert reads and writes nothing.\<close>

lemma upsertSet_quiet:
  assumes "owned_meta lib ''MLService'' (om_name (scr_meta svc)) (scr_uid svc) (ws_meta desired) = Inr m" "hashSetSpec lib desired = Inr hash"
    "get h (om_namespace m) (om_name m) = Inr cur" "sget (om_annotations (ws_meta cur)) appliedSpecHashAnnotation = hash"
    "wf_map (om_labels m)" "\<And>k v. map_of (om_labels m) k = Some v \<Longrightarrow> map_of (om_labels (ws_meta cur)) k = Some v"
  shows "run_state (upsertSet wrap get lib api svc desired) h = (None, Got (om_namespace m) (om_name m) (Inr (wrap cur)) # h)"
  using assms map_eq_merge [OF assms(5,6)] by (simp add: upsertSet_def get_obj_def call_def Let_def)

text \<open>What an upsert wrote carries the hash and the labels.\<close>

lemma upsertSet_written:
  assumes "owned_meta lib ''MLService'' (om_name (scr_meta svc)) (scr_uid svc) (ws_meta desired) = Inr m" "hashSetSpec lib desired = Inr hash"
    "om_annotations m = []" "wf_map (om_labels m)"
  shows "runs (upsertSet wrap get lib api svc desired) (\<lambda>_ es. \<forall>w r. Put w r \<in> set es \<longrightarrow>
     (\<exists>d. (w = KCreate (wrap d) \<or> (\<exists>c. w = KPatch (wrap c) (wrap d))) \<and> ws_spec d = ws_spec desired \<and>
       sget (om_annotations (ws_meta d)) appliedSpecHashAnnotation = hash \<and>
       (\<forall>k v. map_of (om_labels m) k = Some v \<longrightarrow> map_of (om_labels (ws_meta d)) k = Some v)))"
  unfolding upsertSet_def assms(1,2) sum.case Let_def
  by (intro runs_rules) (auto simp: assms(3,4) sget_def map_of_set_all map_of_merge)

lemma upsertSet_owned:
  assumes "run_state (upsertSet wrap get lib api svc desired) h = (None, h')"
  obtains m hash where "owned_meta lib ''MLService'' (om_name (scr_meta svc)) (scr_uid svc) (ws_meta desired) = Inr m" "hashSetSpec lib desired = Inr hash"
  using assms by (auto simp: upsertSet_def split: sum.splits)

lemma owned_meta_parts:
  "owned_meta lib kind name uid m0 = Inr m \<Longrightarrow> om_namespace m = om_namespace m0 \<and> om_name m = om_name m0 \<and>
     om_labels m = om_labels m0 \<and> om_annotations m = om_annotations m0"
  by (auto simp: owned_meta_def split: sum.splits)

lemma upsertSet_settles:
  assumes first: "run_state (upsertSet wrap get lib api svc desired) h = (None, es @ h)" "Put w None \<in> set es"
    and wr: "w = KCreate (wrap d) \<or> (\<exists>c. w = KPatch (wrap c) (wrap d))" "inj wrap"
    and desired: "om_annotations (ws_meta desired) = []" "wf_map (om_labels (ws_meta desired))"
    and later: "get h' (om_namespace (ws_meta desired)) (om_name (ws_meta desired)) = Inr cur"
      "om_labels (ws_meta cur) = om_labels (ws_meta d)" "om_annotations (ws_meta cur) = om_annotations (ws_meta d)"
  shows "run_state (upsertSet wrap get lib api svc desired) h' =
     (None, Got (om_namespace (ws_meta desired)) (om_name (ws_meta desired)) (Inr (wrap cur)) # h')"
proof -
  from first(1) obtain m hash where m: "owned_meta lib ''MLService'' (om_name (scr_meta svc)) (scr_uid svc) (ws_meta desired) = Inr m"
    "hashSetSpec lib desired = Inr hash" by (rule upsertSet_owned)
  note parts = owned_meta_parts [OF m(1)]
  from desired parts have "om_annotations m = []" "wf_map (om_labels m)" by simp_all
  from runs_result [OF upsertSet_written [OF m this, of wrap get api] first(1)] first(2) wr
  have "sget (om_annotations (ws_meta d)) appliedSpecHashAnnotation = hash"
    "\<forall>k v. map_of (om_labels m) k = Some v \<longrightarrow> map_of (om_labels (ws_meta d)) k = Some v"
    by (auto dest!: spec [of _ w] simp: inj_eq)
  with upsertSet_quiet [OF m, of get h' cur wrap api] later desired parts show ?thesis by simp
qed

lemma svc_dep_patch:
  assumes "run_state (upsertSet wrap get lib api svc desired) h = (None, es @ h)" "Put (KPatch c (wrap d)) r \<in> set es"
  shows "\<exists>c'. c = wrap c'"
proof -
  have "only (writes_only (\<lambda>w. \<forall>c x. w = KPatch c x \<longrightarrow> (\<exists>c'. c = wrap c'))) (upsertSet wrap get lib api svc desired)"
    unfolding upsertSet_def Let_def by (intro only_rules) auto
  from events_written [OF this assms] show ?thesis by blast
qed

text \<open>
  The upsert of a Deployment settles: once a write of it was accepted, a later upsert for the same service writes
  nothing as long as the server keeps the labels and annotations of the object, whatever has become of its spec by then
  (defaulted fields, or a change of somebody else, which therefore stays).
\<close>

theorem svc_set_settles:
  assumes "run_state (upsertSet WDeployment (wa_getDeployment api) lib api svc (buildDeployment svc role)) h = (None, es @ h)"
    "Put w None \<in> set es" "w = KCreate (WDeployment d) \<or> w = KPatch c (WDeployment d)"
    "wa_getDeployment api h' (scr_namespace svc) (svc_Role svc role) = Inr cur"
    "om_labels (ws_meta cur) = om_labels (ws_meta d)" "om_annotations (ws_meta cur) = om_annotations (ws_meta d)"
  shows "run_state (upsertSet WDeployment (wa_getDeployment api) lib api svc (buildDeployment svc role)) h' =
     (None, Got (scr_namespace svc) (svc_Role svc role) (Inr (WDeployment cur)) # h')"
proof -
  have meta: "ws_meta (buildDeployment svc role) = svc_object_meta svc role (svc_Role svc role)" by (simp add: buildDeployment_def)
  have "w = KCreate (WDeployment d) \<or> (\<exists>c. w = KPatch (WDeployment c) (WDeployment d))"
    using assms(3) svc_dep_patch [OF assms(1), of c d None] assms(2) by auto
  from upsertSet_settles [OF assms(1,2) this _ _ _ _ assms(5,6)] assms(4) show ?thesis
    by (simp add: meta svc_object_meta_def wf_resourceLabels inj_def)
qed

text \<open>
  The upsert of a Service compares whole specs: a current spec with a field the server filled in is
  patched again by every upsert.
\<close>

lemma upsertKService_patches:
  assumes "owned_meta lib ''MLService'' (om_name (scr_meta svc)) (scr_uid svc) (ksv_meta desired) = Inr m"
    "wa_getService api h (om_namespace m) (om_name m) = Inr cur"
    "guarded \<longrightarrow> wl_controllerOf lib (om_owners (ksv_meta cur)) = Some (scr_uid svc)"
    "kss_rest (ksv_spec cur) \<noteq> kss_rest (ksv_spec desired) \<or> \<not> map_eq (kss_selector (ksv_spec cur)) (kss_selector (ksv_spec desired))"
  shows "\<exists>b r. run_state (upsertKService guarded lib api svc desired) h =
      (map_option kmsg r, Put (KPatch (WService cur) (WService b)) r # Got (om_namespace m) (om_name m) (Inr (WService cur)) # h) \<and>
    kss_selector (ksv_spec b) = kss_selector (ksv_spec desired) \<and> kss_ports (ksv_spec b) = kss_ports (ksv_spec desired) \<and>
    om_owners (ksv_meta b) = om_owners (ksv_meta cur)"
proof -
  from assms(4) have "\<not> kspec_eq (ksv_spec cur) ((ksv_spec desired)\<lparr>kss_clusterIP := kss_clusterIP (ksv_spec cur), kss_clusterIPs := kss_clusterIPs (ksv_spec cur)\<rparr>)"
    by (cases "ksv_spec cur"; cases "ksv_spec desired") (auto simp: kspec_eq_def)
  with assms(1-3) show ?thesis by (auto simp: upsertKService_def get_obj_def put_def call_def Let_def)
qed

text \<open>
  The Service of a deployment is patched by every pass once the server has defaulted a field of its spec: the comparison
  that guards the patch covers the fields the handler does not set.
\<close>

theorem svc_service_never_settles:
  assumes "owned_meta lib ''MLService'' (om_name (scr_meta svc)) (scr_uid svc) (ksv_meta (buildService svc role)) = Inr m"
    "wa_getService api h (scr_namespace svc) (svc_Workload svc) = Inr cur" "kss_rest (ksv_spec cur) \<noteq> []"
  shows "\<exists>b r. run_state (upsertKService False lib api svc (buildService svc role)) h =
      (map_option kmsg r, Put (KPatch (WService cur) (WService b)) r # Got (scr_namespace svc) (svc_Workload svc) (Inr (WService cur)) # h)"
proof -
  have "om_namespace m = scr_namespace svc" "om_name m = svc_Workload svc" "kss_rest (ksv_spec (buildService svc role)) = []"
    using owned_meta_parts [OF assms(1)] by (simp_all add: build_simps)
  with upsertKService_patches [OF assms(1), of api h cur False] assms(2,3) show ?thesis by fastforce
qed

section \<open>A Service of somebody else\<close>

text \<open>
  When the Service under the workload name of a deployment belongs to somebody else, the pass redirects it: it patches
  selector and ports to the pods of the service and leaves the owner in place. The \<open>(native, statefulset)\<close> handler
  stops at the same Service with an error.
\<close>

theorem svc_deployment_overwrites_service:
  assumes "ss_roles (scr_spec svc) = role # others" "wl_setControllerRef lib ''MLService'' (om_name (scr_meta svc)) (scr_uid svc) [] = Inr owners"
    "run_state (upsertSet WDeployment (wa_getDeployment api) lib api svc (buildDeployment svc role)) h = (None, h1)"
    "\<And>h. wa_getService api h (scr_namespace svc) (svc_Workload svc) = Inr foreign"
    "wl_controllerOf lib (om_owners (ksv_meta foreign)) \<noteq> Some (scr_uid svc)"
    "\<not> map_eq (kss_selector (ksv_spec foreign)) (selectorLabels svc (role_name role))"
  shows "(\<exists>res b r es. run_state (deployment_Reconcile lib api svc) h =
      (res, es @ Put (KPatch (WService foreign) (WService b)) r # Got (scr_namespace svc) (svc_Workload svc) (Inr (WService foreign)) # h1) \<and>
      kss_selector (ksv_spec b) = selectorLabels svc (role_name role) \<and> om_owners (ksv_meta b) = om_owners (ksv_meta foreign)) \<and>
    (\<exists>e. run_state (upsertKService True lib api svc (buildHeadlessService svc \<lparr>scf_podManagementPolicy = p, scf_serviceName = []\<rparr> role)) h =
      (Some e, Got (scr_namespace svc) (svc_Workload svc) (Inr (WService foreign)) # h))"
proof -
  have m: "owned_meta lib ''MLService'' (om_name (scr_meta svc)) (scr_uid svc) (ksv_meta (buildService svc role)) =
      Inr ((ksv_meta (buildService svc role))\<lparr>om_owners := owners\<rparr>)"
    using assms(2) by (simp add: owned_meta_def build_simps)
  obtain b r where put: "run_state (upsertKService False lib api svc (buildService svc role)) h1 =
      (map_option kmsg r, Put (KPatch (WService foreign) (WService b)) r # Got (scr_namespace svc) (svc_Workload svc) (Inr (WService foreign)) # h1)"
    "kss_selector (ksv_spec b) = selectorLabels svc (role_name role)" "om_owners (ksv_meta b) = om_owners (ksv_meta foreign)"
    using upsertKService_patches [OF m, of api h1 foreign False] assms(4,6) by (auto simp: build_simps)
  let ?route = "svc_route_step lib api svc role (svc_Workload svc)"
  obtain res es where "run_state (deployment_Reconcile lib api svc) h =
      (res, es @ Put (KPatch (WService foreign) (WService b)) r # Got (scr_namespace svc) (svc_Workload svc) (Inr (WService foreign)) # h1)"
  proof (cases r)
    case None
    have "runs ?route (\<lambda>_ _. True)"
      using only_runs [OF only_route_step] by (rule runs_mono) simp
    then obtain x es where "run_state ?route (Put (KPatch (WService foreign) (WService b)) r # Got (scr_namespace svc) (svc_Workload svc) (Inr (WService foreign)) # h1) =
        (x, es @ Put (KPatch (WService foreign) (WService b)) r # Got (scr_namespace svc) (svc_Workload svc) (Inr (WService foreign)) # h1)"
      unfolding runs_def by blast
    with that [of x es] None assms(1,3) put(1) show thesis by (simp add: deployment_Reconcile_def step_then_def)
  next
    case (Some e)
    with that [of _ "[]"] assms(1,3) put(1) show thesis by (simp add: deployment_Reconcile_def step_then_def)
  qed
  moreover have "\<exists>e. run_state (upsertKService True lib api svc (buildHeadlessService svc \<lparr>scf_podManagementPolicy = p, scf_serviceName = []\<rparr> role)) h =
      (Some e, Got (scr_namespace svc) (svc_Workload svc) (Inr (WService foreign)) # h)"
    using assms(2,4,5) by (simp add: upsertKService_def owned_meta_def build_simps defaultedServiceName_def get_obj_def call_def)
  ultimately show ?thesis using put(2,3) by blast
qed

section \<open>The phase compute-service derives\<close>

definition observe_svc :: "StatusUpdate \<Rightarrow> svc_observed" where
  "observe_svc upd = \<lparr>so_phase = sup_phase upd, so_message = sup_message upd, so_endpoint = sup_endpoint upd, so_readyReplicas = sup_readyReplicas upd\<rparr>"

definition svc_phase_of :: "string \<Rightarrow> svc_phase" where
  "svc_phase_of p = (if p = PhaseReady then SvcReady else if p = PhaseDegraded then SvcDegraded else if p = PhaseFailed then SvcFailed else SvcPending)"

text \<open>The status a native handler reports, and whether its route is missing.\<close>

definition native_report :: "'q wlib \<Rightarrow> 'q SvcCR \<Rightarrow> 'q wobj list \<Rightarrow> StatusUpdate \<Rightarrow> bool" where
  "native_report lib svc children upd \<longleftrightarrow> deployment_MapStatus svc children = Some upd \<or> statefulset_MapStatus lib svc children = Some upd"

definition unrouted :: "'q SvcCR \<Rightarrow> 'q wobj list \<Rightarrow> bool" where
  "unrouted svc children \<longleftrightarrow> enabled_route (scr_spec svc) \<noteq> None \<and> \<not> routeAccepted (findHTTPRoute children (svc_Workload svc) (scr_namespace svc))"

lemma native_report_cases:
  assumes "native_report lib svc children upd" "ss_roles (scr_spec svc) = role # others"
  obtains what conds live sn ksvc where "upd = map_svc_status what conds svc role live sn ksvc (findHTTPRoute children (svc_Workload svc) (scr_namespace svc))"
  using assms unfolding native_report_def deployment_MapStatus_def statefulset_MapStatus_def Let_def by auto

lemma map_svc_phase:
  "sup_phase (map_svc_status what conds svc role live sn ksvc route) =
     (let p = fst (derivePhase what conds live (role_replicas role) (case live of None \<Rightarrow> 0 | Some d \<Rightarrow> ws_readyReplicas d)) in
      if enabled_route (scr_spec svc) \<noteq> None \<and> \<not> routeAccepted route \<and> p \<noteq> PhaseFailed then PhaseDegraded else p)"
  by (simp add: map_svc_status_def Let_def split: prod.split)

lemma map_svc_ready:
  "sup_readyReplicas (map_svc_status what conds svc role live sn ksvc route) = (case live of None \<Rightarrow> 0 | Some d \<Rightarrow> ws_readyReplicas d)"
  by (simp add: map_svc_status_def Let_def split: prod.split)

lemma derivePhase_options: "fst (derivePhase what conds live desired ready) =
    (if desired = 0 \<or> live = None then PhasePending else if ready = desired then PhaseReady else if ready > 0 \<and> ready < desired then PhaseDegraded
     else if conds \<and> rollout_failure (ws_conditions (the live)) \<noteq> None then PhaseFailed else PhasePending)"
  by (cases live) (auto simp: derivePhase_def split: option.split)

lemma derived_phase:
  assumes "live = None \<longrightarrow> ready = 0" "0 \<le> ready" "ready \<le> desired"
  shows "fst (MapService ph cur desired \<lparr>so_phase = fst (derivePhase what conds live desired ready), so_message = m, so_endpoint = ep, so_readyReplicas = ready\<rparr>) =
    svc_phase_of (fst (derivePhase what conds live desired ready))"
  using assms unfolding derivePhase_options by (simp add: MapService_def Let_def svc_phase_of_def) fastforce

text \<open>
  For a service without a route, or with an accepted one, compute-service derives exactly the phase the controller
  reports, from whatever phase the row had, as long as no more pods are ready than desired.
\<close>

theorem svc_phase_agrees:
  assumes "native_report lib svc children upd" "ss_roles (scr_spec svc) = role # others" "\<not> unrouted svc children"
    "0 \<le> sup_readyReplicas upd" "sup_readyReplicas upd \<le> role_replicas role"
  shows "fst (MapService ph cur (role_replicas role) (observe_svc upd)) = svc_phase_of (sup_phase upd)"
proof -
  from assms(1,2) obtain what conds live sn ksvc where
    "upd = map_svc_status what conds svc role live sn ksvc (findHTTPRoute children (svc_Workload svc) (scr_namespace svc))" by (rule native_report_cases)
  moreover define ready where "ready = (case live of None \<Rightarrow> 0 | Some d \<Rightarrow> ws_readyReplicas d)"
  ultimately have "sup_phase upd = fst (derivePhase what conds live (role_replicas role) ready)" "sup_readyReplicas upd = ready"
    using assms(3) by (auto simp: map_svc_phase map_svc_ready unrouted_def Let_def)
  with assms(4,5) derived_phase [where live = live and ready = ready and what = what] show ?thesis
    by (simp add: observe_svc_def ready_def)
qed

text \<open>
  With an enabled route that is not accepted the two disagree: the controller reports \<open>Degraded\<close>, compute-service
  keeps whatever phase the row had when no pod is ready (\<open>Ready\<close> included) and reports \<open>Ready\<close> when all are.
\<close>

theorem svc_unrouted_phase_stuck:
  assumes "native_report lib svc children upd" "ss_roles (scr_spec svc) = role # others" "unrouted svc children"
    "sup_phase upd \<noteq> PhaseFailed" "role_replicas role > 0"
  shows "sup_phase upd = PhaseDegraded \<and>
    (sup_readyReplicas upd = 0 \<longrightarrow> fst (MapService ph cur (role_replicas role) (observe_svc upd)) = ph) \<and>
    (sup_readyReplicas upd = role_replicas role \<longrightarrow> fst (MapService ph cur (role_replicas role) (observe_svc upd)) = SvcReady)"
proof -
  from assms(1,2) obtain what conds live sn ksvc where
    "upd = map_svc_status what conds svc role live sn ksvc (findHTTPRoute children (svc_Workload svc) (scr_namespace svc))" by (rule native_report_cases)
  with assms(3,4) have "sup_phase upd = PhaseDegraded" by (simp add: map_svc_phase unrouted_def Let_def split: if_splits)
  with assms(5) show ?thesis by (simp add: MapService_def observe_svc_def Let_def)
qed

section \<open>Examples\<close>

text \<open>A server that has the Deployment once it was created, with a defaulted spec.\<close>

abbreviation "dx_live \<equiv> dx_dep\<lparr>ws_spec := (ws_spec dx_dep)\<lparr>wss_rest := ''defaults''\<rparr>\<rparr>"

definition dx_store :: "int wapi" where
  "dx_store = (dx_api dx_new no_service)\<lparr>wa_getDeployment := (\<lambda>h _ _. if h = [] then Inl (KNotFound ''no'') else Inr dx_live)\<rparr>"

theorem svc_set_settles_witness:
  "\<exists>es. run_state (upsertSet WDeployment (wa_getDeployment dx_store) dx_lib dx_store dx_new (buildDeployment dx_new dx_role)) es = (None, Got ''team-a'' (svc_Role dx_new dx_role) (Inr (WDeployment dx_live)) # es) \<and>
     Put (KCreate (WDeployment dx_dep)) None \<in> set es"
proof -
  let ?es = "[Put (KCreate (WDeployment dx_dep)) None, Got ''team-a'' (svc_Role dx_new dx_role) (Inl (KNotFound ''no''))]"
  have "run_state (upsertSet WDeployment (wa_getDeployment dx_store) dx_lib dx_store dx_new (buildDeployment dx_new dx_role)) [] = (None, ?es @ [])"
    by (simp add: upsertSet_def owned_meta_def hashSetSpec_def buildDeployment_def get_obj_def put_def call_def Let_def svc_object_meta_def
      dx_lib_def ox_lib_def dx_store_def)
  from svc_set_settles [OF this, of "KCreate (WDeployment dx_dep)" dx_dep _ ?es dx_live] show ?thesis
    by (intro exI [of _ ?es]) (simp add: dx_store_def)
qed

definition dx_other :: KService where
  "dx_other = \<lparr>ksv_meta = \<lparr>om_namespace = ''team-a'', om_name = ''chat'', om_labels = [], om_annotations = [], om_owners = []\<rparr>,
     ksv_spec = \<lparr>kss_type = ''ClusterIP'', kss_clusterIP = ''10.0.0.7'', kss_clusterIPs = [''10.0.0.7''], kss_selector = [(''app'', ''other'')], kss_ports = [], kss_rest = ''ipFamilies''\<rparr>\<rparr>"

theorem svc_service_never_settles_witness:
  "\<exists>b r. run_state (upsertKService False dx_lib (dx_api dx_new (Inr dx_other)) dx_new (buildService dx_new dx_role)) [] =
     (map_option kmsg r, [Put (KPatch (WService dx_other) (WService b)) r, Got ''team-a'' (svc_Workload dx_new) (Inr (WService dx_other))])"
proof -
  obtain m where "owned_meta dx_lib ''MLService'' (om_name (scr_meta dx_new)) (scr_uid dx_new) (ksv_meta (buildService dx_new dx_role)) = Inr m"
    by (simp add: owned_meta_def dx_lib_def ox_lib_def)
  from svc_service_never_settles [OF this, of "dx_api dx_new (Inr dx_other)" "[]" dx_other] show ?thesis by (auto simp: dx_other_def)
qed

theorem svc_deployment_overwrites_service_witness:
  "\<exists>res b r es h. run_state (deployment_Reconcile dx_lib (dx_api dx_new (Inr dx_other)) dx_new) [] = (res, es @ Put (KPatch (WService dx_other) (WService b)) r # h) \<and>
     kss_selector (ksv_spec b) = [(LabelServiceID, ''s-1''), (LabelRole, SvcRoleName)]"
proof -
  have "wl_setControllerRef dx_lib ''MLService'' (om_name (scr_meta dx_new)) (scr_uid dx_new) [] = Inr [wl_newControllerRef dx_lib ''MLService'' ''chat'' ''uid-2'']"
    "wl_controllerOf dx_lib (om_owners (ksv_meta dx_other)) \<noteq> Some (scr_uid dx_new)" "ss_roles (scr_spec dx_new) = [dx_role]"
    "\<not> map_eq (kss_selector (ksv_spec dx_other)) (selectorLabels dx_new (role_name dx_role))"
    "wa_getService (dx_api dx_new (Inr dx_other)) h' (scr_namespace dx_new) (svc_Workload dx_new) = Inr dx_other" for h'
    by (simp_all add: dx_lib_def ox_lib_def dx_other_def map_eq_def selectorLabels_def)
  from conjunct1 [OF svc_deployment_overwrites_service [OF this(3,1) dx_set [of dx_new "Inr dx_other" "[]"] this(5,2,4)]] obtain res b r es h where
    "run_state (deployment_Reconcile dx_lib (dx_api dx_new (Inr dx_other)) dx_new) [] = (res, es @ Put (KPatch (WService dx_other) (WService b)) r # h)"
    "kss_selector (ksv_spec b) = selectorLabels dx_new (role_name dx_role)" by blast
  moreover have "selectorLabels dx_new (role_name dx_role) = [(LabelServiceID, ''s-1''), (LabelRole, SvcRoleName)]"
    by (simp add: selectorLabels_def sget_def dx_role_def)
  ultimately show ?thesis by metis
qed

abbreviation "dx_half \<equiv> [WDeployment (dx_dep\<lparr>ws_readyReplicas := 1\<rparr>)]"

lemma dx_find: "findDeployment dx_half (svc_Role dx_new dx_role) ''team-a'' = Some (dx_dep\<lparr>ws_readyReplicas := 1\<rparr>)"
  by (simp add: findDeployment_def is_named_def svc_object_meta_def)

theorem svc_phase_agrees_witness:
  "\<exists>upd. deployment_MapStatus dx_new dx_half = Some upd \<and> (\<forall>cur. fst (MapService SvcReady cur 2 (observe_svc upd)) = SvcDegraded)"
proof -
  obtain upd where upd: "deployment_MapStatus dx_new dx_half = Some upd" by (simp add: deployment_MapStatus_def)
  moreover have "sup_readyReplicas upd = 1" "role_replicas dx_role = 2" "sup_phase upd = PhaseDegraded"
    using upd dx_find by (auto simp: deployment_MapStatus_def map_svc_ready map_svc_phase derivePhase_def enabled_route_def Let_def dx_role_def)
  moreover have "native_report dx_lib dx_new dx_half upd" "\<not> unrouted dx_new dx_half" using upd by (simp_all add: native_report_def unrouted_def enabled_route_def)
  ultimately show ?thesis using svc_phase_agrees [of dx_lib dx_new dx_half upd dx_role "[]" SvcReady] by (auto simp: svc_phase_of_def)
qed

definition dx_routed :: "int SvcCR" where
  "dx_routed = dx_new\<lparr>scr_spec := (scr_spec dx_new)\<lparr>ss_route := Some \<lparr>rou_enabled = True, rou_targetRole = [], rou_portName = [],
     rou_hostname = ''chat.example.com'', rou_path = [], rou_authType = None, rou_rateLimit = None, rou_timeout = []\<rparr>\<rparr>\<rparr>"

theorem svc_unrouted_phase_stuck_witness:
  "\<exists>upd. deployment_MapStatus dx_routed [] = Some upd \<and> sup_phase upd = PhaseDegraded \<and> (\<forall>cur. fst (MapService SvcReady cur 2 (observe_svc upd)) = SvcReady)"
proof -
  have parts: "ss_roles (scr_spec dx_routed) = [dx_role]" "enabled_route (scr_spec dx_routed) \<noteq> None" "role_replicas dx_role = 2"
    by (simp_all add: dx_routed_def enabled_route_def dx_role_def)
  obtain upd where upd: "deployment_MapStatus dx_routed [] = Some upd" by (simp add: deployment_MapStatus_def parts)
  moreover have "sup_readyReplicas upd = 0" "sup_phase upd \<noteq> PhaseFailed"
    using upd parts by (auto simp: deployment_MapStatus_def map_svc_ready map_svc_phase derivePhase_def findDeployment_def Let_def split: if_splits)
  moreover have "native_report dx_lib dx_routed [] upd" "unrouted dx_routed []"
    using upd parts by (simp_all add: native_report_def unrouted_def routeAccepted_def routeConditionTrue_def findHTTPRoute_def)
  ultimately show ?thesis using svc_unrouted_phase_stuck [of dx_lib dx_routed "[]" upd dx_role "[]" SvcReady] parts by auto
qed

end
