(* ===== verification/TrafficOperator.thy ===== *)
theory TrafficOperator
  imports ServiceOperator
begin

text \<open>
  The traffic-policy controller of the compute operator: the dispatcher
  (\<^verbatim>\<open>compute-operator/internal/mltrafficpolicy/dispatcher\<close>) and the \<open>(native, httproute)\<close> handler
  (\<^verbatim>\<open>handler/nativehttproute\<close>), which renders one weighted HTTPRoute over the Services of the
  member services. Condition merge, list of children, label merge and the upsert of a route are
  the same code as in the service controller.
\<close>

section \<open>The handler contract\<close>

record PolicyUpdate =
  pup_phase :: string
  pup_message :: string
  pup_endpoint :: string
  pup_backends :: "traffic_backend list"
  pup_conditions :: "Condition list"

record 'q tp_handler =
  th_validate :: "TrafficSpec \<Rightarrow> Validation"
  th_reconcile :: "'q wapi \<Rightarrow> PolicyCR \<Rightarrow> ('q, string option) wprog"
  th_mapStatus :: "PolicyCR \<Rightarrow> 'q wobj list \<Rightarrow> PolicyUpdate"
  th_watchTargets :: "child_kind list"

abbreviation pcr_labels :: "PolicyCR \<Rightarrow> (string, string) gomap" where
  "pcr_labels p \<equiv> om_labels (pcr_meta p)"
abbreviation pcr_namespace :: "PolicyCR \<Rightarrow> string" where
  "pcr_namespace p \<equiv> om_namespace (pcr_meta p)"
abbreviation tp_Workload :: "PolicyCR \<Rightarrow> string" where
  "tp_Workload p \<equiv> Workload (name_meta (pcr_meta p))"

section \<open>The (native, httproute) handler\<close>

definition mode_errors :: "string \<Rightarrow> BackendMember list \<Rightarrow> string list" where
  "mode_errors mode backends =
     (if mode = TrafficModeWeighted
      then (if length backends < 2 then [''weighted mode requires at least 2 backends''] else [])
      else if mode = TrafficModeCanary
      then (if length backends \<noteq> 2 then [''canary mode requires exactly 2 backends'']
            else if length (filter (\<lambda>m. bm_role m = RoleStable) backends) \<noteq> 1 \<or> length (filter (\<lambda>m. bm_role m = RoleCanary) backends) \<noteq> 1
            then [''canary mode requires exactly one role=stable and one role=canary backend''] else [])
      else if mode = TrafficModeBlueGreen
      then (if length backends \<noteq> 2 then [''bluegreen mode requires exactly 2 backends''] else [])
      else [''unknown mode '' @ go_quote mode])"

definition member_errors :: "nat \<Rightarrow> string list \<Rightarrow> BackendMember \<Rightarrow> string list" where
  "member_errors i seen m =
     (let path = index_path ''backends'' i in
      (if bm_serviceName m = [] then [path @ ''.serviceName is required''] else []) @
      (if bm_serviceName m \<in> set seen then [path @ '': duplicate serviceName '' @ go_quote (bm_serviceName m)] else []) @
      (if bm_weight m < 0 \<or> bm_weight m > 100 then [path @ ''.weight must be 0..100; got '' @ show_int (bm_weight m)] else []))"

fun members_errors :: "nat \<Rightarrow> string list \<Rightarrow> BackendMember list \<Rightarrow> string list" where
  "members_errors i seen [] = []"
| "members_errors i seen (m # ms) = member_errors i seen m @ members_errors (Suc i) (bm_serviceName m # seen) ms"

definition httproute_Validate :: "TrafficSpec \<Rightarrow> Validation" where
  "httproute_Validate spec =
     (if tsp_backends spec = [] then \<lparr>val_errors = [''backends must declare at least one member''], val_warnings = []\<rparr>
      else \<lparr>val_errors = mode_errors (tsp_mode spec) (tsp_backends spec) @ members_errors 0 [] (tsp_backends spec) @
              (case ep_auth (tsp_endpoint spec) of Some a \<Rightarrow> if ea_type a = ''jwt''
                 then [''endpoint.auth=jwt is not yet supported (SecurityPolicy derivation pending); use auth.type=none''] else [] | None \<Rightarrow> []),
            val_warnings = (case be_config (tsp_backend spec) of Some raw \<Rightarrow> if raw \<noteq> []
                 then [''(native, httproute) ignores backend.config; reserved for future fields''] else [] | None \<Rightarrow> [])\<rparr>)"

text \<open>The port of a member's Service: the one named \<open>http\<close>, or the first.\<close>

definition routable_port :: "KService \<Rightarrow> int option" where
  "routable_port s =
     (case find (\<lambda>p. svp_name p = ''http'') (kss_ports (ksv_spec s)) of
        Some p \<Rightarrow> Some (svp_port p)
      | None \<Rightarrow> (case kss_ports (ksv_spec s) of p # _ \<Rightarrow> Some (svp_port p) | [] \<Rightarrow> None))"

definition resolveServicePort :: "'q wapi \<Rightarrow> string \<Rightarrow> string \<Rightarrow> ('q, string + int option) wprog" where
  "resolveServicePort api ns name = do {
     r \<leftarrow> get_obj WService (wa_getService api) ns name;
     ret (case r of Inl e \<Rightarrow> if isNotFound e then Inr None else Inl (kmsg e) | Inr s \<Rightarrow> Inr (routable_port s))
   }"

definition backendRef :: "string \<Rightarrow> int \<Rightarrow> int \<Rightarrow> BackendRef" where
  "backendRef serviceName port weight = \<lparr>brf_name = serviceName, brf_kind = ''Service'', brf_port = port, brf_weight = Some weight\<rparr>"

definition member_service :: "PolicyCR \<Rightarrow> BackendMember \<Rightarrow> string" where
  "member_service p m = Related (name_meta (pcr_meta p)) (sget (pcr_labels p) LabelTenant) (bm_serviceName m)"

text \<open>The loop over the members: the references of the resolved ones, the names of the others.\<close>

fun resolve_members ::
  "'q wapi \<Rightarrow> PolicyCR \<Rightarrow> BackendMember list \<Rightarrow> BackendRef list \<Rightarrow> string list \<Rightarrow> ('q, string + (BackendRef list \<times> string list)) wprog" where
  "resolve_members api p [] refs missing = ret (Inr (refs, missing))"
| "resolve_members api p (m # ms) refs missing = do {
     r \<leftarrow> resolveServicePort api (pcr_namespace p) (member_service p m);
     case r of
       Inl e \<Rightarrow> ret (Inl (''resolve service '' @ bm_serviceName m @ '': '' @ e))
     | Inr None \<Rightarrow> resolve_members api p ms refs (missing @ [bm_serviceName m])
     | Inr (Some port) \<Rightarrow> resolve_members api p ms (refs @ [backendRef (member_service p m) port (bm_weight m)]) missing
   }"

definition policyLabels :: "PolicyCR \<Rightarrow> (string, string) gomap" where
  "policyLabels p =
     (let labels = [(LabelTrafficPolicyID, sget (pcr_labels p) LabelTrafficPolicyID)]; t = sget (pcr_labels p) LabelTenant in
      if t \<noteq> [] then AList.update LabelTenant t labels else labels)"

definition tp_buildHTTPRoute :: "PolicyCR \<Rightarrow> BackendRef list \<Rightarrow> HTTPRoute" where
  "tp_buildHTTPRoute p refs =
     (let ep = tsp_endpoint (pcr_spec p) in
      \<lparr>htr_meta = \<lparr>om_namespace = pcr_namespace p, om_name = tp_Workload p, om_labels = policyLabels p, om_annotations = [], om_owners = []\<rparr>,
       htr_spec = \<lparr>hrs_parentNamespace = ''axisml-infra'', hrs_parentName = ''axisml-gateway'',
         hrs_hostnames = (if ep_hostname ep = [] then [] else [ep_hostname ep]),
         hrs_path = (if ep_path ep = [] then ''/'' else ep_path ep), hrs_backendRefs = refs, hrs_rest = []\<rparr>,
       htr_parents = []\<rparr>)"

definition httproute_Reconcile :: "'q wlib \<Rightarrow> 'q wapi \<Rightarrow> PolicyCR \<Rightarrow> ('q, string option) wprog" where
  "httproute_Reconcile lib api p = do {
     r \<leftarrow> resolve_members api p (tsp_backends (pcr_spec p)) [] [];
     case r of
       Inl e \<Rightarrow> ret (Some e)
     | Inr (refs, missing) \<Rightarrow>
         if missing \<noteq> [] \<and> length (tsp_backends (pcr_spec p)) > 1
         then ret (Some (''not all member services resolve yet (missing: '' @ join '', '' missing @
                ''); holding route to avoid shifting weights onto the resolvable subset''))
         else if refs = [] then ret None
         else step_then ''upsert httproute''
           (upsertHTTPRoute lib api ''MLTrafficPolicy'' (om_name (pcr_meta p)) (pcr_uid p) (tp_buildHTTPRoute p refs)) (ret None)
   }"

definition routeResolved :: "HTTPRoute option \<Rightarrow> bool" where
  "routeResolved route = routeConditionTrue route ''ResolvedRefs''"

definition tp_deriveEndpoint :: "PolicyCR \<Rightarrow> bool \<Rightarrow> string" where
  "tp_deriveEndpoint p accepted =
     (let ep = tsp_endpoint (pcr_spec p); path = (if ep_path ep \<noteq> [] then ep_path ep else ''/'') in
      if \<not> accepted then [] else if ep_hostname ep \<noteq> [] then ''https://'' @ ep_hostname ep @ path else path)"

definition httproute_MapStatus :: "PolicyCR \<Rightarrow> 'q wobj list \<Rightarrow> PolicyUpdate" where
  "httproute_MapStatus p children =
     (let route = findHTTPRoute children (tp_Workload p) (pcr_namespace p);
          accepted = routeAccepted route; programmed = (accepted \<and> routeResolved route);
          (phase, message) = (if route = None then (PhasePending, ''HTTPRoute not yet created (waiting for member services)'')
             else if programmed then (PhaseReady, [])
             else if accepted then (PhaseDegraded, ''some backendRefs unresolved'')
             else (PhasePending, ''HTTPRoute not yet Accepted''))
      in \<lparr>pup_phase = phase, pup_message = message, pup_endpoint = tp_deriveEndpoint p accepted,
          pup_backends = map (\<lambda>m. \<lparr>tb_serviceName = bm_serviceName m, tb_weight = bm_weight m, tb_ready = programmed\<rparr>) (tsp_backends (pcr_spec p)),
          pup_conditions = buildConditions ''RouteProgrammed'' phase message (pcr_generation p)\<rparr>)"

definition nativehttproute :: "'q wlib \<Rightarrow> 'q tp_handler" where
  "nativehttproute lib = \<lparr>th_validate = httproute_Validate, th_reconcile = httproute_Reconcile lib, th_mapStatus = httproute_MapStatus,
     th_watchTargets = [KindRoute]\<rparr>"

definition tp_notImplemented :: "string \<times> string \<Rightarrow> 'q tp_handler" where
  "tp_notImplemented key = \<lparr>
     th_validate = (\<lambda>_. \<lparr>val_errors = [''backend ('' @ fst key @ '', '' @ snd key @ '') not implemented; see axisml-system/docs/compute-operator.md '' @
       section_sign @ ''4.3 / '' @ section_sign @ ''9''], val_warnings = []\<rparr>),
     th_reconcile = (\<lambda>_ _. ret None),
     th_mapStatus = (\<lambda>_ _. \<lparr>pup_phase = PhaseFailed, pup_message = ''handler not implemented'', pup_endpoint = [], pup_backends = [], pup_conditions = []\<rparr>),
     th_watchTargets = []\<rparr>"

type_synonym 'q tp_registry = "(string \<times> string, 'q tp_handler) gomap"

definition tp_handlers :: "'q wlib \<Rightarrow> 'q tp_registry" where
  "tp_handlers lib = [((''native'', ''httproute''), nativehttproute lib), ((''kserve'', ''inference''), tp_notImplemented (''kserve'', ''inference''))]"

section \<open>The dispatcher\<close>

definition tp_writeStatus :: "'q wapi \<Rightarrow> PolicyCR \<Rightarrow> PolicyUpdate \<Rightarrow> ('q, string option) wprog" where
  "tp_writeStatus api p upd = do {
     t \<leftarrow> clock api;
     let desired = \<lparr>pcs_observedGeneration = pcr_generation p, pcs_phase = pup_phase upd, pcs_message = pup_message upd, pcs_endpoint = pup_endpoint upd,
       pcs_backends = pup_backends upd, pcs_conditions = mergeConditions t (pcs_conditions (pcr_status p)) (pup_conditions upd) (pcr_generation p)\<rparr>;
     if pcr_status p = desired then ret None
     else do {
       e \<leftarrow> put api (KStatus (WPolicy p) (WPolicy (p\<lparr>pcr_status := desired\<rparr>)));
       ret (map_option kmsg e)
     }
   }"

definition tp_failed :: "int \<Rightarrow> string \<Rightarrow> PolicyUpdate" where
  "tp_failed generation message = \<lparr>pup_phase = PhaseFailed, pup_message = message, pup_endpoint = [], pup_backends = [],
     pup_conditions = [\<lparr>mc_type = ''Available'', mc_status = ''False'', mc_observedGeneration = generation, mc_lastTransitionTime = 0,
       mc_reason = PhaseFailed, mc_message = message\<rparr>]\<rparr>"

definition tp_writeFailedStatus :: "'q wapi \<Rightarrow> PolicyCR \<Rightarrow> string \<Rightarrow> ('q, string option) wprog" where
  "tp_writeFailedStatus api p message = tp_writeStatus api p (tp_failed (pcr_generation p) message)"

definition tp_listChildren :: "'q wapi \<Rightarrow> PolicyCR \<Rightarrow> 'q tp_handler \<Rightarrow> ('q, string + 'q wobj list) wprog" where
  "tp_listChildren api p h =
     (if sget (pcr_labels p) LabelTrafficPolicyID = [] then ret (Inr [])
      else list_kinds api (pcr_namespace p) [(LabelTrafficPolicyID, sget (pcr_labels p) LabelTrafficPolicyID)] (th_watchTargets h) [])"

definition dispatch_tp :: "'q wapi \<Rightarrow> 'q tp_registry \<Rightarrow> PolicyCR \<Rightarrow> ('q, string option) wprog" where
  "dispatch_tp api reg p =
     (let b = tsp_backend (pcr_spec p) in
      if sget (pcr_labels p) LabelTrafficPolicyID = []
      then tp_writeFailedStatus api p (''missing required label '' @ go_quote LabelTrafficPolicyID @ ''; compute-service must stamp it before CR creation'')
      else case map_of reg (be_name b, be_engine b) of
        None \<Rightarrow> tp_writeFailedStatus api p (''no handler for backend='' @ be_name b @ '' engine='' @ be_engine b)
      | Some h \<Rightarrow>
          if val_errors (th_validate h (pcr_spec p)) \<noteq> []
          then tp_writeFailedStatus api p (''validation failed: '' @ join ''; '' (val_errors (th_validate h (pcr_spec p))))
          else do {
            r \<leftarrow> th_reconcile h api p;
            case r of
              Some e \<Rightarrow> do { _ \<leftarrow> tp_writeFailedStatus api p (''reconcile error: '' @ e); ret (Some e) }
            | None \<Rightarrow> do {
                c \<leftarrow> tp_listChildren api p h;
                case c of Inl e \<Rightarrow> ret (Some e) | Inr children \<Rightarrow> tp_writeStatus api p (th_mapStatus h p children)
              }
          })"

definition tp_Reconcile :: "'q wapi \<Rightarrow> 'q tp_registry \<Rightarrow> string \<Rightarrow> string \<Rightarrow> ('q, string option) wprog" where
  "tp_Reconcile api reg ns name = do {
     r \<leftarrow> get_obj WPolicy (wa_getPolicy api) ns name;
     case r of
       Inl e \<Rightarrow> ret (if isNotFound e then None else Some (kmsg e))
     | Inr p \<Rightarrow> dispatch_tp api reg p
   }"

end
