(* ===== verification/TrafficOperatorProps.thy ===== *)
theory TrafficOperatorProps
  imports TrafficOperator ServiceOperatorProps
begin

text \<open>
  The traffic-policy controller, for every behaviour of the API server: a route is programmed with
  all members or not at all, and what a missing member does to the status.
\<close>

section \<open>Resolving the members\<close>

text \<open>A reference to a member: its Service, its weight, and a port that was read from that Service.\<close>

definition resolved_ref :: "PolicyCR \<Rightarrow> 'q wevent list \<Rightarrow> BackendMember \<Rightarrow> BackendRef \<Rightarrow> bool" where
  "resolved_ref p es m ref \<longleftrightarrow> brf_name ref = member_service p m \<and> brf_kind ref = ''Service'' \<and> brf_weight ref = Some (bm_weight m) \<and>
     (\<exists>s. Got (pcr_namespace p) (member_service p m) (Inr (WService s)) \<in> set es \<and> routable_port s = Some (brf_port ref))"

lemma resolved_ref_mono: "resolved_ref p es m ref \<Longrightarrow> set es \<subseteq> set es' \<Longrightarrow> resolved_ref p es' m ref"
  unfolding resolved_ref_def by blast

lemma resolved_all_mono: "list_all2 (resolved_ref p es) ms refs \<Longrightarrow> set es \<subseteq> set es' \<Longrightarrow> list_all2 (resolved_ref p es') ms refs"
  by (erule list_all2_mono) (rule resolved_ref_mono)

text \<open>What the loop returns: with nothing missing, one reference per member, in order.\<close>

lemma resolve_members_runs:
  "runs (resolve_members api p ms refs missing) (\<lambda>r es. (\<forall>e\<in>set es. \<exists>ns nm x. e = Got ns nm x) \<and>
     (case r of Inl _ \<Rightarrow> True | Inr (refs', missing') \<Rightarrow>
        (missing' = [] \<longrightarrow> missing = [] \<and> (\<exists>new. refs' = refs @ new \<and> list_all2 (resolved_ref p es) ms new)) \<and>
        length refs' + length missing' = length refs + length missing + length ms))"
proof (induction ms arbitrary: refs missing)
  case Nil
  then show ?case by (auto intro!: runs_ret)
next
  case (Cons m ms)
  let ?ev = "Got (pcr_namespace p) (member_service p m)"
  have step: "runs (resolveServicePort api (pcr_namespace p) (member_service p m)) (\<lambda>r es. \<exists>x. es = [?ev x] \<and>
      (\<forall>port. r = Inr (Some port) \<longrightarrow> (\<exists>s. x = Inr (WService s) \<and> routable_port s = Some port)))"
    unfolding resolveServicePort_def by (intro runs_rules) (auto split: sum.splits if_splits)
  show ?case unfolding resolve_members.simps
  proof (rule runs_bind [OF step])
    fix r :: "string + int option" and es :: "'a wevent list"
    assume "\<exists>x. es = [?ev x] \<and> (\<forall>port. r = Inr (Some port) \<longrightarrow> (\<exists>s. x = Inr (WService s) \<and> routable_port s = Some port))"
    then obtain x where es: "es = [?ev x]" "\<And>port. r = Inr (Some port) \<Longrightarrow> \<exists>s. x = Inr (WService s) \<and> routable_port s = Some port" by blast
    have ref: "resolved_ref p (es' @ es) m (backendRef (member_service p m) port (bm_weight m))" if "r = Inr (Some port)" for es' port
      using es(2) [OF that] by (auto simp: resolved_ref_def backendRef_def es(1))
    have mono: "list_all2 (resolved_ref p (es' @ es)) ms new" if "list_all2 (resolved_ref p es') ms new" for es' new
      using that by (rule resolved_all_mono) simp
    show "runs (case r of Inl e \<Rightarrow> ret (Inl (''resolve service '' @ bm_serviceName m @ '': '' @ e))
       | Inr None \<Rightarrow> resolve_members api p ms refs (missing @ [bm_serviceName m])
       | Inr (Some port) \<Rightarrow> resolve_members api p ms (refs @ [backendRef (member_service p m) port (bm_weight m)]) missing)
      (\<lambda>r es'. (\<forall>e\<in>set (es' @ es). \<exists>ns nm x. e = Got ns nm x) \<and>
         (case r of Inl _ \<Rightarrow> True | Inr (refs', missing') \<Rightarrow>
           (missing' = [] \<longrightarrow> missing = [] \<and> (\<exists>new. refs' = refs @ new \<and> list_all2 (resolved_ref p (es' @ es)) (m # ms) new)) \<and>
           length refs' + length missing' = length refs + length missing + length (m # ms)))"
      by (intro runs_sum runs_option runs_ret)
         (auto intro!: runs_mono [OF Cons.IH] simp: es(1) split: sum.splits, insert mono ref, auto simp: es(1) list_all2_Cons1)
  qed
qed

section \<open>All or nothing\<close>

fun route_of :: "'q wwrite \<Rightarrow> HTTPRoute option" where
  "route_of (KCreate (WRoute r)) = Some r"
| "route_of (KPatch a (WRoute r)) = Some r"
| "route_of _ = None"

definition complete_route :: "PolicyCR \<Rightarrow> 'q wevent list \<Rightarrow> HTTPRoute \<Rightarrow> bool" where
  "complete_route p es r \<longleftrightarrow> list_all2 (resolved_ref p es) (tsp_backends (pcr_spec p)) (hrs_backendRefs (htr_spec r))"

lemma upsert_route_only:
  "only (writes_only (\<lambda>w. \<exists>r. route_of w = Some r \<and> htr_spec r = htr_spec desired)) (upsertHTTPRoute lib api kind name uid desired)"
  unfolding upsertHTTPRoute_def Let_def by (intro only_rules) auto

lemma upsert_route_runs:
  assumes "list_all2 (resolved_ref p es) (tsp_backends (pcr_spec p)) refs"
  shows "runs (step_then what (upsertHTTPRoute lib api kind name uid (tp_buildHTTPRoute p refs)) (ret None))
    (\<lambda>_ es'. \<forall>w x. Put w x \<in> set es' \<longrightarrow> (\<exists>r. route_of w = Some r \<and> complete_route p (es' @ es) r))"
proof (rule runs_mono [OF only_runs [OF only_step_then [OF upsert_route_only only_ret]]])
  fix x :: "string option" and es' :: "'a wevent list"
  assume "list_all (writes_only (\<lambda>w. \<exists>r. route_of w = Some r \<and> htr_spec r = htr_spec (tp_buildHTTPRoute p refs))) es'"
  with resolved_all_mono [OF assms, of "es' @ es"]
  show "\<forall>w x. Put w x \<in> set es' \<longrightarrow> (\<exists>r. route_of w = Some r \<and> complete_route p (es' @ es) r)"
    by (fastforce simp: list_all_iff complete_route_def tp_buildHTTPRoute_def Let_def)
qed

lemma httproute_runs:
  "runs (httproute_Reconcile lib api p) (\<lambda>_ es. \<forall>w x. Put w x \<in> set es \<longrightarrow> (\<exists>r. route_of w = Some r \<and> complete_route p es r))"
  unfolding httproute_Reconcile_def
proof (rule runs_bind [OF resolve_members_runs])
  fix r :: "string + (BackendRef list \<times> string list)" and es :: "'a wevent list"
  assume "(\<forall>e\<in>set es. \<exists>ns nm x. e = Got ns nm x) \<and> (case r of Inl _ \<Rightarrow> True | Inr (refs', missing') \<Rightarrow>
     (missing' = [] \<longrightarrow> [] = [] \<and> (\<exists>new. refs' = [] @ new \<and> list_all2 (resolved_ref p es) (tsp_backends (pcr_spec p)) new)) \<and>
     length refs' + length missing' = length [] + length [] + length (tsp_backends (pcr_spec p)))"
  then have reads: "\<And>w x. Put w x \<notin> set es"
    and ok: "\<And>refs missing. r = Inr (refs, missing) \<Longrightarrow> (missing = [] \<longrightarrow> list_all2 (resolved_ref p es) (tsp_backends (pcr_spec p)) refs) \<and>
      length refs + length missing = length (tsp_backends (pcr_spec p))" by force+
  have all: "list_all2 (resolved_ref p es) (tsp_backends (pcr_spec p)) refs"
    if "r = Inr (refs, missing)" "\<not> (missing \<noteq> [] \<and> length (tsp_backends (pcr_spec p)) > 1)" "refs \<noteq> []" for refs missing
    using ok [OF that(1)] that(2,3) by (cases refs; cases missing) auto
  show "runs (case r of Inl e \<Rightarrow> ret (Some e)
     | Inr (refs, missing) \<Rightarrow>
         if missing \<noteq> [] \<and> length (tsp_backends (pcr_spec p)) > 1
         then ret (Some (''not all member services resolve yet (missing: '' @ join '', '' missing @
                ''); holding route to avoid shifting weights onto the resolvable subset''))
         else if refs = [] then ret None
         else step_then ''upsert httproute''
           (upsertHTTPRoute lib api ''MLTrafficPolicy'' (om_name (pcr_meta p)) (pcr_uid p) (tp_buildHTTPRoute p refs)) (ret None))
    (\<lambda>_ es'. \<forall>w x. Put w x \<in> set (es' @ es) \<longrightarrow> (\<exists>r. route_of w = Some r \<and> complete_route p (es' @ es) r))"
    by (intro runs_sum runs_prod runs_if runs_ret runs_mono [OF upsert_route_runs [OF all]]) (auto simp: reads)
qed

definition policy_status :: "PolicyCR \<Rightarrow> 'q wwrite \<Rightarrow> bool" where
  "policy_status p w \<longleftrightarrow> (\<exists>b. w = KStatus (WPolicy p) (WPolicy b) \<and> b = p\<lparr>pcr_status := pcr_status b\<rparr>)"

lemma tp_status_only:
  assumes "\<And>b. b = p\<lparr>pcr_status := pcr_status b\<rparr> \<Longrightarrow> pcs_phase (pcr_status b) = pup_phase upd \<Longrightarrow> P (KStatus (WPolicy p) (WPolicy b))"
  shows "only (writes_only P) (tp_writeStatus api p upd)"
  unfolding tp_writeStatus_def Let_def by (intro only_rules) (simp add: assms)

lemma policy_status_only: "only (writes_only (policy_status p)) (tp_writeStatus api p upd)"
  by (rule tp_status_only) (auto simp: policy_status_def)

lemma policy_failed_only: "only (writes_only (policy_status p)) (tp_writeFailedStatus api p m)"
  unfolding tp_writeFailedStatus_def by (rule policy_status_only)

definition tp_written :: "PolicyCR \<Rightarrow> 'q wevent list \<Rightarrow> bool" where
  "tp_written p es \<longleftrightarrow> (\<forall>w x. Put w x \<in> set es \<longrightarrow> policy_status p w \<or> (\<exists>r. route_of w = Some r \<and> complete_route p es r))"

lemma complete_route_mono: "complete_route p es r \<Longrightarrow> set es \<subseteq> set es' \<Longrightarrow> complete_route p es' r"
  unfolding complete_route_def by (rule resolved_all_mono)

lemma tp_written_append:
  "tp_written p es \<Longrightarrow> list_all (writes_only (policy_status p)) es' \<Longrightarrow> tp_written p (es' @ es)"
  unfolding tp_written_def by (fastforce simp: list_all_iff intro: complete_route_mono)

lemma status_then_written: "only (writes_only (policy_status p)) m \<Longrightarrow> tp_written p es \<Longrightarrow> runs m (\<lambda>_ es'. tp_written p (es' @ es))"
  unfolding only_def by (erule runs_mono) (rule tp_written_append)

lemma tp_written_Nil: "tp_written p []"
  by (simp add: tp_written_def)

lemma dispatch_tp_runs: "runs (dispatch_tp api (tp_handlers lib) p) (\<lambda>_ es. tp_written p es)"
proof -
  have failed: "runs (tp_writeFailedStatus api p m) (\<lambda>_ es. tp_written p es)" for m
    using status_then_written [OF policy_failed_only tp_written_Nil] by simp
  have native: "runs (httproute_Reconcile lib api p) (\<lambda>_ es. tp_written p es)"
    by (rule runs_mono [OF httproute_runs]) (unfold tp_written_def, blast)
  have handler: "runs (th_reconcile h api p) (\<lambda>_ es. tp_written p es)" if "map_of (tp_handlers lib) key = Some h" for h key
    using that native by (auto simp: tp_handlers_def nativehttproute_def tp_notImplemented_def tp_written_Nil split: if_splits intro!: runs_ret)
  have rest: "only (writes_only (policy_status p)) (case r of
      Some e \<Rightarrow> do { _ \<leftarrow> tp_writeFailedStatus api p (''reconcile error: '' @ e); ret (Some e) }
    | None \<Rightarrow> do { c \<leftarrow> tp_listChildren api p h; case c of Inl e \<Rightarrow> ret (Some e) | Inr children \<Rightarrow> tp_writeStatus api p (th_mapStatus h p children) })" for r h
    unfolding tp_listChildren_def by (intro only_rules policy_failed_only policy_status_only list_kinds_only) simp
  show ?thesis unfolding dispatch_tp_def Let_def
    by (intro runs_if runs_option failed runs_bind [OF handler] status_then_written [OF rest]) auto
qed

lemma tp_pass_split:
  assumes "run_state (tp_Reconcile api reg ns name) h = (res, es @ h)" "wa_getPolicy api h ns name = Inr p"
    "runs (dispatch_tp api reg p) Q"
  obtains es' where "es = es' @ [Got ns name (Inr (WPolicy p))]" "Q res es'"
    "run_state (dispatch_tp api reg p) (Got ns name (Inr (WPolicy p)) # h) = (res, es' @ Got ns name (Inr (WPolicy p)) # h)"
proof -
  from assms(3) have "runs ((\<lambda>r. case r of Inl e \<Rightarrow> ret (if isNotFound e then None else Some (kmsg e)) | Inr p \<Rightarrow> dispatch_tp api reg p) (Inr p)) Q"
    by simp
  with get_split [OF assms(1) [unfolded tp_Reconcile_def] assms(2) this] that show thesis by auto
qed

text \<open>
  C21. Weighted routing is all or nothing: every write of a pass on a policy is its status, or a route that has exactly one
  backend reference per member, in order, to that member's Service, with the member's weight and a port
  read from that Service in the same pass. So the weights of a route are the weights of the policy.
\<close>

theorem traffic_route_all_or_nothing:
  assumes "run_state (tp_Reconcile api (tp_handlers lib) ns name) h = (res, es @ h)" "wa_getPolicy api h ns name = Inr p" "Put w x \<in> set es"
  shows "policy_status p w \<or> (\<exists>r. route_of w = Some r \<and> complete_route p es r \<and>
    sum_list (map (\<lambda>b. the (brf_weight b)) (hrs_backendRefs (htr_spec r))) = sum_list (map bm_weight (tsp_backends (pcr_spec p))))"
proof -
  from tp_pass_split [OF assms(1,2) dispatch_tp_runs] obtain es' where es: "es = es' @ [Got ns name (Inr (WPolicy p))]" "tp_written p es'" by blast
  with assms(3) have "policy_status p w \<or> (\<exists>r. route_of w = Some r \<and> complete_route p es' r)" by (auto simp: tp_written_def)
  moreover have "complete_route p es r \<and>
      sum_list (map (\<lambda>b. the (brf_weight b)) (hrs_backendRefs (htr_spec r))) = sum_list (map bm_weight (tsp_backends (pcr_spec p)))"
    if "complete_route p es' r" for r
  proof
    from that show "complete_route p es r" by (rule complete_route_mono) (auto simp: es(1))
    have "map (\<lambda>b. the (brf_weight b)) refs = map bm_weight ms" if "list_all2 (resolved_ref p es') ms refs" for ms refs
      using that by (induction rule: list_all2_induct) (auto simp: resolved_ref_def)
    with that show "sum_list (map (\<lambda>b. the (brf_weight b)) (hrs_backendRefs (htr_spec r))) = sum_list (map bm_weight (tsp_backends (pcr_spec p)))"
      unfolding complete_route_def by metis
  qed
  ultimately show ?thesis by blast
qed

section \<open>A missing member\<close>

lemma runs_fst: "runs m (\<lambda>x _. P x) \<Longrightarrow> P (fst (run_state m h))"
  unfolding runs_def by (metis fst_conv)

definition unresolved :: "string + (BackendRef list \<times> string list) \<Rightarrow> bool" where
  "unresolved r \<longleftrightarrow> (case r of Inl _ \<Rightarrow> True | Inr (refs, missing) \<Rightarrow> missing \<noteq> [])"

lemma resolve_keeps: "unresolved (fst (run_state (resolve_members api p ms refs (missing @ [n])) h))"
proof (rule runs_fst)
  show "runs (resolve_members api p ms refs (missing @ [n])) (\<lambda>r _. unresolved r)"
    by (rule runs_mono [OF resolve_members_runs]) (auto simp: unresolved_def split: sum.splits)
qed

lemma resolve_missing:
  assumes "m \<in> set ms" "\<And>h. \<exists>t. wa_getService api h (pcr_namespace p) (member_service p m) = Inl (KNotFound t)"
  shows "unresolved (fst (run_state (resolve_members api p ms refs missing) h))"
  using assms(1)
proof (induction ms arbitrary: refs missing h)
  case (Cons m' ms)
  show ?case
  proof (cases "m' = m")
    case True
    obtain t where "wa_getService api h (pcr_namespace p) (member_service p m) = Inl (KNotFound t)" using assms(2) by blast
    with True show ?thesis by (simp add: resolveServicePort_def get_obj_def call_def resolve_keeps)
  next
    case False
    with Cons.prems have "m \<in> set ms" by simp
    then show ?thesis
      by (auto simp: resolveServicePort_def get_obj_def call_def resolve_keeps unresolved_def [of "Inl _"] split: sum.split option.split intro: Cons.IH)
  qed
qed simp

lemma httproute_missing:
  assumes "m \<in> set (tsp_backends (pcr_spec p))" "length (tsp_backends (pcr_spec p)) > 1"
    "\<And>h. \<exists>t. wa_getService api h (pcr_namespace p) (member_service p m) = Inl (KNotFound t)"
  shows "\<exists>e es. run_state (httproute_Reconcile lib api p) h = (Some e, es @ h) \<and> (\<forall>w x. Put w x \<notin> set es)"
proof -
  obtain r es where run: "run_state (resolve_members api p (tsp_backends (pcr_spec p)) [] []) h = (r, es @ h)"
    "\<forall>e\<in>set es. \<exists>ns nm x. e = Got ns nm x"
    using resolve_members_runs [of api p "tsp_backends (pcr_spec p)" "[]" "[]"] unfolding runs_def by blast
  with resolve_missing [OF assms(1,3), of "[]" "[]" h]
  have "unresolved r" by simp
  with run assms(2) show ?thesis unfolding httproute_Reconcile_def unresolved_def
    by (cases r) (auto split: prod.splits)
qed

text \<open>
  While the Service of a member does not exist, a pass on a valid policy leaves every route as it is and returns an
  error, and the only status it writes is \<open>Failed\<close>: the \<open>Pending\<close> status that waits for member services is not
  reported.
\<close>

theorem traffic_missing_member_failed:
  assumes "run_state (tp_Reconcile api (tp_handlers lib) ns name) h = (res, es @ h)" "wa_getPolicy api h ns name = Inr p"
    "sget (pcr_labels p) LabelTrafficPolicyID \<noteq> []" "tsp_backend (pcr_spec p) = \<lparr>be_name = ''native'', be_engine = ''httproute'', be_config = c\<rparr>"
    "val_errors (httproute_Validate (pcr_spec p)) = []" "m \<in> set (tsp_backends (pcr_spec p))"
    "\<And>h. \<exists>t. wa_getService api h (pcr_namespace p) (member_service p m) = Inl (KNotFound t)"
  shows "res \<noteq> None \<and> (\<forall>w x. Put w x \<in> set es \<longrightarrow>
    (\<exists>b. w = KStatus (WPolicy p) (WPolicy b) \<and> pcs_phase (pcr_status b) = PhaseFailed))"
proof -
  let ?h = "Got ns name (Inr (WPolicy p)) # h"
  from assms(5,6) have many: "length (tsp_backends (pcr_spec p)) > 1"
    by (auto simp: httproute_Validate_def mode_errors_def split: if_splits)
  from httproute_missing [OF assms(6) many assms(7)] obtain e es1 where
    hand: "run_state (httproute_Reconcile lib api p) ?h = (Some e, es1 @ ?h)" "\<forall>w x. Put w x \<notin> set es1" by blast
  have "only (writes_only (\<lambda>w. \<exists>b. w = KStatus (WPolicy p) (WPolicy b) \<and> pcs_phase (pcr_status b) = PhaseFailed)) (tp_writeFailedStatus api p (''reconcile error: '' @ e))"
    unfolding tp_writeFailedStatus_def by (rule tp_status_only) (auto simp: tp_failed_def)
  then obtain x es2 where st: "run_state (tp_writeFailedStatus api p (''reconcile error: '' @ e)) (es1 @ ?h) = (x, es2 @ es1 @ ?h)"
    "list_all (writes_only (\<lambda>w. \<exists>b. w = KStatus (WPolicy p) (WPolicy b) \<and> pcs_phase (pcr_status b) = PhaseFailed)) es2"
    unfolding only_def runs_def by blast
  from tp_pass_split [OF assms(1,2) dispatch_tp_runs] obtain es' where es: "es = es' @ [Got ns name (Inr (WPolicy p))]"
    "run_state (dispatch_tp api (tp_handlers lib) p) ?h = (res, es' @ ?h)" by blast
  have "run_state (dispatch_tp api (tp_handlers lib) p) ?h = (Some e, es2 @ es1 @ ?h)"
    using assms(3,4,5) hand(1) st(1) by (simp add: dispatch_tp_def Let_def tp_handlers_def nativehttproute_def)
  with es(2) have "res = Some e" "es' = es2 @ es1" by simp_all
  with es(1) hand(2) st(2) show ?thesis by (auto simp: list_all_iff)
qed

section \<open>An example\<close>

text \<open>A canary over two services, and a server with the given Services.\<close>

definition px_policy :: PolicyCR where
  "px_policy = \<lparr>pcr_meta = \<lparr>om_namespace = ''team-a'', om_name = ''front'', om_labels = [(LabelTrafficPolicyID, ''t-1''), (LabelTenant, ''team-a'')],
       om_annotations = [], om_owners = []\<rparr>, pcr_uid = ''uid-3'', pcr_generation = 1,
     pcr_spec = \<lparr>tsp_backend = \<lparr>be_name = ''native'', be_engine = ''httproute'', be_config = None\<rparr>, tsp_mode = TrafficModeCanary,
       tsp_endpoint = \<lparr>ep_path = [], ep_hostname = ''front.example.com'', ep_auth = None\<rparr>,
       tsp_backends = [\<lparr>bm_serviceName = ''old'', bm_role = RoleStable, bm_weight = 95\<rparr>, \<lparr>bm_serviceName = ''new'', bm_role = RoleCanary, bm_weight = 5\<rparr>]\<rparr>,
     pcr_status = \<lparr>pcs_observedGeneration = 0, pcs_phase = [], pcs_message = [], pcs_endpoint = [], pcs_backends = [], pcs_conditions = []\<rparr>\<rparr>"

definition px_service :: KService where
  "px_service = \<lparr>ksv_meta = \<lparr>om_namespace = ''team-a'', om_name = [], om_labels = [], om_annotations = [], om_owners = []\<rparr>,
     ksv_spec = \<lparr>kss_type = ''ClusterIP'', kss_clusterIP = [], kss_clusterIPs = [], kss_selector = [],
       kss_ports = [\<lparr>svp_name = ''http'', svp_port = 8080, svp_targetPort = 8080, svp_protocol = ''TCP''\<rparr>], kss_rest = []\<rparr>\<rparr>"

definition px_api :: "string list \<Rightarrow> int wapi" where
  "px_api names = (ox_api (ox_run [] [] False []) no_job (\<lambda>_. False))\<lparr>wa_getPolicy := (\<lambda>_ _ _. Inr px_policy),
     wa_getService := (\<lambda>_ _ nm. if nm \<in> set names then Inr px_service else Inl (KNotFound ''no''))\<rparr>"

definition px_pass :: "string list \<Rightarrow> string option \<times> int wevent list" where
  "px_pass names = run_state (tp_Reconcile (px_api names) (tp_handlers ox_lib) ''team-a'' ''front'') []"

lemma px_runs: "run_state (tp_Reconcile (px_api names) (tp_handlers ox_lib) ''team-a'' ''front'') [] = (fst (px_pass names), snd (px_pass names) @ [])"
  by (simp add: px_pass_def)

lemma px_get: "wa_getPolicy (px_api names) h ns nm = Inr px_policy"
  by (simp add: px_api_def)

definition px_write :: "int wwrite" where
  "px_write = (case snd (px_pass [''old'', ''new'']) of _ # _ # Put w r # _ \<Rightarrow> w)"

theorem traffic_route_all_or_nothing_witness:
  "\<exists>r. route_of px_write = Some r \<and> sum_list (map (\<lambda>b. the (brf_weight b)) (hrs_backendRefs (htr_spec r))) = 100"
proof -
  have put: "Put px_write None \<in> set (snd (px_pass [''old'', ''new'']))" by code_simp
  have "\<not> policy_status px_policy px_write"
  proof
    assume "policy_status px_policy px_write"
    then obtain b where "px_write = KStatus (WPolicy px_policy) (WPolicy b)" unfolding policy_status_def by blast
    from arg_cong [OF this, of route_of] have "route_of px_write = None" unfolding route_of.simps .
    moreover have "route_of px_write \<noteq> None" by code_simp
    ultimately show False by simp
  qed
  with traffic_route_all_or_nothing [OF px_runs px_get put] show ?thesis by (auto simp: px_policy_def)
qed

theorem traffic_missing_member_failed_witness:
  "\<exists>b. Put (KStatus (WPolicy px_policy) (WPolicy b)) None \<in> set (snd (px_pass [''old''])) \<and> pcs_phase (pcr_status b) = PhaseFailed"
proof -
  define w where "w = (case snd (px_pass [''old'']) of Put w r # _ \<Rightarrow> w)"
  have put: "Put w None \<in> set (snd (px_pass [''old'']))" unfolding w_def by code_simp
  let ?m = "\<lparr>bm_serviceName = ''new'', bm_role = RoleCanary, bm_weight = 5\<rparr>"
  have hyps: "sget (pcr_labels px_policy) LabelTrafficPolicyID \<noteq> []" "val_errors (httproute_Validate (pcr_spec px_policy)) = []"
    "tsp_backend (pcr_spec px_policy) = \<lparr>be_name = ''native'', be_engine = ''httproute'', be_config = None\<rparr>" "?m \<in> set (tsp_backends (pcr_spec px_policy))"
    "member_service px_policy ?m \<noteq> ''old''" by code_simp+
  have "\<exists>t. wa_getService (px_api [''old'']) h (pcr_namespace px_policy) (member_service px_policy ?m) = Inl (KNotFound t)" for h
    using hyps(5) by (simp add: px_api_def)
  from traffic_missing_member_failed [OF px_runs px_get hyps(1,3,2,4) this] put show ?thesis by blast
qed

end
