(* ===== verification/KubeRuntime.thy ===== *)
theory KubeRuntime
  imports ServiceOperator
begin

text \<open>
  The Kubernetes implementation of the runtime contract (\<^verbatim>\<open>compute-service/internal/kuberuntime/runtime.go\<close>):
  the mapping of logical tenant and name to a physical namespace and name, apply, observe, cancel and
  delete of the three resources, and the instance and event lookups. It writes the resources the
  compute operator reads.

  Parameters: the API client, the namespace resolver, semantic equality of specs, pods, events and logs.
  Reads of pods and events leave no trace in the history.
\<close>

section \<open>Environment\<close>

record PodObj =
  pod_name :: string
  pod_labels :: "(string, string) gomap"

record EventObj =
  evt_kind :: string
  evt_name :: string
  evt_note :: string

record 'q kenv =
  ke_api :: "'q wapi"
  ke_resolve :: "'q wevent list \<Rightarrow> string \<Rightarrow> kerr + string"
  ke_tenantPrefix :: bool
  ke_equalSpec :: "'q MLServiceSpec \<Rightarrow> 'q MLServiceSpec \<Rightarrow> bool"
  ke_getPod :: "'q wevent list \<Rightarrow> string \<Rightarrow> string \<Rightarrow> kerr + PodObj"
  ke_listPods :: "'q wevent list \<Rightarrow> string \<Rightarrow> (string, string) gomap \<Rightarrow> kerr + PodObj list"
  ke_listEvents :: "'q wevent list \<Rightarrow> string \<Rightarrow> kerr + EventObj list"
  ke_logs :: "'q wevent list \<Rightarrow> string \<Rightarrow> string \<Rightarrow> kerr + string"

definition peek :: "('e list \<Rightarrow> 'a) \<Rightarrow> ('e, 'a) io" where
  "peek f = State (\<lambda>h. (f h, h))"

text \<open>\<open>fmt.Errorf("...%w", err)\<close> keeps what \<open>apierrors\<close> says of the error.\<close>

fun kwrap :: "string \<Rightarrow> kerr \<Rightarrow> kerr" where
  "kwrap pre (KNotFound m) = KNotFound (pre @ m)"
| "kwrap pre (KAlreadyExists m) = KAlreadyExists (pre @ m)"
| "kwrap pre (KOther m) = KOther (pre @ m)"

text \<open>An error of an instance lookup: one of the client, or \<open>ErrInstanceNotOwned\<close>.\<close>

datatype instance_error = ClientError kerr | InstanceNotOwned string

section \<open>Physical keys\<close>

type_synonym kkey = "string \<times> string"

definition physicalKey :: "'q kenv \<Rightarrow> kkey \<Rightarrow> ('q, kerr + kkey) wprog" where
  "physicalKey env logical = do {
     r \<leftarrow> peek (\<lambda>h. ke_resolve env h (fst logical));
     let pre = ''resolve tenant '' @ go_quote (fst logical) @ '' namespace: '';
     ret (case r of
            Inl e \<Rightarrow> Inl (kwrap pre e)
          | Inr ns \<Rightarrow> if ns = [] then Inl (KOther (pre @ ''empty namespace''))
              else Inr (ns, Base (fst logical) (snd logical) (ke_tenantPrefix env)))
   }"

text \<open>The metadata of the physical object: a copy with the naming annotations and the physical key.\<close>

definition physical_meta :: "'q kenv \<Rightarrow> 's cr \<Rightarrow> kkey \<Rightarrow> objmeta" where
  "physical_meta env cr key =
     \<lparr>om_namespace = fst key, om_name = snd key, om_labels = cr_labels cr,
      om_annotations = Annotate (cr_annotations cr) (cr_namespace cr) (cr_name cr) (ke_tenantPrefix env), om_owners = []\<rparr>"

definition physicalMLRun :: "'q kenv \<Rightarrow> 'q MLRunSpec cr \<Rightarrow> kkey \<Rightarrow> 'q RunCR" where
  "physicalMLRun env cr key =
     \<lparr>rcr_meta = physical_meta env cr key, rcr_uid = [], rcr_generation = 0, rcr_spec = cr_spec cr,
      rcr_status = \<lparr>rcs_observedGeneration = 0, rcs_phase = [], rcs_message = [], rcs_startedAt = None, rcs_finishedAt = None,
        rcs_conditions = [], rcs_roles = []\<rparr>\<rparr>"

definition physicalMLService :: "'q kenv \<Rightarrow> 'q MLServiceSpec cr \<Rightarrow> kkey \<Rightarrow> 'q SvcCR" where
  "physicalMLService env cr key =
     \<lparr>scr_meta = physical_meta env cr key, scr_uid = [], scr_generation = 0, scr_spec = cr_spec cr,
      scr_status = \<lparr>scs_observedGeneration = 0, scs_phase = [], scs_message = [], scs_endpoint = [], scs_readyReplicas = 0, scs_selector = [],
        scs_conditions = [], scs_roles = []\<rparr>\<rparr>"

definition physicalMLTrafficPolicy :: "'q kenv \<Rightarrow> TrafficSpec cr \<Rightarrow> kkey \<Rightarrow> PolicyCR" where
  "physicalMLTrafficPolicy env cr key =
     \<lparr>pcr_meta = physical_meta env cr key, pcr_uid = [], pcr_generation = 0, pcr_spec = cr_spec cr,
      pcr_status = \<lparr>pcs_observedGeneration = 0, pcs_phase = [], pcs_message = [], pcs_endpoint = [], pcs_backends = [], pcs_conditions = []\<rparr>\<rparr>"

text \<open>A step after the key: \<open>key, err := r.physicalKey(ctx, key); if err != nil { return err }\<close>.\<close>

definition with_key :: "'q kenv \<Rightarrow> kkey \<Rightarrow> (kerr \<Rightarrow> 'a) \<Rightarrow> (kkey \<Rightarrow> ('q, 'a) wprog) \<Rightarrow> ('q, 'a) wprog" where
  "with_key env logical fail body = do {
     k \<leftarrow> physicalKey env logical;
     case k of Inl e \<Rightarrow> ret (fail e) | Inr key \<Rightarrow> body key
   }"

definition ignoreNotFound :: "kerr option \<Rightarrow> kerr option" where
  "ignoreNotFound r = (case r of None \<Rightarrow> None | Some e \<Rightarrow> if isNotFound e then None else Some e)"

definition labelsMerged :: "(string, string) gomap \<Rightarrow> (string, string) gomap \<Rightarrow> bool" where
  "labelsMerged cur desired \<longleftrightarrow> list_all (\<lambda>(k, v). sget cur k = v) desired"

text \<open>\<open>mergeLabels\<close> on the labels of an object.\<close>

definition kr_mergeLabels :: "(string, string) gomap \<Rightarrow> (string, string) gomap \<Rightarrow> (string, string) gomap" where
  "kr_mergeLabels dst src = (if src = [] then dst else set_all dst src)"

section \<open>Runs\<close>

abbreviation cr_key :: "'s cr \<Rightarrow> kkey" where
  "cr_key cr \<equiv> (cr_namespace cr, cr_name cr)"

definition ApplyMLRun :: "'q kenv \<Rightarrow> 'q MLRunSpec cr \<Rightarrow> ('q, kerr option) wprog" where
  "ApplyMLRun env cr = with_key env (cr_key cr) Some (\<lambda>key. do {
     g \<leftarrow> get_obj WRun (wa_getRun (ke_api env)) (fst key) (snd key);
     case g of
       Inl e \<Rightarrow> if isNotFound e then put (ke_api env) (KCreate (WRun (physicalMLRun env cr key))) else ret (Some e)
     | Inr _ \<Rightarrow> ret None
   })"

definition ObserveMLRun :: "'q kenv \<Rightarrow> kkey \<Rightarrow> ('q, kerr + RunCRStatus) wprog" where
  "ObserveMLRun env logical = with_key env logical Inl (\<lambda>key. do {
     g \<leftarrow> get_obj WRun (wa_getRun (ke_api env)) (fst key) (snd key);
     ret (map_sum id rcr_status g)
   })"

definition CancelMLRun :: "'q kenv \<Rightarrow> kkey \<Rightarrow> ('q, kerr option) wprog" where
  "CancelMLRun env logical = with_key env logical Some (\<lambda>key. do {
     p \<leftarrow> put (ke_api env) (KSuspend (fst key) (snd key));
     ret (ignoreNotFound p)
   })"

definition DeleteMLRun :: "'q kenv \<Rightarrow> kkey \<Rightarrow> ('q, kerr option) wprog" where
  "DeleteMLRun env logical = with_key env logical Some (\<lambda>key. do {
     d \<leftarrow> put (ke_api env) (KDeleteKey MLRunKind (fst key) (snd key));
     ret (ignoreNotFound d)
   })"

text \<open>\<open>runLabelID\<close>: the id label and the physical key.\<close>

definition runLabelID :: "'q kenv \<Rightarrow> kkey \<Rightarrow> ('q, kerr + string \<times> kkey) wprog" where
  "runLabelID env logical = with_key env logical Inl (\<lambda>key. do {
     g \<leftarrow> get_obj WRun (wa_getRun (ke_api env)) (fst key) (snd key);
     ret (case g of Inl e \<Rightarrow> Inl e
          | Inr run \<Rightarrow> if sget (rcr_labels run) LabelRunID = []
              then Inl (KOther (''mlrun '' @ fst logical @ ''/'' @ snd logical @ '' missing '' @ LabelRunID @ '' label''))
              else Inr (sget (rcr_labels run) LabelRunID, key))
   })"

definition listPodsByLabel :: "'q kenv \<Rightarrow> string \<Rightarrow> string \<Rightarrow> string \<Rightarrow> ('q, kerr + PodObj list) wprog" where
  "listPodsByLabel env ns labelKey labelValue = peek (\<lambda>h. ke_listPods env h ns [(labelKey, labelValue)])"

definition ListMLRunInstances :: "'q kenv \<Rightarrow> kkey \<Rightarrow> ('q, kerr + PodObj list) wprog" where
  "ListMLRunInstances env logical = do {
     r \<leftarrow> runLabelID env logical;
     case r of
       Inl e \<Rightarrow> ret (if isNotFound e then Inr [] else Inl e)
     | Inr (rid, key) \<Rightarrow> listPodsByLabel env (fst key) LabelRunID rid
   }"

definition verifyInstance :: "'q kenv \<Rightarrow> string \<Rightarrow> string \<Rightarrow> string \<Rightarrow> string \<Rightarrow> ('q, instance_error option) wprog" where
  "verifyInstance env ns inst labelKey labelValue = do {
     g \<leftarrow> peek (\<lambda>h. ke_getPod env h ns inst);
     ret (case g of Inl e \<Rightarrow> Some (ClientError e)
          | Inr p \<Rightarrow> if sget (pod_labels p) labelKey \<noteq> labelValue then Some (InstanceNotOwned (ns @ ''/'' @ inst)) else None)
   }"

type_synonym targets = "(string \<times> string) list"

definition eventsFor :: "'q kenv \<Rightarrow> string \<Rightarrow> targets \<Rightarrow> ('q, kerr + EventObj list) wprog" where
  "eventsFor env ns targets = do {
     r \<leftarrow> peek (\<lambda>h. ke_listEvents env h ns);
     ret (map_sum id (filter (\<lambda>e. list_ex (\<lambda>(kind, name). evt_kind e = kind \<and> evt_name e = name) targets)) r)
   }"

text \<open>An instance lookup: the id of the workload, the check of the instance, then the lookup itself.\<close>

definition on_instance ::
  "'q kenv \<Rightarrow> ('q, kerr + string \<times> kkey) wprog \<Rightarrow> string \<Rightarrow> string \<Rightarrow> (string \<Rightarrow> ('q, kerr + 'a) wprog) \<Rightarrow>
   ('q, instance_error + 'a) wprog" where
  "on_instance env labelID labelKey inst look = do {
     r \<leftarrow> labelID;
     case r of
       Inl e \<Rightarrow> ret (Inl (ClientError e))
     | Inr (wid, key) \<Rightarrow> do {
         v \<leftarrow> verifyInstance env (fst key) inst labelKey wid;
         case v of Some e \<Rightarrow> ret (Inl e)
         | None \<Rightarrow> do { x \<leftarrow> look (fst key); ret (map_sum ClientError id x) }
       }
   }"

definition GetMLRunInstanceLogs :: "'q kenv \<Rightarrow> kkey \<Rightarrow> string \<Rightarrow> ('q, instance_error + string) wprog" where
  "GetMLRunInstanceLogs env key inst = on_instance env (runLabelID env key) LabelRunID inst (\<lambda>ns. peek (\<lambda>h. ke_logs env h ns inst))"

definition GetMLRunInstanceEvents :: "'q kenv \<Rightarrow> kkey \<Rightarrow> string \<Rightarrow> ('q, instance_error + EventObj list) wprog" where
  "GetMLRunInstanceEvents env key inst = on_instance env (runLabelID env key) LabelRunID inst (\<lambda>ns. eventsFor env ns [(''Pod'', inst)])"

definition first_role :: "string \<Rightarrow> 'q RoleSpec list \<Rightarrow> string" where
  "first_role dflt roles = (case roles of r # _ \<Rightarrow> if role_name r \<noteq> [] then role_name r else dflt | [] \<Rightarrow> dflt)"

definition GetMLRunEvents :: "'q kenv \<Rightarrow> kkey \<Rightarrow> ('q, kerr + EventObj list) wprog" where
  "GetMLRunEvents env logical = with_key env logical Inl (\<lambda>key. do {
     g \<leftarrow> get_obj WRun (wa_getRun (ke_api env)) (fst key) (snd key);
     let named = (\<lambda>m roles. eventsFor env (fst key) [(''MLRun'', snd key), (''Job'', Role m (first_role RunRoleName roles)), (''PodGroup'', snd key)]);
     case g of
       Inl e \<Rightarrow> if isNotFound e then named \<lparr>meta_name = snd key, meta_annotations = []\<rparr> [] else ret (Inl e)
     | Inr run \<Rightarrow> named (name_meta (rcr_meta run)) (rs_roles (rcr_spec run))
   })"

section \<open>Services\<close>

definition ApplyMLService :: "'q kenv \<Rightarrow> 'q MLServiceSpec cr \<Rightarrow> ('q, kerr option) wprog" where
  "ApplyMLService env cr = with_key env (cr_key cr) Some (\<lambda>key.
     let desired = physicalMLService env cr key in do {
       g \<leftarrow> get_obj WSvc (wa_getSvc (ke_api env)) (fst key) (snd key);
       case g of
         Inl e \<Rightarrow> if isNotFound e then put (ke_api env) (KCreate (WSvc desired)) else ret (Some e)
       | Inr cur \<Rightarrow>
           if ke_equalSpec env (scr_spec cur) (scr_spec desired) \<and> labelsMerged (scr_labels cur) (scr_labels desired) then ret None
           else put (ke_api env) (KUpdate (WSvc cur) (WSvc (cur\<lparr>scr_spec := scr_spec desired,
                  scr_meta := (scr_meta cur)\<lparr>om_labels := kr_mergeLabels (scr_labels cur) (scr_labels desired)\<rparr>\<rparr>)))
     })"

definition ObserveMLService :: "'q kenv \<Rightarrow> kkey \<Rightarrow> ('q, kerr + SvcCRStatus) wprog" where
  "ObserveMLService env logical = with_key env logical Inl (\<lambda>key. do {
     g \<leftarrow> get_obj WSvc (wa_getSvc (ke_api env)) (fst key) (snd key);
     ret (map_sum id scr_status g)
   })"

definition DeleteMLService :: "'q kenv \<Rightarrow> kkey \<Rightarrow> ('q, kerr option) wprog" where
  "DeleteMLService env logical = with_key env logical Some (\<lambda>key. do {
     d \<leftarrow> put (ke_api env) (KDeleteKey MLServiceKind (fst key) (snd key));
     ret (ignoreNotFound d)
   })"

definition serviceLabelID :: "'q kenv \<Rightarrow> kkey \<Rightarrow> ('q, kerr + string \<times> kkey) wprog" where
  "serviceLabelID env logical = with_key env logical Inl (\<lambda>key. do {
     g \<leftarrow> get_obj WSvc (wa_getSvc (ke_api env)) (fst key) (snd key);
     ret (case g of Inl e \<Rightarrow> Inl e
          | Inr svc \<Rightarrow> if sget (scr_labels svc) LabelServiceID = []
              then Inl (KOther (''mlservice '' @ fst logical @ ''/'' @ snd logical @ '' missing '' @ LabelServiceID @ '' label''))
              else Inr (sget (scr_labels svc) LabelServiceID, key))
   })"

definition ListMLServiceInstances :: "'q kenv \<Rightarrow> kkey \<Rightarrow> ('q, kerr + PodObj list) wprog" where
  "ListMLServiceInstances env logical = do {
     r \<leftarrow> serviceLabelID env logical;
     case r of
       Inl e \<Rightarrow> ret (if isNotFound e then Inr [] else Inl e)
     | Inr (sid, key) \<Rightarrow> listPodsByLabel env (fst key) LabelServiceID sid
   }"

definition GetMLServiceInstanceLogs :: "'q kenv \<Rightarrow> kkey \<Rightarrow> string \<Rightarrow> ('q, instance_error + string) wprog" where
  "GetMLServiceInstanceLogs env key inst =
     on_instance env (serviceLabelID env key) LabelServiceID inst (\<lambda>ns. peek (\<lambda>h. ke_logs env h ns inst))"

definition GetMLServiceInstanceEvents :: "'q kenv \<Rightarrow> kkey \<Rightarrow> string \<Rightarrow> ('q, instance_error + EventObj list) wprog" where
  "GetMLServiceInstanceEvents env key inst =
     on_instance env (serviceLabelID env key) LabelServiceID inst (\<lambda>ns. eventsFor env ns [(''Pod'', inst)])"

definition GetMLServiceEvents :: "'q kenv \<Rightarrow> kkey \<Rightarrow> ('q, kerr + EventObj list) wprog" where
  "GetMLServiceEvents env logical = with_key env logical Inl (\<lambda>key. do {
     g \<leftarrow> get_obj WSvc (wa_getSvc (ke_api env)) (fst key) (snd key);
     let named = (\<lambda>m roles. let r = Role m (first_role SvcRoleName roles) in
       eventsFor env (fst key) [(''MLService'', snd key), (''Deployment'', r), (''StatefulSet'', r), (''Service'', Workload m), (''HTTPRoute'', Workload m)]);
     case g of
       Inl e \<Rightarrow> if isNotFound e then named \<lparr>meta_name = snd key, meta_annotations = []\<rparr> [] else ret (Inl e)
     | Inr svc \<Rightarrow> named (name_meta (scr_meta svc)) (ss_roles (scr_spec svc))
   })"

section \<open>Traffic policies\<close>

definition ApplyMLTrafficPolicy :: "'q kenv \<Rightarrow> TrafficSpec cr \<Rightarrow> ('q, kerr option) wprog" where
  "ApplyMLTrafficPolicy env cr = with_key env (cr_key cr) Some (\<lambda>key.
     let desired = physicalMLTrafficPolicy env cr key in do {
       g \<leftarrow> get_obj WPolicy (wa_getPolicy (ke_api env)) (fst key) (snd key);
       case g of
         Inl e \<Rightarrow> if isNotFound e then put (ke_api env) (KCreate (WPolicy desired)) else ret (Some e)
       | Inr cur \<Rightarrow> put (ke_api env) (KUpdate (WPolicy cur) (WPolicy (cur\<lparr>pcr_spec := pcr_spec desired,
           pcr_meta := (pcr_meta cur)\<lparr>om_labels := kr_mergeLabels (om_labels (pcr_meta cur)) (om_labels (pcr_meta desired))\<rparr>\<rparr>)))
     })"

definition ObserveMLTrafficPolicy :: "'q kenv \<Rightarrow> kkey \<Rightarrow> ('q, kerr + PolicyCRStatus) wprog" where
  "ObserveMLTrafficPolicy env logical = with_key env logical Inl (\<lambda>key. do {
     g \<leftarrow> get_obj WPolicy (wa_getPolicy (ke_api env)) (fst key) (snd key);
     ret (map_sum id pcr_status g)
   })"

definition DeleteMLTrafficPolicy :: "'q kenv \<Rightarrow> kkey \<Rightarrow> ('q, kerr option) wprog" where
  "DeleteMLTrafficPolicy env logical = with_key env logical Some (\<lambda>key. do {
     d \<leftarrow> put (ke_api env) (KDeleteKey MLTrafficPolicyKind (fst key) (snd key));
     ret (ignoreNotFound d)
   })"

definition GetMLTrafficPolicyEvents :: "'q kenv \<Rightarrow> kkey \<Rightarrow> ('q, kerr + EventObj list) wprog" where
  "GetMLTrafficPolicyEvents env logical = with_key env logical Inl (\<lambda>key. do {
     g \<leftarrow> get_obj WPolicy (wa_getPolicy (ke_api env)) (fst key) (snd key);
     let named = (\<lambda>m. eventsFor env (fst key) [(''MLTrafficPolicy'', snd key), (''HTTPRoute'', Workload m)]);
     case g of
       Inl e \<Rightarrow> if isNotFound e then named \<lparr>meta_name = snd key, meta_annotations = []\<rparr> else ret (Inl e)
     | Inr p \<Rightarrow> named (name_meta (pcr_meta p))
   })"

end
