(* ===== verification/KubeRuntimeProps.thy ===== *)
theory KubeRuntimeProps
  imports KubeRuntime TrafficOperator RunOperatorProps
begin

text \<open>
  The Kubernetes runtime as the compute service uses it: it is an implementation of the runtime
  contract, instance lookups stay within the workload, and the names it gives are the ones the operator
  resolves. Without the tenant prefix, tenants that share a namespace share their workloads.
\<close>

section \<open>The runtime contract\<close>

text \<open>Errors as the compute service sees them: none is terminal or a lack of resources.\<close>

definition kube_error :: "kerr \<Rightarrow> rt_error" where
  "kube_error e = \<lparr>rte_message = kmsg e, rte_notFound = isNotFound e, rte_terminal = False, rte_unavailable = False\<rparr>"

text \<open>The runtime of the run reconciler, on the history of API calls.\<close>

definition kube_runs :: "'q kenv \<Rightarrow> ('q MLRunSpec, run_observed, 'q wevent list) runtime" where
  "kube_runs env = \<lparr>
     rt_apply = (\<lambda>cr h. map_prod (map_option kube_error) id (run_state (ApplyMLRun env cr) h)),
     rt_observe = (\<lambda>key h. map_sum kube_error observe_status (fst (run_state (ObserveMLRun env key) h))),
     rt_cancel = (\<lambda>key h. map_prod (map_option kube_error) id (run_state (CancelMLRun env key) h)),
     rt_delete = (\<lambda>key h. map_prod (map_option kube_error) id (run_state (DeleteMLRun env key) h)),
     rt_instances = (\<lambda>key h. map_sum kube_error (map pod_name) (fst (run_state (ListMLRunInstances env key) h)))\<rparr>"

section \<open>Keys\<close>

lemma run_peek [simp]: "run_state (peek f) h = (f h, h)"
  by (simp add: peek_def)

lemma run_physicalKey: "run_state (physicalKey env logical) h = (case ke_resolve env h (fst logical) of
     Inl e \<Rightarrow> Inl (kwrap (''resolve tenant '' @ go_quote (fst logical) @ '' namespace: '') e)
   | Inr ns \<Rightarrow> if ns = [] then Inl (KOther (''resolve tenant '' @ go_quote (fst logical) @ '' namespace: empty namespace''))
       else Inr (ns, Base (fst logical) (snd logical) (ke_tenantPrefix env)), h)"
  by (simp add: physicalKey_def Let_def split: sum.split)

lemma run_with_key:
  "run_state (with_key env logical fail body) h = (case fst (run_state (physicalKey env logical) h) of
     Inl e \<Rightarrow> (fail e, h) | Inr key \<Rightarrow> run_state (body key) h)"
  by (simp add: with_key_def run_physicalKey split: sum.split)

text \<open>Two logical keys with the same physical key are one workload for the runtime.\<close>

lemma same_key_same_run:
  assumes "fst (run_state (physicalKey env a) h) = Inr key" "fst (run_state (physicalKey env b) h) = Inr key"
  shows "run_state (ObserveMLRun env a) h = run_state (ObserveMLRun env b) h" "run_state (DeleteMLRun env a) h = run_state (DeleteMLRun env b) h"
    "run_state (CancelMLRun env a) h = run_state (CancelMLRun env b) h"
  using assms by (simp_all add: ObserveMLRun_def DeleteMLRun_def CancelMLRun_def run_with_key)

lemma unprefixed_key: "Base a name False = Base b name False"
  by (simp add: Base_def)

text \<open>
  With the default naming (no tenant prefix), tenants that resolve to one namespace share their runs: applying the run of
  one tenant succeeds without writing when a run of the other has the same name, it then observes the other's status, and
  cancelling or deleting it cancels or deletes the other's run.
\<close>

theorem kube_tenants_collide:
  assumes "\<not> ke_tenantPrefix env" "\<And>h. ke_resolve env h ta = Inr ns" "\<And>h. ke_resolve env h (cr_namespace cr) = Inr ns" "ns \<noteq> []"
    "wa_getRun (ke_api env) h ns (Base ta (cr_name cr) False) = Inr other"
  shows "run_state (ApplyMLRun env cr) h = (None, Got ns (Base ta (cr_name cr) False) (Inr (WRun other)) # h) \<and>
    run_state (ObserveMLRun env (cr_key cr)) h = run_state (ObserveMLRun env (ta, cr_name cr)) h \<and>
    run_state (CancelMLRun env (cr_key cr)) h = run_state (CancelMLRun env (ta, cr_name cr)) h \<and>
    run_state (DeleteMLRun env (cr_key cr)) h = run_state (DeleteMLRun env (ta, cr_name cr)) h"
proof -
  have keys: "fst (run_state (physicalKey env (cr_key cr)) h') = Inr (ns, Base ta (cr_name cr) False)"
    "fst (run_state (physicalKey env (ta, cr_name cr)) h') = Inr (ns, Base ta (cr_name cr) False)" for h'
    using assms(1-4) by (simp_all add: run_physicalKey unprefixed_key [of "cr_namespace cr" _ ta])
  have "run_state (ApplyMLRun env cr) h = (None, Got ns (Base ta (cr_name cr) False) (Inr (WRun other)) # h)"
    using assms(5) by (simp add: ApplyMLRun_def run_with_key keys get_obj_def call_def)
  with same_key_same_run [OF keys] show ?thesis by simp
qed

section \<open>Instances\<close>

lemma on_instance_owned:
  assumes "run_state (on_instance env labelID labelKey inst look) h = (Inr x, h')"
  shows "\<exists>wid key h1 pod. run_state labelID h = (Inr (wid, key), h1) \<and> ke_getPod env h1 (fst key) inst = Inr pod \<and> sget (pod_labels pod) labelKey = wid"
proof -
  obtain r h1 where id: "run_state labelID h = (r, h1)" by fastforce
  with assms obtain wid key where r: "r = Inr (wid, key)" by (cases r) (auto simp: on_instance_def)
  with assms id have "fst (run_state (verifyInstance env (fst key) inst labelKey wid) h1) = None"
    by (auto simp: on_instance_def verifyInstance_def split: sum.splits if_splits)
  then show ?thesis using id r by (auto simp: verifyInstance_def split: sum.splits if_splits)
qed

lemma runLabelID_run:
  assumes "run_state (runLabelID env key) h = (Inr (rid, k), h1)"
  shows "rid \<noteq> [] \<and> (\<exists>run. wa_getRun (ke_api env) h (fst k) (snd k) = Inr run \<and> sget (rcr_labels run) LabelRunID = rid) \<and>
    fst (run_state (physicalKey env key) h) = Inr k"
  using assms by (auto simp: runLabelID_def run_with_key get_obj_def call_def split: sum.splits if_splits)

text \<open>
  Logs are returned for instances of the addressed run only: a successful lookup found the run under its physical key,
  and the named pod in that namespace with the run's id, which is not empty, as its label.
\<close>

theorem kube_logs_own_instances:
  assumes "run_state (GetMLRunInstanceLogs env key inst) h = (Inr txt, h')"
  shows "\<exists>ns name run pod h1. fst (run_state (physicalKey env key) h) = Inr (ns, name) \<and> wa_getRun (ke_api env) h ns name = Inr run \<and>
    ke_getPod env h1 ns inst = Inr pod \<and> sget (pod_labels pod) LabelRunID = sget (rcr_labels run) LabelRunID \<and> sget (rcr_labels run) LabelRunID \<noteq> []"
proof -
  from on_instance_owned [OF assms [unfolded GetMLRunInstanceLogs_def]] obtain wid k h1 pod where
    "run_state (runLabelID env key) h = (Inr (wid, k), h1)" "ke_getPod env h1 (fst k) inst = Inr pod" "sget (pod_labels pod) LabelRunID = wid" by blast
  with runLabelID_run [OF this(1)] show ?thesis by (metis prod.collapse)
qed

section \<open>Applying a service\<close>

text \<open>A service that has what was applied is left alone.\<close>

lemma ApplyMLService_quiet:
  assumes "fst (run_state (physicalKey env (cr_key cr)) h) = Inr key" "wa_getSvc (ke_api env) h (fst key) (snd key) = Inr cur"
    "ke_equalSpec env (scr_spec cur) (cr_spec cr)" "labelsMerged (scr_labels cur) (cr_labels cr)"
  shows "run_state (ApplyMLService env cr) h = (None, Got (fst key) (snd key) (Inr (WSvc cur)) # h)"
  using assms by (simp add: ApplyMLService_def run_with_key get_obj_def call_def physicalMLService_def physical_meta_def Let_def)

text \<open>A policy is updated by every apply, also when it has what was applied.\<close>

lemma ApplyMLTrafficPolicy_updates:
  assumes "fst (run_state (physicalKey env (cr_key cr)) h) = Inr key" "wa_getPolicy (ke_api env) h (fst key) (snd key) = Inr cur"
  shows "\<exists>b r. run_state (ApplyMLTrafficPolicy env cr) h = (r, Put (KUpdate (WPolicy cur) (WPolicy b)) r # Got (fst key) (snd key) (Inr (WPolicy cur)) # h)"
  using assms by (simp add: ApplyMLTrafficPolicy_def run_with_key get_obj_def put_def call_def Let_def)

section \<open>Names across components\<close>

lemma sget_Annotate:
  "sget (Annotate ann tenant name prefix) AnnotationName = Base tenant name prefix"
  "sget (Annotate ann tenant name prefix) AnnotationTenantPrefix = (if prefix then ''true'' else ''false'')"
  by (simp_all add: Annotate_def sget_def)

lemma Base_nonempty: "Base tenant name prefix \<noteq> []"
  using dnsName_label [of 63] by (auto simp: Base_def dns_label_def)

section \<open>An example\<close>

definition kx_run :: "int RunCR" where
  "kx_run = ox_run ''axisml-team-a-gpu'' [] False PhaseRunning"

definition kx_env :: "int kenv" where
  "kx_env = \<lparr>ke_api = ox_api kx_run no_job (\<lambda>_. False), ke_resolve = (\<lambda>_ _. Inr ''shared''), ke_tenantPrefix = False, ke_equalSpec = (=),
     ke_getPod = (\<lambda>_ _ nm. Inr \<lparr>pod_name = nm, pod_labels = [(LabelRunID, ''id-1'')]\<rparr>), ke_listPods = (\<lambda>_ _ _. Inr []), ke_listEvents = (\<lambda>_ _. Inr []),
     ke_logs = (\<lambda>_ _ _. Inr ''step 1'')\<rparr>"

definition kx_cr :: "int MLRunSpec cr" where
  "kx_cr = \<lparr>cr_name = ''train'', cr_namespace = ''team-b'', cr_labels = [(LabelRunID, ''id-2'')], cr_annotations = [], cr_spec = rcr_spec kx_run\<rparr>"

theorem kube_tenants_collide_witness:
  "fst (run_state (ApplyMLRun kx_env kx_cr) []) = None \<and>
   run_state (DeleteMLRun kx_env (''team-b'', ''train'')) [] = run_state (DeleteMLRun kx_env (''team-a'', ''train'')) []"
  using kube_tenants_collide [of kx_env "''team-a''" "''shared''" kx_cr "[]" kx_run] by (simp add: kx_env_def kx_cr_def ox_api_def)

theorem kube_logs_own_instances_witness:
  "\<exists>ns name run pod h1. fst (run_state (physicalKey kx_env (''team-a'', ''train'')) []) = Inr (ns, name) \<and> ke_getPod kx_env h1 ns ''train-0'' = Inr pod \<and>
     sget (pod_labels pod) LabelRunID = sget (rcr_labels run) LabelRunID \<and> wa_getRun (ke_api kx_env) [] ns name = Inr run"
proof -
  have "\<exists>h'. run_state (GetMLRunInstanceLogs kx_env (''team-a'', ''train'') ''train-0'') [] = (Inr ''step 1'', h')"
    by (simp add: GetMLRunInstanceLogs_def on_instance_def runLabelID_def run_with_key run_physicalKey verifyInstance_def get_obj_def call_def
      kx_env_def ox_api_def kx_run_def ox_run_def sget_def)
  then obtain h' where "run_state (GetMLRunInstanceLogs kx_env (''team-a'', ''train'') ''train-0'') [] = (Inr ''step 1'', h')" by blast
  from kube_logs_own_instances [OF this] show ?thesis by blast
qed

end
