(* ===== verification/Ledger.thy ===== *)
theory Ledger
  imports Admission
begin

text \<open>
  What admission promises, abstractly: a ledger of remaining capacity and quota usage that
  changes only by grants. A grant is for one quota key; it needs a resolved quota that the
  grown usage does not exceed, and a placement of every role it grants. The passes of
  \<open>Admission\<close> are shown to be sequences of grants, and the safety properties are proved
  once, of the ledger.
\<close>

section \<open>The ledger\<close>

type_synonym 'q ledger = "'q admissionState \<times> 'q usage"

definition ledger_of :: "'q pass \<Rightarrow> 'q ledger" where
  "ledger_of p = (p_capacity p, p_usage p)"

inductive grant ::
  "'q::linordered_ab_group_add quotas \<Rightarrow> ('q roleRequest \<Rightarrow> bool) \<Rightarrow> 'q ledger \<Rightarrow> 'q ledger \<Rightarrow> bool"
  for quotas :: "'q quotas" and R :: "'q roleRequest \<Rightarrow> bool" where
  grant: "map_of quotas (tenant, pool) = Some (Inr mx) \<Longrightarrow>
    \<not> exceeds (sumLists (uget usage (tenant, pool)) (totalRequests roles)) mx \<Longrightarrow>
    place_roles pool sel tol capacity roles = (trial, True, why) \<Longrightarrow>
    (\<And>role. role \<in> set roles \<Longrightarrow> R role) \<Longrightarrow>
    grant quotas R (capacity, usage)
      (trial, usage_add usage (tenant, pool) (totalRequests roles))"

inductive_cases grantE: "grant quotas R l l'"

abbreviation grants ::
  "'q::linordered_ab_group_add quotas \<Rightarrow> ('q roleRequest \<Rightarrow> bool) \<Rightarrow> 'q ledger \<Rightarrow> 'q ledger \<Rightarrow> bool" where
  "grants quotas R \<equiv> (grant quotas R)\<^sup>*\<^sup>*"

section \<open>Usage lookups and totals\<close>

lemma uget_usage_add: "uget (usage_add u k r) k' = (if k' = k then sumLists (uget u k) r else uget u k')"
  by (simp add: uget_def usage_add_def)

lemma wf_usage_add [simp]: "wf_map u \<Longrightarrow> wf_map (usage_add u k r)"
  by (simp add: usage_add_def)

text \<open>The use of a resource over all quota keys that satisfy \<open>P\<close>.\<close>

definition usage_total :: "(quotaKey \<Rightarrow> bool) \<Rightarrow> 'q::linordered_ab_group_add usage \<Rightarrow> string \<Rightarrow> 'q" where
  "usage_total P u n = (\<Sum>(k, r)\<leftarrow>u. if P k then rget r n else 0)"

lemma sum_list_AList_update:
  "(\<Sum>(k, r)\<leftarrow>AList.update key v u. (f k r :: 'q::ab_group_add)) =
     (\<Sum>(k, r)\<leftarrow>u. f k r) + f key v - (case map_of u key of None \<Rightarrow> 0 | Some r \<Rightarrow> f key r)"
  by (induction u) (auto simp: algebra_simps split: option.split)

lemma usage_total_add:
  assumes "wf_map r"
  shows "usage_total P (usage_add u key r) n = usage_total P u n + (if P key then rget r n else 0)"
proof (cases "map_of u key")
  case None
  with assms show ?thesis
    by (simp add: usage_total_def usage_add_def sum_list_AList_update uget_def rget_sumLists)
next
  case (Some q)
  with assms show ?thesis
    by (simp add: usage_total_def usage_add_def sum_list_AList_update uget_def rget_sumLists)
qed

section \<open>What a placement of several roles takes\<close>

definition wf_role :: "'q::linordered_ab_group_add roleRequest \<Rightarrow> bool" where
  "wf_role role \<longleftrightarrow> wf_rl (rr_requests role)"

lemma wf_add_times [simp]: "wf_rl t \<Longrightarrow> wf_rl r \<Longrightarrow> wf_rl (add_times k r t)"
  by (induction k arbitrary: t) auto

lemma rget_add_times: "wf_map r \<Longrightarrow> rget (add_times k r t) n = rget t n + times_q k (rget r n)"
  by (induction k arbitrary: t) (auto simp: rget_sumLists algebra_simps)

text \<open>What the roles ask for in total.\<close>

definition role_amount :: "'q::linordered_ab_group_add roleRequest \<Rightarrow> string \<Rightarrow> 'q" where
  "role_amount role n = times_q (nat (rr_replicas role)) (rget (rr_requests role) n)"

lemma totalRequests_gen:
  assumes "\<And>role. role \<in> set roles \<Longrightarrow> wf_role role" and "wf_rl t"
  shows "wf_rl (foldl (\<lambda>t role. add_times (nat (rr_replicas role)) (rr_requests role) t) t roles)"
    and "rget (foldl (\<lambda>t role. add_times (nat (rr_replicas role)) (rr_requests role) t) t roles) n =
         rget t n + (\<Sum>role\<leftarrow>roles. role_amount role n)"
  using assms
  by (induction roles arbitrary: t)
     (auto simp: wf_role_def role_amount_def rget_add_times algebra_simps)

lemma wf_totalRequests: "(\<And>role. role \<in> set roles \<Longrightarrow> wf_role role) \<Longrightarrow> wf_rl (totalRequests roles)"
  unfolding totalRequests_def by (rule totalRequests_gen) auto

lemma rget_totalRequests:
  "(\<And>role. role \<in> set roles \<Longrightarrow> wf_role role) \<Longrightarrow>
   rget (totalRequests roles) n = (\<Sum>role\<leftarrow>roles. role_amount role n)"
  unfolding totalRequests_def using totalRequests_gen(2) [of roles "[]" n] by simp

lemma role_amount_nonneg: "wf_role role \<Longrightarrow> 0 \<le> role_amount role n"
  by (simp add: wf_role_def role_amount_def times_q_nonneg wf_rl_rget)

text \<open>What is left of the override of a pool.\<close>

definition override_level :: "'q::linordered_ab_group_add admissionState \<Rightarrow> string \<Rightarrow> string \<Rightarrow> 'q" where
  "override_level s pool n =
     (case map_of (as_overrides s) pool of None \<Rightarrow> 0 | Some b \<Rightarrow> rget (rb_remaining b) n)"

definition overridden :: "'q admissionState \<Rightarrow> string \<Rightarrow> bool" where
  "overridden s pool \<longleftrightarrow> map_of (as_overrides s) pool \<noteq> None"

lemma nodeState_place_le:
  assumes "wf_nodes s" "wf_rl r" "nodeState_place s r k sel tol = (s', placed, why)"
  shows "node_level s' n \<le> node_level s n"
proof (cases placed)
  case True
  with assms nodeState_place_level [of s r k sel tol s' why n] show ?thesis
    by (simp add: times_q_nonneg wf_rl_rget)
next
  case False
  with assms nodeState_place_partial [of s r k sel tol s' why] obtain j where
    "node_level s' n = node_level s n - times_q j (rget r n)" by auto
  with assms(2) show ?thesis by (simp add: times_q_nonneg wf_rl_rget)
qed

text \<open>One role placed: exact on the node inventory of a pool without an override, exact on the
  budget of a pool with one, and never an increase anywhere.\<close>

lemma admissionState_place_levels:
  assumes wf: "wf_state s" "wf_role role"
    and place: "admissionState_place s pool (rr_requests role) (rr_replicas role) sel tol = (s', True, why)"
  shows "overridden s' q = overridden s q"
    and "\<not> overridden s pool \<Longrightarrow> node_level (as_nodes s') n = node_level (as_nodes s) n - role_amount role n"
    and "node_level (as_nodes s') n \<le> node_level (as_nodes s) n"
    and "override_level s' q n = override_level s q n - (if overridden s pool \<and> q = pool then role_amount role n else 0)"
    and "as_unavailable s' = as_unavailable s" "map_of (as_unavailable s) pool = None"
proof -
  let ?r = "rr_requests role" and ?k = "rr_replicas role"
  have r: "wf_rl ?r" "wf_map ?r" using wf(2) by (auto simp: wf_role_def)
  obtain nodes ok w where n: "nodeState_place (as_nodes s) ?r ?k sel tol = (nodes, ok, w)"
    by (cases "nodeState_place (as_nodes s) ?r ?k sel tol")
  have nodes: "wf_nodes (as_nodes s)" using wf(1) by (simp add: wf_state_def)
  note le = nodeState_place_le [OF nodes r(1) n]
  have eq: "ok \<Longrightarrow> node_level nodes n = node_level (as_nodes s) n - role_amount role n" for n
    using nodeState_place_level [OF nodes r(2), of ?k sel tol nodes w n] n by (simp add: role_amount_def)
  have budget: "map_of (as_overrides s) pool = Some b \<Longrightarrow> budget_place b ?r ?k = (b', True) \<Longrightarrow>
      rget (rb_remaining b') n = rget (rb_remaining b) n - role_amount role n" for b b' n
    using budget_place_level [of b ?r ?k b' n] wf(1) r(2) by (auto simp: wf_state_def role_amount_def)
  show "overridden s' q = overridden s q" "as_unavailable s' = as_unavailable s"
    "map_of (as_unavailable s) pool = None"
    using place by (auto simp: admissionState_place_def overridden_def Let_def
        split: if_splits option.splits prod.splits)
  show "node_level (as_nodes s') n = node_level (as_nodes s) n - role_amount role n" if "\<not> overridden s pool"
  proof -
    from place that n have "as_nodes s' = nodes" "ok"
      by (auto simp: admissionState_place_def overridden_def split: if_splits)
    then show ?thesis by (simp only: eq)
  qed
  show "node_level (as_nodes s') n \<le> node_level (as_nodes s) n"
    using place n le by (auto simp: admissionState_place_def Let_def split: if_splits option.splits prod.splits)
  show "override_level s' q n = override_level s q n - (if overridden s pool \<and> q = pool then role_amount role n else 0)"
  proof (cases "map_of (as_overrides s) pool")
    case None
    with place show ?thesis
      by (auto simp: admissionState_place_def overridden_def override_level_def split: if_splits prod.splits)
  next
    case (Some b)
    with place obtain b' where b': "budget_place b ?r ?k = (b', True)"
        "as_overrides s' = AList.update pool b' (as_overrides s)"
      by (auto simp: admissionState_place_def Let_def split: if_splits prod.splits)
    show ?thesis
      using Some b'(2) budget [OF Some b'(1), of n] by (simp add: overridden_def override_level_def)
  qed
qed

text \<open>The same for a list of roles.\<close>

lemma place_roles_levels:
  assumes "wf_state s" "\<And>role. role \<in> set roles \<Longrightarrow> wf_role role"
    and "place_roles pool sel tol s roles = (s', True, why)"
  shows "wf_state s' \<and> (\<forall>q. overridden s' q = overridden s q) \<and>
    (\<not> overridden s pool \<longrightarrow>
       (\<forall>n. node_level (as_nodes s') n = node_level (as_nodes s) n - (\<Sum>role\<leftarrow>roles. role_amount role n))) \<and>
    (\<forall>n. node_level (as_nodes s') n \<le> node_level (as_nodes s) n) \<and>
    (\<forall>q n. override_level s' q n = override_level s q n -
       (if overridden s pool \<and> q = pool then (\<Sum>role\<leftarrow>roles. role_amount role n) else 0))"
  using assms
proof (induction roles arbitrary: s)
  case (Cons role roles)
  then obtain t w where t: "admissionState_place s pool (rr_requests role) (rr_replicas role) sel tol = (t, True, w)"
      "place_roles pool sel tol t roles = (s', True, why)"
    by (auto split: prod.splits if_splits)
  have role: "wf_role role" using Cons.prems(2) by simp
  then have "wf_state t" using admissionState_place_wf [OF Cons.prems(1) _ t(1)] by (simp add: wf_role_def)
  note IH = Cons.IH [OF this Cons.prems(2) [OF list.set_intros(2)] t(2)]
  note step = admissionState_place_levels [OF Cons.prems(1) role t(1)]
  have le: "node_level (as_nodes s') n \<le> node_level (as_nodes s) n" for n
    using IH step(3) [of n] order_trans by blast
  have over: "override_level s' q n = override_level s q n -
      (if overridden s pool \<and> q = pool then (\<Sum>role\<leftarrow>role # roles. role_amount role n) else 0)" for q n
  proof -
    have "override_level s' q n = override_level t q n -
        (if overridden t pool \<and> q = pool then (\<Sum>role\<leftarrow>roles. role_amount role n) else 0)"
      using IH by blast
    then show ?thesis
      by (cases "overridden s pool \<and> q = pool") (auto simp: step(1,4) algebra_simps)
  qed
  have nodes: "node_level (as_nodes s') n = node_level (as_nodes s) n - (\<Sum>role\<leftarrow>role # roles. role_amount role n)"
    if "\<not> overridden s pool" for n
    using IH step(1) [of pool] step(2) [of n] that by (simp add: algebra_simps)
  show ?case
    using IH step(1) le over nodes by simp
qed simp

text \<open>The roles of a grant.\<close>

lemma grant_levels:
  assumes "grant quotas wf_role (s, u) (s', u')" "wf_state s"
  shows "\<exists>tenant pool r. wf_state s' \<and> u' = usage_add u (tenant, pool) r \<and> wf_rl r \<and>
    (\<forall>q. overridden s' q = overridden s q) \<and>
    (\<not> overridden s pool \<longrightarrow> (\<forall>n. node_level (as_nodes s') n = node_level (as_nodes s) n - rget r n)) \<and>
    (\<forall>n. node_level (as_nodes s') n \<le> node_level (as_nodes s) n) \<and>
    (\<forall>q n. override_level s' q n =
       override_level s q n - (if overridden s pool \<and> q = pool then rget r n else 0))"
  using assms(1)
proof (cases rule: grant.cases)
  case (grant tenant pool mx roles sel tol why)
  note levels = place_roles_levels [OF assms(2) grant(5) grant(4)]
  show ?thesis
    by (intro exI [of _ tenant] exI [of _ pool] exI [of _ "totalRequests roles"])
       (use levels grant(5) in \<open>simp add: grant(1) wf_totalRequests rget_totalRequests\<close>)
qed

section \<open>Safety of the ledger\<close>

text \<open>A usage entry is the one the pass started with, or within its quota.\<close>

lemma grants_quota:
  assumes "grants quotas R l l'"
  shows "uget (snd l') key = uget (snd l) key \<or>
     (\<exists>mx. map_of quotas key = Some (Inr mx) \<and> \<not> exceeds (uget (snd l') key) mx)"
  using assms
proof (induction rule: rtranclp_induct)
  case (step l1 l2)
  from step(2) show ?case
  proof (cases rule: grant.cases)
    case (grant tenant pool mx usage roles sel tol capacity trial why)
    with step.IH show ?thesis by (cases "key = (tenant, pool)") (auto simp: uget_usage_add)
  qed
qed simp

text \<open>What a run of grants takes from a pool is covered by what was left.\<close>

lemma grants_capacity:
  assumes "grants quotas wf_role (s, u) (s', u')" "wf_state s"
  shows "wf_state s' \<and> (\<forall>q. overridden s' q = overridden s q) \<and>
    (\<forall>n. usage_total (\<lambda>k. \<not> overridden s (snd k)) u' n - usage_total (\<lambda>k. \<not> overridden s (snd k)) u n
       \<le> node_level (as_nodes s) n - node_level (as_nodes s') n) \<and>
    (\<forall>q n. overridden s q \<longrightarrow>
       usage_total (\<lambda>k. snd k = q) u' n - usage_total (\<lambda>k. snd k = q) u n
       = override_level s q n - override_level s' q n)"
  using assms
proof (induction rule: rtranclp_induct2)
  case (step s1 u1 s2 u2)
  then have IH: "wf_state s1" "\<And>q. overridden s1 q = overridden s q"
    "\<And>n. usage_total (\<lambda>k. \<not> overridden s (snd k)) u1 n - usage_total (\<lambda>k. \<not> overridden s (snd k)) u n
       \<le> node_level (as_nodes s) n - node_level (as_nodes s1) n"
    "\<And>q n. overridden s q \<Longrightarrow> usage_total (\<lambda>k. snd k = q) u1 n - usage_total (\<lambda>k. snd k = q) u n
       = override_level s q n - override_level s1 q n" by auto
  from step(2) IH(1) obtain tenant pool r where g: "wf_state s2" "u2 = usage_add u1 (tenant, pool) r" "wf_rl r"
    "\<forall>q. overridden s2 q = overridden s1 q"
    "\<not> overridden s1 pool \<Longrightarrow> \<forall>n. node_level (as_nodes s2) n = node_level (as_nodes s1) n - rget r n"
    "\<forall>n. node_level (as_nodes s2) n \<le> node_level (as_nodes s1) n"
    "\<forall>q n. override_level s2 q n = override_level s1 q n - (if overridden s1 pool \<and> q = pool then rget r n else 0)"
    using grant_levels [OF step(2) IH(1)] by metis
  have nodes: "usage_total (\<lambda>k. \<not> overridden s (snd k)) u2 n - usage_total (\<lambda>k. \<not> overridden s (snd k)) u n
       \<le> node_level (as_nodes s) n - node_level (as_nodes s2) n" for n
  proof (cases "overridden s pool")
    case True
    then have "usage_total (\<lambda>k. \<not> overridden s (snd k)) u2 n = usage_total (\<lambda>k. \<not> overridden s (snd k)) u1 n"
      using g(3) by (simp add: g(2) usage_total_add)
    moreover have "node_level (as_nodes s) n - node_level (as_nodes s1) n
        \<le> node_level (as_nodes s) n - node_level (as_nodes s2) n" using g(6) by simp
    ultimately show ?thesis using order_trans [OF IH(3) [of n]] by simp
  next
    case False
    then have e: "node_level (as_nodes s2) n = node_level (as_nodes s1) n - rget r n"
      using g(5) IH(2) by simp
    have "usage_total (\<lambda>k. \<not> overridden s (snd k)) u2 n =
        usage_total (\<lambda>k. \<not> overridden s (snd k)) u1 n + rget r n"
      using False g(3) by (simp add: g(2) usage_total_add)
    then show ?thesis using IH(3) [of n] unfolding e by (simp add: algebra_simps)
  qed
  have over: "usage_total (\<lambda>k. snd k = q) u2 n - usage_total (\<lambda>k. snd k = q) u n
       = override_level s q n - override_level s2 q n" if "overridden s q" for q n
    using IH(4) [OF that, of n] g(3) that
    by (auto simp: g(2,7) IH(2) usage_total_add algebra_simps)
  from g(1,4) IH(2) nodes over show ?case by simp
qed simp

end
