(* ===== verification/Refinement.thy ===== *)
theory Refinement
  imports Ledger
begin

text \<open>
  The admission pass refines the ledger: every part of it (\<open>admit_run\<close>, the service loop,
  \<open>admitServicesLocked\<close>, \<open>admitLocked\<close>) moves the ledger by a sequence of grants, and
  changes the tables only in the columns admission owns.
\<close>

section \<open>Notes leave the ledger alone\<close>

lemma ledger_note_run [simp]:
  "note_run fault now p run reason message = Inr p' \<Longrightarrow> ledger_of p' = ledger_of p"
  by (auto simp: note_run_def ledger_of_def split: sum.splits)

lemma ledger_note_service [simp]:
  "note_service fault now p row reason message = Inr p' \<Longrightarrow> ledger_of p' = ledger_of p"
  by (auto simp: note_service_def ledger_of_def split: sum.splits)

lemma note_service_runs [frame_simps]:
  "note_service fault now p row reason message = Inr p' \<Longrightarrow> mlruns (p_db p') = mlruns (p_db p)"
  by (auto simp: note_service_def setServiceAdmissionReason_def Let_def split: sum.splits if_splits option.splits)

lemma note_run_services [frame_simps]:
  "note_run fault now p run reason message = Inr p' \<Longrightarrow> mlservices (p_db p') = mlservices (p_db p)"
  by (auto simp: note_run_def setQueueReason_def Let_def split: sum.splits if_splits option.splits)

section \<open>Runs\<close>

text \<open>Every role of every stored spec satisfies \<open>Q\<close> in its requests.\<close>

definition run_requests :: "('q resource_list \<Rightarrow> bool) \<Rightarrow> 'q MLRun \<Rightarrow> bool" where
  "run_requests Q r \<longleftrightarrow>
     (\<forall>spec. run_spec r = JOk spec \<longrightarrow> (\<forall>role\<in>set (rs_roles spec). Q (pt_requests (role_template role))))"

definition svc_requests :: "('q resource_list \<Rightarrow> bool) \<Rightarrow> 'q MLService \<Rightarrow> bool" where
  "svc_requests Q s \<longleftrightarrow>
     (\<forall>spec. svc_spec s = JOk spec \<longrightarrow> (\<forall>role\<in>set (ss_roles spec). Q (pt_requests (role_template role))))"

definition db_requests :: "('q resource_list \<Rightarrow> bool) \<Rightarrow> 'q db \<Rightarrow> bool" where
  "db_requests Q d \<longleftrightarrow> (\<forall>r\<in>set (mlruns d). run_requests Q r) \<and> (\<forall>s\<in>set (mlservices d). svc_requests Q s)"

lemma runWorkload_requests:
  "runWorkload run = Inr w \<Longrightarrow> run_requests Q run \<Longrightarrow> role \<in> set (w_roles w) \<Longrightarrow> Q (rr_requests role)"
  by (cases "json_decode (run_spec run)")
     (auto simp: runWorkload_def stableRoleOrder_def run_requests_def)

lemma commit_run_ledger:
  "commit_run fault now p run key requested trial = Inr p' \<Longrightarrow>
     ledger_of p' = ledger_of p \<or> ledger_of p' = (trial, usage_add (p_usage p) key requested)"
  by (auto simp: commit_run_def ledger_of_def Let_def split: option.splits if_splits)

lemma admit_run_grants:
  assumes "admit_run fault now quotas p run = Inr p'" "run_requests Q run"
  shows "grants quotas (\<lambda>role. Q (rr_requests role)) (ledger_of p) (ledger_of p')"
proof -
  from assms(1) obtain w where w: "runWorkload run = Inr w"
    by (auto simp: admit_run_def split: sum.splits)
  let ?key = "(run_namespace run, w_pool w)" and ?req = "totalRequests (w_roles w)"
  show ?thesis
  proof (cases "ledger_of p' = ledger_of p")
    case False
    from assms(1) w False obtain mx trial why where g:
      "map_of quotas ?key = Some (Inr mx)" "\<not> exceeds (sumLists (uget (p_usage p) ?key) ?req) mx"
      "place_roles (w_pool w) (w_nodeSelector w) (w_tolerations w) (p_capacity p) (w_roles w) = (trial, True, why)"
      "commit_run fault now p run ?key ?req trial = Inr p'"
      by (auto simp: admit_run_def Let_def split: option.splits sum.splits if_splits prod.splits)
    with False have "ledger_of p' = (trial, usage_add (p_usage p) ?key ?req)"
      by (auto dest: commit_run_ledger)
    moreover have "grant quotas (\<lambda>role. Q (rr_requests role)) (p_capacity p, p_usage p)
        (trial, usage_add (p_usage p) ?key ?req)"
      by (rule grant.intros [OF g(1-3)]) (rule runWorkload_requests [OF w assms(2)])
    ultimately show ?thesis by (simp add: ledger_of_def)
  qed simp
qed

section \<open>Services\<close>

lemma increment_requests:
  assumes "\<And>i. i \<in> set inc \<Longrightarrow> i < length (ss_roles spec)"
    and "\<forall>role\<in>set (ss_roles spec). Q (pt_requests (role_template role))"
    and "role \<in> set (increment spec inc)"
  shows "Q (rr_requests role)"
  using assms by (auto simp: increment_def stableRoleOrder_def)

lemma commit_increment_ledger [simp]:
  "ledger_of (l_pass (commit_increment now l nxt key requested trial)) =
     (trial, usage_add (p_usage (l_pass l)) key requested)"
  by (simp add: commit_increment_def ledger_of_def Let_def)

text \<open>A failed placement always says why.\<close>

lemma place_loop_reason:
  "(\<And>s why. step s = Inl why \<Longrightarrow> why \<noteq> []) \<Longrightarrow> place_loop step k s = (s', False, why) \<Longrightarrow> why \<noteq> []"
  by (induction k arbitrary: s) (auto split: sum.splits)

lemma nodeState_place_reason:
  assumes "nodeState_place s r k sel tol = (s', False, why)"
  shows "why \<noteq> []"
proof (rule place_loop_reason)
  show "place_loop (nodeState_step r sel tol) (nat k) s = (s', False, why)"
    using assms by (simp add: nodeState_place_def)
qed (auto simp: nodeState_step_def split: prod.splits option.splits if_splits)

lemma admissionState_place_reason:
  "admissionState_place s pool r k sel tol = (s', False, why) \<Longrightarrow> why \<noteq> []"
  by (auto simp: admissionState_place_def Let_def dest: nodeState_place_reason
           split: if_splits option.splits prod.splits)

lemma place_roles_reason: "place_roles pool sel tol s roles = (s', False, why) \<Longrightarrow> why \<noteq> []"
  by (induction roles arbitrary: s)
     (auto dest: admissionState_place_reason split: prod.splits if_splits)

text \<open>
  The three ways a round of the loop ends: the vector is complete, a reason is noted, or an
  increment is granted and the loop goes on.
\<close>

lemma service_loop_cases:
  assumes "service_loop fault now mx e spec target key desired l = Inr p'"
  obtains (finished) "p' = l_pass l" "l_admitted l = desired \<or> snd (Next (l_admitted l) desired) = []"
    | (noted) reason message where
        "note_service fault now (l_pass l) (l_row l) reason message = Inr p'" "reason \<noteq> []"
    | (granted) nxt inc trial why where
        "Next (l_admitted l) desired = (nxt, inc)" "inc \<noteq> []" "l_admitted l \<noteq> desired"
        "\<not> exceeds (sumLists (uget (p_usage (l_pass l)) key) (totalRequests (increment spec inc))) mx"
        "place_roles (w_pool target) (w_nodeSelector target) (w_tolerations target)
           (p_capacity (l_pass l)) (increment spec inc) = (trial, True, why)"
        "service_loop fault now mx e spec target key desired
           (commit_increment now l nxt key (totalRequests (increment spec inc)) trial) = Inr p'"
proof -
  obtain nxt inc where n: "Next (l_admitted l) desired = (nxt, inc)" by (cases "Next (l_admitted l) desired")
  let ?req = "totalRequests (increment spec inc)"
  let ?place = "place_roles (w_pool target) (w_nodeSelector target) (w_tolerations target)
     (p_capacity (l_pass l)) (increment spec inc)"
  let ?over = "exceeds ?req mx \<or> exceeds (sumLists (uget (p_usage (l_pass l)) key) ?req) mx"
  obtain trial placed why where pl: "?place = (trial, placed, why)" by (cases ?place)
  note eq = assms [unfolded service_loop.simps [of fault now mx e spec target key desired l]]
  consider "l_admitted l = desired \<or> inc = []"
    | "l_admitted l \<noteq> desired" "inc \<noteq> []" "?over \<or> \<not> placed"
    | "l_admitted l \<noteq> desired" "inc \<noteq> []" "\<not> ?over" "placed" by blast
  then show thesis
  proof cases
    case 1
    with eq n show thesis by (intro finished) (auto split: if_splits)
  next
    case 2
    moreover have "why \<noteq> []" if "\<not> placed" using place_roles_reason [of _ _ _ _ _ trial why] pl that by auto
    ultimately have "\<exists>reason message. note_service fault now (l_pass l) (l_row l) reason message = Inr p' \<and> reason \<noteq> []"
      using eq n pl by (auto simp: Let_def split: if_splits)
    with noted show thesis by blast
  next
    case 3
    with eq n pl show thesis by (intro granted [OF n]) (auto simp: Let_def split: option.splits)
  qed
qed

lemma commit_increment_admitted [simp]:
  "l_admitted (commit_increment now l nxt key requested trial) = nxt"
  by (simp add: commit_increment_def Let_def)

text \<open>Induction over the rounds of the loop.\<close>

lemma service_loop_induct [consumes 1, case_names finished noted granted]:
  assumes "service_loop fault now mx e spec target key desired l = Inr p'"
    and "\<And>l. l_admitted l = desired \<or> snd (Next (l_admitted l) desired) = [] \<Longrightarrow> P l (l_pass l)"
    and "\<And>l reason message p'.
        note_service fault now (l_pass l) (l_row l) reason message = Inr p' \<Longrightarrow> reason \<noteq> [] \<Longrightarrow> P l p'"
    and "\<And>l nxt inc trial why p'.
        Next (l_admitted l) desired = (nxt, inc) \<Longrightarrow> inc \<noteq> [] \<Longrightarrow> l_admitted l \<noteq> desired \<Longrightarrow>
        \<not> exceeds (sumLists (uget (p_usage (l_pass l)) key) (totalRequests (increment spec inc))) mx \<Longrightarrow>
        place_roles (w_pool target) (w_nodeSelector target) (w_tolerations target)
           (p_capacity (l_pass l)) (increment spec inc) = (trial, True, why) \<Longrightarrow>
        P (commit_increment now l nxt key (totalRequests (increment spec inc)) trial) p' \<Longrightarrow> P l p'"
  shows "P l p'"
  using assms(1)
proof (induction "shortfall (l_admitted l) desired" arbitrary: l rule: less_induct)
  case less
  from less.prems show ?case
  proof (cases rule: service_loop_cases)
    case finished
    then show ?thesis using assms(2) by simp
  next
    case noted
    then show ?thesis by (rule assms(3))
  next
    case (granted nxt inc trial why)
    show ?thesis
      by (rule assms(4) [OF granted(1-5)], rule less.hyps [OF _ granted(6)])
         (simp add: Next_shortfall [OF granted(1,2)])
  qed
qed

lemma service_loop_grants:
  assumes "service_loop fault now mx e spec target key desired l = Inr p'"
    and quota: "map_of quotas key = Some (Inr mx)" and pool: "snd key = w_pool target"
    and len: "length desired = length (ss_roles spec)"
    and Q: "\<forall>role\<in>set (ss_roles spec). Q (pt_requests (role_template role))"
  shows "grants quotas (\<lambda>role. Q (rr_requests role)) (ledger_of (l_pass l)) (ledger_of p')"
  using assms(1)
proof (induction rule: service_loop_induct)
  case (granted l nxt inc trial why p')
  let ?req = "totalRequests (increment spec inc)"
  obtain tenant where key: "key = (tenant, w_pool target)" using pool by (cases key) auto
  have inc: "i < length (ss_roles spec)" if "i \<in> set inc" for i
    using Next_increased_lt [OF granted(1) that] len by simp
  have "grant quotas (\<lambda>role. Q (rr_requests role)) (p_capacity (l_pass l), p_usage (l_pass l))
      (trial, usage_add (p_usage (l_pass l)) (tenant, w_pool target) ?req)"
    by (rule grant.intros [OF quota [unfolded key] granted(4) [unfolded key] granted(5)])
       (rule increment_requests [OF inc Q])
  then have "grant quotas (\<lambda>role. Q (rr_requests role)) (ledger_of (l_pass l))
      (ledger_of (l_pass (commit_increment now l nxt key ?req trial)))"
    by (simp add: key) (simp add: ledger_of_def)
  then show ?case using granted(6) by (rule converse_rtranclp_into_rtranclp)
qed simp_all

lemma admit_service_grants:
  assumes "admit_service fault now quotas p row = Inr p'" "svc_requests Q row"
  shows "grants quotas (\<lambda>role. Q (rr_requests role)) (ledger_of p) (ledger_of p')"
proof -
  from assms(1) obtain spec where spec: "svc_spec row = JOk spec"
    by (auto simp: admit_service_def split: option.splits)
  let ?desired = "Desired (role_counts spec)"
  let ?key = "(svc_namespace row, poolFromLabels (svc_labels row))"
  let ?target = "serviceWorkloadFor row spec ?desired"
  from assms(1) spec consider "ledger_of p' = ledger_of p"
    | mx where "map_of quotas ?key = Some (Inr mx)"
        "service_loop fault now mx (exceeds (totalRequests (w_roles ?target)) mx) spec ?target ?key ?desired
           \<lparr>l_pass = p, l_row = row, l_admitted = Decode (svc_admitted row) (length (ss_roles spec)) ?desired\<rparr> = Inr p'"
    by (auto simp: admit_service_def Let_def ledger_of_def
             split: if_splits option.splits sum.splits dest: ledger_note_service)
  then show ?thesis
  proof cases
    case 2
    from service_loop_grants [OF 2(2,1), of Q] assms(2) spec show ?thesis
      by (simp add: serviceWorkloadFor_def role_counts_def svc_requests_def)
  qed simp
qed

section \<open>The whole pass\<close>

lemma service_loop_runs [frame_simps]:
  "service_loop fault now mx e spec target key desired l = Inr p' \<Longrightarrow>
     mlruns (p_db p') = mlruns (p_db (l_pass l))"
  by (induction rule: service_loop_induct) (auto simp: frame_simps commit_increment_def Let_def)

lemma admit_service_runs [frame_simps]:
  "admit_service fault now quotas p row = Inr p' \<Longrightarrow> mlruns (p_db p') = mlruns (p_db p)"
  by (auto simp: admit_service_def Let_def dest: note_service_runs service_loop_runs
           split: if_splits option.splits sum.splits)

lemma admitServicesLocked_runs [frame_simps]:
  assumes "admitServicesLocked fault now quotas p = Inr p'"
  shows "mlruns (p_db p') = mlruns (p_db p)"
proof -
  from assms have "rfold (admit_service fault now quotas) p (live_services (p_db p)) = Inr p'"
    by (auto simp: admitServicesLocked_def split: option.splits)
  then show ?thesis
    by (rule rfold_invariant [where P = "\<lambda>q. mlruns (p_db q) = mlruns (p_db p)"])
       (auto simp: frame_simps)
qed

lemma live_services_sub: "x \<in> set (live_services d) \<Longrightarrow> x \<in> set (mlservices d)"
  by (simp add: live_services_def)

lemma queued_runs_sub: "x \<in> set (queued_runs d) \<Longrightarrow> x \<in> set (mlruns d)"
  by (simp add: queued_runs_def)

lemma admitServicesLocked_grants:
  assumes "admitServicesLocked fault now quotas p = Inr p'" "db_requests Q (p_db p)"
  shows "grants quotas (\<lambda>role. Q (rr_requests role)) (ledger_of p) (ledger_of p')"
proof -
  from assms have "rfold (admit_service fault now quotas) p (live_services (p_db p)) = Inr p'"
    by (auto simp: admitServicesLocked_def split: option.splits)
  then show ?thesis
  proof (rule rfold_invariant [where P = "\<lambda>q. grants quotas (\<lambda>role. Q (rr_requests role)) (ledger_of p) (ledger_of q)"])
    fix t x t'
    assume g: "grants quotas (\<lambda>role. Q (rr_requests role)) (ledger_of p) (ledger_of t)"
      and x: "x \<in> set (live_services (p_db p))" and a: "admit_service fault now quotas t x = Inr t'"
    from x assms(2) have "svc_requests Q x"
      by (auto simp: db_requests_def dest: live_services_sub)
    from g admit_service_grants [OF a this]
    show "grants quotas (\<lambda>role. Q (rr_requests role)) (ledger_of p) (ledger_of t')"
      by (rule rtranclp_trans)
  qed simp
qed

text \<open>The start of the pass: the tables, the usage of the active workloads, and the capacity
  that is left when their missing replicas are reserved.\<close>

definition pass_start ::
  "'q::linordered_ab_group_add db \<Rightarrow> 'q ResourceSnapshot \<Rightarrow> (string, err + 'q resource_list) gomap \<Rightarrow>
   'q desiredWorkload list \<times> 'q usage \<times> actual_counts \<Rightarrow> 'q pass" where
  "pass_start d snapshot capacities loaded =
     (case loaded of (active, usage, counts) \<Rightarrow>
        \<lparr>p_db = d,
         p_capacity = reserve_active counts (newAdmissionState snapshot capacities usage) active,
         p_usage = usage\<rparr>)"

lemma admitLocked_split:
  assumes "admitLocked fault now d snapshot quotas capacities = Inr p'"
  obtains loaded p1 where "loadActive fault d (rs_allocations snapshot) = Inr loaded"
    "admitServicesLocked fault now quotas (pass_start d snapshot capacities loaded) = Inr p1"
    "rfold (admit_run fault now quotas) p1 (queued_runs (p_db p1)) = Inr p'"
  using assms
  by (auto simp: admitLocked_def pass_start_def Let_def split: sum.splits prod.splits option.splits)

lemma admitLocked_grants:
  assumes "admitLocked fault now d snapshot quotas capacities = Inr p'" "db_requests Q d"
    and "loadActive fault d (rs_allocations snapshot) = Inr loaded"
  shows "grants quotas (\<lambda>role. Q (rr_requests role))
           (ledger_of (pass_start d snapshot capacities loaded)) (ledger_of p')"
proof -
  let ?G = "grants quotas (\<lambda>role. Q (rr_requests role))"
  let ?p0 = "pass_start d snapshot capacities loaded"
  from assms(1,3) obtain p1 where p1: "admitServicesLocked fault now quotas ?p0 = Inr p1"
      "rfold (admit_run fault now quotas) p1 (queued_runs (p_db p1)) = Inr p'"
    by (auto elim: admitLocked_split)
  have d: "p_db ?p0 = d" by (simp add: pass_start_def split: prod.split)
  have one: "?G (ledger_of ?p0) (ledger_of p1)"
    by (rule admitServicesLocked_grants [OF p1(1)]) (simp add: d assms(2))
  have "run_requests Q x" if "x \<in> set (queued_runs (p_db p1))" for x
    using that admitServicesLocked_runs [OF p1(1)] assms(2)
    by (auto simp: d db_requests_def dest: queued_runs_sub)
  then have "?G (ledger_of p1) (ledger_of p')"
    by (intro rfold_invariant [OF p1(2), where P = "\<lambda>q. ?G (ledger_of p1) (ledger_of q)"])
       (simp, erule rtranclp_trans, erule admit_run_grants, simp)
  with one show ?thesis by (rule rtranclp_trans)
qed

section \<open>The start of a pass is well-formed\<close>

definition wf_snapshot :: "'q::linordered_ab_group_add ResourceSnapshot \<Rightarrow> bool" where
  "wf_snapshot snapshot \<longleftrightarrow>
     (\<forall>node\<in>set (rs_nodes snapshot). wf_rl (rn_allocatable node)) \<and>
     (\<forall>a\<in>set (rs_allocations snapshot). wf_map (ra_requests a))"

definition wf_capacities :: "(string, err + 'q::linordered_ab_group_add resource_list) gomap \<Rightarrow> bool" where
  "wf_capacities results \<longleftrightarrow> (\<forall>(pool, result)\<in>set results. \<forall>c. result = Inr c \<longrightarrow> wf_rl c)"

lemma foldl_invariant:
  "P s \<Longrightarrow> (\<And>t x. P t \<Longrightarrow> x \<in> set xs \<Longrightarrow> P (f t x)) \<Longrightarrow> P (foldl f s xs)"
  by (induction xs arbitrary: s) auto

lemma subtract_first_wf:
  "\<forall>n\<in>set nodes. wf_rl (na_available n) \<Longrightarrow> wf_map r \<Longrightarrow>
     \<forall>n\<in>set (subtract_first name r nodes). wf_rl (na_available n)"
  by (induction nodes) auto

lemma newNodeState_wf: "wf_snapshot snapshot \<Longrightarrow> wf_nodes (newNodeState snapshot)"
  unfolding wf_nodes_def newNodeState_def Let_def nodeState.simps
  by (rule foldl_invariant) (auto simp: wf_snapshot_def intro: subtract_first_wf [rule_format])

lemma budget_entry_wf:
  assumes "wf_state t" "\<And>c. result = Inr c \<Longrightarrow> wf_rl c" "wf_map u"
  shows "wf_state (case result of Inl e \<Rightarrow> t\<lparr>as_unavailable := AList.update pool e (as_unavailable t)\<rparr>
      | Inr capacity \<Rightarrow> if capacity = [] then t
          else t\<lparr>as_overrides := AList.update pool
                 \<lparr>rb_remaining = subtractList (copyList capacity) u\<rparr> (as_overrides t)\<rparr>)"
  using assms by (cases result) (auto simp: wf_state_def wf_budget_def update_conv' split: if_splits)

lemma newAdmissionState_wf:
  assumes "wf_snapshot snapshot" "wf_capacities results"
  shows "wf_state (newAdmissionState snapshot results usage)"
proof -
  let ?used = "foldl (\<lambda>m ((tenant, pool), resources).
      AList.update pool (sumLists (case map_of m pool of None \<Rightarrow> [] | Some r \<Rightarrow> r) resources) m) [] usage"
  have used: "\<forall>pool r. map_of ?used pool = Some r \<longrightarrow> wf_map r"
    by (rule foldl_invariant) (auto split: option.splits if_splits)
  show ?thesis
    unfolding newAdmissionState_def Let_def
  proof (rule foldl_invariant)
    show "wf_state \<lparr>as_nodes = newNodeState snapshot, as_overrides = [], as_unavailable = []\<rparr>"
      using assms(1) by (simp add: wf_state_def newNodeState_wf)
  next
    fix t :: "'a admissionState" and x :: "string \<times> (err + 'a resource_list)"
    assume "wf_state t" "x \<in> set results"
    with assms(2) used show "wf_state (case x of (pool, result) \<Rightarrow>
        case result of Inl e \<Rightarrow> t\<lparr>as_unavailable := AList.update pool e (as_unavailable t)\<rparr>
        | Inr capacity \<Rightarrow> if capacity = [] then t
            else t\<lparr>as_overrides := AList.update pool
                   \<lparr>rb_remaining = subtractList (copyList capacity)
                      (case map_of ?used pool of None \<Rightarrow> [] | Some r \<Rightarrow> r)\<rparr> (as_overrides t)\<rparr>)"
      by (cases x) (simp only: prod.case, rule budget_entry_wf,
        auto simp: wf_capacities_def split: option.split)
  qed
qed

lemma collect_in: "collect f xs = Inr ys \<Longrightarrow> y \<in> set ys \<Longrightarrow> \<exists>x\<in>set xs. f x = Inr y"
  by (induction xs arbitrary: ys) (auto split: sum.splits)

lemma serviceWorkload_requests:
  "serviceWorkload row = Inr w \<Longrightarrow> svc_requests Q row \<Longrightarrow> role \<in> set (w_roles w) \<Longrightarrow> Q (rr_requests role)"
  by (cases "json_decode (svc_spec row)")
     (auto simp: serviceWorkload_def serviceWorkloadFor_def stableRoleOrder_def svc_requests_def Let_def)

lemma loadActive_requests:
  assumes "loadActive fault d allocations = Inr (active, usage, counts)" "db_requests Q d"
    and "w \<in> set active" "role \<in> set (w_roles w)"
  shows "Q (rr_requests role)"
proof -
  from assms(1) obtain rs ss where "active = rs @ ss"
      "collect runWorkload (filter active_run (mlruns d)) = Inr rs"
      "collect serviceWorkload (filter active_service (mlservices d)) = Inr ss"
    by (auto simp: loadActive_def Let_def split: option.splits sum.splits prod.splits)
  with assms(2-4) show ?thesis
    by (fastforce simp: db_requests_def dest: collect_in runWorkload_requests serviceWorkload_requests)
qed

lemma reserve_missing_roles_wf:
  "wf_state s \<Longrightarrow> \<forall>role\<in>set roles. wf_map (rr_requests role) \<Longrightarrow>
     wf_state (reserve_missing_roles counts w s roles)"
proof (induction roles arbitrary: s)
  case (Cons role roles)
  obtain t ok where t: "admissionState_reserveMissing s (w_pool w) (rr_requests role)
      (rr_replicas role - aget counts (w_id w) (rr_name role)) (w_nodeSelector w) (w_tolerations w) = (t, ok)"
    by fastforce
  with Cons.prems have "wf_state t" by (auto intro: admissionState_reserveMissing_wf)
  with Cons t show ?case by (cases ok) (simp_all add: Let_def)
qed simp

lemma reserve_active_wf:
  assumes "wf_state s" "\<And>w role. w \<in> set active \<Longrightarrow> role \<in> set (w_roles w) \<Longrightarrow> wf_map (rr_requests role)"
  shows "wf_state (reserve_active counts s active)"
  unfolding reserve_active_def
  by (rule foldl_invariant) (use assms in \<open>auto intro: reserve_missing_roles_wf\<close>)

lemma pass_start_wf:
  assumes "loadActive fault d (rs_allocations snapshot) = Inr loaded"
    and "wf_snapshot snapshot" "wf_capacities capacities" "db_requests wf_rl d"
  shows "wf_state (p_capacity (pass_start d snapshot capacities loaded))"
proof -
  obtain active usage counts where l: "loaded = (active, usage, counts)" by (cases loaded)
  have "wf_rl (rr_requests role)" if "w \<in> set active" "role \<in> set (w_roles w)" for w role
    using assms(1,4) that unfolding l by (rule loadActive_requests)
  then show ?thesis
    by (simp add: l pass_start_def reserve_active_wf newAdmissionState_wf assms(2,3))
qed

end
