(* ===== verification/Tables.thy ===== *)
theory Tables
  imports Refinement
begin

text \<open>
  What an admission pass does to the rows: it writes only the phase, status, \<open>updated_at\<close>
  and (for services) \<open>admitted_replicas\<close> columns, moves a phase only from Queued to
  Creating, and leaves no row waiting without a reason. The lemmas use that \<open>id\<close> is the
  primary key of both tables.
\<close>

section \<open>Runs\<close>

definition run_frame :: "'q MLRun \<Rightarrow> 'q MLRun \<Rightarrow> bool" where
  "run_frame r r' \<longleftrightarrow>
     r' = r\<lparr>run_phase := run_phase r', run_status := run_status r', run_updatedAt := run_updatedAt r'\<rparr> \<and>
     (run_phase r' = run_phase r \<or> queued_run r \<and> run_phase r' = RunCreating)"

definition queue_reason :: "'q MLRun \<Rightarrow> string" where
  "queue_reason r = rst_queueReason (json_lenient zero_run_status (run_status r))"

lemma run_frame_refl [simp]: "run_frame r r"
  by (simp add: run_frame_def)

lemma run_frame_id: "run_frame r r' \<Longrightarrow> run_id r' = run_id r"
  by (cases r, cases r') (simp add: run_frame_def)

lemma run_frame_trans: "run_frame a b \<Longrightarrow> run_frame b c \<Longrightarrow> run_frame a c"
  by (cases a, cases b, cases c) (auto simp: run_frame_def queued_run_def)

lemma queue_reason_status [simp]:
  "run_status r = statusWithQueue raw reason message \<Longrightarrow> queue_reason r = reason"
  by (simp add: queue_reason_def statusWithQueue_def)

text \<open>The state of the run table while a run \<open>run\<close> is processed, and what comes of it.\<close>

lemma note_run_row:
  assumes "note_run fault now p run reason message = Inr p'"
    and "distinct (map run_id (mlruns (p_db p)))" "run \<in> set (mlruns (p_db p))" "queued_run run"
  shows "\<exists>r'. mlruns (p_db p') = update_row run_id (run_id run) r' (mlruns (p_db p)) \<and>
     run_frame run r' \<and> run_phase r' = RunQueued \<and> queue_reason r' = reason"
proof -
  let ?nxt = "statusWithQueue (run_status run) reason message"
  from assms(1) obtain d where d: "setQueueReason fault now (p_db p) run reason message = Inr d"
      "p' = p\<lparr>p_db := d\<rparr>" by (auto simp: note_run_def split: sum.splits)
  show ?thesis
  proof (cases "?nxt = run_status run")
    case True
    with d(1) have "d = p_db p" by (simp add: setQueueReason_def)
    with True assms(2-4) show ?thesis
      by (intro exI [of _ run])
         (auto simp: d(2) update_row_same queued_run_def intro!: queue_reason_status dest: sym)
  next
    case False
    let ?r = "run\<lparr>run_status := ?nxt, run_updatedAt := now\<rparr>"
    from False d(1) have "mlruns d = update_where (\<lambda>r. run_id r = run_id run \<and> run_phase r = RunQueued)
        (\<lambda>r. r\<lparr>run_status := ?nxt, run_updatedAt := now\<rparr>) (mlruns (p_db p))"
      by (auto simp: setQueueReason_def Let_def split: option.splits)
    also have "\<dots> = update_row run_id (run_id run) ?r (mlruns (p_db p))"
      using assms(4) by (simp add: update_where_key [OF assms(2,3)] queued_run_def)
    finally show ?thesis using assms(4)
      by (intro exI [of _ ?r]) (simp add: d(2) run_frame_def queued_run_def)
  qed
qed

lemma commit_run_row:
  assumes "commit_run fault now p run key requested trial = Inr p'"
    and "distinct (map run_id (mlruns (p_db p)))" "run \<in> set (mlruns (p_db p))" "queued_run run"
  shows "\<exists>r'. mlruns (p_db p') = update_row run_id (run_id run) r' (mlruns (p_db p)) \<and>
     run_frame run r' \<and> run_phase r' = RunCreating"
    and "ledger_of p' = (trial, usage_add (p_usage p) key requested)"
proof -
  let ?r = "run\<lparr>run_phase := RunCreating, run_status := statusWithQueue (run_status run) [] [],
     run_updatedAt := now\<rparr>"
  let ?P = "\<lambda>r. run_phase r = RunQueued \<and> run_deletedAt r = None"
  have hit: "rows_affected (\<lambda>r. run_id r = run_id run \<and> ?P r) (mlruns (p_db p)) = 1"
    using assms(4) rows_affected_key [OF assms(2,3), of ?P] by (simp add: queued_run_def)
  have "update_where (\<lambda>r. run_id r = run_id run \<and> ?P r)
      (\<lambda>r. r\<lparr>run_phase := RunCreating, run_status := statusWithQueue (run_status run) [] [], run_updatedAt := now\<rparr>)
      (mlruns (p_db p)) = update_row run_id (run_id run) ?r (mlruns (p_db p))"
    using assms(4) update_where_key [OF assms(2,3), of ?P] by (simp add: queued_run_def)
  then have "mlruns (p_db p') = update_row run_id (run_id run) ?r (mlruns (p_db p))"
    using assms(1) by (auto simp: commit_run_def Let_def split: option.splits if_splits)
  then show "\<exists>r'. mlruns (p_db p') = update_row run_id (run_id run) r' (mlruns (p_db p)) \<and>
     run_frame run r' \<and> run_phase r' = RunCreating"
    using assms(4) by (intro exI [of _ ?r]) (simp add: run_frame_def)
  show "ledger_of p' = (trial, usage_add (p_usage p) key requested)"
    using assms(1) hit by (auto simp: commit_run_def ledger_of_def Let_def split: option.splits)
qed

lemma admit_run_row:
  assumes "admit_run fault now quotas p run = Inr p'"
    and "distinct (map run_id (mlruns (p_db p)))" "run \<in> set (mlruns (p_db p))" "queued_run run"
  shows "\<exists>r'. mlruns (p_db p') = update_row run_id (run_id run) r' (mlruns (p_db p)) \<and>
     run_frame run r' \<and> (run_phase r' = RunCreating \<or> run_phase r' = RunQueued \<and> queue_reason r' \<noteq> [])"
proof -
  from assms(1) obtain w where w: "runWorkload run = Inr w"
    by (auto simp: admit_run_def split: sum.splits)
  obtain trial placed why where pl: "place_roles (w_pool w) (w_nodeSelector w) (w_tolerations w)
      (p_capacity p) (w_roles w) = (trial, placed, why)"
    by (cases "place_roles (w_pool w) (w_nodeSelector w) (w_tolerations w) (p_capacity p) (w_roles w)")
  have "\<not> placed \<Longrightarrow> why \<noteq> []" using pl by (auto dest: place_roles_reason)
  with assms(1) w pl consider
      reason message where "note_run fault now p run reason message = Inr p'" "reason \<noteq> []"
    | key requested where "commit_run fault now p run key requested trial = Inr p'"
    by (auto simp: admit_run_def Let_def split: option.splits sum.splits if_splits)
  then show ?thesis
  proof cases
    case 1
    from note_run_row [OF 1(1) assms(2-4)] 1(2) show ?thesis by auto
  next
    case 2
    from commit_run_row(1) [OF 2 assms(2-4)] show ?thesis by auto
  qed
qed

lemma admit_run_services [frame_simps]:
  "admit_run fault now quotas p run = Inr p' \<Longrightarrow> mlservices (p_db p') = mlservices (p_db p)"
  by (auto simp: admit_run_def commit_run_def Let_def dest: note_run_services
           split: option.splits sum.splits if_splits prod.splits)

text \<open>The loop over the queue: \<open>rest\<close> are the runs still to come, untouched so far.\<close>

definition run_progress :: "'q db \<Rightarrow> 'q pass \<Rightarrow> 'q MLRun list \<Rightarrow> bool" where
  "run_progress d p rest \<longleftrightarrow>
     list_all2 run_frame (mlruns d) (mlruns (p_db p)) \<and>
     mlservices (p_db p) = mlservices d \<and>
     distinct (map run_id (mlruns (p_db p))) \<and> distinct (map run_id rest) \<and>
     (\<forall>x\<in>set rest. x \<in> set (mlruns (p_db p)) \<and> queued_run x) \<and>
     (\<forall>r\<in>set (mlruns (p_db p)). queued_run r \<longrightarrow> r \<in> set rest \<or> queue_reason r \<noteq> [])"

lemma run_progress_step:
  assumes "run_progress d p (x # rest)" "admit_run fault now quotas p x = Inr p'"
  shows "run_progress d p' rest"
proof -
  from assms(1) have inv: "list_all2 run_frame (mlruns d) (mlruns (p_db p))"
    "distinct (map run_id (mlruns (p_db p)))" "x \<in> set (mlruns (p_db p))" "queued_run x"
    "\<forall>y\<in>set rest. run_id y \<noteq> run_id x" "distinct (map run_id rest)"
    "\<forall>y\<in>set rest. y \<in> set (mlruns (p_db p)) \<and> queued_run y"
    "\<forall>r\<in>set (mlruns (p_db p)). queued_run r \<longrightarrow> r = x \<or> r \<in> set rest \<or> queue_reason r \<noteq> []"
    "mlservices (p_db p) = mlservices d"
    by (auto simp: run_progress_def image_iff)
  from admit_run_row [OF assms(2) inv(2-4)] obtain r' where
    r': "mlruns (p_db p') = update_row run_id (run_id x) r' (mlruns (p_db p))" "run_frame x r'"
      "run_phase r' = RunCreating \<or> run_phase r' = RunQueued \<and> queue_reason r' \<noteq> []" by blast
  have key: "run_id r' = run_id x" using r'(2) by (rule run_frame_id)
  have "list_all2 run_frame (mlruns (p_db p)) (mlruns (p_db p'))"
    unfolding r'(1) by (rule list_all2_update_row [where R = run_frame, OF inv(2,3) r'(2)]) simp
  with inv(1) have frame: "list_all2 run_frame (mlruns d) (mlruns (p_db p'))"
    using list_all2_trans run_frame_trans by blast
  have rest: "y \<in> set (mlruns (p_db p'))" if "y \<in> set rest" for y
    using that inv(5,7) unfolding r'(1) by (intro update_row_keep) auto
  have waiting: "r \<in> set rest \<or> queue_reason r \<noteq> []" if "r \<in> set (mlruns (p_db p'))" "queued_run r" for r
    using that inv(8) r'(3) unfolding r'(1) by (auto simp: queued_run_def dest!: set_update_row)
  have keys: "map run_id (mlruns (p_db p')) = map run_id (mlruns (p_db p))"
    by (simp add: r'(1) key)
  from frame rest waiting keys inv(2,6,7,9) admit_run_services [OF assms(2)] show ?thesis
    by (simp add: run_progress_def)
qed

lemma run_progress_start:
  "distinct (map run_id (mlruns (p_db p))) \<Longrightarrow> run_progress (p_db p) p (queued_runs (p_db p))"
proof -
  assume d: "distinct (map run_id (mlruns (p_db p)))"
  let ?q = "filter queued_run (mlruns (p_db p))"
  have "mset (map run_id (sort_by run_before ?q)) = mset (map run_id ?q)" by simp
  moreover have "distinct (map run_id ?q)" using d by (rule distinct_map_filter)
  ultimately have "distinct (map run_id (sort_by run_before ?q))" by (metis mset_eq_imp_distinct_iff)
  with d show ?thesis by (simp add: run_progress_def queued_runs_def list.rel_refl_strong)
qed

section \<open>Services\<close>

definition svc_frame :: "'q MLService \<Rightarrow> 'q MLService \<Rightarrow> bool" where
  "svc_frame s s' \<longleftrightarrow>
     s' = s\<lparr>svc_phase := svc_phase s', svc_admitted := svc_admitted s',
            svc_status := svc_status s', svc_updatedAt := svc_updatedAt s'\<rparr> \<and>
     (svc_phase s' = svc_phase s \<or> svc_phase s = SvcQueued \<and> svc_phase s' = SvcCreating)"

definition admitted_of :: "'q MLService \<Rightarrow> 'q MLServiceSpec \<Rightarrow> int list" where
  "admitted_of s spec = Decode (svc_admitted s) (length (ss_roles spec)) (Desired (role_counts spec))"

text \<open>The reservation of a service lies within its desired vector.\<close>

definition svc_reserved :: "'q MLService \<Rightarrow> bool" where
  "svc_reserved s \<longleftrightarrow>
     (\<forall>spec. svc_spec s = JOk spec \<longrightarrow> reserved_within (admitted_of s spec) (Desired (role_counts spec)))"

text \<open>No role loses an admitted replica.\<close>

definition svc_grown :: "'q MLService \<Rightarrow> 'q MLService \<Rightarrow> bool" where
  "svc_grown s s' \<longleftrightarrow>
     (\<forall>spec. svc_spec s = JOk spec \<longrightarrow>
        (\<forall>i<length (ss_roles spec). admitted_of s spec ! i \<le> admitted_of s' spec ! i))"

definition admission_reason :: "'q MLService \<Rightarrow> string" where
  "admission_reason s = sst_admissionReason (json_lenient zero_svc_status (svc_status s))"

text \<open>Fully admitted and on its way to the runtime, or waiting for a stated reason.\<close>

definition svc_settled :: "'q MLService \<Rightarrow> bool" where
  "svc_settled s \<longleftrightarrow>
     (\<forall>spec. svc_spec s = JOk spec \<longrightarrow>
        admitted_of s spec = Desired (role_counts spec) \<and> svc_phase s \<noteq> SvcQueued
        \<or> admission_reason s \<noteq> [])"

lemma svc_frame_refl [simp]: "svc_frame s s"
  by (simp add: svc_frame_def)

lemma svc_frame_keeps:
  assumes "svc_frame s s'"
  shows "svc_id s' = svc_id s" "svc_spec s' = svc_spec s" "svc_deletedAt s' = svc_deletedAt s"
  using assms by (cases s, cases s', simp add: svc_frame_def)+

lemma svc_frame_trans: "svc_frame a b \<Longrightarrow> svc_frame b c \<Longrightarrow> svc_frame a c"
  by (cases a, cases b, cases c) (auto simp: svc_frame_def)

lemma svc_grown_refl [simp]: "svc_grown s s"
  by (simp add: svc_grown_def)

lemma svc_grown_trans:
  "svc_spec b = svc_spec a \<Longrightarrow> svc_grown a b \<Longrightarrow> svc_grown b c \<Longrightarrow> svc_grown a c"
  unfolding svc_grown_def by (metis order_trans)

lemma admission_reason_status:
  "svc_status s = serviceStatusWithAdmission raw reason message \<Longrightarrow> admission_reason s = reason"
  by (simp add: admission_reason_def serviceStatusWithAdmission_def)

text \<open>What processing a row does to the table: one row is written, in the columns admission owns.\<close>

definition svc_outcome :: "'q MLService list \<Rightarrow> 'q MLService \<Rightarrow> 'q MLService list \<Rightarrow> bool" where
  "svc_outcome table r table' \<longleftrightarrow>
     (\<exists>r'. table' = update_row svc_id (svc_id r) r' table \<and> svc_frame r r' \<and>
        svc_reserved r' \<and> svc_grown r r' \<and> svc_settled r')"

lemma note_service_row:
  assumes "note_service fault now p row reason message = Inr p'" "reason \<noteq> []"
    and "distinct (map svc_id (mlservices (p_db p)))" "r \<in> set (mlservices (p_db p))"
    and "row = r\<lparr>svc_updatedAt := u\<rparr>" "svc_deletedAt r = None" "svc_reserved r"
  shows "svc_outcome (mlservices (p_db p)) r (mlservices (p_db p'))"
proof -
  let ?nxt = "serviceStatusWithAdmission (svc_status r) reason message"
  from assms(1,5) obtain d where d: "setServiceAdmissionReason fault now (p_db p) row reason message = Inr d"
      "p' = p\<lparr>p_db := d\<rparr>" by (auto simp: note_service_def split: sum.splits)
  show ?thesis
  proof (cases "?nxt = svc_status r")
    case True
    with d(1) assms(5) have "d = p_db p" by (simp add: setServiceAdmissionReason_def)
    moreover have "svc_settled r"
      using admission_reason_status [OF True [symmetric]] assms(2) by (simp add: svc_settled_def)
    ultimately show ?thesis using assms(3,4,7)
      by (auto simp: svc_outcome_def d(2) update_row_same intro!: exI [of _ r])
  next
    case False
    let ?r = "r\<lparr>svc_status := ?nxt, svc_updatedAt := now\<rparr>"
    from False d(1) assms(5) have "mlservices d =
        update_where (\<lambda>x. svc_id x = svc_id r \<and> svc_deletedAt x = None)
          (\<lambda>x. x\<lparr>svc_status := ?nxt, svc_updatedAt := now\<rparr>) (mlservices (p_db p))"
      by (auto simp: setServiceAdmissionReason_def Let_def split: option.splits)
    also have "\<dots> = update_row svc_id (svc_id r) ?r (mlservices (p_db p))"
      by (simp add: update_where_key [OF assms(3,4)] assms(6))
    finally have "mlservices d = update_row svc_id (svc_id r) ?r (mlservices (p_db p))" .
    moreover have "svc_settled ?r"
      using admission_reason_status [of ?r] assms(2) by (simp add: svc_settled_def)
    moreover have "svc_reserved ?r" "svc_grown r ?r"
      using assms(7) by (auto simp: svc_reserved_def svc_grown_def admitted_of_def)
    ultimately show ?thesis
      by (auto simp: svc_outcome_def d(2) svc_frame_def intro!: exI [of _ ?r])
  qed
qed

text \<open>The loop variables agree with a row of the table.\<close>

definition loop_sync :: "'q MLServiceSpec \<Rightarrow> 'q svc_loop \<Rightarrow> 'q MLService \<Rightarrow> bool" where
  "loop_sync spec l r \<longleftrightarrow>
     distinct (map svc_id (mlservices (p_db (l_pass l)))) \<and> r \<in> set (mlservices (p_db (l_pass l))) \<and>
     l_row l = r\<lparr>svc_updatedAt := svc_updatedAt (l_row l)\<rparr> \<and> svc_deletedAt r = None \<and>
     svc_spec r = JOk spec \<and> l_admitted l = admitted_of r spec \<and> svc_reserved r \<and>
     (l_admitted l = Desired (role_counts spec) \<longrightarrow> svc_phase r \<noteq> SvcQueued)"

lemma reserved_nonneg: "reserved_within a d \<Longrightarrow> nonneg a"
  by (auto simp: reserved_within_def nonneg_def in_set_conv_nth)

text \<open>A granted round keeps the agreement.\<close>

lemma loop_sync_commit:
  assumes "loop_sync spec l r" "Next (l_admitted l) (Desired (role_counts spec)) = (nxt, inc)"
    and l'_def: "l' = commit_increment now l nxt key requested trial"
    and r'_def: "r' = admit_columns now (l_row l) nxt r"
  shows "loop_sync spec l' r'" "svc_frame r r'" "svc_grown r r'"
    "mlservices (p_db (l_pass l')) = update_row svc_id (svc_id r) r' (mlservices (p_db (l_pass l)))"
proof -
  let ?desired = "Desired (role_counts spec)"
  from assms(1) have sync: "distinct (map svc_id (mlservices (p_db (l_pass l))))"
    "r \<in> set (mlservices (p_db (l_pass l)))" "svc_deletedAt r = None" "svc_spec r = JOk spec"
    "l_admitted l = admitted_of r spec" "reserved_within (l_admitted l) ?desired"
    by (auto simp: loop_sync_def svc_reserved_def)
  from assms(1) have row: "l_row l = r\<lparr>svc_updatedAt := svc_updatedAt (l_row l)\<rparr>"
    by (simp add: loop_sync_def)
  have same: "svc_id (l_row l) = svc_id r" "svc_phase (l_row l) = svc_phase r"
    "svc_status (l_row l) = svc_status r"
    by (subst row, simp)+
  note step = Next_step [OF sync(6) assms(2)]
  have nxt: "admitted_of r' spec = nxt"
    using Decode_Encode [OF reserved_nonneg [OF step(1)]] step(1)
    by (simp add: admitted_of_def r'_def admit_columns_def Let_def reserved_within_def role_counts_def)
  show frame: "svc_frame r r'"
    by (simp add: r'_def admit_columns_def svc_frame_def same Let_def)
  show grown: "svc_grown r r'"
    using step(3) sync(4,5) nxt by (auto simp: svc_grown_def role_counts_def)
  show table: "mlservices (p_db (l_pass l')) = update_row svc_id (svc_id r) r' (mlservices (p_db (l_pass l)))"
    using update_where_key [OF sync(1,2), of "\<lambda>_. True"]
    by (simp add: l'_def r'_def commit_increment_def same Let_def)
  have "l_row l' = r'\<lparr>svc_updatedAt := svc_updatedAt (l_row l')\<rparr>"
    unfolding l'_def r'_def commit_increment_def admit_columns_def Let_def
    by (subst (1) row) (simp add: same)
  moreover have "svc_phase r' \<noteq> SvcQueued" by (simp add: r'_def admit_columns_def same Let_def)
  ultimately show "loop_sync spec l' r'"
    using sync(1-4) step(1) frame svc_frame_keeps [OF frame] nxt update_row_new [OF sync(2), of r' svc_id]
    by (simp add: loop_sync_def table svc_reserved_def) (simp add: l'_def)
qed

lemma svc_outcome_trans:
  assumes "table1 = update_row svc_id (svc_id r) r1 table" "svc_frame r r1" "svc_grown r r1"
    and "svc_outcome table1 r1 table2"
  shows "svc_outcome table r table2"
proof -
  from assms(4) obtain r2 where r2: "table2 = update_row svc_id (svc_id r1) r2 table1"
      "svc_frame r1 r2" "svc_reserved r2" "svc_grown r1 r2" "svc_settled r2"
    by (auto simp: svc_outcome_def)
  have t2: "table2 = update_row svc_id (svc_id r) r2 table"
    unfolding r2(1) assms(1) svc_frame_keeps(1) [OF assms(2)]
    by (rule update_row_twice) (simp add: svc_frame_keeps(1) [OF assms(2)])
  show ?thesis
    unfolding svc_outcome_def
    by (intro exI [of _ r2] conjI t2 svc_frame_trans [OF assms(2) r2(2)] r2(3,5)
        svc_grown_trans [OF svc_frame_keeps(2) [OF assms(2)] assms(3) r2(4)])
qed

lemma service_loop_row:
  assumes "service_loop fault now mx e spec target key (Desired (role_counts spec)) l = Inr p'"
    and "loop_sync spec l r"
  shows "svc_outcome (mlservices (p_db (l_pass l))) r (mlservices (p_db p'))"
  using assms
proof (induction arbitrary: r rule: service_loop_induct)
  case (finished l)
  let ?desired = "Desired (role_counts spec)"
  obtain nxt inc where n: "Next (l_admitted l) ?desired = (nxt, inc)" by (cases "Next (l_admitted l) ?desired")
  from finished(2) have "reserved_within (l_admitted l) ?desired"
    by (auto simp: loop_sync_def svc_reserved_def)
  from Next_step(5) [OF this n] finished(1) n have full: "l_admitted l = ?desired" by auto
  with finished(2) have "svc_settled r" by (auto simp: loop_sync_def svc_settled_def)
  with finished(2) show ?case
    by (auto simp: svc_outcome_def loop_sync_def update_row_same intro!: exI [of _ r])
next
  case (noted l reason message p')
  from noted(3) show ?case
    by (intro note_service_row [OF noted(1,2)]) (auto simp: loop_sync_def)
next
  case (granted l nxt inc trial why p')
  note c = loop_sync_commit [OF granted(7,1) refl refl]
  show ?case by (rule svc_outcome_trans [OF c(4,2,3) granted(6) [OF c(1)]])
qed

lemma admit_service_row:
  assumes "admit_service fault now quotas p row = Inr p'"
    and "distinct (map svc_id (mlservices (p_db p)))" "row \<in> set (mlservices (p_db p))"
    and "live_service row" "svc_reserved row"
  shows "svc_outcome (mlservices (p_db p)) row (mlservices (p_db p'))"
proof -
  from assms(1) obtain spec where spec: "svc_spec row = JOk spec"
    by (auto simp: admit_service_def split: option.splits)
  let ?desired = "Desired (role_counts spec)"
  let ?key = "(svc_namespace row, poolFromLabels (svc_labels row))"
  let ?target = "serviceWorkloadFor row spec ?desired"
  let ?l = "\<lparr>l_pass = p, l_row = row, l_admitted = admitted_of row spec\<rparr>"
  have live: "svc_deletedAt row = None" using assms(4) by (simp add: live_service_def)
  have "Decode (svc_admitted row) (length (ss_roles spec)) ?desired = admitted_of row spec"
    by (simp add: admitted_of_def)
  note eq = assms(1) [unfolded admit_service_def spec json_decode.simps option.case Let_def this Equal_iff]
  consider (complete) "admitted_of row spec = ?desired" "svc_phase row \<noteq> SvcQueued" "p' = p"
    | (empty) "admitted_of row spec = ?desired" "svc_phase row = SvcQueued"
        "mlservices (p_db p') = update_where (\<lambda>r. svc_id r = svc_id row)
           (\<lambda>r. r\<lparr>svc_phase := SvcCreating, svc_status := serviceStatusWithAdmission (svc_status row) [] [],
                  svc_updatedAt := now\<rparr>) (mlservices (p_db p))"
    | (noted) message where "note_service fault now p row ReasonQuotaUnavailable message = Inr p'"
    | (loop) mx e where "admitted_of row spec \<noteq> ?desired"
        "service_loop fault now mx e spec ?target ?key ?desired ?l = Inr p'"
  proof (cases "admitted_of row spec = ?desired")
    case True
    with eq that(1,2) show thesis by (auto split: if_splits option.splits)
  next
    case False
    with eq that(3,4) show thesis
      by (cases "map_of quotas ?key"; cases "the (map_of quotas ?key)") simp_all
  qed
  then show ?thesis
  proof cases
    case complete
    with spec assms(2,3,5) show ?thesis
      by (auto simp: svc_outcome_def update_row_same svc_settled_def intro!: exI [of _ row])
  next
    case empty
    let ?r = "row\<lparr>svc_phase := SvcCreating, svc_status := serviceStatusWithAdmission (svc_status row) [] [],
       svc_updatedAt := now\<rparr>"
    have "mlservices (p_db p') = update_row svc_id (svc_id row) ?r (mlservices (p_db p))"
      using update_where_key [OF assms(2,3), of "\<lambda>_. True"] empty(3) by simp
    moreover have "svc_reserved ?r" "svc_grown row ?r" "svc_settled ?r"
      using assms(5) empty(1) spec by (auto simp: svc_reserved_def svc_grown_def svc_settled_def admitted_of_def)
    ultimately show ?thesis
      using empty(2) by (auto simp: svc_outcome_def svc_frame_def intro!: exI [of _ ?r])
  next
    case noted
    show ?thesis
      by (rule note_service_row [OF noted _ assms(2,3) _ live assms(5), of "svc_updatedAt row"]) simp_all
  next
    case loop
    have "loop_sync spec ?l row"
      using assms(2,3,5) live spec loop(1) by (simp add: loop_sync_def)
    from service_loop_row [OF loop(2) this] show ?thesis by simp
  qed
qed

text \<open>The loop over the live services.\<close>

definition svc_progress :: "'q db \<Rightarrow> 'q pass \<Rightarrow> 'q MLService list \<Rightarrow> bool" where
  "svc_progress d p rest \<longleftrightarrow>
     list_all2 (\<lambda>s s'. svc_frame s s' \<and> svc_grown s s') (mlservices d) (mlservices (p_db p)) \<and>
     distinct (map svc_id (mlservices (p_db p))) \<and> distinct (map svc_id rest) \<and>
     (\<forall>x\<in>set rest. x \<in> set (mlservices (p_db p)) \<and> live_service x) \<and>
     (\<forall>s\<in>set (mlservices (p_db p)). svc_reserved s) \<and>
     (\<forall>s\<in>set (mlservices (p_db p)). live_service s \<longrightarrow> s \<in> set rest \<or> svc_settled s)"

lemma svc_progress_step:
  assumes "svc_progress d p (x # rest)" "admit_service fault now quotas p x = Inr p'"
  shows "svc_progress d p' rest"
proof -
  let ?R = "\<lambda>s s'. svc_frame s s' \<and> svc_grown s s'"
  from assms(1) have inv: "list_all2 ?R (mlservices d) (mlservices (p_db p))"
    "distinct (map svc_id (mlservices (p_db p)))" "x \<in> set (mlservices (p_db p))" "live_service x"
    "\<forall>y\<in>set rest. svc_id y \<noteq> svc_id x" "distinct (map svc_id rest)"
    "\<forall>y\<in>set rest. y \<in> set (mlservices (p_db p)) \<and> live_service y"
    "\<forall>s\<in>set (mlservices (p_db p)). svc_reserved s"
    "\<forall>s\<in>set (mlservices (p_db p)). live_service s \<longrightarrow> s = x \<or> s \<in> set rest \<or> svc_settled s"
    by (auto simp: svc_progress_def image_iff)
  from admit_service_row [OF assms(2) inv(2-4)] inv(3,8) obtain r' where
    r': "mlservices (p_db p') = update_row svc_id (svc_id x) r' (mlservices (p_db p))" "svc_frame x r'"
      "svc_reserved r'" "svc_grown x r'" "svc_settled r'" by (auto simp: svc_outcome_def)
  have now: "list_all2 ?R (mlservices (p_db p)) (mlservices (p_db p'))"
    unfolding r'(1) by (rule list_all2_update_row [where R = ?R, OF inv(2,3)]) (simp_all add: r')
  have frame: "list_all2 ?R (mlservices d) (mlservices (p_db p'))"
    by (rule list_all2_trans [OF _ inv(1) now])
       (blast intro: svc_frame_trans svc_grown_trans svc_frame_keeps(2))
  have rest: "y \<in> set (mlservices (p_db p'))" if "y \<in> set rest" for y
    using that inv(5,7) unfolding r'(1) by (intro update_row_keep) auto
  have all: "svc_reserved s \<and> (live_service s \<longrightarrow> s \<in> set rest \<or> svc_settled s)"
    if "s \<in> set (mlservices (p_db p'))" for s
    using that inv(8,9) r'(3,5) unfolding r'(1) by (auto dest!: set_update_row)
  have keys: "map svc_id (mlservices (p_db p')) = map svc_id (mlservices (p_db p))"
    by (simp add: r'(1) svc_frame_keeps(1) [OF r'(2)])
  from frame rest all keys inv(2,6,7) show ?thesis by (simp add: svc_progress_def)
qed

lemma svc_progress_start:
  assumes "distinct (map svc_id (mlservices (p_db p)))" "\<forall>s\<in>set (mlservices (p_db p)). svc_reserved s"
  shows "svc_progress (p_db p) p (live_services (p_db p))"
proof -
  let ?q = "filter live_service (mlservices (p_db p))"
  have "mset (map svc_id (sort_by svc_before ?q)) = mset (map svc_id ?q)" by simp
  moreover have "distinct (map svc_id ?q)" using assms(1) by (rule distinct_map_filter)
  ultimately have "distinct (map svc_id (sort_by svc_before ?q))" by (metis mset_eq_imp_distinct_iff)
  with assms show ?thesis by (simp add: svc_progress_def live_services_def list.rel_refl_strong)
qed

end
