(* ===== verification/AdmissionProps.thy ===== *)
theory AdmissionProps
  imports Tables
begin

text \<open>
  The correctness properties of admission: quota safety, no overcommitment, the columns a pass
  may write, no silent waiting, and the packing and queueing orders. Each property that has a
  hypothesis is followed by its application to a small concrete cluster.
\<close>

section \<open>A concrete cluster\<close>

text \<open>Two nodes, one queued run of two replicas and one queued service; quantities are integers.\<close>

definition ex_template :: "int \<Rightarrow> int PodTemplate" where
  "ex_template cpu = template_of ''img'' [(''cpu'', cpu)]"

definition ex_scheduling :: Scheduling where
  "ex_scheduling = \<lparr>sch_quota = ''q'', sch_priorityClass = [], sch_nodeSelector = [], sch_tolerations = []\<rparr>"

definition ex_backend :: Backend where
  "ex_backend = \<lparr>be_name = ''native'', be_engine = ''job'', be_config = None\<rparr>"

definition ex_role :: "string \<Rightarrow> int \<Rightarrow> int \<Rightarrow> int RoleSpec" where
  "ex_role name replicas cpu =
     \<lparr>role_name = name, role_replicas = replicas, role_restartPolicy = [], role_template = ex_template cpu\<rparr>"

definition ex_run :: "string \<Rightarrow> int \<Rightarrow> int \<Rightarrow> int \<Rightarrow> int MLRun" where
  "ex_run i priority replicas cpu =
     \<lparr>run_id = i, run_namespace = ''t'', run_name = i, run_displayName = [], run_description = [],
      run_owner = [], run_labels = JOk [(LabelResourcePool, ''p'')], run_annotations = JOk [],
      run_spec = JOk \<lparr>rs_backend = ex_backend, rs_scheduling = ex_scheduling, rs_configMaps = [],
         rs_roles = [ex_role ''worker'' replicas cpu],
         rs_runPolicy = \<lparr>rp_suspend = False, rp_activeDeadlineSeconds = None,
            rp_ttlSecondsAfterFinished = None, rp_backoffLimit = None\<rparr>\<rparr>,
      run_priority = priority, run_phase = RunQueued, run_status = JOk zero_run_status,
      run_scheduledAt = None, run_createdAt = 0, run_updatedAt = 0, run_deletedAt = None\<rparr>"

definition ex_service :: "int \<Rightarrow> int \<Rightarrow> int MLService" where
  "ex_service replicas cpu =
     \<lparr>svc_id = ''s'', svc_namespace = ''t'', svc_kind = ''service'', svc_name = ''s'', svc_displayName = [],
      svc_description = [], svc_owner = [], svc_labels = JOk [(LabelResourcePool, ''p'')],
      svc_annotations = JOk [],
      svc_spec = JOk \<lparr>ss_backend = ex_backend, ss_scheduling = ex_scheduling, ss_configMaps = [],
         ss_roles = [ex_role ''predictor'' replicas cpu], ss_progressDeadlineSeconds = None, ss_route = None\<rparr>,
      svc_admitted = JOk [0], svc_dispatched = JOk [0], svc_generation = 1, svc_observedGeneration = 0,
      svc_phase = SvcQueued, svc_status = JOk zero_svc_status, svc_createdAt = 0, svc_updatedAt = 0,
      svc_deletedAt = None\<rparr>"

definition ex_db :: "int db" where
  "ex_db = \<lparr>mlruns = [ex_run ''a'' 0 2 2, ex_run ''b'' 7 2 1], mlservices = [ex_service 2 1]\<rparr>"

definition ex_node :: "string \<Rightarrow> int \<Rightarrow> int ResourceNode" where
  "ex_node name cpu = \<lparr>rn_name = name, rn_labels = [], rn_taints = [], rn_allocatable = [(''cpu'', cpu)]\<rparr>"

definition ex_snapshot :: "int ResourceSnapshot" where
  "ex_snapshot = \<lparr>rs_observedAt = 0, rs_sourceVersion = [], rs_nodes = [ex_node ''n1'' 4, ex_node ''n2'' 3],
     rs_allocations = []\<rparr>"

definition ex_quotas :: "int quotas" where
  "ex_quotas = [((''t'', ''p''), Inr [(''cpu'', 6)])]"

definition ex_fault :: "stmt \<Rightarrow> err option" where
  "ex_fault st = None"

definition ex_pass :: "int pass" where
  "ex_pass = projr (admitLocked ex_fault 5 ex_db ex_snapshot ex_quotas [])"

lemmas ex_defs = ex_template_def ex_scheduling_def ex_backend_def ex_role_def ex_run_def ex_service_def
  ex_db_def ex_node_def ex_snapshot_def ex_quotas_def ex_fault_def

lemma ex_pass_runs: "\<not> isl (admitLocked ex_fault 5 ex_db ex_snapshot ex_quotas [])"
  by code_simp

lemma ex_loaded: "loadActive ex_fault ex_db (rs_allocations ex_snapshot) = Inr ([], [], [])"
  by code_simp

lemma ex_pass: "admitLocked ex_fault 5 ex_db ex_snapshot ex_quotas [] = Inr ex_pass"
  using ex_pass_runs by (simp add: ex_pass_def)

lemma ex_pass_phases: "map run_phase (mlruns (p_db ex_pass)) = [RunQueued, RunCreating]"
  by code_simp

lemma ex_pass_usage: "p_usage ex_pass = [((''t'', ''p''), [(''cpu'', 4)])]"
  by code_simp

lemma ex_wf: "wf_snapshot ex_snapshot" "wf_capacities []" "db_requests wf_rl ex_db"
  by (simp_all add: ex_defs wf_snapshot_def wf_capacities_def db_requests_def run_requests_def
        svc_requests_def wf_rl_def)

section \<open>Quota\<close>



section \<open>Capacity\<close>

lemma diff_le_self_nonneg: "0 \<le> b \<Longrightarrow> a - b \<le> (a :: 'a::linordered_ab_group_add)"
  by simp



definition ex_start :: "int pass" where
  "ex_start = pass_start ex_db ex_snapshot [] ([], [], [])"

lemma ex_start_level: "node_level (as_nodes (p_capacity ex_start)) ''cpu'' = 7"
  by code_simp


section \<open>What a pass writes\<close>

lemma ex_keys:
  "distinct (map run_id (mlruns ex_db))" "distinct (map svc_id (mlservices ex_db))"
  "\<forall>s\<in>set (mlservices ex_db). svc_reserved s"
  by (simp_all add: ex_defs svc_reserved_def admitted_of_def reserved_within_def Decode_def Desired_def
        role_counts_def Let_def nth_Cons')

text \<open>Both loops of a pass, as their progress invariants with nothing left to do.\<close>

lemma admitServicesLocked_progress:
  assumes "admitServicesLocked fault now quotas p = Inr p1"
    and "distinct (map svc_id (mlservices (p_db p)))" "\<forall>s\<in>set (mlservices (p_db p)). svc_reserved s"
  shows "svc_progress (p_db p) p1 []"
proof -
  from assms(1) have "rfold (admit_service fault now quotas) p (live_services (p_db p)) = Inr p1"
    by (auto simp: admitServicesLocked_def split: option.splits)
  then show ?thesis
    by (rule rfold_invariant_rest [where I = "svc_progress (p_db p)"])
       (rule svc_progress_start [OF assms(2,3)], rule svc_progress_step)
qed

lemma admitLocked_progress:
  assumes "admitLocked fault now d snapshot quotas capacities = Inr p"
    and "distinct (map run_id (mlruns d))" "distinct (map svc_id (mlservices d))"
    and "\<forall>s\<in>set (mlservices d). svc_reserved s"
  obtains p1 where "svc_progress d p1 []" "mlruns (p_db p1) = mlruns d" "run_progress (p_db p1) p []"
proof -
  from assms(1) obtain loaded p1
    where p1: "admitServicesLocked fault now quotas (pass_start d snapshot capacities loaded) = Inr p1"
      "rfold (admit_run fault now quotas) p1 (queued_runs (p_db p1)) = Inr p"
    by (rule admitLocked_split)
  have d: "p_db (pass_start d snapshot capacities loaded) = d"
    by (simp add: pass_start_def split: prod.split)
  have runs: "mlruns (p_db p1) = mlruns d"
    using admitServicesLocked_runs [OF p1(1)] by (simp add: d)
  have "svc_progress d p1 []"
    using admitServicesLocked_progress [OF p1(1)] assms(3,4) by (simp add: d)
  moreover have "run_progress (p_db p1) p []"
    by (rule rfold_invariant_rest [OF p1(2), where I = "run_progress (p_db p1)"])
       (rule run_progress_start, simp add: runs assms(2), rule run_progress_step)
  ultimately show ?thesis using runs that by blast
qed





section \<open>The loop of a service ends\<close>

text \<open>One iteration of \<open>for !Equal(admitted, desired)\<close> that admits an increment and goes on.\<close>

inductive loop_iter ::
  "(stmt \<Rightarrow> err option) \<Rightarrow> nat \<Rightarrow> 'q::linordered_ab_group_add resource_list \<Rightarrow> 'q MLServiceSpec \<Rightarrow> 'q desiredWorkload \<Rightarrow>
   quotaKey \<Rightarrow> int list \<Rightarrow> 'q svc_loop \<Rightarrow> 'q svc_loop \<Rightarrow> bool"
  for fault now mx spec target key desired where
  iterate: "\<not> Equal (l_admitted l) desired \<Longrightarrow> Next (l_admitted l) desired = (nxt, increased) \<Longrightarrow> increased \<noteq> [] \<Longrightarrow>
    requested = totalRequests (increment spec increased) \<Longrightarrow> \<not> exceeds requested mx \<Longrightarrow>
    \<not> exceeds (sumLists (uget (p_usage (l_pass l)) key) requested) mx \<Longrightarrow>
    place_roles (w_pool target) (w_nodeSelector target) (w_tolerations target) (admissionState_clone (p_capacity (l_pass l))) (increment spec increased) =
      (trial, True, reason) \<Longrightarrow> fault (UpdateService (svc_id (l_row l))) = None \<Longrightarrow>
    loop_iter fault now mx spec target key desired l (commit_increment now l nxt key requested trial)"

lemma loop_iter_shortfall:
  "loop_iter fault now mx spec target key desired l l' \<Longrightarrow> shortfall (l_admitted l') desired < shortfall (l_admitted l) desired"
  by (induction rule: loop_iter.induct) (auto simp: commit_increment_def Let_def intro: Next_shortfall)

lemma loop_iter_result:
  "loop_iter fault now mx spec target key desired l l' \<Longrightarrow>
   service_loop fault now mx e spec target key desired l = service_loop fault now mx e spec target key desired l'"
  by (induction rule: loop_iter.induct) (subst service_loop.simps, simp add: Let_def)

text \<open>
  C5. The admission loop of a service ends: from any state it makes at most as many iterations as replicas are missing, and
  then stops, and what it stops with is the result of the loop.
\<close>

theorem admission_loop_terminates:
  "\<exists>n l'. n \<le> shortfall (l_admitted l) desired \<and> (loop_iter fault now mx spec target key desired ^^ n) l l' \<and>
     \<not> (\<exists>l''. loop_iter fault now mx spec target key desired l' l'') \<and>
     service_loop fault now mx e spec target key desired l = service_loop fault now mx e spec target key desired l'"
proof (induction "shortfall (l_admitted l) desired" arbitrary: l rule: less_induct)
  case less
  show ?case
  proof (cases "\<exists>l1. loop_iter fault now mx spec target key desired l l1")
    case True
    then obtain l1 where step: "loop_iter fault now mx spec target key desired l l1" by blast
    from less [OF loop_iter_shortfall [OF step]] obtain n l' where "n \<le> shortfall (l_admitted l1) desired"
      "(loop_iter fault now mx spec target key desired ^^ n) l1 l'" "\<not> (\<exists>l''. loop_iter fault now mx spec target key desired l' l'')"
      "service_loop fault now mx e spec target key desired l1 = service_loop fault now mx e spec target key desired l'" by blast
    moreover from step this(2) have "(loop_iter fault now mx spec target key desired ^^ Suc n) l l'" by (rule relpowp_Suc_I2)
    ultimately show ?thesis using loop_iter_shortfall [OF step] loop_iter_result [OF step]
      by (intro exI [of _ "Suc n"] exI [of _ l']) auto
  next
    case False
    then show ?thesis by (intro exI [of _ 0] exI [of _ l]) simp
  qed
qed

end
