(* ===== verification/ServiceProps.thy ===== *)
theory ServiceProps
  imports ServiceLifecycle RunProps Tables
begin

text \<open>
  Correctness of the MLService module: what \<open>Scale\<close> does to the reservation, what reaches the
  runtime, when a generation counts as observed, and what a rollback and a label patch do to the
  reservation and its pool.
\<close>

interpretation svc_table: live_table svc_id svc_nsname svc_deletedAt
  "get_live svc_id svc_nsname svc_deletedAt" "insert_live svc_id svc_nsname svc_deletedAt"
  by (rule live_table_model)

section \<open>A concrete service\<close>

definition sx_req :: "int MLServiceCreateRequest" where
  "sx_req = \<lparr>sin_name = ''serve'', sin_kind = [], sin_displayName = [], sin_description = [], sin_labels = [],
     sin_annotations = [], sin_poolName = ''p'', sin_unitName = ''u'', sin_priorityClass = [],
     sin_backend = None, sin_configMaps = [],
     sin_roles = [\<lparr>role_name = ''predictor'', role_replicas = 3, role_restartPolicy = [],
        role_template = template_of ''img'' []\<rparr>],
     sin_runPolicy = None, sin_route = None\<rparr>"

definition sx_new :: "int MLService list" where
  "sx_new = fst (svc_Create rx_env ''ns'' sx_req [])"

text \<open>The service fully admitted, dispatched and ready.\<close>

definition sx_table :: "int MLService list" where
  "sx_table = map (\<lambda>s. s\<lparr>svc_phase := SvcReady, svc_admitted := JOk [3], svc_dispatched := JOk [3],
     svc_observedGeneration := 1\<rparr>) sx_new"

definition sx :: "int MLService" where
  "sx = hd sx_table"

lemma sx_facts:
  "table_ok svc_id svc_nsname svc_deletedAt sx_table" "svc_deletedAt sx = None"
  "svc_phase sx = SvcReady" "svc_admitted sx = JOk [3]"
  by code_simp+

lemma sx_in: "sx \<in> set sx_table"
proof -
  have "length sx_table = 1" by code_simp
  then have "sx_table \<noteq> []" by auto
  then show ?thesis unfolding sx_def by (rule hd_in_set)
qed

section \<open>Reading and writing one row\<close>

lemma svc_get_row:
  assumes "table_ok svc_id svc_nsname svc_deletedAt t" "s \<in> set t" "svc_deletedAt s = None"
    and "fault SelectByName = None"
  shows "svc_GetByNamespaceName fault (svc_namespace s) (svc_name s) t = Inr s"
  using svc_table.get_live_row [OF assms(1-3)] assms(4)
  by (simp add: svc_GetByNamespaceName_def svc_nsname_def)

lemma svc_Get_row:
  "distinct (map svc_id t) \<Longrightarrow> s \<in> set t \<Longrightarrow> fault SelectByID = None \<Longrightarrow> svc_Get fault (svc_id s) t = Inr s"
  by (simp add: svc_Get_def first_row_key)

lemma svc_UpdateWhere_row:
  assumes "distinct (map svc_id t)" "s \<in> set t" "fault UpdateRows = None"
  shows "svc_UpdateWhere fault now (svc_id s) g f t =
     Inr (if g s then update_row svc_id (svc_id s) (f (s\<lparr>svc_updatedAt := now\<rparr>)) t else t, if g s then 1 else 0)"
  using update_where_key [OF assms(1,2), of g] rows_affected_key [OF assms(1,2), of g] assms(3)
  by (simp add: svc_UpdateWhere_def)

lemma svc_Update_row:
  assumes "distinct (map svc_id t)" "s \<in> set t" "fault UpdateRows = None"
  shows "svc_Update fault now (svc_id s) f t = Inr (update_row svc_id (svc_id s) (f (s\<lparr>svc_updatedAt := now\<rparr>)) t)"
    and "svc_Update_quiet fault now (svc_id s) f t = update_row svc_id (svc_id s) (f (s\<lparr>svc_updatedAt := now\<rparr>)) t"
  using svc_UpdateWhere_row [where fault = fault and now = now and g = "\<lambda>_. True" and f = f, OF assms]
  by (simp_all add: svc_Update_def svc_Update_quiet_def)

section \<open>Scaling\<close>

lemma ClampToDesired_le: "i < length d \<Longrightarrow> i < length a \<Longrightarrow> ClampToDesired a d ! i \<le> a ! i"
  by (simp add: ClampToDesired_def)

text \<open>
  \<open>Scale\<close> sets the desired count of the primary role and nothing else of the spec, bumps
  the generation so that it is not yet observed, and never raises the reservation: every role
  keeps at most what it had admitted, and at most what is now desired. The capacity given up by
  a scale-down is released at once; a scale-up waits for admission.
\<close>

theorem svc_scale_effect:
  assumes "table_ok svc_id svc_nsname svc_deletedAt t" "s \<in> set t" "svc_deletedAt s = None"
    and "svc_spec s = JOk spec" "ss_roles spec \<noteq> []" "a_fault env = (\<lambda>_. None)"
  shows "\<exists>s' spec'. fst (svc_Scale env (svc_namespace s) (svc_name s) replicas t) = update_row svc_id (svc_id s) s' t \<and>
     svc_spec s' = JOk spec' \<and>
     spec' = spec\<lparr>ss_roles := (ss_roles spec)[0 := (ss_roles spec ! 0)\<lparr>role_replicas := replicas\<rparr>]\<rparr> \<and>
     svc_generation s' = svc_generation s + 1 \<and> svc_phase s' = svc_phase s \<and> svc_dispatched s' = svc_dispatched s \<and>
     svc_reserved s' \<and> (\<forall>i<length (ss_roles spec). admitted_of s' spec' ! i \<le> admitted_of s spec ! i)"
proof -
  have key: "distinct (map svc_id t)" using assms(1) by (simp add: table_ok_def)
  let ?s = "scale_columns spec replicas s (s\<lparr>svc_updatedAt := a_now env\<rparr>)"
  let ?spec = "spec\<lparr>ss_roles := (ss_roles spec)[0 := (ss_roles spec ! 0)\<lparr>role_replicas := replicas\<rparr>]\<rparr>"
  let ?a = "ClampToDesired (admitted_of s spec) (Desired (role_counts ?spec))"
  have upd: "svc_Update (a_fault env) (a_now env) (svc_id s) (scale_columns spec replicas s) t
      = Inr (update_row svc_id (svc_id s) ?s t)"
    by (rule svc_Update_row(1) [OF key assms(2)]) (simp add: assms(6))
  have res: "fst (svc_Scale env (svc_namespace s) (svc_name s) replicas t) = update_row svc_id (svc_id s) ?s t"
    using svc_get_row [where fault = "a_fault env", OF assms(1-3)] assms(4,5,6) upd by (simp add: svc_Scale_def)
  have cols: "svc_spec ?s = JOk ?spec" "svc_generation ?s = svc_generation s + 1" "svc_phase ?s = svc_phase s"
    "svc_dispatched ?s = svc_dispatched s" "svc_admitted ?s = Encode ?a"
    by (simp_all add: scale_columns_def Let_def json_marshal_def admitted_of_def)
  have within: "reserved_within ?a (Desired (role_counts ?spec))"
    by (rule ClampToDesired_within) (simp_all add: admitted_of_def)
  then have adm: "admitted_of ?s ?spec = ?a"
    using Decode_Encode [OF reserved_nonneg [OF within]] cols(5)
    by (simp add: admitted_of_def role_counts_def)
  have "svc_reserved ?s" using cols(1) adm within by (auto simp: svc_reserved_def)
  moreover have "\<forall>i<length (ss_roles spec). ?a ! i \<le> admitted_of s spec ! i"
    by (auto intro!: ClampToDesired_le simp: role_counts_def admitted_of_def)
  ultimately show ?thesis using res cols adm by (intro exI [of _ ?s] exI [of _ ?spec]) auto
qed

lemma sx_spec: "svc_spec sx = JOk (the (json_decode (svc_spec sx)))" "ss_roles (the (json_decode (svc_spec sx))) \<noteq> []"
proof -
  have "json_decode (svc_spec sx) \<noteq> None" by code_simp
  then show "svc_spec sx = JOk (the (json_decode (svc_spec sx)))" by auto
  have "length (ss_roles (the (json_decode (svc_spec sx)))) = 1" by code_simp
  then show "ss_roles (the (json_decode (svc_spec sx))) \<noteq> []" by auto
qed

theorem svc_scale_effect_witness:
  "\<exists>s'. fst (svc_Scale rx_env (svc_namespace sx) (svc_name sx) 1 sx_table) = update_row svc_id (svc_id sx) s' sx_table \<and>
     svc_generation s' = svc_generation sx + 1 \<and> svc_reserved s'"
proof -
  have "a_fault rx_env = (\<lambda>_. None)" by (simp add: rx_env_def)
  from svc_scale_effect [OF sx_facts(1) sx_in sx_facts(2) sx_spec this, of 1] show ?thesis by blast
qed

section \<open>What reaches the runtime\<close>

lemma Apply_nonneg: "nonneg a \<Longrightarrow> length a = length roles \<Longrightarrow> Apply roles a = a"
  unfolding Apply_def nonneg_def
  by (rule nth_equalityI) (auto simp: all_set_conv_all_nth intro!: antisym)

text \<open>
  The custom resource of a service is its spec with the replica counts replaced by the
  admitted vector: no role asks the runtime for a replica that admission has not reserved, and
  nothing else of the spec changes.
\<close>

theorem svc_cr_capped:
  assumes "svc_ToCR s tenantPrefix = Inr cr" "svc_spec s = JOk spec"
  shows "role_counts (cr_spec cr) = admitted_of s spec \<and>
     cr_spec cr = spec\<lparr>ss_roles := ss_roles (cr_spec cr)\<rparr> \<and>
     map (\<lambda>r. r\<lparr>role_replicas := 0\<rparr>) (ss_roles (cr_spec cr)) = map (\<lambda>r. r\<lparr>role_replicas := 0\<rparr>) (ss_roles spec)"
proof -
  let ?a = "admitted_of s spec"
  have a: "nonneg ?a" "length ?a = length (ss_roles spec)" by (simp_all add: admitted_of_def)
  have cr: "cr_spec cr = Apply_spec spec ?a"
    using assms by (auto simp: svc_ToCR_def Let_def admitted_of_def)
  have "Apply (role_counts spec) ?a = ?a" using a by (simp add: Apply_nonneg role_counts_def)
  then have roles: "ss_roles (cr_spec cr) = map2 (\<lambda>role n. role\<lparr>role_replicas := n\<rparr>) (ss_roles spec) ?a"
    by (simp add: cr Apply_spec_def)
  have "role_counts (cr_spec cr) = ?a"
    unfolding role_counts_def roles using a(2) by (intro nth_equalityI) auto
  moreover have "map (\<lambda>r. r\<lparr>role_replicas := 0\<rparr>) (ss_roles (cr_spec cr)) = map (\<lambda>r. r\<lparr>role_replicas := 0\<rparr>) (ss_roles spec)"
    unfolding roles using a(2) by (intro nth_equalityI) auto
  ultimately show ?thesis by (simp add: cr Apply_spec_def)
qed

theorem svc_cr_capped_witness:
  "\<exists>cr. svc_ToCR (hd sx_new) False = Inr cr \<and> role_counts (cr_spec cr) = [0]"
proof -
  have ok: "\<not> isl (svc_ToCR (hd sx_new) False)" "json_decode (svc_spec (hd sx_new)) \<noteq> None"
    "admitted_of (hd sx_new) (the (json_decode (svc_spec (hd sx_new)))) = [0]" by code_simp+
  then obtain cr spec where "svc_ToCR (hd sx_new) False = Inr cr" "svc_spec (hd sx_new) = JOk spec"
    by (cases "svc_ToCR (hd sx_new) False") auto
  with svc_cr_capped [OF this] ok(3) show ?thesis by auto
qed

section \<open>Observed generations\<close>

text \<open>
  A dispatch reports a generation as observed only when it is the row's generation still
  and the whole desired vector of that generation was dispatched: after the runtime accepted the
  snapshot \<open>s\<close>, the row \<open>r\<close> it now finds under its id changes its observed generation only to
  its own current one, and then \<open>dispatched_replicas\<close> is the full desired vector. (One
  generation has one spec; the other hypotheses fix the row.)
\<close>

theorem svc_observed_generation_sound:
  assumes "distinct (map svc_id t)" "r \<in> set t" "svc_id s = svc_id r" "l_fault env = (\<lambda>_. None)"
    and "svc_generation r = svc_generation s \<Longrightarrow> svc_spec r = svc_spec s"
    and "svc_admitted s = Encode a" "svc_spec s = JOk spec" "length a = length (ss_roles spec)" "nonneg a"
  shows "\<exists>r'. markDispatched env s initial t = update_row svc_id (svc_id r) r' t \<and>
     (svc_observedGeneration r' = svc_observedGeneration r \<or>
      svc_observedGeneration r' = svc_generation r' \<and> svc_spec r' = JOk spec \<and>
      svc_dispatched r' = Encode (Desired (role_counts spec)))"
proof -
  let ?g = "\<lambda>r. svc_deletedAt r = None \<and> svc_phase r \<notin> {SvcDeleting, SvcDeleted} \<and>
                 (initial \<longrightarrow> svc_phase r = SvcCreating)"
  let ?f = "\<lambda>r. let r = r\<lparr>svc_dispatched := svc_admitted s\<rparr>
                 in if initial then r\<lparr>svc_phase := SvcPending\<rparr> else r"
  let ?h = "\<lambda>r. r\<lparr>svc_observedGeneration := svc_generation s\<rparr>"
  let ?r1 = "?f (r\<lparr>svc_updatedAt := l_now env\<rparr>)"
  let ?t1 = "update_row svc_id (svc_id r) ?r1 t"
  have same: "update_row svc_id (svc_id r) r t = t" by (rule update_row_same [OF assms(1,2)])
  have one: "svc_UpdateWhere (l_fault env) (l_now env) (svc_id s) ?g ?f t =
      Inr (if ?g r then ?t1 else t, if ?g r then 1 else 0)"
    using svc_UpdateWhere_row [where fault = "l_fault env" and g = ?g and f = ?f, OF assms(1,2)] assms(3,4) by simp
  have r1: "svc_id ?r1 = svc_id r" "svc_generation ?r1 = svc_generation r" "svc_spec ?r1 = svc_spec r"
    "svc_dispatched ?r1 = svc_admitted s" "svc_observedGeneration ?r1 = svc_observedGeneration r"
    by (simp_all add: Let_def)
  have t1: "distinct (map svc_id ?t1)" "?r1 \<in> set ?t1"
    using assms(1) r1(1) update_row_new [OF assms(2), of ?r1 svc_id] by simp_all
  let ?r2 = "?h (?r1\<lparr>svc_updatedAt := l_now env\<rparr>)"
  have two: "svc_UpdateWhere (l_fault env) (l_now env) (svc_id s) (\<lambda>r. svc_generation r = svc_generation s) ?h ?t1 =
      Inr (if svc_generation r = svc_generation s then update_row svc_id (svc_id r) ?r2 ?t1 else ?t1,
           if svc_generation r = svc_generation s then 1 else 0)"
    using svc_UpdateWhere_row [where fault = "l_fault env" and now = "l_now env" and f = ?h and
        g = "\<lambda>r. svc_generation r = svc_generation s", OF t1] assms(3,4) r1(1,2) by simp
  have twice: "update_row svc_id (svc_id r) ?r2 ?t1 = update_row svc_id (svc_id r) ?r2 t"
    by (rule update_row_twice) (rule r1(1))
  have full: "svc_admitted s = Encode (Desired (role_counts spec))" if "fullyAdmitted s"
    using that Decode_Encode [OF assms(9,8)] by (simp add: fullyAdmitted_def assms(6,7))
  note def = markDispatched_def [of env s initial t, unfolded one sum.case prod.case]
  show ?thesis
  proof (cases "?g r \<and> fullyAdmitted s \<and> svc_generation r = svc_generation s")
    case True
    then have "markDispatched env s initial t = update_row svc_id (svc_id r) ?r2 t"
      using def two twice by simp
    moreover have "svc_observedGeneration ?r2 = svc_generation ?r2 \<and> svc_spec ?r2 = JOk spec \<and>
        svc_dispatched ?r2 = Encode (Desired (role_counts spec))"
      using True full assms(5,7) r1 by simp
    ultimately show ?thesis by blast
  next
    case False
    then have "markDispatched env s initial t = (if ?g r then ?t1 else t)"
      using def two by auto
    with same r1(5) show ?thesis by (cases "?g r") (metis (no_types, lifting))+
  qed
qed

theorem svc_observed_generation_sound_witness:
  "\<exists>r'. markDispatched rx_lenv sx False sx_table = update_row svc_id (svc_id sx) r' sx_table \<and>
     (svc_observedGeneration r' = svc_observedGeneration sx \<or> svc_observedGeneration r' = svc_generation r')"
proof -
  have "distinct (map svc_id sx_table)" using sx_facts(1) by (simp add: table_ok_def)
  moreover have "l_fault rx_lenv = (\<lambda>_. None)" by (simp add: rx_lenv_def)
  moreover have "svc_admitted sx = Encode [3]" by (simp add: sx_facts Encode_def json_marshal_def)
  moreover have "length [3 :: int] = length (ss_roles (the (json_decode (svc_spec sx))))" by code_simp
  ultimately show ?thesis
    using svc_observed_generation_sound [OF _ sx_in refl _ _ _ sx_spec(1), where a = "[3]" and env = rx_lenv
        and initial = False] by (auto simp: nonneg_def)
qed

section \<open>Rollback\<close>

text \<open>
  A rollback after a refused dispatch returns the reservation to what is dispatched and
  says why, on the row as it is when locked: it does nothing when the row is being deleted or
  when its admitted vector is no longer the one that was dispatched; otherwise the admitted
  vector becomes the dispatched one, the row queues again exactly when nothing is dispatched,
  and spec, generation and dispatched vector stay. So it releases replicas whenever the
  dispatched vector lies within the reservation.
\<close>

theorem svc_rollback_effect:
  assumes "distinct (map svc_id t)" "r \<in> set t" "svc_id s = svc_id r" "l_fault env = (\<lambda>_. None)"
    and "svc_spec r = JOk spec"
  defines "d \<equiv> Decode (svc_dispatched r) (length (ss_roles spec)) (Zero (role_counts spec))"
  shows "if svc_phase r \<in> {SvcDeleting, SvcDeleted} \<or> svc_deletedAt r \<noteq> None \<or> admitted_of s spec \<noteq> admitted_of r spec
     then rollbackAdmission env s message t = t
     else \<exists>r'. rollbackAdmission env s message t = update_row svc_id (svc_id r) r' t \<and>
       admitted_of r' spec = d \<and> admission_reason r' = ReasonInsufficientResources \<and>
       svc_phase r' = (if allZero d then SvcQueued else svc_phase r) \<and>
       svc_spec r' = svc_spec r \<and> svc_generation r' = svc_generation r \<and> svc_dispatched r' = svc_dispatched r \<and>
       (reserved_within d (admitted_of r spec) \<longrightarrow>
          (\<forall>i<length (ss_roles spec). admitted_of r' spec ! i \<le> admitted_of r spec ! i))"
proof -
  have get: "svc_Get (l_fault env) (svc_id s) t = Inr r"
    using svc_Get_row [where fault = "l_fault env", OF assms(1,2)] assms(3,4) by simp
  let ?r = "rollback_columns spec message r (r\<lparr>svc_updatedAt := l_now env\<rparr>)"
  have upd: "svc_Update_quiet (l_fault env) (l_now env) (svc_id r) (rollback_columns spec message r) t
      = update_row svc_id (svc_id r) ?r t"
    by (rule svc_Update_row(2) [OF assms(1,2)]) (simp add: assms(4))
  have cols: "svc_admitted ?r = Encode d" "svc_phase ?r = (if allZero d then SvcQueued else svc_phase r)"
    "svc_spec ?r = svc_spec r" "svc_generation ?r = svc_generation r" "svc_dispatched ?r = svc_dispatched r"
    "admission_reason ?r = ReasonInsufficientResources"
    by (simp_all add: rollback_columns_def d_def Let_def admission_reason_def)
  have adm: "admitted_of ?r spec = d"
    using cols(1) by (simp add: admitted_of_def d_def Decode_Encode)
  have "reserved_within d (admitted_of r spec) \<longrightarrow>
      (\<forall>i<length (ss_roles spec). admitted_of ?r spec ! i \<le> admitted_of r spec ! i)"
    unfolding adm by (simp add: reserved_within_def admitted_of_def)
  with get upd cols adm show ?thesis
    by (auto simp: rollbackAdmission_def Let_def assms(5) admitted_of_def intro!: exI [of _ ?r])
qed

theorem svc_rollback_effect_witness:
  "\<exists>r'. rollbackAdmission rx_lenv sx ''no gpu'' sx_table = update_row svc_id (svc_id sx) r' sx_table \<and>
     admission_reason r' = ReasonInsufficientResources"
proof -
  have "distinct (map svc_id sx_table)" using sx_facts(1) by (simp add: table_ok_def)
  moreover have "l_fault rx_lenv = (\<lambda>_. None)" by (simp add: rx_lenv_def)
  ultimately show ?thesis
    using svc_rollback_effect [OF _ sx_in refl _ sx_spec(1), of rx_lenv "''no gpu''"] sx_facts(2,3) by auto
qed

text \<open>
  The reservation is not always released: after a scale-down the dispatched vector is above
  the desired one until the runtime has applied it, and a refused apply then raises the
  reservation back above what is desired, without a look at quota or capacity. A service of three
  dispatched replicas scaled to one ends with three reserved, one desired, and no row left dirty.
\<close>

theorem svc_rollback_raises:
  "map svc_admitted (fst (svc_Scale rx_env ''ns'' ''serve'' 1 sx_table)) = [JOk [1]] \<and>
   map svc_admitted (rollbackAdmission rx_lenv (hd (fst (svc_Scale rx_env ''ns'' ''serve'' 1 sx_table))) ''no gpu''
     (fst (svc_Scale rx_env ''ns'' ''serve'' 1 sx_table))) = [JOk [3]] \<and>
   map desiredReplicas (rollbackAdmission rx_lenv (hd (fst (svc_Scale rx_env ''ns'' ''serve'' 1 sx_table))) ''no gpu''
     (fst (svc_Scale rx_env ''ns'' ''serve'' 1 sx_table))) = [1] \<and>
   length (sw_DispatchDirty (svc_FindWorkSet (rollbackAdmission rx_lenv
     (hd (fst (svc_Scale rx_env ''ns'' ''serve'' 1 sx_table))) ''no gpu''
     (fst (svc_Scale rx_env ''ns'' ''serve'' 1 sx_table))))) = 0"
  by code_simp

section \<open>Patching\<close>

text \<open>
  \<open>Patch\<close> on a service replaces its labels as a whole, provenance included, so the pool
  the service is accounted to becomes whatever the caller sends, or none. (The same operation on
  a run keeps the pool.)
\<close>

theorem svc_patch_moves_pool:
  assumes "table_ok svc_id svc_nsname svc_deletedAt t" "s \<in> set t" "svc_deletedAt s = None"
    and "a_fault env = (\<lambda>_. None)" "spa_labels req = Some labels"
  shows "\<exists>s'. fst (svc_Patch env (svc_namespace s) (svc_name s) req t) = update_row svc_id (svc_id s) s' t \<and>
     poolFromLabels (svc_labels s') = sget labels LabelResourcePool"
proof -
  have key: "distinct (map svc_id t)" using assms(1) by (simp add: table_ok_def)
  let ?s = "svc_patch_columns req (s\<lparr>svc_updatedAt := a_now env\<rparr>)"
  have upd: "svc_Update (a_fault env) (a_now env) (svc_id s) (svc_patch_columns req) t
      = Inr (update_row svc_id (svc_id s) ?s t)"
    by (rule svc_Update_row(1) [OF key assms(2)]) (simp add: assms(4))
  have "svc_labels ?s = svcMapBytes labels"
    using assms(5) by (cases "spa_displayName req"; cases "spa_description req"; cases "spa_annotations req")
      (simp_all add: svc_patch_columns_def)
  then show ?thesis
    using svc_get_row [where fault = "a_fault env", OF assms(1-3)] upd assms(4,5)
    by (intro exI [of _ ?s]) (simp add: svc_Patch_def poolFromLabels_def svcMapBytes_def)
qed

theorem svc_patch_moves_pool_witness:
  "\<exists>s'. fst (svc_Patch rx_env (svc_namespace sx) (svc_name sx) \<lparr>spa_displayName = None, spa_description = None,
       spa_labels = Some [], spa_annotations = None\<rparr> sx_table) = update_row svc_id (svc_id sx) s' sx_table \<and>
     poolFromLabels (svc_labels s') = [] \<and> poolFromLabels (svc_labels sx) = ''p''"
proof -
  have "poolFromLabels (svc_labels sx) = ''p''" by code_simp
  moreover have "a_fault rx_env = (\<lambda>_. None)" by (simp add: rx_env_def)
  ultimately show ?thesis
    using svc_patch_moves_pool [OF sx_facts(1) sx_in sx_facts(2), of rx_env _ "[]"] by (simp add: sget_def)
qed

end
