(* ===== verification/TrafficProps.thy ===== *)
theory TrafficProps
  imports TrafficPolicy RunProps
begin

text \<open>
  Correctness of the traffic-policy module: what validation admits, that the weights, the frozen
  columns and the occupancy rule hold in every interleaving of API calls, reconciler passes and
  status reflow on stale rows, and what Promote and Rollback do.
\<close>

section \<open>Validation\<close>

lemma sum_weights_range:
  "sum_weights bs = Inr w \<Longrightarrow> b \<in> set bs \<Longrightarrow> 0 \<le> bm_weight b \<and> bm_weight b \<le> 100"
proof -
  have "rfold (\<lambda>w b. if bm_weight b < 0 \<or> bm_weight b > 100
              then Inl (EApp CodeValidation (''backend '' @ go_quote (bm_serviceName b) @ '' weight must be 0..100''))
              else Inr (add32 w (bm_weight b))) a bs = Inr w \<Longrightarrow>
        b \<in> set bs \<Longrightarrow> 0 \<le> bm_weight b \<and> bm_weight b \<le> 100" for a
    by (induction bs arbitrary: a) (auto split: if_splits)
  then show "sum_weights bs = Inr w \<Longrightarrow> b \<in> set bs \<Longrightarrow> ?thesis" by (simp add: sum_weights_def)
qed

lemma add32_exact: "- (2 ^ 31) \<le> a + b \<Longrightarrow> a + b < 2 ^ 31 \<Longrightarrow> add32 a b = a + b"
  by (simp add: add32_def)

text \<open>The sum is exact as long as no \<open>int32\<close> sum can overflow.\<close>

lemma sum_weights_exact:
  assumes "sum_weights bs = Inr w" "length bs \<le> 21474836"
  shows "w = sum_list (map bm_weight bs)"
proof -
  have "rfold (\<lambda>w b. if bm_weight b < 0 \<or> bm_weight b > 100
              then Inl (EApp CodeValidation (''backend '' @ go_quote (bm_serviceName b) @ '' weight must be 0..100''))
              else Inr (add32 w (bm_weight b))) a bs = Inr w \<Longrightarrow>
        0 \<le> a \<Longrightarrow> a + 100 * int (length bs) < 2 ^ 31 \<Longrightarrow> w = a + sum_list (map bm_weight bs)" for a
  proof (induction bs arbitrary: a)
    case (Cons b bs)
    then have "add32 a (bm_weight b) = a + bm_weight b" "0 \<le> bm_weight b" "bm_weight b \<le> 100"
      by (auto intro!: add32_exact split: if_splits)
    with Cons.prems show ?case using Cons.IH [of "a + bm_weight b"] by (auto split: if_splits)
  qed simp
  from this [of 0] assms show ?thesis by (simp add: sum_weights_def)
qed

lemma hundred_of_blue_green:
  fixes bs :: "BackendMember list"
  assumes "length (filter (\<lambda>b. bm_weight b = 100) bs) = 1"
    and "length (filter (\<lambda>b. bm_weight b = 0) bs) = length bs - 1"
  shows "sum_list (map bm_weight bs) = 100"
proof -
  have split: "length (filter (\<lambda>b. bm_weight b = 100) xs) + length (filter (\<lambda>b. bm_weight b = 0) xs) \<le> length xs"
    for xs :: "BackendMember list" by (induction xs) auto
  have "length (filter (\<lambda>b. bm_weight b = 100) xs) + length (filter (\<lambda>b. bm_weight b = 0) xs) = length xs \<Longrightarrow>
      sum_list (map bm_weight xs) = 100 * int (length (filter (\<lambda>b. bm_weight b = 100) xs))"
    for xs :: "BackendMember list"
  proof (induction xs)
    case (Cons x xs)
    with split [of xs] show ?case by (auto split: if_splits)
  qed simp
  from this [of bs] assms show ?thesis by (cases bs) auto
qed

text \<open>What the two validations admit, in every mode.\<close>

lemma validateWeights_total:
  assumes "validateWeights mode bs = None" "length bs \<le> 21474836"
    and "mode \<in> {TrafficModeWeighted, TrafficModeCanary, TrafficModeBlueGreen}"
  shows "sum_list (map bm_weight bs) = 100"
proof -
  from assms(1) obtain w where w: "sum_weights bs = Inr w" by (auto simp: validateWeights_def split: sum.splits)
  from assms(3) consider "mode = TrafficModeWeighted \<or> mode = TrafficModeCanary" | "mode = TrafficModeBlueGreen" by auto
  then show ?thesis
  proof cases
    case 1
    with assms(1) w have "w = 100" by (auto simp: validateWeights_def split: if_splits)
    with sum_weights_exact [OF w assms(2)] show ?thesis by simp
  next
    case 2
    with assms(1) w show ?thesis
      by (intro hundred_of_blue_green) (auto simp: validateWeights_def Let_def split: if_splits)
  qed
qed

lemma first_duplicate_None: "first_duplicate seen ns = None \<longleftrightarrow> distinct ns \<and> set seen \<inter> set ns = {}"
  by (induction seen ns rule: first_duplicate.induct) auto

lemma roleIndex_Some: "roleIndex bs role = Some i \<Longrightarrow> i < length bs \<and> bm_role (bs ! i) = role"
  by (auto simp: roleIndex_def find_Some_iff)

lemma roleIndex_None: "roleIndex bs role = None \<longleftrightarrow> (\<forall>b\<in>set bs. bm_role b \<noteq> role)"
  by (fastforce simp: roleIndex_def find_None_iff in_set_conv_nth)

lemma validateModeShape_None:
  "validateModeShape mode bs = None \<longleftrightarrow> distinct (map bm_serviceName bs) \<and>
     (mode = TrafficModeWeighted \<longrightarrow> 2 \<le> length bs) \<and>
     (mode = TrafficModeCanary \<longrightarrow> length bs = 2 \<and> roleIndex bs RoleStable \<noteq> None \<and> roleIndex bs RoleCanary \<noteq> None) \<and>
     (mode = TrafficModeBlueGreen \<longrightarrow> length bs = 2)"
proof -
  have "(case first_duplicate [] (map bm_serviceName bs) of Some n \<Rightarrow> Some (e n) | None \<Rightarrow> None) = None \<longleftrightarrow>
      distinct (map bm_serviceName bs)" for e :: "string \<Rightarrow> err"
    using first_duplicate_None [of "[]" "map bm_serviceName bs"] by (auto split: option.split)
  then show ?thesis
    unfolding validateModeShape_def Let_def
    by (cases "mode = TrafficModeWeighted"; cases "mode = TrafficModeCanary"; cases "mode = TrafficModeBlueGreen")
       (simp_all add: not_less split: if_split)
qed

section \<open>The columns an update may touch\<close>

interpretation tp_table: live_table tp_id tp_nsname tp_deletedAt
  "get_live tp_id tp_nsname tp_deletedAt" "insert_live tp_id tp_nsname tp_deletedAt"
  by (rule live_table_model)

text \<open>A spec the validations admit, in the mode of the row, under a valid name.\<close>

definition spec_valid :: "string \<Rightarrow> TrafficSpec \<Rightarrow> bool" where
  "spec_valid mode spec \<longleftrightarrow>
     mode \<in> {TrafficModeWeighted, TrafficModeCanary, TrafficModeBlueGreen} \<and> tsp_mode spec = mode \<and>
     validateModeShape mode (tsp_backends spec) = None \<and> validateWeights mode (tsp_backends spec) = None"

definition tp_valid :: "TrafficPolicy \<Rightarrow> bool" where
  "tp_valid p \<longleftrightarrow> IsValidName (tp_name p) \<and> (\<exists>spec. tp_spec p = JOk spec \<and> spec_valid (tp_mode p) spec)"

text \<open>What Create freezes of a spec.\<close>

definition spec_same :: "TrafficSpec \<Rightarrow> TrafficSpec \<Rightarrow> bool" where
  "spec_same a b \<longleftrightarrow> tsp_backend b = tsp_backend a \<and> tsp_mode b = tsp_mode a \<and>
     tsp_endpoint b = tsp_endpoint a \<and> map bm_serviceName (tsp_backends b) = map bm_serviceName (tsp_backends a)"

text \<open>
  What never changes of a policy, and what only goes one way: a change of the spec raises the
  generation, a deletion time stays.
\<close>

definition tp_same :: "TrafficPolicy \<Rightarrow> TrafficPolicy \<Rightarrow> bool" where
  "tp_same a b \<longleftrightarrow>
     tp_id b = tp_id a \<and> tp_nsname b = tp_nsname a \<and> tp_mode b = tp_mode a \<and> tp_owner b = tp_owner a \<and>
     tp_createdAt b = tp_createdAt a \<and>
     spec_same (json_lenient zero_tp_spec (tp_spec a)) (json_lenient zero_tp_spec (tp_spec b)) \<and>
     tp_generation a \<le> tp_generation b \<and> (tp_spec b = tp_spec a \<or> tp_generation a < tp_generation b) \<and>
     (tp_deletedAt a = None \<or> tp_deletedAt b \<noteq> None)"

definition tp_touch :: "TrafficPolicy \<Rightarrow> TrafficPolicy \<Rightarrow> TrafficPolicy \<Rightarrow> bool" where
  "tp_touch j r r' \<longleftrightarrow>
     r' = r\<lparr>tp_displayName := tp_displayName r', tp_description := tp_description r',
            tp_labels := tp_labels r', tp_annotations := tp_annotations r', tp_spec := tp_spec r',
            tp_generation := tp_generation r', tp_observedGeneration := tp_observedGeneration r',
            tp_phase := tp_phase r', tp_status := tp_status r', tp_updatedAt := tp_updatedAt r',
            tp_deletedAt := tp_deletedAt r'\<rparr> \<and>
     (tp_deletedAt r' = tp_deletedAt r \<or> tp_deletedAt r' \<noteq> None) \<and>
     (tp_spec r' = tp_spec r \<and> tp_generation r' = tp_generation r \<or>
      (\<exists>spec spec'. tp_spec j = JOk spec \<and> tp_spec r' = JOk spec' \<and> spec_same spec spec' \<and>
         (spec_valid (tp_mode j) spec \<longrightarrow> spec_valid (tp_mode j) spec') \<and> tp_generation r' = tp_generation r + 1))"

definition tp_writes :: "TrafficPolicy writes" where
  "tp_writes j g f \<longleftrightarrow> (\<forall>r. tp_touch j r (f r))"

text \<open>A row as \<open>Create\<close> hands it to the repository.\<close>

definition tp_checked :: "TrafficPolicyCreateRequest \<Rightarrow> bool" where
  "tp_checked req \<longleftrightarrow>
     IsValidName (tin_name req) \<and>
     tin_mode req \<in> {TrafficModeWeighted, TrafficModeCanary, TrafficModeBlueGreen} \<and>
     validateModeShape (tin_mode req) (tin_backends req) = None \<and>
     validateWeights (tin_mode req) (tin_backends req) = None"

definition tp_init :: "TrafficPolicy \<Rightarrow> bool" where
  "tp_init r \<longleftrightarrow> (\<exists>(env :: int api_env) namespace req fe. tp_checked req \<and> r = new_tp_row env namespace req fe)"

lemma tp_touch_same:
  assumes "tp_touch j r r'" "tp_valid j" "tp_valid r" "tp_same j r"
  shows "tp_valid r' \<and> tp_same r r'"
proof -
  have cols: "tp_id r' = tp_id r" "tp_nsname r' = tp_nsname r" "tp_mode r' = tp_mode r" "tp_owner r' = tp_owner r"
    "tp_createdAt r' = tp_createdAt r"
    using assms(1) by (cases r, cases r', simp add: tp_touch_def tp_nsname_def)+
  have mode: "tp_mode r = tp_mode j" using assms(4) by (simp add: tp_same_def)
  show ?thesis
  proof (cases "tp_spec r' = tp_spec r \<and> tp_generation r' = tp_generation r")
    case True
    with assms(1,3) cols show ?thesis
      by (auto simp: tp_valid_def tp_same_def tp_touch_def spec_same_def tp_nsname_def)
  next
    case False
    with assms(1) obtain spec spec' where sp: "tp_spec j = JOk spec" "tp_spec r' = JOk spec'" "spec_same spec spec'"
        "spec_valid (tp_mode j) spec \<longrightarrow> spec_valid (tp_mode j) spec'" "tp_generation r' = tp_generation r + 1"
      by (auto simp: tp_touch_def)
    with assms(2-4) cols mode have "tp_valid r'" by (auto simp: tp_valid_def tp_nsname_def)
    moreover have "spec_same (json_lenient zero_tp_spec (tp_spec r)) spec'"
      using assms(4) sp(1,3) by (auto simp: tp_same_def spec_same_def)
    ultimately show ?thesis using sp cols assms(1) by (auto simp: tp_same_def tp_touch_def)
  qed
qed

interpretation tp_outbox: outbox tp_id tp_init tp_writes tp_valid tp_same
proof
  fix j r :: TrafficPolicy and g f
  assume "tp_writes j g f" "tp_valid j" "tp_valid r" "tp_same j r"
  then show "tp_valid (f r) \<and> tp_same r (f r)" using tp_touch_same [of j r "f r"] by (auto simp: tp_writes_def)
next
  fix r assume "tp_init r"
  then show "tp_valid r"
    by (auto simp: tp_init_def tp_checked_def tp_valid_def spec_valid_def new_tp_row_def Let_def json_marshal_def)
qed (auto simp: tp_same_def spec_same_def)

section \<open>The weight operations\<close>

lemma roleIndex_cong: "map bm_role bs' = map bm_role bs \<Longrightarrow> roleIndex bs' role = None \<longleftrightarrow> roleIndex bs role = None"
  by (metis (mono_tags, lifting) image_iff list.set_map roleIndex_None)

lemma validateModeShape_cong:
  assumes "map bm_serviceName bs' = map bm_serviceName bs" "map bm_role bs' = map bm_role bs"
  shows "validateModeShape mode bs' = None \<longleftrightarrow> validateModeShape mode bs = None"
  using assms map_eq_imp_length_eq [OF assms(1)] roleIndex_cong [OF assms(2)]
  by (simp add: validateModeShape_None)

lemma split_backends_shape:
  "map bm_serviceName (split_backends updates bs) = map bm_serviceName bs"
  "map bm_role (split_backends updates bs) = map bm_role bs"
  by (auto simp: split_backends_def Let_def split: option.split)

text \<open>A valid canary policy has one stable and one canary member.\<close>

lemma canary_pair:
  assumes "spec_valid TrafficModeCanary spec"
    and "roleIndex (tsp_backends spec) RoleStable = Some si" "roleIndex (tsp_backends spec) RoleCanary = Some ci"
  obtains a b where "tsp_backends spec = [a, b]" "si = 0 \<and> ci = 1 \<or> si = 1 \<and> ci = 0"
    "bm_serviceName a \<noteq> bm_serviceName b"
proof -
  from assms(1) have "length (tsp_backends spec) = 2" "distinct (map bm_serviceName (tsp_backends spec))"
    by (simp_all add: spec_valid_def validateModeShape_None)
  then obtain a b where ab: "tsp_backends spec = [a, b]" "bm_serviceName a \<noteq> bm_serviceName b"
    by (auto simp: length_Suc_conv numeral_2_eq_2)
  have "si \<noteq> ci" "si < 2" "ci < 2" using roleIndex_Some [OF assms(2)] roleIndex_Some [OF assms(3)] ab by auto
  then have "si = 0 \<and> ci = 1 \<or> si = 1 \<and> ci = 0" by arith
  with ab that show thesis by blast
qed

lemma weights_100_0:
  "bm_weight a = 100 \<and> bm_weight b = 0 \<or> bm_weight a = 0 \<and> bm_weight b = 100 \<Longrightarrow>
   validateWeights TrafficModeCanary [a, b] = None"
  by (auto simp: validateWeights_def sum_weights_def add32_def)

lemma canary_shape:
  "bm_role a = RoleStable \<and> bm_role b = RoleCanary \<or> bm_role a = RoleCanary \<and> bm_role b = RoleStable \<Longrightarrow>
   bm_serviceName a \<noteq> bm_serviceName b \<Longrightarrow> validateModeShape TrafficModeCanary [a, b] = None"
  by (auto simp: validateModeShape_None roleIndex_None)

lemma promote_valid:
  assumes "spec_valid TrafficModeCanary spec"
    and "roleIndex (tsp_backends spec) RoleStable = Some si" "roleIndex (tsp_backends spec) RoleCanary = Some ci"
  shows "spec_valid TrafficModeCanary (spec\<lparr>tsp_backends := promote_backends si ci (tsp_backends spec)\<rparr>)"
proof -
  from canary_pair [OF assms] obtain a b where ab: "tsp_backends spec = [a, b]"
    "si = 0 \<and> ci = 1 \<or> si = 1 \<and> ci = 0" "bm_serviceName a \<noteq> bm_serviceName b" .
  from ab(2) show ?thesis using assms(1) ab(3)
    by (elim disjE) (simp_all add: spec_valid_def ab(1) promote_backends_def canary_shape weights_100_0)
qed

lemma rollback_valid:
  assumes "spec_valid TrafficModeCanary spec"
    and "roleIndex (tsp_backends spec) RoleStable = Some si" "roleIndex (tsp_backends spec) RoleCanary = Some ci"
  shows "spec_valid TrafficModeCanary (spec\<lparr>tsp_backends := rollback_backends si ci (tsp_backends spec)\<rparr>)"
proof -
  from canary_pair [OF assms] obtain a b where ab: "tsp_backends spec = [a, b]"
    "si = 0 \<and> ci = 1 \<or> si = 1 \<and> ci = 0" "bm_serviceName a \<noteq> bm_serviceName b" .
  have roles: "bm_role ((tsp_backends spec) ! si) = RoleStable" "bm_role ((tsp_backends spec) ! ci) = RoleCanary"
    using roleIndex_Some [OF assms(2)] roleIndex_Some [OF assms(3)] by auto
  from ab(2) show ?thesis using assms(1) ab(3) roles
    by (elim disjE) (simp_all add: spec_valid_def ab(1) rollback_backends_def canary_shape weights_100_0)
qed

lemma promote_names:
  "si < length bs \<Longrightarrow> ci < length bs \<Longrightarrow>
   map bm_serviceName (promote_backends si ci bs) = map bm_serviceName bs"
  "si < length bs \<Longrightarrow> ci < length bs \<Longrightarrow>
   map bm_serviceName (rollback_backends si ci bs) = map bm_serviceName bs"
  by (auto simp: promote_backends_def rollback_backends_def Let_def nth_list_update intro!: nth_equalityI)

section \<open>Operations are executions\<close>

lemma tp_Update_wrote:
  assumes "\<And>r. tp_touch j r (f (r\<lparr>tp_updatedAt := now\<rparr>))" "i = tp_id j"
  shows "wrote tp_id tp_writes j t (tp_Update_quiet fault now i f t)"
    and "tp_Update fault now i f t = Inr t' \<Longrightarrow> wrote tp_id tp_writes j t t'"
  using wrote_one [of tp_writes j "\<lambda>_. True" "\<lambda>r. f (r\<lparr>tp_updatedAt := now\<rparr>)" tp_id t] assms wrote_none
  by (auto simp: tp_Update_quiet_def tp_Update_def tp_writes_def split: option.splits)

lemma tp_touch_columns:
  "tp_touch j r (r\<lparr>tp_updatedAt := u, tp_phase := p, tp_status := s\<rparr>)"
  "tp_touch j r (r\<lparr>tp_updatedAt := u, tp_phase := p, tp_deletedAt := Some x\<rparr>)"
  "tp_touch j r (r\<lparr>tp_updatedAt := u, tp_status := s\<rparr>)"
  "tp_touch j r (r\<lparr>tp_updatedAt := u, tp_observedGeneration := g\<rparr>)"
  "tp_touch j r (tp_patch_columns req (r\<lparr>tp_updatedAt := u\<rparr>))"
  by (cases r, simp add: tp_touch_def tp_patch_columns_def Let_def split: option.split)+

lemma tp_touch_spec:
  assumes "tp_spec j = JOk spec" "spec_same spec spec'" "spec_valid (tp_mode j) spec \<Longrightarrow> spec_valid (tp_mode j) spec'"
  shows "tp_touch j r (spec_columns spec' (r\<lparr>tp_updatedAt := u\<rparr>))"
  using assms by (cases r) (simp add: tp_touch_def spec_columns_def json_marshal_def)

lemma persistSpec_wrote:
  assumes "tp_spec j = JOk spec" "spec_same spec spec'" "spec_valid (tp_mode j) spec \<Longrightarrow> spec_valid (tp_mode j) spec'"
  shows "wrote tp_id tp_writes j t (fst (persistSpec env j spec' t))"
  using tp_Update_wrote(2) [where f = "spec_columns spec'" and j = j and t = t, OF tp_touch_spec [OF assms] refl]
  by (auto simp: persistSpec_def wrote_none split: sum.split)

lemma tp_GetByName_in: "tp_GetByNamespaceName fault ns n t = Inr j \<Longrightarrow> j \<in> set t"
  by (auto simp: tp_GetByNamespaceName_def split: option.splits dest: tp_table.get_sound)

lemma tp_load_Inr: "tp_load env ns n t = Inr (j, spec) \<Longrightarrow> j \<in> set t \<and> tp_spec j = JOk spec"
  by (auto simp: tp_load_def tp_GetByName_in split: sum.splits option.splits)

lemma spec_same_names:
  "map bm_serviceName bs = map bm_serviceName (tsp_backends spec) \<Longrightarrow> spec_same spec (spec\<lparr>tsp_backends := bs\<rparr>)"
  by (simp add: spec_same_def)

text \<open>The writes of Split, Promote and Rollback, from the row each has read.\<close>

lemma split_wrote:
  assumes "tp_spec j = JOk spec"
    and "validateWeights (tsp_mode spec) (split_backends updates (tsp_backends spec)) = None"
  shows "wrote tp_id tp_writes j t
     (fst (persistSpec env j (spec\<lparr>tsp_backends := split_backends updates (tsp_backends spec)\<rparr>) t))"
  using assms(2)
  by (intro persistSpec_wrote [OF assms(1)] spec_same_names split_backends_shape)
     (auto simp: spec_valid_def validateModeShape_cong [OF split_backends_shape])

lemma promote_wrote:
  assumes "tp_spec j = JOk spec" "tsp_mode spec = TrafficModeCanary"
    and "roleIndex (tsp_backends spec) RoleStable = Some si" "roleIndex (tsp_backends spec) RoleCanary = Some ci"
  shows "wrote tp_id tp_writes j t (fst (persistSpec env j (spec\<lparr>tsp_backends := promote_backends si ci (tsp_backends spec)\<rparr>) t))"
    and "wrote tp_id tp_writes j t (fst (persistSpec env j (spec\<lparr>tsp_backends := rollback_backends si ci (tsp_backends spec)\<rparr>) t))"
proof -
  have i: "si < length (tsp_backends spec)" "ci < length (tsp_backends spec)"
    using roleIndex_Some [OF assms(3)] roleIndex_Some [OF assms(4)] by auto
  have m: "tp_mode j = TrafficModeCanary" if "spec_valid (tp_mode j) spec"
    using that assms(2) by (simp add: spec_valid_def)
  show "wrote tp_id tp_writes j t (fst (persistSpec env j (spec\<lparr>tsp_backends := promote_backends si ci (tsp_backends spec)\<rparr>) t))"
    using m promote_valid [OF _ assms(3,4)]
    by (intro persistSpec_wrote [OF assms(1)] spec_same_names promote_names i) simp
  show "wrote tp_id tp_writes j t (fst (persistSpec env j (spec\<lparr>tsp_backends := rollback_backends si ci (tsp_backends spec)\<rparr>) t))"
    using m rollback_valid [OF _ assms(3,4)]
    by (intro persistSpec_wrote [OF assms(1)] spec_same_names promote_names i) simp
qed

abbreviation "tp_updates \<equiv> execs tp_id (\<lambda>_. False) tp_writes"

lemma tp_Split_updates: "\<exists>S'. S \<subseteq> S' \<and> tp_updates (t, S) (fst (tp_Split env ns n updates t), S')"
proof (cases "tp_load env ns n t")
  case (Inr r)
  obtain j spec where r: "r = (j, spec)" by fastforce
  note j = tp_load_Inr [OF Inr [unfolded r]]
  have "wrote tp_id tp_writes j t (fst (tp_Split env ns n updates t))"
    using Inr j split_wrote [of j spec updates t env]
    by (auto simp: r tp_Split_def Let_def wrote_none split: option.split)
  then show ?thesis using j by (intro execs_of_wrote) auto
qed (auto simp: tp_Split_def)

lemma tp_Promote_updates: "\<exists>S'. S \<subseteq> S' \<and> tp_updates (t, S) (fst (tp_Promote env ns n t), S')"
proof (cases "tp_load env ns n t")
  case (Inr r)
  obtain j spec where r: "r = (j, spec)" by fastforce
  note j = tp_load_Inr [OF Inr [unfolded r]]
  have "wrote tp_id tp_writes j t (fst (tp_Promote env ns n t))"
    using Inr j promote_wrote(1) [of j spec]
    by (auto simp: r tp_Promote_def wrote_none split: option.split)
  then show ?thesis using j by (intro execs_of_wrote) auto
qed (auto simp: tp_Promote_def)

lemma tp_Rollback_updates: "\<exists>S'. S \<subseteq> S' \<and> tp_updates (t, S) (fst (tp_Rollback env ns n t), S')"
proof (cases "tp_load env ns n t")
  case (Inr r)
  obtain j spec where r: "r = (j, spec)" by fastforce
  note j = tp_load_Inr [OF Inr [unfolded r]]
  have "wrote tp_id tp_writes j t (fst (tp_Rollback env ns n t))"
    using Inr j promote_wrote(2) [of j spec]
    by (auto simp: r tp_Rollback_def wrote_none split: option.split)
  then show ?thesis using j by (intro execs_of_wrote) auto
qed (auto simp: tp_Rollback_def)

lemma tp_Patch_updates: "\<exists>S'. S \<subseteq> S' \<and> tp_updates (t, S) (fst (tp_Patch env ns n req t), S')"
proof (cases "tp_GetByNamespaceName (a_fault env) ns n t")
  case (Inr j)
  have "wrote tp_id tp_writes j t (fst (tp_Patch env ns n req t))"
    using Inr tp_Update_wrote(2) [where f = "tp_patch_columns req" and j = j and t = t, OF tp_touch_columns(5) refl]
    by (auto simp: tp_Patch_def wrote_none split: sum.split)
  then show ?thesis by (rule execs_of_wrote [OF tp_GetByName_in [OF Inr]])
qed (auto simp: tp_Patch_def)

lemma tp_Delete_updates: "\<exists>S'. S \<subseteq> S' \<and> tp_updates (t, S) (fst (tp_Delete env ns n t), S')"
proof (cases "tp_GetByNamespaceName (a_fault env) ns n t")
  case (Inr j)
  have "wrote tp_id tp_writes j t (fst (tp_Delete env ns n t))"
    using Inr by (auto simp: tp_Delete_def tp_MarkDeleting_def wrote_none tp_touch_columns
                       split: sum.split elim!: tp_Update_wrote(2) [rotated 2])
  then show ?thesis by (rule execs_of_wrote [OF tp_GetByName_in [OF Inr]])
qed (auto simp: tp_Delete_def)

text \<open>The background handlers, from the row each was given.\<close>

lemma tp_reflectObserved_wrote: "wrote tp_id tp_writes j t (tp_reflectObserved fault stamp j ob t)"
  by (auto simp: tp_reflectObserved_def Let_def wrote_none tp_touch_columns
           intro!: tp_Update_wrote(1) split: prod.splits)

lemma tp_reflectGone_wrote: "wrote tp_id tp_writes j t (tp_reflectGone fault now j t)"
  by (auto simp: tp_reflectGone_def wrote_none tp_touch_columns intro!: tp_Update_wrote(1))

lemma tp_poll_row_wrote: "wrote tp_id tp_writes j t (tp_poll_row env rt w t j)"
  by (auto simp: tp_poll_row_def wrote_none intro: tp_reflectObserved_wrote tp_reflectGone_wrote split: sum.splits)

lemma tp_handleCreate_wrote: "wrote tp_id tp_writes j t (fst (tp_handleCreate env rt (t, w) j))"
  by (auto simp: tp_handleCreate_def wrote_none tp_touch_columns intro!: tp_Update_wrote(1)
           split: sum.split prod.split option.split)

lemma tp_handleSpecSync_wrote: "wrote tp_id tp_writes j t (fst (tp_handleSpecSync env rt (t, w) j))"
  by (auto simp: tp_handleSpecSync_def wrote_none tp_touch_columns intro!: tp_Update_wrote(1)
           split: sum.split prod.split option.split)

lemma tp_handleDelete_wrote: "wrote tp_id tp_writes j t (fst (tp_handleDelete env rt (t, w) j))"
  by (auto simp: tp_handleDelete_def wrote_none tp_touch_columns intro!: tp_Update_wrote(1)
           split: prod.split option.split)

lemma tp_poll_updates: "\<exists>S'. S \<subseteq> S' \<and> tp_updates (t, S) (tp_poll env rt w t, S')"
proof (cases "l_fault env SelectList")
  case None
  let ?js = "tp_FindObservable t"
  have "tp_updates (t, S) (t, set ?js \<union> S)"
    using work_batch_sub by (intro execs_reads) (fastforce simp: tp_FindObservable_def)
  also have "tp_updates (t, set ?js \<union> S) (tp_poll env rt w t, set ?js \<union> S)"
    using None by (simp add: tp_poll_def) (rule execs_foldl [OF tp_poll_row_wrote], simp)
  finally show ?thesis by blast
qed (auto simp: tp_poll_def)

lemma tp_runOnce_updates: "\<exists>S'. S \<subseteq> S' \<and> tp_updates (t, S) (fst (tp_runOnce env rt (t, w)), S')"
proof (cases "l_fault env SelectList")
  case None
  let ?ws = "tp_FindWorkSet t"
  let ?js = "tw_Creating ?ws @ tw_Deleting ?ws @ tw_SpecDirty ?ws"
  let ?S = "set ?js \<union> S"
  obtain t1 w1 where one: "foldl (tp_handleCreate env rt) (t, w) (tw_Creating ?ws) = (t1, w1)" by fastforce
  obtain t2 w2 where two: "foldl (tp_handleDelete env rt) (t1, w1) (tw_Deleting ?ws) = (t2, w2)" by fastforce
  have c: "set (tw_Creating ?ws) \<subseteq> ?S" and d: "set (tw_Deleting ?ws) \<subseteq> ?S" and x: "set (tw_SpecDirty ?ws) \<subseteq> ?S"
    by auto
  have "tp_updates (t, S) (t, ?S)"
    using work_batch_sub by (intro execs_reads) (fastforce simp: tp_FindWorkSet_def)
  also have "tp_updates (t, ?S) (t1, ?S)"
    using execs_foldl_world [where h = "tp_handleCreate env rt" and t = t and w = w,
        OF tp_handleCreate_wrote c, of "\<lambda>_. False"] by (simp only: one fst_conv)
  also have "tp_updates (t1, ?S) (t2, ?S)"
    using execs_foldl_world [where h = "tp_handleDelete env rt" and t = t1 and w = w1,
        OF tp_handleDelete_wrote d, of "\<lambda>_. False"] by (simp only: two fst_conv)
  also have "tp_updates (t2, ?S) (fst (foldl (tp_handleSpecSync env rt) (t2, w2) (tw_SpecDirty ?ws)), ?S)"
    by (rule execs_foldl_world [OF tp_handleSpecSync_wrote x])
  finally show ?thesis using None by (auto simp: tp_runOnce_def Let_def one two)
qed (auto simp: tp_runOnce_def)

section \<open>Schedules\<close>

text \<open>
  A schedule of the module. A guarded insert may come long after the validation of its request;
  the weight operations and the handlers may work on rows read at any earlier point; and every
  operation may also run in one piece.
\<close>

inductive tp_sched ::
  "(TrafficSpec, traffic_observed, 'w) runtime \<Rightarrow> TrafficPolicy list \<times> TrafficPolicy set \<Rightarrow>
   TrafficPolicy list \<times> TrafficPolicy set \<Rightarrow> bool"
  for rt :: "(TrafficSpec, traffic_observed, 'w) runtime" where
  tps_insert: "tp_checked req \<Longrightarrow>
    CreateGuarded (a_fault env) (new_tp_row (env :: int api_env) ns req fe) (map bm_serviceName (tin_backends req)) t = Inr t' \<Longrightarrow>
    tp_sched rt (t, seen) (t', seen)"
| tps_create: "tp_sched rt (t, seen) (fst (tp_Create (env :: int api_env) members ns req t), seen)"
| tps_patch: "tp_sched rt (t, seen) (fst (tp_Patch (env :: int api_env) ns n preq t), seen)"
| tps_delete: "tp_sched rt (t, seen) (fst (tp_Delete (env :: int api_env) ns n t), seen)"
| tps_split: "tp_sched rt (t, seen) (fst (tp_Split (env :: int api_env) ns n updates t), seen)"
| tps_promote: "tp_sched rt (t, seen) (fst (tp_Promote (env :: int api_env) ns n t), seen)"
| tps_rollback: "tp_sched rt (t, seen) (fst (tp_Rollback (env :: int api_env) ns n t), seen)"
| tps_read: "j \<in> set t \<Longrightarrow> tp_sched rt (t, seen) (t, insert j seen)"
| tps_late_split: "j \<in> seen \<Longrightarrow> tp_spec j = JOk spec \<Longrightarrow>
    validateWeights (tsp_mode spec) (split_backends updates (tsp_backends spec)) = None \<Longrightarrow>
    tp_sched rt (t, seen)
      (fst (persistSpec (env :: int api_env) j (spec\<lparr>tsp_backends := split_backends updates (tsp_backends spec)\<rparr>) t), seen)"
| tps_late_promote: "j \<in> seen \<Longrightarrow> tp_spec j = JOk spec \<Longrightarrow> tsp_mode spec = TrafficModeCanary \<Longrightarrow>
    roleIndex (tsp_backends spec) RoleStable = Some si \<Longrightarrow> roleIndex (tsp_backends spec) RoleCanary = Some ci \<Longrightarrow>
    tp_sched rt (t, seen)
      (fst (persistSpec (env :: int api_env) j (spec\<lparr>tsp_backends := promote_backends si ci (tsp_backends spec)\<rparr>) t), seen)"
| tps_late_rollback: "j \<in> seen \<Longrightarrow> tp_spec j = JOk spec \<Longrightarrow> tsp_mode spec = TrafficModeCanary \<Longrightarrow>
    roleIndex (tsp_backends spec) RoleStable = Some si \<Longrightarrow> roleIndex (tsp_backends spec) RoleCanary = Some ci \<Longrightarrow>
    tp_sched rt (t, seen)
      (fst (persistSpec (env :: int api_env) j (spec\<lparr>tsp_backends := rollback_backends si ci (tsp_backends spec)\<rparr>) t), seen)"
| tps_dispatch: "j \<in> seen \<Longrightarrow> tp_sched rt (t, seen) (fst (tp_handleCreate lenv rt (t, w) j), seen)"
| tps_teardown: "j \<in> seen \<Longrightarrow> tp_sched rt (t, seen) (fst (tp_handleDelete lenv rt (t, w) j), seen)"
| tps_sync: "j \<in> seen \<Longrightarrow> tp_sched rt (t, seen) (fst (tp_handleSpecSync lenv rt (t, w) j), seen)"
| tps_observe: "j \<in> seen \<Longrightarrow> tp_sched rt (t, seen) (tp_reflectObserved fault stamp j ob t, seen)"
| tps_gone: "j \<in> seen \<Longrightarrow> tp_sched rt (t, seen) (tp_reflectGone fault now j t, seen)"
| tps_pass: "tp_sched rt (t, seen) (fst (tp_runOnce lenv rt (t, w)), seen)"
| tps_poll: "tp_sched rt (t, seen) (tp_poll lenv rt w t, seen)"

text \<open>\<open>Create\<close> either leaves the table alone or is a guarded insert of a checked request.\<close>

lemma tp_Create_cases:
  obtains (kept) "fst (tp_Create env members ns req t) = t"
    | (inserted) fe where "tp_checked req"
        "CreateGuarded (a_fault env) (new_tp_row env ns req fe) (map bm_serviceName (tin_backends req)) t
           = Inr (fst (tp_Create env members ns req t))"
proof (cases "fst (tp_Create env members ns req t) = t")
  case False
  then show thesis
    using that(2) unfolding tp_Create_def Let_def tp_checked_def
    by (simp split: if_splits sum.splits option.splits)
qed (rule that(1))

definition tp_guarded :: "TrafficPolicy list \<Rightarrow> TrafficPolicy list \<Rightarrow> bool" where
  "tp_guarded t t' \<longleftrightarrow> (\<exists>(env :: int api_env) ns req fe. tp_checked req \<and>
     CreateGuarded (a_fault env) (new_tp_row env ns req fe) (map bm_serviceName (tin_backends req)) t = Inr t')"

text \<open>Every step is a guarded insert or a sequence of updates.\<close>

lemma tp_sched_step:
  assumes "tp_sched rt (t, seen) (t', seen')" "seen \<subseteq> S"
  shows "tp_guarded t t' \<and> seen' = seen \<or> (\<exists>S'. seen' \<subseteq> S' \<and> tp_updates (t, S) (t', S'))"
proof -
  have late: ?thesis if "j \<in> seen" "seen' = seen" "wrote tp_id tp_writes j t t'" for j
    using wrote_execs [OF that(3), of S "\<lambda>_. False"] that(1,2) assms(2) by blast
  have whole: ?thesis if "seen' = seen" "\<exists>S'. S \<subseteq> S' \<and> tp_updates (t, S) (t', S')"
    using that assms(2) by blast
  from assms(1) show ?thesis
  proof (cases rule: tp_sched.cases)
    case (tps_insert req env ns fe)
    then show ?thesis unfolding tp_guarded_def by blast
  next
    case (tps_create env members ns req)
    show ?thesis
    proof (cases rule: tp_Create_cases [of env members ns req t])
      case kept
      with tps_create assms(2) show ?thesis by (auto intro!: exI [of _ S])
    next
      case inserted
      with tps_create show ?thesis unfolding tp_guarded_def by blast
    qed
  next
    case (tps_read j)
    then have "tp_updates (t, S) (t', insert j S)" by (auto intro: r_into_rtranclp exec_read)
    with tps_read assms(2) show ?thesis by blast
  next
    case (tps_late_split j spec updates env)
    show ?thesis
      unfolding tps_late_split(1) by (rule late [OF tps_late_split(3,2), unfolded tps_late_split(1)])
        (rule split_wrote [OF tps_late_split(4,5)])
  next
    case (tps_late_promote j spec si ci env)
    show ?thesis
      unfolding tps_late_promote(1) by (rule late [OF tps_late_promote(3,2), unfolded tps_late_promote(1)])
        (rule promote_wrote(1) [OF tps_late_promote(4-7)])
  next
    case (tps_late_rollback j spec si ci env)
    show ?thesis
      unfolding tps_late_rollback(1) by (rule late [OF tps_late_rollback(3,2), unfolded tps_late_rollback(1)])
        (rule promote_wrote(2) [OF tps_late_rollback(4-7)])
  qed ((rule late, assumption, assumption, simp add: tp_handleCreate_wrote
          tp_handleDelete_wrote tp_handleSpecSync_wrote tp_reflectObserved_wrote tp_reflectGone_wrote)
     | (rule whole, assumption, simp add: tp_Patch_updates tp_Delete_updates tp_Split_updates tp_Promote_updates
          tp_Rollback_updates tp_runOnce_updates tp_poll_updates))+
qed

section \<open>What holds in every schedule\<close>

definition occupancy :: "TrafficPolicy list \<Rightarrow> bool" where
  "occupancy t \<longleftrightarrow> (\<forall>p\<in>set t. \<forall>q\<in>set t. \<forall>ns n. references ns n p \<longrightarrow> references ns n q \<longrightarrow> p = q)"

lemma CreateGuarded_Inr:
  assumes "CreateGuarded fault p names t = Inr t'"
  shows "t' = t @ [p] \<and> tp_id p \<notin> tp_id ` set t \<and> (\<forall>n\<in>set names. \<forall>q\<in>set t. \<not> references (tp_namespace p) n q)"
  using assms
  by (auto simp: CreateGuarded_def Let_def insert_live_def list_ex_iff rows_affected_def find_None_iff filter_empty_conv
        split: option.splits if_splits)

lemma new_tp_row_members: "tp_members (new_tp_row env ns req fe) = map bm_serviceName (tin_backends req)"
  by (simp add: tp_members_def new_tp_row_def Let_def json_marshal_def)

lemma guarded_occupancy:
  assumes "tp_guarded t t'" "occupancy t"
  shows "occupancy t'"
proof -
  from assms(1) obtain env :: "int api_env" and ns req fe where
    "CreateGuarded (a_fault env) (new_tp_row env ns req fe) (map bm_serviceName (tin_backends req)) t = Inr t'"
    by (auto simp: tp_guarded_def)
  from CreateGuarded_Inr [OF this] obtain p where p: "t' = t @ [p]"
    "\<forall>n\<in>set (tp_members p). \<forall>q\<in>set t. \<not> references (tp_namespace p) n q"
    by (auto simp: new_tp_row_members)
  have "\<not> references ns n q" if "references ns n p" "q \<in> set t" for ns n q
    using that p(2) by (auto simp: references_def)
  with assms(2) show ?thesis unfolding occupancy_def p(1) by (simp add: ball_Un) blast
qed

lemma tp_same_references: "tp_same a b \<Longrightarrow> references ns n b \<Longrightarrow> references ns n a"
  by (auto simp: tp_same_def references_def tp_members_def spec_same_def tp_nsname_def dest: arg_cong [where f = set])

lemma frame_occupancy:
  assumes "list_all2 tp_same t t'" "distinct (map tp_id t')" "occupancy t"
  shows "occupancy t'"
  unfolding occupancy_def
proof (intro ballI allI impI)
  fix p' q' ns n
  assume p: "p' \<in> set t'" "references ns n p'" and q: "q' \<in> set t'" "references ns n q'"
  obtain a where a: "a \<in> set t" "tp_same a p'" using list_all2_right [OF assms(1) p(1)] by blast
  obtain b where b: "b \<in> set t" "tp_same b q'" using list_all2_right [OF assms(1) q(1)] by blast
  from a b p q assms(3) have "a = b" by (auto simp: occupancy_def dest!: tp_same_references)
  with a b have "tp_id p' = tp_id q'" by (simp add: tp_same_def)
  with unique_key [OF assms(2) q(1) p(1)] show "p' = q'" by simp
qed

lemma guarded_exec: "tp_guarded t t' \<Longrightarrow> exec tp_id tp_init tp_writes (t, S) (t', S)"
proof -
  assume "tp_guarded t t'"
  then obtain env :: "int api_env" and ns req fe where "tp_checked req"
    "CreateGuarded (a_fault env) (new_tp_row env ns req fe) (map bm_serviceName (tin_backends req)) t = Inr t'"
    unfolding tp_guarded_def by blast
  moreover from this(1) have "tp_init (new_tp_row env ns req fe)" unfolding tp_init_def by blast
  ultimately show ?thesis using CreateGuarded_Inr exec_insert by metis
qed

text \<open>The invariant of a schedule: its rows are those of an execution, and no service is taken twice.\<close>

lemma tp_scheds:
  assumes "(tp_sched rt)\<^sup>*\<^sup>* s s'" "snd s \<subseteq> S" "tp_outbox.inv (fst s, S)" "occupancy (fst s)"
  shows "\<exists>S'. snd s' \<subseteq> S' \<and> execs tp_id tp_init tp_writes (fst s, S) (fst s', S') \<and> occupancy (fst s')"
  using assms
proof (induction rule: rtranclp_induct)
  case (step y z)
  then obtain S1 where S1: "snd y \<subseteq> S1" "execs tp_id tp_init tp_writes (fst s, S) (fst y, S1)" "occupancy (fst y)" by auto
  have inv: "tp_outbox.inv (fst y, S1)" using tp_outbox.execs_keep [OF S1(2) step(5)] by simp
  from tp_sched_step [of rt "fst y" "snd y" "fst z" "snd z" S1] step(2) S1(1)
  consider "tp_guarded (fst y) (fst z)" "snd z = snd y" | S2 where "snd z \<subseteq> S2" "tp_updates (fst y, S1) (fst z, S2)"
    by auto
  then show ?case
  proof cases
    case 1
    from guarded_exec [OF this(1), of S1] S1(2) have "execs tp_id tp_init tp_writes (fst s, S) (fst z, S1)"
      by (rule rtranclp.rtrancl_into_rtrancl [rotated])
    with 1 S1 guarded_occupancy show ?thesis by metis
  next
    case 2
    note run = execs_any [OF 2(2), of tp_init]
    have "list_all2 tp_same (fst y) (fst z)" "distinct (map tp_id (fst z))"
      using tp_outbox.execs_keep [OF run inv] execs_length [OF 2(2)] by (auto simp: tp_outbox.inv_def)
    then have "occupancy (fst z)" using S1(3) by (rule frame_occupancy)
    with 2(1) rtranclp_trans [OF S1(2) run] show ?thesis by blast
  qed
qed auto

lemma tp_scheds_start:
  assumes "(tp_sched rt)\<^sup>*\<^sup>* ([], {}) (t, seen)"
  obtains S where "seen \<subseteq> S" "execs tp_id tp_init tp_writes ([], {}) (t, S)" "occupancy t"
  using tp_scheds [OF assms, of "{}"] tp_outbox.start_inv that by (auto simp: occupancy_def)

text \<open>
  C32. In every interleaving of guarded creates, weight operations on rows read at any earlier
  point, patches, deletions, reconciler passes and status reflow, against any runtime, the
  backends of every policy are valid for its mode: the services are distinct, each weight is
  between 0 and 100, and they sum to exactly 100 (the \<open>int32\<close> sum is exact up to 21474836
  backends; canary and bluegreen policies have two).
\<close>

theorem traffic_weights_total:
  assumes "(tp_sched rt)\<^sup>*\<^sup>* ([], {}) (t, seen)" "p \<in> set t"
    and "length (tsp_backends (json_lenient zero_tp_spec (tp_spec p))) \<le> 21474836"
  shows "\<exists>spec. tp_spec p = JOk spec \<and> tsp_mode spec = tp_mode p \<and> distinct (tp_members p) \<and>
     (\<forall>b\<in>set (tsp_backends spec). 0 \<le> bm_weight b \<and> bm_weight b \<le> 100) \<and>
     sum_list (map bm_weight (tsp_backends spec)) = 100"
proof -
  from assms(1) obtain S where "execs tp_id tp_init tp_writes ([], {}) (t, S)" by (rule tp_scheds_start)
  from tp_outbox.rows_ok [OF this assms(2)] obtain spec where
    spec: "tp_spec p = JOk spec" "spec_valid (tp_mode p) spec" by (auto simp: tp_valid_def)
  then obtain w where w: "sum_weights (tsp_backends spec) = Inr w"
    by (auto simp: spec_valid_def validateWeights_def split: sum.splits)
  have "sum_list (map bm_weight (tsp_backends spec)) = 100"
    using spec assms(3) by (intro validateWeights_total [of "tp_mode p"]) (simp_all add: spec_valid_def)
  with spec sum_weights_range [OF w] show ?thesis
    by (auto simp: spec_valid_def validateModeShape_None tp_members_def)
qed

text \<open>
  In every such interleaving a policy once created stays in the table with its id,
  namespace, name, owner, mode, endpoint, backend tuple and member services; whenever its spec
  differs from what it was, its generation is higher; and a deletion is never undone.
\<close>

theorem traffic_frozen:
  assumes "(tp_sched rt)\<^sup>*\<^sup>* ([], {}) (t, seen)" "(tp_sched rt)\<^sup>*\<^sup>* (t, seen) (t', seen')" "p \<in> set t"
  shows "\<exists>p'\<in>set t'. tp_same p p'"
proof -
  from assms(1) obtain S where S: "seen \<subseteq> S" "execs tp_id tp_init tp_writes ([], {}) (t, S)" "occupancy t"
    by (rule tp_scheds_start)
  have "tp_outbox.inv (t, S)" using tp_outbox.execs_keep [OF S(2) tp_outbox.start_inv] by simp
  with tp_scheds [OF assms(2), of S] S obtain S' where "execs tp_id tp_init tp_writes (t, S) (t', S')" by auto
  from tp_outbox.row_keeps [OF S(2) this assms(3)] show ?thesis .
qed

text \<open>
  C33. Occupancy: in every such interleaving, whatever time passes between the validation of a
  request and its insert, a service is a member of at most one live policy of its namespace.
\<close>

theorem traffic_occupancy:
  assumes "(tp_sched rt)\<^sup>*\<^sup>* ([], {}) (t, seen)" "p \<in> set t" "q \<in> set t"
    and "references ns n p" "references ns n q"
  shows "p = q"
proof -
  from assms(1) obtain S where "seen \<subseteq> S" "execs tp_id tp_init tp_writes ([], {}) (t, S)" "occupancy t"
    by (rule tp_scheds_start)
  with assms(2-5) show ?thesis by (auto simp: occupancy_def)
qed

section \<open>A concrete policy\<close>

definition tx_req :: TrafficPolicyCreateRequest where
  "tx_req = \<lparr>tin_name = ''route'', tin_displayName = [], tin_description = [], tin_labels = [], tin_annotations = [],
     tin_mode = TrafficModeCanary, tin_endpoint = \<lparr>ep_path = [], ep_hostname = [], ep_auth = None\<rparr>,
     tin_backends = [\<lparr>bm_serviceName = ''old'', bm_role = RoleStable, bm_weight = 90\<rparr>,
                     \<lparr>bm_serviceName = ''new'', bm_role = RoleCanary, bm_weight = 10\<rparr>]\<rparr>"

definition tx_table :: "TrafficPolicy list" where
  "tx_table = fst (tp_Create rx_env None ''ns'' tx_req [])"

definition tx_rt :: "(TrafficSpec, traffic_observed, unit) runtime" where
  "tx_rt = \<lparr>rt_apply = (\<lambda>_ w. (None, w)), rt_observe = (\<lambda>_ _. Inl \<lparr>rte_message = [], rte_notFound = True,
       rte_terminal = False, rte_unavailable = False\<rparr>),
     rt_cancel = (\<lambda>_ w. (None, w)), rt_delete = (\<lambda>_ w. (None, w)), rt_instances = (\<lambda>_ _. Inr [])\<rparr>"

lemma tx_table_row: "hd tx_table \<in> set tx_table"
proof -
  have "length tx_table = 1" by code_simp
  then have "tx_table \<noteq> []" by auto
  then show ?thesis by (rule hd_in_set)
qed

lemma tx_sched: "(tp_sched tx_rt)\<^sup>*\<^sup>* ([], {}) (tx_table, {})"
  unfolding tx_table_def by (rule r_into_rtranclp, rule tps_create)

lemma tx_promote_sched:
  "(tp_sched tx_rt)\<^sup>*\<^sup>* (tx_table, {}) (fst (tp_Promote rx_env ''ns'' ''route'' tx_table), {})"
  by (rule r_into_rtranclp, rule tps_promote)

theorem traffic_weights_total_witness:
  "\<exists>spec. tp_spec (hd tx_table) = JOk spec \<and> sum_list (map bm_weight (tsp_backends spec)) = 100"
proof -
  have "length (tsp_backends (json_lenient zero_tp_spec (tp_spec (hd tx_table)))) = 2" by code_simp
  then show ?thesis using traffic_weights_total [OF tx_sched tx_table_row] by auto
qed

theorem traffic_frozen_witness:
  "\<exists>p'\<in>set (fst (tp_Promote rx_env ''ns'' ''route'' tx_table)). tp_same (hd tx_table) p'"
  by (rule traffic_frozen [OF tx_sched tx_promote_sched tx_table_row])

theorem traffic_occupancy_witness:
  "references ''ns'' ''new'' (hd tx_table) \<and> hd tx_table = last tx_table"
proof -
  have "references ''ns'' ''new'' (hd tx_table)" "references ''ns'' ''new'' (last tx_table)" by code_simp+
  moreover have "last tx_table \<in> set tx_table" using tx_table_row by (intro last_in_set) auto
  ultimately show ?thesis using traffic_occupancy [OF tx_sched tx_table_row] by blast
qed

section \<open>Promote and Rollback\<close>

lemma tp_load_live:
  assumes "table_ok tp_id tp_nsname tp_deletedAt t" "p \<in> set t" "tp_deletedAt p = None"
    and "a_fault env = (\<lambda>_. None)" "tp_spec p = JOk spec"
  shows "tp_load env (tp_namespace p) (tp_name p) t = Inr (p, spec)"
  using tp_table.get_live_row [OF assms(1-3)] assms(4,5)
  by (simp add: tp_load_def tp_GetByNamespaceName_def tp_nsname_def)

lemma persistSpec_row:
  fixes spec :: TrafficSpec
  assumes "table_ok tp_id tp_nsname tp_deletedAt t" "p \<in> set t" "a_fault env = (\<lambda>_. None)"
  defines "p' \<equiv> p\<lparr>tp_updatedAt := a_now env, tp_spec := JOk spec, tp_generation := tp_generation p + 1\<rparr>"
  shows "persistSpec env p spec t = (update_row tp_id (tp_id p) p' t, Inr (tp_toView p'))"
proof -
  have key: "distinct (map tp_id t)" using assms(1) by (simp add: table_ok_def)
  let ?t = "update_row tp_id (tp_id p) p' t"
  have up: "tp_Update (a_fault env) (a_now env) (tp_id p) (spec_columns spec) t = Inr ?t"
    using update_where_key [OF key assms(2), of "\<lambda>_. True"] assms(3)
    by (simp add: tp_Update_def p'_def spec_columns_def json_marshal_def)
  have "p' \<in> set ?t" by (rule update_row_new [OF assms(2)])
  moreover have "distinct (map tp_id ?t)" using key by (simp add: p'_def)
  moreover have "tp_id p' = tp_id p" by (simp add: p'_def)
  ultimately have "first_row tp_id (\<lambda>r. tp_id r = tp_id p) ?t = Inr p'" using first_row_key [of tp_id ?t p'] by simp
  then show ?thesis using up assms(3) by (simp add: persistSpec_def reread_def tp_Get_def)
qed

text \<open>What a canary operation does to each member.\<close>

definition promoted :: "BackendMember \<Rightarrow> BackendMember \<Rightarrow> bool" where
  "promoted b b' \<longleftrightarrow> bm_serviceName b' = bm_serviceName b \<and>
     (if bm_role b = RoleCanary then bm_role b' = RoleStable \<and> bm_weight b' = 100
      else bm_role b' = RoleCanary \<and> bm_weight b' = 0)"

definition rolled_back :: "BackendMember \<Rightarrow> BackendMember \<Rightarrow> bool" where
  "rolled_back b b' \<longleftrightarrow> bm_serviceName b' = bm_serviceName b \<and> bm_role b' = bm_role b \<and>
     bm_weight b' = (if bm_role b = RoleCanary then 0 else 100)"

lemma canary_members:
  assumes "spec_valid TrafficModeCanary spec"
  obtains si ci where "roleIndex (tsp_backends spec) RoleStable = Some si" "roleIndex (tsp_backends spec) RoleCanary = Some ci"
    "list_all2 promoted (tsp_backends spec) (promote_backends si ci (tsp_backends spec))"
    "list_all2 rolled_back (tsp_backends spec) (rollback_backends si ci (tsp_backends spec))"
proof -
  from assms obtain si ci where i: "roleIndex (tsp_backends spec) RoleStable = Some si"
    "roleIndex (tsp_backends spec) RoleCanary = Some ci" by (auto simp: spec_valid_def validateModeShape_None)
  from canary_pair [OF assms i] obtain a b where ab: "tsp_backends spec = [a, b]"
    "si = 0 \<and> ci = 1 \<or> si = 1 \<and> ci = 0" .
  have "bm_role (tsp_backends spec ! si) = RoleStable" "bm_role (tsp_backends spec ! ci) = RoleCanary"
    using roleIndex_Some [OF i(1)] roleIndex_Some [OF i(2)] by auto
  then have "list_all2 promoted (tsp_backends spec) (promote_backends si ci (tsp_backends spec))"
    "list_all2 rolled_back (tsp_backends spec) (rollback_backends si ci (tsp_backends spec))"
    using ab(2) by (auto simp: ab(1) promoted_def rolled_back_def promote_backends_def rollback_backends_def)
  with i that show thesis by blast
qed

text \<open>The outcomes of such an operation on the live row \<open>p\<close>.\<close>

definition spec_written ::
  "TrafficPolicy list \<Rightarrow> TrafficPolicy \<Rightarrow> TrafficSpec \<Rightarrow> (BackendMember \<Rightarrow> BackendMember \<Rightarrow> bool) \<Rightarrow>
   TrafficPolicy list \<times> (err + tp_view) \<Rightarrow> bool" where
  "spec_written t p spec step res \<longleftrightarrow>
     (\<exists>p' spec'. res = (update_row tp_id (tp_id p) p' t, Inr (tp_toView p')) \<and>
        tp_spec p' = JOk spec' \<and> list_all2 step (tsp_backends spec) (tsp_backends spec') \<and>
        tp_generation p' = tp_generation p + 1 \<and> tp_same p p')"

definition tp_refused :: "TrafficPolicy list \<Rightarrow> TrafficPolicy list \<times> (err + tp_view) \<Rightarrow> bool" where
  "tp_refused t res \<longleftrightarrow> (\<exists>m. res = (t, Inl (EApp CodePrecondition m)))"

text \<open>
  \<open>Promote\<close> and \<open>Rollback\<close> on a live policy, without statement errors. On a canary
  policy Promote makes the canary member the stable one with all the traffic and the stable
  member the canary with none; Rollback gives the stable member all the traffic and changes no
  role. Both raise the generation by one, return the new row, and change no other row. On other
  policies both are refused and nothing is written.
\<close>

theorem traffic_promote_rollback:
  assumes "table_ok tp_id tp_nsname tp_deletedAt t" "p \<in> set t" "tp_deletedAt p = None" "a_fault env = (\<lambda>_. None)"
    and "tp_spec p = JOk spec" "spec_valid (tp_mode p) spec"
  shows "if tp_mode p = TrafficModeCanary
     then spec_written t p spec promoted (tp_Promote env (tp_namespace p) (tp_name p) t) \<and>
          spec_written t p spec rolled_back (tp_Rollback env (tp_namespace p) (tp_name p) t)
     else tp_refused t (tp_Promote env (tp_namespace p) (tp_name p) t) \<and>
          tp_refused t (tp_Rollback env (tp_namespace p) (tp_name p) t)"
proof (cases "tp_mode p = TrafficModeCanary")
  case True
  note load = tp_load_live [OF assms(1-5)]
  have mode: "tsp_mode spec = TrafficModeCanary" using assms(6) True by (simp add: spec_valid_def)
  from canary_members [of spec] assms(6) True obtain si ci where c:
    "roleIndex (tsp_backends spec) RoleStable = Some si" "roleIndex (tsp_backends spec) RoleCanary = Some ci"
    "list_all2 promoted (tsp_backends spec) (promote_backends si ci (tsp_backends spec))"
    "list_all2 rolled_back (tsp_backends spec) (rollback_backends si ci (tsp_backends spec))" by auto
  have i: "si < length (tsp_backends spec)" "ci < length (tsp_backends spec)"
    using roleIndex_Some [OF c(1)] roleIndex_Some [OF c(2)] by auto
  have w: "spec_written t p spec step (persistSpec env p (spec\<lparr>tsp_backends := bs\<rparr>) t)"
    if "list_all2 step (tsp_backends spec) bs" "map bm_serviceName bs = map bm_serviceName (tsp_backends spec)" for bs step
  proof -
    let ?p = "p\<lparr>tp_updatedAt := a_now env, tp_spec := JOk (spec\<lparr>tsp_backends := bs\<rparr>), tp_generation := tp_generation p + 1\<rparr>"
    have "tp_same p ?p" using that(2) assms(3,5) by (simp add: tp_same_def tp_nsname_def spec_same_def)
    with that(1) show ?thesis
      unfolding spec_written_def persistSpec_row [OF assms(1,2,4)]
      by (intro exI [of _ ?p] exI [of _ "spec\<lparr>tsp_backends := bs\<rparr>"]) simp
  qed
  show ?thesis using True load mode c w [OF c(3) promote_names(1) [OF i]] w [OF c(4) promote_names(2) [OF i]]
    by (simp add: tp_Promote_def tp_Rollback_def)
next
  case False
  then have "tsp_mode spec \<noteq> TrafficModeCanary" using assms(6) by (simp add: spec_valid_def)
  with False tp_load_live [OF assms(1-5)] show ?thesis by (simp add: tp_Promote_def tp_Rollback_def tp_refused_def)
qed

theorem traffic_promote_rollback_witness:
  "\<exists>spec. tp_spec (hd tx_table) = JOk spec \<and>
     spec_written tx_table (hd tx_table) spec promoted
       (tp_Promote rx_env (tp_namespace (hd tx_table)) (tp_name (hd tx_table)) tx_table)"
proof -
  have "table_ok tp_id tp_nsname tp_deletedAt tx_table" "tp_deletedAt (hd tx_table) = None"
    "tp_mode (hd tx_table) = TrafficModeCanary"
    "spec_valid (tp_mode (hd tx_table)) (json_lenient zero_tp_spec (tp_spec (hd tx_table)))"
    "json_decode (tp_spec (hd tx_table)) \<noteq> None" by code_simp+
  moreover from this(5) obtain spec where "tp_spec (hd tx_table) = JOk spec"
    by (cases "tp_spec (hd tx_table)") auto
  moreover have "a_fault rx_env = (\<lambda>_. None)" by (simp add: rx_env_def)
  ultimately show ?thesis
    using traffic_promote_rollback [of tx_table "hd tx_table" rx_env spec] tx_table_row by auto
qed

end
