(* ===== verification/ElasticScheduling.thy ===== *)
theory ElasticScheduling
  imports Resources
begin

text \<open>
  The cluster side of quota enforcement, the AxisML scheduler
  (\<^verbatim>\<open>axisml-infra/axisml-scheduler/internal\<close>): the usage cache
  (\<^verbatim>\<open>quota/cache.go\<close>), the scheduler plugin with its Pod informer
  (\<^verbatim>\<open>plugins/elasticscheduling/elasticscheduling.go\<close>) and the status controller
  (\<^verbatim>\<open>controllers/elasticquota.go\<close>).

  Parameters of the model, from the Kubernetes libraries: \<open>req\<close> is
  \<open>resourcehelper.PodRequests\<close>, \<open>show_q\<close> is \<open>Quantity.String\<close>, \<open>splitKey\<close> is
  \<open>SplitMetaNamespaceKey\<close>; the quota reader is a function of namespace and name. The cache's
  mutex makes each operation on it one step.
\<close>

section \<open>The usage cache\<close>

record pod =
  pod_namespace :: string
  pod_uid :: string
  pod_labels :: "(string, string) gomap"
  pod_nodeName :: string
  pod_phase :: string
  pod_spec :: string

abbreviation "QuotaLabel \<equiv> ''scheduling.axisml.io/quota''"

definition Key :: "string \<Rightarrow> string \<Rightarrow> string" where
  "Key namespace name = namespace @ ''/'' @ name"

definition Terminal :: "pod \<Rightarrow> bool" where
  "Terminal pod \<longleftrightarrow> pod_phase pod = ''Succeeded'' \<or> pod_phase pod = ''Failed''"

record 'q info =
  in_pods :: "(string, 'q resource_list) gomap"
  in_total :: "'q resource_list"

type_synonym 'q Cache = "(string, 'q info) gomap"

definition quota_add :: "'q::linordered_ab_group_add resource_list \<Rightarrow> 'q resource_list \<Rightarrow> 'q resource_list" where
  "quota_add tot req = foldl addEntry tot req"

definition sub_entry :: "'q::linordered_ab_group_add resource_list \<Rightarrow> string \<times> 'q \<Rightarrow> 'q resource_list" where
  "sub_entry tot e = (case e of (name, q) \<Rightarrow>
     let cur = rget tot name - q in if cur = 0 then AList.delete name tot else AList.update name cur tot)"

definition quota_sub :: "'q::linordered_ab_group_add resource_list \<Rightarrow> 'q resource_list \<Rightarrow> 'q resource_list" where
  "quota_sub tot req = foldl sub_entry tot req"

definition AddPod ::
  "'q::linordered_ab_group_add Cache \<Rightarrow> string \<Rightarrow> string \<Rightarrow> 'q resource_list \<Rightarrow> 'q Cache" where
  "AddPod c quotaKey podKey req =
     (let i = (case map_of c quotaKey of None \<Rightarrow> \<lparr>in_pods = [], in_total = []\<rparr> | Some i \<Rightarrow> i);
          tot = (case map_of (in_pods i) podKey of
                     Some prev \<Rightarrow> quota_sub (in_total i) prev | None \<Rightarrow> in_total i)
      in AList.update quotaKey \<lparr>in_pods = AList.update podKey (copyList req) (in_pods i),
                                in_total = quota_add tot req\<rparr> c)"

definition RemovePod :: "'q::linordered_ab_group_add Cache \<Rightarrow> string \<Rightarrow> string \<Rightarrow> 'q Cache" where
  "RemovePod c quotaKey podKey =
     (case map_of c quotaKey of None \<Rightarrow> c
      | Some i \<Rightarrow>
          let i = (case map_of (in_pods i) podKey of
                     Some prev \<Rightarrow> \<lparr>in_pods = AList.delete podKey (in_pods i), in_total = quota_sub (in_total i) prev\<rparr>
                   | None \<Rightarrow> i)
          in if in_pods i = [] then AList.delete quotaKey c else AList.update quotaKey i c)"

definition Used :: "'q Cache \<Rightarrow> string \<Rightarrow> 'q resource_list" where
  "Used c quotaKey = (case map_of c quotaKey of None \<Rightarrow> [] | Some i \<Rightarrow> copyList (in_total i))"

section \<open>The plugin\<close>

datatype fw_status = FwSuccess | FwUnschedulable string | FwError string

datatype eq_error = EqNotFound | EqError string

record 'q ElasticQuota =
  eq_max :: "'q resource_list"
  eq_used :: "'q resource_list option"

text \<open>The loop over \<open>spec.max\<close>: the first resource that would go past its limit.\<close>

fun first_exceeded ::
  "'q::linordered_ab_group_add resource_list \<Rightarrow> 'q resource_list \<Rightarrow> (string \<times> 'q) list \<Rightarrow> (string \<times> 'q \<times> 'q) option" where
  "first_exceeded used req [] = None"
| "first_exceeded used req ((name, mx) # rest) =
     (let tot = (case map_of req name of Some r \<Rightarrow> rget used name + r | None \<Rightarrow> rget used name)
      in if tot > mx then Some (name, tot, mx) else first_exceeded used req rest)"

definition PreFilter ::
  "(string \<Rightarrow> string \<Rightarrow> eq_error + 'q::linordered_ab_group_add ElasticQuota) \<Rightarrow> ('q \<Rightarrow> string) \<Rightarrow>
   (pod \<Rightarrow> 'q resource_list) \<Rightarrow> 'q Cache \<Rightarrow> pod \<Rightarrow> fw_status" where
  "PreFilter getEQ show_q req usage pod =
     (let eqName = sget (pod_labels pod) QuotaLabel; ns = pod_namespace pod in
      if eqName = [] then FwUnschedulable (''missing required quota label '' @ go_quote QuotaLabel @
                            ''; no quota-bypass scheduling path is allowed'')
      else case getEQ ns eqName of
        Inl EqNotFound \<Rightarrow> FwUnschedulable (''ElasticQuota '' @ ns @ ''/'' @ eqName @
                            '' not found; waiting for it before admitting the pod'')
      | Inl (EqError e) \<Rightarrow> FwError (''get elasticquota '' @ ns @ ''/'' @ eqName @ '': '' @ e)
      | Inr eq \<Rightarrow>
          if eq_max eq = [] then FwSuccess
          else (case first_exceeded (Used usage (Key ns eqName)) (req pod) (eq_max eq) of
                  Some (name, tot, mx) \<Rightarrow>
                    FwUnschedulable (''ElasticQuota '' @ ns @ ''/'' @ eqName @ '' exceeded for '' @ name @
                      '': requested-with-usage '' @ show_q tot @ '' > max '' @ show_q mx)
                | None \<Rightarrow> FwSuccess))"

definition pod_key :: "pod \<Rightarrow> string" where
  "pod_key pod = Key (pod_namespace pod) (sget (pod_labels pod) QuotaLabel)"

definition Reserve :: "(pod \<Rightarrow> 'q::linordered_ab_group_add resource_list) \<Rightarrow> 'q Cache \<Rightarrow> pod \<Rightarrow> 'q Cache" where
  "Reserve req usage pod =
     (if sget (pod_labels pod) QuotaLabel \<noteq> [] then AddPod usage (pod_key pod) (pod_uid pod) (req pod) else usage)"

definition Unreserve :: "'q::linordered_ab_group_add Cache \<Rightarrow> pod \<Rightarrow> 'q Cache" where
  "Unreserve usage pod =
     (if sget (pod_labels pod) QuotaLabel \<noteq> [] then RemovePod usage (pod_key pod) (pod_uid pod) else usage)"

text \<open>An informer's \<open>interface{}\<close>: a Pod, a tombstone (of a Pod or of something else), or other.\<close>

datatype informer_obj = ObjPod pod | ObjTombstone "pod option" | ObjOther

definition managedPod :: "pod \<Rightarrow> bool" where
  "managedPod pod \<longleftrightarrow> pod_nodeName pod \<noteq> [] \<and> sget (pod_labels pod) QuotaLabel \<noteq> [] \<and> \<not> Terminal pod"

fun filterFunc :: "informer_obj \<Rightarrow> bool" where
  "filterFunc (ObjPod pod) = managedPod pod"
| "filterFunc (ObjTombstone (Some pod)) = managedPod pod"
| "filterFunc (ObjTombstone None) = False"
| "filterFunc ObjOther = False"

fun onPodAdd :: "(pod \<Rightarrow> 'q::linordered_ab_group_add resource_list) \<Rightarrow> 'q Cache \<Rightarrow> informer_obj \<Rightarrow> 'q Cache" where
  "onPodAdd req usage (ObjPod pod) = AddPod usage (pod_key pod) (pod_uid pod) (req pod)"
| "onPodAdd req usage _ = usage"

fun onPodUpdate ::
  "(pod \<Rightarrow> 'q::linordered_ab_group_add resource_list) \<Rightarrow> 'q Cache \<Rightarrow> informer_obj \<Rightarrow> informer_obj \<Rightarrow> 'q Cache" where
  "onPodUpdate req usage oldObj (ObjPod newPod) =
     (let newKey = pod_key newPod;
          usage = (case oldObj of
                     ObjPod oldPod \<Rightarrow> if pod_key oldPod \<noteq> newKey then RemovePod usage (pod_key oldPod) (pod_uid oldPod) else usage
                   | _ \<Rightarrow> usage)
      in if Terminal newPod then RemovePod usage newKey (pod_uid newPod)
         else AddPod usage newKey (pod_uid newPod) (req newPod))"
| "onPodUpdate req usage oldObj _ = usage"

fun onPodDelete :: "'q::linordered_ab_group_add Cache \<Rightarrow> informer_obj \<Rightarrow> 'q Cache" where
  "onPodDelete usage (ObjPod pod) = RemovePod usage (pod_key pod) (pod_uid pod)"
| "onPodDelete usage (ObjTombstone (Some pod)) = RemovePod usage (pod_key pod) (pod_uid pod)"
| "onPodDelete usage _ = usage"

section \<open>The status controller\<close>

fun podFrom :: "informer_obj \<Rightarrow> pod option" where
  "podFrom (ObjPod pod) = Some pod"
| "podFrom (ObjTombstone p) = p"
| "podFrom ObjOther = None"

text \<open>The queue key an event adds, if any.\<close>

definition enqueuePod :: "informer_obj \<Rightarrow> string option" where
  "enqueuePod obj = (case podFrom obj of None \<Rightarrow> None
     | Some pod \<Rightarrow> if sget (pod_labels pod) QuotaLabel \<noteq> [] then Some (pod_key pod) else None)"

definition pods_used :: "(pod \<Rightarrow> 'q::linordered_ab_group_add resource_list) \<Rightarrow> pod list \<Rightarrow> 'q resource_list" where
  "pods_used req pods =
     foldl (\<lambda>used pod. if pod_nodeName pod = [] \<or> Terminal pod then used else foldl addEntry used (req pod)) [] pods"

text \<open>
  \<open>apiequality.Semantic.DeepEqual\<close> on \<open>status.used\<close>, as the comment in \<open>reconcile\<close> describes
  it: a nil map equals only a nil map.
\<close>

fun used_eq :: "'q resource_list option \<Rightarrow> 'q resource_list option \<Rightarrow> bool" where
  "used_eq None None = True"
| "used_eq (Some a) (Some b) = map_eq a b"
| "used_eq _ _ = False"

text \<open>
  \<open>reconcile\<close>: the error it returns (the key is then retried) and the status it writes, if
  any. \<open>putStatus\<close> is the error of the update call.
\<close>

definition eq_reconcile ::
  "(string \<Rightarrow> (string \<times> string) option) \<Rightarrow> (string \<Rightarrow> string \<Rightarrow> eq_error + 'q::linordered_ab_group_add ElasticQuota) \<Rightarrow>
   (string \<Rightarrow> string + pod list) \<Rightarrow> (pod \<Rightarrow> 'q resource_list) \<Rightarrow> string option \<Rightarrow> string \<Rightarrow>
   string option \<times> (string \<times> string \<times> 'q ElasticQuota) option" where
  "eq_reconcile splitKey getEQ listPods req putStatus key =
     (case splitKey key of None \<Rightarrow> (None, None) | Some (ns, name) \<Rightarrow>
      case getEQ ns name of
        Inl EqNotFound \<Rightarrow> (None, None)
      | Inl (EqError e) \<Rightarrow> (Some e, None)
      | Inr eq \<Rightarrow>
          (case listPods ns of Inl e \<Rightarrow> (Some e, None) | Inr all \<Rightarrow>
           let pods = filter (\<lambda>pod. map_of (pod_labels pod) QuotaLabel = Some name) all;
               used = pods_used req pods;
               used = (if used = [] then None else Some used)
           in if used_eq (eq_used eq) used then (None, None)
              else case putStatus of Some e \<Rightarrow> (Some (''update status: '' @ e), None)
                   | None \<Rightarrow> (None, Some (ns, name, eq\<lparr>eq_used := used\<rparr>))))"

end
