(* ===== verification/ElasticProps.thy ===== *)
theory ElasticProps
  imports ElasticScheduling
begin

text \<open>
  Correctness of the scheduler's quota accounting: the cache with its running totals implements
  a ledger of pods per quota; over that ledger, no sequence of scheduling cycles and informer
  events takes a quota past its maximum, rebinding a pod moves its request, and the status the
  controller publishes is the number the plugin decides by.
\<close>

section \<open>Sums over Go maps\<close>

definition amount :: "'q::linordered_ab_group_add resource_list option \<Rightarrow> string \<Rightarrow> 'q" where
  "amount r n = (case r of None \<Rightarrow> 0 | Some r \<Rightarrow> rget r n)"

definition pods_amount :: "(string, 'q::linordered_ab_group_add resource_list) gomap \<Rightarrow> string \<Rightarrow> 'q" where
  "pods_amount pods n = sum_list (map (\<lambda>(p, r). rget r n) pods)"

lemma pods_amount_update:
  "wf_map pods \<Longrightarrow> pods_amount (AList.update p r pods) n = pods_amount pods n - amount (map_of pods p) n + rget r n"
  by (induction pods) (auto simp: pods_amount_def amount_def algebra_simps)

lemma pods_amount_delete:
  "wf_map pods \<Longrightarrow> pods_amount (AList.delete p pods) n = pods_amount pods n - amount (map_of pods p) n"
  by (induction pods) (auto simp: pods_amount_def amount_def algebra_simps)

lemma wf_map_delete [simp]: "wf_map m \<Longrightarrow> wf_map (AList.delete k m)"
  by (simp add: wf_map_def distinct_delete)

lemma map_of_deleted [simp]: "map_of (AList.delete k m) = (map_of m)(k := None)"
  by (rule delete_conv')

lemma quota_add_sum: "quota_add tot req = sumLists tot req"
  by (simp add: quota_add_def sumLists_def)

lemma rget_sub_entry: "rget (sub_entry tot (k, q)) n = (if n = k then rget tot k - q else rget tot n)"
  by (simp add: sub_entry_def Let_def rget_def)

lemma rget_quota_sub:
  "wf_map req \<Longrightarrow> rget (quota_sub tot req) n = rget tot n - rget req n"
  unfolding quota_sub_def
proof (induction req arbitrary: tot)
  case (Cons e req)
  obtain k v where e: "e = (k, v)" by (cases e)
  with Cons.prems have "wf_map req" "map_of req k = None" by auto
  then show ?case using Cons.IH [of "sub_entry tot e"] by (simp add: e rget_sub_entry rget_None)
qed simp

lemma wf_quota_sub: "wf_map tot \<Longrightarrow> wf_map (quota_sub tot req)"
  unfolding quota_sub_def by (induction req arbitrary: tot) (auto simp: sub_entry_def Let_def)

section \<open>The ledger interface\<close>

text \<open>
  What the plugin relies on: a ledger of the pods recorded per quota, whose use per resource
  moves by exactly the difference an operation makes.
\<close>

locale usage_ledger =
  fixes ok :: "'c \<Rightarrow> bool"
    and add :: "'c \<Rightarrow> string \<Rightarrow> string \<Rightarrow> 'q::linordered_ab_group_add resource_list \<Rightarrow> 'c"
    and remove :: "'c \<Rightarrow> string \<Rightarrow> string \<Rightarrow> 'c"
    and used :: "'c \<Rightarrow> string \<Rightarrow> 'q resource_list"
    and recorded :: "'c \<Rightarrow> string \<Rightarrow> string \<Rightarrow> 'q resource_list option"
  assumes add_ok: "ok c \<Longrightarrow> wf_map r \<Longrightarrow> ok (add c k p r)"
    and remove_ok: "ok c \<Longrightarrow> ok (remove c k p)"
    and recorded_add: "ok c \<Longrightarrow> recorded (add c k p r) k' p' = (if k' = k \<and> p' = p then Some r else recorded c k' p')"
    and recorded_remove: "ok c \<Longrightarrow> recorded (remove c k p) k' p' = (if k' = k \<and> p' = p then None else recorded c k' p')"
    and used_add: "ok c \<Longrightarrow> wf_map r \<Longrightarrow> rget (used (add c k p r) k') n =
      (if k' = k then rget (used c k) n - amount (recorded c k p) n + rget r n else rget (used c k') n)"
    and used_remove: "ok c \<Longrightarrow> rget (used (remove c k p) k') n =
      (if k' = k then rget (used c k) n - amount (recorded c k p) n else rget (used c k') n)"
begin

text \<open>Recording again what is recorded changes nothing; removing undoes a first recording.\<close>

lemma used_again: "ok c \<Longrightarrow> wf_map r \<Longrightarrow> recorded c k p = Some r \<Longrightarrow> rget (used (add c k p r) k') n = rget (used c k') n"
  by (simp add: used_add amount_def)

lemma used_undo:
  "ok c \<Longrightarrow> wf_map r \<Longrightarrow> recorded c k p = None \<Longrightarrow> rget (used (remove (add c k p r) k p) k') n = rget (used c k') n"
  by (simp add: used_remove used_add recorded_add add_ok amount_def)

lemma used_remove_le:
  "ok c \<Longrightarrow> (\<And>r n. recorded c k p = Some r \<Longrightarrow> 0 \<le> rget r n) \<Longrightarrow> rget (used (remove c k p) k') n \<le> rget (used c k') n"
  by (cases "recorded c k p") (auto simp: used_remove amount_def)

end

text \<open>A ledger that also lists its pods: the use is the sum over the list.\<close>

locale exact_ledger = usage_ledger ok add remove used recorded
  for ok :: "'c \<Rightarrow> bool"
    and add :: "'c \<Rightarrow> string \<Rightarrow> string \<Rightarrow> 'q::linordered_ab_group_add resource_list \<Rightarrow> 'c"
    and remove :: "'c \<Rightarrow> string \<Rightarrow> string \<Rightarrow> 'c"
    and used :: "'c \<Rightarrow> string \<Rightarrow> 'q resource_list"
    and recorded :: "'c \<Rightarrow> string \<Rightarrow> string \<Rightarrow> 'q resource_list option" +
  fixes pods_of :: "'c \<Rightarrow> string \<Rightarrow> (string, 'q resource_list) gomap"
  assumes pods_recorded: "ok c \<Longrightarrow> wf_map (pods_of c k) \<and> map_of (pods_of c k) p = recorded c k p"
    and used_sum: "ok c \<Longrightarrow> rget (used c k) n = pods_amount (pods_of c k) n"
begin

lemma used_empty: "ok c \<Longrightarrow> (\<And>p. recorded c k p = None) \<Longrightarrow> rget (used c k) n = 0"
proof -
  assume "ok c" and "\<And>p. recorded c k p = None"
  with pods_recorded have "map_of (pods_of c k) p = None" for p by simp
  then have "pods_of c k = []" by (metis map_of_eq_empty_iff ext)
  with \<open>ok c\<close> show ?thesis by (simp add: used_sum pods_amount_def)
qed

end

section \<open>The cache is a ledger\<close>

definition cache_pods :: "'q Cache \<Rightarrow> string \<Rightarrow> (string, 'q resource_list) gomap" where
  "cache_pods c k = (case map_of c k of None \<Rightarrow> [] | Some i \<Rightarrow> in_pods i)"

definition cache_recorded :: "'q Cache \<Rightarrow> string \<Rightarrow> string \<Rightarrow> 'q resource_list option" where
  "cache_recorded c k p = map_of (cache_pods c k) p"

definition info_ok :: "'q::linordered_ab_group_add info \<Rightarrow> bool" where
  "info_ok i \<longleftrightarrow> wf_map (in_pods i) \<and> (\<forall>(p, r)\<in>set (in_pods i). wf_map r) \<and> wf_map (in_total i) \<and>
     (\<forall>n. rget (in_total i) n = pods_amount (in_pods i) n)"

definition cache_ok :: "'q::linordered_ab_group_add Cache \<Rightarrow> bool" where
  "cache_ok c \<longleftrightarrow> wf_map c \<and> (\<forall>k i. map_of c k = Some i \<longrightarrow> info_ok i)"

text \<open>The entry of a quota, empty when there is none.\<close>

definition cache_info :: "'q Cache \<Rightarrow> string \<Rightarrow> 'q info" where
  "cache_info c k = (case map_of c k of None \<Rightarrow> \<lparr>in_pods = [], in_total = []\<rparr> | Some i \<Rightarrow> i)"

lemma cache_info_ok: "cache_ok c \<Longrightarrow> info_ok (cache_info c k)"
  by (auto simp: cache_ok_def cache_info_def info_ok_def pods_amount_def split: option.split)

lemma cache_by_info: "cache_pods c k = in_pods (cache_info c k)" "Used c k = in_total (cache_info c k)"
  by (simp_all add: cache_pods_def cache_info_def Used_def split: option.split)

lemma info_entry_wf: "info_ok i \<Longrightarrow> map_of (in_pods i) p = Some r \<Longrightarrow> wf_map r"
  by (auto simp: info_ok_def dest: map_of_SomeD)

lemma set_alist_update: "set (AList.update k v m) \<subseteq> insert (k, v) (set m)"
  by (induction m) auto

lemma set_alist_delete: "set (AList.delete k m) \<subseteq> set m"
  by (induction m) auto

lemma AddPod_info:
  "cache_info (AddPod c k p r) k' =
     (if k' = k then \<lparr>in_pods = AList.update p r (in_pods (cache_info c k)),
        in_total = quota_add (case map_of (in_pods (cache_info c k)) p of
           Some prev \<Rightarrow> quota_sub (in_total (cache_info c k)) prev | None \<Rightarrow> in_total (cache_info c k)) r\<rparr>
      else cache_info c k')"
  by (simp add: AddPod_def cache_info_def Let_def split: option.split)

lemma added_info_ok:
  assumes "info_ok i" "wf_map r"
  shows "info_ok \<lparr>in_pods = AList.update p r (in_pods i),
     in_total = quota_add (case map_of (in_pods i) p of Some prev \<Rightarrow> quota_sub (in_total i) prev | None \<Rightarrow> in_total i) r\<rparr>"
  using assms set_alist_update [of p r "in_pods i"] info_entry_wf [OF assms(1), of p]
  by (auto simp: info_ok_def quota_add_sum rget_sumLists rget_quota_sub wf_quota_sub pods_amount_update amount_def
        split: option.split)

lemma AddPod_ok: "cache_ok c \<Longrightarrow> wf_map r \<Longrightarrow> cache_ok (AddPod c k p r)"
proof -
  assume c: "cache_ok c" and r: "wf_map r"
  have "info_ok i" if "map_of (AddPod c k p r) k' = Some i" for k' i
  proof -
    from that have "i = cache_info (AddPod c k p r) k'" by (simp add: cache_info_def)
    then show ?thesis using cache_info_ok [OF c] added_info_ok [OF cache_info_ok [OF c] r] by (simp add: AddPod_info)
  qed
  moreover have "wf_map (AddPod c k p r)" using c by (simp add: AddPod_def Let_def cache_ok_def)
  ultimately show ?thesis by (simp add: cache_ok_def)
qed

lemma removed_info_ok:
  "info_ok i \<Longrightarrow> map_of (in_pods i) p = Some prev \<Longrightarrow>
     info_ok \<lparr>in_pods = AList.delete p (in_pods i), in_total = quota_sub (in_total i) prev\<rparr>"
  using info_entry_wf [of i p prev]
  by (auto simp: info_ok_def rget_quota_sub wf_quota_sub pods_amount_delete amount_def dest!: subsetD [OF set_alist_delete])

lemma RemovePod_ok: "cache_ok c \<Longrightarrow> cache_ok (RemovePod c k p)"
proof (cases "map_of c k")
  case (Some i)
  assume c: "cache_ok c"
  with Some have "info_ok i" by (simp add: cache_ok_def)
  with c Some removed_info_ok [of i p] show ?thesis
    by (auto simp: RemovePod_def cache_ok_def Let_def split: option.split)
qed (simp add: RemovePod_def)

lemma cache_pods_AddPod:
  "cache_pods (AddPod c k p r) k' = (if k' = k then AList.update p r (cache_pods c k) else cache_pods c k')"
  by (simp add: cache_by_info(1) AddPod_info)

lemma cache_pods_RemovePod:
  assumes "cache_ok c"
  shows "cache_pods (RemovePod c k p) k' = (if k' = k then AList.delete p (cache_pods c k) else cache_pods c k')"
proof (cases "map_of c k")
  case (Some i)
  have "AList.delete p (in_pods i) = in_pods i" if "map_of (in_pods i) p = None"
    using that by (simp add: map_of_eq_None_iff)
  with Some show ?thesis
    by (auto simp: RemovePod_def cache_pods_def Let_def split: option.split)
qed (auto simp: RemovePod_def cache_pods_def)

lemma Used_sum: "cache_ok c \<Longrightarrow> rget (Used c k) n = pods_amount (cache_pods c k) n"
  using cache_info_ok [of c k] by (simp add: cache_by_info info_ok_def)

lemma cache_pods_wf: "cache_ok c \<Longrightarrow> wf_map (cache_pods c k)"
  using cache_info_ok [of c k] by (simp add: cache_by_info info_ok_def)

interpretation cache: exact_ledger cache_ok AddPod RemovePod Used cache_recorded cache_pods
proof
  fix c :: "'q::linordered_ab_group_add Cache" and k p k' p' n r
  assume c: "cache_ok c"
  show "cache_ok (RemovePod c k p)" by (rule RemovePod_ok [OF c])
  show "cache_recorded (AddPod c k p r) k' p' = (if k' = k \<and> p' = p then Some r else cache_recorded c k' p')"
    by (simp add: cache_recorded_def cache_pods_AddPod)
  show "cache_recorded (RemovePod c k p) k' p' = (if k' = k \<and> p' = p then None else cache_recorded c k' p')"
    by (simp add: cache_recorded_def cache_pods_RemovePod [OF c])
  show "rget (Used (RemovePod c k p) k') n =
      (if k' = k then rget (Used c k) n - amount (cache_recorded c k p) n else rget (Used c k') n)"
    by (simp add: Used_sum c RemovePod_ok cache_pods_RemovePod cache_pods_wf pods_amount_delete cache_recorded_def)
  show "wf_map (cache_pods c k) \<and> map_of (cache_pods c k) p = cache_recorded c k p"
    by (simp add: cache_pods_wf [OF c] cache_recorded_def)
  show "rget (Used c k) n = pods_amount (cache_pods c k) n" by (rule Used_sum [OF c])
  assume r: "wf_map r"
  show "cache_ok (AddPod c k p r)" by (rule AddPod_ok [OF c r])
  then show "rget (Used (AddPod c k p r) k') n =
      (if k' = k then rget (Used c k) n - amount (cache_recorded c k p) n + rget r n else rget (Used c k') n)"
    by (simp add: Used_sum c cache_pods_AddPod cache_pods_wf pods_amount_update cache_recorded_def)
qed

section \<open>Scheduling\<close>

text \<open>
  The environment of the plugin: a scheduling cycle reserves a pod that PreFilter admitted;
  binding may fail; the informer reports pods the filter passes. A pod's requests and quota
  label do not change once it is reserved, and it is bound by this scheduler (the cluster
  rejects changes of a bound pod's requests).
\<close>

inductive es_step ::
  "(string \<Rightarrow> string \<Rightarrow> eq_error + 'q::linordered_ab_group_add ElasticQuota) \<Rightarrow> ('q \<Rightarrow> string) \<Rightarrow>
   (pod \<Rightarrow> 'q resource_list) \<Rightarrow> 'q Cache \<Rightarrow> 'q Cache \<Rightarrow> bool"
  for getEQ :: "string \<Rightarrow> string \<Rightarrow> eq_error + 'q::linordered_ab_group_add ElasticQuota" and show_q :: "'q \<Rightarrow> string"
    and req :: "pod \<Rightarrow> 'q resource_list" where
  es_cycle: "PreFilter getEQ show_q req c pod = FwSuccess \<Longrightarrow> es_step getEQ show_q req c (Reserve req c pod)"
| es_bind_failed: "es_step getEQ show_q req c (Unreserve c pod)"
| es_add: "managedPod pod \<Longrightarrow> cache_recorded c (pod_key pod) (pod_uid pod) = Some (req pod) \<Longrightarrow>
    es_step getEQ show_q req c (onPodAdd req c (ObjPod pod))"
| es_update: "pod_key new = pod_key old \<Longrightarrow> cache_recorded c (pod_key new) (pod_uid new) = Some (req new) \<Longrightarrow>
    es_step getEQ show_q req c (onPodUpdate req c (ObjPod old) (ObjPod new))"
| es_delete: "es_step getEQ show_q req c (onPodDelete c obj)"

text \<open>No resource of a quota is used past its maximum, and recorded requests are not negative.\<close>

definition within_max ::
  "(string \<Rightarrow> string \<Rightarrow> eq_error + 'q::linordered_ab_group_add ElasticQuota) \<Rightarrow> 'q Cache \<Rightarrow> bool" where
  "within_max getEQ c \<longleftrightarrow>
     (\<forall>ns name eq n mx. getEQ ns name = Inr eq \<longrightarrow> map_of (eq_max eq) n = Some mx \<longrightarrow>
        rget (Used c (Key ns name)) n \<le> max 0 mx)"

definition recorded_nonneg :: "'q::linordered_ab_group_add Cache \<Rightarrow> bool" where
  "recorded_nonneg c \<longleftrightarrow> (\<forall>k p r n. cache_recorded c k p = Some r \<longrightarrow> 0 \<le> rget r n)"

lemma first_exceeded_None:
  "first_exceeded used req mxs = None \<Longrightarrow> (n, mx) \<in> set mxs \<Longrightarrow> rget used n + rget req n \<le> mx"
  by (induction used req mxs rule: first_exceeded.induct)
     (auto simp: Let_def rget_def not_less split: if_splits option.splits)

lemma less_used:
  fixes u r a m :: "'q::linordered_ab_group_add"
  assumes "0 \<le> a" "u + r \<le> m"
  shows "u - a + r \<le> m"
proof -
  have "u - a \<le> u" using assms(1) by simp
  then have "u - a + r \<le> u + r" by (rule add_right_mono)
  with assms(2) show ?thesis by (rule order_trans [rotated])
qed

text \<open>Documented behaviour of the Kubernetes side: requests are well formed and not negative, and
  a namespace name has no slash.\<close>

definition kube_ok ::
  "(string \<Rightarrow> string \<Rightarrow> eq_error + 'q::linordered_ab_group_add ElasticQuota) \<Rightarrow> (pod \<Rightarrow> 'q resource_list) \<Rightarrow> bool" where
  "kube_ok getEQ req \<longleftrightarrow> (\<forall>pod. wf_map (req pod) \<and> (\<forall>n. 0 \<le> rget (req pod) n)) \<and>
     (\<forall>ns name eq. getEQ ns name = Inr eq \<longrightarrow> CHR ''/'' \<notin> set ns)"

lemma Key_inject:
  assumes "Key ns name = Key ns' name'" "CHR ''/'' \<notin> set ns" "CHR ''/'' \<notin> set ns'"
  shows "ns = ns' \<and> name = name'"
proof -
  have t: "takeWhile (\<lambda>c. c \<noteq> CHR ''/'') (Key ns name) = ns" if "CHR ''/'' \<notin> set ns" for ns name
    using that by (induction ns) (auto simp: Key_def)
  from t [OF assms(2), of name] t [OF assms(3), of name'] assms(1) have "ns = ns'" by simp
  with assms(1) show ?thesis by (simp add: Key_def)
qed

definition es_inv :: "(string \<Rightarrow> string \<Rightarrow> eq_error + 'q::linordered_ab_group_add ElasticQuota) \<Rightarrow> 'q Cache \<Rightarrow> bool" where
  "es_inv getEQ c \<longleftrightarrow> cache_ok c \<and> recorded_nonneg c \<and> within_max getEQ c"

lemma RemovePod_inv: "es_inv getEQ c \<Longrightarrow> es_inv getEQ (RemovePod c k p)"
proof -
  assume inv: "es_inv getEQ c"
  then have c: "cache_ok c" and nn: "recorded_nonneg c" and w: "within_max getEQ c" by (auto simp: es_inv_def)
  have "rget (Used (RemovePod c k p) k') n \<le> rget (Used c k') n" for k' n
    using nn by (intro cache.used_remove_le [OF c]) (auto simp: recorded_nonneg_def)
  then have "within_max getEQ (RemovePod c k p)" using w unfolding within_max_def by (meson order_trans)
  moreover have "recorded_nonneg (RemovePod c k p)"
    using nn by (auto simp: recorded_nonneg_def cache.recorded_remove [OF c] split: if_splits)
  ultimately show ?thesis using RemovePod_ok [OF c] by (simp add: es_inv_def)
qed

lemma readd_inv:
  assumes "es_inv getEQ c" "cache_recorded c k p = Some r" "wf_map r"
  shows "es_inv getEQ (AddPod c k p r)"
proof -
  have c: "cache_ok c" using assms(1) by (simp add: es_inv_def)
  have "within_max getEQ (AddPod c k p r)"
    using assms(1) by (simp add: es_inv_def within_max_def cache.used_again [OF c assms(3,2)])
  moreover have "recorded_nonneg (AddPod c k p r)"
    using assms(1,2) by (auto simp: es_inv_def recorded_nonneg_def cache.recorded_add [OF c] split: if_splits)
  ultimately show ?thesis using AddPod_ok [OF c assms(3)] by (simp add: es_inv_def)
qed

lemma admit_inv:
  assumes "kube_ok getEQ req" "es_inv getEQ c" "PreFilter getEQ show_q req c pod = FwSuccess"
  shows "es_inv getEQ (Reserve req c pod)"
proof -
  let ?name = "sget (pod_labels pod) QuotaLabel" and ?ns = "pod_namespace pod"
  have c: "cache_ok c" and nn: "recorded_nonneg c" and w: "within_max getEQ c" using assms(2) by (auto simp: es_inv_def)
  have r: "wf_map (req pod)" "\<And>n. 0 \<le> rget (req pod) n" using assms(1) by (auto simp: kube_ok_def)
  from assms(3) obtain eq where eq: "?name \<noteq> []" "getEQ ?ns ?name = Inr eq"
      "eq_max eq = [] \<or> first_exceeded (Used c (Key ?ns ?name)) (req pod) (eq_max eq) = None"
    by (auto simp: PreFilter_def Let_def split: if_splits sum.splits eq_error.splits option.splits prod.splits)
  let ?c = "AddPod c (Key ?ns ?name) (pod_uid pod) (req pod)"
  have res: "Reserve req c pod = ?c" using eq(1) by (simp add: Reserve_def pod_key_def)
  have "rget (Used ?c (Key ns name)) n \<le> max 0 mx"
    if q: "getEQ ns name = Inr q" "map_of (eq_max q) n = Some mx" for ns name q n mx
  proof (cases "Key ns name = Key ?ns ?name")
    case True
    have "CHR ''/'' \<notin> set ns" "CHR ''/'' \<notin> set ?ns" using assms(1) q(1) eq(2) unfolding kube_ok_def by blast+
    with Key_inject [OF True] have "ns = ?ns" "name = ?name" by auto
    with q eq(2) have mx: "(n, mx) \<in> set (eq_max eq)" by (auto dest: map_of_SomeD)
    then have "eq_max eq \<noteq> []" by auto
    with eq(3) first_exceeded_None [OF _ mx] have "rget (Used c (Key ?ns ?name)) n + rget (req pod) n \<le> mx" by blast
    moreover have "0 \<le> amount (cache_recorded c (Key ?ns ?name) (pod_uid pod)) n"
      using nn by (auto simp: amount_def recorded_nonneg_def split: option.split)
    ultimately have "rget (Used c (Key ?ns ?name)) n - amount (cache_recorded c (Key ?ns ?name) (pod_uid pod)) n
        + rget (req pod) n \<le> mx"
      by (rule less_used [rotated])
    then show ?thesis by (simp add: True cache.used_add [OF c r(1)] max.coboundedI2)
  next
    case False
    with w q show ?thesis by (simp add: cache.used_add [OF c r(1)] within_max_def)
  qed
  then have "within_max getEQ ?c" unfolding within_max_def by blast
  moreover have "recorded_nonneg ?c"
    using nn r(2) by (auto simp: recorded_nonneg_def cache.recorded_add [OF c] split: if_splits)
  ultimately show ?thesis using AddPod_ok [OF c r(1)] by (simp add: es_inv_def res)
qed

lemma es_step_inv:
  assumes "es_step getEQ show_q req c c'" "kube_ok getEQ req" "es_inv getEQ c"
  shows "es_inv getEQ c'"
  using assms(1)
proof (cases rule: es_step.cases)
  case (es_cycle pod)
  with admit_inv [OF assms(2,3)] show ?thesis by blast
next
  case (es_bind_failed pod)
  with RemovePod_inv [OF assms(3)] assms(3) show ?thesis by (simp add: Unreserve_def)
next
  case (es_add pod)
  with readd_inv [OF assms(3)] assms(2) show ?thesis by (simp add: kube_ok_def)
next
  case (es_update new old)
  with readd_inv [OF assms(3)] RemovePod_inv [OF assms(3)] assms(2) show ?thesis by (simp add: kube_ok_def Let_def)
next
  case (es_delete obj)
  then show ?thesis
    using RemovePod_inv [OF assms(3)] assms(3) by (cases "(c, obj)" rule: onPodDelete.cases) auto
qed

lemma es_start_inv: "es_inv getEQ []"
  by (simp add: es_inv_def cache_ok_def recorded_nonneg_def cache_recorded_def cache_pods_def within_max_def Used_def)

lemma es_steps_inv:
  "(es_step getEQ show_q req)\<^sup>*\<^sup>* c c' \<Longrightarrow> kube_ok getEQ req \<Longrightarrow> es_inv getEQ c \<Longrightarrow> es_inv getEQ c'"
  by (induction rule: rtranclp_induct) (auto intro: es_step_inv)


section \<open>A concrete quota\<close>

definition ex_quota :: "int ElasticQuota" where
  "ex_quota = \<lparr>eq_max = [(''cpu'', 4)], eq_used = None\<rparr>"

definition ex_getEQ :: "string \<Rightarrow> string \<Rightarrow> eq_error + int ElasticQuota" where
  "ex_getEQ ns name = (if ns = ''a'' \<and> name = ''q'' then Inr ex_quota else Inl EqNotFound)"

definition ex_pod :: "string \<Rightarrow> pod" where
  "ex_pod uid = \<lparr>pod_namespace = ''a'', pod_uid = uid, pod_labels = [(QuotaLabel, ''q'')], pod_nodeName = ''n1'',
     pod_phase = ''Running'', pod_spec = []\<rparr>"

definition ex_req :: "pod \<Rightarrow> int resource_list" where
  "ex_req pod = [(''cpu'', 3)]"

lemma ex_kube: "kube_ok ex_getEQ ex_req"
  by (auto simp: kube_ok_def ex_getEQ_def ex_req_def)

lemma ex_cycle: "PreFilter ex_getEQ show_int ex_req [] (ex_pod ''u1'') = FwSuccess"
  by code_simp

lemma ex_cycle_steps:
  "(es_step ex_getEQ show_int ex_req)\<^sup>*\<^sup>* [] (Reserve ex_req [] (ex_pod ''u1''))"
  by (rule r_into_rtranclp, rule es_cycle, rule ex_cycle)


section \<open>Refinement\<close>

text \<open>The abstract ledger: a request per quota and pod.\<close>

datatype 'q cache_op = OpAdd string string "'q resource_list" | OpRemove string string

fun cache_step :: "'q::linordered_ab_group_add Cache \<Rightarrow> 'q cache_op \<Rightarrow> 'q Cache" where
  "cache_step c (OpAdd k p r) = AddPod c k p r"
| "cache_step c (OpRemove k p) = RemovePod c k p"

fun spec_step :: "(string \<Rightarrow> string \<Rightarrow> 'q resource_list option) \<Rightarrow> 'q cache_op \<Rightarrow> string \<Rightarrow> string \<Rightarrow> 'q resource_list option" where
  "spec_step l (OpAdd k p r) = l(k := (l k)(p \<mapsto> r))"
| "spec_step l (OpRemove k p) = l(k := (l k)(p := None))"

fun op_ok :: "'q cache_op \<Rightarrow> bool" where
  "op_ok (OpAdd k p r) = wf_map r"
| "op_ok (OpRemove k p) = True"

lemma cache_empty: "cache_ok []" "cache_recorded [] = (\<lambda>_ _. None)"
  by (simp_all add: fun_eq_iff cache_ok_def cache_recorded_def cache_pods_def)

lemma ex_cache_ok: "cache_ok (Reserve ex_req [] (ex_pod uid))"
  by (simp add: Reserve_def ex_req_def cache_empty AddPod_ok)

lemma cache_step_refines:
  assumes "cache_ok c" "op_ok x"
  shows "cache_ok (cache_step c x) \<and> cache_recorded (cache_step c x) = spec_step (cache_recorded c) x"
  using assms by (cases x) (auto simp: cache.add_ok cache.remove_ok cache.recorded_add cache.recorded_remove fun_eq_iff)

lemma pods_amount_sum:
  "wf_map pods \<Longrightarrow> pods_amount pods n = (\<Sum>p\<in>dom (map_of pods). amount (map_of pods p) n)"
proof (induction pods)
  case (Cons e pods)
  obtain k r where e: "e = (k, r)" by (cases e)
  with Cons.prems have wf: "wf_map pods" and k: "k \<notin> dom (map_of pods)" by auto
  have "(\<Sum>p\<in>dom (map_of pods). amount (map_of (e # pods) p) n) = (\<Sum>p\<in>dom (map_of pods). amount (map_of pods p) n)"
    by (rule sum.cong) (use k in \<open>auto simp: e\<close>)
  moreover have "dom (map_of (e # pods)) = insert k (dom (map_of pods))" by (auto simp: e)
  moreover have "amount (map_of (e # pods) k) n = rget r n" by (simp add: e amount_def)
  moreover have "(\<Sum>p\<in>insert k (dom (map_of pods)). amount (map_of (e # pods) p) n) =
      amount (map_of (e # pods) k) n + (\<Sum>p\<in>dom (map_of pods). amount (map_of (e # pods) p) n)"
    by (rule sum.insert [OF finite_dom_map_of k])
  moreover have "pods_amount (e # pods) n = rget r n + pods_amount pods n" by (simp add: e pods_amount_def)
  ultimately show ?case by (simp only: Cons.IH [OF wf])
qed (simp add: pods_amount_def)

text \<open>
  C7. The cache with its running totals implements the abstract ledger: after any sequence of
  additions (again for the same pod, or with another request) and removals, what it records is
  what the ledger records, and \<open>Used\<close> is the sum of the recorded requests, without having
  added them up.
\<close>

theorem scheduler_cache_refines:
  assumes "list_all op_ok ops"
  defines "c \<equiv> foldl cache_step [] ops" and "l \<equiv> foldl spec_step (\<lambda>_ _. None) ops"
  shows "cache_recorded c = l \<and> rget (Used c k) n = (\<Sum>p | l k p \<noteq> None. amount (l k p) n)"
proof -
  have "cache_ok c' \<Longrightarrow> list_all op_ok ops \<Longrightarrow> cache_ok (foldl cache_step c' ops) \<and>
      cache_recorded (foldl cache_step c' ops) = foldl spec_step (cache_recorded c') ops" for c'
    by (induction ops arbitrary: c') (auto simp: cache_step_refines)
  from this [of "[]"] assms(1) have c: "cache_ok c" "cache_recorded c = l" by (simp_all add: c_def l_def cache_empty)
  have "rget (Used c k) n = (\<Sum>p\<in>dom (map_of (cache_pods c k)). amount (map_of (cache_pods c k) p) n)"
    using cache.used_sum [OF c(1)] pods_amount_sum [OF cache_pods_wf [OF c(1)]] by simp
  also have "map_of (cache_pods c k) = l k" using c(2) by (auto simp: cache_recorded_def fun_eq_iff)
  finally show ?thesis using c(2) by (simp add: dom_def)
qed

theorem scheduler_cache_refines_witness:
  "rget (Used (foldl cache_step [] [OpAdd ''q'' ''a'' [(''cpu'', 2)], OpAdd ''q'' ''b'' [(''cpu'', 3)],
      OpAdd ''q'' ''a'' [(''cpu'', 5 :: int)]]) ''q'') ''cpu'' = 8"
proof -
  let ?ops = "[OpAdd ''q'' ''a'' [(''cpu'', 2)], OpAdd ''q'' ''b'' [(''cpu'', 3)], OpAdd ''q'' ''a'' [(''cpu'', 5 :: int)]]"
  let ?l = "foldl spec_step (\<lambda>_ _. None) ?ops"
  have "{p. ?l ''q'' p \<noteq> None} = {''a'', ''b''}" by auto
  moreover have "list_all op_ok ?ops" by simp
  ultimately show ?thesis using scheduler_cache_refines [of ?ops "''q''" "''cpu''"] by (simp add: amount_def)
qed

section \<open>Rebinding\<close>

text \<open>
  When a pod's quota binding changes, its request moves: after the update event it is
  recorded under the new quota only, the old quota has exactly the recorded request back, and
  no third quota changes. When the pod has ended, it is recorded under neither.
\<close>

theorem scheduler_rebind_moves:
  assumes "cache_ok c" "wf_map (req new)" "pod_uid new = pod_uid old" "pod_key new \<noteq> pod_key old"
    and "cache_recorded c (pod_key new) (pod_uid new) = None"
  defines "c' \<equiv> onPodUpdate req c (ObjPod old) (ObjPod new)"
  shows "cache_recorded c' (pod_key old) (pod_uid old) = None \<and>
     cache_recorded c' (pod_key new) (pod_uid new) = (if Terminal new then None else Some (req new)) \<and>
     rget (Used c' (pod_key old)) n = rget (Used c (pod_key old)) n - amount (cache_recorded c (pod_key old) (pod_uid old)) n \<and>
     rget (Used c' (pod_key new)) n = rget (Used c (pod_key new)) n + (if Terminal new then 0 else rget (req new) n) \<and>
     (k \<noteq> pod_key old \<and> k \<noteq> pod_key new \<longrightarrow> rget (Used c' k) n = rget (Used c k) n)"
proof -
  let ?c1 = "RemovePod c (pod_key old) (pod_uid old)"
  have ok: "cache_ok ?c1" by (rule cache.remove_ok [OF assms(1)])
  have c': "c' = (if Terminal new then RemovePod ?c1 (pod_key new) (pod_uid new)
      else AddPod ?c1 (pod_key new) (pod_uid new) (req new))"
    using assms(4) by (auto simp: c'_def Let_def)
  have fresh: "cache_recorded ?c1 (pod_key new) (pod_uid new) = None"
    using assms(5) by (simp add: cache.recorded_remove [OF assms(1)])
  show ?thesis
    using assms(3-5) fresh
    by (auto simp: c' cache.recorded_remove [OF ok] cache.recorded_add [OF ok] cache.recorded_remove [OF assms(1)]
        cache.used_remove [OF ok] cache.used_add [OF ok assms(2)] cache.used_remove [OF assms(1)] amount_def)
qed

theorem scheduler_rebind_moves_witness:
  "cache_recorded (onPodUpdate ex_req (Reserve ex_req [] (ex_pod ''u1'')) (ObjPod (ex_pod ''u1''))
      (ObjPod ((ex_pod ''u1'')\<lparr>pod_labels := [(QuotaLabel, ''r'')]\<rparr>))) ''a/q'' ''u1'' = None"
proof -
  have "cache_ok (Reserve ex_req [] (ex_pod ''u1''))" by (rule ex_cache_ok)
  moreover have "cache_recorded (Reserve ex_req [] (ex_pod ''u1'')) ''a/r'' ''u1'' = None" by code_simp
  ultimately show ?thesis
    using scheduler_rebind_moves [of "Reserve ex_req [] (ex_pod ''u1'')" ex_req
        "(ex_pod ''u1'')\<lparr>pod_labels := [(QuotaLabel, ''r'')]\<rparr>" "ex_pod ''u1''"]
    by (simp add: ex_req_def ex_pod_def pod_key_def Key_def sget_def)
qed

section \<open>The published status\<close>

lemma pods_used_amount:
  assumes "\<And>pod. wf_map (req pod)"
  shows "rget (pods_used req pods) n =
    sum_list (map (\<lambda>pod. rget (req pod) n) (filter (\<lambda>pod. pod_nodeName pod \<noteq> [] \<and> \<not> Terminal pod) pods))"
proof -
  have "rget (foldl (\<lambda>used pod. if pod_nodeName pod = [] \<or> Terminal pod then used else foldl addEntry used (req pod)) a pods) n =
    rget a n + sum_list (map (\<lambda>pod. rget (req pod) n) (filter (\<lambda>pod. pod_nodeName pod \<noteq> [] \<and> \<not> Terminal pod) pods))" for a
  proof (induction pods arbitrary: a)
    case (Cons pod pods)
    have "rget (foldl addEntry a (req pod)) n = rget a n + rget (req pod) n"
      using rget_sumLists [OF assms, of a pod n] by (simp add: sumLists_def)
    with Cons show ?case by (simp add: add.assoc)
  qed simp
  from this [of "[]"] show ?thesis by (simp add: pods_used_def)
qed

text \<open>The cache holds exactly the pods the controller counts for the quota.\<close>

definition cache_tracks ::
  "(pod \<Rightarrow> 'q::linordered_ab_group_add resource_list) \<Rightarrow> 'q Cache \<Rightarrow> string \<Rightarrow> string \<Rightarrow> pod list \<Rightarrow> bool" where
  "cache_tracks req c ns name pods \<longleftrightarrow>
     (let counted = filter (\<lambda>pod. map_of (pod_labels pod) QuotaLabel = Some name \<and> pod_nodeName pod \<noteq> [] \<and> \<not> Terminal pod) pods
      in mset (map (\<lambda>pod. (pod_uid pod, req pod)) counted) = mset (cache_pods c (Key ns name)))"

text \<open>
  One number: when the plugin has seen the pods the controller lists, the \<open>status.used\<close>
  that \<open>reconcile\<close> leaves on the quota is, resource by resource, the usage the plugin decides
  by, whether it had to write or found it there already; and reconciling again writes nothing.
\<close>

theorem controller_status_is_usage:
  fixes eq :: "'q::linordered_ab_group_add ElasticQuota"
  assumes "cache_ok c" "\<And>pod. wf_map (req pod)" "splitKey key = Some (ns, name)" "getEQ ns name = Inr eq"
    and "listPods ns = Inr pods" "cache_tracks req c ns name pods"
    and "eq_reconcile splitKey getEQ listPods req None key = (err, written)"
  defines "eq' \<equiv> (case written of None \<Rightarrow> eq | Some (_, _, q) \<Rightarrow> q)"
  shows "err = None \<and> eq_max eq' = eq_max eq \<and>
     rget (case eq_used eq' of None \<Rightarrow> [] | Some u \<Rightarrow> u) n = rget (Used c (Key ns name)) n \<and>
     eq_reconcile splitKey (\<lambda>a b. if a = ns \<and> b = name then Inr eq' else getEQ a b) listPods req None key = (None, None)"
proof -
  let ?pods = "filter (\<lambda>pod. map_of (pod_labels pod) QuotaLabel = Some name) pods"
  define u where "u = pods_used req ?pods"
  define v where "v = (if u = [] then None else Some u)"
  have "rget u n = sum_list (map (\<lambda>pod. rget (req pod) n)
      (filter (\<lambda>pod. map_of (pod_labels pod) QuotaLabel = Some name \<and> pod_nodeName pod \<noteq> [] \<and> \<not> Terminal pod) pods))"
    unfolding u_def pods_used_amount [OF assms(2)] by (simp add: conj_commute conj_left_commute)
  also have "\<dots> = pods_amount (cache_pods c (Key ns name)) n"
  proof -
    let ?f = "\<lambda>(p :: string, r). rget r n"
    have "mset (map ?f (map (\<lambda>pod. (pod_uid pod, req pod)) (filter (\<lambda>pod. map_of (pod_labels pod) QuotaLabel = Some name \<and>
        pod_nodeName pod \<noteq> [] \<and> \<not> Terminal pod) pods))) = mset (map ?f (cache_pods c (Key ns name)))"
      using assms(6) by (simp only: cache_tracks_def Let_def mset_map)
    from arg_cong [OF this, of sum_mset] show ?thesis
      by (simp only: sum_mset_sum_list) (simp add: pods_amount_def comp_def)
  qed
  finally have use: "rget u n = rget (Used c (Key ns name)) n" by (simp add: cache.used_sum [OF assms(1)])
  have refl: "used_eq w w" for w :: "'q resource_list option" by (cases w) (auto simp: map_eq_iff)
  have rec: "eq_reconcile splitKey g listPods req None key =
      (if used_eq (eq_used q) v then (None, None) else (None, Some (ns, name, q\<lparr>eq_used := v\<rparr>)))"
    if "g ns name = Inr q" for g q
    using that by (simp add: eq_reconcile_def assms(3,5) u_def [symmetric] v_def Let_def)
  have eq': "used_eq (eq_used eq') v" "eq_max eq' = eq_max eq" "err = None"
    using rec [of getEQ eq, OF assms(4)] assms(7) refl by (auto simp: eq'_def split: if_splits)
  have "eq_reconcile splitKey (\<lambda>a b. if a = ns \<and> b = name then Inr eq' else getEQ a b) listPods req None key = (None, None)"
    using eq'(1) by (simp add: rec [of _ eq'])
  moreover have "rget (case eq_used eq' of None \<Rightarrow> [] | Some w \<Rightarrow> w) n = rget u n"
    using eq'(1) by (cases "eq_used eq'") (auto simp: v_def map_eq_iff rget_def split: if_splits)
  ultimately show ?thesis using eq' use by simp
qed

theorem controller_status_is_usage_witness:
  "\<exists>q. eq_reconcile (\<lambda>_. Some (''a'', ''q'')) ex_getEQ (\<lambda>_. Inr [ex_pod ''u1'']) ex_req None ''a/q'' =
       (None, Some (''a'', ''q'', q)) \<and>
     rget (case eq_used q of None \<Rightarrow> [] | Some u \<Rightarrow> u) ''cpu'' = rget (Used (Reserve ex_req [] (ex_pod ''u1'')) (Key ''a'' ''q'')) ''cpu''"
proof -
  let ?q = "\<lparr>eq_max = [(''cpu'', 4)], eq_used = Some [(''cpu'', 3)]\<rparr> :: int ElasticQuota"
  have r: "eq_reconcile (\<lambda>_. Some (''a'', ''q'')) ex_getEQ (\<lambda>_. Inr [ex_pod ''u1'']) ex_req None ''a/q'' =
      (None, Some (''a'', ''q'', ?q))" by code_simp
  have "cache_ok (Reserve ex_req [] (ex_pod ''u1''))" by (rule ex_cache_ok)
  moreover have "cache_tracks ex_req (Reserve ex_req [] (ex_pod ''u1'')) ''a'' ''q'' [ex_pod ''u1'']" by code_simp
  ultimately show ?thesis
    using controller_status_is_usage [of "Reserve ex_req [] (ex_pod ''u1'')" ex_req "\<lambda>_. Some (''a'', ''q'')" "''a/q''"
        "''a''" "''q''" ex_getEQ ex_quota "\<lambda>_. Inr [ex_pod ''u1'']" "[ex_pod ''u1'']" None "Some (''a'', ''q'', ?q)" "''cpu''"] r
    by (simp add: ex_req_def ex_getEQ_def)
qed

end
