(* ===== verification/TenantValidate.thy ===== *)
theory TenantValidate
  imports Resources Naming
begin

text \<open>
  The Tenant custom resource (\<^verbatim>\<open>apis/tenant/v1alpha1/tenant_types.go\<close>) and the validation the
  tenant operator runs before it touches the cluster
  (\<^verbatim>\<open>tenant-operator/internal/validate/validate.go\<close>).

  Parameters, from the Kubernetes libraries: \<open>show_q\<close> is \<open>Quantity.String\<close> and \<open>parse_q\<close> is
  \<open>resource.ParseQuantity\<close>, its error as text. Quantities are an ordered group, as in
  \<open>Resources\<close>; an error is its text and no error is \<open>None\<close>. A nil map and an empty map are one
  value except in \<open>max\<close> of a quota, where the code tells them apart. Lower-casing is that of
  ASCII text.
\<close>

section \<open>The Tenant resource\<close>

datatype TenantPhase = TenantPhaseNone | TenantPhaseActive | TenantPhaseFailed

record NamespaceSpec =
  nsp_name :: string
  nsp_labels :: "(string, string) gomap"
  nsp_annotations :: "(string, string) gomap"

record 'q QuotaSpec =
  qs_pool :: string
  qs_min :: "'q resource_list"
  qs_max :: "'q resource_list option"

record VolumeSpec =
  vs_name :: string
  vs_size :: string
  vs_storageClass :: string
  vs_accessModes :: "string list"
  vs_description :: string
  vs_hostPath :: string

record SourceRef =
  src_namespace :: string
  src_name :: string

record ImagePullSecretSpec =
  ips_name :: string
  ips_source :: SourceRef

record SecretSpec =
  ss_name :: string
  ss_type :: string
  ss_source :: SourceRef

record ConfigMapSpec =
  cms_name :: string
  cms_source :: SourceRef

record PolicyRule =
  pr_verbs :: "string list"
  pr_apiGroups :: "string list"
  pr_resources :: "string list"
  pr_resourceNames :: "string list"
  pr_nonResourceURLs :: "string list"

record RBACRoleRef =
  rrf_kind :: string
  rrf_name :: string

record RBACSpec =
  rb_rules :: "PolicyRule list"
  rb_roleRef :: "RBACRoleRef option"

record ServiceAccountSpec =
  sas_name :: string
  sas_imagePullSecrets :: "string list"
  sas_rbac :: "RBACSpec option"

record InitResources =
  ir_imagePullSecrets :: "ImagePullSecretSpec list"
  ir_secrets :: "SecretSpec list"
  ir_configMaps :: "ConfigMapSpec list"
  ir_serviceAccounts :: "ServiceAccountSpec list"
  ir_volumes :: "VolumeSpec list"

record 'q TenantSpec =
  ts_namespace :: NamespaceSpec
  ts_quotas :: "'q QuotaSpec list"
  ts_initResources :: InitResources

record 'q QuotaStatus =
  qst_pool :: string
  qst_ready :: bool
  qst_used :: "'q resource_list"
  qst_message :: string

record InitResourceItemStatus =
  ist_name :: string
  ist_ready :: bool
  ist_message :: string

record InitResourcesStatus =
  irs_imagePullSecrets :: "InitResourceItemStatus list"
  irs_secrets :: "InitResourceItemStatus list"
  irs_configMaps :: "InitResourceItemStatus list"
  irs_serviceAccounts :: "InitResourceItemStatus list"
  irs_volumes :: "InitResourceItemStatus list"

text \<open>\<open>metav1.Condition\<close>; a zero \<open>LastTransitionTime\<close> is \<open>None\<close>.\<close>

record condition =
  cd_type :: string
  cd_status :: bool
  cd_observedGeneration :: int
  cd_lastTransitionTime :: "int option"
  cd_reason :: string
  cd_message :: string

record 'q TenantStatus =
  tst_observedGeneration :: int
  tst_phase :: TenantPhase
  tst_message :: string
  tst_namespaceReady :: bool
  tst_quotas :: "'q QuotaStatus list"
  tst_initResources :: InitResourcesStatus
  tst_conditions :: "condition list"

record 'q Tenant =
  tn_name :: string
  tn_uid :: string
  tn_labels :: "(string, string) gomap"
  tn_generation :: int
  tn_spec :: "'q TenantSpec"
  tn_status :: "'q TenantStatus"

abbreviation "LabelTenantID \<equiv> ''tenant.axisml.io/id''"
abbreviation "LabelManagedBy \<equiv> ''tenant.axisml.io/managed-by''"
abbreviation "ManagedByValue \<equiv> ''tenant-operator''"
abbreviation "ConditionNamespaceReady \<equiv> ''NamespaceReady''"
abbreviation "ConditionQuotasReady \<equiv> ''QuotasReady''"
abbreviation "ConditionInitResourcesReady \<equiv> ''InitResourcesReady''"
abbreviation "ConditionFailed \<equiv> ''Failed''"

section \<open>Namespace and quotas\<close>

definition dns1123Label :: "string \<Rightarrow> bool" where
  "dns1123Label s \<longleftrightarrow>
     (case s of [] \<Rightarrow> False
      | c # rest \<Rightarrow> alnum c \<and>
          (rest = [] \<or> alnum (last rest) \<and> list_all (\<lambda>c. alnum c \<or> c = CHR ''-'') (butlast rest)))"

definition ValidateMeta :: "(string, string) gomap \<Rightarrow> string option" where
  "ValidateMeta labels =
     (if sget labels LabelTenantID = []
      then Some (''metadata.labels['' @ go_quote LabelTenantID @ ''] is required'') else None)"

definition validateNamespace :: "string list \<Rightarrow> NamespaceSpec \<Rightarrow> string option" where
  "validateNamespace denylist ns =
     (if nsp_name ns = [] then Some ''spec.namespace.name is required''
      else if length (nsp_name ns) > 63
        then Some (''spec.namespace.name '' @ go_quote (nsp_name ns) @ '' exceeds 63 characters'')
      else if \<not> dns1123Label (nsp_name ns)
        then Some (''spec.namespace.name '' @ go_quote (nsp_name ns) @ '' is not a valid DNS-1123 label'')
      else if nsp_name ns \<in> set denylist
        then Some (''spec.namespace.name '' @ go_quote (nsp_name ns) @ '' is in the controller denylist'')
      else None)"

fun check_max :: "nat \<Rightarrow> 'q::linordered_ab_group_add resource_list \<Rightarrow> string option" where
  "check_max idx [] = None"
| "check_max idx ((k, v) # rest) =
     (if v < 0 then Some (''spec.quotas['' @ show_nat idx @ ''].max['' @ k @ ''] is negative'')
      else check_max idx rest)"

fun check_min ::
  "('q::linordered_ab_group_add \<Rightarrow> string) \<Rightarrow> nat \<Rightarrow> 'q resource_list \<Rightarrow> 'q resource_list \<Rightarrow> string option" where
  "check_min show_q idx mx [] = None"
| "check_min show_q idx mx ((k, v) # rest) =
     (if v < 0 then Some (''spec.quotas['' @ show_nat idx @ ''].min['' @ k @ ''] is negative'')
      else case map_of mx k of
        None \<Rightarrow> Some (''spec.quotas['' @ show_nat idx @ ''].max is missing key '' @ k @ '' present in min'')
      | Some mv \<Rightarrow>
          if v > mv then Some (''spec.quotas['' @ show_nat idx @ ''].min['' @ k @ '']='' @ show_q v @
                               '' exceeds max['' @ k @ '']='' @ show_q mv)
          else check_min show_q idx mx rest)"

definition validateMinMax ::
  "('q::linordered_ab_group_add \<Rightarrow> string) \<Rightarrow> nat \<Rightarrow> 'q resource_list \<Rightarrow> 'q resource_list \<Rightarrow> string option" where
  "validateMinMax show_q idx mn mx =
     (case check_max idx mx of Some e \<Rightarrow> Some e | None \<Rightarrow> check_min show_q idx mx mn)"

text \<open>The loop of \<open>validateQuotas\<close>, from index \<open>i\<close> with the pools \<open>seen\<close>.\<close>

fun check_quotas ::
  "('q::linordered_ab_group_add \<Rightarrow> string) \<Rightarrow> nat \<Rightarrow> string list \<Rightarrow> 'q QuotaSpec list \<Rightarrow> string option" where
  "check_quotas show_q i seen [] = None"
| "check_quotas show_q i seen (q # rest) =
     (if qs_pool q = [] then Some (''spec.quotas['' @ show_nat i @ ''].pool is required'')
      else if qs_pool q \<in> set seen
        then Some (''spec.quotas['' @ show_nat i @ ''] duplicates pool '' @ qs_pool q)
      else case qs_max q of
        None \<Rightarrow> Some (''spec.quotas['' @ show_nat i @ ''].max is required'')
      | Some mx \<Rightarrow>
          (case validateMinMax show_q i (qs_min q) mx of Some e \<Rightarrow> Some e
           | None \<Rightarrow> check_quotas show_q (Suc i) (qs_pool q # seen) rest))"

definition validateQuotas ::
  "('q::linordered_ab_group_add \<Rightarrow> string) \<Rightarrow> 'q QuotaSpec list \<Rightarrow> string option" where
  "validateQuotas show_q quotas = check_quotas show_q 0 [] quotas"

section \<open>Init resources\<close>

fun check_names :: "string \<Rightarrow> nat \<Rightarrow> string list \<Rightarrow> string list \<Rightarrow> string + string list" where
  "check_names field i seen [] = Inr seen"
| "check_names field i seen (n # rest) =
     (if n = [] then Inl (''spec.initResources.'' @ field @ ''['' @ show_nat i @ ''].name is required'')
      else if n \<in> set seen
        then Inl (''spec.initResources.'' @ field @ ''['' @ show_nat i @ ''].name '' @ go_quote n @ '' is duplicated'')
      else check_names field (Suc i) (n # seen) rest)"

definition uniqueNames :: "string \<Rightarrow> string list \<Rightarrow> string + string list" where
  "uniqueNames field names = check_names field 0 [] names"

definition namesOfPullSecrets :: "ImagePullSecretSpec list \<Rightarrow> string list" where
  "namesOfPullSecrets xs = map ips_name xs"

definition namesOfSecrets :: "SecretSpec list \<Rightarrow> string list" where
  "namesOfSecrets xs = map ss_name xs"

definition namesOfConfigMaps :: "ConfigMapSpec list \<Rightarrow> string list" where
  "namesOfConfigMaps xs = map cms_name xs"

definition namesOfServiceAccounts :: "ServiceAccountSpec list \<Rightarrow> string list" where
  "namesOfServiceAccounts xs = map sas_name xs"

definition escalationVerbs :: "string list" where
  "escalationVerbs = [''escalate'', ''bind'', ''impersonate'']"

definition rbacResources :: "string list" where
  "rbacResources = [''roles'', ''rolebindings'', ''clusterroles'', ''clusterrolebindings'']"

definition writeVerbs :: "string list" where
  "writeVerbs = [''create'', ''update'', ''patch'', ''delete'', ''deletecollection'']"

definition toLowerSet :: "string list \<Rightarrow> string list" where
  "toLowerSet xs = map toLower xs"

definition setHas :: "string list \<Rightarrow> string \<Rightarrow> bool" where
  "setHas s key \<longleftrightarrow> key \<in> set s"

definition pickVerb :: "string list \<Rightarrow> string \<Rightarrow> bool \<Rightarrow> string" where
  "pickVerb verbs candidate wildcard =
     (if setHas verbs candidate then candidate else if wildcard then ''*'' else candidate)"

definition rbac_rule_error :: "nat \<Rightarrow> nat \<Rightarrow> PolicyRule \<Rightarrow> string option" where
  "rbac_rule_error saIdx j rule =
     (let verbs = toLowerSet (pr_verbs rule); groups = toLowerSet (pr_apiGroups rule);
          resources = toLowerSet (pr_resources rule); wildcardVerb = setHas verbs ''*'';
          prefix = ''spec.initResources.serviceAccounts['' @ show_nat saIdx @ ''].rbac.rules['' @ show_nat j @ '']'';
          touchesRBAC = (setHas groups ''rbac.authorization.k8s.io'' \<or> setHas groups ''*'');
          rbacResource = (setHas resources ''*'' \<or> list_ex (setHas resources) rbacResources)
      in case find (\<lambda>v. setHas verbs v \<or> wildcardVerb) escalationVerbs of
           Some v \<Rightarrow> Some (prefix @ '' grants the '' @ go_quote (pickVerb verbs v wildcardVerb) @
                      '' verb, which would let the tenant escalate privileges'')
         | None \<Rightarrow>
             if touchesRBAC \<and> rbacResource \<and> list_ex (\<lambda>w. setHas verbs w \<or> wildcardVerb) writeVerbs
             then Some (prefix @ '' grants write access to RBAC resources, which would let the tenant grant itself more permissions'')
             else if setHas groups ''*'' \<and> setHas resources ''*'' \<and> wildcardVerb
             then Some (prefix @ '' is a full wildcard (apiGroups/resources/verbs all '' @ go_quote ''*'' @
                         ''), granting namespace-admin'')
             else None)"

fun check_rules :: "nat \<Rightarrow> nat \<Rightarrow> PolicyRule list \<Rightarrow> string option" where
  "check_rules saIdx j [] = None"
| "check_rules saIdx j (rule # rest) =
     (case rbac_rule_error saIdx j rule of Some e \<Rightarrow> Some e | None \<Rightarrow> check_rules saIdx (Suc j) rest)"

definition validateRBACRules :: "nat \<Rightarrow> PolicyRule list \<Rightarrow> string option" where
  "validateRBACRules saIdx rules = check_rules saIdx 0 rules"

fun check_volumes :: "(string \<Rightarrow> string + 'q::linordered_ab_group_add) \<Rightarrow> nat \<Rightarrow> string list \<Rightarrow> VolumeSpec list \<Rightarrow> string option" where
  "check_volumes parse_q i seen [] = None"
| "check_volumes parse_q i seen (v # rest) =
     (let prefix = ''spec.initResources.volumes['' @ show_nat i @ '']'' in
      if vs_name v = [] then Some (prefix @ ''.name is required'')
      else if vs_hostPath v \<noteq> []
        then Some (prefix @ '' uses hostPath, which is not supported in a multi-tenant Kubernetes deployment'')
      else if length (vs_name v) > 63 \<or> \<not> dns1123Label (vs_name v)
        then Some (prefix @ ''.name '' @ go_quote (vs_name v) @ '' is not a valid DNS-1123 label'')
      else if vs_name v \<in> set seen then Some (prefix @ ''.name '' @ go_quote (vs_name v) @ '' is duplicated'')
      else if vs_size v = [] then Some (prefix @ ''.size is required'')
      else case parse_q (vs_size v) of
        Inl e \<Rightarrow> Some (prefix @ ''.size '' @ go_quote (vs_size v) @ '' is not a valid quantity: '' @ e)
      | Inr q \<Rightarrow>
          if q \<le> 0 then Some (prefix @ ''.size '' @ go_quote (vs_size v) @ '' must be > 0'')
          else check_volumes parse_q (Suc i) (vs_name v # seen) rest)"

definition validateVolumes :: "(string \<Rightarrow> string + 'q::linordered_ab_group_add) \<Rightarrow> VolumeSpec list \<Rightarrow> string option" where
  "validateVolumes parse_q vols = check_volumes parse_q 0 [] vols"

fun check_pull_refs :: "string list \<Rightarrow> nat \<Rightarrow> nat \<Rightarrow> string list \<Rightarrow> string option" where
  "check_pull_refs pullNames i j [] = None"
| "check_pull_refs pullNames i j (ref # rest) =
     (if ref \<notin> set pullNames
      then Some (''spec.initResources.serviceAccounts['' @ show_nat i @ ''].imagePullSecrets['' @ show_nat j @
             '']='' @ go_quote ref @ '' is not declared in spec.initResources.imagePullSecrets[]'')
      else check_pull_refs pullNames i (Suc j) rest)"

definition check_roleRef :: "nat \<Rightarrow> RBACSpec \<Rightarrow> string option" where
  "check_roleRef i rbac =
     (case rb_roleRef rbac of None \<Rightarrow> None
      | Some ref \<Rightarrow>
          if rrf_kind ref \<noteq> ''Role'' \<and> rrf_kind ref \<noteq> ''ClusterRole''
          then Some (''spec.initResources.serviceAccounts['' @ show_nat i @ ''].rbac.roleRef.kind '' @
                 go_quote (rrf_kind ref) @ '' must be Role or ClusterRole'')
          else if rrf_name ref = []
          then Some (''spec.initResources.serviceAccounts['' @ show_nat i @
                 ''].rbac.roleRef.name is required when roleRef is set'')
          else None)"

fun check_accounts :: "string list \<Rightarrow> nat \<Rightarrow> ServiceAccountSpec list \<Rightarrow> string option" where
  "check_accounts pullNames i [] = None"
| "check_accounts pullNames i (sa # rest) =
     (if sas_name sa = []
      then Some (''spec.initResources.serviceAccounts['' @ show_nat i @ ''].name is required'')
      else case check_pull_refs pullNames i 0 (sas_imagePullSecrets sa) of Some e \<Rightarrow> Some e
      | None \<Rightarrow>
          (case sas_rbac sa of None \<Rightarrow> check_accounts pullNames (Suc i) rest
           | Some rbac \<Rightarrow>
               (case check_roleRef i rbac of Some e \<Rightarrow> Some e
                | None \<Rightarrow>
                    (case validateRBACRules i (rb_rules rbac) of Some e \<Rightarrow> Some e
                     | None \<Rightarrow> check_accounts pullNames (Suc i) rest))))"

definition validateInitResources ::
  "(string \<Rightarrow> string + 'q::linordered_ab_group_add) \<Rightarrow> InitResources \<Rightarrow> string option" where
  "validateInitResources parse_q ir =
     (case uniqueNames ''imagePullSecrets'' (namesOfPullSecrets (ir_imagePullSecrets ir)) of Inl e \<Rightarrow> Some e
      | Inr pullNames \<Rightarrow>
     (case uniqueNames ''secrets'' (namesOfSecrets (ir_secrets ir)) of Inl e \<Rightarrow> Some e
      | Inr secretNames \<Rightarrow>
     (case find (\<lambda>n. n \<in> set pullNames) secretNames of
        Some n \<Rightarrow> Some (''spec.initResources.secrets[].name '' @ go_quote n @
          '' collides with spec.initResources.imagePullSecrets[]: each name must be unique across both lists'')
      | None \<Rightarrow>
     (case uniqueNames ''configMaps'' (namesOfConfigMaps (ir_configMaps ir)) of Inl e \<Rightarrow> Some e
      | Inr _ \<Rightarrow>
     (case uniqueNames ''serviceAccounts'' (namesOfServiceAccounts (ir_serviceAccounts ir)) of Inl e \<Rightarrow> Some e
      | Inr _ \<Rightarrow>
     (case validateVolumes parse_q (ir_volumes ir) of Some e \<Rightarrow> Some e
      | None \<Rightarrow> check_accounts pullNames 0 (ir_serviceAccounts ir)))))))"

text \<open>\<open>Validate\<close> on a spec that is present.\<close>

definition Validate ::
  "('q::linordered_ab_group_add \<Rightarrow> string) \<Rightarrow> (string \<Rightarrow> string + 'q) \<Rightarrow> string list \<Rightarrow> 'q TenantSpec \<Rightarrow> string option" where
  "Validate show_q parse_q denylist spec =
     (case validateNamespace denylist (ts_namespace spec) of Some e \<Rightarrow> Some e
      | None \<Rightarrow>
     (case validateQuotas show_q (ts_quotas spec) of Some e \<Rightarrow> Some e
      | None \<Rightarrow> validateInitResources parse_q (ts_initResources spec)))"

definition DefaultNamespaceDenylist :: "string list" where
  "DefaultNamespaceDenylist =
     [''kube-system'', ''kube-public'', ''kube-node-lease'', ''default'', ''axisml-system'', ''axisml-infra'']"

end
