(* ===== verification/TenantReconcile.thy ===== *)
theory TenantReconcile
  imports TenantValidate ElasticScheduling ApiProgram
begin

text \<open>
  The tenant operator (\<^verbatim>\<open>tenant-operator/internal/reconcile\<close> and
  \<^verbatim>\<open>internal/controller/tenant_controller.go\<close>): one sub-reconciler per kind of object, the
  aggregation into a status, and \<open>Reconcile\<close>.

  The Kubernetes API, the client and its cache are a parameter \<open>api\<close>, and a reconciler is a program
  over the history of calls and answers (\<open>ApiProgram\<close>). \<open>ap_setRef\<close> is
  \<open>controllerutil.SetControllerReference\<close> (the new owner references, or its error) and \<open>ap_now\<close>
  is \<open>metav1.Now\<close>. \<open>equality.Semantic.DeepEqual\<close> on maps is \<open>map_eq\<close>, on lists it is equality.
\<close>

section \<open>Objects and calls\<close>

record NsObj =
  nso_meta :: objmeta
  nso_phase :: string

record 'q EQObj =
  eqo_meta :: objmeta
  eqo_min :: "'q resource_list"
  eqo_max :: "'q resource_list"
  eqo_used :: "'q resource_list"

record SecretObj =
  sec_meta :: objmeta
  sec_type :: string
  sec_data :: "(string, string) gomap"

record ServiceAccountObj =
  sa_meta :: objmeta
  sa_imagePullSecrets :: "string list"

record RoleObj =
  ro_meta :: objmeta
  ro_rules :: "PolicyRule list"

record RoleRef =
  rfr_apiGroup :: string
  rfr_kind :: string
  rfr_name :: string

record Subject =
  sub_kind :: string
  sub_name :: string
  sub_namespace :: string

record RoleBindingObj =
  rbd_meta :: objmeta
  rbd_subjects :: "Subject list"
  rbd_roleRef :: RoleRef

record 'q PVC =
  pvc_meta :: objmeta
  pvc_accessModes :: "string list"
  pvc_storageClass :: "string option"
  pvc_requests :: "'q resource_list"
  pvc_phase :: string

datatype 'q obj =
    ONamespace NsObj | OQuota "'q EQObj" | OSecret SecretObj | OConfigMap ConfigMapObj
  | OServiceAccount ServiceAccountObj | ORole RoleObj | ORoleBinding RoleBindingObj | OPVC "'q PVC"

text \<open>Writes: \<open>Patch\<close> with the base it was computed from, and the status sub-resource of a tenant.\<close>

datatype 'q writing =
    WCreate "'q obj" | WPatch "'q obj" "'q obj" | WDelete "'q obj" | WStatus "'q Tenant" "'q TenantStatus"

datatype 'q event =
    ReadTenant "kerr + 'q Tenant" | ReadObj string string "'q obj" | ReadFail string string kerr | Listed "'q obj list" | ListFail kerr
  | Wrote "'q writing" "kerr option"

type_synonym 'q history = "'q event list"
type_synonym ('q, 'a) prog = "('q history, 'a) state"

record 'q api =
  ap_getTenant :: "'q history \<Rightarrow> string \<Rightarrow> kerr + 'q Tenant"
  ap_getNs :: "'q history \<Rightarrow> string \<Rightarrow> string \<Rightarrow> kerr + NsObj"
  ap_getEQ :: "'q history \<Rightarrow> string \<Rightarrow> string \<Rightarrow> kerr + 'q EQObj"
  ap_listEQ :: "'q history \<Rightarrow> string \<Rightarrow> (string, string) gomap \<Rightarrow> kerr + 'q EQObj list"
  ap_getSecret :: "'q history \<Rightarrow> string \<Rightarrow> string \<Rightarrow> kerr + SecretObj"
  ap_srcSecret :: "'q history \<Rightarrow> string \<Rightarrow> string \<Rightarrow> kerr + SecretObj"
  ap_listSecret :: "'q history \<Rightarrow> string \<Rightarrow> (string, string) gomap \<Rightarrow> kerr + SecretObj list"
  ap_getCM :: "'q history \<Rightarrow> string \<Rightarrow> string \<Rightarrow> kerr + ConfigMapObj"
  ap_srcCM :: "'q history \<Rightarrow> string \<Rightarrow> string \<Rightarrow> kerr + ConfigMapObj"
  ap_listCM :: "'q history \<Rightarrow> string \<Rightarrow> (string, string) gomap \<Rightarrow> kerr + ConfigMapObj list"
  ap_getSA :: "'q history \<Rightarrow> string \<Rightarrow> string \<Rightarrow> kerr + ServiceAccountObj"
  ap_listSA :: "'q history \<Rightarrow> string \<Rightarrow> (string, string) gomap \<Rightarrow> kerr + ServiceAccountObj list"
  ap_getRole :: "'q history \<Rightarrow> string \<Rightarrow> string \<Rightarrow> kerr + RoleObj"
  ap_getRB :: "'q history \<Rightarrow> string \<Rightarrow> string \<Rightarrow> kerr + RoleBindingObj"
  ap_srcPVC :: "'q history \<Rightarrow> string \<Rightarrow> string \<Rightarrow> kerr + 'q PVC"
  ap_patchPVC :: "'q history \<Rightarrow> 'q PVC \<Rightarrow> 'q PVC \<Rightarrow> kerr + 'q PVC"
  ap_write :: "'q history \<Rightarrow> 'q writing \<Rightarrow> kerr option"
  ap_setRef :: "string \<Rightarrow> OwnerRef list \<Rightarrow> string + OwnerRef list"
  ap_now :: int

text \<open>A \<open>Get\<close> answered by \<open>f\<close>, logged with its key and the object \<open>wrap\<close> makes of the answer;
  cluster-scoped objects have the empty namespace.\<close>

definition read_obj ::
  "('a \<Rightarrow> 'q obj) \<Rightarrow> ('q history \<Rightarrow> string \<Rightarrow> string \<Rightarrow> kerr + 'a) \<Rightarrow> string \<Rightarrow> string \<Rightarrow> ('q, kerr + 'a) prog" where
  "read_obj wrap f ns name =
     State (\<lambda>h. (f h ns name,
       (case f h ns name of Inl e \<Rightarrow> ReadFail ns name e | Inr x \<Rightarrow> ReadObj ns name (wrap x)) # h))"

definition list_objs :: "('a \<Rightarrow> 'q obj) \<Rightarrow> ('q history \<Rightarrow> kerr + 'a list) \<Rightarrow> ('q, kerr + 'a list) prog" where
  "list_objs wrap f =
     State (\<lambda>h. (f h, (case f h of Inl e \<Rightarrow> ListFail e | Inr xs \<Rightarrow> Listed (map wrap xs)) # h))"

definition do_write :: "'q api \<Rightarrow> 'q writing \<Rightarrow> ('q, kerr option) prog" where
  "do_write api w = State (\<lambda>h. (ap_write api h w, Wrote w (ap_write api h w) # h))"

text \<open>\<open>err != nil && !apierrors.IsNotFound(err)\<close> after a delete.\<close>

definition delete_obj :: "'q api \<Rightarrow> 'q obj \<Rightarrow> ('q, kerr option) prog" where
  "delete_obj api ob = do {
     r \<leftarrow> do_write api (WDelete ob);
     ret (case r of Some e \<Rightarrow> if isNotFound e then None else Some e | None \<Rightarrow> None)
   }"

section \<open>Names, labels and owners\<close>

definition PerTenantResourceName :: "string \<Rightarrow> string \<Rightarrow> string" where
  "PerTenantResourceName tenantName sub = ''axisml-tenant-'' @ tenantName @ ''-'' @ sub"

definition TenantLabels :: "'q Tenant \<Rightarrow> (string, string) gomap" where
  "TenantLabels t = [(LabelTenantID, sget (tn_labels t) LabelTenantID), (LabelManagedBy, ManagedByValue)]"

definition ApplyTenantLabels :: "'q Tenant \<Rightarrow> (string, string) gomap \<Rightarrow> (string, string) gomap" where
  "ApplyTenantLabels t m = foldl (\<lambda>m (k, v). AList.update k v m) m (TenantLabels t)"

definition hasOwner :: "OwnerRef list \<Rightarrow> 'q Tenant \<Rightarrow> bool" where
  "hasOwner refs t \<longleftrightarrow> list_ex (\<lambda>r. own_uid r = tn_uid t) refs"

definition stripPrefix :: "string \<Rightarrow> string \<Rightarrow> string" where
  "stripPrefix s prefix =
     (if length prefix > 0 \<and> length prefix \<le> length s \<and> take (length prefix) s = prefix
      then drop (length prefix) s else s)"

definition nameSet :: "string list \<Rightarrow> string list" where
  "nameSet xs = remdups xs"

text \<open>The loop \<open>for k, v := range labels { if existing.Labels[k] != v { \<dots> } }\<close>.\<close>

fun sync_labels :: "(string, string) gomap \<Rightarrow> (string, string) gomap \<Rightarrow> (string, string) gomap \<times> bool" where
  "sync_labels cur [] = (cur, False)"
| "sync_labels cur ((k, v) # rest) =
     (if sget cur k \<noteq> v then (fst (sync_labels (AList.update k v cur) rest), True) else sync_labels cur rest)"

text \<open>
  The part every update shares: the labels, then the owner reference. The result is the
  new metadata and whether it needs a patch, or the error of \<open>SetControllerReference\<close>.
\<close>

definition sync_meta ::
  "'q api \<Rightarrow> 'q Tenant \<Rightarrow> (string, string) gomap \<Rightarrow> objmeta \<Rightarrow> string + objmeta \<times> bool" where
  "sync_meta api t labels m =
     (let (ls, changed) = sync_labels (om_labels m) labels; m = m\<lparr>om_labels := ls\<rparr> in
      if hasOwner (om_owners m) t then Inr (m, changed)
      else case ap_setRef api (tn_uid t) (om_owners m) of
        Inl e \<Rightarrow> Inl e | Inr owners \<Rightarrow> Inr (m\<lparr>om_owners := owners\<rparr>, True))"

abbreviation new_meta :: "string \<Rightarrow> string \<Rightarrow> (string, string) gomap \<Rightarrow> objmeta" where
  "new_meta ns name labels \<equiv>
     \<lparr>om_namespace = ns, om_name = name, om_labels = labels, om_annotations = [], om_owners = []\<rparr>"

text \<open>\<open>SetControllerReference\<close> on a new object, then \<open>Create\<close>.\<close>

definition create_owned ::
  "'q api \<Rightarrow> 'q Tenant \<Rightarrow> (OwnerRef list \<Rightarrow> 'q obj) \<Rightarrow> ('q, (string + kerr) option) prog" where
  "create_owned api t mk =
     (case ap_setRef api (tn_uid t) [] of
        Inl e \<Rightarrow> ret (Some (Inl e))
      | Inr owners \<Rightarrow> do {
          r \<leftarrow> do_write api (WCreate (mk owners));
          ret (map_option Inr r)
        })"

text \<open>What every sub-reconciler returns for an item: readiness, message, error.\<close>

type_synonym item_result = "bool \<times> string \<times> string option"

abbreviation failed :: "string \<Rightarrow> string \<Rightarrow> item_result" where
  "failed what e \<equiv> (False, what @ '': '' @ e, Some e)"

section \<open>Namespace\<close>

definition withManagedByLabel :: "(string, string) gomap \<Rightarrow> (string, string) gomap" where
  "withManagedByLabel m = AList.update LabelManagedBy ManagedByValue m"

definition ensure_namespace :: "'q api \<Rightarrow> 'q Tenant \<Rightarrow> ('q, item_result option) prog" where
  "ensure_namespace api t =
     (let name = nsp_name (ts_namespace (tn_spec t)) in do {
        r \<leftarrow> read_obj ONamespace (ap_getNs api) [] name;
        case r of
          Inl e \<Rightarrow>
            if isNotFound e then do {
              c \<leftarrow> do_write api (WCreate (ONamespace \<lparr>nso_meta =
                 \<lparr>om_namespace = [], om_name = name,
                  om_labels = withManagedByLabel (nsp_labels (ts_namespace (tn_spec t))),
                  om_annotations = nsp_annotations (ts_namespace (tn_spec t)), om_owners = []\<rparr>,
                  nso_phase = []\<rparr>));
              case c of
                Some e \<Rightarrow> if isAlreadyExists e then ret None
                          else ret (Some (failed ''create namespace failed'' (kmsg e)))
              | None \<Rightarrow> ret None
            } else ret (Some (failed ''get namespace failed'' (kmsg e)))
        | Inr ns \<Rightarrow>
            (case map_of (om_labels (nso_meta ns)) LabelManagedBy of
               Some _ \<Rightarrow> ret None
             | None \<Rightarrow> do {
                 p \<leftarrow> do_write api (WPatch (ONamespace ns) (ONamespace (ns\<lparr>nso_meta := (nso_meta ns)
                        \<lparr>om_labels := AList.update LabelManagedBy ManagedByValue (om_labels (nso_meta ns))\<rparr>\<rparr>)));
                 case p of Some e \<Rightarrow> ret (Some (failed ''label namespace failed'' (kmsg e))) | None \<Rightarrow> ret None
               })
      })"

definition Namespace :: "'q api \<Rightarrow> 'q Tenant \<Rightarrow> ('q, item_result) prog" where
  "Namespace api t =
     (let name = nsp_name (ts_namespace (tn_spec t)) in
      if name = [] then ret (False, ''spec.namespace.name is empty'', Some ''namespace name empty'')
      else do {
        upserted \<leftarrow> ensure_namespace api t;
        case upserted of Some res \<Rightarrow> ret res
        | None \<Rightarrow> do {
            r \<leftarrow> read_obj ONamespace (ap_getNs api) [] name;
            case r of
              Inl e \<Rightarrow> ret (failed ''get namespace after upsert failed'' (kmsg e))
            | Inr ns \<Rightarrow>
                if nso_phase ns \<noteq> ''Active'' then ret (False, ''namespace phase='' @ nso_phase ns, None)
                else ret (True, [], None)
          }
      })"

section \<open>Elastic quotas\<close>

abbreviation tenant_ns :: "'q Tenant \<Rightarrow> string" where
  "tenant_ns t \<equiv> nsp_name (ts_namespace (tn_spec t))"

definition quota_max :: "'q QuotaSpec \<Rightarrow> 'q resource_list" where
  "quota_max q = (case qs_max q of None \<Rightarrow> [] | Some m \<Rightarrow> m)"

text \<open>The create or patch part of \<open>upsertElasticQuota\<close>: the message and error, if it fails.\<close>

definition put_quota ::
  "'q api \<Rightarrow> 'q Tenant \<Rightarrow> string \<Rightarrow> string \<Rightarrow> 'q QuotaSpec \<Rightarrow> ('q, (string \<times> string) option) prog" where
  "put_quota api t ns name q = do {
     r \<leftarrow> read_obj OQuota (ap_getEQ api) ns name;
     case r of
       Inl e \<Rightarrow>
         if isNotFound e then do {
           c \<leftarrow> create_owned api t (\<lambda>owners. OQuota \<lparr>eqo_meta = (new_meta ns name (TenantLabels t))\<lparr>om_owners := owners\<rparr>,
                  eqo_min = qs_min q, eqo_max = quota_max q, eqo_used = []\<rparr>);
           ret (case c of None \<Rightarrow> None
                | Some (Inl e) \<Rightarrow> Some (''set ownerRef failed: '' @ e, e)
                | Some (Inr e) \<Rightarrow> Some (''create elasticquota failed: '' @ kmsg e, kmsg e))
         } else ret (Some (''get elasticquota failed: '' @ kmsg e, kmsg e))
     | Inr eq \<Rightarrow>
         (let drift = (\<not> map_eq (eqo_min eq) (qs_min q) \<or> \<not> map_eq (eqo_max eq) (quota_max q));
              eq' = (if drift then eq\<lparr>eqo_min := qs_min q, eqo_max := quota_max q\<rparr> else eq)
          in case sync_meta api t (TenantLabels t) (eqo_meta eq) of
               Inl e \<Rightarrow> ret (Some (''set ownerRef failed: '' @ e, e))
             | Inr (m, changed) \<Rightarrow>
                 if drift \<or> changed then do {
                   p \<leftarrow> do_write api (WPatch (OQuota eq) (OQuota (eq'\<lparr>eqo_meta := m\<rparr>)));
                   ret (case p of None \<Rightarrow> None
                        | Some e \<Rightarrow> Some (''patch elasticquota failed: '' @ kmsg e, kmsg e))
                 } else ret None)
   }"

definition upsertElasticQuota ::
  "'q api \<Rightarrow> 'q Tenant \<Rightarrow> string \<Rightarrow> string \<Rightarrow> 'q QuotaSpec \<Rightarrow>
   ('q, bool \<times> 'q resource_list \<times> string \<times> string option) prog" where
  "upsertElasticQuota api t ns name q = do {
     put \<leftarrow> put_quota api t ns name q;
     case put of Some (msg, e) \<Rightarrow> ret (False, [], msg, Some e)
     | None \<Rightarrow> do {
         r \<leftarrow> read_obj OQuota (ap_getEQ api) ns name;
         ret (case r of
                Inl e \<Rightarrow> (False, [], ''get elasticquota after upsert failed: '' @ kmsg e, Some (kmsg e))
              | Inr eq \<Rightarrow> (True, eqo_used eq, [], None))
       }
   }"

definition gcOrphanElasticQuotas ::
  "'q api \<Rightarrow> 'q Tenant \<Rightarrow> string \<Rightarrow> string list \<Rightarrow> ('q, string option) prog" where
  "gcOrphanElasticQuotas api t ns desired = do {
     r \<leftarrow> list_objs OQuota (\<lambda>h. ap_listEQ api h ns [(LabelTenantID, sget (tn_labels t) LabelTenantID)]);
     case r of
       Inl e \<Rightarrow> ret (Some (''list elasticquotas: '' @ kmsg e))
     | Inr items \<Rightarrow>
         try_each (\<lambda>eq.
           if om_name (eqo_meta eq) \<in> set desired then ret None
           else if \<not> hasOwner (om_owners (eqo_meta eq)) t then ret None
           else do {
             d \<leftarrow> delete_obj api (OQuota eq);
             ret (map_option (\<lambda>e. ''delete orphan elasticquota '' @ om_name (eqo_meta eq) @ '': '' @ kmsg e) d)
           }) items
   }"

fun quota_loop :: "'q api \<Rightarrow> 'q Tenant \<Rightarrow> 'q QuotaSpec list \<Rightarrow> ('q, 'q QuotaStatus list \<times> string option) prog" where
  "quota_loop api t [] = ret ([], None)"
| "quota_loop api t (q # qs) = do {
     (ready, used, msg, err) \<leftarrow> upsertElasticQuota api t (tenant_ns t) (ElasticQuotaName (tn_name t) (qs_pool q)) q;
     let st = \<lparr>qst_pool = qs_pool q, qst_ready = ready, qst_used = used, qst_message = msg\<rparr>;
     case err of Some e \<Rightarrow> ret ([st], Some e)
     | None \<Rightarrow> do {
         (sts, e) \<leftarrow> quota_loop api t qs;
         ret (st # sts, e)
       }
   }"

definition ElasticQuotas :: "'q api \<Rightarrow> 'q Tenant \<Rightarrow> ('q, 'q QuotaStatus list \<times> string option) prog" where
  "ElasticQuotas api t = do {
     g \<leftarrow> gcOrphanElasticQuotas api t (tenant_ns t)
            (map (\<lambda>q. ElasticQuotaName (tn_name t) (qs_pool q)) (ts_quotas (tn_spec t)));
     case g of Some e \<Rightarrow> ret ([], Some e)
     | None \<Rightarrow> quota_loop api t (ts_quotas (tn_spec t))
   }"

section \<open>Secrets and config maps\<close>

text \<open>The loop over the declared items of one kind, which stops at the first error.\<close>

fun item_loop ::
  "('a \<Rightarrow> string) \<Rightarrow> ('a \<Rightarrow> ('q, item_result) prog) \<Rightarrow> 'a list \<Rightarrow>
   ('q, InitResourceItemStatus list \<times> string option) prog" where
  "item_loop name upsert [] = ret ([], None)"
| "item_loop name upsert (x # xs) = do {
     (ready, msg, err) \<leftarrow> upsert x;
     let st = \<lparr>ist_name = name x, ist_ready = ready, ist_message = msg\<rparr>;
     case err of Some e \<Rightarrow> ret ([st], Some e)
     | None \<Rightarrow> do {
         (sts, e) \<leftarrow> item_loop name upsert xs;
         ret (st # sts, e)
       }
   }"

text \<open>The loop followed by the garbage collection of the kind.\<close>

definition items_then_gc ::
  "('q, InitResourceItemStatus list \<times> string option) prog \<Rightarrow> ('q, string option) prog \<Rightarrow>
   ('q, InitResourceItemStatus list \<times> string option) prog" where
  "items_then_gc items gc = do {
     (sts, err) \<leftarrow> items;
     case err of Some e \<Rightarrow> ret (sts, Some e)
     | None \<Rightarrow> do {
         g \<leftarrow> gc;
         ret (sts, g)
       }
   }"

abbreviation "labelSecretRole \<equiv> ''tenant.axisml.io/secret-role''"
abbreviation "secretRoleImagePull \<equiv> ''imagepull''"
abbreviation "secretRoleGeneric \<equiv> ''generic''"
abbreviation "SecretTypeDockerConfigJson \<equiv> ''kubernetes.io/dockerconfigjson''"
abbreviation "SecretTypeOpaque \<equiv> ''Opaque''"

definition warnIfTypeMismatch :: "string \<Rightarrow> string \<Rightarrow> string" where
  "warnIfTypeMismatch srcType desired =
     (if srcType \<noteq> [] \<and> srcType \<noteq> desired
      then ''source secret type='' @ srcType @ '' differs from spec.type='' @ desired @ ''; using spec.type''
      else [])"

definition create_secret ::
  "'q api \<Rightarrow> 'q Tenant \<Rightarrow> string \<Rightarrow> objmeta \<Rightarrow> string \<Rightarrow> SecretObj \<Rightarrow> ('q, item_result) prog" where
  "create_secret api t what m desiredType srcSecret = do {
     c \<leftarrow> create_owned api t (\<lambda>owners. OSecret \<lparr>sec_meta = m\<lparr>om_owners := owners\<rparr>,
            sec_type = desiredType, sec_data = sec_data srcSecret\<rparr>);
     ret (case c of None \<Rightarrow> (True, warnIfTypeMismatch (sec_type srcSecret) desiredType, None)
          | Some (Inl e) \<Rightarrow> failed ''set ownerRef failed'' e
          | Some (Inr e) \<Rightarrow> failed what (kmsg e))
   }"

definition patch_secret ::
  "'q api \<Rightarrow> 'q Tenant \<Rightarrow> (string, string) gomap \<Rightarrow> string \<Rightarrow> SecretObj \<Rightarrow> SecretObj \<Rightarrow> ('q, item_result) prog" where
  "patch_secret api t labels desiredType srcSecret existing =
     (let drift = (\<not> map_eq (sec_data existing) (sec_data srcSecret));
          existing' = (if drift then existing\<lparr>sec_data := sec_data srcSecret\<rparr> else existing);
          ok = (True, warnIfTypeMismatch (sec_type srcSecret) desiredType, None)
      in case sync_meta api t labels (sec_meta existing) of
           Inl e \<Rightarrow> ret (failed ''set ownerRef failed'' e)
         | Inr (m, changed) \<Rightarrow>
             if drift \<or> changed then do {
               p \<leftarrow> do_write api (WPatch (OSecret existing) (OSecret (existing'\<lparr>sec_meta := m\<rparr>)));
               ret (case p of Some e \<Rightarrow> failed ''patch secret failed'' (kmsg e) | None \<Rightarrow> ok)
             } else ret ok)"

definition upsertCopiedSecret ::
  "'q api \<Rightarrow> 'q Tenant \<Rightarrow> string \<Rightarrow> string \<Rightarrow> string \<Rightarrow> SourceRef \<Rightarrow> ('q, item_result) prog" where
  "upsertCopiedSecret api t subName desiredType role src =
     (if src_namespace src = [] \<or> src_name src = []
      then ret (False, ''sourceSecretRef.namespace and .name are required'', None)
      else do {
        s \<leftarrow> read_obj OSecret (ap_srcSecret api) (src_namespace src) (src_name src);
        case s of
          Inl e \<Rightarrow>
            if isNotFound e
            then ret (False, ''source secret '' @ src_namespace src @ ''/'' @ src_name src @ '' not found'', None)
            else ret (failed ''get source secret failed'' (kmsg e))
        | Inr srcSecret \<Rightarrow>
            (let name = PerTenantResourceName (tn_name t) subName; ns = tenant_ns t;
                 labels = ApplyTenantLabels t [(labelSecretRole, role)]
             in do {
               r \<leftarrow> read_obj OSecret (ap_getSecret api) ns name;
               case r of
                 Inl e \<Rightarrow>
                   if isNotFound e
                   then create_secret api t ''create secret failed'' (new_meta ns name labels) desiredType srcSecret
                   else ret (failed ''get target secret failed'' (kmsg e))
               | Inr existing \<Rightarrow>
                   (let existingType = (if sec_type existing = [] then SecretTypeOpaque else sec_type existing) in
                    if existingType \<noteq> desiredType then do {
                      d \<leftarrow> delete_obj api (OSecret existing);
                      case d of Some e \<Rightarrow> ret (failed ''delete on type change failed'' (kmsg e))
                      | None \<Rightarrow> create_secret api t ''recreate after type change failed'' (new_meta ns name labels)
                                  desiredType srcSecret
                    } else patch_secret api t labels desiredType srcSecret existing)
             })
      })"

definition gcOrphanSecrets :: "'q api \<Rightarrow> 'q Tenant \<Rightarrow> string list \<Rightarrow> string \<Rightarrow> ('q, string option) prog" where
  "gcOrphanSecrets api t desiredSubNames role = do {
     r \<leftarrow> list_objs OSecret (\<lambda>h. ap_listSecret api h (tenant_ns t)
            [(LabelTenantID, sget (tn_labels t) LabelTenantID), (labelSecretRole, role)]);
     case r of
       Inl e \<Rightarrow> ret (Some (''list secrets: '' @ kmsg e))
     | Inr items \<Rightarrow>
         try_each (\<lambda>s.
           if \<not> hasOwner (om_owners (sec_meta s)) t then ret None
           else if stripPrefix (om_name (sec_meta s)) (PerTenantResourceName (tn_name t) []) \<in> set desiredSubNames
             then ret None
           else do {
             d \<leftarrow> delete_obj api (OSecret s);
             ret (map_option (\<lambda>e. ''delete orphan secret '' @ om_name (sec_meta s) @ '': '' @ kmsg e) d)
           }) items
   }"

definition ImagePullSecrets :: "'q api \<Rightarrow> 'q Tenant \<Rightarrow> ('q, InitResourceItemStatus list \<times> string option) prog" where
  "ImagePullSecrets api t =
     (let items = ir_imagePullSecrets (ts_initResources (tn_spec t)) in
      items_then_gc
        (item_loop ips_name (\<lambda>s. upsertCopiedSecret api t (ips_name s) SecretTypeDockerConfigJson
           secretRoleImagePull (ips_source s)) items)
        (gcOrphanSecrets api t (nameSet (map ips_name items)) secretRoleImagePull))"

definition Secrets :: "'q api \<Rightarrow> 'q Tenant \<Rightarrow> ('q, InitResourceItemStatus list \<times> string option) prog" where
  "Secrets api t =
     (let items = ir_secrets (ts_initResources (tn_spec t)) in
      items_then_gc
        (item_loop ss_name (\<lambda>s. upsertCopiedSecret api t (ss_name s)
           (if ss_type s = [] then SecretTypeOpaque else ss_type s) secretRoleGeneric (ss_source s)) items)
        (gcOrphanSecrets api t (nameSet (map ss_name items)) secretRoleGeneric))"

definition patch_config_map ::
  "'q api \<Rightarrow> 'q Tenant \<Rightarrow> (string, string) gomap \<Rightarrow> ConfigMapObj \<Rightarrow> ConfigMapObj \<Rightarrow> ('q, item_result) prog" where
  "patch_config_map api t labels srcCM existing =
     (let drift1 = (\<not> map_eq (cm_data existing) (cm_data srcCM));
          drift2 = (\<not> map_eq (cm_binaryData existing) (cm_binaryData srcCM));
          e1 = (if drift1 then existing\<lparr>cm_data := cm_data srcCM\<rparr> else existing);
          e2 = (if drift2 then e1\<lparr>cm_binaryData := cm_binaryData srcCM\<rparr> else e1)
      in case sync_meta api t labels (cm_meta existing) of
           Inl e \<Rightarrow> ret (failed ''set ownerRef failed'' e)
         | Inr (m, changed) \<Rightarrow>
             if drift1 \<or> drift2 \<or> changed then do {
               p \<leftarrow> do_write api (WPatch (OConfigMap existing) (OConfigMap (e2\<lparr>cm_meta := m\<rparr>)));
               ret (case p of Some e \<Rightarrow> failed ''patch configmap failed'' (kmsg e) | None \<Rightarrow> (True, [], None))
             } else ret (True, [], None))"

definition upsertCopiedConfigMap :: "'q api \<Rightarrow> 'q Tenant \<Rightarrow> ConfigMapSpec \<Rightarrow> ('q, item_result) prog" where
  "upsertCopiedConfigMap api t spec =
     (let src = cms_source spec in
      if src_namespace src = [] \<or> src_name src = []
      then ret (False, ''sourceConfigMapRef.namespace and .name are required'', None)
      else do {
        s \<leftarrow> read_obj OConfigMap (ap_srcCM api) (src_namespace src) (src_name src);
        case s of
          Inl e \<Rightarrow>
            if isNotFound e
            then ret (False, ''source configmap '' @ src_namespace src @ ''/'' @ src_name src @ '' not found'', None)
            else ret (failed ''get source configmap failed'' (kmsg e))
        | Inr srcCM \<Rightarrow>
            (let name = PerTenantResourceName (tn_name t) (cms_name spec); ns = tenant_ns t;
                 labels = ApplyTenantLabels t []
             in do {
               r \<leftarrow> read_obj OConfigMap (ap_getCM api) ns name;
               case r of
                 Inl e \<Rightarrow>
                   if isNotFound e then do {
                     c \<leftarrow> create_owned api t (\<lambda>owners. OConfigMap
                            \<lparr>cm_meta = (new_meta ns name labels)\<lparr>om_owners := owners\<rparr>,
                             cm_data = cm_data srcCM, cm_binaryData = cm_binaryData srcCM\<rparr>);
                     ret (case c of None \<Rightarrow> (True, [], None)
                          | Some (Inl e) \<Rightarrow> failed ''set ownerRef failed'' e
                          | Some (Inr e) \<Rightarrow> failed ''create configmap failed'' (kmsg e))
                   } else ret (failed ''get target configmap failed'' (kmsg e))
               | Inr existing \<Rightarrow> patch_config_map api t labels srcCM existing
             })
      })"

definition gcOrphanConfigMaps :: "'q api \<Rightarrow> 'q Tenant \<Rightarrow> string list \<Rightarrow> ('q, string option) prog" where
  "gcOrphanConfigMaps api t desired = do {
     r \<leftarrow> list_objs OConfigMap (\<lambda>h. ap_listCM api h (tenant_ns t)
            [(LabelTenantID, sget (tn_labels t) LabelTenantID)]);
     case r of
       Inl e \<Rightarrow> ret (Some (''list configmaps: '' @ kmsg e))
     | Inr items \<Rightarrow>
         try_each (\<lambda>cm.
           if \<not> hasOwner (om_owners (cm_meta cm)) t then ret None
           else if stripPrefix (om_name (cm_meta cm)) (PerTenantResourceName (tn_name t) []) \<in> set desired then ret None
           else do {
             d \<leftarrow> delete_obj api (OConfigMap cm);
             ret (map_option (\<lambda>e. ''delete orphan configmap '' @ om_name (cm_meta cm) @ '': '' @ kmsg e) d)
           }) items
   }"

definition ConfigMaps :: "'q api \<Rightarrow> 'q Tenant \<Rightarrow> ('q, InitResourceItemStatus list \<times> string option) prog" where
  "ConfigMaps api t =
     (let items = ir_configMaps (ts_initResources (tn_spec t)) in
      items_then_gc (item_loop cms_name (upsertCopiedConfigMap api t) items)
        (gcOrphanConfigMaps api t (nameSet (map cms_name items))))"

end
