(* ===== verification/TenantController.thy ===== *)
theory TenantController
  imports TenantReconcile
begin

text \<open>
  The rest of the tenant operator: service accounts with their roles and bindings
  (\<^verbatim>\<open>reconcile/serviceaccount.go\<close>), predefined volumes (\<^verbatim>\<open>reconcile/volume.go\<close>), the aggregation
  of a pass into a status (\<^verbatim>\<open>reconcile/status.go\<close>) and \<open>Reconcile\<close>
  (\<^verbatim>\<open>controller/tenant_controller.go\<close>). The API parameter is that of \<open>TenantReconcile\<close>.
\<close>

section \<open>Service accounts\<close>

text \<open>An error of these functions is its text.\<close>

abbreviation create_result :: "(string + kerr) option \<Rightarrow> string option" where
  "create_result c \<equiv> (case c of None \<Rightarrow> None | Some (Inl e) \<Rightarrow> Some e | Some (Inr e) \<Rightarrow> Some (kmsg e))"

definition upsertServiceAccountObj ::
  "'q api \<Rightarrow> 'q Tenant \<Rightarrow> string \<Rightarrow> string \<Rightarrow> (string, string) gomap \<Rightarrow> string list \<Rightarrow> ('q, string option) prog" where
  "upsertServiceAccountObj api t ns name labels pullRefs = do {
     r \<leftarrow> read_obj OServiceAccount (ap_getSA api) ns name;
     case r of
       Inl e \<Rightarrow>
         if isNotFound e then do {
           c \<leftarrow> create_owned api t (\<lambda>owners. OServiceAccount
                  \<lparr>sa_meta = (new_meta ns name labels)\<lparr>om_owners := owners\<rparr>, sa_imagePullSecrets = pullRefs\<rparr>);
           ret (create_result c)
         } else ret (Some (kmsg e))
     | Inr existing \<Rightarrow>
         (let drift = (sa_imagePullSecrets existing \<noteq> pullRefs);
              existing' = existing\<lparr>sa_imagePullSecrets := pullRefs\<rparr>
          in case sync_meta api t labels (sa_meta existing) of
               Inl e \<Rightarrow> ret (Some e)
             | Inr (m, changed) \<Rightarrow>
                 if drift \<or> changed then do {
                   p \<leftarrow> do_write api (WPatch (OServiceAccount existing) (OServiceAccount (existing'\<lparr>sa_meta := m\<rparr>)));
                   ret (map_option kmsg p)
                 } else ret None)
   }"

definition upsertRole ::
  "'q api \<Rightarrow> 'q Tenant \<Rightarrow> string \<Rightarrow> string \<Rightarrow> (string, string) gomap \<Rightarrow> PolicyRule list \<Rightarrow> ('q, string option) prog" where
  "upsertRole api t ns name labels rules = do {
     r \<leftarrow> read_obj ORole (ap_getRole api) ns name;
     case r of
       Inl e \<Rightarrow>
         if isNotFound e then do {
           c \<leftarrow> create_owned api t (\<lambda>owners. ORole
                  \<lparr>ro_meta = (new_meta ns name labels)\<lparr>om_owners := owners\<rparr>, ro_rules = rules\<rparr>);
           ret (create_result c)
         } else ret (Some (kmsg e))
     | Inr existing \<Rightarrow>
         (let drift = (ro_rules existing \<noteq> rules); existing' = existing\<lparr>ro_rules := rules\<rparr>
          in case sync_meta api t labels (ro_meta existing) of
               Inl e \<Rightarrow> ret (Some e)
             | Inr (m, changed) \<Rightarrow>
                 if drift \<or> changed then do {
                   p \<leftarrow> do_write api (WPatch (ORole existing) (ORole (existing'\<lparr>ro_meta := m\<rparr>)));
                   ret (map_option kmsg p)
                 } else ret None)
   }"

abbreviation "RbacGroupName \<equiv> ''rbac.authorization.k8s.io''"

definition upsertRoleBinding ::
  "'q api \<Rightarrow> 'q Tenant \<Rightarrow> string \<Rightarrow> string \<Rightarrow> (string, string) gomap \<Rightarrow> RBACSpec \<Rightarrow> bool \<Rightarrow> ('q, string option) prog" where
  "upsertRoleBinding api t ns saName labels rbac useClusterRole =
     (let desiredRoleRef =
            (case rb_roleRef rbac of
               Some ref \<Rightarrow> if useClusterRole
                 then \<lparr>rfr_apiGroup = RbacGroupName, rfr_kind = ''ClusterRole'', rfr_name = rrf_name ref\<rparr>
                 else \<lparr>rfr_apiGroup = RbacGroupName, rfr_kind = ''Role'', rfr_name = saName\<rparr>
             | None \<Rightarrow> \<lparr>rfr_apiGroup = RbacGroupName, rfr_kind = ''Role'', rfr_name = saName\<rparr>);
          desiredSubjects = [\<lparr>sub_kind = ''ServiceAccount'', sub_name = saName, sub_namespace = ns\<rparr>];
          fresh = (\<lambda>owners. ORoleBinding \<lparr>rbd_meta = (new_meta ns saName labels)\<lparr>om_owners := owners\<rparr>,
                     rbd_subjects = desiredSubjects, rbd_roleRef = desiredRoleRef\<rparr>)
      in do {
        r \<leftarrow> read_obj ORoleBinding (ap_getRB api) ns saName;
        case r of
          Inl e \<Rightarrow>
            if isNotFound e then do {
              c \<leftarrow> create_owned api t fresh;
              ret (create_result c)
            } else ret (Some (kmsg e))
        | Inr existing \<Rightarrow>
            if rbd_roleRef existing \<noteq> desiredRoleRef then do {
              d \<leftarrow> delete_obj api (ORoleBinding existing);
              case d of Some e \<Rightarrow> ret (Some (kmsg e))
              | None \<Rightarrow> do {
                  c \<leftarrow> create_owned api t fresh;
                  ret (create_result c)
                }
            } else
            (let drift = (rbd_subjects existing \<noteq> desiredSubjects);
                 existing' = existing\<lparr>rbd_subjects := desiredSubjects\<rparr>
             in case sync_meta api t labels (rbd_meta existing) of
                  Inl e \<Rightarrow> ret (Some e)
                | Inr (m, changed) \<Rightarrow>
                    if drift \<or> changed then do {
                      p \<leftarrow> do_write api (WPatch (ORoleBinding existing) (ORoleBinding (existing'\<lparr>rbd_meta := m\<rparr>)));
                      ret (map_option kmsg p)
                    } else ret None)
      })"

text \<open>\<open>deleteIfExists\<close>: the object passed is empty but for its key.\<close>

definition deleteIfExists :: "'q api \<Rightarrow> (objmeta \<Rightarrow> 'q obj) \<Rightarrow> string \<Rightarrow> string \<Rightarrow> ('q, string option) prog" where
  "deleteIfExists api mk ns name = do {
     d \<leftarrow> delete_obj api (mk (new_meta ns name []));
     ret (map_option kmsg d)
   }"

abbreviation empty_role :: "objmeta \<Rightarrow> 'q obj" where
  "empty_role m \<equiv> ORole \<lparr>ro_meta = m, ro_rules = []\<rparr>"

abbreviation empty_binding :: "objmeta \<Rightarrow> 'q obj" where
  "empty_binding m \<equiv> ORoleBinding \<lparr>rbd_meta = m, rbd_subjects = [], rbd_roleRef = \<lparr>rfr_apiGroup = [], rfr_kind = [], rfr_name = []\<rparr>\<rparr>"

definition upsertRoleAndBinding ::
  "'q api \<Rightarrow> 'q Tenant \<Rightarrow> string \<Rightarrow> string \<Rightarrow> (string, string) gomap \<Rightarrow> RBACSpec \<Rightarrow> ('q, (string \<times> string) option) prog" where
  "upsertRoleAndBinding api t ns saName labels rbac =
     (let useClusterRole = (case rb_roleRef rbac of Some ref \<Rightarrow> rrf_kind ref = ''ClusterRole'' | None \<Rightarrow> False) in do {
        role \<leftarrow> (if \<not> useClusterRole then do {
                    e \<leftarrow> upsertRole api t ns saName labels (rb_rules rbac);
                    ret (map_option (\<lambda>e. (''upsert role failed: '' @ e, e)) e)
                  } else do {
                    e \<leftarrow> deleteIfExists api empty_role ns saName;
                    ret (map_option (\<lambda>e. (''cleanup stale role failed: '' @ e, e)) e)
                  });
        case role of Some e \<Rightarrow> ret (Some e)
        | None \<Rightarrow> do {
            e \<leftarrow> upsertRoleBinding api t ns saName labels rbac useClusterRole;
            ret (map_option (\<lambda>e. (''upsert rolebinding failed: '' @ e, e)) e)
          }
      })"

definition upsertSA :: "'q api \<Rightarrow> 'q Tenant \<Rightarrow> ServiceAccountSpec \<Rightarrow> ('q, item_result) prog" where
  "upsertSA api t saSpec =
     (let ns = tenant_ns t; saName = PerTenantResourceName (tn_name t) (sas_name saSpec);
          labels = ApplyTenantLabels t [];
          finalPullRefs = map (PerTenantResourceName (tn_name t)) (sas_imagePullSecrets saSpec)
      in do {
        e \<leftarrow> upsertServiceAccountObj api t ns saName labels finalPullRefs;
        case e of Some e \<Rightarrow> ret (failed ''upsert service account failed'' e)
        | None \<Rightarrow>
            (case sas_rbac saSpec of
               Some rbac \<Rightarrow> do {
                 r \<leftarrow> upsertRoleAndBinding api t ns saName labels rbac;
                 ret (case r of Some (msg, e) \<Rightarrow> (False, msg, Some e) | None \<Rightarrow> (True, [], None))
               }
             | None \<Rightarrow> do {
                 b \<leftarrow> deleteIfExists api empty_binding ns saName;
                 case b of Some e \<Rightarrow> ret (failed ''cleanup rolebinding failed'' e)
                 | None \<Rightarrow> do {
                     r \<leftarrow> deleteIfExists api empty_role ns saName;
                     ret (case r of Some e \<Rightarrow> failed ''cleanup role failed'' e | None \<Rightarrow> (True, [], None))
                   }
               })
      })"

definition gcOrphanSAs :: "'q api \<Rightarrow> 'q Tenant \<Rightarrow> string list \<Rightarrow> ('q, string option) prog" where
  "gcOrphanSAs api t desired = do {
     r \<leftarrow> list_objs OServiceAccount (\<lambda>h. ap_listSA api h (tenant_ns t)
            [(LabelTenantID, sget (tn_labels t) LabelTenantID)]);
     case r of
       Inl e \<Rightarrow> ret (Some (''list service accounts: '' @ kmsg e))
     | Inr items \<Rightarrow>
         try_each (\<lambda>sa.
           if \<not> hasOwner (om_owners (sa_meta sa)) t then ret None
           else if stripPrefix (om_name (sa_meta sa)) (PerTenantResourceName (tn_name t) []) \<in> set desired then ret None
           else do {
             _ \<leftarrow> deleteIfExists api empty_binding (om_namespace (sa_meta sa)) (om_name (sa_meta sa));
             _ \<leftarrow> deleteIfExists api empty_role (om_namespace (sa_meta sa)) (om_name (sa_meta sa));
             d \<leftarrow> delete_obj api (OServiceAccount sa);
             ret (map_option (\<lambda>e. ''delete orphan service account '' @ om_name (sa_meta sa) @ '': '' @ kmsg e) d)
           }) items
   }"

definition ServiceAccounts :: "'q api \<Rightarrow> 'q Tenant \<Rightarrow> ('q, InitResourceItemStatus list \<times> string option) prog" where
  "ServiceAccounts api t =
     (let items = ir_serviceAccounts (ts_initResources (tn_spec t)) in
      items_then_gc (item_loop sas_name (upsertSA api t) items)
        (gcOrphanSAs api t (nameSet (map sas_name items))))"

section \<open>Predefined volumes\<close>

abbreviation "volumeManagedByLabel \<equiv> ''app.kubernetes.io/managed-by''"
abbreviation "volumeManagedByValue \<equiv> ''axisml-cluster-manager''"
abbreviation "volumeDescriptionAnnotation \<equiv> ''resource.axisml.io/description''"

definition isManagedVolume :: "'q PVC \<Rightarrow> bool" where
  "isManagedVolume pvc \<longleftrightarrow> sget (om_labels (pvc_meta pvc)) volumeManagedByLabel = volumeManagedByValue"

definition buildVolumePVC ::
  "(string \<Rightarrow> string + 'q) \<Rightarrow> string \<Rightarrow> VolumeSpec \<Rightarrow> (string, string) gomap \<Rightarrow> string + 'q PVC" where
  "buildVolumePVC parse_q ns spec labels =
     (let m = (new_meta ns (vs_name spec) labels)\<lparr>om_annotations :=
                 (if vs_description spec \<noteq> [] then [(volumeDescriptionAnnotation, vs_description spec)] else [])\<rparr>;
          pvc = \<lparr>pvc_meta = m,
                 pvc_accessModes = (if vs_accessModes spec \<noteq> [] then vs_accessModes spec else [''ReadWriteOnce'']),
                 pvc_storageClass = (if vs_storageClass spec \<noteq> [] then Some (vs_storageClass spec) else None),
                 pvc_requests = [], pvc_phase = []\<rparr>
      in if vs_size spec \<noteq> [] then
           (case parse_q (vs_size spec) of
              Inl e \<Rightarrow> Inl (''volume '' @ go_quote (vs_name spec) @ '': invalid size '' @ go_quote (vs_size spec) @ '': '' @ e)
            | Inr q \<Rightarrow> Inr (pvc\<lparr>pvc_requests := [(''storage'', q)]\<rparr>))
         else Inr pvc)"

definition syncVolumeMeta ::
  "'q api \<Rightarrow> 'q PVC \<Rightarrow> (string, string) gomap \<Rightarrow> string \<Rightarrow> ('q, kerr + 'q PVC) prog" where
  "syncVolumeMeta api pvc labels description =
     (let (ls, changed1) = sync_labels (om_labels (pvc_meta pvc)) labels;
          changed2 = (description \<noteq> [] \<and> sget (om_annotations (pvc_meta pvc)) volumeDescriptionAnnotation \<noteq> description);
          ans = (if changed2 then AList.update volumeDescriptionAnnotation description (om_annotations (pvc_meta pvc))
                 else om_annotations (pvc_meta pvc));
          pvc' = pvc\<lparr>pvc_meta := (pvc_meta pvc)\<lparr>om_labels := ls, om_annotations := ans\<rparr>\<rparr>
      in if changed1 \<or> changed2
         then State (\<lambda>h. let r = ap_patchPVC api h pvc pvc' in
                (r, Wrote (WPatch (OPVC pvc) (OPVC pvc')) (case r of Inl e \<Rightarrow> Some e | Inr _ \<Rightarrow> None) # h))
         else ret (Inr pvc))"

definition phaseMessage :: "string \<Rightarrow> string" where
  "phaseMessage phase = (if phase = ''Bound'' \<or> phase = [] then [] else ''volume phase='' @ phase)"

definition ensureVolumePVC ::
  "(string \<Rightarrow> string + 'q) \<Rightarrow> 'q api \<Rightarrow> 'q Tenant \<Rightarrow> VolumeSpec \<Rightarrow> ('q, item_result) prog" where
  "ensureVolumePVC parse_q api t spec =
     (if vs_hostPath spec \<noteq> [] then ret (False, ''hostPath volumes are not supported in Standard (multi-tenant)'', None)
      else let ns = tenant_ns t; labels = ApplyTenantLabels t [(volumeManagedByLabel, volumeManagedByValue)] in do {
        r \<leftarrow> read_obj OPVC (ap_srcPVC api) ns (vs_name spec);
        case r of
          Inl e \<Rightarrow>
            if isNotFound e then
              (case buildVolumePVC parse_q ns spec labels of
                 Inl m \<Rightarrow> ret (False, m, None)
               | Inr pvc \<Rightarrow> do {
                   c \<leftarrow> do_write api (WCreate (OPVC pvc));
                   ret (case c of
                          Some e \<Rightarrow> if isAlreadyExists e then (True, [], None) else failed ''create pvc failed'' (kmsg e)
                        | None \<Rightarrow> (True, phaseMessage ''Pending'', None))
                 })
            else ret (failed ''get pvc failed'' (kmsg e))
        | Inr existing \<Rightarrow>
            if \<not> isManagedVolume existing
            then ret (False, ''a PersistentVolumeClaim '' @ go_quote (vs_name spec) @
                   '' already exists and is not managed by AxisML; refusing to adopt it'', None)
            else do {
              s \<leftarrow> syncVolumeMeta api existing labels (vs_description spec);
              ret (case s of Inl e \<Rightarrow> failed ''sync pvc metadata failed'' (kmsg e)
                   | Inr pvc \<Rightarrow> (True, phaseMessage (pvc_phase pvc), None))
            }
      })"

definition Volumes ::
  "(string \<Rightarrow> string + 'q) \<Rightarrow> 'q api \<Rightarrow> 'q Tenant \<Rightarrow> ('q, InitResourceItemStatus list \<times> string option) prog" where
  "Volumes parse_q api t = item_loop vs_name (ensureVolumePVC parse_q api t) (ir_volumes (ts_initResources (tn_spec t)))"

section \<open>The status of a pass\<close>

record 'q Aggregate =
  ag_namespaceReady :: bool
  ag_namespaceMsg :: string
  ag_quotas :: "'q QuotaStatus list"
  ag_imagePullSecrets :: "InitResourceItemStatus list"
  ag_secrets :: "InitResourceItemStatus list"
  ag_configMaps :: "InitResourceItemStatus list"
  ag_serviceAccounts :: "InitResourceItemStatus list"
  ag_volumes :: "InitResourceItemStatus list"
  ag_criticalFailure :: bool
  ag_failureMessage :: string

definition AllInitResourcesReady :: "'q Aggregate \<Rightarrow> bool" where
  "AllInitResourcesReady a \<longleftrightarrow>
     list_all ist_ready (ag_imagePullSecrets a) \<and> list_all ist_ready (ag_secrets a) \<and>
     list_all ist_ready (ag_configMaps a) \<and> list_all ist_ready (ag_serviceAccounts a) \<and>
     list_all ist_ready (ag_volumes a)"

definition AllQuotasReady :: "'q Aggregate \<Rightarrow> bool" where
  "AllQuotasReady a \<longleftrightarrow> list_all qst_ready (ag_quotas a)"

definition DerivePhase :: "'q Aggregate \<Rightarrow> TenantPhase \<Rightarrow> TenantPhase \<times> string" where
  "DerivePhase a previous =
     (if ag_criticalFailure a then (TenantPhaseFailed, ag_failureMessage a)
      else if ag_namespaceReady a \<and> AllQuotasReady a \<and> AllInitResourcesReady a then (TenantPhaseActive, [])
      else (previous,
            if ag_failureMessage a \<noteq> [] then ag_failureMessage a
            else if \<not> ag_namespaceReady a then ''namespace not ready: '' @ ag_namespaceMsg a
            else if \<not> AllQuotasReady a then ''quotas not ready''
            else if \<not> AllInitResourcesReady a then ''init resources not ready''
            else []))"

definition condition_of ::
  "int \<Rightarrow> condition list \<Rightarrow> string \<Rightarrow> bool \<Rightarrow> string \<Rightarrow> string \<Rightarrow> int \<Rightarrow> condition" where
  "condition_of now prev t ok reason message gen =
     \<lparr>cd_type = t, cd_status = ok, cd_observedGeneration = gen,
      cd_lastTransitionTime =
        (case find (\<lambda>c. cd_type c = t) prev of
           Some c \<Rightarrow> if cd_status c = ok \<and> cd_lastTransitionTime c \<noteq> None then cd_lastTransitionTime c else Some now
         | None \<Rightarrow> Some now),
      cd_reason = reason, cd_message = message\<rparr>"

definition BuildStatus ::
  "int \<Rightarrow> 'q Tenant \<Rightarrow> 'q Aggregate \<Rightarrow> TenantPhase \<Rightarrow> string \<Rightarrow> 'q TenantStatus" where
  "BuildStatus now t a phase message =
     (let prev = tst_conditions (tn_status t); gen = tn_generation t in
      \<lparr>tst_observedGeneration = gen, tst_phase = phase, tst_message = message,
       tst_namespaceReady = ag_namespaceReady a, tst_quotas = ag_quotas a,
       tst_initResources = \<lparr>irs_imagePullSecrets = ag_imagePullSecrets a, irs_secrets = ag_secrets a,
          irs_configMaps = ag_configMaps a, irs_serviceAccounts = ag_serviceAccounts a, irs_volumes = ag_volumes a\<rparr>,
       tst_conditions =
         [condition_of now prev ConditionNamespaceReady (ag_namespaceReady a) ''NamespaceReconciled'' (ag_namespaceMsg a) gen,
          condition_of now prev ConditionQuotasReady (AllQuotasReady a) ''QuotasReconciled'' [] gen,
          condition_of now prev ConditionInitResourcesReady (AllInitResourcesReady a) ''InitResourcesReconciled'' [] gen] @
         (if phase = TenantPhaseFailed
          then [condition_of now prev ConditionFailed True ''ReconcileFailed'' message gen] else [])\<rparr>)"

section \<open>Reconcile\<close>

definition patchStatus ::
  "'q api \<Rightarrow> 'q Tenant \<Rightarrow> 'q Aggregate \<Rightarrow> TenantPhase \<Rightarrow> string \<Rightarrow> ('q, string option) prog" where
  "patchStatus api t agg phase message = do {
     r \<leftarrow> do_write api (WStatus t (BuildStatus (ap_now api) t agg phase message));
     ret (map_option kmsg r)
   }"

definition patchStatusFailed :: "'q api \<Rightarrow> 'q Tenant \<Rightarrow> string \<Rightarrow> ('q, string option) prog" where
  "patchStatusFailed api t message = do {
     r \<leftarrow> do_write api (WStatus t ((tn_status t)\<lparr>tst_observedGeneration := tn_generation t,
            tst_phase := TenantPhaseFailed, tst_message := message\<rparr>));
     ret (map_option kmsg r)
   }"

text \<open>The result of a pass: whether it asks to be run again after the volume interval, and its error.\<close>

type_synonym pass_result = "bool \<times> string option"

definition recordAndRequeue ::
  "'q api \<Rightarrow> 'q Tenant \<Rightarrow> 'q Aggregate \<Rightarrow> TenantPhase \<Rightarrow> string \<Rightarrow> ('q, pass_result) prog" where
  "recordAndRequeue api t agg prev cause =
     (let (phase, msg) = DerivePhase agg prev in do {
        e \<leftarrow> patchStatus api t agg phase msg;
        ret (case e of Some e \<Rightarrow> (False, Some e) | None \<Rightarrow> (False, Some cause))
      })"

text \<open>
  One non-critical section of \<open>Reconcile\<close>: run it, store its statuses with \<open>upd\<close>, and either
  stop with the failure recorded or go on.
\<close>

definition section_step ::
  "'q api \<Rightarrow> 'q Tenant \<Rightarrow> ('q, InitResourceItemStatus list \<times> string option) prog \<Rightarrow>
   (InitResourceItemStatus list \<Rightarrow> 'q Aggregate \<Rightarrow> 'q Aggregate) \<Rightarrow> string \<Rightarrow>
   ('q Aggregate \<Rightarrow> ('q, pass_result) prog) \<Rightarrow> 'q Aggregate \<Rightarrow> ('q, pass_result) prog" where
  "section_step api t sec upd what cont agg = do {
     (sts, err) \<leftarrow> sec;
     let agg = upd sts agg;
     case err of
       Some e \<Rightarrow> recordAndRequeue api t (agg\<lparr>ag_failureMessage := what @ '' reconcile failed: '' @ e\<rparr>)
                   (tst_phase (tn_status t)) e
     | None \<Rightarrow> cont agg
   }"

definition finish_pass :: "'q api \<Rightarrow> 'q Tenant \<Rightarrow> 'q Aggregate \<Rightarrow> ('q, pass_result) prog" where
  "finish_pass api t agg =
     (let (phase, msg) = DerivePhase agg (tst_phase (tn_status t)) in do {
        e \<leftarrow> patchStatus api t agg phase msg;
        ret (case e of Some e \<Rightarrow> (False, Some e)
             | None \<Rightarrow> (ir_volumes (ts_initResources (tn_spec t)) \<noteq> [], None))
      })"

definition init_sections ::
  "(string \<Rightarrow> string + 'q) \<Rightarrow> 'q api \<Rightarrow> 'q Tenant \<Rightarrow> 'q Aggregate \<Rightarrow> ('q, pass_result) prog" where
  "init_sections parse_q api t =
     section_step api t (ImagePullSecrets api t) (\<lambda>s a. a\<lparr>ag_imagePullSecrets := s\<rparr>) ''imagePullSecrets''
    (section_step api t (Secrets api t) (\<lambda>s a. a\<lparr>ag_secrets := s\<rparr>) ''secrets''
    (section_step api t (ConfigMaps api t) (\<lambda>s a. a\<lparr>ag_configMaps := s\<rparr>) ''configMaps''
    (section_step api t (ServiceAccounts api t) (\<lambda>s a. a\<lparr>ag_serviceAccounts := s\<rparr>) ''serviceAccounts''
    (section_step api t (Volumes parse_q api t) (\<lambda>s a. a\<lparr>ag_volumes := s\<rparr>) ''volumes''
    (finish_pass api t)))))"

text \<open>The aggregate a pass starts from: the status observed before.\<close>

definition start_aggregate :: "'q Tenant \<Rightarrow> 'q Aggregate" where
  "start_aggregate t =
     (let st = tn_status t; ir = tst_initResources st in
      \<lparr>ag_namespaceReady = tst_namespaceReady st, ag_namespaceMsg = [], ag_quotas = tst_quotas st,
       ag_imagePullSecrets = irs_imagePullSecrets ir, ag_secrets = irs_secrets ir,
       ag_configMaps = irs_configMaps ir, ag_serviceAccounts = irs_serviceAccounts ir, ag_volumes = irs_volumes ir,
       ag_criticalFailure = False, ag_failureMessage = []\<rparr>)"

definition apply_tenant ::
  "(string \<Rightarrow> string + 'q) \<Rightarrow> 'q api \<Rightarrow> 'q Tenant \<Rightarrow> ('q, pass_result) prog" where
  "apply_tenant parse_q api t = do {
     (nsReady, nsMsg, nsErr) \<leftarrow> Namespace api t;
     let agg = (start_aggregate t)\<lparr>ag_namespaceReady := nsReady, ag_namespaceMsg := nsMsg\<rparr>;
     case nsErr of
       Some e \<Rightarrow> recordAndRequeue api t (agg\<lparr>ag_criticalFailure := True,
                   ag_failureMessage := ''namespace reconcile failed: '' @ e\<rparr>) (tst_phase (tn_status t)) e
     | None \<Rightarrow> do {
         (qStats, qErr) \<leftarrow> ElasticQuotas api t;
         let agg = agg\<lparr>ag_quotas := qStats\<rparr>;
         case qErr of
           Some e \<Rightarrow> recordAndRequeue api t (agg\<lparr>ag_criticalFailure := True,
                       ag_failureMessage := ''elasticquota reconcile failed: '' @ e\<rparr>) (tst_phase (tn_status t)) e
         | None \<Rightarrow> init_sections parse_q api t agg
       }
   }"

definition read_tenant :: "'q api \<Rightarrow> string \<Rightarrow> ('q, kerr + 'q Tenant) prog" where
  "read_tenant api name = State (\<lambda>h. (ap_getTenant api h name, ReadTenant (ap_getTenant api h name) # h))"

definition Reconcile ::
  "('q::linordered_ab_group_add \<Rightarrow> string) \<Rightarrow> (string \<Rightarrow> string + 'q) \<Rightarrow> string list \<Rightarrow> 'q api \<Rightarrow> string \<Rightarrow>
   ('q, pass_result) prog" where
  "Reconcile show_q parse_q denylist api name = do {
     r \<leftarrow> read_tenant api name;
     case r of
       Inl e \<Rightarrow> ret (False, if isNotFound e then None else Some (kmsg e))
     | Inr t \<Rightarrow>
         (case ValidateMeta (tn_labels t) of
            Some e \<Rightarrow> do {
              p \<leftarrow> patchStatusFailed api t e;
              ret (False, p)
            }
          | None \<Rightarrow>
              (case Validate show_q parse_q denylist (tn_spec t) of
                 Some e \<Rightarrow> do {
                   p \<leftarrow> patchStatusFailed api t e;
                   ret (False, p)
                 }
               | None \<Rightarrow> apply_tenant parse_q api t))
   }"

end
