(* ===== verification/TenantProps.thy ===== *)
theory TenantProps
  imports TenantController ElasticProps
begin

text \<open>
  What the tenant operator guarantees, in the program logic of \<open>ApiProgram\<close>, so for every
  behaviour of the API: what
  validation rules out, what a pass may write, what a successful pass has established, and
  when the status is \<open>Active\<close>.
\<close>

section \<open>Rules for the calls of the tenant operator\<close>

lemma only_item_loop [only_rules]:
  "(\<And>x. x \<in> set xs \<Longrightarrow> only P (upsert x)) \<Longrightarrow> only P (item_loop name upsert xs)"
  by (induction xs) (auto intro!: only_rules simp: Let_def)

lemma only_items_then_gc [only_rules]: "only P items \<Longrightarrow> only P gc \<Longrightarrow> only P (items_then_gc items gc)"
  unfolding items_then_gc_def by (auto intro!: only_rules)

lemma only_write [only_rules]: "(\<And>r. P (Wrote w r)) \<Longrightarrow> only P (do_write api w)"
  by (simp add: only_def runs_def do_write_def)

lemma only_delete [only_rules]: "(\<And>r. P (Wrote (WDelete ob) r)) \<Longrightarrow> only P (delete_obj api ob)"
  unfolding delete_obj_def by (intro only_rules)

lemma only_deleteIfExists [only_rules]:
  "(\<And>r. P (Wrote (WDelete (mk (new_meta ns name []))) r)) \<Longrightarrow> only P (deleteIfExists api mk ns name)"
  unfolding deleteIfExists_def by (intro only_rules)

lemma only_create_owned [only_rules]:
  "(\<And>owners r. P (Wrote (WCreate (mk owners)) r)) \<Longrightarrow> only P (create_owned api t mk)"
  unfolding create_owned_def by (intro only_rules)

text \<open>A policy on events that restricts writes only.\<close>

locale write_policy =
  fixes allowed :: "'q event \<Rightarrow> bool"
  assumes reads: "allowed (ReadTenant rt)" "allowed (ReadObj ns name ob)" "allowed (ReadFail ns name e)"
    and lists: "allowed (Listed obs)" "allowed (ListFail e)"
begin

lemma only_read_obj: "only allowed (read_obj wrap f ns name)"
  by (auto simp: only_def runs_def read_obj_def reads split: sum.splits)

lemma only_list_objs: "only allowed (list_objs wrap f)"
  by (auto simp: only_def runs_def list_objs_def lists split: sum.splits)

lemma only_read_tenant: "only allowed (read_tenant api name)"
  by (auto simp: only_def runs_def read_tenant_def reads)

end

section \<open>What validation rules out\<close>

lemma check_max_None: "check_max i mx = None \<longleftrightarrow> (\<forall>(k, v)\<in>set mx. 0 \<le> v)"
  by (induction i mx rule: check_max.induct) auto

lemma check_min_None:
  "check_min show_q i mx mn = None \<longleftrightarrow> (\<forall>(k, v)\<in>set mn. 0 \<le> v \<and> (\<exists>mv. map_of mx k = Some mv \<and> v \<le> mv))"
  by (induction show_q i mx mn rule: check_min.induct) (auto split: option.splits)

lemma validateMinMax_None:
  "validateMinMax show_q i mn mx = None \<longleftrightarrow> (\<forall>(k, v)\<in>set mx. 0 \<le> v) \<and>
     (\<forall>(k, v)\<in>set mn. 0 \<le> v \<and> (\<exists>mv. map_of mx k = Some mv \<and> v \<le> mv))"
  unfolding validateMinMax_def check_max_None [symmetric, of _ i] check_min_None [symmetric, of _ _ show_q i]
  by (simp split: option.split)

text \<open>A quota as validation accepts it.\<close>

definition quota_ok :: "'q::linordered_ab_group_add QuotaSpec \<Rightarrow> bool" where
  "quota_ok q \<longleftrightarrow> qs_pool q \<noteq> [] \<and>
     (\<exists>mx. qs_max q = Some mx \<and> (\<forall>(k, v)\<in>set mx. 0 \<le> v) \<and>
        (\<forall>(k, v)\<in>set (qs_min q). 0 \<le> v \<and> (\<exists>mv. map_of mx k = Some mv \<and> v \<le> mv)))"

lemma quota_ok_iff:
  "quota_ok q \<longleftrightarrow> qs_pool q \<noteq> [] \<and> (\<exists>mx. qs_max q = Some mx \<and> validateMinMax show_q i (qs_min q) mx = None)"
  by (simp add: quota_ok_def validateMinMax_None)

lemma check_quotas_None:
  "check_quotas show_q i seen qs = None \<longleftrightarrow>
     list_all quota_ok qs \<and> distinct (map qs_pool qs) \<and> set (map qs_pool qs) \<inter> set seen = {}"
proof (induction show_q i seen qs rule: check_quotas.induct)
  case (2 show_q i seen q rest)
  show ?case
  proof (cases "quota_ok q \<and> qs_pool q \<notin> set seen")
    case True
    then obtain mx where "qs_max q = Some mx" "validateMinMax show_q i (qs_min q) mx = None" "qs_pool q \<noteq> []"
      by (auto simp: quota_ok_iff [where show_q = show_q and i = i])
    with True 2 show ?thesis by auto
  next
    case False
    then show ?thesis by (auto simp: quota_ok_iff [where show_q = show_q and i = i] split: option.splits)
  qed
qed simp

lemma validateQuotas_None:
  "validateQuotas show_q qs = None \<longleftrightarrow> list_all quota_ok qs \<and> distinct (map qs_pool qs)"
  by (simp add: validateQuotas_def check_quotas_None)

lemma check_rules_None: "check_rules i j rules = None \<Longrightarrow> rule \<in> set rules \<Longrightarrow> \<exists>k. rbac_rule_error i k rule = None"
  by (induction i j rules rule: check_rules.induct) (auto split: option.splits)

lemma check_accounts_None:
  assumes "check_accounts pulls i accounts = None" "sa \<in> set accounts"
  shows "set (sas_imagePullSecrets sa) \<subseteq> set pulls" and "sas_name sa \<noteq> []"
    and "sas_rbac sa = Some rbac \<Longrightarrow> \<exists>k. validateRBACRules k (rb_rules rbac) = None"
proof -
  have refs: "check_pull_refs p i j refs = None \<longleftrightarrow> set refs \<subseteq> set p" for p i j refs
    by (induction p i j refs rule: check_pull_refs.induct) auto
  from assms show "set (sas_imagePullSecrets sa) \<subseteq> set pulls"
    by (induction pulls i accounts rule: check_accounts.induct) (auto simp: refs split: if_splits option.splits)
  from assms show "sas_name sa \<noteq> []"
    by (induction pulls i accounts rule: check_accounts.induct) (auto split: if_splits option.splits)
  from assms show "\<exists>k. validateRBACRules k (rb_rules rbac) = None" if "sas_rbac sa = Some rbac"
    using that by (induction pulls i accounts rule: check_accounts.induct) (auto split: if_splits option.splits)
qed

lemma toLower_literals:
  "v \<in> set (escalationVerbs @ writeVerbs @ rbacResources @ [''*'', ''rbac.authorization.k8s.io'']) \<Longrightarrow> toLower v = v"
proof -
  have "list_all (\<lambda>v. toLower v = v) (escalationVerbs @ writeVerbs @ rbacResources @ [''*'', ''rbac.authorization.k8s.io''])"
    by code_simp
  then show "v \<in> set (escalationVerbs @ writeVerbs @ rbacResources @ [''*'', ''rbac.authorization.k8s.io'']) \<Longrightarrow> toLower v = v"
    by (simp only: list_all_iff)
qed

lemma setHas_literal:
  assumes "v \<in> set (escalationVerbs @ writeVerbs @ rbacResources @ [''*'', ''rbac.authorization.k8s.io''])" "v \<in> set xs"
  shows "setHas (toLowerSet xs) v"
  using toLower_literals [OF assms(1)] assms(2) unfolding setHas_def toLowerSet_def by (metis image_eqI set_map)

text \<open>
  How Kubernetes RBAC matches a request against a rule: the verb, the API group and
  the resource are each listed or covered by \<open>*\<close>.
\<close>

definition rule_allows :: "PolicyRule \<Rightarrow> string \<Rightarrow> string \<Rightarrow> string \<Rightarrow> bool" where
  "rule_allows rule verb grp resource \<longleftrightarrow>
     (verb \<in> set (pr_verbs rule) \<or> ''*'' \<in> set (pr_verbs rule)) \<and>
     (grp \<in> set (pr_apiGroups rule) \<or> ''*'' \<in> set (pr_apiGroups rule)) \<and>
     (resource \<in> set (pr_resources rule) \<or> ''*'' \<in> set (pr_resources rule))"

lemma rule_checked:
  assumes "rbac_rule_error i j rule = None"
  shows "''*'' \<notin> set (pr_verbs rule)"
    and "v \<in> set escalationVerbs \<Longrightarrow> v \<notin> set (pr_verbs rule)"
    and "v \<in> set writeVerbs \<Longrightarrow> v \<in> set (pr_verbs rule) \<Longrightarrow> r \<in> set rbacResources \<Longrightarrow>
         r \<in> set (pr_resources rule) \<or> ''*'' \<in> set (pr_resources rule) \<Longrightarrow>
         ''rbac.authorization.k8s.io'' \<notin> set (pr_apiGroups rule) \<and> ''*'' \<notin> set (pr_apiGroups rule)"
proof -
  have none: "find (\<lambda>v. setHas (toLowerSet (pr_verbs rule)) v \<or> setHas (toLowerSet (pr_verbs rule)) ''*'') escalationVerbs = None"
    using assms by (auto simp: rbac_rule_error_def Let_def split: option.splits)
  then have esc: "\<not> setHas (toLowerSet (pr_verbs rule)) v" "\<not> setHas (toLowerSet (pr_verbs rule)) ''*''"
    if "v \<in> set escalationVerbs" for v using that by (auto simp: find_None_iff)
  have star: "\<not> setHas (toLowerSet (pr_verbs rule)) ''*''" by (rule esc(2) [of "''bind''"]) (simp add: escalationVerbs_def)
  then show "''*'' \<notin> set (pr_verbs rule)" using setHas_literal [of "''*''" "pr_verbs rule"] by auto
  show "v \<notin> set (pr_verbs rule)" if "v \<in> set escalationVerbs"
    using esc(1) [OF that] setHas_literal [of v "pr_verbs rule"] that by auto
  show "''rbac.authorization.k8s.io'' \<notin> set (pr_apiGroups rule) \<and> ''*'' \<notin> set (pr_apiGroups rule)"
    if v: "v \<in> set writeVerbs" "v \<in> set (pr_verbs rule)" and r: "r \<in> set rbacResources"
      "r \<in> set (pr_resources rule) \<or> ''*'' \<in> set (pr_resources rule)"
  proof (rule ccontr)
    assume "\<not> ?thesis"
    then have "setHas (toLowerSet (pr_apiGroups rule)) ''rbac.authorization.k8s.io'' \<or> setHas (toLowerSet (pr_apiGroups rule)) ''*''"
      using setHas_literal [of "''rbac.authorization.k8s.io''" "pr_apiGroups rule"] setHas_literal [of "''*''" "pr_apiGroups rule"]
      by auto
    moreover have "setHas (toLowerSet (pr_resources rule)) ''*'' \<or> list_ex (setHas (toLowerSet (pr_resources rule))) rbacResources"
      using r setHas_literal [of r "pr_resources rule"] setHas_literal [of "''*''" "pr_resources rule"]
      by (auto simp: list_ex_iff)
    moreover have "list_ex (\<lambda>w. setHas (toLowerSet (pr_verbs rule)) w \<or> setHas (toLowerSet (pr_verbs rule)) ''*'') writeVerbs"
      using v setHas_literal [of v "pr_verbs rule"] by (auto simp: list_ex_iff)
    ultimately show False using assms none by (auto simp: rbac_rule_error_def Let_def)
  qed
qed

lemma Validate_parts:
  assumes "Validate show_q parse_q denylist spec = None"
  obtains pulls where "validateNamespace denylist (ts_namespace spec) = None" "validateQuotas show_q (ts_quotas spec) = None"
    and "check_accounts pulls 0 (ir_serviceAccounts (ts_initResources spec)) = None"
  using assms unfolding Validate_def validateInitResources_def by (auto split: option.splits sum.splits)

lemma validated_rule_safe:
  assumes "Validate show_q parse_q denylist spec = None"
    and "sa \<in> set (ir_serviceAccounts (ts_initResources spec))" "sas_rbac sa = Some rbac" "rule \<in> set (rb_rules rbac)"
  shows "(verb \<in> {''escalate'', ''bind'', ''impersonate''} \<longrightarrow> \<not> rule_allows rule verb grp resource) \<and>
     (verb \<in> {''create'', ''update'', ''patch'', ''delete'', ''deletecollection''} \<and>
      resource \<in> {''roles'', ''rolebindings'', ''clusterroles'', ''clusterrolebindings''} \<longrightarrow>
      \<not> rule_allows rule verb ''rbac.authorization.k8s.io'' resource)"
proof -
  from Validate_parts [OF assms(1)] obtain pulls where
    "check_accounts pulls 0 (ir_serviceAccounts (ts_initResources spec)) = None" by metis
  from check_accounts_None(3) [OF this assms(2,3)] obtain k where "validateRBACRules k (rb_rules rbac) = None" ..
  with check_rules_None [OF _ assms(4)] obtain j where ok: "rbac_rule_error k j rule = None"
    unfolding validateRBACRules_def by blast
  have lists: "set escalationVerbs = {''escalate'', ''bind'', ''impersonate''}"
    "set writeVerbs = {''create'', ''update'', ''patch'', ''delete'', ''deletecollection''}"
    "set rbacResources = {''roles'', ''rolebindings'', ''clusterroles'', ''clusterrolebindings''}"
    by (simp_all add: escalationVerbs_def writeVerbs_def rbacResources_def)
  show ?thesis
    using rule_checked [OF ok] unfolding rule_allows_def lists by blast
qed

text \<open>A tenant for the witnesses: one pool, a service account that may read pods, a volume.\<close>

definition tx_rule :: PolicyRule where
  "tx_rule = \<lparr>pr_verbs = [''get'', ''LIST''], pr_apiGroups = [[]], pr_resources = [''pods''],
     pr_resourceNames = [], pr_nonResourceURLs = []\<rparr>"

definition tx_sa :: ServiceAccountSpec where
  "tx_sa = \<lparr>sas_name = ''runner'', sas_imagePullSecrets = [], sas_rbac = Some \<lparr>rb_rules = [tx_rule], rb_roleRef = None\<rparr>\<rparr>"

definition tx_quota :: "int QuotaSpec" where
  "tx_quota = \<lparr>qs_pool = ''gpu'', qs_min = [(''cpu'', 2)], qs_max = Some [(''cpu'', 8), (''memory'', 64)]\<rparr>"

definition tx_volume :: VolumeSpec where
  "tx_volume = \<lparr>vs_name = ''data'', vs_size = ''10'', vs_storageClass = [], vs_accessModes = [],
     vs_description = ''shared'', vs_hostPath = []\<rparr>"

definition tx_spec :: "int TenantSpec" where
  "tx_spec = \<lparr>ts_namespace = \<lparr>nsp_name = ''team-a'', nsp_labels = [], nsp_annotations = []\<rparr>, ts_quotas = [tx_quota],
     ts_initResources = \<lparr>ir_imagePullSecrets = [], ir_secrets = [], ir_configMaps = [],
       ir_serviceAccounts = [tx_sa], ir_volumes = [tx_volume]\<rparr>\<rparr>"

definition tx_parse :: "string \<Rightarrow> string + int" where
  "tx_parse s = (if s = ''10'' then Inr 10 else Inl ''unable to parse quantity'')"

lemma tx_valid: "Validate show_int tx_parse DefaultNamespaceDenylist tx_spec = None"
  by code_simp

text \<open>
  C37. The quotas of a validated tenant: \<open>validateQuotas\<close> accepts exactly the lists of
  quotas with distinct named pools, a max that is present and nowhere negative, and a min that
  is nonnegative and bounded by a max for the same resource. In particular the names of the
  ElasticQuota objects rendered from an accepted list are distinct, so no quota replaces another.
\<close>

theorem tenant_quotas_valid:
  "validateQuotas show_q qs = None \<longleftrightarrow>
     distinct (map (\<lambda>q. ElasticQuotaName tenantName (qs_pool q)) qs) \<and>
     (\<forall>q\<in>set qs. qs_pool q \<noteq> [] \<and>
        (\<exists>mx. qs_max q = Some mx \<and> (\<forall>(k, v)\<in>set mx. 0 \<le> v) \<and>
           (\<forall>(k, v)\<in>set (qs_min q). 0 \<le> v \<and> (\<exists>mv. map_of mx k = Some mv \<and> v \<le> mv))))"
proof -
  have "distinct (map (\<lambda>q. ElasticQuotaName tenantName (qs_pool q)) qs) \<longleftrightarrow> distinct (map qs_pool qs)"
    by (auto simp: distinct_map inj_on_def ElasticQuotaName_def)
  then show ?thesis by (auto simp: validateQuotas_None list_all_iff quota_ok_def)
qed

theorem tenant_quotas_valid_witness: "validateQuotas show_int [tx_quota, tx_quota] \<noteq> None \<and> qs_pool tx_quota \<noteq> []"
  using tenant_quotas_valid [of show_int "[tx_quota, tx_quota]" "''t''"] by (simp add: tx_quota_def)

section \<open>What a pass may write\<close>

text \<open>Objects that a pass for \<open>t\<close> may delete.\<close>

definition orphan :: "'q Tenant \<Rightarrow> string list \<Rightarrow> objmeta \<Rightarrow> bool" where
  "orphan t names m \<longleftrightarrow> hasOwner (om_owners m) t \<and>
     stripPrefix (om_name m) (PerTenantResourceName (tn_name t) []) \<notin> set names"

definition retyped :: "'q Tenant \<Rightarrow> SecretObj \<Rightarrow> bool" where
  "retyped t s \<longleftrightarrow> (\<exists>want \<in> insert SecretTypeDockerConfigJson
        ((\<lambda>x. if ss_type x = [] then SecretTypeOpaque else ss_type x) ` set (ir_secrets (ts_initResources (tn_spec t)))).
      (if sec_type s = [] then SecretTypeOpaque else sec_type s) \<noteq> want)"

fun delete_allowed :: "'q Tenant \<Rightarrow> 'q obj \<Rightarrow> bool" where
  "delete_allowed t (ONamespace ns) = False"
| "delete_allowed t (OPVC pvc) = False"
| "delete_allowed t (OQuota eq) =
     (hasOwner (om_owners (eqo_meta eq)) t \<and>
      om_name (eqo_meta eq) \<notin> (\<lambda>q. ElasticQuotaName (tn_name t) (qs_pool q)) ` set (ts_quotas (tn_spec t)))"
| "delete_allowed t (OSecret s) =
     (orphan t (map ips_name (ir_imagePullSecrets (ts_initResources (tn_spec t)))) (sec_meta s) \<or>
      orphan t (map ss_name (ir_secrets (ts_initResources (tn_spec t)))) (sec_meta s) \<or> retyped t s)"
| "delete_allowed t (OConfigMap cm) =
     orphan t (map cms_name (ir_configMaps (ts_initResources (tn_spec t)))) (cm_meta cm)"
| "delete_allowed t (OServiceAccount sa) =
     orphan t (map sas_name (ir_serviceAccounts (ts_initResources (tn_spec t)))) (sa_meta sa)"
| "delete_allowed t (ORole r) = True"
| "delete_allowed t (ORoleBinding b) = True"

definition declared_rules :: "'q Tenant \<Rightarrow> PolicyRule list \<Rightarrow> bool" where
  "declared_rules t rules \<longleftrightarrow> (\<exists>sa \<in> set (ir_serviceAccounts (ts_initResources (tn_spec t))). \<exists>rbac.
      sas_rbac sa = Some rbac \<and> rules = rb_rules rbac)"

fun patch_allowed :: "'q Tenant \<Rightarrow> 'q obj \<Rightarrow> 'q obj \<Rightarrow> bool" where
  "patch_allowed t (ONamespace a) ob =
     (case ob of ONamespace b \<Rightarrow> (map_of (om_labels (nso_meta a)) LabelManagedBy = None \<and>
      b = a\<lparr>nso_meta := (nso_meta a)\<lparr>om_labels := AList.update LabelManagedBy ManagedByValue (om_labels (nso_meta a))\<rparr>\<rparr>)
     | _ \<Rightarrow> False)"
| "patch_allowed t (OPVC a) ob =
     (case ob of OPVC b \<Rightarrow> (isManagedVolume a \<and> isManagedVolume b \<and>
      b = a\<lparr>pvc_meta := (pvc_meta a)\<lparr>om_labels := om_labels (pvc_meta b), om_annotations := om_annotations (pvc_meta b)\<rparr>\<rparr>)
     | _ \<Rightarrow> False)"
| "patch_allowed t (OQuota a) ob =
     (case ob of OQuota b \<Rightarrow> (eqo_used b = eqo_used a \<and> om_name (eqo_meta b) = om_name (eqo_meta a))
     | _ \<Rightarrow> False)"
| "patch_allowed t (OSecret a) ob =
     (case ob of OSecret b \<Rightarrow> (sec_type b = sec_type a \<and> om_name (sec_meta b) = om_name (sec_meta a))
     | _ \<Rightarrow> False)"
| "patch_allowed t (OConfigMap a) ob =
     (case ob of OConfigMap b \<Rightarrow> (om_name (cm_meta b) = om_name (cm_meta a))
     | _ \<Rightarrow> False)"
| "patch_allowed t (OServiceAccount a) ob =
     (case ob of OServiceAccount b \<Rightarrow> (om_name (sa_meta b) = om_name (sa_meta a))
     | _ \<Rightarrow> False)"
| "patch_allowed t (ORole a) ob =
     (case ob of ORole b \<Rightarrow> declared_rules t (ro_rules b) \<and> om_name (ro_meta b) = om_name (ro_meta a)
     | _ \<Rightarrow> False)"
| "patch_allowed t (ORoleBinding a) ob =
     (case ob of ORoleBinding b \<Rightarrow> (rbd_roleRef b = rbd_roleRef a \<and> om_name (rbd_meta b) = om_name (rbd_meta a))
     | _ \<Rightarrow> False)"

fun create_allowed :: "'q Tenant \<Rightarrow> 'q obj \<Rightarrow> bool" where
  "create_allowed t (ONamespace ns) = (om_name (nso_meta ns) = tenant_ns t \<and> om_owners (nso_meta ns) = [])"
| "create_allowed t (OPVC pvc) = (om_namespace (pvc_meta pvc) = tenant_ns t \<and> om_owners (pvc_meta pvc) = [])"
| "create_allowed t (OQuota eq) = (om_namespace (eqo_meta eq) = tenant_ns t)"
| "create_allowed t (OSecret s) = (om_namespace (sec_meta s) = tenant_ns t)"
| "create_allowed t (OConfigMap cm) = (om_namespace (cm_meta cm) = tenant_ns t)"
| "create_allowed t (OServiceAccount sa) = (om_namespace (sa_meta sa) = tenant_ns t)"
| "create_allowed t (ORole r) = (om_namespace (ro_meta r) = tenant_ns t \<and> declared_rules t (ro_rules r))"
| "create_allowed t (ORoleBinding b) = (om_namespace (rbd_meta b) = tenant_ns t)"

text \<open>The events of a sub-reconciler, and those of a whole pass, which also writes the status.\<close>

fun sub_event :: "'q Tenant \<Rightarrow> 'q event \<Rightarrow> bool" where
  "sub_event t (Wrote (WCreate ob) r) = create_allowed t ob"
| "sub_event t (Wrote (WPatch a b) r) = patch_allowed t a b"
| "sub_event t (Wrote (WDelete ob) r) = delete_allowed t ob"
| "sub_event t (Wrote (WStatus t' st) r) = False"
| "sub_event t _ = True"

fun pass_event :: "'q Tenant \<Rightarrow> 'q event \<Rightarrow> bool" where
  "pass_event t (Wrote (WStatus t' st) r) = (t' = t)"
| "pass_event t e = sub_event t e"

lemma sub_event_pass: "sub_event t e \<Longrightarrow> pass_event t e"
  by (cases "(t, e)" rule: sub_event.cases) auto

interpretation sub: write_policy "sub_event t"
  by unfold_locales simp_all

interpretation pass: write_policy "pass_event t"
  by unfold_locales simp_all

lemmas sub_rules = only_rules sub.only_read_obj sub.only_list_objs sub.only_read_tenant
lemmas pass_rules = only_rules pass.only_read_obj pass.only_list_objs pass.only_read_tenant

lemma sync_meta_keeps:
  "sync_meta api t labels m = Inr (m', changed) \<Longrightarrow>
     om_name m' = om_name m \<and> om_namespace m' = om_namespace m \<and> om_annotations m' = om_annotations m"
  by (auto simp: sync_meta_def Let_def split: prod.splits if_splits sum.splits)

lemma Namespace_only: "only (sub_event t) (Namespace api t)"
  unfolding Namespace_def ensure_namespace_def Let_def by (intro sub_rules) simp_all

lemma ElasticQuotas_only: "only (sub_event t) (ElasticQuotas api t)"
proof -
  have "only (sub_event t) (put_quota api t (tenant_ns t) name q)" for name q
    unfolding put_quota_def Let_def by (intro sub_rules) (auto dest: sync_meta_keeps)
  then have "only (sub_event t) (upsertElasticQuota api t (tenant_ns t) name q)" for name q
    unfolding upsertElasticQuota_def by (intro sub_rules)
  then have "only (sub_event t) (quota_loop api t qs)" for qs
    by (induction qs) (auto intro!: sub_rules simp: Let_def)
  then show ?thesis
    unfolding ElasticQuotas_def gcOrphanElasticQuotas_def by (intro sub_rules) auto
qed

lemma upsertCopiedSecret_only:
  assumes "\<And>s. (if sec_type s = [] then SecretTypeOpaque else sec_type s) \<noteq> desiredType \<Longrightarrow> retyped t s"
  shows "only (sub_event t) (upsertCopiedSecret api t subName desiredType role src)"
  unfolding upsertCopiedSecret_def create_secret_def patch_secret_def Let_def
  by (intro sub_rules) (auto dest: sync_meta_keeps simp: assms)

lemma gcOrphanSecrets_only:
  assumes "set desired = set (map ips_name (ir_imagePullSecrets (ts_initResources (tn_spec t)))) \<or>
      set desired = set (map ss_name (ir_secrets (ts_initResources (tn_spec t))))"
  shows "only (sub_event t) (gcOrphanSecrets api t desired role)"
  using assms unfolding gcOrphanSecrets_def by (intro sub_rules) (simp_all add: orphan_def, blast)

lemma ImagePullSecrets_only: "only (sub_event t) (ImagePullSecrets api t)"
proof -
  have "only (sub_event t) (gcOrphanSecrets api t (nameSet (map ips_name (ir_imagePullSecrets (ts_initResources (tn_spec t))))) role)" for role
    by (rule gcOrphanSecrets_only, rule disjI1) (simp add: nameSet_def)
  then show ?thesis
    unfolding ImagePullSecrets_def Let_def
    by (intro sub_rules upsertCopiedSecret_only) (simp_all add: retyped_def)
qed

lemma Secrets_only: "only (sub_event t) (Secrets api t)"
proof -
  have "only (sub_event t) (gcOrphanSecrets api t (nameSet (map ss_name (ir_secrets (ts_initResources (tn_spec t))))) role)" for role
    by (rule gcOrphanSecrets_only, rule disjI2) (simp add: nameSet_def)
  then show ?thesis
    unfolding Secrets_def Let_def
    by (intro sub_rules upsertCopiedSecret_only) (unfold retyped_def, blast+)
qed

lemma ConfigMaps_only: "only (sub_event t) (ConfigMaps api t)"
proof -
  have "only (sub_event t) (upsertCopiedConfigMap api t spec)" for spec
    unfolding upsertCopiedConfigMap_def patch_config_map_def Let_def
    by (intro sub_rules) (auto dest: sync_meta_keeps)
  then show ?thesis
    unfolding ConfigMaps_def gcOrphanConfigMaps_def Let_def
    by (intro sub_rules) (auto simp: orphan_def nameSet_def)
qed

lemma upsertSA_only:
  assumes "sa \<in> set (ir_serviceAccounts (ts_initResources (tn_spec t)))"
  shows "only (sub_event t) (upsertSA api t sa)"
proof -
  have sa: "only (sub_event t) (upsertServiceAccountObj api t (tenant_ns t) name labels refs)" for name labels refs
    unfolding upsertServiceAccountObj_def Let_def by (intro sub_rules) (auto dest: sync_meta_keeps)
  have role: "only (sub_event t) (upsertRole api t (tenant_ns t) name labels (rb_rules rbac))"
    if "sas_rbac sa = Some rbac" for name labels rbac
    using assms that unfolding upsertRole_def Let_def
    by (intro sub_rules) (auto dest: sync_meta_keeps simp: declared_rules_def)
  have binding: "only (sub_event t) (upsertRoleBinding api t (tenant_ns t) name labels rbac cr)" for name labels rbac cr
    unfolding upsertRoleBinding_def Let_def by (intro sub_rules) (auto dest: sync_meta_keeps)
  show ?thesis
    unfolding upsertSA_def upsertRoleAndBinding_def Let_def
    by (intro sub_rules sa binding role) simp_all
qed

lemma ServiceAccounts_only: "only (sub_event t) (ServiceAccounts api t)"
  unfolding ServiceAccounts_def gcOrphanSAs_def Let_def
  by (intro sub_rules upsertSA_only) (auto simp: orphan_def nameSet_def)

lemma sget_update: "sget (AList.update k v m) k' = (if k' = k then v else sget m k')"
  by (simp add: sget_def)

lemma sync_labels_other: "k \<notin> fst ` set ls \<Longrightarrow> sget (fst (sync_labels cur ls)) k = sget cur k"
  by (induction cur ls rule: sync_labels.induct) (auto simp: sget_update)

lemma sync_labels_set: "(k, v) \<in> set ls \<Longrightarrow> wf_map ls \<Longrightarrow> sget (fst (sync_labels cur ls)) k = v"
proof (induction cur ls rule: sync_labels.induct)
  case (2 cur k' v' rest)
  then show ?case
    by (auto simp: sync_labels_other sget_update wf_map_def image_iff split: if_splits)
qed simp

lemma volume_labels:
  "wf_map (ApplyTenantLabels t [(volumeManagedByLabel, volumeManagedByValue)])"
  "(volumeManagedByLabel, volumeManagedByValue) \<in> set (ApplyTenantLabels t [(volumeManagedByLabel, volumeManagedByValue)])"
  by (simp_all add: ApplyTenantLabels_def TenantLabels_def)

lemma Volumes_only: "only (sub_event t) (Volumes parse_q api t)"
proof -
  let ?labels = "ApplyTenantLabels t [(volumeManagedByLabel, volumeManagedByValue)]"
  have sync: "only (sub_event t) (syncVolumeMeta api pvc ?labels d)" if "isManagedVolume pvc" for pvc d
  proof -
    obtain ls changed where ls: "sync_labels (om_labels (pvc_meta pvc)) ?labels = (ls, changed)" by fastforce
    then have "sget ls volumeManagedByLabel = volumeManagedByValue"
      using sync_labels_set [OF volume_labels(2) [of t] volume_labels(1), of "om_labels (pvc_meta pvc)"] by simp
    with that ls show ?thesis
      unfolding syncVolumeMeta_def Let_def
      by (auto simp: only_def runs_def isManagedVolume_def split: sum.splits)
  qed
  have "create_allowed t (OPVC pvc)" if "buildVolumePVC parse_q (tenant_ns t) spec labels = Inr pvc" for pvc spec labels
    using that by (auto simp: buildVolumePVC_def Let_def split: if_splits sum.splits)
  then have "only (sub_event t) (ensureVolumePVC parse_q api t spec)" for spec
    unfolding ensureVolumePVC_def Let_def by (intro sub_rules sync) auto
  then show ?thesis unfolding Volumes_def by (intro sub_rules)
qed

lemmas sub_onlys = Namespace_only ElasticQuotas_only ImagePullSecrets_only Secrets_only ConfigMaps_only
  ServiceAccounts_only Volumes_only

lemmas sub_only = sub_onlys [THEN only_mono, OF sub_event_pass]

lemma section_step_only:
  "only (pass_event t) sec \<Longrightarrow> (\<And>a. only (pass_event t) (cont a)) \<Longrightarrow> only (pass_event t) (section_step api t sec upd what cont agg)"
  unfolding section_step_def recordAndRequeue_def patchStatus_def Let_def by (intro pass_rules) simp_all

lemma apply_tenant_only: "only (pass_event t) (apply_tenant parse_q api t)"
  unfolding apply_tenant_def init_sections_def finish_pass_def recordAndRequeue_def patchStatus_def Let_def
  by (intro pass_rules section_step_only sub_only) simp_all

text \<open>The events a pass adds to a history, and its result.\<close>

lemma Reconcile_cases:
  assumes "run_state (Reconcile show_q parse_q denylist api name) h = (res, es @ h)"
    and "ap_getTenant api h name = Inr t"
  obtains (meta) e r where "ValidateMeta (tn_labels t) = Some e" "es = [Wrote (WStatus t ((tn_status t)
       \<lparr>tst_observedGeneration := tn_generation t, tst_phase := TenantPhaseFailed, tst_message := e\<rparr>)) r, ReadTenant (Inr t)]"
  | (spec) e r where "ValidateMeta (tn_labels t) = None" "Validate show_q parse_q denylist (tn_spec t) = Some e"
      "es = [Wrote (WStatus t ((tn_status t)
       \<lparr>tst_observedGeneration := tn_generation t, tst_phase := TenantPhaseFailed, tst_message := e\<rparr>)) r, ReadTenant (Inr t)]"
  | (ok) es' where "ValidateMeta (tn_labels t) = None" "Validate show_q parse_q denylist (tn_spec t) = None"
      "es = es' @ [ReadTenant (Inr t)]"
      "run_state (apply_tenant parse_q api t) (ReadTenant (Inr t) # h) = (res, es' @ ReadTenant (Inr t) # h)"
proof -
  let ?h = "ReadTenant (Inr t) # h"
  let ?st = "\<lambda>e. (tn_status t)\<lparr>tst_observedGeneration := tn_generation t, tst_phase := TenantPhaseFailed, tst_message := e\<rparr>"
  consider e where "ValidateMeta (tn_labels t) = Some e"
    | e where "ValidateMeta (tn_labels t) = None" "Validate show_q parse_q denylist (tn_spec t) = Some e"
    | "ValidateMeta (tn_labels t) = None" "Validate show_q parse_q denylist (tn_spec t) = None"
    by (metis option.exhaust)
  then show thesis
  proof cases
    case 1
    with assms have "es @ h = Wrote (WStatus t (?st e)) (ap_write api ?h (WStatus t (?st e))) # ?h"
      by (auto simp: Reconcile_def read_tenant_def patchStatusFailed_def do_write_def)
    with 1 show thesis by (intro meta) (auto simp: append_eq_Cons_conv Cons_eq_append_conv)
  next
    case 2
    with assms have "es @ h = Wrote (WStatus t (?st e)) (ap_write api ?h (WStatus t (?st e))) # ?h"
      by (auto simp: Reconcile_def read_tenant_def patchStatusFailed_def do_write_def)
    with 2 show thesis by (intro spec) (auto simp: append_eq_Cons_conv Cons_eq_append_conv)
  next
    case 3
    with assms have run: "run_state (apply_tenant parse_q api t) ?h = (res, es @ h)"
      by (simp add: Reconcile_def read_tenant_def)
    with apply_tenant_only [of t parse_q api] obtain es' where "es @ h = es' @ ?h"
      unfolding only_def by (auto elim!: runs_outcome)
    with 3 run show thesis by (intro ok [of es']) auto
  qed
qed

text \<open>
  An invalid tenant is left alone: when the metadata or the spec is rejected, the whole pass
  is one status update that sets phase \<open>Failed\<close> and the message and keeps quotas, init
  resources, conditions and readiness as they were; whatever the API answers, no object of the cluster is
  written.
\<close>

theorem tenant_invalid_untouched:
  assumes "run_state (Reconcile show_q parse_q denylist api name) h = (res, es @ h)"
    and "ap_getTenant api h name = Inr t"
    and "ValidateMeta (tn_labels t) \<noteq> None \<or> Validate show_q parse_q denylist (tn_spec t) \<noteq> None"
  shows "\<exists>msg r. es = [Wrote (WStatus t ((tn_status t)\<lparr>tst_observedGeneration := tn_generation t,
      tst_phase := TenantPhaseFailed, tst_message := msg\<rparr>)) r, ReadTenant (Inr t)]"
  using assms(1,2) by (cases rule: Reconcile_cases) (use assms(3) in auto)


text \<open>
  C9. No role the operator writes lets a tenant escalate: for every behaviour of the API, every role
  that a pass creates or patches has only rules that allow (as Kubernetes matches rules, wildcards
  included) neither escalate, bind or impersonate on anything nor a write on roles and bindings.
\<close>

theorem tenant_roles_safe:
  assumes "run_state (Reconcile show_q parse_q denylist api name) h = (res, es @ h)"
    and "ap_getTenant api h name = Inr t"
    and "Wrote w r \<in> set es" "w = WCreate (ORole role) \<or> w = WPatch old (ORole role)" "rule \<in> set (ro_rules role)"
  shows "(verb \<in> {''escalate'', ''bind'', ''impersonate''} \<longrightarrow> \<not> rule_allows rule verb grp resource) \<and>
     (verb \<in> {''create'', ''update'', ''patch'', ''delete'', ''deletecollection''} \<and>
      resource \<in> {''roles'', ''rolebindings'', ''clusterroles'', ''clusterrolebindings''} \<longrightarrow>
      \<not> rule_allows rule verb ''rbac.authorization.k8s.io'' resource)"
  using assms(1,2)
proof (cases rule: Reconcile_cases)
  case (ok es')
  have "pass_event t (Wrote w r)"
    using only_events [OF apply_tenant_only ok(4)] assms(3) ok(3) by (auto simp: list_all_iff)
  then have "declared_rules t (ro_rules role)"
    using assms(4) by (cases old) auto
  then obtain sa rbac where "sa \<in> set (ir_serviceAccounts (ts_initResources (tn_spec t)))"
    "sas_rbac sa = Some rbac" "rule \<in> set (rb_rules rbac)" using assms(5) by (auto simp: declared_rules_def)
  then show ?thesis by (rule validated_rule_safe [OF ok(2)])
qed (use assms(3,4) in auto)

section \<open>What a successful pass has established\<close>

lemma runs_read_obj:
  "runs (read_obj wrap f ns name) (\<lambda>x es. case x of Inl e \<Rightarrow> es = [ReadFail ns name e] | Inr y \<Rightarrow> es = [ReadObj ns name (wrap y)])"
  by (auto simp: runs_def read_obj_def split: sum.split)

lemma runs_do_write: "runs (do_write api w) (\<lambda>r es. es = [Wrote w r])"
  by (simp add: runs_def do_write_def)

lemma runs_create_owned:
  "runs (create_owned api t mk) (\<lambda>r es. r = None \<longrightarrow>
     (\<exists>owners. ap_setRef api (tn_uid t) [] = Inr owners \<and> es = [Wrote (WCreate (mk owners)) None]))"
  unfolding create_owned_def
  by (cases "ap_setRef api (tn_uid t) []") (auto intro!: runs_ret runs_bind [OF runs_do_write])

text \<open>\<open>SetControllerReference\<close> adds an owner reference with the UID of the owner.\<close>

definition sets_owner :: "'q api \<Rightarrow> 'q Tenant \<Rightarrow> bool" where
  "sets_owner api t \<longleftrightarrow> (\<forall>refs refs'. ap_setRef api (tn_uid t) refs = Inr refs' \<longrightarrow> hasOwner refs' t)"

text \<open>An ElasticQuota that is what the tenant's quota \<open>q\<close> asks for.\<close>

definition quota_holds :: "'q Tenant \<Rightarrow> 'q QuotaSpec \<Rightarrow> 'q EQObj \<Rightarrow> bool" where
  "quota_holds t q eq \<longleftrightarrow> map_eq (eqo_min eq) (qs_min q) \<and> map_eq (eqo_max eq) (quota_max q) \<and>
     hasOwner (om_owners (eqo_meta eq)) t \<and>
     sget (om_labels (eqo_meta eq)) LabelTenantID = sget (tn_labels t) LabelTenantID \<and>
     sget (om_labels (eqo_meta eq)) LabelManagedBy = ManagedByValue"

text \<open>
  The events show such an object under the key of \<open>q\<close>: an accepted create, an accepted
  patch of the object read there, or the object read there was already right.
\<close>

definition established :: "'q Tenant \<Rightarrow> 'q QuotaSpec \<Rightarrow> 'q history \<Rightarrow> bool" where
  "established t q es \<longleftrightarrow> (\<exists>eq. quota_holds t q eq \<and>
     (om_namespace (eqo_meta eq) = tenant_ns t \<and> om_name (eqo_meta eq) = ElasticQuotaName (tn_name t) (qs_pool q) \<and>
        Wrote (WCreate (OQuota eq)) None \<in> set es \<or>
      (\<exists>old. ReadObj (tenant_ns t) (ElasticQuotaName (tn_name t) (qs_pool q)) (OQuota old) \<in> set es \<and>
         Wrote (WPatch (OQuota old) (OQuota eq)) None \<in> set es) \<or>
      ReadObj (tenant_ns t) (ElasticQuotaName (tn_name t) (qs_pool q)) (OQuota eq) \<in> set es))"

lemma established_mono: "established t q es \<Longrightarrow> set es \<subseteq> set es' \<Longrightarrow> established t q es'"
  unfolding established_def by blast

lemma map_eq_refl [simp]: "map_eq m m"
  by (auto simp: map_eq_def list_all_iff)

lemma sync_meta_owned:
  assumes "sets_owner api t" "sync_meta api t labels m = Inr (m', changed)" "wf_map labels"
  shows "hasOwner (om_owners m') t" and "(k, v) \<in> set labels \<Longrightarrow> sget (om_labels m') k = v"
proof -
  obtain ls c where ls: "sync_labels (om_labels m) labels = (ls, c)" by fastforce
  with assms(1,2) show "hasOwner (om_owners m') t"
    by (auto simp: sync_meta_def sets_owner_def Let_def split: if_splits sum.splits)
  show "sget (om_labels m') k = v" if "(k, v) \<in> set labels"
    using sync_labels_set [OF that assms(3), of "om_labels m"] ls assms(2)
    by (auto simp: sync_meta_def Let_def split: if_splits sum.splits)
qed

lemma sync_labels_unchanged: "sync_labels cur ls = (ls', False) \<Longrightarrow> ls' = cur"
  by (induction cur ls rule: sync_labels.induct) (auto split: if_splits prod.splits)

lemma sync_meta_unchanged:
  assumes "sync_meta api t labels m = Inr (m', False)"
  shows "m' = m"
proof -
  obtain ls c where ls: "sync_labels (om_labels m) labels = (ls, c)" by fastforce
  with assms have "c = False" "m' = m\<lparr>om_labels := ls\<rparr>"
    by (auto simp: sync_meta_def Let_def split: if_splits sum.splits)
  with ls show ?thesis using sync_labels_unchanged [of "om_labels m" labels ls] by simp
qed

lemma tenant_labels: "wf_map (TenantLabels t)" "(LabelTenantID, sget (tn_labels t) LabelTenantID) \<in> set (TenantLabels t)"
  "(LabelManagedBy, ManagedByValue) \<in> set (TenantLabels t)"
  by (simp_all add: TenantLabels_def)

lemma new_quota_established:
  assumes "hasOwner owners t"
  shows "established t q [Wrote (WCreate (OQuota \<lparr>eqo_meta = (new_meta (tenant_ns t)
     (ElasticQuotaName (tn_name t) (qs_pool q)) (TenantLabels t))\<lparr>om_owners := owners\<rparr>,
     eqo_min = qs_min q, eqo_max = quota_max q, eqo_used = u\<rparr>)) None]"
proof -
  have "quota_holds t q \<lparr>eqo_meta = (new_meta ns name (TenantLabels t))\<lparr>om_owners := owners\<rparr>,
     eqo_min = qs_min q, eqo_max = quota_max q, eqo_used = u\<rparr>" for ns name
    using assms by (simp add: quota_holds_def TenantLabels_def sget_def)
  then show ?thesis unfolding established_def by force
qed

lemma create_quota_runs:
  assumes "sets_owner api t"
  shows "runs (create_owned api t (\<lambda>owners. OQuota \<lparr>eqo_meta = (new_meta (tenant_ns t)
     (ElasticQuotaName (tn_name t) (qs_pool q)) (TenantLabels t))\<lparr>om_owners := owners\<rparr>,
     eqo_min = qs_min q, eqo_max = quota_max q, eqo_used = u\<rparr>)) (\<lambda>r es. r = None \<longrightarrow> established t q es)"
  by (rule runs_mono [OF runs_create_owned])
    (use assms in \<open>auto simp: sets_owner_def simp del: objmeta.update_convs intro!: new_quota_established\<close>)

text \<open>The update branch: \<open>es\<close> holds the read of the object.\<close>

lemma patch_quota_runs:
  fixes eq :: "'q EQObj"
  assumes "sets_owner api t" and es: "es = [ReadObj (tenant_ns t) (ElasticQuotaName (tn_name t) (qs_pool q)) (OQuota eq)]"
  defines "drift \<equiv> \<not> map_eq (eqo_min eq) (qs_min q) \<or> \<not> map_eq (eqo_max eq) (quota_max q)"
  defines "eq' \<equiv> (if drift then eq\<lparr>eqo_min := qs_min q, eqo_max := quota_max q\<rparr> else eq)"
  assumes sync: "sync_meta api t (TenantLabels t) (eqo_meta eq) = Inr (m, changed)"
  shows "drift \<or> changed \<Longrightarrow> established t q (Wrote (WPatch (OQuota eq) (OQuota (eq'\<lparr>eqo_meta := m\<rparr>))) None # es)"
    and "\<not> (drift \<or> changed) \<Longrightarrow> established t q es"
proof -
  have holds: "quota_holds t q (eq'\<lparr>eqo_meta := m\<rparr>)"
    using sync_meta_owned [OF assms(1) sync tenant_labels(1)] tenant_labels(2,3) [of t]
    by (simp add: quota_holds_def eq'_def drift_def)
  then show "established t q (Wrote (WPatch (OQuota eq) (OQuota (eq'\<lparr>eqo_meta := m\<rparr>))) None # es)"
    unfolding established_def es by auto
  show "established t q es" if "\<not> (drift \<or> changed)"
  proof -
    have "eq'\<lparr>eqo_meta := m\<rparr> = eq" using that sync sync_meta_unchanged [of api t "TenantLabels t" "eqo_meta eq" m]
      by (simp add: eq'_def)
    with holds show ?thesis unfolding established_def es by auto
  qed
qed

lemma put_quota_runs:
  assumes "sets_owner api t"
  shows "runs (put_quota api t (tenant_ns t) (ElasticQuotaName (tn_name t) (qs_pool q)) q)
     (\<lambda>r es. r = None \<longrightarrow> established t q es)"
  unfolding put_quota_def
proof (rule runs_bind [OF runs_read_obj], goal_cases)
  case (1 x es)
  show ?case
  proof (cases x)
    case (Inl e)
    show ?thesis
    proof (cases "isNotFound e")
      case True
      show ?thesis
        unfolding Inl sum.case if_P [OF True]
        by (rule runs_bind [OF create_quota_runs [OF assms]])
          (auto intro!: runs_ret intro: established_mono split: option.splits sum.splits)
    qed (simp add: Inl runs_ret)
  next
    case (Inr eq)
    then have es: "es = [ReadObj (tenant_ns t) (ElasticQuotaName (tn_name t) (qs_pool q)) (OQuota eq)]" using 1 by simp
    show ?thesis
      unfolding Inr sum.case Let_def
    proof (cases "sync_meta api t (TenantLabels t) (eqo_meta eq)", goal_cases)
      case (2 p)
      obtain m changed where p: "p = (m, changed)" by fastforce
      from patch_quota_runs [OF assms es 2 [unfolded p]] show ?case
        unfolding 2 p sum.case prod.case
        by (auto simp del: EQObj.update_convs intro!: runs_bind [OF runs_do_write] runs_ret split: option.splits)
    qed (auto intro!: runs_ret)
  qed
qed

lemma upsert_quota_runs:
  assumes "sets_owner api t"
  shows "runs (upsertElasticQuota api t (tenant_ns t) (ElasticQuotaName (tn_name t) (qs_pool q)) q)
     (\<lambda>(ready, used, msg, err) es. (err = None \<longrightarrow> ready \<and> established t q es))"
  unfolding upsertElasticQuota_def
  by (rule runs_bind [OF put_quota_runs [OF assms]])
    (auto intro!: runs_ret runs_bind [OF runs_read_obj] intro: established_mono split: option.splits sum.splits)

lemma quota_loop_runs:
  assumes "sets_owner api t"
  shows "runs (quota_loop api t qs) (\<lambda>(sts, err) es. err = None \<longrightarrow>
     list_all2 (\<lambda>q st. qst_pool st = qs_pool q \<and> qst_ready st) qs sts \<and> (\<forall>q\<in>set qs. established t q es))"
proof (induction qs)
  case (Cons q qs)
  show ?case
    unfolding quota_loop.simps Let_def
  proof (rule runs_bind [OF upsert_quota_runs [OF assms]], goal_cases)
    case (1 x es)
    obtain ready used msg err where x: "x = (ready, used, msg, err)" by (cases x) auto
    show ?case
    proof (cases err)
      case None
      with 1 have "ready" "established t q es" by (auto simp: x)
      then show ?thesis
        unfolding x prod.case None option.case
        by (intro runs_bind [OF Cons.IH]) (auto intro!: runs_ret intro: established_mono)
    qed (auto simp: x intro!: runs_ret)
  qed
qed (simp add: runs_ret)

lemma ElasticQuotas_runs:
  assumes "sets_owner api t"
  shows "runs (ElasticQuotas api t) (\<lambda>(sts, err) es. err = None \<longrightarrow>
     list_all2 (\<lambda>q st. qst_pool st = qs_pool q \<and> qst_ready st) (ts_quotas (tn_spec t)) sts \<and>
     (\<forall>q\<in>set (ts_quotas (tn_spec t)). established t q es))"
proof -
  have "only (\<lambda>_. True) (gcOrphanElasticQuotas api t ns desired)" for ns desired
    unfolding gcOrphanElasticQuotas_def
    by (intro only_rules) (simp_all add: only_def runs_def list_objs_def)
  then have gc: "runs (gcOrphanElasticQuotas api t ns desired) (\<lambda>_ _. True)" for ns desired
    by (auto simp: only_def intro: runs_mono)
  show ?thesis
    unfolding ElasticQuotas_def
  proof (rule runs_bind [OF gc], goal_cases)
    case (1 x es)
    show ?case
      by (cases x) (auto intro!: runs_ret runs_mono [OF quota_loop_runs [OF assms]] intro: established_mono)
  qed
qed

definition namespace_active :: "'q Tenant \<Rightarrow> 'q history \<Rightarrow> bool" where
  "namespace_active t es \<longleftrightarrow> (\<exists>ns. ReadObj [] (tenant_ns t) (ONamespace ns) \<in> set es \<and> nso_phase ns = ''Active'')"

lemma ensure_namespace_runs:
  "runs (ensure_namespace api t) (\<lambda>r es. case r of Some (ready, _) \<Rightarrow> \<not> ready | None \<Rightarrow> True)"
  unfolding ensure_namespace_def Let_def
  by (rule runs_bind [OF runs_read_obj])
    (auto intro!: runs_ret runs_bind [OF runs_do_write] split: sum.splits option.splits)

lemma Namespace_runs: "runs (Namespace api t) (\<lambda>(ready, msg, err) es. ready \<longrightarrow> namespace_active t es)"
proof (cases "tenant_ns t = []")
  case False
  show ?thesis
    unfolding Namespace_def Let_def if_not_P [OF False]
  proof (rule runs_bind [OF ensure_namespace_runs], goal_cases)
    case (1 x es)
    show ?case
    proof (cases x)
      case None
      show ?thesis
        unfolding None option.case
        by (rule runs_bind [OF runs_read_obj])
          (auto intro!: runs_ret simp: namespace_active_def split: sum.splits)
    qed (use 1 in \<open>auto intro!: runs_ret\<close>)
  qed
qed (simp add: Namespace_def runs_ret)

section \<open>When a tenant becomes active\<close>

lemma item_loop_runs:
  assumes "\<And>x. x \<in> set xs \<Longrightarrow> only P (upsert x)"
  shows "runs (item_loop name upsert xs) (\<lambda>(sts, err) es. err = None \<longrightarrow> map ist_name sts = map name xs)"
  using assms
proof (induction xs)
  case (Cons x xs)
  have up: "runs (upsert x) (\<lambda>_ _. True)" using Cons.prems [of x] by (auto simp: only_def intro: runs_mono)
  have rest: "runs (item_loop name upsert xs) (\<lambda>(sts, err) es. err = None \<longrightarrow> map ist_name sts = map name xs)"
    by (rule Cons.IH) (simp add: Cons.prems)
  show ?case
    unfolding item_loop.simps Let_def
  proof (rule runs_bind [OF up], goal_cases)
    case (1 y es)
    show ?case
      by (cases y) (auto intro!: runs_ret runs_bind [OF rest] split: option.splits)
  qed
qed (simp add: runs_ret)

lemma items_then_gc_runs:
  assumes "runs items (\<lambda>(sts, err) es. err = None \<longrightarrow> map ist_name sts = names)" "only P gc"
  shows "runs (items_then_gc items gc) (\<lambda>(sts, err) es. err = None \<longrightarrow> map ist_name sts = names)"
proof -
  have gc: "runs gc (\<lambda>_ _. True)" using assms(2) by (auto simp: only_def intro: runs_mono)
  show ?thesis
    unfolding items_then_gc_def
    by (rule runs_bind [OF assms(1)]) (auto intro!: runs_ret runs_bind [OF gc] split: option.splits)
qed

text \<open>
  How a pass that ends without an error ends: with the status built from an aggregate that
  satisfies \<open>A\<close>, after events of sub-reconcilers only.
\<close>

definition finishes :: "'q api \<Rightarrow> 'q Tenant \<Rightarrow> ('q Aggregate \<Rightarrow> bool) \<Rightarrow> pass_result \<Rightarrow> 'q history \<Rightarrow> bool" where
  "finishes api t A res es \<longleftrightarrow> (snd res = None \<longrightarrow>
     (\<exists>agg es'. es = Wrote (WStatus t (BuildStatus (ap_now api) t agg (fst (DerivePhase agg (tst_phase (tn_status t))))
          (snd (DerivePhase agg (tst_phase (tn_status t)))))) None # es' \<and> list_all (sub_event t) es' \<and> A agg))"

lemma finishes_after: "finishes api t A res es \<Longrightarrow> list_all (sub_event t) es0 \<Longrightarrow> finishes api t A res (es @ es0)"
  unfolding finishes_def by auto

lemma finish_pass_runs:
  assumes "A agg"
  shows "runs (finish_pass api t agg) (finishes api t A)"
proof -
  obtain phase msg where d: "DerivePhase agg (tst_phase (tn_status t)) = (phase, msg)" by fastforce
  show ?thesis
    unfolding finish_pass_def patchStatus_def d Let_def prod.case
    by (auto intro!: runs_ret runs_bind [OF runs_do_write] exI [of _ agg] simp: finishes_def d assms split: option.splits)
qed

lemma recordAndRequeue_runs: "runs (recordAndRequeue api t agg prev cause) (\<lambda>res es. snd res \<noteq> None)"
  unfolding recordAndRequeue_def patchStatus_def
  by (auto intro!: runs_ret runs_bind [OF runs_do_write] split: prod.splits option.splits)

lemma recordAndRequeue_finishes: "runs (recordAndRequeue api t agg prev cause) (\<lambda>res es. finishes api t A res (es @ es0))"
  by (rule runs_mono [OF recordAndRequeue_runs]) (auto simp: finishes_def)

lemma section_step_runs:
  assumes "only (sub_event t) sec" "runs sec (\<lambda>(sts, err) es. err = None \<longrightarrow> P sts)"
    and "\<And>sts. P sts \<Longrightarrow> runs (cont (upd sts agg)) (finishes api t A)"
  shows "runs (section_step api t sec upd what cont agg) (finishes api t A)"
  unfolding section_step_def Let_def
proof (rule runs_bind [OF runs_conj [OF only_runs [OF assms(1)] assms(2)]], goal_cases)
  case (1 x es)
  obtain sts err where x: "x = (sts, err)" by fastforce
  show ?case
  proof (cases err)
    case None
    with 1 x have "P sts" "list_all (sub_event t) es" by auto
    then show ?thesis
      unfolding x prod.case None option.case
      by (intro runs_mono [OF assms(3)]) (auto intro: finishes_after)
  qed (simp add: x recordAndRequeue_finishes)
qed

abbreviation "item_names names sts \<equiv> map ist_name sts = names"

text \<open>What a pass has reported for every declared init resource.\<close>

definition sections_of :: "'q Tenant \<Rightarrow> 'q Aggregate \<Rightarrow> bool" where
  "sections_of t a \<longleftrightarrow> (let ir = ts_initResources (tn_spec t) in
     item_names (map ips_name (ir_imagePullSecrets ir)) (ag_imagePullSecrets a) \<and>
     item_names (map ss_name (ir_secrets ir)) (ag_secrets a) \<and>
     item_names (map cms_name (ir_configMaps ir)) (ag_configMaps a) \<and>
     item_names (map sas_name (ir_serviceAccounts ir)) (ag_serviceAccounts a) \<and>
     item_names (map vs_name (ir_volumes ir)) (ag_volumes a))"

interpretation any: write_policy "\<lambda>_. True"
  by unfold_locales simp_all

lemmas any_rules = only_rules any.only_read_obj any.only_list_objs

lemma syncVolumeMeta_any: "only (\<lambda>_. True) (syncVolumeMeta api pvc labels d)"
  unfolding syncVolumeMeta_def Let_def by (intro any_rules) (auto simp: only_def runs_def split: sum.splits)

lemma upserts_any:
  "only (\<lambda>_. True) (upsertCopiedSecret api t sub desiredType role src)"
  "only (\<lambda>_. True) (upsertCopiedConfigMap api t cms)"
  "only (\<lambda>_. True) (upsertSA api t sa)"
  "only (\<lambda>_. True) (ensureVolumePVC parse_q api t vol)"
  unfolding upsertCopiedSecret_def create_secret_def patch_secret_def upsertCopiedConfigMap_def patch_config_map_def
    upsertSA_def upsertServiceAccountObj_def upsertRoleAndBinding_def upsertRole_def upsertRoleBinding_def
    ensureVolumePVC_def Let_def
  by (intro any_rules syncVolumeMeta_any; simp)+

lemma gcs_any:
  "only (\<lambda>_. True) (gcOrphanSecrets api t desired role)" "only (\<lambda>_. True) (gcOrphanConfigMaps api t desired)"
  "only (\<lambda>_. True) (gcOrphanSAs api t desired)"
  unfolding gcOrphanSecrets_def gcOrphanConfigMaps_def gcOrphanSAs_def by (intro any_rules; simp)+

lemma section_names:
  "runs (ImagePullSecrets api t) (\<lambda>(sts, err) es. err = None \<longrightarrow>
     item_names (map ips_name (ir_imagePullSecrets (ts_initResources (tn_spec t)))) sts)"
  "runs (Secrets api t) (\<lambda>(sts, err) es. err = None \<longrightarrow>
     item_names (map ss_name (ir_secrets (ts_initResources (tn_spec t)))) sts)"
  "runs (ConfigMaps api t) (\<lambda>(sts, err) es. err = None \<longrightarrow>
     item_names (map cms_name (ir_configMaps (ts_initResources (tn_spec t)))) sts)"
  "runs (ServiceAccounts api t) (\<lambda>(sts, err) es. err = None \<longrightarrow>
     item_names (map sas_name (ir_serviceAccounts (ts_initResources (tn_spec t)))) sts)"
  "runs (Volumes parse_q api t) (\<lambda>(sts, err) es. err = None \<longrightarrow>
     item_names (map vs_name (ir_volumes (ts_initResources (tn_spec t)))) sts)"
  unfolding ImagePullSecrets_def Secrets_def ConfigMaps_def ServiceAccounts_def Volumes_def Let_def
  by (intro items_then_gc_runs [where P = "\<lambda>_. True"] item_loop_runs [where P = "\<lambda>_. True"] upserts_any gcs_any)+

lemma init_sections_runs:
  assumes "\<not> ag_criticalFailure agg"
  shows "runs (init_sections parse_q api t agg) (finishes api t (\<lambda>a. sections_of t a \<and> \<not> ag_criticalFailure a \<and>
     ag_namespaceReady a = ag_namespaceReady agg \<and> ag_quotas a = ag_quotas agg))"
  unfolding init_sections_def
  by (intro section_step_runs [OF sub_onlys(3) section_names(1)] section_step_runs [OF sub_onlys(4) section_names(2)]
      section_step_runs [OF sub_onlys(5) section_names(3)] section_step_runs [OF sub_onlys(6) section_names(4)]
      section_step_runs [OF sub_onlys(7) section_names(5)] finish_pass_runs)
    (simp add: sections_of_def Let_def assms)

lemma namespace_active_mono: "namespace_active t es \<Longrightarrow> set es \<subseteq> set es' \<Longrightarrow> namespace_active t es'"
  unfolding namespace_active_def by blast

text \<open>What is known at the end of a pass without an error, of its aggregate and events.\<close>

definition pass_done :: "'q Tenant \<Rightarrow> 'q Aggregate \<Rightarrow> 'q history \<Rightarrow> bool" where
  "pass_done t a es \<longleftrightarrow> sections_of t a \<and> \<not> ag_criticalFailure a \<and>
     (ag_namespaceReady a \<longrightarrow> namespace_active t es) \<and>
     list_all2 (\<lambda>q st. qst_pool st = qs_pool q \<and> qst_ready st) (ts_quotas (tn_spec t)) (ag_quotas a) \<and>
     (\<forall>q\<in>set (ts_quotas (tn_spec t)). established t q es)"

definition pass_ends :: "'q api \<Rightarrow> 'q Tenant \<Rightarrow> pass_result \<Rightarrow> 'q history \<Rightarrow> bool" where
  "pass_ends api t res es \<longleftrightarrow> (snd res = None \<longrightarrow>
     (\<exists>agg es'. es = Wrote (WStatus t (BuildStatus (ap_now api) t agg (fst (DerivePhase agg (tst_phase (tn_status t))))
          (snd (DerivePhase agg (tst_phase (tn_status t)))))) None # es' \<and> list_all (sub_event t) es' \<and> pass_done t agg es'))"

lemma recordAndRequeue_ends: "runs (recordAndRequeue api t agg prev cause) (\<lambda>res es. pass_ends api t res (es @ es0))"
  by (rule runs_mono [OF recordAndRequeue_runs]) (auto simp: pass_ends_def)

lemma init_sections_ends:
  assumes "\<not> ag_criticalFailure agg" "ag_namespaceReady agg \<longrightarrow> namespace_active t es0" "list_all (sub_event t) es0"
    and "list_all2 (\<lambda>q st. qst_pool st = qs_pool q \<and> qst_ready st) (ts_quotas (tn_spec t)) (ag_quotas agg)"
    and "\<forall>q\<in>set (ts_quotas (tn_spec t)). established t q es0"
  shows "runs (init_sections parse_q api t agg) (\<lambda>res es. pass_ends api t res (es @ es0))"
proof (rule runs_mono [OF init_sections_runs [OF assms(1)]])
  fix res es
  assume fin: "finishes api t (\<lambda>a. sections_of t a \<and> \<not> ag_criticalFailure a \<and>
     ag_namespaceReady a = ag_namespaceReady agg \<and> ag_quotas a = ag_quotas agg) res es"
  show "pass_ends api t res (es @ es0)"
    unfolding pass_ends_def
  proof
    assume "snd res = None"
    with fin obtain a es' where a: "es = Wrote (WStatus t (BuildStatus (ap_now api) t a
        (fst (DerivePhase a (tst_phase (tn_status t)))) (snd (DerivePhase a (tst_phase (tn_status t)))))) None # es'"
      "list_all (sub_event t) es'" "sections_of t a" "\<not> ag_criticalFailure a"
      "ag_namespaceReady a = ag_namespaceReady agg" "ag_quotas a = ag_quotas agg" by (auto simp: finishes_def)
    then have "pass_done t a (es' @ es0)"
      using assms(2,4,5) by (auto simp: pass_done_def intro: namespace_active_mono established_mono)
    with a(1,2) assms(3) show "\<exists>agg es'. es @ es0 = Wrote (WStatus t (BuildStatus (ap_now api) t agg
        (fst (DerivePhase agg (tst_phase (tn_status t)))) (snd (DerivePhase agg (tst_phase (tn_status t)))))) None # es' \<and>
        list_all (sub_event t) es' \<and> pass_done t agg es'"
      by (intro exI [of _ a] exI [of _ "es' @ es0"]) simp
  qed
qed

lemma apply_tenant_ends:
  assumes "sets_owner api t"
  shows "runs (apply_tenant parse_q api t) (pass_ends api t)"
  unfolding apply_tenant_def Let_def
proof (rule runs_bind [OF runs_conj [OF only_runs [OF sub_onlys(1)] Namespace_runs]], goal_cases)
  case (1 x es)
  obtain ready msg err where x: "x = (ready, msg, err)" by (cases x) auto
  show ?case
  proof (cases err)
    case None
    show ?thesis
      unfolding x prod.case None option.case
    proof (rule runs_bind [OF runs_conj [OF only_runs [OF sub_onlys(2)] ElasticQuotas_runs [OF assms]]], goal_cases)
      case (1 y es')
      obtain sts qerr where y: "y = (sts, qerr)" by fastforce
      show ?case
      proof (cases qerr)
        case None
        have "runs (init_sections parse_q api t agg) (\<lambda>res es1. pass_ends api t res (es1 @ es' @ es))"
          if "agg = (start_aggregate t)\<lparr>ag_namespaceReady := ready, ag_namespaceMsg := msg, ag_quotas := sts\<rparr>" for agg
          using that 1 \<open>list_all (sub_event t) es \<and> _\<close> x y None
          by (intro init_sections_ends)
            (auto simp: start_aggregate_def Let_def intro: namespace_active_mono established_mono)
        from this [OF refl] show ?thesis by (simp add: y None)
      qed (use recordAndRequeue_ends [where ?es0.0 = "es' @ es"] in \<open>simp add: y\<close>)
    qed
  qed (use recordAndRequeue_ends in \<open>simp add: x\<close>)
qed

text \<open>
  C11. A tenant is declared active only when it is: when a pass that ends without an error
  newly writes phase \<open>Active\<close>, it has read the namespace in phase Active, every quota of the spec is
  established in the cluster with exactly the spec's min and max, the tenant's labels and the
  owner reference, and the status lists every declared quota and init resource, in order, all ready.
\<close>

theorem tenant_active_sound:
  assumes "run_state (Reconcile show_q parse_q denylist api name) h = ((requeue, None), es @ h)"
    and "ap_getTenant api h name = Inr t" "sets_owner api t"
    and "Wrote (WStatus t' st) r \<in> set es" "tst_phase st = TenantPhaseActive" "tst_phase (tn_status t) \<noteq> TenantPhaseActive"
  shows "namespace_active t es \<and> (\<forall>q\<in>set (ts_quotas (tn_spec t)). established t q es) \<and>
     map qst_pool (tst_quotas st) = map qs_pool (ts_quotas (tn_spec t)) \<and> list_all qst_ready (tst_quotas st) \<and>
     (let ir = ts_initResources (tn_spec t); irs = tst_initResources st in
        map ist_name (irs_imagePullSecrets irs) = map ips_name (ir_imagePullSecrets ir) \<and>
        map ist_name (irs_secrets irs) = map ss_name (ir_secrets ir) \<and>
        map ist_name (irs_configMaps irs) = map cms_name (ir_configMaps ir) \<and>
        map ist_name (irs_serviceAccounts irs) = map sas_name (ir_serviceAccounts ir) \<and>
        map ist_name (irs_volumes irs) = map vs_name (ir_volumes ir) \<and>
        list_all ist_ready (irs_imagePullSecrets irs @ irs_secrets irs @ irs_configMaps irs @ irs_serviceAccounts irs @ irs_volumes irs))"
  using assms(1,2)
proof (cases rule: Reconcile_cases)
  case (ok es')
  from runs_outcome [OF apply_tenant_ends [OF assms(3)] ok(4)] have "pass_ends api t (requeue, None) es'" by auto
  then obtain agg es1 where es': "es' = Wrote (WStatus t (BuildStatus (ap_now api) t agg
      (fst (DerivePhase agg (tst_phase (tn_status t)))) (snd (DerivePhase agg (tst_phase (tn_status t)))))) None # es1"
    and sub: "list_all (sub_event t) es1" and fin: "pass_done t agg es1" by (auto simp: pass_ends_def)
  have "\<not> sub_event t (Wrote (WStatus t' st) r)" by simp
  with sub have "Wrote (WStatus t' st) r \<notin> set es1" unfolding list_all_iff by blast
  with assms(4) ok(3) es' have st: "st = BuildStatus (ap_now api) t agg
      (fst (DerivePhase agg (tst_phase (tn_status t)))) (snd (DerivePhase agg (tst_phase (tn_status t))))" by auto
  with assms(5,6) fin have ready: "ag_namespaceReady agg" "AllQuotasReady agg" "AllInitResourcesReady agg"
    by (auto simp: BuildStatus_def DerivePhase_def pass_done_def Let_def split: if_splits)
  have "map qst_pool (ag_quotas agg) = map qs_pool (ts_quotas (tn_spec t))"
    using fin unfolding pass_done_def by (auto simp: list_all2_conv_all_nth intro!: nth_equalityI)
  moreover have "namespace_active t es" "\<forall>q\<in>set (ts_quotas (tn_spec t)). established t q es"
    using fin ready(1) by (auto simp: pass_done_def es' ok(3) intro: namespace_active_mono established_mono)
  ultimately show ?thesis
    using fin ready
    by (simp add: st BuildStatus_def pass_done_def sections_of_def AllQuotasReady_def AllInitResourcesReady_def Let_def)
qed (use assms(4,5) in auto)

text \<open>
  A tenant can be declared active too early. A new tenant (empty status) that declares secrets,
  config maps, service accounts or volumes but no image pull secret, when the list call of the secret garbage
  collection fails: the pass stops there with an error, but the statuses of the sections
  it never reached are empty, so the status it writes says \<open>Active\<close> with an empty message although
  none of these resources was even looked at.
\<close>

theorem tenant_active_too_early:
  assumes "ap_getTenant api h name = Inr t" "ValidateMeta (tn_labels t) = None" "Validate show_q parse_q denylist (tn_spec t) = None"
    and "tst_initResources (tn_status t) = \<lparr>irs_imagePullSecrets = [], irs_secrets = [], irs_configMaps = [],
      irs_serviceAccounts = [], irs_volumes = []\<rparr>"
    and "ir_imagePullSecrets (ts_initResources (tn_spec t)) = []"
    and "run_state (Namespace api t) (ReadTenant (Inr t) # h) = ((True, msg, None), h1)"
    and "run_state (ElasticQuotas api t) h1 = ((sts, None), h2)" "list_all qst_ready sts"
    and "\<And>ns ls. ap_listSecret api h2 ns ls = Inl e"
  shows "\<exists>st r err. run_state (Reconcile show_q parse_q denylist api name) h =
      ((False, Some err), Wrote (WStatus t st) r # ListFail e # h2) \<and>
      tst_phase st = TenantPhaseActive \<and> tst_message st = []"
proof -
  let ?agg = "(start_aggregate t)\<lparr>ag_namespaceReady := True, ag_namespaceMsg := msg, ag_quotas := sts, ag_imagePullSecrets := [],
     ag_failureMessage := ''imagePullSecrets reconcile failed: '' @ ''list secrets: '' @ kmsg e\<rparr>"
  let ?st = "BuildStatus (ap_now api) t ?agg TenantPhaseActive []"
  have derive: "DerivePhase ?agg prev = (TenantPhaseActive, [])" for prev
    using assms(4,8) by (simp add: DerivePhase_def start_aggregate_def AllQuotasReady_def AllInitResourcesReady_def Let_def)
  have "run_state (ImagePullSecrets api t) h2 = (([], Some (''list secrets: '' @ kmsg e)), ListFail e # h2)"
    using assms(5,9) by (simp add: ImagePullSecrets_def items_then_gc_def gcOrphanSecrets_def list_objs_def Let_def)
  then have "run_state (Reconcile show_q parse_q denylist api name) h =
      ((False, Some (case ap_write api (ListFail e # h2) (WStatus t ?st) of None \<Rightarrow> ''list secrets: '' @ kmsg e | Some e \<Rightarrow> kmsg e)),
        Wrote (WStatus t ?st) (ap_write api (ListFail e # h2) (WStatus t ?st)) # ListFail e # h2)"
    using assms(1-3,6,7) derive
    by (simp add: Reconcile_def read_tenant_def apply_tenant_def init_sections_def section_step_def recordAndRequeue_def
        patchStatus_def do_write_def Let_def split: option.splits)
  moreover have "tst_phase ?st = TenantPhaseActive" "tst_message ?st = []" by (simp_all add: BuildStatus_def Let_def)
  ultimately show ?thesis by blast
qed

text \<open>
  Reporting is stable: building the status again from the same aggregate, on a tenant whose
  status is the one just written, gives the same status whatever the clock says, transition
  times included, so that an unchanged tenant causes no further status write.
\<close>

theorem tenant_status_stable:
  "BuildStatus later (t\<lparr>tn_status := BuildStatus now t a phase message\<rparr>) a phase message = BuildStatus now t a phase message"
proof -
  have time: "\<exists>x. cd_lastTransitionTime (condition_of now prev ty okay reason m gen) = Some x" for prev ty okay reason m gen
    by (auto simp: condition_of_def split: option.splits)
  have found: "condition_of later conds ty okay reason m gen = condition_of now prev ty okay reason m gen"
    if "find (\<lambda>c. cd_type c = ty) conds = Some (condition_of now prev ty okay reason m gen)" for conds ty okay reason m gen prev
    using that time [of prev ty okay reason m gen] by (auto simp: condition_of_def)
  have type: "cd_type (condition_of n prev ty okay reason m gen) = ty" for n prev ty okay reason m gen
    by (simp add: condition_of_def)
  show ?thesis unfolding BuildStatus_def Let_def by (auto simp: type intro!: found)
qed

section \<open>A cluster for the witnesses\<close>

definition tx_tenant :: "int Tenant" where
  "tx_tenant = \<lparr>tn_name = ''a'', tn_uid = ''uid-a'', tn_labels = [(LabelTenantID, ''a'')], tn_generation = 1, tn_spec = tx_spec,
     tn_status = \<lparr>tst_observedGeneration = 0, tst_phase = TenantPhaseNone, tst_message = [], tst_namespaceReady = False,
       tst_quotas = [], tst_initResources = \<lparr>irs_imagePullSecrets = [], irs_secrets = [], irs_configMaps = [],
       irs_serviceAccounts = [], irs_volumes = []\<rparr>, tst_conditions = []\<rparr>\<rparr>"

fun created_quota :: "int event \<Rightarrow> int EQObj option" where
  "created_quota (Wrote (WCreate (OQuota eq)) None) = Some eq"
| "created_quota _ = None"

text \<open>A server that accepts every write, has the namespace, and finds the quotas created before.\<close>

abbreviation tx_owner :: "string \<Rightarrow> OwnerRef" where
  "tx_owner uid \<equiv> \<lparr>own_apiVersion = ''tenant.axisml.io/v1alpha1'', own_kind = ''Tenant'', own_name = ''team-a'', own_uid = uid,
     own_controller = True, own_blockOwnerDeletion = True\<rparr>"

definition tx_api :: "int Tenant \<Rightarrow> int api" where
  "tx_api t = \<lparr>ap_getTenant = (\<lambda>_ _. Inr t),
     ap_getNs = (\<lambda>_ _ name. Inr \<lparr>nso_meta = new_meta [] name [], nso_phase = ''Active''\<rparr>),
     ap_getEQ = (\<lambda>h _ _. case List.map_filter created_quota h of eq # _ \<Rightarrow> Inr eq | [] \<Rightarrow> Inl (KNotFound ''not found'')),
     ap_listEQ = (\<lambda>_ _ _. Inr []),
     ap_getSecret = (\<lambda>_ _ _. Inl (KNotFound ''not found'')), ap_srcSecret = (\<lambda>_ _ _. Inl (KNotFound ''not found'')),
     ap_listSecret = (\<lambda>_ _ _. Inr []),
     ap_getCM = (\<lambda>_ _ _. Inl (KNotFound ''not found'')), ap_srcCM = (\<lambda>_ _ _. Inl (KNotFound ''not found'')),
     ap_listCM = (\<lambda>_ _ _. Inr []),
     ap_getSA = (\<lambda>_ _ _. Inl (KNotFound ''not found'')), ap_listSA = (\<lambda>_ _ _. Inr []),
     ap_getRole = (\<lambda>_ _ _. Inl (KNotFound ''not found'')), ap_getRB = (\<lambda>_ _ _. Inl (KNotFound ''not found'')),
     ap_srcPVC = (\<lambda>_ _ _. Inl (KNotFound ''not found'')), ap_patchPVC = (\<lambda>_ _ p. Inr p),
     ap_write = (\<lambda>_ _. None),
     ap_setRef = (\<lambda>uid refs. Inr (refs @ [tx_owner uid])), ap_now = 7\<rparr>"

abbreviation "tx_reconcile api h \<equiv> run_state (Reconcile show_int tx_parse DefaultNamespaceDenylist api ''a'') h"

definition tx_log :: "int history" where
  "tx_log = snd (tx_reconcile (tx_api tx_tenant) [])"

definition tx_role :: RoleObj where
  "tx_role = \<lparr>ro_meta = \<lparr>om_namespace = ''team-a'', om_name = ''axisml-tenant-a-runner'',
     om_labels = ApplyTenantLabels tx_tenant [], om_annotations = [], om_owners = [tx_owner ''uid-a'']\<rparr>,
     ro_rules = [tx_rule]\<rparr>"

lemma tx_run: "tx_reconcile (tx_api tx_tenant) [] = ((True, None), tx_log @ [])"
proof -
  have "fst (tx_reconcile (tx_api tx_tenant) []) = (True, None)" by code_simp
  then show ?thesis by (simp add: tx_log_def prod_eq_iff)
qed

lemma tx_get: "ap_getTenant (tx_api t) h name = Inr t"
  by (simp add: tx_api_def)

lemma tx_role_written: "Wrote (WCreate (ORole tx_role)) None \<in> set tx_log"
  by code_simp

definition tx_status :: "int TenantStatus" where
  "tx_status = (case hd tx_log of Wrote (WStatus t st) r \<Rightarrow> st | _ \<Rightarrow> tn_status tx_tenant)"

lemma tx_status_written: "Wrote (WStatus tx_tenant tx_status) None \<in> set tx_log"
  "tst_phase tx_status = TenantPhaseActive" "tst_phase (tn_status tx_tenant) \<noteq> TenantPhaseActive"
  by code_simp+

lemma tx_sets_owner: "sets_owner (tx_api t) t"
  by (simp add: sets_owner_def tx_api_def hasOwner_def)


theorem tenant_roles_safe_witness: "\<not> rule_allows tx_rule ''bind'' [] ''pods''"
  using tenant_roles_safe [OF tx_run tx_get tx_role_written, of tx_role _ tx_rule "''bind''"]
  by (simp add: tx_role_def)

theorem tenant_active_sound_witness: "established tx_tenant tx_quota tx_log \<and> namespace_active tx_tenant tx_log"
  using tenant_active_sound [OF tx_run tx_get tx_sets_owner tx_status_written]
  by (simp add: tx_tenant_def tx_spec_def)

definition tx_bare :: "int Tenant" where
  "tx_bare = tx_tenant\<lparr>tn_labels := []\<rparr>"

theorem tenant_invalid_untouched_witness:
  "\<exists>msg r. snd (tx_reconcile (tx_api tx_bare) []) = [Wrote (WStatus tx_bare ((tn_status tx_bare)\<lparr>tst_observedGeneration := 1,
      tst_phase := TenantPhaseFailed, tst_message := msg\<rparr>)) r, ReadTenant (Inr tx_bare)]"
proof -
  have "ValidateMeta (tn_labels tx_bare) \<noteq> None" by code_simp
  moreover obtain res where "tx_reconcile (tx_api tx_bare) [] = (res, snd (tx_reconcile (tx_api tx_bare) []) @ [])"
    by (metis append_Nil2 prod.collapse)
  moreover have "tn_generation tx_bare = 1" by code_simp
  ultimately show ?thesis using tenant_invalid_untouched [OF _ tx_get] by metis
qed

definition tx_failing :: "int api" where
  "tx_failing = (tx_api tx_tenant)\<lparr>ap_listSecret := (\<lambda>_ _ _. Inl (KOther ''timeout''))\<rparr>"

theorem tenant_active_too_early_witness:
  "\<exists>st r err h. tx_reconcile tx_failing [] = ((False, Some err), Wrote (WStatus tx_tenant st) r # ListFail (KOther ''timeout'') # h) \<and>
     tst_phase st = TenantPhaseActive"
proof -
  obtain h1 where "run_state (Namespace tx_failing tx_tenant) (ReadTenant (Inr tx_tenant) # []) = ((True, [], None), h1)"
    "h1 = snd (run_state (Namespace tx_failing tx_tenant) (ReadTenant (Inr tx_tenant) # []))"
    "fst (run_state (Namespace tx_failing tx_tenant) (ReadTenant (Inr tx_tenant) # [])) = (True, [], None)"
  proof -
    have "fst (run_state (Namespace tx_failing tx_tenant) (ReadTenant (Inr tx_tenant) # [])) = (True, [], None)" by code_simp
    then show thesis by (intro that) (simp_all add: prod_eq_iff)
  qed
  moreover have "snd (fst (run_state (ElasticQuotas tx_failing tx_tenant)
        (snd (run_state (Namespace tx_failing tx_tenant) (ReadTenant (Inr tx_tenant) # []))))) = None"
    "list_all qst_ready (fst (fst (run_state (ElasticQuotas tx_failing tx_tenant)
        (snd (run_state (Namespace tx_failing tx_tenant) (ReadTenant (Inr tx_tenant) # []))))))" by code_simp+
  moreover have "ValidateMeta (tn_labels tx_tenant) = None"
    "Validate show_int tx_parse DefaultNamespaceDenylist (tn_spec tx_tenant) = None" by code_simp+
  moreover have "ap_getTenant tx_failing [] ''a'' = Inr tx_tenant" "ap_listSecret tx_failing h ns ls = Inl (KOther ''timeout'')" for h ns ls
    by (simp_all add: tx_failing_def tx_api_def)
  ultimately show ?thesis
    using tenant_active_too_early [of tx_failing "[]" "''a''" tx_tenant show_int tx_parse DefaultNamespaceDenylist "[]" h1]
    by (simp add: tx_tenant_def tx_spec_def prod_eq_iff) metis
qed

end
