(* ===== verification/Spec2Isabelle.thy ===== *)
theory Spec2Isabelle
  imports PlatformProps RateLimit ArtifactProps DockerPaths ServiceConvergence TrafficOperatorProps KubeRuntimeProps AdmissionProps ServiceProps TrafficProps ListProps ElasticProps TenantProps
begin

text \<open>
  Verification of AxisML, a platform for machine-learning workloads on Kubernetes.

  \<^bold>\<open>The program.\<close> The compute service (\<^verbatim>\<open>axisml-system/compute-service\<close>) keeps runs, services and traffic
  policies as rows of a database; an admission controller decides which may use cluster resources; a
  reconciler per kind applies admitted rows to a runtime and a poller and an informer write back what the
  runtime reports. The Kubernetes runtime writes the rows as MLRun, MLService and MLTrafficPolicy resources, and the compute
  operator (\<^verbatim>\<open>axisml-system/compute-operator\<close>) turns those into Jobs, Deployments, StatefulSets, Services and
  HTTPRoutes and reports their state in the status of the resource. On a single host the standalone runtime
  (\<^verbatim>\<open>axisml-standalone/internal/runtime/docker\<close>) takes the place of both: it runs the workloads as Docker containers
  and writes their routes as files for a gateway. The tenant operator (\<^verbatim>\<open>axisml-system/tenant-operator\<close>) turns a Tenant resource into a
  namespace, elastic quotas and credentials. The AxisML scheduler (\<^verbatim>\<open>axisml-infra/axisml-scheduler\<close>)
  admits pods against those quotas. The three meet in the name of an ElasticQuota: the compute service writes
  it into every workload, the tenant operator creates the object, the scheduler enforces it.

  \<^bold>\<open>Theories and what they model.\<close>

  \<^item> \<open>Prelude\<close>: Go maps as association lists, JSON columns, errors, loops with an early return, stable
    sorting with a \<open>less\<close> function (locale \<open>strict_weak_order\<close>), tables and their updates.

  \<^item> \<open>Resources\<close>, \<open>Placement\<close>, \<open>Replicas\<close>: resource lists, role order, taints, best-fit placement with
    pool capacity overrides (\<^verbatim>\<open>internal/admission/controller.go\<close>) and the replica vectors of services
    (\<^verbatim>\<open>internal/serviceadmission/replicas.go\<close>).

  \<^item> \<open>Store\<close>, \<open>Repository\<close>, \<open>StatusMap\<close>, \<open>Naming\<close>: rows and specs, SQL statements on tables (locale
    \<open>live_table\<close>), expansion of pool and unit, the runtime contract, the status mapping
    (\<^verbatim>\<open>pkg/statusmap\<close>), validation of names and the physical names with SHA-256.

  \<^item> \<open>Admission\<close>, with \<open>Ledger\<close>, \<open>Refinement\<close>, \<open>Tables\<close> and \<open>AdmissionProps\<close>: the whole admission pass.
    \<open>Ledger\<close> is an abstract machine that grants resources; \<open>Refinement\<close> simulates the pass by it (quota safety, no
    overcommitment); \<open>Tables\<close> shows what a pass may write (frame, a reason for everything that waits).

  \<^item> \<open>RunLifecycle\<close>, \<open>ServiceLifecycle\<close>, \<open>TrafficPolicy\<close>: the three modules of the compute service, each with API
    operations, repository statements, rendering, reflow, informer, poller and reconciler. \<open>Outbox\<close> is
    their common contract, a locale on tables written by handlers that act on rows read earlier;
    \<open>RunProps\<close>, \<open>ServiceProps\<close>, \<open>TrafficProps\<close> interpret it and prove what every interleaving keeps.

  \<^item> \<open>ListApi\<close> and \<open>ListProps\<close>: continue tokens (base64 and decimal codecs, locale \<open>codec\<close>), label
    selectors rendered to SQL, error responses and list handlers (\<^verbatim>\<open>internal/server\<close>, \<^verbatim>\<open>internal/mlrun/handler.go\<close>).

  \<^item> \<open>ElasticScheduling\<close> and \<open>ElasticProps\<close>: usage cache, scheduler plugin and status controller of the
    scheduler. The locales \<open>usage_ledger\<close> and \<open>exact_ledger\<close> are the contract of a usage cache.

  \<^item> \<open>TenantValidate\<close>, \<open>TenantReconcile\<close>, \<open>TenantController\<close> and \<open>TenantProps\<close>: the Tenant resource and its
    validation, the sub-reconcilers and \<open>Reconcile\<close>, as programs in the state monad over the history of API
    calls.

  \<^item> \<open>ApiProgram\<close>: a small logic for programs over a history of API calls (\<open>runs\<close>, \<open>only\<close>, locale \<open>write_policy\<close>),
    which the proofs about all operators use.

  \<^item> \<open>WorkloadApi\<close>, \<open>WorkloadConfig\<close>: the resources of the compute operator, its API server and library calls as
    records of functions, and the ConfigMaps of a workload (\<^verbatim>\<open>internal/workloadconfig\<close>).

  \<^item> \<open>RunOperator\<close> and \<open>RunOperatorProps\<close>: the MLRun controller, its dispatcher and the native Job handler.

  \<^item> \<open>ServiceOperator\<close>, \<open>ServiceOperatorProps\<close> and \<open>ServiceConvergence\<close>: the MLService controller with the native
    Deployment and StatefulSet handlers and the stubs. Locale \<open>svc_contract\<close> is what the dispatcher relies on in a handler
    (every write it makes is allowed and it stops at the first that is refused), interpreted for each handler.
    \<open>ServiceConvergence\<close> relates one pass to the next and the reported status to what the compute service makes of it.

  \<^item> \<open>TrafficOperator\<close> and \<open>TrafficOperatorProps\<close>: the MLTrafficPolicy controller and its HTTPRoute handler.

  \<^item> \<open>KubeRuntime\<close> and \<open>KubeRuntimeProps\<close>: the runtime that stores the resources in Kubernetes
    (\<^verbatim>\<open>internal/kuberuntime/runtime.go\<close>).

  \<^item> \<open>DockerPlan\<close>, \<open>DockerEngine\<close>, \<open>DockerFiles\<close>, \<open>DockerRuntime\<close>: the standalone runtime, from the plans of
    containers (\<^verbatim>\<open>plan.go\<close>, \<^verbatim>\<open>configmap.go\<close>) over the engine and the GPU allocator (\<^verbatim>\<open>engine.go\<close>, \<^verbatim>\<open>gpu.go\<close>)
    and the files it writes (\<^verbatim>\<open>gateway.go\<close>) to the operations of the runtime contract (\<^verbatim>\<open>run.go\<close>, \<^verbatim>\<open>service.go\<close>,
    \<^verbatim>\<open>traffic.go\<close>, \<^verbatim>\<open>inventory.go\<close>, \<^verbatim>\<open>volume.go\<close>), as programs over the history of calls of Docker and the file system.
    \<open>DockerGPU\<close> shows that no card is given to two containers, over histories in which others act on the host too;
    \<open>DockerProps\<close> what an apply leaves behind; \<open>DockerPaths\<close> what a workload sees of the host.

  \<^item> \<open>ArtifactHub\<close> and \<open>ArtifactProps\<close>: the artifact hub (\<^verbatim>\<open>axisml-system/artifact-hub\<close>): uploads in two phases, the
    handlers of models, images and datasets with their registry and object store, and the garbage collector. The proofs
    interpret \<open>outbox\<close> for its table and follow the history of the stores beside it.

  \<^item> \<open>PlatformAuth\<close>, \<open>PlatformTenant\<close> and \<open>PlatformProps\<close>: authentication, users, sessions, caches, tenants and members of the platform back
    end (\<^verbatim>\<open>axisml-platform/backend/internal\<close>: \<^verbatim>\<open>auth\<close>, \<^verbatim>\<open>store\<close>, \<^verbatim>\<open>cache\<close>, \<^verbatim>\<open>identity\<close>, \<^verbatim>\<open>tenant\<close>). Locale
    \<open>aside_cache\<close> is what both caches rely on; it is interpreted for sessions and identities. \<open>RateLimit\<close>: the limiter of login attempts.

  \<^item> this theory: properties that span components.

  \<^bold>\<open>Conventions.\<close> A quantity is an element of an ordered abelian group. State is passed explicitly; an operation that can
  fail returns \<open>error + result\<close>, and every early return of the source is a branch. Time, fresh identifiers,
  statement errors and everything third-party (runtime, Kubernetes API, \<open>ParseQuantity\<close>, \<open>labels.Parse\<close>,
  \<open>SetControllerReference\<close>) are parameters; what the code relies on is a named hypothesis (\<open>kube_ok\<close>, \<open>sets_owner\<close>,
  \<open>requirement_ok\<close>). Concurrency is a relation on (table, rows read so far): a handler may run on any row read at
  any earlier time (\<open>run_sched\<close>, \<open>tp_sched\<close>), and the scheduler steps by \<open>es_step\<close>. Go leaves the order of
  \<open>range\<close> over a map open; the model takes list order, and the facts proved mention lookups only. The service
  admission loop and the name hashing are total recursive functions; the only fuel is that of the client in
  \<open>fetch_all\<close>, and one request per row is proved to be enough. That the admission loop ends is also shown on its
  iterations (\<open>admission_loop_terminates\<close>): there are at most as many as replicas are missing.

  \<^bold>\<open>What is shown.\<close> Admission never exceeds a quota or a node and refines the ledger; it writes only what it
  may and never leaves a waiting workload without a reason. In every interleaving a run keeps identity, spec, priority
  and pool, and a policy keeps its members, with weights that sum to 100 and no service in two policies. A
  service in use cannot be deleted. The scheduler never schedules past a quota's max. A tenant pass
  writes no role that allows escalation, deletes no namespace and no volume, and declares a tenant active only when it
  is, except in the case \<open>tenant_active_too_early\<close> shows. The quota holds end to end (\<open>quota_end_to_end\<close>).
  Listing with continue tokens visits every row once; selectors mean what Kubernetes says. What the operator starts is
  what was admitted: every Job and every set of pods has the replicas, requests and quota of the row it comes from
  (\<open>run_jobs_accounted\<close>, \<open>service_pods_admitted\<close>), specs are locked once they were reconciled, a terminal run stays as it
  is, and a cancelled one settles. Routes of policies are written completely or not at all, and go to the Services
  of their members. Where the route of a service is in place, operator and compute service agree on its phase. On a
  single host no GPU is booked twice, a refused apply creates nothing, a repeated one changes nothing, and binds stay
  inside registered directories. A version of an artifact is Ready only with a digest its store confirmed, keeps
  its coordinate for ever, and a collector pass settles what it finds. A decision of the platform's middleware is never
  older than the TTL of its caches and the delay of a cache write, the login limiter keeps its rate, and a tenant keeps its administrator. Properties of
  kind error show what the code does wrong: \<open>quota_name_mismatch\<close>, \<open>docker_colon_escape\<close>,
  \<open>artifact_ready_without_content\<close>. Further theorems
  of the component theories (among them \<open>deleting_run_escapes\<close>, \<open>tenant_active_too_early\<close>, \<open>docker_tenants_collide\<close>,
  \<open>kube_tenants_collide\<close>, \<open>artifact_gc_breaks_sibling\<close>, \<open>artifact_external_tag\<close>, \<open>delete_user_orphans_tenant\<close>, \<open>add_member_race\<close>, \<open>run_delete_lost\<close>, \<open>selector_gt_ignored\<close>, \<open>run_anchor_error_final\<close>,
  \<open>run_adopts_foreign_job\<close>, \<open>traffic_frozen\<close>, \<open>svc_service_never_settles\<close>, \<open>svc_patch_moves_pool\<close>, \<open>svc_unrouted_phase_stuck\<close>,
  \<open>svc_deployment_overwrites_service\<close>, \<open>traffic_missing_member_failed\<close>, \<open>docker_retry_alias_stale\<close>) are kept beside them.

  \<^bold>\<open>Not modelled.\<close> The Kubernetes inventory adapter and proxy, tickers, metrics, configuration and wiring
  (calls of third-party libraries around the modelled logic); generated clients and deep copies; the
  OpenAPI generators; the web front end. Of the standalone installation, the reading of its configuration and registry credentials and the
  options of log streams. The cluster manager, and the workload services of the platform back end, which translate requests for the services below.
\<close>

section \<open>Services and the policies that route to them\<close>

lemma references_unique:
  assumes "(tp_sched rt)\<^sup>*\<^sup>* ([], {}) (policies, seen)" "p \<in> set policies" "references ns n p"
    and "distinct (map tp_id policies)"
  shows "filter (references ns n) policies = [p]"
proof -
  from assms(1) obtain S where occ: "occupancy policies" by (rule tp_scheds_start)
  have sub: "set (filter (references ns n) policies) = {p}" using assms(2,3) occ by (auto simp: occupancy_def)
  have "distinct (filter (references ns n) policies)" using assms(4) by (simp add: distinct_map)
  with sub have "length (filter (references ns n) policies) = 1" by (metis distinct_card card.empty card.insert
      One_nat_def empty_iff finite.emptyI)
  then obtain q where "filter (references ns n) policies = [q]" by (auto simp: length_Suc_conv)
  with sub show ?thesis by simp
qed

lemma sched_rows:
  assumes "(tp_sched rt)\<^sup>*\<^sup>* ([], {}) (policies, seen)"
  shows "distinct (map tp_id policies)" and "p \<in> set policies \<Longrightarrow> tp_name p \<noteq> []"
proof -
  from assms obtain S where S: "execs tp_id tp_init tp_writes ([], {}) (policies, S)" by (rule tp_scheds_start)
  show "distinct (map tp_id policies)"
    using tp_outbox.execs_keep [OF S tp_outbox.start_inv] by (simp add: tp_outbox.inv_def)
  show "tp_name p \<noteq> []" if "p \<in> set policies"
    using tp_outbox.rows_ok [OF S that] by (auto simp: tp_valid_def IsValidName_def)
qed

text \<open>
  C34. A service in use by a traffic policy cannot be deleted: whatever sequence of operations
  led to the policy table, as long as a live policy names the service, \<open>Delete\<close> of an active
  service of kind service is refused with a conflict that names exactly that policy, and nothing
  is written. Once the policy is deleted through its own API, the same call deletes the service.
\<close>

theorem service_delete_guarded:
  assumes "(tp_sched rt)\<^sup>*\<^sup>* ([], {}) (policies, seen)" "table_ok tp_id tp_nsname tp_deletedAt policies"
    and "p \<in> set policies" "references (svc_namespace s) (svc_name s) p" "tp_phase p \<notin> {TpDeleting, TpDeleted}"
    and "table_ok svc_id svc_nsname svc_deletedAt services" "s \<in> set services" "svc_deletedAt s = None"
    and "svc_phase s \<notin> {SvcDeleting, SvcDeleted}" "svc_kind s = ServiceKindService"
    and "a_fault env = (\<lambda>_. None)" "fault SelectList = None"
  shows "svc_Delete env (Some (ActiveReferenceName fault policies)) (svc_namespace s) (svc_name s) services =
       (services, Inl (EApp CodeConflict (''service '' @ go_quote (svc_name s) @
          '' is referenced by active traffic policy '' @ go_quote (tp_name p)))) \<and>
     (\<exists>s'. svc_Delete env (Some (ActiveReferenceName fault (fst (tp_Delete env (tp_namespace p) (tp_name p) policies))))
          (svc_namespace s) (svc_name s) services =
        (update_row svc_id (svc_id s) s' services, Inr ()) \<and> svc_deletedAt s' = Some (a_now env))"
proof -
  have get: "svc_GetByNamespaceName (a_fault env) (svc_namespace s) (svc_name s) services = Inr s"
    using svc_table.get_live_row [OF assms(6-8)] assms(11)
    by (simp add: svc_GetByNamespaceName_def svc_nsname_def)
  have live: "tp_deletedAt p = None" using assms(4) by (simp add: references_def)
  note uniq = references_unique [OF assms(1,3,4) sched_rows(1) [OF assms(1)]]
  have first: "svc_Delete env (Some (ActiveReferenceName fault policies)) (svc_namespace s) (svc_name s) services =
       (services, Inl (EApp CodeConflict (''service '' @ go_quote (svc_name s) @
          '' is referenced by active traffic policy '' @ go_quote (tp_name p))))"
    using get assms(9,10,12) uniq sched_rows(2) [OF assms(1,3)]
    by (simp add: svc_Delete_def checkActivePolicyReference_def ActiveReferenceName_def FindActiveReferencing_def)
  let ?p = "p\<lparr>tp_updatedAt := a_now env, tp_phase := TpDeleting, tp_deletedAt := Some (a_now env)\<rparr>"
  have "tp_GetByNamespaceName (a_fault env) (tp_namespace p) (tp_name p) policies = Inr p"
    using tp_table.get_live_row [OF assms(2,3) live] assms(11)
    by (simp add: tp_GetByNamespaceName_def tp_nsname_def)
  then have "fst (tp_Delete env (tp_namespace p) (tp_name p) policies) = update_row tp_id (tp_id p) ?p policies"
    using assms(5,11) update_where_key [OF sched_rows(1) [OF assms(1)] assms(3), of "\<lambda>_. True"]
    by (simp add: tp_Delete_def tp_MarkDeleting_def tp_Update_def)
  moreover have "filter (references (svc_namespace s) (svc_name s)) (update_row tp_id (tp_id p) ?p policies) = []"
  proof -
    have "\<not> references (svc_namespace s) (svc_name s) q" if "q \<in> set policies" "tp_id q \<noteq> tp_id p" for q
    proof
      assume "references (svc_namespace s) (svc_name s) q"
      with that(1) have "q \<in> set (filter (references (svc_namespace s) (svc_name s)) policies)" by simp
      with that(2) show False by (simp add: uniq)
    qed
    then show ?thesis by (auto simp: filter_empty_conv update_row_def update_where_def references_def)
  qed
  ultimately have free: "ActiveReferenceName fault (fst (tp_Delete env (tp_namespace p) (tp_name p) policies))
      (svc_namespace s) (svc_name s) = Inr []"
    using assms(12) by (simp add: ActiveReferenceName_def FindActiveReferencing_def)
  have key: "distinct (map svc_id services)" using assms(6) by (simp add: table_ok_def)
  have "\<exists>s'. (if svc_phase s = SvcQueued then svc_MarkDeleted (a_fault env) (a_now env) (svc_id s) services
       else svc_MarkDeleting (a_fault env) (a_now env) (svc_id s) services) =
       Inr (update_row svc_id (svc_id s) s' services) \<and> svc_deletedAt s' = Some (a_now env)"
    using svc_Update_row(1) [where fault = "a_fault env", OF key assms(7)] assms(11)
    by (auto simp: svc_MarkDeleted_def svc_MarkDeleting_def)
  with get assms(9,10) free first show ?thesis
    by (auto simp: svc_Delete_def checkActivePolicyReference_def)
qed

definition tx_route :: "TrafficPolicy list" where
  "tx_route = fst (tp_Create rx_env None ''ns'' (tx_req\<lparr>tin_backends :=
     [\<lparr>bm_serviceName = svc_name sx, bm_role = RoleStable, bm_weight = 90\<rparr>,
      \<lparr>bm_serviceName = ''new'', bm_role = RoleCanary, bm_weight = 10\<rparr>]\<rparr>) [])"

theorem service_delete_guarded_witness:
  "\<exists>s'. svc_Delete rx_env (Some (ActiveReferenceName (\<lambda>_. None) (fst (tp_Delete rx_env (tp_namespace (hd tx_route))
        (tp_name (hd tx_route)) tx_route)))) (svc_namespace sx) (svc_name sx) sx_table =
     (update_row svc_id (svc_id sx) s' sx_table, Inr ())"
proof -
  have "(tp_sched tx_rt)\<^sup>*\<^sup>* ([], {}) (tx_route, {})"
    unfolding tx_route_def by (rule r_into_rtranclp, rule tps_create)
  moreover have "table_ok tp_id tp_nsname tp_deletedAt tx_route" "length tx_route = 1"
    "references (svc_namespace sx) (svc_name sx) (hd tx_route)" "tp_phase (hd tx_route) = TpCreating"
    "svc_kind sx = ServiceKindService" by code_simp+
  moreover from this(2) have "hd tx_route \<in> set tx_route" by (intro hd_in_set) auto
  moreover have "a_fault rx_env = (\<lambda>_. None)" by (simp add: rx_env_def)
  ultimately show ?thesis
    using service_delete_guarded [of tx_rt tx_route "{}" "hd tx_route" sx sx_table rx_env "\<lambda>_. None"] sx_facts sx_in
    by auto
qed

section \<open>A quota from the tenant to the scheduler\<close>

lemma run_Create_quota:
  assumes "run_Create env ns req rows = (rows', Inr view)"
  obtains row spec where "row \<in> set rows'" "run_id row = a_uuid env" "run_namespace row = ns" "run_spec row = JOk spec"
    and "sch_quota (rs_scheduling spec) = ElasticQuotaName ns (rin_poolName req)"
proof -
  obtain priority spec where ins: "run_CreateRow (a_fault env) (new_run_row env ns req priority spec) rows = Inr rows'"
    and spec: "sch_quota (rs_scheduling spec) = ElasticQuotaName ns (rin_poolName req)"
    using assms by (auto simp: run_Create_def new_run_spec_def Let_def split: if_splits sum.splits)
  from run_CreateRow_Inr [OF ins] spec show thesis
    by (intro that [of "new_run_row env ns req priority spec" spec]) (simp_all add: new_run_row_def json_marshal_def)
qed



definition qx_tenant :: "string \<Rightarrow> int Tenant" where
  "qx_tenant name = tx_tenant\<lparr>tn_name := name\<rparr>"

definition qx_object :: "int EQObj" where
  "qx_object = \<lparr>eqo_meta = \<lparr>om_namespace = ''team-a'', om_name = ''axisml-team-a-gpu'',
     om_labels = TenantLabels tx_tenant, om_annotations = [], om_owners = [tx_owner ''uid-a'']\<rparr>,
     eqo_min = [(''cpu'', 2)], eqo_max = [(''cpu'', 8), (''memory'', 64)], eqo_used = []\<rparr>"

definition qx_getEQ :: "string \<Rightarrow> string \<Rightarrow> eq_error + int ElasticQuota" where
  "qx_getEQ ns name = (if ns = ''team-a'' \<and> name = ''axisml-team-a-gpu''
     then Inr \<lparr>eq_max = eqo_max qx_object, eq_used = None\<rparr> else Inl EqNotFound)"

definition qx_pod :: pod where
  "qx_pod = \<lparr>pod_namespace = ''team-a'', pod_uid = ''u1'', pod_labels = [(QuotaLabel, ''axisml-team-a-gpu'')],
     pod_nodeName = ''n1'', pod_phase = ''Running'', pod_spec = []\<rparr>"

abbreviation "qx_req \<equiv> rx_req\<lparr>rin_poolName := ''gpu''\<rparr>"

lemma qx_created: "\<exists>view. run_Create rx_env ''team-a'' qx_req [] = (fst (run_Create rx_env ''team-a'' qx_req []), Inr view)"
proof -
  have "\<not> isl (snd (run_Create rx_env ''team-a'' qx_req []))" by code_simp
  then show ?thesis by (metis isl_def prod.collapse sum.exhaust)
qed

lemma qx_spec: "tn_spec (qx_tenant name) = tx_spec" "nsp_name (ts_namespace tx_spec) = ''team-a''" "tn_name (qx_tenant name) = name"
  by (simp_all add: qx_tenant_def tx_tenant_def tx_spec_def)



section \<open>From a row to the pods\<close>

lemma sx_cr: "\<exists>crs. svc_ToCR sx False = Inr crs"
proof -
  have "(case svc_ToCR sx False of Inl _ \<Rightarrow> False | Inr _ \<Rightarrow> True)" by code_simp
  then show ?thesis by (auto split: sum.splits)
qed

lemma tx_route_cr: "\<exists>crp. tp_ToCR (hd tx_route) False = Inr crp"
proof -
  have "(case tp_ToCR (hd tx_route) False of Inl _ \<Rightarrow> False | Inr _ \<Rightarrow> True)" by code_simp
  then show ?thesis by (auto split: sum.splits)
qed



text \<open>The resource the controller observes is the one the compute service rendered for the row.\<close>

definition rendered_svc :: "'q MLService \<Rightarrow> bool \<Rightarrow> 'q SvcCR \<Rightarrow> bool" where
  "rendered_svc s prefix svc \<longleftrightarrow> (\<exists>cr. svc_ToCR s prefix = Inr cr \<and> scr_spec svc = cr_spec cr)"

text \<open>
  C20. What runs is what was admitted: every set the service controller writes for a service that has the spec rendered from a row
  has exactly the replicas the admission controller recorded on that row, each pod asks for what the role of the row asks for,
  and is charged to the quota of the row.
\<close>

theorem service_pods_admitted:
  assumes "svc_spec s = JOk spec" "rendered_svc s prefix svc" "wa_getSvc api h ns name = Inr svc"
    "run_state (svc_Reconcile lib api (main_handlers lib) ns name) h = (res, es @ h)" "Put w r \<in> set es" "written_set w = Some d"
  shows "\<exists>role n. ss_roles spec = [role] \<and> admitted_of s spec = [n] \<and> wss_replicas (ws_spec d) = n \<and>
    map ct_requests (pts_containers (wss_template (ws_spec d))) = [pt_requests (role_template role)] \<and>
    sget (pts_labels (wss_template (ws_spec d))) LabelSchedulerQuota = sch_quota (ss_scheduling spec)"
proof -
  let ?a = "admitted_of s spec"
  have a: "nonneg ?a" "length ?a = length (ss_roles spec)" by (simp_all add: admitted_of_def)
  from assms(1,2) have cr: "scr_spec svc = Apply_spec spec ?a" by (auto simp: rendered_svc_def svc_ToCR_def Let_def admitted_of_def)
  have ap: "Apply (role_counts spec) ?a = ?a" using a by (simp add: Apply_nonneg role_counts_def)
  from svc_set_written [OF assms(4,3,5,6)] obtain role' where acc: "ss_roles (scr_spec svc) = [role']" "wss_replicas (ws_spec d) = role_replicas role'"
    "sget (pts_labels (wss_template (ws_spec d))) LabelSchedulerQuota = sch_quota (ss_scheduling (scr_spec svc))"
    "map ct_requests (pts_containers (wss_template (ws_spec d))) = [pt_requests (role_template role')]" by (auto simp: set_accounted_def)
  have "length (ss_roles (scr_spec svc)) = length (ss_roles spec)" using a(2) by (simp add: cr Apply_spec_def ap)
  with acc(1) have "length (ss_roles spec) = 1" by simp
  then obtain role where role: "ss_roles spec = [role]" by (cases "ss_roles spec") auto
  with a(2) obtain n where n: "?a = [n]" by (cases ?a) auto
  have "role' = role\<lparr>role_replicas := n\<rparr>" using acc(1) role n ap by (simp add: cr Apply_spec_def)
  with acc role n show ?thesis by (auto simp: cr Apply_spec_def)
qed

definition dx_row :: "int MLService" where
  "dx_row = sx\<lparr>svc_spec := JOk (scr_spec dx_new), svc_admitted := JOk [2]\<rparr>"

theorem service_pods_admitted_witness:
  "admitted_of dx_row (scr_spec dx_new) = [2] \<and> wss_replicas (ws_spec dx_dep) = 2"
proof -
  have adm: "admitted_of dx_row (scr_spec dx_new) = [2]" by code_simp
  have "Apply_spec (scr_spec dx_new) [2] = scr_spec dx_new" by code_simp
  with adm have "rendered_svc dx_row False dx_new"
    by (auto simp: rendered_svc_def svc_ToCR_def dx_row_def admitted_of_def Let_def)
  moreover obtain es where "run_state (svc_Reconcile dx_lib (dx_api dx_new no_service) (main_handlers dx_lib) ''team-a'' ''chat'') [] = (None, (dx_stamp # es) @ [])"
    "Put (KCreate (WDeployment dx_dep)) None \<in> set (dx_stamp # es)" using dx_deployed by auto
  ultimately show ?thesis
    using service_pods_admitted [of dx_row "scr_spec dx_new" False dx_new "dx_api dx_new no_service" "[]" "''team-a''" "''chat''" dx_lib None "dx_stamp # es"
      "KCreate (WDeployment dx_dep)" None dx_dep] adm by (auto simp: dx_row_def)
qed

end
